(* ===== verification/Prelude.thy ===== *)
theory Prelude
  imports Main "HOL-Library.Char_ord"
begin

text \<open>
  Shared vocabulary of the development.

  \<^item> \<open>goerr\<close>: Go error values. The sentinels of package \<open>session\<close>, the reasons that
    \<open>k8s.io/apimachinery/pkg/api/errors\<close> classifies, plain \<open>errors.New\<close> values, and
    \<open>fmt.Errorf("...%w")\<close> / \<open>errors.Join\<close>, which wrap other errors; \<open>errors_is\<close> is
    \<open>errors.Is\<close>. Message texts are kept only as a short tag.
  \<^item> \<open>('w, 'a) act\<close>: an operation that acts on a world \<open>'w\<close> and returns a Go
    \<open>(value, error)\<close> pair as a sum. A world is everything outside the function: the API
    server, pods, other replicas, the clock, the scheduler. \<open>bindE\<close> is the early return
    \<open>if err != nil { return err }\<close>, \<open>tryE\<close> hands the whole result on, \<open>defer_with\<close>
    is \<open>defer\<close>.
  \<^item> \<open>wp\<close>: the weakest precondition of an operation, with the rewrite rules (collection
    \<open>wp_simps\<close>) that walk through a body.
  \<^item> strings are byte lists; \<open>TrimSpace\<close> is \<open>strings.TrimSpace\<close> on UTF-8 bytes.
\<close>

named_theorems wp_simps \<open>weakest-precondition equations\<close>
named_theorems wp_ports \<open>weakest-precondition rules of calls with an arbitrary answer\<close>

section \<open>Errors\<close>

datatype sentinel =
    ErrNotFound | ErrInvalidState | ErrConflict | ErrInvalidInput | ErrRequestBodyTooLarge
  | ErrWorkloadPromptTooLarge | ErrWorkloadQueueFull | ErrWorkloadOutputFull
  | ErrCheckpointDisabled | ErrWorkloadBusy | ErrPluginRefreshFailed | ErrAuthPoolExhausted
  | ErrUnauthenticated | ErrForbidden | ErrNoTenant

datatype api_reason = ApiNotFound | ApiAlreadyExists | ApiConflict | ApiOther string

datatype goerr =
    Sentinel sentinel
  | Api api_reason
  | New string
  | Errorf string "goerr list"
  | FuelExhausted \<comment> \<open>no Go error: the model's bound on an unbounded recursion was reached\<close>

fun errors_is :: "goerr \<Rightarrow> goerr \<Rightarrow> bool" where
  "errors_is (Errorf m es) t = (Errorf m es = t \<or> list_ex (\<lambda>e. errors_is e t) es)"
| "errors_is e t = (e = t)"

definition errors_Join :: "goerr \<Rightarrow> goerr \<Rightarrow> goerr" where
  "errors_Join a b = Errorf ''join'' [a, b]"

lemma errors_is_refl [simp]: "errors_is e e"
  by (cases e) auto

lemma errors_is_Sentinel [simp]: "errors_is (Sentinel s) t \<longleftrightarrow> t = Sentinel s"
  by auto

lemma errors_is_Join [simp]:
  "errors_is (errors_Join a b) (Sentinel t) \<longleftrightarrow> errors_is a (Sentinel t) \<or> errors_is b (Sentinel t)"
  by (simp add: errors_Join_def)

section \<open>Operations on a world\<close>

type_synonym ('w, 'a) act = "'w \<Rightarrow> (goerr + 'a) \<times> 'w"

definition ret :: "'a \<Rightarrow> ('w, 'a) act" where
  "ret x w = (Inr x, w)"

definition throw :: "goerr \<Rightarrow> ('w, 'a) act" where
  "throw e w = (Inl e, w)"

definition lift :: "goerr + 'a \<Rightarrow> ('w, 'a) act" where
  "lift r w = (r, w)"

definition bindE :: "('w, 'a) act \<Rightarrow> ('a \<Rightarrow> ('w, 'b) act) \<Rightarrow> ('w, 'b) act" where
  "bindE m f w = (case m w of (Inl e, w') \<Rightarrow> (Inl e, w') | (Inr x, w') \<Rightarrow> f x w')"

definition tryE :: "('w, 'a) act \<Rightarrow> (goerr + 'a \<Rightarrow> ('w, 'b) act) \<Rightarrow> ('w, 'b) act" where
  "tryE m f w = (case m w of (r, w') \<Rightarrow> f r w')"

definition thenE :: "('w, 'a) act \<Rightarrow> ('w, 'b) act \<Rightarrow> ('w, 'b) act" where
  "thenE m k = bindE m (\<lambda>_. k)"

definition ignoreE :: "('w, 'a) act \<Rightarrow> ('w, 'b) act \<Rightarrow> ('w, 'b) act" where
  "ignoreE m k = tryE m (\<lambda>_. k)"

definition defer_with :: "(goerr + 'a \<Rightarrow> ('w, 'a) act) \<Rightarrow> ('w, 'a) act \<Rightarrow> ('w, 'a) act" where
  "defer_with d m = tryE m d"

definition wp :: "('w, 'a) act \<Rightarrow> (goerr + 'a \<Rightarrow> 'w \<Rightarrow> bool) \<Rightarrow> 'w \<Rightarrow> bool" where
  "wp m Q w = (case m w of (r, w') \<Rightarrow> Q r w')"

lemma bindE_Inr: "bindE m f w = (Inr y, w') \<longleftrightarrow> (\<exists>x w1. m w = (Inr x, w1) \<and> f x w1 = (Inr y, w'))"
  by (auto simp: bindE_def split: prod.splits sum.splits)

lemma bindE_tryE: "bindE m f = tryE m (\<lambda>r. case r of Inl e \<Rightarrow> throw e | Inr x \<Rightarrow> f x)"
  by (auto simp: bindE_def tryE_def throw_def fun_eq_iff split: prod.splits sum.splits)

lemma wp_ret [wp_simps]: "wp (ret x) Q w \<longleftrightarrow> Q (Inr x) w"
  by (simp add: wp_def ret_def)

lemma wp_throw [wp_simps]: "wp (throw e) Q w \<longleftrightarrow> Q (Inl e) w"
  by (simp add: wp_def throw_def)

lemma wp_lift [wp_simps]: "wp (lift r) Q w \<longleftrightarrow> Q r w"
  by (simp add: wp_def lift_def)

lemma wp_bindE [wp_simps]:
  "wp (bindE m f) Q w \<longleftrightarrow> wp m (\<lambda>r. case r of Inl e \<Rightarrow> Q (Inl e) | Inr x \<Rightarrow> wp (f x) Q) w"
  by (simp add: wp_def bindE_def split: prod.splits sum.splits)

lemma wp_tryE [wp_simps]: "wp (tryE m f) Q w \<longleftrightarrow> wp m (\<lambda>r. wp (f r) Q) w"
  by (simp add: wp_def tryE_def split: prod.splits)

lemma wp_thenE [wp_simps]:
  "wp (thenE m k) Q w \<longleftrightarrow> wp m (\<lambda>r. case r of Inl e \<Rightarrow> Q (Inl e) | Inr x \<Rightarrow> wp k Q) w"
  by (simp add: thenE_def wp_bindE)

lemma wp_ignoreE [wp_simps]: "wp (ignoreE m k) Q w \<longleftrightarrow> wp m (\<lambda>r. wp k Q) w"
  by (simp add: ignoreE_def wp_tryE)

lemma wp_defer_with [wp_simps]: "wp (defer_with d m) Q w \<longleftrightarrow> wp m (\<lambda>r. wp (d r) Q) w"
  by (simp add: defer_with_def wp_tryE)

lemma wp_if [wp_simps]: "wp (if b then m else n) Q w \<longleftrightarrow> (if b then wp m Q w else wp n Q w)"
  by simp

lemma wp_mono: "wp m Q w \<Longrightarrow> (\<And>r w'. Q r w' \<Longrightarrow> R r w') \<Longrightarrow> wp m R w"
  by (auto simp: wp_def split: prod.splits)

lemma wp_any: "(\<And>r w'. Q r w') \<Longrightarrow> wp m Q w"
  by (simp add: wp_def split: prod.splits)

lemma wp_conj: "wp m Q w \<Longrightarrow> wp m R w \<Longrightarrow> wp m (\<lambda>r w'. Q r w' \<and> R r w') w"
  by (auto simp: wp_def split: prod.splits)

lemma wp_result: "wp m Q w \<Longrightarrow> m w = (r, w') \<Longrightarrow> Q r w'"
  by (simp add: wp_def)

section \<open>Strings\<close>

text \<open>The UTF-8 encodings of the runes \<open>unicode.IsSpace\<close> accepts.\<close>

definition space_encodings :: "string list" where
  "space_encodings =
     [[CHR 0x09], [CHR 0x0A], [CHR 0x0B], [CHR 0x0C], [CHR 0x0D], [CHR 0x20],
      [CHR 0xC2, CHR 0x85], [CHR 0xC2, CHR 0xA0], [CHR 0xE1, CHR 0x9A, CHR 0x80],
      [CHR 0xE2, CHR 0x80, CHR 0x80], [CHR 0xE2, CHR 0x80, CHR 0x81],
      [CHR 0xE2, CHR 0x80, CHR 0x82], [CHR 0xE2, CHR 0x80, CHR 0x83],
      [CHR 0xE2, CHR 0x80, CHR 0x84], [CHR 0xE2, CHR 0x80, CHR 0x85],
      [CHR 0xE2, CHR 0x80, CHR 0x86], [CHR 0xE2, CHR 0x80, CHR 0x87],
      [CHR 0xE2, CHR 0x80, CHR 0x88], [CHR 0xE2, CHR 0x80, CHR 0x89],
      [CHR 0xE2, CHR 0x80, CHR 0x8A], [CHR 0xE2, CHR 0x80, CHR 0xA8],
      [CHR 0xE2, CHR 0x80, CHR 0xA9], [CHR 0xE2, CHR 0x80, CHR 0xAF],
      [CHR 0xE2, CHR 0x81, CHR 0x9F], [CHR 0xE3, CHR 0x80, CHR 0x80]]"

fun is_prefix :: "'a list \<Rightarrow> 'a list \<Rightarrow> bool" where
  "is_prefix [] ys = True"
| "is_prefix (x # xs) [] = False"
| "is_prefix (x # xs) (y # ys) = (x = y \<and> is_prefix xs ys)"

lemma is_prefix_iff: "is_prefix xs ys \<longleftrightarrow> (\<exists>zs. ys = xs @ zs)"
  by (induction xs ys rule: is_prefix.induct) auto

fun strip_step :: "string list \<Rightarrow> string \<Rightarrow> string option" where
  "strip_step [] s = None"
| "strip_step (p # ps) s =
     (if p \<noteq> [] \<and> is_prefix p s then Some (drop (length p) s) else strip_step ps s)"

lemma strip_step_shorter: "strip_step ps s = Some t \<Longrightarrow> length t < length s"
  by (induction ps) (auto simp: is_prefix_iff split: if_splits)

function strip_left :: "string list \<Rightarrow> string \<Rightarrow> string" where
  "strip_left ps s = (case strip_step ps s of None \<Rightarrow> s | Some t \<Rightarrow> strip_left ps t)"
  by pat_completeness auto
termination
  by (relation "measure (\<lambda>(ps, s). length s)") (auto dest: strip_step_shorter)

declare strip_left.simps [simp del]

definition TrimSpace :: "string \<Rightarrow> string" where
  "TrimSpace s = rev (strip_left (map rev space_encodings) (rev (strip_left space_encodings s)))"

lemma strip_left_fixed: "strip_step ps (strip_left ps s) = None"
proof (induction ps s rule: strip_left.induct)
  case (1 ps s)
  then show ?case
    by (cases "strip_step ps s") (auto simp: strip_left.simps [of ps s])
qed

lemma strip_left_id: "strip_step ps s = None \<Longrightarrow> strip_left ps s = s"
  by (simp add: strip_left.simps)

lemma strip_left_idem [simp]: "strip_left ps (strip_left ps s) = strip_left ps s"
  by (rule strip_left_id) (rule strip_left_fixed)

lemma strip_left_suffix: "\<exists>zs. s = zs @ strip_left ps s"
proof (induction ps s rule: strip_left.induct)
  case (1 ps s)
  show ?case
  proof (cases "strip_step ps s")
    case None
    then show ?thesis by (simp add: strip_left_id)
  next
    case (Some t)
    obtain zs where "t = zs @ strip_left ps t" using 1 [OF Some] by blast
    moreover obtain ys where "s = ys @ t"
      using Some by (induction ps) (auto simp: is_prefix_iff split: if_splits)
    moreover have "strip_left ps s = strip_left ps t"
      using Some by (simp add: strip_left.simps [of ps s])
    ultimately have "s = (ys @ zs) @ strip_left ps s" by simp
    then show ?thesis by blast
  qed
qed

lemma TrimSpace_Nil [simp]: "TrimSpace [] = []"
  by (simp add: TrimSpace_def strip_left_id space_encodings_def)

text \<open>A prefix of a string that does not start with a space does not start with one either.\<close>

lemma strip_step_None_iff:
  "strip_step ps s = None \<longleftrightarrow> (\<forall>p \<in> set ps. p \<noteq> [] \<longrightarrow> \<not> is_prefix p s)"
  by (induction ps) auto

lemma strip_step_None_prefix: "strip_step ps (s @ t) = None \<Longrightarrow> strip_step ps s = None"
  by (auto simp: strip_step_None_iff is_prefix_iff)

lemma TrimSpace_idem [simp]: "TrimSpace (TrimSpace s) = TrimSpace s"
proof -
  define l where "l = strip_left space_encodings s"
  define r where "r = strip_left (map rev space_encodings) (rev l)"
  obtain zs where "rev l = zs @ r"
    using strip_left_suffix [of "rev l" "map rev space_encodings"] unfolding r_def by blast
  then have l: "l = rev r @ rev zs" by (metis rev_append rev_rev_ident)
  have "strip_step space_encodings l = None"
    unfolding l_def by (rule strip_left_fixed)
  then have "strip_step space_encodings (rev r) = None"
    unfolding l by (rule strip_step_None_prefix)
  then have "strip_left space_encodings (rev r) = rev r" by (rule strip_left_id)
  then show ?thesis
    by (simp add: TrimSpace_def l_def [symmetric] r_def [symmetric]) (simp add: r_def)
qed

end
