(* ===== verification/Session_Model.thy ===== *)
theory Session_Model
  imports Prelude
begin

text \<open>
  Package \<open>control-plane/internal/session\<close>: the \<open>Session\<close> aggregate, its lifecycle
  states, the workload type catalog and the normalisation functions that \<open>Create\<close> and
  every read of a stored record go through. Go's named string types (\<open>State\<close>,
  \<open>WorkloadType\<close>) stay strings, since a stored record can hold any string and the code
  has a branch for it. A nil slice that differs from an empty one (\<open>Plugins\<close>) is
  \<open>None\<close>. Times are nanoseconds as unbounded integers; \<open>Sub\<close> saturates as Go's does.
\<close>

type_synonym time = int
type_synonym duration = int

section \<open>States\<close>

definition StateActive :: string where "StateActive = ''active''"
definition StateIdle :: string where "StateIdle = ''idle''"
definition StateSnapshot :: string where "StateSnapshot = ''snapshot''"

lemma state_distinct [simp]:
  "StateActive \<noteq> StateIdle" "StateIdle \<noteq> StateActive" "StateActive \<noteq> StateSnapshot"
  "StateSnapshot \<noteq> StateActive" "StateIdle \<noteq> StateSnapshot" "StateSnapshot \<noteq> StateIdle"
  by (simp_all add: StateActive_def StateIdle_def StateSnapshot_def)

definition State_Valid :: "string \<Rightarrow> bool" where
  "State_Valid s = (s = StateActive \<or> s = StateIdle \<or> s = StateSnapshot)"

section \<open>Workload types\<close>

definition WorkloadTypeShell :: string where "WorkloadTypeShell = ''shell''"
definition WorkloadTypeClaudeCode :: string where "WorkloadTypeClaudeCode = ''claude-code''"
definition WorkloadTypeApprovalGated :: string where
  "WorkloadTypeApprovalGated = ''approval-gated''"
definition WorkloadTypeMiniMaxCode :: string where "WorkloadTypeMiniMaxCode = ''minimax-code''"
definition WorkloadTypeCodexChat :: string where "WorkloadTypeCodexChat = ''codex-chat''"
definition WorkloadTypeCodexTask :: string where "WorkloadTypeCodexTask = ''codex-task''"
definition legacyWorkloadTypeCodex :: string where "legacyWorkloadTypeCodex = ''codex''"
definition PlatformDefaultModel :: string where "PlatformDefaultModel = ''platform-default''"
definition MaxClaudePromptBytes :: nat where "MaxClaudePromptBytes = 1048576"
definition MaxSessionPlugins :: nat where "MaxSessionPlugins = 16"
definition MaxIdle :: duration where "MaxIdle = 60 * 60 * 1000000000"

lemmas workload_defs =
  WorkloadTypeShell_def WorkloadTypeClaudeCode_def WorkloadTypeApprovalGated_def
  WorkloadTypeMiniMaxCode_def WorkloadTypeCodexChat_def WorkloadTypeCodexTask_def
  legacyWorkloadTypeCodex_def

definition IsCodex :: "string \<Rightarrow> bool" where
  "IsCodex w = (w = WorkloadTypeCodexChat \<or> w = WorkloadTypeCodexTask)"

definition HasApprovalGate :: "string \<Rightarrow> bool" where
  "HasApprovalGate w = (w = WorkloadTypeApprovalGated \<or> w = WorkloadTypeMiniMaxCode)"

definition QueuesPrompts :: "string \<Rightarrow> bool" where
  "QueuesPrompts w =
     (w = WorkloadTypeClaudeCode \<or> w = WorkloadTypeApprovalGated \<or>
      w = WorkloadTypeMiniMaxCode \<or> IsCodex w)"

definition WorkloadType_Valid :: "string \<Rightarrow> bool" where
  "WorkloadType_Valid w =
     (w \<in> {WorkloadTypeShell, WorkloadTypeClaudeCode, WorkloadTypeApprovalGated,
           WorkloadTypeMiniMaxCode, WorkloadTypeCodexChat, WorkloadTypeCodexTask})"

definition NormalizeWorkloadType :: "string \<Rightarrow> goerr + string" where
  "NormalizeWorkloadType w =
     (if w = '''' then Inr WorkloadTypeShell
      else if \<not> WorkloadType_Valid w then Inl (Sentinel ErrInvalidInput)
      else Inr w)"

definition NormalizeStoredWorkloadType :: "string \<Rightarrow> goerr + string" where
  "NormalizeStoredWorkloadType w =
     (if w = legacyWorkloadTypeCodex then Inr WorkloadTypeCodexChat
      else NormalizeWorkloadType w)"

section \<open>Models, plugins, reasoning effort\<close>

definition alnum :: "char \<Rightarrow> bool" where
  "alnum c =
     ((CHR ''A'' \<le> c \<and> c \<le> CHR ''Z'') \<or> (CHR ''a'' \<le> c \<and> c \<le> CHR ''z'') \<or>
      (CHR ''0'' \<le> c \<and> c \<le> CHR ''9''))"

definition model_char :: "char \<Rightarrow> bool" where
  "model_char c = (alnum c \<or> c \<in> set ''._:/-'')"

definition plugin_char :: "char \<Rightarrow> bool" where
  "plugin_char c = (alnum c \<or> c \<in> set ''._-'')"

text \<open>\<^verbatim>\<open>[A-Za-z0-9]<class>{0,n}\<close> anchored at both ends.\<close>

fun name_tail :: "(char \<Rightarrow> bool) \<Rightarrow> nat \<Rightarrow> string \<Rightarrow> bool" where
  "name_tail cls n [] = False"
| "name_tail cls n (c # cs) = (alnum c \<and> list_all cls cs \<and> length cs \<le> n)"

fun modelNamePattern :: "string \<Rightarrow> bool" where
  "modelNamePattern [] = False"
| "modelNamePattern (c # cs) =
     ((c = CHR ''~'' \<and> name_tail model_char 126 cs) \<or> name_tail model_char 127 (c # cs))"

definition pluginNamePattern :: "string \<Rightarrow> bool" where
  "pluginNamePattern = name_tail plugin_char 63"

definition NormalizeModel :: "string \<Rightarrow> string \<Rightarrow> goerr + string" where
  "NormalizeModel workload model0 =
     (let model = TrimSpace model0 in
      if workload = WorkloadTypeShell then
        (if model \<noteq> '''' then Inl (Sentinel ErrInvalidInput) else Inr '''')
      else if workload \<in> {WorkloadTypeClaudeCode, WorkloadTypeApprovalGated,
          WorkloadTypeMiniMaxCode, WorkloadTypeCodexChat, WorkloadTypeCodexTask} then
        (if model = '''' then Inr PlatformDefaultModel
         else if \<not> modelNamePattern model then Inl (Sentinel ErrInvalidInput)
         else Inr model)
      else Inl (Sentinel ErrInvalidInput))"

definition TakesPlugins :: "string \<Rightarrow> bool" where
  "TakesPlugins w =
     (w \<in> {WorkloadTypeClaudeCode, WorkloadTypeMiniMaxCode, WorkloadTypeCodexChat,
           WorkloadTypeCodexTask})"

text \<open>The validation loop of \<open>NormalizePlugins\<close>; \<open>seen\<close> is the set the map holds.\<close>

fun plugins_loop :: "string list \<Rightarrow> string list \<Rightarrow> string list \<Rightarrow> goerr + string list" where
  "plugins_loop seen acc [] = Inr acc"
| "plugins_loop seen acc (name # names) =
     (if \<not> pluginNamePattern name \<or> name \<in> set seen then Inl (Sentinel ErrInvalidInput)
      else plugins_loop (name # seen) (acc @ [name]) names)"

definition NormalizePlugins :: "string \<Rightarrow> string list option \<Rightarrow> goerr + string list option" where
  "NormalizePlugins workload plugins =
     (case plugins of
        None \<Rightarrow> Inr None
      | Some ps \<Rightarrow>
          if \<not> TakesPlugins workload then Inl (Sentinel ErrInvalidInput)
          else if length ps = 0 \<or> length ps > MaxSessionPlugins then Inl (Sentinel ErrInvalidInput)
          else (case plugins_loop [] [] ps of Inl e \<Rightarrow> Inl e | Inr out \<Rightarrow> Inr (Some out)))"

section \<open>The workload catalog\<close>

datatype InputMode = InputModeTerminal | InputModePrompt

record WorkloadTypeInfo =
  info_Type :: string
  info_Label :: string
  info_Description :: string
  info_TakesModel :: bool
  info_TakesPlugins :: bool
  info_Input :: InputMode
  info_ReasoningEfforts :: "string list"

definition workloadTypeCatalog :: "WorkloadTypeInfo list" where
  "workloadTypeCatalog =
     [\<lparr>info_Type = WorkloadTypeShell, info_Label = ''Shell'',
       info_Description = ''Interactive bash. You type the commands.'',
       info_TakesModel = False, info_TakesPlugins = False,
       info_Input = InputModeTerminal, info_ReasoningEfforts = []\<rparr>,
      \<lparr>info_Type = WorkloadTypeClaudeCode, info_Label = ''Claude Code'',
       info_Description = ''Agent CLI. You send prompts, it does the work.'',
       info_TakesModel = True, info_TakesPlugins = True,
       info_Input = InputModePrompt,
       info_ReasoningEfforts = [''low'', ''medium'', ''high'', ''xhigh'', ''max'']\<rparr>,
      \<lparr>info_Type = WorkloadTypeMiniMaxCode, info_Label = ''MiniMax Code'',
       info_Description =
         ''MiniMax Code CLI behind the approval gate. K3s MCP tools use their own gate.'',
       info_TakesModel = True, info_TakesPlugins = True,
       info_Input = InputModePrompt, info_ReasoningEfforts = []\<rparr>,
      \<lparr>info_Type = WorkloadTypeCodexChat, info_Label = ''Codex Chat'',
       info_Description =
         ''Codex SDK agent on your ChatGPT plan. Conversation, plugin skills and K3s MCP only.'',
       info_TakesModel = True, info_TakesPlugins = True,
       info_Input = InputModePrompt, info_ReasoningEfforts = []\<rparr>,
      \<lparr>info_Type = WorkloadTypeCodexTask, info_Label = ''Codex Task'',
       info_Description =
         ''Codex coding agent on a pooled ChatGPT login. Shell, files and network, like Claude Code.'',
       info_TakesModel = True, info_TakesPlugins = True,
       info_Input = InputModePrompt,
       info_ReasoningEfforts = [''minimal'', ''low'', ''medium'', ''high'', ''xhigh'']\<rparr>,
      \<lparr>info_Type = WorkloadTypeApprovalGated, info_Label = ''Approval-gated'',
       info_Description = ''Same agent, but every outbound call waits for your approval.'',
       info_TakesModel = True, info_TakesPlugins = False,
       info_Input = InputModePrompt, info_ReasoningEfforts = []\<rparr>]"

fun effort_loop :: "WorkloadTypeInfo list \<Rightarrow> string \<Rightarrow> string \<Rightarrow> goerr + string" where
  "effort_loop [] workload effort = Inl (Sentinel ErrInvalidInput)"
| "effort_loop (info # infos) workload effort =
     (if info_Type info = workload \<and> effort \<in> set (info_ReasoningEfforts info) then Inr effort
      else effort_loop infos workload effort)"

definition NormalizeReasoningEffort :: "string \<Rightarrow> string \<Rightarrow> goerr + string" where
  "NormalizeReasoningEffort workload effort =
     (if effort = '''' then Inr '''' else effort_loop workloadTypeCatalog workload effort)"

section \<open>The Session aggregate\<close>

record Checkpoint =
  cp_Ref :: string
  cp_SizeBytes :: int
  cp_CreatedAt :: time
  cp_Reclaimed :: string
  cp_AbortToken :: string

definition SnapshotPhasePreparing :: string where "SnapshotPhasePreparing = ''preparing''"
definition SnapshotPhaseCommitting :: string where "SnapshotPhaseCommitting = ''committing''"

lemma phase_distinct [simp]:
  "SnapshotPhasePreparing \<noteq> SnapshotPhaseCommitting"
  "SnapshotPhaseCommitting \<noteq> SnapshotPhasePreparing"
  by (simp_all add: SnapshotPhasePreparing_def SnapshotPhaseCommitting_def)

record SnapshotTransaction =
  Generation :: string
  Owner :: string
  SourcePod :: string
  Phase :: string
  txn_Checkpoint :: "Checkpoint option"

record Session =
  ID :: string
  WorkloadType :: string
  Model :: string
  Plugins :: "string list option"
  ReasoningEffort :: string
  Tenant :: string
  Name :: string
  State :: string
  Pod :: string
  AuxiliaryPods :: "string list"
  CreatedAt :: time
  LastAccess :: time
  Checkpoint :: "Checkpoint option"
  SnapshotTransaction :: "SnapshotTransaction option"

definition maxDuration :: int where "maxDuration = 2 ^ 63 - 1"
definition minDuration :: int where "minDuration = - (2 ^ 63)"

definition time_Sub :: "time \<Rightarrow> time \<Rightarrow> duration" where
  "time_Sub t u = max minDuration (min maxDuration (t - u))"

definition IdleFor :: "Session \<Rightarrow> time \<Rightarrow> duration" where
  "IdleFor s now = time_Sub now (LastAccess s)"

definition Pods :: "Session \<Rightarrow> string list" where
  "Pods s = (if Pod s \<noteq> '''' then [Pod s] else []) @ filter (\<lambda>p. p \<noteq> '''') (AuxiliaryPods s)"

record CreateRequest =
  req_Name :: string
  req_WorkloadType :: string
  req_Model :: string
  req_Plugins :: "string list option"
  req_ReasoningEffort :: string
  req_Tenant :: string

record ReadResult =
  rr_Session :: Session
  rr_Path :: string
  rr_Payload :: string
  rr_NextOffset :: int

record WriteResult =
  wr_Session :: Session
  wr_Path :: string

section \<open>Facts about the normalisation functions\<close>

lemma workload_distinct [simp]:
  "WorkloadTypeShell \<noteq> WorkloadTypeClaudeCode" "WorkloadTypeShell \<noteq> WorkloadTypeApprovalGated"
  "WorkloadTypeShell \<noteq> WorkloadTypeMiniMaxCode" "WorkloadTypeShell \<noteq> WorkloadTypeCodexChat"
  "WorkloadTypeShell \<noteq> WorkloadTypeCodexTask" "WorkloadTypeClaudeCode \<noteq> WorkloadTypeApprovalGated"
  "WorkloadTypeClaudeCode \<noteq> WorkloadTypeMiniMaxCode" "WorkloadTypeClaudeCode \<noteq> WorkloadTypeCodexChat"
  "WorkloadTypeClaudeCode \<noteq> WorkloadTypeCodexTask" "WorkloadTypeApprovalGated \<noteq> WorkloadTypeMiniMaxCode"
  "WorkloadTypeApprovalGated \<noteq> WorkloadTypeCodexChat" "WorkloadTypeApprovalGated \<noteq> WorkloadTypeCodexTask"
  "WorkloadTypeMiniMaxCode \<noteq> WorkloadTypeCodexChat" "WorkloadTypeMiniMaxCode \<noteq> WorkloadTypeCodexTask"
  "WorkloadTypeCodexChat \<noteq> WorkloadTypeCodexTask"
  by (simp_all add: workload_defs)

lemmas workload_distinct_sym [simp] = workload_distinct [symmetric]

lemma workload_nonempty [simp]:
  "WorkloadTypeShell \<noteq> []" "WorkloadTypeClaudeCode \<noteq> []" "WorkloadTypeApprovalGated \<noteq> []"
  "WorkloadTypeMiniMaxCode \<noteq> []" "WorkloadTypeCodexChat \<noteq> []" "WorkloadTypeCodexTask \<noteq> []"
  by (simp_all add: workload_defs)

lemma NormalizeWorkloadType_valid: "NormalizeWorkloadType w = Inr w' \<Longrightarrow> WorkloadType_Valid w'"
  by (auto simp: NormalizeWorkloadType_def WorkloadType_Valid_def split: if_splits)

lemma Normalize_valid_id:
  assumes "WorkloadType_Valid w"
  shows "NormalizeWorkloadType w = Inr w" "NormalizeStoredWorkloadType w = Inr w"
  using assms
  by (auto simp: NormalizeWorkloadType_def NormalizeStoredWorkloadType_def WorkloadType_Valid_def
      workload_defs)

lemma NormalizeStoredWorkloadType_valid:
  "NormalizeStoredWorkloadType w = Inr w' \<Longrightarrow> WorkloadType_Valid w'"
  by (auto simp: NormalizeStoredWorkloadType_def WorkloadType_Valid_def
      dest: NormalizeWorkloadType_valid split: if_splits)

lemma TrimSpace_platform_default [simp]: "TrimSpace PlatformDefaultModel = PlatformDefaultModel"
  by (simp add: TrimSpace_def PlatformDefaultModel_def strip_left_id space_encodings_def)

lemma modelNamePattern_platform_default [simp]: "modelNamePattern PlatformDefaultModel"
  by (simp add: PlatformDefaultModel_def model_char_def alnum_def)

lemma PlatformDefaultModel_nonempty [simp]: "PlatformDefaultModel \<noteq> []"
  by (simp add: PlatformDefaultModel_def)

lemma NormalizeModel_stable: "NormalizeModel w m = Inr m' \<Longrightarrow> NormalizeModel w m' = Inr m'"
  by (auto simp: NormalizeModel_def Let_def split: if_splits)

lemma NormalizeReasoningEffort_eq:
  assumes "NormalizeReasoningEffort w e = Inr e'"
  shows "e' = e"
proof -
  have "effort_loop infos w e = Inr e' \<Longrightarrow> e' = e" for infos
    by (induction infos) (auto split: if_splits)
  with assms show ?thesis
    by (auto simp: NormalizeReasoningEffort_def split: if_splits)
qed

lemma plugins_loop_eq:
  "plugins_loop seen acc ps =
     (if distinct ps \<and> set ps \<inter> set seen = {} \<and> list_all pluginNamePattern ps
      then Inr (acc @ ps) else Inl (Sentinel ErrInvalidInput))"
  by (induction ps arbitrary: seen acc) auto

lemma NormalizePlugins_eq:
  "NormalizePlugins w (Some ps) =
     (if TakesPlugins w \<and> 1 \<le> length ps \<and> length ps \<le> MaxSessionPlugins \<and> distinct ps \<and>
         list_all pluginNamePattern ps
      then Inr (Some ps) else Inl (Sentinel ErrInvalidInput))"
  by (cases ps) (auto simp: NormalizePlugins_def plugins_loop_eq)

lemma NormalizePlugins_stable: "NormalizePlugins w ps = Inr ps' \<Longrightarrow> ps' = ps"
  by (cases ps)
    (auto simp: NormalizePlugins_eq simp: NormalizePlugins_def [of w None] split: if_splits)

lemma NormalizeModel_shell:
  "NormalizeModel WorkloadTypeShell m =
     (if TrimSpace m = '''' then Inr '''' else Inl (Sentinel ErrInvalidInput))"
  by (simp add: NormalizeModel_def)

lemma NormalizeModel_agent:
  "WorkloadType_Valid w \<Longrightarrow> w \<noteq> WorkloadTypeShell \<Longrightarrow>
   NormalizeModel w PlatformDefaultModel = Inr PlatformDefaultModel"
  by (auto simp: NormalizeModel_def WorkloadType_Valid_def)

text \<open>A create request may carry a model for a type exactly when some non-blank one is accepted.\<close>

definition accepts_model :: "string \<Rightarrow> bool" where
  "accepts_model w = (\<exists>m m'. TrimSpace m \<noteq> '''' \<and> NormalizeModel w m = Inr m')"

lemma accepts_model_iff:
  assumes "WorkloadType_Valid w"
  shows "accepts_model w \<longleftrightarrow> w \<noteq> WorkloadTypeShell"
proof
  assume "accepts_model w"
  then show "w \<noteq> WorkloadTypeShell" by (auto simp: accepts_model_def NormalizeModel_shell)
next
  assume "w \<noteq> WorkloadTypeShell"
  with assms have "NormalizeModel w PlatformDefaultModel = Inr PlatformDefaultModel"
    by (rule NormalizeModel_agent)
  moreover have "TrimSpace PlatformDefaultModel \<noteq> ''''" by simp
  ultimately show "accepts_model w" unfolding accepts_model_def by blast
qed

lemma catalog_types: "map info_Type workloadTypeCatalog =
  [WorkloadTypeShell, WorkloadTypeClaudeCode, WorkloadTypeMiniMaxCode, WorkloadTypeCodexChat,
   WorkloadTypeCodexTask, WorkloadTypeApprovalGated]"
  by (simp add: workloadTypeCatalog_def)

text \<open>The catalog the clients render lists every valid workload type exactly once, and each
  entry tells the truth about the validators: it takes a model exactly when some non-blank model
  is accepted for the type, takes plugins exactly when \<open>TakesPlugins\<close> says so, and is driven
  by prompts exactly when the type queues prompts.\<close>

theorem catalog_mirrors_validators:
  "distinct (map info_Type workloadTypeCatalog) \<and>
   (\<forall>w. WorkloadType_Valid w = (w \<in> set (map info_Type workloadTypeCatalog))) \<and>
   list_all (\<lambda>i. info_TakesModel i = accepts_model (info_Type i) \<and>
                 info_TakesPlugins i = TakesPlugins (info_Type i) \<and>
                 (info_Input i = InputModePrompt) = QueuesPrompts (info_Type i))
     workloadTypeCatalog"
proof (intro conjI allI)
  show "distinct (map info_Type workloadTypeCatalog)" by (simp add: catalog_types)
  show "WorkloadType_Valid w = (w \<in> set (map info_Type workloadTypeCatalog))" for w
    by (auto simp: catalog_types WorkloadType_Valid_def)
  have valid: "list_all (\<lambda>i. WorkloadType_Valid (info_Type i)) workloadTypeCatalog"
    by (simp add: workloadTypeCatalog_def WorkloadType_Valid_def)
  have "list_all (\<lambda>i. info_TakesModel i = (info_Type i \<noteq> WorkloadTypeShell) \<and>
                 info_TakesPlugins i = TakesPlugins (info_Type i) \<and>
                 (info_Input i = InputModePrompt) = QueuesPrompts (info_Type i))
     workloadTypeCatalog"
    by (simp add: workloadTypeCatalog_def TakesPlugins_def QueuesPrompts_def IsCodex_def)
  with valid show "list_all (\<lambda>i. info_TakesModel i = accepts_model (info_Type i) \<and>
                 info_TakesPlugins i = TakesPlugins (info_Type i) \<and>
                 (info_Input i = InputModePrompt) = QueuesPrompts (info_Type i))
     workloadTypeCatalog"
    by (auto simp: list_all_iff accepts_model_iff)
qed

text \<open>\<open>NormalizePlugins\<close> accepts exactly the lists of one to sixteen distinct valid names
  for a type that takes plugins, returns them in request order, and rejects everything else
  as invalid input; an absent list is accepted for every type.\<close>

theorem NormalizePlugins_exact:
  "NormalizePlugins w None = Inr None \<and>
   NormalizePlugins w (Some ps) =
     (if TakesPlugins w \<and> 1 \<le> length ps \<and> length ps \<le> 16 \<and> distinct ps \<and>
         list_all pluginNamePattern ps
      then Inr (Some ps) else Inl (Sentinel ErrInvalidInput))"
  by (simp add: NormalizePlugins_eq MaxSessionPlugins_def NormalizePlugins_def [of w None])

end
