(* ===== verification/Ports.thy ===== *)
theory Ports
  imports Session_Model
begin

text \<open>
  The ports the service is wired from: \<open>store.StateStore\<close>, \<open>k8s.PodOrchestrator\<close>,
  \<open>archive.Checkpointer\<close>, \<open>agent.Client\<close> (with its optional capabilities) and
  \<open>k8s.AuthPool\<close>. Each Go interface is a record of operations on a world \<open>'w\<close>; an
  implementation is a value of that record. \<open>event\<close> is one call of a port with the answer
  it gave, and \<open>instrument\<close> wraps every port of a service so that it also appends its
  event to a log. A statement about the log of an instrumented service is a statement about
  every order of calls and every combination of answers, errors included, the code can see.
\<close>

section \<open>Pods\<close>

record PodRef =
  pr_Name :: string
  pr_Namespace :: string
  pr_IP :: string

definition name_ref :: "string \<Rightarrow> PodRef" where
  "name_ref n = \<lparr>pr_Name = n, pr_Namespace = '''', pr_IP = ''''\<rparr>"

lemma name_ref_name [simp]: "pr_Name (name_ref n) = n"
  by (simp add: name_ref_def)

record SessionPods =
  Workload :: PodRef
  Auxiliary :: "PodRef list"

definition SessionPods_All :: "SessionPods \<Rightarrow> PodRef list" where
  "SessionPods_All s =
     (if pr_Name (Workload s) \<noteq> '''' then [Workload s] else []) @
     filter (\<lambda>r. pr_Name r \<noteq> '''') (Auxiliary s)"

definition SessionPods_Names :: "SessionPods \<Rightarrow> string list" where
  "SessionPods_Names s = map pr_Name (Auxiliary s)"

record WorkloadSpec =
  ws_Type :: string
  ws_Model :: string
  ws_Plugins :: "string list option"
  ws_ReasoningEffort :: string
  ws_AuthSlot :: "int option"

record PluginChanges =
  pc_State :: string
  pc_Revision :: string
  pc_Added :: "string list"
  pc_Updated :: "string list"
  pc_Removed :: "string list"

section \<open>Port records\<close>

record 'w StateStore =
  st_Put :: "Session \<Rightarrow> ('w, unit) act"
  st_Get :: "string \<Rightarrow> ('w, Session) act"
  st_List :: "('w, Session list) act"
  st_Delete :: "string \<Rightarrow> string \<Rightarrow> ('w, unit) act"
  st_Touch :: "string \<Rightarrow> time \<Rightarrow> ('w, unit) act"
  st_CompareAndSwapState :: "string \<Rightarrow> string \<Rightarrow> string \<Rightarrow> ('w, unit) act"
  st_CompareAndSwapSession ::
    "string \<Rightarrow> string \<Rightarrow> string \<Rightarrow> SnapshotTransaction option \<Rightarrow> Session \<Rightarrow> ('w, unit) act"
  st_Lock :: "string \<Rightarrow> string \<Rightarrow> ('w, unit) act"
  st_Renew :: "string \<Rightarrow> string \<Rightarrow> ('w, unit) act"
  st_Unlock :: "string \<Rightarrow> string \<Rightarrow> ('w, unit) act"

record 'w PodOrchestrator =
  or_Start :: "string \<Rightarrow> WorkloadSpec \<Rightarrow> ('w, SessionPods) act"
  or_Stop :: "PodRef list \<Rightarrow> ('w, unit) act"
  or_RestoreInto :: "string \<Rightarrow> string \<Rightarrow> WorkloadSpec \<Rightarrow> ('w, SessionPods) act"
  or_Reach :: "PodRef \<Rightarrow> ('w, unit) act"

record 'w Checkpointer =
  ck_Enabled :: bool
  ck_CheckpointWithGeneration :: "PodRef \<Rightarrow> string \<Rightarrow> ('w, Checkpoint option) act"
  ck_AbortCheckpoint :: "PodRef \<Rightarrow> Checkpoint option \<Rightarrow> ('w, unit) act"
  ck_Restore :: "Checkpoint option \<Rightarrow> PodRef \<Rightarrow> ('w, unit) act"

text \<open>\<open>ag_AbortCheckpoint\<close>, \<open>ag_AwaitingApproval\<close> and \<open>ag_AuthSlotSignedIn\<close> are the
  capabilities the service asks for by a type assertion: \<open>None\<close> when the client lacks one.\<close>

record 'w Client =
  ag_Write :: "string \<Rightarrow> string \<Rightarrow> ('w, unit) act"
  ag_Read :: "string \<Rightarrow> int \<Rightarrow> ('w, string \<times> int) act"
  ag_Stream :: "string \<Rightarrow> int \<Rightarrow> ('w, string) act"
  ag_RefreshPlugins :: "string \<Rightarrow> ('w, PluginChanges) act"
  ag_AbortCheckpoint :: "(string \<Rightarrow> string \<Rightarrow> ('w, unit) act) option"
  ag_AwaitingApproval :: "(string \<Rightarrow> ('w, bool) act) option"
  ag_AuthSlotSignedIn :: "(string \<Rightarrow> ('w, bool) act) option"

text \<open>The stale-holder callback is an argument of \<open>Acquire\<close>, as in the Go interface.\<close>

record 'w AuthPool =
  po_Acquire :: "string \<Rightarrow> (string \<Rightarrow> ('w, bool) act) \<Rightarrow> ('w, int) act"
  po_Release :: "string \<Rightarrow> bool option \<Rightarrow> ('w, unit) act"

text \<open>
  The service. \<open>svc_now\<close> is the injected clock and \<open>svc_newID\<close> the random identifier
  (\<open>crypto/rand\<close>). The three fields before the last stand for the Go runtime around a call: whether the
  operation context or the rollback context is cancelled when the code looks, and what the
  lease renewal goroutine reports when it is stopped. \<open>svc_fuel\<close> bounds the self-recursion
  of \<open>recoverSnapshotLocked\<close>, which Go does not bound.
\<close>

record 'w Service =
  svc_orch :: "'w PodOrchestrator"
  svc_store :: "'w StateStore"
  svc_ckpts :: "string \<Rightarrow> 'w Checkpointer option"
  svc_agent :: "'w Client"
  svc_authPools :: "string \<Rightarrow> 'w AuthPool option"
  svc_now :: "'w \<Rightarrow> time \<times> 'w"
  svc_newID :: "('w, string) act"
  svc_ctxErr :: "('w, unit) act"
  svc_rollbackCtxErr :: "('w, unit) act"
  svc_stopRenewal :: "string \<Rightarrow> string \<Rightarrow> ('w, unit) act"
  svc_fuel :: nat

section \<open>Events\<close>

datatype event =
    EvPut Session "goerr + unit"
  | EvGet string "goerr + Session"
  | EvList "goerr + Session list"
  | EvDelete string string "goerr + unit"
  | EvTouch string time "goerr + unit"
  | EvCasState string string string "goerr + unit"
  | EvCas string string string "SnapshotTransaction option" Session "goerr + unit"
  | EvLock string string "goerr + unit"
  | EvRenew string string "goerr + unit"
  | EvUnlock string string "goerr + unit"
  | EvStart string WorkloadSpec "goerr + SessionPods"
  | EvStop "PodRef list" "goerr + unit"
  | EvRestoreInto string string WorkloadSpec "goerr + SessionPods"
  | EvReach PodRef "goerr + unit"
  | EvCheckpoint PodRef string "goerr + Checkpoint option"
  | EvAbort PodRef "Checkpoint option" "goerr + unit"
  | EvCkptRestore "Checkpoint option" PodRef "goerr + unit"
  | EvWrite string string "goerr + unit"
  | EvRead string int "goerr + string \<times> int"
  | EvStream string int "goerr + string"
  | EvRefresh string "goerr + PluginChanges"
  | EvAgentAbort string string "goerr + unit"
  | EvAwaiting string "goerr + bool"
  | EvSignedIn string "goerr + bool"
  | EvAcquire string "goerr + int"
  | EvRelease string "bool option" "goerr + unit"

type_synonym log = "event list"

definition logged :: "(goerr + 'a \<Rightarrow> 'e) \<Rightarrow> ('w, 'a) act \<Rightarrow> ('w \<times> 'e list, 'a) act" where
  "logged ev m wl = (case m (fst wl) of (r, w') \<Rightarrow> (r, (w', snd wl @ [ev r])))"

lemma wp_logged:
  "wp (logged ev m) Q wl \<longleftrightarrow> wp m (\<lambda>r w'. Q r (w', snd wl @ [ev r])) (fst wl)"
  by (simp add: wp_def logged_def split: prod.splits)

definition quiet :: "('w \<Rightarrow> 'r \<times> 'w) \<Rightarrow> 'w \<times> log \<Rightarrow> 'r \<times> ('w \<times> log)" where
  "quiet m wl = (case m (fst wl) of (r, w') \<Rightarrow> (r, (w', snd wl)))"

lemma wp_quiet: "wp (quiet m) Q wl \<longleftrightarrow> wp m (\<lambda>r w'. Q r (w', snd wl)) (fst wl)"
  by (simp add: wp_def quiet_def split: prod.splits)

text \<open>A port may give any answer: the rules (collection \<open>wp_ports\<close>) that open a call.\<close>

lemma wp_logged_any [wp_ports]:
  "(\<And>r w'. Q r (w', snd wl @ [ev r])) \<Longrightarrow> wp (logged ev m) Q wl"
  by (simp add: wp_logged wp_any)

lemma wp_quiet_any [wp_ports]: "(\<And>r w'. Q r (w', snd wl)) \<Longrightarrow> wp (quiet m) Q wl"
  by (simp add: wp_quiet wp_any)

text \<open>The callback an instrumented pool is given runs on the plain world: its store reads are
  part of the pool's own work and are not logged.\<close>

definition unlogged :: "('w \<times> log, 'a) act \<Rightarrow> ('w, 'a) act" where
  "unlogged m w = (case m (w, []) of (r, (w', _)) \<Rightarrow> (r, w'))"

definition log_store :: "'w StateStore \<Rightarrow> ('w \<times> log) StateStore" where
  "log_store s =
     \<lparr>st_Put = (\<lambda>x. logged (EvPut x) (st_Put s x)),
      st_Get = (\<lambda>i. logged (EvGet i) (st_Get s i)),
      st_List = logged EvList (st_List s),
      st_Delete = (\<lambda>i t. logged (EvDelete i t) (st_Delete s i t)),
      st_Touch = (\<lambda>i t. logged (EvTouch i t) (st_Touch s i t)),
      st_CompareAndSwapState = (\<lambda>i a b. logged (EvCasState i a b) (st_CompareAndSwapState s i a b)),
      st_CompareAndSwapSession =
        (\<lambda>i t e x n. logged (EvCas i t e x n) (st_CompareAndSwapSession s i t e x n)),
      st_Lock = (\<lambda>i t. logged (EvLock i t) (st_Lock s i t)),
      st_Renew = (\<lambda>i t. logged (EvRenew i t) (st_Renew s i t)),
      st_Unlock = (\<lambda>i t. logged (EvUnlock i t) (st_Unlock s i t))\<rparr>"

definition log_orch :: "'w PodOrchestrator \<Rightarrow> ('w \<times> log) PodOrchestrator" where
  "log_orch o' =
     \<lparr>or_Start = (\<lambda>i sp. logged (EvStart i sp) (or_Start o' i sp)),
      or_Stop = (\<lambda>rs. logged (EvStop rs) (or_Stop o' rs)),
      or_RestoreInto = (\<lambda>i r sp. logged (EvRestoreInto i r sp) (or_RestoreInto o' i r sp)),
      or_Reach = (\<lambda>r. logged (EvReach r) (or_Reach o' r))\<rparr>"

definition log_ckpt :: "'w Checkpointer \<Rightarrow> ('w \<times> log) Checkpointer" where
  "log_ckpt c =
     \<lparr>ck_Enabled = ck_Enabled c,
      ck_CheckpointWithGeneration =
        (\<lambda>r g. logged (EvCheckpoint r g) (ck_CheckpointWithGeneration c r g)),
      ck_AbortCheckpoint = (\<lambda>r cp. logged (EvAbort r cp) (ck_AbortCheckpoint c r cp)),
      ck_Restore = (\<lambda>cp r. logged (EvCkptRestore cp r) (ck_Restore c cp r))\<rparr>"

definition log_client :: "'w Client \<Rightarrow> ('w \<times> log) Client" where
  "log_client a =
     \<lparr>ag_Write = (\<lambda>p x. logged (EvWrite p x) (ag_Write a p x)),
      ag_Read = (\<lambda>p n. logged (EvRead p n) (ag_Read a p n)),
      ag_Stream = (\<lambda>p n. logged (EvStream p n) (ag_Stream a p n)),
      ag_RefreshPlugins = (\<lambda>p. logged (EvRefresh p) (ag_RefreshPlugins a p)),
      ag_AbortCheckpoint =
        map_option (\<lambda>f p g. logged (EvAgentAbort p g) (f p g)) (ag_AbortCheckpoint a),
      ag_AwaitingApproval = map_option (\<lambda>f p. logged (EvAwaiting p) (f p)) (ag_AwaitingApproval a),
      ag_AuthSlotSignedIn = map_option (\<lambda>f p. logged (EvSignedIn p) (f p)) (ag_AuthSlotSignedIn a)\<rparr>"

definition log_pool :: "'w AuthPool \<Rightarrow> ('w \<times> log) AuthPool" where
  "log_pool p =
     \<lparr>po_Acquire = (\<lambda>i stale. logged (EvAcquire i) (po_Acquire p i (\<lambda>h. unlogged (stale h)))),
      po_Release = (\<lambda>i b. logged (EvRelease i b) (po_Release p i b))\<rparr>"

definition instrument :: "'w Service \<Rightarrow> ('w \<times> log) Service" where
  "instrument s =
     \<lparr>svc_orch = log_orch (svc_orch s),
      svc_store = log_store (svc_store s),
      svc_ckpts = (\<lambda>t. map_option log_ckpt (svc_ckpts s t)),
      svc_agent = log_client (svc_agent s),
      svc_authPools = (\<lambda>t. map_option log_pool (svc_authPools s t)),
      svc_now = quiet (svc_now s),
      svc_newID = quiet (svc_newID s),
      svc_ctxErr = quiet (svc_ctxErr s),
      svc_rollbackCtxErr = quiet (svc_rollbackCtxErr s),
      svc_stopRenewal = (\<lambda>i t. quiet (svc_stopRenewal s i t)),
      svc_fuel = svc_fuel s\<rparr>"

end
