(* ===== verification/Service.thy ===== *)
theory Service
  imports Ports
begin

text \<open>
  \<open>control-plane/internal/service/manager.go\<close>: the concrete session manager. Every function
  takes the \<open>Service\<close> record of ports and is written in the order of the Go code: one port
  call per call in the source, \<open>bindE\<close>/\<open>thenE\<close> where the source returns on error,
  \<open>tryE\<close> where it looks at the error, \<open>ignoreE\<close> where it drops it, \<open>defer_with\<close> for
  \<open>defer\<close> (last deferred runs first). Pointers to freshly copied values are values.
\<close>

section \<open>Small helpers\<close>

definition now_act :: "'w Service \<Rightarrow> ('w, time) act" where
  "now_act s w = (case svc_now s w of (t, w') \<Rightarrow> (Inr t, w'))"

definition normalizeStoredSession :: "Session \<Rightarrow> goerr + Session" where
  "normalizeStoredSession sess =
     (case NormalizeStoredWorkloadType (WorkloadType sess) of
        Inl e \<Rightarrow> Inl e
      | Inr workload \<Rightarrow>
          (case NormalizeModel workload (Model sess) of
             Inl e \<Rightarrow> Inl e
           | Inr model \<Rightarrow>
               (case NormalizeReasoningEffort workload (ReasoningEffort sess) of
                  Inl e \<Rightarrow> Inl e
                | Inr effort \<Rightarrow>
                    Inr (sess\<lparr>WorkloadType := workload, Model := model, ReasoningEffort := effort\<rparr>))))"

definition svc_Get :: "'w Service \<Rightarrow> string \<Rightarrow> ('w, Session) act" where
  "svc_Get s sid = bindE (st_Get (svc_store s) sid) (\<lambda>sess. lift (normalizeStoredSession sess))"

fun normalize_all :: "Session list \<Rightarrow> goerr + Session list" where
  "normalize_all [] = Inr []"
| "normalize_all (x # xs) =
     (case normalizeStoredSession x of
        Inl e \<Rightarrow> Inl e
      | Inr y \<Rightarrow> (case normalize_all xs of Inl e \<Rightarrow> Inl e | Inr ys \<Rightarrow> Inr (y # ys)))"

definition svc_List :: "'w Service \<Rightarrow> ('w, Session list) act" where
  "svc_List s = bindE (st_List (svc_store s)) (\<lambda>xs. lift (normalize_all xs))"

definition touch :: "'w Service \<Rightarrow> string \<Rightarrow> ('w, unit) act" where
  "touch s sid = bindE (now_act s) (\<lambda>t. ignoreE (st_Touch (svc_store s) sid t) (ret ()))"

definition touchGet :: "'w Service \<Rightarrow> string \<Rightarrow> ('w, Session) act" where
  "touchGet s sid = thenE (touch s sid) (svc_Get s sid)"

definition checkpointerFor :: "'w Service \<Rightarrow> string \<Rightarrow> goerr + 'w Checkpointer" where
  "checkpointerFor s w0 =
     (case NormalizeStoredWorkloadType w0 of
        Inl e \<Rightarrow> Inl e
      | Inr workload \<Rightarrow>
          (case svc_ckpts s workload of
             None \<Rightarrow> Inl (Sentinel ErrCheckpointDisabled)
           | Some ckpt \<Rightarrow>
               if \<not> ck_Enabled ckpt then Inl (Sentinel ErrCheckpointDisabled) else Inr ckpt))"

definition checkpointRef :: "Checkpoint option \<Rightarrow> string" where
  "checkpointRef cp = (case cp of None \<Rightarrow> '''' | Some c \<Rightarrow> cp_Ref c)"

definition dispatchPath :: "string \<Rightarrow> string \<Rightarrow> string" where
  "dispatchPath branch op = (if branch = ''active'' then ''active'' else branch @ ''->'' @ op)"

definition sessionPodRefs :: "Session \<Rightarrow> PodRef list" where
  "sessionPodRefs sess = map name_ref (Pods sess)"

definition sessionReclaimRefs :: "Session \<Rightarrow> string \<Rightarrow> PodRef list" where
  "sessionReclaimRefs sess extraPod =
     (let refs = sessionPodRefs sess in
      if extraPod = '''' then refs
      else if list_ex (\<lambda>ref. pr_Name ref = extraPod) refs then refs
      else refs @ [name_ref extraPod])"

definition stopPodsBestEffort :: "'w Service \<Rightarrow> PodRef list \<Rightarrow> ('w, unit) act" where
  "stopPodsBestEffort s pods = ignoreE (or_Stop (svc_orch s) pods) (ret ())"

definition unlockBestEffort :: "'w Service \<Rightarrow> string \<Rightarrow> string \<Rightarrow> ('w, unit) act" where
  "unlockBestEffort s sid token = ignoreE (st_Unlock (svc_store s) sid token) (ret ())"

section \<open>Login slots\<close>

definition staleAuthHolder :: "'w Service \<Rightarrow> string \<Rightarrow> ('w, bool) act" where
  "staleAuthHolder s holder =
     tryE (st_Get (svc_store s) holder)
       (\<lambda>r. case r of
              Inl e \<Rightarrow> if errors_is e (Sentinel ErrNotFound) then ret True else throw e
            | Inr sess \<Rightarrow> ret (State sess = StateSnapshot \<and> Pod sess = ''''))"

definition acquireAuthSlot :: "'w Service \<Rightarrow> string \<Rightarrow> string \<Rightarrow> ('w, int option) act" where
  "acquireAuthSlot s workload sid =
     (case svc_authPools s workload of
        None \<Rightarrow> ret None
      | Some pool \<Rightarrow> bindE (po_Acquire pool sid (staleAuthHolder s)) (\<lambda>slot. ret (Some slot)))"

definition authSlotSignedIn :: "'w Service \<Rightarrow> Session \<Rightarrow> ('w, bool option) act" where
  "authSlotSignedIn s sess =
     (if svc_authPools s (WorkloadType sess) = None \<or> Pod sess = '''' then ret None
      else case ag_AuthSlotSignedIn (svc_agent s) of
             None \<Rightarrow> ret None
           | Some ask \<Rightarrow>
               tryE (ask (Pod sess))
                 (\<lambda>r. case r of Inl _ \<Rightarrow> ret None | Inr signedIn \<Rightarrow> ret (Some signedIn)))"

definition releaseAuthSlotBestEffort ::
  "'w Service \<Rightarrow> string \<Rightarrow> string \<Rightarrow> bool option \<Rightarrow> ('w, unit) act" where
  "releaseAuthSlotBestEffort s workload sid signedIn =
     (case svc_authPools s workload of
        None \<Rightarrow> ret ()
      | Some pool \<Rightarrow> ignoreE (po_Release pool sid signedIn) (ret ()))"

section \<open>Create\<close>

definition Create :: "'w Service \<Rightarrow> CreateRequest \<Rightarrow> ('w, Session) act" where
  "Create s req =
     (let name = TrimSpace (req_Name req) in
      if name = '''' then throw (Sentinel ErrInvalidInput)
      else
      bindE (lift (NormalizeWorkloadType (req_WorkloadType req))) (\<lambda>workload.
      bindE (lift (NormalizeModel workload (req_Model req))) (\<lambda>model.
      bindE (lift (NormalizePlugins workload (req_Plugins req))) (\<lambda>plugins.
      bindE (lift (NormalizeReasoningEffort workload (req_ReasoningEffort req))) (\<lambda>effort.
      bindE (svc_newID s) (\<lambda>sid.
      bindE (acquireAuthSlot s workload sid) (\<lambda>slot.
      let spec = \<lparr>ws_Type = workload, ws_Model = model, ws_Plugins = plugins,
                  ws_ReasoningEffort = effort, ws_AuthSlot = slot\<rparr> in
      defer_with
        (\<lambda>r. case r of
               Inl _ \<Rightarrow> thenE (releaseAuthSlotBestEffort s workload sid None) (lift r)
             | Inr _ \<Rightarrow> lift r)
        (bindE (or_Start (svc_orch s) sid spec) (\<lambda>pods.
         tryE (or_Reach (svc_orch s) (Workload pods)) (\<lambda>reached.
         case reached of
           Inl err \<Rightarrow> ignoreE (or_Stop (svc_orch s) (SessionPods_All pods)) (throw err)
         | Inr _ \<Rightarrow>
           bindE (now_act s) (\<lambda>now.
           let sess = \<lparr>ID = sid, WorkloadType = workload, Model = model, Plugins = plugins,
                       ReasoningEffort = effort, Tenant = req_Tenant req, Name = name,
                       State = StateActive, Pod = pr_Name (Workload pods),
                       AuxiliaryPods = SessionPods_Names pods, CreatedAt = now,
                       LastAccess = now, Checkpoint = None, SnapshotTransaction = None\<rparr> in
           tryE (st_Put (svc_store s) sess) (\<lambda>put.
           case put of
             Inl err \<Rightarrow> ignoreE (or_Stop (svc_orch s) (SessionPods_All pods)) (throw err)
           | Inr _ \<Rightarrow> ret sess))))))))))))"

section \<open>The lease around a lifecycle operation\<close>

text \<open>\<open>errors.Join(retErr, err)\<close>, which drops a nil first argument.\<close>

definition join_result :: "goerr + 'a \<Rightarrow> goerr \<Rightarrow> goerr" where
  "join_result r e = (case r of Inl e0 \<Rightarrow> errors_Join e0 e | Inr _ \<Rightarrow> Errorf ''join'' [e])"

text \<open>The opening lines that \<open>snapshot\<close>, \<open>recoverSnapshot\<close> and \<open>Restore\<close> share: a fresh
  token, the lock, the deferred unlock and the deferred end of the renewal goroutine.\<close>

definition with_lease ::
  "'w Service \<Rightarrow> string \<Rightarrow> (string \<Rightarrow> ('w, 'a) act) \<Rightarrow> ('w, 'a) act" where
  "with_lease s sid body =
     bindE (svc_newID s) (\<lambda>token.
     thenE (st_Lock (svc_store s) sid token)
     (defer_with (\<lambda>r. thenE (unlockBestEffort s sid token) (lift r))
     (defer_with
        (\<lambda>r. tryE (svc_stopRenewal s sid token) (\<lambda>stopped.
               case stopped of Inl err \<Rightarrow> throw (join_result r err) | Inr _ \<Rightarrow> lift r))
        (body token))))"

section \<open>Snapshot transactions\<close>

definition abortSnapshotGenerationWithCheckpointer ::
  "'w Checkpointer \<Rightarrow> string \<Rightarrow> string \<Rightarrow> ('w, unit) act" where
  "abortSnapshotGenerationWithCheckpointer ckpt pod generation =
     ck_AbortCheckpoint ckpt (name_ref pod)
       (Some \<lparr>cp_Ref = '''', cp_SizeBytes = 0, cp_CreatedAt = 0, cp_Reclaimed = '''',
              cp_AbortToken = generation\<rparr>)"

definition abortSnapshotGeneration ::
  "'w Service \<Rightarrow> string \<Rightarrow> string \<Rightarrow> string \<Rightarrow> ('w, unit) act" where
  "abortSnapshotGeneration s workload pod generation =
     (let via_agent =
        (case ag_AbortCheckpoint (svc_agent s) of
           None \<Rightarrow> throw (New ''snapshot generation abort is unavailable'')
         | Some abort \<Rightarrow> abort pod generation) in
      case svc_ckpts s workload of
        None \<Rightarrow> via_agent
      | Some ckpt \<Rightarrow>
          if ck_Enabled ckpt then abortSnapshotGenerationWithCheckpointer ckpt pod generation
          else via_agent)"

definition rollbackPreparingSnapshot ::
  "'w Service \<Rightarrow> Session \<Rightarrow> 'w Checkpointer \<Rightarrow> goerr \<Rightarrow> ('w, 'a) act" where
  "rollbackPreparingSnapshot s sess ckpt cause =
     (case SnapshotTransaction sess of
        None \<Rightarrow> throw cause
      | Some txn \<Rightarrow>
          tryE (abortSnapshotGenerationWithCheckpointer ckpt (SourcePod txn) (Generation txn))
            (\<lambda>r. case r of
               Inl err \<Rightarrow> throw (errors_Join cause err)
             | Inr _ \<Rightarrow>
                 tryE (svc_rollbackCtxErr s) (\<lambda>c. case c of
                   Inl err \<Rightarrow> throw (errors_Join cause err)
                 | Inr _ \<Rightarrow>
                     tryE (st_CompareAndSwapSession (svc_store s) (ID sess) (Owner txn) (State sess)
                             (Some txn) (sess\<lparr>SnapshotTransaction := None\<rparr>))
                       (\<lambda>w. case w of Inl err \<Rightarrow> throw (errors_Join cause err)
                                    | Inr _ \<Rightarrow> throw cause))))"

definition finalizeSnapshotLocked ::
  "'w Service \<Rightarrow> Session \<Rightarrow> string \<Rightarrow> ('w, Session) act" where
  "finalizeSnapshotLocked s sess token =
     thenE (svc_ctxErr s)
     (case SnapshotTransaction sess of
        None \<Rightarrow> throw (Sentinel ErrInvalidState)
      | Some txn \<Rightarrow>
          if Phase txn \<noteq> SnapshotPhaseCommitting \<or> txn_Checkpoint txn = None
          then throw (Sentinel ErrInvalidState)
          else
            let next = sess\<lparr>State := StateSnapshot, Pod := '''', AuxiliaryPods := [],
                            Checkpoint := txn_Checkpoint txn, SnapshotTransaction := None\<rparr> in
            tryE (st_CompareAndSwapSession (svc_store s) (ID sess) token (State sess) (Some txn) next)
              (\<lambda>r. case r of
                 Inr _ \<Rightarrow> ret next
               | Inl err \<Rightarrow>
                   if errors_is err (Sentinel ErrConflict) then
                     tryE (svc_Get s (ID sess)) (\<lambda>g. case g of
                       Inr fresh \<Rightarrow>
                         if State fresh = StateSnapshot \<and> SnapshotTransaction fresh = None
                         then ret fresh else throw err
                     | Inl _ \<Rightarrow> throw err)
                   else throw err))"

text \<open>One activation of \<open>recoverSnapshotLocked\<close>; \<open>again\<close> is its recursive call, which it
  makes only after losing the race for the claim.\<close>

definition recover_step ::
  "(Session \<Rightarrow> ('w, Session) act) \<Rightarrow> 'w Service \<Rightarrow> Session \<Rightarrow> string \<Rightarrow> ('w, Session) act" where
  "recover_step again s sess token =
     (case SnapshotTransaction sess of
        None \<Rightarrow> ret sess
      | Some txn \<Rightarrow>
        thenE (svc_ctxErr s)
        (if Generation txn = '''' \<or> SourcePod txn = '''' then throw (Sentinel ErrInvalidState)
         else if Phase txn = SnapshotPhasePreparing then
           (if State sess = StateSnapshot then throw (Sentinel ErrInvalidState)
            else
              let reopen = (\<lambda>sess' txn'.
                    thenE (abortSnapshotGeneration s (WorkloadType sess') (SourcePod txn')
                             (Generation txn'))
                    (thenE (svc_ctxErr s)
                    (let next = sess'\<lparr>SnapshotTransaction := None\<rparr> in
                     thenE (st_CompareAndSwapSession (svc_store s) (ID sess') token (State sess')
                              (Some txn') next)
                     (ret next)))) in
              if Owner txn \<noteq> token then
                let claimed = txn\<lparr>Owner := token\<rparr>;
                    next = sess\<lparr>SnapshotTransaction := Some claimed\<rparr> in
                tryE (st_CompareAndSwapSession (svc_store s) (ID sess) token (State sess)
                        (Some txn) next)
                  (\<lambda>r. case r of
                     Inl err \<Rightarrow>
                       if errors_is err (Sentinel ErrConflict) then
                         tryE (svc_Get s (ID sess)) (\<lambda>g. case g of
                           Inl getErr \<Rightarrow> throw (errors_Join err getErr)
                         | Inr fresh \<Rightarrow> again fresh)
                       else throw err
                   | Inr _ \<Rightarrow> reopen next claimed)
              else reopen sess txn)
         else if Phase txn = SnapshotPhaseCommitting then
           (case txn_Checkpoint txn of
              None \<Rightarrow> throw (Sentinel ErrInvalidState)
            | Some cp \<Rightarrow>
                if cp_Ref cp = '''' then throw (Sentinel ErrInvalidState)
                else
                  thenE (or_Stop (svc_orch s) (sessionReclaimRefs sess (SourcePod txn)))
                  (thenE (svc_ctxErr s)
                  (bindE (finalizeSnapshotLocked s sess token) (\<lambda>frozen.
                   thenE (releaseAuthSlotBestEffort s (WorkloadType frozen) (ID frozen) None)
                   (ret frozen)))))
         else throw (Sentinel ErrInvalidState)))"

fun recoverSnapshotLocked ::
  "nat \<Rightarrow> 'w Service \<Rightarrow> Session \<Rightarrow> string \<Rightarrow> ('w, Session) act" where
  "recoverSnapshotLocked 0 s sess token = throw FuelExhausted"
| "recoverSnapshotLocked (Suc n) s sess token =
     recover_step (\<lambda>fresh. recoverSnapshotLocked n s fresh token) s sess token"

definition recoverSnapshot :: "'w Service \<Rightarrow> string \<Rightarrow> ('w, Session) act" where
  "recoverSnapshot s sid =
     with_lease s sid (\<lambda>token.
       bindE (svc_Get s sid) (\<lambda>sess. recoverSnapshotLocked (svc_fuel s) s sess token))"

definition snapshotWithTransactionLocked ::
  "'w Service \<Rightarrow> Session \<Rightarrow> string \<Rightarrow> 'w Checkpointer \<Rightarrow> ('w, Session) act" where
  "snapshotWithTransactionLocked s sess generation ckpt =
     (let podRef = name_ref (Pod sess);
          preparing = \<lparr>Generation = generation, Owner = generation, SourcePod = Pod sess,
                       Phase = SnapshotPhasePreparing, txn_Checkpoint = None\<rparr>;
          next = sess\<lparr>SnapshotTransaction := Some preparing\<rparr> in
      thenE (st_CompareAndSwapSession (svc_store s) (ID sess) generation (State sess)
               (SnapshotTransaction sess) next)
      (thenE (svc_ctxErr s)
      (tryE (ck_CheckpointWithGeneration ckpt podRef generation) (\<lambda>taken.
       case taken of
         Inl err \<Rightarrow>
           tryE (svc_ctxErr s) (\<lambda>c. case c of
             Inl _ \<Rightarrow> throw err
           | Inr _ \<Rightarrow> rollbackPreparingSnapshot s next ckpt err)
       | Inr cp \<Rightarrow>
           thenE (svc_ctxErr s)
           (let committing = preparing\<lparr>Phase := SnapshotPhaseCommitting, txn_Checkpoint := cp\<rparr>;
                next2 = next\<lparr>SnapshotTransaction := Some committing\<rparr> in
            tryE (st_CompareAndSwapSession (svc_store s) (ID next) generation (State next)
                    (Some preparing) next2) (\<lambda>swapped.
            case swapped of
              Inl err \<Rightarrow>
                if errors_is err (Sentinel ErrConflict)
                then rollbackPreparingSnapshot s next ckpt err else throw err
            | Inr _ \<Rightarrow>
                thenE (svc_ctxErr s)
                (bindE (authSlotSignedIn s next2) (\<lambda>signedIn.
                 thenE (or_Stop (svc_orch s) (sessionPodRefs next2))
                 (bindE (finalizeSnapshotLocked s next2 generation) (\<lambda>frozen.
                  thenE (releaseAuthSlotBestEffort s (WorkloadType frozen) (ID frozen) signedIn)
                  (ret frozen)))))))))))"

definition holdingForApproval :: "'w Service \<Rightarrow> Session \<Rightarrow> ('w, bool) act" where
  "holdingForApproval s sess =
     (if \<not> HasApprovalGate (WorkloadType sess) \<or> Pod sess = '''' then ret False
      else case ag_AwaitingApproval (svc_agent s) of
             None \<Rightarrow> ret False
           | Some ask \<Rightarrow>
               tryE (ask (Pod sess)) (\<lambda>r. case r of Inl _ \<Rightarrow> ret False | Inr b \<Rightarrow> ret b))"

text \<open>\<open>snapshot\<close>: the result pairs the session with the \<open>*snapshotted\<close> flag, which the
  callers only read when there is no error.\<close>

definition snapshot :: "'w Service \<Rightarrow> string \<Rightarrow> time option \<Rightarrow> ('w, Session \<times> bool) act" where
  "snapshot s sid idleCutoff =
     with_lease s sid (\<lambda>token.
       bindE (svc_Get s sid) (\<lambda>sess0.
       bindE (if SnapshotTransaction sess0 \<noteq> None
              then recoverSnapshotLocked (svc_fuel s) s sess0 token else ret sess0) (\<lambda>sess1.
       let freeze = (\<lambda>sess.
             if State sess = StateSnapshot then ret (sess, False)
             else
               bindE (lift (checkpointerFor s (WorkloadType sess))) (\<lambda>ckpt.
               bindE (snapshotWithTransactionLocked s sess token ckpt) (\<lambda>frozen.
               ret (frozen, True)))) in
       case idleCutoff of
         None \<Rightarrow> freeze sess1
       | Some cutoff \<Rightarrow>
           bindE (svc_Get s sid) (\<lambda>sess.
           if LastAccess sess > cutoff then ret (sess, False)
           else
             bindE (holdingForApproval s sess) (\<lambda>holding.
             if holding then bindE (touchGet s sid) (\<lambda>touched. ret (touched, False))
             else freeze sess)))))"

definition Snapshot :: "'w Service \<Rightarrow> string \<Rightarrow> ('w, Session) act" where
  "Snapshot s sid = bindE (snapshot s sid None) (\<lambda>(sess, _). ret sess)"

definition SnapshotIfIdle :: "'w Service \<Rightarrow> string \<Rightarrow> time \<Rightarrow> ('w, Session \<times> bool) act" where
  "SnapshotIfIdle s sid cutoff = snapshot s sid (Some cutoff)"

section \<open>Restore\<close>

text \<open>From the provisioned pods to the committed record. The first component is the
  \<open>keepSlot\<close> flag that the deferred slot release reads.\<close>

definition restore_commit ::
  "'w Service \<Rightarrow> string \<Rightarrow> string \<Rightarrow> Session \<Rightarrow> string \<Rightarrow> SessionPods \<Rightarrow>
   ('w, bool \<times> (goerr + Session)) act" where
  "restore_commit s sid token sess model pods =
     bindE (now_act s) (\<lambda>now.
     let next = sess\<lparr>State := StateActive, Pod := pr_Name (Workload pods),
                     AuxiliaryPods := SessionPods_Names pods, Model := model,
                     Checkpoint := None, LastAccess := now\<rparr> in
     tryE (st_CompareAndSwapSession (svc_store s) sid token StateSnapshot
             (SnapshotTransaction sess) next) (\<lambda>swapped.
     case swapped of
       Inr _ \<Rightarrow> ret (True, Inr next)
     | Inl err \<Rightarrow>
         tryE (svc_Get s sid) (\<lambda>got.
         case got of
           Inr fresh \<Rightarrow>
             if State fresh = StateActive \<and> Pod fresh = pr_Name (Workload pods) \<and>
                Checkpoint fresh = None \<and> SnapshotTransaction fresh = None
             then ret (True, Inr fresh)
             else thenE (stopPodsBestEffort s (SessionPods_All pods))
                    (ret (False, Inl (Errorf ''join'' [err])))
         | Inl getErr \<Rightarrow>
             if errors_is err (Sentinel ErrConflict) \<or> errors_is getErr (Sentinel ErrNotFound)
             then thenE (stopPodsBestEffort s (SessionPods_All pods))
                    (ret (False, Inl (errors_Join err getErr)))
             else ret (True, Inl (errors_Join err getErr)))))"

text \<open>From the leased slot to \<open>restore_commit\<close>: each failure stops the pods started here.\<close>

definition restore_pods ::
  "'w Service \<Rightarrow> string \<Rightarrow> string \<Rightarrow> Session \<Rightarrow> string \<Rightarrow> WorkloadSpec \<Rightarrow> 'w Checkpointer \<Rightarrow>
   ('w, bool \<times> (goerr + Session)) act" where
  "restore_pods s sid token sess model spec ckpt =
     tryE (or_RestoreInto (svc_orch s) sid (checkpointRef (Checkpoint sess)) spec) (\<lambda>started.
     case started of
       Inl err \<Rightarrow> ret (False, Inl err)
     | Inr pods \<Rightarrow>
         let give_up = (\<lambda>err. thenE (stopPodsBestEffort s (SessionPods_All pods))
                                 (ret (False, Inl err))) in
         tryE (svc_ctxErr s) (\<lambda>c1. case c1 of Inl err \<Rightarrow> give_up err | Inr _ \<Rightarrow>
         tryE (ck_Restore ckpt (Checkpoint sess) (Workload pods)) (\<lambda>r1.
           case r1 of Inl err \<Rightarrow> give_up err | Inr _ \<Rightarrow>
         tryE (svc_ctxErr s) (\<lambda>c2. case c2 of Inl err \<Rightarrow> give_up err | Inr _ \<Rightarrow>
         tryE (or_Reach (svc_orch s) (Workload pods)) (\<lambda>r2.
           case r2 of Inl err \<Rightarrow> give_up err | Inr _ \<Rightarrow>
         tryE (svc_ctxErr s) (\<lambda>c3. case c3 of Inl err \<Rightarrow> give_up err | Inr _ \<Rightarrow>
         restore_commit s sid token sess model pods))))))"

definition Restore :: "'w Service \<Rightarrow> string \<Rightarrow> ('w, Session) act" where
  "Restore s sid =
     with_lease s sid (\<lambda>token.
       bindE (svc_Get s sid) (\<lambda>sess0.
       bindE (if SnapshotTransaction sess0 \<noteq> None
              then recoverSnapshotLocked (svc_fuel s) s sess0 token else ret sess0) (\<lambda>sess.
       if State sess \<noteq> StateSnapshot then ret sess
       else
       bindE (lift (NormalizeStoredWorkloadType (WorkloadType sess))) (\<lambda>workload.
       bindE (lift (NormalizeModel workload (Model sess))) (\<lambda>model.
       bindE (lift (NormalizePlugins workload (Plugins sess))) (\<lambda>plugins.
       bindE (lift (NormalizeReasoningEffort workload (ReasoningEffort sess))) (\<lambda>effort.
       bindE (lift (checkpointerFor s workload)) (\<lambda>ckpt.
       thenE (svc_ctxErr s)
       (bindE (acquireAuthSlot s workload sid) (\<lambda>slot.
        let spec = \<lparr>ws_Type = workload, ws_Model = model, ws_Plugins = plugins,
                    ws_ReasoningEffort = effort, ws_AuthSlot = slot\<rparr> in
        bindE (restore_pods s sid token sess model spec ckpt) (\<lambda>(keepSlot, result).
        if keepSlot then lift result
        else thenE (releaseAuthSlotBestEffort s workload sid None) (lift result))))))))))))"

section \<open>Access\<close>

definition activate :: "'w Service \<Rightarrow> string \<Rightarrow> ('w, Session \<times> string) act" where
  "activate s sid =
     bindE (svc_Get s sid) (\<lambda>sess0.
     bindE (if SnapshotTransaction sess0 \<noteq> None then recoverSnapshot s sid else ret sess0)
       (\<lambda>sess.
     if State sess = StateActive then ret (sess, ''active'')
     else if State sess = StateIdle then
       thenE (st_CompareAndSwapState (svc_store s) sid StateIdle StateActive)
       (bindE (svc_Get s sid) (\<lambda>sess'. ret (sess', ''idle->active'')))
     else if State sess = StateSnapshot then
       bindE (Restore s sid) (\<lambda>sess'. ret (sess', ''snapshot->restore''))
     else throw (Sentinel ErrInvalidState)))"

definition svc_Read :: "'w Service \<Rightarrow> string \<Rightarrow> int \<Rightarrow> ('w, ReadResult) act" where
  "svc_Read s sid offset =
     bindE (activate s sid) (\<lambda>(sess, branch).
     bindE (ag_Read (svc_agent s) (Pod sess) offset) (\<lambda>(payload, next).
     thenE (touch s sid)
     (ret \<lparr>rr_Session = sess, rr_Path = dispatchPath branch ''read'', rr_Payload = payload,
           rr_NextOffset = next\<rparr>)))"

definition svc_Stream :: "'w Service \<Rightarrow> string \<Rightarrow> int \<Rightarrow> ('w, string) act" where
  "svc_Stream s sid offset =
     bindE (svc_Get s sid) (\<lambda>sess.
     if State sess = StateSnapshot \<or> Pod sess = '''' then throw (Sentinel ErrInvalidState)
     else ag_Stream (svc_agent s) (Pod sess) offset)"

definition svc_Write :: "'w Service \<Rightarrow> string \<Rightarrow> string \<Rightarrow> ('w, WriteResult) act" where
  "svc_Write s sid payload =
     bindE (svc_Get s sid) (\<lambda>current.
     if QueuesPrompts (WorkloadType current) \<and> length payload > MaxClaudePromptBytes
     then throw (Sentinel ErrWorkloadPromptTooLarge)
     else
       bindE (activate s sid) (\<lambda>(sess, branch).
       thenE (ag_Write (svc_agent s) (Pod sess) payload)
       (thenE (touch s sid)
       (ret \<lparr>wr_Session = sess, wr_Path = dispatchPath branch ''write''\<rparr>))))"

record PluginRefreshResult =
  pf_Session :: Session
  pf_Path :: string
  pf_Changes :: PluginChanges

definition RefreshPlugins :: "'w Service \<Rightarrow> string \<Rightarrow> ('w, PluginRefreshResult) act" where
  "RefreshPlugins s sid =
     bindE (svc_Get s sid) (\<lambda>current.
     if \<not> IsCodex (WorkloadType current)
     then throw (Errorf ''plugin refresh is offered for codex-chat and codex-task sessions only''
                   [Sentinel ErrInvalidState])
     else
       bindE (activate s sid) (\<lambda>(sess, branch).
       bindE (ag_RefreshPlugins (svc_agent s) (Pod sess)) (\<lambda>changes.
       thenE (touch s sid)
       (ret \<lparr>pf_Session = sess, pf_Path = dispatchPath branch ''refresh-plugins'',
             pf_Changes = changes\<rparr>))))"

definition Switch :: "'w Service \<Rightarrow> string \<Rightarrow> ('w, Session) act" where
  "Switch s sid =
     bindE (activate s sid) (\<lambda>(sess, branch).
     if branch = ''idle->active'' then touchGet s sid else ret sess)"

section \<open>Terminate\<close>

fun stop_each :: "'w Service \<Rightarrow> PodRef list \<Rightarrow> ('w, unit) act" where
  "stop_each s [] = ret ()"
| "stop_each s (ref # refs) =
     (if pr_Name ref = '''' then stop_each s refs
      else thenE (or_Stop (svc_orch s) [ref]) (thenE (svc_ctxErr s) (stop_each s refs)))"

definition terminate_locked :: "'w Service \<Rightarrow> string \<Rightarrow> string \<Rightarrow> ('w, unit) act" where
  "terminate_locked s sid token =
     bindE (svc_Get s sid) (\<lambda>sess0.
     bindE (case SnapshotTransaction sess0 of
              None \<Rightarrow> ret sess0
            | Some txn \<Rightarrow>
                let next = sess0\<lparr>SnapshotTransaction := Some (txn\<lparr>Owner := token\<rparr>)\<rparr> in
                thenE (st_CompareAndSwapSession (svc_store s) sid token (State sess0) (Some txn) next)
                (ret next)) (\<lambda>sess.
     let sourcePod = (case SnapshotTransaction sess of None \<Rightarrow> '''' | Some txn \<Rightarrow> SourcePod txn) in
     bindE (authSlotSignedIn s sess) (\<lambda>signedIn.
     thenE (stop_each s (sessionReclaimRefs sess sourcePod))
     (thenE (st_Delete (svc_store s) sid token)
     (releaseAuthSlotBestEffort s (WorkloadType sess) sid signedIn)))))"

text \<open>A renewal failure is dropped once the delete has committed, which is exactly when
  \<open>terminate_locked\<close> returns no error.\<close>

definition Terminate :: "'w Service \<Rightarrow> string \<Rightarrow> ('w, unit) act" where
  "Terminate s sid =
     bindE (svc_newID s) (\<lambda>token.
     thenE (st_Lock (svc_store s) sid token)
     (defer_with (\<lambda>r. thenE (unlockBestEffort s sid token) (lift r))
     (defer_with
        (\<lambda>r. tryE (svc_stopRenewal s sid token) (\<lambda>stopped.
               case stopped of
                 Inl err \<Rightarrow> (case r of Inl _ \<Rightarrow> throw (join_result r err) | Inr _ \<Rightarrow> lift r)
               | Inr _ \<Rightarrow> lift r))
        (terminate_locked s sid token))))"

section \<open>The idle reaper\<close>

text \<open>\<open>service/reaper.go\<close>, over the guarded \<open>SnapshotIfIdle\<close> that \<open>Service\<close> offers.\<close>

fun scan_loop :: "'w Service \<Rightarrow> duration \<Rightarrow> time \<Rightarrow> nat \<Rightarrow> Session list \<Rightarrow> ('w, nat) act" where
  "scan_loop s maxIdle now snapshotted [] = ret snapshotted"
| "scan_loop s maxIdle now snapshotted (sess # rest) =
     (if State sess = StateSnapshot then scan_loop s maxIdle now snapshotted rest
      else if IdleFor sess now < maxIdle then scan_loop s maxIdle now snapshotted rest
      else tryE (SnapshotIfIdle s (ID sess) (now - maxIdle)) (\<lambda>r.
             case r of
               Inl _ \<Rightarrow> scan_loop s maxIdle now snapshotted rest
             | Inr (_, didSnapshot) \<Rightarrow>
                 scan_loop s maxIdle now (if didSnapshot then Suc snapshotted else snapshotted) rest))"

definition ScanOnce :: "'w Service \<Rightarrow> duration \<Rightarrow> ('w, nat) act" where
  "ScanOnce s maxIdle =
     bindE (svc_List s) (\<lambda>sessions.
     bindE (now_act s) (\<lambda>now. scan_loop s maxIdle now 0 sessions))"

end
