(* ===== verification/Service_Trace.thy ===== *)
theory Service_Trace
  imports Service
begin

text \<open>
  Properties of the service as properties of the log of its port calls. They hold for every
  implementation of the ports, so for every interleaving with other replicas, every lost
  response and every error: the world behind the ports is arbitrary. A property is a monitor,
  a state folded over the log.
\<close>

section \<open>Instrumented ports\<close>

lemma instrument_sel [simp]:
  "svc_orch (instrument s) = log_orch (svc_orch s)"
  "svc_store (instrument s) = log_store (svc_store s)"
  "svc_ckpts (instrument s) t = map_option log_ckpt (svc_ckpts s t)"
  "svc_agent (instrument s) = log_client (svc_agent s)"
  "svc_authPools (instrument s) t = map_option log_pool (svc_authPools s t)"
  "svc_now (instrument s) = quiet (svc_now s)"
  "svc_newID (instrument s) = quiet (svc_newID s)"
  "svc_ctxErr (instrument s) = quiet (svc_ctxErr s)"
  "svc_rollbackCtxErr (instrument s) = quiet (svc_rollbackCtxErr s)"
  "svc_stopRenewal (instrument s) i t = quiet (svc_stopRenewal s i t)"
  "svc_fuel (instrument s) = svc_fuel s"
  by (simp_all add: instrument_def)

lemma log_store_sel [simp]:
  "st_Put (log_store st) x = logged (EvPut x) (st_Put st x)"
  "st_Get (log_store st) i = logged (EvGet i) (st_Get st i)"
  "st_List (log_store st) = logged EvList (st_List st)"
  "st_Delete (log_store st) i t = logged (EvDelete i t) (st_Delete st i t)"
  "st_Touch (log_store st) i at = logged (EvTouch i at) (st_Touch st i at)"
  "st_CompareAndSwapState (log_store st) i a b =
     logged (EvCasState i a b) (st_CompareAndSwapState st i a b)"
  "st_CompareAndSwapSession (log_store st) i t e xt n =
     logged (EvCas i t e xt n) (st_CompareAndSwapSession st i t e xt n)"
  "st_Lock (log_store st) i t = logged (EvLock i t) (st_Lock st i t)"
  "st_Unlock (log_store st) i t = logged (EvUnlock i t) (st_Unlock st i t)"
  by (simp_all add: log_store_def)

lemma log_orch_sel [simp]:
  "or_Start (log_orch p) i sp = logged (EvStart i sp) (or_Start p i sp)"
  "or_Stop (log_orch p) rs = logged (EvStop rs) (or_Stop p rs)"
  "or_RestoreInto (log_orch p) i cr sp = logged (EvRestoreInto i cr sp) (or_RestoreInto p i cr sp)"
  "or_Reach (log_orch p) r = logged (EvReach r) (or_Reach p r)"
  by (simp_all add: log_orch_def)

lemma log_ckpt_sel [simp]:
  "ck_Enabled (log_ckpt c) = ck_Enabled c"
  "ck_CheckpointWithGeneration (log_ckpt c) r g =
     logged (EvCheckpoint r g) (ck_CheckpointWithGeneration c r g)"
  "ck_AbortCheckpoint (log_ckpt c) r cp = logged (EvAbort r cp) (ck_AbortCheckpoint c r cp)"
  "ck_Restore (log_ckpt c) cp r = logged (EvCkptRestore cp r) (ck_Restore c cp r)"
  by (simp_all add: log_ckpt_def)

lemma log_client_sel [simp]:
  "ag_Write (log_client a) p y = logged (EvWrite p y) (ag_Write a p y)"
  "ag_Read (log_client a) p n = logged (EvRead p n) (ag_Read a p n)"
  "ag_Stream (log_client a) p n = logged (EvStream p n) (ag_Stream a p n)"
  "ag_RefreshPlugins (log_client a) p = logged (EvRefresh p) (ag_RefreshPlugins a p)"
  "ag_AbortCheckpoint (log_client a) =
     map_option (\<lambda>f p g. logged (EvAgentAbort p g) (f p g)) (ag_AbortCheckpoint a)"
  "ag_AwaitingApproval (log_client a) =
     map_option (\<lambda>f p. logged (EvAwaiting p) (f p)) (ag_AwaitingApproval a)"
  "ag_AuthSlotSignedIn (log_client a) =
     map_option (\<lambda>f p. logged (EvSignedIn p) (f p)) (ag_AuthSlotSignedIn a)"
  by (simp_all add: log_client_def)

lemma log_pool_sel [simp]:
  "po_Acquire (log_pool p) i stale =
     logged (EvAcquire i) (po_Acquire p i (\<lambda>h. unlogged (stale h)))"
  "po_Release (log_pool p) i b = logged (EvRelease i b) (po_Release p i b)"
  by (simp_all add: log_pool_def)

lemma checkpointerFor_instrument:
  "checkpointerFor (instrument s) w = map_sum (\<lambda>e. e) log_ckpt (checkpointerFor s w)"
  by (auto simp: checkpointerFor_def split: sum.splits option.splits)

lemma map_sum_Inl_Inr [simp]:
  "map_sum f g x = Inr y \<longleftrightarrow> (\<exists>z. x = Inr z \<and> y = g z)"
  "map_sum f g x = Inl e \<longleftrightarrow> (\<exists>d. x = Inl d \<and> e = f d)"
  by (cases x; auto)+

text \<open>The clock.\<close>

lemma wp_now_any [wp_ports]:
  "(\<And>t w'. Q (Inr t) (w', snd wl)) \<Longrightarrow> wp (now_act (instrument s)) Q wl"
  by (simp add: wp_def now_act_def quiet_def split: prod.splits)

text \<open>Sub-procedures of a body are opened by their definitions.\<close>

lemmas small_defs =
  svc_Get_def svc_List_def touch_def touchGet_def stopPodsBestEffort_def unlockBestEffort_def
  acquireAuthSlot_def authSlotSignedIn_def releaseAuthSlotBestEffort_def
  abortSnapshotGenerationWithCheckpointer_def abortSnapshotGeneration_def
  holdingForApproval_def

section \<open>A frame rule for logs\<close>

text \<open>\<open>only P m\<close>: every event \<open>m\<close> logs satisfies \<open>P\<close>, and \<open>m\<close> only appends.\<close>

definition only :: "(event \<Rightarrow> bool) \<Rightarrow> ('w \<times> log, 'a) act \<Rightarrow> bool" where
  "only P m = (\<forall>w l. wp m (\<lambda>r (w', l'). \<exists>es. l' = l @ es \<and> list_all P es) (w, l))"

named_theorems only_intros \<open>structural rules for logs\<close>

lemma onlyI: "(\<And>w l. wp m (\<lambda>r (w', l'). \<exists>es. l' = l @ es \<and> list_all P es) (w, l)) \<Longrightarrow> only P m"
  by (simp add: only_def)

lemma onlyD: "only P m \<Longrightarrow> wp m (\<lambda>r wl'. \<exists>es. snd wl' = snd wl @ es \<and> list_all P es) wl"
  by (cases wl) (auto simp: only_def wp_def split: prod.splits)

lemma only_mono:
  assumes "only P m" "\<And>e. P e \<Longrightarrow> Q e"
  shows "only Q m"
proof (rule onlyI, rule wp_mono [OF onlyD [OF assms(1)]])
  fix w l r wl'
  assume "\<exists>es. snd wl' = snd (w, l) @ es \<and> list_all P es"
  then show "case wl' of (w', l') \<Rightarrow> \<exists>es. l' = l @ es \<and> list_all Q es"
    using assms(2) by (cases wl') (auto simp: list_all_iff)
qed

lemma only_ret [only_intros]: "only P (ret x)" "only P (throw e)" "only P (lift r)"
  by (auto simp: only_def wp_simps)

lemma only_quiet [only_intros]: "only P (quiet m)"
  by (auto simp: only_def intro!: wp_ports)

lemma only_now [only_intros]: "only P (now_act (instrument s))"
  by (auto simp: only_def intro!: wp_ports)

lemma only_logged [only_intros]: "(\<And>r. P (ev r)) \<Longrightarrow> only P (logged ev m)"
  by (auto simp: only_def intro!: wp_ports)

lemma only_tryE [only_intros]:
  fixes m :: "('w \<times> log, 'a) act"
  assumes "only P m" "\<And>r. only P (f r)"
  shows "only P (tryE m f)"
proof (rule onlyI)
  fix w :: 'w and l :: log
  show "wp (tryE m f) (\<lambda>r (w', l'). \<exists>es. l' = l @ es \<and> list_all P es) (w, l)"
    unfolding wp_tryE
  proof (rule wp_mono [OF onlyD [OF assms(1)]])
    fix r and wl' :: "'w \<times> log"
    assume "\<exists>es. snd wl' = snd (w, l) @ es \<and> list_all P es"
    then obtain es where es: "snd wl' = l @ es" "list_all P es" by auto
    show "wp (f r) (\<lambda>r (w', l'). \<exists>es. l' = l @ es \<and> list_all P es) wl'"
      by (rule wp_mono [OF onlyD [OF assms(2)]]) (use es in force)
  qed
qed

lemma only_bindE [only_intros]:
  assumes "only P m" "\<And>x. only P (f x)"
  shows "only P (bindE m f)"
proof -
  have "bindE m f = tryE m (\<lambda>r. case r of Inl e \<Rightarrow> throw e | Inr x \<Rightarrow> f x)"
    by (rule ext) (simp add: bindE_def tryE_def throw_def split: prod.splits sum.splits)
  moreover have "only P (case r of Inl e \<Rightarrow> throw e | Inr x \<Rightarrow> f x)" for r
    by (cases r) (simp_all add: assms(2) only_ret)
  ultimately show ?thesis using only_tryE [OF assms(1)] by metis
qed

lemma only_thenE [only_intros]: "only P m \<Longrightarrow> only P k \<Longrightarrow> only P (thenE m k)"
  unfolding thenE_def by (rule only_bindE)

lemma only_ignoreE [only_intros]: "only P m \<Longrightarrow> only P k \<Longrightarrow> only P (ignoreE m k)"
  unfolding ignoreE_def by (rule only_tryE)

lemma only_defer_with [only_intros]:
  "only P m \<Longrightarrow> (\<And>r. only P (d r)) \<Longrightarrow> only P (defer_with d m)"
  unfolding defer_with_def by (rule only_tryE)

lemma only_if [only_intros]: "only P m \<Longrightarrow> only P n \<Longrightarrow> only P (if b then m else n)"
  by simp

lemma only_sum [only_intros]:
  "(\<And>e. only P (f e)) \<Longrightarrow> (\<And>x. only P (g x)) \<Longrightarrow> only P (case r of Inl e \<Rightarrow> f e | Inr x \<Rightarrow> g x)"
  by (cases r) auto

lemma only_option [only_intros]:
  "only P m \<Longrightarrow> (\<And>x. only P (g x)) \<Longrightarrow> only P (case r of None \<Rightarrow> m | Some x \<Rightarrow> g x)"
  by (cases r) auto

lemma only_prod [only_intros]: "(\<And>x y. only P (g x y)) \<Longrightarrow> only P (case p of (x, y) \<Rightarrow> g x y)"
  by (cases p) auto

lemma only_Let [only_intros]: "only P (f x) \<Longrightarrow> only P (let y = x in f y)"
  by simp

end
