(* ===== verification/Snapshot_Protocol.thy ===== *)
theory Snapshot_Protocol
  imports Service_Trace
begin

text \<open>
  The crash-recoverable archive transaction of \<open>snapshot\<close>, \<open>recoverSnapshot\<close> and their
  helpers, as a protocol on the log: pods are reclaimed only behind a durable commit decision.
\<close>

section \<open>The commit monitor\<close>

text \<open>A record that recovery may complete: committing, with an archive reference.\<close>

definition recoverable_commit :: "Session \<Rightarrow> bool" where
  "recoverable_commit sess =
     (case SnapshotTransaction sess of
        None \<Rightarrow> False
      | Some txn \<Rightarrow> Phase txn = SnapshotPhaseCommitting \<and>
          (case txn_Checkpoint txn of None \<Rightarrow> False | Some cp \<Rightarrow> cp_Ref cp \<noteq> ''''))"

text \<open>A written record that commits exactly the archive the checkpointer has just returned.\<close>

definition commits_archive :: "Checkpoint option option \<Rightarrow> Session \<Rightarrow> bool" where
  "commits_archive taken sess =
     (case SnapshotTransaction sess of
        None \<Rightarrow> False
      | Some txn \<Rightarrow> Phase txn = SnapshotPhaseCommitting \<and> taken = Some (txn_Checkpoint txn))"

record commit_state =
  taken :: "Checkpoint option option"
  durable :: bool
  guarded :: bool

definition commit_step :: "commit_state \<Rightarrow> event \<Rightarrow> commit_state" where
  "commit_step m e =
     (case e of
        EvCheckpoint _ _ (Inr cp) \<Rightarrow> m\<lparr>taken := Some cp\<rparr>
      | EvCas _ _ _ _ n (Inr _) \<Rightarrow> m\<lparr>durable := commits_archive (taken m) n\<rparr>
      | EvGet _ (Inr sess) \<Rightarrow> m\<lparr>durable := recoverable_commit sess\<rparr>
      | EvStop _ _ \<Rightarrow> m\<lparr>guarded := guarded m \<and> durable m\<rparr>
      | _ \<Rightarrow> m)"

definition commit_run :: "log \<Rightarrow> commit_state" where
  "commit_run l = foldl commit_step \<lparr>taken = None, durable = False, guarded = True\<rparr> l"

text \<open>Every \<open>Stop\<close> in the log came after the commit decision had been made durable.\<close>

definition stops_guarded :: "log \<Rightarrow> bool" where
  "stops_guarded l = guarded (commit_run l)"

lemma commit_run_Nil [simp]: "guarded (commit_run [])"
  by (simp add: commit_run_def)

lemma commit_run_append [simp]: "commit_run (l @ es) = foldl commit_step (commit_run l) es"
  by (simp add: commit_run_def)

lemma commit_run_Cons [simp]:
  "commit_run (e # es) = foldl commit_step (commit_step (commit_run []) e) es"
  by (simp add: commit_run_def)

lemma commit_step_simps [simp]:
  "commit_step m (EvCheckpoint pr g (Inr cp)) = m\<lparr>taken := Some cp\<rparr>"
  "commit_step m (EvCheckpoint pr g (Inl er)) = m"
  "commit_step m (EvCas i t x y n (Inr u)) = m\<lparr>durable := commits_archive (taken m) n\<rparr>"
  "commit_step m (EvCas i t x y n (Inl er)) = m"
  "commit_step m (EvGet i (Inr sess)) = m\<lparr>durable := recoverable_commit sess\<rparr>"
  "commit_step m (EvGet i (Inl er)) = m"
  "commit_step m (EvStop rs r1) = m\<lparr>guarded := guarded m \<and> durable m\<rparr>"
  "commit_step m (EvLock i t r1) = m"
  "commit_step m (EvUnlock i t r1) = m"
  "commit_step m (EvSignedIn p r2) = m"
  "commit_step m (EvRelease i sg r1) = m"
  "commit_step m (EvTouch i at r1) = m"
  "commit_step m (EvAwaiting p r2) = m"
  by (simp_all add: commit_step_def)

definition no_stop :: "event \<Rightarrow> bool" where
  "no_stop e = (case e of EvStop _ _ \<Rightarrow> False | _ \<Rightarrow> True)"

lemma guarded_no_stop: "list_all no_stop es \<Longrightarrow> guarded (foldl commit_step m es) = guarded m"
proof (induction es arbitrary: m)
  case (Cons e es)
  then have "guarded (commit_step m e) = guarded m"
    by (simp add: commit_step_def no_stop_def split: event.splits sum.splits)
  with Cons show ?case by simp
qed simp

lemma wp_no_stop:
  assumes "only no_stop m"
  shows "wp m (\<lambda>r wl'. guarded (commit_run (snd wl')) = guarded (commit_run (snd wl))) wl"
  by (rule wp_mono [OF onlyD [OF assms]]) (auto simp: commit_run_def guarded_no_stop)

section \<open>Helpers that never stop a pod\<close>

lemma only_svc_Get: "(\<And>r. P (EvGet i r)) \<Longrightarrow> only P (svc_Get (instrument s) i)"
  by (auto simp: svc_Get_def intro!: only_intros)

lemma only_release: "(\<And>i b r. P (EvRelease i b r)) \<Longrightarrow>
  only P (releaseAuthSlotBestEffort (instrument s) w i b)"
  by (cases "svc_authPools s w") (auto simp: releaseAuthSlotBestEffort_def intro!: only_intros)

lemma only_signedIn:
  "(\<And>p r. P (EvSignedIn p r)) \<Longrightarrow> only P (authSlotSignedIn (instrument s) sess)"
  by (cases "ag_AuthSlotSignedIn (svc_agent s)")
    (auto simp: authSlotSignedIn_def intro!: only_intros)

lemma only_abort:
  "(\<And>r cp x. P (EvAbort r cp x)) \<Longrightarrow> (\<And>p g x. P (EvAgentAbort p g x)) \<Longrightarrow>
   only P (abortSnapshotGeneration (instrument s) w p g)"
  by (auto simp: abortSnapshotGeneration_def abortSnapshotGenerationWithCheckpointer_def Let_def
      split: option.splits intro!: only_intros)

lemma only_rollback:
  "(\<And>r cp x. P (EvAbort r cp x)) \<Longrightarrow>
   (\<And>txn e x n y. SnapshotTransaction sess = Some txn \<Longrightarrow> P (EvCas (ID sess) (Owner txn) e x n y)) \<Longrightarrow>
   only P (rollbackPreparingSnapshot (instrument s) sess (log_ckpt c) cause)"
  by (auto simp: rollbackPreparingSnapshot_def abortSnapshotGenerationWithCheckpointer_def
      split: option.splits intro!: only_intros)

lemma only_finalize:
  "(\<And>i e x n y. P (EvCas i token e x n y)) \<Longrightarrow> (\<And>i r. P (EvGet i r)) \<Longrightarrow>
   only P (finalizeSnapshotLocked (instrument s) sess token)"
  by (auto simp: finalizeSnapshotLocked_def Let_def svc_Get_def intro!: only_intros)

lemma no_stop_simps [simp]:
  "no_stop (EvGet i r2)" "no_stop (EvRelease i b r1)" "no_stop (EvSignedIn p r3)"
  "no_stop (EvAbort pr cp r1)" "no_stop (EvAgentAbort p g r1)" "no_stop (EvCas i t e x n r1)"
  "no_stop (EvLock i t r1)" "no_stop (EvUnlock i t r1)" "no_stop (EvTouch i at r1)"
  "no_stop (EvAwaiting p r3)" "no_stop (EvCheckpoint pr g r4)"
  by (simp_all add: no_stop_def)

section \<open>Recovery and snapshot keep the guard\<close>

lemma wp_guarded:
  assumes "only no_stop m" "guarded (commit_run (snd wl))"
    and "\<And>r wl'. guarded (commit_run (snd wl')) \<Longrightarrow> Q r wl'"
  shows "wp m Q wl"
  using wp_no_stop [OF assms(1)] by (rule wp_mono) (use assms(2,3) in simp)

lemma wp_inert:
  assumes "only (\<lambda>e. \<forall>m. commit_step m e = m) m"
    and "\<And>r wl'. commit_run (snd wl') = commit_run (snd wl) \<Longrightarrow> Q r wl'"
  shows "wp m Q wl"
proof -
  have "list_all (\<lambda>e. \<forall>m. commit_step m e = m) es \<Longrightarrow> foldl commit_step c es = c" for c es
    by (induction es arbitrary: c) auto
  then show ?thesis
    by (intro wp_mono [OF onlyD [OF assms(1)]]) (auto intro: assms(2))
qed

lemmas wp_helpers =
  wp_guarded [OF only_abort] wp_guarded [OF only_rollback] wp_guarded [OF only_finalize]
  wp_guarded [OF only_release] wp_inert [OF only_signedIn]

lemma wp_svc_Get:
  "(\<And>e w'. Q (Inl e) (w', snd wl @ [EvGet i (Inl e)])) \<Longrightarrow>
   (\<And>sess e w'. normalizeStoredSession sess = Inl e \<Longrightarrow>
      Q (Inl e) (w', snd wl @ [EvGet i (Inr sess)])) \<Longrightarrow>
   (\<And>sess sess' w'. normalizeStoredSession sess = Inr sess' \<Longrightarrow>
      Q (Inr sess') (w', snd wl @ [EvGet i (Inr sess)])) \<Longrightarrow>
   wp (svc_Get (instrument s) i) Q wl"
  unfolding svc_Get_def wp_bindE instrument_sel log_store_sel
proof (rule wp_logged_any)
  fix r w'
  assume 1: "\<And>e w'. Q (Inl e) (w', snd wl @ [EvGet i (Inl e)])"
    and 2: "\<And>sess e w'. normalizeStoredSession sess = Inl e \<Longrightarrow>
      Q (Inl e) (w', snd wl @ [EvGet i (Inr sess)])"
    and 3: "\<And>sess sess' w'. normalizeStoredSession sess = Inr sess' \<Longrightarrow>
      Q (Inr sess') (w', snd wl @ [EvGet i (Inr sess)])"
  show "(case r of Inl e \<Rightarrow> Q (Inl e) | Inr x \<Rightarrow> wp (lift (normalizeStoredSession x)) Q)
          (w', snd wl @ [EvGet i r])"
  proof (cases r)
    case (Inl e)
    then show ?thesis by (simp add: 1)
  next
    case (Inr sess)
    then show ?thesis
      by (cases "normalizeStoredSession sess") (simp_all add: wp_lift 2 3)
  qed
qed

lemma normalizeStoredSession_frame:
  assumes "normalizeStoredSession sess = Inr sess'"
  shows "SnapshotTransaction sess' = SnapshotTransaction sess" "State sess' = State sess"
    "LastAccess sess' = LastAccess sess" "ID sess' = ID sess" "Pod sess' = Pod sess"
    "AuxiliaryPods sess' = AuxiliaryPods sess"
  using assms by (auto simp: normalizeStoredSession_def split: sum.splits)

lemma recoverable_commit_normalized:
  "normalizeStoredSession sess = Inr sess' \<Longrightarrow> recoverable_commit sess' = recoverable_commit sess"
  by (simp add: recoverable_commit_def normalizeStoredSession_frame)

lemma recover_guarded:
  assumes "guarded (commit_run (snd wl))"
    and "recoverable_commit sess \<Longrightarrow> durable (commit_run (snd wl))"
  shows "wp (recoverSnapshotLocked n (instrument s) sess token)
           (\<lambda>r wl'. guarded (commit_run (snd wl'))) wl"
  using assms
proof (induction n arbitrary: sess wl)
  case 0
  then show ?case by (simp add: wp_simps)
next
  case (Suc n)
  show ?case
  proof (cases "SnapshotTransaction sess")
    case None
    with Suc.prems show ?thesis by (simp add: recover_step_def wp_simps)
  next
    case (Some txn)
    show ?thesis
    proof (cases "Phase txn = SnapshotPhasePreparing")
      case True
      show ?thesis
        using Suc.prems
        by (auto simp: recover_step_def Some True Let_def wp_simps recoverable_commit_normalized
            intro!: wp_ports wp_helpers wp_svc_Get Suc.IH split: sum.splits)
    next
      case False
      show ?thesis
        using Suc.prems
        by (auto simp: recover_step_def Some False Let_def wp_simps recoverable_commit_def
            intro!: wp_ports wp_helpers split: sum.splits option.splits)
    qed
  qed
qed

lemma snapshot_txn_guarded:
  assumes "guarded (commit_run (snd wl))"
  shows "wp (snapshotWithTransactionLocked (instrument s) sess token (log_ckpt c))
           (\<lambda>r wl'. guarded (commit_run (snd wl'))) wl"
  using assms
  by (auto simp: snapshotWithTransactionLocked_def Let_def wp_simps commits_archive_def
      intro!: wp_ports wp_helpers split: sum.splits)

lemma with_lease_guarded:
  assumes "\<And>token w l. guarded (commit_run l) \<Longrightarrow>
      wp (body token) (\<lambda>r wl'. guarded (commit_run (snd wl'))) (w, l)"
  shows "wp (with_lease (instrument s) sid body) (\<lambda>r wl'. guarded (commit_run (snd wl'))) (w, [])"
proof -
  have body: "guarded (commit_run (snd wl)) \<Longrightarrow>
      (\<And>r wl'. guarded (commit_run (snd wl')) \<Longrightarrow> Q r wl') \<Longrightarrow> wp (body token) Q wl" for token wl Q
    using assms [of "snd wl" token "fst wl"] by (auto intro: wp_mono)
  show ?thesis
    by (auto simp: with_lease_def unlockBestEffort_def wp_simps
        intro!: wp_ports body split: sum.splits)
qed

lemma only_holding:
  "(\<And>p r. P (EvAwaiting p r)) \<Longrightarrow> only P (holdingForApproval (instrument s) sess)"
  by (cases "ag_AwaitingApproval (svc_agent s)")
    (auto simp: holdingForApproval_def intro!: only_intros)

lemma only_touchGet:
  "(\<And>i at r. P (EvTouch i at r)) \<Longrightarrow> (\<And>i r. P (EvGet i r)) \<Longrightarrow> only P (touchGet (instrument s) sid)"
  by (auto simp: touchGet_def touch_def svc_Get_def intro!: only_intros)

text \<open>C1: whatever the ports answer and however \<open>snapshot\<close> (explicit, or the reaper's variant
  with a cutoff) ends, it issues a pod \<open>Stop\<close> only after a compare-and-swap has durably
  recorded the committing phase with exactly the archive the checkpointer returned, or, when it
  completes another holder's transaction, after reading a committing record with an archive
  reference under the lock.\<close>

theorem snapshot_stops_after_commit:
  "wp (snapshot (instrument s) sid cutoff) (\<lambda>r wl'. stops_guarded (snd wl')) (w, [])"
  unfolding snapshot_def stops_guarded_def
  by (rule with_lease_guarded)
    (auto simp: Let_def wp_simps recoverable_commit_normalized checkpointerFor_instrument
      intro!: wp_ports wp_svc_Get wp_mono [OF recover_guarded] wp_mono [OF snapshot_txn_guarded]
        wp_inert [OF only_holding] wp_guarded [OF only_touchGet] split: sum.splits option.splits)

end
