(* ===== verification/Lease_Fence.thy ===== *)
theory Lease_Fence
  imports Snapshot_Protocol
begin

text \<open>
  The occupancy lease around the lifecycle operations: what \<open>snapshot\<close>, \<open>recoverSnapshot\<close>,
  \<open>Restore\<close> and \<open>Terminate\<close> write is fenced by the token they locked with, and the lock
  is given back on every path.
\<close>

definition fenced :: "string \<Rightarrow> event \<Rightarrow> bool" where
  "fenced token e =
     (case e of
        EvCas _ t _ _ _ _ \<Rightarrow> t = token
      | EvDelete _ t _ \<Rightarrow> t = token
      | EvPut _ _ \<Rightarrow> False
      | EvCasState _ _ _ _ \<Rightarrow> False
      | EvLock _ _ _ \<Rightarrow> False
      | EvUnlock _ _ _ \<Rightarrow> False
      | EvRenew _ _ _ \<Rightarrow> False
      | _ \<Rightarrow> True)"

definition unlocks :: "string \<Rightarrow> string \<Rightarrow> event \<Rightarrow> bool" where
  "unlocks sid token e = (case e of EvUnlock i t _ \<Rightarrow> i = sid \<and> t = token | _ \<Rightarrow> False)"

text \<open>The whole log of one leased operation: nothing when no token could be made; only the
  lock when it was refused; otherwise the lock, fenced calls, and the unlock last.\<close>

definition leased :: "string \<Rightarrow> log \<Rightarrow> bool" where
  "leased sid l =
     (case l of
        [] \<Rightarrow> True
      | EvLock i token (Inl _) # rest \<Rightarrow> i = sid \<and> rest = []
      | EvLock i token (Inr _) # rest \<Rightarrow>
          i = sid \<and> rest \<noteq> [] \<and> unlocks sid token (last rest) \<and> list_all (fenced token) (butlast rest)
      | _ \<Rightarrow> False)"

lemma fenced_simps [simp]:
  "fenced k (EvCas i t e x n r1) \<longleftrightarrow> t = k" "fenced k (EvDelete i t r1) \<longleftrightarrow> t = k"
  "fenced k (EvGet i r2)" "fenced k (EvTouch i at r1)" "fenced k (EvStart i sp r3)"
  "fenced k (EvStop rs r1)" "fenced k (EvRestoreInto i cr sp r3)" "fenced k (EvReach pr r1)"
  "fenced k (EvCheckpoint pr g r4)" "fenced k (EvAbort pr cp r1)" "fenced k (EvCkptRestore cp pr r1)"
  "fenced k (EvAgentAbort p g r1)" "fenced k (EvAwaiting p r5)" "fenced k (EvSignedIn p r5)"
  "fenced k (EvAcquire i r6)" "fenced k (EvRelease i b r1)"
  by (simp_all add: fenced_def)

text \<open>The whole log of an operation under a lease, from the events of its body.\<close>

lemma only_False:
  assumes "only (\<lambda>_. False) m" "\<And>r w'. Q r (w', snd wl)"
  shows "wp m Q wl"
  by (rule wp_mono [OF onlyD [OF assms(1)]])
    (metis assms(2) append_Nil2 list.pred_inject(2) list.exhaust prod.collapse)

lemma lease_log:
  assumes "\<And>token. only (fenced token) (body token)"
    and "\<And>token r. only (\<lambda>_. False) (after token r)"
  shows "wp (bindE (quiet new) (\<lambda>token.
       thenE (logged (EvLock sid token) (lock token))
       (defer_with (\<lambda>r. thenE (unlockBestEffort (instrument s) sid token) (lift r))
       (defer_with (after token) (body token))))) (\<lambda>r wl'. leased sid (snd wl')) (w, [])"
proof -
  have body: "(\<And>r w' es. list_all (fenced token) es \<Longrightarrow> Q r (w', snd wl @ es)) \<Longrightarrow>
      wp (body token) Q wl" for token wl Q
    by (rule wp_mono [OF onlyD [OF assms(1)]]) (metis surjective_pairing)
  show ?thesis
    by (auto simp: unlockBestEffort_def wp_simps leased_def unlocks_def
        intro!: wp_ports body only_False [OF assms(2)] split: sum.splits)
qed

lemma recover_fenced: "only (fenced token) (recoverSnapshotLocked n (instrument s) sess token)"
proof (induction n arbitrary: sess)
  case 0
  show ?case by (auto intro!: only_intros)
next
  case (Suc n)
  show ?case
    by (auto simp: recover_step_def Let_def
        intro!: only_intros only_abort only_svc_Get only_finalize only_release Suc.IH)
qed

lemma snapshot_txn_fenced:
  "only (fenced token) (snapshotWithTransactionLocked (instrument s) sess token (log_ckpt c))"
  by (auto simp: snapshotWithTransactionLocked_def Let_def
      intro!: only_intros only_rollback only_finalize only_release only_signedIn)

lemma only_stopPods:
  "(\<And>rs r. P (EvStop rs r)) \<Longrightarrow> only P (stopPodsBestEffort (instrument s) pods)"
  by (auto simp: stopPodsBestEffort_def intro!: only_intros)

lemma only_acquire: "(\<And>r. P (EvAcquire i r)) \<Longrightarrow> only P (acquireAuthSlot (instrument s) w i)"
  by (cases "svc_authPools s w") (auto simp: acquireAuthSlot_def intro!: only_intros)

lemma restore_pods_fenced:
  "only (fenced token) (restore_pods (instrument s) sid token sess model spec (log_ckpt c))"
  by (auto simp: restore_pods_def restore_commit_def Let_def
      intro!: only_intros only_svc_Get only_stopPods)

lemma stop_each_only: "(\<And>rs r. P (EvStop rs r)) \<Longrightarrow> only P (stop_each (instrument s) refs)"
  by (induction refs) (auto intro!: only_intros)

lemma terminate_fenced: "only (fenced token) (terminate_locked (instrument s) sid token)"
  by (auto simp: terminate_locked_def Let_def
      intro!: only_intros only_svc_Get only_signedIn only_release stop_each_only)

text \<open>A monitor carried through the lease: lock and unlock must not disturb it.\<close>

lemma with_lease_monitored:
  assumes "\<And>token w l. P l \<Longrightarrow> wp (body token) (\<lambda>r wl'. R (snd wl')) (w, l)"
    and "\<And>token r. P [EvLock sid token r]" "P []" "\<And>l. P l \<Longrightarrow> R l"
    and "\<And>l token r. R l \<Longrightarrow> R (l @ [EvUnlock sid token r])"
  shows "wp (with_lease (instrument s) sid body) (\<lambda>r wl'. R (snd wl')) (w, [])"
proof -
  have body: "P (snd wl) \<Longrightarrow> (\<And>r wl'. R (snd wl') \<Longrightarrow> Q r wl') \<Longrightarrow> wp (body token) Q wl"
    for token wl Q
    using assms(1) [of "snd wl" token "fst wl"] by (auto intro: wp_mono)
  show ?thesis
    by (auto simp: with_lease_def unlockBestEffort_def wp_simps
        intro!: wp_ports body assms split: sum.splits)
qed

text \<open>The checkpointer a body is handed is an instrumented one.\<close>

lemma bind_checkpointer:
  "bindE (lift (checkpointerFor (instrument s) w)) f =
     (case checkpointerFor s w of Inl e \<Rightarrow> throw e | Inr c \<Rightarrow> f (log_ckpt c))"
  by (rule ext)
    (simp add: bindE_def lift_def throw_def checkpointerFor_instrument split: sum.splits)

text \<open>C3: every store write of \<open>snapshot\<close>, \<open>Restore\<close>, \<open>recoverSnapshot\<close> and
  \<open>Terminate\<close> carries the lock token the operation took as its fence, except the touch of the access time, which
  the store takes without a fence; none, not even the touch, happens before
  the lock is granted or when it is refused, and the last call on every path, errors
  included, is the unlock with that same token.\<close>

theorem lifecycle_leased:
  "wp (snapshot (instrument s) sid cutoff) (\<lambda>_ wl'. leased sid (snd wl')) (w, []) \<and>
   wp (Restore (instrument s) sid) (\<lambda>_ wl'. leased sid (snd wl')) (w, []) \<and>
   wp (recoverSnapshot (instrument s) sid) (\<lambda>_ wl'. leased sid (snd wl')) (w, []) \<and>
   wp (Terminate (instrument s) sid) (\<lambda>_ wl'. leased sid (snd wl')) (w, [])"
proof (intro conjI)
  show "wp (snapshot (instrument s) sid cutoff) (\<lambda>_ wl'. leased sid (snd wl')) (w, [])"
    unfolding snapshot_def with_lease_def Let_def bind_checkpointer instrument_sel log_store_sel
    by (rule lease_log) (auto intro!: only_intros only_svc_Get recover_fenced snapshot_txn_fenced
          only_holding only_touchGet)
  show "wp (Restore (instrument s) sid) (\<lambda>_ wl'. leased sid (snd wl')) (w, [])"
    unfolding Restore_def with_lease_def Let_def bind_checkpointer instrument_sel log_store_sel
    by (rule lease_log) (auto intro!: only_intros only_svc_Get recover_fenced restore_pods_fenced
          only_acquire only_release)
  show "wp (recoverSnapshot (instrument s) sid) (\<lambda>_ wl'. leased sid (snd wl')) (w, [])"
    unfolding recoverSnapshot_def with_lease_def instrument_sel log_store_sel
    by (rule lease_log) (auto intro!: only_intros only_svc_Get recover_fenced)
  show "wp (Terminate (instrument s) sid) (\<lambda>_ wl'. leased sid (snd wl')) (w, [])"
    unfolding Terminate_def instrument_sel log_store_sel
    by (rule lease_log) (auto intro!: only_intros terminate_fenced)
qed

end
