(* ===== verification/Accounting.thy ===== *)
theory Accounting
  imports Lease_Fence
begin

text \<open>
  What a lifecycle operation leaves behind: the pods it started and the login slot it leased,
  kept as a ledger over the log. \<open>Create\<close> and \<open>Restore\<close> either hand both to a session
  record or give both back; \<open>Terminate\<close> deletes a record only when its pods are gone.
\<close>

section \<open>The ledger\<close>

record ledger =
  live :: "SessionPods list"
  slots :: "string list"

definition ledger_step :: "ledger \<Rightarrow> event \<Rightarrow> ledger" where
  "ledger_step m e =
     (case e of
        EvStart _ _ (Inr pods) \<Rightarrow> m\<lparr>live := pods # live m\<rparr>
      | EvRestoreInto _ _ _ (Inr pods) \<Rightarrow> m\<lparr>live := pods # live m\<rparr>
      | EvStop refs _ \<Rightarrow> m\<lparr>live := filter (\<lambda>p. SessionPods_All p \<noteq> refs) (live m)\<rparr>
      | EvAcquire i (Inr _) \<Rightarrow> m\<lparr>slots := i # slots m\<rparr>
      | EvRelease i _ _ \<Rightarrow> m\<lparr>slots := filter (\<lambda>j. j \<noteq> i) (slots m)\<rparr>
      | _ \<Rightarrow> m)"

definition ledger_run :: "log \<Rightarrow> ledger" where
  "ledger_run l = foldl ledger_step \<lparr>live = [], slots = []\<rparr> l"

lemma ledger_step_simps [simp]:
  "ledger_step m (EvStart i sp (Inr pods)) = m\<lparr>live := pods # live m\<rparr>"
  "ledger_step m (EvStart i sp (Inl er)) = m"
  "ledger_step m (EvRestoreInto i cr sp (Inr pods)) = m\<lparr>live := pods # live m\<rparr>"
  "ledger_step m (EvRestoreInto i cr sp (Inl er)) = m"
  "ledger_step m (EvStop refs r1) = m\<lparr>live := filter (\<lambda>p. SessionPods_All p \<noteq> refs) (live m)\<rparr>"
  "ledger_step m (EvAcquire i (Inr k)) = m\<lparr>slots := i # slots m\<rparr>"
  "ledger_step m (EvAcquire i (Inl er)) = m"
  "ledger_step m (EvRelease i b r1) = m\<lparr>slots := filter (\<lambda>j. j \<noteq> i) (slots m)\<rparr>"
  "ledger_step m (EvReach pr r1) = m" "ledger_step m (EvPut x r1) = m"
  "ledger_step m (EvGet i r2) = m" "ledger_step m (EvCas i t st y n r1) = m"
  "ledger_step m (EvCkptRestore cp pr r1) = m" "ledger_step m (EvLock i t r1) = m"
  "ledger_step m (EvUnlock i t r1) = m"
  by (simp_all add: ledger_step_def)

lemma ledger_run_Nil [simp]: "ledger_run [] = \<lparr>live = [], slots = []\<rparr>"
  by (simp add: ledger_run_def)

lemma ledger_run_append [simp]: "ledger_run (l @ es) = foldl ledger_step (ledger_run l) es"
  by (simp add: ledger_run_def)

lemma ledger_run_Cons [simp]:
  "ledger_run (e # es) = foldl ledger_step (ledger_step \<lparr>live = [], slots = []\<rparr> e) es"
  by (simp add: ledger_run_def)

section \<open>Create\<close>

text \<open>A failed \<open>Create\<close> owes nothing; a successful one has persisted, as its last write, the
  record it returns, which names every pod it started and whose id holds the slot.\<close>

definition create_accounted :: "'w Service \<Rightarrow> goerr + Session \<Rightarrow> log \<Rightarrow> bool" where
  "create_accounted s r l =
     (let m = ledger_run l in
      case r of
        Inl _ \<Rightarrow> live m = [] \<and> slots m = []
      | Inr sess \<Rightarrow>
          (case live m of
             [pods] \<Rightarrow> Pod sess = pr_Name (Workload pods) \<and>
                       AuxiliaryPods sess = SessionPods_Names pods \<and>
                       EvReach (Workload pods) (Inr ()) \<in> set l
           | _ \<Rightarrow> False) \<and>
          slots m = (if svc_authPools s (WorkloadType sess) = None then [] else [ID sess]) \<and>
          State sess = StateActive \<and> SnapshotTransaction sess = None \<and>
          l \<noteq> [] \<and> last l = EvPut sess (Inr ()))"

text \<open>C5: whatever the ports answer, a \<open>Create\<close> that fails has issued the stop of every pod it
  started and the release of the login slot it leased; one that succeeds returns the active
  record it persisted last, naming exactly the pods of its single start, reached before, and
  keeps the slot under that record's id.\<close>

theorem create_leaves_nothing_behind:
  "wp (Create (instrument s) req) (\<lambda>r wl'. create_accounted s r (snd wl')) (w, [])"
  by (auto simp: Create_def Let_def wp_simps acquireAuthSlot_def releaseAuthSlotBestEffort_def
      create_accounted_def intro!: wp_ports split: sum.splits option.splits)

section \<open>Restore\<close>

text \<open>The pods are named by an active record: one this operation wrote, or read back, or whose
  write failed without the store saying that it lost the race.\<close>

definition names_pods :: "SessionPods \<Rightarrow> Session \<Rightarrow> bool" where
  "names_pods pods sess = (State sess = StateActive \<and> Pod sess = pr_Name (Workload pods))"

definition may_be_recorded :: "SessionPods \<Rightarrow> event \<Rightarrow> bool" where
  "may_be_recorded pods e =
     (case e of
        EvCas _ _ _ _ n (Inr _) \<Rightarrow> names_pods pods n
      | EvCas _ _ _ _ n (Inl err) \<Rightarrow> names_pods pods n \<and> \<not> errors_is err (Sentinel ErrConflict)
      | EvGet _ (Inr sess) \<Rightarrow> names_pods pods sess
      | _ \<Rightarrow> False)"

definition restore_accounted :: "string \<Rightarrow> log \<Rightarrow> bool" where
  "restore_accounted sid l =
     (let m = ledger_run l in
      case live m of
        [] \<Rightarrow> slots m = []
      | [pods] \<Rightarrow> list_ex (may_be_recorded pods) l \<and> set (slots m) \<subseteq> {sid}
      | _ \<Rightarrow> False)"

lemma may_be_recorded_simps [simp]:
  "may_be_recorded pods (EvCas i t st y n (Inr u)) \<longleftrightarrow> names_pods pods n"
  "may_be_recorded pods (EvCas i t st y n (Inl err)) \<longleftrightarrow>
     names_pods pods n \<and> \<not> errors_is err (Sentinel ErrConflict)"
  "may_be_recorded pods (EvGet i (Inr sess)) \<longleftrightarrow> names_pods pods sess"
  by (simp_all add: may_be_recorded_def)

lemma names_pods_normalized:
  "normalizeStoredSession sess = Inr sess' \<Longrightarrow> names_pods pods sess' = names_pods pods sess"
  by (simp add: names_pods_def normalizeStoredSession_frame)

text \<open>An event that starts nothing and leases nothing keeps an empty ledger empty.\<close>

definition frugal :: "event \<Rightarrow> bool" where
  "frugal e = (case e of EvStart _ _ _ \<Rightarrow> False | EvRestoreInto _ _ _ _ \<Rightarrow> False
     | EvAcquire _ _ \<Rightarrow> False | _ \<Rightarrow> True)"

lemma frugal_simps [simp]:
  "frugal (EvGet i r2)" "frugal (EvCas i t st y n r1)" "frugal (EvStop rs r1)"
  "frugal (EvAbort pr cp r1)" "frugal (EvAgentAbort p g r1)" "frugal (EvRelease i b r1)"
  by (simp_all add: frugal_def)

lemma ledger_frugal:
  "list_all frugal es \<Longrightarrow> live m = [] \<Longrightarrow> slots m = [] \<Longrightarrow> foldl ledger_step m es = m"
proof (induction es)
  case (Cons e es)
  then have "ledger_step m e = m"
    by (auto simp: frugal_def ledger_step_def split: event.splits sum.splits)
  with Cons show ?case by simp
qed simp

lemma wp_frugal:
  assumes "only frugal m" "ledger_run (snd wl) = \<lparr>live = [], slots = []\<rparr>"
    and "\<And>r wl'. ledger_run (snd wl') = \<lparr>live = [], slots = []\<rparr> \<Longrightarrow> Q r wl'"
  shows "wp m Q wl"
  by (rule wp_mono [OF onlyD [OF assms(1)]]) (auto simp: assms(2) ledger_frugal intro: assms(3))

lemma recover_frugal: "only frugal (recoverSnapshotLocked n (instrument s) sess token)"
proof (induction n arbitrary: sess)
  case 0
  show ?case by (auto intro!: only_intros)
next
  case (Suc n)
  show ?case
    by (auto simp: recover_step_def Let_def
        intro!: only_intros only_abort only_svc_Get only_finalize only_release Suc.IH)
qed

text \<open>After the pods were provisioned: kept ones are recorded, the others are stopped, and the
  slots are those leased before.\<close>

definition settled :: "string list \<Rightarrow> goerr + bool \<times> 'a \<Rightarrow> log \<Rightarrow> bool" where
  "settled sl r l =
     (let m = ledger_run l in
      slots m = sl \<and>
      (case r of
         Inl _ \<Rightarrow> False
       | Inr (kept, _) \<Rightarrow>
           if kept then (case live m of [pods] \<Rightarrow> list_ex (may_be_recorded pods) l | _ \<Rightarrow> False)
           else live m = []))"

lemma settled_simps [simp]:
  "\<not> settled sl (Inl er) l"
  "settled sl (Inr (False, x)) l \<longleftrightarrow> slots (ledger_run l) = sl \<and> live (ledger_run l) = []"
  "settled sl (Inr (True, x)) l \<longleftrightarrow> slots (ledger_run l) = sl \<and>
     (case live (ledger_run l) of [pods] \<Rightarrow> list_ex (may_be_recorded pods) l | _ \<Rightarrow> False)"
  by (simp_all add: settled_def Let_def)

lemma restore_commit_settled:
  assumes "live (ledger_run (snd wl)) = [pods]" "slots (ledger_run (snd wl)) = sl"
  shows "wp (restore_commit (instrument s) sid token sess model pods)
    (\<lambda>r wl'. settled sl r (snd wl')) wl"
  using assms
  by (auto simp: restore_commit_def Let_def wp_simps stopPodsBestEffort_def names_pods_def
      normalizeStoredSession_frame
      intro!: wp_ports wp_svc_Get split: sum.splits)

lemma restore_pods_settled:
  assumes "live (ledger_run (snd wl)) = []" "slots (ledger_run (snd wl)) = sl"
  shows "wp (restore_pods (instrument s) sid token sess model spec (log_ckpt c))
    (\<lambda>r wl'. settled sl r (snd wl')) wl"
  using assms
  by (auto simp: restore_pods_def Let_def wp_simps stopPodsBestEffort_def
      intro!: wp_ports restore_commit_settled split: sum.splits)

lemma restore_slotted:
  assumes "ledger_run (snd wl) = \<lparr>live = [], slots = []\<rparr>"
  shows "wp (bindE (acquireAuthSlot (instrument s) workload sid) (\<lambda>slot.
      bindE (restore_pods (instrument s) sid token sess model (spec slot) (log_ckpt c))
        (\<lambda>(keepSlot, result).
          if keepSlot then lift result
          else thenE (releaseAuthSlotBestEffort (instrument s) workload sid None) (lift result))))
    (\<lambda>r wl'. restore_accounted sid (snd wl')) wl"
proof -
  have pods: "live (ledger_run (snd wl)) = [] \<Longrightarrow>
      (\<And>r wl'. settled (slots (ledger_run (snd wl))) r (snd wl') \<Longrightarrow> Q r wl') \<Longrightarrow>
      wp (restore_pods (instrument s) sid token sess model (spec slot) (log_ckpt c)) Q wl" for Q wl slot
    by (rule wp_mono [OF restore_pods_settled]) simp_all
  show ?thesis
    using assms
    by (cases "svc_authPools s workload")
      (auto simp: wp_simps acquireAuthSlot_def releaseAuthSlotBestEffort_def restore_accounted_def
        Let_def intro!: wp_ports pods split: sum.splits list.splits if_splits)
qed

lemma restore_accounted_unlock:
  "restore_accounted sid l \<Longrightarrow> restore_accounted sid (l @ [EvUnlock i t r])"
  by (auto simp: restore_accounted_def Let_def split: list.splits)

lemma restore_accounted_empty:
  "ledger_run l = \<lparr>live = [], slots = []\<rparr> \<Longrightarrow> restore_accounted sid l"
  by (simp add: restore_accounted_def)

text \<open>Whatever the ports answer, a \<open>Restore\<close> leaves no unaccounted pod or login slot: either
  it has issued the stop of the pods it started and the release of the slot it leased, or
  the pods are those of an active record that it committed, read back, or whose write
  failed without a definite conflict, so that the record may be live.\<close>

theorem restore_leaves_nothing_behind:
  "wp (Restore (instrument s) sid) (\<lambda>r wl'. restore_accounted sid (snd wl')) (w, [])"
  unfolding Restore_def Let_def bind_checkpointer
  by (rule with_lease_monitored [where P = "\<lambda>l. ledger_run l = \<lparr>live = [], slots = []\<rparr>"])
    (auto simp: wp_simps restore_accounted_empty restore_accounted_unlock
      intro!: wp_ports wp_frugal [OF recover_frugal] wp_frugal [OF only_svc_Get]
        restore_slotted [unfolded wp_bindE [of "acquireAuthSlot s w i" for s w i]]
      split: sum.splits)

section \<open>Terminate\<close>

text \<open>\<open>owed\<close>: the pods of the record last read that have not been stopped yet.\<close>

record teardown =
  owed :: "string list"
  clean :: bool

definition source_pod :: "Session \<Rightarrow> string list" where
  "source_pod sess =
     (case SnapshotTransaction sess of
        None \<Rightarrow> [] | Some txn \<Rightarrow> if SourcePod txn = '''' then [] else [SourcePod txn])"

definition teardown_step :: "teardown \<Rightarrow> event \<Rightarrow> teardown" where
  "teardown_step m e =
     (case e of
        EvGet _ (Inr sess) \<Rightarrow> m\<lparr>owed := Pods sess @ source_pod sess\<rparr>
      | EvStop refs (Inr _) \<Rightarrow> m\<lparr>owed := filter (\<lambda>p. p \<notin> pr_Name ` set refs) (owed m)\<rparr>
      | EvDelete _ _ _ \<Rightarrow> m\<lparr>clean := clean m \<and> owed m = []\<rparr>
      | _ \<Rightarrow> m)"

definition teardown_run :: "log \<Rightarrow> teardown" where
  "teardown_run l = foldl teardown_step \<lparr>owed = [], clean = True\<rparr> l"

text \<open>Every delete found nothing owed, and success means that the delete succeeded.\<close>

definition torn_down :: "string \<Rightarrow> goerr + unit \<Rightarrow> log \<Rightarrow> bool" where
  "torn_down sid r l =
     (clean (teardown_run l) \<and>
      (case r of Inl _ \<Rightarrow> True | Inr _ \<Rightarrow> list_ex (\<lambda>e. \<exists>t. e = EvDelete sid t (Inr ())) l))"

lemma teardown_step_simps [simp]:
  "teardown_step m (EvGet i (Inr sess)) = m\<lparr>owed := Pods sess @ source_pod sess\<rparr>"
  "teardown_step m (EvGet i (Inl er)) = m"
  "teardown_step m (EvStop refs (Inr u)) = m\<lparr>owed := filter (\<lambda>p. p \<notin> pr_Name ` set refs) (owed m)\<rparr>"
  "teardown_step m (EvStop refs (Inl er)) = m"
  "teardown_step m (EvDelete i t r1) = m\<lparr>clean := clean m \<and> owed m = []\<rparr>"
  "teardown_step m (EvCas i t st y n r1) = m" "teardown_step m (EvLock i t r1) = m"
  "teardown_step m (EvUnlock i t r1) = m" "teardown_step m (EvSignedIn p r2) = m"
  "teardown_step m (EvRelease i b r1) = m"
  by (simp_all add: teardown_step_def)

lemma teardown_run_simps [simp]:
  "teardown_run [] = \<lparr>owed = [], clean = True\<rparr>"
  "teardown_run (l @ es) = foldl teardown_step (teardown_run l) es"
  "teardown_run (e # es) = foldl teardown_step (teardown_step \<lparr>owed = [], clean = True\<rparr> e) es"
  by (simp_all add: teardown_run_def)

lemma reclaim_names:
  "set (map pr_Name (sessionReclaimRefs sess p)) = set (Pods sess) \<union> (if p = '''' then {} else {p})"
  by (auto simp: sessionReclaimRefs_def sessionPodRefs_def Let_def list_ex_iff image_iff)

definition still_owed :: "PodRef list \<Rightarrow> string list \<Rightarrow> string list" where
  "still_owed refs ps = filter (\<lambda>p. p = '''' \<or> p \<notin> set (map pr_Name refs)) ps"

lemma stop_each_tears_down:
  "wp (stop_each (instrument s) refs)
     (\<lambda>r wl'. clean (teardown_run (snd wl')) = clean (teardown_run (snd wl)) \<and>
        (case r of Inl _ \<Rightarrow> True
         | Inr _ \<Rightarrow> owed (teardown_run (snd wl')) = still_owed refs (owed (teardown_run (snd wl))))) wl"
proof (induction refs arbitrary: wl)
  case Nil
  then show ?case by (simp add: wp_simps still_owed_def)
next
  case (Cons ref refs)
  have "still_owed refs (filter (\<lambda>p. p \<noteq> pr_Name ref) ps) = still_owed (ref # refs) ps"
    if "pr_Name ref \<noteq> ''''" for ps
    unfolding still_owed_def filter_filter by (rule filter_cong) (use that in auto)
  moreover have "still_owed (ref # refs) ps = still_owed refs ps" if "pr_Name ref = ''''" for ps
    unfolding still_owed_def by (rule filter_cong) (use that in auto)
  ultimately show ?case
    by (auto simp: wp_simps intro!: wp_ports wp_mono [OF Cons.IH] split: sum.splits)
qed

lemma reclaim_covers:
  assumes "Pod sess' = Pod sess" "AuxiliaryPods sess' = AuxiliaryPods sess"
    and "p = (case SnapshotTransaction sess of None \<Rightarrow> '''' | Some txn \<Rightarrow> SourcePod txn)"
  shows "still_owed (sessionReclaimRefs sess' p) (Pods sess @ source_pod sess) = []"
proof -
  have "Pods sess' = Pods sess" using assms(1,2) by (simp add: Pods_def)
  moreover have "'''' \<notin> set (Pods sess @ source_pod sess)"
    by (auto simp: Pods_def source_pod_def split: option.splits if_splits)
  moreover have "set (source_pod sess) \<subseteq> (if p = '''' then {} else {p})"
    using assms(3) by (auto simp: source_pod_def split: option.splits if_splits)
  ultimately show ?thesis
    unfolding still_owed_def filter_empty_conv reclaim_names by auto
qed

lemma wp_stop_each:
  assumes "\<And>r wl'. clean (teardown_run (snd wl')) = clean (teardown_run (snd wl)) \<Longrightarrow>
      (case r of Inl _ \<Rightarrow> True
       | Inr _ \<Rightarrow> owed (teardown_run (snd wl')) = still_owed refs (owed (teardown_run (snd wl)))) \<Longrightarrow>
      Q r wl'"
  shows "wp (stop_each (instrument s) refs) Q wl"
  using stop_each_tears_down by (rule wp_mono) (use assms in blast)

lemma wp_signedIn_teardown:
  assumes "\<And>r wl'. teardown_run (snd wl') = teardown_run (snd wl) \<Longrightarrow> Q r wl'"
  shows "wp (authSlotSignedIn (instrument s) sess) Q wl"
proof -
  have "only (\<lambda>e. \<forall>m. teardown_step m e = m) (authSlotSignedIn (instrument s) sess)"
    by (rule only_signedIn) simp
  moreover have "list_all (\<lambda>e. \<forall>m. teardown_step m e = m) es \<Longrightarrow> foldl teardown_step m es = m" for es m
    by (induction es) simp_all
  ultimately show ?thesis
    by (intro wp_mono [OF onlyD]) (auto intro: assms)
qed

lemma terminate_torn_down:
  assumes "clean (teardown_run (snd wl))"
  shows "wp (terminate_locked (instrument s) sid token) (\<lambda>r wl'. torn_down sid r (snd wl')) wl"
  using assms
  by (auto simp: terminate_locked_def Let_def wp_simps releaseAuthSlotBestEffort_def torn_down_def
      normalizeStoredSession_frame reclaim_covers
      intro!: wp_ports wp_svc_Get wp_signedIn_teardown wp_stop_each
      split: sum.splits option.splits)

lemma torn_down_unlock: "torn_down sid r (l @ [EvUnlock i t x]) \<longleftrightarrow> torn_down sid r l"
  by (auto simp: torn_down_def split: sum.splits)

lemma torn_down_Inl: "torn_down sid (Inl e) l \<longleftrightarrow> clean (teardown_run l)"
  by (simp add: torn_down_def)

text \<open>C25: \<open>Terminate\<close> asks the store to delete a session only after every pod its record named,
  the workload pod, the auxiliary pods and the source pod of an unfinished snapshot, has
  been stopped without error; and it reports success only when that delete succeeded, even
  when the lease renewal fails at the same time.\<close>

theorem terminate_deletes_after_pods:
  "wp (Terminate (instrument s) sid) (\<lambda>r wl'. torn_down sid r (snd wl')) (w, [])"
proof -
  have body: "clean (teardown_run (snd wl)) \<Longrightarrow> (\<And>r wl'. torn_down sid r (snd wl') \<Longrightarrow> Q r wl') \<Longrightarrow>
      wp (terminate_locked (instrument s) sid token) Q wl" for token wl Q
    by (rule wp_mono [OF terminate_torn_down])
  have early: "torn_down sid (Inl e) [EvLock i t x]" "torn_down sid (Inl e) []" for e i t x
    by (simp_all add: torn_down_def)
  show ?thesis
    by (auto simp: Terminate_def unlockBestEffort_def wp_simps early torn_down_unlock torn_down_Inl
        intro!: wp_ports body split: sum.splits)
qed

end
