(* ===== verification/Access.thy ===== *)
theory Access
  imports Lease_Fence
begin

text \<open>
  The access path and the idle reaper: what \<open>Write\<close>, \<open>RefreshPlugins\<close> and \<open>Stream\<close> do not
  do, when a session counts as frozen, and when the reaper may freeze one.
\<close>

section \<open>Access\<close>

text \<open>What \<open>Write\<close> and \<open>RefreshPlugins\<close> refuse, they refuse on the record alone: the log is
  the one read and nothing was activated, restored or sent.\<close>

definition refused_early :: "(Session \<Rightarrow> bool) \<Rightarrow> string \<Rightarrow> goerr + 'a \<Rightarrow> log \<Rightarrow> bool" where
  "refused_early bad sid r l =
     (case l of
        EvGet i (Inr stored) # rest \<Rightarrow>
          (case normalizeStoredSession stored of
             Inl e \<Rightarrow> rest = [] \<and> r = Inl e
           | Inr sess \<Rightarrow> if bad sess then rest = [] \<and> (\<exists>e. r = Inl e) else True)
      | EvGet i (Inl e) # rest \<Rightarrow> rest = [] \<and> r = Inl e
      | _ \<Rightarrow> False)"

lemma refused_early_Cons:
  "only (\<lambda>_. True) m \<Longrightarrow> normalizeStoredSession stored = Inr sess \<Longrightarrow> \<not> bad sess \<Longrightarrow>
   wp m (\<lambda>r wl'. refused_early bad sid r (snd wl')) (w, [EvGet i (Inr stored)])"
  by (rule wp_mono [OF onlyD]) (auto simp: refused_early_def)


lemma activate_only_appends: "only (\<lambda>_. True) (activate (instrument s) sid)"
proof -
  have recover: "only (\<lambda>_. True) (recoverSnapshotLocked n (instrument s) sess token)" for n sess token
    by (rule only_mono [OF recover_fenced [where token = token]]) simp
  have pods: "only (\<lambda>_. True) (restore_pods (instrument s) sid token sess model spec (log_ckpt c))"
    for token sess model spec c
    by (rule only_mono [OF restore_pods_fenced]) simp
  have lease: "(\<And>token. only (\<lambda>_. True) (body token)) \<Longrightarrow> only (\<lambda>_. True) (with_lease (instrument s) sid body)"
    for body :: "string \<Rightarrow> ('a \<times> log, Session) act"
    by (auto simp: with_lease_def unlockBestEffort_def intro!: only_intros)
  show ?thesis
    unfolding activate_def recoverSnapshot_def Restore_def Let_def bind_checkpointer
    by (auto intro!: only_intros lease only_svc_Get recover pods only_acquire only_release)
qed

lemma only_touch: "(\<And>i at r. P (EvTouch i at r)) \<Longrightarrow> only P (touch (instrument s) sid)"
  by (auto simp: touch_def intro!: only_intros)

text \<open>A prompt over the limit for a workload that queues prompts, and a plugin refresh of a
  session that is not Codex, are refused after one read of the record: no restore, no lock,
  no agent call and no touch happens, so a frozen session stays frozen.\<close>

theorem refusals_have_no_effect:
  "wp (svc_Write (instrument s) sid payload)
     (\<lambda>r wl'. refused_early (\<lambda>sess. QueuesPrompts (WorkloadType sess) \<and> length payload > 1048576)
        sid r (snd wl')) (w, []) \<and>
   wp (RefreshPlugins (instrument s) sid)
     (\<lambda>r wl'. refused_early (\<lambda>sess. \<not> IsCodex (WorkloadType sess)) sid r (snd wl')) (w, [])"
proof
  have read_error: "refused_early bad sid (Inl e) [EvGet i (Inl e)]" for bad e i
    by (simp add: refused_early_def)
  have bad_record: "normalizeStoredSession stored = Inl e \<Longrightarrow>
      refused_early bad sid (Inl e) [EvGet i (Inr stored)]" for bad stored e i
    by (simp add: refused_early_def)
  have refused: "normalizeStoredSession stored = Inr sess \<Longrightarrow> bad sess \<Longrightarrow>
      refused_early bad sid (Inl e) [EvGet i (Inr stored)]" for bad stored sess e i
    by (simp add: refused_early_def)
  show "wp (svc_Write (instrument s) sid payload)
     (\<lambda>r wl'. refused_early (\<lambda>sess. QueuesPrompts (WorkloadType sess) \<and> length payload > 1048576)
        sid r (snd wl')) (w, [])"
    unfolding svc_Write_def wp_bindE [of "svc_Get s i" for s i]
    by (rule wp_svc_Get)
      (auto simp: wp_if wp_throw MaxClaudePromptBytes_def read_error bad_record intro!: refused
        refused_early_Cons only_intros activate_only_appends only_touch)
  show "wp (RefreshPlugins (instrument s) sid)
     (\<lambda>r wl'. refused_early (\<lambda>sess. \<not> IsCodex (WorkloadType sess)) sid r (snd wl')) (w, [])"
    unfolding RefreshPlugins_def wp_bindE [of "svc_Get s i" for s i]
    by (rule wp_svc_Get)
      (auto simp: wp_if wp_throw read_error bad_record intro!: refused
        refused_early_Cons only_intros activate_only_appends only_touch)
qed

section \<open>Stream\<close>

definition passive_stream :: "string \<Rightarrow> log \<Rightarrow> bool" where
  "passive_stream sid l =
     (case l of
        [EvGet i x] \<Rightarrow> i = sid
      | [EvGet i (Inr stored), EvStream p off x] \<Rightarrow>
          i = sid \<and> p = Pod stored \<and> p \<noteq> '''' \<and> State stored \<noteq> StateSnapshot
      | _ \<Rightarrow> False)"

text \<open>\<open>Stream\<close> is passive: it reads the record once and at most opens the stream of the pod
  that record names; it never restores a frozen session, takes the lock, or refreshes the
  last access that the idle reaper counts from.\<close>

theorem stream_is_passive:
  "wp (svc_Stream (instrument s) sid offset) (\<lambda>r wl'. passive_stream sid (snd wl')) (w, [])"
  by (auto simp: svc_Stream_def wp_simps passive_stream_def normalizeStoredSession_frame
      intro!: wp_ports wp_svc_Get)

section \<open>A frozen session\<close>

definition no_checkpoint :: "event \<Rightarrow> bool" where
  "no_checkpoint e = (case e of EvCheckpoint _ _ _ \<Rightarrow> False | _ \<Rightarrow> True)"

definition took_archive :: "event \<Rightarrow> bool" where
  "took_archive e = (case e of EvCheckpoint _ _ (Inr _) \<Rightarrow> True | _ \<Rightarrow> False)"

definition stopped_pods :: "event \<Rightarrow> bool" where
  "stopped_pods e = (case e of EvStop _ (Inr _) \<Rightarrow> True | _ \<Rightarrow> False)"

lemma took_stopped_simps [simp]:
  "took_archive (EvCheckpoint pr g (Inr cp))" "stopped_pods (EvStop rs (Inr u))"
  by (simp_all add: took_archive_def stopped_pods_def)

definition frozen_result :: "goerr + Session \<times> bool \<Rightarrow> log \<Rightarrow> bool" where
  "frozen_result r l =
     (case r of
        Inl _ \<Rightarrow> True
      | Inr (sess, snapshotted) \<Rightarrow>
          if snapshotted then
            State sess = StateSnapshot \<and> SnapshotTransaction sess = None \<and>
            list_ex took_archive l \<and> list_ex stopped_pods l
          else list_all no_checkpoint l)"

lemma no_checkpoint_simps [simp]:
  "no_checkpoint (EvGet i r2)" "no_checkpoint (EvRelease i b r1)" "no_checkpoint (EvSignedIn p r3)"
  "no_checkpoint (EvAbort pr cp r1)" "no_checkpoint (EvAgentAbort p g r1)"
  "no_checkpoint (EvCas i t st x n r1)" "no_checkpoint (EvLock i t r1)"
  "no_checkpoint (EvUnlock i t r1)" "no_checkpoint (EvTouch i at r1)"
  "no_checkpoint (EvAwaiting p r3)" "no_checkpoint (EvStop rs r1)"
  by (simp_all add: no_checkpoint_def)

lemma recover_no_checkpoint: "only no_checkpoint (recoverSnapshotLocked n (instrument s) sess token)"
proof (induction n arbitrary: sess)
  case 0
  show ?case by (auto intro!: only_intros)
next
  case (Suc n)
  show ?case
    by (auto simp: recover_step_def Let_def
        intro!: only_intros only_abort only_svc_Get only_finalize only_release Suc.IH)
qed

lemma wp_only:
  assumes "only P m" "\<And>r w' es. list_all P es \<Longrightarrow> Q r (w', snd wl @ es)"
  shows "wp m Q wl"
  by (rule wp_mono [OF onlyD [OF assms(1)]]) (metis assms(2) surjective_pairing)

lemma finalize_result:
  "wp (finalizeSnapshotLocked (instrument s) sess token)
     (\<lambda>r wl'. (\<exists>es. snd wl' = snd wl @ es) \<and>
        (case r of Inl _ \<Rightarrow> True
         | Inr frozen \<Rightarrow> State frozen = StateSnapshot \<and> SnapshotTransaction frozen = None)) wl"
  by (auto simp: finalizeSnapshotLocked_def Let_def wp_simps intro!: wp_ports wp_svc_Get
      split: sum.splits option.splits)

lemma only_True_rollback:
  "only (\<lambda>_. True) (rollbackPreparingSnapshot (instrument s) sess (log_ckpt c) cause)"
  by (rule only_rollback) simp_all

lemma rollback_fails:
  "wp (rollbackPreparingSnapshot (instrument s) sess (log_ckpt c) cause)
     (\<lambda>r wl'. \<exists>e. r = Inl e) wl"
  by (auto simp: rollbackPreparingSnapshot_def wp_simps abortSnapshotGenerationWithCheckpointer_def
      intro!: wp_ports split: sum.splits option.splits)

definition took_and_stopped :: "goerr + Session \<Rightarrow> log \<Rightarrow> bool" where
  "took_and_stopped r l =
     (case r of Inl _ \<Rightarrow> True
      | Inr frozen \<Rightarrow> State frozen = StateSnapshot \<and> SnapshotTransaction frozen = None \<and>
          list_ex took_archive l \<and> list_ex stopped_pods l)"

lemma took_and_stopped_Inl [simp]: "took_and_stopped (Inl e) l"
  by (simp add: took_and_stopped_def)

lemma wp_finalize_result:
  assumes "\<And>r w' es. (case r of Inl _ \<Rightarrow> True
      | Inr frozen \<Rightarrow> State frozen = StateSnapshot \<and> SnapshotTransaction frozen = None) \<Longrightarrow>
      Q r (w', snd wl @ es)"
  shows "wp (finalizeSnapshotLocked (instrument s) sess token) Q wl"
  using finalize_result by (rule wp_mono) (use assms in \<open>metis prod.collapse\<close>)

lemma wp_rollback_fails:
  assumes "\<And>e wl'. Q (Inl e) wl'"
  shows "wp (rollbackPreparingSnapshot (instrument s) sess (log_ckpt c) cause) Q wl"
  using rollback_fails by (rule wp_mono) (use assms in auto)

lemma snapshot_txn_result:
  "wp (snapshotWithTransactionLocked (instrument s) sess token (log_ckpt c))
     (\<lambda>r wl'. took_and_stopped r (snd wl')) wl"
proof -
  have signed: "(\<And>r w' es. Q r (w', snd wl @ es)) \<Longrightarrow> wp (authSlotSignedIn (instrument s) x) Q wl"
    for x Q wl
    by (rule wp_only [OF only_signedIn [where P = "\<lambda>_. True"]]) simp_all
  show ?thesis
    by (auto simp: snapshotWithTransactionLocked_def Let_def wp_simps
        releaseAuthSlotBestEffort_def took_and_stopped_def
        intro!: wp_ports wp_rollback_fails wp_finalize_result signed split: sum.splits option.splits)
qed

lemma wp_snapshot_txn_result:
  assumes "\<And>r wl'. took_and_stopped r (snd wl') \<Longrightarrow> Q r wl'"
  shows "wp (snapshotWithTransactionLocked (instrument s) sess token (log_ckpt c)) Q wl"
  using snapshot_txn_result by (rule wp_mono) (use assms in blast)

lemma frozen_result_Inl [simp]: "frozen_result (Inl e) l"
  by (simp add: frozen_result_def)

lemma frozen_result_True: "took_and_stopped (Inr sess) l \<Longrightarrow> frozen_result (Inr (sess, True)) l"
  by (simp add: frozen_result_def took_and_stopped_def)

lemma frozen_result_False: "list_all no_checkpoint l \<Longrightarrow> frozen_result (Inr (sess, False)) l"
  by (simp add: frozen_result_def)

lemma frozen_result_unlock:
  "frozen_result r l \<Longrightarrow> frozen_result r (l @ [EvUnlock i t x])"
  by (auto simp: frozen_result_def split: sum.splits)

lemmas wp_no_checkpoint_steps =
  wp_only [OF recover_no_checkpoint]
  wp_only [OF only_svc_Get [where P = no_checkpoint]]
  wp_only [OF only_holding [where P = no_checkpoint]]
  wp_only [OF only_touchGet [where P = no_checkpoint]]

lemma with_lease_result:
  assumes "\<And>token w r. wp (body token) (\<lambda>r wl'. R r (snd wl')) (w, [EvLock sid token r])"
    and "\<And>e l. R (Inl e) l" "\<And>r l i t x. R r l \<Longrightarrow> R r (l @ [EvUnlock i t x])"
  shows "wp (with_lease (instrument s) sid body) (\<lambda>r wl'. R r (snd wl')) (w, [])"
proof -
  have body: "(\<And>r wl'. R r (snd wl') \<Longrightarrow> Q r wl') \<Longrightarrow> wp (body token) Q (w, [EvLock sid token r])"
    for token w r Q
    using assms(1) by (rule wp_mono)
  show ?thesis
    by (auto simp: with_lease_def unlockBestEffort_def wp_simps assms(2)
        intro!: wp_ports body assms(3) split: sum.splits)
qed

text \<open>When \<open>snapshot\<close> reports that it froze the session, the record it returns is in the
  snapshot state with no transaction left, an archive was taken and its pods were stopped
  without error in this call; when it reports no error but no freeze, it never started a
  checkpoint.\<close>

theorem snapshotted_means_frozen:
  "wp (snapshot (instrument s) sid cutoff) (\<lambda>r wl'. frozen_result r (snd wl')) (w, [])"
  unfolding snapshot_def Let_def bind_checkpointer
  by (rule with_lease_result)
    (auto simp: wp_simps intro!: wp_no_checkpoint_steps wp_snapshot_txn_result frozen_result_False
      frozen_result_unlock frozen_result_True split: sum.splits option.splits)

section \<open>The idle reaper\<close>

record idle_watch =
  last_access :: "time option"
  unasked :: "string option" \<comment> \<open>the pod that has to be asked about approvals\<close>
  awaiting :: bool
  justified :: bool

text \<open>A checkpoint is justified when the record read last was idle at the cutoff, the pod of a session with an approval gate
  was asked since whether it awaits an approval (\<open>asks\<close>: the agent client can), and did not answer that it does.\<close>

definition asked_pod :: "bool \<Rightarrow> Session \<Rightarrow> string option" where
  "asked_pod asks sess = (if asks \<and> HasApprovalGate (WorkloadType sess) \<and> Pod sess \<noteq> '''' then Some (Pod sess) else None)"

definition idle_step :: "bool \<Rightarrow> time \<Rightarrow> idle_watch \<Rightarrow> event \<Rightarrow> idle_watch" where
  "idle_step asks cutoff m e =
     (case e of
        EvGet _ (Inr sess) \<Rightarrow> m\<lparr>last_access := Some (LastAccess sess), unasked := asked_pod asks sess, awaiting := False\<rparr>
      | EvAwaiting p r \<Rightarrow> m\<lparr>unasked := (if unasked m = Some p then None else unasked m), awaiting := (r = Inr True)\<rparr>
      | EvCheckpoint _ _ _ \<Rightarrow>
          m\<lparr>justified := justified m \<and> unasked m = None \<and> \<not> awaiting m \<and>
             (case last_access m of None \<Rightarrow> False | Some t \<Rightarrow> t \<le> cutoff)\<rparr>
      | _ \<Rightarrow> m)"

definition idle_run :: "bool \<Rightarrow> time \<Rightarrow> log \<Rightarrow> idle_watch" where
  "idle_run asks cutoff l =
     foldl (idle_step asks cutoff) \<lparr>last_access = None, unasked = None, awaiting = False, justified = True\<rparr> l"

lemma idle_step_simps [simp]:
  "idle_step a c m (EvGet i (Inr sess)) = m\<lparr>last_access := Some (LastAccess sess), unasked := asked_pod a sess, awaiting := False\<rparr>"
  "idle_step a c m (EvGet i (Inl er)) = m"
  "idle_step a c m (EvAwaiting p r2) = m\<lparr>unasked := (if unasked m = Some p then None else unasked m), awaiting := (r2 = Inr True)\<rparr>"
  "idle_step a c m (EvCheckpoint pr g r3) =
     m\<lparr>justified := justified m \<and> unasked m = None \<and> \<not> awaiting m \<and>
         (case last_access m of None \<Rightarrow> False | Some t \<Rightarrow> t \<le> c)\<rparr>"
  "idle_step a c m (EvLock i t r1) = m" "idle_step a c m (EvUnlock i t r1) = m"
  "idle_step a c m (EvCas i t st x n r1) = m" "idle_step a c m (EvTouch i at r1) = m"
  by (simp_all add: idle_step_def)

lemma idle_run_simps [simp]:
  "idle_run a c [] = \<lparr>last_access = None, unasked = None, awaiting = False, justified = True\<rparr>"
  "idle_run a c (l @ es) = foldl (idle_step a c) (idle_run a c l) es"
  "idle_run a c (e # es) = foldl (idle_step a c)
     (idle_step a c \<lparr>last_access = None, unasked = None, awaiting = False, justified = True\<rparr> e) es"
  by (simp_all add: idle_run_def)

lemma idle_no_checkpoint:
  "list_all no_checkpoint es \<Longrightarrow> justified (foldl (idle_step a c) m es) = justified m"
proof (induction es arbitrary: m)
  case (Cons e es)
  then have "justified (idle_step a c m e) = justified m"
    by (simp add: idle_step_def no_checkpoint_def split: event.splits sum.splits)
  with Cons show ?case by simp
qed simp

lemma wp_idle_frame:
  assumes "only no_checkpoint m" "justified (idle_run a c (snd wl))"
    and "\<And>r wl'. justified (idle_run a c (snd wl')) \<Longrightarrow> Q r wl'"
  shows "wp m Q wl"
  by (rule wp_only [OF assms(1)]) (auto simp: idle_no_checkpoint assms(2) intro!: assms(3))

lemmas wp_idle_steps =
  wp_idle_frame [OF only_rollback] wp_idle_frame [OF only_finalize] wp_idle_frame [OF only_release]
  wp_idle_frame [OF only_signedIn] wp_idle_frame [OF recover_no_checkpoint]
  wp_idle_frame [OF only_touchGet]

definition idle_at :: "bool \<Rightarrow> time \<Rightarrow> log \<Rightarrow> bool" where
  "idle_at a c l = (justified (idle_run a c l) \<and>
     (case last_access (idle_run a c l) of None \<Rightarrow> False | Some t \<Rightarrow> t \<le> c))"

text \<open>The transaction takes one checkpoint, before anything else could change the verdict.\<close>

lemma snapshot_txn_one_checkpoint:
  assumes "idle_at a c (snd wl)" "\<not> awaiting (idle_run a c (snd wl))" "unasked (idle_run a c (snd wl)) = None"
    and "\<And>r wl'. justified (idle_run a c (snd wl')) \<Longrightarrow> Q r wl'"
  shows "wp (snapshotWithTransactionLocked (instrument s) sess token (log_ckpt k)) Q wl"
proof -
  have stop: "idle_step a c m (EvStop rs r) = m" for m rs r by (simp add: idle_step_def)
  show ?thesis
    using assms(1-3)
    by (auto simp: snapshotWithTransactionLocked_def Let_def wp_simps stop idle_at_def
        intro!: wp_ports wp_idle_steps [where a = a and c = c] assms(4) split: sum.splits)
qed

lemma holding_watched:
  assumes "idle_at a c (snd wl)" "\<not> awaiting (idle_run a c (snd wl))"
    and "unasked (idle_run a c (snd wl)) = asked_pod a sess" "a = (ag_AwaitingApproval (svc_agent s) \<noteq> None)"
    and "\<And>holding wl'. idle_at a c (snd wl') \<Longrightarrow> awaiting (idle_run a c (snd wl')) = holding \<Longrightarrow>
      unasked (idle_run a c (snd wl')) = None \<Longrightarrow> Q (Inr holding) wl'"
  shows "wp (holdingForApproval (instrument s) sess) Q wl"
  using assms(1-4)
  by (cases "ag_AwaitingApproval (svc_agent s)")
    (auto simp: holdingForApproval_def wp_simps idle_at_def asked_pod_def intro!: wp_ports assms(5)
      split: sum.splits if_splits)

lemma asked_pod_normalized: "normalizeStoredSession stored = Inr sess \<Longrightarrow> asked_pod a sess = asked_pod a stored"
  by (auto simp: normalizeStoredSession_def NormalizeStoredWorkloadType_def NormalizeWorkloadType_def asked_pod_def
      HasApprovalGate_def WorkloadTypeShell_def WorkloadTypeApprovalGated_def WorkloadTypeMiniMaxCode_def
      WorkloadTypeCodexChat_def legacyWorkloadTypeCodex_def split: sum.splits if_splits)

text \<open>C31: the reaper's snapshot takes a checkpoint only when the record it read last under the
  lock was last accessed no later than the cutoff, so a touch that arrives before that read
  keeps the session alive. When that record is of a type with an approval gate and has a pod, and the agent client can ask, the pod
  was asked after that read whether it awaits an approval, and did not answer that it does; a failing
  question does not hold the session back.\<close>

theorem reaper_checkpoints_only_idle:
  "wp (SnapshotIfIdle (instrument s) sid cutoff)
     (\<lambda>r wl'. justified (idle_run (ag_AwaitingApproval (svc_agent s) \<noteq> None) cutoff (snd wl'))) (w, [])"
proof -
  let ?a = "ag_AwaitingApproval (svc_agent s) \<noteq> None"
  have justified: "idle_at a c l \<Longrightarrow> justified (idle_run a c l)" for a c l by (simp add: idle_at_def)
  show ?thesis
    unfolding SnapshotIfIdle_def snapshot_def Let_def bind_checkpointer
    by (rule with_lease_monitored [where P = "\<lambda>l. justified (idle_run ?a cutoff l)"])
      (auto simp: wp_simps normalizeStoredSession_frame idle_at_def [of _ _ "_ @ _"] justified asked_pod_normalized
        intro!: wp_idle_steps [where a = ?a and c = cutoff] wp_svc_Get holding_watched [where a = ?a and c = cutoff]
          snapshot_txn_one_checkpoint [where a = ?a and c = cutoff]
        split: sum.splits option.splits)
qed

end
