(* ===== verification/Service_Facts.thy ===== *)
theory Service_Facts
  imports Access Accounting
begin

text \<open>
  Facts about the service that are not about one monitored log: the bound chosen for the
  recursion of \<open>recoverSnapshotLocked\<close>, the normal form of the records \<open>Create\<close> writes and
  \<open>Get\<close> returns, and the two idle tests of the reaper.
\<close>

section \<open>The fuel of recovery\<close>

definition lost_race :: "event \<Rightarrow> bool" where
  "lost_race e =
     (case e of EvCas _ _ _ _ _ (Inl err) \<Rightarrow> errors_is err (Sentinel ErrConflict) | _ \<Rightarrow> False)"

definition lost_races :: "log \<Rightarrow> nat" where
  "lost_races l = length (filter lost_race l)"

lemma lost_races_claim:
  "errors_is err (Sentinel ErrConflict) \<Longrightarrow>
   lost_races (l @ [EvCas i t st y n (Inl err), EvGet j r]) = Suc (lost_races l)"
  by (simp add: lost_races_def lost_race_def)

text \<open>One activation either ends without the recursive call, or loses one more race first.\<close>

lemma recover_step_recursion:
  "(\<forall>h. recover_step h (instrument s) sess token wl = recover_step g (instrument s) sess token wl) \<or>
   (\<exists>fresh wl2. lost_races (snd wl2) = Suc (lost_races (snd wl)) \<and>
      (\<forall>h. recover_step h (instrument s) sess token wl = h fresh wl2))"
  by (cases wl)
    (auto simp: recover_step_def Let_def bindE_def tryE_def thenE_def throw_def ret_def lift_def
      svc_Get_def logged_def quiet_def split: option.splits sum.splits prod.splits,
     metis lost_races_claim)

lemma recover_fuel_step:
  "lost_races (snd (snd (recoverSnapshotLocked n (instrument s) sess token wl))) \<ge>
     lost_races (snd wl) + n \<or>
   (\<forall>k. recoverSnapshotLocked (n + k) (instrument s) sess token wl =
        recoverSnapshotLocked n (instrument s) sess token wl)"
proof (induction n arbitrary: sess wl)
  case 0
  show ?case by (simp add: throw_def)
next
  case (Suc n)
  let ?again = "\<lambda>m fresh. recoverSnapshotLocked m (instrument s) fresh token"
  show ?case
    using recover_step_recursion [of s sess token wl "?again n"]
  proof
    assume "\<forall>h. recover_step h (instrument s) sess token wl =
      recover_step (?again n) (instrument s) sess token wl"
    then show ?thesis by simp
  next
    assume "\<exists>fresh wl2. lost_races (snd wl2) = Suc (lost_races (snd wl)) \<and>
      (\<forall>h. recover_step h (instrument s) sess token wl = h fresh wl2)"
    then obtain fresh wl2 where "lost_races (snd wl2) = Suc (lost_races (snd wl))"
      "\<And>h. recover_step h (instrument s) sess token wl = h fresh wl2" by blast
    with Suc.IH [where wl = wl2 and sess = fresh] show ?thesis by simp
  qed
qed

text \<open>C35: the fuel of the modelled recovery is only a bound on lost races: a run with fuel \<open>n\<close>
  either saw at least \<open>n\<close> compare-and-swap conflicts, or every larger fuel gives the very
  same result and effects, so the unbounded recursion of the code returns it too.\<close>

theorem recovery_fuel_enough:
  "n \<le> lost_races (snd (snd (recoverSnapshotLocked n (instrument s) sess token (w, [])))) \<or>
   (\<forall>k. recoverSnapshotLocked (n + k) (instrument s) sess token (w, []) =
        recoverSnapshotLocked n (instrument s) sess token (w, []))"
  using recover_fuel_step [where wl = "(w, [])" and n = n and s = s and sess = sess and token = token]
  by (simp add: lost_races_def)

section \<open>Normal records\<close>

lemma normalizeStoredSession_idem:
  assumes "normalizeStoredSession sess = Inr sess'"
  shows "normalizeStoredSession sess' = Inr sess'"
proof -
  obtain w m e where n: "NormalizeStoredWorkloadType (WorkloadType sess) = Inr w"
    "NormalizeModel w (Model sess) = Inr m"
    "NormalizeReasoningEffort w (ReasoningEffort sess) = Inr e"
    "sess' = sess\<lparr>WorkloadType := w, Model := m, ReasoningEffort := e\<rparr>"
    using assms by (auto simp: normalizeStoredSession_def split: sum.splits)
  moreover have "NormalizeStoredWorkloadType w = Inr w"
    using n(1) by (blast intro: Normalize_valid_id(2) dest: NormalizeStoredWorkloadType_valid)
  moreover have "NormalizeModel w m = Inr m" using n(2) by (rule NormalizeModel_stable)
  moreover have "e = ReasoningEffort sess" using n(3) by (rule NormalizeReasoningEffort_eq)
  ultimately show ?thesis by (simp add: normalizeStoredSession_def)
qed

definition normal_record :: "Session \<Rightarrow> bool" where
  "normal_record sess =
     (normalizeStoredSession sess = Inr sess \<and>
      NormalizePlugins (WorkloadType sess) (Plugins sess) = Inr (Plugins sess))"

lemma normal_record_I:
  assumes "NormalizeWorkloadType w0 = Inr (WorkloadType sess)"
    and "NormalizeModel (WorkloadType sess) m0 = Inr (Model sess)"
    and "NormalizePlugins (WorkloadType sess) p0 = Inr (Plugins sess)"
    and "NormalizeReasoningEffort (WorkloadType sess) e0 = Inr (ReasoningEffort sess)"
  shows "normal_record sess"
proof -
  have "NormalizeStoredWorkloadType (WorkloadType sess) = Inr (WorkloadType sess)"
    using assms(1) NormalizeWorkloadType_valid Normalize_valid_id(2) by blast
  moreover have "NormalizeModel (WorkloadType sess) (Model sess) = Inr (Model sess)"
    using assms(2) by (rule NormalizeModel_stable)
  moreover have "NormalizeReasoningEffort (WorkloadType sess) (ReasoningEffort sess) =
      Inr (ReasoningEffort sess)"
    using assms(4) NormalizeReasoningEffort_eq by metis
  moreover have "NormalizePlugins (WorkloadType sess) (Plugins sess) = Inr (Plugins sess)"
    using assms(3) NormalizePlugins_stable by metis
  ultimately show ?thesis
    by (simp add: normal_record_def normalizeStoredSession_def)
qed

lemmas raw_ports =
  wp_any [where m = "or_Start p i sp" for p i sp] wp_any [where m = "or_Stop p rs" for p rs]
  wp_any [where m = "or_Reach p pr" for p pr] wp_any [where m = "st_Put st x" for st x]
  wp_any [where m = "po_Release p i b" for p i b] wp_any [where m = "svc_newID v" for v]
  wp_any [where m = "acquireAuthSlot v wl i" for v wl i] wp_any [where m = "now_act v" for v]

text \<open>A record that \<open>Create\<close> returns, and every record \<open>Get\<close> returns, is a fixed point of
  the normalisation that every later read and \<open>Restore\<close> apply: the type, model and effort
  a session was created with are the ones it is restored with, and a created session's
  plugin selection is accepted again unchanged.\<close>

theorem records_stay_normal:
  "wp (Create s req) (\<lambda>r w'. case r of Inl _ \<Rightarrow> True | Inr sess \<Rightarrow> normal_record sess) w \<and>
   wp (svc_Get s sid)
     (\<lambda>r w'. case r of Inl _ \<Rightarrow> True | Inr sess \<Rightarrow> normalizeStoredSession sess = Inr sess) w"
proof
  show "wp (Create s req) (\<lambda>r w'. case r of Inl _ \<Rightarrow> True | Inr sess \<Rightarrow> normal_record sess) w"
    by (auto simp: Create_def Let_def wp_simps releaseAuthSlotBestEffort_def
        intro!: raw_ports normal_record_I [of "req_WorkloadType req" _ "req_Model req"
          "req_Plugins req" "req_ReasoningEffort req"] split: sum.splits option.splits)
  show "wp (svc_Get s sid)
     (\<lambda>r w'. case r of Inl _ \<Rightarrow> True | Inr sess \<Rightarrow> normalizeStoredSession sess = Inr sess) w"
    by (auto simp: svc_Get_def wp_simps intro!: wp_any intro: normalizeStoredSession_idem
        split: sum.splits)
qed

section \<open>The two idle tests\<close>

text \<open>The reaper's pre-check on the listed record (\<open>IdleFor < maxIdle\<close>, on saturating
  durations) and the guard it hands to \<open>SnapshotIfIdle\<close> (\<open>LastAccess\<close> after the cutoff) are
  the same test for every idle limit a Go duration can hold.\<close>

theorem idle_tests_agree:
  assumes "minDuration < maxIdle" "maxIdle \<le> maxDuration"
  shows "IdleFor sess now < maxIdle \<longleftrightarrow> LastAccess sess > now - maxIdle"
  using assms by (auto simp: IdleFor_def time_Sub_def minDuration_def maxDuration_def)

definition sample_session :: Session where
  "sample_session =
     \<lparr>ID = ''s1'', WorkloadType = ''shell'', Model = '''', Plugins = None, ReasoningEffort = '''',
      Tenant = '''', Name = ''n'', State = StateActive, Pod = ''p'', AuxiliaryPods = [],
      CreatedAt = 0, LastAccess = 0, Checkpoint = None, SnapshotTransaction = None\<rparr>"

theorem idle_tests_agree_witness:
  "minDuration < MaxIdle \<and> MaxIdle \<le> maxDuration \<and>
   \<not> IdleFor sample_session MaxIdle < MaxIdle \<and> IdleFor sample_session (MaxIdle - 1) < MaxIdle"
  using idle_tests_agree [of MaxIdle sample_session MaxIdle]
    idle_tests_agree [of MaxIdle sample_session "MaxIdle - 1"]
  by (simp add: minDuration_def maxDuration_def MaxIdle_def sample_session_def)

end
