(* ===== verification/Utf8.thy ===== *)
theory Utf8
  imports Prelude
begin

text \<open>
  UTF-8 as the Go library decodes it (\<open>unicode/utf8\<close>): the length of a valid leading
  encoding, validity, and the replacement of ill-formed bytes by U+FFFD that
  \<open>encoding/json\<close> and range loops perform, one replacement per byte.
\<close>

abbreviation byte_of :: "char \<Rightarrow> nat" where "byte_of c \<equiv> of_char c"

definition cont :: "char \<Rightarrow> bool" where
  "cont c = (0x80 \<le> byte_of c \<and> byte_of c \<le> 0xBF)"

text \<open>The range of the second byte that goes with a first byte of a multi-byte encoding.\<close>

definition second_ok :: "char \<Rightarrow> char \<Rightarrow> bool" where
  "second_ok a b =
     (let x = byte_of a; y = byte_of b in
      if x = 0xE0 then 0xA0 \<le> y \<and> y \<le> 0xBF
      else if x = 0xED then 0x80 \<le> y \<and> y \<le> 0x9F
      else if x = 0xF0 then 0x90 \<le> y \<and> y \<le> 0xBF
      else if x = 0xF4 then 0x80 \<le> y \<and> y \<le> 0x8F
      else cont b)"

text \<open>Number of bytes the first byte announces; 0 for a byte that cannot start an encoding.\<close>

definition announced :: "char \<Rightarrow> nat" where
  "announced a =
     (let x = byte_of a in
      if x < 0x80 then 1
      else if 0xC2 \<le> x \<and> x \<le> 0xDF then 2
      else if 0xE0 \<le> x \<and> x \<le> 0xEF then 3
      else if 0xF0 \<le> x \<and> x \<le> 0xF4 then 4
      else 0)"

text \<open>\<open>rune_len s\<close>: the length of the valid encoding at the start of \<open>s\<close>, 0 when there is none
  (Go's \<open>DecodeRune\<close> then answers \<open>RuneError\<close> with width 1).\<close>

fun rune_len :: "string \<Rightarrow> nat" where
  "rune_len [] = 0"
| "rune_len (a # bs) =
     (case announced a of
        0 \<Rightarrow> 0
      | Suc 0 \<Rightarrow> 1
      | Suc (Suc n) \<Rightarrow>
          (case bs of
             [] \<Rightarrow> 0
           | b # cs \<Rightarrow>
               if second_ok a b \<and> n \<le> length cs \<and> list_all cont (take n cs)
               then Suc (Suc n) else 0))"

lemma announced_le: "announced a \<le> 4"
  by (simp add: announced_def Let_def)

lemma rune_len_le: "rune_len s \<le> length s"
  by (cases s) (auto split: nat.splits list.splits)

lemma rune_len_Nil_iff: "0 < rune_len s \<Longrightarrow> s \<noteq> []"
  by (cases s) auto

text \<open>A valid leading encoding does not depend on what follows.\<close>

lemma rune_len_append: "0 < rune_len s \<Longrightarrow> rune_len (s @ t) = rune_len s"
  by (cases s) (auto split: nat.splits list.splits if_splits)

lemma rune_len_take: "0 < rune_len s \<Longrightarrow> rune_len (take (rune_len s) s) = rune_len s"
  by (cases s) (auto split: nat.splits list.splits if_splits)

definition rune_error :: string where "rune_error = [CHR 0xEF, CHR 0xBF, CHR 0xBD]"

lemma rune_len_error [simp]: "rune_len (rune_error @ s) = 3"
  by (simp add: rune_error_def announced_def second_ok_def cont_def numeral_2_eq_2 numeral_3_eq_3)

function utf8_valid :: "string \<Rightarrow> bool" where
  "utf8_valid s =
     (if s = [] then True
      else if rune_len s = 0 then False else utf8_valid (drop (rune_len s) s))"
  by pat_completeness auto
termination by (relation "measure length") auto

function utf8_coerce :: "string \<Rightarrow> string" where
  "utf8_coerce s =
     (if s = [] then []
      else if rune_len s = 0 then rune_error @ utf8_coerce (tl s)
      else take (rune_len s) s @ utf8_coerce (drop (rune_len s) s))"
  by pat_completeness auto
termination by (relation "measure length") auto

declare utf8_valid.simps [simp del] utf8_coerce.simps [simp del]

text \<open>\<open>len([]rune(s))\<close>: every ill-formed byte counts as one rune.\<close>

function rune_count :: "string \<Rightarrow> nat" where
  "rune_count s =
     (if s = [] then 0
      else Suc (rune_count (if rune_len s = 0 then tl s else drop (rune_len s) s)))"
  by pat_completeness auto
termination by (relation "measure length") auto

declare rune_count.simps [simp del]

lemma utf8_Nil [simp]: "utf8_valid []" "utf8_coerce [] = []"
  by (simp_all add: utf8_valid.simps utf8_coerce.simps)

lemma utf8_valid_rune:
  assumes "0 < rune_len s"
  shows "utf8_valid (take (rune_len s) s @ t) = utf8_valid t"
proof -
  have "rune_len (take (rune_len s) s @ t) = rune_len s"
    using assms rune_len_append rune_len_take by metis
  moreover have "take (rune_len s) s \<noteq> []" using assms rune_len_le [of s] by (cases s) auto
  moreover have "length (take (rune_len s) s) = rune_len s" using rune_len_le by simp
  ultimately show ?thesis
    using assms by (subst utf8_valid.simps) simp
qed

lemma utf8_valid_error [simp]: "utf8_valid (rune_error @ t) = utf8_valid t"
  by (subst utf8_valid.simps) (simp, simp add: rune_error_def)

lemma utf8_coerce_valid: "utf8_valid (utf8_coerce s)"
proof (induction s rule: utf8_coerce.induct)
  case (1 s)
  then show ?case
    by (subst utf8_coerce.simps) (auto simp: utf8_valid_rune)
qed

lemma utf8_coerce_id: "utf8_valid s \<Longrightarrow> utf8_coerce s = s"
proof (induction s rule: utf8_coerce.induct)
  case (1 s)
  from 1(3) have "s \<noteq> [] \<Longrightarrow> rune_len s \<noteq> 0 \<and> utf8_valid (drop (rune_len s) s)"
    by (subst (asm) utf8_valid.simps) (auto split: if_splits)
  with 1(2) show ?case by (subst utf8_coerce.simps) auto
qed

lemma utf8_coerce_idem [simp]: "utf8_coerce (utf8_coerce s) = utf8_coerce s"
  by (rule utf8_coerce_id) (rule utf8_coerce_valid)

lemma utf8_coerce_Nil_iff [simp]: "utf8_coerce s = [] \<longleftrightarrow> s = []"
proof
  assume "utf8_coerce s = []"
  then show "s = []"
    by (subst (asm) utf8_coerce.simps) (auto simp: rune_error_def split: if_splits)
qed simp

end
