(* ===== verification/Session_Codec.thy ===== *)
theory Session_Codec
  imports Session_Model Utf8
begin

text \<open>
  The durable form of a session: the JSON document of \<open>storedSession\<close> in
  \<open>adapter/configmap/store.go\<close>, by the struct tags of \<open>session.Session\<close>,
  \<open>session.Checkpoint\<close> and \<open>session.SnapshotTransaction\<close>. A document is a tree; the text
  layer of \<open>encoding/json\<close> between tree and string is not modelled, except for what it does
  to the values: strings are coerced to UTF-8, times outside the years 0 to 9999 are refused,
  \<open>omitempty\<close> fields vanish when empty, \<open>json:"-"\<close> fields always. Reading takes the keys the
  writer uses; a missing or null field leaves Go's zero value, a field of the wrong kind is an
  error.
\<close>

datatype json =
    JNull
  | JStr string
  | JNum int
  | JTime time \<comment> \<open>a string in RFC 3339 form\<close>
  | JArr "json list"
  | JObj "(string \<times> json) list"

section \<open>Writing\<close>

text \<open>Nanoseconds from the epoch to the start of the years 0 and 10000.\<close>

definition year0 :: time where "year0 = - 62167219200 * 1000000000"
definition year10000 :: time where "year10000 = 253402300800 * 1000000000"

definition time_ok :: "time \<Rightarrow> bool" where
  "time_ok t = (year0 \<le> t \<and> t < year10000)"

definition jstr :: "string \<Rightarrow> json" where "jstr s = JStr (utf8_coerce s)"

definition opt_str :: "string \<Rightarrow> string \<Rightarrow> (string \<times> json) list" where
  "opt_str key s = (if s = '''' then [] else [(key, jstr s)])"

definition opt_strs :: "string \<Rightarrow> string list \<Rightarrow> (string \<times> json) list" where
  "opt_strs key ss = (if ss = [] then [] else [(key, JArr (map jstr ss))])"

definition marshal_checkpoint :: "Checkpoint \<Rightarrow> goerr + json" where
  "marshal_checkpoint cp =
     (if \<not> time_ok (cp_CreatedAt cp) then Inl (New ''json'')
      else Inr (JObj ([(''ref'', jstr (cp_Ref cp)), (''sizeBytes'', JNum (cp_SizeBytes cp)),
                       (''createdAt'', JTime (cp_CreatedAt cp))] @
                      opt_str ''reclaimed'' (cp_Reclaimed cp))))"

definition opt_checkpoint :: "Checkpoint option \<Rightarrow> goerr + (string \<times> json) list" where
  "opt_checkpoint c =
     (case c of
        None \<Rightarrow> Inr []
      | Some cp \<Rightarrow> (case marshal_checkpoint cp of Inl e \<Rightarrow> Inl e | Inr j \<Rightarrow> Inr [(''checkpoint'', j)]))"

definition marshal_txn :: "SnapshotTransaction \<Rightarrow> goerr + json" where
  "marshal_txn t =
     (case opt_checkpoint (txn_Checkpoint t) of
        Inl e \<Rightarrow> Inl e
      | Inr c \<Rightarrow>
          Inr (JObj ([(''generation'', jstr (Generation t)), (''owner'', jstr (Owner t)),
                      (''sourcePod'', jstr (SourcePod t)), (''phase'', jstr (Phase t))] @ c)))"

definition opt_txn :: "SnapshotTransaction option \<Rightarrow> goerr + (string \<times> json) list" where
  "opt_txn c =
     (case c of
        None \<Rightarrow> Inr []
      | Some t \<Rightarrow> (case marshal_txn t of Inl e \<Rightarrow> Inl e | Inr j \<Rightarrow> Inr [(''snapshotTxn'', j)]))"

definition marshal_session :: "Session \<Rightarrow> goerr + json" where
  "marshal_session s =
     (if \<not> time_ok (CreatedAt s) \<or> \<not> time_ok (LastAccess s) then Inl (New ''json'')
      else
        (case opt_checkpoint (Checkpoint s) of
           Inl e \<Rightarrow> Inl e
         | Inr c \<Rightarrow>
             (case opt_txn (SnapshotTransaction s) of
                Inl e \<Rightarrow> Inl e
              | Inr t \<Rightarrow>
                  Inr (JObj ([(''id'', jstr (ID s))] @
                        opt_str ''workloadType'' (WorkloadType s) @
                        opt_str ''model'' (Model s) @
                        opt_strs ''plugins'' (case Plugins s of None \<Rightarrow> [] | Some ps \<Rightarrow> ps) @
                        opt_str ''reasoningEffort'' (ReasoningEffort s) @
                        opt_str ''tenant'' (Tenant s) @
                        [(''name'', jstr (Name s)), (''state'', jstr (State s))] @
                        opt_str ''pod'' (Pod s) @
                        opt_strs ''auxiliaryPods'' (AuxiliaryPods s) @
                        [(''createdAt'', JTime (CreatedAt s)), (''lastAccess'', JTime (LastAccess s))] @
                        c @ t)))))"

section \<open>Reading\<close>

definition get_str :: "(string \<times> json) list \<Rightarrow> string \<Rightarrow> goerr + string" where
  "get_str obj key =
     (case map_of obj key of
        None \<Rightarrow> Inr '''' | Some JNull \<Rightarrow> Inr '''' | Some (JStr s) \<Rightarrow> Inr s
      | Some _ \<Rightarrow> Inl (New ''json''))"

definition get_num :: "(string \<times> json) list \<Rightarrow> string \<Rightarrow> goerr + int" where
  "get_num obj key =
     (case map_of obj key of
        None \<Rightarrow> Inr 0 | Some JNull \<Rightarrow> Inr 0 | Some (JNum n) \<Rightarrow> Inr n
      | Some _ \<Rightarrow> Inl (New ''json''))"

text \<open>The zero \<open>time.Time\<close> is the first instant of the year 1.\<close>

definition zero_time :: time where "zero_time = - 62135596800 * 1000000000"

definition get_time :: "(string \<times> json) list \<Rightarrow> string \<Rightarrow> goerr + time" where
  "get_time obj key =
     (case map_of obj key of
        None \<Rightarrow> Inr zero_time | Some JNull \<Rightarrow> Inr zero_time | Some (JTime t) \<Rightarrow> Inr t
      | Some _ \<Rightarrow> Inl (New ''json''))"

fun strs :: "json list \<Rightarrow> goerr + string list" where
  "strs [] = Inr []"
| "strs (j # js) =
     (case (case j of JStr s \<Rightarrow> Inr s | JNull \<Rightarrow> Inr '''' | _ \<Rightarrow> Inl (New ''json'')) of
        Inl e \<Rightarrow> Inl e
      | Inr s \<Rightarrow> (case strs js of Inl e \<Rightarrow> Inl e | Inr ss \<Rightarrow> Inr (s # ss)))"

definition get_strs :: "(string \<times> json) list \<Rightarrow> string \<Rightarrow> goerr + string list option" where
  "get_strs obj key =
     (case map_of obj key of
        None \<Rightarrow> Inr None
      | Some JNull \<Rightarrow> Inr None
      | Some (JArr js) \<Rightarrow> (case strs js of Inl e \<Rightarrow> Inl e | Inr ss \<Rightarrow> Inr (Some ss))
      | Some _ \<Rightarrow> Inl (New ''json''))"

definition bindR :: "goerr + 'a \<Rightarrow> ('a \<Rightarrow> goerr + 'b) \<Rightarrow> goerr + 'b" where
  "bindR r f = (case r of Inl e \<Rightarrow> Inl e | Inr x \<Rightarrow> f x)"

lemma bindR_simps [simp]: "bindR (Inl e) f = Inl e" "bindR (Inr x) f = f x"
  by (simp_all add: bindR_def)

definition unmarshal_checkpoint :: "json \<Rightarrow> goerr + Checkpoint" where
  "unmarshal_checkpoint j =
     (case j of
        JObj obj \<Rightarrow>
          bindR (get_str obj ''ref'') (\<lambda>ref.
          bindR (get_num obj ''sizeBytes'') (\<lambda>size.
          bindR (get_time obj ''createdAt'') (\<lambda>created.
          bindR (get_str obj ''reclaimed'') (\<lambda>reclaimed.
          Inr \<lparr>cp_Ref = ref, cp_SizeBytes = size, cp_CreatedAt = created,
               cp_Reclaimed = reclaimed, cp_AbortToken = ''''\<rparr>))))
      | _ \<Rightarrow> Inl (New ''json''))"

definition get_ptr ::
  "(json \<Rightarrow> goerr + 'a) \<Rightarrow> (string \<times> json) list \<Rightarrow> string \<Rightarrow> goerr + 'a option" where
  "get_ptr f obj key =
     (case map_of obj key of
        None \<Rightarrow> Inr None
      | Some JNull \<Rightarrow> Inr None
      | Some j \<Rightarrow> (case f j of Inl e \<Rightarrow> Inl e | Inr x \<Rightarrow> Inr (Some x)))"

definition unmarshal_txn :: "json \<Rightarrow> goerr + SnapshotTransaction" where
  "unmarshal_txn j =
     (case j of
        JObj obj \<Rightarrow>
          bindR (get_str obj ''generation'') (\<lambda>generation.
          bindR (get_str obj ''owner'') (\<lambda>owner.
          bindR (get_str obj ''sourcePod'') (\<lambda>pod.
          bindR (get_str obj ''phase'') (\<lambda>phase.
          bindR (get_ptr unmarshal_checkpoint obj ''checkpoint'') (\<lambda>cp.
          Inr \<lparr>Generation = generation, Owner = owner, SourcePod = pod, Phase = phase,
               txn_Checkpoint = cp\<rparr>)))))
      | _ \<Rightarrow> Inl (New ''json''))"

definition unmarshal_session :: "json \<Rightarrow> goerr + Session" where
  "unmarshal_session j =
     (case j of
        JObj obj \<Rightarrow>
          bindR (get_str obj ''id'') (\<lambda>sid.
          bindR (get_str obj ''workloadType'') (\<lambda>workload.
          bindR (get_str obj ''model'') (\<lambda>model.
          bindR (get_strs obj ''plugins'') (\<lambda>plugins.
          bindR (get_str obj ''reasoningEffort'') (\<lambda>effort.
          bindR (get_str obj ''tenant'') (\<lambda>tenant.
          bindR (get_str obj ''name'') (\<lambda>name.
          bindR (get_str obj ''state'') (\<lambda>state.
          bindR (get_str obj ''pod'') (\<lambda>pod.
          bindR (get_strs obj ''auxiliaryPods'') (\<lambda>aux.
          bindR (get_time obj ''createdAt'') (\<lambda>created.
          bindR (get_time obj ''lastAccess'') (\<lambda>accessed.
          bindR (get_ptr unmarshal_checkpoint obj ''checkpoint'') (\<lambda>cp.
          bindR (get_ptr unmarshal_txn obj ''snapshotTxn'') (\<lambda>txn.
          Inr \<lparr>ID = sid, WorkloadType = workload, Model = model, Plugins = plugins,
               ReasoningEffort = effort, Tenant = tenant, Name = name, State = state, Pod = pod,
               AuxiliaryPods = (case aux of None \<Rightarrow> [] | Some ss \<Rightarrow> ss),
               CreatedAt = created, LastAccess = accessed, Checkpoint = cp,
               SnapshotTransaction = txn\<rparr>))))))))))))))
      | JNull \<Rightarrow> Inr \<lparr>ID = '''', WorkloadType = '''', Model = '''', Plugins = None,
               ReasoningEffort = '''', Tenant = '''', Name = '''', State = '''', Pod = '''',
               AuxiliaryPods = [], CreatedAt = zero_time, LastAccess = zero_time,
               Checkpoint = None, SnapshotTransaction = None\<rparr>
      | _ \<Rightarrow> Inl (New ''json''))"

section \<open>Round trip\<close>

text \<open>What a session becomes by being stored: ill-formed bytes are replaced, the transient abort
  token is dropped and an empty plugin list is an absent one.\<close>

definition canon_checkpoint :: "Checkpoint \<Rightarrow> Checkpoint" where
  "canon_checkpoint cp =
     cp\<lparr>cp_Ref := utf8_coerce (cp_Ref cp), cp_Reclaimed := utf8_coerce (cp_Reclaimed cp),
        cp_AbortToken := ''''\<rparr>"

definition canon_txn :: "SnapshotTransaction \<Rightarrow> SnapshotTransaction" where
  "canon_txn t =
     \<lparr>Generation = utf8_coerce (Generation t), Owner = utf8_coerce (Owner t),
      SourcePod = utf8_coerce (SourcePod t), Phase = utf8_coerce (Phase t),
      txn_Checkpoint = map_option canon_checkpoint (txn_Checkpoint t)\<rparr>"

definition canon_session :: "Session \<Rightarrow> Session" where
  "canon_session s =
     \<lparr>ID = utf8_coerce (ID s), WorkloadType = utf8_coerce (WorkloadType s),
      Model = utf8_coerce (Model s),
      Plugins = (case Plugins s of None \<Rightarrow> None
                 | Some ps \<Rightarrow> if ps = [] then None else Some (map utf8_coerce ps)),
      ReasoningEffort = utf8_coerce (ReasoningEffort s), Tenant = utf8_coerce (Tenant s),
      Name = utf8_coerce (Name s), State = utf8_coerce (State s), Pod = utf8_coerce (Pod s),
      AuxiliaryPods = map utf8_coerce (AuxiliaryPods s),
      CreatedAt = CreatedAt s, LastAccess = LastAccess s,
      Checkpoint = map_option canon_checkpoint (Checkpoint s),
      SnapshotTransaction = map_option canon_txn (SnapshotTransaction s)\<rparr>"

definition checkpoint_storable :: "Checkpoint option \<Rightarrow> bool" where
  "checkpoint_storable c = (case c of None \<Rightarrow> True | Some cp \<Rightarrow> time_ok (cp_CreatedAt cp))"

definition storable :: "Session \<Rightarrow> bool" where
  "storable s =
     (time_ok (CreatedAt s) \<and> time_ok (LastAccess s) \<and> checkpoint_storable (Checkpoint s) \<and>
      (case SnapshotTransaction s of None \<Rightarrow> True | Some t \<Rightarrow> checkpoint_storable (txn_Checkpoint t)))"

declare map_of_append [simp del]

lemma map_of_opt_str [simp]:
  "map_of (opt_str k s @ rest) key = (if key = k \<and> s \<noteq> '''' then Some (jstr s) else map_of rest key)"
  by (simp add: opt_str_def)

lemma map_of_opt_strs [simp]:
  "map_of (opt_strs k ss @ rest) key =
     (if key = k \<and> ss \<noteq> [] then Some (JArr (map jstr ss)) else map_of rest key)"
  by (simp add: opt_strs_def)

lemma strs_jstr [simp]: "strs (map jstr ss) = Inr (map utf8_coerce ss)"
  by (induction ss) (auto simp: jstr_def)

lemma checkpoint_round_trip:
  "marshal_checkpoint cp = Inr j \<Longrightarrow> unmarshal_checkpoint j = Inr (canon_checkpoint cp)"
  by (auto simp: marshal_checkpoint_def unmarshal_checkpoint_def get_str_def get_num_def get_time_def
      opt_str_def jstr_def canon_checkpoint_def split: if_splits)

lemma opt_checkpoint_cases:
  assumes "opt_checkpoint c = Inr fs"
  obtains "c = None" "fs = []"
  | cp obj where "c = Some cp" "fs = [(''checkpoint'', JObj obj)]"
      "unmarshal_checkpoint (JObj obj) = Inr (canon_checkpoint cp)"
proof (cases c)
  case None
  with assms that(1) show ?thesis by (simp add: opt_checkpoint_def)
next
  case (Some cp)
  with assms obtain j where j: "marshal_checkpoint cp = Inr j" "fs = [(''checkpoint'', j)]"
    by (auto simp: opt_checkpoint_def split: sum.splits)
  then obtain obj where "j = JObj obj" by (auto simp: marshal_checkpoint_def split: if_splits)
  with Some j that(2) checkpoint_round_trip show ?thesis by metis
qed

lemma txn_round_trip:
  assumes "marshal_txn t = Inr j"
  shows "unmarshal_txn j = Inr (canon_txn t)" "\<exists>obj. j = JObj obj"
proof -
  obtain c where c: "opt_checkpoint (txn_Checkpoint t) = Inr c"
    and j: "j = JObj ([(''generation'', jstr (Generation t)), (''owner'', jstr (Owner t)),
                 (''sourcePod'', jstr (SourcePod t)), (''phase'', jstr (Phase t))] @ c)"
    using assms by (auto simp: marshal_txn_def split: sum.splits)
  from c show "unmarshal_txn j = Inr (canon_txn t)"
    by (rule opt_checkpoint_cases)
      (simp_all add: j unmarshal_txn_def get_str_def get_ptr_def jstr_def canon_txn_def)
  from j show "\<exists>obj. j = JObj obj" by simp
qed

lemma opt_txn_cases:
  assumes "opt_txn c = Inr fs"
  obtains "c = None" "fs = []"
  | t obj where "c = Some t" "fs = [(''snapshotTxn'', JObj obj)]"
      "unmarshal_txn (JObj obj) = Inr (canon_txn t)"
proof (cases c)
  case None
  with assms that(1) show ?thesis by (simp add: opt_txn_def)
next
  case (Some t)
  with assms obtain j where j: "marshal_txn t = Inr j" "fs = [(''snapshotTxn'', j)]"
    by (auto simp: opt_txn_def split: sum.splits)
  with Some that(2) txn_round_trip show ?thesis by metis
qed

text \<open>The scalar fields of a written session are found again whatever follows them.\<close>

definition session_fields :: "Session \<Rightarrow> (string \<times> json) list \<Rightarrow> (string \<times> json) list" where
  "session_fields s rest =
     [(''id'', jstr (ID s))] @ opt_str ''workloadType'' (WorkloadType s) @
     opt_str ''model'' (Model s) @
     opt_strs ''plugins'' (case Plugins s of None \<Rightarrow> [] | Some ps \<Rightarrow> ps) @
     opt_str ''reasoningEffort'' (ReasoningEffort s) @ opt_str ''tenant'' (Tenant s) @
     [(''name'', jstr (Name s)), (''state'', jstr (State s))] @ opt_str ''pod'' (Pod s) @
     opt_strs ''auxiliaryPods'' (AuxiliaryPods s) @
     [(''createdAt'', JTime (CreatedAt s)), (''lastAccess'', JTime (LastAccess s))] @ rest"

lemma session_fields_get:
  assumes "\<forall>k \<in> set (map fst rest). k = ''checkpoint'' \<or> k = ''snapshotTxn''"
  shows "get_str (session_fields s rest) ''id'' = Inr (utf8_coerce (ID s))"
    "get_str (session_fields s rest) ''workloadType'' = Inr (utf8_coerce (WorkloadType s))"
    "get_str (session_fields s rest) ''model'' = Inr (utf8_coerce (Model s))"
    "get_str (session_fields s rest) ''reasoningEffort'' = Inr (utf8_coerce (ReasoningEffort s))"
    "get_str (session_fields s rest) ''tenant'' = Inr (utf8_coerce (Tenant s))"
    "get_str (session_fields s rest) ''name'' = Inr (utf8_coerce (Name s))"
    "get_str (session_fields s rest) ''state'' = Inr (utf8_coerce (State s))"
    "get_str (session_fields s rest) ''pod'' = Inr (utf8_coerce (Pod s))"
    "get_time (session_fields s rest) ''createdAt'' = Inr (CreatedAt s)"
    "get_time (session_fields s rest) ''lastAccess'' = Inr (LastAccess s)"
    "get_strs (session_fields s rest) ''plugins'' = Inr (Plugins (canon_session s))"
    "get_strs (session_fields s rest) ''auxiliaryPods'' =
       Inr (if AuxiliaryPods s = [] then None else Some (map utf8_coerce (AuxiliaryPods s)))"
proof -
  have rest: "map_of rest k = None" if "k \<noteq> ''checkpoint''" "k \<noteq> ''snapshotTxn''" for k
    using assms(1) that by (force simp: map_of_eq_None_iff)
  show "get_str (session_fields s rest) ''id'' = Inr (utf8_coerce (ID s))"
    "get_str (session_fields s rest) ''workloadType'' = Inr (utf8_coerce (WorkloadType s))"
    "get_str (session_fields s rest) ''model'' = Inr (utf8_coerce (Model s))"
    "get_str (session_fields s rest) ''reasoningEffort'' = Inr (utf8_coerce (ReasoningEffort s))"
    "get_str (session_fields s rest) ''tenant'' = Inr (utf8_coerce (Tenant s))"
    "get_str (session_fields s rest) ''name'' = Inr (utf8_coerce (Name s))"
    "get_str (session_fields s rest) ''state'' = Inr (utf8_coerce (State s))"
    "get_str (session_fields s rest) ''pod'' = Inr (utf8_coerce (Pod s))"
    by (simp_all add: session_fields_def get_str_def jstr_def rest)
  show "get_time (session_fields s rest) ''createdAt'' = Inr (CreatedAt s)"
    "get_time (session_fields s rest) ''lastAccess'' = Inr (LastAccess s)"
    by (simp_all add: session_fields_def get_time_def rest)
  show "get_strs (session_fields s rest) ''plugins'' = Inr (Plugins (canon_session s))"
    by (cases "Plugins s")
      (simp_all add: session_fields_def get_strs_def canon_session_def rest)
  show "get_strs (session_fields s rest) ''auxiliaryPods'' =
       Inr (if AuxiliaryPods s = [] then None else Some (map utf8_coerce (AuxiliaryPods s)))"
    by (simp add: session_fields_def get_strs_def rest)
qed

lemma session_fields_map_of:
  "map_of (session_fields s rest) ''checkpoint'' = map_of rest ''checkpoint''"
  "map_of (session_fields s rest) ''snapshotTxn'' = map_of rest ''snapshotTxn''"
  by (simp_all add: session_fields_def)

lemma session_fields_ptr:
  "get_ptr f (session_fields s rest) ''checkpoint'' = get_ptr f rest ''checkpoint''"
  "get_ptr f (session_fields s rest) ''snapshotTxn'' = get_ptr f rest ''snapshotTxn''"
  by (simp_all only: get_ptr_def session_fields_map_of)

lemma session_round_trip:
  assumes "marshal_session s = Inr j"
  shows "unmarshal_session j = Inr (canon_session s)"
proof -
  obtain c t where ct: "opt_checkpoint (Checkpoint s) = Inr c" "opt_txn (SnapshotTransaction s) = Inr t"
    and j: "j = JObj (session_fields s (c @ t))"
    using assms by (auto simp: marshal_session_def session_fields_def split: sum.splits if_splits)
  have keys: "\<forall>k \<in> set (map fst (c @ t)). k = ''checkpoint'' \<or> k = ''snapshotTxn''"
    using ct by (auto elim!: opt_checkpoint_cases opt_txn_cases)
  have ptrs: "get_ptr unmarshal_checkpoint (c @ t) ''checkpoint'' =
      Inr (map_option canon_checkpoint (Checkpoint s))"
    "get_ptr unmarshal_txn (c @ t) ''snapshotTxn'' = Inr (map_option canon_txn (SnapshotTransaction s))"
    using ct by (auto elim!: opt_checkpoint_cases opt_txn_cases simp: get_ptr_def)
  show ?thesis
    using session_fields_get [OF keys]
    by (simp add: j unmarshal_session_def session_fields_ptr ptrs canon_session_def)
qed

lemma marshal_session_fails: "marshal_session s = Inl e \<Longrightarrow> \<not> storable s"
  by (auto simp: marshal_session_def storable_def opt_checkpoint_def opt_txn_def marshal_txn_def
      marshal_checkpoint_def checkpoint_storable_def split: sum.splits if_splits option.splits)

text \<open>C34: the stored form is faithful: a session whose times are representable is always written,
  and reading back what was written gives the same session, up to the replacement of
  ill-formed UTF-8 bytes, the transient abort token (never made durable) and an empty
  plugin list (read back as absent).\<close>

theorem stored_session_round_trip:
  "case marshal_session s of
     Inl _ \<Rightarrow> \<not> storable s
   | Inr doc \<Rightarrow> unmarshal_session doc = Inr (canon_session s)"
  by (auto simp: session_round_trip marshal_session_fails split: sum.splits)

lemma canon_idem [simp]: "canon_session (canon_session s) = canon_session s"
proof -
  have cp: "canon_checkpoint (canon_checkpoint c) = canon_checkpoint c" for c
    by (simp add: canon_checkpoint_def)
  have "canon_txn (canon_txn t) = canon_txn t" for t
    by (cases "txn_Checkpoint t") (simp_all add: canon_txn_def cp)
  with cp show ?thesis
    by (cases "Checkpoint s"; cases "SnapshotTransaction s"; cases "Plugins s")
      (simp_all add: canon_session_def)
qed

end
