(* ===== verification/Kube.thy ===== *)
theory Kube
  imports Session_Codec
begin

text \<open>
  The Kubernetes API as the control plane uses it through \<open>client-go\<close>: ConfigMaps, Leases and
  volume claims of one namespace. The server is not code of this repository, so it is a
  parameter: the record \<open>KubeAPI\<close> of calls on a world. What the store and the login pools rely
  on is the locale \<open>versioned_api\<close>, the documented contract of optimistic concurrency: a get
  returns an object the server held at some instant of the call, a create succeeds only where
  there was no object, and an update or a preconditioned delete succeeds only against the
  resource version it names, at one instant, whatever other clients do in between.
  \<open>reach w w'\<close> says that the server's history leads from \<open>w\<close> to \<open>w'\<close>. An in-memory server
  satisfies the contract.
\<close>

section \<open>Objects and calls\<close>

record ConfigMap =
  cmo_Name :: string
  cmo_Labels :: "string \<rightharpoonup> string"
  cmo_Annotations :: "string \<rightharpoonup> string"
  cmo_Data :: "string \<rightharpoonup> json"
  cmo_ResourceVersion :: string

record Lease =
  le_Name :: string
  le_Labels :: "string \<rightharpoonup> string"
  le_Annotations :: "string \<rightharpoonup> string"
  le_CreationTimestamp :: time
  le_HolderIdentity :: "string option"
  le_LeaseDurationSeconds :: "int option"
  le_AcquireTime :: "time option"
  le_RenewTime :: "time option"
  le_ResourceVersion :: string

record VolumeClaim =
  pvc_Name :: string
  pvc_Labels :: "string \<rightharpoonup> string"
  pvc_StorageClass :: "string option"
  pvc_Storage :: string

record 'w KubeAPI =
  cm_Get :: "string \<Rightarrow> ('w, ConfigMap) act"
  cm_List :: "string \<Rightarrow> string \<Rightarrow> ('w, ConfigMap list) act"
  cm_Create :: "ConfigMap \<Rightarrow> ('w, unit) act"
  cm_Update :: "ConfigMap \<Rightarrow> ('w, unit) act"
  cm_Delete :: "string \<Rightarrow> string \<Rightarrow> ('w, unit) act"
  le_Get :: "string \<Rightarrow> ('w, Lease) act"
  le_List :: "string \<Rightarrow> string \<Rightarrow> ('w, Lease list) act"
  le_Create :: "Lease \<Rightarrow> ('w, unit) act"
  le_Update :: "Lease \<Rightarrow> ('w, unit) act"
  le_Delete :: "string \<Rightarrow> string \<Rightarrow> ('w, unit) act"
  pvc_Get :: "string \<Rightarrow> ('w, VolumeClaim) act"
  pvc_Create :: "VolumeClaim \<Rightarrow> ('w, unit) act"

definition IsNotFound :: "goerr \<Rightarrow> bool" where
  "IsNotFound e = errors_is e (Api ApiNotFound)"

definition IsAlreadyExists :: "goerr \<Rightarrow> bool" where
  "IsAlreadyExists e = errors_is e (Api ApiAlreadyExists)"

definition IsConflict :: "goerr \<Rightarrow> bool" where
  "IsConflict e = errors_is e (Api ApiConflict)"

text \<open>\<open>metav1.MicroTime\<close> keeps microseconds.\<close>

definition NewMicroTime :: "time \<Rightarrow> time" where
  "NewMicroTime t = (t div 1000) * 1000"

lemma NewMicroTime_bounds: "NewMicroTime t \<le> t" "t - NewMicroTime t < 1000"
  unfolding NewMicroTime_def by presburger+

text \<open>Server-managed metadata aside.\<close>

definition cm_erase :: "ConfigMap \<Rightarrow> ConfigMap" where
  "cm_erase o' = o'\<lparr>cmo_ResourceVersion := ''''\<rparr>"

definition le_erase :: "Lease \<Rightarrow> Lease" where
  "le_erase o' = o'\<lparr>le_ResourceVersion := '''', le_CreationTimestamp := 0\<rparr>"

lemma cm_erase_eq:
  "cm_erase a = cm_erase b \<Longrightarrow> cmo_Name a = cmo_Name b \<and> cmo_Labels a = cmo_Labels b \<and>
     cmo_Annotations a = cmo_Annotations b \<and> cmo_Data a = cmo_Data b"
  by (cases a; cases b) (simp add: cm_erase_def)

lemma le_erase_eq:
  "le_erase a = le_erase b \<Longrightarrow> le_Name a = le_Name b \<and> le_Labels a = le_Labels b \<and>
     le_Annotations a = le_Annotations b \<and> le_HolderIdentity a = le_HolderIdentity b \<and>
     le_LeaseDurationSeconds a = le_LeaseDurationSeconds b \<and> le_AcquireTime a = le_AcquireTime b \<and>
     le_RenewTime a = le_RenewTime b"
  by (cases a; cases b) (simp add: le_erase_def)

section \<open>The contract of a versioned collection\<close>

locale versioned_api =
  fixes get :: "string \<Rightarrow> ('w, 'o) act"
    and create :: "'o \<Rightarrow> ('w, unit) act"
    and update :: "'o \<Rightarrow> ('w, unit) act"
    and delete :: "string \<Rightarrow> string \<Rightarrow> ('w, unit) act"
    and view :: "'w \<Rightarrow> string \<Rightarrow> 'o option"
    and name_of :: "'o \<Rightarrow> string"
    and rv_of :: "'o \<Rightarrow> string"
    and erase :: "'o \<Rightarrow> 'o"
    and reach :: "'w \<Rightarrow> 'w \<Rightarrow> bool"
    and ok :: "'w \<Rightarrow> bool"
  assumes reach_refl: "ok w \<Longrightarrow> reach w w"
    and reach_trans: "reach w w1 \<Longrightarrow> reach w1 w2 \<Longrightarrow> reach w w2"
    and reach_ok: "reach w w' \<Longrightarrow> ok w \<Longrightarrow> ok w'"
    and view_name: "ok w \<Longrightarrow> view w n = Some a \<Longrightarrow> name_of a = n"
    and rv_unique: "ok w \<Longrightarrow> reach w w' \<Longrightarrow> view w n = Some a \<Longrightarrow> view w' n = Some b \<Longrightarrow>
      rv_of a = rv_of b \<Longrightarrow> a = b"
    and get_reach: "ok w \<Longrightarrow> get n w = (r, w') \<Longrightarrow> reach w w'"
    and get_found: "ok w \<Longrightarrow> get n w = (Inr a, w') \<Longrightarrow> view w' n = Some a"
    and get_missing: "ok w \<Longrightarrow> get n w = (Inl e, w') \<Longrightarrow> IsNotFound e \<Longrightarrow> view w' n = None"
    and create_reach: "ok w \<Longrightarrow> create a w = (ru, w') \<Longrightarrow> reach w w'"
    and create_commits: "ok w \<Longrightarrow> create a w = (Inr u, w') \<Longrightarrow>
      \<exists>w1 b. reach w w1 \<and> reach w1 w' \<and> view w1 (name_of a) = None \<and> erase b = erase a \<and>
        view w' = (view w1)(name_of a \<mapsto> b)"
    and update_reach: "ok w \<Longrightarrow> update a w = (ru, w') \<Longrightarrow> reach w w'"
    and update_commits: "ok w \<Longrightarrow> update a w = (Inr u, w') \<Longrightarrow>
      \<exists>w1 old b. reach w w1 \<and> reach w1 w' \<and> view w1 (name_of a) = Some old \<and>
        rv_of old = rv_of a \<and> erase b = erase a \<and> view w' = (view w1)(name_of a \<mapsto> b)"
    and update_missing: "ok w \<Longrightarrow> update a w = (Inl e, w') \<Longrightarrow> IsNotFound e \<Longrightarrow> view w' (name_of a) = None"
    and delete_missing: "ok w \<Longrightarrow> delete n v w = (Inl e, w') \<Longrightarrow> IsNotFound e \<Longrightarrow> view w' n = None"
    and delete_reach: "ok w \<Longrightarrow> delete n v w = (ru, w') \<Longrightarrow> reach w w'"
    and delete_commits: "ok w \<Longrightarrow> delete n v w = (Inr u, w') \<Longrightarrow>
      \<exists>w1 old. reach w w1 \<and> reach w1 w' \<and> view w1 n = Some old \<and> rv_of old = v \<and>
        view w' = (view w1)(n := None)"
begin

text \<open>A write that carries the version of an object seen earlier, possibly much earlier, is one
  atomic step: at the instant of the write the server still held exactly what was seen.\<close>

lemma seen_modify_write:
  assumes "ok w1" "view w1 n = Some a" "reach w1 w2" "update a' w2 = (Inr u, w3)"
    and "name_of a' = name_of a" "rv_of a' = rv_of a"
  shows "\<exists>wc b. reach w1 wc \<and> reach w2 wc \<and> reach wc w3 \<and> view wc n = Some a \<and>
    erase b = erase a' \<and> view w3 = (view wc)(n \<mapsto> b)"
proof -
  have w2: "ok w2" using assms(1,3) reach_ok by blast
  obtain wc old b where c: "reach w2 wc" "reach wc w3" "view wc (name_of a') = Some old"
    "rv_of old = rv_of a'" "erase b = erase a'" "view w3 = (view wc)(name_of a' \<mapsto> b)"
    using update_commits [OF w2 assms(4)] by blast
  have n: "name_of a' = n" using view_name [OF assms(1,2)] assms(5) by simp
  have r: "reach w1 wc" using assms(3) c(1) reach_trans by blast
  then have "a = old" using rv_unique [OF assms(1)] assms(2) c(3,4) assms(6) n by metis
  then show ?thesis using c n r by blast
qed

lemma read_modify_write:
  assumes "ok w" "get n w = (Inr a, w1)" "reach w1 w2" "update a' w2 = (Inr u, w3)"
    and "name_of a' = name_of a" "rv_of a' = rv_of a"
  shows "\<exists>wc b. reach w wc \<and> reach wc w3 \<and> view wc n = Some a \<and> erase b = erase a' \<and>
    view w3 = (view wc)(n \<mapsto> b)"
proof -
  have w1: "ok w1" "view w1 n = Some a" "reach w w1"
    using assms(1,2) get_reach get_found reach_ok by blast+
  show ?thesis
    using seen_modify_write [OF w1(1,2) assms(3-6)] w1(3) reach_trans by blast
qed

lemma read_delete:
  assumes "ok w" "get n w = (Inr a, w1)" "reach w1 w2" "delete n (rv_of a) w2 = (Inr u, w3)"
  shows "\<exists>wc. reach w wc \<and> reach wc w3 \<and> view wc n = Some a \<and> view w3 = (view wc)(n := None)"
proof -
  have w1: "ok w1" "view w1 n = Some a" "reach w w1"
    using assms(1,2) get_reach get_found reach_ok by blast+
  have w2: "ok w2" using w1(1) assms(3) reach_ok by blast
  obtain wc old where c: "reach w2 wc" "reach wc w3" "view wc n = Some old" "rv_of old = rv_of a"
    "view w3 = (view wc)(n := None)"
    using delete_commits [OF w2 assms(4)] by blast
  have r: "reach w1 wc" using assms(3) c(1) reach_trans by blast
  then have "a = old" using rv_unique [OF w1(1)] w1(2) c(3,4) by metis
  then show ?thesis using c w1(3) r reach_trans by blast
qed

end

section \<open>Operations follow the server's history\<close>

definition keeps :: "('w \<Rightarrow> bool) \<Rightarrow> ('w \<Rightarrow> 'w \<Rightarrow> bool) \<Rightarrow> ('w, 'a) act \<Rightarrow> bool" where
  "keeps ok reach m = (\<forall>w. ok w \<longrightarrow> ok (snd (m w)) \<and> reach w (snd (m w)))"

named_theorems keeps_intros \<open>structural rules for operations that follow the history\<close>

lemma keepsD: "keeps ok reach m \<Longrightarrow> m w = (r, w') \<Longrightarrow> ok w \<Longrightarrow> ok w' \<and> reach w w'"
  by (metis keeps_def snd_conv)

locale server_history =
  fixes reach :: "'w \<Rightarrow> 'w \<Rightarrow> bool" and ok :: "'w \<Rightarrow> bool"
  assumes history_refl: "ok w \<Longrightarrow> reach w w"
    and history_trans: "reach w w1 \<Longrightarrow> reach w1 w2 \<Longrightarrow> reach w w2"
begin

lemma keeps_tryE [keeps_intros]:
  "keeps ok reach m \<Longrightarrow> (\<And>r. keeps ok reach (f r)) \<Longrightarrow> keeps ok reach (tryE m f)"
  by (auto simp: keeps_def tryE_def split: prod.splits) (metis history_trans snd_conv)+

lemma keeps_ret [keeps_intros]:
  "keeps ok reach (ret x)" "keeps ok reach (throw e)" "keeps ok reach (lift r)"
  by (simp_all add: keeps_def ret_def throw_def lift_def history_refl)

lemma keeps_bindE [keeps_intros]:
  assumes "keeps ok reach m" "\<And>x. keeps ok reach (f x)"
  shows "keeps ok reach (bindE m f)"
proof -
  have "bindE m f = tryE m (\<lambda>r. case r of Inl e \<Rightarrow> throw e | Inr x \<Rightarrow> f x)"
    by (rule ext) (simp add: bindE_def tryE_def throw_def split: prod.splits sum.splits)
  moreover have "keeps ok reach (case r of Inl e \<Rightarrow> throw e | Inr x \<Rightarrow> f x)" for r
    by (cases r) (simp_all add: assms(2) keeps_ret)
  ultimately show ?thesis using keeps_tryE [OF assms(1)] by metis
qed

lemma keeps_thenE [keeps_intros]:
  "keeps ok reach m \<Longrightarrow> keeps ok reach k \<Longrightarrow> keeps ok reach (thenE m k)"
  unfolding thenE_def by (rule keeps_bindE)

lemma keeps_ignoreE [keeps_intros]:
  "keeps ok reach m \<Longrightarrow> keeps ok reach k \<Longrightarrow> keeps ok reach (ignoreE m k)"
  unfolding ignoreE_def by (rule keeps_tryE)

lemma keeps_if [keeps_intros]:
  "keeps ok reach m \<Longrightarrow> keeps ok reach k \<Longrightarrow> keeps ok reach (if b then m else k)"
  by simp

lemma keeps_bool [keeps_intros]:
  "keeps ok reach m \<Longrightarrow> keeps ok reach k \<Longrightarrow> keeps ok reach (case b of True \<Rightarrow> m | False \<Rightarrow> k)"
  by (cases b) simp_all

lemma keeps_sum [keeps_intros]:
  "(\<And>e. keeps ok reach (f e)) \<Longrightarrow> (\<And>x. keeps ok reach (g x)) \<Longrightarrow>
   keeps ok reach (case r of Inl e \<Rightarrow> f e | Inr x \<Rightarrow> g x)"
  by (cases r) simp_all

lemma keeps_option [keeps_intros]:
  "keeps ok reach m \<Longrightarrow> (\<And>x. again = Some x \<Longrightarrow> keeps ok reach (g x)) \<Longrightarrow>
   keeps ok reach (case again of None \<Rightarrow> m | Some x \<Rightarrow> g x)"
  by (cases again) simp_all

end

lemmas run_simps = tryE_def bindE_def thenE_def lift_def throw_def ret_def

text \<open>A bounded retry loop: what one round establishes, or leaves to the next round, the loop
  establishes.\<close>

lemma retry_loop:
  assumes "ok w" "loop n w = (Inr u, w')"
    and "\<And>again w. ok w \<Longrightarrow> step again w = (Inr u, w') \<Longrightarrow>
      E w \<or> (\<exists>k w2. again = Some k \<and> ok w2 \<and> reach w w2 \<and> k w2 = (Inr u, w'))"
    and "\<And>w w2. reach w w2 \<Longrightarrow> E w2 \<Longrightarrow> E w"
    and "loop 0 = step None" "\<And>n. loop (Suc n) = step (Some (loop n))"
  shows "E w"
  using assms(1,2)
proof (induction n arbitrary: w)
  case 0
  with assms(3) [of w None] assms(5) show ?case by auto
next
  case (Suc n)
  with assms(3) [of w "Some (loop n)"] assms(4,6) show ?case by fastforce
qed

end
