(* ===== verification/Mem_Kube.thy ===== *)
theory Mem_Kube
  imports Kube "HOL-Library.AList"
begin

text \<open>
  An in-memory API server with one version counter: an executable instance of the contract
  in \<open>Kube\<close>, which shows that the contract can hold and on which the store can be run.
\<close>

record mem =
  m_cms :: "(string \<times> ConfigMap) list"
  m_leases :: "(string \<times> Lease) list"
  m_pvcs :: "(string \<times> VolumeClaim) list"
  m_next :: nat
  m_clock :: time

definition version :: "nat \<Rightarrow> string" where
  "version k = replicate k CHR ''1''"

lemma version_inj [simp]: "version k = version l \<longleftrightarrow> k = l"
  by (metis length_replicate version_def)

definition mem_cm_put :: "ConfigMap \<Rightarrow> mem \<Rightarrow> mem" where
  "mem_cm_put cm w =
     w\<lparr>m_cms := AList.update (cmo_Name cm) (cm\<lparr>cmo_ResourceVersion := version (m_next w)\<rparr>) (m_cms w),
       m_next := Suc (m_next w)\<rparr>"

definition mem_le_put :: "Lease \<Rightarrow> mem \<Rightarrow> mem" where
  "mem_le_put l w =
     w\<lparr>m_leases := AList.update (le_Name l) (l\<lparr>le_ResourceVersion := version (m_next w)\<rparr>) (m_leases w),
       m_next := Suc (m_next w)\<rparr>"

definition mem_cm_Get :: "string \<Rightarrow> (mem, ConfigMap) act" where
  "mem_cm_Get n w =
     (case map_of (m_cms w) n of None \<Rightarrow> (Inl (Api ApiNotFound), w) | Some cm \<Rightarrow> (Inr cm, w))"

definition mem_cm_List :: "string \<Rightarrow> string \<Rightarrow> (mem, ConfigMap list) act" where
  "mem_cm_List k v w = (Inr (filter (\<lambda>cm. cmo_Labels cm k = Some v) (map snd (m_cms w))), w)"

definition mem_cm_Create :: "ConfigMap \<Rightarrow> (mem, unit) act" where
  "mem_cm_Create cm w =
     (case map_of (m_cms w) (cmo_Name cm) of
        Some _ \<Rightarrow> (Inl (Api ApiAlreadyExists), w)
      | None \<Rightarrow> (Inr (), mem_cm_put cm w))"

definition mem_cm_Update :: "ConfigMap \<Rightarrow> (mem, unit) act" where
  "mem_cm_Update cm w =
     (case map_of (m_cms w) (cmo_Name cm) of
        None \<Rightarrow> (Inl (Api ApiNotFound), w)
      | Some old \<Rightarrow>
          if cmo_ResourceVersion old \<noteq> cmo_ResourceVersion cm then (Inl (Api ApiConflict), w)
          else (Inr (), mem_cm_put cm w))"

definition mem_cm_Delete :: "string \<Rightarrow> string \<Rightarrow> (mem, unit) act" where
  "mem_cm_Delete n v w =
     (case map_of (m_cms w) n of
        None \<Rightarrow> (Inl (Api ApiNotFound), w)
      | Some old \<Rightarrow>
          if cmo_ResourceVersion old \<noteq> v then (Inl (Api ApiConflict), w)
          else (Inr (), w\<lparr>m_cms := AList.delete n (m_cms w), m_next := Suc (m_next w)\<rparr>))"

definition mem_le_Get :: "string \<Rightarrow> (mem, Lease) act" where
  "mem_le_Get n w =
     (case map_of (m_leases w) n of None \<Rightarrow> (Inl (Api ApiNotFound), w) | Some l \<Rightarrow> (Inr l, w))"

definition mem_le_List :: "string \<Rightarrow> string \<Rightarrow> (mem, Lease list) act" where
  "mem_le_List k v w = (Inr (filter (\<lambda>l. le_Labels l k = Some v) (map snd (m_leases w))), w)"

definition mem_le_Create :: "Lease \<Rightarrow> (mem, unit) act" where
  "mem_le_Create l w =
     (case map_of (m_leases w) (le_Name l) of
        Some _ \<Rightarrow> (Inl (Api ApiAlreadyExists), w)
      | None \<Rightarrow> (Inr (), mem_le_put (l\<lparr>le_CreationTimestamp := m_clock w\<rparr>) w))"

definition mem_le_Update :: "Lease \<Rightarrow> (mem, unit) act" where
  "mem_le_Update l w =
     (case map_of (m_leases w) (le_Name l) of
        None \<Rightarrow> (Inl (Api ApiNotFound), w)
      | Some old \<Rightarrow>
          if le_ResourceVersion old \<noteq> le_ResourceVersion l then (Inl (Api ApiConflict), w)
          else (Inr (), mem_le_put l w))"

definition mem_le_Delete :: "string \<Rightarrow> string \<Rightarrow> (mem, unit) act" where
  "mem_le_Delete n v w =
     (case map_of (m_leases w) n of
        None \<Rightarrow> (Inl (Api ApiNotFound), w)
      | Some old \<Rightarrow>
          if le_ResourceVersion old \<noteq> v then (Inl (Api ApiConflict), w)
          else (Inr (), w\<lparr>m_leases := AList.delete n (m_leases w), m_next := Suc (m_next w)\<rparr>))"

definition mem_pvc_Get :: "string \<Rightarrow> (mem, VolumeClaim) act" where
  "mem_pvc_Get n w =
     (case map_of (m_pvcs w) n of None \<Rightarrow> (Inl (Api ApiNotFound), w) | Some p \<Rightarrow> (Inr p, w))"

definition mem_pvc_Create :: "VolumeClaim \<Rightarrow> (mem, unit) act" where
  "mem_pvc_Create p w =
     (case map_of (m_pvcs w) (pvc_Name p) of
        Some _ \<Rightarrow> (Inl (Api ApiAlreadyExists), w)
      | None \<Rightarrow> (Inr (), w\<lparr>m_pvcs := AList.update (pvc_Name p) p (m_pvcs w)\<rparr>))"

definition mem_api :: "mem KubeAPI" where
  "mem_api =
     \<lparr>cm_Get = mem_cm_Get, cm_List = mem_cm_List, cm_Create = mem_cm_Create,
      cm_Update = mem_cm_Update, cm_Delete = mem_cm_Delete,
      le_Get = mem_le_Get, le_List = mem_le_List, le_Create = mem_le_Create,
      le_Update = mem_le_Update, le_Delete = mem_le_Delete,
      pvc_Get = mem_pvc_Get, pvc_Create = mem_pvc_Create\<rparr>"

section \<open>The contract holds\<close>

abbreviation mem_cms :: "mem \<Rightarrow> string \<Rightarrow> ConfigMap option" where
  "mem_cms w \<equiv> map_of (m_cms w)"

abbreviation mem_leases :: "mem \<Rightarrow> string \<Rightarrow> Lease option" where
  "mem_leases w \<equiv> map_of (m_leases w)"

definition issued :: "nat \<Rightarrow> string \<Rightarrow> bool" where
  "issued m v = (\<exists>k < m. v = version k)"

lemma issued_simps [simp]:
  "issued (Suc m) (version m)" "issued m v \<Longrightarrow> issued (Suc m) v" "\<not> issued m (version m)"
  by (auto simp: issued_def less_Suc_eq)

lemma issued_mono: "issued m v \<Longrightarrow> m \<le> m' \<Longrightarrow> issued m' v"
  by (auto simp: issued_def)

definition mem_ok :: "mem \<Rightarrow> bool" where
  "mem_ok w =
     (distinct (map fst (m_cms w)) \<and> distinct (map fst (m_leases w)) \<and>
      (\<forall>n cm. mem_cms w n = Some cm \<longrightarrow>
         cmo_Name cm = n \<and> issued (m_next w) (cmo_ResourceVersion cm)) \<and>
      (\<forall>n l. mem_leases w n = Some l \<longrightarrow>
         le_Name l = n \<and> issued (m_next w) (le_ResourceVersion l)))"

text \<open>An object with an old version is an old object.\<close>

definition mem_reach :: "mem \<Rightarrow> mem \<Rightarrow> bool" where
  "mem_reach w w' =
     (m_next w \<le> m_next w' \<and> (mem_ok w \<longrightarrow> mem_ok w') \<and>
      (\<forall>n cm. mem_cms w' n = Some cm \<longrightarrow> issued (m_next w) (cmo_ResourceVersion cm) \<longrightarrow>
         mem_cms w n = Some cm) \<and>
      (\<forall>n l. mem_leases w' n = Some l \<longrightarrow> issued (m_next w) (le_ResourceVersion l) \<longrightarrow>
         mem_leases w n = Some l))"

lemma mem_reach_refl [simp]: "mem_reach w w"
  by (simp add: mem_reach_def)

lemma mem_reach_trans: "mem_reach w w1 \<Longrightarrow> mem_reach w1 w2 \<Longrightarrow> mem_reach w w2"
  unfolding mem_reach_def by (meson le_trans issued_mono)

lemma mem_reach_put [simp]:
  "mem_reach w (mem_cm_put cm w)" "mem_reach w (mem_le_put l w)"
  by (auto simp: mem_reach_def mem_cm_put_def mem_le_put_def mem_ok_def update_conv distinct_update
      split: if_splits)

lemma mem_reach_delete [simp]:
  "mem_reach w (w\<lparr>m_cms := AList.delete n (m_cms w), m_next := Suc (m_next w)\<rparr>)"
  "mem_reach w (w\<lparr>m_leases := AList.delete n (m_leases w), m_next := Suc (m_next w)\<rparr>)"
  by (auto simp: mem_reach_def mem_ok_def delete_conv distinct_delete split: if_splits)

lemma mem_put_view [simp]:
  "mem_cms (mem_cm_put cm w) =
     (mem_cms w)(cmo_Name cm \<mapsto> cm\<lparr>cmo_ResourceVersion := version (m_next w)\<rparr>)"
  "mem_leases (mem_le_put l w) =
     (mem_leases w)(le_Name l \<mapsto> l\<lparr>le_ResourceVersion := version (m_next w)\<rparr>)"
  by (simp_all add: mem_cm_put_def mem_le_put_def update_conv')

lemma mem_rv_unique:
  assumes "mem_ok w" "mem_reach w w'"
  shows "mem_cms w n = Some a \<Longrightarrow> mem_cms w' n = Some b \<Longrightarrow>
      cmo_ResourceVersion a = cmo_ResourceVersion b \<Longrightarrow> a = b"
    and "mem_leases w n = Some c \<Longrightarrow> mem_leases w' n = Some d \<Longrightarrow>
      le_ResourceVersion c = le_ResourceVersion d \<Longrightarrow> c = d"
  using assms unfolding mem_ok_def mem_reach_def by (metis option.inject)+

text \<open>A write is its own instant: nothing else happens inside a call of this server.\<close>

lemma mem_put_commits:
  "\<exists>b. cm_erase b = cm_erase cm \<and> mem_cms (mem_cm_put cm w) = (mem_cms w)(cmo_Name cm \<mapsto> b)"
  "\<exists>b. le_erase b = le_erase l \<and> mem_leases (mem_le_put l w) = (mem_leases w)(le_Name l \<mapsto> b)"
  "\<exists>b. le_erase b = le_erase l \<and>
     mem_leases (mem_le_put (l\<lparr>le_CreationTimestamp := t\<rparr>) w) = (mem_leases w)(le_Name l \<mapsto> b)"
proof -
  show "\<exists>b. cm_erase b = cm_erase cm \<and> mem_cms (mem_cm_put cm w) = (mem_cms w)(cmo_Name cm \<mapsto> b)"
    by (rule exI [of _ "cm\<lparr>cmo_ResourceVersion := version (m_next w)\<rparr>"]) (simp add: cm_erase_def)
  show "\<exists>b. le_erase b = le_erase l \<and> mem_leases (mem_le_put l w) = (mem_leases w)(le_Name l \<mapsto> b)"
    by (rule exI [of _ "l\<lparr>le_ResourceVersion := version (m_next w)\<rparr>"]) (simp add: le_erase_def)
  show "\<exists>b. le_erase b = le_erase l \<and>
     mem_leases (mem_le_put (l\<lparr>le_CreationTimestamp := t\<rparr>) w) = (mem_leases w)(le_Name l \<mapsto> b)"
    by (rule exI [of _ "l\<lparr>le_CreationTimestamp := t, le_ResourceVersion := version (m_next w)\<rparr>"])
      (simp add: le_erase_def)
qed

lemma mem_create_intro:
  "mem_reach w w' \<Longrightarrow> A w \<Longrightarrow> \<exists>b. B b \<and> C w b \<Longrightarrow>
   \<exists>w1 b. mem_reach w w1 \<and> mem_reach w1 w' \<and> A w1 \<and> B b \<and> C w1 b"
  using mem_reach_refl by blast

lemma mem_update_intro:
  "mem_reach w w' \<Longrightarrow> A w old \<Longrightarrow> B old \<Longrightarrow> \<exists>b. C b \<and> D w b \<Longrightarrow>
   \<exists>w1 old b. mem_reach w w1 \<and> mem_reach w1 w' \<and> A w1 old \<and> B old \<and> C b \<and> D w1 b"
  using mem_reach_refl by blast

lemma mem_delete_intro:
  "mem_reach w w' \<Longrightarrow> A w old \<Longrightarrow> B old \<Longrightarrow> D w \<Longrightarrow>
   \<exists>w1 old. mem_reach w w1 \<and> mem_reach w1 w' \<and> A w1 old \<and> B old \<and> D w1"
  using mem_reach_refl by blast

lemmas mem_cm_defs = mem_api_def mem_cm_Get_def mem_cm_Create_def mem_cm_Update_def mem_cm_Delete_def
lemmas mem_le_defs = mem_api_def mem_le_Get_def mem_le_Create_def mem_le_Update_def mem_le_Delete_def

interpretation mem_cm: versioned_api "cm_Get mem_api" "cm_Create mem_api" "cm_Update mem_api"
  "cm_Delete mem_api" mem_cms cmo_Name cmo_ResourceVersion cm_erase mem_reach mem_ok
proof unfold_locales
  show "mem_reach w w1 \<Longrightarrow> mem_reach w1 w2 \<Longrightarrow> mem_reach w w2" for w w1 w2
    by (rule mem_reach_trans)
  show "mem_ok w \<Longrightarrow> cm_Create mem_api a w = (Inr u, w') \<Longrightarrow>
      \<exists>w1 b. mem_reach w w1 \<and> mem_reach w1 w' \<and> mem_cms w1 (cmo_Name a) = None \<and>
        cm_erase b = cm_erase a \<and> mem_cms w' = (mem_cms w1)(cmo_Name a \<mapsto> b)" for w a u w'
    by (rule mem_create_intro)
      (auto simp: mem_cm_defs split: option.splits intro: mem_put_commits simp del: mem_put_view)
  show "mem_ok w \<Longrightarrow> cm_Update mem_api a w = (Inr u, w') \<Longrightarrow>
      \<exists>w1 old b. mem_reach w w1 \<and> mem_reach w1 w' \<and> mem_cms w1 (cmo_Name a) = Some old \<and>
        cmo_ResourceVersion old = cmo_ResourceVersion a \<and>
        cm_erase b = cm_erase a \<and> mem_cms w' = (mem_cms w1)(cmo_Name a \<mapsto> b)" for w a u w'
    by (rule mem_update_intro [where old = "the (mem_cms w (cmo_Name a))"])
      (auto simp: mem_cm_defs split: option.splits if_splits intro: mem_put_commits simp del: mem_put_view)
  show "mem_ok w \<Longrightarrow> cm_Delete mem_api n v w = (Inr u, w') \<Longrightarrow>
      \<exists>w1 old. mem_reach w w1 \<and> mem_reach w1 w' \<and> mem_cms w1 n = Some old \<and>
        cmo_ResourceVersion old = v \<and> mem_cms w' = (mem_cms w1)(n := None)" for w n v u w'
    by (rule mem_delete_intro [where old = "the (mem_cms w n)"])
      (auto simp: mem_cm_defs delete_conv' split: option.splits if_splits)
  show "mem_reach w w' \<Longrightarrow> mem_ok w \<Longrightarrow> mem_ok w'" for w w' by (simp add: mem_reach_def)
  show "mem_ok w \<Longrightarrow> mem_cms w n = Some a \<Longrightarrow> cmo_Name a = n" for w n a by (simp add: mem_ok_def)
  show "mem_ok w \<Longrightarrow> mem_reach w w' \<Longrightarrow> mem_cms w n = Some a \<Longrightarrow> mem_cms w' n = Some b \<Longrightarrow>
      cmo_ResourceVersion a = cmo_ResourceVersion b \<Longrightarrow> a = b" for w w' n a b
    by (rule mem_rv_unique)
qed (auto simp: mem_cm_defs IsNotFound_def split: option.splits if_splits)

interpretation mem_le: versioned_api "le_Get mem_api" "le_Create mem_api" "le_Update mem_api"
  "le_Delete mem_api" mem_leases le_Name le_ResourceVersion le_erase mem_reach mem_ok
proof unfold_locales
  show "mem_reach w w1 \<Longrightarrow> mem_reach w1 w2 \<Longrightarrow> mem_reach w w2" for w w1 w2
    by (rule mem_reach_trans)
  show "mem_ok w \<Longrightarrow> le_Create mem_api a w = (Inr u, w') \<Longrightarrow>
      \<exists>w1 b. mem_reach w w1 \<and> mem_reach w1 w' \<and> mem_leases w1 (le_Name a) = None \<and>
        le_erase b = le_erase a \<and> mem_leases w' = (mem_leases w1)(le_Name a \<mapsto> b)" for w a u w'
    by (rule mem_create_intro)
      (auto simp: mem_le_defs split: option.splits intro: mem_put_commits simp del: mem_put_view)
  show "mem_ok w \<Longrightarrow> le_Update mem_api a w = (Inr u, w') \<Longrightarrow>
      \<exists>w1 old b. mem_reach w w1 \<and> mem_reach w1 w' \<and> mem_leases w1 (le_Name a) = Some old \<and>
        le_ResourceVersion old = le_ResourceVersion a \<and>
        le_erase b = le_erase a \<and> mem_leases w' = (mem_leases w1)(le_Name a \<mapsto> b)" for w a u w'
    by (rule mem_update_intro [where old = "the (mem_leases w (le_Name a))"])
      (auto simp: mem_le_defs split: option.splits if_splits intro: mem_put_commits simp del: mem_put_view)
  show "mem_ok w \<Longrightarrow> le_Delete mem_api n v w = (Inr u, w') \<Longrightarrow>
      \<exists>w1 old. mem_reach w w1 \<and> mem_reach w1 w' \<and> mem_leases w1 n = Some old \<and>
        le_ResourceVersion old = v \<and> mem_leases w' = (mem_leases w1)(n := None)" for w n v u w'
    by (rule mem_delete_intro [where old = "the (mem_leases w n)"])
      (auto simp: mem_le_defs delete_conv' split: option.splits if_splits)
  show "mem_reach w w' \<Longrightarrow> mem_ok w \<Longrightarrow> mem_ok w'" for w w' by (simp add: mem_reach_def)
  show "mem_ok w \<Longrightarrow> mem_leases w n = Some a \<Longrightarrow> le_Name a = n" for w n a by (simp add: mem_ok_def)
  show "mem_ok w \<Longrightarrow> mem_reach w w' \<Longrightarrow> mem_leases w n = Some a \<Longrightarrow> mem_leases w' n = Some b \<Longrightarrow>
      le_ResourceVersion a = le_ResourceVersion b \<Longrightarrow> a = b" for w w' n a b
    by (rule mem_rv_unique)
qed (auto simp: mem_le_defs IsNotFound_def split: option.splits if_splits)

end
