(* ===== verification/ConfigMap_Store.thy ===== *)
theory ConfigMap_Store
  imports Mem_Kube Ports
begin

text \<open>
  \<open>control-plane/internal/adapter/configmap/store.go\<close>: the state store on ConfigMaps and
  Leases. Each method is the sequence of API calls of the Go method; a bounded retry loop is a
  recursion on the retries left, whose step receives the next round as an option (\<open>None\<close> in
  the last round). The API server is the parameter \<open>cs_api\<close>.
\<close>

record 'w CMStore =
  cs_api :: "'w KubeAPI"
  cs_leaseDur :: duration
  cs_now :: "'w \<Rightarrow> time \<times> 'w"
  cs_ctxErr :: "('w, unit) act"

definition labelManagedBy :: string where "labelManagedBy = ''app.kubernetes.io/managed-by''"
definition managedByValue :: string where "managedByValue = ''control-plane''"
definition labelSessionID :: string where "labelSessionID = ''session-id''"
definition annotationLifecycleOwner :: string where
  "annotationLifecycleOwner = ''session-platform.io/lifecycle-owner''"
definition dataKey :: string where "dataKey = ''session''"
definition putMaxRetries :: nat where "putMaxRetries = 5"
definition defaultLeaseDuration :: duration where "defaultLeaseDuration = 15 * 1000000000"

definition cmName :: "string \<Rightarrow> string" where "cmName sid = ''session-'' @ sid"
definition lockName :: "string \<Rightarrow> string" where "lockName sid = ''session-lock-'' @ sid"

lemma cmName_inj [simp]: "cmName a = cmName b \<longleftrightarrow> a = b" by (simp add: cmName_def)
lemma lockName_inj [simp]: "lockName a = lockName b \<longleftrightarrow> a = b" by (simp add: lockName_def)

section \<open>Helpers\<close>

text \<open>\<open>int32(d / time.Second)\<close>: truncated division, then the low 32 bits as a signed number.\<close>

definition int32 :: "int \<Rightarrow> int" where
  "int32 x = (x + 2 ^ 31) mod 2 ^ 32 - 2 ^ 31"

definition leaseSeconds :: "duration \<Rightarrow> int" where
  "leaseSeconds d =
     (let s = int32 (if d \<ge> 0 then d div 1000000000 else - ((- d) div 1000000000)) in
      if s < 1 then 1 else s)"

definition ensureLabels :: "ConfigMap \<Rightarrow> string \<Rightarrow> ConfigMap" where
  "ensureLabels cm sid =
     cm\<lparr>cmo_Labels := (cmo_Labels cm)(labelManagedBy \<mapsto> managedByValue, labelSessionID \<mapsto> sid)\<rparr>"

definition encodeInto :: "ConfigMap \<Rightarrow> Session \<Rightarrow> goerr + ConfigMap" where
  "encodeInto cm sess =
     (case marshal_session sess of
        Inl e \<Rightarrow> Inl (Errorf ''encode session'' [e])
      | Inr doc \<Rightarrow> Inr (cm\<lparr>cmo_Data := (cmo_Data cm)(dataKey \<mapsto> doc)\<rparr>))"

definition decode :: "ConfigMap \<Rightarrow> goerr + Session" where
  "decode cm =
     (case cmo_Data cm dataKey of
        None \<Rightarrow> Inl (New ''configmap missing data key'')
      | Some raw \<Rightarrow>
          (case unmarshal_session raw of
             Inl e \<Rightarrow> Inl (Errorf ''decode session from configmap'' [e])
           | Inr sess \<Rightarrow> Inr sess))"

definition configMapFor :: "Session \<Rightarrow> ConfigMap" where
  "configMapFor sess =
     ensureLabels
       \<lparr>cmo_Name = cmName (ID sess), cmo_Labels = Map.empty, cmo_Annotations = Map.empty,
        cmo_Data = Map.empty, cmo_ResourceVersion = ''''\<rparr> (ID sess)"

definition store_now :: "'w CMStore \<Rightarrow> ('w, time) act" where
  "store_now s w = (case cs_now s w of (t, w') \<Rightarrow> (Inr t, w'))"

definition leaseFor :: "'w CMStore \<Rightarrow> string \<Rightarrow> string \<Rightarrow> time \<Rightarrow> Lease" where
  "leaseFor s sid token t =
     \<lparr>le_Name = lockName sid,
      le_Labels = [labelManagedBy \<mapsto> managedByValue, labelSessionID \<mapsto> sid],
      le_Annotations = Map.empty, le_CreationTimestamp = 0,
      le_HolderIdentity = Some token, le_LeaseDurationSeconds = Some (leaseSeconds (cs_leaseDur s)),
      le_AcquireTime = Some (NewMicroTime t), le_RenewTime = Some (NewMicroTime t),
      le_ResourceVersion = ''''\<rparr>"

definition owner_of :: "ConfigMap \<Rightarrow> string" where
  "owner_of cm = (case cmo_Annotations cm annotationLifecycleOwner of None \<Rightarrow> '''' | Some o' \<Rightarrow> o')"

fun sameSnapshotTransaction ::
  "SnapshotTransaction option \<Rightarrow> SnapshotTransaction option \<Rightarrow> bool" where
  "sameSnapshotTransaction None b = (b = None)"
| "sameSnapshotTransaction (Some a) None = False"
| "sameSnapshotTransaction (Some a) (Some b) =
     (if Generation a \<noteq> Generation b \<or> Owner a \<noteq> Owner b \<or> SourcePod a \<noteq> SourcePod b \<or>
         Phase a \<noteq> Phase b then False
      else case (txn_Checkpoint a, txn_Checkpoint b) of
             (Some c, Some d) \<Rightarrow>
               cp_Ref c = cp_Ref d \<and> cp_SizeBytes c = cp_SizeBytes d \<and>
               cp_CreatedAt c = cp_CreatedAt d \<and> cp_Reclaimed c = cp_Reclaimed d
           | (None, None) \<Rightarrow> True
           | _ \<Rightarrow> False)"

section \<open>Records\<close>

definition put_step :: "('w, unit) act option \<Rightarrow> 'w CMStore \<Rightarrow> Session \<Rightarrow> ('w, unit) act" where
  "put_step again s sess =
     tryE (cm_Get (cs_api s) (cmName (ID sess))) (\<lambda>got.
     case got of
       Inl err \<Rightarrow>
         if IsNotFound err then
           bindE (lift (encodeInto (configMapFor sess) sess)) (\<lambda>cm.
           tryE (cm_Create (cs_api s) cm) (\<lambda>created.
           case created of
             Inr _ \<Rightarrow> ret ()
           | Inl cErr \<Rightarrow>
               (case (IsAlreadyExists cErr, again) of
                  (True, Some retry) \<Rightarrow> retry
                | _ \<Rightarrow> throw (Errorf ''create configmap'' [cErr]))))
         else throw (Errorf ''get configmap'' [err])
     | Inr existing \<Rightarrow>
         bindE (lift (encodeInto (ensureLabels existing (ID sess)) sess)) (\<lambda>cm.
         tryE (cm_Update (cs_api s) cm) (\<lambda>updated.
         case updated of
           Inr _ \<Rightarrow> ret ()
         | Inl uErr \<Rightarrow>
             (case (IsConflict uErr, again) of
                (True, Some retry) \<Rightarrow> retry
              | _ \<Rightarrow> throw (Errorf ''update configmap'' [uErr])))))"

fun put_loop :: "nat \<Rightarrow> 'w CMStore \<Rightarrow> Session \<Rightarrow> ('w, unit) act" where
  "put_loop 0 s sess = put_step None s sess"
| "put_loop (Suc n) s sess = put_step (Some (put_loop n s sess)) s sess"

definition Store_Put :: "'w CMStore \<Rightarrow> Session \<Rightarrow> ('w, unit) act" where
  "Store_Put s sess = put_loop putMaxRetries s sess"

definition Store_Get :: "'w CMStore \<Rightarrow> string \<Rightarrow> ('w, Session) act" where
  "Store_Get s sid =
     tryE (cm_Get (cs_api s) (cmName sid)) (\<lambda>got.
     case got of
       Inl err \<Rightarrow> if IsNotFound err then throw (Sentinel ErrNotFound)
                  else throw (Errorf ''get configmap'' [err])
     | Inr cm \<Rightarrow> lift (decode cm))"

fun decode_all :: "ConfigMap list \<Rightarrow> goerr + Session list" where
  "decode_all [] = Inr []"
| "decode_all (cm # cms) =
     (case decode cm of
        Inl e \<Rightarrow> Inl e
      | Inr sess \<Rightarrow> (case decode_all cms of Inl e \<Rightarrow> Inl e | Inr xs \<Rightarrow> Inr (sess # xs)))"

definition Store_List :: "'w CMStore \<Rightarrow> ('w, Session list) act" where
  "Store_List s =
     tryE (cm_List (cs_api s) labelManagedBy managedByValue) (\<lambda>listed.
     case listed of
       Inl err \<Rightarrow> throw (Errorf ''list configmaps'' [err])
     | Inr items \<Rightarrow> lift (decode_all items))"

definition touch_step ::
  "('w, unit) act option \<Rightarrow> 'w CMStore \<Rightarrow> string \<Rightarrow> time \<Rightarrow> ('w, unit) act" where
  "touch_step again s sid at =
     tryE (cm_Get (cs_api s) (cmName sid)) (\<lambda>got.
     case got of
       Inl err \<Rightarrow> if IsNotFound err then throw (Sentinel ErrNotFound)
                  else throw (Errorf ''get configmap for touch'' [err])
     | Inr cm \<Rightarrow>
         bindE (lift (decode cm)) (\<lambda>sess.
         if \<not> at > LastAccess sess then ret ()
         else
           bindE (lift (encodeInto cm (sess\<lparr>LastAccess := at\<rparr>))) (\<lambda>cm'.
           tryE (cm_Update (cs_api s) cm') (\<lambda>updated.
           case updated of
             Inr _ \<Rightarrow> ret ()
           | Inl err \<Rightarrow>
               (case (IsConflict err, again) of
                  (True, Some retry) \<Rightarrow> retry
                | _ \<Rightarrow> if IsNotFound err then throw (Sentinel ErrNotFound)
                       else throw (Errorf ''touch configmap'' [err]))))))"

fun touch_loop :: "nat \<Rightarrow> 'w CMStore \<Rightarrow> string \<Rightarrow> time \<Rightarrow> ('w, unit) act" where
  "touch_loop 0 s sid at = touch_step None s sid at"
| "touch_loop (Suc n) s sid at = touch_step (Some (touch_loop n s sid at)) s sid at"

definition Store_Touch :: "'w CMStore \<Rightarrow> string \<Rightarrow> time \<Rightarrow> ('w, unit) act" where
  "Store_Touch s sid at = touch_loop putMaxRetries s sid at"

definition delete_step ::
  "('w, unit) act option \<Rightarrow> 'w CMStore \<Rightarrow> string \<Rightarrow> string \<Rightarrow> ('w, unit) act" where
  "delete_step again s sid token =
     thenE (cs_ctxErr s)
     (tryE (cm_Get (cs_api s) (cmName sid)) (\<lambda>got.
      case got of
        Inl err \<Rightarrow> if IsNotFound err then ret ()
                   else throw (Errorf ''get configmap for delete'' [err])
      | Inr cm \<Rightarrow>
          if owner_of cm \<noteq> token then throw (Sentinel ErrConflict)
          else
            tryE (cm_Delete (cs_api s) (cmName sid) (cmo_ResourceVersion cm)) (\<lambda>deleted.
            case deleted of
              Inr _ \<Rightarrow> ret ()
            | Inl err \<Rightarrow>
                if IsNotFound err then ret ()
                else if IsConflict err then
                  (case again of Some retry \<Rightarrow> retry | None \<Rightarrow> throw (Sentinel ErrConflict))
                else throw (Errorf ''delete configmap'' [err]))))"

fun delete_loop :: "nat \<Rightarrow> 'w CMStore \<Rightarrow> string \<Rightarrow> string \<Rightarrow> ('w, unit) act" where
  "delete_loop 0 s sid token = delete_step None s sid token"
| "delete_loop (Suc n) s sid token = delete_step (Some (delete_loop n s sid token)) s sid token"

definition Store_Delete :: "'w CMStore \<Rightarrow> string \<Rightarrow> string \<Rightarrow> ('w, unit) act" where
  "Store_Delete s sid token = delete_loop putMaxRetries s sid token"

definition Store_CompareAndSwapState ::
  "'w CMStore \<Rightarrow> string \<Rightarrow> string \<Rightarrow> string \<Rightarrow> ('w, unit) act" where
  "Store_CompareAndSwapState s sid from to =
     tryE (cm_Get (cs_api s) (cmName sid)) (\<lambda>got.
     case got of
       Inl err \<Rightarrow> if IsNotFound err then throw (Sentinel ErrNotFound)
                  else throw (Errorf ''get configmap'' [err])
     | Inr cm \<Rightarrow>
         bindE (lift (decode cm)) (\<lambda>sess.
         if State sess \<noteq> from then throw (Sentinel ErrConflict)
         else
           bindE (lift (encodeInto cm (sess\<lparr>State := to\<rparr>))) (\<lambda>cm'.
           tryE (cm_Update (cs_api s) cm') (\<lambda>updated.
           case updated of
             Inr _ \<Rightarrow> ret ()
           | Inl err \<Rightarrow> if IsConflict err then throw (Sentinel ErrConflict)
                        else throw (Errorf ''update configmap'' [err])))))"

definition Store_CompareAndSwapSession ::
  "'w CMStore \<Rightarrow> string \<Rightarrow> string \<Rightarrow> string \<Rightarrow> SnapshotTransaction option \<Rightarrow> Session \<Rightarrow>
   ('w, unit) act" where
  "Store_CompareAndSwapSession s sid token expectedState expectedTxn next =
     (if ID next \<noteq> sid then throw (Sentinel ErrInvalidInput)
      else
        tryE (cm_Get (cs_api s) (cmName sid)) (\<lambda>got.
        case got of
          Inl err \<Rightarrow> if IsNotFound err then throw (Sentinel ErrNotFound)
                     else throw (Errorf ''get configmap'' [err])
        | Inr cm \<Rightarrow>
            if owner_of cm \<noteq> token then throw (Sentinel ErrConflict)
            else
              bindE (lift (decode cm)) (\<lambda>current.
              if State current \<noteq> expectedState \<or>
                 \<not> sameSnapshotTransaction (SnapshotTransaction current) expectedTxn
              then throw (Sentinel ErrConflict)
              else
                let replacement = (if LastAccess current > LastAccess next
                                   then next\<lparr>LastAccess := LastAccess current\<rparr> else next) in
                bindE (lift (encodeInto cm replacement)) (\<lambda>cm'.
                tryE (cm_Update (cs_api s) cm') (\<lambda>updated.
                case updated of
                  Inr _ \<Rightarrow> ret ()
                | Inl err \<Rightarrow> if IsConflict err then throw (Sentinel ErrConflict)
                             else if IsNotFound err then throw (Sentinel ErrNotFound)
                             else throw (Errorf ''update configmap'' [err]))))))"

section \<open>The occupancy lock\<close>

definition heldByUsOrExpired :: "'w CMStore \<Rightarrow> Lease \<Rightarrow> string \<Rightarrow> ('w, bool) act" where
  "heldByUsOrExpired s lease token =
     (if le_HolderIdentity lease = Some token then ret True
      else case (le_RenewTime lease, le_LeaseDurationSeconds lease) of
             (Some renew, Some dur) \<Rightarrow>
               bindE (store_now s) (\<lambda>now. ret (now > renew + dur * 1000000000))
           | _ \<Rightarrow> ret False)"

definition Store_Renew :: "'w CMStore \<Rightarrow> string \<Rightarrow> string \<Rightarrow> ('w, unit) act" where
  "Store_Renew s sid token =
     tryE (le_Get (cs_api s) (lockName sid)) (\<lambda>got.
     case got of
       Inl err \<Rightarrow> if IsNotFound err then throw (Sentinel ErrConflict)
                  else throw (Errorf ''get lease for renewal'' [err])
     | Inr existing \<Rightarrow>
         if le_HolderIdentity existing \<noteq> Some token then throw (Sentinel ErrConflict)
         else
           bindE (store_now s) (\<lambda>now.
           tryE (le_Update (cs_api s)
                   (existing\<lparr>le_RenewTime := Some (NewMicroTime now),
                             le_LeaseDurationSeconds := Some (leaseSeconds (cs_leaseDur s))\<rparr>))
             (\<lambda>updated.
             case updated of
               Inr _ \<Rightarrow> ret ()
             | Inl err \<Rightarrow> if IsConflict err \<or> IsNotFound err then throw (Sentinel ErrConflict)
                          else throw (Errorf ''renew lease'' [err]))))"

definition Store_Unlock :: "'w CMStore \<Rightarrow> string \<Rightarrow> string \<Rightarrow> ('w, unit) act" where
  "Store_Unlock s sid token =
     tryE (le_Get (cs_api s) (lockName sid)) (\<lambda>got.
     case got of
       Inl err \<Rightarrow> if IsNotFound err then ret () else throw (Errorf ''get lease'' [err])
     | Inr existing \<Rightarrow>
         if le_HolderIdentity existing \<noteq> Some token then ret ()
         else
           tryE (le_Delete (cs_api s) (lockName sid) (le_ResourceVersion existing)) (\<lambda>deleted.
           case deleted of
             Inr _ \<Rightarrow> ret ()
           | Inl err \<Rightarrow> if IsNotFound err \<or> IsConflict err then ret ()
                        else throw (Errorf ''delete lease'' [err])))"

definition claim_step ::
  "('w, unit) act option \<Rightarrow> 'w CMStore \<Rightarrow> string \<Rightarrow> string \<Rightarrow> ('w, unit) act" where
  "claim_step again s sid token =
     thenE (cs_ctxErr s)
     (tryE (cm_Get (cs_api s) (cmName sid)) (\<lambda>got.
      case got of
        Inl err \<Rightarrow> if IsNotFound err then ret ()
                   else throw (Errorf ''get configmap to claim lifecycle owner'' [err])
      | Inr cm \<Rightarrow>
          if owner_of cm = token then Store_Renew s sid token
          else
            thenE (Store_Renew s sid token)
            (tryE (cm_Update (cs_api s)
                     (cm\<lparr>cmo_Annotations :=
                           (cmo_Annotations cm)(annotationLifecycleOwner \<mapsto> token)\<rparr>)) (\<lambda>updated.
             case updated of
               Inr _ \<Rightarrow> Store_Renew s sid token
             | Inl err \<Rightarrow>
                 if IsConflict err then
                   (case again of Some retry \<Rightarrow> retry | None \<Rightarrow> throw (Sentinel ErrConflict))
                 else if IsNotFound err then ret ()
                 else throw (Errorf ''claim lifecycle owner'' [err])))))"

fun claim_loop :: "nat \<Rightarrow> 'w CMStore \<Rightarrow> string \<Rightarrow> string \<Rightarrow> ('w, unit) act" where
  "claim_loop 0 s sid token = claim_step None s sid token"
| "claim_loop (Suc n) s sid token = claim_step (Some (claim_loop n s sid token)) s sid token"

definition claimLifecycleOwner :: "'w CMStore \<Rightarrow> string \<Rightarrow> string \<Rightarrow> ('w, unit) act" where
  "claimLifecycleOwner s sid token = claim_loop putMaxRetries s sid token"

definition finishLock :: "'w CMStore \<Rightarrow> string \<Rightarrow> string \<Rightarrow> ('w, unit) act" where
  "finishLock s sid token =
     tryE (claimLifecycleOwner s sid token) (\<lambda>r.
     case r of
       Inr _ \<Rightarrow> ret ()
     | Inl err \<Rightarrow> ignoreE (Store_Unlock s sid token) (throw err))"

definition Store_Lock :: "'w CMStore \<Rightarrow> string \<Rightarrow> string \<Rightarrow> ('w, unit) act" where
  "Store_Lock s sid token =
     bindE (store_now s) (\<lambda>t0.
     tryE (le_Create (cs_api s) (leaseFor s sid token t0)) (\<lambda>created.
     case created of
       Inr _ \<Rightarrow> finishLock s sid token
     | Inl err \<Rightarrow>
         if \<not> IsAlreadyExists err then throw (Errorf ''create lease'' [err])
         else
           tryE (le_Get (cs_api s) (lockName sid)) (\<lambda>got.
           case got of
             Inl err \<Rightarrow> if IsNotFound err then throw (Sentinel ErrConflict)
                        else throw (Errorf ''get lease'' [err])
           | Inr existing \<Rightarrow>
               bindE (heldByUsOrExpired s existing token) (\<lambda>takeable.
               if \<not> takeable then throw (Sentinel ErrConflict)
               else
                 bindE (store_now s) (\<lambda>now.
                 tryE (le_Update (cs_api s)
                         (existing\<lparr>le_HolderIdentity := Some token,
                                   le_AcquireTime := Some (NewMicroTime now),
                                   le_RenewTime := Some (NewMicroTime now),
                                   le_LeaseDurationSeconds := Some (leaseSeconds (cs_leaseDur s))\<rparr>))
                   (\<lambda>updated.
                   case updated of
                     Inr _ \<Rightarrow> finishLock s sid token
                   | Inl err \<Rightarrow> if IsConflict err then throw (Sentinel ErrConflict)
                                else throw (Errorf ''take over lease'' [err])))))))"

text \<open>The store as a \<open>StateStore\<close> port of the service.\<close>

definition cm_StateStore :: "'w CMStore \<Rightarrow> 'w StateStore" where
  "cm_StateStore s =
     \<lparr>st_Put = Store_Put s, st_Get = Store_Get s, st_List = Store_List s,
      st_Delete = Store_Delete s, st_Touch = Store_Touch s,
      st_CompareAndSwapState = Store_CompareAndSwapState s,
      st_CompareAndSwapSession = Store_CompareAndSwapSession s,
      st_Lock = Store_Lock s, st_Renew = Store_Renew s, st_Unlock = Store_Unlock s\<rparr>"

end
