(* ===== verification/Store_Laws.thy ===== *)
theory Store_Laws
  imports ConfigMap_Store
begin

text \<open>
  What the ConfigMap store promises, over any API server that keeps the contract of \<open>Kube\<close>:
  each compare-and-swap, touch, delete and lock takes effect at one instant of the server's
  history, against the record and the lease the server held at that very instant.
\<close>

section \<open>The store over a versioned API\<close>

locale kube_store =
  cm: versioned_api "cm_Get (cs_api st)" "cm_Create (cs_api st)" "cm_Update (cs_api st)"
    "cm_Delete (cs_api st)" cms cmo_Name cmo_ResourceVersion cm_erase reach ok +
  le: versioned_api "le_Get (cs_api st)" "le_Create (cs_api st)" "le_Update (cs_api st)"
    "le_Delete (cs_api st)" leases le_Name le_ResourceVersion le_erase reach ok
  for st :: "'w CMStore" and cms :: "'w \<Rightarrow> string \<Rightarrow> ConfigMap option"
    and leases :: "'w \<Rightarrow> string \<Rightarrow> Lease option"
    and reach :: "'w \<Rightarrow> 'w \<Rightarrow> bool" and ok :: "'w \<Rightarrow> bool" +
  assumes now_reach: "ok w \<Longrightarrow> cs_now st w = (t, w') \<Longrightarrow> reach w w'"
    and ctx_reach: "ok w \<Longrightarrow> cs_ctxErr st w = (ru, w') \<Longrightarrow> reach w w'"

sublocale kube_store \<subseteq> server_history reach ok
  by unfold_locales (fact cm.reach_refl, fact cm.reach_trans)

context kube_store
begin

lemma keeps_calls [keeps_intros]:
  "keeps ok reach (cm_Get (cs_api st) n)" "keeps ok reach (cm_Create (cs_api st) cm)"
  "keeps ok reach (cm_Update (cs_api st) cm)" "keeps ok reach (cm_Delete (cs_api st) n v)"
  "keeps ok reach (le_Get (cs_api st) n)" "keeps ok reach (le_Create (cs_api st) l)"
  "keeps ok reach (le_Update (cs_api st) l)" "keeps ok reach (le_Delete (cs_api st) n v)"
  "keeps ok reach (cs_ctxErr st)" "keeps ok reach (store_now st)"
  unfolding keeps_def store_now_def
  by (auto split: prod.splits
      intro: cm.get_reach cm.create_reach cm.update_reach cm.delete_reach le.get_reach
        le.create_reach le.update_reach le.delete_reach ctx_reach now_reach cm.reach_ok
        prod.collapse [symmetric])

end

section \<open>Codec facts the store needs\<close>

lemma encodeInto_frame:
  assumes "encodeInto cm sess = Inr cm'"
  shows "cmo_Name cm' = cmo_Name cm" "cmo_ResourceVersion cm' = cmo_ResourceVersion cm"
    "cmo_Annotations cm' = cmo_Annotations cm" "decode cm' = Inr (canon_session sess)"
    "cmo_Labels cm' = cmo_Labels cm"
  using assms by (auto simp: encodeInto_def decode_def session_round_trip split: sum.splits)

lemma erased_same:
  assumes "cm_erase a = cm_erase b"
  shows "owner_of a = owner_of b" "decode a = decode b" "cmo_Annotations a = cmo_Annotations b"
  using cm_erase_eq [OF assms] by (simp_all add: owner_of_def decode_def)

lemma canon_LastAccess [simp]: "LastAccess (canon_session s) = LastAccess s"
  by (simp add: canon_session_def)

text \<open>What a committed replacement of the record of \<open>sid\<close> looks like: at the instant \<open>wc\<close> the
  server held \<open>cm\<close>, right after it holds an object that decodes to \<open>next\<close>, with the same
  owner annotation, and no other record changed.\<close>

definition record_swapped ::
  "('w \<Rightarrow> string \<Rightarrow> ConfigMap option) \<Rightarrow> string \<Rightarrow> 'w \<Rightarrow> ConfigMap \<Rightarrow> Session \<Rightarrow> 'w \<Rightarrow> bool" where
  "record_swapped cms sid wc cm next w' =
     (cms wc (cmName sid) = Some cm \<and>
      (\<exists>b. cms w' = (cms wc)(cmName sid \<mapsto> b) \<and> decode b = Inr (canon_session next) \<and>
           owner_of b = owner_of cm))"

context kube_store
begin

lemma keeps_records [keeps_intros]:
  "keeps ok reach (Store_Put st sess)" "keeps ok reach (Store_Touch st sid at)"
  "keeps ok reach (Store_Delete st sid token)" "keeps ok reach (Store_Get st sid)"
  "keeps ok reach (Store_CompareAndSwapState st sid a b)"
  "keeps ok reach (Store_CompareAndSwapSession st sid token es et next)"
proof -
  have put_step: "keeps ok reach (put_step again st sess)"
    if "\<And>k. again = Some k \<Longrightarrow> keeps ok reach k" for again
    unfolding put_step_def
    by (auto intro!: keeps_intros dest: that)
  have "keeps ok reach (put_loop n st sess)" for n
    by (induction n) (auto intro: put_step)
  then show "keeps ok reach (Store_Put st sess)" by (simp add: Store_Put_def)
  have touch_step: "keeps ok reach (touch_step again st sid at)"
    if "\<And>k. again = Some k \<Longrightarrow> keeps ok reach k" for again
    unfolding touch_step_def
    by (auto intro!: keeps_intros dest: that)
  have "keeps ok reach (touch_loop n st sid at)" for n
    by (induction n) (auto intro: touch_step)
  then show "keeps ok reach (Store_Touch st sid at)" by (simp add: Store_Touch_def)
  have delete_step: "keeps ok reach (delete_step again st sid token)"
    if "\<And>k. again = Some k \<Longrightarrow> keeps ok reach k" for again
    unfolding delete_step_def
    by (auto intro!: keeps_intros dest: that)
  have "keeps ok reach (delete_loop n st sid token)" for n
    by (induction n) (auto intro: delete_step)
  then show "keeps ok reach (Store_Delete st sid token)" by (simp add: Store_Delete_def)
  show "keeps ok reach (Store_Get st sid)"
    unfolding Store_Get_def
    by (auto intro!: keeps_intros)
  show "keeps ok reach (Store_CompareAndSwapState st sid a b)"
    unfolding Store_CompareAndSwapState_def
    by (auto intro!: keeps_intros)
  show "keeps ok reach (Store_CompareAndSwapSession st sid token es et next)"
    unfolding Store_CompareAndSwapSession_def Let_def
    by (auto intro!: keeps_intros)
qed

text \<open>The shape all record updates share: read, transform, write back what was read.\<close>

lemma record_update:
  assumes "ok w" "cm_Get (cs_api st) (cmName sid) w = (Inr cm, w1)"
    and "encodeInto cm next = Inr cm'" "cm_Update (cs_api st) cm' w1 = (Inr u, w')"
  shows "\<exists>wc. reach w wc \<and> reach wc w' \<and> record_swapped cms sid wc cm next w'"
proof -
  have "ok w1" using cm.get_reach cm.reach_ok assms(1,2) by blast
  then obtain wc b where c: "reach w wc" "reach wc w'" "cms wc (cmName sid) = Some cm"
    "cm_erase b = cm_erase cm'" "cms w' = (cms wc)(cmName sid \<mapsto> b)"
    using cm.read_modify_write [OF assms(1,2) cm.reach_refl assms(4)] encodeInto_frame [OF assms(3)]
    by metis
  have "decode b = Inr (canon_session next)" "owner_of b = owner_of cm"
    using erased_same [OF c(4)] encodeInto_frame [OF assms(3)] by (simp_all add: owner_of_def)
  with c show ?thesis unfolding record_swapped_def by blast
qed

lemma cas_session:
  assumes "ok w" "Store_CompareAndSwapSession st sid token es et next w = (Inr u, w')"
  shows "\<exists>wc cm current. reach w wc \<and> reach wc w' \<and> owner_of cm = token \<and>
    decode cm = Inr current \<and> State current = es \<and>
    sameSnapshotTransaction (SnapshotTransaction current) et \<and>
    record_swapped cms sid wc cm
      (next\<lparr>LastAccess := max (LastAccess current) (LastAccess next)\<rparr>) w'"
proof -
  obtain cm w1 current cm' where s: "cm_Get (cs_api st) (cmName sid) w = (Inr cm, w1)"
    "owner_of cm = token" "decode cm = Inr current" "State current = es"
    "sameSnapshotTransaction (SnapshotTransaction current) et"
    "encodeInto cm (if LastAccess current > LastAccess next
       then next\<lparr>LastAccess := LastAccess current\<rparr> else next) = Inr cm'"
    "cm_Update (cs_api st) cm' w1 = (Inr (), w')"
    using assms(2)
    by (auto simp: Store_CompareAndSwapSession_def tryE_def bindE_def lift_def throw_def ret_def Let_def
        split: prod.splits sum.splits if_splits)
  have "(if LastAccess current > LastAccess next
       then next\<lparr>LastAccess := LastAccess current\<rparr> else next) =
      next\<lparr>LastAccess := max (LastAccess current) (LastAccess next)\<rparr>"
    by (simp add: max_def)
  with record_update [OF assms(1) s(1) s(6) s(7)] obtain wc where
    "reach w wc" "reach wc w'" "record_swapped cms sid wc cm
      (next\<lparr>LastAccess := max (LastAccess current) (LastAccess next)\<rparr>) w'"
    by auto
  with s(2-5) show ?thesis by blast
qed

end

section \<open>Touch, state swap, delete\<close>

context kube_store
begin

lemma cas_state:
  assumes "ok w" "Store_CompareAndSwapState st sid from to w = (Inr u, w')"
  shows "\<exists>wc cm current. reach w wc \<and> reach wc w' \<and> decode cm = Inr current \<and>
    State current = from \<and> record_swapped cms sid wc cm (current\<lparr>State := to\<rparr>) w'"
proof -
  obtain cm w1 current cm' where s: "cm_Get (cs_api st) (cmName sid) w = (Inr cm, w1)"
    "decode cm = Inr current" "State current = from"
    "encodeInto cm (current\<lparr>State := to\<rparr>) = Inr cm'" "cm_Update (cs_api st) cm' w1 = (Inr (), w')"
    using assms(2)
    by (auto simp: Store_CompareAndSwapState_def run_simps split: prod.splits sum.splits if_splits)
  with record_update [OF assms(1) s(1) s(4) s(5)] show ?thesis by blast
qed

lemma touch_step_effect:
  assumes "ok w" "touch_step again st sid at w = (Inr u, w')"
  shows "(\<exists>wc cm current. reach w wc \<and> reach wc w' \<and> cms wc (cmName sid) = Some cm \<and>
      decode cm = Inr current \<and>
      (at \<le> LastAccess current \<or> record_swapped cms sid wc cm (current\<lparr>LastAccess := at\<rparr>) w')) \<or>
    (\<exists>k w2. again = Some k \<and> ok w2 \<and> reach w w2 \<and> k w2 = (Inr u, w'))"
proof -
  obtain cm w1 current where s: "cm_Get (cs_api st) (cmName sid) w = (Inr cm, w1)"
    "decode cm = Inr current"
    using assms(2) by (auto simp: touch_step_def run_simps split: prod.splits sum.splits if_splits)
  have w1: "ok w1" "reach w w1" "cms w1 (cmName sid) = Some cm"
    using cm.get_reach cm.get_found cm.reach_ok assms(1) s(1) by blast+
  show ?thesis
  proof (cases "at \<le> LastAccess current")
    case True
    with assms(2) s have "w' = w1" by (simp add: touch_step_def run_simps)
    with True s w1 cm.reach_refl show ?thesis by blast
  next
    case False
    then obtain cm' r w2 where u: "encodeInto cm (current\<lparr>LastAccess := at\<rparr>) = Inr cm'"
      "cm_Update (cs_api st) cm' w1 = (r, w2)"
      using assms(2) s
      by (auto simp: touch_step_def run_simps split: prod.splits sum.splits)
    show ?thesis
    proof (cases r)
      case (Inr x)
      with u assms(2) s False have "w' = w2" by (simp add: touch_step_def run_simps)
      with record_update [OF assms(1) s(1) u(1)] u(2) Inr s(2) show ?thesis
        unfolding record_swapped_def by metis
    next
      case (Inl e)
      have "ok w2" "reach w w2"
        using cm.update_reach [OF w1(1) u(2)] w1 cm.reach_ok cm.reach_trans by blast+
      moreover from u assms(2) s False Inl obtain k where "again = Some k" "k w2 = (Inr u, w')"
        by (auto simp: touch_step_def run_simps split: if_splits bool.splits option.splits)
      ultimately show ?thesis by blast
    qed
  qed
qed

lemma touch_effect:
  assumes "ok w" "Store_Touch st sid at w = (Inr u, w')"
  shows "\<exists>wc cm current. reach w wc \<and> reach wc w' \<and> cms wc (cmName sid) = Some cm \<and>
    decode cm = Inr current \<and>
    (at \<le> LastAccess current \<or> record_swapped cms sid wc cm (current\<lparr>LastAccess := at\<rparr>) w')"
  using assms(1) assms(2) [unfolded Store_Touch_def]
  by (rule retry_loop [where reach = reach and step = "\<lambda>again. touch_step again st sid at" and
        loop = "\<lambda>n. touch_loop n st sid at"])
    (erule (1) touch_step_effect, meson cm.reach_trans, simp_all)

lemma delete_step_effect:
  assumes "ok w" "delete_step again st sid token w = (Inr u, w')"
  shows "(\<exists>wc. reach w wc \<and> reach wc w' \<and> (cms wc (cmName sid) = None \<or>
      (\<exists>cm. cms wc (cmName sid) = Some cm \<and> owner_of cm = token \<and>
            cms w' = (cms wc)(cmName sid := None)))) \<or>
    (\<exists>k w2. again = Some k \<and> ok w2 \<and> reach w w2 \<and> k w2 = (Inr u, w'))"
proof -
  obtain w0 where c: "cs_ctxErr st w = (Inr (), w0)"
    using assms(2) by (auto simp: delete_step_def run_simps split: prod.splits sum.splits)
  have w0: "ok w0" "reach w w0" using ctx_reach [OF assms(1) c] cm.reach_ok assms(1) by blast+
  obtain r w1 where g: "cm_Get (cs_api st) (cmName sid) w0 = (r, w1)" by force
  have w1: "ok w1" "reach w w1"
    using cm.get_reach [OF w0(1) g] w0 cm.reach_ok cm.reach_trans by blast+
  show ?thesis
  proof (cases r)
    case (Inl e)
    with assms(2) c g have "IsNotFound e" "w' = w1"
      by (auto simp: delete_step_def run_simps split: if_splits)
    with cm.get_missing [OF w0(1)] g Inl w1 cm.reach_refl show ?thesis by blast
  next
    case (Inr cm)
    obtain d w2 where d: "cm_Delete (cs_api st) (cmName sid) (cmo_ResourceVersion cm) w1 = (d, w2)"
      by force
    have o: "owner_of cm = token"
      using assms(2) c g Inr by (auto simp: delete_step_def run_simps split: if_splits)
    have w2: "ok w2" "reach w w2"
      using cm.delete_reach [OF w1(1) d] w1 cm.reach_ok cm.reach_trans by blast+
    show ?thesis
    proof (cases d)
      case (Inr x)
      have "w' = w2"
        using assms(2) c g d o \<open>r = Inr cm\<close> Inr by (simp add: delete_step_def run_simps)
      moreover obtain wc where "reach w0 wc" "reach wc w2" "cms wc (cmName sid) = Some cm"
        "cms w2 = (cms wc)(cmName sid := None)"
        using cm.read_delete [OF w0(1) g [unfolded \<open>r = Inr cm\<close>] cm.reach_refl [OF w1(1)]
            d [unfolded Inr]] by blast
      ultimately show ?thesis using o w0(2) cm.reach_trans by blast
    next
      case (Inl e)
      consider "IsNotFound e" "w' = w2" | k where "again = Some k" "k w2 = (Inr u, w')"
        using assms(2) c g d o \<open>r = Inr cm\<close> Inl
        by (auto simp: delete_step_def run_simps split: if_splits option.splits)
      then show ?thesis
        using cm.delete_missing [OF w1(1)] d Inl w2 cm.reach_refl by cases blast+
    qed
  qed
qed

lemma delete_effect:
  assumes "ok w" "Store_Delete st sid token w = (Inr u, w')"
  shows "\<exists>wc. reach w wc \<and> reach wc w' \<and> (cms wc (cmName sid) = None \<or>
      (\<exists>cm. cms wc (cmName sid) = Some cm \<and> owner_of cm = token \<and>
            cms w' = (cms wc)(cmName sid := None)))"
  using assms(1) assms(2) [unfolded Store_Delete_def]
  by (rule retry_loop [where reach = reach and step = "\<lambda>again. delete_step again st sid token" and
        loop = "\<lambda>n. delete_loop n st sid token"])
    (erule (1) delete_step_effect, blast intro: cm.reach_trans, simp_all)

end

section \<open>The occupancy lock\<close>

definition holds_lease :: "('w \<Rightarrow> string \<Rightarrow> Lease option) \<Rightarrow> string \<Rightarrow> string \<Rightarrow> 'w \<Rightarrow> bool" where
  "holds_lease leases sid token w =
     (\<exists>l. leases w (lockName sid) = Some l \<and> le_HolderIdentity l = Some token)"

text \<open>The record carries the token as its lifecycle owner at some instant between \<open>w\<close> and \<open>w'\<close>,
  and the lease is still the token's at \<open>w'\<close>; or there was no record to claim.\<close>

definition fence_claimed ::
  "('w \<Rightarrow> string \<Rightarrow> ConfigMap option) \<Rightarrow> ('w \<Rightarrow> string \<Rightarrow> Lease option) \<Rightarrow> ('w \<Rightarrow> 'w \<Rightarrow> bool) \<Rightarrow>
   string \<Rightarrow> string \<Rightarrow> 'w \<Rightarrow> 'w \<Rightarrow> bool" where
  "fence_claimed cms leases reach sid token w w' =
     ((\<exists>wn. reach w wn \<and> reach wn w' \<and> cms wn (cmName sid) = None) \<or>
      ((\<exists>wo cm. reach w wo \<and> reach wo w' \<and> cms wo (cmName sid) = Some cm \<and> owner_of cm = token) \<and>
       holds_lease leases sid token w'))"

text \<open>A clock reading inside the call was past the lease's own deadline.\<close>

definition expired_during ::
  "'w CMStore \<Rightarrow> ('w \<Rightarrow> 'w \<Rightarrow> bool) \<Rightarrow> Lease \<Rightarrow> 'w \<Rightarrow> 'w \<Rightarrow> bool" where
  "expired_during st reach l w w' =
     (\<exists>renew dur wa t wb. le_RenewTime l = Some renew \<and> le_LeaseDurationSeconds l = Some dur \<and>
        reach w wa \<and> cs_now st wa = (t, wb) \<and> reach wb w' \<and> t > renew + dur * 1000000000)"

context kube_store
begin

lemma renew_effect:
  assumes "ok w" "Store_Renew st sid token w = (Inr u, w')"
  shows "reach w w' \<and> ok w' \<and> holds_lease leases sid token w'"
proof -
  obtain l w1 t w2 where s: "le_Get (cs_api st) (lockName sid) w = (Inr l, w1)"
    "le_HolderIdentity l = Some token" "cs_now st w1 = (t, w2)"
    "le_Update (cs_api st) (l\<lparr>le_RenewTime := Some (NewMicroTime t),
       le_LeaseDurationSeconds := Some (leaseSeconds (cs_leaseDur st))\<rparr>) w2 = (Inr (), w')"
    using assms(2)
    by (auto simp: Store_Renew_def store_now_def run_simps split: prod.splits sum.splits if_splits)
  have w1: "ok w1" using le.get_reach [OF assms(1) s(1)] le.reach_ok assms(1) by blast
  obtain wc b where c: "reach w wc" "reach wc w'"
    "le_erase b = le_erase (l\<lparr>le_RenewTime := Some (NewMicroTime t),
       le_LeaseDurationSeconds := Some (leaseSeconds (cs_leaseDur st))\<rparr>)"
    "leases w' = (leases wc)(lockName sid \<mapsto> b)"
    using le.read_modify_write [OF assms(1) s(1) now_reach [OF w1 s(3)] s(4)] by auto
  have "le_HolderIdentity b = Some token" using le_erase_eq [OF c(3)] s(2) by simp
  with c show ?thesis
    unfolding holds_lease_def using le.reach_trans le.reach_ok assms(1) by auto
qed

lemma claim_step_effect:
  assumes "ok w" "claim_step again st sid token w = (Inr u, w')"
  shows "fence_claimed cms leases reach sid token w w' \<or>
    (\<exists>k w2. again = Some k \<and> ok w2 \<and> reach w w2 \<and> k w2 = (Inr u, w'))"
proof -
  obtain w0 where c: "cs_ctxErr st w = (Inr (), w0)"
    using assms(2) by (auto simp: claim_step_def run_simps split: prod.splits sum.splits)
  have w0: "ok w0" "reach w w0" using ctx_reach [OF assms(1) c] cm.reach_ok assms(1) by blast+
  obtain r w1 where g: "cm_Get (cs_api st) (cmName sid) w0 = (r, w1)" by force
  have w1: "ok w1" "reach w w1" "reach w0 w1"
    using cm.get_reach [OF w0(1) g] w0 cm.reach_ok cm.reach_trans by blast+
  show ?thesis
  proof (cases r)
    case (Inl e)
    with assms(2) c g have "IsNotFound e" "w' = w1"
      by (auto simp: claim_step_def run_simps split: if_splits)
    with cm.get_missing [OF w0(1)] g Inl w1 cm.reach_refl show ?thesis
      unfolding fence_claimed_def by blast
  next
    case (Inr cm)
    show ?thesis
    proof (cases "owner_of cm = token")
      case True
      with assms(2) c g Inr have "Store_Renew st sid token w1 = (Inr u, w')"
        by (simp add: claim_step_def run_simps)
      from renew_effect [OF w1(1) this] cm.get_found [OF w0(1)] g Inr True w1 show ?thesis
        unfolding fence_claimed_def by blast
    next
      case False
      define cm' where "cm' = cm\<lparr>cmo_Annotations := (cmo_Annotations cm)(annotationLifecycleOwner \<mapsto> token)\<rparr>"
      obtain w2 where n: "Store_Renew st sid token w1 = (Inr (), w2)"
        using assms(2) c g Inr False
        by (auto simp: claim_step_def run_simps split: prod.splits sum.splits)
      have w2: "reach w1 w2" "ok w2" using renew_effect [OF w1(1) n] by blast+
      obtain d w3 where d: "cm_Update (cs_api st) cm' w2 = (d, w3)" by force
      have w3: "reach w2 w3" "ok w3" "reach w w3"
        using cm.update_reach [OF w2(2) d] w2 w1 cm.reach_ok cm.reach_trans by blast+
      show ?thesis
      proof (cases d)
        case (Inr x)
        have "Store_Renew st sid token w3 = (Inr u, w')"
          using assms(2) c g \<open>r = Inr cm\<close> False n d Inr
          by (simp add: claim_step_def run_simps cm'_def)
        moreover obtain wc b where b: "reach w0 wc" "reach wc w3" "cm_erase b = cm_erase cm'"
          "cms w3 = (cms wc)(cmName sid \<mapsto> b)"
          using cm.read_modify_write [OF w0(1) g [unfolded \<open>r = Inr cm\<close>] w2(1) d [unfolded Inr]]
          by (auto simp: cm'_def)
        moreover have "owner_of b = token"
          using erased_same(1) [OF b(3)] by (simp add: cm'_def owner_of_def)
        ultimately show ?thesis
          unfolding fence_claimed_def using renew_effect [OF w3(2)] w3(3) by auto
      next
        case (Inl e)
        consider "IsNotFound e" "w' = w3" | k where "again = Some k" "k w3 = (Inr u, w')"
          using assms(2) c g \<open>r = Inr cm\<close> False n d Inl
          by (auto simp: claim_step_def run_simps cm'_def split: if_splits option.splits)
        moreover have "cmo_Name cm' = cmName sid"
          using cm.view_name [OF w1(1)] cm.get_found [OF w0(1)] g \<open>r = Inr cm\<close> by (simp add: cm'_def)
        ultimately show ?thesis
          using cm.update_missing [OF w2(2)] d Inl w3 cm.reach_refl
          unfolding fence_claimed_def by cases metis+
      qed
    qed
  qed
qed

lemma fence_claimed_earlier:
  "reach w w2 \<Longrightarrow> fence_claimed cms leases reach sid token w2 w' \<Longrightarrow>
   fence_claimed cms leases reach sid token w w'"
  unfolding fence_claimed_def by (blast intro: cm.reach_trans)

lemma finishLock_effect:
  assumes "ok w" "finishLock st sid token w = (Inr u, w')"
  shows "fence_claimed cms leases reach sid token w w'"
proof -
  have "claim_loop putMaxRetries st sid token w = (Inr (), w')"
    using assms(2)
    by (auto simp: finishLock_def claimLifecycleOwner_def run_simps ignoreE_def
        split: prod.splits sum.splits)
  with assms(1) show ?thesis
    by (rule retry_loop [where reach = reach and step = "\<lambda>again. claim_step again st sid token" and
          loop = "\<lambda>n. claim_loop n st sid token"])
      (erule (1) claim_step_effect, erule (1) fence_claimed_earlier, simp_all)
qed

end

text \<open>The lease was free for \<open>token\<close> at \<open>wc\<close>: absent, already its own, or expired.\<close>

definition lease_free ::
  "'w CMStore \<Rightarrow> ('w \<Rightarrow> string \<Rightarrow> Lease option) \<Rightarrow> ('w \<Rightarrow> 'w \<Rightarrow> bool) \<Rightarrow> string \<Rightarrow> string \<Rightarrow>
   'w \<Rightarrow> 'w \<Rightarrow> 'w \<Rightarrow> bool" where
  "lease_free st leases reach sid token w w' wc =
     (case leases wc (lockName sid) of
        None \<Rightarrow> True
      | Some l \<Rightarrow> le_HolderIdentity l = Some token \<or> expired_during st reach l w w')"

text \<open>The lease was taken over in one step: at one instant it was free, and right after it the only change is that the
  caller's token holds it.\<close>

definition lock_taken ::
  "'w CMStore \<Rightarrow> ('w \<Rightarrow> string \<Rightarrow> Lease option) \<Rightarrow> ('w \<Rightarrow> 'w \<Rightarrow> bool) \<Rightarrow> string \<Rightarrow> string \<Rightarrow>
   'w \<Rightarrow> 'w \<Rightarrow> bool" where
  "lock_taken st leases reach sid token w w' =
     (\<exists>wc wd l. reach w wc \<and> reach wc wd \<and> reach wd w' \<and> lease_free st leases reach sid token w w' wc \<and>
        le_HolderIdentity l = Some token \<and> leases wd = (leases wc)(lockName sid \<mapsto> l))"

lemma lock_takenI:
  "reach w wc \<Longrightarrow> reach wc wd \<Longrightarrow> reach wd w' \<Longrightarrow> lease_free st leases reach sid token w w' wc \<Longrightarrow>
   le_HolderIdentity l = Some token \<Longrightarrow> leases wd = (leases wc)(lockName sid \<mapsto> l) \<Longrightarrow> lock_taken st leases reach sid token w w'"
  unfolding lock_taken_def by blast

context kube_store
begin

lemma keeps_lock [keeps_intros]:
  "keeps ok reach (Store_Renew st sid token)" "keeps ok reach (Store_Unlock st sid token)"
  "keeps ok reach (finishLock st sid token)" "keeps ok reach (heldByUsOrExpired st l token)"
  "keeps ok reach (Store_Lock st sid token)"
proof -
  show renew: "keeps ok reach (Store_Renew st sid token)"
    unfolding Store_Renew_def by (auto intro!: keeps_intros)
  show unlock: "keeps ok reach (Store_Unlock st sid token)"
    unfolding Store_Unlock_def by (auto intro!: keeps_intros)
  have step: "keeps ok reach (claim_step again st sid token)"
    if "\<And>k. again = Some k \<Longrightarrow> keeps ok reach k" for again
    unfolding claim_step_def by (auto intro!: keeps_intros renew dest: that)
  have "keeps ok reach (claim_loop n st sid token)" for n
    by (induction n) (auto intro: step)
  then show finish: "keeps ok reach (finishLock st sid token)"
    unfolding finishLock_def claimLifecycleOwner_def by (auto intro!: keeps_intros unlock)
  show held: "keeps ok reach (heldByUsOrExpired st l token)" for l
    unfolding heldByUsOrExpired_def by (auto intro!: keeps_intros split: option.splits)
  show "keeps ok reach (Store_Lock st sid token)"
    unfolding Store_Lock_def by (auto intro!: keeps_intros finish held)
qed

lemma held_effect:
  assumes "ok w" "heldByUsOrExpired st l token w = (Inr True, w')"
  shows "le_HolderIdentity l = Some token \<or> expired_during st reach l w w'"
proof (cases "le_HolderIdentity l = Some token")
  case False
  then obtain renew dur t where "le_RenewTime l = Some renew" "le_LeaseDurationSeconds l = Some dur"
    "cs_now st w = (t, w')" "t > renew + dur * 1000000000"
    using assms(2)
    by (auto simp: heldByUsOrExpired_def store_now_def run_simps split: option.splits prod.splits)
  moreover from this(3) have "reach w w" "reach w' w'"
    using now_reach [OF assms(1)] cm.reach_refl cm.reach_ok assms(1) by blast+
  ultimately show ?thesis unfolding expired_during_def by blast
qed simp

lemma expired_during_wider:
  "expired_during st reach l a b \<Longrightarrow> reach w a \<Longrightarrow> reach b w' \<Longrightarrow> expired_during st reach l w w'"
  unfolding expired_during_def by (meson cm.reach_trans)

lemma lock_effect:
  assumes "ok w" "Store_Lock st sid token w = (Inr u, w')"
  shows "lock_taken st leases reach sid token w w' \<and> fence_claimed cms leases reach sid token w w'"
proof -
  obtain t0 w0 where c: "cs_now st w = (t0, w0)" by force
  have w0: "ok w0" "reach w w0" using now_reach [OF assms(1) c] cm.reach_ok assms(1) by blast+
  obtain r w1 where cr: "le_Create (cs_api st) (leaseFor st sid token t0) w0 = (r, w1)" by force
  have w1: "ok w1" "reach w w1" "reach w0 w1"
    using le.create_reach [OF w0(1) cr] w0 cm.reach_ok cm.reach_trans by blast+
  show ?thesis
  proof (cases r)
    case (Inr x)
    then have f: "finishLock st sid token w1 = (Inr u, w')"
      using assms(2) c cr by (simp add: Store_Lock_def store_now_def run_simps)
    obtain wc b where b: "reach w0 wc" "reach wc w1" "leases wc (lockName sid) = None"
      "le_erase b = le_erase (leaseFor st sid token t0)" "leases w1 = (leases wc)(lockName sid \<mapsto> b)"
      using le.create_commits [OF w0(1) cr [unfolded Inr]] by (auto simp: leaseFor_def)
    have "le_HolderIdentity b = Some token"
      using le_erase_eq [OF b(4)] by (simp add: leaseFor_def)
    moreover have "reach w1 w'" using keepsD [OF keeps_lock(3) f w1(1)] by blast
    moreover have "fence_claimed cms leases reach sid token w w'"
      by (rule fence_claimed_earlier [OF w1(2) finishLock_effect [OF w1(1) f]])
    ultimately show ?thesis
      using lock_takenI [of reach, OF cm.reach_trans [OF w0(2) b(1)] b(2) _ _ _ b(5)] b(3) by (simp add: lease_free_def)
  next
    case (Inl e)
    obtain g w2 where g: "le_Get (cs_api st) (lockName sid) w1 = (g, w2)" by force
    obtain l where l: "g = Inr l" using assms(2) c cr Inl g
      by (cases g) (auto simp: Store_Lock_def store_now_def run_simps split: if_splits)
    have w2: "ok w2" "reach w1 w2" "reach w w2"
      using le.get_reach [OF w1(1) g] w1 cm.reach_ok cm.reach_trans by blast+
    obtain h w3 where h: "heldByUsOrExpired st l token w2 = (h, w3)" by force
    have ht: "h = Inr True" using assms(2) c cr Inl g l h
      by (cases h) (auto simp: Store_Lock_def store_now_def run_simps split: if_splits)
    have w3: "ok w3" "reach w2 w3" using keepsD [OF keeps_lock(4) h w2(1)] by blast+
    obtain t w4 where n: "cs_now st w3 = (t, w4)" by force
    have w4: "ok w4" "reach w3 w4" "reach w2 w4"
      using now_reach [OF w3(1) n] w3 cm.reach_ok cm.reach_trans by blast+
    define l' where "l' = l\<lparr>le_HolderIdentity := Some token, le_AcquireTime := Some (NewMicroTime t),
      le_RenewTime := Some (NewMicroTime t),
      le_LeaseDurationSeconds := Some (leaseSeconds (cs_leaseDur st))\<rparr>"
    obtain w5 where u: "le_Update (cs_api st) l' w4 = (Inr (), w5)" "finishLock st sid token w5 = (Inr u, w')"
      using assms(2) c cr Inl g l h ht n
      by (auto simp: Store_Lock_def store_now_def run_simps l'_def split: if_splits prod.splits sum.splits)
    have w5: "ok w5" "reach w4 w5" using le.update_reach [OF w4(1) u(1)] w4 cm.reach_ok by blast+
    obtain wc b where b: "reach w1 wc" "reach wc w5" "leases wc (lockName sid) = Some l"
      "le_erase b = le_erase l'" "leases w5 = (leases wc)(lockName sid \<mapsto> b)"
      using le.read_modify_write [OF w1(1) g [unfolded l] w4(3) u(1)] by (auto simp: l'_def)
    have "le_HolderIdentity b = Some token"
      using le_erase_eq [OF b(4)] by (simp add: l'_def)
    moreover have r5: "reach w5 w'" using keepsD [OF keeps_lock(3) u(2) w5(1)] by blast
    moreover have "le_HolderIdentity l = Some token \<or> expired_during st reach l w w'"
      using held_effect [OF w2(1) h [unfolded ht]]
        expired_during_wider [OF _ w2(3) cm.reach_trans [OF w4(2) cm.reach_trans [OF w5(2) r5]]]
      by blast
    moreover have "fence_claimed cms leases reach sid token w w'"
      by (rule fence_claimed_earlier [OF cm.reach_trans [OF w2(3) cm.reach_trans [OF w4(3) w5(2)]]
            finishLock_effect [OF w5(1) u(2)]])
    ultimately show ?thesis
      using lock_takenI [of reach, OF cm.reach_trans [OF w1(2) b(1)] b(2) _ _ _ b(5)] b(3) by (simp add: lease_free_def)
  qed
qed

end

end
