(* ===== verification/Store_Props.thy ===== *)
theory Store_Props
  imports Store_Laws
begin

text \<open>
  The store's promises as closed statements about every API server that keeps the contract,
  and the run on the in-memory server that shows each of them applies.
\<close>

section \<open>The store on the in-memory server\<close>

definition mem_store :: "mem CMStore" where
  "mem_store =
     \<lparr>cs_api = mem_api, cs_leaseDur = defaultLeaseDuration, cs_now = (\<lambda>w. (m_clock w, w)),
      cs_ctxErr = ret ()\<rparr>"

interpretation mem_st: kube_store mem_store mem_cms mem_leases mem_reach mem_ok
proof (intro kube_store.intro kube_store_axioms.intro)
  show "versioned_api (cm_Get (cs_api mem_store)) (cm_Create (cs_api mem_store))
      (cm_Update (cs_api mem_store)) (cm_Delete (cs_api mem_store)) mem_cms cmo_Name
      cmo_ResourceVersion cm_erase mem_reach mem_ok"
    by (simp add: mem_store_def mem_cm.versioned_api_axioms)
  show "versioned_api (le_Get (cs_api mem_store)) (le_Create (cs_api mem_store))
      (le_Update (cs_api mem_store)) (le_Delete (cs_api mem_store)) mem_leases le_Name
      le_ResourceVersion le_erase mem_reach mem_ok"
    by (simp add: mem_store_def mem_le.versioned_api_axioms)
qed (auto simp: mem_store_def ret_def)

definition empty_server :: mem where
  "empty_server = \<lparr>m_cms = [], m_leases = [], m_pvcs = [], m_next = 0, m_clock = 1000\<rparr>"

definition stored_sample :: Session where
  "stored_sample =
     \<lparr>ID = ''s1'', WorkloadType = ''shell'', Model = '''', Plugins = None, ReasoningEffort = '''',
      Tenant = '''', Name = ''n'', State = ''active'', Pod = ''p'', AuxiliaryPods = [],
      CreatedAt = 5, LastAccess = 5, Checkpoint = None, SnapshotTransaction = None\<rparr>"

text \<open>A server on which the sample session was created and locked.\<close>

definition locked_server :: mem where
  "locked_server =
     snd (Store_Lock mem_store ''s1'' ''tok'' (snd (Store_Put mem_store stored_sample empty_server)))"

lemma empty_server_ok: "mem_ok empty_server"
  by (simp add: mem_ok_def empty_server_def)

lemma locked_server_ok: "mem_ok locked_server"
  unfolding locked_server_def
  using mem_st.keeps_lock(5) mem_st.keeps_records(1) empty_server_ok
  by (metis keeps_def)

lemma run_pair: "fst p = a \<Longrightarrow> p = (a, snd p)"
  by (cases p) simp

lemma lock_runs:
  "fst (Store_Lock mem_store ''s1'' ''tok'' (snd (Store_Put mem_store stored_sample empty_server))) = Inr ()"
  by code_simp

lemma cas_runs:
  "fst (Store_CompareAndSwapSession mem_store ''s1'' ''tok'' ''active'' None
     (stored_sample\<lparr>State := ''idle''\<rparr>) locked_server) = Inr ()"
  by code_simp

section \<open>Properties\<close>

text \<open>C2: \<open>CompareAndSwapSession\<close> is one atomic, fenced step: when it reports success, there was an
  instant in the server's history at which the stored record carried the caller's token as
  lifecycle owner, was in the expected state and held the expected transaction, and right
  after which it holds exactly the new record, with the later of the two access times; a
  touch that ran in between is never lost and no stale holder can commit.\<close>

theorem cas_session_atomic:
  assumes "kube_store st cms leases reach ok" "ok w"
    and "Store_CompareAndSwapSession st sid token es et next w = (Inr (), w')"
  shows "\<exists>wc cm current. reach w wc \<and> reach wc w' \<and> owner_of cm = token \<and>
    decode cm = Inr current \<and> State current = es \<and>
    sameSnapshotTransaction (SnapshotTransaction current) et \<and>
    record_swapped cms sid wc cm
      (next\<lparr>LastAccess := max (LastAccess current) (LastAccess next)\<rparr>) w'"
  using kube_store.cas_session [OF assms] .

theorem cas_session_atomic_witness:
  "\<exists>w' wc cm current. mem_reach locked_server wc \<and> mem_reach wc w' \<and> owner_of cm = ''tok'' \<and>
    decode cm = Inr current \<and> State current = ''active'' \<and>
    sameSnapshotTransaction (SnapshotTransaction current) None \<and>
    record_swapped mem_cms ''s1'' wc cm
      (stored_sample\<lparr>State := ''idle'', LastAccess := max (LastAccess current) 5\<rparr>) w'"
  using cas_session_atomic [OF mem_st.kube_store_axioms locked_server_ok run_pair [OF cas_runs]]
  by (auto simp: stored_sample_def)

text \<open>\<open>CompareAndSwapState\<close> is atomic: when it succeeds, the stored session was in the state
  \<open>from\<close> at one instant and right after it differs in nothing but the state.\<close>

theorem cas_state_atomic:
  assumes "kube_store st cms leases reach ok" "ok w"
    and "Store_CompareAndSwapState st sid from to w = (Inr (), w')"
  shows "\<exists>wc cm current. reach w wc \<and> reach wc w' \<and> decode cm = Inr current \<and>
    State current = from \<and> record_swapped cms sid wc cm (current\<lparr>State := to\<rparr>) w'"
  using kube_store.cas_state [OF assms] .

lemma cas_state_runs:
  "fst (Store_CompareAndSwapState mem_store ''s1'' ''active'' ''idle'' locked_server) = Inr ()"
  by code_simp

theorem cas_state_atomic_witness:
  "\<exists>w' wc cm current. mem_reach locked_server wc \<and> mem_reach wc w' \<and> decode cm = Inr current \<and>
    State current = ''active'' \<and> record_swapped mem_cms ''s1'' wc cm (current\<lparr>State := ''idle''\<rparr>) w'"
  using cas_state_atomic [OF mem_st.kube_store_axioms locked_server_ok run_pair [OF cas_state_runs]]
  by blast

text \<open>\<open>Touch\<close> moves the access time forward only, and touches nothing else: when it succeeds,
  either the stored access time was already at or past the given time at some instant, or at
  one instant the stored record was replaced by itself with the new access time, keeping
  its state, pods, transaction and owner.\<close>

theorem touch_monotone:
  assumes "kube_store st cms leases reach ok" "ok w" "Store_Touch st sid at w = (Inr (), w')"
  shows "\<exists>wc cm current. reach w wc \<and> reach wc w' \<and> cms wc (cmName sid) = Some cm \<and>
    decode cm = Inr current \<and>
    (at \<le> LastAccess current \<or> record_swapped cms sid wc cm (current\<lparr>LastAccess := at\<rparr>) w')"
  using kube_store.touch_effect [OF assms] .

lemma touch_runs: "fst (Store_Touch mem_store ''s1'' 9 locked_server) = Inr ()"
  by code_simp

theorem touch_monotone_witness:
  "\<exists>w' wc cm current. mem_reach locked_server wc \<and> mem_reach wc w' \<and>
    mem_cms wc (cmName ''s1'') = Some cm \<and> decode cm = Inr current \<and>
    (9 \<le> LastAccess current \<or>
     record_swapped mem_cms ''s1'' wc cm (current\<lparr>LastAccess := 9\<rparr>) w')"
  using touch_monotone [OF mem_st.kube_store_axioms locked_server_ok run_pair [OF touch_runs]]
  by blast

text \<open>\<open>Delete\<close> is fenced: when it succeeds, the record was already gone at some instant, or it
  was removed at an instant at which it carried the caller's token as lifecycle owner, and
  no other record changed.\<close>

theorem delete_fenced:
  assumes "kube_store st cms leases reach ok" "ok w" "Store_Delete st sid token w = (Inr (), w')"
  shows "\<exists>wc. reach w wc \<and> reach wc w' \<and> (cms wc (cmName sid) = None \<or>
      (\<exists>cm. cms wc (cmName sid) = Some cm \<and> owner_of cm = token \<and>
            cms w' = (cms wc)(cmName sid := None)))"
  using kube_store.delete_effect [OF assms] .

lemma delete_runs: "fst (Store_Delete mem_store ''s1'' ''tok'' locked_server) = Inr ()"
  by code_simp

theorem delete_fenced_witness:
  "\<exists>w' wc. mem_reach locked_server wc \<and> mem_reach wc w' \<and> (mem_cms wc (cmName ''s1'') = None \<or>
      (\<exists>cm. mem_cms wc (cmName ''s1'') = Some cm \<and> owner_of cm = ''tok'' \<and>
            mem_cms w' = (mem_cms wc)(cmName ''s1'' := None)))"
  using delete_fenced [OF mem_st.kube_store_axioms locked_server_ok run_pair [OF delete_runs]]
  by blast

text \<open>C4: \<open>Lock\<close> is exclusive and fences its predecessors: when it succeeds, there was an instant at
  which the lease was absent, the caller's own, or past its deadline by the caller's clock,
  and the caller's write took effect at that instant: the leases right after it are those of that instant with
  the caller entered as holder and nothing else changed, so nobody came in between; and unless the session has no record, the
  record carried the caller's token as lifecycle owner at some instant and the lease is
  still the caller's when the call returns.\<close>

theorem lock_exclusive:
  assumes "kube_store st cms leases reach ok" "ok w" "Store_Lock st sid token w = (Inr (), w')"
  shows "lock_taken st leases reach sid token w w' \<and>
    fence_claimed cms leases reach sid token w w'"
  using kube_store.lock_effect [OF assms] .

lemma created_server_ok: "mem_ok (snd (Store_Put mem_store stored_sample empty_server))"
  using mem_st.keeps_records(1) empty_server_ok by (metis keeps_def)

theorem lock_exclusive_witness:
  "\<exists>w w'. mem_ok w \<and> Store_Lock mem_store ''s1'' ''tok'' w = (Inr (), w') \<and>
    lock_taken mem_store mem_leases mem_reach ''s1'' ''tok'' w w' \<and>
    fence_claimed mem_cms mem_leases mem_reach ''s1'' ''tok'' w w'"
  using lock_exclusive [OF mem_st.kube_store_axioms created_server_ok run_pair [OF lock_runs]]
    created_server_ok run_pair [OF lock_runs] by blast

text \<open>The lease duration written to the API is a positive 32-bit number of seconds for every
  configured duration, and for the durations that fit it never exceeds the configured one
  unless that is below a second, so a holder that renews in time never outlives its lease.\<close>

theorem leaseSeconds_bounds:
  "1 \<le> leaseSeconds d \<and> leaseSeconds d \<le> 2 ^ 31 - 1 \<and>
   (leaseSeconds d * 1000000000 \<le> d \<or> d < 1000000000 \<or> d \<ge> 2 ^ 31 * 1000000000)"
proof -
  have bounds: "- (2 ^ 31) \<le> int32 x \<and> int32 x \<le> 2 ^ 31 - 1" for x
    using pos_mod_bound [of "2 ^ 32 :: int" "x + 2 ^ 31"] pos_mod_sign [of "2 ^ 32 :: int" "x + 2 ^ 31"]
    by (simp add: int32_def)
  have fits: "leaseSeconds d * 1000000000 \<le> d" if "1000000000 \<le> d" "d < 2 ^ 31 * 1000000000"
  proof -
    have "1 \<le> d div 1000000000" "d div 1000000000 < 2 ^ 31"
      using that zdiv_mono1 [of 1000000000 d 1000000000]
        zdiv_mono1 [of d "2 ^ 31 * 1000000000 - 1" 1000000000] by simp_all
    then have "int32 (d div 1000000000) = d div 1000000000" by (simp add: int32_def)
    with \<open>1 \<le> d div 1000000000\<close> that show ?thesis by (simp add: leaseSeconds_def Let_def)
  qed
  have "1 \<le> leaseSeconds d" "leaseSeconds d \<le> 2 ^ 31 - 1"
    using bounds by (simp_all add: leaseSeconds_def Let_def)
  with fits show ?thesis by (meson not_le)
qed

end
