(* ===== verification/Strconv.thy ===== *)
theory Strconv
  imports Prelude
begin

text \<open>
  The parts of Go's \<open>strconv\<close> the control plane uses: \<open>Itoa\<close> on non-negative numbers and
  \<open>Atoi\<close> (64-bit \<open>int\<close>), inverse to each other in the range of an \<open>int\<close>.
\<close>

definition digit :: "nat \<Rightarrow> char" where "digit n = char_of (48 + n)"

definition digit_val :: "char \<Rightarrow> nat option" where
  "digit_val c = (let x = of_char c :: nat in if 48 \<le> x \<and> x \<le> 57 then Some (x - 48) else None)"

fun Itoa :: "nat \<Rightarrow> string" where
  "Itoa n = (if n < 10 then [digit n] else Itoa (n div 10) @ [digit (n mod 10)])"

declare Itoa.simps [simp del]

fun digits_val :: "nat \<Rightarrow> string \<Rightarrow> nat option" where
  "digits_val acc [] = Some acc"
| "digits_val acc (c # cs) =
     (case digit_val c of None \<Rightarrow> None | Some d \<Rightarrow> digits_val (10 * acc + d) cs)"

definition unsigned_val :: "string \<Rightarrow> nat option" where
  "unsigned_val s = (if s = '''' then None else digits_val 0 s)"

definition Atoi :: "string \<Rightarrow> int option" where
  "Atoi s =
     (case s of
        [] \<Rightarrow> None
      | c # cs \<Rightarrow>
          if c = CHR ''-'' then
            (case unsigned_val cs of None \<Rightarrow> None
             | Some n \<Rightarrow> if int n \<le> 2 ^ 63 then Some (- int n) else None)
          else
            (case unsigned_val (if c = CHR ''+'' then cs else s) of None \<Rightarrow> None
             | Some n \<Rightarrow> if int n < 2 ^ 63 then Some (int n) else None))"

lemma digit_val_digit [simp]: "n < 10 \<Longrightarrow> digit_val (digit n) = Some n"
  by (simp add: digit_val_def digit_def)

lemma digit_not_sign: "n < 10 \<Longrightarrow> digit n \<noteq> CHR ''-'' \<and> digit n \<noteq> CHR ''+''"
proof
  assume n: "n < 10"
  have "of_char (digit n) = 48 + n" using n by (simp add: digit_def)
  moreover have "of_char CHR ''-'' = (45 :: nat)" "of_char CHR ''+'' = (43 :: nat)" by simp_all
  ultimately show "digit n \<noteq> CHR ''-''" "digit n \<noteq> CHR ''+''" by auto
qed

lemma digits_val_append:
  "digits_val acc (xs @ ys) = (case digits_val acc xs of None \<Rightarrow> None | Some v \<Rightarrow> digits_val v ys)"
  by (induction xs arbitrary: acc) (auto split: option.splits)

lemma digits_val_Itoa: "digits_val 0 (Itoa n) = Some n"
proof (induction n rule: Itoa.induct)
  case (1 n)
  then show ?case
    by (subst Itoa.simps) (auto simp: digits_val_append)
qed

lemma Itoa_Cons: "\<exists>d ds. Itoa n = digit d # ds \<and> d < 10"
proof (induction n rule: Itoa.induct)
  case (1 n)
  then show ?case by (subst Itoa.simps) (auto split: if_splits, blast)
qed

lemma Atoi_Itoa: "int n < 2 ^ 63 \<Longrightarrow> Atoi (Itoa n) = Some (int n)"
  using Itoa_Cons [of n] digits_val_Itoa [of n]
  by (auto simp: Atoi_def unsigned_val_def dest: digit_not_sign)

lemma Itoa_inj [simp]: "Itoa a = Itoa b \<longleftrightarrow> a = b"
  by (metis digits_val_Itoa option.inject)
lemma Itoa_digits: "list_all (\<lambda>c. digit_val c \<noteq> None) (Itoa n)"
proof (induction n rule: Itoa.induct)
  case (1 n)
  then show ?case by (subst Itoa.simps) simp
qed

lemma dash_no_digit: "digit_val CHR ''-'' = None"
  by (simp add: digit_val_def)

end
