(* ===== verification/Auth_Pool.thy ===== *)
theory Auth_Pool
  imports Mem_Kube Ports Strconv "HOL-Library.Product_Lexorder"
begin

text \<open>
  \<open>control-plane/internal/adapter/k8s/auth_pool.go\<close>: login slots leased exclusively to
  sessions, one Lease and one volume claim per slot. The API server is the parameter
  \<open>ap_api\<close>; a map from slot to lease is an association list.
\<close>

section \<open>Names and configuration\<close>

definition LabelAuthPool :: string where "LabelAuthPool = ''session-platform.dev/auth-pool''"
definition LabelAuthSlot :: string where "LabelAuthSlot = ''session-platform.dev/auth-slot''"
definition AnnotationAuthState :: string where
  "AnnotationAuthState = ''session-platform.dev/auth-state''"
definition AuthStateSignedIn :: string where "AuthStateSignedIn = ''signed-in''"
definition AuthStateSignedOut :: string where "AuthStateSignedOut = ''signed-out''"
definition acquireAttempts :: nat where "acquireAttempts = 5"
definition releaseAttempts :: nat where "releaseAttempts = 5"

record 'w LeaseAuthPool =
  ap_api :: "'w KubeAPI"
  ap_namespace :: string
  ap_Pool :: string
  ap_Slots :: nat
  ap_StorageClass :: string
  ap_storageSize :: string
  ap_ReclaimGrace :: duration
  ap_Now :: "'w \<Rightarrow> time \<times> 'w"

definition AuthSlotLeaseName :: "string \<Rightarrow> nat \<Rightarrow> string" where
  "AuthSlotLeaseName pool slot = pool @ ''-auth-'' @ Itoa slot"

definition AuthSlotClaimName :: "string \<Rightarrow> string \<Rightarrow> nat \<Rightarrow> string" where
  "AuthSlotClaimName namespace pool slot = namespace @ ''-'' @ AuthSlotLeaseName pool slot"

definition DefaultAuthPoolReclaimGrace :: duration where
  "DefaultAuthPoolReclaimGrace = 600 * 1000000000"
definition DefaultAuthSlotStorageSize :: string where "DefaultAuthSlotStorageSize = ''16Mi''"

text \<open>\<open>ParseQuantity\<close> belongs to apimachinery: \<open>positive\<close> tells whether the string parses to a
  positive quantity.\<close>

definition NewLeaseAuthPool ::
  "(string \<Rightarrow> bool) \<Rightarrow> 'w KubeAPI \<Rightarrow> string \<Rightarrow> ('w \<Rightarrow> time \<times> 'w) \<Rightarrow> string \<Rightarrow> int \<Rightarrow> string \<Rightarrow> string \<Rightarrow>
   duration \<Rightarrow> goerr + 'w LeaseAuthPool" where
  "NewLeaseAuthPool positive api namespace now pool slots class storage grace =
     (if pool = '''' then Inl (New ''auth pool needs a name'')
      else if slots < 1 then Inl (New ''auth pool needs at least one slot'')
      else
        let size' = (if storage = '''' then DefaultAuthSlotStorageSize else storage) in
        if \<not> positive size' then Inl (New ''storage size is not a positive quantity'')
        else Inr \<lparr>ap_api = api, ap_namespace = namespace, ap_Pool = pool, ap_Slots = nat slots,
                  ap_StorageClass = class, ap_storageSize = size',
                  ap_ReclaimGrace = (if grace \<le> 0 then DefaultAuthPoolReclaimGrace else grace),
                  ap_Now = now\<rparr>)"

record slotCandidate =
  cand_slot :: nat
  cand_rank :: nat
  cand_lease :: "Lease option"

definition pool_now :: "'w LeaseAuthPool \<Rightarrow> ('w, time) act" where
  "pool_now p w = (case ap_Now p w of (t, w') \<Rightarrow> (Inr t, w'))"

definition labels :: "'w LeaseAuthPool \<Rightarrow> nat \<Rightarrow> string \<rightharpoonup> string" where
  "labels p slot =
     [LabelAuthPool \<mapsto> ap_Pool p, LabelAuthSlot \<mapsto> Itoa slot,
      ''app.kubernetes.io/managed-by'' \<mapsto> ''control-plane'']"

section \<open>Reading leases\<close>

definition leaseHolder :: "Lease \<Rightarrow> string" where
  "leaseHolder l = (case le_HolderIdentity l of None \<Rightarrow> '''' | Some h \<Rightarrow> TrimSpace h)"

definition authStateRank :: "Lease \<Rightarrow> nat" where
  "authStateRank l =
     (if le_Annotations l AnnotationAuthState = Some AuthStateSignedIn then 0
      else if le_Annotations l AnnotationAuthState = Some AuthStateSignedOut then 2 else 1)"

definition lease_slot :: "'w LeaseAuthPool \<Rightarrow> Lease \<Rightarrow> nat option" where
  "lease_slot p l =
     (case Atoi (case le_Labels l LabelAuthSlot of None \<Rightarrow> '''' | Some s \<Rightarrow> s) of
        None \<Rightarrow> None
      | Some k \<Rightarrow>
          if k < 0 \<or> le_Name l \<noteq> AuthSlotLeaseName (ap_Pool p) (nat k) then None else Some (nat k))"

fun slot_map :: "'w LeaseAuthPool \<Rightarrow> (nat \<times> Lease) list \<Rightarrow> Lease list \<Rightarrow> (nat \<times> Lease) list" where
  "slot_map p out [] = out"
| "slot_map p out (l # ls) =
     (case lease_slot p l of
        None \<Rightarrow> slot_map p out ls
      | Some k \<Rightarrow> slot_map p (AList.update k l out) ls)"

definition pool_leases :: "'w LeaseAuthPool \<Rightarrow> ('w, (nat \<times> Lease) list) act" where
  "pool_leases p =
     tryE (le_List (ap_api p) LabelAuthPool (ap_Pool p)) (\<lambda>listed.
     case listed of
       Inl err \<Rightarrow> throw (Errorf ''list auth slot leases'' [err])
     | Inr items \<Rightarrow> ret (slot_map p [] items))"

fun first_held :: "(nat \<times> Lease) list \<Rightarrow> string \<Rightarrow> nat list \<Rightarrow> nat option" where
  "first_held ls sid [] = None"
| "first_held ls sid (k # ks) =
     (if (case map_of ls k of None \<Rightarrow> False | Some l \<Rightarrow> leaseHolder l = sid) then Some k
      else first_held ls sid ks)"

definition heldSlot :: "(nat \<times> Lease) list \<Rightarrow> string \<Rightarrow> nat option" where
  "heldSlot ls sid = first_held ls sid (sort (map fst ls))"

section \<open>Writing leases\<close>

definition pool_renew :: "'w LeaseAuthPool \<Rightarrow> Lease \<Rightarrow> ('w, bool) act" where
  "pool_renew p lease =
     bindE (pool_now p) (\<lambda>now.
     tryE (le_Update (ap_api p)
             (lease\<lparr>le_AcquireTime := Some (NewMicroTime now), le_RenewTime := Some (NewMicroTime now)\<rparr>))
       (\<lambda>r. case r of
              Inr _ \<Rightarrow> ret True
            | Inl err \<Rightarrow> if IsConflict err \<or> IsNotFound err then ret False
                         else throw (Errorf ''renew'' [err])))"

text \<open>The stale-holder callback may be nil.\<close>

definition free ::
  "'w LeaseAuthPool \<Rightarrow> Lease \<Rightarrow> (string \<Rightarrow> ('w, bool) act) option \<Rightarrow> ('w, bool) act" where
  "free p lease stale =
     (let holder = leaseHolder lease in
      if holder = '''' then ret True
      else case stale of
             None \<Rightarrow> ret False
           | Some ask \<Rightarrow>
               let renewed = (case le_RenewTime lease of
                                Some t \<Rightarrow> t | None \<Rightarrow> le_CreationTimestamp lease) in
               bindE (pool_now p) (\<lambda>now.
               if time_Sub now renewed < ap_ReclaimGrace p then ret False else ask holder))"

definition foreignLease :: "'w LeaseAuthPool \<Rightarrow> nat \<Rightarrow> ('w, unit) act" where
  "foreignLease p slot =
     tryE (le_Get (ap_api p) (AuthSlotLeaseName (ap_Pool p) slot)) (\<lambda>r.
     case r of
       Inl err \<Rightarrow> if IsNotFound err then ret () else throw (Errorf ''read lease'' [err])
     | Inr l \<Rightarrow>
         if le_Labels l LabelAuthPool \<noteq> Some (ap_Pool p) \<or>
            le_Labels l LabelAuthSlot \<noteq> Some (Itoa slot)
         then throw (New ''lease exists without the auth pool labels'') else ret ())"

definition pool_claim :: "'w LeaseAuthPool \<Rightarrow> slotCandidate \<Rightarrow> string \<Rightarrow> ('w, bool) act" where
  "pool_claim p c sid =
     bindE (pool_now p) (\<lambda>now.
     case cand_lease c of
       None \<Rightarrow>
         tryE (le_Create (ap_api p)
                 \<lparr>le_Name = AuthSlotLeaseName (ap_Pool p) (cand_slot c),
                  le_Labels = labels p (cand_slot c), le_Annotations = Map.empty,
                  le_CreationTimestamp = 0, le_HolderIdentity = Some sid,
                  le_LeaseDurationSeconds = None, le_AcquireTime = Some (NewMicroTime now),
                  le_RenewTime = Some (NewMicroTime now), le_ResourceVersion = ''''\<rparr>)
           (\<lambda>r. case r of
                  Inr _ \<Rightarrow> ret True
                | Inl err \<Rightarrow>
                    if IsAlreadyExists err then thenE (foreignLease p (cand_slot c)) (ret False)
                    else throw err)
     | Some lease \<Rightarrow>
         tryE (le_Update (ap_api p)
                 (lease\<lparr>le_HolderIdentity := Some sid, le_AcquireTime := Some (NewMicroTime now),
                        le_RenewTime := Some (NewMicroTime now)\<rparr>))
           (\<lambda>r. case r of
                  Inr _ \<Rightarrow> ret True
                | Inl err \<Rightarrow> if IsConflict err then ret False else throw err))"

definition ensureClaim :: "'w LeaseAuthPool \<Rightarrow> nat \<Rightarrow> ('w, unit) act" where
  "ensureClaim p slot =
     (let name = AuthSlotClaimName (ap_namespace p) (ap_Pool p) slot in
      tryE (pvc_Get (ap_api p) name) (\<lambda>r.
      case r of
        Inr _ \<Rightarrow> ret ()
      | Inl err \<Rightarrow>
          if \<not> IsNotFound err then throw (Errorf ''read auth slot claim'' [err])
          else
            tryE (pvc_Create (ap_api p)
                    \<lparr>pvc_Name = name, pvc_Labels = labels p slot,
                     pvc_StorageClass = (if ap_StorageClass p = '''' then None else Some (ap_StorageClass p)),
                     pvc_Storage = ap_storageSize p\<rparr>)
              (\<lambda>c. case c of
                     Inr _ \<Rightarrow> ret ()
                   | Inl err \<Rightarrow> if IsAlreadyExists err then ret ()
                                else throw (Errorf ''create auth slot claim'' [err]))))"

section \<open>Release\<close>

definition released :: "Lease \<Rightarrow> time \<Rightarrow> bool option \<Rightarrow> Lease" where
  "released l now signedIn =
     (let next = l\<lparr>le_HolderIdentity := None, le_RenewTime := Some (NewMicroTime now)\<rparr> in
      case signedIn of
        None \<Rightarrow> next
      | Some b \<Rightarrow> next\<lparr>le_Annotations := (le_Annotations next)
          (AnnotationAuthState \<mapsto> if b then AuthStateSignedIn else AuthStateSignedOut)\<rparr>)"

fun release_loop ::
  "nat \<Rightarrow> 'w LeaseAuthPool \<Rightarrow> string \<Rightarrow> bool option \<Rightarrow> ('w, unit) act" where
  "release_loop 0 p sid signedIn = throw (New ''release: lease kept changing'')"
| "release_loop (Suc n) p sid signedIn =
     bindE (pool_leases p) (\<lambda>ls.
     case heldSlot ls sid of
       None \<Rightarrow> ret ()
     | Some slot \<Rightarrow>
         bindE (pool_now p) (\<lambda>now.
         tryE (le_Update (ap_api p) (released (the (map_of ls slot)) now signedIn)) (\<lambda>r.
         case r of
           Inr _ \<Rightarrow> ret ()
         | Inl err \<Rightarrow> if IsConflict err then release_loop n p sid signedIn else throw err)))"

definition pool_Release :: "'w LeaseAuthPool \<Rightarrow> string \<Rightarrow> bool option \<Rightarrow> ('w, unit) act" where
  "pool_Release p sid signedIn = release_loop releaseAttempts p sid signedIn"

section \<open>Acquire\<close>

text \<open>The renewal of a slot the session already holds: \<open>Inl\<close> the slot when it was renewed,
  \<open>Inr\<close> the leases when it holds none.\<close>

fun held_loop ::
  "nat \<Rightarrow> 'w LeaseAuthPool \<Rightarrow> string \<Rightarrow> (nat \<times> Lease) list \<Rightarrow> ('w, nat + (nat \<times> Lease) list) act" where
  "held_loop 0 p sid ls = throw (New ''renew: lease kept changing'')"
| "held_loop (Suc n) p sid ls =
     (case heldSlot ls sid of
        None \<Rightarrow> ret (Inr ls)
      | Some slot \<Rightarrow>
          bindE (pool_renew p (the (map_of ls slot))) (\<lambda>renewed.
          if renewed then thenE (ensureClaim p slot) (ret (Inl slot))
          else if n = 0 then throw (New ''renew: lease kept changing'')
          else bindE (pool_leases p) (held_loop n p sid)))"

fun judge_loop ::
  "'w LeaseAuthPool \<Rightarrow> (string \<Rightarrow> ('w, bool) act) option \<Rightarrow> (nat \<times> Lease) list \<Rightarrow> nat list \<Rightarrow>
   goerr list \<Rightarrow> slotCandidate list \<Rightarrow> ('w, goerr list \<times> slotCandidate list) act" where
  "judge_loop p stale ls [] skipped cands = ret (skipped, cands)"
| "judge_loop p stale ls (slot # rest) skipped cands =
     (case map_of ls slot of
        None \<Rightarrow>
          judge_loop p stale ls rest skipped
            (cands @ [\<lparr>cand_slot = slot, cand_rank = 2, cand_lease = None\<rparr>])
      | Some lease \<Rightarrow>
          tryE (free p lease stale) (\<lambda>r.
          case r of
            Inl err \<Rightarrow> judge_loop p stale ls rest (skipped @ [Errorf ''judge'' [err]]) cands
          | Inr isFree \<Rightarrow>
              judge_loop p stale ls rest skipped
                (if isFree then cands @ [\<lparr>cand_slot = slot, cand_rank = authStateRank lease,
                                          cand_lease = Some lease\<rparr>]
                 else cands)))"

fun claim_candidates ::
  "'w LeaseAuthPool \<Rightarrow> string \<Rightarrow> goerr list \<Rightarrow> slotCandidate list \<Rightarrow> ('w, nat) act" where
  "claim_candidates p sid skipped [] =
     (if skipped \<noteq> [] then throw (Errorf ''no auth slot could be leased'' skipped)
      else throw (Errorf ''all slots are held'' [Sentinel ErrAuthPoolExhausted]))"
| "claim_candidates p sid skipped (c # cs) =
     tryE (pool_claim p c sid) (\<lambda>r.
     case r of
       Inl err \<Rightarrow> claim_candidates p sid (skipped @ [err]) cs
     | Inr won \<Rightarrow>
         if \<not> won then claim_candidates p sid skipped cs
         else
           tryE (ensureClaim p (cand_slot c)) (\<lambda>e.
           case e of
             Inr _ \<Rightarrow> ret (cand_slot c)
           | Inl err \<Rightarrow>
               tryE (pool_Release p sid None) (\<lambda>rel.
               case rel of
                 Inl err2 \<Rightarrow> throw (errors_Join err err2)
               | Inr _ \<Rightarrow> throw (Errorf ''join'' [err]))))"

definition sort_candidates :: "slotCandidate list \<Rightarrow> slotCandidate list" where
  "sort_candidates cs = sort_key (\<lambda>c. (cand_rank c, cand_slot c)) cs"

definition pool_Acquire ::
  "'w LeaseAuthPool \<Rightarrow> string \<Rightarrow> (string \<Rightarrow> ('w, bool) act) option \<Rightarrow> ('w, nat) act" where
  "pool_Acquire p sid stale =
     bindE (pool_leases p) (\<lambda>ls0.
     bindE (held_loop acquireAttempts p sid ls0) (\<lambda>h.
     case h of
       Inl slot \<Rightarrow> ret slot
     | Inr ls \<Rightarrow>
         bindE (judge_loop p stale ls [0..<ap_Slots p] [] []) (\<lambda>(skipped, cands).
         claim_candidates p sid skipped (sort_candidates cands))))"

section \<open>Which types use a pool\<close>

datatype ClaudeCodeAuthMode = ClaudeCodeAuthGateway | ClaudeCodeAuthSubscription

definition ParseClaudeCodeAuthMode :: "string \<Rightarrow> goerr + ClaudeCodeAuthMode" where
  "ParseClaudeCodeAuthMode value =
     (let mode = TrimSpace value in
      if mode = '''' \<or> mode = ''gateway'' then Inr ClaudeCodeAuthGateway
      else if mode = ''subscription'' then Inr ClaudeCodeAuthSubscription
      else Inl (New ''unknown claude-code auth mode''))"

definition AuthPoolFor :: "string \<Rightarrow> ClaudeCodeAuthMode \<Rightarrow> string option" where
  "AuthPoolFor workload mode =
     (if workload = WorkloadTypeCodexTask then Some ''codex-task''
      else if workload = WorkloadTypeClaudeCode \<and> mode = ClaudeCodeAuthSubscription
      then Some ''claude-code'' else None)"

text \<open>What \<open>attachAuthSlot\<close> adds to the workload container: the environment variable, the mount
  and the claim behind it.\<close>

record AuthSlotMount =
  mount_Env :: "string \<times> string"
  mount_Volume :: string
  mount_Path :: string
  mount_Claim :: string

definition attachAuthSlot ::
  "string \<Rightarrow> ClaudeCodeAuthMode \<Rightarrow> string \<Rightarrow> int option \<Rightarrow> goerr + AuthSlotMount option" where
  "attachAuthSlot namespace mode workload slot =
     (case AuthPoolFor workload mode of
        None \<Rightarrow> if slot = None then Inr None else Inl (New ''workload type takes no auth slot'')
      | Some pool \<Rightarrow>
          (case slot of
             None \<Rightarrow> Inl (New ''workload type needs an auth slot'')
           | Some k \<Rightarrow>
               if k < 0 then Inl (New ''workload type needs an auth slot'')
               else Inr (Some
                 \<lparr>mount_Env = (''AGENT_AUTH_SLOT_DIR'', ''/var/run/session-platform/auth-slot''),
                  mount_Volume = ''auth-slot'', mount_Path = ''/var/run/session-platform/auth-slot'',
                  mount_Claim = AuthSlotClaimName namespace pool (nat k)\<rparr>)))"

end
