(* ===== verification/Auth_Pool_Laws.thy ===== *)
theory Auth_Pool_Laws
  imports Auth_Pool
begin

text \<open>
  The exclusive lease of a login slot, over any API server that keeps the contract: a slot
  changes hands only from nobody, from the session itself, or from a holder that was idle
  for the reclaim grace and that the service judged stale.
\<close>

definition slot_name :: "'w LeaseAuthPool \<Rightarrow> nat \<Rightarrow> string" where
  "slot_name p k = AuthSlotLeaseName (ap_Pool p) k"

definition lease_age_from :: "Lease \<Rightarrow> time" where
  "lease_age_from l = (case le_RenewTime l of Some t \<Rightarrow> t | None \<Rightarrow> le_CreationTimestamp l)"

text \<open>Inside the call, the clock put the lease past the grace and the callback then said that
  its holder runs no pod.\<close>

definition reclaimable ::
  "'w LeaseAuthPool \<Rightarrow> ('w \<Rightarrow> 'w \<Rightarrow> bool) \<Rightarrow> (string \<Rightarrow> ('w, bool) act) option \<Rightarrow> Lease \<Rightarrow> 'w \<Rightarrow> 'w \<Rightarrow> bool" where
  "reclaimable p reach stale l w w' =
     (\<exists>ask wa t wb wd. stale = Some ask \<and> reach w wa \<and> ap_Now p wa = (t, wb) \<and>
        ap_ReclaimGrace p \<le> time_Sub t (lease_age_from l) \<and>
        ask (leaseHolder l) wb = (Inr True, wd) \<and> reach wd w')"

text \<open>The slot changed hands in one step: at one instant it was free for the session, and right after it the only change
  is that the session holds its lease.\<close>

definition slot_won ::
  "'w LeaseAuthPool \<Rightarrow> ('w \<Rightarrow> string \<Rightarrow> Lease option) \<Rightarrow> ('w \<Rightarrow> 'w \<Rightarrow> bool) \<Rightarrow>
   (string \<Rightarrow> ('w, bool) act) option \<Rightarrow> string \<Rightarrow> nat \<Rightarrow> 'w \<Rightarrow> 'w \<Rightarrow> bool" where
  "slot_won p leases reach stale sid k w w' =
     (\<exists>wc wd b. reach w wc \<and> reach wc wd \<and> reach wd w' \<and>
        (case leases wc (slot_name p k) of
           None \<Rightarrow> True
         | Some l \<Rightarrow> leaseHolder l = '''' \<or> leaseHolder l = sid \<or> reclaimable p reach stale l w w') \<and>
        leaseHolder b = TrimSpace sid \<and> leases wd = (leases wc)(slot_name p k \<mapsto> b))"

locale lease_pool =
  le: versioned_api "le_Get (ap_api p)" "le_Create (ap_api p)" "le_Update (ap_api p)"
    "le_Delete (ap_api p)" leases le_Name le_ResourceVersion le_erase reach ok
  for p :: "'w LeaseAuthPool" and leases :: "'w \<Rightarrow> string \<Rightarrow> Lease option"
    and reach :: "'w \<Rightarrow> 'w \<Rightarrow> bool" and ok :: "'w \<Rightarrow> bool" +
  assumes pool_clock: "ok w \<Longrightarrow> ap_Now p w = (t, w') \<Longrightarrow> reach w w'"
    and list_reach: "ok w \<Longrightarrow> le_List (ap_api p) k v w = (rl, w') \<Longrightarrow> reach w w'"
    and list_found: "ok w \<Longrightarrow> le_List (ap_api p) k v w = (Inr ls, w') \<Longrightarrow> l \<in> set ls \<Longrightarrow>
      leases w' (le_Name l) = Some l"
    and pvc_get_reach: "ok w \<Longrightarrow> pvc_Get (ap_api p) n w = (rp, w') \<Longrightarrow> reach w w'"
    and pvc_create_reach: "ok w \<Longrightarrow> pvc_Create (ap_api p) c w = (ru, w') \<Longrightarrow> reach w w'"

sublocale lease_pool \<subseteq> pool_history: server_history reach ok
  by unfold_locales (fact le.reach_refl, fact le.reach_trans)

context lease_pool
begin

lemma keeps_pool_calls [keeps_intros]:
  "keeps ok reach (le_Get (ap_api p) n)" "keeps ok reach (le_Create (ap_api p) l)"
  "keeps ok reach (le_Update (ap_api p) l)" "keeps ok reach (le_List (ap_api p) k v)"
  "keeps ok reach (pvc_Get (ap_api p) n)" "keeps ok reach (pvc_Create (ap_api p) c)"
  "keeps ok reach (pool_now p)"
  unfolding keeps_def pool_now_def
  by (auto split: prod.splits
      intro: le.get_reach le.create_reach le.update_reach list_reach pvc_get_reach pvc_create_reach
        pool_clock le.reach_ok prod.collapse [symmetric])

lemma keeps_pool [keeps_intros]:
  "keeps ok reach (pool_leases p)" "keeps ok reach (pool_renew p l)" "keeps ok reach (foreignLease p k)"
  "keeps ok reach (pool_claim p c sid)" "keeps ok reach (ensureClaim p k)"
  unfolding pool_leases_def pool_renew_def foreignLease_def pool_claim_def ensureClaim_def Let_def
  by (auto intro!: keeps_intros pool_history.keeps_option)

lemma keeps_release [keeps_intros]: "keeps ok reach (pool_Release p sid b)"
proof -
  have "keeps ok reach (release_loop n p sid b)" for n
    by (induction n) (auto intro!: keeps_intros)
  then show ?thesis by (simp add: pool_Release_def)
qed

end

section \<open>What the pool has seen\<close>

text \<open>The stale-holder callback runs against the same world.\<close>

definition keeps_callback ::
  "('w \<Rightarrow> bool) \<Rightarrow> ('w \<Rightarrow> 'w \<Rightarrow> bool) \<Rightarrow> (string \<Rightarrow> ('w, bool) act) option \<Rightarrow> bool" where
  "keeps_callback ok reach stale =
     (case stale of None \<Rightarrow> True | Some ask \<Rightarrow> \<forall>h. keeps ok reach (ask h))"

definition seen ::
  "'w LeaseAuthPool \<Rightarrow> ('w \<Rightarrow> string \<Rightarrow> Lease option) \<Rightarrow> ('w \<Rightarrow> 'w \<Rightarrow> bool) \<Rightarrow> ('w \<Rightarrow> bool) \<Rightarrow>
   (nat \<times> Lease) list \<Rightarrow> 'w \<Rightarrow> 'w \<Rightarrow> bool" where
  "seen p leases reach ok ls w w1 =
     (\<forall>k l. map_of ls k = Some l \<longrightarrow>
        (\<exists>wl. reach w wl \<and> reach wl w1 \<and> ok wl \<and> leases wl (slot_name p k) = Some l))"

lemma slot_map_items:
  "map_of (slot_map p out items) k = Some l \<Longrightarrow>
   (l \<in> set items \<and> le_Name l = slot_name p k) \<or> map_of out k = Some l"
proof (induction items arbitrary: out)
  case (Cons x xs)
  show ?case
  proof (cases "lease_slot p x")
    case None
    with Cons show ?thesis by auto
  next
    case (Some j)
    then have "le_Name x = slot_name p j"
      by (auto simp: lease_slot_def slot_name_def split: option.splits if_splits)
    with Cons.IH [of "AList.update j x out"] Cons.prems Some show ?thesis
      by (auto simp: update_conv split: if_splits)
  qed
qed simp

lemma heldSlot_Some: "heldSlot ls sid = Some k \<Longrightarrow> \<exists>l. map_of ls k = Some l \<and> leaseHolder l = sid"
proof -
  have "first_held ls sid ks = Some k \<Longrightarrow> \<exists>l. map_of ls k = Some l \<and> leaseHolder l = sid" for ks
    by (induction ks) (auto split: if_splits option.splits)
  then show "heldSlot ls sid = Some k \<Longrightarrow> ?thesis" by (simp add: heldSlot_def)
qed

lemma leaseHolder_trimmed: "leaseHolder l = h \<Longrightarrow> TrimSpace h = h"
  by (auto simp: leaseHolder_def split: option.splits)

lemma slot_wonI:
  "reach w wc \<Longrightarrow> reach wc wd \<Longrightarrow> reach wd w' \<Longrightarrow> leases wc (slot_name p k) = Some l \<Longrightarrow>
   leaseHolder l = '''' \<or> leaseHolder l = sid \<or> reclaimable p reach stale l w w' \<Longrightarrow>
   leaseHolder b = TrimSpace sid \<Longrightarrow> leases wd = (leases wc)(slot_name p k \<mapsto> b) \<Longrightarrow> slot_won p leases reach stale sid k w w'"
  unfolding slot_won_def by (rule exI [of _ wc], rule exI [of _ wd], rule exI [of _ b]) simp

lemma slot_wonI_None:
  "reach w wc \<Longrightarrow> reach wc wd \<Longrightarrow> reach wd w' \<Longrightarrow> leases wc (slot_name p k) = None \<Longrightarrow>
   leaseHolder b = TrimSpace sid \<Longrightarrow> leases wd = (leases wc)(slot_name p k \<mapsto> b) \<Longrightarrow> slot_won p leases reach stale sid k w w'"
  unfolding slot_won_def by (rule exI [of _ wc], rule exI [of _ wd], rule exI [of _ b]) simp

context lease_pool
begin

lemma seen_leases:
  assumes "ok w0" "reach w0 w" "pool_leases p w = (Inr ls, w')"
  shows "seen p leases reach ok ls w0 w' \<and> ok w' \<and> reach w0 w'"
proof -
  have w: "ok w" using assms(1,2) le.reach_ok by blast
  obtain items where i: "le_List (ap_api p) LabelAuthPool (ap_Pool p) w = (Inr items, w')"
    "ls = slot_map p [] items"
    using assms(3) by (auto simp: pool_leases_def run_simps split: prod.splits sum.splits)
  have w': "ok w'" "reach w0 w'"
    using list_reach [OF w i(1)] w assms(2) le.reach_ok le.reach_trans by blast+
  have "leases w' (slot_name p k) = Some l" if "map_of ls k = Some l" for k l
    using slot_map_items [of p "[]" items k l] that i(2) list_found [OF w i(1)] by force
  with w' le.reach_refl show ?thesis unfolding seen_def by blast
qed

lemma seen_later: "seen p leases reach ok ls w w1 \<Longrightarrow> reach w1 w2 \<Longrightarrow> seen p leases reach ok ls w w2"
  unfolding seen_def by (blast intro: le.reach_trans)

lemma renew_wins:
  assumes "seen p leases reach ok ls w0 w" "ok w" "map_of ls k = Some l" "leaseHolder l = sid"
    and "pool_renew p l w = (Inr True, w')"
  shows "slot_won p leases reach stale sid k w0 w'"
proof -
  obtain wl where wl: "reach w0 wl" "reach wl w" "ok wl" "leases wl (slot_name p k) = Some l"
    using assms(1,3) unfolding seen_def by blast
  obtain t w1 where n: "ap_Now p w = (t, w1)" by force
  have w1: "reach w w1" by (rule pool_clock [OF assms(2) n])
  define l' where "l' = l\<lparr>le_AcquireTime := Some (NewMicroTime t), le_RenewTime := Some (NewMicroTime t)\<rparr>"
  have u: "le_Update (ap_api p) l' w1 = (Inr (), w')"
    using assms(5) n
    by (auto simp: pool_renew_def pool_now_def run_simps l'_def split: prod.splits sum.splits if_splits)
  obtain wc b where c: "reach wl wc" "reach wc w'" "leases wc (slot_name p k) = Some l"
    "le_erase b = le_erase l'" "leases w' = (leases wc)(slot_name p k \<mapsto> b)"
    using le.seen_modify_write [OF wl(3,4) le.reach_trans [OF wl(2) w1] u] by (auto simp: l'_def)
  have "ok w'" using assms(2) w1 le.update_reach [OF _ u] le.reach_ok by blast
  have "leaseHolder b = sid"
    using le_erase_eq [OF c(4)] assms(4) by (simp add: leaseHolder_def l'_def)
  then have "leaseHolder b = TrimSpace sid" using leaseHolder_trimmed [OF assms(4)] by simp
  then show ?thesis
    using slot_wonI [where reach = reach and leases = leases, OF le.reach_trans [OF wl(1) c(1)] c(2)
        le.reach_refl [OF \<open>ok w'\<close>] c(3) _ _ c(5)] assms(4) by blast
qed

lemma slot_won_later:
  "slot_won p leases reach stale sid k w w1 \<Longrightarrow> reach w1 w2 \<Longrightarrow> slot_won p leases reach stale sid k w w2"
proof -
  assume r: "reach w1 w2" and s: "slot_won p leases reach stale sid k w w1"
  have "reclaimable p reach stale l w w1 \<Longrightarrow> reclaimable p reach stale l w w2" for l
    unfolding reclaimable_def using r le.reach_trans by blast
  with s r show "slot_won p leases reach stale sid k w w2"
    unfolding slot_won_def by (fastforce intro: le.reach_trans split: option.splits)
qed

lemma held_loop_effect:
  assumes "ok w" "reach w0 w" "ok w0" "seen p leases reach ok ls w0 w"
    and "held_loop n p sid ls w = (Inr res, w')"
  shows "ok w' \<and> reach w0 w' \<and> (case res of Inl k \<Rightarrow> slot_won p leases reach stale sid k w0 w'
      | Inr ls' \<Rightarrow> seen p leases reach ok ls' w0 w')"
  using assms(1,2,4,5)
proof (induction n arbitrary: ls w)
  case 0
  then show ?case by (simp add: throw_def)
next
  case (Suc n)
  show ?case
  proof (cases "heldSlot ls sid")
    case None
    with Suc.prems show ?thesis by (auto simp: ret_def)
  next
    case (Some k)
    then obtain l where l: "map_of ls k = Some l" "leaseHolder l = sid" using heldSlot_Some by blast
    obtain b w1 where b: "pool_renew p l w = (Inr b, w1)"
      using Suc.prems(4) Some l by (auto simp: run_simps split: prod.splits sum.splits)
    have w1: "ok w1" "reach w w1" "reach w0 w1"
      using keepsD [OF keeps_pool(2) b Suc.prems(1)] Suc.prems(2) le.reach_trans by blast+
    show ?thesis
    proof (cases b)
      case True
      then have e: "ensureClaim p k w1 = (Inr (), w')" "res = Inl k"
        using Suc.prems(4) Some l b by (auto simp: run_simps split: prod.splits sum.splits)
      have "slot_won p leases reach stale sid k w0 w1"
        using renew_wins [OF Suc.prems(3,1) l] b True by simp
      then show ?thesis
        using keepsD [OF keeps_pool(5) e(1) w1(1)] e(2) w1(3) slot_won_later le.reach_trans by auto
    next
      case False
      then obtain ls2 w2 where e: "pool_leases p w1 = (Inr ls2, w2)"
        "held_loop n p sid ls2 w2 = (Inr res, w')"
        using Suc.prems(4) Some l b
        by (auto simp: run_simps split: prod.splits sum.splits if_splits)
      show ?thesis
        using seen_leases [OF assms(3) w1(3) e(1)] Suc.IH [OF _ _ _ e(2)] by blast
    qed
  qed
qed

text \<open>A lease judged free.\<close>

lemma free_effect:
  assumes "reach w0 w" "free p l stale w = (Inr True, w')" "reach w' w2"
  shows "leaseHolder l = '''' \<or> reclaimable p reach stale l w0 w2"
proof (cases "leaseHolder l = ''''")
  case False
  then obtain ask t w1 where a: "stale = Some ask" "ap_Now p w = (t, w1)"
    "ap_ReclaimGrace p \<le> time_Sub t (lease_age_from l)" "ask (leaseHolder l) w1 = (Inr True, w')"
    using assms(2)
    by (auto simp: free_def Let_def pool_now_def run_simps lease_age_from_def
        split: option.splits prod.splits if_splits)
  with assms(1,3) show ?thesis unfolding reclaimable_def by blast
qed simp

lemma keeps_free:
  assumes "keeps_callback ok reach stale"
  shows "keeps ok reach (free p l stale)"
proof -
  have "keeps ok reach (ask h)" if "stale = Some ask" for ask h
    using assms that by (simp add: keeps_callback_def)
  then show ?thesis unfolding free_def Let_def by (auto intro!: keeps_intros)
qed

end

definition candidate_ok ::
  "'w LeaseAuthPool \<Rightarrow> ('w \<Rightarrow> 'w \<Rightarrow> bool) \<Rightarrow> (string \<Rightarrow> ('w, bool) act) option \<Rightarrow> (nat \<times> Lease) list \<Rightarrow>
   'w \<Rightarrow> 'w \<Rightarrow> slotCandidate \<Rightarrow> bool" where
  "candidate_ok p reach stale ls w w' c =
     (case cand_lease c of
        None \<Rightarrow> True
      | Some l \<Rightarrow> map_of ls (cand_slot c) = Some l \<and>
          (leaseHolder l = '''' \<or> reclaimable p reach stale l w w'))"

context lease_pool
begin

lemma candidate_ok_later:
  "candidate_ok p reach stale ls w w1 c \<Longrightarrow> reach w1 w2 \<Longrightarrow> candidate_ok p reach stale ls w w2 c"
  unfolding candidate_ok_def reclaimable_def by (auto split: option.splits) (meson le.reach_trans)+

lemma judge_loop_effect:
  assumes "keeps_callback ok reach stale"
    and "ok w" "reach w0 w" "list_all (candidate_ok p reach stale ls w0 w) cands"
    and "judge_loop p stale ls ks skipped cands w = (Inr (sk, cs), w')"
  shows "ok w' \<and> reach w0 w' \<and> reach w w' \<and> list_all (candidate_ok p reach stale ls w0 w') cs"
  using assms(2-5)
proof (induction ks arbitrary: skipped cands w)
  case Nil
  then show ?case by (auto simp: ret_def le.reach_refl)
next
  case (Cons k ks)
  show ?case
  proof (cases "map_of ls k")
    case None
    from Cons.IH [OF Cons.prems(1,2), of "cands @ [\<lparr>cand_slot = k, cand_rank = 2, cand_lease = None\<rparr>]" skipped]
      Cons.prems(3,4) None
    show ?thesis by (simp add: candidate_ok_def)
  next
    case (Some l)
    obtain f w1 where f: "free p l stale w = (f, w1)" by force
    have w1: "ok w1" "reach w w1" "reach w0 w1"
      using keepsD [OF keeps_free [OF assms(1)] f Cons.prems(1)] Cons.prems(2) le.reach_trans by blast+
    have old: "list_all (candidate_ok p reach stale ls w0 w1) cands"
      using Cons.prems(3) candidate_ok_later w1(2) by (auto simp: list_all_iff)
    define c where "c = \<lparr>cand_slot = k, cand_rank = authStateRank l, cand_lease = Some l\<rparr>"
    have new: "candidate_ok p reach stale ls w0 w1 c" if "f = Inr True"
      using free_effect [OF Cons.prems(2) _ le.reach_refl [OF w1(1)]] f that Some
      by (simp add: candidate_ok_def c_def)
    have "judge_loop p stale ls ks skipped' cands' w1 = (Inr (sk, cs), w') \<Longrightarrow>
        list_all (candidate_ok p reach stale ls w0 w1) cands' \<Longrightarrow> ?thesis" for skipped' cands'
      using Cons.IH [OF w1(1,3)] w1(2) le.reach_trans by blast
    then show ?thesis
      using Cons.prems(4) Some f old new
      by (cases f) (auto simp: tryE_def c_def split: if_splits)
  qed
qed

end

context lease_pool
begin

lemma claim_wins:
  assumes "ok w0" "ok w" "reach w0 w" "seen p leases reach ok ls w0 w"
    and "candidate_ok p reach stale ls w0 w c" "pool_claim p c sid w = (Inr True, w')"
  shows "slot_won p leases reach stale sid (cand_slot c) w0 w'"
proof -
  obtain t w1 where n: "ap_Now p w = (t, w1)" by force
  have w1: "reach w w1" "ok w1" using pool_clock [OF assms(2) n] assms(2) le.reach_ok by blast+
  have w': "ok w'" using keepsD [OF keeps_pool(4) assms(6,2)] by blast
  show ?thesis
  proof (cases "cand_lease c")
    case None
    define l where "l = \<lparr>le_Name = AuthSlotLeaseName (ap_Pool p) (cand_slot c),
                  le_Labels = labels p (cand_slot c), le_Annotations = Map.empty,
                  le_CreationTimestamp = 0, le_HolderIdentity = Some sid,
                  le_LeaseDurationSeconds = None, le_AcquireTime = Some (NewMicroTime t),
                  le_RenewTime = Some (NewMicroTime t), le_ResourceVersion = ''''\<rparr>"
    have u: "le_Create (ap_api p) l w1 = (Inr (), w')"
      using assms(6) n None
      by (auto simp: pool_claim_def pool_now_def run_simps l_def split: prod.splits sum.splits if_splits)
    obtain wc b where b: "reach w1 wc" "reach wc w'" "leases wc (slot_name p (cand_slot c)) = None"
      "le_erase b = le_erase l" "leases w' = (leases wc)(slot_name p (cand_slot c) \<mapsto> b)"
      using le.create_commits [OF w1(2) u] by (auto simp: l_def slot_name_def)
    have "leaseHolder b = TrimSpace sid"
      using le_erase_eq [OF b(4)] by (simp add: leaseHolder_def l_def)
    moreover have "reach w0 wc" using assms(3) w1(1) b(1) le.reach_trans by blast
    ultimately show ?thesis
      using slot_wonI_None [where reach = reach and leases = leases] b(2,3,5) le.reach_refl [OF w'] by blast
  next
    case (Some l)
    then have l: "map_of ls (cand_slot c) = Some l"
      "leaseHolder l = '''' \<or> reclaimable p reach stale l w0 w"
      using assms(5) by (auto simp: candidate_ok_def)
    then obtain wl where wl: "reach w0 wl" "reach wl w" "ok wl"
      "leases wl (slot_name p (cand_slot c)) = Some l"
      using assms(4) unfolding seen_def by blast
    define l' where "l' = l\<lparr>le_HolderIdentity := Some sid, le_AcquireTime := Some (NewMicroTime t),
                        le_RenewTime := Some (NewMicroTime t)\<rparr>"
    have u: "le_Update (ap_api p) l' w1 = (Inr (), w')"
      using assms(6) n Some
      by (auto simp: pool_claim_def pool_now_def run_simps l'_def split: prod.splits sum.splits if_splits)
    obtain wc b where b: "reach wl wc" "reach wc w'"
      "leases wc (slot_name p (cand_slot c)) = Some l" "le_erase b = le_erase l'"
      "leases w' = (leases wc)(slot_name p (cand_slot c) \<mapsto> b)" "reach w1 wc"
      using le.seen_modify_write [OF wl(3,4) le.reach_trans [OF wl(2) w1(1)] u] by (auto simp: l'_def)
    have "leaseHolder b = TrimSpace sid"
      using le_erase_eq [OF b(4)] by (simp add: leaseHolder_def l'_def)
    moreover have "reach w w'" using w1(1) b(6,2) le.reach_trans by blast
    then have "leaseHolder l = '''' \<or> reclaimable p reach stale l w0 w'"
      using l(2) le.reach_trans unfolding reclaimable_def by blast
    ultimately show ?thesis
      using slot_wonI [where reach = reach and leases = leases,
          OF le.reach_trans [OF wl(1) b(1)] b(2) le.reach_refl [OF w'] b(3) _ _ b(5)] by blast
  qed
qed

lemma claim_candidates_effect:
  assumes "ok w0" "ok w" "reach w0 w" "seen p leases reach ok ls w0 w"
    and "list_all (candidate_ok p reach stale ls w0 w) cs"
    and "claim_candidates p sid skipped cs w = (Inr k, w')"
  shows "slot_won p leases reach stale sid k w0 w'"
  using assms(2-6)
proof (induction cs arbitrary: skipped w)
  case Nil
  then show ?case by (simp add: throw_def split: if_splits)
next
  case (Cons c cs)
  obtain r w1 where r: "pool_claim p c sid w = (r, w1)" by force
  have w1: "ok w1" "reach w w1" "reach w0 w1"
    using keepsD [OF keeps_pool(4) r Cons.prems(1)] Cons.prems(2) le.reach_trans by blast+
  have rest: "claim_candidates p sid sk cs w1 = (Inr k, w') \<Longrightarrow> ?case" for sk
    using Cons.IH [OF w1(1,3) seen_later [OF Cons.prems(3) w1(2)]] Cons.prems(4)
      candidate_ok_later [OF _ w1(2)] by (auto simp: list_all_iff)
  show ?case
  proof (cases "r = Inr True")
    case False
    with Cons.prems(5) r rest show ?thesis
      by (cases r) (auto simp: tryE_def split: if_splits)
  next
    case True
    then have "slot_won p leases reach stale sid (cand_slot c) w0 w1"
      using claim_wins [OF assms(1) Cons.prems(1-3)] Cons.prems(4) r by simp
    moreover have "ensureClaim p (cand_slot c) w1 = (Inr (), w')" "k = cand_slot c"
      using Cons.prems(5) r True by (auto simp: run_simps split: prod.splits sum.splits)
    ultimately show ?thesis
      using keepsD [OF keeps_pool(5) _ w1(1)] slot_won_later by blast
  qed
qed

lemma acquire_effect:
  assumes "keeps_callback ok reach stale"
    and "ok w" "pool_Acquire p sid stale w = (Inr k, w')"
  shows "slot_won p leases reach stale sid k w w'"
proof -
  obtain ls0 w1 where l: "pool_leases p w = (Inr ls0, w1)"
    using assms(3) by (auto simp: pool_Acquire_def run_simps split: prod.splits sum.splits)
  have w1: "seen p leases reach ok ls0 w w1" "ok w1" "reach w w1"
    using seen_leases [OF assms(2) le.reach_refl [OF assms(2)] l] by blast+
  obtain h w2 where h: "held_loop acquireAttempts p sid ls0 w1 = (Inr h, w2)"
    using assms(3) l by (auto simp: pool_Acquire_def run_simps split: prod.splits sum.splits)
  note w2 = held_loop_effect [OF w1(2,3) assms(2) w1(1) h, of stale]
  show ?thesis
  proof (cases h)
    case (Inl slot)
    with assms(3) l h have "w' = w2" "k = slot" by (simp_all add: pool_Acquire_def run_simps)
    with w2 Inl show ?thesis by simp
  next
    case (Inr ls)
    obtain sk cs w3 where j: "judge_loop p stale ls [0..<ap_Slots p] [] [] w2 = (Inr (sk, cs), w3)"
      "claim_candidates p sid sk (sort_candidates cs) w3 = (Inr k, w')"
      using assms(3) l h Inr by (auto simp: pool_Acquire_def run_simps split: prod.splits sum.splits)
    have w3: "ok w3" "reach w w3" "reach w2 w3" "list_all (candidate_ok p reach stale ls w w3) cs"
      using judge_loop_effect [where ?w0.0 = w, OF assms(1) _ _ _ j(1)] w2 by auto
    have "seen p leases reach ok ls w w3" using w2 Inr seen_later w3(3) by auto
    then show ?thesis
      using claim_candidates_effect [OF assms(2) w3(1,2) _ _ j(2)] w3(4)
      by (simp add: sort_candidates_def list_all_iff)
  qed
qed

end

section \<open>Release\<close>

text \<open>Either the session's own lease was freed at one instant, and nothing else, or a listing
  inside the call showed that it holds none.\<close>

definition slot_given_back ::
  "'w LeaseAuthPool \<Rightarrow> ('w \<Rightarrow> string \<Rightarrow> Lease option) \<Rightarrow> ('w \<Rightarrow> 'w \<Rightarrow> bool) \<Rightarrow> string \<Rightarrow> 'w \<Rightarrow> 'w \<Rightarrow> bool" where
  "slot_given_back p leases reach sid w w' =
     ((\<exists>k l b wc. reach w wc \<and> reach wc w' \<and> leases wc (slot_name p k) = Some l \<and>
         leaseHolder l = sid \<and> leaseHolder b = '''' \<and>
         leases w' = (leases wc)(slot_name p k \<mapsto> b)) \<or>
      (\<exists>wa ls wb. reach w wa \<and> pool_leases p wa = (Inr ls, wb) \<and> reach wb w' \<and>
         heldSlot ls sid = None))"

lemma released_frame:
  "le_Name (released l t b) = le_Name l" "le_ResourceVersion (released l t b) = le_ResourceVersion l"
  "le_HolderIdentity (released l t b) = None"
  by (simp_all add: released_def Let_def split: option.splits)

context lease_pool
begin

lemma release_loop_effect:
  assumes "ok w0" "ok w" "reach w0 w" "release_loop n p sid b w = (Inr u, w')"
  shows "slot_given_back p leases reach sid w0 w'"
  using assms(2-4)
proof (induction n arbitrary: w)
  case 0
  then show ?case by (simp add: throw_def)
next
  case (Suc n)
  obtain ls w1 where l: "pool_leases p w = (Inr ls, w1)"
    using Suc.prems(3) by (auto simp: run_simps split: prod.splits sum.splits)
  have w1: "seen p leases reach ok ls w0 w1" "ok w1" "reach w0 w1"
    using seen_leases [OF assms(1) Suc.prems(2) l] by blast+
  show ?case
  proof (cases "heldSlot ls sid")
    case None
    with Suc.prems(3) l have "w' = w1" by (simp add: run_simps)
    with None l Suc.prems(2) le.reach_refl [OF w1(2)] show ?thesis
      unfolding slot_given_back_def by blast
  next
    case (Some k)
    then obtain x where x: "map_of ls k = Some x" "leaseHolder x = sid" using heldSlot_Some by blast
    obtain wl where wl: "reach w0 wl" "reach wl w1" "ok wl" "leases wl (slot_name p k) = Some x"
      using w1(1) x(1) unfolding seen_def by blast
    obtain t w2 where t: "ap_Now p w1 = (t, w2)" by force
    have w2: "reach w1 w2" "ok w2" using pool_clock [OF w1(2) t] w1(2) le.reach_ok by blast+
    obtain r w3 where r: "le_Update (ap_api p) (released x t b) w2 = (r, w3)" by force
    show ?thesis
    proof (cases r)
      case (Inr y)
      with Suc.prems(3) l Some x t r have "w' = w3" by (simp add: run_simps pool_now_def)
      moreover obtain wc c where "reach wl wc" "reach wc w3" "leases wc (slot_name p k) = Some x"
        "le_erase c = le_erase (released x t b)" "leases w3 = (leases wc)(slot_name p k \<mapsto> c)"
        using le.seen_modify_write [OF wl(3,4) le.reach_trans [OF wl(2) w2(1)] r [unfolded Inr]]
        by (auto simp: released_frame)
      moreover from this(4) have "leaseHolder c = ''''"
        using le_erase_eq [of c "released x t b"] by (simp add: leaseHolder_def released_frame)
      ultimately show ?thesis
        unfolding slot_given_back_def using x(2) wl(1) le.reach_trans by blast
    next
      case (Inl e)
      with Suc.prems(3) l Some x t r have "release_loop n p sid b w3 = (Inr u, w')"
        by (simp add: run_simps pool_now_def split: if_splits)
      moreover have "ok w3" "reach w0 w3"
        using le.update_reach [OF w2(2) r] w2 w1(3) le.reach_ok le.reach_trans by blast+
      ultimately show ?thesis using Suc.IH by blast
    qed
  qed
qed

lemma release_effect:
  "ok w \<Longrightarrow> pool_Release p sid b w = (Inr u, w') \<Longrightarrow> slot_given_back p leases reach sid w w'"
  unfolding pool_Release_def using release_loop_effect [of w w] le.reach_refl by blast

end

section \<open>The pool on the in-memory server\<close>

definition mem_pool :: "mem LeaseAuthPool" where
  "mem_pool =
     \<lparr>ap_api = mem_api, ap_namespace = ''ns'', ap_Pool = ''codex-task'', ap_Slots = 2,
      ap_StorageClass = '''', ap_storageSize = ''16Mi'',
      ap_ReclaimGrace = DefaultAuthPoolReclaimGrace, ap_Now = (\<lambda>w. (m_clock w, w))\<rparr>"

lemma mem_pvc_reach: "mem_pvc_Get n w = (r, w') \<Longrightarrow> mem_reach w w'"
  "mem_pvc_Create c w = (u, w') \<Longrightarrow> mem_reach w w'"
  by (auto simp: mem_pvc_Get_def mem_pvc_Create_def mem_reach_def mem_ok_def split: option.splits)

lemma mem_listed:
  assumes "mem_ok w" "mem_le_List k v w = (Inr ls, w')" "l \<in> set ls"
  shows "mem_leases w' (le_Name l) = Some l"
proof -
  have ls: "ls = filter (\<lambda>l. le_Labels l k = Some v) (map snd (m_leases w))" and w': "w' = w"
    using assms(2) unfolding mem_le_List_def by blast+
  obtain n where n: "(n, l) \<in> set (m_leases w)"
    using assms(3) unfolding ls by auto
  then have "mem_leases w n = Some l"
    using assms(1) by (simp add: mem_ok_def)
  moreover from this have "le_Name l = n" using assms(1) unfolding mem_ok_def by blast
  ultimately show ?thesis unfolding w' by simp
qed

interpretation mem_lp: lease_pool mem_pool mem_leases mem_reach mem_ok
proof (intro lease_pool.intro lease_pool_axioms.intro)
  show "versioned_api (le_Get (ap_api mem_pool)) (le_Create (ap_api mem_pool))
      (le_Update (ap_api mem_pool)) (le_Delete (ap_api mem_pool)) mem_leases le_Name
      le_ResourceVersion le_erase mem_reach mem_ok"
    by (simp add: mem_pool_def mem_le.versioned_api_axioms)
  show "mem_ok w \<Longrightarrow> le_List (ap_api mem_pool) k v w = (Inr ls, w') \<Longrightarrow> l \<in> set ls \<Longrightarrow>
      mem_leases w' (le_Name l) = Some l" for w k v ls w' l
    using mem_listed by (simp add: mem_pool_def mem_api_def)
qed (auto simp: mem_pool_def mem_api_def mem_le_List_def dest: mem_pvc_reach)

text \<open>C6: a login slot is leased exclusively: when \<open>Acquire\<close> succeeds, there was an instant at
  which the slot's lease did not exist, had no holder, was the session's own, or was held by
  a session that the clock put past the reclaim grace and that was then judged stale, and the
  write took effect at that instant: the leases right after it are those of that instant with the session entered as the slot's
  holder and nothing else changed.\<close>

theorem acquire_exclusive:
  assumes "lease_pool p leases reach ok" "keeps_callback ok reach stale" "ok w"
    and "pool_Acquire p sid stale w = (Inr k, w')"
  shows "slot_won p leases reach stale sid k w w'"
  using lease_pool.acquire_effect [OF assms] .

definition pool_server :: mem where
  "pool_server = \<lparr>m_cms = [], m_leases = [], m_pvcs = [], m_next = 0, m_clock = 1000\<rparr>"

lemma pool_server_ok: "mem_ok pool_server"
  by (simp add: pool_server_def mem_ok_def)

lemma acquire_runs: "fst (pool_Acquire mem_pool ''s1'' None pool_server) = Inr 0"
  by code_simp

theorem acquire_exclusive_witness:
  "\<exists>w'. pool_Acquire mem_pool ''s1'' None pool_server = (Inr 0, w') \<and>
     slot_won mem_pool mem_leases mem_reach None ''s1'' 0 pool_server w'"
proof -
  obtain w' where "pool_Acquire mem_pool ''s1'' None pool_server = (Inr 0, w')"
    using acquire_runs by (cases "pool_Acquire mem_pool ''s1'' None pool_server") auto
  with acquire_exclusive [OF mem_lp.lease_pool_axioms _ pool_server_ok this] show ?thesis
    by (auto simp: keeps_callback_def)
qed

text \<open>\<open>Release\<close> gives back only the session's own slot: when it succeeds, either a listing
  inside the call showed that the session holds none, or one lease whose holder was that
  session was freed at one instant and no other lease changed with it.\<close>

theorem release_own_slot_only:
  assumes "lease_pool p leases reach ok" "ok w" "pool_Release p sid b w = (Inr (), w')"
  shows "slot_given_back p leases reach sid w w'"
  using lease_pool.release_effect [OF assms] .

definition held_server :: mem where
  "held_server = snd (pool_Acquire mem_pool ''s1'' None pool_server)"

lemma release_runs: "fst (pool_Release mem_pool ''s1'' (Some True) held_server) = Inr ()"
  by code_simp

lemma held_server_ok: "mem_ok held_server"
proof -
  have judge: "keeps mem_ok mem_reach (judge_loop mem_pool None ls ks sk cs)" for ls ks sk cs
    by (induction ks arbitrary: sk cs)
      (auto intro!: keeps_intros mem_lp.keeps_free simp: keeps_callback_def split: option.splits)
  have claim: "keeps mem_ok mem_reach (claim_candidates mem_pool ''s1'' sk cs)" for sk cs
    by (induction cs arbitrary: sk) (auto intro!: keeps_intros)
  have held: "keeps mem_ok mem_reach (held_loop n mem_pool ''s1'' ls)" for n ls
    by (induction n arbitrary: ls) (auto intro!: keeps_intros split: option.splits)
  have "keeps mem_ok mem_reach (pool_Acquire mem_pool ''s1'' None)"
    unfolding pool_Acquire_def
    by (auto intro!: keeps_intros judge claim held split: prod.splits)
  then show ?thesis
    using pool_server_ok unfolding held_server_def keeps_def by blast
qed

theorem release_own_slot_only_witness:
  "\<exists>w'. pool_Release mem_pool ''s1'' (Some True) held_server = (Inr (), w') \<and>
     slot_given_back mem_pool mem_leases mem_reach ''s1'' held_server w'"
proof -
  obtain w' where "pool_Release mem_pool ''s1'' (Some True) held_server = (Inr (), w')"
    using release_runs by (cases "pool_Release mem_pool ''s1'' (Some True) held_server") auto
  with release_own_slot_only [OF mem_lp.lease_pool_axioms held_server_ok this] show ?thesis by blast
qed

section \<open>Slot names\<close>

lemma trailing_digits: "takeWhile (\<lambda>c. digit_val c \<noteq> None) (rev (xs @ ''-auth-'' @ Itoa k)) = rev (Itoa k)"
proof -
  have "\<forall>c \<in> set (rev (Itoa k)). digit_val c \<noteq> None" using Itoa_digits [of k] by (auto simp: list_all_iff)
  then show ?thesis unfolding rev_append append_assoc by (subst takeWhile_append2) (auto simp: dash_no_digit)
qed

lemma numbered_inj: "xs @ ''-auth-'' @ Itoa k = ys @ ''-auth-'' @ Itoa k' \<Longrightarrow> xs = ys \<and> k = k'"
  using trailing_digits [of xs k] trailing_digits [of ys k'] by auto

text \<open>The volume claim of a slot is its own: for the two pools the platform has, two slots share
  a claim name only if namespace, pool and number are all the same, so a preview namespace
  never mounts, or deletes with its teardown, the login of another.\<close>

theorem claim_names_injective:
  assumes "AuthPoolFor workload mode = Some pool" "AuthPoolFor workload' mode' = Some pool'"
    and "AuthSlotClaimName ns pool k = AuthSlotClaimName ns' pool' k'"
  shows "ns = ns' \<and> pool = pool' \<and> k = k'"
proof -
  have eq: "(ns @ ''-'' @ pool) @ ''-auth-'' @ Itoa k = (ns' @ ''-'' @ pool') @ ''-auth-'' @ Itoa k'"
    using assms(3) by (simp add: AuthSlotClaimName_def AuthSlotLeaseName_def)
  from numbered_inj [OF eq] have n: "ns @ ''-'' @ pool = ns' @ ''-'' @ pool'" and "k = k'" by blast+
  have "pool = ''codex-task'' \<or> pool = ''claude-code''" "pool' = ''codex-task'' \<or> pool' = ''claude-code''"
    using assms(1,2) by (auto simp: AuthPoolFor_def split: if_splits)
  moreover have "rev (ns @ ''-'' @ pool) = rev (ns' @ ''-'' @ pool')" using n by simp
  ultimately show ?thesis using \<open>k = k'\<close> by auto
qed

theorem claim_names_injective_witness:
  "AuthPoolFor WorkloadTypeCodexTask ClaudeCodeAuthGateway = Some ''codex-task'' \<and>
   (AuthSlotClaimName ''a'' ''codex-task'' 1 = AuthSlotClaimName ''b'' ''codex-task'' 1) = False"
  using claim_names_injective [of WorkloadTypeCodexTask ClaudeCodeAuthGateway "''codex-task''"
      WorkloadTypeCodexTask ClaudeCodeAuthGateway "''codex-task''" "''a''" 1 "''b''" 1]
  by (auto simp: AuthPoolFor_def)

end
