(* ===== verification/Auth_Pool_Memory.thy ===== *)
theory Auth_Pool_Memory
  imports Auth_Pool
begin

text \<open>
  \<open>control-plane/internal/adapter/k8s/auth_pool_memory.go\<close>: the in-memory pool. Its methods
  hold one mutex throughout, so each is one step on the pool; the stale-holder callback runs
  inside the step against the rest of the world.
\<close>

record MemoryAuthPool =
  mp_holders :: "string list"
  mp_states :: "bool option list"

definition NewMemoryAuthPool :: "nat \<Rightarrow> MemoryAuthPool" where
  "NewMemoryAuthPool slots = \<lparr>mp_holders = replicate slots '''', mp_states = replicate slots None\<rparr>"

fun slot_of :: "string list \<Rightarrow> nat \<Rightarrow> string \<Rightarrow> nat option" where
  "slot_of [] i sid = None"
| "slot_of (h # hs) i sid = (if h = sid then Some i else slot_of hs (Suc i) sid)"

definition HeldBy :: "MemoryAuthPool \<Rightarrow> string \<Rightarrow> nat option" where
  "HeldBy p sid = slot_of (mp_holders p) 0 sid"

definition slot_rank :: "MemoryAuthPool \<Rightarrow> nat \<Rightarrow> nat" where
  "slot_rank p k = (case mp_states p ! k of Some True \<Rightarrow> 0 | Some False \<Rightarrow> 2 | None \<Rightarrow> 1)"

text \<open>The scan for the best slot; \<open>best\<close> is \<open>None\<close> for the initial \<open>-1\<close>.\<close>

fun scan_slots ::
  "MemoryAuthPool \<Rightarrow> (string \<Rightarrow> ('w, bool) act) option \<Rightarrow> nat list \<Rightarrow> nat option \<Rightarrow> ('w, nat option) act" where
  "scan_slots p stale [] best = ret best"
| "scan_slots p stale (k # ks) best =
     (let holder = mp_holders p ! k;
          better = (case best of None \<Rightarrow> Some k
                    | Some b \<Rightarrow> if slot_rank p k < slot_rank p b then Some k else best) in
      if holder = '''' then scan_slots p stale ks better
      else case stale of
             None \<Rightarrow> scan_slots p stale ks best
           | Some ask \<Rightarrow>
               bindE (ask holder) (\<lambda>gone.
               if gone then scan_slots p stale ks better else scan_slots p stale ks best))"

definition memory_Acquire ::
  "string \<Rightarrow> (string \<Rightarrow> ('w, bool) act) option \<Rightarrow> ('w \<times> MemoryAuthPool, nat) act" where
  "memory_Acquire sid stale wst =
     (case wst of (w, p) \<Rightarrow>
        (case HeldBy p sid of
           Some k \<Rightarrow> (Inr k, (w, p))
         | None \<Rightarrow>
             (case scan_slots p stale [0..<length (mp_holders p)] None w of
                (Inl e, w') \<Rightarrow> (Inl e, (w', p))
              | (Inr None, w') \<Rightarrow>
                  (Inl (Errorf ''all slots are held'' [Sentinel ErrAuthPoolExhausted]), (w', p))
              | (Inr (Some k), w') \<Rightarrow>
                  (Inr k, (w', p\<lparr>mp_holders := (mp_holders p)[k := sid]\<rparr>)))))"

fun release_slots ::
  "string \<Rightarrow> bool option \<Rightarrow> string list \<Rightarrow> bool option list \<Rightarrow> string list \<times> bool option list" where
  "release_slots sid signedIn (h # hs) (s # ss) =
     (let (hs', ss') = release_slots sid signedIn hs ss in
      if h = sid then ('''' # hs', (if signedIn = None then s else signedIn) # ss')
      else (h # hs', s # ss'))"
| "release_slots sid signedIn hs ss = (hs, ss)"

definition memory_Release :: "string \<Rightarrow> bool option \<Rightarrow> ('w \<times> MemoryAuthPool, unit) act" where
  "memory_Release sid signedIn wst =
     (case wst of (w, p) \<Rightarrow>
        (case release_slots sid signedIn (mp_holders p) (mp_states p) of
           (hs, ss) \<Rightarrow> (Inr (), (w, \<lparr>mp_holders = hs, mp_states = ss\<rparr>))))"

section \<open>Exclusivity\<close>

definition exclusive :: "MemoryAuthPool \<Rightarrow> bool" where
  "exclusive p = (length (mp_states p) = length (mp_holders p) \<and>
     distinct (filter (\<lambda>h. h \<noteq> '''') (mp_holders p)))"

lemma slot_of_Some: "slot_of hs i sid = Some k \<Longrightarrow> i \<le> k \<and> k < i + length hs \<and> hs ! (k - i) = sid"
  by (induction hs arbitrary: i) (fastforce split: if_splits simp: nth_Cons')+

lemma slot_of_None: "slot_of hs i sid = None \<longleftrightarrow> sid \<notin> set hs"
  by (induction hs arbitrary: i) auto

lemma distinct_nonempty_update:
  "distinct (filter P hs) \<Longrightarrow> x \<notin> set hs \<Longrightarrow> distinct (filter P (hs[k := x]))"
proof (induction hs arbitrary: k)
  case (Cons h hs)
  then show ?case
    by (cases k) (auto split: if_splits dest: set_update_subset_insert [THEN subsetD])
qed simp

lemma release_slots_spec:
  assumes "length ss = length hs"
  shows "fst (release_slots sid b hs ss) = map (\<lambda>h. if h = sid then '''' else h) hs \<and>
    length (snd (release_slots sid b hs ss)) = length hs"
  using assms
  by (induction hs ss rule: list_induct2') (auto split: prod.splits)

lemma distinct_blanked:
  "distinct (filter (\<lambda>h. h \<noteq> '''') hs) \<Longrightarrow>
   distinct (filter (\<lambda>h. h \<noteq> '''') (map (\<lambda>h. if h = sid then '''' else h) hs))"
  by (induction hs) (auto split: if_splits)

text \<open>Every pool the program can reach, in any surrounding world.\<close>

inductive pool_reachable :: "'w \<times> MemoryAuthPool \<Rightarrow> bool" where
  pool_new: "pool_reachable (w, NewMemoryAuthPool n)"
| pool_world: "pool_reachable (w, p) \<Longrightarrow> pool_reachable (w', p)"
| pool_acquire: "pool_reachable (w, p) \<Longrightarrow> pool_reachable (snd (memory_Acquire sid stale (w, p)))"
| pool_release: "pool_reachable (w, p) \<Longrightarrow> pool_reachable (snd (memory_Release sid b (w, p)))"

lemma exclusive_new: "exclusive (NewMemoryAuthPool n)"
  by (simp add: exclusive_def NewMemoryAuthPool_def)

lemma exclusive_acquire:
  assumes "exclusive p"
  shows "exclusive (snd (snd (memory_Acquire sid stale (w, p))))"
proof (cases "HeldBy p sid")
  case None
  then have "sid \<notin> set (mp_holders p)" by (simp add: HeldBy_def slot_of_None)
  with assms None show ?thesis
    by (auto simp: memory_Acquire_def exclusive_def distinct_nonempty_update
        split: prod.splits sum.splits option.splits)
next
  case (Some k)
  with assms show ?thesis by (simp add: memory_Acquire_def)
qed

lemma exclusive_release:
  assumes "exclusive p"
  shows "exclusive (snd (snd (memory_Release sid b (w, p))))"
  using assms release_slots_spec [of "mp_states p" "mp_holders p" sid b]
  by (auto simp: memory_Release_def exclusive_def distinct_blanked split: prod.splits)

text \<open>In every pool reachable by acquires and releases, with any stale-holder answers and
  anything happening around it, no session holds two slots.\<close>

theorem memory_pool_exclusive:
  assumes "pool_reachable wp0"
  shows "exclusive (snd wp0)"
  using assms
  by (induction rule: pool_reachable.induct)
    (simp_all add: exclusive_new exclusive_acquire exclusive_release)

theorem memory_pool_exclusive_witness:
  "exclusive (snd (snd (memory_Acquire ''s2'' None (snd (memory_Acquire ''s1'' None
     ((), NewMemoryAuthPool 2)))))) \<and>
   mp_holders (snd (snd (memory_Acquire ''s2'' None (snd (memory_Acquire ''s1'' None
     ((), NewMemoryAuthPool 2)))))) = [''s1'', ''s2'']"
proof
  have one: "snd (memory_Acquire ''s1'' None ((), NewMemoryAuthPool 2)) =
      ((), \<lparr>mp_holders = [''s1'', ''''], mp_states = [None, None]\<rparr>)"
    by code_simp
  have "pool_reachable ((), NewMemoryAuthPool 2)" by (rule pool_new)
  then have "pool_reachable (snd (memory_Acquire ''s1'' None ((), NewMemoryAuthPool 2)))"
    by (rule pool_acquire)
  then have "pool_reachable (snd (memory_Acquire ''s2'' None (snd (memory_Acquire ''s1'' None
      ((), NewMemoryAuthPool 2)))))"
    unfolding one by (rule pool_acquire)
  then show "exclusive (snd (snd (memory_Acquire ''s2'' None (snd (memory_Acquire ''s1'' None
      ((), NewMemoryAuthPool 2))))))"
    by (rule memory_pool_exclusive)
  show "mp_holders (snd (snd (memory_Acquire ''s2'' None (snd (memory_Acquire ''s1'' None
     ((), NewMemoryAuthPool 2)))))) = [''s1'', ''s2'']"
    by code_simp
qed

section \<open>Which slot is chosen\<close>

definition free_slots :: "MemoryAuthPool \<Rightarrow> nat list" where
  "free_slots p = filter (\<lambda>k. mp_holders p ! k = '''') [0..<length (mp_holders p)]"

text \<open>The least slot of least rank among a list of slots in ascending order.\<close>

definition best_of :: "MemoryAuthPool \<Rightarrow> nat list \<Rightarrow> nat option" where
  "best_of p ks = (if ks = [] then None else Some (snd (Min ((\<lambda>k. (slot_rank p k, k)) ` set ks))))"

lemma best_of_two:
  assumes "a < b"
  shows "best_of p (a # b # ks) =
    best_of p ((if slot_rank p b < slot_rank p a then b else a) # ks)"
proof -
  let ?f = "\<lambda>k. (slot_rank p k, k)"
  have "Min (insert (?f a) (insert (?f b) (?f ` set ks))) =
      Min (insert (min (?f a) (?f b)) (?f ` set ks))"
    by (cases "ks = []") (simp_all add: min.assoc [symmetric])
  moreover have "min (?f a) (?f b) = ?f (if slot_rank p b < slot_rank p a then b else a)"
    using assms by (auto simp: min_def)
  ultimately show ?thesis by (simp add: best_of_def)
qed

lemma scan_slots_best:
  assumes "sorted_wrt (<) (case best of None \<Rightarrow> ks | Some b \<Rightarrow> b # ks)"
  shows "scan_slots p None ks best w =
    (Inr (best_of p ((case best of None \<Rightarrow> [] | Some b \<Rightarrow> [b]) @
       filter (\<lambda>k. mp_holders p ! k = '''') ks)), w)"
  using assms
proof (induction ks arbitrary: best)
  case Nil
  then show ?case by (auto simp: ret_def best_of_def split: option.splits)
next
  case (Cons k ks)
  show ?case
  proof (cases best)
    case None
    with Cons.prems Cons.IH [of None] Cons.IH [of "Some k"] show ?thesis by simp
  next
    case (Some b)
    with Cons.prems Cons.IH [of "Some b"] Cons.IH [of "Some k"] best_of_two [of b k p] show ?thesis
      by (auto simp: Let_def)
  qed
qed

text \<open>Without reclaiming, the pool hands a session the slot it already holds, else the free
  slot whose last login state ranks best (signed in, unknown, signed out), the lowest number
  among equals, and reports exhaustion exactly when no slot is free.\<close>

theorem memory_acquire_best:
  "fst (memory_Acquire sid None (w, p)) =
     (case HeldBy p sid of
        Some k \<Rightarrow> Inr k
      | None \<Rightarrow>
          (case best_of p (free_slots p) of
             None \<Rightarrow> Inl (Errorf ''all slots are held'' [Sentinel ErrAuthPoolExhausted])
           | Some k \<Rightarrow> Inr k))"
proof -
  have "scan_slots p None [0..<length (mp_holders p)] None w = (Inr (best_of p (free_slots p)), w)"
    using scan_slots_best [where best = None and ks = "[0..<length (mp_holders p)]"] by (simp add: free_slots_def)
  then show ?thesis
    by (simp add: memory_Acquire_def split: option.splits)
qed

end
