(* ===== verification/Rfc3339.thy ===== *)
theory Rfc3339
  imports Session_Codec Strconv
begin

text \<open>
  \<open>Time.Format(time.RFC3339Nano)\<close> of a UTC time and \<open>time.Parse\<close> of the texts it writes, for
  the years 0 to 9999. A time is a number of nanoseconds since 1970. The calendar follows the
  400, 100, 4 and 1 year cycles of Go's package \<open>time\<close>; \<open>Parse\<close> is modelled on the form with
  the zone \<open>Z\<close>, the only one the platform writes, and refuses every other text.
\<close>

section \<open>The calendar\<close>

text \<open>Days from the first day of year 0 to the first day of year \<open>y\<close>.\<close>

definition leap :: "nat \<Rightarrow> bool" where
  "leap y = (y mod 4 = 0 \<and> (y mod 100 \<noteq> 0 \<or> y mod 400 = 0))"

definition days_before_year :: "nat \<Rightarrow> nat" where
  "days_before_year y = 365 * y + (y + 3) div 4 - (y + 99) div 100 + (y + 399) div 400"

definition month_days :: "nat \<Rightarrow> nat list" where
  "month_days y = [31, if leap y then 29 else 28, 31, 30, 31, 30, 31, 31, 30, 31, 30, 31]"

fun split_month :: "nat \<Rightarrow> nat \<Rightarrow> nat list \<Rightarrow> nat \<times> nat" where
  "split_month k d (n # ns) = (if d < n \<or> ns = [] then (k, d) else split_month (Suc k) (d - n) ns)"
| "split_month k d [] = (k, d)"

text \<open>The cycles start at a year \<open>1 mod 400\<close>; day 0 here is the first day of such a year.\<close>

definition split_cycles :: "nat \<Rightarrow> nat \<times> nat" where
  "split_cycles d =
     (let n400 = d div 146097; d1 = d mod 146097;
          n100 = min 3 (d1 div 36524); d2 = d1 - 36524 * n100;
          n4 = d2 div 1461; d3 = d2 mod 1461;
          n1 = min 3 (d3 div 365)
      in (400 * n400 + 100 * n100 + 4 * n4 + n1, d3 - 365 * n1))"

text \<open>Year and day of the year of a day counted from the first day of year 0, a leap year.\<close>

definition split_year :: "nat \<Rightarrow> nat \<times> nat" where
  "split_year d =
     (if d < 366 then (0, d) else case split_cycles (d - 366) of (y, yd) \<Rightarrow> (Suc y, yd))"

definition date_of_days :: "nat \<Rightarrow> nat \<times> nat \<times> nat" where
  "date_of_days d =
     (case split_year d of (y, yd) \<Rightarrow>
      case split_month 1 yd (month_days y) of (mo, md) \<Rightarrow> (y, mo, Suc md))"

definition days_of_date :: "nat \<Rightarrow> nat \<Rightarrow> nat \<Rightarrow> nat" where
  "days_of_date y mo da =
     days_before_year y + sum_list (take (mo - 1) (month_days y)) + (da - 1)"

section \<open>Format\<close>

definition pad2 :: "nat \<Rightarrow> string" where
  "pad2 n = [digit (n div 10), digit (n mod 10)]"

definition pad4 :: "nat \<Rightarrow> string" where
  "pad4 n = pad2 (n div 100) @ pad2 (n mod 100)"

fun pad_digits :: "nat \<Rightarrow> nat \<Rightarrow> string" where
  "pad_digits 0 n = []"
| "pad_digits (Suc k) n = pad_digits k (n div 10) @ [digit (n mod 10)]"

definition frac :: "nat \<Rightarrow> string" where
  "frac ns = (if ns = 0 then [] else
     CHR ''.'' # rev (dropWhile (\<lambda>c. c = CHR ''0'') (rev (pad_digits 9 ns))))"

definition Format_RFC3339Nano :: "time \<Rightarrow> string" where
  "Format_RFC3339Nano t =
     (let n = nat (t - year0); secs = n div 1000000000; days = secs div 86400; s = secs mod 86400 in
      case date_of_days days of (y, mo, da) \<Rightarrow>
        pad4 y @ ''-'' @ pad2 mo @ ''-'' @ pad2 da @ ''T'' @
        pad2 (s div 3600) @ '':'' @ pad2 (s mod 3600 div 60) @ '':'' @ pad2 (s mod 60) @
        frac (n mod 1000000000) @ ''Z'')"

section \<open>Parse\<close>

definition val2 :: "char \<Rightarrow> char \<Rightarrow> nat option" where
  "val2 a b = (case digit_val a of None \<Rightarrow> None | Some x \<Rightarrow>
     (case digit_val b of None \<Rightarrow> None | Some y \<Rightarrow> Some (10 * x + y)))"

text \<open>The fraction: digits after the point, read to nine places, then the zone.\<close>

definition parse_frac :: "string \<Rightarrow> nat option" where
  "parse_frac s =
     (case s of
        [] \<Rightarrow> None
      | c # cs \<Rightarrow>
          if s = ''Z'' then Some 0
          else if c = CHR ''.'' \<and> cs \<noteq> [] \<and> cs \<noteq> ''Z'' \<and> last cs = CHR ''Z'' then
            (case digits_val 0 (butlast cs) of None \<Rightarrow> None
             | Some _ \<Rightarrow> digits_val 0 (take 9 (butlast cs @ replicate 9 CHR ''0'')))
          else None)"

definition Parse_RFC3339Nano :: "string \<Rightarrow> time option" where
  "Parse_RFC3339Nano s =
     (case s of
        y1 # y2 # y3 # y4 # s1 # m1 # m2 # s2 # d1 # d2 # s3 # h1 # h2 # s4 # i1 # i2 # s5 # c1 # c2 # rest \<Rightarrow>
          (if [s1, s2, s3, s4, s5] \<noteq> ''--T::'' then None else
           case (val2 y1 y2, val2 y3 y4, val2 m1 m2, val2 d1 d2) of
             (Some ya, Some yb, Some mo, Some da) \<Rightarrow>
               (case (val2 h1 h2, val2 i1 i2, val2 c1 c2, parse_frac rest) of
                  (Some h, Some i, Some c, Some ns) \<Rightarrow>
                    let y = 100 * ya + yb in
                    if 1 \<le> mo \<and> mo \<le> 12 \<and> 1 \<le> da \<and> da \<le> month_days y ! (mo - 1) \<and>
                      h < 24 \<and> i < 60 \<and> c < 60
                    then Some (year0 + int (((days_of_date y mo da * 86400 + h * 3600 + i * 60 + c)
                      * 1000000000) + ns))
                    else None
                | _ \<Rightarrow> None)
           | _ \<Rightarrow> None)
      | _ \<Rightarrow> None)"

section \<open>Format and Parse are inverse\<close>

lemma cycle_year:
  fixes a b c e :: nat
  assumes "b \<le> 3" "c \<le> 24" "e \<le> 3"
  shows "(400 * a + 100 * b + 4 * c + e) div 4 = 100 * a + 25 * b + c"
    "(400 * a + 100 * b + 4 * c + e) div 100 = 4 * a + b"
    "(400 * a + 100 * b + 4 * c + e) div 400 = a"
  using assms by (intro div_nat_eqI; simp)+

lemma split_cycles_days:
  assumes "split_cycles d = (y, yd)"
  shows "366 + d = days_before_year (Suc y) + yd" and "yd < (if leap (Suc y) then 366 else 365)"
    and "y < 400 * Suc (d div 146097)"
proof -
  define a d1 where "a = d div 146097" and "d1 = d mod 146097"
  define b where "b = min 3 (d1 div 36524)"
  define d2 where "d2 = d1 - 36524 * b"
  define c d3 where "c = d2 div 1461" and "d3 = d2 mod 1461"
  define e where "e = min 3 (d3 div 365)"
  have y: "y = 400 * a + 100 * b + 4 * c + e" "yd = d3 - 365 * e"
    using assms unfolding split_cycles_def Let_def prod.inject a_def [symmetric] d1_def [symmetric]
      b_def [symmetric] d2_def [symmetric] c_def [symmetric] d3_def [symmetric] e_def [symmetric]
    by blast+
  have d1: "d = 146097 * a + d1" "d1 < 146097" by (simp_all add: a_def d1_def)
  have b: "b \<le> 3" "36524 * b \<le> d1" "d1 < 36524 * b + 36524 \<or> b = 3"
    unfolding b_def by (auto simp: min_def)
  then have d2: "d1 = 36524 * b + d2" "d2 \<le> 36524" "d2 = 36524 \<longrightarrow> b = 3"
    using d1(2) unfolding d2_def by auto
  have c: "d2 = 1461 * c + d3" "d3 < 1461" by (simp_all add: c_def d3_def)
  then have c24: "c \<le> 24" using d2(2) by linarith
  have e: "e \<le> 3" "365 * e \<le> d3" "d3 < 365 * e + 365 \<or> e = 3"
    unfolding e_def by (auto simp: min_def)
  have yd: "d3 = 365 * e + yd" using e(2) y(2) by simp
  note cy = cycle_year [OF b(1) c24 e(1), of a, folded y(1)]
  show "y < 400 * Suc (d div 146097)"
    unfolding y(1) using b(1) c24 e(1) by (simp add: a_def [symmetric])
  have le: "y div 100 \<le> y div 4" by (simp add: div_le_mono2)
  have "(Suc y + 3) div 4 = Suc (y div 4)" "(Suc y + 99) div 100 = Suc (y div 100)"
    "(Suc y + 399) div 400 = Suc (y div 400)"
    using div_add_self2 [of 4 y] div_add_self2 [of 100 y] div_add_self2 [of 400 y]
    by (simp_all add: add.commute [of _ y])
  moreover have "365 * Suc y + Suc p - Suc q + Suc r = 366 + 365 * y + p - q + r"
    if "q \<le> p" for p q r :: nat
    using that by simp
  ultimately have "days_before_year (Suc y) = 366 + 365 * y + y div 4 - y div 100 + y div 400"
    using le by (simp only: days_before_year_def)
  then show "366 + d = days_before_year (Suc y) + yd"
    using le d1(1) d2(1) c(1) yd cy y(1) by simp
  show "yd < (if leap (Suc y) then 366 else 365)"
  proof (cases "yd < 365")
    case False
    with yd c(2) e have e3: "e = 3" "yd = 365" by auto
    have l4: "Suc y mod 4 = 0" using y(1) e3(1) by presburger
    have "Suc y mod 100 \<noteq> 0 \<or> Suc y mod 400 = 0"
    proof (cases "c = 24")
      case True
      with c(1) yd e3 d2 have "b = 3" by auto
      with True e3 y(1) have "Suc y = 400 * Suc a" by simp
      then show ?thesis by simp
    next
      case False
      with c24 have "4 * c + 4 < 100" by simp
      moreover have "Suc y = (4 * c + 4) + 100 * (4 * a + b)" using e3 y(1) by simp
      ultimately have "Suc y mod 100 = 4 * c + 4" by (metis mod_less mod_mult_self2)
      then show ?thesis by simp
    qed
    with l4 e3 show ?thesis by (simp add: leap_def)
  qed auto
qed

lemma split_year_days:
  assumes "split_year d = (y, yd)"
  shows "d = days_before_year y + yd" and "yd < sum_list (month_days y)"
proof -
  have "d = days_before_year y + yd \<and> yd < (if leap y then 366 else 365)"
  proof (cases "d < 366")
    case True
    with assms have "y = 0" "yd = d" by (auto simp: split_year_def)
    moreover have "days_before_year 0 = 0" by (simp add: days_before_year_def)
    ultimately show ?thesis using True by (simp add: leap_def)
  next
    case False
    obtain z e where z: "split_cycles (d - 366) = (z, e)" by fastforce
    with assms False have "y = Suc z" "yd = e" by (auto simp: split_year_def)
    with split_cycles_days(1,2) [OF z] False show ?thesis by simp
  qed
  moreover have "sum_list (month_days y) = (if leap y then 366 else 365)" by (simp add: month_days_def)
  ultimately show "d = days_before_year y + yd" "yd < sum_list (month_days y)" by simp_all
qed

lemma split_year_bound:
  assumes "split_year d = (y, yd)" "d < 3652425"
  shows "y < 10000"
proof (rule ccontr)
  assume n: "\<not> y < 10000"
  then obtain z where z: "split_cycles (d - 366) = (z, yd)" "y = Suc z" "366 \<le> d"
    using assms(1) by (auto simp: split_year_def split: if_splits prod.splits)
  have "(d - 366) div 146097 \<le> 24" using assms(2) by auto
  with split_cycles_days(3) [OF z(1)] have "z < 10000" by simp
  with n z(2) have "y = 10000" by simp
  moreover have "days_before_year 10000 = 3652425" by (simp add: days_before_year_def)
  ultimately show False using split_cycles_days(1) [OF z(1)] z(2,3) assms(2) by simp
qed

lemma split_month_days:
  assumes "split_month j d ns = (k, md)" "d < sum_list ns"
  shows "j \<le> k \<and> k < j + length ns \<and> d = sum_list (take (k - j) ns) + md \<and> md < ns ! (k - j)"
  using assms
proof (induction j d ns rule: split_month.induct)
  case (1 j d n ns)
  show ?case
  proof (cases "d < n")
    case True
    with 1 show ?thesis by auto
  next
    case False
    with "1.prems" have ns: "ns \<noteq> []" by auto
    with 1 False have "Suc j \<le> k \<and> k < Suc j + length ns \<and>
        d - n = sum_list (take (k - Suc j) ns) + md \<and> md < ns ! (k - Suc j)" by auto
    moreover from this obtain i where "k = Suc (j + i)" by (auto dest: le_Suc_ex)
    ultimately show ?thesis using False by auto
  qed
qed simp

lemma date_of_days:
  assumes "date_of_days d = (y, mo, da)"
  shows "days_of_date y mo da = d" "1 \<le> mo" "mo \<le> 12" "1 \<le> da" "da \<le> month_days y ! (mo - 1)"
    and "d < 3652425 \<longrightarrow> y < 10000"
proof -
  obtain yd md where s: "split_year d = (y, yd)" "split_month 1 yd (month_days y) = (mo, md)" "da = Suc md"
    using assms by (auto simp: date_of_days_def split: prod.splits)
  have "length (month_days y) = 12" by (simp add: month_days_def)
  with split_month_days [OF s(2) split_year_days(2) [OF s(1)]] split_year_days(1) [OF s(1)] s(3)
  show "days_of_date y mo da = d" "1 \<le> mo" "mo \<le> 12" "1 \<le> da" "da \<le> month_days y ! (mo - 1)"
    by (auto simp: days_of_date_def)
  show "d < 3652425 \<longrightarrow> y < 10000" using split_year_bound [OF s(1)] by simp
qed

lemma month_days_le: "k < 12 \<Longrightarrow> month_days y ! k \<le> 31"
  by (auto simp: month_days_def nth_Cons split: nat.splits)

lemma val2_pad [simp]: "n < 100 \<Longrightarrow> val2 (digit (n div 10)) (digit (n mod 10)) = Some n"
  by (simp add: val2_def)

lemma digits_val_pad: "digits_val 0 (pad_digits k n) = Some (n mod 10 ^ k)"
proof (induction k arbitrary: n)
  case (Suc k)
  have "10 * (n div 10 mod 10 ^ k) + n mod 10 = n mod 10 ^ Suc k"
    by (simp add: mod_mult2_eq)
  with Suc show ?case by (simp add: digits_val_append)
qed simp

lemma length_pad_digits [simp]: "length (pad_digits k n) = k"
  by (induction k arbitrary: n) auto

lemma strip_trailing:
  "xs = rev (dropWhile (\<lambda>c. c = z) (rev xs)) @ replicate (length (takeWhile (\<lambda>c. c = z) (rev xs))) z"
proof -
  have t: "takeWhile (\<lambda>c. c = z) ys = replicate (length (takeWhile (\<lambda>c. c = z) ys)) z" for ys
    by (induction ys) auto
  have "rev xs = takeWhile (\<lambda>c. c = z) (rev xs) @ dropWhile (\<lambda>c. c = z) (rev xs)" by simp
  then have "xs = rev (dropWhile (\<lambda>c. c = z) (rev xs)) @ rev (takeWhile (\<lambda>c. c = z) (rev xs))"
    by (metis rev_append rev_rev_ident)
  then show ?thesis using t [of "rev xs"] by (metis rev_replicate)
qed

lemma digits_val_zeros: "digits_val 0 (replicate k CHR ''0'') = Some 0"
proof (induction k)
  case (Suc k)
  have "digit_val CHR ''0'' = Some 0" by (simp add: digit_val_def)
  with Suc show ?case by simp
qed simp

lemma parse_frac_frac:
  assumes "ns < 1000000000"
  shows "parse_frac (frac ns @ ''Z'') = Some ns"
proof (cases "ns = 0")
  case True
  then show ?thesis by (simp add: parse_frac_def frac_def)
next
  case False
  define p where "p = pad_digits 9 ns"
  define s where "s = rev (dropWhile (\<lambda>c. c = CHR ''0'') (rev p))"
  define k where "k = length (takeWhile (\<lambda>c. c = CHR ''0'') (rev p))"
  have p: "p = s @ replicate k CHR ''0''" unfolding s_def k_def by (rule strip_trailing)
  have l: "length s + k = 9" using arg_cong [OF p, of length] by (simp add: p_def)
  have v: "digits_val 0 p = Some ns" using assms by (simp add: p_def digits_val_pad del: pad_digits.simps)
  have "take 9 (s @ replicate 9 CHR ''0'') = p"
    using l unfolding p by (simp add: take_replicate min_def)
  moreover have "digits_val 0 s \<noteq> None" using v unfolding p digits_val_append by (auto split: option.splits)
  moreover have "s \<noteq> []"
  proof
    assume "s = []"
    with l p have "p = replicate 9 CHR ''0''" by simp
    with v False digits_val_zeros [of 9] show False by simp
  qed
  ultimately show ?thesis
    using False v by (auto simp: parse_frac_def frac_def p_def [symmetric] s_def [symmetric] split: list.splits)
qed

lemma seconds_split: "s div 3600 * 3600 + s mod 3600 div 60 * 60 + s mod 60 = s" for s :: nat
proof -
  have "s mod 3600 mod 60 = s mod 60" by (rule mod_mod_cancel) simp
  then have "s mod 3600 div 60 * 60 + s mod 60 = s mod 3600"
    using div_mult_mod_eq [of "s mod 3600" 60] by simp
  then show ?thesis using div_mult_mod_eq [of s 3600] by (metis add.assoc)
qed

lemma Parse_Format:
  assumes "time_ok t"
  shows "Parse_RFC3339Nano (Format_RFC3339Nano t) = Some t"
proof -
  define n where "n = nat (t - year0)"
  define secs days s where "secs = n div 1000000000" and "days = secs div 86400" and "s = secs mod 86400"
  obtain y mo da where d: "date_of_days days = (y, mo, da)" by (cases "date_of_days days") auto
  have t: "t = year0 + int n" using assms by (simp add: n_def time_ok_def)
  have "n < 315569520000 * 1000000000"
    using assms by (auto simp: n_def time_ok_def year0_def year10000_def nat_less_iff)
  then have "days < 3652425" unfolding days_def secs_def by simp
  note dd = date_of_days [OF d]
  have y: "y < 10000" using dd(6) \<open>days < 3652425\<close> by simp
  have "mo - 1 < 12" using dd(3) by simp
  then have da: "da < 100" using dd(5) month_days_le [of "mo - 1" y] by linarith
  have s: "s < 86400" by (simp add: s_def)
  have yy: "100 * (y div 100) + y mod 100 = y" by simp
  have h: "s div 3600 < 24" "s mod 3600 div 60 < 60" using s by auto
  have tot: "(days * 86400 + s div 3600 * 3600 + s mod 3600 div 60 * 60 + s mod 60) * 1000000000
      + n mod 1000000000 = n"
    using seconds_split [of s] by (simp add: days_def s_def secs_def add.assoc)
  have v: "val2 (digit (k div 10)) (digit (k mod 10)) = Some k"
    if "k = y div 100 \<or> k = y mod 100 \<or> k = mo \<or> k = da \<or> k = s div 3600 \<or> k = s mod 3600 div 60 \<or> k = s mod 60"
    for k using that y dd(3) da h by (intro val2_pad) auto
  have r: "parse_frac (frac (n mod 1000000000) @ ''Z'') = Some (n mod 1000000000)"
    by (rule parse_frac_frac) simp
  have f: "Format_RFC3339Nano t = pad4 y @ ''-'' @ pad2 mo @ ''-'' @ pad2 da @ ''T'' @
      pad2 (s div 3600) @ '':'' @ pad2 (s mod 3600 div 60) @ '':'' @ pad2 (s mod 60) @
      frac (n mod 1000000000) @ ''Z''"
    unfolding Format_RFC3339Nano_def Let_def n_def [symmetric] secs_def [symmetric]
      days_def [symmetric] s_def [symmetric] d by simp
  have c: "1 \<le> mo \<and> mo \<le> 12 \<and> 1 \<le> da \<and> da \<le> month_days y ! (mo - 1) \<and> s div 3600 < 24 \<and>
      s mod 3600 div 60 < 60 \<and> s mod 60 < 60"
    using dd h by simp
  show ?thesis
    unfolding f Parse_RFC3339Nano_def pad4_def pad2_def append.simps list.case
    by (simp only: v r simp_thms yy tot c dd(1) t Let_def option.case prod.case if_True if_False refl)
qed

end
