(* ===== verification/Repo_Access.thy ===== *)
theory Repo_Access
  imports Rfc3339 "HOL-Library.List_Lexorder"
begin

text \<open>
  \<open>control-plane/internal/repoaccess/store.go\<close>: the allow list of private repositories and the
  pending access requests, two tables of a SQLite file. The SQL statements of the source are
  the datatype \<open>stmt\<close> with their meaning on the tables, \<open>sql_exec\<close> (keys and unique
  constraints included); the engine that runs them, \<open>database/sql\<close> over SQLite, is the
  parameter \<open>DB\<close>. Column \<open>added_by\<close> is always empty and times are kept as the text the code
  writes, so that the text order of \<open>ORDER BY\<close> is the one SQLite uses.
\<close>

section \<open>Repository names\<close>

definition ErrInvalidRepo :: goerr where "ErrInvalidRepo = New ''repo must be owner/repo''"
definition ErrInvalidReason :: goerr where "ErrInvalidReason = New ''reason must be 1 to 500 characters''"
definition ErrRepoNotFound :: goerr where "ErrRepoNotFound = New ''not found''"
definition ErrNoRows :: goerr where "ErrNoRows = New ''sql: no rows in result set''"
definition maxReasonRunes :: nat where "maxReasonRunes = 500"

definition SourceManual :: string where "SourceManual = ''manual''"
definition SourceRequest :: string where "SourceRequest = ''request''"
definition StatusPending :: string where "StatusPending = ''pending''"
definition StatusAllowed :: string where "StatusAllowed = ''allowed''"

definition repo_char :: "char \<Rightarrow> bool" where
  "repo_char c = (alnum c \<or> c \<in> set ''_.-'')"

text \<open>\<open>strings.Cut(s, "/")\<close>: before and after the first slash, and whether there is one.\<close>

definition cut_slash :: "string \<Rightarrow> string \<times> string \<times> bool" where
  "cut_slash s =
     (takeWhile (\<lambda>c. c \<noteq> CHR ''/'') s,
      case dropWhile (\<lambda>c. c \<noteq> CHR ''/'') s of [] \<Rightarrow> ([], False) | _ # rest \<Rightarrow> (rest, True))"

definition repoPattern :: "string \<Rightarrow> bool" where
  "repoPattern s =
     (case cut_slash s of (owner, name, found) \<Rightarrow>
        found \<and> owner \<noteq> [] \<and> name \<noteq> [] \<and> list_all repo_char owner \<and> list_all repo_char name)"

definition TrimSuffix :: "string \<Rightarrow> string \<Rightarrow> string" where
  "TrimSuffix s suf =
     (if is_prefix (rev suf) (rev s) then take (length s - length suf) s else s)"

text \<open>\<open>strings.ToLower\<close>, applied to ASCII only.\<close>

definition lower :: "char \<Rightarrow> char" where
  "lower c = (if CHR ''A'' \<le> c \<and> c \<le> CHR ''Z'' then char_of (of_char c + 32 :: nat) else c)"

definition NormalizeRepo :: "string \<Rightarrow> goerr + string" where
  "NormalizeRepo raw =
     (let repo = TrimSuffix (TrimSpace raw) ''.git'' in
      if \<not> repoPattern repo then Inl ErrInvalidRepo
      else case cut_slash repo of (owner, name, _) \<Rightarrow>
        if owner = ''.'' \<or> owner = ''..'' \<or> name = ''.'' \<or> name = ''..'' then Inl ErrInvalidRepo
        else Inr (map lower repo))"

section \<open>The tables and the statements\<close>

record AllowRow =
  al_repo :: string
  al_source :: string
  al_request_session_id :: string
  al_added_at :: string

record ReqRow =
  rr_id :: string
  rr_repo :: string
  rr_session_id :: string
  rr_reason :: string
  rr_requested_at :: string

record Tables =
  allowlist :: "AllowRow list"
  access_requests :: "ReqRow list"

text \<open>The tables right after the \<open>CREATE TABLE IF NOT EXISTS\<close> of a new file.\<close>

definition migrate :: Tables where
  "migrate = \<lparr>allowlist = [], access_requests = []\<rparr>"

datatype stmt =
    SelectAllowlist
  | SelectAllowed string
  | InsertAllowed AllowRow
  | DeleteAllowed string
  | SelectRequests
  | SelectRequestByID string
  | SelectRequestByKey string string
  | InsertRequest ReqRow
  | DeleteRequestsOfRepo string
  | DeleteRequestByID string

datatype answer =
    AllowRows "AllowRow list"
  | ReqRows "(ReqRow \<times> bool) list"
  | Affected nat

fun insert_by :: "('a \<Rightarrow> 'a \<Rightarrow> bool) \<Rightarrow> 'a \<Rightarrow> 'a list \<Rightarrow> 'a list" where
  "insert_by le x [] = [x]"
| "insert_by le x (y # ys) = (if le x y then x # y # ys else y # insert_by le x ys)"

definition order_by :: "('a \<Rightarrow> 'a \<Rightarrow> bool) \<Rightarrow> 'a list \<Rightarrow> 'a list" where
  "order_by le xs = foldr (insert_by le) xs []"

text \<open>\<open>ORDER BY added_at DESC, repo\<close> and \<open>ORDER BY r.requested_at, r.id\<close>, bytewise.\<close>

definition allow_before :: "AllowRow \<Rightarrow> AllowRow \<Rightarrow> bool" where
  "allow_before a b =
     (al_added_at b < al_added_at a \<or> (al_added_at a = al_added_at b \<and> al_repo a \<le> al_repo b))"

definition request_before :: "ReqRow \<Rightarrow> ReqRow \<Rightarrow> bool" where
  "request_before a b =
     (rr_requested_at a < rr_requested_at b \<or>
      (rr_requested_at a = rr_requested_at b \<and> rr_id a \<le> rr_id b))"

definition on_list :: "Tables \<Rightarrow> string \<Rightarrow> bool" where
  "on_list t repo = list_ex (\<lambda>a. al_repo a = repo) (allowlist t)"

definition pending_key :: "Tables \<Rightarrow> string \<Rightarrow> string \<Rightarrow> ReqRow list" where
  "pending_key t repo sid =
     filter (\<lambda>r. rr_repo r = repo \<and> rr_session_id r = sid) (access_requests t)"

fun sql_exec :: "stmt \<Rightarrow> Tables \<Rightarrow> (goerr + answer) \<times> Tables" where
  "sql_exec SelectAllowlist t = (Inr (AllowRows (order_by allow_before (allowlist t))), t)"
| "sql_exec (SelectAllowed repo) t =
     (Inr (AllowRows (filter (\<lambda>a. al_repo a = repo) (allowlist t))), t)"
| "sql_exec (InsertAllowed a) t =
     (if on_list t (al_repo a) then (Inl (New ''UNIQUE constraint failed: allowlist.repo''), t)
      else (Inr (Affected 1), t\<lparr>allowlist := allowlist t @ [a]\<rparr>))"
| "sql_exec (DeleteAllowed repo) t =
     (Inr (Affected (length (filter (\<lambda>a. al_repo a = repo) (allowlist t)))),
      t\<lparr>allowlist := filter (\<lambda>a. al_repo a \<noteq> repo) (allowlist t)\<rparr>)"
| "sql_exec SelectRequests t =
     (Inr (ReqRows (map (\<lambda>r. (r, on_list t (rr_repo r)))
        (order_by request_before (access_requests t)))), t)"
| "sql_exec (SelectRequestByID i) t =
     (Inr (ReqRows (map (\<lambda>r. (r, False)) (filter (\<lambda>r. rr_id r = i) (access_requests t)))), t)"
| "sql_exec (SelectRequestByKey repo sid) t =
     (Inr (ReqRows (map (\<lambda>r. (r, False)) (pending_key t repo sid))), t)"
| "sql_exec (InsertRequest r) t =
     (if list_ex (\<lambda>q. rr_id q = rr_id r) (access_requests t) \<or>
         pending_key t (rr_repo r) (rr_session_id r) \<noteq> [] then
        (Inl (New ''UNIQUE constraint failed: access_requests''), t)
      else (Inr (Affected 1), t\<lparr>access_requests := access_requests t @ [r]\<rparr>))"
| "sql_exec (DeleteRequestsOfRepo repo) t =
     (Inr (Affected (length (filter (\<lambda>r. rr_repo r = repo) (access_requests t)))),
      t\<lparr>access_requests := filter (\<lambda>r. rr_repo r \<noteq> repo) (access_requests t)\<rparr>)"
| "sql_exec (DeleteRequestByID i) t =
     (Inr (Affected (length (filter (\<lambda>r. rr_id r = i) (access_requests t)))),
      t\<lparr>access_requests := filter (\<lambda>r. rr_id r \<noteq> i) (access_requests t)\<rparr>)"

section \<open>The store\<close>

record 'w DB =
  db_Exec :: "stmt \<Rightarrow> ('w, answer) act"
  db_BeginTx :: "('w, unit) act"
  tx_Exec :: "stmt \<Rightarrow> ('w, answer) act"
  tx_Commit :: "('w, unit) act"
  tx_Rollback :: "'w \<Rightarrow> 'w"

record 'w RepoStore =
  rs_db :: "'w DB"
  rs_now :: "'w \<Rightarrow> time \<times> 'w"
  rs_rand :: "('w, string) act" \<comment> \<open>\<open>rand.Read\<close> of eight bytes\<close>

record Entry =
  en_Repo :: string
  en_Source :: string
  en_RequestSessionID :: string
  en_AddedAt :: time

record Request =
  rq_ID :: string
  rq_Repo :: string
  rq_SessionID :: string
  rq_Reason :: string
  rq_RequestedAt :: time
  rq_AlreadyAllowed :: bool

definition parse_time :: "string \<Rightarrow> goerr + time" where
  "parse_time s = (case Parse_RFC3339Nano s of None \<Rightarrow> Inl (New ''parsing time'') | Some t \<Rightarrow> Inr t)"

definition scan_allow_row :: "AllowRow \<Rightarrow> goerr + Entry" where
  "scan_allow_row a =
     (case parse_time (al_added_at a) of Inl e \<Rightarrow> Inl e
      | Inr t \<Rightarrow> Inr \<lparr>en_Repo = al_repo a, en_Source = al_source a,
                      en_RequestSessionID = al_request_session_id a, en_AddedAt = t\<rparr>)"

text \<open>\<open>scanEntry\<close> of a \<open>QueryRow\<close> result: the first row, or \<open>sql.ErrNoRows\<close>.\<close>

fun scanEntry :: "answer \<Rightarrow> goerr + Entry" where
  "scanEntry (AllowRows []) = Inl ErrNoRows"
| "scanEntry (AllowRows (a # _)) = scan_allow_row a"
| "scanEntry _ = Inl (New ''scan'')"

definition scan_request_row :: "ReqRow \<Rightarrow> bool \<Rightarrow> goerr + Request" where
  "scan_request_row r allowed =
     (case parse_time (rr_requested_at r) of Inl e \<Rightarrow> Inl e
      | Inr t \<Rightarrow> Inr \<lparr>rq_ID = rr_id r, rq_Repo = rr_repo r, rq_SessionID = rr_session_id r,
                      rq_Reason = rr_reason r, rq_RequestedAt = t, rq_AlreadyAllowed = allowed\<rparr>)"

fun scanRequest :: "answer \<Rightarrow> goerr + Request" where
  "scanRequest (ReqRows []) = Inl ErrRepoNotFound"
| "scanRequest (ReqRows ((r, _) # _)) = scan_request_row r False"
| "scanRequest _ = Inl (New ''scan'')"

fun scan_all :: "('a \<Rightarrow> goerr + 'b) \<Rightarrow> 'a list \<Rightarrow> goerr + 'b list" where
  "scan_all f [] = Inr []"
| "scan_all f (x # xs) =
     (case f x of Inl e \<Rightarrow> Inl e
      | Inr y \<Rightarrow> (case scan_all f xs of Inl e \<Rightarrow> Inl e | Inr ys \<Rightarrow> Inr (y # ys)))"

definition hex_digit :: "nat \<Rightarrow> char" where
  "hex_digit n = (if n < 10 then char_of (48 + n) else char_of (87 + n))"

definition EncodeToString :: "string \<Rightarrow> string" where
  "EncodeToString b = concat (map (\<lambda>c. [hex_digit (of_char c div 16), hex_digit (of_char c mod 16)]) b)"

definition newRequestID :: "'w RepoStore \<Rightarrow> ('w, string) act" where
  "newRequestID S = bindE (rs_rand S) (\<lambda>b. ret (''rq_'' @ EncodeToString b))"

definition rs_Now :: "'w RepoStore \<Rightarrow> ('w, time) act" where
  "rs_Now S w = (case rs_now S w of (t, w') \<Rightarrow> (Inr t, w'))"

text \<open>\<open>BeginTx\<close>, \<open>defer tx.Rollback()\<close>, and the body.\<close>

definition with_tx :: "'w RepoStore \<Rightarrow> ('w, 'a) act \<Rightarrow> ('w, 'a) act" where
  "with_tx S body =
     thenE (db_BeginTx (rs_db S)) (defer_with (\<lambda>r w. (r, tx_Rollback (rs_db S) w)) body)"

definition repo_List :: "'w RepoStore \<Rightarrow> ('w, Entry list) act" where
  "repo_List S =
     bindE (db_Exec (rs_db S) SelectAllowlist)
       (\<lambda>ans. case ans of AllowRows rows \<Rightarrow> lift (scan_all scan_allow_row rows) | _ \<Rightarrow> throw (New ''scan''))"

definition repo_Allowed :: "'w RepoStore \<Rightarrow> string \<Rightarrow> ('w, bool) act" where
  "repo_Allowed S rawRepo =
     bindE (lift (NormalizeRepo rawRepo)) (\<lambda>repo.
     bindE (db_Exec (rs_db S) (SelectAllowed repo))
       (\<lambda>ans. case ans of AllowRows rows \<Rightarrow> ret (rows \<noteq> []) | _ \<Rightarrow> throw (New ''scan'')))"

definition addTx :: "'w RepoStore \<Rightarrow> string \<Rightarrow> string \<Rightarrow> string \<Rightarrow> ('w, Entry \<times> bool) act" where
  "addTx S repo source sessionID =
     tryE (bindE (tx_Exec (rs_db S) (SelectAllowed repo)) (\<lambda>ans. lift (scanEntry ans)))
       (\<lambda>r. case r of
          Inr e \<Rightarrow> ret (e, False)
        | Inl err \<Rightarrow>
            if \<not> errors_is err ErrNoRows then throw err
            else
              bindE (rs_Now S) (\<lambda>now.
              thenE (tx_Exec (rs_db S) (InsertAllowed
                  \<lparr>al_repo = repo, al_source = source, al_request_session_id = sessionID,
                   al_added_at = Format_RFC3339Nano now\<rparr>))
                (ret (\<lparr>en_Repo = repo, en_Source = source, en_RequestSessionID = sessionID,
                       en_AddedAt = now\<rparr>, True))))"

definition repo_Add :: "'w RepoStore \<Rightarrow> string \<Rightarrow> ('w, Entry \<times> bool) act" where
  "repo_Add S rawRepo =
     bindE (lift (NormalizeRepo rawRepo)) (\<lambda>repo.
     with_tx S
       (bindE (addTx S repo SourceManual '''') (\<lambda>r. thenE (tx_Commit (rs_db S)) (ret r))))"

definition repo_Remove :: "'w RepoStore \<Rightarrow> string \<Rightarrow> ('w, bool) act" where
  "repo_Remove S rawRepo =
     bindE (lift (NormalizeRepo rawRepo)) (\<lambda>repo.
     bindE (db_Exec (rs_db S) (DeleteAllowed repo))
       (\<lambda>ans. case ans of Affected n \<Rightarrow> ret (0 < n) | _ \<Rightarrow> throw (New ''rows affected'')))"

definition repo_Requests :: "'w RepoStore \<Rightarrow> ('w, Request list) act" where
  "repo_Requests S =
     bindE (db_Exec (rs_db S) SelectRequests)
       (\<lambda>ans. case ans of ReqRows rows \<Rightarrow> lift (scan_all (\<lambda>(r, a). scan_request_row r a) rows)
        | _ \<Rightarrow> throw (New ''scan''))"

definition requestByID :: "'w RepoStore \<Rightarrow> string \<Rightarrow> ('w, Request) act" where
  "requestByID S i = bindE (tx_Exec (rs_db S) (SelectRequestByID i)) (\<lambda>ans. lift (scanRequest ans))"

definition requestByKey :: "'w RepoStore \<Rightarrow> string \<Rightarrow> string \<Rightarrow> ('w, Request) act" where
  "requestByKey S repo sid =
     bindE (tx_Exec (rs_db S) (SelectRequestByKey repo sid)) (\<lambda>ans. lift (scanRequest ans))"

definition insert_request ::
    "'w RepoStore \<Rightarrow> string \<Rightarrow> string \<Rightarrow> string \<Rightarrow> ('w, Request \<times> string) act" where
  "insert_request S repo sessionID reason =
     bindE (newRequestID S) (\<lambda>i.
     bindE (rs_Now S) (\<lambda>now.
     thenE (tx_Exec (rs_db S) (InsertRequest
         \<lparr>rr_id = i, rr_repo = repo, rr_session_id = sessionID, rr_reason = reason,
          rr_requested_at = Format_RFC3339Nano now\<rparr>))
     (thenE (tx_Commit (rs_db S))
       (ret (\<lparr>rq_ID = i, rq_Repo = repo, rq_SessionID = sessionID, rq_Reason = reason,
              rq_RequestedAt = now, rq_AlreadyAllowed = False\<rparr>, StatusPending)))))"

definition request_tx ::
    "'w RepoStore \<Rightarrow> string \<Rightarrow> string \<Rightarrow> string \<Rightarrow> ('w, Request \<times> string) act" where
  "request_tx S repo sessionID reason =
     bindE (tx_Exec (rs_db S) (SelectAllowed repo)) (\<lambda>ans.
       case ans of
         AllowRows rows \<Rightarrow>
           if rows \<noteq> [] then
             thenE (tx_Commit (rs_db S))
               (ret (\<lparr>rq_ID = '''', rq_Repo = repo, rq_SessionID = sessionID, rq_Reason = '''',
                      rq_RequestedAt = zero_time, rq_AlreadyAllowed = False\<rparr>, StatusAllowed))
           else
             tryE (requestByKey S repo sessionID) (\<lambda>r. case r of
               Inr existing \<Rightarrow> thenE (tx_Commit (rs_db S)) (ret (existing, StatusPending))
             | Inl err \<Rightarrow>
                 if \<not> errors_is err ErrRepoNotFound then throw err
                 else insert_request S repo sessionID reason)
       | _ \<Rightarrow> throw (New ''scan''))"

definition repo_Request ::
    "'w RepoStore \<Rightarrow> string \<Rightarrow> string \<Rightarrow> string \<Rightarrow> ('w, Request \<times> string) act" where
  "repo_Request S rawRepo sessionID rawReason =
     bindE (lift (NormalizeRepo rawRepo)) (\<lambda>repo.
       let reason = TrimSpace rawReason; n = rune_count reason in
       if n = 0 \<or> maxReasonRunes < n then throw ErrInvalidReason
       else if TrimSpace sessionID = '''' then throw (New ''session id is required'')
       else with_tx S (request_tx S repo sessionID reason))"

definition repo_Approve :: "'w RepoStore \<Rightarrow> string \<Rightarrow> ('w, Entry) act" where
  "repo_Approve S i =
     with_tx S
       (bindE (requestByID S i) (\<lambda>r.
        bindE (addTx S (rq_Repo r) SourceRequest (rq_SessionID r)) (\<lambda>(e, _).
        thenE (tx_Exec (rs_db S) (DeleteRequestsOfRepo (rq_Repo r)))
          (thenE (tx_Commit (rs_db S)) (ret e)))))"

definition repo_Reject :: "'w RepoStore \<Rightarrow> string \<Rightarrow> ('w, unit) act" where
  "repo_Reject S i =
     bindE (db_Exec (rs_db S) (DeleteRequestByID i))
       (\<lambda>ans. case ans of Affected n \<Rightarrow> if n = 0 then throw ErrRepoNotFound else ret ()
        | _ \<Rightarrow> throw (New ''rows affected''))"

end
