(* ===== verification/Repo_Access_Laws.thy ===== *)
theory Repo_Access_Laws
  imports Repo_Access
begin

text \<open>
  What the repository access store promises. \<open>repo_step\<close> is the abstract machine of the two
  tables, one rule per operation; \<open>sql_engine\<close> is the contract of a transactional engine with
  one connection; inside it every operation of the store is shown to be one atomic step of the
  machine, also when a commit fails half way. The invariant of the tables follows by rule
  induction.
\<close>

section \<open>Names\<close>

lemma lower_char: "lower c = c \<or> (CHR ''A'' \<le> c \<and> c \<le> CHR ''Z'' \<and> CHR ''a'' \<le> lower c \<and> lower c \<le> CHR ''z'')"
proof (cases "CHR ''A'' \<le> c \<and> c \<le> CHR ''Z''")
  case True
  then have r: "(65::nat) \<le> of_char c" "of_char c \<le> (90::nat)" by (auto simp: less_eq_char_def)
  then have "of_char (lower c) = (of_char c + 32 :: nat)" using True by (simp add: lower_def)
  with True r show ?thesis by (simp add: less_eq_char_def)
qed (auto simp: lower_def)

lemma lower_fixed: "\<not> (CHR ''A'' \<le> lower c \<and> lower c \<le> CHR ''Z'')"
proof (cases "CHR ''A'' \<le> c \<and> c \<le> CHR ''Z''")
  case True
  then have r: "(65::nat) \<le> of_char c" "of_char c \<le> (90::nat)" by (auto simp: less_eq_char_def)
  then have "of_char (lower c) = (of_char c + 32 :: nat)" using True by (simp add: lower_def)
  with r show ?thesis by (simp add: less_eq_char_def)
qed (auto simp: lower_def)

lemma lower_idem [simp]: "lower (lower c) = lower c"
  using lower_fixed [of c] by (auto simp: lower_def [of "lower c"])

lemma repo_char_ascii: "repo_char c \<Longrightarrow> (33::nat) \<le> of_char c \<and> of_char c < (128::nat)"
  by (auto simp: repo_char_def alnum_def less_eq_char_def)

lemma lower_repo_char [simp]: "repo_char (lower c) = repo_char c"
  using lower_char [of c] by (auto simp: repo_char_def alnum_def less_eq_char_def)

lemma lower_slash [simp]: "lower c = CHR ''/'' \<longleftrightarrow> c = CHR ''/''"
  using lower_char [of c] by (auto simp: less_eq_char_def)
lemma lower_dot [simp]: "lower c = CHR ''.'' \<longleftrightarrow> c = CHR ''.''"
  using lower_char [of c] by (auto simp: less_eq_char_def)

lemma is_prefix_map_inj: "(\<And>c. c \<in> set xs \<Longrightarrow> f c = c) \<Longrightarrow> is_prefix xs ys \<Longrightarrow> is_prefix xs (map f ys)"
  by (auto simp: is_prefix_iff map_idI)

lemma space_encodings_ends:
  "p \<in> set space_encodings \<Longrightarrow> p \<noteq> [] \<and>
    (\<forall>c \<in> {hd p, last p}. (of_char c :: nat) \<le> 32 \<or> 128 \<le> (of_char c :: nat))"
  by (auto simp: space_encodings_def)

lemma TrimSpace_no_space:
  assumes "\<forall>c \<in> set s. 33 \<le> (of_char c :: nat) \<and> (of_char c :: nat) < 128"
  shows "TrimSpace s = s"
proof -
  have "\<not> is_prefix p s" if "p \<in> set space_encodings" for p
    using space_encodings_ends [OF that] assms by (cases p; cases s) auto
  then have l: "strip_left space_encodings s = s"
    by (intro strip_left_id) (simp add: strip_step_None_iff)
  have "\<not> is_prefix (rev p) (rev s)" if "p \<in> set space_encodings" for p
    using space_encodings_ends [OF that] assms by (cases p rule: rev_cases; cases s rule: rev_cases) auto
  then have "strip_left (map rev space_encodings) (rev s) = rev s"
    by (intro strip_left_id) (auto simp: strip_step_None_iff)
  with l show ?thesis by (simp add: TrimSpace_def)
qed

lemma cut_slash_lower:
  "cut_slash (map lower s) = (case cut_slash s of (a, b, f) \<Rightarrow> (map lower a, map lower b, f))"
  by (cases "dropWhile (\<lambda>c. c \<noteq> CHR ''/'') s")
    (simp_all add: cut_slash_def takeWhile_map dropWhile_map comp_def del: dropWhile_eq_Nil_conv)

lemma cut_slash_join: "cut_slash s = (a, b, True) \<Longrightarrow> s = a @ CHR ''/'' # b"
proof -
  assume c: "cut_slash s = (a, b, True)"
  then obtain x where x: "dropWhile (\<lambda>c. c \<noteq> CHR ''/'') s = x # b" "a = takeWhile (\<lambda>c. c \<noteq> CHR ''/'') s"
    by (auto simp: cut_slash_def split: list.splits)
  then have "x = CHR ''/''" by (simp add: dropWhile_eq_Cons_conv)
  with x show ?thesis by (metis takeWhile_dropWhile_id)
qed

lemma repoPattern_ascii:
  assumes "repoPattern s"
  shows "\<forall>c \<in> set s. 33 \<le> (of_char c :: nat) \<and> (of_char c :: nat) < 128"
proof -
  obtain a b where c: "cut_slash s = (a, b, True)" "list_all repo_char a" "list_all repo_char b"
    using assms by (auto simp: repoPattern_def split: prod.splits)
  from repo_char_ascii c(2,3) show ?thesis
    unfolding cut_slash_join [OF c(1)] by (auto simp: list_all_iff)
qed

lemma repoPattern_lower [simp]: "repoPattern (map lower s) = repoPattern s"
  by (auto simp: repoPattern_def cut_slash_lower list_all_iff split: prod.splits)

lemma map_lower_dots: "map lower s = ''.'' \<longleftrightarrow> s = ''.''" "map lower s = ''..'' \<longleftrightarrow> s = ''..''"
  by (auto simp: map_eq_Cons_conv)

text \<open>The key under which a repository is stored is lower case, has the form owner/name and
  contains no space; it is a fixed point of the normalisation, so that looking it up by its
  own name finds it, exactly when it does not end in \<open>.git\<close>.\<close>

theorem NormalizeRepo_canonical:
  assumes "NormalizeRepo raw = Inr k"
  shows "repoPattern k \<and> map lower k = k \<and> TrimSpace k = k \<and>
    (NormalizeRepo k = Inr k \<longleftrightarrow> \<not> is_prefix (rev ''.git'') (rev k))"
proof -
  obtain s where s: "repoPattern s" "k = map lower s"
    and d: "\<not> (case cut_slash s of (a, b, _) \<Rightarrow> a = ''.'' \<or> a = ''..'' \<or> b = ''.'' \<or> b = ''..'')"
    using assms by (auto simp: NormalizeRepo_def Let_def split: if_splits prod.splits)
  have k: "repoPattern k" "map lower k = k" using s by (simp_all add: comp_def)
  then have t: "TrimSpace k = k" using repoPattern_ascii TrimSpace_no_space by blast
  have dk: "\<not> (case cut_slash k of (a, b, _) \<Rightarrow> a = ''.'' \<or> a = ''..'' \<or> b = ''.'' \<or> b = ''..'')"
    using d by (auto simp: s(2) cut_slash_lower map_lower_dots split: prod.splits)
  have "NormalizeRepo k = Inr k" if "\<not> is_prefix (rev ''.git'') (rev k)"
    using that k t dk by (auto simp: NormalizeRepo_def TrimSuffix_def Let_def split: prod.splits)
  moreover have "\<not> is_prefix (rev ''.git'') (rev k)" if "NormalizeRepo k = Inr k"
  proof
    assume p: "is_prefix (rev ''.git'') (rev k)"
    then have "length k \<ge> 4" by (auto simp: is_prefix_iff dest: arg_cong [of _ _ length])
    moreover have "map lower (TrimSuffix k ''.git'') = k"
      using that t by (auto simp: NormalizeRepo_def Let_def split: if_splits prod.splits)
    then have "length (TrimSuffix k ''.git'') = length k" by (metis length_map)
    ultimately show False using p by (simp add: TrimSuffix_def)
  qed
  ultimately show ?thesis using k t by blast
qed

theorem NormalizeRepo_canonical_witness:
  "NormalizeRepo '' Owner/Repo.git '' = Inr ''owner/repo'' \<and> NormalizeRepo ''owner/repo'' = Inr ''owner/repo'' \<and>
   NormalizeRepo ''Owner/Repo.GIT'' = Inr ''owner/repo.git'' \<and> NormalizeRepo ''owner/repo.git'' \<noteq> Inr ''owner/repo.git''"
proof -
  have a: "NormalizeRepo '' Owner/Repo.git '' = Inr ''owner/repo''" by code_simp
  have b: "NormalizeRepo ''Owner/Repo.GIT'' = Inr ''owner/repo.git''" by code_simp
  from NormalizeRepo_canonical [OF a] NormalizeRepo_canonical [OF b] a b show ?thesis by simp
qed

section \<open>The abstract machine\<close>

definition spec_add :: "string \<Rightarrow> string \<Rightarrow> string \<Rightarrow> time \<Rightarrow> Tables \<Rightarrow> Tables" where
  "spec_add repo source sid now t =
     (if on_list t repo then t
      else t\<lparr>allowlist := allowlist t @ [\<lparr>al_repo = repo, al_source = source,
        al_request_session_id = sid, al_added_at = Format_RFC3339Nano now\<rparr>]\<rparr>)"

definition spec_approve :: "ReqRow \<Rightarrow> time \<Rightarrow> Tables \<Rightarrow> Tables" where
  "spec_approve r now t =
     (spec_add (rr_repo r) SourceRequest (rr_session_id r) now t)
       \<lparr>access_requests := filter (\<lambda>q. rr_repo q \<noteq> rr_repo r) (access_requests t)\<rparr>"

definition reason_ok :: "string \<Rightarrow> bool" where
  "reason_ok reason = (0 < rune_count reason \<and> rune_count reason \<le> maxReasonRunes)"

inductive repo_step :: "Tables \<Rightarrow> Tables \<Rightarrow> bool" where
  step_add: "NormalizeRepo raw = Inr repo \<Longrightarrow> time_ok now \<Longrightarrow>
    repo_step t (spec_add repo SourceManual '''' now t)"
| step_remove: "NormalizeRepo raw = Inr repo \<Longrightarrow>
    repo_step t (t\<lparr>allowlist := filter (\<lambda>a. al_repo a \<noteq> repo) (allowlist t)\<rparr>)"
| step_request: "NormalizeRepo raw = Inr (rr_repo r) \<Longrightarrow> reason_ok (rr_reason r) \<Longrightarrow>
    \<not> on_list t (rr_repo r) \<Longrightarrow> pending_key t (rr_repo r) (rr_session_id r) = [] \<Longrightarrow>
    rr_id r \<notin> rr_id ` set (access_requests t) \<Longrightarrow> rr_requested_at r = Format_RFC3339Nano now \<Longrightarrow>
    time_ok now \<Longrightarrow> repo_step t (t\<lparr>access_requests := access_requests t @ [r]\<rparr>)"
| step_approve: "r \<in> set (access_requests t) \<Longrightarrow> time_ok now \<Longrightarrow> repo_step t (spec_approve r now t)"
| step_reject: "r \<in> set (access_requests t) \<Longrightarrow>
    repo_step t (t\<lparr>access_requests := filter (\<lambda>q. rr_id q \<noteq> rr_id r) (access_requests t)\<rparr>)"

inductive_cases repo_stepE: "repo_step t t'"

definition parses :: "string \<Rightarrow> bool" where
  "parses s = (Parse_RFC3339Nano s \<noteq> None)"

definition wf_tables :: "Tables \<Rightarrow> bool" where
  "wf_tables t =
     (distinct (map al_repo (allowlist t)) \<and> distinct (map rr_id (access_requests t)) \<and>
      distinct (map (\<lambda>r. (rr_repo r, rr_session_id r)) (access_requests t)) \<and>
      (\<forall>a \<in> set (allowlist t). repoPattern (al_repo a) \<and> parses (al_added_at a)) \<and>
      (\<forall>r \<in> set (access_requests t). repoPattern (rr_repo r) \<and> reason_ok (rr_reason r) \<and>
         parses (rr_requested_at r)))"

lemma on_list_iff: "on_list t repo \<longleftrightarrow> repo \<in> al_repo ` set (allowlist t)"
  by (auto simp: on_list_def list_ex_iff)

lemma pending_key_Nil_iff:
  "pending_key t repo sid = [] \<longleftrightarrow> (repo, sid) \<notin> (\<lambda>r. (rr_repo r, rr_session_id r)) ` set (access_requests t)"
  by (auto simp: pending_key_def filter_empty_conv)

lemma parses_Format: "time_ok now \<Longrightarrow> parses (Format_RFC3339Nano now)"
  by (simp add: parses_def Parse_Format)

lemma NormalizeRepo_pattern: "NormalizeRepo raw = Inr k \<Longrightarrow> repoPattern k"
  by (auto simp: NormalizeRepo_def Let_def split: if_splits prod.splits)

lemma wf_spec_add:
  "wf_tables t \<Longrightarrow> repoPattern repo \<Longrightarrow> time_ok now \<Longrightarrow> wf_tables (spec_add repo source sid now t)"
  by (auto simp: wf_tables_def spec_add_def on_list_iff parses_Format)

lemma access_requests_spec_add [simp]: "access_requests (spec_add repo source sid now t) = access_requests t"
  by (simp add: spec_add_def)

lemma wf_fewer_requests:
  "wf_tables t \<Longrightarrow> wf_tables (t\<lparr>access_requests := filter P (access_requests t)\<rparr>)"
  by (auto simp: wf_tables_def distinct_map_filter)

lemma repo_step_wf: "repo_step t t' \<Longrightarrow> wf_tables t \<Longrightarrow> wf_tables t'"
proof (induction rule: repo_step.induct)
  case (step_add raw repo now t)
  then show ?case by (simp add: wf_spec_add NormalizeRepo_pattern)
next
  case (step_remove raw repo t)
  then show ?case by (auto simp: wf_tables_def distinct_map_filter)
next
  case (step_request raw r t now)
  then show ?case
    by (auto simp: wf_tables_def pending_key_Nil_iff parses_Format NormalizeRepo_pattern)
next
  case (step_approve r t now)
  then have "repoPattern (rr_repo r)" by (auto simp: wf_tables_def)
  with step_approve show ?case
    unfolding spec_approve_def
    using wf_fewer_requests [OF wf_spec_add [of t "rr_repo r" now SourceRequest "rr_session_id r"]]
    by simp
next
  case (step_reject r t)
  then show ?case by (simp add: wf_fewer_requests)
qed

lemma repo_steps_wf: "repo_step\<^sup>*\<^sup>* t t' \<Longrightarrow> wf_tables t \<Longrightarrow> wf_tables t'"
  by (induction rule: rtranclp_induct) (auto intro: repo_step_wf)

text \<open>The effects of the operations, as relations between result, tables before and tables after.\<close>

definition add_effect :: "string \<Rightarrow> string \<Rightarrow> string \<Rightarrow> Entry \<times> bool \<Rightarrow> Tables \<Rightarrow> Tables \<Rightarrow> bool" where
  "add_effect repo source sid r t t' =
     (\<exists>now. time_ok now \<and> t' = spec_add repo source sid now t \<and> en_Repo (fst r) = repo \<and>
       snd r = (\<not> on_list t repo) \<and>
       (snd r \<longrightarrow> fst r = \<lparr>en_Repo = repo, en_Source = source, en_RequestSessionID = sid, en_AddedAt = now\<rparr>))"

definition approve_effect :: "string \<Rightarrow> Entry \<Rightarrow> Tables \<Rightarrow> Tables \<Rightarrow> bool" where
  "approve_effect i e t t' =
     (\<exists>r now. r \<in> set (access_requests t) \<and> rr_id r = i \<and> time_ok now \<and>
       t' = spec_approve r now t \<and> en_Repo e = rr_repo r)"

definition request_effect :: "string \<Rightarrow> string \<Rightarrow> string \<Rightarrow> Request \<times> string \<Rightarrow> Tables \<Rightarrow> Tables \<Rightarrow> bool" where
  "request_effect repo sid reason res t t' =
     (case res of (q, status) \<Rightarrow>
        rq_Repo q = repo \<and> rq_SessionID q = sid \<and>
        (if on_list t repo then status = StatusAllowed \<and> t' = t
         else status = StatusPending \<and>
           (\<exists>r rest. pending_key t' repo sid = r # rest \<and> scan_request_row r False = Inr q \<and>
              (if pending_key t repo sid \<noteq> [] then t' = t
               else t' = t\<lparr>access_requests := access_requests t @ [r]\<rparr> \<and> rr_reason r = reason \<and>
                 rr_id r \<notin> rr_id ` set (access_requests t) \<and>
                 (\<exists>now. time_ok now \<and> rr_requested_at r = Format_RFC3339Nano now)))))"

section \<open>The engine\<close>

text \<open>\<open>durable w\<close> are the committed tables, \<open>tx w\<close> those the open transaction sees. While the
  transaction is open nobody else writes: the file has one owner and \<open>SetMaxOpenConns(1)\<close>
  gives one connection. Between calls other requests may take the tables along \<open>rely\<close>. A
  failed commit may or may not have taken effect.\<close>

locale sql_engine =
  fixes S :: "'w RepoStore"
    and durable :: "'w \<Rightarrow> Tables"
    and tx :: "'w \<Rightarrow> Tables option"
    and rely :: "Tables \<Rightarrow> Tables \<Rightarrow> bool"
  assumes rely_refl: "rely t t"
    and rely_trans: "rely t t1 \<Longrightarrow> rely t1 t2 \<Longrightarrow> rely t t2"
    and begin_rely: "db_BeginTx (rs_db S) w = (rb, w') \<Longrightarrow> rely (durable w) (durable w')"
    and begin_tx: "db_BeginTx (rs_db S) w = (Inr u, w') \<Longrightarrow> tx w' = Some (durable w')"
    and exec_durable: "tx w = Some t \<Longrightarrow> tx_Exec (rs_db S) s w = (ra, w') \<Longrightarrow> durable w' = durable w"
    and exec_tx: "tx w = Some t \<Longrightarrow> tx_Exec (rs_db S) s w = (Inr a, w') \<Longrightarrow>
      \<exists>t'. sql_exec s t = (Inr a, t') \<and> tx w' = Some t'"
    and exec_err: "tx w = Some t \<Longrightarrow> tx_Exec (rs_db S) s w = (Inl e, w') \<Longrightarrow>
      \<not> errors_is e ErrNoRows \<and> \<not> errors_is e ErrRepoNotFound"
    and commit_ok: "tx w = Some t \<Longrightarrow> tx_Commit (rs_db S) w = (Inr u, w') \<Longrightarrow> rely t (durable w')"
    and commit_err: "tx w = Some t \<Longrightarrow> tx_Commit (rs_db S) w = (Inl e, w') \<Longrightarrow>
      rely (durable w) (durable w') \<or> rely t (durable w')"
    and rollback_rely: "rely (durable w) (durable (tx_Rollback (rs_db S) w))"
    and auto_ok: "db_Exec (rs_db S) s w = (Inr a, w') \<Longrightarrow>
      \<exists>t t'. rely (durable w) t \<and> sql_exec s t = (Inr a, t') \<and> rely t' (durable w')"
    and auto_rely: "db_Exec (rs_db S) s w = (Inl e, w') \<Longrightarrow> rely (durable w) (durable w')"
    and now_frame: "rs_now S w = (now, w') \<Longrightarrow> durable w' = durable w \<and> tx w' = tx w \<and> time_ok now"
    and rand_frame: "rs_rand S w = (rs, w') \<Longrightarrow> durable w' = durable w \<and> tx w' = tx w"
begin

text \<open>What an operation with the effect \<open>R\<close> leaves behind when it starts on the tables \<open>t\<close>: on
  success the effect, on failure nothing or, when the commit was in doubt, all of it.\<close>

definition outcome :: "('a \<Rightarrow> Tables \<Rightarrow> Tables \<Rightarrow> bool) \<Rightarrow> Tables \<Rightarrow> goerr + 'a \<Rightarrow> Tables \<Rightarrow> bool" where
  "outcome R t r v =
     (case r of Inr x \<Rightarrow> \<exists>t'. R x t t' \<and> rely t' v
      | Inl e \<Rightarrow> rely t v \<or> (\<exists>x t'. R x t t' \<and> rely t' v))"

lemma outcome_err: "rely t v \<Longrightarrow> outcome R t (Inl e) v"
  by (simp add: outcome_def)

lemma outcome_later: "outcome R t r v \<Longrightarrow> rely v v' \<Longrightarrow> outcome R t r v'"
  by (auto simp: outcome_def split: sum.splits dest: rely_trans)

lemma wp_with_tx:
  assumes "\<And>w1. tx w1 = Some (durable w1) \<Longrightarrow>
    wp body (\<lambda>r w2. outcome R (durable w1) r (durable w2)) w1"
  shows "wp (with_tx S body) (\<lambda>r w'. \<exists>t. rely (durable w) t \<and> outcome R t r (durable w')) w"
proof -
  obtain b w1 where b: "db_BeginTx (rs_db S) w = (b, w1)" by fastforce
  note r1 = begin_rely [OF b]
  show ?thesis
  proof (cases b)
    case (Inl e)
    with b r1 show ?thesis
      by (auto simp: with_tx_def wp_def thenE_def bindE_def intro!: outcome_err rely_refl)
  next
    case (Inr u)
    obtain r w2 where b2: "body w1 = (r, w2)" by fastforce
    have "outcome R (durable w1) r (durable w2)"
      using assms [OF begin_tx [OF b [unfolded Inr]]] b2 by (simp add: wp_def)
    with outcome_later rollback_rely have "outcome R (durable w1) r (durable (tx_Rollback (rs_db S) w2))"
      by blast
    with b b2 Inr r1 show ?thesis
      by (auto simp: with_tx_def wp_def thenE_def bindE_def defer_with_def tryE_def)
  qed
qed

text \<open>The calls inside a transaction.\<close>

lemma wp_tx_Exec:
  assumes "tx w = Some t"
    and "\<And>e w'. durable w' = durable w \<Longrightarrow> \<not> errors_is e ErrNoRows \<Longrightarrow> \<not> errors_is e ErrRepoNotFound \<Longrightarrow>
      Q (Inl e) w'"
    and "\<And>a t' w'. sql_exec s t = (Inr a, t') \<Longrightarrow> tx w' = Some t' \<Longrightarrow> durable w' = durable w \<Longrightarrow> Q (Inr a) w'"
  shows "wp (tx_Exec (rs_db S) s) Q w"
proof -
  obtain r w' where r: "tx_Exec (rs_db S) s w = (r, w')" by fastforce
  have d: "durable w' = durable w" using exec_durable [OF assms(1) r] .
  have "Q r w'"
  proof (cases r)
    case (Inl e)
    with r exec_err [OF assms(1)] d assms(2) show ?thesis by blast
  next
    case (Inr a)
    with r exec_tx [OF assms(1)] d assms(3) show ?thesis by blast
  qed
  with r show ?thesis by (simp add: wp_def)
qed

lemma wp_commit:
  assumes "tx w = Some t'" "durable w = t" "R x t t'"
  shows "wp (thenE (tx_Commit (rs_db S)) (ret x)) (\<lambda>r w'. outcome R t r (durable w')) w"
proof -
  obtain c w1 where c: "tx_Commit (rs_db S) w = (c, w1)" by fastforce
  show ?thesis
    using c commit_ok [OF assms(1)] commit_err [OF assms(1)] assms(2,3)
    by (cases c) (fastforce simp: wp_def outcome_def thenE_def bindE_def ret_def)+
qed

lemma wp_Now:
  "(\<And>now w'. durable w' = durable w \<Longrightarrow> tx w' = tx w \<Longrightarrow> time_ok now \<Longrightarrow> Q (Inr now) w') \<Longrightarrow> wp (rs_Now S) Q w"
  by (auto simp: rs_Now_def wp_def dest: now_frame split: prod.splits)

lemma wp_newRequestID:
  "(\<And>r w'. durable w' = durable w \<Longrightarrow> tx w' = tx w \<Longrightarrow> Q r w') \<Longrightarrow> wp (newRequestID S) Q w"
  by (auto simp: newRequestID_def wp_def bindE_def ret_def dest: rand_frame split: prod.splits sum.splits)

lemma scan_allow_row_result:
  "scan_allow_row a = Inr e \<Longrightarrow> en_Repo e = al_repo a"
  "scan_allow_row a = Inl er \<Longrightarrow> \<not> errors_is er ErrNoRows"
  by (auto simp: scan_allow_row_def parse_time_def ErrNoRows_def split: sum.splits option.splits)

lemma time_ok_0: "time_ok 0"
  by (simp add: time_ok_def year0_def year10000_def)

lemma add_effect_kept: "on_list t repo \<Longrightarrow> en_Repo e = repo \<Longrightarrow> add_effect repo source sid (e, False) t t"
  by (auto simp: add_effect_def spec_add_def intro!: exI [of _ 0] time_ok_0)

lemma wp_addTx:
  assumes "tx w = Some t"
    and err: "\<And>e w'. durable w' = durable w \<Longrightarrow> Q (Inl e) w'"
    and ok: "\<And>x t' w'. add_effect repo source sid x t t' \<Longrightarrow> tx w' = Some t' \<Longrightarrow> durable w' = durable w \<Longrightarrow>
      Q (Inr x) w'"
  shows "wp (addTx S repo source sid) Q w"
  unfolding addTx_def wp_simps
proof (rule wp_tx_Exec [OF assms(1)], goal_cases)
  case (1 e w1)
  then show ?case by (simp add: wp_simps err)
next
  case (2 ans t1 w1)
  then have tx1: "t1 = t" "tx w1 = Some t" "durable w1 = durable w"
    and ans: "ans = AllowRows (filter (\<lambda>a. al_repo a = repo) (allowlist t))" by auto
  show ?case
  proof (cases "filter (\<lambda>a. al_repo a = repo) (allowlist t)")
    case Nil
    then have off: "\<not> on_list t repo" by (auto simp: on_list_iff filter_empty_conv)
    show ?thesis
      unfolding ans Nil scanEntry.simps wp_simps sum.case
      by (simp, rule wp_Now, simp, rule wp_tx_Exec [OF trans [OF _ tx1(2)]], assumption)
        (auto simp: tx1 off add_effect_def spec_add_def split: if_splits intro!: err ok)
  next
    case (Cons a rest)
    then have a: "al_repo a = repo" "on_list t repo"
      by (auto simp: on_list_iff dest!: filter_eq_ConsD)
    then show ?thesis
      using tx1 by (cases "scan_allow_row a")
        (auto simp: ans Cons wp_simps scan_allow_row_result intro!: err ok add_effect_kept)
  qed
qed

lemma wp_requestByID:
  assumes "tx w = Some t"
    and "\<And>e w'. durable w' = durable w \<Longrightarrow> Q (Inl e) w'"
    and "\<And>r q w'. r \<in> set (access_requests t) \<Longrightarrow> rr_id r = i \<Longrightarrow> scan_request_row r False = Inr q \<Longrightarrow>
      tx w' = Some t \<Longrightarrow> durable w' = durable w \<Longrightarrow> Q (Inr q) w'"
  shows "wp (requestByID S i) Q w"
  unfolding requestByID_def wp_simps
proof (rule wp_tx_Exec [OF assms(1)], goal_cases)
  case (1 e w1)
  then show ?case by (simp add: assms(2))
next
  case (2 ans t1 w1)
  then have tx1: "tx w1 = Some t" "durable w1 = durable w"
    and ans: "ans = ReqRows (map (\<lambda>r. (r, False)) (filter (\<lambda>r. rr_id r = i) (access_requests t)))" by auto
  show ?case
  proof (cases "filter (\<lambda>r. rr_id r = i) (access_requests t)")
    case Nil
    then show ?thesis using tx1 assms(2) by (simp add: ans wp_simps)
  next
    case (Cons r rest)
    then have "r \<in> set (access_requests t)" "rr_id r = i" by (auto dest!: filter_eq_ConsD)
    then show ?thesis using tx1 assms(2,3) by (cases "scan_request_row r False") (auto simp: ans Cons wp_simps)
  qed
qed

lemma scan_request_row_fields:
  "scan_request_row r b = Inr q \<Longrightarrow> rq_Repo q = rr_repo r \<and> rq_SessionID q = rr_session_id r \<and>
    rq_ID q = rr_id r \<and> rq_Reason q = rr_reason r"
  by (auto simp: scan_request_row_def split: sum.splits)

lemma approve_outcome:
  assumes "repo_Approve S i w = (r, w')"
  shows "\<exists>t. rely (durable w) t \<and> outcome (approve_effect i) t r (durable w')"
proof -
  have "wp (repo_Approve S i) (\<lambda>r w'. \<exists>t. rely (durable w) t \<and> outcome (approve_effect i) t r (durable w')) w"
    unfolding repo_Approve_def
  proof (rule wp_with_tx, unfold wp_simps, rule wp_requestByID, assumption, goal_cases)
    case (1 w1 e w2)
    then show ?case by (simp add: outcome_err rely_refl)
  next
    case (2 w1 r q w2)
    note q = scan_request_row_fields [OF 2(4)] and row = 2(2,3,6)
    show ?case
      unfolding sum.case wp_simps
    proof (rule wp_addTx [OF 2(5)], goal_cases)
      case (1 e w3)
      with 2 show ?case by (simp add: outcome_err rely_refl)
    next
      case (2 x t' w3)
      then obtain now where now: "time_ok now"
        "t' = spec_add (rr_repo r) SourceRequest (rr_session_id r) now (durable w1)" "en_Repo (fst x) = rr_repo r"
        using q by (auto simp: add_effect_def)
      obtain e c where x: "x = (e, c)" by fastforce
      show ?case
        unfolding x sum.case prod.case
        by (subst wp_thenE, rule wp_tx_Exec [OF 2(2)])
          (use 2(3) q now x row in \<open>auto simp: approve_effect_def spec_approve_def
            intro!: outcome_err rely_refl wp_commit exI [of _ r]\<close>)
    qed
  qed
  with assms show ?thesis by (simp add: wp_def)
qed

end

context sql_engine
begin

lemma add_outcome:
  assumes "NormalizeRepo raw = Inr repo" "repo_Add S raw w = (r, w')"
  shows "\<exists>t. rely (durable w) t \<and> outcome (add_effect repo SourceManual '''') t r (durable w')"
proof -
  have "wp (with_tx S (bindE (addTx S repo SourceManual '''') (\<lambda>r. thenE (tx_Commit (rs_db S)) (ret r))))
    (\<lambda>r w'. \<exists>t. rely (durable w) t \<and> outcome (add_effect repo SourceManual '''') t r (durable w')) w"
    by (rule wp_with_tx, subst wp_bindE, rule wp_addTx)
      (auto intro!: outcome_err rely_refl wp_commit)
  with assms show ?thesis by (simp add: wp_def repo_Add_def bindE_def lift_def)
qed

lemma wp_requestByKey:
  assumes "tx w = Some t"
    and err: "\<And>e w'. durable w' = durable w \<Longrightarrow> \<not> errors_is e ErrRepoNotFound \<Longrightarrow> Q (Inl e) w'"
    and none: "\<And>w'. pending_key t repo sid = [] \<Longrightarrow> tx w' = Some t \<Longrightarrow> durable w' = durable w \<Longrightarrow>
      Q (Inl ErrRepoNotFound) w'"
    and some: "\<And>r rest q w'. pending_key t repo sid = r # rest \<Longrightarrow> scan_request_row r False = Inr q \<Longrightarrow>
      tx w' = Some t \<Longrightarrow> durable w' = durable w \<Longrightarrow> Q (Inr q) w'"
  shows "wp (requestByKey S repo sid) Q w"
  unfolding requestByKey_def wp_simps
proof (rule wp_tx_Exec [OF assms(1)], goal_cases)
  case (1 e w1)
  then show ?case by (simp add: err)
next
  case (2 ans t1 w1)
  have e: "scan_request_row r False = Inl e \<Longrightarrow> \<not> errors_is e ErrRepoNotFound" for r e
    by (auto simp: scan_request_row_def parse_time_def ErrRepoNotFound_def split: sum.splits option.splits)
  show ?case
  proof (cases "pending_key t repo sid")
    case Nil
    with 2 none show ?thesis by (auto simp: wp_simps)
  next
    case (Cons r rest)
    with 2 show ?thesis
      by (cases "scan_request_row r False") (auto simp: wp_simps intro!: some err dest: e)
  qed
qed

lemma wp_insert_request:
  assumes "tx w = Some t" "durable w = t" "\<not> on_list t repo" "pending_key t repo sid = []"
  shows "wp (insert_request S repo sid reason) (\<lambda>r w'. outcome (request_effect repo sid reason) t r (durable w')) w"
  unfolding insert_request_def wp_bindE
proof (rule wp_newRequestID, goal_cases)
  case (1 i w1)
  show ?case
  proof (cases i)
    case (Inl e)
    with 1 assms(2) show ?thesis by (simp add: outcome_err rely_refl)
  next
    case (Inr i')
    show ?thesis
      unfolding Inr sum.case
    proof (rule wp_Now, goal_cases)
      case (1 now w2)
      then have w2: "tx w2 = Some t" "durable w2 = t" using \<open>tx w1 = tx w\<close> \<open>durable w1 = durable w\<close> assms by auto
      show ?case
        unfolding sum.case
        by (subst wp_thenE, rule wp_tx_Exec [OF w2(1)])
          (use w2(2) assms(3,4) 1(3) in \<open>auto simp: request_effect_def scan_request_row_def parse_time_def
             Parse_Format on_list_iff pending_key_def list_ex_iff split: if_splits
             intro!: outcome_err rely_refl wp_commit\<close>)
    qed
  qed
qed

lemma request_effect_allowed:
  "on_list t repo \<Longrightarrow> rq_Repo q = repo \<Longrightarrow> rq_SessionID q = sid \<Longrightarrow> request_effect repo sid reason (q, StatusAllowed) t t"
  by (simp add: request_effect_def)

lemma request_effect_existing:
  assumes "\<not> on_list t repo" "pending_key t repo sid = r # rest" "scan_request_row r False = Inr q"
  shows "request_effect repo sid reason (q, StatusPending) t t"
proof -
  have "rr_repo r = repo \<and> rr_session_id r = sid"
    using assms(2) by (auto simp: pending_key_def dest!: filter_eq_ConsD)
  with assms scan_request_row_fields [OF assms(3)] show ?thesis by (simp add: request_effect_def)
qed

lemma request_outcome:
  assumes "NormalizeRepo raw = Inr repo" "repo_Request S raw sid reason w = (r, w')"
    "reason_ok (TrimSpace reason)" "TrimSpace sid \<noteq> ''''"
  shows "\<exists>t. rely (durable w) t \<and> outcome (request_effect repo sid (TrimSpace reason)) t r (durable w')"
proof -
  have "wp (with_tx S (request_tx S repo sid (TrimSpace reason)))
    (\<lambda>r w'. \<exists>t. rely (durable w) t \<and> outcome (request_effect repo sid (TrimSpace reason)) t r (durable w')) w"
  proof (rule wp_with_tx, unfold request_tx_def wp_bindE, rule wp_tx_Exec, assumption, goal_cases)
    case (1 w1 e w2)
    then show ?case by (simp add: outcome_err rely_refl)
  next
    case (2 w1 ans t' w2)
    then have w2: "tx w2 = Some (durable w1)" "durable w2 = durable w1" by auto
    have rows: "ans = AllowRows (filter (\<lambda>a. al_repo a = repo) (allowlist (durable w1)))" using 2 by auto
    show ?case
    proof (cases "on_list (durable w1) repo")
      case True
      then show ?thesis
        unfolding rows sum.case answer.case
        by (auto simp: on_list_iff filter_empty_conv
            intro!: wp_commit [OF w2] request_effect_allowed)
    next
      case False
      then have "filter (\<lambda>a. al_repo a = repo) (allowlist (durable w1)) = []"
        by (auto simp: on_list_iff filter_empty_conv)
      with False show ?thesis
        unfolding rows sum.case answer.case
        by (simp, subst wp_tryE, intro wp_requestByKey [OF w2(1)])
          (auto simp: wp_throw w2 intro!: outcome_err rely_refl wp_insert_request wp_commit request_effect_existing)
    qed
  qed
  with assms show ?thesis
    by (simp add: wp_def repo_Request_def bindE_def lift_def Let_def reason_ok_def)
qed

end

context sql_engine
begin

lemma remove_outcome:
  assumes "NormalizeRepo raw = Inr repo" "repo_Remove S raw w = (r, w')"
  shows "\<exists>t. rely (durable w) t \<and> outcome (\<lambda>found t t'. found = on_list t repo \<and>
    t' = t\<lparr>allowlist := filter (\<lambda>a. al_repo a \<noteq> repo) (allowlist t)\<rparr>) t r (durable w')"
proof -
  obtain q w1 where q: "db_Exec (rs_db S) (DeleteAllowed repo) w = (q, w1)" by fastforce
  show ?thesis
  proof (cases q)
    case (Inl e)
    with q assms auto_rely show ?thesis
      by (auto simp: repo_Remove_def bindE_def lift_def intro!: exI [of _ "durable w'"] outcome_err rely_refl)
  next
    case (Inr a)
    obtain t t' where t: "rely (durable w) t" "sql_exec (DeleteAllowed repo) t = (Inr a, t')" "rely t' (durable w1)"
      using auto_ok q Inr by blast
    have "filter (\<lambda>a. al_repo a = repo) (allowlist t) \<noteq> [] \<longleftrightarrow> on_list t repo"
      by (auto simp: on_list_iff filter_empty_conv)
    with t q Inr assms show ?thesis
      by (auto simp: repo_Remove_def bindE_def lift_def ret_def outcome_def intro!: exI [of _ t])
  qed
qed

lemma reject_outcome:
  assumes "repo_Reject S i w = (r, w')"
  shows "\<exists>t. rely (durable w) t \<and> outcome (\<lambda>u t t'. i \<in> rr_id ` set (access_requests t) \<and>
    t' = t\<lparr>access_requests := filter (\<lambda>q. rr_id q \<noteq> i) (access_requests t)\<rparr>) t r (durable w')"
proof -
  obtain q w1 where q: "db_Exec (rs_db S) (DeleteRequestByID i) w = (q, w1)" by fastforce
  show ?thesis
  proof (cases q)
    case (Inl e)
    with q assms auto_rely show ?thesis
      by (auto simp: repo_Reject_def bindE_def intro!: exI [of _ "durable w'"] outcome_err rely_refl)
  next
    case (Inr a)
    obtain t t' where t: "rely (durable w) t" "sql_exec (DeleteRequestByID i) t = (Inr a, t')" "rely t' (durable w1)"
      using auto_ok q Inr by blast
    show ?thesis
    proof (cases "i \<in> rr_id ` set (access_requests t)")
      case True
      then have "filter (\<lambda>r. rr_id r = i) (access_requests t) \<noteq> []" by (auto simp: filter_empty_conv)
      with True t q Inr assms show ?thesis
        by (auto simp: repo_Reject_def bindE_def ret_def outcome_def simp del: filter_empty_conv
            intro!: exI [of _ t])
    next
      case False
      then have "filter (\<lambda>q. rr_id q \<noteq> i) (access_requests t) = access_requests t"
        "filter (\<lambda>r. rr_id r = i) (access_requests t) = []" by (auto simp: filter_empty_conv intro!: filter_True)
      with t q Inr assms show ?thesis
        by (auto simp: repo_Reject_def bindE_def throw_def intro!: exI [of _ t] outcome_err)
    qed
  qed
qed

lemma query_rely:
  assumes "bindE (db_Exec (rs_db S) s) f w = (r, w')" "\<And>t. snd (sql_exec s t) = t" "\<And>a w. snd (f a w) = w"
  shows "rely (durable w) (durable w')"
proof -
  obtain q w1 where q: "db_Exec (rs_db S) s w = (q, w1)" by fastforce
  have w': "w' = w1" using assms(1,3) q by (cases q) (auto simp: bindE_def dest: arg_cong [of _ _ snd])
  show ?thesis
  proof (cases q)
    case (Inl e)
    with q w' auto_rely show ?thesis by blast
  next
    case (Inr a)
    with q obtain t t' where "rely (durable w) t" "sql_exec s t = (Inr a, t')" "rely t' (durable w1)"
      using auto_ok by blast
    moreover from this have "t' = t" using assms(2) [of t] by simp
    ultimately show ?thesis using w' rely_trans by blast
  qed
qed

lemma allowed_reads:
  assumes "NormalizeRepo raw = Inr repo" "repo_Allowed S raw w = (Inr b, w')"
  shows "\<exists>t. rely (durable w) t \<and> b = on_list t repo \<and> rely t (durable w')"
proof -
  obtain q w1 where q: "db_Exec (rs_db S) (SelectAllowed repo) w = (q, w1)" by fastforce
  with assms obtain a where a: "q = Inr a" by (cases q) (auto simp: repo_Allowed_def bindE_def lift_def)
  with q obtain t t' where "rely (durable w) t" "sql_exec (SelectAllowed repo) t = (Inr a, t')" "rely t' (durable w1)"
    using auto_ok by blast
  with q a assms show ?thesis
    by (auto simp: repo_Allowed_def bindE_def lift_def ret_def on_list_iff filter_empty_conv intro!: exI [of _ t])
qed

end

section \<open>An in-memory engine\<close>

text \<open>A transactional engine in memory whose calls fail as told: 0 no fault, 1 a fault without
  effect, 2 a fault after the effect of a commit.\<close>

record memdb =
  md_tables :: Tables
  md_tx :: "Tables option"
  md_faults :: "nat list"
  md_clock :: nat

definition pop_fault :: "memdb \<Rightarrow> nat \<times> memdb" where
  "pop_fault w = (case md_faults w of [] \<Rightarrow> (0, w) | f # fs \<Rightarrow> (f, w\<lparr>md_faults := fs\<rparr>))"

definition mem_db :: "memdb DB" where
  "mem_db = \<lparr>
     db_Exec = (\<lambda>s w. case pop_fault w of (f, w') \<Rightarrow>
       if f \<noteq> 0 then (Inl (New ''disk''), w')
       else case sql_exec s (md_tables w') of (r, t) \<Rightarrow> (r, w'\<lparr>md_tables := t\<rparr>)),
     db_BeginTx = (\<lambda>w. case pop_fault w of (f, w') \<Rightarrow>
       if f \<noteq> 0 then (Inl (New ''busy''), w') else (Inr (), w'\<lparr>md_tx := Some (md_tables w')\<rparr>)),
     tx_Exec = (\<lambda>s w. case pop_fault w of (f, w') \<Rightarrow>
       if f \<noteq> 0 then (Inl (New ''disk''), w')
       else case md_tx w' of None \<Rightarrow> (Inl (New ''no transaction''), w')
         | Some t \<Rightarrow> (case sql_exec s t of (r, t') \<Rightarrow> (r, w'\<lparr>md_tx := Some t'\<rparr>))),
     tx_Commit = (\<lambda>w. case pop_fault w of (f, w') \<Rightarrow>
       case md_tx w' of None \<Rightarrow> (Inl (New ''no transaction''), w')
       | Some t \<Rightarrow>
           (if f = 0 then (Inr (), w'\<lparr>md_tables := t, md_tx := None\<rparr>)
            else if f = 1 then (Inl (New ''commit''), w'\<lparr>md_tx := None\<rparr>)
            else (Inl (New ''commit''), w'\<lparr>md_tables := t, md_tx := None\<rparr>))),
     tx_Rollback = (\<lambda>w. w\<lparr>md_tx := None\<rparr>)\<rparr>"

definition mem_store :: "memdb RepoStore" where
  "mem_store = \<lparr>rs_db = mem_db,
     rs_now = (\<lambda>w. (int (md_clock w mod 1000000), w\<lparr>md_clock := Suc (md_clock w)\<rparr>)),
     rs_rand = (\<lambda>w. (Inr (replicate 7 CHR 0x00 @ [char_of (md_clock w mod 256)]), w))\<rparr>"

lemma pop_fault_frame: "pop_fault w = (f, w') \<Longrightarrow> md_tables w' = md_tables w \<and> md_tx w' = md_tx w"
  by (auto simp: pop_fault_def split: list.splits)

lemma sql_exec_err:
  "sql_exec s t = (Inl e, t') \<Longrightarrow> t' = t \<and> \<not> errors_is e ErrNoRows \<and> \<not> errors_is e ErrRepoNotFound"
  by (cases s) (auto simp: ErrNoRows_def ErrRepoNotFound_def split: if_splits)

interpretation mem_sql: sql_engine mem_store md_tables md_tx "repo_step\<^sup>*\<^sup>*"
  by unfold_locales
    (auto simp: mem_store_def mem_db_def time_ok_def year0_def year10000_def ErrNoRows_def ErrRepoNotFound_def
      dest!: pop_fault_frame dest: sql_exec_err split: prod.splits if_splits option.splits)

section \<open>The properties of the store\<close>

lemma add_effect_step:
  "NormalizeRepo raw = Inr repo \<Longrightarrow> add_effect repo SourceManual '''' x t t' \<Longrightarrow> repo_step t t'"
  by (auto simp: add_effect_def intro: step_add)

lemma approve_effect_step: "approve_effect i e t t' \<Longrightarrow> repo_step t t'"
  by (auto simp: approve_effect_def intro: step_approve)

lemma request_effect_steps:
  assumes "NormalizeRepo raw = Inr repo" "reason_ok reason" "request_effect repo sid reason x t t'"
  shows "repo_step\<^sup>*\<^sup>* t t'"
proof (cases "t' = t")
  case False
  with assms(3) obtain r rest now where r: "\<not> on_list t repo" "pending_key t repo sid = []"
    "pending_key t' repo sid = r # rest" "t' = t\<lparr>access_requests := access_requests t @ [r]\<rparr>"
    "rr_reason r = reason" "rr_id r \<notin> rr_id ` set (access_requests t)"
    "rr_requested_at r = Format_RFC3339Nano now" "time_ok now"
    by (auto simp: request_effect_def split: if_splits prod.splits)
  then have "rr_repo r = repo" "rr_session_id r = sid"
    by (auto simp: pending_key_def dest!: filter_eq_ConsD)
  with r assms(1,2) have "repo_step t t'" using step_request [of raw r t now] by simp
  then show ?thesis by blast
qed simp

text \<open>The calls of the store that may write.\<close>

definition repo_call :: "'w RepoStore \<Rightarrow> 'w \<Rightarrow> 'w \<Rightarrow> bool" where
  "repo_call S w w' =
     ((\<exists>raw r. repo_Add S raw w = (r, w')) \<or> (\<exists>raw r. repo_Remove S raw w = (r, w')) \<or>
      (\<exists>raw sid reason r. repo_Request S raw sid reason w = (r, w')) \<or>
      (\<exists>i r. repo_Approve S i w = (r, w')) \<or> (\<exists>i r. repo_Reject S i w = (r, w')))"

lemma refused_input:
  "NormalizeRepo raw = Inl e \<Longrightarrow> repo_Add S raw w = (Inl e, w) \<and> repo_Remove S raw w = (Inl e, w) \<and>
     repo_Request S raw sid reason w = (Inl e, w)"
  by (simp add: repo_Add_def repo_Remove_def repo_Request_def bindE_def lift_def)

context sql_engine
begin

lemma outcome_steps:
  assumes "\<exists>t. rely (durable w) t \<and> outcome R t r (durable w')" "\<And>x t t'. R x t t' \<Longrightarrow> rely t t'"
  shows "rely (durable w) (durable w')"
proof -
  from assms(1) obtain t where t: "rely (durable w) t" "outcome R t r (durable w')" by blast
  have "rely t (durable w')" using t(2) assms(2) rely_trans unfolding outcome_def by (cases r) (simp, blast)+
  with t(1) show ?thesis by (rule rely_trans)
qed

end

lemma add_steps:
  assumes "sql_engine S durable tx repo_step\<^sup>*\<^sup>*" "repo_Add S raw w = (r, w')"
  shows "repo_step\<^sup>*\<^sup>* (durable w) (durable w')"
proof (cases "NormalizeRepo raw")
  case (Inl e)
  with assms(2) refused_input [OF Inl, of S w] show ?thesis by simp
next
  case (Inr repo)
  show ?thesis
    by (rule sql_engine.outcome_steps [OF assms(1) sql_engine.add_outcome [OF assms(1) Inr assms(2)]])
      (blast dest: add_effect_step [OF Inr])
qed

lemma remove_steps:
  assumes "sql_engine S durable tx repo_step\<^sup>*\<^sup>*" "repo_Remove S raw w = (r, w')"
  shows "repo_step\<^sup>*\<^sup>* (durable w) (durable w')"
proof (cases "NormalizeRepo raw")
  case (Inl e)
  with assms(2) refused_input [OF Inl, of S w] show ?thesis by simp
next
  case (Inr repo)
  show ?thesis
    by (rule sql_engine.outcome_steps [OF assms(1) sql_engine.remove_outcome [OF assms(1) Inr assms(2)]])
      (auto intro!: r_into_rtranclp step_remove [OF Inr])
qed

lemma request_steps:
  assumes "sql_engine S durable tx repo_step\<^sup>*\<^sup>*" "repo_Request S raw sid reason w = (r, w')"
  shows "repo_step\<^sup>*\<^sup>* (durable w) (durable w')"
proof (cases "NormalizeRepo raw")
  case (Inl e)
  with assms(2) refused_input [OF Inl, of S w] show ?thesis by simp
next
  case (Inr repo)
  show ?thesis
  proof (cases "reason_ok (TrimSpace reason) \<and> TrimSpace sid \<noteq> ''''")
    case True
    then show ?thesis
      by (intro sql_engine.outcome_steps [OF assms(1) sql_engine.request_outcome [OF assms(1) Inr assms(2)]])
        (blast dest: request_effect_steps [OF Inr])+
  next
    case False
    with assms(2) Inr have "w' = w"
      by (auto simp: repo_Request_def bindE_def lift_def Let_def reason_ok_def throw_def split: if_splits)
    then show ?thesis by simp
  qed
qed

lemma approve_steps:
  assumes "sql_engine S durable tx repo_step\<^sup>*\<^sup>*" "repo_Approve S i w = (r, w')"
  shows "repo_step\<^sup>*\<^sup>* (durable w) (durable w')"
  by (rule sql_engine.outcome_steps [OF assms(1) sql_engine.approve_outcome [OF assms]])
    (blast dest: approve_effect_step)

lemma reject_steps:
  assumes "sql_engine S durable tx repo_step\<^sup>*\<^sup>*" "repo_Reject S i w = (r, w')"
  shows "repo_step\<^sup>*\<^sup>* (durable w) (durable w')"
  by (rule sql_engine.outcome_steps [OF assms(1) sql_engine.reject_outcome [OF assms]])
    (auto intro!: r_into_rtranclp step_reject)

lemma pending_unique:
  assumes "wf_tables t" "pending_key t repo sid = r # rest"
  shows "rest = []"
proof -
  have "distinct (map (\<lambda>r. (rr_repo r, rr_session_id r)) (pending_key t repo sid))"
    using assms(1) by (simp add: wf_tables_def pending_key_def distinct_map_filter)
  moreover have "\<forall>x \<in> set (pending_key t repo sid). (rr_repo x, rr_session_id x) = (repo, sid)"
    by (auto simp: pending_key_def)
  ultimately show ?thesis using assms(2) by (cases rest) auto
qed

text \<open>C36: the store is a machine with atomic steps. Whatever a call of Add, Remove, Request, Approve
  or Reject meets (invalid input, a fault of the engine at any statement, a commit in doubt),
  the committed tables only move along steps of the abstract machine, so the invariant of the
  tables survives every call and every interleaving with other calls: one entry per
  repository, one pending request per repository and session, well-formed names, reasons
  within the limit, and times that can be read back.\<close>

theorem repo_tables_invariant:
  assumes "sql_engine S durable tx repo_step\<^sup>*\<^sup>*" "repo_call S w w'"
  shows "repo_step\<^sup>*\<^sup>* (durable w) (durable w') \<and> (wf_tables (durable w) \<longrightarrow> wf_tables (durable w'))"
proof -
  have "repo_step\<^sup>*\<^sup>* (durable w) (durable w')"
    using assms(2) add_steps [OF assms(1)] remove_steps [OF assms(1)] request_steps [OF assms(1)]
      approve_steps [OF assms(1)] reject_steps [OF assms(1)]
    unfolding repo_call_def by (elim disjE exE) blast+
  then show ?thesis using repo_steps_wf by blast
qed

text \<open>Approval is all or nothing. Let \<open>rely\<close> be whatever other requests may
  do to the tables. When Approve succeeds, there was one instant at which the
  request was pending and at which its repository went on the list and every request for that
  repository, of whatever session, was cleared, all other entries and requests staying as they
  were. When it fails, either nothing happened or, if the commit was in doubt, all of that.\<close>

theorem approve_all_or_nothing:
  assumes "sql_engine S durable tx rely" "repo_Approve S i w = (res, w')"
  shows "(\<exists>t r t'. rely (durable w) t \<and> r \<in> set (access_requests t) \<and> rr_id r = i \<and>
      (\<forall>repo. on_list t' repo \<longleftrightarrow> on_list t repo \<or> repo = rr_repo r) \<and>
      access_requests t' = filter (\<lambda>q. rr_repo q \<noteq> rr_repo r) (access_requests t) \<and>
      rely t' (durable w') \<and> (\<forall>e. res = Inr e \<longrightarrow> en_Repo e = rr_repo r)) \<or>
    ((\<exists>e. res = Inl e) \<and> rely (durable w) (durable w'))"
proof -
  obtain t where t: "rely (durable w) t" "sql_engine.outcome rely (approve_effect i) t res (durable w')"
    using sql_engine.approve_outcome [OF assms] by blast
  have eff: "(\<forall>repo. on_list t' repo \<longleftrightarrow> on_list t repo \<or> repo = rr_repo r) \<and>
      access_requests t' = filter (\<lambda>q. rr_repo q \<noteq> rr_repo r) (access_requests t)"
    if "t' = spec_approve r now t" for t' r now
    using that by (auto simp: spec_approve_def spec_add_def on_list_iff)
  show ?thesis
  proof (cases res)
    case (Inr e)
    with t(2) obtain r now t' where "r \<in> set (access_requests t)" "rr_id r = i" "t' = spec_approve r now t"
      "en_Repo e = rr_repo r" "rely t' (durable w')"
      by (auto simp: sql_engine.outcome_def [OF assms(1)] approve_effect_def)
    with eff t(1) Inr show ?thesis by blast
  next
    case (Inl e)
    with t(2) consider "rely t (durable w')"
      | r now t' where "r \<in> set (access_requests t)" "rr_id r = i" "t' = spec_approve r now t"
        "rely t' (durable w')"
      by (auto simp: sql_engine.outcome_def [OF assms(1)] approve_effect_def)
    then show ?thesis
      by cases (use eff t(1) Inl sql_engine.rely_trans [OF assms(1)] in blast)+
  qed
qed

text \<open>Asking twice is asking once. A successful Request answers at one instant: for a repository
  on the list it answers allowed and records nothing; otherwise the session has exactly one
  pending request for that repository afterwards, the one whose id is returned, and if there
  was one already it is that one, unchanged.\<close>

theorem request_once:
  assumes "sql_engine S durable tx repo_step\<^sup>*\<^sup>*" "wf_tables (durable w)"
    and "repo_Request S raw sid reason w = (Inr (q, status), w')"
  shows "\<exists>t t' repo. NormalizeRepo raw = Inr repo \<and> repo_step\<^sup>*\<^sup>* (durable w) t \<and> repo_step\<^sup>*\<^sup>* t' (durable w') \<and>
    (if on_list t repo then status = StatusAllowed \<and> t' = t
     else status = StatusPending \<and>
       (\<exists>r. pending_key t' repo sid = [r] \<and> rr_id r = rq_ID q \<and> rr_reason r = rq_Reason q \<and>
          allowlist t' = allowlist t \<and>
          (access_requests t' = access_requests t \<or>
           pending_key t repo sid = [] \<and> access_requests t' = access_requests t @ [r] \<and>
           rq_Reason q = TrimSpace reason)))"
proof -
  obtain repo where repo: "NormalizeRepo raw = Inr repo"
    using assms(3) by (cases "NormalizeRepo raw") (auto simp: repo_Request_def bindE_def lift_def)
  have ok: "reason_ok (TrimSpace reason)" "TrimSpace sid \<noteq> ''''"
    using assms(3) repo
    by (auto simp: repo_Request_def bindE_def lift_def Let_def reason_ok_def throw_def split: if_splits)
  obtain t t' where t: "repo_step\<^sup>*\<^sup>* (durable w) t" "repo_step\<^sup>*\<^sup>* t' (durable w')"
    and eff: "request_effect repo sid (TrimSpace reason) (q, status) t t'"
    using sql_engine.request_outcome [OF assms(1) repo assms(3) ok]
    by (auto simp: sql_engine.outcome_def [OF assms(1)])
  have "wf_tables t'"
    using repo_steps_wf [OF request_effect_steps [OF repo ok(1) eff]] repo_steps_wf [OF t(1) assms(2)] by blast
  then have one: "pending_key t' repo sid = r # rest \<Longrightarrow> rest = []" for r rest
    by (rule pending_unique)
  have fields: "scan_request_row r False = Inr q \<Longrightarrow> rr_id r = rq_ID q \<and> rr_reason r = rq_Reason q" for r
    by (auto simp: scan_request_row_def split: sum.splits)
  show ?thesis
  proof (cases "on_list t repo")
    case True
    with eff t repo show ?thesis by (auto simp: request_effect_def)
  next
    case False
    with eff obtain r rest where r: "status = StatusPending" "pending_key t' repo sid = r # rest"
      "scan_request_row r False = Inr q"
      "t' = t \<or> pending_key t repo sid = [] \<and> t' = t\<lparr>access_requests := access_requests t @ [r]\<rparr> \<and>
         rr_reason r = TrimSpace reason"
      by (auto simp: request_effect_def split: if_splits)
    with one [of r rest] have "pending_key t' repo sid = [r]" by simp
    with False t repo fields [OF r(3)] r show ?thesis by (intro exI conjI) auto
  qed
qed

section \<open>The order of the request queue\<close>

lemma pad_digits_numeral:
  "pad_digits (numeral k) n = pad_digits (pred_numeral k) (n div 10) @ [digit (n mod 10)]"
  by (subst numeral_eq_Suc) (rule pad_digits.simps)

lemma digit_chars: "digit 0 = CHR ''0''" "digit 1 = CHR ''1''" "digit 2 = CHR ''2''" "digit 7 = CHR ''7''"
  "digit 9 = CHR ''9''"
  by (simp_all add: digit_def char_of_def bit_0)

lemma epoch_date: "date_of_days 719528 = (1970, 1, 1)"
  by (simp add: date_of_days_def split_year_def split_cycles_def month_days_def)

lemma early_fracs: "frac 100000000 = ''.1''" "frac 120000000 = ''.12''"
  using digit_chars by (simp_all add: frac_def pad_digits_numeral)

lemma epoch_format:
  assumes "n < 1000000000"
  shows "Format_RFC3339Nano (int n) = ''1970-01-01T00:00:00'' @ frac n @ ''Z''"
proof -
  have "nat (int n - year0) = 719528 * 86400 * 1000000000 + n" by (simp add: year0_def)
  then have d: "nat (int n - year0) div 1000000000 = 719528 * 86400" "nat (int n - year0) mod 1000000000 = n"
    using assms by (simp, metis mod_less mod_mult_self3)
  have s: "(719528 * 86400 :: nat) div 86400 = 719528" "(719528 * 86400 :: nat) mod 86400 = 0" by simp_all
  show ?thesis
    unfolding Format_RFC3339Nano_def Let_def d s epoch_date
    using digit_chars by (simp add: pad4_def pad2_def)
qed

lemma early_texts:
  "Format_RFC3339Nano 100000000 = ''1970-01-01T00:00:00.1Z''"
  "Format_RFC3339Nano 120000000 = ''1970-01-01T00:00:00.12Z''"
  using epoch_format [of 100000000] epoch_format [of 120000000] by (simp_all add: early_fracs)

definition queue_example :: memdb where
  "queue_example =
     \<lparr>md_tables = migrate\<lparr>access_requests :=
        [\<lparr>rr_id = ''rq_a'', rr_repo = ''o/a'', rr_session_id = ''s'', rr_reason = ''x'',
          rr_requested_at = Format_RFC3339Nano 100000000\<rparr>,
         \<lparr>rr_id = ''rq_b'', rr_repo = ''o/b'', rr_session_id = ''s'', rr_reason = ''x'',
          rr_requested_at = Format_RFC3339Nano 120000000\<rparr>]\<rparr>,
      md_tx = None, md_faults = [], md_clock = 0\<rparr>"

text \<open>The queue is not listed oldest first. Times are stored as text without trailing zeros in
  the fraction and ordered as text, so of two requests made within one second the later one
  can come first; here 0.12 s sorts before 0.1 s.\<close>

theorem requests_not_oldest_first:
  "wf_tables (md_tables queue_example) \<and>
   (\<exists>q1 q2 w. repo_Requests mem_store queue_example = (Inr [q1, q2], w) \<and> rq_RequestedAt q2 < rq_RequestedAt q1)"
proof
  have p: "repoPattern ''o/a''" "repoPattern ''o/b''" by code_simp+
  have c: "rune_count ''x'' = 1" by (simp add: rune_count.simps announced_def)
  show "wf_tables (md_tables queue_example)"
    using p c parses_Format [of 100000000] parses_Format [of 120000000]
    by (simp add: wf_tables_def queue_example_def migrate_def reason_ok_def maxReasonRunes_def
        time_ok_def year0_def year10000_def)
next
  have t: "Parse_RFC3339Nano (Format_RFC3339Nano 100000000) = Some 100000000"
    "Parse_RFC3339Nano (Format_RFC3339Nano 120000000) = Some 120000000"
    by (simp_all add: Parse_Format time_ok_def year0_def year10000_def)
  have o: "Format_RFC3339Nano 120000000 < Format_RFC3339Nano 100000000"
    unfolding early_texts by (simp add: less_char_def)
  show "\<exists>q1 q2 w. repo_Requests mem_store queue_example = (Inr [q1, q2], w) \<and> rq_RequestedAt q2 < rq_RequestedAt q1"
    using t o less_not_sym [OF o] less_imp_neq [OF o]
    by (simp add: repo_Requests_def mem_store_def mem_db_def queue_example_def migrate_def pop_fault_def bindE_def
        lift_def order_by_def request_before_def scan_request_row_def parse_time_def on_list_def)
qed

section \<open>Witnesses\<close>

definition one_request :: memdb where
  "one_request =
     \<lparr>md_tables = migrate\<lparr>access_requests :=
        [\<lparr>rr_id = ''rq_a'', rr_repo = ''o/a'', rr_session_id = ''s'', rr_reason = ''x'',
          rr_requested_at = Format_RFC3339Nano 0\<rparr>]\<rparr>,
      md_tx = None, md_faults = [], md_clock = 0\<rparr>"

lemmas mem_run_simps = mem_store_def mem_db_def one_request_def migrate_def pop_fault_def with_tx_def
  bindE_def thenE_def tryE_def lift_def ret_def throw_def defer_with_def scan_request_row_def parse_time_def
  on_list_def pending_key_def

lemma parse_epoch: "Parse_RFC3339Nano (Format_RFC3339Nano 0) = Some 0"
  by (simp add: Parse_Format time_ok_def year0_def year10000_def)

lemma approve_runs:
  "\<exists>e w'. repo_Approve mem_store ''rq_a'' one_request = (Inr e, w')"
  by (simp add: repo_Approve_def requestByID_def addTx_def rs_Now_def mem_run_simps parse_epoch)

lemma wf_one_request: "wf_tables (md_tables one_request)"
proof -
  have p: "repoPattern ''o/a''" by code_simp
  have c: "rune_count ''x'' = 1" by (simp add: rune_count.simps announced_def)
  show ?thesis
    using p c parse_epoch
    by (simp add: wf_tables_def one_request_def migrate_def reason_ok_def maxReasonRunes_def parses_def)
qed

theorem repo_tables_invariant_witness:
  "\<exists>w'. repo_call mem_store one_request w' \<and> repo_step\<^sup>*\<^sup>* (md_tables one_request) (md_tables w')"
proof -
  obtain r w' where "repo_Approve mem_store ''rq_a'' one_request = (r, w')" by fastforce
  then have c: "repo_call mem_store one_request w'" by (auto simp: repo_call_def)
  with repo_tables_invariant [OF mem_sql.sql_engine_axioms c] show ?thesis by blast
qed

theorem approve_all_or_nothing_witness:
  "\<exists>e w' (t :: Tables) r. repo_Approve mem_store ''rq_a'' one_request = (Inr e, w') \<and> r \<in> set (access_requests t) \<and>
     rr_id r = ''rq_a'' \<and> en_Repo e = rr_repo r"
proof -
  obtain e w' where run: "repo_Approve mem_store ''rq_a'' one_request = (Inr e, w')"
    using approve_runs by blast
  from approve_all_or_nothing [OF mem_sql.sql_engine_axioms run]
  have "\<exists>(t :: Tables) r. r \<in> set (access_requests t) \<and> rr_id r = ''rq_a'' \<and> en_Repo e = rr_repo r" by simp blast
  with run show ?thesis by blast
qed

lemma request_runs:
  "\<exists>q w'. repo_Request mem_store ''O/A'' ''s'' ''please'' one_request = (Inr (q, StatusPending), w')"
proof -
  have n: "NormalizeRepo ''O/A'' = Inr ''o/a''" "TrimSpace ''please'' = ''please''" "TrimSpace ''s'' = ''s''"
    by code_simp+
  have c: "rune_count ''please'' = 6" by (simp add: rune_count.simps announced_def)
  show ?thesis
    by (simp add: repo_Request_def n c maxReasonRunes_def Let_def request_tx_def requestByKey_def mem_run_simps
        parse_epoch)
qed

theorem request_once_witness:
  "\<exists>q status w' t repo. repo_Request mem_store ''O/A'' ''s'' ''please'' one_request = (Inr (q, status), w') \<and>
     NormalizeRepo ''O/A'' = Inr repo \<and> repo_step\<^sup>*\<^sup>* (md_tables one_request) t"
proof -
  obtain q w' where run: "repo_Request mem_store ''O/A'' ''s'' ''please'' one_request = (Inr (q, StatusPending), w')"
    using request_runs by blast
  from request_once [OF mem_sql.sql_engine_axioms wf_one_request run] run show ?thesis by blast
qed

end
