(* ===== verification/Stream_Filter.thy ===== *)
theory Stream_Filter
  imports Prelude
begin

text \<open>
  Writers that transform a byte stream chunk by chunk: \<open>push\<close> takes the next chunk and releases
  what is safe, \<open>finish\<close> flushes what was held back. The contract \<open>stream_filter\<close> says what makes
  such a writer correct: there is a function of the whole remaining input, \<open>whole\<close>, of which
  every push releases a prefix. Its consequence is that the output depends on the bytes only
  and not on how they were cut into chunks. Filters compose, as writers do.
\<close>

fun run_filter :: "('s \<Rightarrow> string \<Rightarrow> string \<times> 's) \<Rightarrow> ('s \<Rightarrow> string) \<Rightarrow> 's \<Rightarrow> string list \<Rightarrow> string" where
  "run_filter push finish s [] = finish s"
| "run_filter push finish s (c # cs) =
     (case push s c of (out, s') \<Rightarrow> out @ run_filter push finish s' cs)"

locale stream_filter =
  fixes push :: "'s \<Rightarrow> string \<Rightarrow> string \<times> 's"
    and finish :: "'s \<Rightarrow> string"
    and whole :: "'s \<Rightarrow> string \<Rightarrow> string"
    and ok :: "'s \<Rightarrow> bool"
  assumes push_whole: "ok s \<Longrightarrow> push s x = (out, s') \<Longrightarrow> whole s (x @ y) = out @ whole s' y"
    and push_ok: "ok s \<Longrightarrow> push s x = (out, s') \<Longrightarrow> ok s'"
    and finish_whole: "ok s \<Longrightarrow> finish s = whole s []"
begin

lemma run_whole: "ok s \<Longrightarrow> run_filter push finish s cs = whole s (concat cs)"
proof (induction cs arbitrary: s)
  case Nil
  then show ?case by (simp add: finish_whole)
next
  case (Cons c cs)
  obtain out s' where p: "push s c = (out, s')" by fastforce
  with Cons push_whole [OF Cons.prems p] push_ok [OF Cons.prems p] show ?case by simp
qed

lemma run_chunking:
  "ok s \<Longrightarrow> concat cs = concat ds \<Longrightarrow> run_filter push finish s cs = run_filter push finish s ds"
  by (simp add: run_whole)

end

text \<open>One writer behind another, as \<open>newA(newB(dst))\<close>: A writes into B, and closing A flushes
  into B before B is closed.\<close>

definition pipe_push ::
    "('s \<Rightarrow> string \<Rightarrow> string \<times> 's) \<Rightarrow> ('t \<Rightarrow> string \<Rightarrow> string \<times> 't) \<Rightarrow> 's \<times> 't \<Rightarrow> string \<Rightarrow> string \<times> ('s \<times> 't)" where
  "pipe_push pushA pushB st x =
     (case pushA (fst st) x of (mid, s') \<Rightarrow> case pushB (snd st) mid of (out, t') \<Rightarrow> (out, (s', t')))"

definition pipe_finish ::
    "('s \<Rightarrow> string) \<Rightarrow> ('t \<Rightarrow> string \<Rightarrow> string \<times> 't) \<Rightarrow> ('t \<Rightarrow> string) \<Rightarrow> 's \<times> 't \<Rightarrow> string" where
  "pipe_finish finishA pushB finishB st =
     (case pushB (snd st) (finishA (fst st)) of (out, t') \<Rightarrow> out @ finishB t')"

lemma stream_filter_pipe:
  assumes "stream_filter pushA finishA wholeA okA" "stream_filter pushB finishB wholeB okB"
  shows "stream_filter (pipe_push pushA pushB) (pipe_finish finishA pushB finishB)
    (\<lambda>st x. wholeB (snd st) (wholeA (fst st) x)) (\<lambda>st. okA (fst st) \<and> okB (snd st))"
proof
  fix st x out st' y
  assume ok: "okA (fst st) \<and> okB (snd st)" and p: "pipe_push pushA pushB st x = (out, st')"
  then obtain mid where a: "pushA (fst st) x = (mid, fst st')" and b: "pushB (snd st) mid = (out, snd st')"
    by (auto simp: pipe_push_def split: prod.splits)
  show "wholeB (snd st) (wholeA (fst st) (x @ y)) = out @ wholeB (snd st') (wholeA (fst st') y)"
    using ok stream_filter.push_whole [OF assms(1) _ a] stream_filter.push_whole [OF assms(2) _ b] by simp
  show "okA (fst st') \<and> okB (snd st')"
    using ok stream_filter.push_ok [OF assms(1) _ a] stream_filter.push_ok [OF assms(2) _ b] by simp
next
  fix st assume ok: "okA (fst st) \<and> okB (snd st)"
  obtain out t' where b: "pushB (snd st) (finishA (fst st)) = (out, t')" by fastforce
  have "wholeB (snd st) (finishA (fst st) @ []) = out @ wholeB t' []"
    using ok stream_filter.push_whole [OF assms(2) _ b] by blast
  moreover have "finishB t' = wholeB t' []"
    using ok stream_filter.push_ok [OF assms(2) _ b] stream_filter.finish_whole [OF assms(2)] by blast
  ultimately show "pipe_finish finishA pushB finishB st = wholeB (snd st) (wholeA (fst st) [])"
    using ok b stream_filter.finish_whole [OF assms(1)] by (simp add: pipe_finish_def)
qed

text \<open>A writer without memory that maps every byte to some bytes.\<close>

lemma stream_filter_bytes:
  "stream_filter (\<lambda>s x. (concat (map f x), s)) (\<lambda>s. []) (\<lambda>s x. concat (map f x)) (\<lambda>s. True)"
  by unfold_locales auto

end
