(* ===== verification/Redactor.thy ===== *)
theory Redactor
  imports Stream_Filter
begin

text \<open>
  \<open>data-plane/cmd/agent/claude_stream.go\<close>, \<open>streamingRedactor\<close>: replaces credential literals in
  a stream of chunks, holding back a suffix that may still grow into a literal. The whole-input
  function is the same replacement on the complete text; for one literal it is
  \<open>bytes.ReplaceAll\<close>.
\<close>

definition redactedLiteral :: string where "redactedLiteral = ''[REDACTED]''"

text \<open>\<open>bytes.Index\<close>.\<close>

fun bytes_Index :: "string \<Rightarrow> string \<Rightarrow> nat option" where
  "bytes_Index [] lit = (if lit = [] then Some 0 else None)"
| "bytes_Index (c # cs) lit =
     (if is_prefix lit (c # cs) then Some 0 else map_option Suc (bytes_Index cs lit))"

record streamingRedactor =
  literals :: "string list"
  pending :: string

definition newStreamingRedactor :: "string list \<Rightarrow> streamingRedactor" where
  "newStreamingRedactor lits = \<lparr>literals = filter (\<lambda>l. l \<noteq> []) lits, pending = []\<rparr>"

text \<open>The scan for the earliest match, the longest literal at that place. Empty literals never
  get into a redactor; the scan passes over them.\<close>

fun best_match :: "string \<Rightarrow> (nat \<times> nat) option \<Rightarrow> string list \<Rightarrow> (nat \<times> nat) option" where
  "best_match s best [] = best"
| "best_match s best (lit # lits) =
     best_match s
       (case bytes_Index s lit of
          None \<Rightarrow> best
        | Some at \<Rightarrow>
            if lit = [] then best
            else (case best of
               None \<Rightarrow> Some (at, length lit)
             | Some (bat, blen) \<Rightarrow>
                 if at < bat \<or> (at = bat \<and> blen < length lit) then Some (at, length lit) else best))
       lits"

text \<open>The longest proper prefix of a literal that ends \<open>s\<close>: the inner loop counts down from the
  longest candidate to one above the best so far.\<close>

fun keep_one :: "string \<Rightarrow> string \<Rightarrow> nat \<Rightarrow> nat \<Rightarrow> nat" where
  "keep_one s lit keep 0 = keep"
| "keep_one s lit keep (Suc n) =
     (if Suc n \<le> keep then keep
      else if drop (length s - Suc n) s = take (Suc n) lit then Suc n
      else keep_one s lit keep n)"

fun keep_all :: "string \<Rightarrow> nat \<Rightarrow> string list \<Rightarrow> nat" where
  "keep_all s keep [] = keep"
| "keep_all s keep (lit # lits) =
     keep_all s (keep_one s lit keep (min (length lit - 1) (length s))) lits"

text \<open>What \<open>best_match\<close> finds.\<close>

definition occurs :: "string list \<Rightarrow> string \<Rightarrow> nat \<Rightarrow> string \<Rightarrow> bool" where
  "occurs lits s i lit = (lit \<in> set lits \<and> lit \<noteq> [] \<and> is_prefix lit (drop i s))"

lemma bytes_Index_Some:
  "bytes_Index s lit = Some i \<Longrightarrow> is_prefix lit (drop i s) \<and> (\<forall>j < i. \<not> is_prefix lit (drop j s))"
proof (induction s arbitrary: i)
  case (Cons c cs)
  show ?case
  proof (cases "is_prefix lit (c # cs)")
    case False
    with Cons.prems obtain k where k: "bytes_Index cs lit = Some k" "i = Suc k" by auto
    with Cons.IH [of k] False show ?thesis by (auto simp: less_Suc_eq_0_disj)
  qed (use Cons.prems in auto)
qed (auto split: if_splits)

lemma bytes_Index_None: "bytes_Index s lit = None \<Longrightarrow> lit \<noteq> [] \<Longrightarrow> \<not> is_prefix lit (drop i s)"
proof (induction s arbitrary: i)
  case Nil
  then show ?case by (cases lit) auto
next
  case (Cons c cs)
  then show ?case by (cases i) (auto split: if_splits)
qed

definition best_of :: "string list \<Rightarrow> string \<Rightarrow> (nat \<times> nat) option \<Rightarrow> bool" where
  "best_of lits s b =
     (case b of
        None \<Rightarrow> \<forall>i lit. \<not> occurs lits s i lit
      | Some (at, n) \<Rightarrow> (\<exists>lit. occurs lits s at lit \<and> n = length lit) \<and>
          (\<forall>i lit. occurs lits s i lit \<longrightarrow> at < i \<or> (at = i \<and> length lit \<le> n)))"

lemma best_match_best:
  "best_of seen s b \<Longrightarrow> best_of (seen @ lits) s (best_match s b lits)"
proof (induction lits arbitrary: b seen)
  case (Cons lit lits)
  define b' where "b' = (case bytes_Index s lit of
          None \<Rightarrow> b
        | Some at \<Rightarrow>
            if lit = [] then b
            else (case b of
               None \<Rightarrow> Some (at, length lit)
             | Some (bat, blen) \<Rightarrow>
                 if at < bat \<or> (at = bat \<and> blen < length lit) then Some (at, length lit) else b))"
  have seen1: "occurs (seen @ [lit]) s i l \<longleftrightarrow> occurs seen s i l \<or> (l = lit \<and> occurs [lit] s i lit)" for i l
    by (auto simp: occurs_def)
  have "best_of (seen @ [lit]) s b'"
  proof (cases "bytes_Index s lit")
    case None
    then have "\<not> occurs [lit] s i lit" for i using bytes_Index_None by (auto simp: occurs_def)
    with Cons.prems None show ?thesis unfolding best_of_def b'_def seen1 by (auto split: option.splits)
  next
    case (Some at)
    show ?thesis
    proof (cases "lit = []")
      case True
      then have "\<not> occurs [lit] s i lit" for i by (simp add: occurs_def)
      with Cons.prems Some True show ?thesis unfolding best_of_def b'_def seen1 by (auto split: option.splits)
    next
      case False
      have o: "occurs [lit] s at lit" "\<And>i. occurs [lit] s i lit \<Longrightarrow> at \<le> i"
        using bytes_Index_Some [OF Some] False by (auto simp: occurs_def not_less [symmetric])
      with Cons.prems Some False show ?thesis
        unfolding best_of_def b'_def seen1
        by (auto split: option.splits if_splits; use o in \<open>fastforce dest: le_neq_implies_less\<close>)
    qed
  qed
  from Cons.IH [OF this] show ?case by (simp add: b'_def)
qed simp

lemma best_match_spec: "best_of lits s (best_match s None lits)"
  using best_match_best [of "[]" s None lits] by (simp add: best_of_def occurs_def)

definition held :: "string list \<Rightarrow> string \<Rightarrow> nat \<Rightarrow> bool" where
  "held lits s n = (n = 0 \<or> (\<exists>lit \<in> set lits. n < length lit \<and> n \<le> length s \<and>
     drop (length s - n) s = take n lit))"

lemma keep_one_spec:
  "n \<le> min (length lit - 1) (length s) \<Longrightarrow> keep \<le> keep_one s lit keep n \<and>
   (keep_one s lit keep n = keep \<or> held [lit] s (keep_one s lit keep n)) \<and>
   (\<forall>m \<le> n. held [lit] s m \<longrightarrow> m \<le> keep_one s lit keep n)"
proof (induction n)
  case 0
  then show ?case by (auto simp: held_def)
next
  case (Suc n)
  show ?case
  proof (cases "Suc n \<le> keep")
    case True
    then show ?thesis by auto
  next
    case False
    show ?thesis
    proof (cases "drop (length s - Suc n) s = take (Suc n) lit")
      case True
      with False Suc.prems show ?thesis by (auto simp: held_def)
    next
      case miss: False
      then have "\<not> held [lit] s (Suc n)" by (simp add: held_def)
      with Suc miss False show ?thesis by (auto simp: le_Suc_eq)
    qed
  qed
qed

lemma keep_all_spec:
  "keep \<le> keep_all s keep lits \<and> (keep_all s keep lits = keep \<or> held lits s (keep_all s keep lits)) \<and>
   (\<forall>m. held lits s m \<longrightarrow> m \<le> keep_all s keep lits)"
proof (induction lits arbitrary: keep)
  case Nil
  then show ?case by (simp add: held_def)
next
  case (Cons lit lits)
  define k where "k = keep_one s lit keep (min (length lit - 1) (length s))"
  have split: "held (lit # lits) s m \<longleftrightarrow> held [lit] s m \<or> held lits s m" for m by (auto simp: held_def)
  have top: "held [lit] s m \<Longrightarrow> m \<le> min (length lit - 1) (length s)" for m by (auto simp: held_def)
  have one: "keep \<le> k" "k = keep \<or> held [lit] s k" "\<And>m. held [lit] s m \<Longrightarrow> m \<le> k"
    using keep_one_spec [of "min (length lit - 1) (length s)" lit s keep] top unfolding k_def by auto
  define k' where "k' = keep_all s k lits"
  have ih: "k \<le> k'" "k' = k \<or> held lits s k'" "\<And>m. held lits s m \<Longrightarrow> m \<le> k'"
    using Cons.IH [of k] unfolding k'_def by auto
  have "keep_all s keep (lit # lits) = k'" by (simp add: k_def k'_def)
  moreover have "keep \<le> k'" using one(1) ih(1) by simp
  moreover have "k' = keep \<or> held (lit # lits) s k'" unfolding split using one(2) ih(2) by auto
  moreover have "m \<le> k'" if "held (lit # lits) s m" for m
    using that one(3) [of m] ih(1) ih(3) [of m] unfolding split by linarith
  ultimately show ?case by simp
qed

lemma keep_spec: "held lits s (keep_all s 0 lits)" "held lits s m \<Longrightarrow> m \<le> keep_all s 0 lits"
  using keep_all_spec [of 0 s lits] by (auto simp: held_def)

lemma best_match_pos: "best_match s None lits = Some (at, n) \<Longrightarrow> 0 < n \<and> at + n \<le> length s"
proof -
  assume "best_match s None lits = Some (at, n)"
  with best_match_spec [of lits s] obtain lit zs where "lit \<noteq> []" "n = length lit" "drop at s = lit @ zs"
    by (auto simp: best_of_def occurs_def is_prefix_iff)
  moreover from this have "length s - at = length lit + length zs" by (metis length_append length_drop)
  ultimately show ?thesis by (cases lit) auto
qed

section \<open>The redactor\<close>

function drain :: "string list \<Rightarrow> bool \<Rightarrow> string \<Rightarrow> string \<times> string" where
  "drain lits final p =
     (if p = [] then ([], [])
      else
        (case best_match p None lits of
           Some (at, n) \<Rightarrow>
             (case drain lits final (drop (at + n) p) of (out, rest) \<Rightarrow>
                (take at p @ redactedLiteral @ out, rest))
         | None \<Rightarrow>
             if final then (p, [])
             else let k = keep_all p 0 lits in (take (length p - k) p, drop (length p - k) p)))"
  by pat_completeness auto
termination
  by (relation "measure (\<lambda>(lits, final, p). length p)") (auto dest!: best_match_pos)

declare drain.simps [simp del]

definition Push :: "streamingRedactor \<Rightarrow> string \<Rightarrow> string \<times> streamingRedactor" where
  "Push r p = (case drain (literals r) False (pending r @ p) of (out, rest) \<Rightarrow> (out, r\<lparr>pending := rest\<rparr>))"

definition Finish :: "streamingRedactor \<Rightarrow> string" where
  "Finish r = fst (drain (literals r) True (pending r))"

section \<open>Streaming equals replacing in the whole text\<close>

lemma best_of_unique:
  assumes "best_of lits s b" "best_of lits s c"
  shows "b = c"
proof (cases b)
  case None
  with assms show ?thesis by (cases c) (auto simp: best_of_def)
next
  case (Some p)
  obtain i n where p: "p = (i, n)" by fastforce
  with Some assms(1) obtain l where l: "occurs lits s i l" "n = length l"
    and first: "\<And>j m. occurs lits s j m \<Longrightarrow> i < j \<or> (i = j \<and> length m \<le> n)" by (auto simp: best_of_def)
  show ?thesis
  proof (cases c)
    case None
    with assms(2) l show ?thesis by (auto simp: best_of_def)
  next
    case (Some q)
    obtain j m where q: "q = (j, m)" by fastforce
    with Some assms(2) obtain l' where l': "occurs lits s j l'" "m = length l'"
      and "\<And>i' m'. occurs lits s i' m' \<Longrightarrow> j < i' \<or> (j = i' \<and> length m' \<le> m)" by (auto simp: best_of_def)
    from this(3) [OF l(1)] first [OF l'(1)] l l' show ?thesis using \<open>b = Some p\<close> Some p q by auto
  qed
qed

lemma best_match_eqI: "best_of lits s b \<Longrightarrow> best_match s None lits = b"
  using best_of_unique [OF best_match_spec] .

lemma occurs_shift [simp]: "occurs lits (u @ v) (length u + i) l = occurs lits v i l"
  by (simp add: occurs_def)

lemma best_match_shift:
  assumes "\<And>i l. i < length u \<Longrightarrow> \<not> occurs lits (u @ v) i l"
  shows "best_match (u @ v) None lits = map_option (\<lambda>(at, n). (length u + at, n)) (best_match v None lits)"
proof (rule best_match_eqI)
  have shift: "occurs lits (u @ v) i l \<longleftrightarrow> length u \<le> i \<and> occurs lits v (i - length u) l" for i l
    using assms [of i l] occurs_shift [of lits u v "i - length u" l] by (cases "i < length u") auto
  show "best_of lits (u @ v) (map_option (\<lambda>(at, n). (length u + at, n)) (best_match v None lits))"
    using best_match_spec [of lits v] unfolding best_of_def shift by (fastforce split: option.splits)
qed

lemma drain_final_nomatch: "best_match p None lits = None \<Longrightarrow> fst (drain lits True p) = p"
  by (simp add: drain.simps [of lits True p])

lemma drain_final_skip:
  assumes "\<And>i l. i < length u \<Longrightarrow> \<not> occurs lits (u @ v) i l"
  shows "fst (drain lits True (u @ v)) = u @ fst (drain lits True v)"
proof (cases "best_match v None lits")
  case None
  with best_match_shift [OF assms] show ?thesis by (simp add: drain_final_nomatch)
next
  case (Some b)
  obtain at n where b: "b = (at, n)" by fastforce
  with Some best_match_pos have "v \<noteq> []" by fastforce
  with Some b best_match_shift [OF assms] show ?thesis
    by (simp add: drain.simps [of lits True v] drain.simps [of lits True "u @ v"] split: prod.splits)
qed

text \<open>A set of literals is safe for streaming when no literal occurs in another one before that
  one is complete.\<close>

definition safe_literals :: "string list \<Rightarrow> bool" where
  "safe_literals lits =
     list_all (\<lambda>l. list_all (\<lambda>m. m = [] \<or> bytes_Index (butlast l) m = None) lits) lits"

lemma safe_literalsD:
  "safe_literals lits \<Longrightarrow> l \<in> set lits \<Longrightarrow> m \<in> set lits \<Longrightarrow> m \<noteq> [] \<Longrightarrow> \<not> is_prefix m (drop i (butlast l))"
proof -
  assume a: "safe_literals lits" "l \<in> set lits" "m \<in> set lits" "m \<noteq> []"
  then have "bytes_Index (butlast l) m = None" unfolding safe_literals_def list_all_iff by blast
  then show ?thesis using a(4) by (rule bytes_Index_None)
qed

lemma is_prefix_append_cases:
  "is_prefix l (x @ y) \<Longrightarrow> is_prefix l x \<or> (\<exists>z. l = x @ z \<and> z \<noteq> [] \<and> is_prefix z y)"
  by (auto simp: is_prefix_iff append_eq_append_conv2)

lemma occurs_extend:
  assumes "occurs lits (p @ q) i l" "\<not> occurs lits p i l" "i \<le> length p"
  shows "\<exists>z. l = drop i p @ z \<and> z \<noteq> []"
  using assms is_prefix_append_cases [of l "drop i p" q] by (auto simp: occurs_def)

lemma best_match_append:
  assumes "safe_literals lits" "best_match p None lits = Some (at, n)"
  shows "best_match (p @ q) None lits = Some (at, n)"
proof (rule best_match_eqI)
  obtain m where m: "occurs lits p at m" "n = length m"
    and first: "\<And>i l. occurs lits p i l \<Longrightarrow> at < i \<or> (at = i \<and> length l \<le> n)"
    using best_match_spec [of lits p] assms(2) by (auto simp: best_of_def)
  have len: "at + n \<le> length p" using best_match_pos [OF assms(2)] by simp
  have "at < i \<or> (at = i \<and> length l \<le> n)" if l: "occurs lits (p @ q) i l" for i l
  proof (rule ccontr)
    assume neg: "\<not> ?thesis"
    then have i: "i \<le> at" by simp
    have "\<not> occurs lits p i l" using first neg by blast
    with occurs_extend [OF l] i len obtain z where z: "l = drop i p @ z" "z \<noteq> []" by auto
    from m(1) obtain w where "drop at p = m @ w" by (auto simp: occurs_def is_prefix_iff)
    then have "drop (at - i) (drop i p) = m @ w" using i by simp
    then have "is_prefix m (drop (at - i) (butlast l))"
      using z i len by (auto simp: butlast_append is_prefix_iff)
    with safe_literalsD [OF assms(1)] l m(1) show False by (auto simp: occurs_def)
  qed
  moreover have "occurs lits (p @ q) at m" using m(1) by (auto simp: occurs_def is_prefix_iff)
  ultimately show "best_of lits (p @ q) (Some (at, n))" using m(2) by (auto simp: best_of_def)
qed

lemma kept_suffix:
  assumes "best_match p None lits = None" "i < length p - keep_all p 0 lits"
  shows "\<not> occurs lits (p @ q) i l"
proof
  assume o: "occurs lits (p @ q) i l"
  have "\<not> occurs lits p i l" using best_match_spec [of lits p] assms(1) by (auto simp: best_of_def)
  with occurs_extend [OF o] assms(2) obtain z where z: "l = drop i p @ z" "z \<noteq> []" by force
  have i: "i < length p" using assms(2) by simp
  have "0 < length z" using z(2) by simp
  moreover have "length l = (length p - i) + length z" using z(1) by simp
  ultimately have "length p - i < length l" by linarith
  moreover have "drop (length p - (length p - i)) p = take (length p - i) l" using i z(1) by simp
  moreover have "l \<in> set lits" using o by (simp add: occurs_def)
  ultimately have "held lits p (length p - i)" unfolding held_def by (intro disjI2 bexI [of _ l]) auto
  with keep_spec(2) [of lits p] assms(2) show False by fastforce
qed

lemma drain_append:
  assumes "safe_literals lits" "drain lits False p = (out, rest)"
  shows "fst (drain lits True (p @ q)) = out @ fst (drain lits True (rest @ q))"
  using assms(2)
proof (induction "length p" arbitrary: p out rule: less_induct)
  case less
  show ?case
  proof (cases "p = []")
    case True
    with less.prems show ?thesis by (simp add: drain.simps)
  next
    case False
    show ?thesis
    proof (cases "best_match p None lits")
      case None
      define k where "k = keep_all p 0 lits"
      have o: "out = take (length p - k) p" "rest = drop (length p - k) p"
        using less.prems None False by (simp_all add: drain.simps [of lits False p] k_def Let_def)
      have "fst (drain lits True (out @ (rest @ q))) = out @ fst (drain lits True (rest @ q))"
      proof (rule drain_final_skip)
        fix i l assume "i < length out"
        then show "\<not> occurs lits (out @ rest @ q) i l"
          using kept_suffix [OF None, of i q l] by (simp add: o k_def flip: append_assoc)
      qed
      then show ?thesis by (simp add: o flip: append_assoc)
    next
      case (Some b)
      obtain at n where b: "b = (at, n)" by fastforce
      note pos = best_match_pos [OF Some [unfolded b]]
      obtain out' where d: "drain lits False (drop (at + n) p) = (out', rest)"
        and out: "out = take at p @ redactedLiteral @ out'"
        using less.prems Some b False by (auto simp: drain.simps [of lits False p] split: prod.splits)
      have "fst (drain lits True (drop (at + n) p @ q)) = out' @ fst (drain lits True (rest @ q))"
        by (rule less.hyps [OF _ d]) (use pos in auto)
      with False pos out best_match_append [OF assms(1) Some [unfolded b]] show ?thesis
        by (auto simp: drain.simps [of lits True "p @ q"] split: prod.splits)
    qed
  qed
qed

definition redactor_whole :: "streamingRedactor \<Rightarrow> string \<Rightarrow> string" where
  "redactor_whole r x = fst (drain (literals r) True (pending r @ x))"

interpretation redactor: stream_filter Push Finish redactor_whole "\<lambda>r. safe_literals (literals r)"
proof
  fix r x out r' y
  assume "safe_literals (literals r)" "Push r x = (out, r')"
  then show "redactor_whole r (x @ y) = out @ redactor_whole r' y" "safe_literals (literals r')"
    using drain_append [of "literals r" "pending r @ x"]
    by (auto simp: Push_def redactor_whole_def split: prod.splits)
qed (simp add: Finish_def redactor_whole_def)

text \<open>\<open>bytes.ReplaceAll\<close> of one non-empty literal: leftmost, non-overlapping.\<close>

function ReplaceAll :: "string \<Rightarrow> string \<Rightarrow> string \<Rightarrow> string" where
  "ReplaceAll s old new =
     (case bytes_Index s old of
        None \<Rightarrow> s
      | Some i \<Rightarrow> if old = [] \<or> s = [] then s
          else take i s @ new @ ReplaceAll (drop (i + length old) s) old new)"
  by pat_completeness auto
termination
  by (relation "measure (\<lambda>(s, old, new). length s)") auto

declare ReplaceAll.simps [simp del]

lemma drain_ReplaceAll: "l \<noteq> [] \<Longrightarrow> fst (drain [l] True s) = ReplaceAll s l redactedLiteral"
proof (induction "length s" arbitrary: s rule: less_induct)
  case less
  have b: "best_match s None [l] = map_option (\<lambda>i. (i, length l)) (bytes_Index s l)"
    using less.prems by (simp split: option.splits)
  show ?case
  proof (cases "bytes_Index s l")
    case None
    with b show ?thesis by (simp add: drain_final_nomatch ReplaceAll.simps)
  next
    case (Some i)
    with b have bm: "best_match s None [l] = Some (i, length l)" by simp
    note pos = best_match_pos [OF bm]
    then have s: "s \<noteq> []" by auto
    have "fst (drain [l] True (drop (i + length l) s)) = ReplaceAll (drop (i + length l) s) l redactedLiteral"
      using less.prems pos s by (intro less.hyps) auto
    with less.prems Some bm s show ?thesis
      by (auto simp: drain.simps [of "[l]" True s] ReplaceAll.simps [of s] split: prod.splits)
  qed
qed

lemma safe_one: "safe_literals [l]"
proof -
  have "bytes_Index (butlast l) l = None" if "l \<noteq> []"
  proof (rule ccontr)
    assume "bytes_Index (butlast l) l \<noteq> None"
    then obtain i where "is_prefix l (drop i (butlast l))" using bytes_Index_Some by blast
    then have "length l \<le> length (drop i (butlast l))" by (auto simp: is_prefix_iff dest: arg_cong [of _ _ length])
    moreover have "length (drop i (butlast l)) \<le> length (butlast l)" "length (butlast l) < length l"
      using that by simp_all
    ultimately show False by linarith
  qed
  then show ?thesis by (cases "l = []") (simp_all add: safe_literals_def)
qed

text \<open>C7: for one credential, the streaming redactor is \<open>bytes.ReplaceAll\<close> however the text is cut
  into writes: what the pushes and the final flush release is the whole text with every
  occurrence replaced. For several literals the same holds against the replacement in the whole
  text, as long as no literal occurs in another one before that one is complete.\<close>

theorem redactor_chunking:
  "(l \<noteq> [] \<longrightarrow> run_filter Push Finish (newStreamingRedactor [l]) cs = ReplaceAll (concat cs) l redactedLiteral) \<and>
   (safe_literals lits \<longrightarrow> run_filter Push Finish (newStreamingRedactor lits) cs =
      fst (drain (filter (\<lambda>l. l \<noteq> []) lits) True (concat cs)))"
proof -
  have "safe_literals (filter (\<lambda>l. l \<noteq> []) lits)" if "safe_literals lits"
    using that by (auto simp: safe_literals_def list_all_iff)
  then show ?thesis
    using redactor.run_whole [of "newStreamingRedactor [l]" cs] redactor.run_whole [of "newStreamingRedactor lits" cs]
    by (auto simp: newStreamingRedactor_def redactor_whole_def safe_one drain_ReplaceAll)
qed

theorem redactor_chunking_witness:
  "run_filter Push Finish (newStreamingRedactor [''key'']) [''a k'', ''ey b''] = ''a [REDACTED] b''"
proof -
  have "run_filter Push Finish (newStreamingRedactor [''key'']) [''a k'', ''ey b''] =
      ReplaceAll ''a key b'' ''key'' redactedLiteral"
    using redactor_chunking [of "''key''" "[''a k'', ''ey b'']"] by simp
  also have "\<dots> = ''a [REDACTED] b''" by code_simp
  finally show ?thesis .
qed

lemma best_match_self: "s \<noteq> [] \<Longrightarrow> s \<in> set lits \<Longrightarrow> best_match s None lits = Some (0, length s)"
  by (rule best_match_eqI) (auto simp: best_of_def occurs_def is_prefix_iff)

lemma best_match_none: "(\<And>l. l \<in> set lits \<Longrightarrow> l \<noteq> [] \<Longrightarrow> bytes_Index s l = None) \<Longrightarrow> best_match (drop n s) None lits = None"
  by (rule best_match_eqI) (auto simp: best_of_def occurs_def dest: bytes_Index_None)

lemma Push_literal:
  assumes "s \<noteq> []" "s \<in> set (literals r)" "pending r = []"
  shows "Push r s = (redactedLiteral, r)"
  using assms best_match_self [OF assms(1,2)]
  by (simp add: Push_def drain.simps [of _ _ s] drain.simps [of _ _ "[]"])

lemma run_clear:
  assumes "\<And>l. l \<in> set (literals r) \<Longrightarrow> l \<noteq> [] \<Longrightarrow> bytes_Index t l = None" "pending r = []"
  shows "run_filter Push Finish r [t] = t"
proof (cases "t = []")
  case False
  let ?k = "keep_all t 0 (literals r)"
  have "drain (literals r) False t = (take (length t - ?k) t, drop (length t - ?k) t)"
    using best_match_none [OF assms(1), where n = 0] False by (simp add: drain.simps [of _ _ t] Let_def)
  moreover have "fst (drain (literals r) True (drop (length t - ?k) t)) = drop (length t - ?k) t"
    by (rule drain_final_nomatch) (rule best_match_none [OF assms(1)])
  ultimately show ?thesis using assms(2) by (simp add: Push_def Finish_def)
qed (use assms(2) in \<open>simp add: Push_def Finish_def drain.simps [of _ _ "[]"]\<close>)

text \<open>C37: when one literal is the beginning of another, the redactor is not the replacement in the
  whole text: the shorter one is replaced as soon as it is complete, so when the longer credential is cut right after it, the
  rest arriving in the next write is released in clear, as long as no literal occurs in that rest. Written
  at once, the same credential is replaced as a whole.\<close>

theorem redactor_leaks_tail:
  assumes "s \<noteq> []" "s \<in> set lits" "s @ t \<in> set lits" "list_all (\<lambda>l. l = [] \<or> bytes_Index t l = None) lits"
  shows "run_filter Push Finish (newStreamingRedactor lits) [s, t] = redactedLiteral @ t \<and>
    run_filter Push Finish (newStreamingRedactor lits) [s @ t] = redactedLiteral"
proof -
  let ?r = "newStreamingRedactor lits"
  have lits: "s \<in> set (literals ?r)" "s @ t \<in> set (literals ?r)" "pending ?r = []"
    using assms(1-3) by (simp_all add: newStreamingRedactor_def)
  have "bytes_Index t l = None" if "l \<in> set (literals ?r)" "l \<noteq> []" for l
    using that assms(4) by (auto simp: newStreamingRedactor_def list_all_iff)
  from run_clear [OF this lits(3)] Push_literal [OF assms(1) lits(1,3)] Push_literal [OF _ lits(2,3)] assms(1) lits(3)
  show ?thesis by (simp add: Finish_def drain.simps [of _ _ "[]"])
qed

theorem redactor_leaks_tail_witness:
  "run_filter Push Finish (newStreamingRedactor [''secret-key-2'', ''secret-key'']) [''secret-key'', ''-2''] = redactedLiteral @ ''-2'' \<and>
   run_filter Push Finish (newStreamingRedactor [''secret-key-2'', ''secret-key'']) [''secret-key-2''] = redactedLiteral"
  using redactor_leaks_tail [of "''secret-key''" "[''secret-key-2'', ''secret-key'']" "''-2''"] by simp

end
