(* ===== verification/Output_Filters.thy ===== *)
theory Output_Filters
  imports Stream_Filter Utf8
begin

text \<open>
  \<open>data-plane/cmd/agent/claude_stream.go\<close>: the two writers between the agent's standard output
  and the session's record. \<open>utf8NormalizingWriter\<close> passes on complete valid UTF-8 only;
  \<open>claudeStreamProjector\<close> turns stream-json lines into the text they carry. Both are stream
  filters: what they write does not depend on how the process cut its output. The decoding of
  a line by \<open>encoding/json\<close> is an argument of the projector.
\<close>

section \<open>UTF-8\<close>

text \<open>\<open>utf8.FullRune\<close>: false only for a proper prefix of an encoding that can still become valid.\<close>

definition FullRune :: "string \<Rightarrow> bool" where
  "FullRune p =
     (case p of
        [] \<Rightarrow> False
      | a # bs \<Rightarrow>
          announced a \<le> length p \<or>
          (bs \<noteq> [] \<and> \<not> second_ok a (hd bs)) \<or> (2 \<le> length bs \<and> \<not> cont (bs ! 1)))"

record utf8NormalizingWriter =
  uw_pending :: string

function utf8_drain :: "bool \<Rightarrow> string \<Rightarrow> string \<times> string" where
  "utf8_drain final p =
     (if p = [] then ([], [])
      else if \<not> FullRune p \<and> \<not> final then ([], p)
      else if rune_len p = 0 then
        (case utf8_drain final (tl p) of (out, rest) \<Rightarrow> (rune_error @ out, rest))
      else (case utf8_drain final (drop (rune_len p) p) of (out, rest) \<Rightarrow> (take (rune_len p) p @ out, rest)))"
  by pat_completeness auto
termination by (relation "measure (\<lambda>(f, p). length p)") auto

declare utf8_drain.simps [simp del]

definition utf8_Write :: "utf8NormalizingWriter \<Rightarrow> string \<Rightarrow> string \<times> utf8NormalizingWriter" where
  "utf8_Write w p =
     (case utf8_drain False (uw_pending w @ p) of (out, rest) \<Rightarrow> (out, w\<lparr>uw_pending := rest\<rparr>))"

definition utf8_Close :: "utf8NormalizingWriter \<Rightarrow> string" where
  "utf8_Close w = fst (utf8_drain True (uw_pending w))"

definition utf8_whole :: "utf8NormalizingWriter \<Rightarrow> string \<Rightarrow> string" where
  "utf8_whole w x = utf8_coerce (uw_pending w @ x)"

lemma FullRune_rune_len:
  assumes "FullRune p"
  shows "rune_len (p @ q) = rune_len p"
proof (cases p)
  case (Cons a bs)
  have "announced a \<in> {0, 1, 2, 3, 4}" by (auto simp: announced_def Let_def)
  with assms Cons show ?thesis
    by (cases bs; cases "tl bs") (auto simp: FullRune_def numeral_2_eq_2 numeral_3_eq_3 numeral_eq_Suc split: nat.splits list.splits)
qed (use assms in \<open>simp add: FullRune_def\<close>)

lemma utf8_drain_final: "fst (utf8_drain True p) = utf8_coerce p"
proof (induction p rule: utf8_coerce.induct)
  case (1 s)
  then show ?case
    by (subst utf8_drain.simps, subst utf8_coerce.simps) (auto split: prod.splits dest: arg_cong [of _ _ fst])
qed

lemma utf8_drain_append:
  assumes "utf8_drain False p = (out, rest)"
  shows "utf8_coerce (p @ q) = out @ utf8_coerce (rest @ q)"
  using assms
proof (induction "length p" arbitrary: p out rule: less_induct)
  case less
  show ?case
  proof (cases "FullRune p")
    case False
    with less.prems show ?thesis by (auto simp: utf8_drain.simps [of False p] split: if_splits)
  next
    case True
    then have p: "p \<noteq> []" by (auto simp: FullRune_def)
    note rl = FullRune_rune_len [OF True, of q] rune_len_le [of p]
    show ?thesis
    proof (cases "rune_len p = 0")
      case zero: True
      then obtain o' where d: "utf8_drain False (tl p) = (o', rest)" "out = rune_error @ o'"
        using less.prems True p by (auto simp: utf8_drain.simps [of False p] split: prod.splits)
      have "utf8_coerce (tl p @ q) = o' @ utf8_coerce (rest @ q)"
        by (rule less.hyps [OF _ d(1)]) (use p in auto)
      then show ?thesis using p zero rl d(2) by (simp add: utf8_coerce.simps [of "p @ q"])
    next
      case pos: False
      then obtain o' where d: "utf8_drain False (drop (rune_len p) p) = (o', rest)" "out = take (rune_len p) p @ o'"
        using less.prems True p by (auto simp: utf8_drain.simps [of False p] split: prod.splits)
      have "utf8_coerce (drop (rune_len p) p @ q) = o' @ utf8_coerce (rest @ q)"
        by (rule less.hyps [OF _ d(1)]) (use p pos in auto)
      then show ?thesis using p pos rl d(2) by (simp add: utf8_coerce.simps [of "p @ q"])
    qed
  qed
qed

interpretation utf8_writer: stream_filter utf8_Write utf8_Close utf8_whole "\<lambda>w. True"
proof
  fix w x out w' y assume "utf8_Write w x = (out, w')"
  then show "utf8_whole w (x @ y) = out @ utf8_whole w' y"
    using utf8_drain_append [of "uw_pending w @ x" _ _ y]
    by (auto simp: utf8_Write_def utf8_whole_def split: prod.splits)
qed (simp_all add: utf8_Close_def utf8_whole_def utf8_drain_final)

section \<open>The stream-json projector\<close>

record claudeStreamEnvelope =
  env_Type :: string
  env_Result :: string
  env_EventType :: string
  env_DeltaType :: string
  env_DeltaText :: string
  env_BlockType :: string
  env_BlockText :: string

record claudeStreamProjector =
  pj_buf :: string
  messageHasText :: bool
  messageNewline :: bool
  projectedText :: bool

definition newClaudeStreamProjector :: claudeStreamProjector where
  "newClaudeStreamProjector =
     \<lparr>pj_buf = [], messageHasText = False, messageNewline = False, projectedText = False\<rparr>"

definition newline :: char where "newline = CHR 0x0A"

definition writeText :: "claudeStreamProjector \<Rightarrow> string \<Rightarrow> string \<times> claudeStreamProjector" where
  "writeText p text =
     (text, p\<lparr>messageHasText := True, projectedText := True, messageNewline := (last text = newline)\<rparr>)"

definition finishMessage :: "claudeStreamProjector \<Rightarrow> string \<times> claudeStreamProjector" where
  "finishMessage p =
     (if messageHasText p \<and> \<not> messageNewline p then [newline] else [],
      p\<lparr>messageHasText := False, messageNewline := False\<rparr>)"

text \<open>\<open>unmarshal\<close> is \<open>json.Unmarshal\<close> into the envelope, None on a decoding error.\<close>

definition projectLine ::
    "(string \<Rightarrow> claudeStreamEnvelope option) \<Rightarrow> claudeStreamProjector \<Rightarrow> string \<Rightarrow> bool \<Rightarrow> string \<times> claudeStreamProjector" where
  "projectLine unmarshal p line hadNewline =
     (case (if line = [] then None else unmarshal line) of
        None \<Rightarrow> (line @ (if hadNewline then [newline] else []), p)
      | Some env \<Rightarrow>
          if env_Type env = ''stream_event'' then
            (if env_EventType env = ''content_block_start'' then
               (if env_BlockType env = ''text'' \<and> env_BlockText env \<noteq> [] then writeText p (env_BlockText env)
                else ([], p))
             else if env_EventType env = ''content_block_delta'' then
               (if env_DeltaType env = ''text_delta'' \<and> env_DeltaText env \<noteq> [] then writeText p (env_DeltaText env)
                else ([], p))
             else if env_EventType env = ''message_stop'' then finishMessage p
             else ([], p))
          else if env_Type env = ''result'' \<and> \<not> projectedText p \<and> env_Result env \<noteq> [] then
            (case writeText p (env_Result env) of (out, p') \<Rightarrow>
             case finishMessage p' of (out', p'') \<Rightarrow> (out @ out', p''))
          else ([], p))"

lemma projectLine_buf [simp]: "pj_buf (snd (projectLine um p line b)) = pj_buf p"
  by (simp add: projectLine_def writeText_def finishMessage_def split: option.splits)

lemma projectLine_buf_eq: "(out, p') = projectLine um p line b \<Longrightarrow> pj_buf p' = pj_buf p"
  by (metis projectLine_buf snd_conv)

text \<open>The loop of \<open>Write\<close> over the complete lines of the buffer.\<close>

function project_lines ::
    "(string \<Rightarrow> claudeStreamEnvelope option) \<Rightarrow> claudeStreamProjector \<Rightarrow> string \<times> claudeStreamProjector" where
  "project_lines um p =
     (if newline \<notin> set (pj_buf p) then ([], p)
      else
        let line = takeWhile (\<lambda>c. c \<noteq> newline) (pj_buf p);
            p1 = p\<lparr>pj_buf := drop (Suc (length line)) (pj_buf p)\<rparr> in
        (case projectLine um p1 line True of (out, p2) \<Rightarrow>
         case project_lines um p2 of (out', p3) \<Rightarrow> (out @ out', p3)))"
  by pat_completeness auto
termination
proof (relation "measure (\<lambda>(um, p). length (pj_buf p))", goal_cases)
  case 2
  then show ?case by (fastforce dest: projectLine_buf_eq intro!: diff_less)
qed simp

declare project_lines.simps [simp del]

definition projector_Write ::
    "(string \<Rightarrow> claudeStreamEnvelope option) \<Rightarrow> claudeStreamProjector \<Rightarrow> string \<Rightarrow> string \<times> claudeStreamProjector" where
  "projector_Write um p chunk = project_lines um (p\<lparr>pj_buf := pj_buf p @ chunk\<rparr>)"

definition projector_Close :: "(string \<Rightarrow> claudeStreamEnvelope option) \<Rightarrow> claudeStreamProjector \<Rightarrow> string" where
  "projector_Close um p =
     (if pj_buf p \<noteq> [] then
        (case projectLine um (p\<lparr>pj_buf := []\<rparr>) (pj_buf p) False of (out, p') \<Rightarrow> out @ fst (finishMessage p'))
      else fst (finishMessage p))"

definition projector_whole ::
    "(string \<Rightarrow> claudeStreamEnvelope option) \<Rightarrow> claudeStreamProjector \<Rightarrow> string \<Rightarrow> string" where
  "projector_whole um p x =
     (case project_lines um (p\<lparr>pj_buf := pj_buf p @ x\<rparr>) of (out, p') \<Rightarrow> out @ projector_Close um p')"

lemma projectLine_frame:
  "projectLine um (p\<lparr>pj_buf := b\<rparr>) line n =
     (case projectLine um p line n of (out, p') \<Rightarrow> (out, p'\<lparr>pj_buf := b\<rparr>))"
  by (simp add: projectLine_def writeText_def finishMessage_def split: option.splits)

lemma project_lines_idle: "newline \<notin> set (pj_buf p) \<Longrightarrow> project_lines um p = ([], p)"
  by (simp add: project_lines.simps)

lemma project_lines_line:
  "newline \<notin> set line \<Longrightarrow> pj_buf p = line @ newline # rest \<Longrightarrow>
   project_lines um p =
     (case projectLine um (p\<lparr>pj_buf := rest\<rparr>) line True of (out, p2) \<Rightarrow>
      case project_lines um p2 of (out', p3) \<Rightarrow> (out @ out', p3))"
proof -
  assume a: "newline \<notin> set line" "pj_buf p = line @ newline # rest"
  have "takeWhile (\<lambda>c. c \<noteq> newline) (line @ newline # rest) = line"
    using a(1) by (subst takeWhile_append2) auto
  with a(2) show ?thesis by (subst project_lines.simps) (simp add: Let_def)
qed

lemma project_lines_rest: "project_lines um p = (out, p') \<Longrightarrow> newline \<notin> set (pj_buf p')"
proof (induction "length (pj_buf p)" arbitrary: p out rule: less_induct)
  case less
  show ?case
  proof (cases "newline \<in> set (pj_buf p)")
    case False
    with less.prems show ?thesis by (auto simp: project_lines_idle)
  next
    case True
    then obtain line rest where l: "pj_buf p = line @ newline # rest" "newline \<notin> set line"
      by (meson split_list_first)
    obtain o1 p1 where p1: "projectLine um (p\<lparr>pj_buf := rest\<rparr>) line True = (o1, p1)" by fastforce
    then have b1: "pj_buf p1 = rest" using projectLine_buf [of um "p\<lparr>pj_buf := rest\<rparr>" line True] by simp
    obtain o2 where "project_lines um p1 = (o2, p')"
      using less.prems project_lines_line [OF l(2,1)] p1 by (auto split: prod.splits)
    then show ?thesis by (rule less.hyps [rotated]) (simp add: l(1) b1)
  qed
qed

lemma project_lines_append:
  assumes "project_lines um p = (out, p')"
  shows "project_lines um (p\<lparr>pj_buf := pj_buf p @ y\<rparr>) =
    (case project_lines um (p'\<lparr>pj_buf := pj_buf p' @ y\<rparr>) of (out', p'') \<Rightarrow> (out @ out', p''))"
  using assms
proof (induction "length (pj_buf p)" arbitrary: p out rule: less_induct)
  case less
  show ?case
  proof (cases "newline \<in> set (pj_buf p)")
    case False
    with less.prems show ?thesis by (auto simp: project_lines_idle)
  next
    case True
    then obtain line rest where l: "pj_buf p = line @ newline # rest" "newline \<notin> set line"
      by (meson split_list_first)
    obtain o1 p1 where p1: "projectLine um (p\<lparr>pj_buf := rest\<rparr>) line True = (o1, p1)" by fastforce
    then have b1: "pj_buf p1 = rest" using projectLine_buf [of um "p\<lparr>pj_buf := rest\<rparr>" line True] by simp
    obtain o2 where o2: "project_lines um p1 = (o2, p')" "out = o1 @ o2"
      using less.prems project_lines_line [OF l(2,1)] p1 by (auto split: prod.splits)
    have "projectLine um (p\<lparr>pj_buf := rest @ y\<rparr>) line True = (o1, p1\<lparr>pj_buf := rest @ y\<rparr>)"
      using p1 projectLine_frame [where p = "p\<lparr>pj_buf := rest\<rparr>" and b = "rest @ y"] by simp
    then have "project_lines um (p\<lparr>pj_buf := pj_buf p @ y\<rparr>) =
        (case project_lines um (p1\<lparr>pj_buf := pj_buf p1 @ y\<rparr>) of (o3, p3) \<Rightarrow> (o1 @ o3, p3))"
      using project_lines_line [OF l(2), of "p\<lparr>pj_buf := pj_buf p @ y\<rparr>" "rest @ y" um] l(1) b1 by simp
    moreover have "project_lines um (p1\<lparr>pj_buf := pj_buf p1 @ y\<rparr>) =
        (case project_lines um (p'\<lparr>pj_buf := pj_buf p' @ y\<rparr>) of (out', p'') \<Rightarrow> (o2 @ out', p''))"
      by (rule less.hyps [OF _ o2(1)]) (simp add: l(1) b1)
    ultimately show ?thesis using o2(2) by (simp split: prod.splits)
  qed
qed

lemma stream_filter_projector:
  "stream_filter (projector_Write um) (projector_Close um) (projector_whole um) (\<lambda>p. newline \<notin> set (pj_buf p))"
proof
  fix p x out p' y
  assume w: "projector_Write um p x = (out, p')"
  then show "projector_whole um p (x @ y) = out @ projector_whole um p' y"
    using project_lines_append [of um "p\<lparr>pj_buf := pj_buf p @ x\<rparr>" out p' y]
    by (simp add: projector_Write_def projector_whole_def split: prod.splits)
  show "newline \<notin> set (pj_buf p')" using w project_lines_rest by (simp add: projector_Write_def)
qed (simp add: projector_whole_def project_lines_idle)

end
