(* ===== verification/Output_Sink.thy ===== *)
theory Output_Sink
  imports Redactor Output_Filters Strconv
begin

text \<open>
  The session's record of output: \<open>scrollback\<close> of \<open>data-plane/cmd/agent/main.go\<close>, the bounded
  \<open>claudeOutputSink\<close> of \<open>claude_stream.go\<close> that feeds it during one invocation, and the cursors of
  \<open>output_stream.go\<close> that read it. Byte counts are natural numbers; the subtractions that the
  code clamps at zero are natural subtractions. The channel that wakes waiting streams is its
  generation number, None before the first stream asked for it.
\<close>

section \<open>The scrollback\<close>

record scrollback =
  sb_buf :: string
  sb_changed :: "nat option"

definition RuneStart :: "char \<Rightarrow> bool" where
  "RuneStart c = (\<not> cont c)"

fun back_off :: "string \<Rightarrow> nat \<Rightarrow> nat" where
  "back_off p 0 = 0"
| "back_off p (Suc n) = (if RuneStart (p ! Suc n) then Suc n else back_off p n)"

definition validUTF8PrefixAtMost :: "string \<Rightarrow> nat \<Rightarrow> nat" where
  "validUTF8PrefixAtMost p limit = (if length p \<le> limit then length p else back_off p limit)"

definition notifyLocked :: "scrollback \<Rightarrow> scrollback" where
  "notifyLocked b = b\<lparr>sb_changed := map_option Suc (sb_changed b)\<rparr>"

definition sb_Append :: "scrollback \<Rightarrow> string \<Rightarrow> scrollback" where
  "sb_Append b p = (if p = [] then b else notifyLocked (b\<lparr>sb_buf := sb_buf b @ p\<rparr>))"

definition claudeFullAtLocked :: "scrollback \<Rightarrow> nat \<Rightarrow> nat \<Rightarrow> bool" where
  "claudeFullAtLocked b limit markerBytes = (limit - markerBytes < length (sb_buf b))"

definition claudeFullAt :: "scrollback \<Rightarrow> nat \<Rightarrow> string \<Rightarrow> bool" where
  "claudeFullAt b limit markerText = claudeFullAtLocked b limit (length markerText)"

definition appendClaudeBoundedAt :: "scrollback \<Rightarrow> string \<Rightarrow> nat \<Rightarrow> string \<Rightarrow> bool \<times> scrollback" where
  "appendClaudeBoundedAt b p limit marker =
     (if claudeFullAtLocked b limit (length marker) \<or> p = [] then (False, b)
      else
        let dataLimit = limit - length marker in
        if length (sb_buf b) + length p \<le> dataLimit then
          (False, notifyLocked (b\<lparr>sb_buf := sb_buf b @ p\<rparr>))
        else
          let remaining = dataLimit - length (sb_buf b);
              kept = (if 0 < remaining then take (validUTF8PrefixAtMost p (min remaining (length p))) p else [])
          in (True, notifyLocked (b\<lparr>sb_buf := sb_buf b @ kept @ marker\<rparr>)))"

definition endsWithNewline :: "scrollback \<Rightarrow> bool" where
  "endsWithNewline b = (sb_buf b = [] \<or> last (sb_buf b) = newline)"

definition Since :: "scrollback \<Rightarrow> int \<Rightarrow> string \<times> nat" where
  "Since b offset =
     (let n = length (sb_buf b) in
      if offset < 0 \<or> int n \<le> offset then ([], n) else (drop (nat offset) (sb_buf b), n))"

definition sb_snapshot :: "scrollback \<Rightarrow> string" where
  "sb_snapshot b = sb_buf b"

definition sb_restore :: "scrollback \<Rightarrow> string \<Rightarrow> scrollback" where
  "sb_restore b p = notifyLocked (b\<lparr>sb_buf := p\<rparr>)"

section \<open>Streaming with cursors\<close>

definition outputStreamChunkBytes :: nat where "outputStreamChunkBytes = 65536"

record stream_chunk =
  sc_payload :: string
  sc_start :: nat
  sc_next :: nat
  sc_reset :: bool
  sc_changed :: nat

definition streamChunk :: "scrollback \<Rightarrow> nat \<Rightarrow> nat \<Rightarrow> stream_chunk \<times> scrollback" where
  "streamChunk b offset limit =
     (let g = (case sb_changed b of None \<Rightarrow> 0 | Some g \<Rightarrow> g);
          b' = b\<lparr>sb_changed := Some g\<rparr>;
          current = length (sb_buf b) in
      if current < offset then
        (\<lparr>sc_payload = [], sc_start = current, sc_next = current, sc_reset = True, sc_changed = g\<rparr>, b')
      else if offset = current then
        (\<lparr>sc_payload = [], sc_start = offset, sc_next = offset, sc_reset = False, sc_changed = g\<rparr>, b')
      else
        let end0 = (if 0 < limit \<and> limit < current - offset then
               (let safe = validUTF8PrefixAtMost (drop offset (sb_buf b)) limit in
                if 0 < safe then offset + safe else offset + limit)
             else current)
        in (\<lparr>sc_payload = take (end0 - offset) (drop offset (sb_buf b)), sc_start = offset,
             sc_next = end0, sc_reset = False, sc_changed = g\<rparr>, b'))"

text \<open>\<open>serveOutputStream\<close>: the cursor a request starts from, \<open>Last-Event-ID\<close> before the query.\<close>

definition stream_start :: "string \<Rightarrow> string \<Rightarrow> goerr + nat" where
  "stream_start query lastEventID =
     (let value = (if lastEventID \<noteq> [] then lastEventID else query) in
      if value = [] then Inr 0
      else (case Atoi value of
              None \<Rightarrow> Inl (New ''offset must be a non-negative integer'')
            | Some n \<Rightarrow> if n < 0 then Inl (New ''offset must be a non-negative integer'') else Inr (nat n)))"

datatype stream_event =
    ResetEvent nat
  | OutputEvent nat string nat
  | WaitFor nat

text \<open>One turn of the loop: the event it writes and the next cursor, or the channel it waits on.\<close>

definition stream_step :: "scrollback \<Rightarrow> nat \<Rightarrow> stream_event \<times> nat \<times> scrollback" where
  "stream_step b offset =
     (case streamChunk b offset outputStreamChunkBytes of (c, b') \<Rightarrow>
        if sc_reset c then (ResetEvent (sc_next c), sc_next c, b')
        else if sc_payload c \<noteq> [] then
          (OutputEvent (sc_start c) (sc_payload c) (sc_next c), sc_next c, b')
        else (WaitFor (sc_changed c), offset, b'))"

section \<open>The sink of one invocation\<close>

definition claudeTurnSentinel :: char where "claudeTurnSentinel = CHR 0x1E"

definition withoutTurnSentinel :: "string \<Rightarrow> string" where
  "withoutTurnSentinel p = filter (\<lambda>c. c \<noteq> claudeTurnSentinel) p"

definition claudeRunOutputLimitMarker :: string where
  "claudeRunOutputLimitMarker =
     [newline] @ ''[session-platform: invocation output truncated at 16 MiB]'' @ [newline]"

definition claudeOutputLimitMarker :: string where
  "claudeOutputLimitMarker =
     [newline] @ ''[session-platform: session output limit reached; further prompts are disabled]'' @ [newline]"

record claudeOutputSink =
  sk_redactor :: streamingRedactor
  runLimit :: nat
  scrollbackLimit :: nat
  runSeen :: nat
  runEmitted :: nat
  runPending :: string
  truncated :: bool
  closed :: bool
  sessionFull :: bool

definition newClaudeOutputSink :: "string list \<Rightarrow> nat \<Rightarrow> nat \<Rightarrow> claudeOutputSink" where
  "newClaudeOutputSink redact limit sbLimit =
     \<lparr>sk_redactor = newStreamingRedactor redact, runLimit = limit, scrollbackLimit = sbLimit,
      runSeen = 0, runEmitted = 0, runPending = [], truncated = False, closed = False, sessionFull = False\<rparr>"

definition appendSession :: "claudeOutputSink \<times> scrollback \<Rightarrow> string \<Rightarrow> claudeOutputSink \<times> scrollback" where
  "appendSession st p =
     (case st of (s, b) \<Rightarrow>
        if p = [] \<or> sessionFull s then (s, b)
        else (case appendClaudeBoundedAt b p (scrollbackLimit s) claudeOutputLimitMarker of (full, b') \<Rightarrow>
                (if full then s\<lparr>sessionFull := True\<rparr> else s, b')))"

text \<open>\<open>appendBoundedLocked\<close> in its three steps: take the text in, emit what is below the limit less
  the room for the marker, and cut when the limit is exceeded.\<close>

definition markerBytes :: "claudeOutputSink \<Rightarrow> nat" where
  "markerBytes s = min (length claudeRunOutputLimitMarker) (runLimit s)"

definition emit_ready :: "claudeOutputSink \<times> scrollback \<Rightarrow> claudeOutputSink \<times> scrollback" where
  "emit_ready st =
     (case st of (s, b) \<Rightarrow>
        let room = runLimit s - markerBytes s - runEmitted s;
            canEmit = (if 0 < room then validUTF8PrefixAtMost (runPending s) (min room (length (runPending s))) else 0) in
        if 0 < canEmit then
          (case appendSession (s, b) (take canEmit (runPending s)) of (s', b') \<Rightarrow>
             (s'\<lparr>runEmitted := runEmitted s' + canEmit, runPending := drop canEmit (runPending s')\<rparr>, b'))
        else (s, b))"

definition cut_overflow :: "claudeOutputSink \<times> scrollback \<Rightarrow> claudeOutputSink \<times> scrollback" where
  "cut_overflow st =
     (case st of (s, b) \<Rightarrow>
        if runLimit s < runSeen s then
          (case appendSession (s\<lparr>runPending := []\<rparr>, b) (take (markerBytes s) claudeRunOutputLimitMarker) of (s', b') \<Rightarrow>
             (s'\<lparr>truncated := True\<rparr>, b'))
        else (s, b))"

definition appendBoundedLocked :: "claudeOutputSink \<times> scrollback \<Rightarrow> string \<Rightarrow> claudeOutputSink \<times> scrollback" where
  "appendBoundedLocked st p =
     (case st of (s, b) \<Rightarrow>
        if p = [] \<or> truncated s \<or> sessionFull s then (s, b)
        else if runLimit s = 0 then appendSession (s, b) p
        else cut_overflow (emit_ready (s\<lparr>runSeen := runSeen s + length p, runPending := runPending s @ p\<rparr>, b)))"

definition sink_Write :: "claudeOutputSink \<times> scrollback \<Rightarrow> string \<Rightarrow> claudeOutputSink \<times> scrollback" where
  "sink_Write st p =
     (case st of (s, b) \<Rightarrow>
        if p = [] \<or> closed s \<or> truncated s \<or> sessionFull s then (s, b)
        else (case Push (sk_redactor s) (withoutTurnSentinel p) of (out, r') \<Rightarrow>
                appendBoundedLocked (s\<lparr>sk_redactor := r'\<rparr>, b) out))"

definition sink_Close :: "claudeOutputSink \<times> scrollback \<Rightarrow> claudeOutputSink \<times> scrollback" where
  "sink_Close st =
     (if closed (fst st) then st
      else
        let st1 = (if \<not> truncated (fst st) \<and> \<not> sessionFull (fst st)
                   then appendBoundedLocked st (Finish (sk_redactor (fst st))) else st);
            st2 = (if \<not> truncated (fst st1) \<and> runPending (fst st1) \<noteq> []
                   then (case appendSession st1 (runPending (fst st1)) of (s, b) \<Rightarrow> (s\<lparr>runPending := []\<rparr>, b))
                   else st1)
        in ((fst st2)\<lparr>closed := True\<rparr>, snd st2))"

end
