(* ===== verification/Output_Laws.thy ===== *)
theory Output_Laws
  imports Output_Sink
begin

text \<open>
  What the output path promises: the record only grows, never past its limit, and says when it
  is full; a reader following the cursors gets every byte once; an invocation's output is stored
  completely or cut at its limit with a marker, independently of how the process wrote it.
\<close>

section \<open>Cutting at rune boundaries\<close>

lemma back_off_le: "back_off p n \<le> n"
  by (induction n) auto

lemma back_off_skips: "back_off p n < j \<Longrightarrow> j \<le> n \<Longrightarrow> \<not> RuneStart (p ! j)"
  by (induction n) (auto split: if_splits simp: le_Suc_eq)

lemma rune_head_start: "0 < rune_len (a # bs) \<Longrightarrow> RuneStart a"
  by (auto simp: RuneStart_def cont_def announced_def Let_def split: nat.splits if_splits)

lemma rune_len_le_4: "rune_len s \<le> 4"
proof (cases s)
  case (Cons a bs)
  have "announced a \<le> 4" by (rule announced_le)
  then show ?thesis using Cons by (auto split: nat.splits list.splits)
qed simp

lemma valid_rune_near: "utf8_valid p \<Longrightarrow> n < length p \<Longrightarrow> \<exists>j \<le> n. n \<le> j + 3 \<and> RuneStart (p ! j)"
proof (induction p arbitrary: n rule: utf8_valid.induct)
  case (1 p)
  then have p: "p \<noteq> []" "rune_len p \<noteq> 0" "utf8_valid (drop (rune_len p) p)"
    by (auto simp: utf8_valid.simps [of p] split: if_splits)
  show ?case
  proof (cases "n < rune_len p")
    case True
    then have "n \<le> 3" using rune_len_le_4 [of p] by linarith
    moreover have "RuneStart (p ! 0)" using p rune_head_start by (cases p) auto
    ultimately show ?thesis by (intro exI [of _ 0]) auto
  next
    case False
    then have "n - rune_len p < length (drop (rune_len p) p)" using "1.prems"(2) by simp
    with 1(1) [OF p(1,2,3)] obtain j where "j \<le> n - rune_len p" "n - rune_len p \<le> j + 3" "RuneStart (drop (rune_len p) p ! j)" by blast
    with False rune_len_le [of p] show ?thesis by (intro exI [of _ "rune_len p + j"]) auto
  qed
qed

lemma prefix_le: "validUTF8PrefixAtMost p limit \<le> limit" "validUTF8PrefixAtMost p limit \<le> length p"
proof -
  show "validUTF8PrefixAtMost p limit \<le> limit" by (simp add: validUTF8PrefixAtMost_def back_off_le)
  show "validUTF8PrefixAtMost p limit \<le> length p"
    using back_off_le [of p limit] by (auto simp: validUTF8PrefixAtMost_def)
qed

lemma prefix_near:
  assumes "utf8_valid p" "limit < length p"
  shows "limit \<le> validUTF8PrefixAtMost p limit + 3"
proof -
  obtain j where "j \<le> limit" "limit \<le> j + 3" "RuneStart (p ! j)" using valid_rune_near [OF assms] by blast
  moreover from this have "j \<le> back_off p limit" using back_off_skips [of p limit j] by (meson not_less)
  ultimately show ?thesis using assms(2) by (simp add: validUTF8PrefixAtMost_def)
qed

section \<open>The bounded record\<close>

text \<open>The record is append-only and bounded. A bounded append never changes what is stored,
  never exceeds the limit, stores the text completely unless the record becomes full, in which
  case a prefix of the text and the marker are stored; the transition to full is reported
  exactly once, and a full record takes nothing more.\<close>

theorem bounded_append:
  assumes "length marker \<le> limit" "3 < length marker" "length (sb_buf b) \<le> limit" "utf8_valid p"
    and "appendClaudeBoundedAt b p limit marker = (becameFull, b')"
  shows "length (sb_buf b') \<le> limit \<and> (\<exists>t. sb_buf b' = sb_buf b @ t \<and>
    (becameFull \<longleftrightarrow> \<not> claudeFullAt b limit marker \<and> claudeFullAt b' limit marker) \<and>
    (claudeFullAt b limit marker \<longrightarrow> b' = b) \<and>
    (\<not> claudeFullAt b' limit marker \<longrightarrow> t = p) \<and>
    (becameFull \<longrightarrow> (\<exists>k. t = take k p @ marker)))"
proof (cases "claudeFullAt b limit marker \<or> length (sb_buf b) + length p \<le> limit - length marker")
  case True
  with assms show ?thesis
    by (auto simp: appendClaudeBoundedAt_def claudeFullAt_def claudeFullAtLocked_def notifyLocked_def Let_def
        split: if_splits)
next
  case False
  define rem where "rem = limit - length marker - length (sb_buf b)"
  define k where "k = (if 0 < rem then validUTF8PrefixAtMost p (min rem (length p)) else 0)"
  from False have nf: "length (sb_buf b) \<le> limit - length marker" and long: "rem < length p"
    by (auto simp: claudeFullAt_def claudeFullAtLocked_def rem_def)
  have p: "p \<noteq> []" using long by auto
  have k: "k \<le> rem" "rem \<le> k + 3"
    using prefix_le(1) [of p rem] prefix_near [OF assms(4) long] long by (auto simp: k_def min_def)
  have "becameFull" "b' = notifyLocked (b\<lparr>sb_buf := sb_buf b @ take k p @ marker\<rparr>)"
    using assms(5) False p nf
    by (auto simp: appendClaudeBoundedAt_def claudeFullAt_def claudeFullAtLocked_def Let_def k_def rem_def)
  with False k assms(1,2) nf long show ?thesis
    by (auto simp: claudeFullAt_def claudeFullAtLocked_def notifyLocked_def rem_def)
qed

text \<open>A record that is reached from an empty one by bounded appends.\<close>

theorem bounded_append_witness:
  "appendClaudeBoundedAt \<lparr>sb_buf = ''ab'', sb_changed = None\<rparr> ''cdef'' 8 ''[full]'' =
     (True, \<lparr>sb_buf = ''ab[full]'', sb_changed = None\<rparr>) \<and> length ''ab[full]'' \<le> 8"
proof -
  have run: "appendClaudeBoundedAt \<lparr>sb_buf = ''ab'', sb_changed = None\<rparr> ''cdef'' 8 ''[full]'' =
      (True, \<lparr>sb_buf = ''ab[full]'', sb_changed = None\<rparr>)" by code_simp
  have v: "utf8_valid ''cdef''" by (simp add: utf8_valid.simps announced_def)
  show ?thesis
    using bounded_append [OF _ _ _ v run] run by simp
qed

section \<open>Following the cursors\<close>

lemma streamChunk_progress:
  assumes "offset < length (sb_buf b)" "streamChunk b offset limit = (c, b')"
  shows "\<not> sc_reset c \<and> sc_start c = offset \<and> offset < sc_next c \<and> sc_next c \<le> length (sb_buf b) \<and>
    sc_payload c = take (sc_next c - offset) (drop offset (sb_buf b)) \<and> sb_buf b' = sb_buf b \<and>
    (0 < limit \<longrightarrow> length (sc_payload c) \<le> limit)"
  using assms prefix_le [of "drop offset (sb_buf b)" limit]
  by (auto simp: streamChunk_def Let_def split: if_splits)

text \<open>The events of a stream on a record that does not change, from a cursor on.\<close>

function stream_all :: "scrollback \<Rightarrow> nat \<Rightarrow> stream_event list" where
  "stream_all b offset =
     (case stream_step b offset of
        (OutputEvent s p n, next, b') \<Rightarrow>
          if offset < next \<and> next \<le> length (sb_buf b) then OutputEvent s p n # stream_all b next else []
      | (ResetEvent n, next, b') \<Rightarrow> if next < offset then ResetEvent n # stream_all b next else []
      | (WaitFor g, _, b') \<Rightarrow> [WaitFor g])"
  by pat_completeness auto
termination
proof (relation "measure (\<lambda>(b, off). if off \<le> length (sb_buf b) then length (sb_buf b) - off else Suc (length (sb_buf b) + off))")
qed (auto simp: stream_step_def streamChunk_def Let_def split: if_splits prod.splits)

declare stream_all.simps [simp del]

fun payloads :: "stream_event list \<Rightarrow> string" where
  "payloads [] = []"
| "payloads (OutputEvent s p n # es) = p @ payloads es"
| "payloads (e # es) = payloads es"

lemma stream_at_end:
  "stream_all b (length (sb_buf b)) = [WaitFor (case sb_changed b of None \<Rightarrow> 0 | Some g \<Rightarrow> g)]"
  by (simp add: stream_all.simps stream_step_def streamChunk_def Let_def)

lemma stream_all_payloads:
  assumes "offset \<le> length (sb_buf b)"
  shows "payloads (stream_all b offset) = drop offset (sb_buf b) \<and>
    last (stream_all b offset) = WaitFor (case sb_changed b of None \<Rightarrow> 0 | Some g \<Rightarrow> g) \<and> stream_all b offset \<noteq> []"
  using assms
proof (induction "length (sb_buf b) - offset" arbitrary: offset rule: less_induct)
  case less
  show ?case
  proof (cases "offset = length (sb_buf b)")
    case True
    then show ?thesis by (simp add: stream_at_end)
  next
    case False
    with less.prems have lt: "offset < length (sb_buf b)" by simp
    obtain c b' where c: "streamChunk b offset outputStreamChunkBytes = (c, b')" by fastforce
    note pr = streamChunk_progress [OF lt c]
    then have "sc_payload c \<noteq> []" using lt by auto
    with pr c have step: "stream_all b offset = OutputEvent (sc_start c) (sc_payload c) (sc_next c) # stream_all b (sc_next c)"
      by (subst stream_all.simps) (simp add: stream_step_def)
    have ih: "payloads (stream_all b (sc_next c)) = drop (sc_next c) (sb_buf b)"
      "last (stream_all b (sc_next c)) = WaitFor (case sb_changed b of None \<Rightarrow> 0 | Some g \<Rightarrow> g)"
      "stream_all b (sc_next c) \<noteq> []"
      using less.hyps [of "sc_next c"] pr lt diff_less_mono2 [of offset "sc_next c" "length (sb_buf b)"] by blast+
    have "take (sc_next c - offset) (drop offset (sb_buf b)) @ drop (sc_next c) (sb_buf b) = drop offset (sb_buf b)"
      using pr by (metis append_take_drop_id drop_drop le_add_diff_inverse2 less_imp_le_nat)
    with step ih pr show ?thesis by simp
  qed
qed

text \<open>A reader that follows the cursors loses and repeats nothing. Whatever cursor a stream
  starts from, the loop ends in the wait for the next append; from a cursor inside the record
  the payloads joined are exactly the bytes after it, and a stale cursor past the end is first
  reset to the end. The channel it waits on is the one the next append closes.\<close>

theorem stream_delivers:
  "payloads (stream_all b offset) = drop offset (sb_buf b) \<and>
   last (stream_all b offset) = WaitFor (case sb_changed b of None \<Rightarrow> 0 | Some g \<Rightarrow> g) \<and>
   (length (sb_buf b) < offset \<longrightarrow> hd (stream_all b offset) = ResetEvent (length (sb_buf b))) \<and>
   (\<forall>g. sb_changed b = Some g \<longrightarrow> p \<noteq> [] \<longrightarrow> sb_changed (sb_Append b p) \<noteq> Some g)"
proof -
  have past: "stream_all b offset = ResetEvent (length (sb_buf b)) # stream_all b (length (sb_buf b))"
    if "length (sb_buf b) < offset"
    using that by (subst stream_all.simps) (simp add: stream_step_def streamChunk_def Let_def)
  show ?thesis
    using past stream_all_payloads [of offset b] stream_all_payloads [of "length (sb_buf b)" b]
    by (cases "offset \<le> length (sb_buf b)") (auto simp: sb_Append_def notifyLocked_def)
qed

theorem stream_delivers_witness:
  "payloads (stream_all \<lparr>sb_buf = ''hello'', sb_changed = Some 3\<rparr> 2) = ''llo'' \<and>
   hd (stream_all \<lparr>sb_buf = ''hello'', sb_changed = Some 3\<rparr> 9) = ResetEvent 5"
  using stream_delivers [of "\<lparr>sb_buf = ''hello'', sb_changed = Some 3\<rparr>" 2 "''x''"]
    stream_delivers [of "\<lparr>sb_buf = ''hello'', sb_changed = Some 3\<rparr>" 9 "''x''"] by simp

section \<open>One invocation's output\<close>

fun sink_run :: "claudeOutputSink \<times> scrollback \<Rightarrow> string list \<Rightarrow> claudeOutputSink \<times> scrollback" where
  "sink_run st [] = sink_Close st"
| "sink_run st (c # cs) = sink_run (sink_Write st c) cs"

text \<open>Room for one whole invocation in the record.\<close>

definition room :: "claudeOutputSink \<Rightarrow> string \<Rightarrow> bool" where
  "room s buf0 =
     (0 < runLimit s \<and> length buf0 + runLimit s \<le> scrollbackLimit s - length claudeOutputLimitMarker)"

lemma back_off_max: "0 < j \<Longrightarrow> j \<le> n \<Longrightarrow> RuneStart (p ! j) \<Longrightarrow> j \<le> back_off p n"
  by (induction p n rule: back_off.induct) (auto simp: le_Suc_eq)

lemma back_off_start: "0 < back_off p n \<Longrightarrow> back_off p n \<le> n \<and> RuneStart (p ! back_off p n)"
  by (induction p n rule: back_off.induct) (auto split: if_splits)

lemma back_off_append: "n < length p \<Longrightarrow> back_off (p @ q) n = back_off p n"
  by (induction p n rule: back_off.induct) (auto simp: nth_append)

lemma back_off_drop: "i + n < length p \<Longrightarrow> back_off p (i + n) \<le> i + back_off (drop i p) n"
proof (rule ccontr)
  assume n: "i + n < length p" and "\<not> back_off p (i + n) \<le> i + back_off (drop i p) n"
  then have far: "i + back_off (drop i p) n < back_off p (i + n)" by simp
  let ?j = "back_off p (i + n)"
  have "?j \<le> i + n" "RuneStart (p ! ?j)" using back_off_start [of p "i + n"] far by auto
  then have "?j - i \<le> back_off (drop i p) n" using far n by (intro back_off_max) auto
  with far show False by linarith
qed

text \<open>The text \<open>T\<close> accepted so far is partly in the record and partly held back \<dots>\<close>

definition split_inv :: "string \<Rightarrow> string \<Rightarrow> claudeOutputSink \<times> scrollback \<Rightarrow> bool" where
  "split_inv buf0 T st =
     (case st of (s, b) \<Rightarrow>
        room s buf0 \<and> \<not> closed s \<and> \<not> sessionFull s \<and> \<not> truncated s \<and> runSeen s = length T \<and>
        runEmitted s \<le> length T \<and> runEmitted s \<le> runLimit s - markerBytes s \<and>
        runPending s = drop (runEmitted s) T \<and> sb_buf b = buf0 @ take (runEmitted s) T)"

text \<open>\<dots> or it was cut.\<close>

definition cut_inv :: "string \<Rightarrow> string \<Rightarrow> claudeOutputSink \<times> scrollback \<Rightarrow> bool" where
  "cut_inv buf0 T st =
     (case st of (s, b) \<Rightarrow>
        truncated s \<and> \<not> closed s \<and> runLimit s < length T \<and>
        (\<exists>k. back_off T (runLimit s - markerBytes s) \<le> k \<and> k \<le> runLimit s - markerBytes s \<and>
           sb_buf b = buf0 @ take k T @ take (markerBytes s) claudeRunOutputLimitMarker))"

definition sink_inv :: "string \<Rightarrow> string \<Rightarrow> claudeOutputSink \<times> scrollback \<Rightarrow> bool" where
  "sink_inv buf0 T st =
     (cut_inv buf0 T st \<or> (split_inv buf0 T st \<and> length T \<le> runLimit (fst st)))"

lemma markerBytes_le: "markerBytes s \<le> runLimit s"
  by (simp add: markerBytes_def)

lemma appendSession_fits:
  assumes "\<not> sessionFull s" "length (sb_buf b) + length p \<le> scrollbackLimit s - length claudeOutputLimitMarker"
  shows "\<exists>b'. appendSession (s, b) p = (s, b') \<and> sb_buf b' = sb_buf b @ p"
  using assms
  by (auto simp: appendSession_def appendClaudeBoundedAt_def claudeFullAtLocked_def notifyLocked_def Let_def)

lemma emit_ready_inv:
  assumes "split_inv buf0 T (s, b)" "emit_ready (s, b) = (s', b')"
  shows "split_inv buf0 T (s', b') \<and> sk_redactor s' = sk_redactor s \<and> runLimit s' = runLimit s \<and>
    (runLimit s < length T \<longrightarrow> back_off T (runLimit s - markerBytes s) \<le> runEmitted s')"
proof -
  define e where "e = (if 0 < runLimit s - markerBytes s - runEmitted s then validUTF8PrefixAtMost (runPending s)
    (min (runLimit s - markerBytes s - runEmitted s) (length (runPending s))) else 0)"
  have e: "e \<le> runLimit s - markerBytes s - runEmitted s" "e \<le> length (runPending s)"
    using prefix_le [of "runPending s" "min (runLimit s - markerBytes s - runEmitted s) (length (runPending s))"]
    by (auto simp: e_def)
  note inv = assms(1) [unfolded split_inv_def prod.case]
    and run = assms(2) [unfolded emit_ready_def Let_def prod.case e_def [symmetric]]
  have reached: "back_off T (runLimit s - markerBytes s) \<le> runEmitted s + e" if "runLimit s < length T"
  proof (cases "runEmitted s < runLimit s - markerBytes s")
    case True
    define r where "r = runLimit s - markerBytes s - runEmitted s"
    have "runEmitted s + r < length T" "runEmitted s + r = runLimit s - markerBytes s" using True that by (auto simp: r_def)
    moreover from this have "e = back_off (drop (runEmitted s) T) r"
      using True inv by (simp add: e_def r_def validUTF8PrefixAtMost_def)
    ultimately show ?thesis using back_off_drop [of "runEmitted s" r T] by simp
  next
    case False
    then show ?thesis using prefix_le(1) [of T "runLimit s - markerBytes s"] that
      by (simp add: validUTF8PrefixAtMost_def split: if_splits)
  qed
  have "length (sb_buf b) + length (take e (runPending s)) \<le> scrollbackLimit s - length claudeOutputLimitMarker"
    using inv e markerBytes_le [of s] by (auto simp: room_def)
  then obtain b2 where b2: "appendSession (s, b) (take e (runPending s)) = (s, b2)"
    "sb_buf b2 = sb_buf b @ take e (runPending s)" using appendSession_fits inv by blast
  show ?thesis
  proof (cases "e = 0")
    case True
    with assms(1) run reached show ?thesis by auto
  next
    case False
    then have "s' = s\<lparr>runEmitted := runEmitted s + e, runPending := drop e (runPending s)\<rparr>" "b' = b2"
      using run b2 by auto
    with inv e b2(2) reached show ?thesis
      by (auto simp: split_inv_def room_def markerBytes_def take_add) (simp_all add: add.commute)
  qed
qed

lemma cut_overflow_inv:
  assumes "split_inv buf0 T (s, b)" "cut_overflow (s, b) = (s', b')"
    and "runLimit s < length T \<Longrightarrow> back_off T (runLimit s - markerBytes s) \<le> runEmitted s"
  shows "sink_inv buf0 T (s', b') \<and> sk_redactor s' = sk_redactor s \<and> runLimit s' = runLimit s"
proof (cases "runLimit s < runSeen s")
  case False
  with assms show ?thesis by (auto simp: cut_overflow_def sink_inv_def split_inv_def)
next
  case True
  note inv = assms(1) [unfolded split_inv_def prod.case]
  have "length (sb_buf b) + length (take (markerBytes s) claudeRunOutputLimitMarker) \<le>
      scrollbackLimit (s\<lparr>runPending := []\<rparr>) - length claudeOutputLimitMarker"
    using inv markerBytes_le [of s] by (auto simp: room_def)
  then obtain b2 where "appendSession (s\<lparr>runPending := []\<rparr>, b) (take (markerBytes s) claudeRunOutputLimitMarker) =
      (s\<lparr>runPending := []\<rparr>, b2)" "sb_buf b2 = sb_buf b @ take (markerBytes s) claudeRunOutputLimitMarker"
    using appendSession_fits [of "s\<lparr>runPending := []\<rparr>" b] inv by fastforce
  with True inv assms(2,3) show ?thesis
    by (auto simp: cut_overflow_def sink_inv_def cut_inv_def markerBytes_def)
qed

lemma appendBounded_inv:
  assumes "sink_inv buf0 T (s, b)" "appendBoundedLocked (s, b) p = (s', b')"
  shows "sink_inv buf0 (T @ p) (s', b') \<and> sk_redactor s' = sk_redactor s \<and> runLimit s' = runLimit s"
proof (cases "cut_inv buf0 T (s, b)")
  case True
  then obtain k where k: "k \<le> runLimit s - markerBytes s" "runLimit s < length T" "truncated s" "\<not> closed s"
    "back_off T (runLimit s - markerBytes s) \<le> k" "sb_buf b = buf0 @ take k T @ take (markerBytes s) claudeRunOutputLimitMarker" by (auto simp: cut_inv_def)
  then have "take k (T @ p) = take k T" "back_off (T @ p) (runLimit s - markerBytes s) = back_off T (runLimit s - markerBytes s)"
    by (simp_all add: back_off_append)
  with k have "cut_inv buf0 (T @ p) (s, b)" by (auto simp: cut_inv_def intro!: exI [of _ k])
  with k(3) assms(2) show ?thesis by (auto simp: appendBoundedLocked_def sink_inv_def)
next
  case False
  with assms(1) have inv: "split_inv buf0 T (s, b)" "length T \<le> runLimit s" by (auto simp: sink_inv_def)
  show ?thesis
  proof (cases "p = []")
    case True
    with assms show ?thesis by (auto simp: appendBoundedLocked_def)
  next
    case False
    define s1 where "s1 = s\<lparr>runSeen := runSeen s + length p, runPending := runPending s @ p\<rparr>"
    have "split_inv buf0 (T @ p) (s1, b)"
      using inv(1) by (auto simp: split_inv_def s1_def room_def markerBytes_def)
    moreover obtain s2 b2 where e: "emit_ready (s1, b) = (s2, b2)" by fastforce
    ultimately have i2: "split_inv buf0 (T @ p) (s2, b2)" "sk_redactor s2 = sk_redactor s1" "runLimit s2 = runLimit s1"
      "runLimit s1 < length (T @ p) \<longrightarrow> back_off (T @ p) (runLimit s1 - markerBytes s1) \<le> runEmitted s2"
      using emit_ready_inv by blast+
    then have "runLimit s2 < length (T @ p) \<Longrightarrow> back_off (T @ p) (runLimit s2 - markerBytes s2) \<le> runEmitted s2"
      by (simp add: markerBytes_def)
    note reached = this
    have "cut_overflow (s2, b2) = (s', b')"
      using assms(2) inv(1) False e
      by (auto simp: appendBoundedLocked_def split_inv_def room_def s1_def)
    from cut_overflow_inv [OF i2(1) this reached] i2(2,3) show ?thesis by (simp add: s1_def)
  qed
qed

text \<open>What the record holds after an invocation that produced the text \<open>T\<close>.\<close>

definition run_stored :: "nat \<Rightarrow> string \<Rightarrow> string \<Rightarrow> string \<Rightarrow> bool" where
  "run_stored limit buf0 T buf =
     (if length T \<le> limit then buf = buf0 @ T
      else (let mb = min (length claudeRunOutputLimitMarker) limit in
        \<exists>k. back_off T (limit - mb) \<le> k \<and> k \<le> limit - mb \<and> buf = buf0 @ take k T @ take mb claudeRunOutputLimitMarker))"

lemma cut_inv_stored: "cut_inv buf0 T (s, b) \<Longrightarrow> run_stored (runLimit s) buf0 T (sb_buf b)"
  by (auto simp: cut_inv_def run_stored_def markerBytes_def Let_def)

lemma sink_Close_stored:
  assumes inv: "sink_inv buf0 T (s, b)" and run: "sink_Close (s, b) = (s', b')"
  shows "run_stored (runLimit s) buf0 (T @ Finish (sk_redactor s)) (sb_buf b')"
proof -
  have open_s: "\<not> closed s" using inv by (auto simp: sink_inv_def cut_inv_def split_inv_def)
  obtain s1 b1 where a: "appendBoundedLocked (s, b) (Finish (sk_redactor s)) = (s1, b1)" by fastforce
  note i1 = appendBounded_inv [OF inv a]
  have st1: "(if \<not> truncated s \<and> \<not> sessionFull s then appendBoundedLocked (s, b) (Finish (sk_redactor s)) else (s, b)) = (s1, b1)"
    using a by (auto simp: appendBoundedLocked_def)
  show ?thesis
  proof (cases "cut_inv buf0 (T @ Finish (sk_redactor s)) (s1, b1)")
    case True
    then have "truncated s1" by (simp add: cut_inv_def)
    with run open_s st1 have "b' = b1" by (auto simp: sink_Close_def Let_def split: if_splits)
    with cut_inv_stored [OF True] i1 show ?thesis by simp
  next
    case False
    define T' where "T' = T @ Finish (sk_redactor s)"
    with False i1 have sp: "split_inv buf0 T' (s1, b1)" "length T' \<le> runLimit s" by (auto simp: sink_inv_def)
    note sp' = sp(1) [unfolded split_inv_def prod.case]
    have "length (sb_buf b1) + length (runPending s1) \<le> scrollbackLimit s1 - length claudeOutputLimitMarker"
      using sp' sp(2) i1 by (auto simp: room_def)
    then obtain b2 where b2: "appendSession (s1, b1) (runPending s1) = (s1, b2)" "sb_buf b2 = sb_buf b1 @ runPending s1"
      using appendSession_fits sp' by blast
    have "sb_buf b' = sb_buf b1 @ runPending s1"
      using run open_s st1 sp' b2 by (auto simp: sink_Close_def Let_def split: if_splits)
    then have "sb_buf b' = buf0 @ T'" using sp' by simp
    with sp(2) show ?thesis by (simp add: run_stored_def T'_def)
  qed
qed

lemma run_stored_past: "limit < length T \<Longrightarrow> run_stored limit buf0 (T @ R) buf = run_stored limit buf0 T buf"
  by (simp add: run_stored_def Let_def back_off_append cong: conj_cong)

lemma sink_run_stored:
  assumes "sink_inv buf0 T (s, b)" "safe_literals (literals (sk_redactor s))"
  shows "run_stored (runLimit s) buf0 (T @ redactor_whole (sk_redactor s) (withoutTurnSentinel (concat cs)))
    (sb_buf (snd (sink_run (s, b) cs)))"
  using assms
proof (induction cs arbitrary: s b T)
  case Nil
  then show ?case
    using sink_Close_stored [OF Nil(1)] redactor.finish_whole [OF Nil(2)]
    by (cases "sink_Close (s, b)") (simp add: withoutTurnSentinel_def)
next
  case (Cons c cs)
  show ?case
  proof (cases "c = [] \<or> truncated s")
    case True
    then have w: "sink_Write (s, b) c = (s, b)" by (auto simp: sink_Write_def)
    show ?thesis
    proof (cases "c = []")
      case True
      with Cons.IH [OF Cons.prems] w show ?thesis by simp
    next
      case False
      with True Cons.prems(1) have cut: "cut_inv buf0 T (s, b)" by (auto simp: sink_inv_def split_inv_def)
      then have "runLimit s < length T" "truncated s" "\<not> closed s" by (auto simp: cut_inv_def)
      moreover have "run_stored (runLimit s) buf0 (T @ R) buf" if "run_stored (runLimit s) buf0 (T @ R') buf" for R R' buf
        using that run_stored_past [OF \<open>runLimit s < length T\<close>] by blast
      ultimately show ?thesis using Cons.IH [OF Cons.prems] w by auto
    qed
  next
    case False
    then have sp: "split_inv buf0 T (s, b)" using Cons.prems(1) by (auto simp: sink_inv_def cut_inv_def)
    obtain out r' where p: "Push (sk_redactor s) (withoutTurnSentinel c) = (out, r')" by fastforce
    obtain s1 b1 where a: "appendBoundedLocked (s\<lparr>sk_redactor := r'\<rparr>, b) out = (s1, b1)" by fastforce
    have inv': "sink_inv buf0 T (s\<lparr>sk_redactor := r'\<rparr>, b)"
      using Cons.prems(1) by (auto simp: sink_inv_def split_inv_def cut_inv_def room_def markerBytes_def)
    note i1 = appendBounded_inv [OF inv' a]
    have w: "sink_Write (s, b) c = (s1, b1)"
      using False p a sp by (auto simp: sink_Write_def split_inv_def)
    have safe: "safe_literals (literals (sk_redactor s1))"
      using redactor.push_ok [OF Cons.prems(2) p] i1 by simp
    have "redactor_whole (sk_redactor s) (withoutTurnSentinel (concat (c # cs))) =
        out @ redactor_whole (sk_redactor s1) (withoutTurnSentinel (concat cs))"
      using redactor.push_whole [OF Cons.prems(2) p] i1 by (simp add: withoutTurnSentinel_def)
    with Cons.IH [of "T @ out" s1 b1] i1 safe w show ?thesis by simp
  qed
qed

text \<open>C8: what an invocation leaves in the record does not depend on how its output was cut into
  writes. With room in the record, the writes of one invocation and the closing of its sink
  append the redacted text (turn sentinels removed first) in full when it fits the invocation
  limit. Otherwise they append the limit marker after a prefix of it that is cut in the room the marker leaves, between
  the last beginning of a character there and the end of the room, never more than the limit in all; a text of one-byte
  characters is cut at the same place however it was written. No credential may occur inside an incomplete other one.\<close>

theorem run_output_stored:
  assumes "safe_literals lits" "room (newClaudeOutputSink lits limit sbLimit) (sb_buf b)"
  shows "run_stored limit (sb_buf b) (fst (drain (filter (\<lambda>l. l \<noteq> []) lits) True (withoutTurnSentinel (concat cs))))
      (sb_buf (snd (sink_run (newClaudeOutputSink lits limit sbLimit, b) cs))) \<and>
    length (sb_buf (snd (sink_run (newClaudeOutputSink lits limit sbLimit, b) cs))) \<le> length (sb_buf b) + limit"
proof -
  let ?s = "newClaudeOutputSink lits limit sbLimit"
  have safe: "safe_literals (literals (sk_redactor ?s))"
    using assms(1) by (auto simp: newClaudeOutputSink_def newStreamingRedactor_def safe_literals_def list_all_iff)
  have "sink_inv (sb_buf b) [] (?s, b)"
    using assms(2) by (auto simp: sink_inv_def split_inv_def newClaudeOutputSink_def)
  from sink_run_stored [OF this safe, of cs]
  have st: "run_stored limit (sb_buf b) (fst (drain (filter (\<lambda>l. l \<noteq> []) lits) True (withoutTurnSentinel (concat cs))))
      (sb_buf (snd (sink_run (?s, b) cs)))"
    by (simp add: redactor_whole_def newClaudeOutputSink_def newStreamingRedactor_def)
  moreover have "length buf \<le> length buf0 + limit" if "run_stored limit buf0 T buf" for buf buf0 T
    using that by (auto simp: run_stored_def Let_def split: if_splits)
  ultimately show ?thesis by blast
qed

theorem run_output_stored_witness:
  "sb_buf (snd (sink_run (newClaudeOutputSink [''key''] 100 300, \<lparr>sb_buf = ''old '', sb_changed = None\<rparr>)
     [''a k'', ''ey b''])) = ''old a [REDACTED] b''"
proof -
  have r: "room (newClaudeOutputSink [''key''] 100 300) (sb_buf \<lparr>sb_buf = ''old '', sb_changed = None\<rparr>)"
    by (simp add: room_def newClaudeOutputSink_def claudeOutputLimitMarker_def)
  have t: "fst (drain (filter (\<lambda>l. l \<noteq> []) [''key'']) True (withoutTurnSentinel (concat [''a k'', ''ey b'']))) =
      ''a [REDACTED] b''" by code_simp
  show ?thesis
    using run_output_stored [OF safe_one r, of "[''a k'', ''ey b'']"] unfolding t run_stored_def by simp
qed

text \<open>The writers in front of the sink: the projector writes into the UTF-8 normaliser.\<close>

lemma stdout_path:
  "stream_filter (pipe_push (projector_Write um) utf8_Write) (pipe_finish (projector_Close um) utf8_Write utf8_Close)
     (\<lambda>st x. utf8_whole (snd st) (projector_whole um (fst st) x)) (\<lambda>st. newline \<notin> set (pj_buf (fst st)) \<and> True)"
  by (rule stream_filter_pipe [OF stream_filter_projector utf8_writer.stream_filter_axioms])

text \<open>The text of a session does not depend on how the agent's process cut its output. However
  the bytes of standard output arrive in chunks, the projector and the normaliser behind it
  release the UTF-8 repair of the projection of the complete output, whatever the JSON decoder.\<close>

theorem stdout_chunking:
  "run_filter (pipe_push (projector_Write um) utf8_Write) (pipe_finish (projector_Close um) utf8_Write utf8_Close)
     (newClaudeStreamProjector, \<lparr>uw_pending = []\<rparr>) cs =
   utf8_coerce (projector_whole um newClaudeStreamProjector (concat cs))"
  using stream_filter.run_whole [OF stdout_path, of "(newClaudeStreamProjector, \<lparr>uw_pending = []\<rparr>)" um cs]
  by (simp add: newClaudeStreamProjector_def utf8_whole_def)

end
