(* ===== verification/Workload.thy ===== *)
theory Workload
  imports Output_Laws Rfc3339
begin

text \<open>
  \<open>data-plane/cmd/agent/claude.go\<close> and \<open>claude_subscription.go\<close>: the workload that owns one
  session's agent invocations. Every definition below is one critical section of \<open>c.mu\<close> or one
  call between two of them, with its guards; the conditions the code waits for are separate
  predicates. What the code asks of its surroundings (the CLI's answers, files, the clock,
  random bytes) is an argument. Timers are only a source of calls of \<open>dropPendingLogin\<close>.
\<close>

section \<open>State\<close>

definition errClaudeAwaitingRestore :: goerr where "errClaudeAwaitingRestore = New ''claude workload is awaiting restore''"
definition errClaudeAdmissionClosed :: goerr where "errClaudeAdmissionClosed = New ''claude workload is checkpointing; writes are closed''"
definition errClaudeQueueFull :: goerr where "errClaudeQueueFull = New ''claude prompt queue is full''"
definition errClaudeOutputFull :: goerr where "errClaudeOutputFull = New ''claude session output limit is reached''"
definition errClaudeAlreadyReady :: goerr where "errClaudeAlreadyReady = New ''claude workload is already restored''"
definition errClaudeStopping :: goerr where "errClaudeStopping = New ''claude workload is stopping''"
definition errClaudeCheckpointBusy :: goerr where "errClaudeCheckpointBusy = New ''claude checkpoint archive is still streaming''"
definition errClaudeCheckpointID :: goerr where "errClaudeCheckpointID = New ''no matching claude checkpoint''"
definition errPluginRefreshRunning :: goerr where "errPluginRefreshRunning = New ''a plugin refresh is already running''"
definition errPluginRefreshBusy :: goerr where "errPluginRefreshBusy = New ''a turn is running or queued; refresh plugins between turns''"

definition errPluginRefreshUnsupported :: goerr where "errPluginRefreshUnsupported = New ''this workload has no platform plugins to refresh''"
definition errPluginRefreshFailed :: goerr where "errPluginRefreshFailed = New ''plugin marketplace refresh failed''"

definition maxClaudeQueuedPrompts :: nat where "maxClaudeQueuedPrompts = 64"
definition maxClaudeQueuedBytes :: nat where "maxClaudeQueuedBytes = 8388608"

record promptJob =
  pj_prompt :: string
  pj_seq :: nat

record pendingClaudeLogin =
  pl_proc :: nat \<comment> \<open>the running sign-in process\<close>
  pl_prompt :: string
  pl_after :: nat

record droppedClaudeLogin =
  dl_after :: nat
  dl_until :: time

record claudeWorkload =
  wl_redact :: "string list"
  wl_out :: scrollback
  wl_runOutputLimit :: nat
  wl_scrollbackLimit :: nat
  wl_queue :: "promptJob list"
  wl_queuedBytes :: nat
  wl_ready :: bool
  wl_accepting :: bool
  wl_checkpointing :: bool
  wl_checkpointReady :: bool
  wl_checkpointID :: string
  wl_lastAborted :: string
  wl_restoring :: bool
  wl_refreshing :: bool
  wl_pendingLogin :: "pendingClaudeLogin option"
  wl_droppedLogin :: "droppedClaudeLogin option"
  wl_enqueued :: nat
  wl_active :: bool
  wl_hasRun :: bool
  wl_turns :: nat
  wl_stopping :: bool

record claudeConfig =
  cfg_Model :: string
  cfg_RestoreMode :: bool
  cfg_Redact :: "string list"
  cfg_RunOutputLimit :: int
  cfg_ScrollbackLimit :: int
  cfg_Login :: bool \<comment> \<open>a subscription sign-in is configured\<close>
  cfg_AuthSlot :: bool \<comment> \<open>the session holds an auth slot\<close>

definition maxClaudeRunOutputBytes :: int where "maxClaudeRunOutputBytes = 16777216"
definition maxClaudeScrollbackBytes :: int where "maxClaudeScrollbackBytes = 268435456"
definition platformDefaultModel :: string where "platformDefaultModel = ''platform-default''"

fun dedup_literals :: "string list \<Rightarrow> string list \<Rightarrow> string list" where
  "dedup_literals seen [] = []"
| "dedup_literals seen (l # ls) =
     (if l = [] \<or> l \<in> set seen then dedup_literals seen ls else l # dedup_literals (l # seen) ls)"

text \<open>\<open>normaliseRedactionLiterals\<close>: longest first (Go's sort leaves the order of equally long
  literals open; here it is that of their first occurrence).\<close>

definition normaliseRedactionLiterals :: "string list \<Rightarrow> string list" where
  "normaliseRedactionLiterals lits = sort_key (\<lambda>l. - int (length l)) (dedup_literals [] lits)"

text \<open>\<open>newClaudeWorkload\<close> after the state directory was resolved: a restore-mode pod starts unready;
  otherwise the runtime state found on disk (\<open>onDisk\<close>, or why it could not be read) is loaded
  and admission opens.\<close>

definition positive_or :: "int \<Rightarrow> int \<Rightarrow> int" where
  "positive_or n fallback = (if n \<le> 0 then fallback else n)"

definition configured_model :: "claudeConfig \<Rightarrow> string" where
  "configured_model cfg = (if cfg_Model cfg = [] then platformDefaultModel else cfg_Model cfg)"

definition fresh_workload :: "string list \<Rightarrow> nat \<Rightarrow> nat \<Rightarrow> claudeWorkload" where
  "fresh_workload redact runOutputLimit limit =
     \<lparr>wl_redact = redact, wl_out = \<lparr>sb_buf = [], sb_changed = None\<rparr>,
      wl_runOutputLimit = runOutputLimit, wl_scrollbackLimit = limit,
      wl_queue = [], wl_queuedBytes = 0, wl_ready = False, wl_accepting = False,
      wl_checkpointing = False, wl_checkpointReady = False, wl_checkpointID = [], wl_lastAborted = [],
      wl_restoring = False, wl_refreshing = False, wl_pendingLogin = None, wl_droppedLogin = None,
      wl_enqueued = 0, wl_active = False, wl_hasRun = False, wl_turns = 0, wl_stopping = False\<rparr>"

definition newClaudeWorkload :: "claudeConfig \<Rightarrow> goerr + bool \<Rightarrow> goerr + claudeWorkload" where
  "newClaudeWorkload cfg onDisk =
     (let model = configured_model cfg;
          runOutputLimit = positive_or (cfg_RunOutputLimit cfg) maxClaudeRunOutputBytes;
          limit = positive_or (cfg_ScrollbackLimit cfg) maxClaudeScrollbackBytes in
      if model \<noteq> TrimSpace model \<or> \<not> modelNamePattern model then
        Inl (New ''claude model must match the platform model identifier pattern'')
      else if limit < int (length claudeOutputLimitMarker) then
        Inl (New ''claude scrollback limit cannot hold its terminal marker'')
      else if maxClaudeScrollbackBytes < limit then Inl (New ''claude scrollback limit exceeds archive maximum'')
      else if cfg_Login cfg \<and> \<not> cfg_AuthSlot cfg then Inl (New ''a claude subscription sign-in needs an auth slot'')
      else
        let c = fresh_workload (normaliseRedactionLiterals (cfg_Redact cfg)) (nat runOutputLimit) (nat limit) in
        if cfg_RestoreMode cfg then Inr c
        else (case onDisk of
                Inl e \<Rightarrow> Inl e
              | Inr hasRun \<Rightarrow> Inr (c\<lparr>wl_hasRun := hasRun, wl_ready := True, wl_accepting := True\<rparr>)))"

section \<open>Admission\<close>

definition enqueue :: "claudeWorkload \<Rightarrow> string \<Rightarrow> goerr + claudeWorkload" where
  "enqueue c prompt =
     (if wl_stopping c then Inl errClaudeStopping
      else if \<not> wl_ready c then Inl errClaudeAwaitingRestore
      else if \<not> wl_accepting c then Inl errClaudeAdmissionClosed
      else if claudeFullAt (wl_out c) (wl_scrollbackLimit c) claudeOutputLimitMarker then Inl errClaudeOutputFull
      else if maxClaudeQueuedPrompts \<le> length (wl_queue c) \<or>
              maxClaudeQueuedBytes < wl_queuedBytes c + length prompt then Inl errClaudeQueueFull
      else Inr (c\<lparr>wl_enqueued := Suc (wl_enqueued c),
                  wl_queue := wl_queue c @ [\<lparr>pj_prompt = prompt, pj_seq = Suc (wl_enqueued c)\<rparr>],
                  wl_queuedBytes := wl_queuedBytes c + length prompt\<rparr>))"

definition wl_Close :: "claudeWorkload \<Rightarrow> claudeWorkload" where
  "wl_Close c =
     (if wl_stopping c then c
      else c\<lparr>wl_stopping := True, wl_accepting := False, wl_pendingLogin := None\<rparr>)"

section \<open>The record of turns\<close>

definition append_record :: "claudeWorkload \<Rightarrow> string \<Rightarrow> claudeWorkload" where
  "append_record c p =
     c\<lparr>wl_out := snd (appendClaudeBoundedAt (wl_out c) p (wl_scrollbackLimit c) claudeOutputLimitMarker)\<rparr>"

definition appendPlatformNotice :: "claudeWorkload \<Rightarrow> string \<Rightarrow> claudeWorkload" where
  "appendPlatformNotice c text = append_record c (withoutTurnSentinel text)"

definition claudeTurnMarkerLead :: string where
  "claudeTurnMarkerLead = claudeTurnSentinel # ''session-platform ''"

definition claudeTurnMarker :: "string \<Rightarrow> nat \<Rightarrow> string list \<Rightarrow> string" where
  "claudeTurnMarker kind seq fs =
     claudeTurnMarkerLead @ kind @ '' seq='' @ Itoa seq @ concat (map (\<lambda>f. CHR '' '' # f) fs) @ [newline]"

text \<open>\<open>c.now().UTC().Format(time.RFC3339)\<close>: whole seconds.\<close>

definition timestamp :: "time \<Rightarrow> string" where
  "timestamp t = Format_RFC3339Nano (t - t mod 1000000000)"

text \<open>\<open>strings.ToValidUTF8\<close>: a run of ill-formed bytes becomes one replacement.\<close>

function ToValidUTF8 :: "bool \<Rightarrow> string \<Rightarrow> string" where
  "ToValidUTF8 inRun s =
     (if s = [] then []
      else if rune_len s = 0 then (if inRun then [] else rune_error) @ ToValidUTF8 True (tl s)
      else take (rune_len s) s @ ToValidUTF8 False (drop (rune_len s) s))"
  by pat_completeness auto
termination by (relation "measure (\<lambda>(b, s). length s)") auto

declare ToValidUTF8.simps [simp del]

definition TrimRightNewlines :: "string \<Rightarrow> string" where
  "TrimRightNewlines s = rev (dropWhile (\<lambda>c. c = CHR 0x0D \<or> c = newline) (rev s))"

definition appendTurnBlock :: "claudeWorkload \<Rightarrow> string \<Rightarrow> claudeWorkload" where
  "appendTurnBlock c block =
     append_record c (if endsWithNewline (wl_out c) then block else newline # block)"

definition turn_block :: "string list \<Rightarrow> time \<Rightarrow> nat \<Rightarrow> string \<Rightarrow> string" where
  "turn_block redact now seq prompt =
     (let body = TrimRightNewlines (ToValidUTF8 False prompt) @ [newline];
          (out, r) = Push (newStreamingRedactor redact) (withoutTurnSentinel body)
      in claudeTurnMarker ''input'' seq [''at='' @ timestamp now] @ (out @ Finish r) @ claudeTurnMarker ''output'' seq [])"

definition beginTurn :: "claudeWorkload \<Rightarrow> time \<Rightarrow> nat \<Rightarrow> string \<Rightarrow> claudeWorkload" where
  "beginTurn c now seq prompt = appendTurnBlock c (turn_block (wl_redact c) now seq prompt)"

definition endTurn :: "claudeWorkload \<Rightarrow> time \<Rightarrow> nat \<Rightarrow> string \<Rightarrow> claudeWorkload" where
  "endTurn c now seq status =
     appendTurnBlock c (claudeTurnMarker ''end'' seq [''status='' @ status, ''at='' @ timestamp now])"

datatype run_error = RunOk | RunWaitDelay | RunCanceled | RunError

definition claudeTurnStatus :: "run_error \<Rightarrow> bool \<Rightarrow> string" where
  "claudeTurnStatus err timedOut =
     (if err = RunOk \<or> err = RunWaitDelay then ''ok''
      else if timedOut then ''timeout''
      else if err = RunCanceled then ''canceled''
      else ''error'')"

section \<open>Sign-in\<close>

datatype turnInput = PlainPrompt | LoginCode pendingClaudeLogin | StaleCode | BeforeSignIn

definition claudeLoginCodeInput :: string where "claudeLoginCodeInput = ''[login code]''"
definition claudeLoginDroppedWindow :: duration where "claudeLoginDroppedWindow = 30 * 60 * 1000000000"

definition classifyInputLocked :: "claudeWorkload \<Rightarrow> time \<Rightarrow> promptJob \<Rightarrow> turnInput \<times> claudeWorkload" where
  "classifyInputLocked c now job =
     (case wl_pendingLogin c of
        Some pend \<Rightarrow>
          if pj_seq job \<le> pl_after pend then (BeforeSignIn, c)
          else (LoginCode pend, c\<lparr>wl_pendingLogin := None\<rparr>)
      | None \<Rightarrow>
          (case wl_droppedLogin c of
             None \<Rightarrow> (PlainPrompt, c)
           | Some d \<Rightarrow>
               if dl_until d < now then (PlainPrompt, c\<lparr>wl_droppedLogin := None\<rparr>)
               else if dl_after d < pj_seq job then (StaleCode, c\<lparr>wl_droppedLogin := None\<rparr>)
               else (PlainPrompt, c)))"

definition dropPendingLogin ::
    "claudeWorkload \<Rightarrow> time \<Rightarrow> pendingClaudeLogin option \<Rightarrow> string \<Rightarrow> claudeWorkload" where
  "dropPendingLogin c now pend notice =
     (case pend of
        None \<Rightarrow> c
      | Some p \<Rightarrow>
          if wl_pendingLogin c \<noteq> Some p then c
          else
            let c1 = c\<lparr>wl_pendingLogin := None\<rparr>;
                c2 = (if wl_stopping c1 then c1
                      else c1\<lparr>wl_droppedLogin := Some \<lparr>dl_after = pl_after p, dl_until = now + claudeLoginDroppedWindow\<rparr>\<rparr>)
            in if notice \<noteq> [] then appendPlatformNotice c2 notice else c2)"

text \<open>The answers of the CLI's sign-in commands during one turn.\<close>

record login_answers =
  la_signedIn :: "goerr + bool"
  la_start :: "(goerr + (nat \<times> string))" \<comment> \<open>the process and its URL\<close>
  la_submit :: "string \<Rightarrow> string option" \<comment> \<open>the error text of \<open>submit\<close> for a code\<close>

definition subscriptionGate :: "claudeWorkload \<Rightarrow> login_answers \<Rightarrow> string \<Rightarrow> bool \<times> claudeWorkload" where
  "subscriptionGate c la prompt =
     (case la_signedIn la of
        Inl _ \<Rightarrow> (False, appendPlatformNotice c (''[session-platform: could not check the Claude sign-in; the prompt did not run. Try again.]'' @ [newline]))
      | Inr True \<Rightarrow> (True, c)
      | Inr False \<Rightarrow>
          (case la_start la of
             Inl _ \<Rightarrow> (False, appendPlatformNotice c (''[session-platform: this session is not signed in to a Claude subscription, and the sign-in could not start. Send the prompt again to retry.]'' @ [newline]))
           | Inr (proc, url) \<Rightarrow>
               (False, appendPlatformNotice
                  (c\<lparr>wl_pendingLogin := Some \<lparr>pl_proc = proc, pl_prompt = prompt, pl_after = wl_enqueued c\<rparr>,
                     wl_droppedLogin := None\<rparr>)
                  (''[session-platform: this session's auth slot is not signed in to a Claude subscription yet.]'' @ [newline] @
                   ''[session-platform: open this link in a browser and sign in: '' @ url @ '']'' @ [newline] @
                   ''[session-platform: then send the code the page shows as your next message. Your prompt runs once sign-in completes.]'' @ [newline]))))"

definition completeLogin :: "claudeWorkload \<Rightarrow> login_answers \<Rightarrow> string \<Rightarrow> bool \<times> claudeWorkload" where
  "completeLogin c la code =
     (case la_submit la (TrimSpace code) of
        Some err \<Rightarrow> (False, appendPlatformNotice c (''[session-platform: Claude sign-in did not complete ('' @ err @ ''); the held prompt was dropped. Send it again to start over.]'' @ [newline]))
      | None \<Rightarrow> (True, appendPlatformNotice c (''[session-platform: signed in to Claude. Running the held prompt.]'' @ [newline])))"

text \<open>\<open>openTurn\<close>: the input record of a turn and what it runs, None when nothing runs. \<open>login\<close> says
  whether the session signs in to a subscription. Every branch first records the input, and then
  settles what runs; between the two the workload is unlocked.\<close>

definition recorded_input :: "string \<Rightarrow> turnInput \<Rightarrow> string" where
  "recorded_input prompt input =
     (case input of LoginCode _ \<Rightarrow> claudeLoginCodeInput | StaleCode \<Rightarrow> claudeLoginCodeInput | _ \<Rightarrow> prompt)"

definition settleTurn ::
    "claudeWorkload \<Rightarrow> bool \<Rightarrow> login_answers \<Rightarrow> string \<Rightarrow> turnInput \<Rightarrow> string option \<times> claudeWorkload" where
  "settleTurn c login la prompt input =
     (case input of
        LoginCode pend \<Rightarrow>
          (case completeLogin c la prompt of (ok, c') \<Rightarrow> (if ok then Some (pl_prompt pend) else None, c'))
      | StaleCode \<Rightarrow>
          (None, appendPlatformNotice c
             (''[session-platform: the Claude sign-in this message was for had already ended, so it was taken as its code and not used. Send your prompt again to start a new sign-in.]'' @ [newline]))
      | BeforeSignIn \<Rightarrow>
          (None, appendPlatformNotice c
             (''[session-platform: this prompt was sent before the Claude sign-in started, so it did not run. Send it again after signing in.]'' @ [newline]))
      | PlainPrompt \<Rightarrow>
          if login then (case subscriptionGate c la prompt of (ok, c') \<Rightarrow> (if ok then Some prompt else None, c'))
          else (Some prompt, c))"

definition openTurn ::
    "claudeWorkload \<Rightarrow> time \<Rightarrow> bool \<Rightarrow> login_answers \<Rightarrow> nat \<Rightarrow> string \<Rightarrow> turnInput \<Rightarrow> string option \<times> claudeWorkload" where
  "openTurn c now login la seq prompt input =
     settleTurn (beginTurn c now seq (recorded_input prompt input)) login la prompt input"

definition claudeArgv :: "string \<Rightarrow> string \<Rightarrow> string \<Rightarrow> string \<Rightarrow> bool \<Rightarrow> string list" where
  "claudeArgv binary model effort prompt resume =
     [binary] @ (if resume then [''--continue''] else []) @
     (if model \<noteq> [] \<and> model \<noteq> platformDefaultModel then [''--model'', model] else []) @
     (if effort \<noteq> [] then [''--effort'', effort] else []) @
     [''--permission-mode'', ''auto'', ''-p'', ''--output-format'', ''stream-json'', ''--verbose'',
      ''--include-partial-messages'', ''--'', prompt]"

text \<open>\<open>withTurnNotice\<close>: \<open>notice\<close> is what the CLI answers about pending skill changes, None when it
  keeps no such note or the note could not be read.\<close>

definition withTurnNotice :: "string option \<Rightarrow> string \<Rightarrow> bool \<Rightarrow> string \<times> bool" where
  "withTurnNotice notice prompt resume =
     (case notice of
        None \<Rightarrow> (prompt, False)
      | Some n \<Rightarrow>
          if n = [] then (prompt, False)
          else (if resume then n @ [newline, newline] @ prompt else prompt, True))"

section \<open>The worker\<close>

definition worker_ready :: "claudeWorkload \<Rightarrow> bool" where
  "worker_ready c = (\<not> wl_stopping c \<and> wl_ready c \<and> \<not> wl_refreshing c \<and> wl_queue c \<noteq> [])"

record turn =
  tn_job :: promptJob
  tn_seq :: nat
  tn_resume :: bool
  tn_input :: turnInput

definition worker_take :: "claudeWorkload \<Rightarrow> time \<Rightarrow> turn \<times> claudeWorkload" where
  "worker_take c now =
     (let job = hd (wl_queue c);
          c1 = c\<lparr>wl_queue := tl (wl_queue c), wl_queuedBytes := wl_queuedBytes c - length (pj_prompt job),
                 wl_active := True, wl_turns := Suc (wl_turns c)\<rparr>;
          (input, c2) = classifyInputLocked c1 now job
      in (\<lparr>tn_job = job, tn_seq = wl_turns c1, tn_resume = wl_hasRun c, tn_input = input\<rparr>, c2))"

definition worker_skip :: "claudeWorkload \<Rightarrow> claudeWorkload" where
  "worker_skip c = c\<lparr>wl_active := False\<rparr>"

definition worker_finish :: "claudeWorkload \<Rightarrow> bool \<Rightarrow> run_error \<Rightarrow> claudeWorkload" where
  "worker_finish c resume err =
     c\<lparr>wl_hasRun := (resume \<or> err = RunOk \<or> err = RunWaitDelay), wl_active := False\<rparr>"

section \<open>Plugin refresh\<close>

definition refresh_begin :: "claudeWorkload \<Rightarrow> goerr + claudeWorkload" where
  "refresh_begin c =
     (if wl_stopping c then Inl errClaudeStopping
      else if \<not> wl_ready c then Inl errClaudeAwaitingRestore
      else if \<not> wl_accepting c \<or> wl_checkpointing c then Inl errClaudeAdmissionClosed
      else if wl_refreshing c then Inl errPluginRefreshRunning
      else if wl_active c \<or> wl_queue c \<noteq> [] then Inl errPluginRefreshBusy
      else Inr (c\<lparr>wl_refreshing := True\<rparr>))"

definition refresh_end :: "claudeWorkload \<Rightarrow> claudeWorkload" where
  "refresh_end c = c\<lparr>wl_refreshing := False\<rparr>"

section \<open>Checkpoint\<close>

definition hex_char :: "char \<Rightarrow> bool" where
  "hex_char c = ((CHR ''0'' \<le> c \<and> c \<le> CHR ''9'') \<or> (CHR ''a'' \<le> c \<and> c \<le> CHR ''f''))"

text \<open>\<open>newClaudeCheckpointID\<close>: \<open>random\<close> is the outcome of \<open>rand.Read\<close> into 16 bytes.\<close>

definition hex_digit :: "nat \<Rightarrow> char" where
  "hex_digit n = ''0123456789abcdef'' ! n"

definition EncodeToString :: "string \<Rightarrow> string" where
  "EncodeToString bs = concat (map (\<lambda>b. [hex_digit (of_char b div 16), hex_digit (of_char b mod 16)]) bs)"

definition newClaudeCheckpointID :: "string option \<Rightarrow> goerr + string" where
  "newClaudeCheckpointID random =
     (case random of
        None \<Rightarrow> Inl (New ''generate claude checkpoint id'')
      | Some value \<Rightarrow> Inr (EncodeToString (take 16 (value @ replicate 16 (CHR 0x00)))))"

text \<open>\<open>claudeCheckpointID\<close>: empty asks for a fresh one; otherwise 32 lower-case hex digits, the only
  texts that \<open>hex.DecodeString\<close> accepts and \<open>EncodeToString\<close> gives back unchanged.\<close>

definition claudeCheckpointID :: "string option \<Rightarrow> string \<Rightarrow> goerr + string" where
  "claudeCheckpointID random requested =
     (if requested = [] then newClaudeCheckpointID random
      else if length requested \<noteq> 32 \<or> \<not> list_all hex_char requested then Inl errClaudeCheckpointID
      else Inr requested)"

definition beginCheckpoint_close :: "claudeWorkload \<Rightarrow> string \<Rightarrow> goerr + claudeWorkload" where
  "beginCheckpoint_close c checkpointID =
     (if wl_stopping c then Inl errClaudeStopping
      else if \<not> wl_ready c then Inl errClaudeAwaitingRestore
      else if \<not> wl_accepting c \<or> wl_checkpointing c then Inl errClaudeAdmissionClosed
      else Inr (c\<lparr>wl_accepting := False, wl_checkpointing := True, wl_checkpointReady := False,
                  wl_checkpointID := checkpointID\<rparr>))"

definition draining :: "claudeWorkload \<Rightarrow> bool" where
  "draining c = (wl_active c \<or> wl_refreshing c \<or> wl_queue c \<noteq> [])"

definition reopenCheckpointLocked :: "claudeWorkload \<Rightarrow> claudeWorkload" where
  "reopenCheckpointLocked c =
     (let c1 = c\<lparr>wl_checkpointing := False, wl_checkpointReady := False, wl_checkpointID := []\<rparr> in
      if wl_ready c1 \<and> \<not> wl_stopping c1 then c1\<lparr>wl_accepting := True\<rparr> else c1)"

definition beginCheckpoint_stopped :: "claudeWorkload \<Rightarrow> claudeWorkload" where
  "beginCheckpoint_stopped c = c\<lparr>wl_checkpointing := False, wl_checkpointReady := False, wl_checkpointID := []\<rparr>"

definition abortCheckpoint :: "claudeWorkload \<Rightarrow> claudeWorkload" where
  "abortCheckpoint c =
     (if \<not> wl_checkpointing c then c
      else reopenCheckpointLocked (c\<lparr>wl_lastAborted := wl_checkpointID c\<rparr>))"

definition completeCheckpointStream :: "claudeWorkload \<Rightarrow> claudeWorkload" where
  "completeCheckpointStream c =
     (if wl_checkpointing c then c\<lparr>wl_checkpointReady := True, wl_accepting := False\<rparr> else c)"

definition abortCompletedCheckpoint :: "claudeWorkload \<Rightarrow> string \<Rightarrow> goerr + claudeWorkload" where
  "abortCompletedCheckpoint c checkpointID =
     (if wl_stopping c then Inl errClaudeStopping
      else if \<not> wl_ready c then Inl errClaudeAwaitingRestore
      else if checkpointID = [] then Inl errClaudeCheckpointID
      else if \<not> wl_checkpointing c then Inr (c\<lparr>wl_lastAborted := checkpointID\<rparr>)
      else if checkpointID \<noteq> wl_checkpointID c then Inl errClaudeCheckpointID
      else if \<not> wl_checkpointReady c then Inl errClaudeCheckpointBusy
      else Inr (reopenCheckpointLocked (c\<lparr>wl_lastAborted := checkpointID\<rparr>)))"

section \<open>Restore\<close>

definition restore_begin :: "claudeWorkload \<Rightarrow> goerr + claudeWorkload" where
  "restore_begin c =
     (if wl_stopping c then Inl errClaudeStopping
      else if wl_ready c \<or> wl_restoring c then Inl errClaudeAlreadyReady
      else Inr (c\<lparr>wl_restoring := True\<rparr>))"

text \<open>\<open>bytes.Count\<close> of a non-empty separator.\<close>

function bytes_Count :: "string \<Rightarrow> string \<Rightarrow> nat" where
  "bytes_Count s sep =
     (case bytes_Index s sep of
        None \<Rightarrow> 0
      | Some i \<Rightarrow> if sep = [] \<or> s = [] then 0 else Suc (bytes_Count (drop (i + length sep) s) sep))"
  by pat_completeness auto
termination by (relation "measure (\<lambda>(s, sep). length s)") auto

declare bytes_Count.simps [simp del]

definition restore_finish :: "claudeWorkload \<Rightarrow> string \<Rightarrow> bool \<Rightarrow> claudeWorkload" where
  "restore_finish c scrollbackBytes hasRun =
     c\<lparr>wl_out := sb_restore (wl_out c) scrollbackBytes,
       wl_turns := bytes_Count scrollbackBytes (claudeTurnMarkerLead @ ''input ''),
       wl_hasRun := hasRun, wl_ready := True, wl_accepting := True, wl_restoring := False\<rparr>"

definition finishFailedRestore :: "claudeWorkload \<Rightarrow> claudeWorkload" where
  "finishFailedRestore c = c\<lparr>wl_restoring := False\<rparr>"

definition isReady :: "claudeWorkload \<Rightarrow> bool" where
  "isReady c = (wl_ready c \<and> \<not> wl_stopping c)"

section \<open>Redaction\<close>

text \<open>\<open>redactBytes\<close>: one \<open>ReplaceAll\<close> per literal, longest literal first as
  \<open>normaliseRedactionLiterals\<close> sorted them.\<close>

definition redactBytes :: "string list \<Rightarrow> string \<Rightarrow> string" where
  "redactBytes lits p = fold (\<lambda>lit out. ReplaceAll out lit redactedLiteral) lits p"

section \<open>Routes\<close>

text \<open>\<open>claudeRoutes\<close>: the HTTP status and, where it matters, the body of each route. A request body
  is read completely, is too large, or fails to be read.\<close>

datatype body_read = BodyOk string | BodyTooLarge | BodyFailed

definition write_route :: "claudeWorkload \<Rightarrow> body_read \<Rightarrow> nat \<times> claudeWorkload" where
  "write_route c body =
     (case body of
        BodyTooLarge \<Rightarrow> (413, c)
      | BodyFailed \<Rightarrow> (400, c)
      | BodyOk prompt \<Rightarrow>
          (case enqueue c prompt of
             Inr c' \<Rightarrow> (200, c')
           | Inl e \<Rightarrow>
               (if errors_is e errClaudeQueueFull then 429
                else if errors_is e errClaudeOutputFull then 507
                else if errors_is e errClaudeAwaitingRestore \<or> errors_is e errClaudeStopping then 503
                else 409, c)))"

definition read_route :: "claudeWorkload \<Rightarrow> string \<Rightarrow> nat + string \<times> nat" where
  "read_route c query =
     (if \<not> isReady c then Inl 503
      else if query = [] then Inr (Since (wl_out c) 0)
      else (case Atoi query of
              None \<Rightarrow> Inl 400
            | Some n \<Rightarrow> if n < 0 then Inl 400 else Inr (Since (wl_out c) n)))"

definition checkpoint_status :: "goerr \<Rightarrow> nat" where
  "checkpoint_status e =
     (if errors_is e errClaudeCheckpointID then 400
      else if errors_is e errClaudeAdmissionClosed then 409
      else if errors_is e errClaudeAwaitingRestore \<or> errors_is e errClaudeStopping then 503
      else if errors_is e (New ''context canceled'') \<or> errors_is e (New ''context deadline exceeded'') then 408
      else 500)"

definition abort_route :: "claudeWorkload \<Rightarrow> string \<Rightarrow> nat \<times> claudeWorkload" where
  "abort_route c checkpointID =
     (case abortCompletedCheckpoint c checkpointID of
        Inr c' \<Rightarrow> (200, c')
      | Inl e \<Rightarrow> (if errors_is e errClaudeStopping \<or> errors_is e errClaudeAwaitingRestore then 503 else 409, c))"

definition restore_status :: "goerr \<Rightarrow> nat" where
  "restore_status e =
     (if errors_is e errClaudeAlreadyReady then 409 else if errors_is e errClaudeStopping then 503 else 400)"

definition refresh_status :: "goerr \<Rightarrow> nat" where
  "refresh_status e =
     (if errors_is e errPluginRefreshUnsupported then 404
      else if errors_is e errClaudeAwaitingRestore \<or> errors_is e errClaudeStopping then 503
      else if errors_is e errClaudeAdmissionClosed \<or> errors_is e errPluginRefreshBusy \<or> errors_is e errPluginRefreshRunning then 409
      else if errors_is e errPluginRefreshFailed then 502
      else 500)"

end
