(* ===== verification/Workload_Machine.thy ===== *)
theory Workload_Machine
  imports Workload "HOL-Library.Sublist"
begin

text \<open>
  The workload of \<open>claude.go\<close> as a concurrent system: the critical sections of \<open>Workload\<close>, taken by
  one worker and by any number of HTTP requests in every order the mutex and the waits permit.
  A step is one section together with the calls on the record that follow it before the
  goroutine synchronises again; the label says which goroutine moves. Requests are numbered;
  each checkpoint, refresh and restore request has its own place in its handler.
  Platform notices may be appended at any time.
\<close>

section \<open>States and steps\<close>

datatype worker_pc =
    WIdle
  | WTook turn
  | WOpened turn
  | WSkip turn
  | WRunning turn claudeOutputSink
  | WEnded turn run_error
  | WExited

datatype checkpoint_pc =
    CNone
  | CDraining string
  | CDrained string bool "pendingClaudeLogin option"
  | CDropped string bool
  | CArchiving string string \<comment> \<open>the snapshot of the record, the checkpoint id\<close>

record workload_system =
  ws_c :: claudeWorkload
  ws_disk :: "bool option" \<comment> \<open>the runtime state file\<close>
  ws_worker :: worker_pc
  ws_ckpt :: "nat \<Rightarrow> checkpoint_pc"
  ws_refresh :: "nat \<Rightarrow> bool"
  ws_restore :: "nat \<Rightarrow> bool"

datatype mover = Client | Worker | Output | Checkpoint nat | Refresh nat | Restore_Request nat

definition archived_notice :: string where
  "archived_notice =
     ''[session-platform: the session was archived during the Claude sign-in; the held prompt was dropped. Send it again to start over.]'' @ [newline]"

inductive wstep :: "mover \<Rightarrow> workload_system \<Rightarrow> workload_system \<Rightarrow> bool" where
  client_writes: "enqueue (ws_c s) prompt = Inr c \<Longrightarrow> wstep Client s (s\<lparr>ws_c := c\<rparr>)"
| client_closes: "wstep Client s (s\<lparr>ws_c := wl_Close (ws_c s)\<rparr>)"
| notice_appended: "wstep Client s (s\<lparr>ws_c := appendPlatformNotice (ws_c s) msg\<rparr>)"
| login_timer: "wstep Client s (s\<lparr>ws_c := dropPendingLogin (ws_c s) now pend msg\<rparr>)"
| client_aborts: "abortCompletedCheckpoint (ws_c s) checkpointID = Inr c \<Longrightarrow> wstep Client s (s\<lparr>ws_c := c\<rparr>)"
| worker_takes: "ws_worker s = WIdle \<Longrightarrow> worker_ready (ws_c s) \<Longrightarrow> worker_take (ws_c s) now = (t, c) \<Longrightarrow>
    wstep Worker s (s\<lparr>ws_c := c, ws_worker := WTook t\<rparr>)"
| worker_exits: "ws_worker s = WIdle \<Longrightarrow> wl_stopping (ws_c s) \<Longrightarrow> wstep Worker s (s\<lparr>ws_worker := WExited\<rparr>)"
| worker_records: "ws_worker s = WTook t \<Longrightarrow>
    wstep Worker s (s\<lparr>ws_c := beginTurn (ws_c s) now (tn_seq t) (recorded_input (pj_prompt (tn_job t)) (tn_input t)),
                      ws_worker := WOpened t\<rparr>)"
| worker_runs: "ws_worker s = WOpened t \<Longrightarrow>
    settleTurn (ws_c s) login la (pj_prompt (tn_job t)) (tn_input t) = (Some prompt, c) \<Longrightarrow>
    wstep Worker s (s\<lparr>ws_c := c, ws_worker := WRunning t
      (newClaudeOutputSink (wl_redact c) (wl_runOutputLimit c) (wl_scrollbackLimit c))\<rparr>)"
| worker_declines: "ws_worker s = WOpened t \<Longrightarrow>
    settleTurn (ws_c s) login la (pj_prompt (tn_job t)) (tn_input t) = (None, c) \<Longrightarrow>
    wstep Worker s (s\<lparr>ws_c := endTurn c now (tn_seq t) ''error'', ws_worker := WSkip t\<rparr>)"
| worker_skips: "ws_worker s = WSkip t \<Longrightarrow> wstep Worker s (s\<lparr>ws_c := worker_skip (ws_c s), ws_worker := WIdle\<rparr>)"
| output_written: "ws_worker s = WRunning t k \<Longrightarrow> sink_Write (k, wl_out (ws_c s)) p = (k', out) \<Longrightarrow>
    wstep Output s (s\<lparr>ws_c := (ws_c s)\<lparr>wl_out := out\<rparr>, ws_worker := WRunning t k'\<rparr>)"
| worker_ends: "ws_worker s = WRunning t k \<Longrightarrow> sink_Close (k, wl_out (ws_c s)) = (k', out) \<Longrightarrow>
    disk = ws_disk s \<or> disk = Some (tn_resume t \<or> err = RunOk \<or> err = RunWaitDelay) \<Longrightarrow>
    wstep Worker s (s\<lparr>ws_c := endTurn ((ws_c s)\<lparr>wl_out := out\<rparr>) now (tn_seq t) (claudeTurnStatus err timedOut),
                      ws_disk := disk, ws_worker := WEnded t err\<rparr>)"
| worker_finishes: "ws_worker s = WEnded t err \<Longrightarrow>
    wstep Worker s (s\<lparr>ws_c := worker_finish (ws_c s) (tn_resume t) err, ws_worker := WIdle\<rparr>)"
| refresh_begins: "\<not> ws_refresh s i \<Longrightarrow> refresh_begin (ws_c s) = Inr c \<Longrightarrow>
    wstep (Refresh i) s (s\<lparr>ws_c := c, ws_refresh := (ws_refresh s)(i := True)\<rparr>)"
| refresh_ends: "ws_refresh s i \<Longrightarrow>
    wstep (Refresh i) s (s\<lparr>ws_c := refresh_end (ws_c s), ws_refresh := (ws_refresh s)(i := False)\<rparr>)"
| ckpt_closes: "ws_ckpt s i = CNone \<Longrightarrow> claudeCheckpointID random requested = Inr checkpointID \<Longrightarrow>
    beginCheckpoint_close (ws_c s) checkpointID = Inr c \<Longrightarrow>
    wstep (Checkpoint i) s (s\<lparr>ws_c := c, ws_ckpt := (ws_ckpt s)(i := CDraining checkpointID)\<rparr>)"
| ckpt_stops: "ws_ckpt s i = CDraining checkpointID \<Longrightarrow> wl_stopping (ws_c s) \<Longrightarrow>
    wstep (Checkpoint i) s (s\<lparr>ws_c := beginCheckpoint_stopped (ws_c s), ws_ckpt := (ws_ckpt s)(i := CNone)\<rparr>)"
| ckpt_cancels: "ws_ckpt s i = CDraining checkpointID \<Longrightarrow> \<not> wl_stopping (ws_c s) \<Longrightarrow>
    wstep (Checkpoint i) s (s\<lparr>ws_c := reopenCheckpointLocked (ws_c s), ws_ckpt := (ws_ckpt s)(i := CNone)\<rparr>)"
| ckpt_drains: "ws_ckpt s i = CDraining checkpointID \<Longrightarrow> \<not> wl_stopping (ws_c s) \<Longrightarrow> \<not> draining (ws_c s) \<Longrightarrow>
    wstep (Checkpoint i) s
      (s\<lparr>ws_ckpt := (ws_ckpt s)(i := CDrained checkpointID (wl_hasRun (ws_c s)) (wl_pendingLogin (ws_c s)))\<rparr>)"
| ckpt_drops: "ws_ckpt s i = CDrained checkpointID hasRun pend \<Longrightarrow>
    wstep (Checkpoint i) s (s\<lparr>ws_c := dropPendingLogin (ws_c s) now pend archived_notice,
                             ws_ckpt := (ws_ckpt s)(i := CDropped checkpointID hasRun)\<rparr>)"
| ckpt_snapshots: "ws_ckpt s i = CDropped checkpointID hasRun \<Longrightarrow>
    wstep (Checkpoint i) s (s\<lparr>ws_disk := Some hasRun,
                             ws_ckpt := (ws_ckpt s)(i := CArchiving (sb_snapshot (wl_out (ws_c s))) checkpointID)\<rparr>)"
| ckpt_invalid: "ws_ckpt s i = CDropped checkpointID hasRun \<Longrightarrow> disk = ws_disk s \<or> disk = Some hasRun \<Longrightarrow>
    wstep (Checkpoint i) s (s\<lparr>ws_c := abortCheckpoint (ws_c s), ws_disk := disk, ws_ckpt := (ws_ckpt s)(i := CNone)\<rparr>)"
| ckpt_fails: "ws_ckpt s i = CArchiving scroll checkpointID \<Longrightarrow>
    wstep (Checkpoint i) s (s\<lparr>ws_c := abortCheckpoint (ws_c s), ws_ckpt := (ws_ckpt s)(i := CNone)\<rparr>)"
| ckpt_completes: "ws_ckpt s i = CArchiving scroll checkpointID \<Longrightarrow>
    wstep (Checkpoint i) s (s\<lparr>ws_c := completeCheckpointStream (ws_c s), ws_ckpt := (ws_ckpt s)(i := CNone)\<rparr>)"
| restore_begins: "\<not> ws_restore s i \<Longrightarrow> restore_begin (ws_c s) = Inr c \<Longrightarrow>
    wstep (Restore_Request i) s (s\<lparr>ws_c := c, ws_restore := (ws_restore s)(i := True)\<rparr>)"
| restore_fails: "ws_restore s i \<Longrightarrow>
    wstep (Restore_Request i) s (s\<lparr>ws_c := finishFailedRestore (ws_c s), ws_disk := disk, ws_restore := (ws_restore s)(i := False)\<rparr>)"
| restore_succeeds: "ws_restore s i \<Longrightarrow>
    wstep (Restore_Request i) s (s\<lparr>ws_c := restore_finish (ws_c s) scroll hasRun, ws_disk := Some hasRun,
                                  ws_restore := (ws_restore s)(i := False)\<rparr>)"

definition boot :: "workload_system \<Rightarrow> bool" where
  "boot s = (ws_worker s = WIdle \<and> (\<forall>i. ws_ckpt s i = CNone \<and> \<not> ws_refresh s i \<and> \<not> ws_restore s i) \<and>
     (\<exists>cfg. newClaudeWorkload cfg (Inr (ws_disk s = Some True)) = Inr (ws_c s)))"

inductive wreach :: "workload_system \<Rightarrow> bool" where
  wreach_boot: "boot s \<Longrightarrow> wreach s"
| wreach_step: "wreach s \<Longrightarrow> wstep l s s' \<Longrightarrow> wreach s'"

section \<open>What each section leaves alone\<close>

definition touches :: "claudeWorkload \<Rightarrow> claudeWorkload \<Rightarrow> bool" where
  "touches c c' = (\<exists>out p d. c' = c\<lparr>wl_out := out, wl_pendingLogin := p, wl_droppedLogin := d\<rparr> \<and>
     prefix (sb_buf (wl_out c)) (sb_buf out))"

lemma touches_refl [simp]: "touches c c"
  by (auto simp: touches_def intro!: exI [where x = "wl_out c"] exI [where x = "wl_pendingLogin c"]
      exI [where x = "wl_droppedLogin c"])

lemma touches_trans [trans]: "touches a b \<Longrightarrow> touches b c \<Longrightarrow> touches a c"
  by (fastforce simp: touches_def)

lemma touchesI: "prefix (sb_buf (wl_out c)) (sb_buf out) \<Longrightarrow> touches c (c\<lparr>wl_out := out\<rparr>)"
  unfolding touches_def
  by (rule exI [where x = out], rule exI [where x = "wl_pendingLogin c"], rule exI [where x = "wl_droppedLogin c"]) simp

lemma touches_login:
  "touches c (c\<lparr>wl_pendingLogin := p\<rparr>)" "touches c (c\<lparr>wl_droppedLogin := d\<rparr>)"
  "touches c (c\<lparr>wl_pendingLogin := p, wl_droppedLogin := d\<rparr>)"
  unfolding touches_def
  by (rule exI [where x = "wl_out c"], rule exI [where x = p], rule exI [where x = "wl_droppedLogin c"], simp)
    (rule exI [where x = "wl_out c"], rule exI [where x = "wl_pendingLogin c"], rule exI [where x = d], simp,
     rule exI [where x = "wl_out c"], rule exI [where x = p], rule exI [where x = d], simp)

lemma bounded_prefix: "prefix (sb_buf b) (sb_buf (snd (appendClaudeBoundedAt b p limit marker)))"
  by (auto simp: appendClaudeBoundedAt_def notifyLocked_def Let_def)

lemma touches_append_record [simp]: "touches c (append_record c p)"
  unfolding append_record_def by (rule touchesI) (rule bounded_prefix)

lemma touches_record_ops [simp]:
  "touches c (appendPlatformNotice c p)" "touches c (beginTurn c now seq prompt)" "touches c (endTurn c now seq status)"
  by (simp_all add: appendPlatformNotice_def beginTurn_def endTurn_def appendTurnBlock_def)

lemma touches_drop: "touches c (dropPendingLogin c now pend text)"
  unfolding dropPendingLogin_def Let_def
  by (auto split: option.splits intro: touches_login touches_trans [OF touches_login(1) touches_record_ops(1)]
      touches_trans [OF touches_login(3) touches_record_ops(1)])

lemma touches_settle: "settleTurn c login la prompt input = (r, c') \<Longrightarrow> touches c c'"
  by (auto simp: settleTurn_def completeLogin_def subscriptionGate_def
      intro: touches_trans [OF touches_login(3) touches_record_ops(1)]
      split: turnInput.splits option.splits if_splits sum.splits bool.splits prod.splits)

lemma touches_classify: "classifyInputLocked c now job = (input, c') \<Longrightarrow> touches c c'"
  by (auto simp: classifyInputLocked_def intro: touches_login split: option.splits if_splits)

lemma appendSession_prefix: "appendSession (s, b) p = (s', b') \<Longrightarrow> prefix (sb_buf b) (sb_buf b')"
  using bounded_prefix [of b p "scrollbackLimit s" claudeOutputLimitMarker]
  by (auto simp: appendSession_def split: if_splits prod.splits)

lemma emit_ready_prefix: "emit_ready (s, b) = (s', b') \<Longrightarrow> prefix (sb_buf b) (sb_buf b')"
  by (auto simp: emit_ready_def Let_def dest: appendSession_prefix split: if_splits prod.splits)

lemma cut_overflow_prefix: "cut_overflow (s, b) = (s', b') \<Longrightarrow> prefix (sb_buf b) (sb_buf b')"
  by (auto simp: cut_overflow_def dest: appendSession_prefix split: if_splits prod.splits)

lemma appendBounded_prefix: "appendBoundedLocked (s, b) p = (s', b') \<Longrightarrow> prefix (sb_buf b) (sb_buf b')"
proof -
  assume a: "appendBoundedLocked (s, b) p = (s', b')"
  define s1 where "s1 = s\<lparr>runSeen := runSeen s + length p, runPending := runPending s @ p\<rparr>"
  obtain s2 b2 where e: "emit_ready (s1, b) = (s2, b2)" by fastforce
  obtain s3 b3 where k: "cut_overflow (s2, b2) = (s3, b3)" by fastforce
  have "prefix (sb_buf b) (sb_buf b3)"
    using emit_ready_prefix [OF e] cut_overflow_prefix [OF k] by (rule prefix_order.trans)
  with a e k show ?thesis
    by (auto simp: appendBoundedLocked_def s1_def dest: appendSession_prefix split: if_splits)
qed

lemma sink_Write_prefix: "sink_Write (s, b) p = (s', b') \<Longrightarrow> prefix (sb_buf b) (sb_buf b')"
  by (auto simp: sink_Write_def dest: appendBounded_prefix split: if_splits prod.splits)

lemma sink_Close_prefix: "sink_Close (s, b) = (s', b') \<Longrightarrow> prefix (sb_buf b) (sb_buf b')"
proof -
  assume a: "sink_Close (s, b) = (s', b')"
  obtain s1 b1 where f: "(if \<not> truncated s \<and> \<not> sessionFull s then appendBoundedLocked (s, b) (Finish (sk_redactor s)) else (s, b)) = (s1, b1)"
    by fastforce
  then have 1: "prefix (sb_buf b) (sb_buf b1)" by (auto dest: appendBounded_prefix split: if_splits)
  obtain s2 b2 where g: "appendSession (s1, b1) (runPending s1) = (s2, b2)" by fastforce
  then have 2: "prefix (sb_buf b) (sb_buf b2)" using 1 appendSession_prefix prefix_order.trans by blast
  show ?thesis using a f g 1 2 by (auto simp: sink_Close_def Let_def split: if_splits)
qed

section \<open>The invariant\<close>

definition queue_ok :: "claudeWorkload \<Rightarrow> bool" where
  "queue_ok c = (wl_queuedBytes c = sum_list (map (length \<circ> pj_prompt) (wl_queue c)) \<and>
     length (wl_queue c) \<le> maxClaudeQueuedPrompts \<and> wl_queuedBytes c \<le> maxClaudeQueuedBytes \<and>
     sorted_wrt (<) (map pj_seq (wl_queue c)) \<and> list_all (\<lambda>j. pj_seq j \<le> wl_enqueued c) (wl_queue c))"

definition flags_ok :: "claudeWorkload \<Rightarrow> bool" where
  "flags_ok c = ((wl_accepting c \<longrightarrow> wl_ready c \<and> \<not> wl_checkpointing c) \<and>
     (wl_checkpointing c \<longrightarrow> wl_ready c) \<and> (wl_checkpointReady c \<longrightarrow> wl_checkpointing c) \<and>
     (wl_checkpointing c \<longleftrightarrow> wl_checkpointID c \<noteq> []) \<and>
     (wl_refreshing c \<longrightarrow> wl_ready c \<and> \<not> wl_active c) \<and>
     (\<not> wl_ready c \<longrightarrow> wl_queue c = [] \<and> \<not> wl_active c))"

fun worker_busy :: "worker_pc \<Rightarrow> bool" where
  "worker_busy WIdle = False"
| "worker_busy WExited = False"
| "worker_busy _ = True"

fun ckpt_id :: "checkpoint_pc \<Rightarrow> string" where
  "ckpt_id CNone = []"
| "ckpt_id (CDraining i) = i"
| "ckpt_id (CDrained i h p) = i"
| "ckpt_id (CDropped i h) = i"
| "ckpt_id (CArchiving scroll i) = i"

text \<open>A flag with the request that set it.\<close>

definition owned :: "bool \<Rightarrow> (nat \<Rightarrow> bool) \<Rightarrow> bool" where
  "owned flag f = ((flag \<longleftrightarrow> (\<exists>i. f i)) \<and> (\<forall>i j. f i \<longrightarrow> f j \<longrightarrow> i = j))"

lemma owned_intros:
  "owned False f \<Longrightarrow> owned True (f(i := True))" "owned b f \<Longrightarrow> f i \<Longrightarrow> owned False (f(i := False))"
  by (auto simp: owned_def)

lemma owned_holds: "owned b f \<Longrightarrow> f i \<Longrightarrow> b"
  by (auto simp: owned_def)

definition ckpts_ok :: "claudeWorkload \<Rightarrow> (nat \<Rightarrow> checkpoint_pc) \<Rightarrow> bool" where
  "ckpts_ok c f = ((\<forall>i j. f i \<noteq> CNone \<longrightarrow> f j \<noteq> CNone \<longrightarrow> i = j) \<and>
     (\<forall>i. f i \<noteq> CNone \<longrightarrow> wl_checkpointing c \<and> \<not> wl_checkpointReady c \<and> ckpt_id (f i) = wl_checkpointID c))"

lemma ckpts_ok_intros:
  "ckpts_ok c f \<Longrightarrow> f i \<noteq> CNone \<Longrightarrow> ckpts_ok c' (f(i := CNone))"
  "ckpts_ok c f \<Longrightarrow> \<not> wl_checkpointing c \<or> f i \<noteq> CNone \<Longrightarrow> wl_checkpointing c' \<Longrightarrow> \<not> wl_checkpointReady c' \<Longrightarrow>
     ckpt_id pc = wl_checkpointID c' \<Longrightarrow> ckpts_ok c' (f(i := pc))"
  "ckpts_ok c f \<Longrightarrow> \<not> wl_checkpointing c \<or> wl_checkpointReady c \<Longrightarrow> ckpts_ok c' f"
  "ckpts_ok c f \<Longrightarrow> wl_checkpointing c' = wl_checkpointing c \<Longrightarrow> wl_checkpointReady c' = wl_checkpointReady c \<Longrightarrow>
     wl_checkpointID c' = wl_checkpointID c \<Longrightarrow> ckpts_ok c' f"
  by (auto simp: ckpts_ok_def)

definition requests_ok :: "workload_system \<Rightarrow> bool" where
  "requests_ok s = (wl_active (ws_c s) = worker_busy (ws_worker s) \<and> ckpts_ok (ws_c s) (ws_ckpt s) \<and>
     owned (wl_refreshing (ws_c s)) (ws_refresh s) \<and> owned (wl_restoring (ws_c s)) (ws_restore s) \<and>
     (wl_restoring (ws_c s) \<longrightarrow> \<not> wl_ready (ws_c s)))"

text \<open>From the end of the drain until admission reopens, the session's state is captured.\<close>

fun drained :: "checkpoint_pc \<Rightarrow> bool" where
  "drained (CDrained i h p) = True"
| "drained (CDropped i h) = True"
| "drained (CArchiving scroll i) = True"
| "drained _ = False"

definition captured :: "workload_system \<Rightarrow> bool" where
  "captured s = ((\<exists>i. drained (ws_ckpt s i)) \<or> wl_checkpointReady (ws_c s))"

fun capture_ok :: "bool \<Rightarrow> bool option \<Rightarrow> string \<Rightarrow> checkpoint_pc \<Rightarrow> bool" where
  "capture_ok hasRun disk buf (CDrained i h p) = (h = hasRun)"
| "capture_ok hasRun disk buf (CDropped i h) = (h = hasRun)"
| "capture_ok hasRun disk buf (CArchiving scroll i) = (disk = Some hasRun \<and> prefix scroll buf)"
| "capture_ok hasRun disk buf _ = True"

definition captures_ok :: "workload_system \<Rightarrow> bool" where
  "captures_ok s = ((captured s \<longrightarrow> \<not> draining (ws_c s)) \<and>
     (wl_checkpointReady (ws_c s) \<longrightarrow> ws_disk s = Some (wl_hasRun (ws_c s))) \<and>
     (\<forall>i. capture_ok (wl_hasRun (ws_c s)) (ws_disk s) (sb_buf (wl_out (ws_c s))) (ws_ckpt s i)))"

lemma touches_keeps:
  assumes "touches c c'"
  shows "wl_queue c' = wl_queue c" "wl_queuedBytes c' = wl_queuedBytes c" "wl_enqueued c' = wl_enqueued c"
    "wl_ready c' = wl_ready c" "wl_accepting c' = wl_accepting c" "wl_checkpointing c' = wl_checkpointing c"
    "wl_checkpointReady c' = wl_checkpointReady c" "wl_checkpointID c' = wl_checkpointID c"
    "wl_restoring c' = wl_restoring c" "wl_refreshing c' = wl_refreshing c" "wl_active c' = wl_active c"
    "wl_hasRun c' = wl_hasRun c" "wl_turns c' = wl_turns c" "wl_stopping c' = wl_stopping c"
    "prefix (sb_buf (wl_out c)) (sb_buf (wl_out c'))"
  using assms by (auto simp: touches_def)

lemma touches_invs: "touches c c' \<Longrightarrow> queue_ok c' = queue_ok c \<and> flags_ok c' = flags_ok c \<and> draining c' = draining c"
  by (simp add: queue_ok_def flags_ok_def draining_def touches_keeps)

lemmas record_keeps [simp] = touches_keeps [OF touches_record_ops(1)] touches_keeps [OF touches_record_ops(2)]
  touches_keeps [OF touches_record_ops(3)] touches_keeps [OF touches_drop]

lemma touches_capture: "touches c c' \<Longrightarrow> capture_ok h d (sb_buf (wl_out c)) pc \<Longrightarrow> capture_ok h d (sb_buf (wl_out c')) pc"
  by (cases pc) (auto dest: touches_keeps(15) prefix_order.trans)

definition taken :: "claudeWorkload \<Rightarrow> claudeWorkload" where
  "taken c = c\<lparr>wl_queue := tl (wl_queue c), wl_queuedBytes := wl_queuedBytes c - length (pj_prompt (hd (wl_queue c))),
              wl_active := True, wl_turns := Suc (wl_turns c)\<rparr>"

lemma worker_take_touches: "worker_take c now = (t, c') \<Longrightarrow> touches (taken c) c'"
  unfolding worker_take_def taken_def Let_def by (auto intro: touches_classify split: prod.splits)

lemma touches_output:
  assumes "prefix (sb_buf (wl_out c)) (sb_buf out)"
  shows "touches c (c\<lparr>wl_out := out\<rparr>)" "touches c (endTurn (c\<lparr>wl_out := out\<rparr>) now seq status)"
  using touchesI [OF assms] touches_trans touches_record_ops(3) by blast+

lemma queue_ok_taken: "queue_ok c \<Longrightarrow> wl_queue c \<noteq> [] \<Longrightarrow> queue_ok (taken c)"
  by (cases "wl_queue c") (auto simp: queue_ok_def taken_def)

lemma queue_ok_enqueue:
  assumes "queue_ok c" "enqueue c prompt = Inr c'"
  shows "queue_ok c'"
  using assms
  by (auto simp: queue_ok_def enqueue_def sorted_wrt_append list_all_iff less_Suc_eq_le le_Suc_eq split: if_splits)

lemmas section_defs = wl_Close_def worker_skip_def worker_finish_def refresh_begin_def refresh_end_def
  beginCheckpoint_close_def beginCheckpoint_stopped_def abortCheckpoint_def reopenCheckpointLocked_def
  completeCheckpointStream_def abortCompletedCheckpoint_def restore_begin_def restore_finish_def
  finishFailedRestore_def Let_def

lemma wstep_queue_ok:
  assumes "wstep l s s'" "queue_ok (ws_c s)"
  shows "queue_ok (ws_c s')"
  using assms(1)
proof cases
  case (client_writes prompt c)
  then show ?thesis using queue_ok_enqueue assms(2) by simp
next
  case (worker_takes now t c)
  then show ?thesis
    using worker_take_touches touches_invs queue_ok_taken assms(2) by (fastforce simp: worker_ready_def)
next
  case (worker_runs t login la prompt c)
  then show ?thesis using touches_invs touches_settle assms(2) by fastforce
next
  case (worker_declines t login la c now)
  then show ?thesis
    using touches_invs [OF touches_trans [OF touches_settle touches_record_ops(3)]] assms(2) by fastforce
next
  case (output_written t k p k' out)
  then show ?thesis using touches_invs [OF touches_output(1) [OF sink_Write_prefix]] assms(2) by simp
next
  case (worker_ends t k k' out disk err now timedOut)
  then show ?thesis using touches_invs [OF touches_output(2) [OF sink_Close_prefix]] assms(2) by simp
next
  case (login_timer now pend msg)
  then show ?thesis using touches_invs [OF touches_drop] assms(2) by simp
next
  case (ckpt_drops i checkpointID hasRun pend now)
  then show ?thesis using touches_invs [OF touches_drop] assms(2) by simp
qed (insert assms(2), auto simp: touches_invs queue_ok_def section_defs split: if_splits)

definition winv :: "workload_system \<Rightarrow> bool" where
  "winv s = (queue_ok (ws_c s) \<and> flags_ok (ws_c s) \<and> requests_ok s \<and> captures_ok s)"

lemma busy_not_captured: "winv s \<Longrightarrow> worker_busy (ws_worker s) \<Longrightarrow> \<not> captured s"
  by (auto simp: winv_def requests_ok_def captures_ok_def draining_def)

lemma capture_ok_not_drained: "\<not> drained pc \<Longrightarrow> capture_ok h d b pc"
  by (cases pc) auto

lemma captures_ok_free: "\<not> captured s \<Longrightarrow> captures_ok s"
  by (auto simp: captures_ok_def captured_def capture_ok_not_drained)

lemma captures_ok_keep:
  assumes "captures_ok s" "ws_ckpt s' = ws_ckpt s" "ws_disk s' = ws_disk s"
    and "wl_hasRun (ws_c s') = wl_hasRun (ws_c s)" "wl_out (ws_c s') = wl_out (ws_c s)"
    and "wl_checkpointReady (ws_c s') \<longrightarrow> wl_checkpointReady (ws_c s)" "draining (ws_c s') \<longrightarrow> draining (ws_c s)"
  shows "captures_ok s'"
  using assms by (auto simp: captures_ok_def captured_def)

lemma winv_quiet:
  assumes "winv s" "touches (ws_c s) (ws_c s')" "worker_busy (ws_worker s') = worker_busy (ws_worker s)"
    and "ws_disk s' = ws_disk s \<or> worker_busy (ws_worker s)"
    and "ws_ckpt s' = ws_ckpt s" "ws_refresh s' = ws_refresh s" "ws_restore s' = ws_restore s"
  shows "winv s'"
proof -
  have cap: "captured s' = captured s" using assms by (simp add: captured_def touches_keeps)
  have "ws_disk s' = ws_disk s \<or> \<not> captured s" using assms(1,4) busy_not_captured by blast
  then have "captures_ok s'"
    using assms(1,2,5) cap
    by (auto simp: winv_def captures_ok_def touches_keeps touches_invs captured_def capture_ok_not_drained
        intro: touches_capture)
  then show ?thesis using assms by (simp add: winv_def touches_invs requests_ok_def ckpts_ok_def touches_keeps)
qed

lemma length_EncodeToString: "length (EncodeToString bs) = 2 * length bs"
  by (induction bs) (simp_all add: EncodeToString_def)

lemma checkpointID_length: "claudeCheckpointID random requested = Inr checkpointID \<Longrightarrow> length checkpointID = 32"
  by (auto simp: claudeCheckpointID_def newClaudeCheckpointID_def length_EncodeToString split: if_splits option.splits)

lemma newClaudeWorkload_cases:
  assumes "newClaudeWorkload cfg (Inr h) = Inr c"
  obtains r n m where "c = fresh_workload r n m \<or> c = (fresh_workload r n m)\<lparr>wl_hasRun := h, wl_ready := True, wl_accepting := True\<rparr>"
  using assms by (auto simp: newClaudeWorkload_def Let_def split: if_split_asm)

lemma winv_boot:
  assumes "boot s"
  shows "winv s"
proof -
  from assms obtain r n m h where
    "ws_c s = fresh_workload r n m \<or> ws_c s = (fresh_workload r n m)\<lparr>wl_hasRun := h, wl_ready := True, wl_accepting := True\<rparr>"
    unfolding boot_def by (metis newClaudeWorkload_cases)
  then show ?thesis
    using assms
    by (auto simp: boot_def fresh_workload_def winv_def queue_ok_def flags_ok_def requests_ok_def
        captures_ok_def captured_def ckpts_ok_def owned_def)
qed

lemma winvE:
  assumes "winv s"
  obtains "queue_ok (ws_c s)" "flags_ok (ws_c s)" "wl_active (ws_c s) = worker_busy (ws_worker s)"
    "ckpts_ok (ws_c s) (ws_ckpt s)" "owned (wl_refreshing (ws_c s)) (ws_refresh s)"
    "owned (wl_restoring (ws_c s)) (ws_restore s)" "wl_restoring (ws_c s) \<Longrightarrow> \<not> wl_ready (ws_c s)" "captures_ok s"
  using assms by (simp add: winv_def requests_ok_def)

lemma not_captured: "winv s \<Longrightarrow> draining (ws_c s) \<or> \<not> wl_checkpointing (ws_c s) \<Longrightarrow> \<not> captured s"
proof
  assume w: "winv s" "draining (ws_c s) \<or> \<not> wl_checkpointing (ws_c s)" and c: "captured s"
  then have "\<not> wl_checkpointing (ws_c s)" by (auto simp: winv_def captures_ok_def)
  then have "\<not> wl_checkpointReady (ws_c s)" "\<And>i. ws_ckpt s i = CNone"
    using w(1) by (auto simp: winv_def flags_ok_def requests_ok_def ckpts_ok_def)
  then show False using c by (simp add: captured_def)
qed

lemma winv_enqueue:
  assumes "winv s" "enqueue (ws_c s) prompt = Inr c"
  shows "winv (s\<lparr>ws_c := c\<rparr>)"
proof -
  have n: "\<not> captured s"
    using assms by (intro not_captured) (auto simp: winv_def flags_ok_def enqueue_def split: if_splits)
  have "captured (s\<lparr>ws_c := c\<rparr>) = captured s"
    using assms(2) by (auto simp: captured_def enqueue_def split: if_splits)
  moreover have "flags_ok c" "requests_ok (s\<lparr>ws_c := c\<rparr>)"
    using assms by (auto simp: enqueue_def winv_def flags_ok_def requests_ok_def ckpts_ok_def split: if_splits)
  ultimately show ?thesis
    using assms n by (simp add: winv_def captures_ok_free queue_ok_enqueue [of "ws_c s"])
qed

lemma winv_Close: "winv s \<Longrightarrow> winv (s\<lparr>ws_c := wl_Close (ws_c s)\<rparr>)"
  by (auto simp: winv_def flags_ok_def requests_ok_def ckpts_ok_def wl_Close_def queue_ok_def draining_def
      elim!: captures_ok_keep)

lemma winv_abort:
  assumes "winv s" "abortCompletedCheckpoint (ws_c s) i = Inr c"
  shows "winv (s\<lparr>ws_c := c\<rparr>)"
proof (cases "wl_checkpointing (ws_c s)")
  case False
  then show ?thesis
    using assms captures_ok_keep [of s "s\<lparr>ws_c := c\<rparr>"]
    by (auto simp: abortCompletedCheckpoint_def winv_def flags_ok_def requests_ok_def ckpts_ok_def queue_ok_def
        draining_def split: if_splits)
next
  case True
  then have r: "wl_checkpointReady (ws_c s)" and c: "c = reopenCheckpointLocked ((ws_c s)\<lparr>wl_lastAborted := i\<rparr>)"
    using assms(2) by (auto simp: abortCompletedCheckpoint_def split: if_splits)
  then have none: "ws_ckpt s j = CNone" for j using assms(1) by (auto simp: winv_def requests_ok_def ckpts_ok_def)
  have "\<not> captured (s\<lparr>ws_c := c\<rparr>)" by (simp add: captured_def none c reopenCheckpointLocked_def Let_def)
  then show ?thesis
    using assms(1) none
    by (auto simp: c reopenCheckpointLocked_def Let_def winv_def flags_ok_def requests_ok_def ckpts_ok_def
        queue_ok_def captures_ok_free)
qed

lemma winv_take:
  assumes "winv s" "ws_worker s = WIdle" "worker_ready (ws_c s)" "worker_take (ws_c s) now = (t, c)"
  shows "winv (s\<lparr>ws_c := c, ws_worker := WTook t\<rparr>)"
proof -
  let ?s = "s\<lparr>ws_c := taken (ws_c s), ws_worker := WTook t\<rparr>"
  have "\<not> captured s" using assms(3) by (intro not_captured assms(1)) (auto simp: draining_def worker_ready_def)
  then have "captures_ok ?s" by (intro captures_ok_free) (simp add: captured_def taken_def)
  moreover have "flags_ok (taken (ws_c s))" "requests_ok ?s"
    using assms(1-3) by (auto simp: winv_def flags_ok_def requests_ok_def ckpts_ok_def worker_ready_def taken_def)
  ultimately have "winv ?s"
    using assms(1,3) queue_ok_taken [of "ws_c s"] by (simp add: winv_def worker_ready_def)
  then show ?thesis by (rule winv_quiet) (use worker_take_touches [OF assms(4)] in simp_all)
qed

lemma winv_worker_done:
  assumes "winv s" "worker_busy (ws_worker s)"
  shows "winv (s\<lparr>ws_c := worker_skip (ws_c s), ws_worker := WIdle\<rparr>)"
    "winv (s\<lparr>ws_c := worker_finish (ws_c s) resume err, ws_worker := WIdle\<rparr>)"
proof -
  note n = busy_not_captured [OF assms]
  show "winv (s\<lparr>ws_c := worker_skip (ws_c s), ws_worker := WIdle\<rparr>)"
    "winv (s\<lparr>ws_c := worker_finish (ws_c s) resume err, ws_worker := WIdle\<rparr>)"
    using assms n
    by (auto simp: winv_def flags_ok_def requests_ok_def ckpts_ok_def queue_ok_def worker_skip_def worker_finish_def
        captured_def intro!: captures_ok_free)
qed

lemma winv_refresh_begin:
  assumes "winv s" "refresh_begin (ws_c s) = Inr c"
  shows "winv (s\<lparr>ws_c := c, ws_refresh := (ws_refresh s)(i := True)\<rparr>)"
proof -
  from assms(2) have c: "c = (ws_c s)\<lparr>wl_refreshing := True\<rparr>" "\<not> wl_checkpointing (ws_c s)" "\<not> wl_refreshing (ws_c s)"
    "wl_ready (ws_c s)" "\<not> wl_active (ws_c s)" by (auto simp: refresh_begin_def split: if_splits)
  from assms(1) have "\<not> captured s" using c not_captured by blast
  with assms(1) c owned_intros(1) [of "ws_refresh s" i] show ?thesis
    by (auto simp: winv_def flags_ok_def requests_ok_def ckpts_ok_def queue_ok_def captured_def
        intro!: captures_ok_free)
qed

lemma winv_refresh_end:
  "winv s \<Longrightarrow> ws_refresh s i \<Longrightarrow> winv (s\<lparr>ws_c := refresh_end (ws_c s), ws_refresh := (ws_refresh s)(i := False)\<rparr>)"
  using owned_intros(2) [of "wl_refreshing (ws_c s)" "ws_refresh s" i]
  by (auto simp: winv_def flags_ok_def requests_ok_def ckpts_ok_def queue_ok_def refresh_end_def draining_def
      elim!: captures_ok_keep)

lemma winv_restore_begin:
  assumes "winv s" "restore_begin (ws_c s) = Inr c"
  shows "winv (s\<lparr>ws_c := c, ws_restore := (ws_restore s)(i := True)\<rparr>)"
proof -
  from assms(2) have c: "c = (ws_c s)\<lparr>wl_restoring := True\<rparr>" "\<not> wl_ready (ws_c s)" "\<not> wl_restoring (ws_c s)"
    by (auto simp: restore_begin_def split: if_splits)
  with assms(1) owned_intros(1) [of "ws_restore s" i] show ?thesis
    by (auto simp: winv_def flags_ok_def requests_ok_def ckpts_ok_def queue_ok_def draining_def
        elim!: captures_ok_keep)
qed

lemma winv_restore_end:
  assumes "winv s" "ws_restore s i"
  shows "winv (s\<lparr>ws_c := finishFailedRestore (ws_c s), ws_disk := disk, ws_restore := (ws_restore s)(i := False)\<rparr>)"
    "winv (s\<lparr>ws_c := restore_finish (ws_c s) scroll h, ws_disk := Some h, ws_restore := (ws_restore s)(i := False)\<rparr>)"
proof -
  have nr: "\<not> wl_ready (ws_c s)" using assms by (auto simp: winv_def requests_ok_def dest: owned_holds)
  with assms(1) have nc: "\<not> wl_checkpointing (ws_c s)" by (auto simp: winv_def flags_ok_def)
  then have "\<not> captured s" using assms(1) not_captured by blast
  with assms nr nc show "winv (s\<lparr>ws_c := finishFailedRestore (ws_c s), ws_disk := disk, ws_restore := (ws_restore s)(i := False)\<rparr>)"
    "winv (s\<lparr>ws_c := restore_finish (ws_c s) scroll h, ws_disk := Some h, ws_restore := (ws_restore s)(i := False)\<rparr>)"
    by (auto simp: winv_def flags_ok_def requests_ok_def ckpts_ok_def queue_ok_def captured_def finishFailedRestore_def
        restore_finish_def intro: owned_intros(2) intro!: captures_ok_free)
qed

lemma winv_ckpt_close:
  assumes "winv s" "ws_ckpt s i = CNone" "beginCheckpoint_close (ws_c s) checkpointID = Inr c" "checkpointID \<noteq> []"
  shows "winv (s\<lparr>ws_c := c, ws_ckpt := (ws_ckpt s)(i := CDraining checkpointID)\<rparr>)"
proof -
  from assms(3) have c: "c = (ws_c s)\<lparr>wl_accepting := False, wl_checkpointing := True, wl_checkpointReady := False,
      wl_checkpointID := checkpointID\<rparr>" "\<not> wl_checkpointing (ws_c s)" "wl_ready (ws_c s)"
    by (auto simp: beginCheckpoint_close_def split: if_splits)
  have n: "\<not> captured s" using assms(1) c(2) not_captured by blast
  have "ckpts_ok c ((ws_ckpt s)(i := CDraining checkpointID))"
    using assms(1) c by (intro ckpts_ok_intros(2) [of "ws_c s"]) (auto simp: winv_def requests_ok_def)
  moreover have "captures_ok (s\<lparr>ws_c := c, ws_ckpt := (ws_ckpt s)(i := CDraining checkpointID)\<rparr>)"
    using n c(1) by (intro captures_ok_free) (auto simp: captured_def split: if_splits)
  ultimately show ?thesis
    using assms(1,4) c by (auto simp: winv_def flags_ok_def requests_ok_def queue_ok_def)
qed

text \<open>A checkpoint that ends without its archive: the sections that clear its flags.\<close>

definition reopens :: "claudeWorkload \<Rightarrow> claudeWorkload \<Rightarrow> bool" where
  "reopens c c' = (wl_queue c' = wl_queue c \<and> wl_queuedBytes c' = wl_queuedBytes c \<and> wl_enqueued c' = wl_enqueued c \<and>
     wl_ready c' = wl_ready c \<and> wl_restoring c' = wl_restoring c \<and> wl_refreshing c' = wl_refreshing c \<and>
     wl_active c' = wl_active c \<and> \<not> wl_checkpointing c' \<and> \<not> wl_checkpointReady c' \<and> wl_checkpointID c' = [] \<and>
     (wl_accepting c' \<longrightarrow> wl_ready c))"

lemma reopens_sections:
  "flags_ok c \<Longrightarrow> reopens c (beginCheckpoint_stopped c)" "flags_ok c \<Longrightarrow> reopens c (reopenCheckpointLocked c)"
  "flags_ok c \<Longrightarrow> wl_checkpointing c \<Longrightarrow> reopens c (abortCheckpoint c)"
  by (auto simp: reopens_def flags_ok_def section_defs)

lemma winv_ckpt_reopen:
  assumes "winv s" "ws_ckpt s i \<noteq> CNone" "reopens (ws_c s) (ws_c s')" "ws_ckpt s' = (ws_ckpt s)(i := CNone)"
    and "ws_worker s' = ws_worker s" "ws_refresh s' = ws_refresh s" "ws_restore s' = ws_restore s"
  shows "winv s'"
proof -
  have none: "ws_ckpt s' j = CNone" for j using assms(1,2,4) by (auto simp: winv_def requests_ok_def ckpts_ok_def)
  then have "\<not> captured s'" using assms(3) by (simp add: captured_def reopens_def)
  moreover have "flags_ok (ws_c s')" "queue_ok (ws_c s')"
    using assms(1,3) by (auto simp: winv_def flags_ok_def queue_ok_def reopens_def)
  moreover have "requests_ok s'"
    using assms(1,3,5-) none by (simp add: winv_def requests_ok_def ckpts_ok_def reopens_def)
  ultimately show ?thesis by (simp add: winv_def captures_ok_free)
qed

lemma winv_ckpt_facts:
  assumes "winv s" "ws_ckpt s i \<noteq> CNone"
  shows "wl_checkpointing (ws_c s)" "\<not> wl_checkpointReady (ws_c s)" "ckpt_id (ws_ckpt s i) = wl_checkpointID (ws_c s)"
    "\<And>j. j \<noteq> i \<Longrightarrow> ws_ckpt s j = CNone" "drained (ws_ckpt s i) \<Longrightarrow> \<not> draining (ws_c s)"
    "capture_ok (wl_hasRun (ws_c s)) (ws_disk s) (sb_buf (wl_out (ws_c s))) (ws_ckpt s i)"
  using assms unfolding winv_def requests_ok_def ckpts_ok_def captures_ok_def captured_def by blast+

lemma winv_ckpt_advance:
  assumes "winv s" "ws_ckpt s i \<noteq> CNone" "ckpt_id pc = ckpt_id (ws_ckpt s i)" "\<not> draining (ws_c s)"
    and "capture_ok (wl_hasRun (ws_c s)) d (sb_buf (wl_out (ws_c s))) pc"
  shows "winv (s\<lparr>ws_disk := d, ws_ckpt := (ws_ckpt s)(i := pc)\<rparr>)"
proof -
  note f = winv_ckpt_facts [OF assms(1,2)] and one = winv_ckpt_facts(4) [OF assms(1,2)]
  have "ckpts_ok (ws_c s) ((ws_ckpt s)(i := pc))"
    using assms(1-3) f by (intro ckpts_ok_intros(2) [of "ws_c s"]) (auto simp: winv_def requests_ok_def)
  with assms f one show ?thesis
    by (auto simp: winv_def requests_ok_def captures_ok_def)
qed

lemma winv_ckpt_complete:
  assumes "winv s" "ws_ckpt s i = CArchiving scroll checkpointID"
  shows "winv (s\<lparr>ws_c := completeCheckpointStream (ws_c s), ws_ckpt := (ws_ckpt s)(i := CNone)\<rparr>)"
proof -
  have "ws_ckpt s i \<noteq> CNone" using assms(2) by simp
  note facts = winv_ckpt_facts [OF assms(1) this]
  then have f: "wl_checkpointing (ws_c s)" and one: "\<And>j. j \<noteq> i \<Longrightarrow> ws_ckpt s j = CNone"
    and d: "\<not> draining (ws_c s)" "ws_disk s = Some (wl_hasRun (ws_c s))"
    using assms(2) by auto
  have "ckpts_ok c ((ws_ckpt s)(i := CNone))" for c
    using assms by (intro ckpts_ok_intros(1) [of "ws_c s"]) (auto simp: winv_def requests_ok_def)
  with assms f d one show ?thesis
    by (auto simp: winv_def flags_ok_def queue_ok_def requests_ok_def captures_ok_def completeCheckpointStream_def
        draining_def)
qed

lemma winv_step:
  assumes "wstep l s s'" "winv s"
  shows "winv s'"
  using assms(1)
proof cases
  case (worker_runs t login la prompt c)
  then show ?thesis by (intro winv_quiet [OF assms(2)]) (auto intro: touches_settle)
next
  case (worker_declines t login la c now)
  then show ?thesis
    by (intro winv_quiet [OF assms(2)]) (auto intro: touches_trans [OF touches_settle touches_record_ops(3)])
next
  case (output_written t k p k' out)
  then show ?thesis by (intro winv_quiet [OF assms(2)]) (auto intro: touches_output(1) sink_Write_prefix)
next
  case (worker_ends t k k' out disk err now timedOut)
  then show ?thesis by (intro winv_quiet [OF assms(2)]) (auto intro: touches_output(2) sink_Close_prefix)
next
  case (ckpt_closes i random requested checkpointID c)
  then show ?thesis using winv_ckpt_close [OF assms(2)] checkpointID_length [of random requested checkpointID] by fastforce
next
  case (ckpt_drains i checkpointID)
  then show ?thesis
    using winv_ckpt_advance [OF assms(2), of i "CDrained checkpointID (wl_hasRun (ws_c s)) (wl_pendingLogin (ws_c s))" "ws_disk s"]
    by simp
next
  case (ckpt_drops i checkpointID hasRun pend now)
  then have "\<not> draining (ws_c s)" "hasRun = wl_hasRun (ws_c s)"
    using winv_ckpt_facts(5,6) [OF assms(2), of i] by auto
  with ckpt_drops have "winv (s\<lparr>ws_ckpt := (ws_ckpt s)(i := CDropped checkpointID hasRun)\<rparr>)"
    using winv_ckpt_advance [OF assms(2), of i "CDropped checkpointID hasRun" "ws_disk s"] by simp
  then show ?thesis by (rule winv_quiet) (simp_all add: ckpt_drops touches_drop)
next
  case (ckpt_snapshots i checkpointID hasRun)
  then have "\<not> draining (ws_c s)" "hasRun = wl_hasRun (ws_c s)"
    using winv_ckpt_facts(5,6) [OF assms(2), of i] by auto
  with ckpt_snapshots show ?thesis
    using winv_ckpt_advance [OF assms(2), of i "CArchiving (sb_snapshot (wl_out (ws_c s))) checkpointID" "Some hasRun"]
    by (simp add: sb_snapshot_def)
next
  case (ckpt_stops i checkpointID)
  then show ?thesis
    using assms(2) by (intro winv_ckpt_reopen [OF assms(2), of i]) (auto simp: winv_def intro: reopens_sections)
next
  case (ckpt_cancels i checkpointID)
  then show ?thesis
    using assms(2) by (intro winv_ckpt_reopen [OF assms(2), of i]) (auto simp: winv_def intro: reopens_sections)
next
  case (ckpt_invalid i checkpointID hasRun disk)
  then show ?thesis
    using assms(2) winv_ckpt_facts(1) [OF assms(2), of i]
    by (intro winv_ckpt_reopen [OF assms(2), of i]) (auto simp: winv_def intro: reopens_sections)
next
  case (ckpt_fails i scroll checkpointID)
  then show ?thesis
    using assms(2) winv_ckpt_facts(1) [OF assms(2), of i]
    by (intro winv_ckpt_reopen [OF assms(2), of i]) (auto simp: winv_def intro: reopens_sections)
next
  case (login_timer now pend msg)
  then show ?thesis by (intro winv_quiet [OF assms(2)]) (simp_all add: touches_drop)
qed (auto intro: winv_enqueue winv_Close winv_abort winv_take winv_worker_done winv_refresh_begin winv_refresh_end
    winv_restore_begin winv_restore_end winv_ckpt_complete winv_quiet assms(2))

theorem wreach_winv: "wreach s \<Longrightarrow> winv s"
  by (induction rule: wreach.induct) (auto intro: winv_boot winv_step)

section \<open>Properties\<close>

text \<open>The machine boots and takes one prompt; used by the witnesses.\<close>

definition sample_config :: claudeConfig where
  "sample_config = \<lparr>cfg_Model = [], cfg_RestoreMode = False, cfg_Redact = [], cfg_RunOutputLimit = 0,
     cfg_ScrollbackLimit = 0, cfg_Login = False, cfg_AuthSlot = False\<rparr>"

definition sample_boot :: workload_system where
  "sample_boot = \<lparr>ws_c = (fresh_workload [] 16777216 268435456)\<lparr>wl_ready := True, wl_accepting := True\<rparr>, ws_disk = None,
     ws_worker = WIdle, ws_ckpt = (\<lambda>_. CNone), ws_refresh = (\<lambda>_. False), ws_restore = (\<lambda>_. False)\<rparr>"

lemma sample_boot_reached: "wreach sample_boot"
proof -
  have "modelNamePattern platformDefaultModel \<and> TrimSpace platformDefaultModel = platformDefaultModel" by code_simp
  then have "newClaudeWorkload sample_config (Inr False) = Inr (ws_c sample_boot)"
    by (simp add: newClaudeWorkload_def sample_config_def sample_boot_def configured_model_def positive_or_def
        maxClaudeScrollbackBytes_def maxClaudeRunOutputBytes_def normaliseRedactionLiterals_def
        claudeOutputLimitMarker_def fresh_workload_def)
  moreover have "ws_disk sample_boot = None" "ws_worker sample_boot = WIdle"
    "\<forall>i. ws_ckpt sample_boot i = CNone \<and> \<not> ws_refresh sample_boot i \<and> \<not> ws_restore sample_boot i"
    by (simp_all add: sample_boot_def)
  ultimately have "boot sample_boot" unfolding boot_def by (metis option.distinct(1))
  then show ?thesis by (rule wreach_boot)
qed

definition sample_id :: string where "sample_id = replicate 32 (CHR ''a'')"

definition sample_closed :: workload_system where
  "sample_closed = sample_boot\<lparr>ws_c := (ws_c sample_boot)\<lparr>wl_accepting := False, wl_checkpointing := True,
     wl_checkpointReady := False, wl_checkpointID := sample_id\<rparr>, ws_ckpt := (ws_ckpt sample_boot)(0 := CDraining sample_id)\<rparr>"

lemma sample_closed_reached: "wreach sample_closed"
proof (rule wreach_step [OF sample_boot_reached])
  show "wstep (Checkpoint 0) sample_boot sample_closed"
    unfolding sample_closed_def
    by (rule ckpt_closes [where random = None and requested = sample_id])
      (simp_all add: sample_boot_def fresh_workload_def beginCheckpoint_close_def claudeCheckpointID_def sample_id_def
        hex_char_def list_all_iff)
qed

definition sample_drained :: workload_system where
  "sample_drained = sample_closed\<lparr>ws_ckpt := (ws_ckpt sample_closed)(0 := CDrained sample_id False None)\<rparr>"

lemma sample_drained_reached: "wreach sample_drained"
proof (rule wreach_step [OF sample_closed_reached])
  have "wstep (Checkpoint 0) sample_closed (sample_closed\<lparr>ws_ckpt := (ws_ckpt sample_closed)
      (0 := CDrained sample_id (wl_hasRun (ws_c sample_closed)) (wl_pendingLogin (ws_c sample_closed)))\<rparr>)"
    by (rule ckpt_drains) (simp_all add: sample_closed_def sample_boot_def fresh_workload_def draining_def)
  then show "wstep (Checkpoint 0) sample_closed sample_drained"
    by (simp add: sample_drained_def sample_closed_def sample_boot_def fresh_workload_def)
qed

text \<open>The prompt queue. In every state the workload can reach, the queue holds at most 64
  prompts and 8 MiB, its byte count is exact, and its prompts stand in the order of their arrival
  numbers; the workload is active exactly while its one worker is between taking a turn and
  finishing it, and the prompt the worker takes is the oldest.\<close>

theorem prompt_queue:
  assumes "wreach s"
  shows "length (wl_queue (ws_c s)) \<le> 64 \<and> wl_queuedBytes (ws_c s) \<le> 8388608 \<and>
    wl_queuedBytes (ws_c s) = sum_list (map (length \<circ> pj_prompt) (wl_queue (ws_c s))) \<and>
    sorted_wrt (<) (map pj_seq (wl_queue (ws_c s))) \<and>
    (wl_active (ws_c s) \<longleftrightarrow> worker_busy (ws_worker s)) \<and>
    (\<forall>s' t. wstep Worker s s' \<longrightarrow> ws_worker s' = WTook t \<longrightarrow>
       wl_queue (ws_c s) = tn_job t # wl_queue (ws_c s') \<and> (\<forall>j\<in>set (wl_queue (ws_c s')). pj_seq (tn_job t) < pj_seq j))"
proof -
  have q: "queue_ok (ws_c s)" and a: "wl_active (ws_c s) \<longleftrightarrow> worker_busy (ws_worker s)"
    using wreach_winv [OF assms] by (auto simp: winv_def requests_ok_def)
  have "wl_queue (ws_c s) = tn_job t # wl_queue (ws_c s') \<and> (\<forall>j\<in>set (wl_queue (ws_c s')). pj_seq (tn_job t) < pj_seq j)"
    if "wstep Worker s s'" "ws_worker s' = WTook t" for s' t
    using that
  proof cases
    case (worker_takes now t' c)
    then have "wl_queue c = tl (wl_queue (ws_c s))" "wl_queue (ws_c s) \<noteq> []" "tn_job t' = hd (wl_queue (ws_c s))"
      using touches_keeps(1) [OF worker_take_touches [of "ws_c s" now t' c]]
      by (auto simp: taken_def worker_ready_def worker_take_def Let_def split: prod.splits)
    then have "wl_queue (ws_c s) = tn_job t # wl_queue (ws_c s')"
      using worker_takes that(2) by (cases "wl_queue (ws_c s)") auto
    then show ?thesis using q by (auto simp: queue_ok_def)
  qed (use that(2) in auto)
  with q a show ?thesis by (simp add: queue_ok_def maxClaudeQueuedPrompts_def maxClaudeQueuedBytes_def)
qed

theorem prompt_queue_witness: "length (wl_queue (ws_c sample_boot)) \<le> 64 \<and> \<not> wl_active (ws_c sample_boot)"
  using prompt_queue [OF sample_boot_reached] by (simp add: sample_boot_def fresh_workload_def)

lemma captured_quiet:
  assumes "wreach s" "captured s"
  shows "\<not> worker_busy (ws_worker s)" "wl_queue (ws_c s) = []" "\<not> wl_refreshing (ws_c s)"
    "wl_checkpointing (ws_c s)" "\<not> wl_accepting (ws_c s)" "wl_ready (ws_c s)" "\<not> ws_restore s i"
  using wreach_winv [OF assms(1)] assms(2) not_captured [of s]
  by (auto simp: winv_def flags_ok_def requests_ok_def captures_ok_def draining_def dest: owned_holds)

lemma captured_step_keeps:
  assumes "wreach s" "captured s" "wstep l s s'"
  shows "wl_hasRun (ws_c s') = wl_hasRun (ws_c s) \<and> wl_turns (ws_c s') = wl_turns (ws_c s) \<and>
    wl_enqueued (ws_c s') = wl_enqueued (ws_c s) \<and> prefix (sb_buf (wl_out (ws_c s))) (sb_buf (wl_out (ws_c s')))"
  using assms(3)
  by cases (use captured_quiet [OF assms(1,2)] in
    \<open>auto simp: enqueue_def worker_ready_def section_defs split: if_splits\<close>)

text \<open>A step ends the capture only by clearing the checkpoint's flags.\<close>

lemma captured_step_ends:
  assumes "wreach s" "captured s" "wstep l s s'" "\<not> captured s'"
  shows "\<not> wl_checkpointing (ws_c s')"
proof (rule ccontr)
  assume on: "\<not> \<not> wl_checkpointing (ws_c s')"
  note w = wreach_winv [OF assms(1)]
  have one: "ws_ckpt s j = CNone \<or> ws_ckpt s i = CNone \<or> i = j" for i j
    using w unfolding winv_def requests_ok_def ckpts_ok_def by blast
  have same: "captured s'" if "ws_ckpt s' = ws_ckpt s" "wl_checkpointReady (ws_c s') = wl_checkpointReady (ws_c s)"
    using assms(2) that by (simp add: captured_def)
  have moved: "captured s'" if "ws_ckpt s' = (ws_ckpt s)(i := pc)" "drained pc" for i pc
    using that by (auto simp: captured_def intro!: exI [where x = i])
  show False
    using assms(3)
  proof cases
    case (ckpt_completes i scroll checkpointID)
    then have "captured s'" using winv_ckpt_facts(1) [OF w, of i] by (simp add: captured_def completeCheckpointStream_def)
    then show False using assms(4) by simp
  next
    case (ckpt_invalid i checkpointID hasRun disk)
    then show False using on winv_ckpt_facts(1) [OF w, of i] by (simp add: section_defs split: if_splits)
  next
    case (ckpt_fails i scroll checkpointID)
    then show False using on winv_ckpt_facts(1) [OF w, of i] by (simp add: section_defs split: if_splits)
  next
    case (ckpt_drains i checkpointID)
    then show False using moved [of i] assms(4) by simp
  next
    case (ckpt_drops i checkpointID hasRun pend now)
    then show False using moved [of i] assms(4) by simp
  next
    case (ckpt_snapshots i checkpointID hasRun)
    then show False using moved [of i] assms(4) by simp
  next
    case (client_aborts checkpointID c)
    then show False using on same captured_quiet(4) [OF assms(1,2)] assms(4)
      by (auto simp: section_defs split: if_splits)
  qed (use same assms(4) on captured_quiet [OF assms(1,2)] in
      \<open>auto simp: section_defs enqueue_def worker_ready_def touches_keeps [OF touches_settle] touches_keeps [OF worker_take_touches] taken_def split: if_splits\<close>)
qed

text \<open>The states one capture goes through.\<close>

inductive while_captured :: "workload_system \<Rightarrow> workload_system \<Rightarrow> bool" where
  captured_here: "captured s \<Longrightarrow> while_captured s s"
| captured_on: "while_captured s s' \<Longrightarrow> wstep l s' s'' \<Longrightarrow> captured s'' \<Longrightarrow> while_captured s s''"

lemma archive_step:
  assumes "wstep l s s'" "ws_ckpt s' i = CArchiving scroll checkpointID"
  shows "ws_ckpt s i = CArchiving scroll checkpointID \<or> scroll = sb_buf (wl_out (ws_c s))"
  using assms by cases (auto simp: sb_snapshot_def split: if_splits)

lemma while_captured_grows:
  assumes "while_captured s s'" "wreach s"
  shows "wreach s' \<and> captured s' \<and> prefix (sb_buf (wl_out (ws_c s))) (sb_buf (wl_out (ws_c s'))) \<and>
    (\<forall>i scroll checkpointID. ws_ckpt s' i = CArchiving scroll checkpointID \<longrightarrow>
       ws_ckpt s i = CArchiving scroll checkpointID \<or> prefix (sb_buf (wl_out (ws_c s))) scroll)"
  using assms
proof (induction rule: while_captured.induct)
  case (captured_on s s' l s'')
  then have ih: "wreach s'" "captured s'" "prefix (sb_buf (wl_out (ws_c s))) (sb_buf (wl_out (ws_c s')))"
    "\<And>i scroll checkpointID. ws_ckpt s' i = CArchiving scroll checkpointID \<Longrightarrow>
       ws_ckpt s i = CArchiving scroll checkpointID \<or> prefix (sb_buf (wl_out (ws_c s))) scroll" by blast+
  have "prefix (sb_buf (wl_out (ws_c s))) (sb_buf (wl_out (ws_c s'')))"
    using ih(3) captured_step_keeps [OF ih(1,2) captured_on(2)] prefix_order.trans by blast
  with ih wreach_step [OF ih(1) captured_on(2)] captured_on(3) archive_step [OF captured_on(2)] show ?case by blast
qed simp

text \<open>C9: a checkpoint captures a session at rest. Once a checkpoint has drained, and until
  admission is reopened, no turn runs or waits, no refresh and no restore is in progress, every
  write is refused, and no step changes the resume flag, the turn counter or what the record
  held (platform notices may still be added at its end); the only way out clears the checkpoint. While the archive is
  built, the runtime state on disk is the session's, the snapshot is what the record starts with, and no
  other checkpoint is in progress. The snapshot is the whole record of the instant it is taken, so an
  archive that is being built later in the same capture holds everything the record held when the checkpoint had
  drained, with every byte of the drained turns.\<close>

theorem checkpoint_quiescent:
  assumes "wreach s" "captured s"
  shows "\<not> worker_busy (ws_worker s) \<and> wl_queue (ws_c s) = [] \<and> \<not> wl_refreshing (ws_c s) \<and> \<not> ws_restore s n \<and>
    (\<exists>e. enqueue (ws_c s) prompt = Inl e) \<and>
    (\<forall>l s'. wstep l s s' \<longrightarrow>
       wl_hasRun (ws_c s') = wl_hasRun (ws_c s) \<and> wl_turns (ws_c s') = wl_turns (ws_c s) \<and>
       prefix (sb_buf (wl_out (ws_c s))) (sb_buf (wl_out (ws_c s'))) \<and> (captured s' \<or> \<not> wl_checkpointing (ws_c s')) \<and>
       (\<forall>i scroll checkpointID. ws_ckpt s' i = CArchiving scroll checkpointID \<longrightarrow>
          ws_ckpt s i = CArchiving scroll checkpointID \<or> scroll = sb_buf (wl_out (ws_c s)))) \<and>
    (\<forall>i scroll checkpointID. ws_ckpt s i = CArchiving scroll checkpointID \<longrightarrow>
       ws_disk s = Some (wl_hasRun (ws_c s)) \<and> prefix scroll (sb_buf (wl_out (ws_c s))) \<and>
       checkpointID = wl_checkpointID (ws_c s) \<and> (\<forall>j. j \<noteq> i \<longrightarrow> ws_ckpt s j = CNone)) \<and>
    (\<forall>s' i scroll checkpointID. while_captured s s' \<longrightarrow> ws_ckpt s' i = CArchiving scroll checkpointID \<longrightarrow>
       ws_ckpt s i = CArchiving scroll checkpointID \<or> prefix (sb_buf (wl_out (ws_c s))) scroll)"
proof -
  note q = captured_quiet [OF assms]
  have refused: "\<exists>e. enqueue (ws_c s) prompt = Inl e" using q by (simp add: enqueue_def)
  have arch: "ws_disk s = Some (wl_hasRun (ws_c s)) \<and> prefix scroll (sb_buf (wl_out (ws_c s))) \<and>
      checkpointID = wl_checkpointID (ws_c s) \<and> (\<forall>j. j \<noteq> i \<longrightarrow> ws_ckpt s j = CNone)"
    if a: "ws_ckpt s i = CArchiving scroll checkpointID" for i scroll checkpointID
  proof -
    have "ws_ckpt s i \<noteq> CNone" using a by simp
    from winv_ckpt_facts(3,4,6) [OF wreach_winv [OF assms(1)] this] a show ?thesis by auto
  qed
  have "wl_hasRun (ws_c s') = wl_hasRun (ws_c s) \<and> wl_turns (ws_c s') = wl_turns (ws_c s) \<and>
       prefix (sb_buf (wl_out (ws_c s))) (sb_buf (wl_out (ws_c s'))) \<and> (captured s' \<or> \<not> wl_checkpointing (ws_c s')) \<and>
       (\<forall>i scroll checkpointID. ws_ckpt s' i = CArchiving scroll checkpointID \<longrightarrow>
          ws_ckpt s i = CArchiving scroll checkpointID \<or> scroll = sb_buf (wl_out (ws_c s)))"
    if "wstep l s s'" for l s'
    using captured_step_keeps [OF assms that] captured_step_ends [OF assms that] archive_step [OF that] by blast
  with q refused arch while_captured_grows [OF _ assms(1)] show ?thesis by blast
qed

theorem checkpoint_quiescent_witness:
  "captured sample_drained \<and> \<not> worker_busy (ws_worker sample_drained) \<and> (\<exists>e. enqueue (ws_c sample_drained) ''hi'' = Inl e)"
proof -
  have c: "captured sample_drained" by (auto simp: captured_def sample_drained_def intro!: exI [where x = 0])
  with checkpoint_quiescent [OF sample_drained_reached c, of 0 "''hi''"] show ?thesis by blast
qed

text \<open>How far the accepted work is from being drained.\<close>

fun worker_rank :: "worker_pc \<Rightarrow> nat" where
  "worker_rank (WTook t) = 4"
| "worker_rank (WOpened t) = 3"
| "worker_rank (WRunning t k) = 2"
| "worker_rank (WEnded t e) = 1"
| "worker_rank (WSkip t) = 1"
| "worker_rank _ = 0"

definition work :: "workload_system \<Rightarrow> nat" where
  "work s = 5 * length (wl_queue (ws_c s)) + worker_rank (ws_worker s) + (if wl_refreshing (ws_c s) then 1 else 0)"

definition advances :: "workload_system \<Rightarrow> mover \<Rightarrow> bool" where
  "advances s l = (l = Worker \<or> (\<exists>j. l = Refresh j \<and> ws_refresh s j))"

lemma worker_exit_only_stopping:
  assumes "wreach s"
  shows "ws_worker s = WExited \<longrightarrow> wl_stopping (ws_c s)"
  using assms
proof (induction rule: wreach.induct)
  case (wreach_step s l s')
  have "wl_stopping (ws_c s')" if "wl_stopping (ws_c s)"
    using wreach_step(2) that
    by cases (auto simp: enqueue_def section_defs worker_ready_def touches_keeps [OF touches_settle] split: if_splits)
  moreover have "wl_stopping (ws_c s)" if "ws_worker s' = WExited"
    using wreach_step(2) that wreach_step.IH by cases auto
  ultimately show ?case by blast
qed (simp add: boot_def)

lemma worker_rank_busy: "worker_rank w = 0 \<longleftrightarrow> \<not> worker_busy w"
  by (cases w) auto

lemma busy_worker_moves: "worker_busy (ws_worker s) \<Longrightarrow> \<exists>s'. wstep Worker s s'"
proof (cases "ws_worker s")
  case (WTook t)
  then show ?thesis using worker_records [of s t] by blast
next
  case (WOpened t)
  obtain r c where "settleTurn (ws_c s) False undefined (pj_prompt (tn_job t)) (tn_input t) = (r, c)" by fastforce
  then show ?thesis using worker_runs [OF WOpened] worker_declines [OF WOpened] by (cases r) blast+
next
  case (WSkip t)
  then show ?thesis using worker_skips [of s t] by blast
next
  case (WRunning t k)
  obtain k' out where "sink_Close (k, wl_out (ws_c s)) = (k', out)" by fastforce
  then show ?thesis using worker_ends [OF WRunning] by blast
next
  case (WEnded t e)
  then show ?thesis using worker_finishes [of s t e] by blast
qed auto

lemma work_step:
  assumes "wreach s" "ws_ckpt s i = CDraining checkpointID" "\<not> wl_stopping (ws_c s)" "wstep l s s'"
  shows "work s' \<le> work s" "advances s l \<Longrightarrow> work s' < work s"
proof -
  note w = wreach_winv [OF assms(1)]
  have "ws_ckpt s i \<noteq> CNone" using assms(2) by simp
  with w have f: "wl_checkpointing (ws_c s)" "\<not> wl_accepting (ws_c s)" "wl_ready (ws_c s)"
    using winv_ckpt_facts(1) [OF w, of i] by (auto simp: winv_def flags_ok_def)
  have restore: "\<not> ws_restore s j" and refresh: "ws_refresh s j \<Longrightarrow> wl_refreshing (ws_c s)" for j
    using w f by (auto simp: winv_def requests_ok_def dest: owned_holds)
  have "work s' \<le> work s \<and> (advances s l \<longrightarrow> work s' < work s)"
    using assms(4)
  proof cases
    case (worker_takes now t c)
    then have "wl_queue c = tl (wl_queue (ws_c s))" "wl_refreshing c = wl_refreshing (ws_c s)" "wl_queue (ws_c s) \<noteq> []"
      using touches_keeps(1,10) [OF worker_take_touches [of "ws_c s" now t c]] by (auto simp: taken_def worker_ready_def)
    then show ?thesis using worker_takes by (cases "wl_queue (ws_c s)") (auto simp: work_def)
  qed (use assms(3) f restore refresh in
      \<open>auto simp: work_def advances_def enqueue_def section_defs touches_keeps [OF touches_settle] split: if_splits\<close>)
  then show "work s' \<le> work s" "advances s l \<Longrightarrow> work s' < work s" by auto
qed

text \<open>C10: a checkpoint drains. While a checkpoint request waits and the workload is not
  stopping: when nothing is left, the request itself can go on; otherwise the worker or the
  running refresh can move, each of their moves brings the end of the accepted work nearer
  (the measure \<open>work\<close> strictly decreases), and no move of anyone else sets it back, because admission
  is closed. So under any schedule that lets the worker and the refresh go on, the wait ends after at
  most \<open>work s\<close> of their moves.\<close>

theorem checkpoint_drains:
  assumes "wreach s" "ws_ckpt s i = CDraining checkpointID" "\<not> wl_stopping (ws_c s)"
  shows "(work s = 0 \<longleftrightarrow> \<not> draining (ws_c s)) \<and>
    (\<not> draining (ws_c s) \<longrightarrow> (\<exists>s'. wstep (Checkpoint i) s s' \<and> drained (ws_ckpt s' i))) \<and>
    (draining (ws_c s) \<longrightarrow> (\<exists>l s'. advances s l \<and> wstep l s s')) \<and>
    (\<forall>l s'. wstep l s s' \<longrightarrow> work s' \<le> work s \<and> (advances s l \<longrightarrow> work s' < work s))"
proof -
  note w = wreach_winv [OF assms(1)]
  have "ws_ckpt s i \<noteq> CNone" using assms(2) by simp
  then have ready: "wl_ready (ws_c s)" using w winv_ckpt_facts(1) [OF w, of i] by (auto simp: winv_def flags_ok_def)
  have act: "wl_active (ws_c s) \<longleftrightarrow> worker_busy (ws_worker s)" and own: "owned (wl_refreshing (ws_c s)) (ws_refresh s)"
    using w by (auto simp: winv_def requests_ok_def)
  have zero: "work s = 0 \<longleftrightarrow> \<not> draining (ws_c s)" by (auto simp: work_def draining_def act worker_rank_busy)
  have fin: "\<exists>s'. wstep (Checkpoint i) s s' \<and> drained (ws_ckpt s' i)" if "\<not> draining (ws_c s)"
    using ckpt_drains [OF assms(2,3) that] by (intro exI conjI) auto
  have "\<exists>l s'. advances s l \<and> wstep l s s'" if d: "draining (ws_c s)"
  proof (cases "wl_refreshing (ws_c s)")
    case True
    then obtain j where "ws_refresh s j" using own by (auto simp: owned_def)
    then show ?thesis using refresh_ends [of s j] by (intro exI conjI) (auto simp: advances_def)
  next
    case nr: False
    show ?thesis
    proof (cases "worker_busy (ws_worker s)")
      case True
      then show ?thesis using busy_worker_moves by (auto simp: advances_def)
    next
      case False
      then have "ws_worker s = WIdle" using worker_exit_only_stopping [OF assms(1)] assms(3) by (cases "ws_worker s") auto
      moreover have "worker_ready (ws_c s)"
        using d nr False act ready assms(3) by (auto simp: draining_def worker_ready_def)
      moreover obtain t c where "worker_take (ws_c s) 0 = (t, c)" by fastforce
      ultimately show ?thesis using worker_takes [of s 0 t c] unfolding advances_def by blast
    qed
  qed
  with zero fin work_step [OF assms] show ?thesis by blast
qed

theorem checkpoint_drains_witness:
  "work sample_closed = 0 \<and> (\<exists>s'. wstep (Checkpoint 0) sample_closed s' \<and> drained (ws_ckpt s' 0))"
proof -
  have "ws_ckpt sample_closed 0 = CDraining sample_id" "\<not> wl_stopping (ws_c sample_closed)" "\<not> draining (ws_c sample_closed)"
    by (simp_all add: sample_closed_def sample_boot_def fresh_workload_def draining_def)
  with checkpoint_drains [OF sample_closed_reached] show ?thesis by blast
qed

end
