(* ===== verification/Workload_Record.thy ===== *)
theory Workload_Record
  imports Workload_Machine
begin

text \<open>
  The record a session leaves: turn markers that neither a prompt nor the agent's output can
  forge, the turn counter a restored session reads back from them, the sign-in code that is never
  written, and the command line that keeps the prompt apart from the options.
\<close>

section \<open>Counting a marker\<close>

text \<open>The lead of an input marker; its first byte occurs nowhere else in it.\<close>

definition input_lead :: string where
  "input_lead = claudeTurnMarkerLead @ ''input ''"

lemma input_lead_shape: "input_lead = claudeTurnSentinel # ''session-platform input ''"
  by (simp add: input_lead_def claudeTurnMarkerLead_def)

fun marks :: "string \<Rightarrow> nat" where
  "marks [] = 0"
| "marks (c # cs) = (if is_prefix input_lead (c # cs) then 1 else 0) + marks cs"

abbreviation plain :: "string \<Rightarrow> bool" where
  "plain s \<equiv> claudeTurnSentinel \<notin> set s"

text \<open>No marker is cut off at the end.\<close>

definition whole_end :: "string \<Rightarrow> bool" where
  "whole_end s = (\<forall>k. 0 < k \<longrightarrow> k < length input_lead \<longrightarrow> \<not> suffix (take k input_lead) s)"

lemma is_prefix_prefix: "is_prefix xs ys \<longleftrightarrow> prefix xs ys"
  by (auto simp: is_prefix_iff prefix_def)

lemma is_prefix_lead: "is_prefix input_lead (c # cs) \<Longrightarrow> c = claudeTurnSentinel"
  by (simp add: input_lead_shape)

lemma marks_plain [simp]: "plain s \<Longrightarrow> marks s = 0"
  by (induction s) (auto dest: is_prefix_lead)

lemma marks_skip: "marks s = marks (drop i s)" if "\<And>j. j < i \<Longrightarrow> \<not> is_prefix input_lead (drop j s)"
  using that
proof (induction i arbitrary: s)
  case (Suc i)
  show ?case
  proof (cases s)
    case (Cons c cs)
    then have "\<not> is_prefix input_lead (c # cs)" using Suc.prems [of 0] by simp
    moreover have "marks cs = marks (drop i cs)" by (rule Suc.IH) (use Suc.prems [of "Suc j" for j] Cons in auto)
    ultimately show ?thesis using Cons by simp
  qed simp
qed simp

lemma marks_plain_append: "plain s \<Longrightarrow> marks (s @ t) = marks t"
  by (induction s) (auto dest: is_prefix_lead)

lemma marks_lead: "marks (input_lead @ t) = Suc (marks t)"
proof -
  have p: "plain ''session-platform input ''" by (simp add: claudeTurnSentinel_def)
  have "is_prefix input_lead (input_lead @ t)" by (auto simp: is_prefix_iff)
  then show ?thesis using marks_plain_append [OF p, of t] by (simp add: input_lead_shape)
qed

lemma bytes_Count_marks: "bytes_Count s input_lead = marks s"
proof (induction s rule: length_induct)
  case (1 s)
  show ?case
  proof (cases "bytes_Index s input_lead")
    case None
    then have "marks s = marks (drop (length s) s)"
      by (intro marks_skip) (auto dest: bytes_Index_None simp: input_lead_shape)
    with None show ?thesis by (simp add: bytes_Count.simps)
  next
    case (Some i)
    then obtain t where t: "drop i s = input_lead @ t" and before: "\<And>j. j < i \<Longrightarrow> \<not> is_prefix input_lead (drop j s)"
      using bytes_Index_Some [OF Some] by (auto simp: is_prefix_iff)
    have ne: "s \<noteq> []" "input_lead \<noteq> []" using t by (auto simp: input_lead_shape)
    have d: "drop (i + length input_lead) s = t" using t by (metis add.commute append_eq_conv_conj drop_drop)
    have "length t < length s" using t ne d by (metis append_eq_conv_conj length_append length_drop add_less_same_cancel2
        diff_less diff_le_self length_greater_0_conv le_less_trans less_add_same_cancel2 trans_less_add2 linorder_not_less le_add2)
    then have "bytes_Count t input_lead = marks t" using 1 by blast
    moreover have "marks s = Suc (marks t)" using marks_skip [OF before] t marks_lead by simp
    ultimately show ?thesis using Some ne d by (simp add: bytes_Count.simps [of s])
  qed
qed

lemma marks_append: "whole_end a \<Longrightarrow> marks (a @ b) = marks a + marks b"
proof (induction a)
  case (Cons c a)
  have tail: "whole_end a" using Cons.prems by (auto simp: whole_end_def suffix_Cons)
  have "is_prefix input_lead (c # a @ b) \<longleftrightarrow> is_prefix input_lead (c # a)"
  proof
    assume "is_prefix input_lead (c # a @ b)"
    then have p: "prefix input_lead ((c # a) @ b)" by (auto simp: is_prefix_iff prefix_def)
    show "is_prefix input_lead (c # a)"
    proof (rule ccontr)
      assume n: "\<not> is_prefix input_lead (c # a)"
      then obtain us where us: "input_lead = (c # a) @ us" "us \<noteq> []"
        using p unfolding is_prefix_prefix prefix_append by (metis append_Nil2 prefix_order.refl)
      have "take (length (c # a)) input_lead = c # a" "length (c # a) < length input_lead"
        unfolding us(1) using us(2) by (simp_all del: append.simps)
      with Cons.prems show False by (auto simp: whole_end_def)
    qed
  next
    assume "is_prefix input_lead (c # a)"
    then have "prefix input_lead ((c # a) @ b)" unfolding is_prefix_prefix by (rule prefix_prefix)
    then show "is_prefix input_lead (c # a @ b)" by (simp add: is_prefix_prefix)
  qed
  then show ?case using Cons.IH [OF tail] by simp
qed simp

lemma suffix_lead_start: "suffix (take k input_lead) s \<Longrightarrow> 0 < k \<Longrightarrow> claudeTurnSentinel \<in> set s"
  by (cases k) (auto simp: input_lead_shape suffix_def)

lemma whole_end_plain [simp]: "plain s \<Longrightarrow> whole_end s"
  by (auto simp: whole_end_def dest: suffix_lead_start)

lemma take_lead_tail: "take k input_lead = u @ v \<Longrightarrow> u \<noteq> [] \<Longrightarrow> plain v"
proof -
  assume a: "take k input_lead = u @ v" "u \<noteq> []"
  then obtain w where "input_lead = u @ v @ w" by (metis append.assoc append_take_drop_id)
  with a(2) have "set v \<subseteq> set ''session-platform input ''"
    unfolding input_lead_shape by (cases u) (auto dest: arg_cong [where f = set])
  moreover have "plain ''session-platform input ''" by (simp add: claudeTurnSentinel_def)
  ultimately show ?thesis by blast
qed

lemma whole_end_append:
  assumes "whole_end a" "whole_end b"
  shows "whole_end (a @ b)"
  unfolding whole_end_def
proof (intro allI impI notI)
  fix k assume k: "0 < k" "k < length input_lead" and s: "suffix (take k input_lead) (a @ b)"
  then consider "suffix (take k input_lead) b" | u where "take k input_lead = u @ b" "suffix u a"
    by (auto simp: suffix_append)
  then show False
  proof cases
    case 1
    then show ?thesis using assms(2) k by (auto simp: whole_end_def)
  next
    case 2
    show ?thesis
    proof (cases "u = []")
      case True
      with 2(1) have "suffix (take k input_lead) b" by simp
      then show ?thesis using assms(2) k by (auto simp: whole_end_def)
    next
      case False
      from 2(1) have "u = take (length u) input_lead" by (metis append_eq_conv_conj take_take min.absorb1 append_take_drop_id length_append le_add1 length_take nat_le_linear take_all)
      moreover have "length u < length input_lead" using arg_cong [OF 2(1), of length] k by simp
      ultimately show ?thesis using assms(1) 2(2) False unfolding whole_end_def by (metis length_greater_0_conv)
    qed
  qed
qed

text \<open>A line that starts with the sentinel and is long enough to be told from an input marker.\<close>

lemma whole_end_line:
  assumes "plain t" "length input_lead \<le> Suc (length t)"
  shows "whole_end (claudeTurnSentinel # t)"
  unfolding whole_end_def
proof (intro allI impI notI)
  fix k assume k: "0 < k" "k < length input_lead" "suffix (take k input_lead) (claudeTurnSentinel # t)"
  then have "take k input_lead = claudeTurnSentinel # t"
    using assms(1) by (auto simp: suffix_Cons dest: suffix_lead_start)
  then have "length (take k input_lead) = Suc (length t)" by simp
  with assms(2) k show False by simp
qed

section \<open>The pieces of the record\<close>

lemma plain_digit: "n < 10 \<Longrightarrow> digit n \<noteq> claudeTurnSentinel"
proof
  assume n: "n < 10" "digit n = claudeTurnSentinel"
  have "of_char (digit n) = 48 + n" using n(1) by (simp add: digit_def)
  moreover have "of_char claudeTurnSentinel = (30 :: nat)" by (simp add: claudeTurnSentinel_def)
  ultimately show False using n(2) by simp
qed

lemma plain_Itoa [simp]: "plain (Itoa n)"
proof (induction n rule: Itoa.induct)
  case (1 n)
  then show ?case using plain_digit [of n] plain_digit [of "n mod 10"] by (subst Itoa.simps) auto
qed

lemma plain_pad2: "n < 100 \<Longrightarrow> plain (pad2 n)"
  using plain_digit [of "n div 10"] plain_digit [of "n mod 10"] by (auto simp: pad2_def less_mult_imp_div_less)

lemma whole_seconds: "nat (t - t mod 1000000000 - year0) mod 1000000000 = 0"
proof -
  have "t - t mod 1000000000 - year0 = (t div 1000000000 + 62167219200) * 1000000000"
    unfolding year0_def minus_mod_eq_div_mult [of t 1000000000] by simp
  then have "nat (t - t mod 1000000000 - year0) = nat (t div 1000000000 + 62167219200) * 1000000000"
    by (simp add: nat_mult_distrib_neg nat_mult_distrib)
  then show ?thesis by simp
qed

lemma length_timestamp: "length (timestamp t) = 20"
  unfolding timestamp_def Format_RFC3339Nano_def Let_def whole_seconds
  by (simp add: pad4_def pad2_def frac_def split: prod.splits)

lemma plain_timestamp:
  assumes "time_ok t"
  shows "plain (timestamp t)"
proof -
  define n where "n = nat (t - t mod 1000000000 - year0)"
  define secs days s where "secs = n div 1000000000" and "days = secs div 86400" and "s = secs mod 86400"
  obtain y mo da where d: "date_of_days days = (y, mo, da)" by (cases "date_of_days days") auto
  have "n < 315569520000 * 1000000000"
    using assms by (auto simp: n_def time_ok_def year0_def year10000_def nat_less_iff)
  then have "days < 3652425" unfolding days_def secs_def by simp
  note dd = date_of_days [OF d]
  have y: "y < 10000" using dd(6) \<open>days < 3652425\<close> by simp
  have "mo - 1 < 12" using dd(3) by simp
  then have da: "da < 100" using dd(5) month_days_le [of "mo - 1" y] by linarith
  have s: "s < 86400" by (simp add: s_def)
  have z: "n mod 1000000000 = 0" unfolding n_def by (rule whole_seconds)
  have "plain (pad4 y)" using plain_pad2 [of "y div 100"] plain_pad2 [of "y mod 100"] y by (auto simp: pad4_def)
  moreover have "plain (pad2 k)" if "k \<in> {mo, da, s div 3600, s mod 3600 div 60, s mod 60}" for k
    using that dd(3) da s by (intro plain_pad2) auto
  ultimately show ?thesis
    unfolding timestamp_def Format_RFC3339Nano_def Let_def n_def [symmetric] secs_def [symmetric]
      days_def [symmetric] s_def [symmetric] d z
    by (simp add: frac_def claudeTurnSentinel_def)
qed

lemma drain_chars: "drain lits final p = (out, rest) \<Longrightarrow> set out \<subseteq> set p \<union> set redactedLiteral \<and> set rest \<subseteq> set p"
proof (induction lits final p arbitrary: out rest rule: drain.induct)
  case (1 lits final p)
  show ?case
  proof (cases "best_match p None lits")
    case None
    then show ?thesis
      using "1.prems" by (subst (asm) drain.simps) (auto simp: Let_def dest: in_set_takeD in_set_dropD split: if_splits)
  next
    case (Some b)
    obtain a n where b: "b = (a, n)" by fastforce
    obtain o' r' where d: "drain lits final (drop (a + n) p) = (o', r')" by fastforce
    show ?thesis
    proof (cases "p = []")
      case False
      then have ih: "set o' \<subseteq> set (drop (a + n) p) \<union> set redactedLiteral \<and> set r' \<subseteq> set (drop (a + n) p)"
        using "1.IH" Some b d by blast
      have "out = take a p @ redactedLiteral @ o'" "rest = r'"
        using "1.prems" False Some b d by (simp_all add: drain.simps [of lits final p])
      with ih show ?thesis using set_take_subset [of a p] set_drop_subset [of "a + n" p] by auto
    qed (use "1.prems" in \<open>simp add: drain.simps\<close>)
  qed
qed

lemma plain_redacted: "plain redactedLiteral"
  by (simp add: redactedLiteral_def claudeTurnSentinel_def)

lemma plain_Push: "Push r p = (out, r') \<Longrightarrow> plain p \<Longrightarrow> plain (pending r) \<Longrightarrow> plain out \<and> plain (pending r')"
  using drain_chars [of "literals r" False "pending r @ p"] plain_redacted
  by (auto simp: Push_def split: prod.splits)

lemma plain_Finish: "plain (pending r) \<Longrightarrow> plain (Finish r)"
  using drain_chars [of "literals r" True "pending r"] plain_redacted
  unfolding Finish_def by (cases "drain (literals r) True (pending r)") auto

lemma plain_without [simp]: "plain (withoutTurnSentinel p)"
  by (simp add: withoutTurnSentinel_def)

lemma plain_markers: "plain claudeOutputLimitMarker" "plain claudeRunOutputLimitMarker"
  by (simp_all add: claudeOutputLimitMarker_def claudeRunOutputLimitMarker_def claudeTurnSentinel_def newline_def)

text \<open>What an append leaves in the record.\<close>

definition grows_plain :: "scrollback \<Rightarrow> scrollback \<Rightarrow> bool" where
  "grows_plain b b' = (\<exists>t. sb_buf b' = sb_buf b @ t \<and> plain t)"

lemma grows_plain_refl [simp]: "grows_plain b b"
  by (simp add: grows_plain_def)

lemma grows_plain_trans [trans]: "grows_plain a b \<Longrightarrow> grows_plain b c \<Longrightarrow> grows_plain a c"
  by (auto simp: grows_plain_def)

lemma bounded_plain: "plain p \<Longrightarrow> plain marker \<Longrightarrow> grows_plain b (snd (appendClaudeBoundedAt b p limit marker))"
  by (auto simp: grows_plain_def appendClaudeBoundedAt_def notifyLocked_def Let_def dest: in_set_takeD)

lemma appendSession_plain:
  "appendSession (s, b) p = (s', b') \<Longrightarrow> plain p \<Longrightarrow> grows_plain b b' \<and> runPending s' = runPending s \<and> sk_redactor s' = sk_redactor s"
  using bounded_plain [OF _ plain_markers(1), of p b "scrollbackLimit s"]
  by (auto simp: appendSession_def split: if_splits prod.splits)

definition sink_plain :: "claudeOutputSink \<Rightarrow> bool" where
  "sink_plain s = (plain (runPending s) \<and> plain (pending (sk_redactor s)))"

lemma emit_ready_plain: "emit_ready (s, b) = (s', b') \<Longrightarrow> sink_plain s \<Longrightarrow> grows_plain b b' \<and> sink_plain s'"
  by (auto simp: emit_ready_def Let_def sink_plain_def dest!: appendSession_plain dest: in_set_takeD in_set_dropD
      split: if_splits prod.splits)

lemma cut_overflow_plain: "cut_overflow (s, b) = (s', b') \<Longrightarrow> sink_plain s \<Longrightarrow> grows_plain b b' \<and> sink_plain s'"
  using plain_markers(2)
  by (auto simp: cut_overflow_def sink_plain_def dest!: appendSession_plain dest: in_set_takeD split: if_splits prod.splits)

lemma appendBounded_plain:
  assumes "appendBoundedLocked (s, b) p = (s', b')" "sink_plain s" "plain p"
  shows "grows_plain b b' \<and> sink_plain s'"
proof -
  define s1 where "s1 = s\<lparr>runSeen := runSeen s + length p, runPending := runPending s @ p\<rparr>"
  obtain s2 b2 where e: "emit_ready (s1, b) = (s2, b2)" by fastforce
  obtain s3 b3 where k: "cut_overflow (s2, b2) = (s3, b3)" by fastforce
  have "sink_plain s1" using assms(2,3) by (simp add: s1_def sink_plain_def)
  then have 2: "grows_plain b b2" "sink_plain s2" using emit_ready_plain [OF e] by auto
  then have 3: "grows_plain b b3" "sink_plain s3" using cut_overflow_plain [OF k] grows_plain_trans by blast+
  show ?thesis
    using assms e k 3
    by (auto simp: appendBoundedLocked_def s1_def sink_plain_def dest!: appendSession_plain split: if_splits)
qed

lemma sink_Write_plain:
  assumes "sink_Write (s, b) p = (s', b')" "sink_plain s"
  shows "grows_plain b b' \<and> sink_plain s'"
proof (cases "p = [] \<or> closed s \<or> truncated s \<or> sessionFull s")
  case False
  obtain out r where r: "Push (sk_redactor s) (withoutTurnSentinel p) = (out, r)" by fastforce
  then have "plain out" "plain (pending r)" using plain_Push [OF r] assms(2) by (auto simp: sink_plain_def)
  then show ?thesis
    using assms False r appendBounded_plain [of "s\<lparr>sk_redactor := r\<rparr>" b out s' b']
    by (simp add: sink_Write_def sink_plain_def)
qed (use assms in \<open>simp add: sink_Write_def\<close>)

lemma sink_Close_plain:
  assumes "sink_Close (s, b) = (s', b')" "sink_plain s"
  shows "grows_plain b b'"
proof (cases "closed s")
  case False
  obtain s1 b1 where f: "(if \<not> truncated s \<and> \<not> sessionFull s then appendBoundedLocked (s, b) (Finish (sk_redactor s)) else (s, b)) = (s1, b1)"
    by fastforce
  then have 1: "grows_plain b b1" "sink_plain s1"
    using assms(2) appendBounded_plain [of s b "Finish (sk_redactor s)" s1 b1] plain_Finish [of "sk_redactor s"]
    by (auto simp: sink_plain_def split: if_splits)
  obtain s2 b2 where g: "appendSession (s1, b1) (runPending s1) = (s2, b2)" by fastforce
  then have "grows_plain b b2" using 1 appendSession_plain [OF g] grows_plain_trans by (auto simp: sink_plain_def)
  then show ?thesis using assms(1) False f g 1(1) by (auto simp: sink_Close_def Let_def split: if_splits)
qed (use assms in \<open>simp add: sink_Close_def\<close>)

text \<open>One invocation on the record.\<close>

definition run_record :: "claudeWorkload \<Rightarrow> string list \<Rightarrow> scrollback" where
  "run_record c chunks =
     snd (sink_Close (fold (\<lambda>p st. sink_Write st p) chunks
       (newClaudeOutputSink (wl_redact c) (wl_runOutputLimit c) (wl_scrollbackLimit c), wl_out c)))"

lemma sink_writes_plain:
  "sink_plain s \<Longrightarrow> fold (\<lambda>p st. sink_Write st p) chunks (s, b) = (s', b') \<Longrightarrow> grows_plain b b' \<and> sink_plain s'"
proof (induction chunks arbitrary: s b)
  case (Cons p ps)
  obtain s1 b1 where w: "sink_Write (s, b) p = (s1, b1)" by fastforce
  with Cons.prems(2) have "fold (\<lambda>p st. sink_Write st p) ps (s1, b1) = (s', b')" by simp
  with Cons.IH [of s1 b1] sink_Write_plain [OF w Cons.prems(1)] grows_plain_trans show ?case by blast
qed simp

lemma run_record_plain: "grows_plain (wl_out c) (run_record c chunks)"
proof -
  let ?k = "newClaudeOutputSink (wl_redact c) (wl_runOutputLimit c) (wl_scrollbackLimit c)"
  obtain s b where f: "fold (\<lambda>p st. sink_Write st p) chunks (?k, wl_out c) = (s, b)" by fastforce
  obtain s' b' where k: "sink_Close (s, b) = (s', b')" by fastforce
  have "sink_plain ?k" by (simp add: sink_plain_def newClaudeOutputSink_def newStreamingRedactor_def)
  from sink_writes_plain [OF this f] sink_Close_plain [OF k] have "grows_plain (wl_out c) b'"
    using grows_plain_trans by blast
  then show ?thesis by (simp add: run_record_def f k)
qed

section \<open>The turn counter\<close>

datatype record_event = Began time nat string | Ran "string list" | Noticed string | Ended time nat run_error bool

fun record_on :: "record_event \<Rightarrow> claudeWorkload \<Rightarrow> claudeWorkload" where
  "record_on (Began now seq prompt) c = beginTurn c now seq prompt"
| "record_on (Ran chunks) c = c\<lparr>wl_out := run_record c chunks\<rparr>"
| "record_on (Noticed msg) c = appendPlatformNotice c msg"
| "record_on (Ended now seq err timedOut) c = endTurn c now seq (claudeTurnStatus err timedOut)"

text \<open>Room for a block and the newline that may precede it.\<close>

definition roomy :: "claudeWorkload \<Rightarrow> string \<Rightarrow> bool" where
  "roomy c block = (length (sb_buf (wl_out c)) + Suc (length block) \<le> wl_scrollbackLimit c - length claudeOutputLimitMarker)"

fun fits :: "claudeWorkload \<Rightarrow> record_event \<Rightarrow> bool" where
  "fits c (Began now seq prompt) = (time_ok now \<and> roomy c (turn_block (wl_redact c) now seq prompt))"
| "fits c (Ended now seq err timedOut) =
     (time_ok now \<and> roomy c (claudeTurnMarker ''end'' seq [''status='' @ claudeTurnStatus err timedOut, ''at='' @ timestamp now]))"
| "fits c _ = True"

fun all_fit :: "claudeWorkload \<Rightarrow> record_event list \<Rightarrow> bool" where
  "all_fit c [] = True"
| "all_fit c (e # es) = (fits c e \<and> all_fit (record_on e c) es)"

fun began :: "record_event \<Rightarrow> nat" where
  "began (Began now seq prompt) = 1"
| "began _ = 0"

lemma appendTurnBlock_roomy:
  assumes "roomy c block" "block \<noteq> []"
  shows "\<exists>pre. plain pre \<and> sb_buf (wl_out (appendTurnBlock c block)) = sb_buf (wl_out c) @ pre @ block"
proof -
  have "sb_buf (wl_out (appendTurnBlock c block)) = sb_buf (wl_out c) @ (if endsWithNewline (wl_out c) then block else newline # block)"
    using assms
    by (auto simp: appendTurnBlock_def append_record_def appendClaudeBoundedAt_def roomy_def claudeFullAtLocked_def
        notifyLocked_def Let_def)
  then show ?thesis
    by (intro exI [where x = "if endsWithNewline (wl_out c) then [] else [newline]"])
      (simp add: claudeTurnSentinel_def newline_def)
qed

lemma plain_status [simp]: "plain (claudeTurnStatus err timedOut)"
  by (simp add: claudeTurnStatus_def claudeTurnSentinel_def)

text \<open>The three markers.\<close>

lemma marker_line:
  "claudeTurnMarker ''input'' seq fs = input_lead @ ''seq='' @ Itoa seq @ concat (map (\<lambda>f. CHR '' '' # f) fs) @ [newline]"
  by (simp add: claudeTurnMarker_def input_lead_def)

lemma marker_tail_plain:
  "list_all plain fs \<Longrightarrow> plain (''seq='' @ Itoa seq @ concat (map (\<lambda>f. CHR '' '' # f) fs) @ [newline])"
  using plain_Itoa [of seq] by (induction fs) (auto simp: claudeTurnSentinel_def newline_def)

lemma marks_input:
  assumes "list_all plain fs"
  shows "marks (claudeTurnMarker ''input'' seq fs) = 1" "whole_end (claudeTurnMarker ''input'' seq fs)"
proof -
  note p = marker_tail_plain [OF assms, of seq]
  show "marks (claudeTurnMarker ''input'' seq fs) = 1" unfolding marker_line marks_lead marks_plain [OF p] by simp
  have s: "plain ''session-platform input ''" by (simp add: claudeTurnSentinel_def)
  show "whole_end (claudeTurnMarker ''input'' seq fs)"
    unfolding marker_line input_lead_shape append_Cons
    by (rule whole_end_line) (use p s in \<open>auto simp: input_lead_shape\<close>)
qed

lemma marks_other:
  assumes "list_all plain fs" "kind = ''output'' \<or> kind = ''end'' \<and> fs \<noteq> [] \<and> 4 \<le> length (hd fs)"
  shows "marks (claudeTurnMarker kind seq fs) = 0" "whole_end (claudeTurnMarker kind seq fs)"
proof -
  define t where "t = ''session-platform '' @ kind @ '' '' @ ''seq='' @ Itoa seq @ concat (map (\<lambda>f. CHR '' '' # f) fs) @ [newline]"
  have m: "claudeTurnMarker kind seq fs = claudeTurnSentinel # t"
    by (simp add: claudeTurnMarker_def claudeTurnMarkerLead_def t_def)
  have p: "plain t"
    using marker_tail_plain [OF assms(1), of seq] assms(2) by (auto simp: t_def claudeTurnSentinel_def)
  show "whole_end (claudeTurnMarker kind seq fs)"
    unfolding m by (rule whole_end_line [OF p]) (use assms(2) in \<open>cases fs; auto simp: input_lead_shape t_def\<close>)
  have "\<not> is_prefix input_lead (claudeTurnSentinel # t)"
    using assms(2) by (auto simp: input_lead_shape t_def)
  then show "marks (claudeTurnMarker kind seq fs) = 0" unfolding m using p by simp
qed

lemma marks_turn_block:
  assumes "time_ok now"
  shows "marks (turn_block lits now seq prompt) = 1" "whole_end (turn_block lits now seq prompt)"
    "turn_block lits now seq prompt \<noteq> []"
proof -
  define body where "body = withoutTurnSentinel (TrimRightNewlines (ToValidUTF8 False prompt) @ [newline])"
  obtain out r where r: "Push (newStreamingRedactor lits) body = (out, r)" by fastforce
  define mid where "mid = out @ Finish r"
  have mid: "plain mid"
    using plain_Push [OF r] plain_Finish [of r] by (auto simp: body_def newStreamingRedactor_def mid_def)
  have at: "list_all plain [''at='' @ timestamp now]"
    using plain_timestamp [OF assms] by (auto simp: claudeTurnSentinel_def)
  have b: "turn_block lits now seq prompt =
      claudeTurnMarker ''input'' seq [''at='' @ timestamp now] @ mid @ claudeTurnMarker ''output'' seq []"
    using r by (simp add: turn_block_def body_def mid_def Let_def)
  note i = marks_input [OF at, of seq] and o = marks_other [of "[]" "''output''" seq, simplified]
  show "marks (turn_block lits now seq prompt) = 1"
    unfolding b using marks_append [OF i(2)] marks_plain_append [OF mid] i(1) o(1) by simp
  show "whole_end (turn_block lits now seq prompt)"
    unfolding b using i(2) o(2) mid by (intro whole_end_append) auto
  show "turn_block lits now seq prompt \<noteq> []" unfolding b by (simp add: claudeTurnMarker_def claudeTurnMarkerLead_def)
qed

lemma grows_plain_marks:
  "grows_plain b b' \<Longrightarrow> whole_end (sb_buf b) \<Longrightarrow> whole_end (sb_buf b') \<and> marks (sb_buf b') = marks (sb_buf b)"
  using whole_end_append [OF _ whole_end_plain] by (fastforce simp: grows_plain_def marks_append)

lemma record_on_marks:
  assumes "whole_end (sb_buf (wl_out c))" "fits c e"
  shows "whole_end (sb_buf (wl_out (record_on e c))) \<and>
    marks (sb_buf (wl_out (record_on e c))) = marks (sb_buf (wl_out c)) + began e"
proof -
  have block: "whole_end (sb_buf (wl_out (appendTurnBlock c block))) \<and>
      marks (sb_buf (wl_out (appendTurnBlock c block))) = marks (sb_buf (wl_out c)) + marks block"
    if room: "roomy c block" "block \<noteq> []" "whole_end block" for block
  proof -
    obtain pre where "plain pre" "sb_buf (wl_out (appendTurnBlock c block)) = sb_buf (wl_out c) @ pre @ block"
      using appendTurnBlock_roomy [OF room(1,2)] by blast
    with assms(1) room(3) show ?thesis by (simp add: marks_append marks_plain_append whole_end_append)
  qed
  show ?thesis
  proof (cases e)
    case (Began now seq prompt)
    then show ?thesis using assms(2) block marks_turn_block [of now "wl_redact c" seq prompt] by (simp add: beginTurn_def)
  next
    case (Ran chunks)
    then show ?thesis using grows_plain_marks [OF run_record_plain assms(1)] by simp
  next
    case (Noticed msg)
    have "grows_plain (wl_out c) (wl_out (appendPlatformNotice c msg))"
      using bounded_plain [OF plain_without plain_markers(1)] by (simp add: appendPlatformNotice_def append_record_def)
    from grows_plain_marks [OF this assms(1)] Noticed show ?thesis by simp
  next
    case (Ended now seq err timedOut)
    let ?fs = "[''status='' @ claudeTurnStatus err timedOut, ''at='' @ timestamp now]"
    have "list_all plain ?fs"
      using plain_timestamp assms(2) plain_status [of err timedOut] Ended by (auto simp: claudeTurnSentinel_def)
    then have "marks (claudeTurnMarker ''end'' seq ?fs) = 0" "whole_end (claudeTurnMarker ''end'' seq ?fs)"
      by (auto intro: marks_other)
    moreover have "claudeTurnMarker ''end'' seq ?fs \<noteq> []" by (simp add: claudeTurnMarker_def claudeTurnMarkerLead_def)
    ultimately show ?thesis using block assms(2) Ended by (simp add: endTurn_def)
  qed
qed

lemma records_marks:
  "whole_end (sb_buf (wl_out c)) \<Longrightarrow> all_fit c es \<Longrightarrow>
   whole_end (sb_buf (wl_out (fold record_on es c))) \<and>
   marks (sb_buf (wl_out (fold record_on es c))) = marks (sb_buf (wl_out c)) + sum_list (map began es)"
  by (induction es arbitrary: c) (use record_on_marks in fastforce)+

text \<open>C27: a restored session goes on with the right turn number. However turns begin and end,
  whatever the prompts, the agent's output and the notices contain (a turn marker included), and
  however the output is cut into writes: as long as the markers fit into the record, a restore
  of the record counts exactly the turns that were begun in it, on top of those it started with.
  Neither a prompt nor the output can forge a turn.\<close>

theorem turn_counter_restored:
  assumes "wl_out c = sb_restore b scroll" "whole_end scroll" "all_fit c es"
  shows "wl_turns (restore_finish pod (sb_snapshot (wl_out (fold record_on es c))) hasRun) =
    wl_turns (restore_finish pod' scroll hasRun') + sum_list (map began es)"
  using records_marks [of c es] assms
  by (simp add: restore_finish_def sb_snapshot_def sb_restore_def notifyLocked_def input_lead_def [symmetric] bytes_Count_marks)

definition sample_record :: claudeWorkload where
  "sample_record = (fresh_workload [''key''] 100 1000)\<lparr>wl_out := \<lparr>sb_buf = ''old'', sb_changed = None\<rparr>\<rparr>"

theorem turn_counter_restored_witness:
  "wl_turns (restore_finish sample_record (sb_snapshot (wl_out (fold record_on
     [Began 0 1 ''a key'', Ran [claudeTurnMarkerLead @ ''input seq=2''], Noticed ''done''] sample_record))) True) = 1"
proof -
  let ?es = "[Began 0 1 ''a key'', Ran [claudeTurnMarkerLead @ ''input seq=2''], Noticed ''done'']"
  have "wl_out sample_record = sb_restore \<lparr>sb_buf = [], sb_changed = None\<rparr> ''old''"
    by (simp add: sample_record_def sb_restore_def notifyLocked_def)
  moreover have "whole_end ''old''" by (rule whole_end_plain) (simp add: claudeTurnSentinel_def)
  moreover have "ToValidUTF8 False ''a key'' = ''a key''" "TrimRightNewlines ''a key'' = ''a key''" by code_simp+
  then have "turn_block [''key''] 0 1 ''a key'' = claudeTurnMarker ''input'' 1 [''at='' @ timestamp 0] @
      (''a [REDACTED]'' @ [newline]) @ claudeTurnMarker ''output'' 1 []"
  proof -
    assume u: "ToValidUTF8 False ''a key'' = ''a key''" "TrimRightNewlines ''a key'' = ''a key''"
    have "(case Push (newStreamingRedactor [''key'']) (withoutTurnSentinel (''a key'' @ [newline])) of (out, r) \<Rightarrow> out @ Finish r) =
        ''a [REDACTED]'' @ [newline]" by code_simp
    then show ?thesis by (simp add: turn_block_def u Let_def split: prod.splits)
  qed
  then have "fits sample_record (Began 0 1 ''a key'')"
    by (simp add: sample_record_def fresh_workload_def roomy_def claudeTurnMarker_def claudeTurnMarkerLead_def length_timestamp
        Itoa.simps claudeOutputLimitMarker_def time_ok_def year0_def year10000_def)
  then have "all_fit sample_record ?es" by simp
  ultimately show ?thesis
    using turn_counter_restored [of sample_record "\<lparr>sb_buf = [], sb_changed = None\<rparr>" "''old''" ?es sample_record True sample_record False]
    by (simp add: restore_finish_def bytes_Count.simps claudeTurnMarkerLead_def claudeTurnSentinel_def)
qed

section \<open>Sign-in\<close>

text \<open>C26: a sign-in code is never written down or run. While a sign-in waits, the first prompt
  that arrived after its link was shown is taken as the code, and one sent within 30 minutes of a
  sign-in that ended is discarded as its late code. Such a turn's effect on the
  workload, its record included, is the same for any two codes on which the sign-in process answers
  alike, and what runs afterwards is only the prompt held for the sign-in.\<close>

theorem signin_code_secret:
  assumes "worker_take c now = (t, c1)"
    and "(\<exists>pend. wl_pendingLogin c = Some pend \<and> pl_after pend < pj_seq (hd (wl_queue c))) \<or>
         (wl_pendingLogin c = None \<and> (\<exists>d. wl_droppedLogin c = Some d \<and> now \<le> dl_until d \<and> dl_after d < pj_seq (hd (wl_queue c))))"
    and "la_submit la (TrimSpace code) = la_submit la (TrimSpace code')"
  shows "openTurn c1 now' login la (tn_seq t) code (tn_input t) = openTurn c1 now' login la (tn_seq t) code' (tn_input t) \<and>
    (\<forall>prompt. fst (openTurn c1 now' login la (tn_seq t) code (tn_input t)) = Some prompt \<longrightarrow>
       (\<exists>pend. wl_pendingLogin c = Some pend \<and> prompt = pl_prompt pend)) \<and>
    wl_pendingLogin c1 = None \<and> (wl_pendingLogin c = None \<longrightarrow> wl_droppedLogin c1 = None)"
proof -
  have t: "tn_input t = (case wl_pendingLogin c of Some pend \<Rightarrow> LoginCode pend | None \<Rightarrow> StaleCode)"
    "wl_pendingLogin c1 = None" "wl_pendingLogin c = None \<Longrightarrow> wl_droppedLogin c1 = None"
    using assms(1,2)
    by (auto simp: worker_take_def classifyInputLocked_def Let_def split: option.splits if_splits)
  show ?thesis
    using assms(3) t
    by (cases "wl_pendingLogin c")
      (auto simp: openTurn_def recorded_input_def settleTurn_def completeLogin_def split: option.splits prod.splits if_splits)
qed

definition sample_signin :: claudeWorkload where
  "sample_signin = (fresh_workload [] 100 1000)\<lparr>wl_pendingLogin := Some \<lparr>pl_proc = 1, pl_prompt = ''held'', pl_after = 1\<rparr>,
     wl_queue := [\<lparr>pj_prompt = ''code-1'', pj_seq = 2\<rparr>], wl_queuedBytes := 6, wl_enqueued := 2\<rparr>"

theorem signin_code_secret_witness:
  "(let (t, c1) = worker_take sample_signin 0; la = \<lparr>la_signedIn = Inr False, la_start = Inr (0, []), la_submit = (\<lambda>_. None)\<rparr>
    in openTurn c1 0 True la (tn_seq t) ''code-1'' (tn_input t) = openTurn c1 0 True la (tn_seq t) ''code-2'' (tn_input t))"
proof -
  obtain t c1 where w: "worker_take sample_signin 0 = (t, c1)" by fastforce
  have "\<exists>pend. wl_pendingLogin sample_signin = Some pend \<and> pl_after pend < pj_seq (hd (wl_queue sample_signin))"
    by (simp add: sample_signin_def)
  then show ?thesis
    using signin_code_secret [OF w, of "\<lparr>la_signedIn = Inr False, la_start = Inr (0, []), la_submit = (\<lambda>_. None)\<rparr>" "''code-1''" "''code-2''"]
      w by simp
qed

end
