(* ===== verification/Claude_Settings.thy ===== *)
theory Claude_Settings
  imports Session_Model Session_Codec
begin

text \<open>
  The tool surface a session's agent runs with: \<open>managedSettingsFor\<close> to
  \<open>loadClaudeManagedSettings\<close> of \<open>data-plane/cmd/agent/claude.go\<close> and
  \<open>claude_mcp_registration.go\<close>. Files are what reading them gives: an error of the file system or
  of the decoder, or the decoded value. Go maps are association lists with distinct keys, and
  None for a nil map, into which an assignment panics. Raw JSON values are trees; two
  texts of one tree are not distinguished.
\<close>

section \<open>Data\<close>

record claudeMCPServer =
  ms_Type :: string
  ms_URL :: string
  ms_Timeout :: int

record claudeManagedSettings =
  st_Allow :: "string list"
  st_AdditionalDirectories :: "string list"
  st_EnabledPlugins :: "(string \<times> bool) list"
  st_MCPServers :: "(string \<times> claudeMCPServer) list"

record toolSurface =
  ts_Plugins :: "string list"
  ts_SessionMCP :: string
  ts_SharedDir :: string

definition claudePluginMarketplace :: string where "claudePluginMarketplace = ''dlddu-plugins''"
definition claudeSessionPlatformPlugin :: string where "claudeSessionPlatformPlugin = ''session-platform@dlddu-plugins''"
definition sessionMCPServerName :: string where "sessionMCPServerName = ''session-platform-session-mcp''"
definition sessionMCPPath :: string where "sessionMCPPath = ''/mcp''"
definition sessionMCPPermission :: string where "sessionMCPPermission = ''mcp__'' @ sessionMCPServerName"
definition claudeManagedTools :: "string list" where
  "claudeManagedTools = [''Read'', ''Write'', ''Edit'', ''Glob'', ''Grep'', ''Bash'']"

definition sessionMCPEndpoint :: "toolSurface \<Rightarrow> string" where
  "sessionMCPEndpoint t = (if ts_SessionMCP t = [] then [] else ts_SessionMCP t @ sessionMCPPath)"

text \<open>Milliseconds of \<open>sessionMCPToolTimeout\<close>: 10 minutes for the approval, 5 for a clone, 1 more.\<close>

definition sessionMCPToolTimeout :: int where "sessionMCPToolTimeout = (10 + 5 + 1) * 60 * 1000"

section \<open>Settings\<close>

fun put :: "'k \<Rightarrow> 'v \<Rightarrow> ('k \<times> 'v) list \<Rightarrow> ('k \<times> 'v) list" where
  "put k v [] = [(k, v)]"
| "put k v ((k', v') # kvs) = (if k' = k then (k, v) # kvs else (k', v') # put k v kvs)"

definition managedSettingsFor :: "toolSurface \<Rightarrow> claudeManagedSettings" where
  "managedSettingsFor tools =
     \<lparr>st_Allow = claudeManagedTools @ (if ts_SessionMCP tools \<noteq> [] then [sessionMCPPermission] else []),
      st_AdditionalDirectories = (if ts_SharedDir tools \<noteq> [] then [ts_SharedDir tools] else []),
      st_EnabledPlugins = fold (\<lambda>p m. put p True m) (ts_Plugins tools) [],
      st_MCPServers = []\<rparr>"

definition containsString :: "string list \<Rightarrow> string \<Rightarrow> bool" where
  "containsString values want = list_ex (\<lambda>v. v = want) values"

definition managedSettingsMatch :: "claudeManagedSettings \<Rightarrow> claudeManagedSettings \<Rightarrow> bool" where
  "managedSettingsMatch settings want =
     (length (st_EnabledPlugins settings) = length (st_EnabledPlugins want) \<and>
      list_all (\<lambda>(name, enabled). (map_of (st_EnabledPlugins settings) name = Some True) = enabled) (st_EnabledPlugins want) \<and>
      length (st_MCPServers settings) = length (st_MCPServers want) \<and>
      list_all (\<lambda>(name, server).
          (case map_of (st_MCPServers settings) name of None \<Rightarrow> \<lparr>ms_Type = [], ms_URL = [], ms_Timeout = 0\<rparr> | Some s \<Rightarrow> s) = server)
        (st_MCPServers want) \<and>
      list_all (containsString (st_Allow settings)) (st_Allow want) \<and>
      length (st_AdditionalDirectories settings) = length (st_AdditionalDirectories want) \<and>
      list_all (\<lambda>i. st_AdditionalDirectories settings ! i = st_AdditionalDirectories want ! i)
        [0..<length (st_AdditionalDirectories want)])"

text \<open>\<open>strings.CutSuffix\<close> and \<open>managedClaudePlugin\<close>.\<close>

definition CutSuffix :: "string \<Rightarrow> string \<Rightarrow> string option" where
  "CutSuffix s suf =
     (if length suf \<le> length s \<and> drop (length s - length suf) s = suf then Some (take (length s - length suf) s) else None)"

definition managedClaudePlugin :: "string \<Rightarrow> bool" where
  "managedClaudePlugin name =
     (case CutSuffix name (CHR ''@'' # claudePluginMarketplace) of None \<Rightarrow> False | Some plugin \<Rightarrow> pluginNamePattern plugin)"

fun plugins_env_loop :: "string list \<Rightarrow> string list \<Rightarrow> (string list) option" where
  "plugins_env_loop seen [] = Some []"
| "plugins_env_loop seen (name # names) =
     (if \<not> pluginNamePattern name \<or> name \<in> set seen then None
      else map_option (\<lambda>ps. (name @ CHR ''@'' # claudePluginMarketplace) # ps) (plugins_env_loop (name # seen) names))"

text \<open>\<open>strings.Split\<close> at a comma.\<close>

fun split_comma :: "string \<Rightarrow> string list" where
  "split_comma [] = [[]]"
| "split_comma (c # cs) =
     (if c = CHR '','' then [] # split_comma cs
      else (case split_comma cs of [] \<Rightarrow> [[c]] | w # ws \<Rightarrow> (c # w) # ws))"

definition claudePluginsFromEnv :: "string option \<Rightarrow> goerr + string list" where
  "claudePluginsFromEnv raw =
     (case raw of
        None \<Rightarrow> Inr [claudeSessionPlatformPlugin]
      | Some r \<Rightarrow>
          (case plugins_env_loop [] (split_comma r) of
             None \<Rightarrow> Inl (New ''CLAUDE_CODE_PLUGINS must be a comma-separated list of distinct plugin names'')
           | Some ps \<Rightarrow> Inr ps))"

text \<open>The checks of \<open>loadClaudeManagedSettings\<close> on the decoded file.\<close>

definition check_settings :: "claudeManagedSettings \<Rightarrow> goerr + claudeManagedSettings" where
  "check_settings s =
     (if \<not> distinct (st_Allow s) then Inl (New ''claude managed settings repeats a permission'')
      else if \<not> list_all (\<lambda>t. t \<in> set (st_Allow s)) claudeManagedTools then
        Inl (New ''claude managed settings is missing a permission'')
      else if length (st_Allow s) \<noteq>
          length claudeManagedTools + (if sessionMCPPermission \<in> set (st_Allow s) then 1 else 0) then
        Inl (New ''claude managed settings contains non-platform permissions'')
      else if \<not> list_all (\<lambda>(name, _). managedClaudePlugin name) (st_EnabledPlugins s) then
        Inl (New ''claude managed settings enables unmanaged plugin'')
      else if \<not> list_all (\<lambda>(name, _). name = sessionMCPServerName) (st_MCPServers s) then
        Inl (New ''claude managed settings registers unmanaged MCP server'')
      else Inr s)"

definition loadClaudeManagedSettings :: "goerr + claudeManagedSettings \<Rightarrow> goerr + claudeManagedSettings" where
  "loadClaudeManagedSettings file = bindR file check_settings"

definition add_missing :: "string list \<Rightarrow> string list \<Rightarrow> string list" where
  "add_missing allow want = fold (\<lambda>a acc. if containsString acc a then acc else acc @ [a]) want allow"

text \<open>\<open>ensureClaudeSettingsFile\<close>: None when the file is left as it is, otherwise what is stored.\<close>

definition normalised :: "claudeManagedSettings \<Rightarrow> claudeManagedSettings \<Rightarrow> claudeManagedSettings" where
  "normalised settings want =
     settings\<lparr>st_EnabledPlugins := st_EnabledPlugins want, st_MCPServers := st_MCPServers want,
       st_AdditionalDirectories := st_AdditionalDirectories want,
       st_Allow := add_missing (st_Allow settings) (st_Allow want)\<rparr>"

definition ensureClaudeSettingsFile ::
    "(goerr + claudeManagedSettings) option \<Rightarrow> toolSurface \<Rightarrow> goerr + claudeManagedSettings option" where
  "ensureClaudeSettingsFile file tools =
     (let want = managedSettingsFor tools in
      case file of
        None \<Rightarrow> Inr (Some want)
      | Some f \<Rightarrow> bindR (loadClaudeManagedSettings f) (\<lambda>settings.
          if managedSettingsMatch settings want then Inr None else Inr (Some (normalised settings want))))"

section \<open>The exactly-one rule\<close>

definition registersSessionMCP :: "(string \<times> claudeMCPServer) list \<Rightarrow> bool" where
  "registersSessionMCP servers =
     (case map_of servers sessionMCPServerName of None \<Rightarrow> False | Some server \<Rightarrow> ms_Type server = ''http'')"

definition validateClaudeToolSurface ::
    "claudeManagedSettings \<Rightarrow> (string \<times> claudeMCPServer) list \<Rightarrow> goerr option" where
  "validateClaudeToolSurface settings registered =
     (let plugin = (st_EnabledPlugins settings \<noteq> [] \<and>
            list_all (\<lambda>(name, enabled). enabled \<and> managedClaudePlugin name) (st_EnabledPlugins settings));
          mcp = (registersSessionMCP registered \<or> registersSessionMCP (st_MCPServers settings));
          permitted = containsString (st_Allow settings) sessionMCPPermission in
      if mcp \<and> \<not> permitted then Some (New ''claude managed settings registers the session MCP without permitting it'')
      else if permitted \<and> \<not> mcp then Some (New ''claude managed settings permits the session MCP without registering it'')
      else if plugin = mcp then Some (New ''claude managed settings must declare exactly one platform tool surface'')
      else if plugin \<and> (st_MCPServers settings \<noteq> [] \<or> registered \<noteq> []) then
        Some (New ''claude managed settings must not mix the managed plugin with an MCP server'')
      else if mcp \<and> st_EnabledPlugins settings \<noteq> [] then
        Some (New ''claude managed settings must not mix a session MCP with an enabled plugin'')
      else None)"

section \<open>Registration in the CLI's own configuration\<close>

type_synonym 'v gomap = "(string \<times> 'v) list option"

definition nil_map_panic :: goerr where "nil_map_panic = New ''panic: assignment to entry in nil map''"

definition gomap_put :: "string \<Rightarrow> 'v \<Rightarrow> 'v gomap \<Rightarrow> goerr + 'v gomap" where
  "gomap_put k v m = (case m of None \<Rightarrow> Inl nil_map_panic | Some kvs \<Rightarrow> Inr (Some (put k v kvs)))"

definition gomap_get :: "'v gomap \<Rightarrow> string \<Rightarrow> 'v option" where
  "gomap_get m k = (case m of None \<Rightarrow> None | Some kvs \<Rightarrow> map_of kvs k)"

definition gomap_delete :: "string \<Rightarrow> 'v gomap \<Rightarrow> 'v gomap" where
  "gomap_delete k m = map_option (filter (\<lambda>(k', _). k' \<noteq> k)) m"

definition gomap_len :: "'v gomap \<Rightarrow> nat" where
  "gomap_len m = (case m of None \<Rightarrow> 0 | Some kvs \<Rightarrow> length kvs)"

definition claudeCLIMCPServers :: string where "claudeCLIMCPServers = ''mcpServers''"

text \<open>\<open>json.Unmarshal\<close> of an object into a map; null makes the map nil.\<close>

definition decode_map :: "json \<Rightarrow> goerr + json gomap" where
  "decode_map j = (case j of JNull \<Rightarrow> Inr None | JObj kvs \<Rightarrow> Inr (Some kvs) | _ \<Rightarrow> Inl (New ''decode claude CLI mcpServers''))"

definition decodeClaudeCLIMCPServers :: "json gomap \<Rightarrow> goerr + json gomap" where
  "decodeClaudeCLIMCPServers config =
     (case gomap_get config claudeCLIMCPServers of None \<Rightarrow> Inr (Some []) | Some encoded \<Rightarrow> decode_map encoded)"

definition encode_server :: "claudeMCPServer \<Rightarrow> json" where
  "encode_server s =
     JObj ([(''type'', JStr (ms_Type s)), (''url'', JStr (ms_URL s))] @
           (if ms_Timeout s = 0 then [] else [(''timeout'', JNum (ms_Timeout s))]))"

definition decode_server :: "json \<Rightarrow> goerr + claudeMCPServer" where
  "decode_server j =
     (case j of
        JNull \<Rightarrow> Inr \<lparr>ms_Type = [], ms_URL = [], ms_Timeout = 0\<rparr>
      | JObj obj \<Rightarrow>
          bindR (get_str obj ''type'') (\<lambda>t. bindR (get_str obj ''url'') (\<lambda>u. bindR (get_num obj ''timeout'') (\<lambda>n.
            Inr \<lparr>ms_Type = t, ms_URL = u, ms_Timeout = n\<rparr>)))
      | _ \<Rightarrow> Inl (New ''json''))"

text \<open>\<open>readClaudeCLIConfig\<close>: what the file holds, a missing file an empty configuration.\<close>

definition readClaudeCLIConfig :: "(goerr + json) option \<Rightarrow> goerr + json gomap" where
  "readClaudeCLIConfig file =
     (case file of
        None \<Rightarrow> Inr (Some [])
      | Some (Inl e) \<Rightarrow> Inl e
      | Some (Inr j) \<Rightarrow>
          (case j of JNull \<Rightarrow> Inr None | JObj kvs \<Rightarrow> Inr (Some kvs) | _ \<Rightarrow> Inl (New ''decode claude CLI config'')))"

definition session_server :: "toolSurface \<Rightarrow> json" where
  "session_server tools =
     encode_server \<lparr>ms_Type = ''http'', ms_URL = sessionMCPEndpoint tools, ms_Timeout = sessionMCPToolTimeout\<rparr>"

text \<open>\<open>ensureClaudeMCPRegistration\<close>: None when nothing is stored, otherwise the new configuration.\<close>

definition store_servers :: "json gomap \<Rightarrow> json gomap \<Rightarrow> goerr + json gomap" where
  "store_servers config servers =
     (if gomap_len servers = 0 then Inr (gomap_delete claudeCLIMCPServers config)
      else gomap_put claudeCLIMCPServers (case servers of None \<Rightarrow> JNull | Some kvs \<Rightarrow> JObj kvs) config)"

definition ensureClaudeMCPRegistration ::
    "(goerr + json) option \<Rightarrow> toolSurface \<Rightarrow> goerr + json gomap option" where
  "ensureClaudeMCPRegistration file tools =
     bindR (readClaudeCLIConfig file) (\<lambda>config.
     bindR (decodeClaudeCLIMCPServers config) (\<lambda>servers.
       let previous = gomap_get servers sessionMCPServerName in
       if ts_SessionMCP tools = [] then
         (if previous = None then Inr None
          else bindR (store_servers config (gomap_delete sessionMCPServerName servers)) (\<lambda>c. Inr (Some c)))
       else if previous = Some (session_server tools) then Inr None
       else bindR (gomap_put sessionMCPServerName (session_server tools) servers) (\<lambda>servers'.
              bindR (store_servers config servers') (\<lambda>c. Inr (Some c)))))"

fun decode_servers :: "(string \<times> json) list \<Rightarrow> goerr + (string \<times> claudeMCPServer) list" where
  "decode_servers [] = Inr []"
| "decode_servers ((name, encoded) # kvs) =
     (case decode_server encoded of
        Inl e \<Rightarrow> if name = sessionMCPServerName then Inl (Errorf ''decode registered server'' [e]) else decode_servers kvs
      | Inr server \<Rightarrow> bindR (decode_servers kvs) (\<lambda>ss. Inr ((name, server) # ss)))"

definition loadClaudeMCPRegistration :: "(goerr + json) option \<Rightarrow> goerr + (string \<times> claudeMCPServer) list" where
  "loadClaudeMCPRegistration file =
     bindR (readClaudeCLIConfig file) (\<lambda>config.
     bindR (decodeClaudeCLIMCPServers config) (\<lambda>raw.
       case raw of None \<Rightarrow> Inr [] | Some kvs \<Rightarrow> decode_servers kvs))"

definition validateClaudeManagedSettings ::
    "goerr + claudeManagedSettings \<Rightarrow> (goerr + json) option \<Rightarrow> goerr option" where
  "validateClaudeManagedSettings file cli =
     (case loadClaudeManagedSettings file of
        Inl e \<Rightarrow> Some e
      | Inr settings \<Rightarrow>
          (case loadClaudeMCPRegistration cli of Inl e \<Rightarrow> Some e | Inr registered \<Rightarrow> validateClaudeToolSurface settings registered))"

end
