(* ===== verification/Claude_Settings_Laws.thy ===== *)
theory Claude_Settings_Laws
  imports Claude_Settings
begin

text \<open>
  What installing a tool surface into a session's home gives: a home that passes the archive's
  validation, on which installing again changes nothing; and the two homes the platform itself
  cannot get past: a CLI configuration that is null, and a plugin session with a server of its own.
\<close>

definition tools_ok :: "toolSurface \<Rightarrow> bool" where
  "tools_ok tools =
     ((ts_SessionMCP tools = [] \<and> ts_Plugins tools \<noteq> [] \<and> distinct (ts_Plugins tools) \<and>
       list_all managedClaudePlugin (ts_Plugins tools)) \<or>
      (ts_SessionMCP tools \<noteq> [] \<and> ts_Plugins tools = []))"

lemma put_fresh: "k \<notin> fst ` set m \<Longrightarrow> put k v m = m @ [(k, v)]"
  by (induction m) auto

lemma fold_put:
  "distinct ps \<Longrightarrow> fst ` set acc \<inter> set ps = {} \<Longrightarrow> fold (\<lambda>p m. put p True m) ps acc = acc @ map (\<lambda>p. (p, True)) ps"
proof (induction ps arbitrary: acc)
  case (Cons p ps)
  then have "put p True acc = acc @ [(p, True)]" by (intro put_fresh) auto
  moreover have "fst ` set (acc @ [(p, True)]) \<inter> set ps = {}" using Cons.prems by auto
  ultimately show ?case using Cons.IH [of "acc @ [(p, True)]"] Cons.prems by simp
qed simp

lemma enabled_plugins: "tools_ok tools \<Longrightarrow> st_EnabledPlugins (managedSettingsFor tools) = map (\<lambda>p. (p, True)) (ts_Plugins tools)"
  using fold_put [of "ts_Plugins tools" "[]"] by (auto simp: tools_ok_def managedSettingsFor_def)

lemma map_of_put [simp]: "map_of (put k v m) = (map_of m)(k \<mapsto> v)"
  by (induction m) auto

lemma containsString_iff [simp]: "containsString xs x \<longleftrightarrow> x \<in> set xs"
  by (auto simp: containsString_def list_ex_iff)

lemma add_missing_same: "set want \<subseteq> set allow \<Longrightarrow> add_missing allow want = allow"
  by (induction want) (auto simp: add_missing_def)

lemma add_missing_append: "add_missing allow (xs @ ys) = add_missing (add_missing allow xs) ys"
  by (simp add: add_missing_def)

lemma permission_not_tool: "sessionMCPPermission \<notin> set claudeManagedTools" "distinct claudeManagedTools"
  by (simp_all add: sessionMCPPermission_def claudeManagedTools_def)

text \<open>The permissions after normalising a list that passed the checks.\<close>

lemma check_allow:
  "check_settings s = Inr s' \<Longrightarrow> s' = s \<and> distinct (st_Allow s) \<and> set claudeManagedTools \<subseteq> set (st_Allow s) \<and>
   length (st_Allow s) = length claudeManagedTools + (if sessionMCPPermission \<in> set (st_Allow s) then 1 else 0)"
  by (auto simp: check_settings_def list_all_iff split: if_splits)

lemma normalised_allow:
  assumes "check_settings s = Inr s"
  shows "st_Allow (normalised s (managedSettingsFor tools)) =
    st_Allow s @ (if ts_SessionMCP tools \<noteq> [] \<and> sessionMCPPermission \<notin> set (st_Allow s) then [sessionMCPPermission] else [])"
proof -
  have "add_missing (st_Allow s) claudeManagedTools = st_Allow s" using check_allow [OF assms] by (intro add_missing_same) auto
  then show ?thesis by (simp add: normalised_def managedSettingsFor_def add_missing_append) (simp add: add_missing_def)
qed

lemma wanted_passes:
  assumes "tools_ok tools"
  shows "check_settings (managedSettingsFor tools) = Inr (managedSettingsFor tools)"
    "managedSettingsMatch (managedSettingsFor tools) (managedSettingsFor tools)"
proof -
  have a: "st_Allow (managedSettingsFor tools) = claudeManagedTools @ (if ts_SessionMCP tools \<noteq> [] then [sessionMCPPermission] else [])"
    by (simp add: managedSettingsFor_def)
  have p: "list_all (\<lambda>(name, _). managedClaudePlugin name) (st_EnabledPlugins (managedSettingsFor tools))"
    using assms by (auto simp: enabled_plugins tools_ok_def list_all_iff)
  have d: "distinct (ts_Plugins tools)" using assms by (auto simp: tools_ok_def)
  show "check_settings (managedSettingsFor tools) = Inr (managedSettingsFor tools)"
    using permission_not_tool p by (simp add: check_settings_def a list_all_iff) (simp add: managedSettingsFor_def)
  have "map_of (map (\<lambda>p. (p, True)) (ts_Plugins tools)) x = Some True" if "x \<in> set (ts_Plugins tools)" for x
    using that d by (simp add: map_of_eq_Some_iff comp_def)
  then show "managedSettingsMatch (managedSettingsFor tools) (managedSettingsFor tools)"
    by (auto simp: managedSettingsMatch_def enabled_plugins [OF assms] list_all_iff) (simp add: managedSettingsFor_def)
qed

lemma normalised_passes:
  assumes "tools_ok tools" "check_settings s = Inr s"
  shows "check_settings (normalised s (managedSettingsFor tools)) = Inr (normalised s (managedSettingsFor tools))"
    "managedSettingsMatch (normalised s (managedSettingsFor tools)) (managedSettingsFor tools)"
proof -
  let ?w = "managedSettingsFor tools" and ?n = "normalised s (managedSettingsFor tools)"
  note a = normalised_allow [OF assms(2), of tools] and c = check_allow [OF assms(2)]
  have same: "st_EnabledPlugins ?n = st_EnabledPlugins ?w" "st_MCPServers ?n = st_MCPServers ?w"
    "st_AdditionalDirectories ?n = st_AdditionalDirectories ?w" by (simp_all add: normalised_def)
  from wanted_passes(1) [OF assms(1)] have w: "list_all (\<lambda>(name, _). managedClaudePlugin name) (st_EnabledPlugins ?w)"
    "list_all (\<lambda>(name, _). name = sessionMCPServerName) (st_MCPServers ?w)"
    unfolding check_settings_def by (auto split: if_splits)
  show "check_settings ?n = Inr ?n"
    unfolding check_settings_def same a using c w by (auto simp: list_all_iff)
  have "set (st_Allow ?w) \<subseteq> set (st_Allow ?n)" unfolding a using c by (auto simp: managedSettingsFor_def)
  with wanted_passes(2) [OF assms(1)] show "managedSettingsMatch ?n ?w"
    unfolding managedSettingsMatch_def same by (auto simp: list_all_iff)
qed

lemma settings_installed:
  assumes "tools_ok tools" "ensureClaudeSettingsFile file tools = Inr r" "r = Some s \<or> r = None \<and> file = Some (Inr s)"
  shows "check_settings s = Inr s" "managedSettingsMatch s (managedSettingsFor tools)"
proof -
  consider "file = None" "s = managedSettingsFor tools"
    | f where "file = Some (Inr f)" "check_settings f = Inr f" "s = normalised f (managedSettingsFor tools)"
    | "file = Some (Inr s)" "check_settings s = Inr s" "managedSettingsMatch s (managedSettingsFor tools)"
    using assms(2,3) check_allow
    by (auto simp: ensureClaudeSettingsFile_def Let_def bindR_def loadClaudeManagedSettings_def
        split: option.splits sum.splits if_splits)
  then show "check_settings s = Inr s" "managedSettingsMatch s (managedSettingsFor tools)"
    by (cases; use wanted_passes [OF assms(1)] normalised_passes [OF assms(1)] in auto)+
qed

lemma match_surface:
  assumes "tools_ok tools" "managedSettingsMatch s (managedSettingsFor tools)" "distinct (map fst (st_EnabledPlugins s))"
  shows "st_MCPServers s = []" "ts_SessionMCP tools \<noteq> [] \<Longrightarrow> st_EnabledPlugins s = [] \<and> sessionMCPPermission \<in> set (st_Allow s)"
    "ts_SessionMCP tools = [] \<Longrightarrow> st_EnabledPlugins s \<noteq> [] \<and>
       list_all (\<lambda>(name, enabled). enabled \<and> managedClaudePlugin name) (st_EnabledPlugins s)"
proof -
  note e = enabled_plugins [OF assms(1)]
  show "st_MCPServers s = []" using assms(2) by (auto simp: managedSettingsMatch_def managedSettingsFor_def)
  show "st_EnabledPlugins s = [] \<and> sessionMCPPermission \<in> set (st_Allow s)" if "ts_SessionMCP tools \<noteq> []"
    using assms(1,2) e that by (auto simp: managedSettingsMatch_def tools_ok_def) (simp add: managedSettingsFor_def)
  show "st_EnabledPlugins s \<noteq> [] \<and> list_all (\<lambda>(name, enabled). enabled \<and> managedClaudePlugin name) (st_EnabledPlugins s)"
    if none: "ts_SessionMCP tools = []"
  proof -
    have ps: "ts_Plugins tools \<noteq> []" "distinct (ts_Plugins tools)" "list_all managedClaudePlugin (ts_Plugins tools)"
      using assms(1) none by (auto simp: tools_ok_def)
    have len: "length (st_EnabledPlugins s) = length (ts_Plugins tools)"
      and en: "\<And>p. p \<in> set (ts_Plugins tools) \<Longrightarrow> (p, True) \<in> set (st_EnabledPlugins s)"
      using assms(2) e by (auto simp: managedSettingsMatch_def list_all_iff dest: map_of_SomeD)
    have "card ((\<lambda>p. (p, True)) ` set (ts_Plugins tools)) = card (set (st_EnabledPlugins s))"
      using len ps(2) assms(3) by (simp add: card_image inj_on_def distinct_card distinct_map)
    then have "(\<lambda>p. (p, True)) ` set (ts_Plugins tools) = set (st_EnabledPlugins s)"
      using en by (intro card_subset_eq) auto
    then have "(n, b) \<in> set (st_EnabledPlugins s) \<Longrightarrow> b \<and> n \<in> set (ts_Plugins tools)" for n b by auto
    then show ?thesis using ps(1,3) len unfolding list_all_iff by fastforce
  qed
qed

lemma decode_encode_server: "decode_server (encode_server s) = Inr s"
  by (simp add: decode_server_def encode_server_def get_str_def get_num_def bindR_def)

lemma decode_servers_other:
  "sessionMCPServerName \<notin> fst ` set kvs \<Longrightarrow> \<exists>regs. decode_servers kvs = Inr regs \<and> map_of regs sessionMCPServerName = None"
proof (induction kvs)
  case (Cons kv kvs)
  obtain n j where kv: "kv = (n, j)" by fastforce
  with Cons obtain regs where "decode_servers kvs = Inr regs" "map_of regs sessionMCPServerName = None" by auto
  then show ?case using Cons.prems kv by (cases "decode_server j") (auto simp: bindR_def)
qed simp

lemma decode_servers_own:
  assumes "distinct (map fst kvs)" "map_of kvs sessionMCPServerName = Some (encode_server s)"
  shows "\<exists>regs. decode_servers kvs = Inr regs \<and> map_of regs sessionMCPServerName = Some s"
  using assms
proof (induction kvs)
  case (Cons kv kvs)
  obtain n j where kv: "kv = (n, j)" by fastforce
  show ?case
  proof (cases "n = sessionMCPServerName")
    case True
    then obtain regs where "decode_servers kvs = Inr regs" using Cons.prems(1) kv decode_servers_other [of kvs] by auto
    then show ?thesis using True kv Cons.prems(2) by (simp add: decode_encode_server bindR_def)
  next
    case False
    then obtain regs where "decode_servers kvs = Inr regs" "map_of regs sessionMCPServerName = Some s" using Cons kv by auto
    then show ?thesis using False kv by (cases "decode_server j") (auto simp: bindR_def)
  qed
qed simp

section \<open>Installing\<close>

definition stored :: "json gomap \<Rightarrow> json" where
  "stored c = (case c of None \<Rightarrow> JNull | Some kvs \<Rightarrow> JObj kvs)"

definition cli_servers :: "(goerr + json) option \<Rightarrow> goerr + json gomap" where
  "cli_servers cli = bindR (readClaudeCLIConfig cli) decodeClaudeCLIMCPServers"

lemma read_stored: "readClaudeCLIConfig (Some (Inr (stored c))) = Inr c"
  by (cases c) (simp_all add: readClaudeCLIConfig_def stored_def)

lemma store_servers_read:
  assumes "store_servers config servers = Inr c"
  shows "cli_servers (Some (Inr (stored c))) = Inr (if gomap_len servers = 0 then Some [] else servers)"
proof -
  have del: "map_of (filter (\<lambda>(k, _). k \<noteq> a) kvs) a = None" for a :: string and kvs :: "(string \<times> json) list"
    by (induction kvs) auto
  show ?thesis
    using assms
    by (auto simp: cli_servers_def read_stored bindR_def store_servers_def decodeClaudeCLIMCPServers_def gomap_get_def
        gomap_put_def gomap_delete_def gomap_len_def decode_map_def del split: if_splits option.splits)
qed

lemma distinct_put: "distinct (map fst m) \<Longrightarrow> distinct (map fst (put k v m))"
proof -
  have "fst ` set (put k v m) = insert k (fst ` set m)" for m :: "('a \<times> 'b) list"
    by (simp add: dom_map_of_conv_image_fst [symmetric])
  then show "distinct (map fst m) \<Longrightarrow> distinct (map fst (put k v m))" by (induction m) auto
qed

text \<open>The registered servers once the surface is installed: with a session MCP, it is among them;
  without one, its entry is gone.\<close>

lemma registration_installed:
  assumes "ensureClaudeMCPRegistration cli tools = Inr q" "cli' = (case q of Some c \<Rightarrow> Some (Inr (stored c)) | None \<Rightarrow> cli)"
    and "\<And>kvs. cli_servers cli = Inr (Some kvs) \<Longrightarrow> distinct (map fst kvs)"
  shows "\<exists>m. cli_servers cli' = Inr m \<and> (\<forall>kvs. m = Some kvs \<longrightarrow> distinct (map fst kvs)) \<and>
    gomap_get m sessionMCPServerName = (if ts_SessionMCP tools = [] then None else Some (session_server tools))"
proof -
  from assms(1) obtain config servers where c: "readClaudeCLIConfig cli = Inr config"
    "decodeClaudeCLIMCPServers config = Inr servers" "cli_servers cli = Inr servers"
    by (auto simp: ensureClaudeMCPRegistration_def bindR_def cli_servers_def split: sum.splits)
  have d: "servers = Some kvs \<Longrightarrow> distinct (map fst kvs)" for kvs using assms(3) c(3) by simp
  have del: "map_of (filter (\<lambda>(k, _). k \<noteq> a) kvs) a = None" for a :: string and kvs :: "(string \<times> json) list"
    by (induction kvs) auto
  let ?prev = "gomap_get servers sessionMCPServerName"
  consider "q = None" "?prev = (if ts_SessionMCP tools = [] then None else Some (session_server tools))"
    | c' where "q = Some c'" "ts_SessionMCP tools = []" "store_servers config (gomap_delete sessionMCPServerName servers) = Inr c'"
    | c' kvs where "q = Some c'" "ts_SessionMCP tools \<noteq> []" "servers = Some kvs"
        "store_servers config (Some (put sessionMCPServerName (session_server tools) kvs)) = Inr c'"
    using assms(1) c
    by (auto simp: ensureClaudeMCPRegistration_def bindR_def Let_def gomap_put_def split: sum.splits if_splits option.splits)
  then show ?thesis
  proof cases
    case 1
    then show ?thesis using c(3) d assms(2) by auto
  next
    case 2
    have "gomap_get (gomap_delete sessionMCPServerName servers) sessionMCPServerName = None"
      by (cases servers) (simp_all add: gomap_get_def gomap_delete_def del)
    moreover have "distinct (map fst kvs)" if "gomap_delete sessionMCPServerName servers = Some kvs" for kvs
      using that d by (auto simp: gomap_delete_def distinct_map_filter)
    ultimately show ?thesis using store_servers_read [OF 2(3)] 2 assms(2) by (auto simp: gomap_get_def)
  next
    case 3
    have "put sessionMCPServerName (session_server tools) kvs \<noteq> []" by (cases kvs) (auto split: if_splits)
    then show ?thesis
      using store_servers_read [OF 3(4)] 3 assms(2) d distinct_put by (auto simp: gomap_get_def gomap_len_def)
  qed
qed

text \<open>Installing the tool surface. For a sanctioned surface (marketplace plugins or the session
  MCP, not both), whatever settings and CLI configuration a home had, if the installation
  succeeds, then installing again changes nothing, and the home passes the validation of an
  archive exactly when it has the session MCP, or it has plugins, registers no server of its own
  and never permitted the session MCP. (Go maps have distinct keys.)\<close>

theorem tool_surface_installed:
  assumes "tools_ok tools"
    and "ensureClaudeSettingsFile file tools = Inr r" "r = Some s \<or> r = None \<and> file = Some (Inr s)"
    and "distinct (map fst (st_EnabledPlugins s))"
    and "ensureClaudeMCPRegistration cli tools = Inr q" "cli' = (case q of Some c \<Rightarrow> Some (Inr (stored c)) | None \<Rightarrow> cli)"
    and "\<And>kvs. cli_servers cli = Inr (Some kvs) \<Longrightarrow> distinct (map fst kvs)"
  shows "ensureClaudeSettingsFile (Some (Inr s)) tools = Inr None \<and> ensureClaudeMCPRegistration cli' tools = Inr None \<and>
    (\<exists>regs. loadClaudeMCPRegistration cli' = Inr regs \<and>
      (validateClaudeManagedSettings (Inr s) cli' = None \<longleftrightarrow>
         ts_SessionMCP tools \<noteq> [] \<or> (regs = [] \<and> sessionMCPPermission \<notin> set (st_Allow s))))"
proof -
  note s = settings_installed [OF assms(1-3)] and surf = match_surface [OF assms(1) settings_installed(2) [OF assms(1-3)] assms(4)]
  have 1: "ensureClaudeSettingsFile (Some (Inr s)) tools = Inr None"
    using s by (simp add: ensureClaudeSettingsFile_def loadClaudeManagedSettings_def bindR_def Let_def)
  obtain m where m: "cli_servers cli' = Inr m" "\<And>kvs. m = Some kvs \<Longrightarrow> distinct (map fst kvs)"
    "gomap_get m sessionMCPServerName = (if ts_SessionMCP tools = [] then None else Some (session_server tools))"
    using registration_installed [OF assms(5,6,7)] by auto
  then obtain config where c: "readClaudeCLIConfig cli' = Inr config" "decodeClaudeCLIMCPServers config = Inr m"
    by (auto simp: cli_servers_def bindR_def split: sum.splits)
  then have 2: "ensureClaudeMCPRegistration cli' tools = Inr None"
    using m(3) by (simp add: ensureClaudeMCPRegistration_def bindR_def Let_def)
  obtain regs where regs: "loadClaudeMCPRegistration cli' = Inr regs"
    "map_of regs sessionMCPServerName = (if ts_SessionMCP tools = [] then None
       else Some \<lparr>ms_Type = ''http'', ms_URL = sessionMCPEndpoint tools, ms_Timeout = sessionMCPToolTimeout\<rparr>)"
  proof (cases m)
    case None
    then show ?thesis using that [of "[]"] c m(3) by (auto simp: loadClaudeMCPRegistration_def bindR_def gomap_get_def split: if_splits)
  next
    case (Some kvs)
    have own: "ts_SessionMCP tools = [] \<Longrightarrow> sessionMCPServerName \<notin> fst ` set kvs"
      using m(3) Some by (simp add: gomap_get_def map_of_eq_None_iff)
    show ?thesis
      using that c Some m decode_servers_other [OF own] decode_servers_own [of kvs]
      by (auto simp: loadClaudeMCPRegistration_def bindR_def gomap_get_def session_server_def split: if_splits)
  qed
  have reg: "registersSessionMCP regs \<longleftrightarrow> ts_SessionMCP tools \<noteq> []" by (simp add: registersSessionMCP_def regs(2))
  have none: "\<not> registersSessionMCP (st_MCPServers s)" by (simp add: registersSessionMCP_def surf(1))
  have "validateClaudeManagedSettings (Inr s) cli' = validateClaudeToolSurface s regs"
    using s(1) by (simp add: validateClaudeManagedSettings_def loadClaudeManagedSettings_def bindR_def regs(1))
  moreover have "validateClaudeToolSurface s regs = None \<longleftrightarrow>
      ts_SessionMCP tools \<noteq> [] \<or> (regs = [] \<and> sessionMCPPermission \<notin> set (st_Allow s))"
  proof (cases "ts_SessionMCP tools = []")
    case True
    then show ?thesis using surf(1,3) reg none by (simp add: validateClaudeToolSurface_def Let_def)
  next
    case False
    then show ?thesis using surf(1,2) reg none by (simp add: validateClaudeToolSurface_def Let_def)
  qed
  ultimately show ?thesis using 1 2 regs(1) by auto
qed

theorem tool_surface_installed_witness:
  "let tools = \<lparr>ts_Plugins = [], ts_SessionMCP = ''http://10.0.0.1:8092'', ts_SharedDir = []\<rparr>;
       s = managedSettingsFor tools;
       cli' = Some (Inr (JObj [(''mcpServers'', JObj [(sessionMCPServerName, session_server tools)])]))
   in ensureClaudeSettingsFile None tools = Inr (Some s) \<and> validateClaudeManagedSettings (Inr s) cli' = None"
proof -
  let ?tools = "\<lparr>ts_Plugins = [], ts_SessionMCP = ''http://10.0.0.1:8092'', ts_SharedDir = []\<rparr>"
  let ?c = "Some [(''mcpServers'', JObj [(sessionMCPServerName, session_server ?tools)])]"
  have e: "ensureClaudeSettingsFile None ?tools = Inr (Some (managedSettingsFor ?tools))" by (simp add: ensureClaudeSettingsFile_def)
  have q: "ensureClaudeMCPRegistration None ?tools = Inr (Some ?c)"
    by (simp add: ensureClaudeMCPRegistration_def readClaudeCLIConfig_def bindR_def decodeClaudeCLIMCPServers_def
        gomap_get_def gomap_put_def store_servers_def gomap_len_def claudeCLIMCPServers_def)
  have "\<exists>regs. loadClaudeMCPRegistration (Some (Inr (stored ?c))) = Inr regs \<and>
      (validateClaudeManagedSettings (Inr (managedSettingsFor ?tools)) (Some (Inr (stored ?c))) = None \<longleftrightarrow>
         ts_SessionMCP ?tools \<noteq> [] \<or> (regs = [] \<and> sessionMCPPermission \<notin> set (st_Allow (managedSettingsFor ?tools))))"
    using tool_surface_installed [OF _ e _ _ q refl]
    by (simp add: tools_ok_def managedSettingsFor_def cli_servers_def readClaudeCLIConfig_def bindR_def
        decodeClaudeCLIMCPServers_def gomap_get_def)
  then show ?thesis by (simp add: e stored_def Let_def)
qed

text \<open>A null in the CLI's own configuration file stops the agent. The file belongs to the CLI
  and the session; if it is \<open>null\<close>, or its list of servers is, then decoding leaves a nil map
  behind, and installing a session MCP panics on the assignment into it instead of returning an
  error or replacing the value.\<close>

theorem null_config_panics:
  assumes "ts_SessionMCP tools \<noteq> []"
  shows "ensureClaudeMCPRegistration (Some (Inr JNull)) tools = Inl nil_map_panic \<and>
    ensureClaudeMCPRegistration (Some (Inr (JObj [(''mcpServers'', JNull)]))) tools = Inl nil_map_panic"
  using assms
  by (simp add: ensureClaudeMCPRegistration_def readClaudeCLIConfig_def bindR_def decodeClaudeCLIMCPServers_def decode_map_def
      gomap_get_def gomap_put_def store_servers_def gomap_len_def claudeCLIMCPServers_def)

theorem null_config_panics_witness:
  "ensureClaudeMCPRegistration (Some (Inr JNull)) \<lparr>ts_Plugins = [], ts_SessionMCP = ''http://10.0.0.1:8092'', ts_SharedDir = []\<rparr> =
   Inl nil_map_panic"
  using null_config_panics [of "\<lparr>ts_Plugins = [], ts_SessionMCP = ''http://10.0.0.1:8092'', ts_SharedDir = []\<rparr>"] by simp

end
