(* ===== verification/Tenancy.thy ===== *)
theory Tenancy
  imports Session_Model
begin

text \<open>
  \<open>control-plane/internal/tenancy\<close> (the tenant configuration, who a request speaks for) and
  \<open>helperauth\<close> (which session's helper pod is calling). The Kubernetes TokenReview API and pod
  lookups are parameters. A pointer to a tenant of the parsed file is its value; the two
  indexes are maps.
\<close>

section \<open>Configuration\<close>

record Tenant =
  tn_Name :: string
  tn_ServiceAccounts :: "string list"
  tn_WorkloadTypes :: "string list"

definition AnyWorkloadType :: string where "AnyWorkloadType = ''*''"

definition Allows :: "Tenant \<Rightarrow> string \<Rightarrow> bool" where
  "Allows t w = (AnyWorkloadType \<in> set (tn_WorkloadTypes t) \<or> w \<in> set (tn_WorkloadTypes t))"

record Config =
  cf_tenants :: "Tenant list"
  cf_byName :: "string \<rightharpoonup> Tenant"
  cf_byAccount :: "string \<rightharpoonup> Tenant"

definition lower_alnum :: "char \<Rightarrow> bool" where
  "lower_alnum c = ((CHR ''a'' \<le> c \<and> c \<le> CHR ''z'') \<or> (CHR ''0'' \<le> c \<and> c \<le> CHR ''9''))"

text \<open>\<open>[a-z0-9](X{0,n}[a-z0-9])?\<close>\<close>

definition dns_name :: "(char \<Rightarrow> bool) \<Rightarrow> nat \<Rightarrow> string \<Rightarrow> bool" where
  "dns_name cls n s =
     (s \<noteq> [] \<and> lower_alnum (hd s) \<and> lower_alnum (last s) \<and> list_all cls s \<and> length s \<le> n + 2)"

definition tenantNamePattern :: "string \<Rightarrow> bool" where
  "tenantNamePattern = dns_name (\<lambda>c. lower_alnum c \<or> c = CHR ''-'') 61"

text \<open>\<open>strings.Cut\<close> at one byte.\<close>

fun cut_at :: "char \<Rightarrow> string \<Rightarrow> (string \<times> string) option" where
  "cut_at x [] = None"
| "cut_at x (c # cs) = (if c = x then Some ([], cs) else map_option (\<lambda>(a, b). (c # a, b)) (cut_at x cs))"

definition accountPattern :: "string \<Rightarrow> bool" where
  "accountPattern s =
     (case cut_at (CHR ''/'') s of
        None \<Rightarrow> False
      | Some (ns, sa) \<Rightarrow> tenantNamePattern ns \<and> dns_name (\<lambda>c. lower_alnum c \<or> c = CHR ''-'' \<or> c = CHR ''.'') 251 sa)"

fun claim_accounts :: "Tenant \<Rightarrow> string list \<Rightarrow> (string \<rightharpoonup> Tenant) \<Rightarrow> goerr + (string \<rightharpoonup> Tenant)" where
  "claim_accounts t [] m = Inr m"
| "claim_accounts t (a # as) m =
     (if \<not> accountPattern a then Inl (New ''tenant config: not <namespace>/<serviceaccount>'')
      else if m a \<noteq> None then Inl (New ''tenant config: serviceAccount is claimed by both'')
      else claim_accounts t as (m(a \<mapsto> t)))"

fun check_types :: "string list \<Rightarrow> string list \<Rightarrow> goerr option" where
  "check_types seen [] = None"
| "check_types seen (w # ws) =
     (if w = AnyWorkloadType then check_types seen ws
      else if w = '''' \<or> \<not> WorkloadType_Valid w then Some (New ''tenant config: unknown workload type'')
      else if w \<in> set seen then Some (New ''tenant config: lists workload type twice'')
      else check_types (w # seen) ws)"

fun parse_tenants :: "Tenant list \<Rightarrow> Config \<Rightarrow> goerr + Config" where
  "parse_tenants [] cfg = Inr cfg"
| "parse_tenants (t # ts) cfg =
     (if \<not> tenantNamePattern (tn_Name t) then Inl (New ''tenant config: tenant name is not a DNS label'')
      else if cf_byName cfg (tn_Name t) \<noteq> None then Inl (New ''tenant config: duplicate tenant'')
      else if tn_ServiceAccounts t = [] then Inl (New ''tenant config: tenant names no serviceAccounts'')
      else
        (case claim_accounts t (tn_ServiceAccounts t) (cf_byAccount cfg) of
           Inl e \<Rightarrow> Inl e
         | Inr accounts \<Rightarrow>
             if AnyWorkloadType \<in> set (tn_WorkloadTypes t) \<and> length (tn_WorkloadTypes t) \<noteq> 1 then
               Inl (New ''tenant config: * must be the only workload type'')
             else
               (case check_types [] (tn_WorkloadTypes t) of
                  Some e \<Rightarrow> Inl e
                | None \<Rightarrow> parse_tenants ts (cfg\<lparr>cf_byAccount := accounts, cf_byName := (cf_byName cfg)(tn_Name t \<mapsto> t),
                                             cf_tenants := cf_tenants cfg @ [t]\<rparr>))))"

definition empty_config :: Config where
  "empty_config = \<lparr>cf_tenants = [], cf_byName = (\<lambda>_. None), cf_byAccount = (\<lambda>_. None)\<rparr>"

text \<open>\<open>Parse\<close>: \<open>decoded\<close> is what the strict JSON decoder makes of the document.\<close>

definition Parse :: "string \<Rightarrow> goerr + Tenant list \<Rightarrow> goerr + Config" where
  "Parse raw decoded =
     (if TrimSpace raw = [] then Inr empty_config
      else (case decoded of Inl e \<Rightarrow> Inl (Errorf ''tenant config'' [e]) | Inr ts \<Rightarrow> parse_tenants ts empty_config))"

definition Config_Tenants :: "Config option \<Rightarrow> Tenant list" where
  "Config_Tenants c = (case c of None \<Rightarrow> [] | Some cfg \<Rightarrow> cf_tenants cfg)"

definition Lookup :: "Config option \<Rightarrow> string \<Rightarrow> Tenant option" where
  "Lookup c name = (case c of None \<Rightarrow> None | Some cfg \<Rightarrow> cf_byName cfg name)"

definition ForServiceAccount :: "Config option \<Rightarrow> string \<Rightarrow> string \<Rightarrow> Tenant option" where
  "ForServiceAccount c namespace name =
     (case c of None \<Rightarrow> None | Some cfg \<Rightarrow> cf_byAccount cfg (namespace @ ''/'' @ name))"

section \<open>Callers\<close>

record Caller =
  ca_Operator :: bool
  ca_Tenant :: "Tenant option"

definition OperatorCaller :: Caller where "OperatorCaller = \<lparr>ca_Operator = True, ca_Tenant = None\<rparr>"

definition Sees :: "Caller \<Rightarrow> string \<Rightarrow> bool" where
  "Sees c tenant = (ca_Operator c \<or> (case ca_Tenant c of None \<Rightarrow> False | Some t \<Rightarrow> tn_Name t = tenant))"

text \<open>The status of a TokenReview.\<close>

record token_review =
  tr_Authenticated :: bool
  tr_Audiences :: "string list"
  tr_Username :: string
  tr_PodName :: "string list"
  tr_PodUID :: "string list"

record 'w TokenReviewResolver =
  rv_review :: "string \<Rightarrow> string \<Rightarrow> ('w, token_review) act" \<comment> \<open>token and audience\<close>
  rv_audience :: string
  rv_config :: "Config option"

definition DefaultAudience :: string where "DefaultAudience = ''session-platform''"
definition serviceAccountPrefix :: string where "serviceAccountPrefix = ''system:serviceaccount:''"

definition NewTokenReviewResolver ::
    "(string \<Rightarrow> string \<Rightarrow> ('w, token_review) act) \<Rightarrow> string \<Rightarrow> Config option \<Rightarrow> 'w TokenReviewResolver" where
  "NewTokenReviewResolver client audience cfg =
     \<lparr>rv_review = client, rv_audience = (if TrimSpace audience = [] then DefaultAudience else audience), rv_config = cfg\<rparr>"

definition CutPrefix :: "string \<Rightarrow> string \<Rightarrow> string option" where
  "CutPrefix s p = (if is_prefix p s then Some (drop (length p) s) else None)"

definition review :: "'w TokenReviewResolver \<Rightarrow> string \<Rightarrow> ('w, string \<times> string) act" where
  "review v token =
     tryE (rv_review v token (rv_audience v)) (\<lambda>r.
     case r of
       Inl e \<Rightarrow> throw (Errorf ''token review'' [e])
     | Inr st \<Rightarrow>
         if \<not> tr_Authenticated st \<or> rv_audience v \<notin> set (tr_Audiences st) then throw (Sentinel ErrUnauthenticated)
         else
           (case CutPrefix (tr_Username st) serviceAccountPrefix of
              None \<Rightarrow> throw (Sentinel ErrUnauthenticated)
            | Some rest \<Rightarrow>
                (case cut_at (CHR '':'') rest of
                   None \<Rightarrow> throw (Sentinel ErrUnauthenticated)
                 | Some (namespace, name) \<Rightarrow>
                     if namespace = [] \<or> name = [] \<or> CHR '':'' \<in> set name then throw (Sentinel ErrUnauthenticated)
                     else ret (namespace, name))))"

text \<open>\<open>Resolve\<close>: \<open>header\<close> are the values of the Authorization header, None without one.\<close>

definition Resolve :: "'w TokenReviewResolver \<Rightarrow> string list option \<Rightarrow> ('w, Caller) act" where
  "Resolve v header =
     (case header of
        None \<Rightarrow> ret OperatorCaller
      | Some vals \<Rightarrow>
          (case CutPrefix (concat vals) ''Bearer '' of
             None \<Rightarrow> throw (Sentinel ErrUnauthenticated)
           | Some token \<Rightarrow>
               if TrimSpace token = [] then throw (Sentinel ErrUnauthenticated)
               else
                 bindE (review v token) (\<lambda>(namespace, name).
                 case ForServiceAccount (rv_config v) namespace name of
                   None \<Rightarrow> throw (Errorf (namespace @ ''/'' @ name) [Sentinel ErrForbidden, Sentinel ErrNoTenant])
                 | Some tenant \<Rightarrow> ret \<lparr>ca_Operator = False, ca_Tenant = Some tenant\<rparr>)))"

section \<open>Helper pods\<close>

definition errHelperUnauthenticated :: goerr where "errHelperUnauthenticated = New ''unauthenticated''"

record helper_pod =
  hp_UID :: string
  hp_Labels :: "string \<rightharpoonup> string"

record 'w Verifier =
  vf_review :: "string \<Rightarrow> string \<Rightarrow> ('w, token_review) act"
  vf_pod :: "string \<Rightarrow> ('w, helper_pod) act"
  vf_namespace :: string
  vf_serviceAccount :: string
  vf_audience :: string
  vf_sessionLabel :: string
  vf_roleLabel :: string
  vf_helperRole :: string

definition first_of :: "string list \<Rightarrow> string" where
  "first_of vs = (case vs of [] \<Rightarrow> [] | v # _ \<Rightarrow> v)"

definition label :: "helper_pod \<Rightarrow> string \<Rightarrow> string" where
  "label p k = (case hp_Labels p k of None \<Rightarrow> [] | Some v \<Rightarrow> v)"

definition sessionOfPod :: "'w Verifier \<Rightarrow> string \<Rightarrow> string \<Rightarrow> ('w, string) act" where
  "sessionOfPod v name uid =
     tryE (vf_pod v name) (\<lambda>r.
     case r of
       Inl _ \<Rightarrow> throw errHelperUnauthenticated
     | Inr pod \<Rightarrow>
         if hp_UID pod \<noteq> uid \<or> label pod (vf_roleLabel v) \<noteq> vf_helperRole v then throw errHelperUnauthenticated
         else if label pod (vf_sessionLabel v) = [] then throw errHelperUnauthenticated
         else ret (label pod (vf_sessionLabel v)))"

definition SessionID :: "'w Verifier \<Rightarrow> string \<Rightarrow> ('w, string) act" where
  "SessionID v authorization =
     (case CutPrefix authorization ''Bearer '' of
        None \<Rightarrow> throw errHelperUnauthenticated
      | Some token \<Rightarrow>
          if TrimSpace token = [] then throw errHelperUnauthenticated
          else
            tryE (vf_review v token (vf_audience v)) (\<lambda>r.
            case r of
              Inl e \<Rightarrow> throw (Errorf ''token review'' [e])
            | Inr st \<Rightarrow>
                if \<not> tr_Authenticated st \<or> vf_audience v \<notin> set (tr_Audiences st) then throw errHelperUnauthenticated
                else if tr_Username st \<noteq> serviceAccountPrefix @ vf_namespace v @ '':'' @ vf_serviceAccount v
                then throw errHelperUnauthenticated
                else
                  let podName = first_of (tr_PodName st); podUID = first_of (tr_PodUID st) in
                  if podName = [] \<or> podUID = [] then throw errHelperUnauthenticated
                  else sessionOfPod v podName podUID))"

section \<open>What a parsed configuration guarantees\<close>

text \<open>Names and accounts belong to one tenant each, the indexes agree with the list, and a
  wildcard stands alone.\<close>

definition config_ok :: "Config \<Rightarrow> bool" where
  "config_ok cfg =
     (distinct (map tn_Name (cf_tenants cfg)) \<and>
      (\<forall>t \<in> set (cf_tenants cfg). tenantNamePattern (tn_Name t) \<and> tn_ServiceAccounts t \<noteq> [] \<and>
         distinct (tn_ServiceAccounts t) \<and> list_all accountPattern (tn_ServiceAccounts t) \<and>
         (tn_WorkloadTypes t = [AnyWorkloadType] \<or> distinct (tn_WorkloadTypes t) \<and> list_all WorkloadType_Valid (tn_WorkloadTypes t))) \<and>
      (\<forall>n t. cf_byName cfg n = Some t \<longleftrightarrow> t \<in> set (cf_tenants cfg) \<and> tn_Name t = n) \<and>
      (\<forall>a t. cf_byAccount cfg a = Some t \<longleftrightarrow> t \<in> set (cf_tenants cfg) \<and> a \<in> set (tn_ServiceAccounts t)))"

lemma claim_accounts_spec:
  "claim_accounts t as m = Inr m' \<Longrightarrow>
   distinct as \<and> list_all accountPattern as \<and> (\<forall>a \<in> set as. m a = None) \<and>
   (\<forall>a. m' a = (if a \<in> set as then Some t else m a))"
proof (induction as arbitrary: m)
  case (Cons a as)
  then have a: "accountPattern a" "m a = None" "claim_accounts t as (m(a \<mapsto> t)) = Inr m'" by (auto split: if_splits)
  note ih = Cons.IH [OF a(3)]
  then have "a \<notin> set as" by force
  moreover from this ih have "\<forall>b \<in> set as. m b = None" by (metis fun_upd_other)
  ultimately show ?case using ih a(1,2) by auto
qed simp

lemma check_types_spec:
  "check_types seen ws = None \<Longrightarrow> AnyWorkloadType \<notin> set ws \<Longrightarrow>
   distinct ws \<and> set seen \<inter> set ws = {} \<and> list_all WorkloadType_Valid ws"
  by (induction seen ws rule: check_types.induct) (auto split: if_splits)

lemma parse_step_ok:
  assumes ok: "config_ok cfg" and name: "tenantNamePattern (tn_Name t)" "cf_byName cfg (tn_Name t) = None"
    and acc: "tn_ServiceAccounts t \<noteq> []" "claim_accounts t (tn_ServiceAccounts t) (cf_byAccount cfg) = Inr accounts"
    and wild: "AnyWorkloadType \<in> set (tn_WorkloadTypes t) \<Longrightarrow> length (tn_WorkloadTypes t) = 1"
    and types: "check_types [] (tn_WorkloadTypes t) = None"
  shows "config_ok (cfg\<lparr>cf_byAccount := accounts, cf_byName := (cf_byName cfg)(tn_Name t \<mapsto> t), cf_tenants := cf_tenants cfg @ [t]\<rparr>)"
proof -
  note c = claim_accounts_spec [OF acc(2)]
  have fresh: "u \<in> set (cf_tenants cfg) \<Longrightarrow> tn_Name u \<noteq> tn_Name t" for u
    using ok name(2) unfolding config_ok_def by (metis option.distinct(1))
  have w: "tn_WorkloadTypes t = [AnyWorkloadType] \<or> distinct (tn_WorkloadTypes t) \<and> list_all WorkloadType_Valid (tn_WorkloadTypes t)"
  proof (cases "AnyWorkloadType \<in> set (tn_WorkloadTypes t)")
    case True
    then have "tn_WorkloadTypes t = [AnyWorkloadType]" using wild by (cases "tn_WorkloadTypes t") auto
    then show ?thesis by simp
  next
    case False
    then show ?thesis using check_types_spec [OF types] by simp
  qed
  have accounts: "accounts a = Some u \<longleftrightarrow> (u \<in> set (cf_tenants cfg) \<or> u = t) \<and> a \<in> set (tn_ServiceAccounts u)" for a u
  proof (cases "a \<in> set (tn_ServiceAccounts t)")
    case True
    then have "cf_byAccount cfg a = None" using c by blast
    then have "v \<in> set (cf_tenants cfg) \<Longrightarrow> a \<notin> set (tn_ServiceAccounts v)" for v
      using ok unfolding config_ok_def by (metis option.distinct(1))
    then show ?thesis using True c by auto
  next
    case False
    then show ?thesis using c ok by (auto simp: config_ok_def)
  qed
  have names: "((cf_byName cfg)(tn_Name t \<mapsto> t)) n = Some u \<longleftrightarrow> (u \<in> set (cf_tenants cfg) \<or> u = t) \<and> tn_Name u = n" for n u
    using ok fresh by (auto simp: config_ok_def)
  have "tn_Name t \<notin> tn_Name ` set (cf_tenants cfg)" using fresh by force
  then have d: "distinct (map tn_Name (cf_tenants cfg @ [t]))" using ok by (simp add: config_ok_def)
  have each: "tenantNamePattern (tn_Name u) \<and> tn_ServiceAccounts u \<noteq> [] \<and>
      distinct (tn_ServiceAccounts u) \<and> list_all accountPattern (tn_ServiceAccounts u) \<and>
      (tn_WorkloadTypes u = [AnyWorkloadType] \<or> distinct (tn_WorkloadTypes u) \<and> list_all WorkloadType_Valid (tn_WorkloadTypes u))"
    if "u \<in> set (cf_tenants cfg) \<or> u = t" for u
    using that ok name(1) acc(1) c w unfolding config_ok_def by blast
  show ?thesis
    unfolding config_ok_def using d each names accounts by (simp add: ball_Un del: fun_upd_apply) blast
qed

lemma parse_tenants_ok: "parse_tenants ts cfg = Inr cfg' \<Longrightarrow> config_ok cfg \<Longrightarrow> config_ok cfg'"
proof (induction ts arbitrary: cfg)
  case (Cons t ts)
  from Cons.prems(1) obtain accounts where s: "tenantNamePattern (tn_Name t)" "cf_byName cfg (tn_Name t) = None"
    "tn_ServiceAccounts t \<noteq> []" "claim_accounts t (tn_ServiceAccounts t) (cf_byAccount cfg) = Inr accounts"
    "AnyWorkloadType \<in> set (tn_WorkloadTypes t) \<longrightarrow> length (tn_WorkloadTypes t) = 1" "check_types [] (tn_WorkloadTypes t) = None"
    "parse_tenants ts (cfg\<lparr>cf_byAccount := accounts, cf_byName := (cf_byName cfg)(tn_Name t \<mapsto> t), cf_tenants := cf_tenants cfg @ [t]\<rparr>) = Inr cfg'"
    by (auto split: if_splits sum.splits option.splits)
  show ?case by (rule Cons.IH [OF s(7)]) (rule parse_step_ok [OF Cons.prems(2) s(1-4) _ s(6)], use s(5) in simp)
qed simp

lemma Parse_ok: "Parse raw decoded = Inr cfg \<Longrightarrow> config_ok cfg"
proof -
  have "config_ok empty_config" by (simp add: config_ok_def empty_config_def)
  then show "Parse raw decoded = Inr cfg \<Longrightarrow> config_ok cfg"
    by (auto simp: Parse_def split: if_splits sum.splits intro: parse_tenants_ok)
qed

text \<open>The token that proves a ServiceAccount of a tenant.\<close>

definition proves :: "token_review \<Rightarrow> string \<Rightarrow> string \<Rightarrow> string \<Rightarrow> bool" where
  "proves st audience namespace name =
     (tr_Authenticated st \<and> audience \<in> set (tr_Audiences st) \<and>
      tr_Username st = serviceAccountPrefix @ namespace @ '':'' @ name \<and> CHR '':'' \<notin> set namespace \<and> CHR '':'' \<notin> set name)"

lemma cut_at_Some: "cut_at x s = Some (a, b) \<Longrightarrow> s = a @ x # b \<and> x \<notin> set a"
  by (induction s arbitrary: a) (auto split: if_splits)

lemma CutPrefix_Some: "CutPrefix s p = Some r \<longleftrightarrow> s = p @ r"
  by (auto simp: CutPrefix_def is_prefix_iff)

lemma review_proves:
  assumes "review v token w = (Inr (namespace, name), w')"
  obtains st where "rv_review v token (rv_audience v) w = (Inr st, w')" "proves st (rv_audience v) namespace name"
  using assms
  by (auto simp: review_def tryE_def throw_def ret_def CutPrefix_Some proves_def dest!: cut_at_Some
      split: prod.splits sum.splits if_splits option.splits)

text \<open>Who a request speaks for. A request is the operator's only when it has no
  Authorization header; a tenant's caller had a bearer token the API server authenticated for the
  platform's audience, of a ServiceAccount the configuration claims for exactly that
  tenant; and no other outcome names a caller.\<close>

theorem resolved_callers:
  assumes "Parse raw decoded = Inr cfg" "rv_config v = Some cfg" "Resolve v header w = (Inr c, w')"
  shows "(c = OperatorCaller \<and> header = None \<and> w' = w) \<or>
    (\<exists>vals token st namespace name t.
       header = Some vals \<and> concat vals = ''Bearer '' @ token \<and> TrimSpace token \<noteq> [] \<and>
       rv_review v token (rv_audience v) w = (Inr st, w') \<and> proves st (rv_audience v) namespace name \<and>
       c = \<lparr>ca_Operator = False, ca_Tenant = Some t\<rparr> \<and> t \<in> set (cf_tenants cfg) \<and>
       namespace @ ''/'' @ name \<in> set (tn_ServiceAccounts t) \<and>
       (\<forall>u \<in> set (cf_tenants cfg). namespace @ ''/'' @ name \<in> set (tn_ServiceAccounts u) \<longrightarrow> u = t))"
proof (cases header)
  case None
  then show ?thesis using assms(3) by (simp add: Resolve_def ret_def)
next
  case (Some vals)
  with assms(3) obtain token namespace name t where r: "concat vals = ''Bearer '' @ token" "TrimSpace token \<noteq> []"
    "review v token w = (Inr (namespace, name), w')" "ForServiceAccount (Some cfg) namespace name = Some t"
    "c = \<lparr>ca_Operator = False, ca_Tenant = Some t\<rparr>"
    by (auto simp: Resolve_def CutPrefix_Some throw_def ret_def bindE_def assms(2)
        split: option.splits if_splits prod.splits sum.splits)
  from r(3) obtain st where "rv_review v token (rv_audience v) w = (Inr st, w')" "proves st (rv_audience v) namespace name"
    by (rule review_proves)
  moreover have "cf_byAccount cfg (namespace @ ''/'' @ name) = Some t" using r(4) by (simp add: ForServiceAccount_def)
  moreover have byAcc: "\<And>a u. cf_byAccount cfg a = Some u \<longleftrightarrow> u \<in> set (cf_tenants cfg) \<and> a \<in> set (tn_ServiceAccounts u)"
    using Parse_ok [OF assms(1)] by (simp add: config_ok_def)
  ultimately show ?thesis using Some r by (intro disjI2) (metis option.inject)
qed

definition sample_tenant :: Tenant where
  "sample_tenant = \<lparr>tn_Name = ''acme'', tn_ServiceAccounts = [''acme/agent''], tn_WorkloadTypes = [''shell'']\<rparr>"

theorem resolved_callers_witness:
  "\<exists>cfg. Parse ''x'' (Inr [sample_tenant]) = Inr cfg \<and>
     Resolve (NewTokenReviewResolver (\<lambda>_ aud w. (Inr \<lparr>tr_Authenticated = True, tr_Audiences = [aud],
         tr_Username = ''system:serviceaccount:acme:agent'', tr_PodName = [], tr_PodUID = []\<rparr>, w)) '''' (Some cfg))
       (Some [''Bearer tok'']) () = (Inr \<lparr>ca_Operator = False, ca_Tenant = Some sample_tenant\<rparr>, ())"
proof -
  obtain cfg where p: "Parse ''x'' (Inr [sample_tenant]) = Inr cfg" "cf_byAccount cfg = [''acme/agent'' \<mapsto> sample_tenant]"
  proof -
    have "TrimSpace ''x'' = ''x''" "tenantNamePattern ''acme''" "accountPattern ''acme/agent''" "WorkloadType_Valid ''shell''"
      by code_simp+
    then show ?thesis
      using that by (simp add: Parse_def sample_tenant_def empty_config_def AnyWorkloadType_def)
  qed
  define v where "v = NewTokenReviewResolver (\<lambda>_ aud (w :: unit). (Inr \<lparr>tr_Authenticated = True, tr_Audiences = [aud],
         tr_Username = ''system:serviceaccount:acme:agent'', tr_PodName = [], tr_PodUID = []\<rparr>, w)) '''' (Some cfg)"
  have t: "TrimSpace ''tok'' = ''tok''" by code_simp
  have r: "Resolve v (Some [''Bearer tok'']) () = (Inr \<lparr>ca_Operator = False, ca_Tenant = Some sample_tenant\<rparr>, ())"
    by (simp add: v_def NewTokenReviewResolver_def Resolve_def CutPrefix_def t bindE_def review_def tryE_def ret_def
        serviceAccountPrefix_def ForServiceAccount_def p(2))
  have "rv_config v = Some cfg" by (simp add: v_def NewTokenReviewResolver_def)
  from resolved_callers [OF p(1) this r] p(1) r show ?thesis unfolding v_def by blast
qed

end
