(* ===== verification/Api.thy ===== *)
theory Api
  imports Service Tenancy Strconv
begin

text \<open>
  \<open>control-plane/internal/api/api.go\<close>: the REST surface over \<open>session.Manager\<close>. A handler maps a
  request and the world to a response and the world. A request body is what reading and
  tokenising the wire gives; JSON values are trees, and decoding follows \<open>encoding/json\<close> (field
  names match case-insensitively, later fields win). Headers other than the status are not
  modelled; a streamed body is the stream the manager opened.
\<close>

section \<open>The manager port\<close>

record 'w Manager =
  mg_Create :: "CreateRequest \<Rightarrow> ('w, Session) act"
  mg_Get :: "string \<Rightarrow> ('w, Session) act"
  mg_List :: "('w, Session list) act"
  mg_Read :: "string \<Rightarrow> int \<Rightarrow> ('w, ReadResult) act"
  mg_Stream :: "string \<Rightarrow> int \<Rightarrow> ('w, string) act"
  mg_Write :: "string \<Rightarrow> string \<Rightarrow> ('w, WriteResult) act"
  mg_Switch :: "string \<Rightarrow> ('w, Session) act"
  mg_Snapshot :: "string \<Rightarrow> ('w, Session) act"
  mg_Terminate :: "string \<Rightarrow> ('w, unit) act"
  mg_RefreshPlugins :: "string \<Rightarrow> ('w, PluginRefreshResult) act"

definition service_manager :: "'w Service \<Rightarrow> 'w Manager" where
  "service_manager s =
     \<lparr>mg_Create = Create s, mg_Get = svc_Get s, mg_List = svc_List s, mg_Read = svc_Read s, mg_Stream = svc_Stream s,
      mg_Write = svc_Write s, mg_Switch = Switch s, mg_Snapshot = Snapshot s, mg_Terminate = Terminate s,
      mg_RefreshPlugins = RefreshPlugins s\<rparr>"

section \<open>Requests\<close>

datatype jvalue =
    VNull
  | VBool bool
  | VInt int
  | VFloat \<comment> \<open>a number that is not an integer literal\<close>
  | VStr string
  | VArr "jvalue list"
  | VObj "(string \<times> jvalue) list"

text \<open>What the body holds after at most \<open>maxRequestBodyBytes + 1\<close> bytes were read.\<close>

datatype wire_body =
    WireFailed
  | WireTooLarge
  | WireEmpty
  | WireMalformed
  | Wire jvalue bool \<comment> \<open>the first value and whether anything follows it\<close>

record request =
  rq_Authorization :: "string list option"
  rq_id :: string
  rq_body :: wire_body
  rq_tenant :: "string list option" \<comment> \<open>the values of the query parameter\<close>
  rq_offset :: string
  rq_LastEventID :: string

fun containsJSONNull :: "jvalue \<Rightarrow> bool" where
  "containsJSONNull VNull = True"
| "containsJSONNull (VArr vs) = list_ex containsJSONNull vs"
| "containsJSONNull (VObj kvs) = list_ex (\<lambda>(_, v). containsJSONNull v) kvs"
| "containsJSONNull _ = False"

text \<open>Case folding of field names: ASCII, and the two other runes that fold to ASCII letters.\<close>

fun foldName :: "string \<Rightarrow> string" where
  "foldName [] = []"
| "foldName (c # cs) =
     (if is_prefix [CHR 0xC5, CHR 0xBF] (c # cs) then CHR ''S'' # foldName (drop 1 cs)
      else if is_prefix [CHR 0xE2, CHR 0x84, CHR 0xAA] (c # cs) then CHR ''K'' # foldName (drop 2 cs)
      else (if CHR ''a'' \<le> c \<and> c \<le> CHR ''z'' then char_of (of_char c - 32 :: nat) else c) # foldName cs)"

definition field_of :: "string list \<Rightarrow> string \<Rightarrow> string option" where
  "field_of names key =
     (if key \<in> set names then Some key else find (\<lambda>n. foldName n = foldName key) names)"

text \<open>Strict decoding of an object: every key is a field and every value of its Go type (\<open>typed\<close>);
  the last value of a field counts.\<close>

fun decode_fields ::
    "string list \<Rightarrow> (string \<Rightarrow> jvalue \<Rightarrow> bool) \<Rightarrow> (string \<times> jvalue) list \<Rightarrow> (string \<rightharpoonup> jvalue) \<Rightarrow> (string \<rightharpoonup> jvalue) option" where
  "decode_fields names typed [] m = Some m"
| "decode_fields names typed ((k, v) # kvs) m =
     (case field_of names k of
        None \<Rightarrow> None
      | Some n \<Rightarrow> if typed n v then decode_fields names typed kvs (m(n \<mapsto> v)) else None)"

text \<open>\<open>decodeRequestBody\<close>: the fields of the body, none for an empty optional body.\<close>

definition decodeRequestBody ::
    "string list \<Rightarrow> (string \<Rightarrow> jvalue \<Rightarrow> bool) \<Rightarrow> bool \<Rightarrow> wire_body \<Rightarrow> goerr + (string \<rightharpoonup> jvalue)" where
  "decodeRequestBody names typed required body =
     (case body of
        WireFailed \<Rightarrow> Inl (Sentinel ErrInvalidInput)
      | WireTooLarge \<Rightarrow> Inl (Sentinel ErrRequestBodyTooLarge)
      | WireEmpty \<Rightarrow> if required then Inl (Sentinel ErrInvalidInput) else Inr (\<lambda>_. None)
      | WireMalformed \<Rightarrow> Inl (Sentinel ErrInvalidInput)
      | Wire v trailing \<Rightarrow>
          if containsJSONNull v \<or> trailing then Inl (Sentinel ErrInvalidInput)
          else
            (case v of
               VObj kvs \<Rightarrow>
                 (case decode_fields names typed kvs (\<lambda>_. None) of
                    None \<Rightarrow> Inl (Sentinel ErrInvalidInput)
                  | Some m \<Rightarrow> Inr m)
             | _ \<Rightarrow> Inl (Sentinel ErrInvalidInput)))"

definition is_str :: "jvalue \<Rightarrow> bool" where
  "is_str v = (case v of VStr _ \<Rightarrow> True | _ \<Rightarrow> False)"

definition is_int64 :: "jvalue \<Rightarrow> bool" where
  "is_int64 v = (case v of VInt n \<Rightarrow> - (2 ^ 63) \<le> n \<and> n < 2 ^ 63 | _ \<Rightarrow> False)"

definition str_of :: "jvalue option \<Rightarrow> string" where
  "str_of v = (case v of Some (VStr s) \<Rightarrow> s | _ \<Rightarrow> [])"

definition int_of_value :: "jvalue option \<Rightarrow> int" where
  "int_of_value v = (case v of Some (VInt n) \<Rightarrow> n | _ \<Rightarrow> 0)"

section \<open>Responses\<close>

record tenantResp =
  tp_Name :: string
  tp_WorkloadTypes :: "string list"

record workloadTypeConfResp =
  wc_Info :: WorkloadTypeInfo
  wc_DefaultModel :: "string option"
  wc_Models :: "string list"

record runtimeConfigResp =
  rc_DefaultModel :: string
  rc_Models :: "string list"
  rc_WorkloadTypes :: "workloadTypeConfResp list"
  rc_Tenant :: "tenantResp option"
  rc_Tenants :: "tenantResp list"

datatype body =
    ErrBody goerr
  | SessionBody Session
  | SessionsBody "Session list"
  | ReadBody ReadResult
  | WriteBody WriteResult
  | RefreshBody PluginRefreshResult
  | StreamBody string
  | ConfigBody runtimeConfigResp
  | HealthBody
  | NoBody

record response =
  rs_status :: nat
  rs_body :: body

definition reply :: "nat \<Rightarrow> body \<Rightarrow> response" where
  "reply n b = \<lparr>rs_status = n, rs_body = b\<rparr>"

definition err_status :: "goerr \<Rightarrow> nat" where
  "err_status e =
     (if errors_is e (Sentinel ErrNotFound) then 404
      else if errors_is e (Sentinel ErrUnauthenticated) then 401
      else if errors_is e (Sentinel ErrForbidden) then 403
      else if errors_is e (Sentinel ErrInvalidInput) then 400
      else if errors_is e (Sentinel ErrInvalidState) then 422
      else if errors_is e (Sentinel ErrConflict) then 409
      else if errors_is e (Sentinel ErrWorkloadQueueFull) then 429
      else if errors_is e (Sentinel ErrWorkloadPromptTooLarge) then 413
      else if errors_is e (Sentinel ErrRequestBodyTooLarge) then 413
      else if errors_is e (Sentinel ErrWorkloadOutputFull) then 507
      else if errors_is e (Sentinel ErrCheckpointDisabled) then 503
      else if errors_is e (Sentinel ErrWorkloadBusy) then 409
      else if errors_is e (Sentinel ErrPluginRefreshFailed) then 502
      else if errors_is e (Sentinel ErrAuthPoolExhausted) then 503
      else 500)"

text \<open>\<open>writeErr\<close>: the body is the error's text, and only the class for an exhausted pool (which the
  switch reaches when no class before it matches).\<close>

definition pool_class_only :: "goerr \<Rightarrow> bool" where
  "pool_class_only e =
     (errors_is e (Sentinel ErrAuthPoolExhausted) \<and>
      \<not> list_ex (\<lambda>s. errors_is e (Sentinel s))
        [ErrNotFound, ErrUnauthenticated, ErrForbidden, ErrInvalidInput, ErrInvalidState, ErrConflict, ErrWorkloadQueueFull,
         ErrWorkloadPromptTooLarge, ErrRequestBodyTooLarge, ErrWorkloadOutputFull, ErrCheckpointDisabled, ErrWorkloadBusy,
         ErrPluginRefreshFailed])"

definition writeErr :: "goerr \<Rightarrow> response" where
  "writeErr e = reply (err_status e) (ErrBody (if pool_class_only e then Sentinel ErrAuthPoolExhausted else e))"

section \<open>Handlers\<close>

record modelConfig =
  mc_defaultModel :: string
  mc_models :: "string list"

record 'w API =
  api_mgr :: "'w Manager"
  api_modelConfigs :: "string \<rightharpoonup> modelConfig"
  api_offered :: "string list option" \<comment> \<open>None offers every known type\<close>
  api_callers :: "(string list option \<Rightarrow> ('w, Caller) act) option"
  api_tenants :: "Config option"

type_synonym 'w handler = "'w \<Rightarrow> response \<times> 'w"

definition respond :: "('w, 'a) act \<Rightarrow> ('a \<Rightarrow> response) \<Rightarrow> 'w handler" where
  "respond m ok w = (case m w of (Inl e, w') \<Rightarrow> (writeErr e, w') | (Inr x, w') \<Rightarrow> (ok x, w'))"

definition api_caller :: "'w API \<Rightarrow> request \<Rightarrow> ('w, Caller) act" where
  "api_caller a r = (case api_callers a of None \<Rightarrow> ret OperatorCaller | Some resolve \<Rightarrow> resolve (rq_Authorization r))"

text \<open>\<open>authorizeSession\<close> in front of a session route: what it answers itself, or the route.\<close>

definition admission :: "'w API \<Rightarrow> request \<Rightarrow> ('w, unit) act" where
  "admission a r =
     bindE (api_caller a r) (\<lambda>caller.
     if ca_Operator caller then ret ()
     else bindE (mg_Get (api_mgr a) (rq_id r)) (\<lambda>sess.
       if Sees caller (Tenant sess) then ret () else throw (Sentinel ErrNotFound)))"

definition authorizeSession :: "'w API \<Rightarrow> request \<Rightarrow> 'w handler \<Rightarrow> 'w handler" where
  "authorizeSession a r next w =
     (case admission a r w of (Inl e, w') \<Rightarrow> (writeErr e, w') | (Inr _, w') \<Rightarrow> next w')"

definition no_fields :: "request \<Rightarrow> goerr + (string \<rightharpoonup> jvalue)" where
  "no_fields r = decodeRequestBody [] (\<lambda>_ _. True) False (rq_body r)"

definition health :: "'w handler" where
  "health w = (reply 200 HealthBody, w)"

definition getSession :: "'w API \<Rightarrow> request \<Rightarrow> 'w handler" where
  "getSession a r = authorizeSession a r (respond (mg_Get (api_mgr a) (rq_id r)) (\<lambda>s. reply 200 (SessionBody s)))"

definition deleteSession :: "'w API \<Rightarrow> request \<Rightarrow> 'w handler" where
  "deleteSession a r = authorizeSession a r (respond (mg_Terminate (api_mgr a) (rq_id r)) (\<lambda>_. reply 204 NoBody))"

definition outputStreamOffset :: "request \<Rightarrow> goerr + int" where
  "outputStreamOffset r =
     (let v = (if rq_LastEventID r \<noteq> [] then rq_LastEventID r else rq_offset r) in
      if v = [] then Inr 0
      else (case Atoi v of
              None \<Rightarrow> Inl (Sentinel ErrInvalidInput)
            | Some n \<Rightarrow> if n < 0 then Inl (Sentinel ErrInvalidInput) else Inr n))"

definition streamSession :: "'w API \<Rightarrow> request \<Rightarrow> 'w handler" where
  "streamSession a r = authorizeSession a r (\<lambda>w.
     case outputStreamOffset r of
       Inl _ \<Rightarrow> (writeErr (Sentinel ErrInvalidInput), w)
     | Inr offset \<Rightarrow> respond (mg_Stream (api_mgr a) (rq_id r) offset) (\<lambda>s. reply 200 (StreamBody s)) w)"

definition readSession :: "'w API \<Rightarrow> request \<Rightarrow> 'w handler" where
  "readSession a r = authorizeSession a r
     (respond (bindE (lift (decodeRequestBody [''offset''] (\<lambda>_. is_int64) False (rq_body r))) (\<lambda>m.
        if int_of_value (m ''offset'') < 0 then throw (Sentinel ErrInvalidInput)
        else mg_Read (api_mgr a) (rq_id r) (int_of_value (m ''offset''))))
      (\<lambda>res. reply 200 (ReadBody res)))"

definition writeSession :: "'w API \<Rightarrow> request \<Rightarrow> 'w handler" where
  "writeSession a r = authorizeSession a r
     (respond (bindE (lift (decodeRequestBody [''payload''] (\<lambda>_. is_str) False (rq_body r))) (\<lambda>m.
        mg_Write (api_mgr a) (rq_id r) (str_of (m ''payload''))))
      (\<lambda>res. reply 200 (WriteBody res)))"

definition switchSession :: "'w API \<Rightarrow> request \<Rightarrow> 'w handler" where
  "switchSession a r = authorizeSession a r
     (respond (bindE (lift (no_fields r)) (\<lambda>_. mg_Switch (api_mgr a) (rq_id r))) (\<lambda>s. reply 200 (SessionBody s)))"

definition snapshotSession :: "'w API \<Rightarrow> request \<Rightarrow> 'w handler" where
  "snapshotSession a r = authorizeSession a r
     (respond (bindE (lift (no_fields r)) (\<lambda>_. mg_Snapshot (api_mgr a) (rq_id r))) (\<lambda>s. reply 200 (SessionBody s)))"

definition api_refreshPlugins :: "'w API \<Rightarrow> request \<Rightarrow> 'w handler" where
  "api_refreshPlugins a r = authorizeSession a r
     (respond (bindE (lift (no_fields r)) (\<lambda>_. mg_RefreshPlugins (api_mgr a) (rq_id r))) (\<lambda>res. reply 200 (RefreshBody res)))"

definition listSessions :: "'w API \<Rightarrow> request \<Rightarrow> 'w handler" where
  "listSessions a r =
     respond (bindE (api_caller a r) (\<lambda>caller.
        if rq_tenant r \<noteq> None \<and> (\<not> ca_Operator caller \<or> length (the (rq_tenant r)) \<noteq> 1)
        then throw (Sentinel ErrInvalidInput)
        else bindE (mg_List (api_mgr a)) (\<lambda>sessions.
          ret (filter (\<lambda>s. Sees caller (Tenant s) \<and>
            (case rq_tenant r of None \<Rightarrow> True | Some fs \<Rightarrow> Tenant s = hd fs)) sessions))))
      (\<lambda>ss. reply 200 (SessionsBody ss))"

text \<open>\<open>createTenant\<close> and the decoding of \<open>createReq\<close>; \<open>raw\<close> is a field kept as raw JSON, None when
  omitted.\<close>

definition raw_string :: "jvalue option \<Rightarrow> goerr + string" where
  "raw_string raw =
     (case raw of
        None \<Rightarrow> Inr []
      | Some (VStr s) \<Rightarrow> if s = [] then Inl (Sentinel ErrInvalidInput) else Inr s
      | Some _ \<Rightarrow> Inl (Sentinel ErrInvalidInput))"

definition createTenant :: "'w API \<Rightarrow> Caller \<Rightarrow> jvalue option \<Rightarrow> string \<Rightarrow> goerr + string" where
  "createTenant a caller raw requested =
     (case raw_string raw of
        Inl e \<Rightarrow> Inl e
      | Inr named \<Rightarrow>
          if ca_Operator caller \<and> named \<noteq> [] \<and> Lookup (api_tenants a) named = None then Inl (Sentinel ErrInvalidInput)
          else
            (case (if ca_Operator caller \<and> named \<noteq> [] then Lookup (api_tenants a) named else ca_Tenant caller) of
               None \<Rightarrow> Inr []
             | Some owner \<Rightarrow>
                 if named \<noteq> [] \<and> named \<noteq> tn_Name owner then Inl (Sentinel ErrForbidden)
                 else
                   (case NormalizeWorkloadType requested of
                      Inl e \<Rightarrow> Inl e
                    | Inr workload \<Rightarrow> if Allows owner workload then Inr (tn_Name owner) else Inl (Sentinel ErrForbidden))))"

fun str_list :: "jvalue list \<Rightarrow> string list option" where
  "str_list [] = Some []"
| "str_list (v # vs) = (case v of VStr s \<Rightarrow> map_option (Cons s) (str_list vs) | _ \<Rightarrow> None)"

definition raw_workload :: "jvalue option \<Rightarrow> goerr + string" where
  "raw_workload raw =
     (case raw of
        None \<Rightarrow> Inr []
      | Some _ \<Rightarrow>
          (case raw_string raw of
             Inl e \<Rightarrow> Inl e
           | Inr w \<Rightarrow> (case NormalizeWorkloadType w of Inl _ \<Rightarrow> Inl (Sentinel ErrInvalidInput) | Inr n \<Rightarrow> Inr n)))"

definition raw_model :: "jvalue option \<Rightarrow> goerr + string" where
  "raw_model raw =
     (case raw_string raw of
        Inl e \<Rightarrow> Inl e
      | Inr s \<Rightarrow> if s \<noteq> TrimSpace s then Inl (Sentinel ErrInvalidInput) else Inr s)"

definition raw_plugins :: "jvalue option \<Rightarrow> goerr + string list option" where
  "raw_plugins raw =
     (case raw of
        None \<Rightarrow> Inr None
      | Some (VArr vs) \<Rightarrow>
          (case str_list vs of None \<Rightarrow> Inl (Sentinel ErrInvalidInput) | Some ss \<Rightarrow> Inr (Some ss))
      | Some _ \<Rightarrow> Inl (Sentinel ErrInvalidInput))"

definition create_fields :: "string list" where
  "create_fields = [''name'', ''workloadType'', ''model'', ''plugins'', ''reasoningEffort'', ''tenant'']"

definition create_request :: "'w API \<Rightarrow> Caller \<Rightarrow> request \<Rightarrow> goerr + CreateRequest" where
  "create_request a caller r =
     (case decodeRequestBody create_fields (\<lambda>n v. n = ''name'' \<longrightarrow> is_str v) True (rq_body r) of
        Inl e \<Rightarrow> Inl e
      | Inr m \<Rightarrow>
          (case raw_workload (m ''workloadType'') of
             Inl e \<Rightarrow> Inl e
           | Inr workload \<Rightarrow>
          (case raw_model (m ''model'') of
             Inl e \<Rightarrow> Inl e
           | Inr model \<Rightarrow>
          (case raw_plugins (m ''plugins'') of
             Inl e \<Rightarrow> Inl e
           | Inr plugins \<Rightarrow>
          (case raw_string (m ''reasoningEffort'') of
             Inl e \<Rightarrow> Inl e
           | Inr effort \<Rightarrow>
          (case createTenant a caller (m ''tenant'') workload of
             Inl e \<Rightarrow> Inl e
           | Inr tenant \<Rightarrow>
               Inr \<lparr>req_Name = str_of (m ''name''), req_WorkloadType = workload, req_Model = model, req_Plugins = plugins,
                    req_ReasoningEffort = effort, req_Tenant = tenant\<rparr>))))))"

definition createSession :: "'w API \<Rightarrow> request \<Rightarrow> 'w handler" where
  "createSession a r =
     respond (bindE (api_caller a r) (\<lambda>caller. bindE (lift (create_request a caller r)) (mg_Create (api_mgr a))))
       (\<lambda>s. reply 201 (SessionBody s))"

definition api_modelConfig :: "'w API \<Rightarrow> string \<Rightarrow> modelConfig" where
  "api_modelConfig a w =
     (case api_modelConfigs a w of
        None \<Rightarrow> \<lparr>mc_defaultModel = PlatformDefaultModel, mc_models = []\<rparr>
      | Some mc \<Rightarrow> if mc_defaultModel mc = [] then mc\<lparr>mc_defaultModel := PlatformDefaultModel\<rparr> else mc)"

definition is_offered :: "'w API \<Rightarrow> string \<Rightarrow> bool" where
  "is_offered a w = (case api_offered a of None \<Rightarrow> True | Some ws \<Rightarrow> w \<in> set ws)"

definition offeredOf :: "'w API \<Rightarrow> Tenant \<Rightarrow> string list" where
  "offeredOf a t = filter (\<lambda>w. is_offered a w \<and> Allows t w) (map info_Type workloadTypeCatalog)"

definition config_entry :: "'w API \<Rightarrow> WorkloadTypeInfo \<Rightarrow> workloadTypeConfResp" where
  "config_entry a info =
     (let mc = api_modelConfig a (info_Type info) in
      \<lparr>wc_Info = info, wc_DefaultModel = (if info_TakesModel info then Some (mc_defaultModel mc) else None),
       wc_Models = (if info_TakesModel info then mc_models mc else [])\<rparr>)"

definition runtimeConfig :: "'w API \<Rightarrow> request \<Rightarrow> 'w handler" where
  "runtimeConfig a r =
     respond (api_caller a r) (\<lambda>caller.
       let claude = api_modelConfig a WorkloadTypeClaudeCode;
           shown = filter (\<lambda>info. is_offered a (info_Type info) \<and>
             (case ca_Tenant caller of None \<Rightarrow> True | Some t \<Rightarrow> Allows t (info_Type info))) workloadTypeCatalog in
       reply 200 (ConfigBody
         \<lparr>rc_DefaultModel = mc_defaultModel claude, rc_Models = mc_models claude,
          rc_WorkloadTypes = map (config_entry a) shown,
          rc_Tenant = map_option (\<lambda>t. \<lparr>tp_Name = tn_Name t, tp_WorkloadTypes = offeredOf a t\<rparr>) (ca_Tenant caller),
          rc_Tenants = (case ca_Tenant caller of
              Some _ \<Rightarrow> []
            | None \<Rightarrow> map (\<lambda>t. \<lparr>tp_Name = tn_Name t, tp_WorkloadTypes = offeredOf a t\<rparr>) (Config_Tenants (api_tenants a)))\<rparr>))"

text \<open>The routes that name a session.\<close>

datatype session_route = RGet | RDelete | RStream | RRead | RWrite | RSwitch | RSnapshot | RRefresh

fun session_handler :: "'w API \<Rightarrow> session_route \<Rightarrow> request \<Rightarrow> 'w handler" where
  "session_handler a RGet r = getSession a r"
| "session_handler a RDelete r = deleteSession a r"
| "session_handler a RStream r = streamSession a r"
| "session_handler a RRead r = readSession a r"
| "session_handler a RWrite r = writeSession a r"
| "session_handler a RSwitch r = switchSession a r"
| "session_handler a RSnapshot r = snapshotSession a r"
| "session_handler a RRefresh r = api_refreshPlugins a r"

end
