(* ===== verification/Api_Laws.thy ===== *)
theory Api_Laws
  imports Api
begin

text \<open>
  Tenancy at the REST surface: what a tenant's caller can reach, list and create.
\<close>

lemmas act_simps = bindE_def tryE_def ret_def throw_def lift_def

text \<open>A tenant's caller, as the resolver of a deployment with tenancy gives it.\<close>

definition tenant_call :: "'w API \<Rightarrow> request \<Rightarrow> Tenant \<Rightarrow> 'w \<Rightarrow> 'w \<Rightarrow> bool" where
  "tenant_call a r t w w1 = (api_caller a r w = (Inr \<lparr>ca_Operator = False, ca_Tenant = Some t\<rparr>, w1))"

lemma admission_foreign:
  assumes "tenant_call a r t w w1" "mg_Get (api_mgr a) (rq_id r) w1 = (g, w2)"
    and "g = Inl (Sentinel ErrNotFound) \<or> (\<exists>s. g = Inr s \<and> Tenant s \<noteq> tn_Name t)"
  shows "admission a r w = (Inl (Sentinel ErrNotFound), w2)"
  using assms by (auto simp: admission_def tenant_call_def act_simps Sees_def)

lemma session_routes_guarded:
  "admission a r w = (Inl e, w2) \<Longrightarrow> session_handler a route r w = (writeErr e, w2)"
  by (cases route)
    (simp_all add: authorizeSession_def getSession_def deleteSession_def streamSession_def readSession_def writeSession_def
      switchSession_def snapshotSession_def api_refreshPlugins_def)

text \<open>The tenant a token's review speaks for: the token is authenticated for the platform's
  audience and belongs to a ServiceAccount the configuration gives to the tenant.\<close>

definition speaks_for :: "Config \<Rightarrow> token_review \<Rightarrow> string \<Rightarrow> Tenant \<Rightarrow> bool" where
  "speaks_for cfg st audience t =
     (\<exists>namespace name. proves st audience namespace name \<and> namespace \<noteq> [] \<and> name \<noteq> [] \<and>
        t \<in> set (cf_tenants cfg) \<and> namespace @ ''/'' @ name \<in> set (tn_ServiceAccounts t))"

lemma cut_at_first: "x \<notin> set a \<Longrightarrow> cut_at x (a @ x # b) = Some (a, b)"
  by (induction a) auto

lemma CutPrefix_append: "CutPrefix (p @ r) p = Some r"
  by (simp add: CutPrefix_Some)

lemma Resolve_speaks:
  assumes "Parse raw decoded = Inr cfg" "rv_config v = Some cfg" "concat vals = ''Bearer '' @ token" "TrimSpace token \<noteq> []"
    and "rv_review v token (rv_audience v) w = (Inr st, w1)" "speaks_for cfg st (rv_audience v) t"
  shows "Resolve v (Some vals) w = (Inr \<lparr>ca_Operator = False, ca_Tenant = Some t\<rparr>, w1)"
proof -
  from assms(6) obtain namespace name where p: "proves st (rv_audience v) namespace name" "namespace \<noteq> []" "name \<noteq> []"
    "t \<in> set (cf_tenants cfg)" "namespace @ ''/'' @ name \<in> set (tn_ServiceAccounts t)" by (auto simp: speaks_for_def)
  then have "cf_byAccount cfg (namespace @ ''/'' @ name) = Some t"
    using Parse_ok [OF assms(1)] by (simp add: config_ok_def)
  moreover have "review v token w = (Inr (namespace, name), w1)"
    using p assms(5) by (simp add: review_def tryE_def ret_def proves_def CutPrefix_append cut_at_first)
  ultimately show ?thesis
    using assms(2-4) CutPrefix_Some [of "concat vals" "''Bearer ''" token] by (simp add: Resolve_def act_simps ForServiceAccount_def)
qed

lemma Resolve_refuses:
  assumes "Parse raw decoded = Inr cfg" "rv_config v = Some cfg" "concat vals = ''Bearer '' @ token"
    and "rv_review v token (rv_audience v) w = (Inr st, w1)" "TrimSpace token \<noteq> []" "\<And>t. \<not> speaks_for cfg st (rv_audience v) t"
  shows "\<exists>e. Resolve v (Some vals) w = (Inl e, w1)"
proof -
  have cut: "CutPrefix (concat vals) ''Bearer '' = Some token" using assms(3) by (simp add: CutPrefix_Some)
  obtain r w2 where rv: "review v token w = (r, w2)" by fastforce
  then have w2: "w2 = w1" using assms(4) by (auto simp: review_def act_simps split: if_splits option.splits prod.splits)
  show ?thesis
  proof (cases r)
    case (Inl e)
    then show ?thesis using rv w2 cut assms(5) by (simp add: Resolve_def act_simps)
  next
    case (Inr acc)
    obtain namespace name where acc: "acc = (namespace, name)" by fastforce
    have "proves st (rv_audience v) namespace name"
      using review_proves [of v token w namespace name w2] rv Inr acc assms(4) by auto
    moreover have "namespace \<noteq> []" "name \<noteq> []"
      using rv Inr acc assms(4) by (auto simp: review_def act_simps split: if_splits option.splits prod.splits)
    ultimately have "cf_byAccount cfg (namespace @ ''/'' @ name) \<noteq> Some t" for t
      using assms(6) [of t] Parse_ok [OF assms(1)] by (auto simp: speaks_for_def config_ok_def)
    then have "cf_byAccount cfg (namespace @ ''/'' @ name) = None" by (meson not_Some_eq)
    then show ?thesis using rv Inr acc w2 cut assms(2,5) by (simp add: Resolve_def act_simps ForServiceAccount_def)
  qed
qed

text \<open>C11: tenant isolation. The API resolves its callers by the review of their bearer tokens
  against a parsed tenant configuration. Take a request with a bearer token and what the review of the token said. When the
  token speaks for a tenant, then on every route that names a session the caller gets for another
  tenant's session exactly the response it gets for a session that does not exist, a
  404 without any detail, and the only call the manager saw is the read that
  decided it: nothing was changed, restored, written or stopped. When it speaks for no tenant, the request is answered
  with an error and the manager is not called at all.\<close>

theorem tenant_isolation:
  assumes "Parse raw decoded = Inr cfg" "api_callers a = Some (Resolve v)" "rv_config v = Some cfg"
    and "rq_Authorization r = Some vals" "concat vals = ''Bearer '' @ token" "TrimSpace token \<noteq> []"
    and "rv_review v token (rv_audience v) w = (Inr st, w1)"
  shows "(\<forall>t g w2. speaks_for cfg st (rv_audience v) t \<longrightarrow> mg_Get (api_mgr a) (rq_id r) w1 = (g, w2) \<longrightarrow>
       g = Inl (Sentinel ErrNotFound) \<or> (\<exists>s. g = Inr s \<and> Tenant s \<noteq> tn_Name t) \<longrightarrow>
       session_handler a route r w = (reply 404 (ErrBody (Sentinel ErrNotFound)), w2)) \<and>
    ((\<forall>t. \<not> speaks_for cfg st (rv_audience v) t) \<longrightarrow> (\<exists>e. session_handler a route r w = (writeErr e, w1)))"
proof -
  have "session_handler a route r w = (reply 404 (ErrBody (Sentinel ErrNotFound)), w2)"
    if "speaks_for cfg st (rv_audience v) t" "mg_Get (api_mgr a) (rq_id r) w1 = (g, w2)"
      "g = Inl (Sentinel ErrNotFound) \<or> (\<exists>s. g = Inr s \<and> Tenant s \<noteq> tn_Name t)" for t g w2
  proof -
    have "tenant_call a r t w w1"
      using Resolve_speaks [OF assms(1,3,5,6,7) that(1)] assms(2,4) by (simp add: tenant_call_def api_caller_def)
    from session_routes_guarded [OF admission_foreign [OF this that(2,3)], of route] show ?thesis
      by (simp add: writeErr_def err_status_def pool_class_only_def)
  qed
  moreover have "\<exists>e. session_handler a route r w = (writeErr e, w1)" if none: "\<forall>t. \<not> speaks_for cfg st (rv_audience v) t"
  proof -
    obtain e where "api_caller a r w = (Inl e, w1)"
      using Resolve_refuses [OF assms(1,3,5,7,6) none [rule_format]] assms(2,4) by (auto simp: api_caller_def)
    then have "admission a r w = (Inl e, w1)" by (simp add: admission_def act_simps)
    from session_routes_guarded [OF this, of route] show ?thesis by blast
  qed
  ultimately show ?thesis by blast
qed

text \<open>A manager of one session of the tenant \<open>other\<close>.\<close>

definition sample_stored :: Session where
  "sample_stored = \<lparr>ID = ''s1'', WorkloadType = ''shell'', Model = [], Plugins = None, ReasoningEffort = [], Tenant = ''other'',
     Name = ''n'', State = ''active'', Pod = ''p'', AuxiliaryPods = [], CreatedAt = 0, LastAccess = 0, Checkpoint = None,
     SnapshotTransaction = None\<rparr>"

definition sample_manager :: "nat Manager" where
  "sample_manager = \<lparr>mg_Create = (\<lambda>_ w. (Inr sample_stored, Suc w)),
     mg_Get = (\<lambda>sid. if sid = ''s1'' then ret sample_stored else throw (Sentinel ErrNotFound)), mg_List = ret [sample_stored],
     mg_Read = (\<lambda>_ _. throw (Sentinel ErrConflict)), mg_Stream = (\<lambda>_ _. throw (Sentinel ErrConflict)),
     mg_Write = (\<lambda>_ _. throw (Sentinel ErrConflict)), mg_Switch = (\<lambda>_ w. (Inr sample_stored, Suc w)),
     mg_Snapshot = (\<lambda>_ w. (Inr sample_stored, Suc w)), mg_Terminate = (\<lambda>_ w. (Inr (), Suc w)),
     mg_RefreshPlugins = (\<lambda>_. throw (Sentinel ErrConflict))\<rparr>"

text \<open>The configuration of one tenant, and the review of a token of its ServiceAccount.\<close>

definition sample_config :: Config where
  "sample_config = \<lparr>cf_tenants = [sample_tenant], cf_byName = [''acme'' \<mapsto> sample_tenant], cf_byAccount = [''acme/agent'' \<mapsto> sample_tenant]\<rparr>"

definition sample_review :: token_review where
  "sample_review = \<lparr>tr_Authenticated = True, tr_Audiences = [DefaultAudience], tr_Username = ''system:serviceaccount:acme:agent'',
     tr_PodName = [], tr_PodUID = []\<rparr>"

definition sample_resolver :: "nat TokenReviewResolver" where
  "sample_resolver = NewTokenReviewResolver (\<lambda>_ _. ret sample_review) [] (Some sample_config)"

definition sample_api :: "nat API" where
  "sample_api = \<lparr>api_mgr = sample_manager, api_modelConfigs = (\<lambda>_. None), api_offered = None,
     api_callers = Some (Resolve sample_resolver), api_tenants = Some sample_config\<rparr>"

definition sample_request :: request where
  "sample_request = \<lparr>rq_Authorization = Some [''Bearer tok''], rq_id = ''s1'', rq_body = WireEmpty, rq_tenant = None, rq_offset = [], rq_LastEventID = []\<rparr>"

lemma sample_config_parsed: "Parse ''x'' (Inr [sample_tenant]) = Inr sample_config"
proof -
  have "TrimSpace ''x'' = ''x''" "tenantNamePattern ''acme''" "accountPattern ''acme/agent''" "WorkloadType_Valid ''shell''"
    by code_simp+
  then show ?thesis by (simp add: Parse_def sample_tenant_def empty_config_def AnyWorkloadType_def sample_config_def)
qed

lemma sample_speaks: "speaks_for sample_config sample_review (rv_audience sample_resolver) sample_tenant"
proof -
  have "TrimSpace [] = []" by code_simp
  then show ?thesis
    unfolding speaks_for_def
    by - (rule exI [of _ "''acme''"], rule exI [of _ "''agent''"],
      simp add: proves_def sample_config_def sample_review_def sample_resolver_def NewTokenReviewResolver_def
        sample_tenant_def serviceAccountPrefix_def)
qed

lemma sample_token:
  "api_callers sample_api = Some (Resolve sample_resolver)" "rv_config sample_resolver = Some sample_config"
  "concat [''Bearer tok''] = ''Bearer '' @ ''tok''" "TrimSpace ''tok'' \<noteq> []"
  "rv_review sample_resolver ''tok'' (rv_audience sample_resolver) w = (Inr sample_review, w)"
proof -
  show "TrimSpace ''tok'' \<noteq> []" by code_simp
qed (simp_all add: sample_api_def sample_resolver_def NewTokenReviewResolver_def ret_def)

lemma sample_call: "rq_Authorization r = Some [''Bearer tok''] \<Longrightarrow> tenant_call sample_api r sample_tenant w w"
  using Resolve_speaks [OF sample_config_parsed sample_token(2-5) sample_speaks]
  by (simp add: tenant_call_def api_caller_def sample_token)

theorem tenant_isolation_witness:
  "session_handler sample_api RDelete sample_request 0 = (reply 404 (ErrBody (Sentinel ErrNotFound)), 0) \<and>
   session_handler sample_api RDelete (sample_request\<lparr>rq_id := ''missing''\<rparr>) 0 = (reply 404 (ErrBody (Sentinel ErrNotFound)), 0)"
proof -
  have g: "mg_Get (api_mgr sample_api) (rq_id sample_request) 0 = (Inr sample_stored, 0)"
    "mg_Get (api_mgr sample_api) (rq_id (sample_request\<lparr>rq_id := ''missing''\<rparr>)) 0 = (Inl (Sentinel ErrNotFound), 0)"
    by (simp_all add: sample_api_def sample_manager_def sample_request_def ret_def throw_def)
  have other: "Tenant sample_stored \<noteq> tn_Name sample_tenant" by (simp add: sample_stored_def sample_tenant_def)
  have h: "rq_Authorization sample_request = Some [''Bearer tok'']"
    "rq_Authorization (sample_request\<lparr>rq_id := ''missing''\<rparr>) = Some [''Bearer tok'']" by (simp_all add: sample_request_def)
  note iso = tenant_isolation [OF sample_config_parsed sample_token(1,2) _ sample_token(3-5), THEN conjunct1, rule_format, OF _ sample_speaks]
  show ?thesis
    using iso [OF h(1) g(1), of RDelete] iso [OF h(2) g(2), of RDelete] other by simp
qed

section \<open>Creating and listing\<close>

lemma createTenant_scope:
  "createTenant a caller raw requested = Inr tenant \<Longrightarrow> ca_Tenant caller = Some t \<Longrightarrow> \<not> ca_Operator caller \<Longrightarrow>
   tenant = tn_Name t \<and> (\<exists>w. NormalizeWorkloadType requested = Inr w \<and> Allows t w)"
  by (auto simp: createTenant_def split: sum.splits if_splits)

lemma create_request_scope:
  "create_request a caller r = Inr req \<Longrightarrow> \<exists>raw. createTenant a caller raw (req_WorkloadType req) = Inr (req_Tenant req)"
  by (auto simp: create_request_def split: sum.splits)

lemma createSession_scope:
  assumes "tenant_call a r t w w1"
  shows "(\<exists>req. createSession a r w = respond (mg_Create (api_mgr a) req) (\<lambda>s. reply 201 (SessionBody s)) w1 \<and>
            req_Tenant req = tn_Name t \<and> (\<exists>k. NormalizeWorkloadType (req_WorkloadType req) = Inr k \<and> Allows t k)) \<or>
         (\<exists>e. createSession a r w = (writeErr e, w1))"
proof (cases "create_request a \<lparr>ca_Operator = False, ca_Tenant = Some t\<rparr> r")
  case (Inl e)
  then have "createSession a r w = (writeErr e, w1)"
    using assms by (simp add: createSession_def respond_def act_simps tenant_call_def)
  then show ?thesis by blast
next
  case (Inr req)
  from create_request_scope [OF this] obtain raw
    where "createTenant a \<lparr>ca_Operator = False, ca_Tenant = Some t\<rparr> raw (req_WorkloadType req) = Inr (req_Tenant req)" by blast
  from createTenant_scope [OF this] Inr assms show ?thesis
    by (intro disjI1 exI [of _ req]) (simp add: createSession_def respond_def act_simps tenant_call_def)
qed

lemma listSessions_scope:
  assumes "tenant_call a r t w w1" "listSessions a r w = (reply 200 (SessionsBody ss), w2)"
  shows "\<exists>all. mg_List (api_mgr a) w1 = (Inr all, w2) \<and> ss = filter (\<lambda>s. Tenant s = tn_Name t) all"
  using assms
  by (auto simp: tenant_call_def listSessions_def respond_def act_simps writeErr_def reply_def Sees_def eq_commute [of "tn_Name t"]
      split: if_splits sum.splits prod.splits)

text \<open>Tenants create and list only their own. A tenant's create request either reaches the
  manager's \<open>Create\<close> once, for the caller's own tenant and with a workload type the tenant is
  granted, whatever tenant the body names, or is refused without calling the manager. A listing a
  tenant gets holds exactly its own sessions of what the manager lists.\<close>

theorem tenant_scope:
  assumes "tenant_call a r t w w1"
  shows "((\<exists>req. createSession a r w = respond (mg_Create (api_mgr a) req) (\<lambda>s. reply 201 (SessionBody s)) w1 \<and>
             req_Tenant req = tn_Name t \<and> (\<exists>k. NormalizeWorkloadType (req_WorkloadType req) = Inr k \<and> Allows t k)) \<or>
          (\<exists>e. createSession a r w = (writeErr e, w1))) \<and>
         (\<forall>ss w2. listSessions a r w = (reply 200 (SessionsBody ss), w2) \<longrightarrow>
            (\<exists>all. mg_List (api_mgr a) w1 = (Inr all, w2) \<and> ss = filter (\<lambda>s. Tenant s = tn_Name t) all))"
  using createSession_scope [OF assms] listSessions_scope [OF assms] by blast

theorem tenant_scope_witness:
  "listSessions sample_api sample_request 0 = (reply 200 (SessionsBody []), 0) \<and>
   (\<exists>all. mg_List (api_mgr sample_api) 0 = (Inr all, 0) \<and> all \<noteq> [] \<and> [] = filter (\<lambda>s. Tenant s = tn_Name sample_tenant) all)"
proof -
  have listed: "listSessions sample_api sample_request 0 = (reply 200 (SessionsBody []), 0)"
    using sample_call [of sample_request 0]
    by (simp add: listSessions_def respond_def act_simps tenant_call_def sample_api_def sample_manager_def sample_request_def Sees_def
        sample_stored_def sample_tenant_def)
  have "mg_List (api_mgr sample_api) 0 = (Inr [sample_stored], 0)"
    by (simp add: sample_api_def sample_manager_def ret_def)
  moreover have "tenant_call sample_api sample_request sample_tenant 0 0" by (rule sample_call) (simp add: sample_request_def)
  ultimately show ?thesis using tenant_scope [of sample_api sample_request sample_tenant 0 0] listed by fastforce
qed

end
