(* ===== verification/Agent_Client.thy ===== *)
theory Agent_Client
  imports Api
begin

text \<open>
  \<open>control-plane/internal/adapter/agent/client.go\<close> (\<open>HTTPClient\<close>): the control plane's calls to the
  agent in a session pod. The API server's pod lookup and the HTTP
  transport are fields of the client, operations on the world; building a request that
  the transport refuses is one of its errors. A response body is what reading it gives: the
  bytes, how the stream ended, and the first JSON value of it.
\<close>

section \<open>Transport\<close>

record body_stream =
  bs_Bytes :: string
  bs_Err :: "goerr option"
  bs_CloseErr :: "goerr option"

definition no_body :: body_stream where
  "no_body = \<lparr>bs_Bytes = [], bs_Err = None, bs_CloseErr = None\<rparr>"

record http_request =
  hq_Method :: string
  hq_URL :: string
  hq_CheckpointID :: string
  hq_ContentType :: string
  hq_Body :: body_stream

record http_response =
  hp_Status :: nat
  hp_CheckpointID :: string
  hp_ContentType :: string
  hp_Body :: body_stream
  hp_Json :: wire_body

record pod_status =
  ps_Phase :: string
  ps_PodIP :: string

record 'w HTTPClient =
  hc_Get :: "string \<Rightarrow> ('w, pod_status) act" \<comment> \<open>\<open>Pods(namespace).Get\<close>\<close>
  hc_port :: nat
  hc_http :: "http_request \<Rightarrow> ('w, http_response) act" \<comment> \<open>with the 30 s limit\<close>
  hc_stream :: "http_request \<Rightarrow> ('w, http_response) act" \<comment> \<open>bounded by the context only\<close>

definition AgentPort :: nat where "AgentPort = 8090"

definition WithPort :: "nat \<Rightarrow> 'w HTTPClient \<Rightarrow> 'w HTTPClient" where
  "WithPort port c = (if port > 0 then c\<lparr>hc_port := port\<rparr> else c)"

definition NewHTTPClient ::
    "(string \<Rightarrow> ('w, pod_status) act) \<Rightarrow> (http_request \<Rightarrow> ('w, http_response) act) \<Rightarrow>
     (http_request \<Rightarrow> ('w, http_response) act) \<Rightarrow> ('w HTTPClient \<Rightarrow> 'w HTTPClient) list \<Rightarrow> 'w HTTPClient" where
  "NewHTTPClient lookup short long opts =
     fold (\<lambda>opt c. opt c) opts \<lparr>hc_Get = lookup, hc_port = AgentPort, hc_http = short, hc_stream = long\<rparr>"

text \<open>\<open>fmt.Errorf("...: %w")\<close> around a call.\<close>

definition wrapE :: "string \<Rightarrow> ('w, 'a) act \<Rightarrow> ('w, 'a) act" where
  "wrapE what m = tryE m (\<lambda>r. case r of Inl e \<Rightarrow> throw (Errorf what [e]) | Inr x \<Rightarrow> ret x)"

definition PodRunning :: string where "PodRunning = ''Running''"

definition resolve :: "'w HTTPClient \<Rightarrow> string \<Rightarrow> ('w, string) act" where
  "resolve c pod =
     bindE (wrapE ''resolve session pod'' (hc_Get c pod)) (\<lambda>p.
     if ps_Phase p \<noteq> PodRunning \<or> ps_PodIP p = [] then throw (New ''session pod is not running with an IP'')
     else ret (ps_PodIP p))"

definition JoinHostPort :: "string \<Rightarrow> string \<Rightarrow> string" where
  "JoinHostPort host port =
     (if CHR '':'' \<in> set host \<or> CHR ''%'' \<in> set host then ''['' @ host @ '']:'' @ port else host @ '':'' @ port)"

definition baseURL :: "'w HTTPClient \<Rightarrow> string \<Rightarrow> string" where
  "baseURL c ip = ''http://'' @ JoinHostPort ip (Itoa (hc_port c))"

definition decimal :: "int \<Rightarrow> string" where
  "decimal n = (if n < 0 then CHR ''-'' # Itoa (nat (- n)) else Itoa (nat n))"

definition plain_request :: "string \<Rightarrow> string \<Rightarrow> http_request" where
  "plain_request method url =
     \<lparr>hq_Method = method, hq_URL = url, hq_CheckpointID = [], hq_ContentType = [], hq_Body = no_body\<rparr>"

definition bytes_body :: "string \<Rightarrow> body_stream" where
  "bytes_body bs = no_body\<lparr>bs_Bytes := bs\<rparr>"

section \<open>Decoding responses\<close>

text \<open>Lenient decoding into a struct: unknown keys are skipped, null leaves a plain field and
  clears a pointer or slice (\<open>nullable\<close>), a value of another type fails. A top-level null decodes
  into nothing.\<close>

fun loose_fields ::
    "string list \<Rightarrow> (string \<Rightarrow> bool) \<Rightarrow> (string \<Rightarrow> jvalue \<Rightarrow> bool) \<Rightarrow> (string \<times> jvalue) list \<Rightarrow>
     (string \<rightharpoonup> jvalue) \<Rightarrow> (string \<rightharpoonup> jvalue) option" where
  "loose_fields names nullable typed [] m = Some m"
| "loose_fields names nullable typed ((k, v) # kvs) m =
     (case field_of names k of
        None \<Rightarrow> loose_fields names nullable typed kvs m
      | Some n \<Rightarrow>
          if v = VNull then loose_fields names nullable typed kvs (if nullable n then m(n := None) else m)
          else if typed n v then loose_fields names nullable typed kvs (m(n \<mapsto> v))
          else None)"

definition Decode ::
    "string list \<Rightarrow> (string \<Rightarrow> bool) \<Rightarrow> (string \<Rightarrow> jvalue \<Rightarrow> bool) \<Rightarrow> wire_body \<Rightarrow> goerr + (string \<rightharpoonup> jvalue)" where
  "Decode names nullable typed body =
     (case body of
        Wire VNull _ \<Rightarrow> Inr (\<lambda>_. None)
      | Wire (VObj kvs) _ \<Rightarrow>
          (case loose_fields names nullable typed kvs (\<lambda>_. None) of None \<Rightarrow> Inl (New ''decode'') | Some m \<Rightarrow> Inr m)
      | _ \<Rightarrow> Inl (New ''decode''))"

definition is_bool :: "jvalue \<Rightarrow> bool" where
  "is_bool v = (case v of VBool _ \<Rightarrow> True | _ \<Rightarrow> False)"

definition bool_of :: "jvalue option \<Rightarrow> bool" where
  "bool_of v = (v = Some (VBool True))"

definition is_strs :: "jvalue \<Rightarrow> bool" where
  "is_strs v = (case v of VArr vs \<Rightarrow> list_all (\<lambda>u. is_str u \<or> u = VNull) vs | _ \<Rightarrow> False)"

definition strs_of :: "jvalue option \<Rightarrow> string list" where
  "strs_of v = (case v of Some (VArr vs) \<Rightarrow> map (\<lambda>u. str_of (Some u)) vs | _ \<Rightarrow> [])"

text \<open>A non-200 answer whose status carries no class.\<close>

definition agent_returned :: "string \<Rightarrow> http_response \<Rightarrow> goerr" where
  "agent_returned what resp = Errorf (what @ '': agent returned '' @ Itoa (hp_Status resp)) []"

section \<open>Workload I/O\<close>

definition write_error :: "http_response \<Rightarrow> goerr" where
  "write_error resp =
     (if hp_Status resp = 429 then Errorf ''write to session pod'' [Sentinel ErrWorkloadQueueFull]
      else if hp_Status resp = 413 then Errorf ''write to session pod'' [Sentinel ErrWorkloadPromptTooLarge]
      else if hp_Status resp = 507 then Errorf ''write to session pod'' [Sentinel ErrWorkloadOutputFull]
      else agent_returned ''write to session pod'' resp)"

definition write_request :: "'w HTTPClient \<Rightarrow> string \<Rightarrow> string \<Rightarrow> http_request" where
  "write_request c ip payload =
     (plain_request ''POST'' (baseURL c ip @ ''/write''))
       \<lparr>hq_ContentType := ''application/octet-stream'', hq_Body := bytes_body payload\<rparr>"

definition hc_Write :: "'w HTTPClient \<Rightarrow> string \<Rightarrow> string \<Rightarrow> ('w, unit) act" where
  "hc_Write c pod payload =
     bindE (resolve c pod) (\<lambda>ip.
     bindE (wrapE ''write to session pod'' (hc_http c (write_request c ip payload))) (\<lambda>resp.
     if hp_Status resp \<noteq> 200 then throw (write_error resp) else ret ()))"

definition hc_RefreshPlugins :: "'w HTTPClient \<Rightarrow> string \<Rightarrow> ('w, PluginChanges) act" where
  "hc_RefreshPlugins c pod =
     bindE (resolve c pod) (\<lambda>ip.
     bindE (wrapE ''refresh plugins in session pod''
       (hc_stream c (plain_request ''POST'' (baseURL c ip @ ''/plugins/refresh'')))) (\<lambda>resp.
     if hp_Status resp \<noteq> 200 then
       throw (if hp_Status resp = 409 then Errorf ''refresh plugins in session pod'' [Sentinel ErrWorkloadBusy]
              else if hp_Status resp = 502 then Errorf ''refresh plugins in session pod'' [Sentinel ErrPluginRefreshFailed]
              else if hp_Status resp = 404 then Errorf ''refresh plugins in session pod'' [Sentinel ErrInvalidState]
              else agent_returned ''refresh plugins in session pod'' resp)
     else
       bindE (wrapE ''refresh plugins in session pod: decode'' (lift
         (Decode [''state'', ''revision'', ''added'', ''updated'', ''removed'']
           (\<lambda>n. n \<in> {''added'', ''updated'', ''removed''})
           (\<lambda>n v. if n \<in> {''added'', ''updated'', ''removed''} then is_strs v else is_str v) (hp_Json resp)))) (\<lambda>m.
       ret \<lparr>pc_State = str_of (m ''state''), pc_Revision = str_of (m ''revision''), pc_Added = strs_of (m ''added''),
            pc_Updated = strs_of (m ''updated''), pc_Removed = strs_of (m ''removed'')\<rparr>)))"

definition hc_Read :: "'w HTTPClient \<Rightarrow> string \<Rightarrow> int \<Rightarrow> ('w, string \<times> int) act" where
  "hc_Read c pod offset =
     bindE (resolve c pod) (\<lambda>ip.
     bindE (wrapE ''read from session pod''
       (hc_http c (plain_request ''GET'' (baseURL c ip @ ''/read?offset='' @ decimal offset)))) (\<lambda>resp.
     if hp_Status resp \<noteq> 200 then throw (agent_returned ''read from session pod'' resp)
     else
       bindE (wrapE ''decode read response from session pod'' (lift
         (Decode [''payload'', ''nextOffset''] (\<lambda>_. False) (\<lambda>n. if n = ''payload'' then is_str else is_int64) (hp_Json resp)))) (\<lambda>m.
       ret (str_of (m ''payload''), int_of_value (m ''nextOffset'')))))"

definition hc_AwaitingApproval :: "'w HTTPClient \<Rightarrow> string \<Rightarrow> ('w, bool) act" where
  "hc_AwaitingApproval c pod =
     bindE (resolve c pod) (\<lambda>ip.
     bindE (wrapE ''read approval wait from session pod'' (hc_http c (plain_request ''GET'' (baseURL c ip @ ''/approval'')))) (\<lambda>resp.
     if hp_Status resp \<noteq> 200 then throw (agent_returned ''read approval wait from session pod'' resp)
     else
       bindE (wrapE ''decode approval wait from session pod'' (lift
         (Decode [''awaiting''] (\<lambda>_. False) (\<lambda>_. is_bool) (hp_Json resp)))) (\<lambda>m.
       ret (bool_of (m ''awaiting'')))))"

definition hc_AuthSlotSignedIn :: "'w HTTPClient \<Rightarrow> string \<Rightarrow> ('w, bool) act" where
  "hc_AuthSlotSignedIn c pod =
     bindE (resolve c pod) (\<lambda>ip.
     bindE (wrapE ''read auth slot from session pod'' (hc_http c (plain_request ''GET'' (baseURL c ip @ ''/auth-slot'')))) (\<lambda>resp.
     if hp_Status resp \<noteq> 200 then throw (agent_returned ''read auth slot from session pod'' resp)
     else
       bindE (wrapE ''decode auth slot from session pod'' (lift
         (Decode [''signedIn''] (\<lambda>_. True) (\<lambda>_. is_bool) (hp_Json resp)))) (\<lambda>m.
       if m ''signedIn'' = None then throw (New ''decode auth slot from session pod: no signedIn'')
       else ret (bool_of (m ''signedIn'')))))"

definition hc_Stream :: "'w HTTPClient \<Rightarrow> string \<Rightarrow> int \<Rightarrow> ('w, string) act" where
  "hc_Stream c pod offset =
     bindE (resolve c pod) (\<lambda>ip.
     bindE (wrapE ''stream from session pod''
       (hc_stream c (plain_request ''GET'' (baseURL c ip @ ''/stream?offset='' @ decimal offset)))) (\<lambda>resp.
     if hp_Status resp \<noteq> 200 then
       throw (if hp_Status resp = 400 then Errorf ''stream from session pod'' [Sentinel ErrInvalidInput]
              else agent_returned ''stream from session pod'' resp)
     else if \<not> is_prefix ''text/event-stream'' (hp_ContentType resp) then throw (New ''unexpected content type'')
     else ret (bs_Bytes (hp_Body resp))))"

section \<open>Archive transfer\<close>

definition hc_CheckpointWithGeneration ::
    "'w HTTPClient \<Rightarrow> string \<Rightarrow> string \<Rightarrow> ('w, body_stream \<times> string) act" where
  "hc_CheckpointWithGeneration c pod generation =
     bindE (resolve c pod) (\<lambda>ip.
     bindE (wrapE ''checkpoint session pod''
       (hc_stream c ((plain_request ''POST'' (baseURL c ip @ ''/checkpoint''))\<lparr>hq_CheckpointID := generation\<rparr>))) (\<lambda>resp.
     if hp_Status resp \<noteq> 200 then throw (agent_returned ''checkpoint session pod'' resp)
     else ret (hp_Body resp, hp_CheckpointID resp)))"

definition hc_AbortCheckpoint :: "'w HTTPClient \<Rightarrow> string \<Rightarrow> string \<Rightarrow> ('w, unit) act" where
  "hc_AbortCheckpoint c pod checkpointID =
     bindE (resolve c pod) (\<lambda>ip.
     bindE (wrapE ''abort checkpoint for session pod''
       (hc_http c ((plain_request ''POST'' (baseURL c ip @ ''/checkpoint/abort''))\<lparr>hq_CheckpointID := checkpointID\<rparr>))) (\<lambda>resp.
     if hp_Status resp \<noteq> 200 then throw (agent_returned ''abort checkpoint for session pod'' resp) else ret ()))"

definition restore_request :: "'w HTTPClient \<Rightarrow> string \<Rightarrow> body_stream \<Rightarrow> http_request" where
  "restore_request c ip archive =
     (plain_request ''POST'' (baseURL c ip @ ''/restore''))\<lparr>hq_ContentType := ''application/x-tar'', hq_Body := archive\<rparr>"

definition hc_Restore :: "'w HTTPClient \<Rightarrow> string \<Rightarrow> body_stream \<Rightarrow> ('w, unit) act" where
  "hc_Restore c pod archive =
     bindE (resolve c pod) (\<lambda>ip.
     bindE (wrapE ''restore into session pod'' (hc_stream c (restore_request c ip archive))) (\<lambda>resp.
     if hp_Status resp \<noteq> 200 then throw (agent_returned ''restore into session pod'' resp) else ret ()))"

text \<open>The client as the service's port, with all its optional capabilities.\<close>

definition http_port :: "'w HTTPClient \<Rightarrow> 'w Client" where
  "http_port c =
     \<lparr>ag_Write = hc_Write c, ag_Read = hc_Read c, ag_Stream = hc_Stream c, ag_RefreshPlugins = hc_RefreshPlugins c,
      ag_AbortCheckpoint = Some (hc_AbortCheckpoint c), ag_AwaitingApproval = Some (hc_AwaitingApproval c),
      ag_AuthSlotSignedIn = Some (hc_AuthSlotSignedIn c)\<rparr>"

end
