(* ===== verification/Agent_Path.thy ===== *)
theory Agent_Path
  imports Api_Laws Agent_Client Workload
begin

text \<open>
  The write path end to end: the agent's answer to a prompt, the client's error class, the
  service's error and the status of the REST response. Each layer translates on its own; what the
  caller sees is the composition.
\<close>

lemma write_error_status:
  "err_status (write_error resp) = (if hp_Status resp \<in> {429, 413, 507} then hp_Status resp else 500)"
  by (auto simp: write_error_def agent_returned_def err_status_def)

lemma hc_Write_status:
  assumes "resolve c pod w = (Inr ip, w1)" "hc_http c (write_request c ip payload) w1 = (Inr resp, w2)"
  shows "hc_Write c pod payload w = (if hp_Status resp = 200 then Inr () else Inl (write_error resp), w2)"
  using assms by (simp add: hc_Write_def wrapE_def act_simps)

text \<open>A write request that was admitted and decoded, whose session is active in the pod \<open>ip\<close>, and that the
  agent \<open>wl\<close> there answered: the status of the response is the one of \<open>write_route\<close>.\<close>

definition write_answered ::
    "'w API \<Rightarrow> 'w Service \<Rightarrow> 'w HTTPClient \<Rightarrow> request \<Rightarrow> string \<Rightarrow> claudeWorkload \<Rightarrow> 'w \<Rightarrow> 'w \<Rightarrow> bool" where
  "write_answered a s c r payload wl w w' =
     (api_mgr a = service_manager s \<and> svc_agent s = http_port c \<and>
      (\<exists>m w1 w2 w3 w4 current sess branch ip resp.
         admission a r w = (Inr (), w1) \<and>
         decodeRequestBody [''payload''] (\<lambda>_. is_str) False (rq_body r) = Inr m \<and> str_of (m ''payload'') = payload \<and>
         svc_Get s (rq_id r) w1 = (Inr current, w2) \<and>
         \<not> (QueuesPrompts (WorkloadType current) \<and> length payload > MaxClaudePromptBytes) \<and>
         activate s (rq_id r) w2 = (Inr (sess, branch), w3) \<and>
         resolve c (Pod sess) w3 = (Inr ip, w4) \<and>
         hc_http c (write_request c ip payload) w4 = (Inr resp, w') \<and>
         hp_Status resp = fst (write_route wl (BodyOk payload))))"

lemma writeSession_refused:
  assumes "write_answered a s c r payload wl w w'" "fst (write_route wl (BodyOk payload)) \<noteq> 200"
  shows "\<exists>resp. hp_Status resp = fst (write_route wl (BodyOk payload)) \<and> writeSession a r w = (writeErr (write_error resp), w')"
proof -
  from assms(1) obtain m w1 w2 w3 w4 current sess branch ip resp where
    wired: "api_mgr a = service_manager s" "svc_agent s = http_port c"
    and path: "admission a r w = (Inr (), w1)" "decodeRequestBody [''payload''] (\<lambda>_. is_str) False (rq_body r) = Inr m"
      "str_of (m ''payload'') = payload" "svc_Get s (rq_id r) w1 = (Inr current, w2)"
      "\<not> (QueuesPrompts (WorkloadType current) \<and> length payload > MaxClaudePromptBytes)"
      "activate s (rq_id r) w2 = (Inr (sess, branch), w3)"
    and sent: "resolve c (Pod sess) w3 = (Inr ip, w4)" "hc_http c (write_request c ip payload) w4 = (Inr resp, w')"
    and status: "hp_Status resp = fst (write_route wl (BodyOk payload))"
    unfolding write_answered_def by blast
  have "ag_Write (svc_agent s) (Pod sess) payload w3 = (Inl (write_error resp), w')"
    using hc_Write_status [OF sent] assms(2) status by (simp add: wired http_port_def)
  then have "svc_Write s (rq_id r) payload w1 = (Inl (write_error resp), w')"
    using path by (auto simp: svc_Write_def thenE_def act_simps)
  then have "writeSession a r w = (writeErr (write_error resp), w')"
    using path wired(1) by (simp add: writeSession_def authorizeSession_def respond_def service_manager_def act_simps)
  with status show ?thesis by blast
qed

lemma enqueue_errors:
  "enqueue c p = Inl e \<Longrightarrow> e \<in> {errClaudeAwaitingRestore, errClaudeStopping, errClaudeAdmissionClosed, errClaudeQueueFull, errClaudeOutputFull}"
  by (auto simp: enqueue_def Let_def split: if_splits)

lemmas claude_errors = errClaudeAwaitingRestore_def errClaudeStopping_def errClaudeAdmissionClosed_def errClaudeQueueFull_def
  errClaudeOutputFull_def

lemma errors_is_claude:
  "e \<in> {errClaudeAwaitingRestore, errClaudeStopping, errClaudeAdmissionClosed, errClaudeQueueFull, errClaudeOutputFull} \<Longrightarrow>
   errors_is e t \<longleftrightarrow> e = t"
  by (elim insertE) (simp_all only: claude_errors errors_is.simps empty_iff)

lemma write_route_refused:
  "enqueue wl p = Inl e \<Longrightarrow> write_route wl (BodyOk p) =
     (if e = errClaudeQueueFull then 429 else if e = errClaudeOutputFull then 507
      else if e \<in> {errClaudeAwaitingRestore, errClaudeStopping} then 503 else 409, wl)"
  using errors_is_claude [OF enqueue_errors [of wl p e]] by (simp add: write_route_def)

text \<open>Back-pressure reaches the caller. When the agent refuses a prompt, the REST caller of the write
  gets 429 exactly for a full prompt queue and 507 exactly for a full output, and 500 for the
  refusals of a workload that is not accepting prompts at all; the agent's queue is as it was, and
  nothing happened after the refusal: the session is not touched.\<close>

theorem write_backpressure:
  assumes "write_answered a s c r payload wl w w'" "enqueue wl payload = Inl e"
  shows "snd (writeSession a r w) = w' \<and> snd (write_route wl (BodyOk payload)) = wl \<and>
     rs_status (fst (writeSession a r w)) =
       (if e = errClaudeQueueFull then 429 else if e = errClaudeOutputFull then 507 else 500)"
proof -
  note route = write_route_refused [OF assms(2)]
  have "fst (write_route wl (BodyOk payload)) \<noteq> 200" by (simp add: route)
  from writeSession_refused [OF assms(1) this] route show ?thesis
    by (auto simp: writeErr_def reply_def write_error_status)
qed

text \<open>A service around one active session whose agent's queue is full.\<close>

definition full_workload :: claudeWorkload where
  "full_workload = (fresh_workload [] 1 1000)\<lparr>wl_ready := True, wl_accepting := True,
     wl_queue := replicate maxClaudeQueuedPrompts \<lparr>pj_prompt = ''x'', pj_seq = 1\<rparr>\<rparr>"

definition full_client :: "unit HTTPClient" where
  "full_client = \<lparr>hc_Get = (\<lambda>_. ret \<lparr>ps_Phase = ''Running'', ps_PodIP = ''10.0.0.1''\<rparr>), hc_port = AgentPort,
     hc_http = (\<lambda>rq. ret \<lparr>hp_Status = fst (write_route full_workload (BodyOk (bs_Bytes (hq_Body rq)))), hp_CheckpointID = [],
       hp_ContentType = [], hp_Body = no_body, hp_Json = WireEmpty\<rparr>),
     hc_stream = (\<lambda>_. throw (New ''unused''))\<rparr>"

definition sample_states :: "unit StateStore" where
  "sample_states = \<lparr>st_Put = (\<lambda>_. ret ()), st_Get = (\<lambda>_. ret sample_stored), st_List = ret [sample_stored], st_Delete = (\<lambda>_ _. ret ()),
     st_Touch = (\<lambda>_ _. ret ()), st_CompareAndSwapState = (\<lambda>_ _ _. ret ()), st_CompareAndSwapSession = (\<lambda>_ _ _ _ _. ret ()),
     st_Lock = (\<lambda>_ _. ret ()), st_Renew = (\<lambda>_ _. ret ()), st_Unlock = (\<lambda>_ _. ret ())\<rparr>"

definition sample_service :: "unit Service" where
  "sample_service = \<lparr>svc_orch = \<lparr>or_Start = (\<lambda>_ _. throw (New ''none'')), or_Stop = (\<lambda>_. ret ()),
       or_RestoreInto = (\<lambda>_ _ _. throw (New ''none'')), or_Reach = (\<lambda>_. ret ())\<rparr>,
     svc_store = sample_states, svc_ckpts = (\<lambda>_. None), svc_agent = http_port full_client, svc_authPools = (\<lambda>_. None),
     svc_now = (\<lambda>w. (0, w)), svc_newID = ret ''id'', svc_ctxErr = ret (), svc_rollbackCtxErr = ret (),
     svc_stopRenewal = (\<lambda>_ _. ret ()), svc_fuel = 1\<rparr>"

definition operator_api :: "unit API" where
  "operator_api = \<lparr>api_mgr = service_manager sample_service, api_modelConfigs = (\<lambda>_. None), api_offered = None, api_callers = None,
     api_tenants = None\<rparr>"

definition write_body :: request where
  "write_body = sample_request\<lparr>rq_body := Wire (VObj [(''payload'', VStr ''hi'')]) False\<rparr>"

lemma full_refuses: "enqueue full_workload p = Inl errClaudeQueueFull"
  by (simp add: enqueue_def full_workload_def fresh_workload_def claudeFullAt_def claudeFullAtLocked_def)

lemma sample_wired: "svc_agent sample_service = http_port full_client" "api_mgr operator_api = service_manager sample_service"
  by (simp_all add: sample_service_def operator_api_def)

lemma sample_normal: "normalizeStoredSession sample_stored = Inr sample_stored"
  by (simp add: normalizeStoredSession_def sample_stored_def NormalizeStoredWorkloadType_def NormalizeWorkloadType_def
      legacyWorkloadTypeCodex_def WorkloadType_Valid_def workload_defs NormalizeModel_def NormalizeReasoningEffort_def)

lemma sample_Get: "svc_Get sample_service sid () = (Inr sample_stored, ())"
  by (simp add: svc_Get_def sample_service_def sample_states_def act_simps sample_normal)

lemma sample_activate: "activate sample_service sid () = (Inr (sample_stored, ''active''), ())"
  by (simp add: activate_def sample_Get bindE_def) (simp add: sample_stored_def ret_def StateActive_def)

theorem write_backpressure_witness:
  "rs_status (fst (writeSession operator_api write_body ())) = 429"
proof -
  have "write_answered operator_api sample_service full_client write_body ''hi'' full_workload () ()"
    unfolding write_answered_def
  proof (intro conjI exI)
    show "admission operator_api write_body () = (Inr (), ())"
      by (simp add: admission_def api_caller_def operator_api_def act_simps OperatorCaller_def)
    show "decodeRequestBody [''payload''] (\<lambda>_. is_str) False (rq_body write_body) = Inr [''payload'' \<mapsto> VStr ''hi'']"
      by (simp add: decodeRequestBody_def write_body_def field_of_def is_str_def)
    show "\<not> (QueuesPrompts (WorkloadType sample_stored) \<and> length ''hi'' > MaxClaudePromptBytes)"
      by (simp add: MaxClaudePromptBytes_def)
    show "resolve full_client (Pod sample_stored) () = (Inr ''10.0.0.1'', ())"
      by (simp add: resolve_def full_client_def wrapE_def act_simps PodRunning_def)
    show "hp_Status \<lparr>hp_Status = 429, hp_CheckpointID = [], hp_ContentType = [], hp_Body = no_body, hp_Json = WireEmpty\<rparr> =
        fst (write_route full_workload (BodyOk ''hi''))"
      by (simp add: write_route_refused [OF full_refuses])
    then show "hc_http full_client (write_request full_client ''10.0.0.1'' ''hi'') () =
        (Inr \<lparr>hp_Status = 429, hp_CheckpointID = [], hp_ContentType = [], hp_Body = no_body, hp_Json = WireEmpty\<rparr>, ())"
      by (simp add: full_client_def write_request_def bytes_body_def ret_def)
  qed (simp_all add: sample_Get sample_activate sample_wired str_of_def)
  from write_backpressure [OF this full_refuses] show ?thesis by simp
qed

end
