(* ===== verification/Checkpointer.thy ===== *)
theory Checkpointer
  imports Agent_Client
begin

text \<open>
  Where an archive lives between two pods: \<open>AgentCheckpointer\<close>
  (\<open>control-plane/internal/adapter/archive/agent_checkpointer.go\<close>), the disabled stub of
  \<open>checkpointer.go\<close> and the S3 store (\<open>control-plane/internal/adapter/checkpointstore/store.go\<close>). The object
  API, the local spool file and the agent are operations on the world.
\<close>

section \<open>The S3 store\<close>

record 'w S3 =
  s3_PutObject :: "string \<Rightarrow> string \<Rightarrow> string \<Rightarrow> ('w, unit) act" \<comment> \<open>bucket, key, body\<close>
  s3_GetObject :: "string \<Rightarrow> string \<Rightarrow> ('w, body_stream) act"
  s3_CreateTemp :: "('w, unit) act"
  s3_spoolWrite :: "string \<Rightarrow> ('w, unit) act" \<comment> \<open>writing the copied bytes to the spool file\<close>
  s3_spoolSeek :: "('w, unit) act"
  s3_bucket :: string
  s3_prefix :: string

definition defaultPrefix :: string where "defaultPrefix = ''checkpoints''"

definition TrimSlashes :: "string \<Rightarrow> string" where
  "TrimSlashes s = rev (dropWhile (\<lambda>c. c = CHR ''/'') (rev (dropWhile (\<lambda>c. c = CHR ''/'') s)))"

definition newWithAPI :: "'w S3 \<Rightarrow> string \<Rightarrow> string \<Rightarrow> 'w S3" where
  "newWithAPI api bucket prefix =
     (let p = TrimSlashes prefix in api\<lparr>s3_bucket := bucket, s3_prefix := (if p = [] then defaultPrefix else p)\<rparr>)"

definition s3_key :: "'w S3 \<Rightarrow> string \<Rightarrow> string" where
  "s3_key s key = s3_prefix s @ ''/'' @ (if is_prefix ''/'' key then drop 1 key else key)"

text \<open>\<open>io.Copy\<close> into the spool: everything before a read error is written, then the error is
  returned; a write error comes first.\<close>

definition copy_to_spool :: "'w S3 \<Rightarrow> body_stream \<Rightarrow> ('w, unit) act" where
  "copy_to_spool s r =
     bindE (s3_spoolWrite s (bs_Bytes r)) (\<lambda>_. case bs_Err r of None \<Rightarrow> ret () | Some e \<Rightarrow> throw e)"

definition s3_Put :: "'w S3 \<Rightarrow> string \<Rightarrow> body_stream \<Rightarrow> ('w, string) act" where
  "s3_Put s key r =
     (let full = s3_key s key in
      bindE (wrapE ''spool checkpoint archive'' (s3_CreateTemp s)) (\<lambda>_.
      bindE (wrapE ''spool checkpoint archive'' (copy_to_spool s r)) (\<lambda>_.
      bindE (wrapE ''rewind spooled archive'' (s3_spoolSeek s)) (\<lambda>_.
      bindE (wrapE ''put'' (s3_PutObject s (s3_bucket s) full (bs_Bytes r))) (\<lambda>_.
      ret (''s3://'' @ s3_bucket s @ ''/'' @ full))))))"

fun IndexByte :: "string \<Rightarrow> char \<Rightarrow> nat option" where
  "IndexByte [] c = None"
| "IndexByte (x # xs) c = (if x = c then Some 0 else map_option Suc (IndexByte xs c))"

definition parseRef :: "string \<Rightarrow> goerr + string \<times> string" where
  "parseRef ref =
     (if \<not> is_prefix ''s3://'' ref then Inl (New ''not an s3 ref'')
      else
        (let rest = drop 5 ref in
         (case IndexByte rest (CHR ''/'') of
            None \<Rightarrow> Inl (New ''malformed s3 ref'')
          | Some i \<Rightarrow>
              if i = 0 \<or> i + 1 \<ge> length rest then Inl (New ''malformed s3 ref'')
              else Inr (take i rest, drop (Suc i) rest))))"

definition s3_Get :: "'w S3 \<Rightarrow> string \<Rightarrow> ('w, body_stream) act" where
  "s3_Get s ref = bindE (lift (parseRef ref)) (\<lambda>(bucket, key). wrapE ''get'' (s3_GetObject s bucket key))"

section \<open>The agent-driven checkpointer\<close>

record 'w CheckpointStore =
  cs_Put :: "string \<Rightarrow> body_stream \<Rightarrow> ('w, string) act"
  cs_Get :: "string \<Rightarrow> ('w, body_stream) act"

definition s3_store :: "'w S3 \<Rightarrow> 'w CheckpointStore" where
  "s3_store s = \<lparr>cs_Put = s3_Put s, cs_Get = s3_Get s\<rparr>"

record 'w AgentCheckpointer =
  ac_client :: "'w HTTPClient"
  ac_store :: "'w CheckpointStore option"
  ac_now :: "'w \<Rightarrow> time \<times> 'w"

text \<open>\<open>validArchiveGeneration\<close>: the 32-byte texts that \<open>hex.DecodeString\<close> accepts and
  \<open>hex.EncodeToString\<close> gives back are those of lower-case hex digits.\<close>

definition lower_hex :: "char \<Rightarrow> bool" where
  "lower_hex c = ((CHR ''0'' \<le> c \<and> c \<le> CHR ''9'') \<or> (CHR ''a'' \<le> c \<and> c \<le> CHR ''f''))"

definition validArchiveGeneration :: "string \<Rightarrow> bool" where
  "validArchiveGeneration g = (length g = 32 \<and> list_all lower_hex g)"

definition agentCheckpointKey :: "string \<Rightarrow> string \<Rightarrow> string" where
  "agentCheckpointKey pod generation = pod @ ''/'' @ generation @ ''/checkpoint.tar''"

definition ac_CheckpointWithGeneration ::
    "'w AgentCheckpointer \<Rightarrow> PodRef \<Rightarrow> string \<Rightarrow> ('w, Checkpoint option) act" where
  "ac_CheckpointWithGeneration c ref generation =
     (if \<not> validArchiveGeneration generation then throw (New ''durable archive generation is unavailable'')
      else
        (case ac_store c of
           None \<Rightarrow> throw (New ''agent-driven checkpoint requires a durable store'')
         | Some store \<Rightarrow>
             bindE (wrapE ''checkpoint pod'' (hc_CheckpointWithGeneration (ac_client c) (pr_Name ref) generation)) (\<lambda>(rc, checkpointID).
             if checkpointID \<noteq> generation then throw (New ''agent returned another generation'')
             else
               bindE (wrapE ''store checkpoint archive'' (cs_Put store (agentCheckpointKey (pr_Name ref) generation) rc)) (\<lambda>uri.
               case bs_CloseErr rc of
                 Some e \<Rightarrow> throw (Errorf ''close checkpoint stream'' [e])
               | None \<Rightarrow> (\<lambda>w. case ac_now c w of (now, w') \<Rightarrow>
                   ret (Some \<lparr>cp_Ref = uri, cp_SizeBytes = int (length (bs_Bytes rc)), cp_CreatedAt = now,
                              cp_Reclaimed = ''pod '' @ pr_Name ref, cp_AbortToken = checkpointID\<rparr>) w')))))"

definition ac_AbortCheckpoint :: "'w AgentCheckpointer \<Rightarrow> PodRef \<Rightarrow> Checkpoint option \<Rightarrow> ('w, unit) act" where
  "ac_AbortCheckpoint c ref cp =
     (case cp of
        None \<Rightarrow> throw (New ''checkpoint generation ID is empty'')
      | Some p \<Rightarrow>
          if cp_AbortToken p = [] then throw (New ''checkpoint generation ID is empty'')
          else hc_AbortCheckpoint (ac_client c) (pr_Name ref) (cp_AbortToken p))"

definition ac_Restore :: "'w AgentCheckpointer \<Rightarrow> Checkpoint option \<Rightarrow> PodRef \<Rightarrow> ('w, unit) act" where
  "ac_Restore c cp into =
     (case cp of
        None \<Rightarrow> throw (New ''checkpoint ref is empty'')
      | Some p \<Rightarrow>
          if cp_Ref p = [] then throw (New ''checkpoint ref is empty'')
          else
            (case ac_store c of
               None \<Rightarrow> throw (New ''restore requires a durable store'')
             | Some store \<Rightarrow>
                 bindE (wrapE ''fetch checkpoint'' (cs_Get store (cp_Ref p))) (\<lambda>rc.
                 wrapE ''restore checkpoint'' (hc_Restore (ac_client c) (pr_Name into) rc))))"

definition agent_checkpointer :: "'w AgentCheckpointer \<Rightarrow> 'w Checkpointer" where
  "agent_checkpointer c =
     \<lparr>ck_Enabled = True, ck_CheckpointWithGeneration = ac_CheckpointWithGeneration c,
      ck_AbortCheckpoint = ac_AbortCheckpoint c, ck_Restore = ac_Restore c\<rparr>"

text \<open>The stub wired where archives are switched off.\<close>

definition StubCheckpointer :: "bool \<Rightarrow> ('w \<Rightarrow> time \<times> 'w) \<Rightarrow> 'w Checkpointer" where
  "StubCheckpointer enabled now =
     \<lparr>ck_Enabled = enabled,
      ck_CheckpointWithGeneration = (\<lambda>_ generation w. case now w of (t, w') \<Rightarrow>
        (Inr (Some \<lparr>cp_Ref = ''stub-checkpoint'', cp_SizeBytes = 0, cp_CreatedAt = t, cp_Reclaimed = ''stub'',
                    cp_AbortToken = generation\<rparr>), w')),
      ck_AbortCheckpoint = (\<lambda>_ _. ret ()), ck_Restore = (\<lambda>_ _. ret ())\<rparr>"

end
