(* ===== verification/Checkpointer_Laws.thy ===== *)
theory Checkpointer_Laws
  imports Checkpointer
begin

text \<open>
  An archive survives its pod: what \<open>Restore\<close> sends to the next pod's agent is what the first
  pod's agent streamed, whatever other snapshots the store took in between.
\<close>

section \<open>References\<close>

lemma IndexByte_append: "c \<notin> set xs \<Longrightarrow> IndexByte (xs @ c # ys) c = Some (length xs)"
  by (induction xs) auto

lemma parseRef_format:
  assumes "bucket \<noteq> []" "CHR ''/'' \<notin> set bucket" "key \<noteq> []"
  shows "parseRef (''s3://'' @ bucket @ ''/'' @ key) = Inr (bucket, key)"
  using assms IndexByte_append [OF assms(2), of key] by (simp add: parseRef_def)

lemma s3_key_not_Nil [simp]: "s3_key s key \<noteq> []"
  by (simp add: s3_key_def)

text \<open>The generation can be read off a key, so two attempts never share one.\<close>

definition key_generation :: "string \<Rightarrow> string" where
  "key_generation key = rev (take 32 (drop 15 (rev key)))"

lemma key_generation_key:
  assumes "length g = 32"
  shows "key_generation (s3_key s (agentCheckpointKey pod g)) = g"
proof -
  have "\<exists>pre. s3_key s (agentCheckpointKey pod g) = pre @ g @ ''/checkpoint.tar''"
    unfolding s3_key_def agentCheckpointKey_def by (cases pod) (auto simp: append_assoc [symmetric] simp del: append_assoc)
  then obtain pre where "s3_key s (agentCheckpointKey pod g) = pre @ g @ ''/checkpoint.tar''" by blast
  then show ?thesis using assms by (simp add: key_generation_def)
qed

section \<open>What the store may be relied on\<close>

text \<open>\<open>keeps_at objs m\<close>: the operation leaves the objects alone.\<close>

definition keeps_at :: "('w \<Rightarrow> string \<times> string \<rightharpoonup> string) \<Rightarrow> ('w, 'a) act \<Rightarrow> bool" where
  "keeps_at objs m = (\<forall>w r w'. m w = (r, w') \<longrightarrow> objs w' = objs w)"

text \<open>A successful \<open>PutObject\<close> stores the body under its key, no \<open>PutObject\<close> changes another key, and a
  \<open>GetObject\<close> that is read to its end gives the stored bytes.\<close>

definition object_store :: "'w S3 \<Rightarrow> ('w \<Rightarrow> string \<times> string \<rightharpoonup> string) \<Rightarrow> bool" where
  "object_store s objs =
     ((\<forall>b k body w w'. s3_PutObject s b k body w = (Inr (), w') \<longrightarrow> objs w' (b, k) = Some body) \<and>
      (\<forall>b k body w r w' bk. s3_PutObject s b k body w = (r, w') \<and> bk \<noteq> (b, k) \<longrightarrow> objs w' bk = objs w bk) \<and>
      (\<forall>b k w r w'. s3_GetObject s b k w = (Inr r, w') \<and> bs_Err r = None \<longrightarrow> objs w (b, k) = Some (bs_Bytes r)) \<and>
      (\<forall>b k. keeps_at objs (s3_GetObject s b k)) \<and>
      keeps_at objs (s3_CreateTemp s) \<and> (\<forall>bs. keeps_at objs (s3_spoolWrite s bs)) \<and> keeps_at objs (s3_spoolSeek s))"

text \<open>Pods and the clock do not write to the bucket.\<close>

definition agent_apart :: "'w AgentCheckpointer \<Rightarrow> ('w \<Rightarrow> string \<times> string \<rightharpoonup> string) \<Rightarrow> bool" where
  "agent_apart c objs =
     ((\<forall>pod. keeps_at objs (hc_Get (ac_client c) pod)) \<and> (\<forall>rq. keeps_at objs (hc_stream (ac_client c) rq)) \<and>
      (\<forall>w t w'. ac_now c w = (t, w') \<longrightarrow> objs w' = objs w))"

lemma keeps_at_ret [intro, simp]: "keeps_at objs (ret x)" by (simp add: keeps_at_def ret_def)
lemma keeps_throw [intro, simp]: "keeps_at objs (throw e)" by (simp add: keeps_at_def throw_def)
lemma keeps_lift [intro, simp]: "keeps_at objs (lift r)" by (simp add: keeps_at_def lift_def)

lemma keeps_at_bindE [intro]: "keeps_at objs m \<Longrightarrow> (\<And>x. keeps_at objs (f x)) \<Longrightarrow> keeps_at objs (bindE m f)"
  unfolding keeps_at_def bindE_def by (auto split: prod.splits sum.splits)

lemma keeps_wrapE [intro]: "keeps_at objs m \<Longrightarrow> keeps_at objs (wrapE what m)"
  unfolding keeps_at_def wrapE_def tryE_def by (auto simp: ret_def throw_def split: prod.splits sum.splits)

lemma keeps_agent:
  assumes "agent_apart c objs"
  shows "keeps_at objs (hc_CheckpointWithGeneration (ac_client c) pod g)" "keeps_at objs (hc_Restore (ac_client c) pod a)"
proof -
  have r: "keeps_at objs (resolve (ac_client c) pod)"
    using assms by (auto simp: resolve_def agent_apart_def intro!: keeps_at_bindE keeps_wrapE)
  show "keeps_at objs (hc_CheckpointWithGeneration (ac_client c) pod g)" "keeps_at objs (hc_Restore (ac_client c) pod a)"
    using assms by (auto simp: hc_CheckpointWithGeneration_def hc_Restore_def agent_apart_def intro!: keeps_at_bindE keeps_wrapE r)
qed

lemma wrapE_Inr [simp]: "wrapE what m w = (Inr x, w') \<longleftrightarrow> m w = (Inr x, w')"
  by (auto simp: wrapE_def tryE_def ret_def throw_def split: prod.splits sum.splits)

lemma keeps_atD: "keeps_at objs m \<Longrightarrow> m w = (r, w') \<Longrightarrow> objs w' = objs w"
  by (simp add: keeps_at_def)

lemma copy_keeps: "object_store s objs \<Longrightarrow> keeps_at objs (copy_to_spool s r)"
  unfolding copy_to_spool_def object_store_def by (intro keeps_at_bindE) (auto split: option.splits)

section \<open>Put and Get\<close>

lemma s3_Put_ok:
  assumes "object_store s objs" "s3_Put s key r w = (Inr uri, w')"
  shows "uri = ''s3://'' @ s3_bucket s @ ''/'' @ s3_key s key \<and> bs_Err r = None \<and> objs w' (s3_bucket s, s3_key s key) = Some (bs_Bytes r)"
  using assms
  by (auto simp: s3_Put_def Let_def bindE_Inr object_store_def copy_to_spool_def ret_def throw_def split: option.splits)

text \<open>The whole of an operation touches at most one key.\<close>

definition only_puts :: "('w \<Rightarrow> string \<times> string \<rightharpoonup> string) \<Rightarrow> string \<times> string \<Rightarrow> ('w, 'a) act \<Rightarrow> bool" where
  "only_puts objs bk m = (\<forall>w r w' bk'. m w = (r, w') \<and> bk' \<noteq> bk \<longrightarrow> objs w' bk' = objs w bk')"

lemma keeps_only: "keeps_at objs m \<Longrightarrow> only_puts objs bk m" by (auto simp: keeps_at_def only_puts_def)

lemma only_puts_bindE [intro]: "only_puts objs bk m \<Longrightarrow> (\<And>x. only_puts objs bk (f x)) \<Longrightarrow> only_puts objs bk (bindE m f)"
  unfolding only_puts_def bindE_def by (auto split: prod.splits sum.splits)

lemma only_wrapE [intro]: "only_puts objs bk m \<Longrightarrow> only_puts objs bk (wrapE what m)"
  unfolding only_puts_def wrapE_def tryE_def by (auto simp: ret_def throw_def split: prod.splits sum.splits)

lemma s3_Put_only:
  assumes "object_store s objs"
  shows "only_puts objs (s3_bucket s, s3_key s key) (s3_Put s key r)"
proof -
  have "only_puts objs (s3_bucket s, s3_key s key) (s3_PutObject s (s3_bucket s) (s3_key s key) (bs_Bytes r))"
    using assms by (auto simp: object_store_def only_puts_def)
  then show ?thesis
    using assms copy_keeps [OF assms, of r] unfolding s3_Put_def Let_def
    by (intro only_puts_bindE only_wrapE) (auto simp: object_store_def intro: keeps_only)
qed

lemma keeps_now: "agent_apart c objs \<Longrightarrow> keeps_at objs (\<lambda>w. case ac_now c w of (t, w') \<Rightarrow> ret (f t) w')"
  by (auto simp: agent_apart_def keeps_at_def ret_def split: prod.splits)

lemma checkpoint_only:
  assumes "object_store s objs" "agent_apart c objs" "ac_store c = Some (s3_store s)"
  shows "only_puts objs (s3_bucket s, s3_key s (agentCheckpointKey (pr_Name ref) g)) (ac_CheckpointWithGeneration c ref g)"
proof -
  have "only_puts objs (s3_bucket s, s3_key s (agentCheckpointKey (pr_Name ref) g))
      (wrapE what (hc_CheckpointWithGeneration (ac_client c) (pr_Name ref) g))" for what
    by (intro only_wrapE keeps_only keeps_agent(1) assms(2))
  moreover have "only_puts objs (s3_bucket s, s3_key s (agentCheckpointKey (pr_Name ref) g))
      (wrapE what (cs_Put (s3_store s) (agentCheckpointKey (pr_Name ref) g) rc))" for what rc
    using s3_Put_only [OF assms(1)] by (auto simp: s3_store_def)
  ultimately show ?thesis
    unfolding ac_CheckpointWithGeneration_def assms(3)
    by (auto intro!: only_puts_bindE keeps_only [OF keeps_now [OF assms(2)]] keeps_only [OF keeps_throw] split: option.split)
qed

lemma restore_keeps:
  assumes "object_store s objs" "agent_apart c objs" "ac_store c = Some (s3_store s)"
  shows "keeps_at objs (ac_Restore c cp into)"
  using assms(1)
  by (auto simp: ac_Restore_def assms(3) s3_store_def s3_Get_def object_store_def intro!: keeps_at_bindE keeps_wrapE keeps_agent(2) [OF assms(2)]
      split: option.splits)

section \<open>Survival\<close>

text \<open>What may happen to the store between a snapshot of generation \<open>g\<close> and its restore: snapshots
  under other generations, whatever their outcome, and restores.\<close>

inductive meanwhile :: "'w AgentCheckpointer \<Rightarrow> string \<Rightarrow> 'w \<Rightarrow> 'w \<Rightarrow> bool" for c g where
  meanwhile_refl: "meanwhile c g w w"
| meanwhile_checkpoint: "meanwhile c g w w1 \<Longrightarrow> g' \<noteq> g \<Longrightarrow> ac_CheckpointWithGeneration c ref g' w1 = (r, w2) \<Longrightarrow> meanwhile c g w w2"
| meanwhile_restore: "meanwhile c g w w1 \<Longrightarrow> ac_Restore c cp into w1 = (r, w2) \<Longrightarrow> meanwhile c g w w2"

lemma checkpoint_other_generation:
  assumes "object_store s objs" "agent_apart c objs" "ac_store c = Some (s3_store s)"
    and "ac_CheckpointWithGeneration c ref g' w = (r, w')" "g' \<noteq> g" "length g = 32"
  shows "objs w' (s3_bucket s, s3_key s (agentCheckpointKey pod g)) = objs w (s3_bucket s, s3_key s (agentCheckpointKey pod g))"
proof (cases "validArchiveGeneration g'")
  case True
  then have "s3_key s (agentCheckpointKey pod g) \<noteq> s3_key s (agentCheckpointKey (pr_Name ref) g')"
    using assms(5,6) key_generation_key [of g s pod] key_generation_key [of g' s "pr_Name ref"]
    by (auto simp: validArchiveGeneration_def)
  then show ?thesis using checkpoint_only [OF assms(1-3), of ref g'] assms(4) by (auto simp: only_puts_def)
next
  case False
  then show ?thesis using assms(4) by (simp add: ac_CheckpointWithGeneration_def throw_def)
qed

lemma meanwhile_kept:
  assumes "meanwhile c g w w'" "object_store s objs" "agent_apart c objs" "ac_store c = Some (s3_store s)" "length g = 32"
  shows "objs w' (s3_bucket s, s3_key s (agentCheckpointKey pod g)) = objs w (s3_bucket s, s3_key s (agentCheckpointKey pod g))"
  using assms(1)
  by induction (auto simp: checkpoint_other_generation [OF assms(2-4) _ _ assms(5)] keeps_atD [OF restore_keeps [OF assms(2-4)]])

lemma checkpoint_ok:
  assumes "object_store s objs" "agent_apart c objs" "ac_store c = Some (s3_store s)"
    and "ac_CheckpointWithGeneration c ref g w = (Inr cp, w1)"
  shows "\<exists>rc w0 p. hc_CheckpointWithGeneration (ac_client c) (pr_Name ref) g w = (Inr (rc, g), w0) \<and> cp = Some p \<and>
      cp_AbortToken p = g \<and> cp_SizeBytes p = int (length (bs_Bytes rc)) \<and> bs_Err rc = None \<and> length g = 32 \<and>
      cp_Ref p = ''s3://'' @ s3_bucket s @ ''/'' @ s3_key s (agentCheckpointKey (pr_Name ref) g) \<and>
      objs w1 (s3_bucket s, s3_key s (agentCheckpointKey (pr_Name ref) g)) = Some (bs_Bytes rc)"
proof -
  from assms(4) obtain rc w0 uri w' where
    rc: "hc_CheckpointWithGeneration (ac_client c) (pr_Name ref) g w = (Inr (rc, g), w0)" and g: "length g = 32"
    and put: "s3_Put s (agentCheckpointKey (pr_Name ref) g) rc w0 = (Inr uri, w')"
    and cp: "(\<lambda>w. case ac_now c w of (now, w') \<Rightarrow>
      ret (Some \<lparr>cp_Ref = uri, cp_SizeBytes = int (length (bs_Bytes rc)), cp_CreatedAt = now,
                 cp_Reclaimed = ''pod '' @ pr_Name ref, cp_AbortToken = g\<rparr>) w') w' = (Inr cp, w1)"
    by (auto simp: ac_CheckpointWithGeneration_def assms(3) s3_store_def bindE_Inr throw_def validArchiveGeneration_def
        split: if_splits option.splits)
  have "objs w1 = objs w'" using keeps_atD [OF keeps_now [OF assms(2)] cp] .
  with rc g s3_Put_ok [OF assms(1) put] cp show ?thesis by (auto simp: ret_def split: prod.splits)
qed

lemma restore_ok:
  assumes "object_store s objs" "ac_store c = Some (s3_store s)" "s3_bucket s \<noteq> []" "CHR ''/'' \<notin> set (s3_bucket s)" "key \<noteq> []"
    and "cp_Ref p = ''s3://'' @ s3_bucket s @ ''/'' @ key" "ac_Restore c (Some p) into w = (Inr (), w')"
  shows "\<exists>r ip resp wa wb. hc_stream (ac_client c) (restore_request (ac_client c) ip r) wa = (Inr resp, wb) \<and> hp_Status resp = 200 \<and>
      (bs_Err r = None \<longrightarrow> objs w (s3_bucket s, key) = Some (bs_Bytes r))"
proof -
  from assms(7) obtain r wg where get: "s3_Get s (cp_Ref p) w = (Inr r, wg)"
    and res: "hc_Restore (ac_client c) (pr_Name into) r wg = (Inr (), w')"
    by (auto simp: ac_Restore_def assms(2,6) s3_store_def bindE_Inr)
  from get have "s3_GetObject s (s3_bucket s) key w = (Inr r, wg)"
    using parseRef_format [OF assms(3-5)] by (simp add: s3_Get_def assms(6) bindE_Inr lift_def)
  with assms(1) have "bs_Err r = None \<longrightarrow> objs w (s3_bucket s, key) = Some (bs_Bytes r)" by (auto simp: object_store_def)
  with res show ?thesis by (fastforce simp: hc_Restore_def bindE_Inr throw_def split: if_splits)
qed

text \<open>C33: an archive survives its pod. When a snapshot succeeds and its checkpoint is restored later,
  with any snapshots of other generations and any restores in between, the agent of the new pod
  accepted a request whose body, read to its end, is byte for byte the archive the first agent
  streamed for that generation; the checkpoint records that archive's length and the generation.\<close>

theorem archive_survives:
  assumes "object_store s objs" "agent_apart c objs" "ac_store c = Some (s3_store s)"
    and "s3_bucket s \<noteq> []" "CHR ''/'' \<notin> set (s3_bucket s)"
    and "ac_CheckpointWithGeneration c ref g w = (Inr cp, w1)"
    and "meanwhile c g w1 w2"
    and "ac_Restore c cp into w2 = (Inr (), w3)"
  shows "\<exists>rc w0 p r ip resp wa wb.
           hc_CheckpointWithGeneration (ac_client c) (pr_Name ref) g w = (Inr (rc, g), w0) \<and> bs_Err rc = None \<and>
           cp = Some p \<and> cp_AbortToken p = g \<and> cp_SizeBytes p = int (length (bs_Bytes rc)) \<and>
           hc_stream (ac_client c) (restore_request (ac_client c) ip r) wa = (Inr resp, wb) \<and> hp_Status resp = 200 \<and>
           (bs_Err r = None \<longrightarrow> bs_Bytes r = bs_Bytes rc)"
proof -
  let ?key = "s3_key s (agentCheckpointKey (pr_Name ref) g)"
  from checkpoint_ok [OF assms(1-3,6)] obtain rc w0 p where made:
    "hc_CheckpointWithGeneration (ac_client c) (pr_Name ref) g w = (Inr (rc, g), w0)" "bs_Err rc = None" "cp = Some p"
    "cp_AbortToken p = g" "cp_SizeBytes p = int (length (bs_Bytes rc))" "length g = 32"
    "cp_Ref p = ''s3://'' @ s3_bucket s @ ''/'' @ ?key" "objs w1 (s3_bucket s, ?key) = Some (bs_Bytes rc)" by blast
  have "objs w2 (s3_bucket s, ?key) = Some (bs_Bytes rc)"
    using meanwhile_kept [OF assms(7,1-3) made(6)] made(8) by simp
  with restore_ok [OF assms(1,3-5) _ made(7), of into w2 w3] assms(8) made show ?thesis by fastforce
qed

text \<open>A bucket in memory and an agent that streams one archive and accepts every restore.\<close>

definition sample_s3 :: "(string \<times> string \<rightharpoonup> string) S3" where
  "sample_s3 = \<lparr>s3_PutObject = (\<lambda>b k body w. (Inr (), w((b, k) \<mapsto> body))),
     s3_GetObject = (\<lambda>b k w. (case w (b, k) of None \<Rightarrow> Inl (New ''NoSuchKey'') | Some x \<Rightarrow> Inr (bytes_body x), w)),
     s3_CreateTemp = ret (), s3_spoolWrite = (\<lambda>_. ret ()), s3_spoolSeek = ret (), s3_bucket = ''b'', s3_prefix = ''p''\<rparr>"

definition sample_agent :: "(string \<times> string \<rightharpoonup> string) HTTPClient" where
  "sample_agent = \<lparr>hc_Get = (\<lambda>_. ret \<lparr>ps_Phase = ''Running'', ps_PodIP = ''10.0.0.1''\<rparr>), hc_port = AgentPort,
     hc_http = (\<lambda>_. throw (New ''unused'')),
     hc_stream = (\<lambda>rq. ret \<lparr>hp_Status = 200, hp_CheckpointID = hq_CheckpointID rq, hp_ContentType = [],
       hp_Body = bytes_body ''tar'', hp_Json = WireEmpty\<rparr>)\<rparr>"

definition sample_checkpointer :: "(string \<times> string \<rightharpoonup> string) AgentCheckpointer" where
  "sample_checkpointer = \<lparr>ac_client = sample_agent, ac_store = Some (s3_store sample_s3), ac_now = (\<lambda>w. (0, w))\<rparr>"

definition sample_generation :: string where "sample_generation = replicate 32 (CHR ''0'')"

lemma sample_store: "object_store sample_s3 (\<lambda>w. w)"
  by (auto simp: object_store_def sample_s3_def keeps_at_def ret_def bytes_body_def no_body_def split: option.splits)

lemma sample_apart: "agent_apart sample_checkpointer (\<lambda>w. w)"
  by (auto simp: agent_apart_def sample_checkpointer_def sample_agent_def keeps_at_def ret_def)

definition sample_key :: string where "sample_key = s3_key sample_s3 (agentCheckpointKey ''pod'' sample_generation)"

definition sample_checkpoint :: Checkpoint where
  "sample_checkpoint = \<lparr>cp_Ref = ''s3://b/'' @ sample_key, cp_SizeBytes = 3, cp_CreatedAt = 0, cp_Reclaimed = ''pod pod'',
     cp_AbortToken = sample_generation\<rparr>"

lemma sample_valid: "validArchiveGeneration sample_generation"
  by (simp add: validArchiveGeneration_def sample_generation_def list_all_iff lower_hex_def)

lemma sample_taken:
  "ac_CheckpointWithGeneration sample_checkpointer (name_ref ''pod'') sample_generation (\<lambda>_. None) =
   (Inr (Some sample_checkpoint), [(''b'', sample_key) \<mapsto> ''tar''])"
  by (simp add: ac_CheckpointWithGeneration_def sample_valid sample_checkpointer_def s3_store_def bindE_def wrapE_def tryE_def
      hc_CheckpointWithGeneration_def resolve_def sample_agent_def PodRunning_def ret_def s3_Put_def copy_to_spool_def sample_s3_def
      bytes_body_def no_body_def plain_request_def sample_checkpoint_def sample_key_def s3_key_def Let_def)

lemma sample_restored:
  "ac_Restore sample_checkpointer (Some sample_checkpoint) (name_ref ''next'') [(''b'', sample_key) \<mapsto> ''tar''] =
   (Inr (), [(''b'', sample_key) \<mapsto> ''tar''])"
proof -
  have "parseRef (''s3://b/'' @ sample_key) = Inr (''b'', sample_key)"
    using parseRef_format [of "''b''" sample_key] by (simp add: sample_key_def)
  then show ?thesis
    by (simp add: ac_Restore_def sample_checkpointer_def sample_checkpoint_def s3_store_def s3_Get_def bindE_def wrapE_def tryE_def
        lift_def sample_s3_def hc_Restore_def resolve_def sample_agent_def PodRunning_def ret_def)
qed

theorem archive_survives_witness:
  "\<exists>rc w0 p r ip resp wa wb.
     hc_CheckpointWithGeneration sample_agent ''pod'' sample_generation (\<lambda>_. None) = (Inr (rc, sample_generation), w0) \<and> bs_Err rc = None \<and>
     Some sample_checkpoint = Some p \<and> cp_AbortToken p = sample_generation \<and> cp_SizeBytes p = int (length (bs_Bytes rc)) \<and>
     hc_stream sample_agent (restore_request sample_agent ip r) wa = (Inr resp, wb) \<and> hp_Status resp = 200 \<and>
     (bs_Err r = None \<longrightarrow> bs_Bytes r = bs_Bytes rc)"
proof -
  have wired: "ac_store sample_checkpointer = Some (s3_store sample_s3)" "ac_client sample_checkpointer = sample_agent"
    "s3_bucket sample_s3 \<noteq> []" "CHR ''/'' \<notin> set (s3_bucket sample_s3)"
    by (simp_all add: sample_checkpointer_def sample_s3_def)
  show ?thesis
    using archive_survives [OF sample_store sample_apart wired(1,3,4) sample_taken meanwhile_refl sample_restored]
    unfolding wired(2) name_ref_name .
qed

end
