(* ===== verification/File_System.thy ===== *)
theory File_System
  imports Session_Model "HOL-Library.List_Lexorder" "HOL-Library.Sublist"
begin

text \<open>
  The part of the operating system the agent's archive code runs on: a tree of directories, files
  and symbolic links, path lookup that follows links, and the calls of package \<open>os\<close> the code makes.
  An absolute, cleaned path is the list of its components. The tree is an association list from paths
  to nodes. Every call may fail for a reason outside the tree (\<open>os_faults\<close>: one entry per call, True
  for a failure); otherwise it fails exactly as the tree makes it fail. Permissions are recorded, not enforced:
  the agent owns the tree it works on.
\<close>

type_synonym path = "string list"

datatype node =
    Dir nat time \<comment> \<open>permission bits, modification time\<close>
  | Regular string nat time
  | Symlink string
  | Special \<comment> \<open>socket, device, pipe\<close>

type_synonym files = "(path \<times> node) list"

record os =
  os_files :: files
  os_now :: time
  os_suffix :: string \<comment> \<open>the random suffix of temporary names\<close>
  os_faults :: "bool list"

abbreviation get :: "files \<Rightarrow> path \<rightharpoonup> node" where
  "get fs \<equiv> map_of fs"

definition put :: "path \<Rightarrow> node \<Rightarrow> files \<Rightarrow> files" where
  "put p n fs = (p, n) # fs"

text \<open>Removing a path and everything below it.\<close>

definition cut :: "path \<Rightarrow> files \<Rightarrow> files" where
  "cut p fs = filter (\<lambda>(q, _). \<not> prefix p q) fs"

definition relocate :: "path \<Rightarrow> path \<Rightarrow> path \<Rightarrow> path" where
  "relocate old new q = (if prefix old q then new @ drop (length old) q else q)"

definition move :: "path \<Rightarrow> path \<Rightarrow> files \<Rightarrow> files" where
  "move old new fs = map (\<lambda>(q, n). (relocate old new q, n)) (cut new fs)"

lemma get_put [simp]: "get (put p n fs) q = (if q = p then Some n else get fs q)"
  by (simp add: put_def)

lemma get_cut [simp]: "get (cut p fs) q = (if prefix p q then None else get fs q)"
  unfolding cut_def by (induction fs) auto

lemma get_move:
  assumes "\<not> prefix old new" "\<not> prefix new old"
  shows "get (move old new fs) q =
    (if prefix new q then get fs (old @ drop (length new) q) else if prefix old q then None else get fs q)"
proof (induction fs)
  case Nil
  then show ?case by (simp add: move_def cut_def)
next
  case (Cons e fs)
  obtain p n where e: "e = (p, n)" by (cases e)
  consider "prefix new p" | "prefix old p" "\<not> prefix new p" | "\<not> prefix old p" "\<not> prefix new p" by blast
  then show ?case
  proof cases
    case 1
    then have "p \<noteq> old @ drop (length new) q" if "prefix new q"
      using that assms by (metis append_take_drop_id prefixI prefix_same_cases)
    moreover have "move old new (e # fs) = move old new fs" using 1 by (simp add: move_def cut_def e)
    ultimately show ?thesis using Cons 1 by (auto simp: e)
  next
    case 2
    then obtain p' where p: "p = old @ p'" by (auto simp: prefix_def)
    have "move old new (e # fs) = (new @ p', n) # move old new fs"
      using 2 by (simp add: move_def cut_def e relocate_def p)
    moreover have "\<not> prefix new (old @ p')" using 2 p by simp
    ultimately show ?thesis using Cons 2 by (auto simp: e p prefix_def)
  next
    case 3
    have "move old new (e # fs) = (p, n) # move old new fs" using 3 by (simp add: move_def cut_def e relocate_def)
    moreover have "p \<noteq> old @ drop (length new) q" using 3 by auto
    ultimately show ?thesis using Cons 3 by (auto simp: e)
  qed
qed

section \<open>Errors\<close>

definition ErrNotExist :: goerr where "ErrNotExist = New ''file does not exist''"
definition EEXIST :: goerr where "EEXIST = New ''file exists''"
definition ENOTDIR :: goerr where "ENOTDIR = New ''not a directory''"
definition EISDIR :: goerr where "EISDIR = New ''is a directory''"
definition EINVAL :: goerr where "EINVAL = New ''invalid argument''"
definition ELOOP :: goerr where "ELOOP = New ''too many levels of symbolic links''"
definition EIO :: goerr where "EIO = New ''input/output error''"

lemmas errno_defs = ErrNotExist_def EEXIST_def ENOTDIR_def EISDIR_def EINVAL_def ELOOP_def EIO_def

section \<open>Path lookup\<close>

fun split_on :: "char \<Rightarrow> string \<Rightarrow> string list" where
  "split_on sep [] = [[]]"
| "split_on sep (c # cs) =
     (if c = sep then [] # split_on sep cs else (c # hd (split_on sep cs)) # tl (split_on sep cs))"

definition IsAbs :: "string \<Rightarrow> bool" where
  "IsAbs p = is_prefix ''/'' p"

text \<open>\<open>namei\<close>: from the directory \<open>cur\<close>, the path the components lead to; \<open>follow\<close> says whether a link at
  the end is followed, \<open>n\<close> how many more links may be (Linux allows 40 per lookup). The last
  component need not exist.\<close>

fun namei :: "files \<Rightarrow> bool \<Rightarrow> nat \<Rightarrow> path \<Rightarrow> string list \<Rightarrow> goerr + path" where
  "namei fs follow n cur [] = Inr cur"
| "namei fs follow n cur (c # cs) =
     (if c = [] \<or> c = ''.'' then namei fs follow n cur cs
      else if c = ''..'' then namei fs follow n (butlast cur) cs
      else
        (case get fs (cur @ [c]) of
           None \<Rightarrow> if cs = [] then Inr (cur @ [c]) else Inl ErrNotExist
         | Some (Dir _ _) \<Rightarrow> namei fs follow n (cur @ [c]) cs
         | Some (Symlink t) \<Rightarrow>
             if cs = [] \<and> \<not> follow then Inr (cur @ [c])
             else (case n of
                     0 \<Rightarrow> Inl ELOOP
                   | Suc n' \<Rightarrow> namei fs follow n' (if IsAbs t then [] else cur) (split_on (CHR ''/'') t @ cs))
         | Some _ \<Rightarrow> if cs = [] then Inr (cur @ [c]) else Inl ENOTDIR))"

definition max_links :: nat where "max_links = 40"

definition lookup :: "bool \<Rightarrow> path \<Rightarrow> files \<Rightarrow> goerr + path" where
  "lookup follow p fs = namei fs follow max_links [] p"

section \<open>Calls\<close>

text \<open>One call: it fails from outside, or does what the tree says.\<close>

definition syscall :: "(os \<Rightarrow> (goerr + 'a) \<times> os) \<Rightarrow> (os, 'a) act" where
  "syscall f w =
     (case os_faults w of
        [] \<Rightarrow> f w
      | fault # rest \<Rightarrow> if fault then (Inl EIO, w\<lparr>os_faults := rest\<rparr>) else f (w\<lparr>os_faults := rest\<rparr>))"

definition node_at :: "path \<Rightarrow> os \<Rightarrow> goerr + node" where
  "node_at p w = (case get (os_files w) p of None \<Rightarrow> Inl ErrNotExist | Some n \<Rightarrow> Inr n)"

definition root_node :: node where "root_node = Dir 493 0"

definition stat_at :: "bool \<Rightarrow> path \<Rightarrow> os \<Rightarrow> goerr + node" where
  "stat_at follow p w =
     (case lookup follow p (os_files w) of
        Inl e \<Rightarrow> Inl e
      | Inr q \<Rightarrow> if q = [] then Inr root_node else node_at q w)"

definition Lstat :: "path \<Rightarrow> (os, node) act" where
  "Lstat p = syscall (\<lambda>w. (stat_at False p w, w))"

definition Stat :: "path \<Rightarrow> (os, node) act" where
  "Stat p = syscall (\<lambda>w. (stat_at True p w, w))"

definition with_mtime :: "time \<Rightarrow> node \<Rightarrow> node" where
  "with_mtime t n = (case n of Dir m _ \<Rightarrow> Dir m t | Regular d m _ \<Rightarrow> Regular d m t | _ \<Rightarrow> n)"

definition with_perm :: "nat \<Rightarrow> node \<Rightarrow> node" where
  "with_perm m n = (case n of Dir _ t \<Rightarrow> Dir m t | Regular d _ t \<Rightarrow> Regular d m t | _ \<Rightarrow> n)"

text \<open>A change of a directory's entries moves its modification time.\<close>

definition stamp :: "path \<Rightarrow> time \<Rightarrow> files \<Rightarrow> files" where
  "stamp d t fs = (case get fs d of Some (Dir m t') \<Rightarrow> put d (Dir m t) fs | _ \<Rightarrow> fs)"

definition set_files :: "files \<Rightarrow> os \<Rightarrow> os" where
  "set_files fs w = w\<lparr>os_files := fs\<rparr>"

text \<open>Creating a new entry. A link at the end of the path is not followed: the name is taken.\<close>

definition create :: "path \<Rightarrow> (time \<Rightarrow> node) \<Rightarrow> (os, unit) act" where
  "create p mk = syscall (\<lambda>w.
     case lookup False p (os_files w) of
       Inl e \<Rightarrow> (Inl e, w)
     | Inr q \<Rightarrow>
         if q = [] \<or> get (os_files w) q \<noteq> None then (Inl EEXIST, w)
         else (Inr (), set_files (stamp (butlast q) (os_now w) (put q (mk (os_now w)) (os_files w))) w))"

definition Mkdir :: "path \<Rightarrow> nat \<Rightarrow> (os, unit) act" where
  "Mkdir p perm = create p (Dir perm)"

definition os_Symlink :: "string \<Rightarrow> path \<Rightarrow> (os, unit) act" where
  "os_Symlink target p = create p (\<lambda>_. Symlink target)"

text \<open>\<open>OpenFile\<close> with \<open>O_CREATE|O_EXCL\<close>, and what a copy into the opened file leaves.\<close>

definition OpenExcl :: "path \<Rightarrow> nat \<Rightarrow> (os, unit) act" where
  "OpenExcl p perm = create p (Regular [] perm)"

definition update_node :: "path \<Rightarrow> (time \<Rightarrow> node \<Rightarrow> node) \<Rightarrow> (os, unit) act" where
  "update_node p f = syscall (\<lambda>w.
     case lookup True p (os_files w) of
       Inl e \<Rightarrow> (Inl e, w)
     | Inr q \<Rightarrow>
         (case get (os_files w) q of
            None \<Rightarrow> (Inl ErrNotExist, w)
          | Some n \<Rightarrow> (Inr (), set_files (put q (f (os_now w) n) (os_files w)) w)))"

definition WriteAll :: "path \<Rightarrow> string \<Rightarrow> (os, unit) act" where
  "WriteAll p bs = update_node p (\<lambda>now n. case n of Regular _ m _ \<Rightarrow> Regular bs m now | _ \<Rightarrow> n)"

definition Chmod :: "path \<Rightarrow> nat \<Rightarrow> (os, unit) act" where
  "Chmod p perm = update_node p (\<lambda>_. with_perm perm)"

definition Chtimes :: "path \<Rightarrow> time \<Rightarrow> (os, unit) act" where
  "Chtimes p t = update_node p (\<lambda>_. with_mtime t)"

definition Readlink :: "path \<Rightarrow> (os, string) act" where
  "Readlink p = bindE (Lstat p) (\<lambda>n. case n of Symlink t \<Rightarrow> ret t | _ \<Rightarrow> throw EINVAL)"

definition ReadFile :: "path \<Rightarrow> (os, string) act" where
  "ReadFile p = bindE (Stat p) (\<lambda>n. case n of Regular bs _ _ \<Rightarrow> ret bs | _ \<Rightarrow> throw EISDIR)"

text \<open>Removal and renaming act on the entry itself, a link included. Only directories are renamed here, and a
  taken name refuses one.\<close>

definition os_Remove :: "path \<Rightarrow> (os, unit) act" where
  "os_Remove p = syscall (\<lambda>w.
     case lookup False p (os_files w) of
       Inl e \<Rightarrow> (Inl e, w)
     | Inr q \<Rightarrow>
         if q = [] \<or> get (os_files w) q = None then (Inl ErrNotExist, w)
         else if list_ex (\<lambda>(r, _). strict_prefix q r \<and> get (os_files w) r \<noteq> None) (os_files w) then (Inl (New ''directory not empty''), w)
         else (Inr (), set_files (stamp (butlast q) (os_now w) (cut q (os_files w))) w))"

definition RemoveAll :: "path \<Rightarrow> (os, unit) act" where
  "RemoveAll p = syscall (\<lambda>w.
     case lookup False p (os_files w) of
       Inl e \<Rightarrow> if errors_is e ErrNotExist then (Inr (), w) else (Inl e, w)
     | Inr q \<Rightarrow>
         if q = [] then (Inl EINVAL, w)
         else if get (os_files w) q = None then (Inr (), w)
         else (Inr (), set_files (stamp (butlast q) (os_now w) (cut q (os_files w))) w))"

definition Rename :: "path \<Rightarrow> path \<Rightarrow> (os, unit) act" where
  "Rename old new = syscall (\<lambda>w.
     case lookup False old (os_files w) of
       Inl e \<Rightarrow> (Inl e, w)
     | Inr p \<Rightarrow>
         (case lookup False new (os_files w) of
            Inl e \<Rightarrow> (Inl e, w)
          | Inr q \<Rightarrow>
              if get (os_files w) p = None then (Inl ErrNotExist, w)
              else if q = [] \<or> get (os_files w) q \<noteq> None then (Inl EEXIST, w)
              else if prefix p q then (Inl EINVAL, w)
              else (Inr (), set_files (stamp (butlast p) (os_now w) (stamp (butlast q) (os_now w) (move p q (os_files w)))) w)))"

text \<open>\<open>os.MkdirAll\<close>.\<close>

definition is_dir :: "node \<Rightarrow> bool" where
  "is_dir n = (case n of Dir _ _ \<Rightarrow> True | _ \<Rightarrow> False)"

definition is_regular :: "node \<Rightarrow> bool" where
  "is_regular n = (case n of Regular _ _ _ \<Rightarrow> True | _ \<Rightarrow> False)"

fun mkdir_all :: "nat \<Rightarrow> path \<Rightarrow> nat \<Rightarrow> (os, unit) act" where
  "mkdir_all 0 p perm = ret ()"
| "mkdir_all (Suc k) p perm =
     tryE (Stat p) (\<lambda>r.
       case r of
         Inr n \<Rightarrow> if is_dir n then ret () else throw ENOTDIR
       | Inl _ \<Rightarrow>
           thenE (mkdir_all k (butlast p) perm)
             (tryE (Mkdir p perm) (\<lambda>r.
               case r of
                 Inr _ \<Rightarrow> ret ()
               | Inl e \<Rightarrow> tryE (Lstat p) (\<lambda>r. case r of Inr n \<Rightarrow> if is_dir n then ret () else throw e | Inl _ \<Rightarrow> throw e))))"

definition MkdirAll :: "path \<Rightarrow> nat \<Rightarrow> (os, unit) act" where
  "MkdirAll p perm = mkdir_all (length p) p perm"

definition MkdirTemp :: "path \<Rightarrow> string \<Rightarrow> (os, path) act" where
  "MkdirTemp d pattern w = thenE (Mkdir (d @ [pattern @ os_suffix w]) 448) (ret (d @ [pattern @ os_suffix w])) w"

text \<open>\<open>filepath.WalkDir\<close> visits a tree in lexical order, a directory before its entries; it does not
  follow links. These are the paths below \<open>d\<close>, relative to it, in the lexicographic order of their components.\<close>

definition walk :: "path \<Rightarrow> files \<Rightarrow> path list" where
  "walk d fs = sort (remdups (map (\<lambda>(p, _). drop (length d) p) (filter (\<lambda>(p, _). prefix d p) fs)))"

lemma set_walk: "set (walk d fs) = {r. get fs (d @ r) \<noteq> None}"
  by (force simp: walk_def prefix_def map_of_eq_None_iff image_iff)

end
