(* ===== verification/State_Archive.thy ===== *)
theory State_Archive
  imports File_System Agent_Client
begin

text \<open>
  \<open>data-plane/cmd/agent/state_archive.go\<close> and \<open>archive_mtime.go\<close>: writing a workload's files into an archive
  and restoring one. A tar stream is the list of its entries, each with the bytes its body gives and
  how the body ended, and how the stream itself ended; the encoding of an entry is \<open>archive/tar\<close>'s, of which
  only the space a header takes matters (\<open>hdr_bytes\<close>). Names in an archive are byte strings; paths
  handed to the operating system are component lists (\<open>File_System\<close>).
\<close>

section \<open>Slash paths\<close>

fun clean_go :: "bool \<Rightarrow> string list \<Rightarrow> string list \<Rightarrow> string list" where
  "clean_go rooted acc [] = rev acc"
| "clean_go rooted acc (c # cs) =
     (if c = [] \<or> c = ''.'' then clean_go rooted acc cs
      else if c = ''..'' then
        (case acc of
           [] \<Rightarrow> if rooted then clean_go rooted [] cs else clean_go rooted [''..''] cs
         | a # as \<Rightarrow> if a = ''..'' then clean_go rooted (''..'' # acc) cs else clean_go rooted as cs)
      else clean_go rooted (c # acc) cs)"

fun join_slash :: "string list \<Rightarrow> string" where
  "join_slash [] = []"
| "join_slash [c] = c"
| "join_slash (c # cs) = c @ ''/'' @ join_slash cs"

abbreviation split_slash :: "string \<Rightarrow> string list" where
  "split_slash \<equiv> split_on (CHR ''/'')"

definition Clean :: "string \<Rightarrow> string" where
  "Clean s =
     (let out = join_slash (clean_go (IsAbs s) [] (split_slash s)) in
      if IsAbs s then ''/'' @ out else if out = [] then ''.'' else out)"

definition Dir_of :: "string \<Rightarrow> string" where
  "Dir_of s = Clean (rev (dropWhile (\<lambda>c. c \<noteq> CHR ''/'') (rev s)))"

text \<open>\<open>filepath.Join\<close> of an absolute path and a slash path.\<close>

definition Join :: "path \<Rightarrow> string \<Rightarrow> path" where
  "Join root s = clean_go True (rev root) (split_slash s)"

section \<open>Limits and names\<close>

definition maxClaudeArchiveBytes :: nat where "maxClaudeArchiveBytes = 4 * 2 ^ 30"
definition maxScrollbackBytes :: nat where "maxScrollbackBytes = 256 * 2 ^ 20"
definition maxClaudeArchiveEntries :: nat where "maxClaudeArchiveEntries = 200000"
definition maxClaudeArchivePathBytes :: nat where "maxClaudeArchivePathBytes = 4 * 2 ^ 10"

definition claudeArchiveScrollback :: string where "claudeArchiveScrollback = ''scrollback''"
definition claudeArchiveStateRoot :: string where "claudeArchiveStateRoot = ''state''"
definition stateArchiveSharedRoot :: string where "stateArchiveSharedRoot = ''shared''"

datatype typeflag = TypeReg | TypeDir | TypeSymlink | TypeOther

record tar_entry =
  te_Name :: string
  te_Type :: typeflag
  te_Linkname :: string
  te_Size :: nat
  te_Mode :: nat
  te_ModTime :: time
  te_Data :: string
  te_Err :: "goerr option" \<comment> \<open>how reading the body ended\<close>

definition perm :: "nat \<Rightarrow> nat" where "perm m = m mod 512"

definition zero_time :: time where "zero_time = - (62135596800 * 1000000000)"

definition restoreModTime :: "path \<Rightarrow> time \<Rightarrow> (os, unit) act" where
  "restoreModTime p t = (if t = zero_time then ret () else Chtimes p t)"

text \<open>The default tar format keeps whole seconds.\<close>

definition round_second :: "time \<Rightarrow> time" where
  "round_second t = (t + 500000000) div 1000000000 * 1000000000"

section \<open>Validation\<close>

definition backslash :: char where "backslash = CHR 0x5C"

definition cleanClaudeArchiveName :: "string \<Rightarrow> goerr + string" where
  "cleanClaudeArchiveName name =
     (if name = [] \<or> backslash \<in> set name \<or> IsAbs name then Inl (New ''unsafe workload archive entry'')
      else
        (let clean = Clean name in
         if clean = ''.'' \<or> clean = ''..'' \<or> is_prefix ''../'' clean then Inl (New ''unsafe workload archive entry'')
         else Inr clean))"

definition safeClaudeArchiveDestination :: "path \<Rightarrow> string \<Rightarrow> goerr + path" where
  "safeClaudeArchiveDestination root rel =
     (if IsAbs rel then Inl (New ''absolute workload state entry'')
      else
        (let clean = Clean rel in
         if clean = ''..'' \<or> is_prefix ''../'' clean then Inl (New ''workload state entry escapes root'')
         else if clean = ''.'' then Inr root
         else
           (let dst = Join root clean in
            if dst \<noteq> root \<and> \<not> strict_prefix root dst then Inl (New ''workload state entry escapes root'')
            else Inr dst)))"

fun link_components :: "bool \<Rightarrow> string list \<Rightarrow> bool" where
  "link_components sawNormal [] = True"
| "link_components sawNormal (c # cs) =
     (if c = [] \<or> c = ''.'' then link_components sawNormal cs
      else if c = ''..'' then \<not> sawNormal \<and> link_components sawNormal cs
      else link_components True cs)"

definition validateClaudeSymlink :: "string \<Rightarrow> string \<Rightarrow> goerr + unit" where
  "validateClaudeSymlink rel link =
     (if link = [] \<or> backslash \<in> set link \<or> IsAbs link then Inl (New ''unsafe symlink'')
      else if \<not> link_components False (split_slash link) then Inl (New ''unsafe chained symlink'')
      else
        (let resolved = Clean (Dir_of rel @ ''/'' @ link) in
         if resolved = ''..'' \<or> is_prefix ''../'' resolved then Inl (New ''symlink escapes workload state'')
         else Inr ()))"

section \<open>Writing\<close>

text \<open>The limit writer: the bytes left after a write of \<open>n\<close>.\<close>

definition limit_write :: "nat \<Rightarrow> nat \<Rightarrow> goerr + nat" where
  "limit_write remaining n = (if n > remaining then Inl (New ''workload archive exceeds its size'') else Inr (remaining - n))"

definition padded :: "nat \<Rightarrow> nat" where "padded n = (n + 511) div 512 * 512"

definition write_entry :: "(tar_entry \<Rightarrow> goerr + nat) \<Rightarrow> nat \<Rightarrow> tar_entry \<Rightarrow> goerr + nat" where
  "write_entry hdr_bytes remaining h =
     (case hdr_bytes h of
        Inl e \<Rightarrow> Inl e
      | Inr n \<Rightarrow> limit_write remaining (n + padded (length (te_Data h))))"

record writer =
  wr_count :: nat
  wr_remaining :: nat
  wr_entries :: "tar_entry list"

definition entry_name :: "string \<Rightarrow> path \<Rightarrow> string" where
  "entry_name pre rel = (if rel = [] then pre else pre @ ''/'' @ join_slash rel)"

definition slash_rel :: "path \<Rightarrow> string" where
  "slash_rel rel = (if rel = [] then ''.'' else join_slash rel)"

text \<open>The header and the body of a node; an entry that is no file, directory or safe link is refused.\<close>

definition file_info_header :: "string \<Rightarrow> node \<Rightarrow> tar_entry" where
  "file_info_header name n =
     (case n of
        Dir m t \<Rightarrow> \<lparr>te_Name = name, te_Type = TypeDir, te_Linkname = [], te_Size = 0, te_Mode = m, te_ModTime = round_second t,
                    te_Data = [], te_Err = None\<rparr>
      | Regular bs m t \<Rightarrow> \<lparr>te_Name = name, te_Type = TypeReg, te_Linkname = [], te_Size = length bs, te_Mode = m,
                           te_ModTime = round_second t, te_Data = bs, te_Err = None\<rparr>
      | Symlink l \<Rightarrow> \<lparr>te_Name = name, te_Type = TypeSymlink, te_Linkname = l, te_Size = 0, te_Mode = 511, te_ModTime = 0,
                      te_Data = [], te_Err = None\<rparr>
      | Special \<Rightarrow> \<lparr>te_Name = name, te_Type = TypeOther, te_Linkname = [], te_Size = 0, te_Mode = 0, te_ModTime = 0,
                    te_Data = [], te_Err = None\<rparr>)"

definition check_node :: "path \<Rightarrow> node \<Rightarrow> goerr + string" where
  "check_node rel n =
     (case n of
        Symlink l \<Rightarrow> (case validateClaudeSymlink (slash_rel rel) l of Inl e \<Rightarrow> Inl e | Inr _ \<Rightarrow> Inr l)
      | Special \<Rightarrow> Inl (New ''unsupported entry'')
      | _ \<Rightarrow> Inr [])"

text \<open>The type a walk reports with the entry itself.\<close>

definition visited_regular :: "path \<Rightarrow> os \<Rightarrow> bool" where
  "visited_regular p w = (case stat_at False p w of Inr n \<Rightarrow> is_regular n | Inl _ \<Rightarrow> False)"

definition archive_entry ::
    "(tar_entry \<Rightarrow> goerr + nat) \<Rightarrow> path \<Rightarrow> string \<Rightarrow> (string \<Rightarrow> bool) \<Rightarrow> path \<Rightarrow> writer \<Rightarrow> (os, writer) act" where
  "archive_entry hdr_bytes d pre skip rel wr =
     (\<lambda>w.
     if skip (slash_rel rel) \<and> visited_regular (d @ rel) w then ret wr w
     else if Suc (wr_count wr) > maxClaudeArchiveEntries then throw (New ''workload archive exceeds its entries'') w
     else
       bindE (Lstat (d @ rel)) (\<lambda>n.
       bindE (lift (check_node rel n)) (\<lambda>link.
       if length (entry_name pre rel) > maxClaudeArchivePathBytes \<or> length link > maxClaudeArchivePathBytes
       then throw (New ''workload archive entry path is too long'')
       else
         (let h = file_info_header (entry_name pre rel) n in
          bindE (lift (write_entry hdr_bytes (wr_remaining wr) h)) (\<lambda>left.
          ret \<lparr>wr_count = Suc (wr_count wr), wr_remaining = left, wr_entries = wr_entries wr @ [h]\<rparr>)))) w)"

fun archive_walk ::
    "(tar_entry \<Rightarrow> goerr + nat) \<Rightarrow> path \<Rightarrow> string \<Rightarrow> (string \<Rightarrow> bool) \<Rightarrow> path list \<Rightarrow> writer \<Rightarrow> (os, writer) act" where
  "archive_walk hdr_bytes d pre skip [] wr = ret wr"
| "archive_walk hdr_bytes d pre skip (rel # rels) wr =
     bindE (archive_entry hdr_bytes d pre skip rel wr) (archive_walk hdr_bytes d pre skip rels)"

definition archiveTree ::
    "(tar_entry \<Rightarrow> goerr + nat) \<Rightarrow> path \<Rightarrow> string \<Rightarrow> (string \<Rightarrow> bool) \<Rightarrow> writer \<Rightarrow> (os, writer) act" where
  "archiveTree hdr_bytes d pre skip wr =
     bindE (Lstat d) (\<lambda>n.
     if \<not> is_dir n then throw (New ''root is not a directory'')
     else (\<lambda>w. archive_walk hdr_bytes d pre skip (walk d (os_files w)) wr w))"

definition scrollback_entry :: "string \<Rightarrow> tar_entry" where
  "scrollback_entry bs =
     \<lparr>te_Name = claudeArchiveScrollback, te_Type = TypeReg, te_Linkname = [], te_Size = length bs, te_Mode = 384, te_ModTime = 0,
      te_Data = bs, te_Err = None\<rparr>"

definition writeStateArchiveExcluding ::
    "(tar_entry \<Rightarrow> goerr + nat) \<Rightarrow> path \<Rightarrow> path option \<Rightarrow> string \<Rightarrow> string list \<Rightarrow> (os, tar_entry list) act" where
  "writeStateArchiveExcluding hdr_bytes stateDir sharedDir scrollback exclude =
     (if length scrollback > maxScrollbackBytes then throw (New ''workload scrollback exceeds its size'')
      else
        bindE (lift (write_entry hdr_bytes maxClaudeArchiveBytes (scrollback_entry scrollback))) (\<lambda>left.
        bindE (archiveTree hdr_bytes stateDir claudeArchiveStateRoot (\<lambda>rel. rel \<in> set (map Clean exclude))
                 \<lparr>wr_count = 1, wr_remaining = left, wr_entries = [scrollback_entry scrollback]\<rparr>) (\<lambda>wr.
        bindE (case sharedDir of
                 None \<Rightarrow> ret wr
               | Some d \<Rightarrow> archiveTree hdr_bytes d stateArchiveSharedRoot (\<lambda>_. False) wr) (\<lambda>wr.
        bindE (lift (limit_write (wr_remaining wr) 1024)) (\<lambda>_. ret (wr_entries wr))))))"

definition writeStateArchive ::
    "(tar_entry \<Rightarrow> goerr + nat) \<Rightarrow> path \<Rightarrow> path option \<Rightarrow> string \<Rightarrow> (os, tar_entry list) act" where
  "writeStateArchive hdr_bytes stateDir sharedDir scrollback =
     writeStateArchiveExcluding hdr_bytes stateDir sharedDir scrollback []"

section \<open>Extracting an entry\<close>

fun ensure_loop :: "path \<Rightarrow> string list \<Rightarrow> (os, unit) act" where
  "ensure_loop current [] = ret ()"
| "ensure_loop current (c # cs) =
     (if c = [] \<or> c = ''.'' then ensure_loop current cs
      else if c = ''..'' then throw (New ''archive parent escapes restore root'')
      else
        tryE (Lstat (current @ [c])) (\<lambda>r.
          case r of
            Inl e \<Rightarrow>
              if errors_is e ErrNotExist then thenE (Mkdir (current @ [c]) 448) (ensure_loop (current @ [c]) cs) else throw e
          | Inr n \<Rightarrow> if \<not> is_dir n then throw (New ''archive parent is not a directory'') else ensure_loop (current @ [c]) cs))"

definition ensureSafeClaudeParents :: "path \<Rightarrow> string \<Rightarrow> (os, unit) act" where
  "ensureSafeClaudeParents root relParent =
     thenE (MkdirAll root 448)
       (let clean = Clean relParent in if clean = ''.'' \<or> clean = [] then ret () else ensure_loop root (split_slash clean))"

record restoredDirMode =
  dm_name :: path
  dm_mode :: nat
  dm_modTime :: time

definition extract_dir :: "path \<Rightarrow> tar_entry \<Rightarrow> restoredDirMode list \<Rightarrow> (os, restoredDirMode list) act" where
  "extract_dir dst h modes =
     tryE (Lstat dst) (\<lambda>r.
       thenE (case r of
                Inr n \<Rightarrow> if \<not> is_dir n then throw (New ''archive directory collides with non-directory'') else ret ()
              | Inl e \<Rightarrow> if \<not> errors_is e ErrNotExist then throw e else Mkdir dst 448)
         (ret (modes @ [\<lparr>dm_name = dst, dm_mode = te_Mode h, dm_modTime = te_ModTime h\<rparr>])))"

definition read_body :: "tar_entry \<Rightarrow> goerr + string" where
  "read_body h = (case te_Err h of Some e \<Rightarrow> Inl e | None \<Rightarrow> Inr (te_Data h))"

definition extract_file :: "path \<Rightarrow> tar_entry \<Rightarrow> (os, unit) act" where
  "extract_file dst h =
     thenE (wrapE ''create restored file'' (OpenExcl dst 384))
     (thenE (WriteAll dst (te_Data h))
     (thenE (lift (read_body h))
     (thenE (Chmod dst (perm (te_Mode h)))
     (restoreModTime dst (te_ModTime h)))))"

definition extract_link :: "path \<Rightarrow> string \<Rightarrow> tar_entry \<Rightarrow> (os, unit) act" where
  "extract_link dst rel h =
     thenE (lift (validateClaudeSymlink rel (te_Linkname h)))
     (tryE (Lstat dst) (\<lambda>r.
        case r of
          Inr _ \<Rightarrow> throw (New ''duplicate restored entry'')
        | Inl e \<Rightarrow> if \<not> errors_is e ErrNotExist then throw e else wrapE ''restore symlink'' (os_Symlink (te_Linkname h) dst)))"

definition extractClaudeStateEntry ::
    "tar_entry \<Rightarrow> path \<Rightarrow> string \<Rightarrow> restoredDirMode list \<Rightarrow> (os, restoredDirMode list) act" where
  "extractClaudeStateEntry h root rel modes =
     (if rel = [] \<and> te_Type h \<noteq> TypeDir then throw (New ''workload archive state root must be a directory'')
      else
        bindE (lift (safeClaudeArchiveDestination root rel)) (\<lambda>dst.
        thenE (if rel \<noteq> [] then ensureSafeClaudeParents root (Dir_of rel) else ret ())
          (case te_Type h of
             TypeDir \<Rightarrow> extract_dir dst h modes
           | TypeReg \<Rightarrow> thenE (extract_file dst h) (ret modes)
           | TypeSymlink \<Rightarrow> thenE (extract_link dst rel h) (ret modes)
           | TypeOther \<Rightarrow> throw (New ''unsupported workload archive entry''))))"

section \<open>Restoring\<close>

record restored =
  ra_scrollback :: string
  ra_sawScrollback :: bool
  ra_sawState :: bool
  ra_sawShared :: bool
  ra_dirModes :: "restoredDirMode list"
  ra_seen :: "string list"
  ra_count :: nat

definition TrimPrefix :: "string \<Rightarrow> string \<Rightarrow> string" where
  "TrimPrefix s p = (if is_prefix p s then drop (length p) s else s)"

definition in_tree :: "string \<Rightarrow> string \<Rightarrow> bool" where
  "in_tree clean root = (clean = root \<or> is_prefix (root @ ''/'') clean)"

definition tree_rel :: "string \<Rightarrow> string \<Rightarrow> string" where
  "tree_rel clean root = TrimPrefix (TrimPrefix clean root) ''/''"

definition restore_scrollback :: "tar_entry \<Rightarrow> restored \<Rightarrow> goerr + restored" where
  "restore_scrollback h ra =
     (if ra_sawScrollback ra then Inl (New ''duplicate scrollback entry'')
      else if te_Type h \<noteq> TypeReg then Inl (New ''scrollback entry is not a regular file'')
      else if te_Size h > maxScrollbackBytes then Inl (New ''workload scrollback exceeds its size'')
      else (case read_body h of Inl e \<Rightarrow> Inl e | Inr bs \<Rightarrow> Inr (ra\<lparr>ra_scrollback := bs, ra_sawScrollback := True\<rparr>)))"

definition restore_entry :: "path \<Rightarrow> tar_entry \<Rightarrow> restored \<Rightarrow> (os, restored) act" where
  "restore_entry tempRoot h ra =
     (if Suc (ra_count ra) > maxClaudeArchiveEntries then throw (New ''workload archive exceeds its entries'')
      else if length (te_Name h) > maxClaudeArchivePathBytes \<or> length (te_Linkname h) > maxClaudeArchivePathBytes
      then throw (New ''workload archive entry path is too long'')
      else
        bindE (lift (cleanClaudeArchiveName (te_Name h))) (\<lambda>clean.
        if clean \<in> set (ra_seen ra) then throw (New ''duplicate workload archive entry'')
        else
          (let ra = ra\<lparr>ra_count := Suc (ra_count ra), ra_seen := clean # ra_seen ra\<rparr> in
           if clean = claudeArchiveScrollback then lift (restore_scrollback h ra)
           else if in_tree clean claudeArchiveStateRoot then
             bindE (extractClaudeStateEntry h (tempRoot @ [claudeArchiveStateRoot]) (tree_rel clean claudeArchiveStateRoot) (ra_dirModes ra))
               (\<lambda>modes. ret (ra\<lparr>ra_sawState := True, ra_dirModes := modes\<rparr>))
           else if in_tree clean stateArchiveSharedRoot then
             bindE (extractClaudeStateEntry h (tempRoot @ [stateArchiveSharedRoot]) (tree_rel clean stateArchiveSharedRoot) (ra_dirModes ra))
               (\<lambda>modes. ret (ra\<lparr>ra_sawShared := True, ra_dirModes := modes\<rparr>))
           else throw (New ''unexpected workload archive entry''))))"

fun restore_loop :: "path \<Rightarrow> tar_entry list \<Rightarrow> goerr option \<Rightarrow> restored \<Rightarrow> (os, restored) act" where
  "restore_loop tempRoot [] end ra = (case end of Some e \<Rightarrow> throw e | None \<Rightarrow> ret ra)"
| "restore_loop tempRoot (h # hs) end ra = bindE (restore_entry tempRoot h ra) (restore_loop tempRoot hs end)"

definition fresh_restored :: restored where
  "fresh_restored = \<lparr>ra_scrollback = [], ra_sawScrollback = False, ra_sawState = False, ra_sawShared = False, ra_dirModes = [],
     ra_seen = [], ra_count = 0\<rparr>"

definition must_be_dir :: "string \<Rightarrow> path \<Rightarrow> (os, unit) act" where
  "must_be_dir what p =
     tryE (Stat p) (\<lambda>r. case r of Inr n \<Rightarrow> if is_dir n then ret () else throw (New what) | Inl _ \<Rightarrow> throw (New what))"

text \<open>Deepest first: creating an entry has moved the times of the directories above it.\<close>

fun apply_modes :: "restoredDirMode list \<Rightarrow> (os, unit) act" where
  "apply_modes [] = ret ()"
| "apply_modes (item # items) =
     thenE (wrapE ''restore directory mode'' (Chmod (dm_name item) (perm (dm_mode item))))
     (thenE (wrapE ''restore directory mtime'' (restoreModTime (dm_name item) (dm_modTime item)))
     (apply_modes items))"

definition deepest_first :: "restoredDirMode list \<Rightarrow> restoredDirMode list" where
  "deepest_first modes = sort_key (\<lambda>item. - int (length (dm_name item))) modes"

definition removeIfNotDir :: "path \<Rightarrow> (os, unit) act" where
  "removeIfNotDir dst =
     tryE (Lstat dst) (\<lambda>r.
       case r of
         Inl e \<Rightarrow> if errors_is e ErrNotExist then ret () else throw e
       | Inr n \<Rightarrow> if is_dir n then throw (New ''shared file collides with directory'') else os_Remove dst)"

definition copy_node :: "path \<Rightarrow> path \<Rightarrow> path \<Rightarrow> node \<Rightarrow> restoredDirMode list \<Rightarrow> (os, restoredDirMode list) act" where
  "copy_node staged target rel n modes =
     (let dst = target @ rel in
      case n of
        Dir m t \<Rightarrow>
          tryE (Lstat dst) (\<lambda>r.
            thenE (case r of
                     Inl e \<Rightarrow> if errors_is e ErrNotExist then Mkdir dst 448 else throw e
                   | Inr existing \<Rightarrow> if is_dir existing then ret () else throw (New ''shared directory collides with non-directory''))
              (ret (modes @ [\<lparr>dm_name = dst, dm_mode = m, dm_modTime = t\<rparr>])))
      | Symlink _ \<Rightarrow>
          bindE (Readlink (staged @ rel)) (\<lambda>link.
          thenE (removeIfNotDir dst) (thenE (os_Symlink link dst) (ret modes)))
      | Regular _ m t \<Rightarrow>
          thenE (removeIfNotDir dst)
          (bindE (ReadFile (staged @ rel)) (\<lambda>bs.
           thenE (OpenExcl dst 384)
           (thenE (WriteAll dst bs)
           (thenE (Chmod dst (perm m))
           (thenE (restoreModTime dst t) (ret modes))))))
      | Special \<Rightarrow> throw (New ''unsupported shared entry''))"

fun copy_walk :: "path \<Rightarrow> path \<Rightarrow> path list \<Rightarrow> restoredDirMode list \<Rightarrow> (os, restoredDirMode list) act" where
  "copy_walk staged target [] modes = ret modes"
| "copy_walk staged target (rel # rels) modes =
     (if rel = [] then copy_walk staged target rels modes
      else
        thenE (ensureSafeClaudeParents target (Dir_of (join_slash rel)))
        (bindE (Lstat (staged @ rel)) (\<lambda>n.
         bindE (copy_node staged target rel n modes) (copy_walk staged target rels))))"

definition copyRestoredTree :: "path \<Rightarrow> path \<Rightarrow> (os, unit) act" where
  "copyRestoredTree staged target =
     thenE (Lstat staged)
     (bindE (\<lambda>w. copy_walk staged target (walk staged (os_files w)) [] w) (\<lambda>modes. apply_modes (deepest_first modes)))"

definition installClaudeState :: "path \<Rightarrow> path \<Rightarrow> (os, unit) act" where
  "installClaudeState staged target =
     bindE (wrapE ''restored state missing'' (Stat staged)) (\<lambda>n.
     if \<not> is_dir n then throw (New ''restored state root is not a directory'')
     else
       bindE (tryE (Lstat target) (\<lambda>r.
                case r of
                  Inl e \<Rightarrow> if errors_is e ErrNotExist then ret None else throw e
                | Inr _ \<Rightarrow>
                    bindE (MkdirTemp (butlast target) (''.'' @ last target @ ''-backup-'')) (\<lambda>placeholder.
                    thenE (os_Remove placeholder)
                    (thenE (wrapE ''move existing workload state aside'' (Rename target placeholder)) (ret (Some placeholder)))))) (\<lambda>backup.
       tryE (Rename staged target) (\<lambda>r.
         case r of
           Inl e \<Rightarrow>
             ignoreE (case backup of None \<Rightarrow> ret () | Some b \<Rightarrow> Rename b target) (throw (Errorf ''install restored workload state'' [e]))
         | Inr _ \<Rightarrow>
             (case backup of None \<Rightarrow> ret () | Some b \<Rightarrow> wrapE ''remove replaced workload state'' (RemoveAll b)))))"

text \<open>What happens in the staging directory, and then to the live trees.\<close>

definition restore_checks :: "(path \<Rightarrow> (os, unit) act) \<Rightarrow> path \<Rightarrow> path option \<Rightarrow> restored \<Rightarrow> (os, unit) act" where
  "restore_checks validate tempRoot sharedDir ra =
     (if \<not> ra_sawScrollback ra then throw (New ''workload archive is missing scrollback'')
      else if \<not> ra_sawState ra then throw (New ''workload archive is missing state'')
      else
        thenE (must_be_dir ''workload archive state root is not a directory'' (tempRoot @ [claudeArchiveStateRoot]))
        (thenE (if ra_sawShared ra then
                  (if sharedDir = None then throw (New ''this pod mounts no shared volume'')
                   else must_be_dir ''workload archive shared root is not a directory'' (tempRoot @ [stateArchiveSharedRoot]))
                else ret ())
        (validate (tempRoot @ [claudeArchiveStateRoot]))))"

definition restore_staged ::
    "(path \<Rightarrow> (os, unit) act) \<Rightarrow> path \<Rightarrow> path option \<Rightarrow> tar_entry list \<Rightarrow> goerr option \<Rightarrow> (os, restored) act" where
  "restore_staged validate tempRoot sharedDir hs end =
     bindE (restore_loop tempRoot hs end fresh_restored) (\<lambda>ra.
     thenE (restore_checks validate tempRoot sharedDir ra)
     (thenE (apply_modes (deepest_first (ra_dirModes ra)))
     (ret ra)))"

definition restore_install :: "path \<Rightarrow> path \<Rightarrow> path option \<Rightarrow> restored \<Rightarrow> (os, string) act" where
  "restore_install tempRoot stateDir sharedDir ra =
     thenE (case sharedDir of
              Some d \<Rightarrow> if ra_sawShared ra then wrapE ''restore shared volume'' (copyRestoredTree (tempRoot @ [stateArchiveSharedRoot]) d) else ret ()
            | None \<Rightarrow> ret ())
     (thenE (installClaudeState (tempRoot @ [claudeArchiveStateRoot]) stateDir)
     (ret (ra_scrollback ra)))"

definition restoreStateArchive ::
    "(path \<Rightarrow> (os, unit) act) \<Rightarrow> path \<Rightarrow> path option \<Rightarrow> tar_entry list \<Rightarrow> goerr option \<Rightarrow> (os, string) act" where
  "restoreStateArchive validate stateDir sharedDir hs end =
     (if stateDir = [] then throw (New ''unsafe workload state target'')
      else
        thenE (wrapE ''create state parent'' (MkdirAll (butlast stateDir) 448))
        (bindE (wrapE ''create restore staging dir'' (MkdirTemp (butlast stateDir) (''.'' @ last stateDir @ ''-restore-''))) (\<lambda>tempRoot.
         defer_with (\<lambda>r. ignoreE (RemoveAll tempRoot) (lift r))
           (bindE (restore_staged validate tempRoot sharedDir hs end) (restore_install tempRoot stateDir sharedDir)))))"

section \<open>Validators of a restored tree\<close>

definition claudeRuntimeStateFile :: string where "claudeRuntimeStateFile = ''.session-platform-claude.json''"

definition decodeClaudeRuntimeState :: "wire_body \<Rightarrow> goerr + bool" where
  "decodeClaudeRuntimeState body =
     (case Decode [''version'', ''hasRun''] (\<lambda>n. n = ''hasRun'') (\<lambda>n. if n = ''hasRun'' then is_bool else is_int64) body of
        Inl e \<Rightarrow> Inl e
      | Inr m \<Rightarrow>
          if (case body of Wire _ trailing \<Rightarrow> trailing | _ \<Rightarrow> False) then Inl (New ''claude runtime state has trailing JSON'')
          else if int_of_value (m ''version'') \<noteq> 1 then Inl (New ''unsupported claude runtime state version'')
          else if m ''hasRun'' = None then Inl (New ''claude runtime state is missing hasRun'')
          else Inr (bool_of (m ''hasRun'')))"

definition required_dir :: "path \<Rightarrow> string \<Rightarrow> (os, unit) act" where
  "required_dir root name =
     tryE (Lstat (root @ [name])) (\<lambda>r.
       case r of
         Inl e \<Rightarrow> if errors_is e ErrNotExist then throw (New ''claude archive is missing a directory'') else throw e
       | Inr n \<Rightarrow> if is_dir n then ret () else throw (New ''claude archive entry is not a directory''))"

text \<open>\<open>parse\<close> is \<open>encoding/json\<close>'s reading of a file's bytes.\<close>

definition loadRequiredClaudeRuntimeState :: "(string \<Rightarrow> wire_body) \<Rightarrow> path \<Rightarrow> (os, bool) act" where
  "loadRequiredClaudeRuntimeState parse stateDir =
     tryE (ReadFile (stateDir @ [claudeRuntimeStateFile])) (\<lambda>r.
       case r of
         Inl e \<Rightarrow> if errors_is e ErrNotExist then throw (New ''claude archive is missing runtime state'')
                  else throw (Errorf ''open claude runtime state'' [e])
       | Inr bs \<Rightarrow> lift (decodeClaudeRuntimeState (parse bs)))"

definition validateRestoredAgentState :: "(string \<Rightarrow> wire_body) \<Rightarrow> path \<Rightarrow> (os, unit) act" where
  "validateRestoredAgentState parse root =
     bindE (Lstat root) (\<lambda>n.
     if \<not> is_dir n then throw (New ''claude state root is not a directory'')
     else
       thenE (required_dir root ''workspace'')
       (thenE (required_dir root ''home'')
       (tryE (Lstat (root @ [claudeRuntimeStateFile])) (\<lambda>r.
          case r of
            Inl e \<Rightarrow> if errors_is e ErrNotExist then throw (New ''claude archive is missing runtime state'') else throw e
          | Inr n \<Rightarrow>
              if \<not> is_regular n then throw (New ''claude archive runtime state is not a regular file'')
              else thenE (loadRequiredClaudeRuntimeState parse root) (ret ())))))"

end
