(* ===== verification/Archive_Paths.thy ===== *)
theory Archive_Paths
  imports State_Archive
begin

text \<open>
  Slash paths as component lists: what \<open>Clean\<close>, \<open>Dir\<close>, \<open>Join\<close> and the archive's name checks do on
  the names they accept.
\<close>

definition normal :: "string \<Rightarrow> bool" where
  "normal c = (c \<noteq> [] \<and> c \<noteq> ''.'' \<and> c \<noteq> ''..'')"

text \<open>A component as it occurs in a path: normal and without a slash.\<close>

definition component :: "string \<Rightarrow> bool" where
  "component c = (normal c \<and> CHR ''/'' \<notin> set c)"

section \<open>Splitting and joining\<close>

lemma split_on_not_Nil [simp]: "split_on sep s \<noteq> []"
  by (cases s) auto

lemma split_on_no_sep: "x \<in> set (split_on sep s) \<Longrightarrow> sep \<notin> set x"
proof (induction s arbitrary: x)
  case (Cons c s)
  show ?case
  proof (cases "c = sep")
    case False
    have "hd (split_on sep s) \<in> set (split_on sep s)" by simp
    then have "sep \<notin> set (hd (split_on sep s))" by (rule Cons.IH)
    moreover have "set (tl (split_on sep s)) \<subseteq> set (split_on sep s)" by (simp add: list.set_sel(2) subsetI)
    ultimately show ?thesis using Cons False by auto
  qed (use Cons in auto)
qed simp

lemma split_on_free: "sep \<notin> set s \<Longrightarrow> split_on sep s = [s]"
  by (induction s) auto

lemma split_on_append: "sep \<notin> set s \<Longrightarrow> split_on sep (s @ sep # r) = s # split_on sep r"
  by (induction s) auto

lemma split_join: "cs \<noteq> [] \<Longrightarrow> list_all (\<lambda>c. CHR ''/'' \<notin> set c) cs \<Longrightarrow> split_slash (join_slash cs) = cs"
  by (induction cs rule: join_slash.induct) (auto simp: split_on_free split_on_append)

lemma join_slash_Cons: "cs \<noteq> [] \<Longrightarrow> join_slash (c # cs) = c @ ''/'' @ join_slash cs"
  by (cases cs) auto

lemma join_slash_snoc: "cs \<noteq> [] \<Longrightarrow> join_slash (cs @ [c]) = join_slash cs @ ''/'' @ c"
  by (induction cs rule: join_slash.induct) auto

lemma join_slash_eq_Nil: "list_all normal cs \<Longrightarrow> join_slash cs = [] \<longleftrightarrow> cs = []"
  by (cases cs rule: join_slash.cases) (auto simp: normal_def)

lemma components_split: "list_all component cs \<Longrightarrow> cs \<noteq> [] \<Longrightarrow> split_slash (join_slash cs) = cs"
  by (rule split_join) (auto simp: list_all_iff component_def)

section \<open>Cleaning\<close>

lemma clean_go_normal: "list_all normal cs \<Longrightarrow> clean_go rooted acc cs = rev acc @ cs"
  by (induction cs arbitrary: acc) (auto simp: normal_def)

text \<open>A relative path cleans to some parents up and then normal components.\<close>

lemma clean_go_shape:
  "acc = rev ns @ replicate j ''..'' \<Longrightarrow> list_all normal ns \<Longrightarrow>
   \<exists>j' ns'. clean_go False acc cs = replicate j' ''..'' @ ns' \<and> list_all normal ns' \<and> j \<le> j'"
proof (induction cs arbitrary: acc ns j)
  case Nil
  then show ?case by (intro exI [of _ j] exI [of _ ns]) simp
next
  case (Cons c cs)
  consider "c = [] \<or> c = ''.''" | "c = ''..''" "ns = []" | "c = ''..''" "ns \<noteq> []" | "normal c" by (auto simp: normal_def)
  then show ?case
  proof cases
    case 1
    then show ?thesis using Cons by auto
  next
    case 2
    have "clean_go False acc (c # cs) = clean_go False (replicate (Suc j) ''..'') cs"
      using 2 Cons.prems by (cases j) auto
    then show ?thesis using Cons.IH [of "replicate (Suc j) ''..''" "[]" "Suc j"] by (auto intro: Suc_leD)
  next
    case 3
    then obtain n ns' where ns: "ns = ns' @ [n]" by (metis rev_exhaust)
    have "clean_go False acc (c # cs) = clean_go False (rev ns' @ replicate j ''..'') cs"
      using 3 Cons.prems ns by (auto simp: normal_def)
    then show ?thesis using Cons.IH [of _ ns' j] Cons.prems ns by simp
  next
    case 4
    have "clean_go False acc (c # cs) = clean_go False (rev (ns @ [c]) @ replicate j ''..'') cs"
      using 4 Cons.prems by (auto simp: normal_def)
    then show ?thesis using Cons.IH [of _ "ns @ [c]" j] Cons.prems 4 by simp
  qed
qed

lemma set_clean_go: "x \<in> set (clean_go rooted acc cs) \<Longrightarrow> x \<in> set acc \<or> x \<in> set cs \<or> x = ''..''"
proof (induction cs arbitrary: acc)
  case (Cons c cs)
  have "x \<in> set (clean_go rooted (''..'' # as) cs) \<Longrightarrow> x \<in> set as \<or> x \<in> set cs \<or> x = ''..''" for as
    using Cons.IH [of "''..'' # as"] by auto
  then show ?case using Cons.prems Cons.IH [of "[]"] Cons.IH [of "[''..'']"] by (auto split: list.splits if_splits dest!: Cons.IH)
qed simp

lemma Clean_relative:
  assumes "\<not> IsAbs s" "Clean s \<noteq> ''..''" "\<not> is_prefix ''../'' (Clean s)"
  shows "\<exists>cs. list_all component cs \<and> clean_go False [] (split_slash s) = cs \<and> Clean s = (if cs = [] then ''.'' else join_slash cs)"
proof -
  from clean_go_shape [of "[]" "[]" 0 "split_slash s"] obtain j ns where
    go: "clean_go False [] (split_slash s) = replicate j ''..'' @ ns" and ns: "list_all normal ns" by auto
  have clean: "Clean s = (let out = join_slash (replicate j ''..'' @ ns) in if out = [] then ''.'' else out)"
    using assms(1) by (simp add: Clean_def go)
  have "j = 0"
  proof (rule ccontr)
    assume "j \<noteq> 0"
    then obtain k where "j = Suc k" by (cases j) auto
    then have "Clean s = ''..'' \<or> is_prefix ''../'' (Clean s)"
      using clean by (cases "replicate k ''..'' @ ns") (auto simp: is_prefix_iff)
    with assms show False by blast
  qed
  have free: "CHR ''/'' \<notin> set c" if "c \<in> set ns" for c
    using that set_clean_go [of c False "[]" "split_slash s"] split_on_no_sep [of c "CHR ''/''" s] by (auto simp: go)
  have "list_all component ns" using ns free by (auto simp: list_all_iff component_def)
  with clean go \<open>j = 0\<close> ns show ?thesis by (auto simp: join_slash_eq_Nil)
qed

lemma list_all_component_normal: "list_all component cs \<Longrightarrow> list_all normal cs"
  by (auto simp: list_all_iff component_def)

lemma join_not_abs: "list_all component cs \<Longrightarrow> \<not> IsAbs (join_slash cs)"
proof (cases cs)
  case (Cons c cs')
  assume "list_all component cs"
  then have "component c" using Cons by simp
  then obtain x xs where "c = x # xs" "x \<noteq> CHR ''/''" by (cases c) (auto simp: component_def normal_def)
  then show ?thesis using Cons by (cases cs') (auto simp: IsAbs_def)
qed (simp add: IsAbs_def)

lemma Clean_components:
  assumes "list_all component cs"
  shows "Clean (join_slash cs) = (if cs = [] then ''.'' else join_slash cs)"
proof (cases "cs = []")
  case True
  then show ?thesis by (simp add: Clean_def IsAbs_def)
next
  case False
  have "clean_go False [] (split_slash (join_slash cs)) = cs"
    using components_split [OF assms False] clean_go_normal [OF list_all_component_normal [OF assms], of False "[]"] by simp
  then show ?thesis
    using False join_not_abs [OF assms] join_slash_eq_Nil [OF list_all_component_normal [OF assms]] by (simp add: Clean_def)
qed

lemma join_not_up:
  assumes "list_all component cs" "cs \<noteq> []"
  shows "join_slash cs \<noteq> ''..''" "\<not> is_prefix ''../'' (join_slash cs)" "join_slash cs \<noteq> ''.''"
proof -
  have split: "split_slash (join_slash cs) = cs" using components_split assms by blast
  have first: "hd cs \<noteq> ''..''" "hd cs \<noteq> ''.''" using assms by (cases cs; simp add: component_def normal_def)+
  show "join_slash cs \<noteq> ''..''" "join_slash cs \<noteq> ''.''"
    using split first by (auto dest!: arg_cong [of "join_slash cs" _ split_slash])
  show "\<not> is_prefix ''../'' (join_slash cs)"
  proof
    assume "is_prefix ''../'' (join_slash cs)"
    then obtain r where "join_slash cs = ''..'' @ CHR ''/'' # r" by (auto simp: is_prefix_iff)
    then have "cs = ''..'' # split_slash r" using split split_on_append [of "CHR ''/''" "''..''" r] by simp
    with first show False by simp
  qed
qed

lemma Join_components: "list_all component cs \<Longrightarrow> cs \<noteq> [] \<Longrightarrow> Join root (join_slash cs) = root @ cs"
  by (simp add: Join_def components_split clean_go_normal list_all_component_normal)

lemma Dir_of_snoc:
  assumes "list_all component (cs @ [c])"
  shows "Dir_of (join_slash (cs @ [c])) = (if cs = [] then ''.'' else join_slash cs)"
proof -
  have free: "dropWhile (\<lambda>x. x \<noteq> CHR ''/'') (rev c @ xs) = dropWhile (\<lambda>x. x \<noteq> CHR ''/'') xs" for xs
    by (rule dropWhile_append2) (use assms in \<open>auto simp: component_def\<close>)
  show ?thesis
  proof (cases "cs = []")
    case True
    have "Dir_of c = Clean []" unfolding Dir_of_def using free [of "[]"] by (simp only: append_Nil2 dropWhile.simps rev.simps)
    then show ?thesis using True by (simp add: Clean_def IsAbs_def)
  next
    case False
    have cs: "list_all component cs" using assms by simp
    have parts: "split_slash (join_slash cs @ ''/'') = cs @ [[]]"
      using cs False
      by (induction cs rule: join_slash.induct) (auto simp: component_def split_on_append)
    have "\<not> IsAbs (join_slash cs @ ''/'')"
      using join_not_abs [OF cs] False join_slash_eq_Nil [OF list_all_component_normal [OF cs]]
      by (cases "join_slash cs") (auto simp: IsAbs_def)
    moreover have "clean_go False [] (cs @ [[]]) = cs"
    proof -
      have "clean_go False acc (cs @ [[]]) = rev acc @ cs" for acc
        using list_all_component_normal [OF cs] by (induction cs arbitrary: acc) (auto simp: normal_def)
      then show ?thesis by simp
    qed
    ultimately have "Clean (join_slash cs @ ''/'') = join_slash cs"
      using False join_slash_eq_Nil [OF list_all_component_normal [OF cs]] by (simp add: Clean_def parts)
    then show ?thesis using False free [of "rev (join_slash cs @ ''/'')"] by (simp add: Dir_of_def join_slash_snoc)
  qed
qed

section \<open>The archive's checks\<close>

lemma cleanClaudeArchiveName_ok:
  assumes "cleanClaudeArchiveName name = Inr clean"
  obtains cs where "list_all component cs" "cs \<noteq> []" "clean = join_slash cs"
proof -
  have "\<not> IsAbs name" "Clean name \<noteq> ''..''" "\<not> is_prefix ''../'' (Clean name)" "Clean name \<noteq> ''.''" "clean = Clean name"
    using assms by (auto simp: cleanClaudeArchiveName_def Let_def split: if_splits)
  with Clean_relative [of name] show ?thesis using that by (auto split: if_splits)
qed

lemma destination_components:
  assumes "list_all component cs"
  shows "safeClaudeArchiveDestination root (join_slash cs) = Inr (root @ cs)"
proof (cases "cs = []")
  case True
  then show ?thesis by (simp add: safeClaudeArchiveDestination_def IsAbs_def Clean_def)
next
  case False
  then show ?thesis
    using assms join_not_abs Clean_components [OF assms] join_not_up [OF assms] Join_components [OF assms, of root]
    by (simp add: safeClaudeArchiveDestination_def Let_def strict_prefix_def)
qed

text \<open>An entry of a tree names the root of the tree and a path below it.\<close>

lemma in_tree_components:
  assumes "list_all component cs" "cs \<noteq> []" "component root" "in_tree (join_slash cs) root"
  obtains q where "cs = root # q" "tree_rel (join_slash cs) root = join_slash q"
proof -
  have free: "CHR ''/'' \<notin> set root" "root \<noteq> []" using assms(3) by (auto simp: component_def normal_def)
  have split: "split_slash (join_slash cs) = cs" using components_split assms(1,2) by blast
  consider "join_slash cs = root" | r where "join_slash cs = root @ CHR ''/'' # r"
    using assms(4) by (auto simp: in_tree_def is_prefix_iff)
  then show ?thesis
  proof cases
    case 1
    then have "cs = [root]" using split split_on_free [OF free(1)] by simp
    then show ?thesis using that [of "[]"] by (simp add: tree_rel_def TrimPrefix_def is_prefix_iff)
  next
    case 2
    then have cs: "cs = root # split_slash r" using split split_on_append [OF free(1)] by simp
    have "join_slash cs = root @ ''/'' @ join_slash (split_slash r)" unfolding cs by (rule join_slash_Cons) simp
    then have "tree_rel (join_slash cs) root = join_slash (split_slash r)"
      by (simp add: tree_rel_def TrimPrefix_def is_prefix_iff)
    then show ?thesis using that cs by blast
  qed
qed

end
