(* ===== verification/Archive_Links.thy ===== *)
theory Archive_Links
  imports Archive_Paths
begin

text \<open>
  Why \<open>validateClaudeSymlink\<close> is enough: a link it accepts climbs at most to the root of its tree and then
  only descends, so following links, however they are chained, never leaves the tree.
\<close>

section \<open>Links that stay\<close>

definition significant :: "string \<Rightarrow> bool" where
  "significant c = (c \<noteq> [] \<and> c \<noteq> ''.'')"

text \<open>\<open>climbs k cs\<close>: at most \<open>k\<close> parents up, then down.\<close>

definition climbs :: "nat \<Rightarrow> string list \<Rightarrow> bool" where
  "climbs k cs = (\<exists>j ns. filter significant cs = replicate j ''..'' @ ns \<and> list_all normal ns \<and> j \<le> k)"

definition link_stays :: "nat \<Rightarrow> string \<Rightarrow> bool" where
  "link_stays k t = (\<not> IsAbs t \<and> climbs k (split_slash t))"

lemma climbs_skip: "\<not> significant c \<Longrightarrow> climbs k (c # cs) = climbs k cs"
  by (simp add: climbs_def)

lemma significant_up [simp]: "significant ''..''" "\<not> normal ''..''"
  by (simp_all add: significant_def normal_def)

lemma normal_significant: "normal c \<Longrightarrow> significant c"
  by (simp add: normal_def significant_def)

lemma climbs_up: "climbs k (''..'' # cs) \<Longrightarrow> 0 < k \<and> climbs (k - 1) cs"
proof -
  assume "climbs k (''..'' # cs)"
  then obtain j ns where *: "''..'' # filter significant cs = replicate j ''..'' @ ns" "list_all normal ns" "j \<le> k"
    by (auto simp: climbs_def)
  then obtain i where "j = Suc i" by (cases j) auto
  with * show ?thesis unfolding climbs_def by (auto intro!: exI [of _ i])
qed

definition descends :: "string list \<Rightarrow> bool" where
  "descends cs = list_all normal (filter significant cs)"

lemma climbs_down: "climbs k (c # cs) \<Longrightarrow> normal c \<Longrightarrow> descends cs"
proof -
  assume "climbs k (c # cs)" and c: "normal c"
  then obtain j ns where *: "c # filter significant cs = replicate j ''..'' @ ns" "list_all normal ns"
    by (auto simp: climbs_def normal_significant)
  with c have "j = 0" by (cases j) auto
  with * show ?thesis by (auto simp: descends_def Cons_eq_append_conv)
qed

lemma descends_climbs: "descends cs \<Longrightarrow> climbs k cs"
  unfolding climbs_def descends_def by (intro exI [of _ 0]) auto

lemma climbs_append: "climbs k cs \<Longrightarrow> descends ds \<Longrightarrow> climbs k (cs @ ds)"
  unfolding climbs_def descends_def
proof (elim exE conjE)
  fix j ns
  assume "filter significant cs = replicate j ''..'' @ ns" "list_all normal ns" "j \<le> k" "list_all normal (filter significant ds)"
  then show "\<exists>j ns. filter significant (cs @ ds) = replicate j ''..'' @ ns \<and> list_all normal ns \<and> j \<le> k"
    by (intro exI [of _ j] exI [of _ "ns @ filter significant ds"]) simp
qed

lemma descends_normal: "list_all normal cs \<Longrightarrow> descends cs"
  by (auto simp: descends_def list_all_iff)

section \<open>What the validator accepts\<close>

lemma link_components_shape:
  "link_components sawNormal cs \<Longrightarrow>
   (\<exists>j ns. filter significant cs = replicate j ''..'' @ ns \<and> list_all normal ns \<and> (sawNormal \<longrightarrow> j = 0))"
proof (induction cs arbitrary: sawNormal)
  case (Cons c cs)
  consider "\<not> significant c" | "c = ''..''" | "normal c" by (auto simp: normal_def significant_def)
  then show ?case
  proof cases
    case 1
    then show ?thesis using Cons by (auto simp: significant_def split: if_splits)
  next
    case 2
    then have "\<not> sawNormal" "link_components sawNormal cs" using Cons.prems by auto
    with Cons.IH 2 obtain j ns where "filter significant cs = replicate j ''..'' @ ns" "list_all normal ns" by blast
    then show ?thesis using 2 \<open>\<not> sawNormal\<close> by (intro exI [of _ "Suc j"] exI [of _ ns]) simp
  next
    case 3
    then have "link_components True cs" using Cons.prems by (auto simp: normal_def)
    from Cons.IH [OF this] obtain ns where "filter significant cs = ns" "list_all normal ns" by auto
    then show ?thesis using 3 by (intro exI [of _ 0] exI [of _ "c # ns"]) (simp add: normal_significant)
  qed
qed simp

lemma clean_go_significant: "clean_go rooted acc cs = clean_go rooted acc (filter significant cs)"
  by (induction cs arbitrary: acc) (auto simp: significant_def split: list.splits)

lemma clean_go_too_far:
  assumes "list_all normal q" "length q < j"
  shows "\<exists>rest. clean_go False (rev q) (replicate j ''..'' @ ns) = ''..'' # rest"
  using assms
proof (induction j arbitrary: q)
  case (Suc j)
  show ?case
  proof (cases q rule: rev_cases)
    case Nil
    have "clean_go False [''..''] (replicate j ''..'' @ ns) = clean_go False (rev q) (replicate (Suc j) ''..'' @ ns)"
      using Nil by simp
    moreover from clean_go_shape [of "[''..'']" "[]" 1 "replicate j ''..'' @ ns"] obtain j' ns' where
      "clean_go False [''..''] (replicate j ''..'' @ ns) = replicate j' ''..'' @ ns'" "1 \<le> j'" by auto
    moreover then obtain i where "j' = Suc i" by (cases j') auto
    ultimately show ?thesis by (intro exI [of _ "replicate i ''..'' @ ns'"]) simp
  next
    case (snoc q' c)
    then show ?thesis using Suc by (auto simp: normal_def)
  qed
qed simp

lemma split_relative:
  assumes "list_all component q"
  shows "split_slash ((if q = [] then ''.'' else join_slash q) @ ''/'' @ link) = (if q = [] then [''.''] else q) @ split_slash link"
  using assms
proof (induction q rule: join_slash.induct)
  case 1
  then show ?case using split_on_append [of "CHR ''/''" "''.''" link] by simp
qed (auto simp: component_def split_on_append)

lemma relative_not_abs: "list_all component q \<Longrightarrow> \<not> IsAbs ((if q = [] then ''.'' else join_slash q) @ ''/'' @ link)"
  using join_not_abs [of q] join_slash_eq_Nil [OF list_all_component_normal, of q] by (cases "join_slash q") (auto simp: IsAbs_def)

lemma validateClaudeSymlink_stays:
  assumes "validateClaudeSymlink (join_slash (q @ [c])) link = Inr ()" "list_all component (q @ [c])"
  shows "link_stays (length q) link"
proof -
  let ?at = "(if q = [] then ''.'' else join_slash q) @ ''/'' @ link"
  have q: "list_all component q" using assms(2) by simp
  from assms have abs: "\<not> IsAbs link" and comps: "link_components False (split_slash link)"
    and stays: "Clean ?at \<noteq> ''..''" "\<not> is_prefix ''../'' (Clean ?at)"
    using Dir_of_snoc [OF assms(2)] by (auto simp: validateClaudeSymlink_def Let_def split: if_splits)
  from link_components_shape [OF comps] obtain j ns where
    shape: "filter significant (split_slash link) = replicate j ''..'' @ ns" and ns: "list_all normal ns" by blast
  have "j \<le> length q"
  proof (rule ccontr)
    assume "\<not> j \<le> length q"
    then obtain rest where far: "clean_go False (rev q) (replicate j ''..'' @ ns) = ''..'' # rest"
      using clean_go_too_far [OF list_all_component_normal [OF q], of j ns] by auto
    have skip: "clean_go False [] (q' @ cs) = clean_go False (rev q') cs" if "list_all normal q'" for q' cs
    proof -
      have "clean_go False acc (q' @ cs) = clean_go False (rev q' @ acc) cs" for acc
        using that by (induction q' arbitrary: acc) (auto simp: normal_def)
      then show ?thesis by simp
    qed
    have "clean_go False [] (split_slash ?at) = clean_go False (rev q) (split_slash link)"
      using split_relative [OF q, of link] skip [OF list_all_component_normal [OF q]] by auto
    then have "clean_go False [] (split_slash ?at) = ''..'' # rest" using far clean_go_significant shape by metis
    moreover obtain cs where "list_all component cs" "clean_go False [] (split_slash ?at) = cs"
      using Clean_relative [OF relative_not_abs [OF q] stays] by blast
    ultimately have "list_all component (''..'' # rest)" by simp
    then show False by (simp add: component_def)
  qed
  then show ?thesis using abs shape ns by (auto simp: link_stays_def climbs_def)
qed

section \<open>Following them\<close>

definition links_stay :: "files \<Rightarrow> path \<Rightarrow> bool" where
  "links_stay fs R = (\<forall>q c t. get fs (R @ q @ [c]) = Some (Symlink t) \<longrightarrow> link_stays (length q) t)"

lemma namei_stays:
  "links_stay fs R \<Longrightarrow> cur = R @ q \<Longrightarrow> namei fs follow n cur cs = Inr p \<Longrightarrow> climbs (length q) cs \<Longrightarrow> prefix R p"
proof (induction fs follow n cur cs arbitrary: q rule: namei.induct)
  case (1 fs follow n cur)
  then show ?case by auto
next
  case (2 fs follow n cur c cs)
  consider "\<not> significant c" | "c = ''..''" | "normal c" by (auto simp: normal_def significant_def)
  then show ?case
  proof cases
    case 1
    then have "namei fs follow n cur cs = Inr p" "climbs (length q) cs"
      using 2(7,8) by (auto simp: significant_def climbs_skip)
    then show ?thesis using 2(1) 2(5,6) 1 by (auto simp: significant_def)
  next
    case up: 2
    then have less: "0 < length q" "climbs (length q - 1) cs" using climbs_up 2(8) by auto
    then have "butlast cur = R @ butlast q" using 2(6) by (auto simp: butlast_append)
    moreover have "namei fs follow n (butlast cur) cs = Inr p" using 2(7) up by simp
    ultimately show ?thesis using 2(2) [of "butlast q"] 2(5) less up by auto
  next
    case down: 3
    then have c: "c \<noteq> []" "c \<noteq> ''.''" "c \<noteq> ''..''" by (auto simp: normal_def)
    have cs: "descends cs" using climbs_down [OF 2(8) down] .
    show ?thesis
    proof (cases "get fs (cur @ [c])")
      case None
      then show ?thesis using 2(6,7) c by (auto split: if_splits)
    next
      case (Some node)
      show ?thesis
      proof (cases node)
        case (Dir m t)
        then have "namei fs follow n (cur @ [c]) cs = Inr p" using 2(7) c Some by simp
        then show ?thesis using 2(3) [OF _ c(3) Some Dir, of "q @ [c]"] 2(5,6) c descends_climbs [OF cs] by auto
      next
        case (Symlink t)
        then have stays: "link_stays (length q) t" using 2(5,6) Some by (simp add: links_stay_def)
        show ?thesis
        proof (cases "cs = [] \<and> \<not> follow")
          case True
          then show ?thesis using 2(6,7) c Some Symlink by auto
        next
          case False
          then obtain n' where n: "n = Suc n'" using 2(7) c Some Symlink by (cases n) auto
          have "namei fs follow n' cur (split_slash t @ cs) = Inr p"
            using 2(7) c Some Symlink n False stays by (auto simp: link_stays_def split: if_splits)
          moreover have "climbs (length q) (split_slash t @ cs)"
            using stays cs climbs_append by (auto simp: link_stays_def)
          ultimately show ?thesis
            using 2(4) [OF _ c(3) Some Symlink False n, of q] 2(5,6) c stays by (auto simp: link_stays_def)
        qed
      qed (use 2(6,7) c Some in \<open>auto split: if_splits\<close>)
    qed
  qed
qed

end
