(* ===== verification/State_Archive_Laws.thy ===== *)
theory State_Archive_Laws
  imports Archive_Links
begin

text \<open>
  Restoring an archive: extraction never leaves the staging directory, a rejected archive leaves the live
  state alone, and the links of an accepted one stay inside it.
\<close>

section \<open>Lookup below real directories\<close>

abbreviation dir_at :: "files \<Rightarrow> path \<Rightarrow> bool" where
  "dir_at fs p \<equiv> (\<exists>m t. get fs p = Some (Dir m t))"

text \<open>\<open>real fs d\<close>: every component of \<open>d\<close> is a directory, not a link to one.\<close>

definition real :: "files \<Rightarrow> path \<Rightarrow> bool" where
  "real fs d = (list_all component d \<and> (\<forall>q. prefix q d \<and> q \<noteq> [] \<longrightarrow> dir_at fs q))"

lemma real_Nil [simp]: "real fs []"
  by (auto simp: real_def)

lemma real_snoc: "real fs (d @ [c]) \<longleftrightarrow> real fs d \<and> component c \<and> dir_at fs (d @ [c])"
  by (auto simp: real_def)

lemma real_prefix: "real fs d \<Longrightarrow> prefix q d \<Longrightarrow> real fs q"
  by (auto simp: real_def prefix_def)

lemma real_dir: "real fs d \<Longrightarrow> d \<noteq> [] \<Longrightarrow> dir_at fs d"
  by (auto simp: real_def)

lemma namei_real:
  "real fs (cur @ d) \<Longrightarrow> namei fs follow n cur (d @ cs) = namei fs follow n (cur @ d) cs"
proof (induction d arbitrary: cur)
  case (Cons c d)
  have "real fs (cur @ [c])" using Cons.prems by (auto intro: real_prefix [of fs "cur @ c # d"])
  then obtain m t where "get fs (cur @ [c]) = Some (Dir m t)" "component c" by (auto simp: real_snoc)
  then have "namei fs follow n cur ((c # d) @ cs) = namei fs follow n (cur @ [c]) (d @ cs)" by (simp add: component_def normal_def)
  also have "\<dots> = namei fs follow n ((cur @ [c]) @ d) cs" using Cons.prems by (intro Cons.IH) simp
  finally show ?case by simp
qed simp

lemma lookup_real: "real fs d \<Longrightarrow> lookup follow d fs = Inr d"
  using namei_real [of fs "[]" d follow max_links "[]"] by (simp add: lookup_def)

text \<open>The last component itself may be anything when links are not followed.\<close>

lemma lookup_entry:
  assumes "real fs d" "component c"
  shows "lookup False (d @ [c]) fs = Inr (d @ [c])"
  using assms namei_real [of fs "[]" d False max_links "[c]"]
  by (auto simp: lookup_def component_def normal_def split: option.splits node.splits)

lemma lookup_entry_follow:
  assumes "real fs d" "component c" "get fs (d @ [c]) = Some n" "\<And>t. n \<noteq> Symlink t"
  shows "lookup True (d @ [c]) fs = Inr (d @ [c])"
  using assms namei_real [of fs "[]" d True max_links "[c]"]
  by (auto simp: lookup_def component_def normal_def split: option.splits node.splits)

lemma stat_entry:
  assumes "real (os_files w) d" "component c"
  shows "stat_at False (d @ [c]) w = (case get (os_files w) (d @ [c]) of None \<Rightarrow> Inl ErrNotExist | Some n \<Rightarrow> Inr n)"
  by (simp add: stat_at_def lookup_entry [OF assms] node_at_def)

lemma stat_real:
  assumes "real (os_files w) d"
  shows "\<exists>m t. stat_at follow d w = Inr (Dir m t)"
  using assms real_dir [OF assms] by (auto simp: stat_at_def lookup_real root_node_def node_at_def)

section \<open>Growth of a tree inside a directory\<close>

text \<open>\<open>grows T L fs fs'\<close>: nothing outside \<open>T\<close> changed, no directory disappeared, a new link satisfies \<open>L\<close>, and a new
  entry has a proper name and a directory around it.\<close>

definition grows :: "path \<Rightarrow> (path \<Rightarrow> string \<Rightarrow> bool) \<Rightarrow> files \<Rightarrow> files \<Rightarrow> bool" where
  "grows T L fs fs' =
     ((\<forall>p. \<not> prefix T p \<longrightarrow> get fs' p = get fs p) \<and> (\<forall>p. dir_at fs p \<longrightarrow> dir_at fs' p) \<and>
      (\<forall>p t. get fs' p = Some (Symlink t) \<longrightarrow> get fs p = Some (Symlink t) \<or> L p t) \<and>
      (\<forall>p c. get fs' (p @ [c]) \<noteq> None \<longrightarrow> get fs (p @ [c]) \<noteq> None \<or> component c \<and> (p = [] \<or> dir_at fs' p)))"

lemma grows_refl [simp, intro]: "grows T L fs fs"
  by (simp add: grows_def)

lemma grows_trans:
  assumes "grows T L fs fs'" "grows T L fs' fs''"
  shows "grows T L fs fs''"
proof -
  have a: "\<not> prefix T p \<Longrightarrow> get fs' p = get fs p" "dir_at fs p \<Longrightarrow> dir_at fs' p"
    "get fs' p = Some (Symlink t) \<Longrightarrow> get fs p = Some (Symlink t) \<or> L p t"
    "get fs' (p @ [c]) \<noteq> None \<Longrightarrow> get fs (p @ [c]) \<noteq> None \<or> component c \<and> (p = [] \<or> dir_at fs' p)" for p t c
    using assms(1) unfolding grows_def by blast+
  have b: "\<not> prefix T p \<Longrightarrow> get fs'' p = get fs' p" "dir_at fs' p \<Longrightarrow> dir_at fs'' p"
    "get fs'' p = Some (Symlink t) \<Longrightarrow> get fs' p = Some (Symlink t) \<or> L p t"
    "get fs'' (p @ [c]) \<noteq> None \<Longrightarrow> get fs' (p @ [c]) \<noteq> None \<or> component c \<and> (p = [] \<or> dir_at fs'' p)" for p t c
    using assms(2) unfolding grows_def by blast+
  show ?thesis unfolding grows_def
  proof (intro conjI allI impI)
    show "\<not> prefix T p \<Longrightarrow> get fs'' p = get fs p" for p using a(1) b(1) by simp
    show "dir_at fs p \<Longrightarrow> dir_at fs'' p" for p using a(2) b(2) by blast
    show "get fs'' p = Some (Symlink t) \<Longrightarrow> get fs p = Some (Symlink t) \<or> L p t" for p t using a(3) b(3) by blast
    show "get fs'' (p @ [c]) \<noteq> None \<Longrightarrow> get fs (p @ [c]) \<noteq> None \<or> component c \<and> (p = [] \<or> dir_at fs'' p)" for p c
      using a(4) [of p c] b(2) [of p] b(4) [of p c] by blast
  qed
qed

lemma grows_real: "grows T L fs fs' \<Longrightarrow> real fs d \<Longrightarrow> real fs' d"
  by (auto simp: grows_def real_def)

lemma get_stamp: "get (stamp d t fs) p = (case get fs p of Some (Dir m t') \<Rightarrow> Some (Dir m (if p = d then t else t')) | r \<Rightarrow> r)"
  by (auto simp: stamp_def split: option.splits node.splits)

lemma get_stamp_other: "p \<noteq> d \<Longrightarrow> get (stamp d t fs) p = get fs p"
  by (auto simp: stamp_def split: option.splits node.splits)

lemma grows_stamp: "prefix T d \<Longrightarrow> grows T L fs (stamp d t fs)"
  unfolding grows_def by (auto simp: get_stamp split: option.splits node.splits)

lemma grows_put:
  assumes "prefix T (d @ [c])" "get fs (d @ [c]) = None \<or> (dir_at fs (d @ [c]) \<longrightarrow> is_dir n)" "\<And>t. n = Symlink t \<Longrightarrow> L (d @ [c]) t"
    and "real fs d" "component c"
  shows "grows T L fs (put (d @ [c]) n fs)"
  using assms(1-3,5) real_dir [OF assms(4)] by (auto simp: grows_def is_dir_def split: node.splits)

text \<open>\<open>safe T L P m Q\<close>: from a tree with a real \<open>T\<close> where \<open>P\<close> holds, \<open>m\<close> only grows the tree inside \<open>T\<close>, and if it
  succeeds, \<open>Q\<close> holds of its result and the tree.\<close>

definition safe :: "path \<Rightarrow> (path \<Rightarrow> string \<Rightarrow> bool) \<Rightarrow> (files \<Rightarrow> bool) \<Rightarrow> (os, 'a) act \<Rightarrow> ('a \<Rightarrow> files \<Rightarrow> bool) \<Rightarrow> bool" where
  "safe T L P m Q = (\<forall>w. real (os_files w) T \<and> P (os_files w) \<longrightarrow>
     grows T L (os_files w) (os_files (snd (m w))) \<and> (\<forall>x. fst (m w) = Inr x \<longrightarrow> Q x (os_files (snd (m w)))))"

lemma safeI:
  assumes "\<And>w. real (os_files w) T \<Longrightarrow> P (os_files w) \<Longrightarrow> grows T L (os_files w) (os_files (snd (m w)))"
    and "\<And>w x. real (os_files w) T \<Longrightarrow> P (os_files w) \<Longrightarrow> fst (m w) = Inr x \<Longrightarrow> Q x (os_files (snd (m w)))"
  shows "safe T L P m Q"
  using assms by (simp add: safe_def)

lemma safe_ret [intro]: "(\<And>fs. P fs \<Longrightarrow> Q x fs) \<Longrightarrow> safe T L P (ret x) Q"
  by (simp add: safe_def ret_def)

lemma safe_throw [intro, simp]: "safe T L P (throw e) Q"
  by (simp add: safe_def throw_def)

lemma safe_lift [intro]: "(\<And>fs x. P fs \<Longrightarrow> r = Inr x \<Longrightarrow> Q x fs) \<Longrightarrow> safe T L P (lift r) Q"
  by (simp add: safe_def lift_def)

lemma safe_bindE:
  assumes "safe T L P m R" "\<And>x. safe T L (R x) (f x) Q"
  shows "safe T L P (bindE m f) Q"
proof (rule safeI)
  fix w :: os and x
  assume pre: "real (os_files w) T" "P (os_files w)"
  obtain r w1 where m: "m w = (r, w1)" by fastforce
  have g: "grows T L (os_files w) (os_files w1)" and R: "\<And>y. r = Inr y \<Longrightarrow> R y (os_files w1)"
    using assms(1) pre m by (auto simp: safe_def dest: spec [of _ w])
  have "real (os_files w1) T" using grows_real [OF g pre(1)] .
  then have "r = Inr y \<Longrightarrow> grows T L (os_files w1) (os_files (snd (f y w1))) \<and>
      (\<forall>x. fst (f y w1) = Inr x \<longrightarrow> Q x (os_files (snd (f y w1))))" for y
    using assms(2) [of y] R by (auto simp: safe_def)
  then show "grows T L (os_files w) (os_files (snd (bindE m f w)))"
    "fst (bindE m f w) = Inr x \<Longrightarrow> Q x (os_files (snd (bindE m f w)))"
    using g m by (auto simp: bindE_def split: sum.splits intro: grows_trans)
qed

lemma safe_tryE:
  assumes "\<And>w. real (os_files w) T \<Longrightarrow> P (os_files w) \<Longrightarrow>
      grows T L (os_files w) (os_files (snd (m w))) \<and> R (fst (m w)) (os_files (snd (m w)))"
    and "\<And>r. safe T L (R r) (f r) Q"
  shows "safe T L P (tryE m f) Q"
proof (rule safeI)
  fix w :: os and x
  assume pre: "real (os_files w) T" "P (os_files w)"
  obtain r w1 where m: "m w = (r, w1)" by fastforce
  have g: "grows T L (os_files w) (os_files w1)" and R: "R r (os_files w1)" using assms(1) [OF pre] m by auto
  have "real (os_files w1) T" using grows_real [OF g pre(1)] .
  then show "grows T L (os_files w) (os_files (snd (tryE m f w)))"
    "fst (tryE m f w) = Inr x \<Longrightarrow> Q x (os_files (snd (tryE m f w)))"
    using assms(2) [of r] R g m by (auto simp: tryE_def safe_def intro: grows_trans)
qed

lemma safe_thenE: "safe T L P m (\<lambda>_. R) \<Longrightarrow> safe T L R k Q \<Longrightarrow> safe T L P (thenE m k) Q"
  unfolding thenE_def by (rule safe_bindE)

lemma safe_wrapE: "safe T L P m Q \<Longrightarrow> safe T L P (wrapE what m) Q"
  by (auto simp: safe_def wrapE_def tryE_def ret_def throw_def split: prod.splits sum.splits)

lemma safe_pre: "safe T L P m Q \<Longrightarrow> (\<And>fs. P' fs \<Longrightarrow> P fs) \<Longrightarrow> safe T L P' m Q"
  by (simp add: safe_def)

lemma safe_post: "safe T L P m Q \<Longrightarrow> (\<And>x fs. Q x fs \<Longrightarrow> Q' x fs) \<Longrightarrow> safe T L P m Q'"
  by (simp add: safe_def)

text \<open>Facts that growth keeps can be carried across an operation.\<close>

definition stable :: "path \<Rightarrow> (path \<Rightarrow> string \<Rightarrow> bool) \<Rightarrow> (files \<Rightarrow> bool) \<Rightarrow> bool" where
  "stable T L F = (\<forall>fs fs'. grows T L fs fs' \<and> F fs \<longrightarrow> F fs')"

lemma safe_frame: "safe T L P m Q \<Longrightarrow> stable T L F \<Longrightarrow> safe T L (\<lambda>fs. P fs \<and> F fs) m (\<lambda>x fs. Q x fs \<and> F fs)"
  by (auto simp: safe_def stable_def)

lemma stable_real [intro]: "stable T L (\<lambda>fs. real fs d)"
  by (auto simp: stable_def intro: grows_real)

section \<open>The calls\<close>

lemma Lstat_files [simp]: "os_files (snd (Lstat p w)) = os_files w"
  by (simp add: Lstat_def syscall_def split: list.splits)

lemma Stat_files [simp]: "os_files (snd (Stat p w)) = os_files w"
  by (simp add: Stat_def syscall_def split: list.splits)

lemma stat_at_faults [simp]: "stat_at follow p (w\<lparr>os_faults := fs\<rparr>) = stat_at follow p w"
  by (simp add: stat_at_def node_at_def split: sum.splits)

lemma Lstat_result: "fst (Lstat p w) = Inl EIO \<or> fst (Lstat p w) = stat_at False p w"
  by (simp add: Lstat_def syscall_def split: list.splits)

lemma Stat_result: "fst (Stat p w) = Inl EIO \<or> fst (Stat p w) = stat_at True p w"
  by (simp add: Stat_def syscall_def split: list.splits)

lemma not_NotExist [simp]: "\<not> errors_is EIO ErrNotExist" "errors_is ErrNotExist ErrNotExist"
  by (simp_all add: errno_defs)

text \<open>What an \<open>Lstat\<close> of an entry of a real directory says about the tree.\<close>

definition seen_entry :: "path \<Rightarrow> goerr + node \<Rightarrow> files \<Rightarrow> bool" where
  "seen_entry p r fs =
     (case r of Inr n \<Rightarrow> get fs p = Some n | Inl e \<Rightarrow> errors_is e ErrNotExist \<longrightarrow> get fs p = None)"

lemma Lstat_entry:
  assumes "real (os_files w) d" "component c"
  shows "seen_entry (d @ [c]) (fst (Lstat (d @ [c]) w)) (os_files w)"
  using Lstat_result [of "d @ [c]" w] stat_entry [OF assms] by (auto simp: seen_entry_def split: option.splits)

lemma safe_Lstat_try:
  assumes "\<And>r. safe T L (\<lambda>fs. P fs \<and> seen_entry (d @ [c]) r fs) (f r) Q" "\<And>fs. P fs \<Longrightarrow> real fs d" "component c"
  shows "safe T L P (tryE (Lstat (d @ [c])) f) Q"
  by (rule safe_tryE [where R = "\<lambda>r fs. P fs \<and> seen_entry (d @ [c]) r fs"]) (use assms Lstat_entry in auto)

text \<open>A new entry of a real directory inside \<open>T\<close>.\<close>

lemma create_entry:
  assumes "real (os_files w) d" "component c"
  shows "(\<exists>e w'. create (d @ [c]) mk w = (Inl e, w') \<and> os_files w' = os_files w) \<or>
    (\<exists>w' t. create (d @ [c]) mk w = (Inr (), w') \<and> get (os_files w) (d @ [c]) = None \<and>
       os_files w' = stamp d t (put (d @ [c]) (mk t) (os_files w)))"
  by (auto simp: create_def syscall_def lookup_entry [OF assms(1,2)] set_files_def split: list.splits option.splits)

lemma safe_create:
  assumes "\<And>fs. P fs \<Longrightarrow> real fs d \<and> (\<forall>t l. mk t = Symlink l \<longrightarrow> L (d @ [c]) l)" "component c" "prefix T d" "T \<noteq> []"
  shows "safe T L P (create (d @ [c]) mk) (\<lambda>_ fs. real fs d \<and> (\<exists>t. get fs (d @ [c]) = Some (mk t)))"
proof -
  have d: "d \<noteq> []" using assms(3,4) by auto
  have grow: "grows T L fs (stamp d t (put (d @ [c]) (mk t) fs))" if "P fs" "get fs (d @ [c]) = None" for fs t
    using assms that by (intro grows_trans [OF grows_put grows_stamp]) auto
  have stay: "get (stamp d t (put (d @ [c]) n fs)) (d @ [c]) = Some n" for t n fs
    by (auto simp: stamp_def split: option.splits node.splits)
  show ?thesis
  proof (rule safeI)
    fix w :: os and x
    assume P: "P (os_files w)"
    then have "real (os_files w) d" using assms(1) by simp
    note cases = create_entry [OF this assms(2), of mk]
    show "grows T L (os_files w) (os_files (snd (create (d @ [c]) mk w)))" using cases grow [OF P] by auto
    show "real (os_files (snd (create (d @ [c]) mk w))) d \<and> (\<exists>t. get (os_files (snd (create (d @ [c]) mk w))) (d @ [c]) = Some (mk t))"
      if "fst (create (d @ [c]) mk w) = Inr x"
      using cases that grows_real [OF grow [OF P] \<open>real (os_files w) d\<close>] stay by auto
  qed
qed

text \<open>A change of a file or directory that is there; \<open>K\<close> is what is known of it.\<close>

lemma update_entry:
  assumes "real (os_files w) d" "component c" "get (os_files w) (d @ [c]) = Some n" "\<And>t. n \<noteq> Symlink t"
  shows "(\<exists>e w'. update_node (d @ [c]) f w = (Inl e, w') \<and> os_files w' = os_files w) \<or>
    (\<exists>w' t. update_node (d @ [c]) f w = (Inr (), w') \<and> os_files w' = put (d @ [c]) (f t n) (os_files w))"
  by (auto simp: update_node_def syscall_def lookup_entry_follow [OF assms] assms(3) set_files_def split: list.splits)

lemma safe_update:
  assumes "\<And>fs. P fs \<Longrightarrow> real fs d \<and> (\<exists>n. get fs (d @ [c]) = Some n \<and> K n)" "component c" "prefix T (d @ [c])"
    and "\<And>n t. K n \<Longrightarrow> K (f t n)" "\<And>n t l. K n \<Longrightarrow> n \<noteq> Symlink l \<and> (is_dir n \<longrightarrow> is_dir (f t n))"
  shows "safe T L P (update_node (d @ [c]) f) (\<lambda>_ fs. real fs d \<and> (\<exists>n. get fs (d @ [c]) = Some n \<and> K n))"
proof -
  have grow: "grows T L fs (put (d @ [c]) (f t n) fs)" if "P fs" "get fs (d @ [c]) = Some n" "K n" for fs t n
    by (rule grows_put) (use that assms(1-3,5) assms(5) [OF assms(4) [OF that(3)]] in \<open>auto simp: is_dir_def\<close>)
  show ?thesis
  proof (rule safeI)
    fix w :: os and x
    assume P: "P (os_files w)"
    then obtain n where n: "get (os_files w) (d @ [c]) = Some n" "K n" and d: "real (os_files w) d" using assms(1) by blast
    note cases = update_entry [OF d assms(2) n(1), of f]
    show "grows T L (os_files w) (os_files (snd (update_node (d @ [c]) f w)))"
      using cases grow [OF P n] assms(5) [OF n(2)] by auto
    show "real (os_files (snd (update_node (d @ [c]) f w))) d \<and> (\<exists>n. get (os_files (snd (update_node (d @ [c]) f w))) (d @ [c]) = Some n \<and> K n)"
      if "fst (update_node (d @ [c]) f w) = Inr x"
      using cases that assms(4) [OF n(2)] assms(5) [OF n(2)] grows_real [OF grow [OF P n] d] by auto
  qed
qed

lemmas mkdir_defs = Mkdir_def os_Symlink_def OpenExcl_def

lemma create_taken:
  assumes "real (os_files w) p"
  shows "\<exists>e. fst (create p mk w) = Inl e \<and> os_files (snd (create p mk w)) = os_files w"
proof -
  have "p = [] \<or> get (os_files w) p \<noteq> None" using real_dir [OF assms] by auto
  then show ?thesis by (auto simp: create_def syscall_def lookup_real [OF assms] split: list.splits)
qed

text \<open>\<open>reads fs m\<close>: on the tree \<open>fs\<close>, \<open>m\<close> only reads.\<close>

definition reads :: "files \<Rightarrow> (os, 'a) act \<Rightarrow> bool" where
  "reads fs m = (\<forall>w. os_files w = fs \<longrightarrow> os_files (snd (m w)) = fs)"

lemma reads_basic [intro, simp]: "reads fs (ret x)" "reads fs (throw e)" "reads fs (lift r)" "reads fs (Lstat p)" "reads fs (Stat p)"
  by (simp_all add: reads_def ret_def throw_def lift_def)

lemma reads_tryE [intro]: "reads fs m \<Longrightarrow> (\<And>r. reads fs (f r)) \<Longrightarrow> reads fs (tryE m f)"
  by (auto simp: reads_def tryE_def split: prod.splits)

lemma reads_bindE [intro]: "reads fs m \<Longrightarrow> (\<And>x. reads fs (f x)) \<Longrightarrow> reads fs (bindE m f)"
  by (auto simp: reads_def bindE_def split: prod.splits sum.splits)

lemma reads_thenE [intro]: "reads fs m \<Longrightarrow> reads fs k \<Longrightarrow> reads fs (thenE m k)"
  unfolding thenE_def by (rule reads_bindE)

lemma reads_wrapE [intro]: "reads fs m \<Longrightarrow> reads fs (wrapE what m)"
  unfolding wrapE_def by (intro reads_tryE) (auto split: sum.split)

lemma reads_safe: "(\<And>fs. P fs \<Longrightarrow> reads fs m) \<Longrightarrow> safe T L P m (\<lambda>_. P)"
  by (rule safeI) (simp_all add: reads_def)

lemma reads_case [intro]: "(\<And>e. reads fs (f e)) \<Longrightarrow> (\<And>x. reads fs (g x)) \<Longrightarrow> reads fs (case_sum f g r)"
  by (cases r) simp_all

lemma reads_if [intro]: "reads fs m \<Longrightarrow> reads fs k \<Longrightarrow> reads fs (if b then m else k)"
  by simp

text \<open>\<open>MkdirAll\<close> of a path of real directories changes nothing, and below one it creates a directory or fails.\<close>

lemma mkdir_all_real: "real fs p \<Longrightarrow> reads fs (mkdir_all k p m)"
proof (induction k arbitrary: p)
  case (Suc k)
  have "reads fs (mkdir_all k (butlast p) m)"
    using Suc.IH real_prefix [OF Suc.prems, of "butlast p"] by (simp add: prefixeq_butlast)
  moreover have "reads fs (Mkdir p m)" using create_taken Suc.prems by (fastforce simp: reads_def Mkdir_def)
  ultimately show ?case unfolding mkdir_all.simps
    by (intro reads_tryE reads_case reads_if reads_thenE reads_basic)
qed simp

lemma safe_MkdirAll_real: "(\<And>fs. P fs \<Longrightarrow> real fs d) \<Longrightarrow> safe T L P (MkdirAll d m) (\<lambda>_. P)"
  unfolding MkdirAll_def by (intro reads_safe mkdir_all_real)

lemma Stat_dir_real:
  assumes "real (os_files w) d" "\<forall>t. get (os_files w) (d @ [c]) \<noteq> Some (Symlink t)" "component c" "fst (Stat (d @ [c]) w) = Inr n" "is_dir n"
  shows "real (os_files w) (d @ [c])"
  using assms Stat_result [of "d @ [c]" w] namei_real [of "os_files w" "[]" d True max_links "[c]"]
  by (auto simp: stat_at_def lookup_def node_at_def is_dir_def real_snoc component_def normal_def split: option.splits node.splits if_splits)

lemma safe_MkdirAll:
  assumes "\<And>fs. P fs \<Longrightarrow> real fs d \<and> (\<forall>t. get fs (d @ [c]) \<noteq> Some (Symlink t))" "component c" "prefix T d" "T \<noteq> []"
  shows "safe T L P (MkdirAll (d @ [c]) m) (\<lambda>_ fs. real fs (d @ [c]))"
proof -
  have here: "is_dir n \<Longrightarrow> fst (Stat (d @ [c]) w) = Inr n \<Longrightarrow> real (os_files w) (d @ [c])" if "P (os_files w)" for n w
    using Stat_dir_real [OF _ _ assms(2)] assms(1) [OF that] by blast
  have made: "safe T L P (Mkdir (d @ [c]) m) (\<lambda>_ fs. real fs (d @ [c]))"
    unfolding Mkdir_def
    by (rule safe_post [OF safe_create]) (use assms in \<open>auto simp: real_snoc\<close>)
  have make: "safe T L P (tryE (Mkdir (d @ [c]) m) (\<lambda>r.
      case r of Inr _ \<Rightarrow> ret ()
      | Inl e \<Rightarrow> tryE (Lstat (d @ [c])) (\<lambda>r. case r of Inr n \<Rightarrow> if is_dir n then ret () else throw e | Inl _ \<Rightarrow> throw e)))
      (\<lambda>_ fs. real fs (d @ [c]))"
  proof (rule safe_tryE [where R = "\<lambda>r fs. real fs d \<and> (\<forall>x. r = Inr x \<longrightarrow> real fs (d @ [c]))"])
    fix w :: os
    assume w: "real (os_files w) T" "P (os_files w)"
    then show "grows T L (os_files w) (os_files (snd (Mkdir (d @ [c]) m w))) \<and> real (os_files (snd (Mkdir (d @ [c]) m w))) d \<and>
        (\<forall>x. fst (Mkdir (d @ [c]) m w) = Inr x \<longrightarrow> real (os_files (snd (Mkdir (d @ [c]) m w))) (d @ [c]))"
      using made assms(1) [OF w(2)] by (auto simp: safe_def intro: grows_real)
  next
    fix r :: "goerr + unit"
    have "safe T L (\<lambda>fs. real fs d) (tryE (Lstat (d @ [c])) (\<lambda>r. case r of Inr n \<Rightarrow> if is_dir n then ret () else throw e | Inl _ \<Rightarrow> throw e))
        (\<lambda>_ fs. real fs (d @ [c]))" for e
      by (rule safe_Lstat_try)
        (use assms(2) in \<open>auto simp: seen_entry_def real_snoc is_dir_def split: sum.split node.split intro!: safe_ret\<close>)
    then show "safe T L (\<lambda>fs. real fs d \<and> (\<forall>x. r = Inr x \<longrightarrow> real fs (d @ [c])))
        (case r of Inr _ \<Rightarrow> ret () | Inl e \<Rightarrow>
           tryE (Lstat (d @ [c])) (\<lambda>r. case r of Inr n \<Rightarrow> if is_dir n then ret () else throw e | Inl _ \<Rightarrow> throw e))
        (\<lambda>_ fs. real fs (d @ [c]))"
      by (cases r) (auto intro: safe_pre)
  qed
  have "mkdir_all (length (d @ [c])) (d @ [c]) m = mkdir_all (Suc (length d)) (d @ [c]) m" by simp
  moreover have "safe T L P (mkdir_all (Suc (length d)) (d @ [c]) m) (\<lambda>_ fs. real fs (d @ [c]))"
    unfolding mkdir_all.simps
  proof (rule safe_tryE [where R = "\<lambda>r fs. P fs \<and> (\<forall>n. r = Inr n \<and> is_dir n \<longrightarrow> real fs (d @ [c]))"])
    fix r :: "goerr + node"
    have "safe T L P (thenE (mkdir_all (length d) (butlast (d @ [c])) m)
        (tryE (Mkdir (d @ [c]) m) (\<lambda>r. case r of Inr _ \<Rightarrow> ret () | Inl e \<Rightarrow>
           tryE (Lstat (d @ [c])) (\<lambda>r. case r of Inr n \<Rightarrow> if is_dir n then ret () else throw e | Inl _ \<Rightarrow> throw e))))
        (\<lambda>_ fs. real fs (d @ [c]))"
      by (rule safe_thenE [OF _ make]) (use assms(1) in \<open>auto intro!: reads_safe mkdir_all_real\<close>)
    note absent = this
    show "safe T L (\<lambda>fs. P fs \<and> (\<forall>n. r = Inr n \<and> is_dir n \<longrightarrow> real fs (d @ [c])))
        (case r of Inr n \<Rightarrow> if is_dir n then ret () else throw ENOTDIR
         | Inl _ \<Rightarrow> thenE (mkdir_all (length d) (butlast (d @ [c])) m)
             (tryE (Mkdir (d @ [c]) m) (\<lambda>r. case r of Inr _ \<Rightarrow> ret () | Inl e \<Rightarrow>
                tryE (Lstat (d @ [c])) (\<lambda>r. case r of Inr n \<Rightarrow> if is_dir n then ret () else throw e | Inl _ \<Rightarrow> throw e))))
        (\<lambda>_ fs. real fs (d @ [c]))"
    proof (cases r)
      case (Inl e)
      show ?thesis unfolding Inl sum.case by (rule safe_pre [OF absent]) simp
    next
      case (Inr n)
      then show ?thesis by (auto intro: safe_ret)
    qed
  qed (use here in auto)
  ultimately show ?thesis by (simp only: MkdirAll_def)
qed

section \<open>Extracting one entry\<close>

lemma safe_ensure_loop:
  assumes "list_all component cs" "prefix T current" "T \<noteq> []"
  shows "safe T L (\<lambda>fs. real fs current) (ensure_loop current cs) (\<lambda>_ fs. real fs (current @ cs))"
  using assms
proof (induction cs arbitrary: current)
  case (Cons c cs)
  then have c: "component c" and next_dir: "prefix T (current @ [c])" by auto
  have step: "safe T L (\<lambda>fs. real fs (current @ [c])) (ensure_loop (current @ [c]) cs) (\<lambda>_ fs. real fs (current @ c # cs))"
    using Cons.IH [OF _ next_dir] Cons.prems by simp
  have made: "safe T L (\<lambda>fs. real fs current) (Mkdir (current @ [c]) 448) (\<lambda>_ fs. real fs (current @ [c]))"
    unfolding Mkdir_def by (rule safe_post [OF safe_create]) (use Cons.prems c in \<open>auto simp: real_snoc\<close>)
  have body: "safe T L (\<lambda>fs. real fs current \<and> seen_entry (current @ [c]) r fs)
      (case r of
         Inl e \<Rightarrow> if errors_is e ErrNotExist then thenE (Mkdir (current @ [c]) 448) (ensure_loop (current @ [c]) cs) else throw e
       | Inr n \<Rightarrow> if \<not> is_dir n then throw (New ''archive parent is not a directory'') else ensure_loop (current @ [c]) cs)
      (\<lambda>_ fs. real fs (current @ c # cs))" for r
    using step safe_thenE [OF made step] c
    by (cases r) (auto simp: seen_entry_def real_snoc is_dir_def split: node.splits intro: safe_pre)
  show ?case
    using c safe_Lstat_try [OF body] by (simp add: component_def normal_def)
qed (auto intro: safe_ret)

lemma safe_ensure:
  assumes "safe T L P (MkdirAll root 448) (\<lambda>_ fs. real fs root)" "list_all component (q @ [c])" "prefix T root" "T \<noteq> []"
  shows "safe T L P (ensureSafeClaudeParents root (Dir_of (join_slash (q @ [c])))) (\<lambda>_ fs. real fs (root @ q))"
proof -
  have q: "list_all component q" using assms(2) by simp
  have dot: "Clean ''.'' = ''.''" by (simp add: Clean_def IsAbs_def)
  have clean: "Clean (Dir_of (join_slash (q @ [c]))) = (if q = [] then ''.'' else join_slash q)"
    using Dir_of_snoc [OF assms(2)] Clean_components [OF q] dot by simp
  have "safe T L (\<lambda>fs. real fs root) (let clean = Clean (Dir_of (join_slash (q @ [c]))) in
      if clean = ''.'' \<or> clean = [] then ret () else ensure_loop root (split_slash clean)) (\<lambda>_ fs. real fs (root @ q))"
  proof (cases "q = []")
    case False
    then have "join_slash q \<noteq> ''.''" "join_slash q \<noteq> []"
      using join_not_up(3) [OF q] join_slash_eq_Nil [OF list_all_component_normal [OF q]] by auto
    then show ?thesis
      using False clean safe_ensure_loop [OF q assms(3,4)] components_split [OF q False] by simp
  qed (use clean in \<open>auto intro: safe_ret\<close>)
  with assms(1) show ?thesis unfolding ensureSafeClaudeParents_def by (rule safe_thenE)
qed

lemma safe_Mkdir:
  "(\<And>fs. P fs \<Longrightarrow> real fs d) \<Longrightarrow> component c \<Longrightarrow> prefix T d \<Longrightarrow> T \<noteq> [] \<Longrightarrow>
   safe T L P (Mkdir (d @ [c]) m) (\<lambda>_ fs. real fs (d @ [c]))"
  unfolding Mkdir_def by (rule safe_post [OF safe_create]) (auto simp: real_snoc)

lemma safe_extract_dir:
  assumes "component c" "prefix T d" "T \<noteq> []"
  shows "safe T L (\<lambda>fs. real fs d) (extract_dir (d @ [c]) h modes)
    (\<lambda>modes' fs. modes' = modes @ [\<lparr>dm_name = d @ [c], dm_mode = te_Mode h, dm_modTime = te_ModTime h\<rparr>] \<and> real fs (d @ [c]))"
  unfolding extract_dir_def
proof (rule safe_Lstat_try [OF safe_thenE [where R = "\<lambda>fs. real fs (d @ [c])"]])
  fix r :: "goerr + node"
  show "safe T L (\<lambda>fs. real fs d \<and> seen_entry (d @ [c]) r fs)
      (case r of
         Inr n \<Rightarrow> if \<not> is_dir n then throw (New ''archive directory collides with non-directory'') else ret ()
       | Inl e \<Rightarrow> if \<not> errors_is e ErrNotExist then throw e else Mkdir (d @ [c]) 448) (\<lambda>_ fs. real fs (d @ [c]))"
  proof (cases r)
    case (Inl e)
    then show ?thesis using assms by (auto intro!: safe_Mkdir)
  next
    case (Inr n)
    then show ?thesis using assms by (auto simp: seen_entry_def real_snoc is_dir_def split: node.splits intro!: safe_ret)
  qed
qed (use assms in \<open>auto intro: safe_ret\<close>)

text \<open>A file that is there stays a file through the steps that fill it.\<close>

lemma safe_update_file:
  assumes "component c" "prefix T d"
    and "\<And>n t. is_regular n \<Longrightarrow> is_regular (f t n)"
  shows "safe T L (\<lambda>fs. real fs d \<and> (\<exists>n. get fs (d @ [c]) = Some n \<and> is_regular n)) (update_node (d @ [c]) f)
    (\<lambda>_ fs. real fs d \<and> (\<exists>n. get fs (d @ [c]) = Some n \<and> is_regular n))"
  by (rule safe_update) (use assms in \<open>auto simp: is_regular_def is_dir_def split: node.splits\<close>)

lemma safe_fill_file:
  assumes "component c" "prefix T d"
  defines "F \<equiv> (\<lambda>fs. real fs d \<and> (\<exists>n. get fs (d @ [c]) = Some n \<and> is_regular n))"
  shows "safe T L F (WriteAll (d @ [c]) bs) (\<lambda>_. F)" "safe T L F (Chmod (d @ [c]) m) (\<lambda>_. F)"
    "safe T L F (restoreModTime (d @ [c]) t) (\<lambda>_. F)"
proof -
  show "safe T L F (WriteAll (d @ [c]) bs) (\<lambda>_. F)" "safe T L F (Chmod (d @ [c]) m) (\<lambda>_. F)"
    unfolding F_def WriteAll_def Chmod_def
    by (rule safe_update_file; use assms(1,2) in \<open>auto simp: is_regular_def with_perm_def split: node.splits\<close>)+
  have "safe T L F (Chtimes (d @ [c]) t) (\<lambda>_. F)"
    unfolding F_def Chtimes_def
    by (rule safe_update_file) (use assms(1,2) in \<open>auto simp: is_regular_def with_mtime_def split: node.splits\<close>)
  then show "safe T L F (restoreModTime (d @ [c]) t) (\<lambda>_. F)" by (auto simp: restoreModTime_def intro: safe_ret)
qed

lemma safe_OpenExcl:
  assumes "component c" "prefix T d" "T \<noteq> []"
  shows "safe T L (\<lambda>fs. real fs d) (OpenExcl (d @ [c]) m) (\<lambda>_ fs. real fs d \<and> (\<exists>n. get fs (d @ [c]) = Some n \<and> is_regular n))"
  unfolding OpenExcl_def by (rule safe_post [OF safe_create]) (use assms in \<open>auto simp: is_regular_def\<close>)

lemma safe_extract_file:
  assumes "component c" "prefix T d" "T \<noteq> []"
  shows "safe T L (\<lambda>fs. real fs d) (extract_file (d @ [c]) h) (\<lambda>_ _. True)"
proof -
  let ?F = "\<lambda>fs. real fs d \<and> (\<exists>n. get fs (d @ [c]) = Some n \<and> is_regular n)"
  note fill = safe_fill_file [OF assms(1,2), where L = L]
  have body: "safe T L ?F (lift (read_body h)) (\<lambda>_. ?F)" by (rule safe_lift)
  have "safe T L ?F (restoreModTime (d @ [c]) (te_ModTime h)) (\<lambda>_ _. True)" by (rule safe_post [OF fill(3)]) simp
  from safe_thenE [OF safe_wrapE [OF safe_OpenExcl [OF assms]] safe_thenE [OF fill(1) safe_thenE [OF body safe_thenE [OF fill(2) this]]]]
  show ?thesis unfolding extract_file_def .
qed

lemma safe_extract_link:
  assumes "component c" "prefix T d" "T \<noteq> []"
    and "\<And>l. validateClaudeSymlink rel l = Inr () \<Longrightarrow> L (d @ [c]) l"
  shows "safe T L (\<lambda>fs. real fs d) (extract_link (d @ [c]) rel h) (\<lambda>_ _. True)"
proof (cases "validateClaudeSymlink rel (te_Linkname h)")
  case (Inl e)
  then show ?thesis by (simp add: extract_link_def thenE_def bindE_def lift_def safe_def)
next
  case (Inr u)
  have link: "safe T L (\<lambda>fs. real fs d \<and> seen_entry (d @ [c]) r fs)
      (case r of
         Inr _ \<Rightarrow> throw (New ''duplicate restored entry'')
       | Inl e \<Rightarrow> if \<not> errors_is e ErrNotExist then throw e else wrapE ''restore symlink'' (os_Symlink (te_Linkname h) (d @ [c])))
      (\<lambda>_ _. True)" for r
    unfolding os_Symlink_def
    by (cases r) (use assms Inr in \<open>auto intro!: safe_wrapE safe_post [OF safe_create]\<close>)
  show ?thesis
    unfolding extract_link_def by (rule safe_thenE [OF safe_lift safe_Lstat_try [OF link]]) (use assms(1) in auto)
qed

section \<open>The staging directory\<close>

lemma bind_known: "bindE (lift (Inr x)) f = f x" "bindE (lift (Inl e)) f = throw e" "bindE (ret x) f = f x" "thenE (ret x) k = k"
  by (auto simp: bindE_def thenE_def lift_def ret_def throw_def)

text \<open>New links of a staging directory sit below a tree root and stay in their tree.\<close>

definition stage_link :: "path \<Rightarrow> path \<Rightarrow> string \<Rightarrow> bool" where
  "stage_link T p t = (\<exists>tree q c. p = T @ tree # q @ [c] \<and> link_stays (length q) t)"

definition staging :: "path \<Rightarrow> restoredDirMode list \<Rightarrow> files \<Rightarrow> bool" where
  "staging T modes fs =
     (real fs T \<and> (\<forall>tree t. get fs (T @ [tree]) \<noteq> Some (Symlink t)) \<and>
      (\<forall>item \<in> set modes. real fs (dm_name item) \<and> prefix T (dm_name item)))"

lemma stable_staging: "stable T (stage_link T) (staging T modes)"
  unfolding stable_def
proof (intro allI impI)
  fix fs fs' assume g: "grows T (stage_link T) fs fs' \<and> staging T modes fs"
  have "\<not> stage_link T (T @ [tree]) t" for tree t by (auto simp: stage_link_def)
  then have "get fs' (T @ [tree]) \<noteq> Some (Symlink t)" for tree t
    using g unfolding staging_def grows_def by meson
  moreover have "real fs' d" if "real fs d" for d using g that by (auto intro: grows_real)
  ultimately show "staging T modes fs'" using g by (auto simp: staging_def)
qed

lemma safe_staged:
  assumes "safe T (stage_link T) P m Q" "\<And>fs. P' fs \<Longrightarrow> P fs \<and> staging T modes fs"
    and "\<And>x fs. Q x fs \<Longrightarrow> staging T modes fs \<Longrightarrow> Q' x fs"
  shows "safe T (stage_link T) P' m Q'"
  using safe_frame [OF assms(1) stable_staging [of T modes]] assms(2,3) by (auto simp: safe_def)

lemma safe_extract:
  assumes "component tree" "list_all component q" "T \<noteq> []"
  shows "safe T (stage_link T) (staging T modes) (extractClaudeStateEntry h (T @ [tree]) (join_slash q) modes) (\<lambda>modes'. staging T modes')"
proof -
  note tree = assms(1)
  have nil: "join_slash q = [] \<longleftrightarrow> q = []" using join_slash_eq_Nil [OF list_all_component_normal [OF assms(2)]] .
  note unfold = extractClaudeStateEntry_def destination_components [OF assms(2)] nil
  show ?thesis
  proof (cases q rule: rev_cases)
    case Nil
    have "safe T (stage_link T) (staging T modes) (extract_dir (T @ [tree]) h modes) (\<lambda>modes'. staging T modes')"
      by (rule safe_staged [OF safe_extract_dir [OF tree, of T T]]) (use assms(3) in \<open>auto simp: staging_def\<close>)
    then show ?thesis
      using Nil destination_components [of "[]" "T @ [tree]"] by (cases "te_Type h") (auto simp: unfold bind_known)
  next
    case (snoc q' c)
    let ?d = "T @ tree # q'"
    have c: "component c" "prefix T ?d" "T \<noteq> []" using assms snoc by auto
    have "safe T (stage_link T) (staging T modes) (MkdirAll (T @ [tree]) 448) (\<lambda>_ fs. real fs (T @ [tree]))"
      by (rule safe_MkdirAll) (use assms(3) tree in \<open>auto simp: staging_def\<close>)
    from safe_ensure [OF this, of q' c] have parents:
      "safe T (stage_link T) (staging T modes) (ensureSafeClaudeParents (T @ [tree]) (Dir_of (join_slash q)))
         (\<lambda>_ fs. real fs ?d \<and> staging T modes fs)"
      using assms snoc by (auto intro: safe_staged)
    have "stage_link T (?d @ [c]) l" if "validateClaudeSymlink (join_slash q) l = Inr ()" for l
      using validateClaudeSymlink_stays [of q' c l] that assms(2) snoc by (auto simp: stage_link_def)
    note link = safe_extract_link [OF c, of "join_slash q" "stage_link T" h, OF this]
    have "safe T (stage_link T) (\<lambda>fs. real fs ?d \<and> staging T modes fs) (extract_dir (?d @ [c]) h modes) (\<lambda>modes'. staging T modes')"
      by (rule safe_staged [OF safe_extract_dir [OF c]]) (use assms(3) in \<open>auto simp: staging_def\<close>)
    moreover have "safe T (stage_link T) (\<lambda>fs. real fs ?d \<and> staging T modes fs) (thenE (extract_file (?d @ [c]) h) (ret modes)) (\<lambda>modes'. staging T modes')"
      by (rule safe_thenE [OF safe_staged [OF safe_extract_file [OF c]] safe_ret]) auto
    moreover have "safe T (stage_link T) (\<lambda>fs. real fs ?d \<and> staging T modes fs)
        (thenE (extract_link (?d @ [c]) (join_slash q) h) (ret modes)) (\<lambda>modes'. staging T modes')"
      by (rule safe_thenE [OF safe_staged [OF link] safe_ret]) auto
    ultimately have kinds: "safe T (stage_link T) (\<lambda>fs. real fs ?d \<and> staging T modes fs)
        (case te_Type h of
             TypeDir \<Rightarrow> extract_dir (?d @ [c]) h modes
           | TypeReg \<Rightarrow> thenE (extract_file (?d @ [c]) h) (ret modes)
           | TypeSymlink \<Rightarrow> thenE (extract_link (?d @ [c]) (join_slash q) h) (ret modes)
           | TypeOther \<Rightarrow> throw (New ''unsupported workload archive entry'')) (\<lambda>modes'. staging T modes')"
      by (cases "te_Type h") auto
    have dst: "(T @ [tree]) @ q = ?d @ [c]" and "q \<noteq> []" using snoc by simp_all
    then show ?thesis
      using safe_thenE [OF parents kinds] unfolding unfold bind_known dst by simp
  qed
qed

lemma component_roots: "component claudeArchiveStateRoot" "component stateArchiveSharedRoot"
  by (simp_all add: component_def normal_def claudeArchiveStateRoot_def stateArchiveSharedRoot_def)

lemma safe_restore_entry:
  assumes "T \<noteq> []"
  shows "safe T (stage_link T) (staging T (ra_dirModes ra)) (restore_entry T h ra) (\<lambda>ra'. staging T (ra_dirModes ra'))"
proof -
  have tree: "safe T (stage_link T) (staging T (ra_dirModes ra))
      (bindE (extractClaudeStateEntry h (T @ [root]) (tree_rel clean root) (ra_dirModes ra)) (\<lambda>modes. ret (f modes)))
      (\<lambda>ra'. staging T (ra_dirModes ra'))"
    if "cleanClaudeArchiveName (te_Name h) = Inr clean" "in_tree clean root" "component root" "\<And>modes. ra_dirModes (f modes) = modes"
    for clean root f
  proof -
    from cleanClaudeArchiveName_ok [OF that(1)] obtain cs where cs: "list_all component cs" "cs \<noteq> []" "clean = join_slash cs" .
    with in_tree_components [OF cs(1,2) that(3)] that(2) obtain q where "cs = root # q" "tree_rel clean root = join_slash q" by metis
    then show ?thesis using cs that(4) by (auto intro!: safe_bindE [OF safe_extract [OF that(3) _ assms]] safe_ret)
  qed
  have scroll: "restore_scrollback h ra' = Inr ra'' \<Longrightarrow> ra_dirModes ra'' = ra_dirModes ra'" for ra' ra''
    by (auto simp: restore_scrollback_def split: if_splits sum.splits)
  show ?thesis
  proof (cases "cleanClaudeArchiveName (te_Name h)")
    case (Inl e)
    then show ?thesis by (simp add: restore_entry_def bind_known)
  next
    case (Inr clean)
    show ?thesis
      unfolding restore_entry_def Let_def Inr bind_known
      by (auto dest: scroll intro!: safe_lift tree [OF Inr _ component_roots(1)] tree [OF Inr _ component_roots(2)])
  qed
qed

lemma safe_restore_loop:
  assumes "T \<noteq> []"
  shows "safe T (stage_link T) (staging T (ra_dirModes ra)) (restore_loop T hs end_err ra) (\<lambda>ra'. staging T (ra_dirModes ra'))"
proof (induction hs arbitrary: ra)
  case Nil
  then show ?case by (cases end_err) (auto intro: safe_ret)
next
  case (Cons h hs)
  show ?case unfolding restore_loop.simps by (rule safe_bindE [OF safe_restore_entry [OF assms] Cons])
qed

text \<open>Setting modes and times of directories that are there.\<close>

definition dirs_real :: "path \<Rightarrow> restoredDirMode list \<Rightarrow> files \<Rightarrow> bool" where
  "dirs_real T modes fs = (\<forall>item \<in> set modes. real fs (dm_name item) \<and> prefix T (dm_name item))"

lemma stable_dirs_real: "stable T L (dirs_real T modes)"
  by (auto simp: stable_def dirs_real_def intro: grows_real)

lemma safe_dirs_real:
  assumes "safe T L P m Q" "\<And>fs. P' fs \<Longrightarrow> P fs \<and> dirs_real T modes fs" "\<And>x fs. Q x fs \<Longrightarrow> dirs_real T modes fs \<Longrightarrow> Q' x fs"
  shows "safe T L P' m Q'"
  using safe_frame [OF assms(1) stable_dirs_real [of T L modes]] assms(2,3) by (auto simp: safe_def)

lemma safe_apply_modes:
  assumes "T \<noteq> []"
  shows "set items \<subseteq> set modes \<Longrightarrow> safe T L (dirs_real T modes) (apply_modes items) (\<lambda>_. dirs_real T modes)"
proof (induction items)
  case (Cons item items)
  let ?p = "dm_name item"
  have upd: "safe T L (dirs_real T modes) (update_node ?p f) (\<lambda>_. dirs_real T modes)"
    if "\<And>n t. is_dir n \<Longrightarrow> is_dir (f t n)" for f
  proof (cases "prefix T ?p \<and> ?p \<noteq> [] \<and> component (last ?p)")
    case True
    then obtain d c where p: "?p = d @ [c]" by (metis rev_exhaust)
    have "real fs (d @ [c])" if "dirs_real T modes fs" for fs using that Cons.prems p by (auto simp: dirs_real_def)
    then have known: "real fs d \<and> (\<exists>n. get fs (d @ [c]) = Some n \<and> is_dir n)" if "dirs_real T modes fs" for fs
      using that by (fastforce simp: real_snoc is_dir_def)
    have link: "n \<noteq> Symlink l" if "is_dir n" for n l using that by (auto simp: is_dir_def)
    show ?thesis unfolding p
      by (rule safe_dirs_real [OF safe_update [where K = is_dir and P = "dirs_real T modes" and d = d]])
        (use True p that known link in auto)
  next
    case False
    have "\<not> dirs_real T modes fs" for fs
    proof
      assume "dirs_real T modes fs"
      then have p: "real fs ?p" "prefix T ?p" using Cons.prems by (auto simp: dirs_real_def)
      then have "?p \<noteq> []" using assms by auto
      then have "component (last ?p)" using p(1) by (auto simp: real_def list_all_iff)
      with False p(2) \<open>?p \<noteq> []\<close> show False by simp
    qed
    then show ?thesis by (simp add: safe_def)
  qed
  have steps: "safe T L (dirs_real T modes) (Chmod ?p m) (\<lambda>_. dirs_real T modes)"
    "safe T L (dirs_real T modes) (Chtimes ?p t) (\<lambda>_. dirs_real T modes)" for m t
    unfolding Chmod_def Chtimes_def
    by (rule upd; auto simp: is_dir_def with_perm_def with_mtime_def split: node.splits)+
  have mtime: "safe T L (dirs_real T modes) (restoreModTime ?p t) (\<lambda>_. dirs_real T modes)" for t
    using steps(2) by (auto simp: restoreModTime_def intro: safe_ret)
  have "safe T L (dirs_real T modes) (apply_modes items) (\<lambda>_. dirs_real T modes)" using Cons by simp
  from safe_thenE [OF safe_wrapE [OF steps(1)] safe_thenE [OF safe_wrapE [OF mtime] this]] show ?case by simp
qed (auto intro: safe_ret)

end
