(* ===== verification/Archive_Restore.thy ===== *)
theory Archive_Restore
  imports State_Archive_Laws
begin

text \<open>
  The whole restore: extraction stays in the staging directory, the shared volume changes only inside
  itself, and the live state is replaced as a whole or not at all.
\<close>

section \<open>Well-formed trees\<close>

definition wf_tree :: "files \<Rightarrow> bool" where
  "wf_tree fs = (\<forall>p c. get fs (p @ [c]) \<noteq> None \<longrightarrow> component c \<and> (p = [] \<or> dir_at fs p))"

lemma wf_grows: "wf_tree fs \<Longrightarrow> grows T L fs fs' \<Longrightarrow> wf_tree fs'"
  unfolding wf_tree_def grows_def by blast

lemma wf_above: "wf_tree fs \<Longrightarrow> get fs (p @ q) \<noteq> None \<Longrightarrow> p \<noteq> [] \<Longrightarrow> q \<noteq> [] \<Longrightarrow> dir_at fs p"
proof (induction q rule: rev_induct)
  case (snoc c q)
  then have "dir_at fs (p @ q)" unfolding wf_tree_def by (metis append_assoc append_is_Nil_conv)
  then show ?case using snoc by (cases "q = []") auto
qed simp

lemma wf_components: "wf_tree fs \<Longrightarrow> get fs p \<noteq> None \<Longrightarrow> list_all component p"
proof (induction p rule: rev_induct)
  case (snoc c p)
  then have "component c" "p = [] \<or> dir_at fs p" unfolding wf_tree_def by blast+
  then show ?case using snoc by auto
qed simp

lemma wf_real: "wf_tree fs \<Longrightarrow> dir_at fs p \<Longrightarrow> real fs p"
  using wf_components [of fs p] wf_above [of fs] by (fastforce simp: real_def prefix_def)

section \<open>Staging\<close>

lemma safe_must_be_dir:
  assumes "\<And>fs. P fs \<Longrightarrow> real fs d \<and> (\<forall>t. get fs (d @ [c]) \<noteq> Some (Symlink t))" "component c"
  shows "safe T L P (must_be_dir what (d @ [c])) (\<lambda>_ fs. P fs \<and> real fs (d @ [c]))"
  unfolding must_be_dir_def
proof (rule safe_tryE [where R = "\<lambda>r fs. P fs \<and> (\<forall>n. r = Inr n \<and> is_dir n \<longrightarrow> real fs (d @ [c]))"])
  show "safe T L (\<lambda>fs. P fs \<and> (\<forall>n. r = Inr n \<and> is_dir n \<longrightarrow> real fs (d @ [c])))
      (case r of Inr n \<Rightarrow> if is_dir n then ret () else throw (New what) | Inl _ \<Rightarrow> throw (New what))
      (\<lambda>_ fs. P fs \<and> real fs (d @ [c]))" for r
    by (cases r) (auto intro: safe_ret)
qed (use Stat_dir_real [OF _ _ assms(2)] assms(1) in auto)

definition read_only :: "(path \<Rightarrow> (os, unit) act) \<Rightarrow> bool" where
  "read_only validate = (\<forall>p fs. reads fs (validate p))"

lemma safe_restore_staged:
  assumes "T \<noteq> []" "read_only validate"
  shows "safe T (stage_link T) (staging T []) (restore_staged validate T sharedDir hs end_err)
    (\<lambda>ra fs. staging T (ra_dirModes ra) fs \<and> real fs (T @ [claudeArchiveStateRoot]))"
proof -
  have loop: "safe T (stage_link T) (staging T []) (restore_loop T hs end_err fresh_restored) (\<lambda>ra. staging T (ra_dirModes ra))"
    using safe_restore_loop [OF assms(1), of fresh_restored] by (simp add: fresh_restored_def)
  have checks: "safe T (stage_link T) (staging T (ra_dirModes ra)) (restore_checks validate T sharedDir ra)
      (\<lambda>_ fs. staging T (ra_dirModes ra) fs \<and> real fs (T @ [claudeArchiveStateRoot]))" for ra
  proof -
    let ?S = "\<lambda>fs. staging T (ra_dirModes ra) fs \<and> real fs (T @ [claudeArchiveStateRoot])"
    have root: "safe T (stage_link T) (staging T (ra_dirModes ra)) (must_be_dir what (T @ [claudeArchiveStateRoot])) (\<lambda>_. ?S)" for what
      by (rule safe_must_be_dir) (auto simp: staging_def component_roots)
    have shared: "safe T (stage_link T) ?S (must_be_dir what (T @ [stateArchiveSharedRoot])) (\<lambda>_. ?S)" for what
      by (rule safe_post [OF safe_must_be_dir [where P = ?S]]) (auto simp: staging_def component_roots)
    have valid: "safe T (stage_link T) ?S (validate (T @ [claudeArchiveStateRoot])) (\<lambda>_. ?S)"
      using assms(2) by (intro reads_safe) (simp add: read_only_def)
    have second: "safe T (stage_link T) ?S
        (if ra_sawShared ra then
           (if sharedDir = None then throw (New ''this pod mounts no shared volume'')
            else must_be_dir ''workload archive shared root is not a directory'' (T @ [stateArchiveSharedRoot]))
         else ret ()) (\<lambda>_. ?S)"
      using shared by (auto intro: safe_ret)
    show ?thesis
      unfolding restore_checks_def using safe_thenE [OF root safe_thenE [OF second valid]] by auto
  qed
  have modes: "safe T (stage_link T) (\<lambda>fs. staging T ms fs \<and> real fs (T @ [claudeArchiveStateRoot])) (apply_modes (deepest_first ms))
      (\<lambda>_ fs. staging T ms fs \<and> real fs (T @ [claudeArchiveStateRoot]))" for ms
  proof -
    have "safe T (stage_link T) (dirs_real T ms) (apply_modes (deepest_first ms)) (\<lambda>_. dirs_real T ms)"
      by (rule safe_apply_modes [OF assms(1)]) (simp add: deepest_first_def)
    then have "safe T (stage_link T) (staging T ms) (apply_modes (deepest_first ms)) (\<lambda>_. staging T ms)"
      by (rule safe_staged) (auto simp: dirs_real_def staging_def)
    from safe_frame [OF this stable_real] show ?thesis .
  qed
  show ?thesis
    unfolding restore_staged_def
    by (rule safe_bindE [OF loop], rule safe_thenE [OF checks], rule safe_thenE [OF modes], rule safe_ret) simp
qed

section \<open>The shared volume\<close>

lemma remove_entry:
  assumes "real (os_files w) d" "component c"
  shows "(\<exists>e w'. os_Remove (d @ [c]) w = (Inl e, w') \<and> os_files w' = os_files w) \<or>
    (\<exists>w' t. os_Remove (d @ [c]) w = (Inr (), w') \<and> (\<forall>q. strict_prefix (d @ [c]) q \<longrightarrow> get (os_files w) q = None) \<and>
       os_files w' = stamp d t (cut (d @ [c]) (os_files w)))"
proof -
  have none: "(\<forall>q. strict_prefix p q \<longrightarrow> get fs q = None)" if "\<not> list_ex (\<lambda>(r, _). strict_prefix p r \<and> get fs r \<noteq> None) fs" for p :: path and fs
  proof (intro allI impI, rule ccontr)
    fix q assume "strict_prefix p q" "get fs q \<noteq> None"
    then obtain n where "(q, n) \<in> set fs" by (auto dest: map_of_SomeD)
    with that \<open>strict_prefix p q\<close> \<open>get fs q \<noteq> None\<close> show False by (auto simp: list_ex_iff)
  qed
  show ?thesis
    using none [of "d @ [c]" "os_files w"]
    by (auto simp: os_Remove_def syscall_def lookup_entry [OF assms] set_files_def split: list.splits option.splits if_splits)
qed

lemma safe_removeIfNotDir:
  assumes "component c" "prefix T d" "T \<noteq> []"
  shows "safe T L (\<lambda>fs. real fs d) (removeIfNotDir (d @ [c])) (\<lambda>_ fs. real fs d)"
proof -
  have remove: "safe T L (\<lambda>fs. real fs d \<and> get fs (d @ [c]) = Some n) (os_Remove (d @ [c])) (\<lambda>_ fs. real fs d)" if n: "\<not> is_dir n" for n
  proof -
    have grow: "grows T L fs (stamp d t (cut (d @ [c]) fs))"
      if "get fs (d @ [c]) = Some n" "\<forall>q. strict_prefix (d @ [c]) q \<longrightarrow> get fs q = None" for fs t
    proof -
      have "get (cut (d @ [c]) fs) p = (if p = d @ [c] then None else get fs p)" for p
        using that(2) by (auto simp: strict_prefix_def)
      then have "grows T L fs (cut (d @ [c]) fs)"
        using that(1) n assms(2) unfolding grows_def by (auto simp: is_dir_def split: node.splits)
      then show ?thesis using grows_stamp [OF assms(2)] by (rule grows_trans)
    qed
    show ?thesis
    proof (rule safeI)
      fix w :: os and x
      assume P: "real (os_files w) d \<and> get (os_files w) (d @ [c]) = Some n"
      then show "grows T L (os_files w) (os_files (snd (os_Remove (d @ [c]) w)))" "real (os_files (snd (os_Remove (d @ [c]) w))) d"
        using remove_entry [of w d c] assms(1) grow [of "os_files w"]
        by (auto intro: grows_real [where T = T and L = L and fs = "os_files w"])
    qed
  qed
  show ?thesis unfolding removeIfNotDir_def
  proof (rule safe_Lstat_try)
    show "safe T L (\<lambda>fs. real fs d \<and> seen_entry (d @ [c]) r fs)
        (case r of
           Inl e \<Rightarrow> if errors_is e ErrNotExist then ret () else throw e
         | Inr n \<Rightarrow> if is_dir n then throw (New ''shared file collides with directory'') else os_Remove (d @ [c])) (\<lambda>_ fs. real fs d)" for r
      by (cases r) (use remove in \<open>auto simp: seen_entry_def intro: safe_ret\<close>)
  qed (use assms(1) in auto)
qed

text \<open>Copying changes only the target, whatever it finds there.\<close>

abbreviation any_link :: "path \<Rightarrow> string \<Rightarrow> bool" where
  "any_link \<equiv> (\<lambda>_ _. True)"

lemma safe_copy_node:
  assumes "component c" "T \<noteq> []"
  shows "safe T any_link (\<lambda>fs. real fs (T @ q) \<and> dirs_real T modes fs) (copy_node staged T (q @ [c]) n modes) (\<lambda>modes'. dirs_real T modes')"
proof -
  define d where "d = T @ q"
  let ?P = "\<lambda>fs. real fs d \<and> dirs_real T modes fs"
  have d: "prefix T d" by (simp add: d_def)
  have frame: "safe T any_link ?P m (\<lambda>_. ?P)" if "safe T any_link (\<lambda>fs. real fs d) m (\<lambda>_ fs. real fs d)" for m :: "(os, unit) act"
    using that by (rule safe_dirs_real) auto
  note clear = frame [OF safe_removeIfNotDir [OF assms(1) d assms(2)]]
  have keep: "safe T any_link ?P (ret modes) (\<lambda>modes'. dirs_real T modes')" by (rule safe_ret) simp
  have dst: "T @ q @ [c] = d @ [c]" by (simp add: d_def)
  have "safe T any_link ?P (copy_node staged T (q @ [c]) n modes) (\<lambda>modes'. dirs_real T modes')"
  proof (cases n)
    case (Dir m t)
    have "safe T any_link (\<lambda>fs. real fs d) (tryE (Lstat (d @ [c])) (\<lambda>r.
        thenE (case r of
                 Inl e \<Rightarrow> if errors_is e ErrNotExist then Mkdir (d @ [c]) 448 else throw e
               | Inr existing \<Rightarrow> if is_dir existing then ret () else throw (New ''shared directory collides with non-directory''))
          (ret (modes @ [\<lparr>dm_name = d @ [c], dm_mode = m, dm_modTime = t\<rparr>]))))
        (\<lambda>modes' fs. modes' = modes @ [\<lparr>dm_name = d @ [c], dm_mode = m, dm_modTime = t\<rparr>] \<and> real fs (d @ [c]))"
    proof (rule safe_Lstat_try [OF safe_thenE [where R = "\<lambda>fs. real fs (d @ [c])"]])
      show "safe T any_link (\<lambda>fs. real fs d \<and> seen_entry (d @ [c]) r fs)
          (case r of
             Inl e \<Rightarrow> if errors_is e ErrNotExist then Mkdir (d @ [c]) 448 else throw e
           | Inr existing \<Rightarrow> if is_dir existing then ret () else throw (New ''shared directory collides with non-directory''))
          (\<lambda>_ fs. real fs (d @ [c]))" for r
      proof (cases r)
        case (Inl e)
        then show ?thesis using assms d by (auto intro!: safe_Mkdir)
      next
        case (Inr existing)
        then show ?thesis using assms by (auto simp: seen_entry_def real_snoc is_dir_def split: node.splits intro!: safe_ret)
      qed
    qed (use assms in \<open>auto intro: safe_ret\<close>)
    then show ?thesis unfolding copy_node_def Dir Let_def node.case dst
      by (rule safe_dirs_real) (use d in \<open>auto simp: dirs_real_def\<close>)
  next
    case (Regular bs m t)
    let ?F = "\<lambda>fs. real fs d \<and> (\<exists>n. get fs (d @ [c]) = Some n \<and> is_regular n)"
    note fill = safe_fill_file [OF assms(1) d, where L = any_link]
    have copied: "safe T any_link (\<lambda>fs. real fs d) (thenE (OpenExcl (d @ [c]) 384) (thenE (WriteAll (d @ [c]) bs')
        (thenE (Chmod (d @ [c]) (perm m)) (thenE (restoreModTime (d @ [c]) t) (ret modes)))))
        (\<lambda>modes' fs. modes' = modes)" for bs'
      by (rule safe_thenE [OF safe_OpenExcl [OF assms(1) d assms(2)] safe_thenE [OF fill(1) safe_thenE [OF fill(2) safe_thenE [OF fill(3) safe_ret]]]]) simp
    have "safe T any_link ?P (ReadFile p) (\<lambda>_. ?P)" for p
      unfolding ReadFile_def by (intro reads_safe reads_bindE) (auto split: node.split)
    then show ?thesis
      unfolding copy_node_def Regular Let_def node.case dst
      by (rule safe_thenE [OF clear safe_bindE]) (rule safe_dirs_real [OF copied], auto)
  next
    case (Symlink l)
    have link: "safe T any_link (\<lambda>fs. real fs d) (thenE (os_Symlink l' (d @ [c])) (ret modes)) (\<lambda>modes' fs. modes' = modes)" for l'
      unfolding os_Symlink_def
      by (rule safe_thenE [OF safe_create safe_ret]) (use assms d in auto)
    have "safe T any_link ?P (Readlink p) (\<lambda>_. ?P)" for p
      unfolding Readlink_def by (intro reads_safe reads_bindE) (auto split: node.split)
    then show ?thesis
      unfolding copy_node_def Symlink Let_def node.case dst
      by (rule safe_bindE) (rule safe_thenE [OF clear], rule safe_dirs_real [OF link], auto)
  qed (simp add: copy_node_def)
  then show ?thesis by (simp only: d_def)
qed

lemma safe_copy_walk:
  assumes "T \<noteq> []" "\<forall>rel \<in> set rels. list_all component rel"
  shows "safe T any_link (\<lambda>fs. real fs T \<and> dirs_real T modes fs) (copy_walk staged T rels modes) (\<lambda>modes'. dirs_real T modes')"
  using assms(2)
proof (induction rels arbitrary: modes)
  case (Cons rel rels)
  let ?I = "\<lambda>modes fs. real fs T \<and> dirs_real T modes fs"
  have IH: "safe T any_link (?I modes') (copy_walk staged T rels modes') (\<lambda>modes'. dirs_real T modes')" for modes'
    using Cons by simp
  show ?case
  proof (cases rel rule: rev_cases)
    case Nil
    then show ?thesis using IH by simp
  next
    case (snoc q c)
    have comps: "list_all component (q @ [c])" "component c" using Cons.prems snoc by auto
    have "safe T any_link (?I modes) (MkdirAll T 448) (\<lambda>_ fs. real fs T)"
      by (rule safe_post [OF safe_MkdirAll_real [where P = "?I modes"]]) auto
    from safe_ensure [OF this comps(1) _ assms(1)] have
      "safe T any_link (?I modes) (ensureSafeClaudeParents T (Dir_of (join_slash rel))) (\<lambda>_ fs. real fs (T @ q))"
      by (simp add: snoc)
    then have parents: "safe T any_link (?I modes) (ensureSafeClaudeParents T (Dir_of (join_slash rel)))
        (\<lambda>_ fs. real fs (T @ q) \<and> dirs_real T modes fs)"
      by (rule safe_dirs_real) auto
    have look: "safe T any_link (\<lambda>fs. real fs (T @ q) \<and> dirs_real T modes fs) (Lstat (staged @ rel))
        (\<lambda>_ fs. real fs (T @ q) \<and> dirs_real T modes fs)"
      by (rule reads_safe) simp
    have node: "safe T any_link (\<lambda>fs. real fs (T @ q) \<and> dirs_real T modes fs) (copy_node staged T rel n modes) (\<lambda>modes'. ?I modes')" for n
      using safe_frame [OF safe_copy_node [OF comps(2) assms(1), of q modes staged n] stable_real [of T any_link T]]
      by (auto simp: safe_def snoc intro: real_prefix)
    have "copy_walk staged T (rel # rels) modes = thenE (ensureSafeClaudeParents T (Dir_of (join_slash rel)))
        (bindE (Lstat (staged @ rel)) (\<lambda>n. bindE (copy_node staged T rel n modes) (copy_walk staged T rels)))"
      using snoc by simp
    then show ?thesis using safe_thenE [OF parents safe_bindE [OF look safe_bindE [OF node IH]]] by simp
  qed
qed (auto intro: safe_ret)

lemma walk_components: "wf_tree fs \<Longrightarrow> rel \<in> set (walk d fs) \<Longrightarrow> list_all component rel"
  using wf_components [of fs "d @ rel"] by (simp add: set_walk)

lemma safe_copyRestoredTree:
  assumes "T \<noteq> []"
  shows "safe T any_link (\<lambda>fs. real fs T \<and> wf_tree fs) (copyRestoredTree staged T) (\<lambda>_ _. True)"
proof -
  have "safe T any_link (\<lambda>fs. real fs T \<and> wf_tree fs) (\<lambda>w. copy_walk staged T (walk staged (os_files w)) [] w) (\<lambda>modes. dirs_real T modes)"
  proof (rule safeI)
    fix w :: os and x
    assume "real (os_files w) T \<and> wf_tree (os_files w)"
    then have w: "real (os_files w) T" "\<forall>rel \<in> set (walk staged (os_files w)). list_all component rel"
      using walk_components by auto
    from safe_copy_walk [OF assms w(2), of "[]" staged] w(1)
    show "grows T any_link (os_files w) (os_files (snd (copy_walk staged T (walk staged (os_files w)) [] w)))"
      "fst (copy_walk staged T (walk staged (os_files w)) [] w) = Inr x \<Longrightarrow>
       dirs_real T x (os_files (snd (copy_walk staged T (walk staged (os_files w)) [] w)))"
      by (auto simp: safe_def dirs_real_def)
  qed
  moreover have "safe T any_link (dirs_real T modes) (apply_modes (deepest_first modes)) (\<lambda>_ _. True)" for modes
    by (rule safe_post [OF safe_apply_modes [OF assms, of _ modes]]) (simp_all add: deepest_first_def)
  ultimately have "safe T any_link (\<lambda>fs. real fs T \<and> wf_tree fs)
      (bindE (\<lambda>w. copy_walk staged T (walk staged (os_files w)) [] w) (\<lambda>modes. apply_modes (deepest_first modes))) (\<lambda>_ _. True)"
    by (rule safe_bindE)
  then show ?thesis
    unfolding copyRestoredTree_def by (rule safe_thenE [rotated]) (rule reads_safe, simp)
qed

section \<open>Installing, when nothing fails from outside\<close>

definition calm :: "os \<Rightarrow> bool" where
  "calm w = (os_faults w = [])"

lemma syscall_calm [simp]: "calm w \<Longrightarrow> syscall f w = f w"
  by (simp add: calm_def syscall_def)

lemma calm_set_files [simp]: "calm (set_files fs w) = calm w" "os_files (set_files fs w) = fs"
  "os_now (set_files fs w) = os_now w" "os_suffix (set_files fs w) = os_suffix w"
  by (simp_all add: calm_def set_files_def)

text \<open>Two paths none of which is inside the other.\<close>

definition apart :: "path \<Rightarrow> path \<Rightarrow> bool" where
  "apart p q = (\<not> prefix p q \<and> \<not> prefix q p)"

lemma apart_sym: "apart p q \<longleftrightarrow> apart q p"
  by (auto simp: apart_def)

lemma apart_below: "apart p q \<Longrightarrow> prefix p r \<Longrightarrow> \<not> prefix q r"
  unfolding apart_def using prefix_same_cases by blast

lemma apart_siblings: "a \<noteq> b \<Longrightarrow> apart (d @ a # x) (d @ b # y)"
  by (auto simp: apart_def)

lemma rename_calm:
  assumes "calm w" "real (os_files w) dp" "component a" "real (os_files w) dq" "component b"
    and "get (os_files w) (dp @ [a]) \<noteq> None" "get (os_files w) (dq @ [b]) = None" "apart (dp @ [a]) (dq @ [b])"
  shows "\<exists>t. Rename (dp @ [a]) (dq @ [b]) w = (Inr (), set_files (stamp dp t (stamp dq t (move (dp @ [a]) (dq @ [b]) (os_files w)))) w)"
  using assms by (auto simp: Rename_def lookup_entry apart_def)

lemma get_renamed:
  assumes "apart p q"
  shows "prefix q r \<Longrightarrow> r \<noteq> dp \<Longrightarrow> r \<noteq> dq \<Longrightarrow> get (stamp dp t (stamp dq t (move p q fs))) r = get fs (p @ drop (length q) r)"
    "\<not> prefix q r \<Longrightarrow> \<not> prefix p r \<Longrightarrow> r \<noteq> dp \<Longrightarrow> r \<noteq> dq \<Longrightarrow> get (stamp dp t (stamp dq t (move p q fs))) r = get fs r"
    "prefix p r \<Longrightarrow> r \<noteq> dp \<Longrightarrow> r \<noteq> dq \<Longrightarrow> get (stamp dp t (stamp dq t (move p q fs))) r = None"
  using assms get_move [of p q fs r] apart_below [of p q r] by (auto simp: get_stamp_other apart_def)

lemma dir_at_stamp [simp]: "dir_at (stamp d t fs) p = dir_at fs p"
  by (cases "get fs p") (auto simp: get_stamp split: node.splits)

lemma real_stamp [simp]: "real (stamp d t fs) p = real fs p"
  by (simp add: real_def)

lemma real_move:
  assumes "apart p q" "real fs d" "\<not> prefix p d" "\<not> prefix q d"
  shows "real (move p q fs) d"
proof -
  have "get (move p q fs) r = get fs r" if "prefix r d" for r
    using assms that get_move [of p q fs r] prefix_order.trans by (auto simp: apart_def)
  then show ?thesis using assms(2) by (auto simp: real_def)
qed

text \<open>Each call on a calm world, by what it leaves in the tree; the times of the directories around it apart.\<close>

lemma mkdir_calm:
  assumes "calm w" "real (os_files w) D" "component b" "get (os_files w) (D @ [b]) = None"
  shows "\<exists>w'. Mkdir (D @ [b]) m w = (Inr (), w') \<and> calm w' \<and> real (os_files w') D \<and> dir_at (os_files w') (D @ [b]) \<and>
    (\<forall>p. p \<noteq> D \<and> p \<noteq> D @ [b] \<longrightarrow> get (os_files w') p = get (os_files w) p)"
proof -
  have "real (put (D @ [b]) n (os_files w)) D" for n
    using assms(2) by (auto simp: real_def prefix_def)
  then show ?thesis
    using assms by (auto simp: Mkdir_def create_def lookup_entry get_stamp_other)
qed

lemma remove_calm:
  assumes "calm w" "real (os_files w) D" "component b" "get (os_files w) (D @ [b]) \<noteq> None"
    and "\<forall>q. strict_prefix (D @ [b]) q \<longrightarrow> get (os_files w) q = None"
  shows "\<exists>w'. os_Remove (D @ [b]) w = (Inr (), w') \<and> calm w' \<and> real (os_files w') D \<and>
    (\<forall>p. p \<noteq> D \<longrightarrow> get (os_files w') p = (if prefix (D @ [b]) p then None else get (os_files w) p))"
proof -
  have "\<not> list_ex (\<lambda>(r, _). strict_prefix (D @ [b]) r \<and> get (os_files w) r \<noteq> None) (os_files w)"
    using assms(5) by (auto simp: list_ex_iff)
  moreover have "real (cut (D @ [b]) (os_files w)) D" using assms(2) by (auto simp: real_def prefix_def)
  ultimately show ?thesis
    using assms(1-4) by (auto simp: os_Remove_def lookup_entry get_stamp_other)
qed

lemma removeall_calm:
  assumes "calm w" "real (os_files w) D" "component b"
  shows "\<exists>w'. RemoveAll (D @ [b]) w = (Inr (), w') \<and> calm w' \<and> real (os_files w') D \<and>
    (\<forall>p. p \<noteq> D \<and> \<not> prefix (D @ [b]) p \<longrightarrow> get (os_files w') p = get (os_files w) p)"
proof -
  have "real (cut (D @ [b]) (os_files w)) D" using assms(2) by (auto simp: real_def prefix_def)
  then show ?thesis using assms by (auto simp: RemoveAll_def lookup_entry get_stamp_other)
qed

lemma rename_view:
  assumes "calm w" "real (os_files w) dp" "component a" "real (os_files w) D" "component b"
    and "get (os_files w) (dp @ [a]) \<noteq> None" "get (os_files w) (D @ [b]) = None" "apart (dp @ [a]) (D @ [b])" "\<not> prefix (dp @ [a]) D"
  shows "\<exists>w'. Rename (dp @ [a]) (D @ [b]) w = (Inr (), w') \<and> calm w' \<and> real (os_files w') D \<and>
    (\<forall>p. p \<noteq> dp \<and> p \<noteq> D \<longrightarrow> get (os_files w') p =
      (if prefix (D @ [b]) p then get (os_files w) (dp @ [a] @ drop (length (D @ [b])) p)
       else if prefix (dp @ [a]) p then None else get (os_files w) p))"
proof -
  from rename_calm [OF assms(1-8)] obtain t where run:
    "Rename (dp @ [a]) (D @ [b]) w = (Inr (), set_files (stamp dp t (stamp D t (move (dp @ [a]) (D @ [b]) (os_files w)))) w)" by blast
  have "real (move (dp @ [a]) (D @ [b]) (os_files w)) D"
    using real_move [OF assms(8,4)] assms(9) by (auto simp: prefix_def)
  then show ?thesis
    using run assms(1) get_renamed [OF assms(8)] by (auto simp: get_stamp_other)
qed

lemma install_calm:
  assumes "calm w" "wf_tree (os_files w)" "real (os_files w) D" "component c" "component s" "component r"
    and "real (os_files w) (D @ [s, r])" "s \<noteq> c" "CHR ''/'' \<notin> set c" "CHR ''/'' \<notin> set (os_suffix w)"
    and "s \<noteq> ''.'' @ c @ ''-backup-'' @ os_suffix w"
  defines "m \<equiv> installClaudeState (D @ [s, r]) (D @ [c])"
  shows "calm (snd (m w)) \<and> real (os_files (snd (m w))) D \<and>
    (case fst (m w) of
       Inl _ \<Rightarrow> get (os_files w) (D @ [''.'' @ c @ ''-backup-'' @ os_suffix w]) \<noteq> None \<and>
         (\<forall>p. prefix (D @ [c]) p \<longrightarrow> get (os_files (snd (m w))) p = get (os_files w) p)
     | Inr _ \<Rightarrow> \<forall>rel. get (os_files (snd (m w))) (D @ c # rel) = get (os_files w) (D @ s # r # rel))"
proof -
  define b where "b = ''.'' @ c @ ''-backup-'' @ os_suffix w"
  have b: "component b" "b \<noteq> c" "b \<noteq> s"
    using assms(9-11) by (auto simp: b_def component_def normal_def dest: arg_cong [of _ _ length])
  have Ds: "real (os_files w) (D @ [s])" using real_prefix [OF assms(7), of "D @ [s]"] by simp
  have staged: "dir_at (os_files w) (D @ [s, r])" using real_dir [OF assms(7)] by simp
  obtain n where stat: "Stat (D @ [s, r]) w = (Inr n, w)" "is_dir n"
    using stat_real [OF assms(7), of True] assms(1) by (auto simp: Stat_def is_dir_def)
  have apart_s: "apart ((D @ [s]) @ [r]) (D @ [c])" using apart_siblings [OF assms(8), of D "[r]" "[]"] by simp
  show ?thesis
  proof (cases "get (os_files w) (D @ [c])")
    case None
    then have lstat: "Lstat (D @ [c]) w = (Inl ErrNotExist, w)"
      using stat_entry [OF assms(3,4)] assms(1) by (simp add: Lstat_def)
    from rename_view [OF assms(1) Ds assms(6,3,4) _ None apart_s] staged obtain w' where
      w': "Rename (D @ [s, r]) (D @ [c]) w = (Inr (), w')" "calm w'" "real (os_files w') D"
      "\<forall>p. p \<noteq> D @ [s] \<and> p \<noteq> D \<longrightarrow> get (os_files w') p =
        (if prefix (D @ [c]) p then get (os_files w) (D @ [s, r] @ drop (length (D @ [c])) p)
         else if prefix (D @ [s, r]) p then None else get (os_files w) p)"
      by (auto simp: prefix_def)
    have run: "m w = (Inr (), w')"
      by (simp add: m_def installClaudeState_def wrapE_def bindE_def tryE_def ret_def stat lstat w'(1))
    have "get (os_files w') (D @ c # rel) = get (os_files w) (D @ s # r # rel)" for rel
      using spec [OF w'(4), of "D @ c # rel"] assms(8) by simp
    then show ?thesis using run w' by simp
  next
    case (Some old)
    then have lstat: "Lstat (D @ [c]) w = (Inr old, w)"
      using stat_entry [OF assms(3,4)] assms(1) by (simp add: Lstat_def)
    show ?thesis
    proof (cases "get (os_files w) (D @ [b])")
      case taken: (Some x)
      have "Mkdir (D @ [b]) 448 w = (Inl EEXIST, w)"
        using taken assms(1,3) b(1) by (simp add: Mkdir_def create_def lookup_entry)
      then have "m w = (Inl EEXIST, w)"
        by (simp add: m_def installClaudeState_def wrapE_def bindE_def tryE_def thenE_def ret_def stat lstat MkdirTemp_def b_def)
      then show ?thesis using assms(1,3) taken by (simp add: b_def)
    next
      case free: None
      have below_b: "get (os_files w) (D @ b # q) = None" for q
        using wf_above [OF assms(2), of "D @ [b]" q] free by (cases q; cases "get (os_files w) (D @ b # q)") auto
      from mkdir_calm [OF assms(1,3) b(1) free, of 448] obtain w1 where
        w1: "Mkdir (D @ [b]) 448 w = (Inr (), w1)" "calm w1" "real (os_files w1) D" "dir_at (os_files w1) (D @ [b])"
        "\<forall>p. p \<noteq> D \<and> p \<noteq> D @ [b] \<longrightarrow> get (os_files w1) p = get (os_files w) p" by blast
      have "\<forall>q. strict_prefix (D @ [b]) q \<longrightarrow> get (os_files w1) q = None"
      proof (intro allI impI)
        fix q assume "strict_prefix (D @ [b]) q"
        then obtain zs where "q = D @ b # zs" "zs \<noteq> []" by (auto simp: strict_prefix_def prefix_def)
        then show "get (os_files w1) q = None" using spec [OF w1(5), of "D @ b # zs"] below_b [of zs] by simp
      qed
      with remove_calm [OF w1(2,3) b(1)] w1(4) obtain w2 where
        w2: "os_Remove (D @ [b]) w1 = (Inr (), w2)" "calm w2" "real (os_files w2) D"
        "\<forall>p. p \<noteq> D \<longrightarrow> get (os_files w2) p = (if prefix (D @ [b]) p then None else get (os_files w1) p)" by blast
      have g2: "get (os_files w2) p = (if prefix (D @ [b]) p then None else get (os_files w) p)" if "p \<noteq> D" for p
        using w2(4) w1(5) that by (cases "p = D @ [b]") auto
      have "apart (D @ [c]) (D @ [b])" using apart_siblings [of c b D "[]" "[]"] b(2) by simp
      from rename_view [OF w2(2,3) assms(4) w2(3) b(1) _ _ this] g2 Some b(2) obtain w3 where
        w3: "Rename (D @ [c]) (D @ [b]) w2 = (Inr (), w3)" "calm w3" "real (os_files w3) D"
        "\<forall>p. p \<noteq> D \<longrightarrow> get (os_files w3) p =
          (if prefix (D @ [b]) p then get (os_files w2) (D @ [c] @ drop (length (D @ [b])) p)
           else if prefix (D @ [c]) p then None else get (os_files w2) p)"
        by auto
      have g3: "get (os_files w3) (D @ s # q) = get (os_files w) (D @ s # q)" for q
        using w3(4) g2 b assms(8) by simp
      have g3c: "get (os_files w3) (D @ [c]) = None" using w3(4) b(2) by simp
      have Ds3: "real (os_files w3) (D @ [s])" using w3(3) Ds g3 [of "[]"] by (simp add: real_snoc)
      from rename_view [OF w3(2) Ds3 assms(6) w3(3) assms(4) _ g3c apart_s] staged g3 [of "[r]"] obtain w4 where
        w4: "Rename (D @ [s, r]) (D @ [c]) w3 = (Inr (), w4)" "calm w4" "real (os_files w4) D"
        "\<forall>p. p \<noteq> D @ [s] \<and> p \<noteq> D \<longrightarrow> get (os_files w4) p =
          (if prefix (D @ [c]) p then get (os_files w3) (D @ [s, r] @ drop (length (D @ [c])) p)
           else if prefix (D @ [s, r]) p then None else get (os_files w3) p)"
        by (auto simp: prefix_def)
      have g4: "get (os_files w4) (D @ c # rel) = get (os_files w) (D @ s # r # rel)" for rel
        using spec [OF w4(4), of "D @ c # rel"] g3 assms(8) by simp
      from removeall_calm [OF w4(2,3) b(1)] obtain w5 where
        w5: "RemoveAll (D @ [b]) w4 = (Inr (), w5)" "calm w5" "real (os_files w5) D"
        "\<forall>p. p \<noteq> D \<and> \<not> prefix (D @ [b]) p \<longrightarrow> get (os_files w5) p = get (os_files w4) p" by blast
      have run: "m w = (Inr (), w5)"
        using w1(1) w2(1) w3(1) w4(1) w5(1)
        by (simp add: m_def installClaudeState_def wrapE_def bindE_def tryE_def thenE_def ret_def stat lstat MkdirTemp_def b_def)
      have "get (os_files w5) (D @ c # rel) = get (os_files w) (D @ s # r # rel)" for rel
        using w5(4) g4 b(2) by simp
      then show ?thesis using run w5(2,3) by simp
    qed
  qed
qed

end
