(* ===== verification/Archive_Swap.thy ===== *)
theory Archive_Swap
  imports Archive_Restore
begin

text \<open>
  The outcome of a whole restore: on failure the live state is what it was, on success it is the extracted
  tree, whose links stay inside it.
\<close>

section \<open>Calls keep a calm world calm\<close>

definition steady :: "(os, 'a) act \<Rightarrow> bool" where
  "steady m = (\<forall>w. (calm w \<longrightarrow> calm (snd (m w))) \<and> os_suffix (snd (m w)) = os_suffix w)"

named_theorems steady_rules

lemma steady_basic [steady_rules]: "steady (ret x)" "steady (throw e)" "steady (lift r)"
  by (simp_all add: steady_def ret_def throw_def lift_def)

lemma steadyD: "steady m \<Longrightarrow> m w = (r, w') \<Longrightarrow> (calm w \<longrightarrow> calm w') \<and> os_suffix w' = os_suffix w"
  unfolding steady_def by (metis snd_conv)

lemma steadyI: "(\<And>w r w'. m w = (r, w') \<Longrightarrow> (calm w \<longrightarrow> calm w') \<and> os_suffix w' = os_suffix w) \<Longrightarrow> steady m"
  unfolding steady_def by (metis prod.collapse)

lemma steady_tryE [steady_rules]:
  assumes "steady m" "\<And>r. steady (f r)"
  shows "steady (tryE m f)"
proof (rule steadyI)
  fix w r w' assume run: "tryE m f w = (r, w')"
  obtain r1 w1 where m: "m w = (r1, w1)" by fastforce
  then have "f r1 w1 = (r, w')" using run by (simp add: tryE_def)
  from steadyD [OF assms(2) this] steadyD [OF assms(1) m] show "(calm w \<longrightarrow> calm w') \<and> os_suffix w' = os_suffix w" by simp
qed

lemma steady_bindE [steady_rules]: "steady m \<Longrightarrow> (\<And>x. steady (f x)) \<Longrightarrow> steady (bindE m f)"
  unfolding bindE_tryE by (intro steady_tryE) (auto intro: steady_basic split: sum.split)

lemma steady_thenE [steady_rules]: "steady m \<Longrightarrow> steady k \<Longrightarrow> steady (thenE m k)"
  unfolding thenE_def by (rule steady_bindE)

lemma steady_wrapE [steady_rules]: "steady m \<Longrightarrow> steady (wrapE what m)"
  unfolding wrapE_def by (intro steady_tryE) (auto intro: steady_rules split: sum.split)

lemma steady_case [steady_rules]: "(\<And>e. steady (f e)) \<Longrightarrow> (\<And>x. steady (g x)) \<Longrightarrow> steady (case_sum f g r)"
  by (cases r) simp_all

lemma steady_if [steady_rules]: "steady m \<Longrightarrow> steady k \<Longrightarrow> steady (if b then m else k)"
  by simp

lemma steady_option [steady_rules]: "steady m \<Longrightarrow> (\<And>x. steady (g x)) \<Longrightarrow> steady (case_option m g r)"
  by (cases r) simp_all

lemma steady_syscall:
  assumes "\<And>w. (calm w \<longrightarrow> calm (snd (f w))) \<and> os_suffix (snd (f w)) = os_suffix w"
  shows "steady (syscall f)"
  using assms by (auto simp: steady_def syscall_def calm_def split: list.splits)

lemma steady_calls [steady_rules]:
  "steady (Lstat p)" "steady (Stat p)" "steady (create p mk)" "steady (update_node p f)" "steady (os_Remove p)"
  unfolding Lstat_def Stat_def create_def update_node_def os_Remove_def
  by (rule steady_syscall; auto split: sum.splits option.splits)+

lemma steady_derived [steady_rules]:
  "steady (Mkdir p m)" "steady (os_Symlink l p)" "steady (OpenExcl p m)" "steady (WriteAll p bs)" "steady (Chmod p m)"
  "steady (restoreModTime p t)" "steady (removeIfNotDir p)" "steady (must_be_dir what p)"
  unfolding Mkdir_def os_Symlink_def OpenExcl_def WriteAll_def Chmod_def restoreModTime_def Chtimes_def removeIfNotDir_def must_be_dir_def
  by (intro steady_rules)+

lemma steady_read [steady_rules]: "steady (Readlink p)" "steady (ReadFile p)"
  unfolding Readlink_def ReadFile_def
  by (rule steady_bindE; simp add: steady_rules split: node.split)+

lemma steady_mkdir_all [steady_rules]: "steady (mkdir_all k p m)"
  by (induction k arbitrary: p) (simp_all only: mkdir_all.simps, (intro steady_rules | assumption)+)

lemma steady_MkdirAll [steady_rules]: "steady (MkdirAll p m)"
  unfolding MkdirAll_def by (rule steady_mkdir_all)

lemma steady_ensure_loop [steady_rules]: "steady (ensure_loop current cs)"
  by (induction cs arbitrary: current) (simp_all only: ensure_loop.simps, (intro steady_rules | assumption)+)

lemma steady_ensure [steady_rules]: "steady (ensureSafeClaudeParents root rel)"
  unfolding ensureSafeClaudeParents_def Let_def by (intro steady_rules)

lemma steady_extract [steady_rules]:
  "steady (extract_dir dst h modes)" "steady (extract_file dst h)" "steady (extract_link dst rel h)"
  unfolding extract_dir_def extract_file_def extract_link_def by (intro steady_rules)+

lemma steady_extractEntry [steady_rules]: "steady (extractClaudeStateEntry h root rel modes)"
  unfolding extractClaudeStateEntry_def by (cases "te_Type h") (simp_all only: typeflag.case, (intro steady_rules)+)

lemma steady_restore_entry [steady_rules]: "steady (restore_entry T h ra)"
  unfolding restore_entry_def Let_def by (intro steady_rules)

lemma steady_restore_loop [steady_rules]: "steady (restore_loop T hs end_err ra)"
  by (induction hs arbitrary: ra) (simp_all only: restore_loop.simps, (intro steady_rules | assumption)+)

lemma steady_apply_modes [steady_rules]: "steady (apply_modes items)"
  by (induction items) (simp_all only: apply_modes.simps, (intro steady_rules | assumption)+)

lemma steady_copy_node [steady_rules]: "steady (copy_node staged target rel n modes)"
  unfolding copy_node_def Let_def by (cases n) (simp_all only: node.case, (intro steady_rules)+)

lemma steady_copy_walk [steady_rules]: "steady (copy_walk staged target rels modes)"
  by (induction rels arbitrary: modes) (simp_all only: copy_walk.simps, (intro steady_rules | assumption)+)

lemma steady_copyRestoredTree [steady_rules]: "steady (copyRestoredTree staged target)"
proof -
  have "steady (\<lambda>w. copy_walk staged target (walk staged (os_files w)) [] w)"
    using steady_copy_walk by (simp add: steady_def)
  then show ?thesis unfolding copyRestoredTree_def by (intro steady_rules)
qed

text \<open>Validators read.\<close>

definition validator :: "(path \<Rightarrow> (os, unit) act) \<Rightarrow> bool" where
  "validator validate = (read_only validate \<and> (\<forall>p. steady (validate p)))"

lemma steady_restore_staged [steady_rules]: "validator validate \<Longrightarrow> steady (restore_staged validate T sharedDir hs end_err)"
  unfolding restore_staged_def restore_checks_def validator_def by (intro steady_rules) simp

lemma validateRestoredAgentState_validator: "validator (validateRestoredAgentState parse)"
proof -
  have body: "reads fs (ReadFile p)" for fs p
    unfolding ReadFile_def by (intro reads_bindE) (auto split: node.split)
  have "reads fs (validateRestoredAgentState parse p)" for p fs
    unfolding validateRestoredAgentState_def required_dir_def loadRequiredClaudeRuntimeState_def
    by (intro reads_bindE reads_thenE reads_tryE reads_case reads_if reads_basic body)
  moreover have "steady (validateRestoredAgentState parse p)" for p
    unfolding validateRestoredAgentState_def required_dir_def loadRequiredClaudeRuntimeState_def by (intro steady_rules)
  ultimately show ?thesis by (simp add: validator_def read_only_def)
qed

section \<open>Opening the staging directory\<close>

definition staging_dir :: "path \<Rightarrow> os \<Rightarrow> path" where
  "staging_dir stateDir w = butlast stateDir @ [''.'' @ last stateDir @ ''-restore-'' @ os_suffix w]"

text \<open>Where a restore may run: a well-formed tree, a state directory whose parent is made of real directories, and a
  shared volume, if any, beside the state and the staging directory.\<close>

definition restore_site :: "path \<Rightarrow> path option \<Rightarrow> os \<Rightarrow> bool" where
  "restore_site stateDir sharedDir w =
     (stateDir \<noteq> [] \<and> wf_tree (os_files w) \<and> real (os_files w) (butlast stateDir) \<and> component (last stateDir) \<and>
      CHR ''/'' \<notin> set (os_suffix w) \<and>
      (case sharedDir of None \<Rightarrow> True
       | Some d \<Rightarrow> d \<noteq> [] \<and> real (os_files w) d \<and> apart d stateDir \<and> apart d (staging_dir stateDir w)))"

lemma component_temp:
  assumes "component c" "CHR ''/'' \<notin> set sfx"
  shows "component (''.'' @ c @ ''-restore-'' @ sfx)" "''.'' @ c @ ''-restore-'' @ sfx \<noteq> c"
    "''.'' @ c @ ''-restore-'' @ sfx \<noteq> ''.'' @ c @ ''-backup-'' @ sfx"
  using assms by (auto simp: component_def normal_def dest: arg_cong [of _ _ length])

text \<open>\<open>opened T w w2\<close>: the world after the staging directory was made.\<close>

definition opened :: "path \<Rightarrow> os \<Rightarrow> os \<Rightarrow> bool" where
  "opened T w w2 =
     (calm w2 \<and> os_suffix w2 = os_suffix w \<and> wf_tree (os_files w2) \<and> staging T [] (os_files w2) \<and>
      (\<forall>p. p \<noteq> butlast T \<and> p \<noteq> T \<longrightarrow> get (os_files w2) p = get (os_files w) p) \<and>
      (\<forall>q. q \<noteq> [] \<longrightarrow> get (os_files w2) (T @ q) = None) \<and>
      (\<forall>d. real (os_files w) d \<longrightarrow> real (os_files w2) d))"

lemma open_staging:
  assumes "calm w" "wf_tree (os_files w)" "real (os_files w) D" "component s" "get (os_files w) (D @ [s]) = None"
  shows "\<exists>w2. Mkdir (D @ [s]) m w = (Inr (), w2) \<and> opened (D @ [s]) w w2"
proof -
  from mkdir_calm [OF assms(1,3-5), of m] obtain w2 where
    w2: "Mkdir (D @ [s]) m w = (Inr (), w2)" "calm w2" "real (os_files w2) D" "dir_at (os_files w2) (D @ [s])"
    "\<forall>p. p \<noteq> D \<and> p \<noteq> D @ [s] \<longrightarrow> get (os_files w2) p = get (os_files w) p" by blast
  have dirs: "dir_at (os_files w2) p" if "p = [] \<or> dir_at (os_files w) p" "p \<noteq> []" for p
    using that w2(3-5) real_dir [OF w2(3)] by (cases "p = D"; cases "p = D @ [s]") auto
  have "wf_tree (os_files w2)"
    unfolding wf_tree_def
  proof (intro allI impI)
    fix p c assume some: "get (os_files w2) (p @ [c]) \<noteq> None"
    consider "p @ [c] = D" | "p = D" "c = s" | "get (os_files w) (p @ [c]) \<noteq> None" using some w2(5) by force
    then show "component c \<and> (p = [] \<or> dir_at (os_files w2) p)"
    proof cases
      case 1
      then have "real (os_files w2) (p @ [c])" using w2(3) by simp
      then show ?thesis using real_dir [of "os_files w2" p] by (auto simp: real_snoc)
    next
      case 2
      then show ?thesis using assms(4) real_dir [OF w2(3)] by auto
    next
      case 3
      then have "component c" "p = [] \<or> dir_at (os_files w) p" using assms(2) unfolding wf_tree_def by blast+
      then show ?thesis using dirs [of p] by blast
    qed
  qed
  moreover have below: "get (os_files w2) (D @ s # q) = None" if "q \<noteq> []" for q
  proof -
    have "get (os_files w) ((D @ [s]) @ q) = None"
      using wf_above [OF assms(2), of "D @ [s]" q] assms(5) that by (cases "get (os_files w) ((D @ [s]) @ q)") auto
    then show ?thesis using spec [OF w2(5), of "D @ s # q"] that by simp
  qed
  moreover have "staging (D @ [s]) [] (os_files w2)"
    using w2(3,4) assms(4) below by (auto simp: staging_def real_snoc)
  moreover have "real (os_files w2) d" if "real (os_files w) d" for d
    using that dirs by (auto simp: real_def)
  moreover have "os_suffix w2 = os_suffix w" using steadyD [OF steady_derived(1) w2(1)] by simp
  ultimately show ?thesis using w2(1,2,5) by (auto simp: opened_def)
qed

lemma MkdirAll_calm: "calm w \<Longrightarrow> real (os_files w) p \<Longrightarrow> MkdirAll p m w = (Inr (), w)"
  using stat_real [of w p True] by (cases "length p") (auto simp: MkdirAll_def Stat_def tryE_def ret_def is_dir_def)

lemma restore_opens:
  assumes "calm w" "restore_site stateDir sharedDir w" "validator validate"
  defines "T \<equiv> staging_dir stateDir w"
  shows "(get (os_files w) T \<noteq> None \<and>
      (\<exists>e w'. restoreStateArchive validate stateDir sharedDir hs end_err w = (Inl e, w') \<and> os_files w' = os_files w)) \<or>
    (\<exists>w2. opened T w w2 \<and> restoreStateArchive validate stateDir sharedDir hs end_err w =
       defer_with (\<lambda>r. ignoreE (RemoveAll T) (lift r))
         (bindE (restore_staged validate T sharedDir hs end_err) (restore_install T stateDir sharedDir)) w2)"
proof -
  let ?D = "butlast stateDir" and ?s = "''.'' @ last stateDir @ ''-restore-'' @ os_suffix w"
  have site: "stateDir \<noteq> []" "wf_tree (os_files w)" "real (os_files w) ?D" "component (last stateDir)" "CHR ''/'' \<notin> set (os_suffix w)"
    using assms(2) by (auto simp: restore_site_def)
  have T: "T = ?D @ [?s]" by (simp add: T_def staging_dir_def)
  have s: "component ?s" using component_temp(1) [OF site(4,5)] .
  note parent = MkdirAll_calm [OF assms(1) site(3), of 448]
  note run = restoreStateArchive_def thenE_def bindE_def wrapE_def tryE_def throw_def ret_def MkdirTemp_def parent T
  show ?thesis
  proof (cases "get (os_files w) T")
    case (Some n)
    then have "Mkdir T 448 w = (Inl EEXIST, w)"
      using assms(1) site(3) s by (simp add: Mkdir_def create_def lookup_entry T)
    then show ?thesis using site(1) Some by (auto simp: run)
  next
    case None
    from open_staging [OF assms(1) site(2,3) s, of 448] None T obtain w2 where "Mkdir T 448 w = (Inr (), w2)" "opened T w w2" by auto
    then show ?thesis using site(1) by (auto simp: run)
  qed
qed

section \<open>The outcome\<close>

lemma restore_removes_staging:
  assumes "m w2 = (r, w5)" "calm w5" "real (os_files w5) D" "component s"
  shows "\<exists>w6. defer_with (\<lambda>r. ignoreE (RemoveAll (D @ [s])) (lift r)) m w2 = (r, w6) \<and>
    (\<forall>p. p \<noteq> D \<and> \<not> prefix (D @ [s]) p \<longrightarrow> get (os_files w6) p = get (os_files w5) p)"
proof -
  from removeall_calm [OF assms(2-4)] obtain w6 where "RemoveAll (D @ [s]) w5 = (Inr (), w6)"
    "\<forall>p. p \<noteq> D \<and> \<not> prefix (D @ [s]) p \<longrightarrow> get (os_files w6) p = get (os_files w5) p" by blast
  then show ?thesis using assms(1) by (simp add: defer_with_def ignoreE_def tryE_def lift_def)
qed

text \<open>The shared volume is filled first; nothing outside it changes.\<close>

definition fill_shared :: "path \<Rightarrow> path option \<Rightarrow> restored \<Rightarrow> (os, unit) act" where
  "fill_shared T sharedDir ra =
     (case sharedDir of
        Some d \<Rightarrow> if ra_sawShared ra then wrapE ''restore shared volume'' (copyRestoredTree (T @ [stateArchiveSharedRoot]) d) else ret ()
      | None \<Rightarrow> ret ())"

lemma restore_install_fill:
  "restore_install T stateDir sharedDir ra =
     thenE (fill_shared T sharedDir ra) (thenE (installClaudeState (T @ [claudeArchiveStateRoot]) stateDir) (ret (ra_scrollback ra)))"
  by (simp add: restore_install_def fill_shared_def)

lemma fill_shared_frame:
  assumes "fill_shared T sharedDir ra w3 = (r, w4)" "calm w3" "wf_tree (os_files w3)"
    and "\<And>d. sharedDir = Some d \<Longrightarrow> d \<noteq> [] \<and> real (os_files w3) d"
  shows "calm w4 \<and> os_suffix w4 = os_suffix w3 \<and> wf_tree (os_files w4) \<and> (\<forall>p. real (os_files w3) p \<longrightarrow> real (os_files w4) p) \<and>
    (\<forall>p. (\<forall>d. sharedDir = Some d \<longrightarrow> \<not> prefix d p) \<longrightarrow> get (os_files w4) p = get (os_files w3) p)"
proof -
  have "steady (fill_shared T sharedDir ra)" unfolding fill_shared_def by (intro steady_rules)
  with assms(1,2) have "calm w4" "os_suffix w4 = os_suffix w3" using steadyD by auto
  moreover have "os_files w4 = os_files w3 \<or> (\<exists>d. sharedDir = Some d \<and> grows d any_link (os_files w3) (os_files w4))"
  proof (cases sharedDir)
    case None
    then show ?thesis using assms(1) by (simp add: fill_shared_def ret_def)
  next
    case (Some d)
    then have d: "d \<noteq> []" "real (os_files w3) d" using assms(4) by auto
    have "safe d any_link (\<lambda>fs. real fs d \<and> wf_tree fs) (fill_shared T sharedDir ra) (\<lambda>_ _. True)"
      using safe_wrapE [OF safe_copyRestoredTree [OF d(1)]] by (auto simp: fill_shared_def Some intro: safe_ret)
    then have "grows d any_link (os_files w3) (os_files w4)" using assms(1,3) d(2) by (auto simp: safe_def dest: spec [of _ w3])
    then show ?thesis using Some by blast
  qed
  moreover have "wf_tree (os_files w4) \<and> (\<forall>p. real (os_files w3) p \<longrightarrow> real (os_files w4) p) \<and> (\<forall>p. \<not> prefix d p \<longrightarrow> get (os_files w4) p = get (os_files w3) p)"
    if "grows d any_link (os_files w3) (os_files w4)" for d
    using wf_grows [OF assms(3) that] grows_real [OF that] that by (simp add: grows_def)
  ultimately show ?thesis using assms(3) by auto
qed

definition backup_dir :: "path \<Rightarrow> os \<Rightarrow> path" where
  "backup_dir stateDir w = butlast stateDir @ [''.'' @ last stateDir @ ''-backup-'' @ os_suffix w]"

lemma restore_outcome:
  assumes "calm w" "restore_site stateDir sharedDir w" "validator validate"
    and "restoreStateArchive validate stateDir sharedDir hs end_err w = (r, w')"
  defines "T \<equiv> staging_dir stateDir w"
  shows "case r of
      Inl _ \<Rightarrow> (\<forall>p. prefix stateDir p \<longrightarrow> get (os_files w') p = get (os_files w) p) \<and>
        (get (os_files w) T \<noteq> None \<or> get (os_files w) (backup_dir stateDir w) \<noteq> None \<or> sharedDir \<noteq> None \<or>
         (\<exists>w2 w3 e. opened T w w2 \<and> restore_staged validate T sharedDir hs end_err w2 = (Inl e, w3)))
    | Inr sb \<Rightarrow> \<exists>w2 w3 ra. opened T w w2 \<and>
        restore_staged validate T sharedDir hs end_err w2 = (Inr ra, w3) \<and> sb = ra_scrollback ra \<and>
        (\<forall>rel. get (os_files w') (stateDir @ rel) = get (os_files w3) (T @ claudeArchiveStateRoot # rel))"
proof -
  define D c s where defs: "D = butlast stateDir" "c = last stateDir" "s = ''.'' @ last stateDir @ ''-restore-'' @ os_suffix w"
  have site: "stateDir = D @ [c]" "T = D @ [s]" "real (os_files w) D" "component c" "CHR ''/'' \<notin> set (os_suffix w)"
    and shared: "\<And>d. sharedDir = Some d \<Longrightarrow> d \<noteq> [] \<and> real (os_files w) d \<and> apart d stateDir \<and> apart d T"
    using assms(2) by (auto simp: restore_site_def defs T_def staging_dir_def)
  have s: "component s" "s \<noteq> c" "s \<noteq> ''.'' @ c @ ''-backup-'' @ os_suffix w"
    using component_temp [OF site(4,5)] by (simp_all add: defs)
  have T_apart: "apart T stateDir" using apart_siblings [OF s(2), of D "[]" "[]"] site(1,2) by simp
  from restore_opens [OF assms(1-3), of hs end_err] assms(4) consider
      e where "r = Inl e" "os_files w' = os_files w" "get (os_files w) T \<noteq> None"
    | w2 where "opened T w w2"
        "defer_with (\<lambda>r. ignoreE (RemoveAll T) (lift r))
           (bindE (restore_staged validate T sharedDir hs end_err) (restore_install T stateDir sharedDir)) w2 = (r, w')"
    unfolding T_def [symmetric] by auto
  then show ?thesis
  proof cases
    case 1
    then show ?thesis by simp
  next
    case 2
    let ?body = "bindE (restore_staged validate T sharedDir hs end_err) (restore_install T stateDir sharedDir)"
    have w2: "calm w2" "os_suffix w2 = os_suffix w" "wf_tree (os_files w2)" "staging T [] (os_files w2)"
      "\<And>p. p \<noteq> D \<Longrightarrow> p \<noteq> T \<Longrightarrow> get (os_files w2) p = get (os_files w) p" "\<And>d. real (os_files w) d \<Longrightarrow> real (os_files w2) d"
      using 2(1) by (auto simp: opened_def site(2))
    obtain r3 w3 where st: "restore_staged validate T sharedDir hs end_err w2 = (r3, w3)" by fastforce
    have "T \<noteq> []" using site(2) by simp
    from safe_restore_staged [OF this, of validate sharedDir hs end_err] assms(3) w2(4) st have
      g3: "grows T (stage_link T) (os_files w2) (os_files w3)" and
      ok3: "\<And>ra. r3 = Inr ra \<Longrightarrow> real (os_files w3) (T @ [claudeArchiveStateRoot])"
      by (auto simp: safe_def staging_def validator_def dest: spec [of _ w2])
    have w3: "calm w3" "os_suffix w3 = os_suffix w" using steadyD [OF steady_restore_staged [OF assms(3)] st] w2(1,2) by auto
    have real3: "\<And>d. real (os_files w) d \<Longrightarrow> real (os_files w3) d" using w2(6) grows_real [OF g3] by blast
    have live3: "get (os_files w3) p = get (os_files w) p" if "prefix stateDir p" for p
    proof -
      have "\<not> prefix T p" "p \<noteq> D" "p \<noteq> T" using that apart_below [of stateDir T p] T_apart by (auto simp: apart_sym site(1,2) prefix_def)
      then show ?thesis using g3 w2(5) by (simp add: grows_def)
    qed
    have fin: "get (os_files w') p = get (os_files w5) p"
      if "bindE (restore_staged validate T sharedDir hs end_err) (restore_install T stateDir sharedDir) w2 = (r', w5)" "calm w5"
        "real (os_files w5) D" "prefix stateDir p" for r' w5 p
    proof -
      have "\<not> prefix T p" "p \<noteq> D" using that(4) apart_below [of stateDir T p] T_apart by (auto simp: apart_sym site(1,2) prefix_def)
      with restore_removes_staging [where m = ?body, OF that(1-3) s(1)] 2(2) show ?thesis by (auto simp: site(2))
    qed
    have res: "r = r'" if "bindE (restore_staged validate T sharedDir hs end_err) (restore_install T stateDir sharedDir) w2 = (r', w5)"
        "calm w5" "real (os_files w5) D" for r' w5
      using restore_removes_staging [where m = ?body, OF that s(1)] 2(2) by (auto simp: site(2))
    show ?thesis
    proof (cases r3)
      case (Inl e)
      then have run: "bindE (restore_staged validate T sharedDir hs end_err) (restore_install T stateDir sharedDir) w2 = (Inl e, w3)"
        by (simp add: bindE_def st)
      show ?thesis using res [OF run w3(1) real3 [OF site(3)]] fin [OF run w3(1) real3 [OF site(3)]] live3 2(1) st Inl by auto
    next
      case (Inr ra)
      obtain r4 w4 where fill: "fill_shared T sharedDir ra w3 = (r4, w4)" by fastforce
      have w4: "calm w4" "os_suffix w4 = os_suffix w" "wf_tree (os_files w4)" "\<And>p. real (os_files w3) p \<Longrightarrow> real (os_files w4) p"
        "\<And>p. (\<forall>d. sharedDir = Some d \<longrightarrow> \<not> prefix d p) \<Longrightarrow> get (os_files w4) p = get (os_files w3) p"
        using fill_shared_frame [OF fill w3(1) wf_grows [OF w2(3) g3]] shared real3 w3(2) by auto
      have aside: "get (os_files w4) p = get (os_files w3) p" if "prefix stateDir p \<or> prefix T p" for p
        using w4(5) shared apart_below that by (metis apart_sym)
      have D4: "real (os_files w4) D" using w4(4) real3 site(3) by blast
      show ?thesis
      proof (cases r4)
        case (Inl e)
        then have run: "bindE (restore_staged validate T sharedDir hs end_err) (restore_install T stateDir sharedDir) w2 = (Inl e, w4)"
          by (simp add: bindE_def thenE_def st Inr restore_install_fill fill)
        have "sharedDir \<noteq> None" using fill Inl by (cases sharedDir) (auto simp: fill_shared_def ret_def)
        then show ?thesis using res [OF run w4(1) D4] fin [OF run w4(1) D4] aside live3 by simp
      next
        case ok: (Inr u)
        obtain r5 w5 where inst: "installClaudeState (T @ [claudeArchiveStateRoot]) stateDir w4 = (r5, w5)" by fastforce
        have "real (os_files w4) (D @ [s, claudeArchiveStateRoot])" using w4(4) ok3 [OF Inr] site(2) by simp
        note inst_ok = install_calm [OF w4(1,3) D4 site(4) s(1) component_roots(1) this s(2)]
        have "calm w5 \<and> real (os_files w5) D \<and> (case r5 of
             Inl _ \<Rightarrow> get (os_files w4) (backup_dir stateDir w) \<noteq> None \<and>
               (\<forall>p. prefix (D @ [c]) p \<longrightarrow> get (os_files w5) p = get (os_files w4) p)
           | Inr _ \<Rightarrow> \<forall>rel. get (os_files w5) (D @ c # rel) = get (os_files w4) (D @ s # claudeArchiveStateRoot # rel))"
          using inst_ok site(4,5) s(3) w4(2) inst by (cases r5) (auto simp: site(1,2) component_def backup_dir_def)
        then have w5: "calm w5" "real (os_files w5) D" "case r5 of
             Inl _ \<Rightarrow> get (os_files w4) (backup_dir stateDir w) \<noteq> None \<and>
               (\<forall>p. prefix (D @ [c]) p \<longrightarrow> get (os_files w5) p = get (os_files w4) p)
           | Inr _ \<Rightarrow> \<forall>rel. get (os_files w5) (D @ c # rel) = get (os_files w4) (D @ s # claudeArchiveStateRoot # rel)"
          by blast+
        have run: "bindE (restore_staged validate T sharedDir hs end_err) (restore_install T stateDir sharedDir) w2 =
            (case r5 of Inl e \<Rightarrow> Inl e | Inr _ \<Rightarrow> Inr (ra_scrollback ra), w5)"
          by (cases r5) (simp_all add: bindE_def thenE_def st Inr restore_install_fill fill ok inst ret_def)
        show ?thesis
        proof (cases r5)
          case (Inl e)
          then have "get (os_files w4) (backup_dir stateDir w) \<noteq> None" using w5(3) by simp
          moreover have "get (os_files w4) (backup_dir stateDir w) = get (os_files w) (backup_dir stateDir w)" if "sharedDir = None"
          proof -
            have "s \<noteq> ''.'' @ c @ ''-backup-'' @ os_suffix w" using s(3) .
            then have "\<not> prefix T (backup_dir stateDir w)" "backup_dir stateDir w \<noteq> D" "backup_dir stateDir w \<noteq> T"
              by (auto simp: backup_dir_def site(1,2))
            then show ?thesis using w4(5) [of "backup_dir stateDir w"] g3 w2(5) that by (simp add: grows_def)
          qed
          ultimately show ?thesis
            using Inl res [OF run w5(1,2)] fin [OF run w5(1,2)] w5(3) aside live3 by (auto simp: site(1))
        next
          case (Inr u')
          have "get (os_files w') (stateDir @ rel) = get (os_files w3) (T @ claudeArchiveStateRoot # rel)" for rel
            using fin [OF run w5(1,2), of "stateDir @ rel"] w5(3) aside [of "T @ claudeArchiveStateRoot # rel"] Inr by (simp add: site(1,2))
          then show ?thesis using res [OF run w5(1,2)] Inr 2(1) st \<open>r3 = Inr ra\<close> by auto
        qed
      qed
    qed
  qed
qed

end
