(* ===== verification/Archive_Roundtrip.thy ===== *)
theory Archive_Roundtrip
  imports Archive_Swap
begin

text \<open>
  Writing an archive and restoring it gives the tree back: the same directories, files and links, with their
  contents, permissions and times to the second, less the excluded files.
\<close>

section \<open>Extraction on a calm world\<close>

text \<open>\<open>adds p n w w'\<close>: the tree gained the node \<open>n\<close> at \<open>p\<close>; the time of a directory around it may have moved.\<close>

definition adds :: "path \<Rightarrow> node \<Rightarrow> os \<Rightarrow> os \<Rightarrow> bool" where
  "adds p n w w' =
     (calm w' \<and> get (os_files w') p = Some n \<and>
      (\<forall>q. q \<noteq> p \<and> \<not> dir_at (os_files w) q \<longrightarrow> get (os_files w') q = get (os_files w) q) \<and>
      (\<forall>q. dir_at (os_files w) q \<longrightarrow> dir_at (os_files w') q))"

lemma adds_real: "adds p n w w' \<Longrightarrow> real (os_files w) d \<Longrightarrow> real (os_files w') d"
  by (auto simp: adds_def real_def)

lemma adds_trans:
  assumes "adds p n w w1" "adds p n' w1 w2" "\<not> dir_at (os_files w1) p"
  shows "adds p n' w w2"
proof -
  have "get (os_files w2) q = get (os_files w) q" if "q \<noteq> p" "\<not> dir_at (os_files w) q" for q
  proof -
    have "get (os_files w1) q = get (os_files w) q" using assms(1) that by (simp add: adds_def)
    then show ?thesis using assms(2) that by (simp add: adds_def)
  qed
  then show ?thesis using assms by (simp add: adds_def)
qed

lemma create_calm:
  assumes "calm w" "real (os_files w) d" "component c" "get (os_files w) (d @ [c]) = None"
  shows "\<exists>w'. create (d @ [c]) mk w = (Inr (), w') \<and> adds (d @ [c]) (mk (os_now w)) w w' \<and> os_now w' = os_now w"
proof -
  let ?fs = "stamp d (os_now w) (put (d @ [c]) (mk (os_now w)) (os_files w))"
  have "create (d @ [c]) mk w = (Inr (), set_files ?fs w)"
    using assms by (simp add: create_def lookup_entry)
  moreover have "get ?fs q = get (os_files w) q" if "q \<noteq> d @ [c]" "\<not> dir_at (os_files w) q" for q
    using that by (cases "q = d") (auto simp: stamp_def split: option.splits node.splits)
  moreover have "get ?fs (d @ [c]) = Some (mk (os_now w))"
    by (simp add: get_stamp_other)
  moreover have "dir_at ?fs q" if "dir_at (os_files w) q" for q
    using that assms(4) by auto
  ultimately show ?thesis using assms(1) by (auto simp: adds_def)
qed

lemma update_calm:
  assumes "calm w" "real (os_files w) d" "component c" "get (os_files w) (d @ [c]) = Some n" "\<And>l. n \<noteq> Symlink l"
    and "is_dir n \<Longrightarrow> is_dir (f (os_now w) n)"
  shows "\<exists>w'. update_node (d @ [c]) f w = (Inr (), w') \<and> adds (d @ [c]) (f (os_now w) n) w w' \<and> os_now w' = os_now w \<and>
    (\<forall>q. q \<noteq> d @ [c] \<longrightarrow> get (os_files w') q = get (os_files w) q)"
proof -
  have "update_node (d @ [c]) f w = (Inr (), set_files (put (d @ [c]) (f (os_now w) n) (os_files w)) w)"
    using assms(1) lookup_entry_follow [OF assms(2-5)] assms(4) by (simp add: update_node_def)
  moreover have "dir_at (put (d @ [c]) (f (os_now w) n) (os_files w)) q" if "dir_at (os_files w) q" for q
    using that assms(4,6) by (auto simp: is_dir_def split: node.splits)
  ultimately show ?thesis using assms(1) by (auto simp: adds_def)
qed

lemma extract_dir_calm:
  assumes "calm w" "real (os_files w) d" "component c" "get (os_files w) (d @ [c]) = None"
  shows "\<exists>w' t. extract_dir (d @ [c]) h modes w =
      (Inr (modes @ [\<lparr>dm_name = d @ [c], dm_mode = te_Mode h, dm_modTime = te_ModTime h\<rparr>]), w') \<and> adds (d @ [c]) (Dir 448 t) w w'"
proof -
  have "Lstat (d @ [c]) w = (Inl ErrNotExist, w)" using assms by (simp add: Lstat_def stat_entry)
  moreover from create_calm [OF assms, of "Dir 448"] obtain w' where
    "Mkdir (d @ [c]) 448 w = (Inr (), w')" "adds (d @ [c]) (Dir 448 (os_now w)) w w'" by (auto simp: Mkdir_def)
  ultimately show ?thesis by (auto simp: extract_dir_def tryE_def thenE_def bindE_def ret_def)
qed

lemma extract_file_calm:
  assumes "calm w" "real (os_files w) d" "component c" "get (os_files w) (d @ [c]) = None"
    and "te_Err h = None" "te_ModTime h \<noteq> zero_time"
  shows "\<exists>w'. extract_file (d @ [c]) h w = (Inr (), w') \<and> adds (d @ [c]) (Regular (te_Data h) (perm (te_Mode h)) (te_ModTime h)) w w'"
proof -
  let ?p = "d @ [c]"
  from create_calm [OF assms(1-4), of "Regular [] 384"] obtain w1 where
    w1: "OpenExcl ?p 384 w = (Inr (), w1)" "adds ?p (Regular [] 384 (os_now w)) w w1" by (auto simp: OpenExcl_def)
  have s1: "calm w1" "real (os_files w1) d" "get (os_files w1) ?p = Some (Regular [] 384 (os_now w))"
    using w1(2) adds_real [OF w1(2) assms(2)] by (auto simp: adds_def)
  from update_calm [OF s1(1,2) assms(3) s1(3), of "\<lambda>now n. case n of Regular _ m _ \<Rightarrow> Regular (te_Data h) m now | _ \<Rightarrow> n"] obtain w2 where
    w2: "WriteAll ?p (te_Data h) w1 = (Inr (), w2)" "adds ?p (Regular (te_Data h) 384 (os_now w1)) w1 w2"
    by (auto simp: WriteAll_def is_dir_def)
  have s2: "calm w2" "real (os_files w2) d" "get (os_files w2) ?p = Some (Regular (te_Data h) 384 (os_now w1))"
    using w2(2) adds_real [OF w2(2) s1(2)] by (auto simp: adds_def)
  from update_calm [OF s2(1,2) assms(3) s2(3), of "\<lambda>_. with_perm (perm (te_Mode h))"] obtain w3 where
    w3: "Chmod ?p (perm (te_Mode h)) w2 = (Inr (), w3)" "adds ?p (Regular (te_Data h) (perm (te_Mode h)) (os_now w1)) w2 w3"
    by (auto simp: Chmod_def is_dir_def with_perm_def)
  have s3: "calm w3" "real (os_files w3) d" "get (os_files w3) ?p = Some (Regular (te_Data h) (perm (te_Mode h)) (os_now w1))"
    using w3(2) adds_real [OF w3(2) s2(2)] by (auto simp: adds_def)
  from update_calm [OF s3(1,2) assms(3) s3(3), of "\<lambda>_. with_mtime (te_ModTime h)"] obtain w4 where
    w4: "Chtimes ?p (te_ModTime h) w3 = (Inr (), w4)" "adds ?p (Regular (te_Data h) (perm (te_Mode h)) (te_ModTime h)) w3 w4"
    by (auto simp: Chtimes_def is_dir_def with_mtime_def)
  have "adds ?p (Regular (te_Data h) (perm (te_Mode h)) (te_ModTime h)) w w4"
    using adds_trans [OF adds_trans [OF adds_trans [OF w1(2) w2(2)] w3(2)] w4(2)] s1(3) s2(3) s3(3) by simp
  moreover have "extract_file ?p h w = (Inr (), w4)"
    using assms(5,6) w1(1) w2(1) w3(1) w4(1)
    by (simp add: extract_file_def thenE_def bindE_def wrapE_def tryE_def ret_def lift_def read_body_def restoreModTime_def)
  ultimately show ?thesis by blast
qed

lemma extract_link_calm:
  assumes "calm w" "real (os_files w) d" "component c" "get (os_files w) (d @ [c]) = None"
    and "validateClaudeSymlink rel (te_Linkname h) = Inr ()"
  shows "\<exists>w'. extract_link (d @ [c]) rel h w = (Inr (), w') \<and> adds (d @ [c]) (Symlink (te_Linkname h)) w w'"
proof -
  have "Lstat (d @ [c]) w = (Inl ErrNotExist, w)" using assms by (simp add: Lstat_def stat_entry)
  moreover from create_calm [OF assms(1-4), of "\<lambda>_. Symlink (te_Linkname h)"] obtain w' where
    "os_Symlink (te_Linkname h) (d @ [c]) w = (Inr (), w')" "adds (d @ [c]) (Symlink (te_Linkname h)) w w'" by (auto simp: os_Symlink_def)
  ultimately show ?thesis using assms(5) by (auto simp: extract_link_def tryE_def thenE_def bindE_def ret_def lift_def wrapE_def)
qed

lemma ensure_loop_calm:
  "calm w \<Longrightarrow> real (os_files w) (current @ cs) \<Longrightarrow> ensure_loop current cs w = (Inr (), w)"
proof (induction cs arbitrary: current)
  case (Cons c cs)
  have "real (os_files w) (current @ [c])" using real_prefix [OF Cons.prems(2), of "current @ [c]"] by simp
  then have here: "real (os_files w) current" "component c" "dir_at (os_files w) (current @ [c])" by (auto simp: real_snoc)
  then obtain m t where "Lstat (current @ [c]) w = (Inr (Dir m t), w)"
    using Cons.prems(1) by (auto simp: Lstat_def stat_entry)
  moreover have "normal c" using here(2) by (simp add: component_def)
  ultimately show ?case using Cons.IH [of "current @ [c]"] Cons.prems by (simp add: tryE_def normal_def is_dir_def)
qed (simp add: ret_def)

lemma ensure_calm:
  assumes "calm w" "real (os_files w) (root @ q)" "list_all component (q @ [c])"
  shows "ensureSafeClaudeParents root (Dir_of (join_slash (q @ [c]))) w = (Inr (), w)"
proof -
  have q: "list_all component q" using assms(3) by simp
  have "MkdirAll root 448 w = (Inr (), w)" using MkdirAll_calm [OF assms(1)] real_prefix [OF assms(2)] by simp
  moreover have "Clean ''.'' = ''.''" by (simp add: Clean_def IsAbs_def)
  moreover have "ensure_loop root q w = (Inr (), w)" by (rule ensure_loop_calm [OF assms(1,2)])
  ultimately show ?thesis
    using Dir_of_snoc [OF assms(3)] Clean_components [OF q] components_split [OF q] join_slash_eq_Nil [OF list_all_component_normal [OF q]]
    by (auto simp: ensureSafeClaudeParents_def thenE_def bindE_def ret_def Let_def)
qed

section \<open>One entry\<close>

fun restored_node :: "node \<Rightarrow> node" where
  "restored_node (Dir m t) = Dir (perm m) (round_second t)"
| "restored_node (Regular bs m t) = Regular bs (perm m) (round_second t)"
| "restored_node n = n"

text \<open>A directory gets its mode and time only at the end.\<close>

fun staged_as :: "node \<Rightarrow> node option \<Rightarrow> bool" where
  "staged_as (Dir m t) x = (\<exists>m' t'. x = Some (Dir m' t'))"
| "staged_as Special x = False"
| "staged_as n x = (x = Some (restored_node n))"

text \<open>What an entry must be to travel: the checks of the writer, a time, and no backslash in its name.\<close>

fun dated :: "node \<Rightarrow> bool" where
  "dated (Dir m t) = (round_second t \<noteq> zero_time)"
| "dated (Regular bs m t) = (round_second t \<noteq> zero_time)"
| "dated n = True"

definition travels :: "path \<Rightarrow> node \<Rightarrow> bool" where
  "travels rel n =
     (list_all component rel \<and> list_all (\<lambda>c. backslash \<notin> set c) rel \<and> (rel = [] \<longrightarrow> is_dir n) \<and> dated n \<and>
      length (entry_name claudeArchiveStateRoot rel) \<le> maxClaudeArchivePathBytes \<and>
      (\<exists>link. check_node rel n = Inr link \<and> length link \<le> maxClaudeArchivePathBytes))"

definition state_name :: "path \<Rightarrow> string" where
  "state_name rel = entry_name claudeArchiveStateRoot rel"

lemma state_name_join: "state_name rel = join_slash (claudeArchiveStateRoot # rel)"
  by (cases rel) (simp_all add: state_name_def entry_name_def)

lemma join_slash_chars: "x \<in> set (join_slash cs) \<Longrightarrow> x = CHR ''/'' \<or> (\<exists>c \<in> set cs. x \<in> set c)"
  by (induction cs rule: join_slash.induct) auto

lemma state_name_clean:
  assumes "list_all component rel" "list_all (\<lambda>c. backslash \<notin> set c) rel"
  shows "cleanClaudeArchiveName (state_name rel) = Inr (state_name rel)"
proof -
  let ?cs = "claudeArchiveStateRoot # rel"
  have cs: "list_all component ?cs" "?cs \<noteq> []" using assms(1) component_roots(1) by auto
  have "backslash \<notin> set (state_name rel)"
  proof
    assume "backslash \<in> set (state_name rel)"
    from join_slash_chars [OF this [unfolded state_name_join]] assms(2) show False
      by (auto simp: backslash_def claudeArchiveStateRoot_def list_all_iff)
  qed
  then show ?thesis
    using join_not_abs [OF cs(1)] Clean_components [OF cs(1)] join_not_up [OF cs] join_slash_eq_Nil [OF list_all_component_normal [OF cs(1)]]
    by (simp add: cleanClaudeArchiveName_def state_name_join)
qed

lemma state_name_cases: "state_name rel = (if rel = [] then ''state'' else ''state/'' @ join_slash rel)"
  by (simp add: state_name_def entry_name_def claudeArchiveStateRoot_def)

lemma state_name_tree:
  "in_tree (state_name rel) claudeArchiveStateRoot" "tree_rel (state_name rel) claudeArchiveStateRoot = join_slash rel"
  "state_name rel \<noteq> claudeArchiveScrollback"
proof -
  have "in_tree ''state'' ''state'' \<and> tree_rel ''state'' ''state'' = []"
    "in_tree (''state/'' @ r) ''state'' \<and> tree_rel (''state/'' @ r) ''state'' = r" for r
    by (simp_all add: in_tree_def tree_rel_def TrimPrefix_def)
  then show "in_tree (state_name rel) claudeArchiveStateRoot" "tree_rel (state_name rel) claudeArchiveStateRoot = join_slash rel"
    unfolding state_name_cases claudeArchiveStateRoot_def by auto
  show "state_name rel \<noteq> claudeArchiveScrollback"
  proof
    assume eq: "state_name rel = claudeArchiveScrollback"
    have "state_name rel ! 1 = CHR ''t''" by (simp add: state_name_cases)
    moreover have "claudeArchiveScrollback ! 1 = CHR ''c''" by (simp add: claudeArchiveScrollback_def)
    ultimately show False unfolding eq by simp
  qed
qed

lemma split_state_name: "list_all component rel \<Longrightarrow> split_slash (state_name rel) = claudeArchiveStateRoot # rel"
  unfolding state_name_join by (rule components_split) (simp_all add: component_roots)

lemma state_name_inj: "list_all component rel \<Longrightarrow> list_all component rel' \<Longrightarrow> state_name rel = state_name rel' \<Longrightarrow> rel = rel'"
  by (metis split_state_name list.inject)

definition mode_item :: "path \<Rightarrow> path \<Rightarrow> node \<Rightarrow> restoredDirMode list" where
  "mode_item root rel n = (case n of Dir m t \<Rightarrow> [\<lparr>dm_name = root @ rel, dm_mode = m, dm_modTime = round_second t\<rparr>] | _ \<Rightarrow> [])"

lemma extract_calm:
  assumes "calm w" "root \<noteq> []" "real (os_files w) (butlast root)" "component (last root)" "travels rel n"
    and "\<And>q c. rel = q @ [c] \<Longrightarrow> real (os_files w) (root @ q)" "get (os_files w) (root @ rel) = None"
  shows "\<exists>w' n'. extractClaudeStateEntry (file_info_header name n) root (join_slash rel) modes w = (Inr (modes @ mode_item root rel n), w') \<and>
    adds (root @ rel) n' w w' \<and> staged_as n (Some n')"
proof -
  let ?h = "file_info_header name n"
  have rel: "list_all component rel" using assms(5) by (simp add: travels_def)
  have nil: "join_slash rel = [] \<longleftrightarrow> rel = []" using join_slash_eq_Nil [OF list_all_component_normal [OF rel]] .
  have dst: "safeClaudeArchiveDestination root (join_slash rel) = Inr (root @ rel)" using destination_components [OF rel] .
  obtain d c where p: "root @ rel = d @ [c]" "real (os_files w) d" "component c"
  proof (cases rel rule: rev_cases)
    case Nil
    then show ?thesis using that [of "butlast root" "last root"] assms(2-4) by simp
  next
    case (snoc q c)
    then show ?thesis using that [of "root @ q" c] assms(6) rel by simp
  qed
  have none: "get (os_files w) (d @ [c]) = None" using assms(7) p(1) by simp
  have ensured: "(if join_slash rel \<noteq> [] then ensureSafeClaudeParents root (Dir_of (join_slash rel)) else ret ()) w = (Inr (), w)"
    using ensure_calm [OF assms(1)] assms(6) rel nil by (cases rel rule: rev_cases) (auto simp: ret_def)
  have enter: "extractClaudeStateEntry ?h root (join_slash rel) modes w =
      (case te_Type ?h of
             TypeDir \<Rightarrow> extract_dir (d @ [c]) ?h modes
           | TypeReg \<Rightarrow> thenE (extract_file (d @ [c]) ?h) (ret modes)
           | TypeSymlink \<Rightarrow> thenE (extract_link (d @ [c]) (join_slash rel) ?h) (ret modes)
           | TypeOther \<Rightarrow> throw (New ''unsupported workload archive entry'')) w"
    if "rel = [] \<longrightarrow> te_Type ?h = TypeDir"
    using that ensured nil unfolding extractClaudeStateEntry_def dst bind_known p(1) thenE_def bindE_def by (auto simp: bind_known)
  show ?thesis
  proof (cases n)
    case (Dir m t)
    then have "te_Type ?h = TypeDir" by (simp add: file_info_header_def)
    with enter extract_dir_calm [OF assms(1) p(2,3) none, of ?h modes] Dir show ?thesis
      by (auto simp: p(1) mode_item_def file_info_header_def)
  next
    case (Regular bs m t)
    then have "rel \<noteq> []" using assms(5) by (auto simp: travels_def is_dir_def)
    moreover have "te_Type ?h = TypeReg" "te_Err ?h = None" "te_ModTime ?h \<noteq> zero_time"
      using Regular assms(5) by (auto simp: file_info_header_def travels_def)
    ultimately show ?thesis using enter extract_file_calm [OF assms(1) p(2,3) none, of ?h] Regular
      by (auto simp: p(1) mode_item_def file_info_header_def thenE_def bindE_def ret_def)
  next
    case (Symlink l)
    then have "rel \<noteq> []" using assms(5) by (auto simp: travels_def is_dir_def)
    then have "validateClaudeSymlink (join_slash rel) (te_Linkname ?h) = Inr ()"
      using assms(5) Symlink by (auto simp: travels_def check_node_def slash_rel_def file_info_header_def split: sum.splits)
    moreover have "te_Type ?h = TypeSymlink" "te_Linkname ?h = l" using Symlink by (auto simp: file_info_header_def)
    ultimately show ?thesis
      using enter extract_link_calm [OF assms(1) p(2,3) none, of "join_slash rel" ?h] Symlink \<open>rel \<noteq> []\<close>
      by (auto simp: p(1) mode_item_def thenE_def bindE_def ret_def)
  next
    case Special
    then show ?thesis using assms(5) by (auto simp: travels_def check_node_def)
  qed
qed

lemma restore_entry_calm:
  assumes "calm w" "real (os_files w) T" "travels rel n"
    and "\<And>q c. rel = q @ [c] \<Longrightarrow> real (os_files w) (T @ claudeArchiveStateRoot # q)"
    and "get (os_files w) (T @ claudeArchiveStateRoot # rel) = None"
    and "ra_count ra < maxClaudeArchiveEntries" "state_name rel \<notin> set (ra_seen ra)"
  shows "\<exists>w' n'. restore_entry T (file_info_header (state_name rel) n) ra w =
      (Inr (ra\<lparr>ra_count := Suc (ra_count ra), ra_seen := state_name rel # ra_seen ra, ra_sawState := True,
               ra_dirModes := ra_dirModes ra @ mode_item (T @ [claudeArchiveStateRoot]) rel n\<rparr>), w') \<and>
    adds (T @ claudeArchiveStateRoot # rel) n' w w' \<and> staged_as n (Some n')"
proof -
  let ?h = "file_info_header (state_name rel) n"
  have name: "te_Name ?h = state_name rel" by (cases n) (simp_all add: file_info_header_def)
  have short: "length (state_name rel) \<le> maxClaudeArchivePathBytes" "length (te_Linkname ?h) \<le> maxClaudeArchivePathBytes"
    using assms(3) by (cases n; auto simp: travels_def file_info_header_def check_node_def state_name_def split: sum.splits)+
  have clean: "cleanClaudeArchiveName (state_name rel) = Inr (state_name rel)"
    using assms(3) by (intro state_name_clean) (auto simp: travels_def)
  from extract_calm [OF assms(1), of "T @ [claudeArchiveStateRoot]" rel n "state_name rel" "ra_dirModes ra"] assms(2-5) component_roots(1)
  obtain w' n' where
    "extractClaudeStateEntry ?h (T @ [claudeArchiveStateRoot]) (join_slash rel) (ra_dirModes ra) w =
       (Inr (ra_dirModes ra @ mode_item (T @ [claudeArchiveStateRoot]) rel n), w')"
    "adds (T @ claudeArchiveStateRoot # rel) n' w w'" "staged_as n (Some n')" by auto
  then show ?thesis
    using assms(6,7) short
    by (auto simp: restore_entry_def name clean bind_known state_name_tree bindE_def ret_def Let_def)
qed

section \<open>All entries\<close>

definition staged_upto :: "path \<Rightarrow> (path \<Rightarrow> node) \<Rightarrow> path list \<Rightarrow> files \<Rightarrow> bool" where
  "staged_upto R N rels fs = (\<forall>rel. if rel \<in> set rels then staged_as (N rel) (get fs (R @ rel)) else get fs (R @ rel) = None)"

text \<open>A directory comes before what it holds.\<close>

definition parents_first :: "(path \<Rightarrow> node) \<Rightarrow> path list \<Rightarrow> bool" where
  "parents_first N ents = (\<forall>xs q c ys. ents = xs @ (q @ [c]) # ys \<longrightarrow> q \<in> set xs \<and> is_dir (N q))"

lemma parents_firstD: "parents_first N (ready @ todo) \<Longrightarrow> q @ [c] \<in> set ready \<Longrightarrow> q \<in> set ready \<and> is_dir (N q)"
proof -
  assume first: "parents_first N (ready @ todo)" and "q @ [c] \<in> set ready"
  then obtain xs ys where "ready = xs @ (q @ [c]) # ys" by (meson split_list)
  then have "ready @ todo = xs @ (q @ [c]) # ys @ todo" "set xs \<subseteq> set ready" by auto
  with first show ?thesis unfolding parents_first_def by blast
qed

lemma staged_dir: "staged_as n x \<Longrightarrow> is_dir n \<Longrightarrow> \<exists>m t. x = Some (Dir m t)"
  by (cases n) (auto simp: is_dir_def)

lemma staged_not_dir: "staged_as n x \<Longrightarrow> \<not> is_dir n \<Longrightarrow> \<not> (\<exists>m t. x = Some (Dir m t))"
  by (cases n) (auto simp: is_dir_def)

lemma real_staged:
  assumes "staged_upto R N ready fs" "parents_first N (ready @ todo)" "R \<noteq> []" "real fs (butlast R)" "component (last R)"
  shows "q \<in> set ready \<Longrightarrow> list_all component q \<Longrightarrow> is_dir (N q) \<Longrightarrow> real fs (R @ q)"
proof (induction q rule: rev_induct)
  case Nil
  then have "dir_at fs R" using assms(1) staged_dir unfolding staged_upto_def by (metis append_Nil2)
  then show ?case using assms(3-5) real_snoc [of fs "butlast R" "last R"] by simp
next
  case (snoc c q)
  from parents_firstD [OF assms(2) snoc.prems(1)] have "real fs (R @ q)" using snoc by simp
  moreover have "dir_at fs (R @ q @ [c])" using assms(1) staged_dir snoc.prems unfolding staged_upto_def by meson
  ultimately show ?case using snoc.prems real_snoc [of fs "R @ q" c] by simp
qed

lemma staged_upto_adds:
  assumes "staged_upto R N ready (os_files w)" "adds (R @ rel) n' w w'" "staged_as (N rel) (Some n')"
  shows "staged_upto R N (ready @ [rel]) (os_files w')"
  unfolding staged_upto_def
proof (intro allI)
  fix r
  have here: "get (os_files w') (R @ rel) = Some n'" using assms(2) by (simp add: adds_def)
  have other: "get (os_files w') (R @ r) = get (os_files w) (R @ r) \<or> dir_at (os_files w) (R @ r) \<and> dir_at (os_files w') (R @ r)" if "r \<noteq> rel"
    using assms(2) that unfolding adds_def by (metis same_append_eq)
  have old: "if r \<in> set ready then staged_as (N r) (get (os_files w) (R @ r)) else get (os_files w) (R @ r) = None"
    using assms(1) by (simp add: staged_upto_def)
  show "if r \<in> set (ready @ [rel]) then staged_as (N r) (get (os_files w') (R @ r)) else get (os_files w') (R @ r) = None"
  proof (cases "r = rel")
    case True
    then show ?thesis using here assms(3) by simp
  next
    case False
    from other [OF this] show ?thesis
    proof
      assume "dir_at (os_files w) (R @ r) \<and> dir_at (os_files w') (R @ r)"
      moreover have "is_dir (N r)" if "r \<in> set ready" using staged_not_dir old that calculation by auto
      ultimately show ?thesis using old False by (cases "N r") (auto simp: is_dir_def)
    qed (use old False in auto)
  qed
qed

lemma restore_loop_calm:
  assumes "T \<noteq> []" "distinct ents" "parents_first N ents" "\<forall>rel \<in> set ents. travels rel (N rel)"
  defines "R \<equiv> T @ [claudeArchiveStateRoot]"
  shows "ents = ready @ todo \<Longrightarrow> calm w \<Longrightarrow> real (os_files w) T \<Longrightarrow> staged_upto R N ready (os_files w) \<Longrightarrow>
    ra_count ra + length todo \<le> maxClaudeArchiveEntries \<Longrightarrow> set (ra_seen ra) = insert claudeArchiveScrollback (state_name ` set ready) \<Longrightarrow>
    \<exists>w' ra'. restore_loop T (map (\<lambda>rel. file_info_header (state_name rel) (N rel)) todo) None ra w = (Inr ra', w') \<and>
      ra_scrollback ra' = ra_scrollback ra \<and> ra_sawScrollback ra' = ra_sawScrollback ra \<and> ra_sawShared ra' = ra_sawShared ra \<and>
      ra_sawState ra' = (ra_sawState ra \<or> todo \<noteq> []) \<and>
      ra_dirModes ra' = ra_dirModes ra @ concat (map (\<lambda>rel. mode_item R rel (N rel)) todo) \<and>
      calm w' \<and> real (os_files w') T \<and> staged_upto R N ents (os_files w')"
proof (induction todo arbitrary: "ready" ra w)
  case Nil
  then show ?case by (simp add: ret_def)
next
  case (Cons rel todo)
  have rel: "travels rel (N rel)" "list_all component rel" "rel \<notin> set ready"
    using Cons.prems(1) assms(2,4) by (auto simp: travels_def)
  have R: "R \<noteq> []" "real (os_files w) (butlast R)" "component (last R)" "\<And>x. T @ claudeArchiveStateRoot # x = R @ x"
    using Cons.prems(3) component_roots(1) by (simp_all add: R_def)
  have parent: "real (os_files w) (T @ claudeArchiveStateRoot # q)" if "rel = q @ [c]" for q c
  proof -
    have "q \<in> set ready" "is_dir (N q)" using assms(3) Cons.prems(1) that unfolding parents_first_def by blast+
    then show ?thesis unfolding R(4)
      using real_staged [OF Cons.prems(4) _ R(1-3), of "rel # todo" q] assms(3) Cons.prems(1) rel(2) that by simp
  qed
  have none: "get (os_files w) (T @ claudeArchiveStateRoot # rel) = None"
    unfolding R(4) using Cons.prems(4) rel(3) by (simp add: staged_upto_def)
  have fresh: "state_name rel \<notin> set (ra_seen ra)"
  proof
    assume "state_name rel \<in> set (ra_seen ra)"
    then obtain rel' where "rel' \<in> set ready" "state_name rel = state_name rel'"
      using Cons.prems(6) state_name_tree(3) by auto
    moreover have "list_all component rel'" using calculation(1) Cons.prems(1) assms(4) by (auto simp: travels_def)
    ultimately show False using state_name_inj [OF rel(2)] rel(3) by blast
  qed
  have room: "ra_count ra < maxClaudeArchiveEntries" using Cons.prems(5) by simp
  obtain w1 n' where
    step: "restore_entry T (file_info_header (state_name rel) (N rel)) ra w =
        (Inr (ra\<lparr>ra_count := Suc (ra_count ra), ra_seen := state_name rel # ra_seen ra, ra_sawState := True,
               ra_dirModes := ra_dirModes ra @ mode_item R rel (N rel)\<rparr>), w1)"
    and adds: "adds (R @ rel) n' w w1" "staged_as (N rel) (Some n')"
    using restore_entry_calm [OF Cons.prems(2,3) rel(1) _ none room fresh] parent unfolding R(4) R_def [symmetric] append_Nil2 by blast
  let ?ra = "ra\<lparr>ra_count := Suc (ra_count ra), ra_seen := state_name rel # ra_seen ra, ra_sawState := True,
               ra_dirModes := ra_dirModes ra @ mode_item R rel (N rel)\<rparr>"
  have "calm w1" "real (os_files w1) T" "staged_upto R N (ready @ [rel]) (os_files w1)"
    using adds adds_real [OF adds(1) Cons.prems(3)] staged_upto_adds [OF Cons.prems(4) adds] by (simp_all add: adds_def)
  from Cons.IH [OF _ this, of ?ra] Cons.prems(1,5,6) obtain w' ra' where
    "restore_loop T (map (\<lambda>rel. file_info_header (state_name rel) (N rel)) todo) None ?ra w1 = (Inr ra', w')"
    "ra_scrollback ra' = ra_scrollback ra \<and> ra_sawScrollback ra' = ra_sawScrollback ra \<and> ra_sawShared ra' = ra_sawShared ra \<and>
      ra_sawState ra' \<and> ra_dirModes ra' = ra_dirModes ra @ mode_item R rel (N rel) @ concat (map (\<lambda>rel. mode_item R rel (N rel)) todo) \<and>
      calm w' \<and> real (os_files w') T \<and> staged_upto R N ents (os_files w')"
    by auto
  then show ?case using step by (auto simp: bindE_def)
qed

section \<open>Modes and times of directories\<close>

definition item_dir :: "restoredDirMode \<Rightarrow> node" where
  "item_dir i = Dir (perm (dm_mode i)) (dm_modTime i)"

lemma apply_modes_calm:
  "calm w \<Longrightarrow> \<forall>i \<in> set items. real (os_files w) (dm_name i) \<and> dm_name i \<noteq> [] \<and> dm_modTime i \<noteq> zero_time \<Longrightarrow> distinct (map dm_name items) \<Longrightarrow>
   \<exists>w'. apply_modes items w = (Inr (), w') \<and> calm w' \<and> (\<forall>i \<in> set items. get (os_files w') (dm_name i) = Some (item_dir i)) \<and>
     (\<forall>p. p \<notin> dm_name ` set items \<longrightarrow> get (os_files w') p = get (os_files w) p)"
proof (induction items arbitrary: w)
  case Nil
  then show ?case by (simp add: ret_def)
next
  case (Cons i items)
  obtain d c where p: "dm_name i = d @ [c]" using Cons.prems(2) by (metis list.set_intros(1) rev_exhaust)
  have here: "real (os_files w) d" "component c" "dir_at (os_files w) (d @ [c])" using Cons.prems(2) p by (auto simp: real_snoc)
  then obtain m t where n: "get (os_files w) (d @ [c]) = Some (Dir m t)" by blast
  from update_calm [OF Cons.prems(1) here(1,2) n, of "\<lambda>_. with_perm (perm (dm_mode i))"] obtain w1 where
    w1: "Chmod (d @ [c]) (perm (dm_mode i)) w = (Inr (), w1)" "adds (d @ [c]) (Dir (perm (dm_mode i)) t) w w1"
    "\<forall>q. q \<noteq> d @ [c] \<longrightarrow> get (os_files w1) q = get (os_files w) q"
    by (auto simp: Chmod_def with_perm_def is_dir_def)
  have s1: "calm w1" "real (os_files w1) d" "get (os_files w1) (d @ [c]) = Some (Dir (perm (dm_mode i)) t)"
    using w1(2) adds_real [OF w1(2) here(1)] by (auto simp: adds_def)
  from update_calm [OF s1(1,2) here(2) s1(3), of "\<lambda>_. with_mtime (dm_modTime i)"] obtain w2 where
    w2: "Chtimes (d @ [c]) (dm_modTime i) w1 = (Inr (), w2)" "adds (d @ [c]) (item_dir i) w1 w2"
    "\<forall>q. q \<noteq> d @ [c] \<longrightarrow> get (os_files w2) q = get (os_files w1) q"
    by (auto simp: Chtimes_def with_mtime_def is_dir_def item_dir_def)
  have s2: "calm w2" "get (os_files w2) (d @ [c]) = Some (item_dir i)" using w2(2) by (auto simp: adds_def)
  have "real (os_files w2) x" if "real (os_files w) x" for x using adds_real [OF w2(2) adds_real [OF w1(2) that]] .
  then have "\<forall>j \<in> set items. real (os_files w2) (dm_name j) \<and> dm_name j \<noteq> [] \<and> dm_modTime j \<noteq> zero_time" using Cons.prems(2) by auto
  from Cons.IH [OF s2(1) this] Cons.prems(3) obtain w' where
    w': "apply_modes items w2 = (Inr (), w')" "calm w'" "\<forall>j \<in> set items. get (os_files w') (dm_name j) = Some (item_dir j)"
    "\<forall>p. p \<notin> dm_name ` set items \<longrightarrow> get (os_files w') p = get (os_files w2) p" by auto
  have "apply_modes (i # items) w = (Inr (), w')"
    using w1(1) w2(1) w'(1) Cons.prems(2) p by (simp add: thenE_def bindE_def wrapE_def tryE_def ret_def restoreModTime_def)
  moreover have "get (os_files w') (dm_name i) = Some (item_dir i)"
    using w'(4) s2(2) Cons.prems(3) p by simp
  moreover have "get (os_files w') q = get (os_files w) q" if "q \<notin> dm_name ` set (i # items)" for q
    using that w'(4) w2(3) w1(3) p by simp
  ultimately show ?case using w'(2,3) by auto
qed

lemma mode_items: "i \<in> set (mode_item R rel n) \<longleftrightarrow> (\<exists>m t. n = Dir m t \<and> i = \<lparr>dm_name = R @ rel, dm_mode = m, dm_modTime = round_second t\<rparr>)"
  by (cases n) (auto simp: mode_item_def)

lemma mode_items_distinct:
  "distinct rels \<Longrightarrow> distinct (map dm_name (concat (map (\<lambda>rel. mode_item R rel (N rel)) rels)))"
proof (induction rels)
  case (Cons rel rels)
  have "\<forall>i \<in> set (mode_item R rel (N rel)). dm_name i = R @ rel" by (auto simp: mode_items)
  moreover have "\<forall>j \<in> set (concat (map (\<lambda>rel. mode_item R rel (N rel)) rels)). dm_name j \<noteq> R @ rel"
    using Cons.prems by (auto simp: mode_items)
  moreover have "distinct (map dm_name (mode_item R rel (N rel)))" by (cases "N rel") (auto simp: mode_item_def)
  ultimately show ?case using Cons by fastforce
qed simp

lemma restore_staged_calm:
  assumes "opened T w0 w" "T \<noteq> []" "distinct ents" "[] \<in> set ents" "parents_first N ents" "\<forall>rel \<in> set ents. travels rel (N rel)"
    and "Suc (length ents) \<le> maxClaudeArchiveEntries" "length scrollback \<le> maxScrollbackBytes" "validator validate"
    and accepts: "\<And>w'. calm w' \<Longrightarrow> staged_upto (T @ [claudeArchiveStateRoot]) N ents (os_files w') \<Longrightarrow>
      fst (validate (T @ [claudeArchiveStateRoot]) w') = Inr ()"
  shows "\<exists>w' ra. restore_staged validate T sharedDir
      (scrollback_entry scrollback # map (\<lambda>rel. file_info_header (state_name rel) (N rel)) ents) None w = (Inr ra, w') \<and>
    ra_scrollback ra = scrollback \<and>
    (\<forall>rel. get (os_files w') (T @ claudeArchiveStateRoot # rel) = (if rel \<in> set ents then Some (restored_node (N rel)) else None))"
proof -
  let ?R = "T @ [claudeArchiveStateRoot]"
  let ?ra = "fresh_restored\<lparr>ra_count := 1, ra_seen := [claudeArchiveScrollback], ra_scrollback := scrollback, ra_sawScrollback := True\<rparr>"
  have w: "calm w" "real (os_files w) T" "staged_upto ?R N [] (os_files w)"
    using assms(1) by (auto simp: opened_def staging_def staged_upto_def)
  have clean: "cleanClaudeArchiveName claudeArchiveScrollback = Inr claudeArchiveScrollback"
    by (simp add: cleanClaudeArchiveName_def claudeArchiveScrollback_def backslash_def IsAbs_def Clean_def)
  have first: "restore_entry T (scrollback_entry scrollback) fresh_restored w = (Inr ?ra, w)"
    using assms(7,8) clean
    by (simp add: restore_entry_def scrollback_entry_def fresh_restored_def bind_known restore_scrollback_def read_body_def lift_def)
      (simp add: claudeArchiveScrollback_def maxClaudeArchivePathBytes_def)
  from restore_loop_calm [OF assms(2,3,5,6), of "[]" ents w ?ra] w assms(4,7) obtain w1 ra where
    loop: "restore_loop T (map (\<lambda>rel. file_info_header (state_name rel) (N rel)) ents) None ?ra w = (Inr ra, w1)"
      "ra_scrollback ra = scrollback" "ra_sawScrollback ra" "\<not> ra_sawShared ra" "ra_sawState ra"
      "ra_dirModes ra = concat (map (\<lambda>rel. mode_item ?R rel (N rel)) ents)" "calm w1" "real (os_files w1) T" "staged_upto ?R N ents (os_files w1)"
    by (auto simp: fresh_restored_def)
  have real_dirs: "real (os_files w1) (?R @ rel)" if "rel \<in> set ents" "is_dir (N rel)" for rel
    using real_staged [OF loop(9), of "[]" rel] assms(5,6) loop(8) that component_roots(1) by (auto simp: travels_def)
  have "is_dir (N [])" using assms(4,6) by (auto simp: travels_def)
  then have R: "real (os_files w1) ?R" using real_dirs [OF assms(4)] by simp
  obtain w2 where valid: "validate ?R w1 = (Inr (), w2)" "os_files w2 = os_files w1" "calm w2"
  proof -
    obtain r w2 where run: "validate ?R w1 = (r, w2)" by fastforce
    moreover have "r = Inr ()" using accepts [OF loop(7,9)] run by simp
    moreover have "os_files w2 = os_files w1" using assms(9) run unfolding validator_def read_only_def reads_def by (metis snd_conv)
    moreover have "calm w2" using assms(9) steadyD [of "validate ?R" w1] run loop(7) by (auto simp: validator_def)
    ultimately show ?thesis using that by blast
  qed
  have "Stat ?R w1 = (stat_at True ?R w1, w1)" using loop(7) by (simp add: Stat_def)
  then have checks: "restore_checks validate T sharedDir ra w1 = (Inr (), w2)"
    using loop(3-5) valid(1) stat_real [OF R, of True]
    by (auto simp: restore_checks_def thenE_def bindE_def must_be_dir_def tryE_def ret_def is_dir_def)
  have items: "\<forall>i \<in> set (deepest_first (ra_dirModes ra)). real (os_files w2) (dm_name i) \<and> dm_name i \<noteq> [] \<and> dm_modTime i \<noteq> zero_time"
    using real_dirs assms(6) valid(2) by (fastforce simp: deepest_first_def loop(6) mode_items travels_def is_dir_def)
  have "distinct (map dm_name (deepest_first (ra_dirModes ra)))"
    using mode_items_distinct [OF assms(3), of ?R N] unfolding deepest_first_def loop(6)
    by (simp add: distinct_map)
  from apply_modes_calm [OF valid(3) items this] obtain w3 where
    w3: "apply_modes (deepest_first (ra_dirModes ra)) w2 = (Inr (), w3)"
      "\<forall>i \<in> set (ra_dirModes ra). get (os_files w3) (dm_name i) = Some (item_dir i)"
      "\<forall>p. p \<notin> dm_name ` set (ra_dirModes ra) \<longrightarrow> get (os_files w3) p = get (os_files w1) p"
    using valid(2) by (auto simp: deepest_first_def)
  have "get (os_files w3) (?R @ rel) = (if rel \<in> set ents then Some (restored_node (N rel)) else None)" for rel
  proof (cases "rel \<in> set ents \<and> is_dir (N rel)")
    case True
    then obtain m t where n: "N rel = Dir m t" by (cases "N rel") (auto simp: is_dir_def)
    have "\<lparr>dm_name = ?R @ rel, dm_mode = m, dm_modTime = round_second t\<rparr> \<in> set (ra_dirModes ra)"
      using True n by (auto simp: loop(6) mode_items)
    with w3(2) have "get (os_files w3) (?R @ rel) = Some (Dir (perm m) (round_second t))" by (fastforce simp: item_dir_def)
    then show ?thesis using True n by simp
  next
    case False
    have "?R @ rel \<notin> dm_name ` set (ra_dirModes ra)"
      using False by (auto simp: loop(6) mode_items is_dir_def)
    then have "get (os_files w3) (?R @ rel) = get (os_files w1) (?R @ rel)" using w3(3) by blast
    moreover have "if rel \<in> set ents then staged_as (N rel) (get (os_files w1) (?R @ rel)) else get (os_files w1) (?R @ rel) = None"
      using loop(9) unfolding staged_upto_def by (rule spec)
    ultimately show ?thesis using False by (cases "N rel") (auto simp: is_dir_def)
  qed
  moreover have "restore_staged validate T sharedDir
      (scrollback_entry scrollback # map (\<lambda>rel. file_info_header (state_name rel) (N rel)) ents) None w = (Inr ra, w3)"
    using first loop(1) checks w3(1) by (simp add: restore_staged_def thenE_def bindE_def ret_def)
  ultimately show ?thesis using loop(2) by auto
qed

section \<open>Writing\<close>

lemma Lstat_calm:
  assumes "calm w" "wf_tree (os_files w)" "get (os_files w) p = Some n" "p \<noteq> []"
  shows "Lstat p w = (Inr n, w)"
proof -
  obtain d c where p: "p = d @ [c]" using assms(4) by (metis rev_exhaust)
  have "component c" "d = [] \<or> dir_at (os_files w) d" using assms(2,3) p unfolding wf_tree_def by blast+
  then have "real (os_files w) d" using wf_real [OF assms(2)] by auto
  then show ?thesis using stat_entry [OF _ \<open>component c\<close>] assms(1,3) p by (simp add: Lstat_def)
qed

definition node_of :: "path \<Rightarrow> os \<Rightarrow> path \<Rightarrow> node" where
  "node_of d w rel = the (get (os_files w) (d @ rel))"

definition kept_rel :: "path \<Rightarrow> (string \<Rightarrow> bool) \<Rightarrow> os \<Rightarrow> path \<Rightarrow> bool" where
  "kept_rel d skip w rel = (\<not> (skip (slash_rel rel) \<and> is_regular (node_of d w rel)))"

definition checked :: "string \<Rightarrow> path \<Rightarrow> node \<Rightarrow> bool" where
  "checked pre rel n = (length (entry_name pre rel) \<le> maxClaudeArchivePathBytes \<and>
     (\<exists>link. check_node rel n = Inr link \<and> length link \<le> maxClaudeArchivePathBytes))"

lemma archive_entry_calm:
  assumes "calm w" "wf_tree (os_files w)" "d \<noteq> []" "get (os_files w) (d @ rel) \<noteq> None"
    and "archive_entry hdr_bytes d pre skip rel wr w = (Inr wr', w')"
  shows "w' = w \<and> (if kept_rel d skip w rel
      then wr_entries wr' = wr_entries wr @ [file_info_header (entry_name pre rel) (node_of d w rel)] \<and> wr_count wr' = Suc (wr_count wr) \<and>
        wr_count wr' \<le> maxClaudeArchiveEntries \<and> checked pre rel (node_of d w rel)
      else wr' = wr)"
proof -
  have n: "get (os_files w) (d @ rel) = Some (node_of d w rel)" using assms(4) by (auto simp: node_of_def)
  have lstat: "Lstat (d @ rel) w = (Inr (node_of d w rel), w)" using Lstat_calm [OF assms(1,2) n] assms(3) by simp
  then have "visited_regular (d @ rel) w = is_regular (node_of d w rel)"
    using assms(1) by (simp add: visited_regular_def Lstat_def)
  with assms(5) lstat show ?thesis
    by (auto simp: archive_entry_def kept_rel_def checked_def bindE_def lift_def ret_def throw_def Let_def split: if_splits sum.splits)
qed

lemma archive_walk_calm:
  assumes "calm w" "wf_tree (os_files w)" "d \<noteq> []"
  shows "\<forall>rel \<in> set rels. get (os_files w) (d @ rel) \<noteq> None \<Longrightarrow> archive_walk hdr_bytes d pre skip rels wr w = (Inr wr', w') \<Longrightarrow>
    w' = w \<and> wr_entries wr' = wr_entries wr @ map (\<lambda>rel. file_info_header (entry_name pre rel) (node_of d w rel)) (filter (kept_rel d skip w) rels) \<and>
    wr_count wr' = wr_count wr + length (filter (kept_rel d skip w) rels) \<and>
    (filter (kept_rel d skip w) rels \<noteq> [] \<longrightarrow> wr_count wr' \<le> maxClaudeArchiveEntries) \<and>
    (\<forall>rel \<in> set rels. kept_rel d skip w rel \<longrightarrow> checked pre rel (node_of d w rel))"
proof (induction rels arbitrary: wr)
  case Nil
  then show ?case by (simp add: ret_def)
next
  case (Cons rel rels)
  from Cons.prems(2) obtain wr1 w1 where step: "archive_entry hdr_bytes d pre skip rel wr w = (Inr wr1, w1)"
    and rest: "archive_walk hdr_bytes d pre skip rels wr1 w1 = (Inr wr', w')" by (auto simp: bindE_Inr)
  note here = archive_entry_calm [OF assms _ step]
  have "w1 = w" using here Cons.prems(1) by simp
  from Cons.IH [of wr1] rest Cons.prems(1) this here show ?case by (auto split: if_splits)
qed

lemma writeStateArchive_ok:
  assumes "calm w" "wf_tree (os_files w)" "d \<noteq> []"
    and "writeStateArchiveExcluding hdr_bytes d None scrollback exclude w = (Inr hs, w')"
  defines "ents \<equiv> filter (kept_rel d (\<lambda>rel. rel \<in> set (map Clean exclude)) w) (walk d (os_files w))"
  shows "hs = scrollback_entry scrollback # map (\<lambda>rel. file_info_header (state_name rel) (node_of d w rel)) ents \<and>
    Suc (length ents) \<le> maxClaudeArchiveEntries \<and> length scrollback \<le> maxScrollbackBytes \<and>
    (\<forall>rel \<in> set ents. checked claudeArchiveStateRoot rel (node_of d w rel))"
proof -
  let ?skip = "\<lambda>rel. rel \<in> set (map Clean exclude)"
  from assms(4) obtain left n wr w1 where
    run: "length scrollback \<le> maxScrollbackBytes" "Lstat d w = (Inr n, w1)" "is_dir n"
      "archive_walk hdr_bytes d claudeArchiveStateRoot ?skip (walk d (os_files w1))
         \<lparr>wr_count = 1, wr_remaining = left, wr_entries = [scrollback_entry scrollback]\<rparr> w1 = (Inr wr, w')" "hs = wr_entries wr"
    by (auto simp: writeStateArchiveExcluding_def archiveTree_def bindE_Inr throw_def lift_def ret_def split: if_splits)
  have w1: "w1 = w" using run(2) assms(1) by (auto simp: Lstat_def)
  have all: "\<forall>rel \<in> set (walk d (os_files w)). get (os_files w) (d @ rel) \<noteq> None" by (simp add: set_walk)
  from archive_walk_calm [OF assms(1-3) all run(4) [unfolded w1]]
  have out: "wr_entries wr = scrollback_entry scrollback # map (\<lambda>rel. file_info_header (entry_name claudeArchiveStateRoot rel) (node_of d w rel)) ents"
    "wr_count wr = Suc (length ents)" "ents \<noteq> [] \<longrightarrow> wr_count wr \<le> maxClaudeArchiveEntries"
    "\<forall>rel \<in> set ents. checked claudeArchiveStateRoot rel (node_of d w rel)"
    by (auto simp: ents_def)
  have "Suc (length ents) \<le> maxClaudeArchiveEntries"
    using out(2,3) by (cases "ents = []") (auto simp: maxClaudeArchiveEntries_def)
  with out run(1,5) show ?thesis by (simp add: state_name_def)
qed

lemma less_snoc: "(q :: path) < q @ [c]"
  by (induction q) auto

lemma sorted_before: "sorted (xs @ x # ys) \<Longrightarrow> y \<in> set (xs @ x # ys) \<Longrightarrow> y < x \<Longrightarrow> y \<in> set xs"
  by (auto simp: sorted_append dest: leD)

lemma walk_parents_first:
  assumes "wf_tree (os_files w)" "d \<noteq> []"
  shows "parents_first (node_of d w) (filter (kept_rel d skip w) (walk d (os_files w)))" (is "parents_first _ ?ents")
  unfolding parents_first_def
proof (intro allI impI)
  fix xs q c ys assume split: "?ents = xs @ (q @ [c]) # ys"
  then have "q @ [c] \<in> set ?ents" by simp
  then have "get (os_files w) ((d @ q) @ [c]) \<noteq> None" by (simp add: set_walk)
  then have dir: "dir_at (os_files w) (d @ q)" using assms unfolding wf_tree_def by (metis append_is_Nil_conv)
  then have isdir: "is_dir (node_of d w q)" by (auto simp: node_of_def is_dir_def)
  then have "q \<in> set ?ents" using dir by (auto simp: set_walk kept_rel_def is_regular_def is_dir_def split: node.splits)
  moreover have "sorted ?ents" by (simp add: walk_def sorted_wrt_filter)
  ultimately have "q \<in> set xs" using sorted_before [of xs "q @ [c]" ys q] less_snoc [of q c] split by simp
  with isdir show "q \<in> set xs \<and> is_dir (node_of d w q)" by simp
qed

section \<open>Round trip\<close>

text \<open>The node of the written tree at a relative path, less the excluded files.\<close>

definition kept :: "path \<Rightarrow> string list \<Rightarrow> os \<Rightarrow> path \<Rightarrow> node option" where
  "kept d exclude w rel =
     (case get (os_files w) (d @ rel) of
        None \<Rightarrow> None
      | Some n \<Rightarrow> if slash_rel rel \<in> set (map Clean exclude) \<and> is_regular n then None else Some n)"

text \<open>A source tree whose entries can travel: no backslash in a name, no time of the year 1.\<close>

definition portable :: "path \<Rightarrow> os \<Rightarrow> bool" where
  "portable d w = (\<forall>rel n. get (os_files w) (d @ rel) = Some n \<longrightarrow> list_all (\<lambda>c. backslash \<notin> set c) rel \<and> dated n)"

text \<open>The validator accepts a tree that has the written entries, directories with any mode.\<close>

definition accepts :: "(path \<Rightarrow> (os, unit) act) \<Rightarrow> path \<Rightarrow> (path \<Rightarrow> node option) \<Rightarrow> bool" where
  "accepts validate p tree =
     (\<forall>w. calm w \<and> (\<forall>rel. case tree rel of None \<Rightarrow> get (os_files w) (p @ rel) = None | Some n \<Rightarrow> staged_as n (get (os_files w) (p @ rel))) \<longrightarrow>
        fst (validate p w) = Inr ())"

lemma restore_written:
  fixes N stateDir wt
  defines "T \<equiv> staging_dir stateDir wt"
  assumes "calm wt" "restore_site stateDir None wt" "get (os_files wt) T = None" "get (os_files wt) (backup_dir stateDir wt) = None"
    and "validator validate" "distinct ents" "[] \<in> set ents" "parents_first N ents" "\<forall>rel \<in> set ents. travels rel (N rel)"
    and "Suc (length ents) \<le> maxClaudeArchiveEntries" "length scrollback \<le> maxScrollbackBytes"
    and "\<And>w'. calm w' \<Longrightarrow> staged_upto (T @ [claudeArchiveStateRoot]) N ents (os_files w') \<Longrightarrow>
      fst (validate (T @ [claudeArchiveStateRoot]) w') = Inr ()"
  shows "\<exists>w'. restoreStateArchive validate stateDir None
      (scrollback_entry scrollback # map (\<lambda>rel. file_info_header (state_name rel) (N rel)) ents) None wt = (Inr scrollback, w') \<and>
    (\<forall>rel. get (os_files w') (stateDir @ rel) = (if rel \<in> set ents then Some (restored_node (N rel)) else None))"
proof -
  let ?hs = "scrollback_entry scrollback # map (\<lambda>rel. file_info_header (state_name rel) (N rel)) ents"
  have T: "T \<noteq> []" by (simp add: T_def staging_dir_def)
  have staged: "\<exists>w3 ra. restore_staged validate T None ?hs None w2 = (Inr ra, w3) \<and> ra_scrollback ra = scrollback \<and>
      (\<forall>rel. get (os_files w3) (T @ claudeArchiveStateRoot # rel) = (if rel \<in> set ents then Some (restored_node (N rel)) else None))"
    if "opened T wt w2" for w2
    using restore_staged_calm [OF that T assms(7-12,6,13)] by simp
  obtain r w' where run: "restoreStateArchive validate stateDir None ?hs None wt = (r, w')" by fastforce
  note outcome = restore_outcome [OF assms(2,3,6) run, folded T_def]
  have "r \<noteq> Inl e" for e
  proof
    assume "r = Inl e"
    with outcome assms(4,5) obtain w2 w3 e' where
      "opened T wt w2" "restore_staged validate T None ?hs None w2 = (Inl e', w3)" by auto
    with staged show False by fastforce
  qed
  then obtain sb where sb: "r = Inr sb" by (cases r) auto
  with outcome obtain w2 w3 ra where
    "opened T wt w2" "restore_staged validate T None ?hs None w2 = (Inr ra, w3)" "sb = ra_scrollback ra"
    "\<forall>rel. get (os_files w') (stateDir @ rel) = get (os_files w3) (T @ claudeArchiveStateRoot # rel)" by auto
  with staged [of w2] show ?thesis using run sb by auto
qed

section \<open>A pod and an archive\<close>

text \<open>A pod with the old state \<open>/srv/state\<close>, and an archive of a file and a link to it.\<close>

definition sample_os :: os where
  "sample_os = \<lparr>os_files = [([''srv''], Dir 493 0), ([''srv'', ''state''], Dir 448 0), ([''srv'', ''state'', ''old''], Regular ''x'' 384 0)],
     os_now = 7, os_suffix = ''1'', os_faults = []\<rparr>"

definition sample_dir :: path where "sample_dir = [''srv'', ''state'']"

definition sample_rels :: "path list" where "sample_rels = [[], [''a''], [''l'']]"

definition sample_node :: "path \<Rightarrow> node" where
  "sample_node rel = (if rel = [] then Dir 448 0 else if rel = [''a''] then Regular ''data'' 420 0 else Symlink ''a'')"

definition sample_archive :: "tar_entry list" where
  "sample_archive = scrollback_entry ''hi'' # map (\<lambda>rel. file_info_header (state_name rel) (sample_node rel)) sample_rels"

lemma sample_site: "calm sample_os" "restore_site sample_dir None sample_os"
proof -
  have "wf_tree (os_files sample_os)"
    by (auto simp: wf_tree_def sample_os_def component_def normal_def append_eq_Cons_conv split: if_splits)
  moreover have "real (os_files sample_os) [''srv'']"
    by (auto simp: real_def sample_os_def component_def normal_def prefix_Cons)
  ultimately show "calm sample_os" "restore_site sample_dir None sample_os"
    by (auto simp: restore_site_def sample_os_def sample_dir_def calm_def component_def normal_def)
qed

lemma sample_validator: "validator (\<lambda>_. ret ())"
  by (simp add: validator_def read_only_def steady_rules)

lemma sample_staging: "staging sample_dir [] (os_files sample_os)"
  by (auto simp: staging_def real_def sample_os_def sample_dir_def component_def normal_def prefix_Cons)

lemma sample_checks:
  "round_second 0 = 0" "(0 :: int) \<noteq> zero_time" "check_node [] (Dir 448 0) = Inr []" "check_node [''a''] (Regular ''data'' 420 0) = Inr []"
  "check_node [''l''] (Symlink ''a'') = Inr ''a''"
  "\<forall>rel \<in> set sample_rels. length (entry_name claudeArchiveStateRoot rel) \<le> maxClaudeArchivePathBytes"
  "length ''a'' \<le> maxClaudeArchivePathBytes"
  by code_simp+

lemma sample_travels: "\<forall>rel \<in> set sample_rels. travels rel (sample_node rel)"
  using sample_checks
  by (simp add: sample_rels_def sample_node_def travels_def component_def normal_def backslash_def is_dir_def)

section \<open>Properties\<close>

text \<open>C14: extraction is contained. Whatever the entries of an archive are named, linked and typed, in whatever order, and
  whichever calls fail on the way, extracting, checking and stamping them changes nothing outside the staging directory.\<close>

theorem extraction_contained:
  assumes "T \<noteq> []" "staging T [] (os_files w)" "read_only validate"
    and "restore_staged validate T sharedDir hs end_err w = (r, w')" "\<not> prefix T p"
  shows "get (os_files w') p = get (os_files w) p"
proof -
  have "grows T (stage_link T) (os_files w) (os_files w')"
    using safe_restore_staged [OF assms(1,3), of sharedDir hs end_err] assms(2,4) by (auto simp: safe_def staging_def dest: spec [of _ w])
  then show ?thesis using assms(5) by (simp add: grows_def)
qed

theorem extraction_contained_witness:
  "get (os_files (snd (restore_staged (\<lambda>_. ret ()) sample_dir None sample_archive None sample_os))) [''srv''] = Some (Dir 493 0)"
proof -
  have "get (os_files (snd (restore_staged (\<lambda>_. ret ()) sample_dir None sample_archive None sample_os))) [''srv''] =
      get (os_files sample_os) [''srv'']"
    by (rule extraction_contained [where T = sample_dir and w = sample_os, OF _ sample_staging _ surjective_pairing])
      (simp_all add: sample_dir_def read_only_def ret_def)
  then show ?thesis by (simp add: sample_os_def)
qed

text \<open>C32: a failed restore leaves the live state alone. When no call fails from outside, a restore that returns an error,
  for a malformed archive, a failed validation, a collision in the shared volume or a taken name, leaves every
  path of the state directory as it was.\<close>

theorem failed_restore_keeps_state:
  assumes "calm w" "restore_site stateDir sharedDir w" "validator validate"
    and "restoreStateArchive validate stateDir sharedDir hs end_err w = (Inl e, w')" "prefix stateDir p"
  shows "get (os_files w') p = get (os_files w) p"
  using restore_outcome [OF assms(1-4)] assms(5) by simp

theorem failed_restore_keeps_state_witness:
  "restoreStateArchive (\<lambda>_. ret ()) sample_dir None [] None sample_os =
     (Inl (New ''workload archive is missing scrollback''), snd (restoreStateArchive (\<lambda>_. ret ()) sample_dir None [] None sample_os)) \<and>
   get (os_files (snd (restoreStateArchive (\<lambda>_. ret ()) sample_dir None [] None sample_os))) [''srv'', ''state'', ''old''] =
     Some (Regular ''x'' 384 0)"
proof -
  let ?run = "restoreStateArchive (\<lambda>_. ret ()) sample_dir None [] None sample_os"
  have "fst ?run = Inl (New ''workload archive is missing scrollback'')" by code_simp
  then have run: "?run = (Inl (New ''workload archive is missing scrollback''), snd ?run)" by (metis prod.collapse)
  have "get (os_files (snd ?run)) [''srv'', ''state'', ''old''] = get (os_files sample_os) [''srv'', ''state'', ''old'']"
    by (rule failed_restore_keeps_state [OF sample_site sample_validator run]) (simp add: sample_dir_def)
  with run show ?thesis by (simp add: sample_os_def)
qed

text \<open>C13: restored links stay inside. After a successful restore, any path without parent components that a process resolves
  from the state directory, through any chain of restored links, ends inside the state directory.\<close>

theorem restored_links_stay:
  assumes "calm w" "restore_site stateDir sharedDir w" "validator validate"
    and "restoreStateArchive validate stateDir sharedDir hs end_err w = (Inr scrollback, w')"
    and "''..'' \<notin> set cs" "namei (os_files w') follow n stateDir cs = Inr q"
  shows "prefix stateDir q"
proof -
  let ?T = "staging_dir stateDir w"
  from restore_outcome [OF assms(1-4)] obtain w2 w3 ra where
    out: "opened ?T w w2" "restore_staged validate ?T sharedDir hs end_err w2 = (Inr ra, w3)"
    "\<forall>rel. get (os_files w') (stateDir @ rel) = get (os_files w3) (?T @ claudeArchiveStateRoot # rel)" by auto
  have "grows ?T (stage_link ?T) (os_files w2) (os_files w3)"
    using safe_restore_staged [of ?T validate sharedDir hs end_err] assms(3) out(1,2)
    by (auto simp: safe_def staging_def validator_def opened_def staging_dir_def dest: spec [of _ w2])
  moreover have "get (os_files w2) (?T @ claudeArchiveStateRoot # rel) = None" for rel
    using out(1) unfolding opened_def by blast
  ultimately have "get (os_files w3) (?T @ claudeArchiveStateRoot # rel) = Some (Symlink t) \<Longrightarrow>
      stage_link ?T (?T @ claudeArchiveStateRoot # rel) t" for rel t
    unfolding grows_def by (metis option.distinct(1))
  then have "links_stay (os_files w') stateDir"
    using out(3) by (fastforce simp: links_stay_def stage_link_def)
  moreover have "descends cs" using assms(5) by (auto simp: descends_def list_all_iff significant_def normal_def)
  ultimately show ?thesis using namei_stays [of _ stateDir stateDir "[]"] assms(6) descends_climbs by auto
qed

theorem restored_links_stay_witness:
  "\<exists>w' q. restoreStateArchive (\<lambda>_. ret ()) sample_dir None sample_archive None sample_os = (Inr ''hi'', w') \<and>
     namei (os_files w') True 3 sample_dir [''l''] = Inr q \<and> prefix sample_dir q"
proof -
  have "\<exists>w'. restoreStateArchive (\<lambda>_. ret ()) sample_dir None sample_archive None sample_os = (Inr ''hi'', w') \<and>
      (\<forall>rel. get (os_files w') (sample_dir @ rel) = (if rel \<in> set sample_rels then Some (restored_node (sample_node rel)) else None))"
    unfolding sample_archive_def
    by (rule restore_written [OF sample_site _ _ sample_validator _ _ _ sample_travels])
      (auto simp: sample_os_def sample_dir_def staging_dir_def backup_dir_def sample_rels_def sample_node_def parents_first_def
         Cons_eq_append_conv is_dir_def maxClaudeArchiveEntries_def maxScrollbackBytes_def ret_def)
  then obtain w' where w': "restoreStateArchive (\<lambda>_. ret ()) sample_dir None sample_archive None sample_os = (Inr ''hi'', w')"
    "get (os_files w') (sample_dir @ [''a'']) = Some (Regular ''data'' 420 0)" "get (os_files w') (sample_dir @ [''l'']) = Some (Symlink ''a'')"
    by (auto simp: sample_rels_def sample_node_def perm_def round_second_def)
  have "namei (os_files w') True 3 sample_dir [''l''] = Inr (sample_dir @ [''a''])"
    using w'(2,3) by (simp add: numeral_3_eq_3 IsAbs_def)
  with restored_links_stay [OF sample_site sample_validator w'(1) _ this] w'(1) show ?thesis by auto
qed

text \<open>C12: round trip of the state archive. An archive written of a state directory restores on a fresh pod: the restore
  succeeds with the written scrollback, and every path of the new state directory holds what the old one held, a
  directory, a file with its bytes, or a link with its target, with the permission bits and the time
  rounded to the second; the excluded files are the only ones missing, and nothing else is there.\<close>

theorem archive_roundtrip:
  assumes "calm ws" "wf_tree (os_files ws)" "d \<noteq> []" "real (os_files ws) d" "portable d ws"
    and "writeStateArchiveExcluding hdr_bytes d None scrollback exclude ws = (Inr hs, ws')"
    and "calm wt" "restore_site stateDir None wt" "get (os_files wt) (staging_dir stateDir wt) = None"
    and "get (os_files wt) (backup_dir stateDir wt) = None"
    and "validator validate" "accepts validate (staging_dir stateDir wt @ [claudeArchiveStateRoot]) (kept d exclude ws)"
  shows "\<exists>w'. restoreStateArchive validate stateDir None hs None wt = (Inr scrollback, w') \<and>
     (\<forall>rel. get (os_files w') (stateDir @ rel) = map_option restored_node (kept d exclude ws rel))"
proof -
  let ?skip = "\<lambda>rel. rel \<in> set (map Clean exclude)" and ?N = "node_of d ws"
  let ?R = "staging_dir stateDir wt @ [claudeArchiveStateRoot]"
  define ents where "ents = filter (kept_rel d ?skip ws) (walk d (os_files ws))"
  have hs: "hs = scrollback_entry scrollback # map (\<lambda>rel. file_info_header (state_name rel) (?N rel)) ents"
    "Suc (length ents) \<le> maxClaudeArchiveEntries" "length scrollback \<le> maxScrollbackBytes"
    "\<forall>rel \<in> set ents. checked claudeArchiveStateRoot rel (?N rel)"
    using writeStateArchive_ok [OF assms(1-3,6)] by (simp_all add: ents_def)
  have tree: "kept d exclude ws rel = (if rel \<in> set ents then Some (?N rel) else None)" for rel
    by (auto simp: kept_def ents_def set_walk kept_rel_def node_of_def split: option.splits)
  have root: "is_dir (?N [])" using real_dir [OF assms(4,3)] by (auto simp: node_of_def is_dir_def)
  then have nil: "[] \<in> set ents"
    using real_dir [OF assms(4,3)] by (auto simp: ents_def set_walk kept_rel_def is_regular_def is_dir_def split: node.splits)
  have travel: "\<forall>rel \<in> set ents. travels rel (?N rel)"
  proof
    fix rel assume rel: "rel \<in> set ents"
    then have "rel \<in> set (walk d (os_files ws))" by (simp add: ents_def)
    then have "list_all component rel" "get (os_files ws) (d @ rel) = Some (?N rel)"
      using walk_components [OF assms(2)] by (auto simp: set_walk node_of_def)
    then show "travels rel (?N rel)" using assms(5) hs(4) rel root by (auto simp: travels_def portable_def checked_def)
  qed
  have ok: "distinct ents" "parents_first ?N ents"
    using walk_parents_first [OF assms(2,3), of ?skip] by (simp_all add: ents_def walk_def)
  have accept: "fst (validate ?R w') = Inr ()" if "calm w'" "staged_upto ?R ?N ents (os_files w')" for w'
    using assms(12) that unfolding accepts_def staged_upto_def tree by (auto split: if_splits)
  from restore_written [OF assms(7-11) ok(1) nil ok(2) travel hs(2,3) accept] show ?thesis
    unfolding hs(1) tree by (simp add: if_distrib [of "map_option _"] cong: if_cong)
qed

definition sample_pod :: os where
  "sample_pod = \<lparr>os_files = [([''w''], Dir 448 0), ([''w'', ''a''], Regular ''data'' 420 0), ([''w'', ''l''], Symlink ''a'')],
     os_now = 3, os_suffix = ''2'', os_faults = []\<rparr>"

lemma sample_pod_ok: "calm sample_pod" "wf_tree (os_files sample_pod)" "real (os_files sample_pod) [''w'']" "portable [''w''] sample_pod"
  using sample_checks(1,2)
  by (auto simp: calm_def wf_tree_def real_def portable_def sample_pod_def component_def normal_def backslash_def
      append_eq_Cons_conv Cons_eq_append_conv prefix_Cons split: if_splits)

lemma sample_lstats:
  "Lstat [''w''] sample_pod = (Inr (Dir 448 0), sample_pod)" "Lstat [''w'', ''a''] sample_pod = (Inr (Regular ''data'' 420 0), sample_pod)"
  "Lstat [''w'', ''l''] sample_pod = (Inr (Symlink ''a''), sample_pod)"
  by (rule Lstat_calm [OF sample_pod_ok(1,2)]; simp add: sample_pod_def)+

lemma sample_write: "\<exists>hs. writeStateArchiveExcluding (\<lambda>_. Inr 512) [''w''] None ''hi'' [''x''] sample_pod = (Inr hs, sample_pod)"
proof -
  have "walk [''w''] (os_files sample_pod) = sample_rels" by code_simp
  moreover have "\<forall>rel \<in> set sample_rels. slash_rel rel \<notin> set (map Clean [''x''])" by code_simp
  ultimately show ?thesis
    using sample_checks(3-7)
    by (simp add: writeStateArchiveExcluding_def archiveTree_def bindE_def lift_def ret_def write_entry_def limit_write_def padded_def
        maxScrollbackBytes_def maxClaudeArchiveBytes_def maxClaudeArchiveEntries_def scrollback_entry_def archive_entry_def sample_lstats
        sample_rels_def is_dir_def file_info_header_def)
qed

theorem archive_roundtrip_witness:
  "\<exists>hs w'. fst (writeStateArchiveExcluding (\<lambda>_. Inr 512) [''w''] None ''hi'' [''x''] sample_pod) = Inr hs \<and>
     restoreStateArchive (\<lambda>_. ret ()) sample_dir None hs None sample_os = (Inr ''hi'', w') \<and>
     get (os_files w') (sample_dir @ [''a'']) = Some (Regular ''data'' 420 0) \<and> get (os_files w') (sample_dir @ [''old'']) = None"
proof -
  let ?archive = "writeStateArchiveExcluding (\<lambda>_. Inr 512) [''w''] None ''hi'' [''x''] sample_pod"
  obtain hs where hs: "?archive = (Inr hs, sample_pod)" using sample_write by blast
  have "\<exists>w'. restoreStateArchive (\<lambda>_. ret ()) sample_dir None hs None sample_os = (Inr ''hi'', w') \<and>
      (\<forall>rel. get (os_files w') (sample_dir @ rel) = map_option restored_node (kept [''w''] [''x''] sample_pod rel))"
    by (rule archive_roundtrip [OF sample_pod_ok(1,2) _ sample_pod_ok(3,4) hs sample_site _ _ sample_validator])
      (simp_all add: accepts_def ret_def staging_dir_def backup_dir_def sample_dir_def sample_os_def)
  moreover have "kept [''w''] [''x''] sample_pod [''a''] = Some (Regular ''data'' 420 0)" "kept [''w''] [''x''] sample_pod [''old''] = None"
    "restored_node (Regular ''data'' 420 0) = Regular ''data'' 420 0" by code_simp+
  ultimately show ?thesis using hs by (metis fst_conv option.simps(8,9))
qed

section \<open>Names the restore refuses\<close>

lemma set_join_slash: "c \<in> set cs \<Longrightarrow> set c \<subseteq> set (join_slash cs)"
  by (induction cs rule: join_slash.induct) auto

definition fails :: "(os, 'a) act \<Rightarrow> bool" where
  "fails m = (\<forall>w. \<exists>e. fst (m w) = Inl e)"

lemma failsD: "fails m \<Longrightarrow> m w = (r, w') \<Longrightarrow> \<exists>e. r = Inl e"
  unfolding fails_def by (metis fst_conv)

lemma fails_bind: "fails m \<Longrightarrow> fails (bindE m f)"
  unfolding fails_def [of "bindE m f"] bindE_def by (auto dest!: failsD split: prod.split)

lemma fails_later: "(\<And>x. fails (f x)) \<Longrightarrow> fails (bindE m f)"
  unfolding fails_def bindE_def by (auto split: prod.split sum.split)

lemma fails_cleanup: "fails m \<Longrightarrow> fails (defer_with (\<lambda>r. ignoreE c (lift r)) m)"
  unfolding fails_def by (auto simp: defer_with_def ignoreE_def tryE_def lift_def split: prod.split) (metis fst_conv)

lemma restore_entry_backslash: "backslash \<in> set (te_Name h) \<Longrightarrow> fails (restore_entry T h ra)"
  by (auto simp: fails_def restore_entry_def cleanClaudeArchiveName_def throw_def bindE_def lift_def)

lemma restore_loop_backslash: "h \<in> set hs \<Longrightarrow> backslash \<in> set (te_Name h) \<Longrightarrow> fails (restore_loop T hs end_err ra)"
  by (induction hs arbitrary: ra) (auto intro: fails_bind fails_later restore_entry_backslash)

text \<open>C40: an archive the agent can write and never read back. The writer takes a file whose name has a backslash, which Linux allows; the
  reader refuses such a name as unsafe, so every restore of that archive fails, on every pod and at every attempt.\<close>

theorem backslash_archive_lost:
  assumes "calm ws" "wf_tree (os_files ws)" "d \<noteq> []" "get (os_files ws) (d @ rel) = Some n" "\<exists>c \<in> set rel. backslash \<in> set c"
    and "exclude = []" "writeStateArchiveExcluding hdr_bytes d None scrollback exclude ws = (Inr hs, ws')"
  shows "\<exists>e. fst (restoreStateArchive validate stateDir sharedDir hs end_err wt) = Inl e"
proof -
  have "rel \<in> set (filter (kept_rel d (\<lambda>rel. rel \<in> set (map Clean exclude)) ws) (walk d (os_files ws)))"
    using assms(4,6) by (simp add: set_walk kept_rel_def node_of_def)
  then have "file_info_header (state_name rel) (node_of d ws rel) \<in> set hs"
    using writeStateArchive_ok [OF assms(1-3,7)] by auto
  moreover have "backslash \<in> set (te_Name (file_info_header (state_name rel) (node_of d ws rel)))"
    using assms(5) set_join_slash [of _ "claudeArchiveStateRoot # rel"]
    by (auto simp: file_info_header_def state_name_join split: node.splits)
  ultimately have "fails (restore_staged validate T sharedDir hs end_err)" for T
    unfolding restore_staged_def by (intro fails_bind restore_loop_backslash)
  then have "fails (restoreStateArchive validate stateDir sharedDir hs end_err)"
    unfolding restoreStateArchive_def thenE_def
    by (cases "stateDir = []") (simp add: fails_def throw_def, simp, intro fails_later fails_cleanup fails_bind)
  then show ?thesis by (simp add: fails_def)
qed

definition sample_pod_backslash :: os where
  "sample_pod_backslash = sample_pod\<lparr>os_files := [([''w''], Dir 448 0), ([''w'', [backslash]], Symlink ''a'')]\<rparr>"

lemma sample_backslash_ok: "calm sample_pod_backslash" "wf_tree (os_files sample_pod_backslash)"
  by (auto simp: calm_def wf_tree_def sample_pod_backslash_def sample_pod_def component_def normal_def backslash_def
      append_eq_Cons_conv Cons_eq_append_conv split: if_splits)

lemma sample_backslash_write:
  "\<exists>hs. writeStateArchiveExcluding (\<lambda>_. Inr 512) [''w''] None ''hi'' [] sample_pod_backslash = (Inr hs, sample_pod_backslash)"
proof -
  have "walk [''w''] (os_files sample_pod_backslash) = [[], [[backslash]]]" by code_simp
  moreover have "Lstat [''w''] sample_pod_backslash = (Inr (Dir 448 0), sample_pod_backslash)"
    "Lstat [''w'', [backslash]] sample_pod_backslash = (Inr (Symlink ''a''), sample_pod_backslash)"
    by (rule Lstat_calm [OF sample_backslash_ok]; simp add: sample_pod_backslash_def)+
  moreover have "check_node [[backslash]] (Symlink ''a'') = Inr ''a''" by code_simp
  moreover have "length (entry_name claudeArchiveStateRoot []) \<le> maxClaudeArchivePathBytes"
    "length (entry_name claudeArchiveStateRoot [[backslash]]) \<le> maxClaudeArchivePathBytes" by code_simp+
  ultimately show ?thesis
    using sample_checks(3,7)
    by (simp add: writeStateArchiveExcluding_def archiveTree_def bindE_def lift_def ret_def write_entry_def limit_write_def padded_def
        maxScrollbackBytes_def maxClaudeArchiveBytes_def maxClaudeArchiveEntries_def scrollback_entry_def archive_entry_def
        is_dir_def file_info_header_def)
qed

theorem backslash_archive_lost_witness:
  "\<exists>hs e. fst (writeStateArchiveExcluding (\<lambda>_. Inr 512) [''w''] None ''hi'' [] sample_pod_backslash) = Inr hs \<and>
     fst (restoreStateArchive (\<lambda>_. ret ()) sample_dir None hs None sample_os) = Inl e"
proof -
  obtain hs where hs: "writeStateArchiveExcluding (\<lambda>_. Inr 512) [''w''] None ''hi'' [] sample_pod_backslash = (Inr hs, sample_pod_backslash)"
    using sample_backslash_write by blast
  have "\<exists>e. fst (restoreStateArchive (\<lambda>_. ret ()) sample_dir None hs None sample_os) = Inl e"
    by (rule backslash_archive_lost [OF sample_backslash_ok _ _ _ refl hs, of "[[backslash]]" "Symlink ''a''"])
      (simp_all add: sample_pod_backslash_def)
  with hs show ?thesis by auto
qed

end
