(* ===== verification/Pod_Spec.thy ===== *)
theory Pod_Spec
  imports Auth_Pool Agent_Client
begin

text \<open>
  The pods of a session (\<open>control-plane/internal/adapter/k8s\<close>: the builders of
  \<open>client_orchestrator.go\<close>, \<open>codex.go\<close>, \<open>minimax_code.go\<close>, \<open>drop.go\<close>, \<open>repo_access.go\<close>,
  \<open>shared_volume.go\<close>, \<open>shell_security.go\<close>). A Kubernetes object is a record of the fields the
  builders set; a pointer to a boolean or a number is an option. \<open>ClientOrchestrator\<close> holds the
  deployment's settings and, as parameters, the calls of the API server, the random source, the
  dialler and the clock.
\<close>

section \<open>Objects\<close>

datatype env_source =
    Value string
  | SecretKeyRef string string bool
  | ConfigMapKeyRef string string bool

record EnvVar =
  ev_Name :: string
  ev_From :: env_source

record VolumeMount =
  vm_Name :: string
  vm_MountPath :: string
  vm_ReadOnly :: bool

datatype volume_source =
    EmptyDir
  | PersistentVolumeClaim string
  | ServiceAccountToken string int string

record Volume =
  vol_Name :: string
  vol_Source :: volume_source

record SecurityContext =
  sc_RunAsNonRoot :: bool
  sc_RunAsUser :: int
  sc_RunAsGroup :: int
  sc_AllowPrivilegeEscalation :: bool
  sc_ReadOnlyRootFilesystem :: "bool option"
  sc_Drop :: "string list"
  sc_SeccompProfile :: string

datatype probe_handler = HTTPGet string int | Exec "string list"

record Probe =
  pb_Handler :: probe_handler
  pb_InitialDelaySeconds :: int
  pb_PeriodSeconds :: int

record Container =
  cn_Name :: string
  cn_Image :: string
  cn_ImagePullPolicy :: string
  cn_Ports :: "(string \<times> int) list"
  cn_Env :: "EnvVar list"
  cn_VolumeMounts :: "VolumeMount list"
  cn_ReadinessProbe :: Probe
  cn_SecurityContext :: "SecurityContext option"

record kube_pod =
  kp_Name :: string
  kp_Namespace :: string
  kp_UID :: string
  kp_Annotations :: "string \<rightharpoonup> string"
  kp_Labels :: "string \<rightharpoonup> string"
  kp_RestartPolicy :: string
  kp_ServiceAccountName :: string
  kp_AutomountServiceAccountToken :: bool
  kp_FSGroup :: "int option"
  kp_Containers :: "Container list"
  kp_Volumes :: "Volume list"
  kp_Phase :: string
  kp_PodIP :: string
  kp_Conditions :: "(string \<times> string) list"

record owner_ref =
  ow_Kind :: string
  ow_Name :: string
  ow_UID :: string

record shared_claim =
  sv_Name :: string
  sv_Namespace :: string
  sv_Labels :: "string \<rightharpoonup> string"
  sv_Owner :: owner_ref
  sv_AccessModes :: "string list"
  sv_Storage :: string
  sv_StorageClassName :: string

datatype net_proto = TCP | UDP

type_synonym selector = "string \<rightharpoonup> string"

record net_peer =
  np_NamespaceSelector :: "selector option"
  np_PodSelector :: selector

record net_rule =
  nr_Peers :: "net_peer list"
  nr_Ports :: "(net_proto \<times> int) list"

datatype policy_type = Egress | Ingress

record NetworkPolicy =
  nw_Name :: string
  nw_Namespace :: string
  nw_Labels :: "string \<rightharpoonup> string"
  nw_Owner :: owner_ref
  nw_PodSelector :: selector
  nw_PolicyType :: policy_type
  nw_Rules :: "net_rule list"

section \<open>Settings\<close>

record codexProfile =
  cx_credentialsSecret :: string
  cx_configConfigMap :: string
  cx_plugins :: string

record 'w ClientOrchestrator =
  co_namespace :: string
  co_image :: string
  co_claudeCredentialsSecret :: string
  co_claudeConfigConfigMap :: string
  co_approvalGatewayURL :: string
  co_repoAccessURL :: string
  co_dropURL :: string
  co_miniMaxCredentialsSecret :: string
  co_miniMaxConfigConfigMap :: string
  co_codexCredentialsSecret :: string
  co_codexConfigConfigMap :: string
  co_codexPlugins :: string
  co_codexTask :: codexProfile
  co_claudeAuthMode :: ClaudeCodeAuthMode
  co_sharedVolumeStorageClass :: string
  co_sharedVolumeSize :: string
  co_workloadImages :: "string \<rightharpoonup> string"
  co_shell :: string
  co_agentPort :: nat
  co_CreatePod :: "string \<Rightarrow> kube_pod \<Rightarrow> ('w, kube_pod) act"
  co_DeletePod :: "string \<Rightarrow> string \<Rightarrow> ('w, unit) act"
  co_GetPod :: "string \<Rightarrow> string \<Rightarrow> ('w, kube_pod) act"
  co_CreateClaim :: "string \<Rightarrow> shared_claim \<Rightarrow> ('w, unit) act"
  co_CreatePolicy :: "string \<Rightarrow> NetworkPolicy \<Rightarrow> ('w, unit) act"
  co_rand :: "('w, string) act"
  co_dial :: "string \<Rightarrow> ('w, unit) act"
  co_ticks :: "'w \<Rightarrow> nat \<times> 'w"

text \<open>The constants: labels, roles, ports, and the names of what the pods are given.\<close>

definition LabelSessionID :: string where "LabelSessionID = ''session-id''"
definition LabelWorkloadType :: string where "LabelWorkloadType = ''session-platform.dev/workload-type''"
definition LabelPodRole :: string where "LabelPodRole = ''session-platform.dev/pod-role''"
definition PodRoleWorkload :: string where "PodRoleWorkload = ''workload''"
definition PodRoleHelper :: string where "PodRoleHelper = ''helper''"
definition labelManagedBy_pod :: string where "labelManagedBy_pod = ''app.kubernetes.io/managed-by''"
definition managedByValue :: string where "managedByValue = ''control-plane''"
definition AnnotationRestoreArchive :: string where "AnnotationRestoreArchive = ''session-platform.dev/restore-archive''"
definition ContainerName :: string where "ContainerName = ''session''"
definition DataPlaneServiceAccountName :: string where "DataPlaneServiceAccountName = ''data-plane''"
definition SessionMCPServiceAccountName :: string where "SessionMCPServiceAccountName = ''session-mcp''"
definition SessionMCPContainerName :: string where "SessionMCPContainerName = ''session-mcp''"
definition workloadStateVolumePath :: string where "workloadStateVolumePath = ''/session''"
definition workloadStateDir :: string where "workloadStateDir = workloadStateVolumePath @ ''/state''"
definition claudeCodeStateVolumeName :: string where "claudeCodeStateVolumeName = ''claude-state''"
definition shellStateVolumeName :: string where "shellStateVolumeName = ''shell-state''"
definition credentialProxyPort :: nat where "credentialProxyPort = 8091"
definition SessionMCPPort :: nat where "SessionMCPPort = 8092"
definition k3sMCPProxyPort :: nat where "k3sMCPProxyPort = 8093"
definition credentialProxyPlaceholderToken :: string where "credentialProxyPlaceholderToken = ''session-platform-proxy''"
definition ApprovalGatewayTokenAudience :: string where "ApprovalGatewayTokenAudience = ''pocket-aide''"
definition RepoAccessTokenAudience :: string where "RepoAccessTokenAudience = ''session-platform''"
definition DropTokenAudience :: string where "DropTokenAudience = ''drop''"
definition SharedVolumeMountPath :: string where "SharedVolumeMountPath = ''/shared''"
definition sharedVolumeName :: string where "sharedVolumeName = ''session-shared''"
definition miniMaxMarketplaceVolume :: string where "miniMaxMarketplaceVolume = ''marketplace''"
definition miniMaxMarketplacePath :: string where "miniMaxMarketplacePath = ''/var/lib/session-platform-marketplace''"
definition ShellUserID :: int where "ShellUserID = 1000"

definition value_env :: "string \<Rightarrow> string \<Rightarrow> EnvVar" where
  "value_env n v = \<lparr>ev_Name = n, ev_From = Value v\<rparr>"

definition secretEnv :: "string \<Rightarrow> string \<Rightarrow> string \<Rightarrow> EnvVar" where
  "secretEnv envName secretName key = \<lparr>ev_Name = envName, ev_From = SecretKeyRef secretName key False\<rparr>"

definition optionalSecretEnv :: "string \<Rightarrow> string \<Rightarrow> string \<Rightarrow> EnvVar" where
  "optionalSecretEnv envName secretName key = \<lparr>ev_Name = envName, ev_From = SecretKeyRef secretName key True\<rparr>"

definition configMapEnv :: "string \<Rightarrow> string \<Rightarrow> string \<Rightarrow> EnvVar" where
  "configMapEnv envName configMapName key = \<lparr>ev_Name = envName, ev_From = ConfigMapKeyRef configMapName key False\<rparr>"

definition optionalConfigMapEnv :: "string \<Rightarrow> string \<Rightarrow> string \<Rightarrow> EnvVar" where
  "optionalConfigMapEnv envName configMapName key = \<lparr>ev_Name = envName, ev_From = ConfigMapKeyRef configMapName key True\<rparr>"

definition mount :: "string \<Rightarrow> string \<Rightarrow> VolumeMount" where
  "mount n p = \<lparr>vm_Name = n, vm_MountPath = p, vm_ReadOnly = False\<rparr>"

definition empty_dir :: "string \<Rightarrow> Volume" where
  "empty_dir n = \<lparr>vol_Name = n, vol_Source = EmptyDir\<rparr>"

text \<open>\<open>strings.Join\<close> with a comma, \<open>strings.LastIndex\<close> of one byte.\<close>

fun join_comma :: "string list \<Rightarrow> string" where
  "join_comma [] = []"
| "join_comma [x] = x"
| "join_comma (x # xs) = x @ '','' @ join_comma xs"

definition after_last :: "char \<Rightarrow> string \<Rightarrow> string option" where
  "after_last c s = (if c \<in> set s then Some (rev (takeWhile (\<lambda>d. d \<noteq> c) (rev s))) else None)"

section \<open>Names\<close>

definition podName :: "string \<Rightarrow> string" where
  "podName sessionID = ''sess-'' @ sessionID"

definition helperPodName :: "string \<Rightarrow> string" where
  "helperPodName sessionID = podName sessionID @ ''-helper''"

definition restorePodName :: "string \<Rightarrow> string \<Rightarrow> string" where
  "restorePodName sessionID sfx = podName sessionID @ ''-r'' @ sfx"

definition helperRestorePodName :: "string \<Rightarrow> string \<Rightarrow> string" where
  "helperRestorePodName sessionID sfx = podName sessionID @ ''-h'' @ sfx"

definition helperPodNameFor :: "string \<Rightarrow> string \<Rightarrow> string" where
  "helperPodNameFor sessionID sfx = (if sfx \<noteq> [] then helperRestorePodName sessionID sfx else helperPodName sessionID)"

definition sharedClaimName :: "string \<Rightarrow> string" where
  "sharedClaimName helperPod = helperPod @ ''-shared''"

section \<open>Containers\<close>

definition pullPolicyForImage :: "string \<Rightarrow> string" where
  "pullPolicyForImage img =
     (let ref = (case after_last (CHR ''/'') img of Some r \<Rightarrow> r | None \<Rightarrow> img) in
      if CHR ''@'' \<in> set ref then ''IfNotPresent''
      else
        (let tag = (case after_last (CHR '':'') ref of Some t \<Rightarrow> t | None \<Rightarrow> []) in
         if tag = [] \<or> tag = ''latest'' then ''Always'' else ''IfNotPresent''))"

definition hardenedSecurityContext :: SecurityContext where
  "hardenedSecurityContext =
     \<lparr>sc_RunAsNonRoot = True, sc_RunAsUser = 65532, sc_RunAsGroup = 65532, sc_AllowPrivilegeEscalation = False,
      sc_ReadOnlyRootFilesystem = Some True, sc_Drop = [''ALL''], sc_SeccompProfile = ''RuntimeDefault''\<rparr>"

definition shellSecurityContext :: SecurityContext where
  "shellSecurityContext =
     \<lparr>sc_RunAsNonRoot = True, sc_RunAsUser = ShellUserID, sc_RunAsGroup = ShellUserID, sc_AllowPrivilegeEscalation = False,
      sc_ReadOnlyRootFilesystem = None, sc_Drop = [''ALL''], sc_SeccompProfile = ''RuntimeDefault''\<rparr>"

definition workloadPodSecurityContext :: "string \<Rightarrow> int option" where
  "workloadPodSecurityContext workloadType = (if workloadType \<noteq> WorkloadTypeShell then None else Some ShellUserID)"

text \<open>The probe that dials a loopback port from inside the container.\<close>

definition loopback_probe :: "nat \<Rightarrow> Probe" where
  "loopback_probe port =
     \<lparr>pb_Handler = Exec [''/bin/bash'', ''-c'', ''exec 3<>/dev/tcp/127.0.0.1/'' @ Itoa port], pb_InitialDelaySeconds = 1, pb_PeriodSeconds = 2\<rparr>"

definition credentialProxyContainer :: "'w ClientOrchestrator \<Rightarrow> string \<Rightarrow> string \<Rightarrow> string \<Rightarrow> string \<Rightarrow> Container" where
  "credentialProxyContainer co name img listenAddr placement =
     \<lparr>cn_Name = name, cn_Image = img, cn_ImagePullPolicy = pullPolicyForImage img, cn_Ports = [],
      cn_Env =
        [value_env ''DATA_PLANE_WORKLOAD'' ''credential-proxy'',
         value_env ''DATA_PLANE_AGENT_ADDR'' listenAddr,
         value_env ''DATA_PLANE_PROXY_PLACEMENT'' placement,
         configMapEnv ''ANTHROPIC_BASE_URL'' (co_claudeConfigConfigMap co) ''base-url'',
         secretEnv ''ANTHROPIC_AUTH_TOKEN'' (co_claudeCredentialsSecret co) ''auth-token'',
         optionalConfigMapEnv ''ANTHROPIC_CA_CERT'' (co_claudeConfigConfigMap co) ''ca-cert''],
      cn_VolumeMounts = [], cn_ReadinessProbe = loopback_probe credentialProxyPort,
      cn_SecurityContext = Some hardenedSecurityContext\<rparr>"

definition claudeCredentialProxy :: "'w ClientOrchestrator \<Rightarrow> string \<Rightarrow> Container" where
  "claudeCredentialProxy co img = credentialProxyContainer co ''claude-credentials'' img ''127.0.0.1:8091'' ''sidecar''"

definition codexProfileFor :: "'w ClientOrchestrator \<Rightarrow> string \<Rightarrow> codexProfile" where
  "codexProfileFor co workload =
     (if workload = WorkloadTypeCodexTask then co_codexTask co
      else \<lparr>cx_credentialsSecret = co_codexCredentialsSecret co, cx_configConfigMap = co_codexConfigConfigMap co,
            cx_plugins = co_codexPlugins co\<rparr>)"

definition codexK3SMCPProxy :: "'w ClientOrchestrator \<Rightarrow> string \<Rightarrow> string \<Rightarrow> codexProfile \<Rightarrow> string list option \<Rightarrow> Container" where
  "codexK3SMCPProxy co sessionID img profile plugins =
     (let port = Itoa k3sMCPProxyPort;
          selected = (case plugins of Some ps \<Rightarrow> join_comma ps | None \<Rightarrow> cx_plugins profile) in
      (credentialProxyContainer co ''k3s-mcp-proxy'' img (''127.0.0.1:'' @ port) ''sidecar'')
        \<lparr>cn_Env :=
           [value_env ''DATA_PLANE_WORKLOAD'' ''k3s-mcp-proxy'',
            value_env ''DATA_PLANE_AGENT_ADDR'' (''127.0.0.1:'' @ port),
            value_env ''DATA_PLANE_PROXY_PLACEMENT'' ''sidecar'',
            value_env ''SESSION_ID'' sessionID,
            value_env ''MINIMAX_CODE_MARKETPLACE_DIR'' miniMaxMarketplacePath,
            value_env ''MINIMAX_CODE_PLUGINS'' selected,
            value_env ''K3S_MCP_TOOL_POLICY'' ''allow-all'',
            optionalSecretEnv ''K3S_MCP_TOKEN'' (cx_credentialsSecret profile) ''k3s-mcp-token'',
            optionalConfigMapEnv ''K3S_MCP_URL'' (cx_configConfigMap profile) ''k3s-mcp-url'',
            optionalConfigMapEnv ''MINIMAX_CODE_PLUGIN_MARKETPLACE_URL'' (cx_configConfigMap profile) ''plugin-marketplace-url''],
         cn_VolumeMounts := [mount miniMaxMarketplaceVolume miniMaxMarketplacePath],
         cn_ReadinessProbe := loopback_probe k3sMCPProxyPort\<rparr>)"

definition k3sMCPProxy :: "'w ClientOrchestrator \<Rightarrow> string \<Rightarrow> string \<Rightarrow> string \<Rightarrow> bool \<Rightarrow> string list option \<Rightarrow> Container" where
  "k3sMCPProxy co sessionID img secret marketplace plugins =
     (let port = Itoa k3sMCPProxyPort in
      (credentialProxyContainer co ''k3s-mcp-proxy'' img ('':'' @ port) ''helper'')
        \<lparr>cn_Env :=
           [value_env ''DATA_PLANE_WORKLOAD'' ''k3s-mcp-proxy'',
            value_env ''DATA_PLANE_AGENT_ADDR'' ('':'' @ port),
            value_env ''DATA_PLANE_PROXY_PLACEMENT'' ''helper'',
            value_env ''SESSION_ID'' sessionID] @
           (if marketplace
            then value_env ''MINIMAX_CODE_MARKETPLACE_DIR'' miniMaxMarketplacePath #
                 (case plugins of Some ps \<Rightarrow> [value_env ''MINIMAX_CODE_PLUGINS'' (join_comma ps)] | None \<Rightarrow> [])
            else []) @
           [optionalSecretEnv ''K3S_MCP_TOKEN'' secret ''k3s-mcp-token''],
         cn_VolumeMounts := (if marketplace then [mount miniMaxMarketplaceVolume miniMaxMarketplacePath] else []),
         cn_ReadinessProbe := loopback_probe k3sMCPProxyPort\<rparr>)"

definition repoint_source :: "'w ClientOrchestrator \<Rightarrow> env_source \<Rightarrow> env_source" where
  "repoint_source co src =
     (case src of
        Value v \<Rightarrow> Value v
      | SecretKeyRef n k opt \<Rightarrow> SecretKeyRef (if n = co_claudeCredentialsSecret co then co_miniMaxCredentialsSecret co else n) k opt
      | ConfigMapKeyRef n k opt \<Rightarrow> ConfigMapKeyRef (if n = co_claudeConfigConfigMap co then co_miniMaxConfigConfigMap co else n) k opt)"

definition repointToMiniMax :: "'w ClientOrchestrator \<Rightarrow> Container \<Rightarrow> Container" where
  "repointToMiniMax co proxy = proxy\<lparr>cn_Env := map (\<lambda>ev. ev\<lparr>ev_From := repoint_source co (ev_From ev)\<rparr>) (cn_Env proxy)\<rparr>"

definition repoAccessEnabled :: "'w ClientOrchestrator \<Rightarrow> bool" where
  "repoAccessEnabled co = (co_repoAccessURL co \<noteq> [])"

definition dropEnabled :: "'w ClientOrchestrator \<Rightarrow> bool" where
  "dropEnabled co = (co_dropURL co \<noteq> [])"

definition sharedVolumeEnabled :: "'w ClientOrchestrator \<Rightarrow> bool" where
  "sharedVolumeEnabled co = (co_sharedVolumeStorageClass co \<noteq> [])"

definition helperProxyContainers :: "'w ClientOrchestrator \<Rightarrow> string \<Rightarrow> string \<Rightarrow> string \<Rightarrow> string list option \<Rightarrow> Container list" where
  "helperProxyContainers co sessionID workloadType img plugins =
     (let provider = credentialProxyContainer co ''credential-proxy'' img ''0.0.0.0:8091'' ''helper'' in
      if workloadType \<noteq> WorkloadTypeMiniMaxCode then
        (if repoAccessEnabled co
         then [provider, k3sMCPProxy co sessionID img (co_claudeCredentialsSecret co) False None]
         else [provider])
      else [repointToMiniMax co provider, k3sMCPProxy co sessionID img (co_miniMaxCredentialsSecret co) True plugins])"

definition helperProxyVolumes :: "string \<Rightarrow> Volume list" where
  "helperProxyVolumes workloadType = (if workloadType \<noteq> WorkloadTypeMiniMaxCode then [] else [empty_dir miniMaxMarketplaceVolume])"

definition sharedVolume :: "string \<Rightarrow> Volume" where
  "sharedVolume claimName = \<lparr>vol_Name = sharedVolumeName, vol_Source = PersistentVolumeClaim claimName\<rparr>"

definition sharedVolumeMount :: VolumeMount where
  "sharedVolumeMount = mount sharedVolumeName SharedVolumeMountPath"

section \<open>Pods\<close>

definition imageFor :: "'w ClientOrchestrator \<Rightarrow> string \<Rightarrow> goerr + string" where
  "imageFor co workload =
     (case co_workloadImages co workload of
        Some img \<Rightarrow> Inr img
      | None \<Rightarrow>
          if workload = WorkloadTypeShell then Inr (co_image co)
          else Inl (New ''no data plane image configured for workload type''))"

text \<open>The addresses of the helper pod, as injected into the workload pod.\<close>

record helperEndpoints =
  he_ProxyURL :: string
  he_MCPURL :: string
  he_K3SMCPURL :: string

definition no_helper :: helperEndpoints where
  "no_helper = \<lparr>he_ProxyURL = [], he_MCPURL = [], he_K3SMCPURL = []\<rparr>"

definition endpointsFor :: "string \<Rightarrow> helperEndpoints" where
  "endpointsFor podIP =
     \<lparr>he_ProxyURL = ''http://'' @ JoinHostPort podIP (Itoa credentialProxyPort),
      he_MCPURL = ''http://'' @ JoinHostPort podIP (Itoa SessionMCPPort),
      he_K3SMCPURL = ''http://'' @ JoinHostPort podIP (Itoa k3sMCPProxyPort)\<rparr>"

text \<open>What a workload type adds to the workload container: variables, mounts, a security context,
  beside it sidecars, and volumes of the pod.\<close>

record workload_parts =
  wp_Env :: "EnvVar list"
  wp_Mounts :: "VolumeMount list"
  wp_Security :: "SecurityContext option"
  wp_Sidecars :: "Container list"
  wp_Volumes :: "Volume list"

definition model_env :: "string \<Rightarrow> string \<Rightarrow> string \<Rightarrow> string \<Rightarrow> EnvVar" where
  "model_env envName model configMapName key =
     (if model = PlatformDefaultModel then optionalConfigMapEnv envName configMapName key else value_env envName model)"

definition shell_parts :: "'w ClientOrchestrator \<Rightarrow> workload_parts" where
  "shell_parts co =
     \<lparr>wp_Env = (if co_shell co \<noteq> [] then [value_env ''DATA_PLANE_SHELL'' (co_shell co)] else []) @
               [value_env ''SHELL_STATE_DIR'' workloadStateDir],
      wp_Mounts = [mount shellStateVolumeName workloadStateVolumePath],
      wp_Security = Some shellSecurityContext, wp_Sidecars = [], wp_Volumes = [empty_dir shellStateVolumeName]\<rparr>"

definition claude_parts :: "'w ClientOrchestrator \<Rightarrow> string \<Rightarrow> string \<Rightarrow> string list option \<Rightarrow> string \<Rightarrow> workload_parts" where
  "claude_parts co img model plugins effort =
     (let subscription = (co_claudeAuthMode co = ClaudeCodeAuthSubscription) in
      \<lparr>wp_Env =
         [model_env ''CLAUDE_CODE_MODEL'' model (co_claudeConfigConfigMap co) (if subscription then ''subscription-model'' else ''model''),
          secretEnv ''K3S_MCP_TOKEN'' (co_claudeCredentialsSecret co) ''k3s-mcp-token'',
          optionalConfigMapEnv ''K3S_MCP_URL'' (co_claudeConfigConfigMap co) ''k3s-mcp-url'',
          optionalConfigMapEnv ''CLAUDE_CODE_PLUGIN_MARKETPLACE_URL'' (co_claudeConfigConfigMap co) ''plugin-marketplace-url'',
          value_env ''CLAUDE_CODE_STATE_DIR'' workloadStateDir] @
         (case plugins of Some ps \<Rightarrow> [value_env ''CLAUDE_CODE_PLUGINS'' (join_comma ps)] | None \<Rightarrow> []) @
         (if effort \<noteq> [] then [value_env ''CLAUDE_CODE_EFFORT'' effort] else []) @
         (if subscription then [value_env ''CLAUDE_CODE_AUTH_MODE'' ''subscription'']
          else [value_env ''ANTHROPIC_BASE_URL'' ''http://127.0.0.1:8091'',
                value_env ''ANTHROPIC_AUTH_TOKEN'' credentialProxyPlaceholderToken]),
       wp_Mounts = [mount claudeCodeStateVolumeName workloadStateVolumePath],
       wp_Security = None,
       wp_Sidecars = (if subscription then [] else [claudeCredentialProxy co img]),
       wp_Volumes = [empty_dir claudeCodeStateVolumeName]\<rparr>)"

text \<open>The shared volume of the two approval-gated types: variable, mount and claim.\<close>

definition shared_env :: "'w ClientOrchestrator \<Rightarrow> EnvVar list" where
  "shared_env co = (if sharedVolumeEnabled co then [value_env ''SESSION_SHARED_DIR'' SharedVolumeMountPath] else [])"

definition shared_mounts :: "'w ClientOrchestrator \<Rightarrow> VolumeMount list" where
  "shared_mounts co = (if sharedVolumeEnabled co then [sharedVolumeMount] else [])"

definition shared_volumes :: "'w ClientOrchestrator \<Rightarrow> string \<Rightarrow> Volume list" where
  "shared_volumes co helperPod = (if sharedVolumeEnabled co then [sharedVolume (sharedClaimName helperPod)] else [])"

definition approval_parts :: "'w ClientOrchestrator \<Rightarrow> string \<Rightarrow> helperEndpoints \<Rightarrow> string \<Rightarrow> workload_parts" where
  "approval_parts co model helper helperPod =
     \<lparr>wp_Env =
        [model_env ''CLAUDE_CODE_MODEL'' model (co_claudeConfigConfigMap co) ''model'',
         value_env ''CLAUDE_CODE_STATE_DIR'' workloadStateDir,
         value_env ''ANTHROPIC_BASE_URL'' (he_ProxyURL helper),
         value_env ''ANTHROPIC_AUTH_TOKEN'' credentialProxyPlaceholderToken,
         value_env ''SESSION_MCP_URL'' (he_MCPURL helper)] @ shared_env co,
      wp_Mounts = mount claudeCodeStateVolumeName workloadStateVolumePath # shared_mounts co,
      wp_Security = None, wp_Sidecars = [],
      wp_Volumes = empty_dir claudeCodeStateVolumeName # shared_volumes co helperPod\<rparr>"

definition miniMaxCodePod :: "'w ClientOrchestrator \<Rightarrow> string \<Rightarrow> helperEndpoints \<Rightarrow> string \<Rightarrow> workload_parts" where
  "miniMaxCodePod co model helper helperPod =
     \<lparr>wp_Env =
        [model_env ''MINIMAX_CODE_MODEL'' model (co_miniMaxConfigConfigMap co) ''model'',
         value_env ''CLAUDE_CODE_STATE_DIR'' workloadStateDir,
         value_env ''ANTHROPIC_BASE_URL'' (he_ProxyURL helper),
         value_env ''ANTHROPIC_AUTH_TOKEN'' credentialProxyPlaceholderToken,
         value_env ''SESSION_MCP_URL'' (he_MCPURL helper),
         value_env ''K3S_MCP_PROXY_URL'' (he_K3SMCPURL helper)] @ shared_env co,
      wp_Mounts = mount claudeCodeStateVolumeName workloadStateVolumePath # shared_mounts co,
      wp_Security = None, wp_Sidecars = [],
      wp_Volumes = empty_dir claudeCodeStateVolumeName # shared_volumes co helperPod\<rparr>"

definition codexPod ::
    "'w ClientOrchestrator \<Rightarrow> string \<Rightarrow> string \<Rightarrow> string \<Rightarrow> string \<Rightarrow> string list option \<Rightarrow> string \<Rightarrow> workload_parts" where
  "codexPod co sessionID workloadType model img plugins effort =
     (let profile = codexProfileFor co workloadType in
      \<lparr>wp_Env =
         [model_env ''CODEX_MODEL'' model (cx_configConfigMap profile) ''model'',
          value_env ''CLAUDE_CODE_STATE_DIR'' workloadStateDir,
          value_env ''K3S_MCP_PROXY_URL'' (''http://'' @ JoinHostPort ''127.0.0.1'' (Itoa k3sMCPProxyPort))] @
         (if effort \<noteq> [] then [value_env ''CODEX_REASONING_EFFORT'' effort] else []),
       wp_Mounts = [mount claudeCodeStateVolumeName workloadStateVolumePath],
       wp_Security = None,
       wp_Sidecars = [codexK3SMCPProxy co sessionID img profile plugins],
       wp_Volumes = [empty_dir claudeCodeStateVolumeName, empty_dir miniMaxMarketplaceVolume]\<rparr>)"

definition parts_for ::
    "'w ClientOrchestrator \<Rightarrow> string \<Rightarrow> string \<Rightarrow> string \<Rightarrow> string \<Rightarrow> string \<Rightarrow> string list option \<Rightarrow> string \<Rightarrow> helperEndpoints \<Rightarrow> workload_parts" where
  "parts_for co sessionID sfx workloadType img model plugins effort helper =
     (if workloadType = WorkloadTypeShell then shell_parts co
      else if workloadType = WorkloadTypeClaudeCode then claude_parts co img model plugins effort
      else if workloadType = WorkloadTypeApprovalGated then approval_parts co model helper (helperPodNameFor sessionID sfx)
      else if workloadType = WorkloadTypeMiniMaxCode then miniMaxCodePod co model helper (helperPodNameFor sessionID sfx)
      else codexPod co sessionID workloadType model img plugins effort)"

text \<open>The auth slot as it reaches the container and the pod.\<close>

definition slot_env :: "AuthSlotMount option \<Rightarrow> EnvVar list" where
  "slot_env slot = (case slot of None \<Rightarrow> [] | Some a \<Rightarrow> [value_env (fst (mount_Env a)) (snd (mount_Env a))])"

definition slot_mounts :: "AuthSlotMount option \<Rightarrow> VolumeMount list" where
  "slot_mounts slot = (case slot of None \<Rightarrow> [] | Some a \<Rightarrow> [mount (mount_Volume a) (mount_Path a)])"

definition slot_volumes :: "AuthSlotMount option \<Rightarrow> Volume list" where
  "slot_volumes slot =
     (case slot of None \<Rightarrow> [] | Some a \<Rightarrow> [\<lparr>vol_Name = mount_Volume a, vol_Source = PersistentVolumeClaim (mount_Claim a)\<rparr>])"

definition session_labels :: "string \<Rightarrow> string \<Rightarrow> string \<Rightarrow> string \<rightharpoonup> string" where
  "session_labels sessionID workloadType role =
     [LabelSessionID \<mapsto> sessionID, LabelWorkloadType \<mapsto> workloadType, LabelPodRole \<mapsto> role, labelManagedBy_pod \<mapsto> managedByValue]"

definition workload_container :: "string \<Rightarrow> string \<Rightarrow> workload_parts \<Rightarrow> AuthSlotMount option \<Rightarrow> bool \<Rightarrow> Container" where
  "workload_container workloadType img parts slot restoring =
     \<lparr>cn_Name = ContainerName, cn_Image = img, cn_ImagePullPolicy = pullPolicyForImage img, cn_Ports = [(''agent'', int AgentPort)],
      cn_Env = value_env ''DATA_PLANE_WORKLOAD'' workloadType # wp_Env parts @ slot_env slot @
        (if restoring then [value_env ''DATA_PLANE_RESTORE_MODE'' ''1''] else []),
      cn_VolumeMounts = wp_Mounts parts @ slot_mounts slot,
      cn_ReadinessProbe = \<lparr>pb_Handler = HTTPGet ''/healthz'' (int AgentPort), pb_InitialDelaySeconds = 1, pb_PeriodSeconds = 2\<rparr>,
      cn_SecurityContext = wp_Security parts\<rparr>"

definition workload_pod ::
    "'w ClientOrchestrator \<Rightarrow> string \<Rightarrow> string \<Rightarrow> string \<Rightarrow> string \<Rightarrow> string \<Rightarrow> workload_parts \<Rightarrow> AuthSlotMount option \<Rightarrow> kube_pod" where
  "workload_pod co sessionID cpRef sfx workloadType img parts slot =
     (let restoring = (cpRef \<noteq> []) in
      \<lparr>kp_Name = (if restoring then restorePodName sessionID sfx else podName sessionID),
       kp_Namespace = co_namespace co, kp_UID = [],
       kp_Annotations = (if restoring then [AnnotationRestoreArchive \<mapsto> cpRef] else Map.empty),
       kp_Labels = session_labels sessionID workloadType PodRoleWorkload,
       kp_RestartPolicy = ''Always'', kp_ServiceAccountName = DataPlaneServiceAccountName,
       kp_AutomountServiceAccountToken = (workloadType \<noteq> WorkloadTypeCodexChat),
       kp_FSGroup = workloadPodSecurityContext workloadType,
       kp_Containers = workload_container workloadType img parts slot restoring # wp_Sidecars parts,
       kp_Volumes = wp_Volumes parts @ slot_volumes slot,
       kp_Phase = [], kp_PodIP = [], kp_Conditions = []\<rparr>)"

definition buildPod :: "'w ClientOrchestrator \<Rightarrow> string \<Rightarrow> string \<Rightarrow> string \<Rightarrow> WorkloadSpec \<Rightarrow> helperEndpoints \<Rightarrow> goerr + kube_pod" where
  "buildPod co sessionID cpRef sfx workload helper =
     (case NormalizeWorkloadType (ws_Type workload) of
        Inl e \<Rightarrow> Inl e
      | Inr workloadType \<Rightarrow>
     (case NormalizeModel workloadType (ws_Model workload) of
        Inl e \<Rightarrow> Inl e
      | Inr model \<Rightarrow>
     (case NormalizePlugins workloadType (ws_Plugins workload) of
        Inl e \<Rightarrow> Inl e
      | Inr plugins \<Rightarrow>
     (case NormalizeReasoningEffort workloadType (ws_ReasoningEffort workload) of
        Inl e \<Rightarrow> Inl e
      | Inr effort \<Rightarrow>
     (case imageFor co workloadType of
        Inl e \<Rightarrow> Inl e
      | Inr img \<Rightarrow>
     (case attachAuthSlot (co_namespace co) (co_claudeAuthMode co) workloadType (ws_AuthSlot workload) of
        Inl e \<Rightarrow> Inl e
      | Inr slot \<Rightarrow>
          if cpRef \<noteq> [] \<and> sfx = [] then Inl (New ''restore target has no provisioning suffix'')
          else Inr (workload_pod co sessionID cpRef sfx workloadType img
            (parts_for co sessionID sfx workloadType img model plugins effort helper) slot)))))))"

text \<open>A projected token: its volume, and the mount and the variable that name its file.\<close>

definition token_volume :: "string \<Rightarrow> string \<Rightarrow> Volume" where
  "token_volume n audience = \<lparr>vol_Name = n, vol_Source = ServiceAccountToken audience 3600 ''token''\<rparr>"

definition token_mount :: "string \<Rightarrow> string \<Rightarrow> VolumeMount" where
  "token_mount n dir = \<lparr>vm_Name = n, vm_MountPath = dir, vm_ReadOnly = True\<rparr>"

definition approvalGatewayTokenVolumeSource :: Volume where
  "approvalGatewayTokenVolumeSource = token_volume ''approval-gateway-token'' ApprovalGatewayTokenAudience"

definition addRepoAccess :: "'w ClientOrchestrator \<Rightarrow> Container \<times> Volume list \<Rightarrow> Container \<times> Volume list" where
  "addRepoAccess co cv =
     (case cv of (mcp, volumes) \<Rightarrow>
      if \<not> repoAccessEnabled co then (mcp, volumes)
      else
        (mcp\<lparr>cn_Env := cn_Env mcp @
              [value_env ''REPO_ACCESS_URL'' (co_repoAccessURL co),
               value_env ''REPO_ACCESS_TOKEN_FILE'' ''/var/run/secrets/session-platform/token'',
               value_env ''K3S_MCP_PROXY_URL'' (''http://127.0.0.1:'' @ Itoa k3sMCPProxyPort)],
             cn_VolumeMounts := cn_VolumeMounts mcp @ [token_mount ''repo-access-token'' ''/var/run/secrets/session-platform'']\<rparr>,
         volumes @ [token_volume ''repo-access-token'' RepoAccessTokenAudience]))"

definition addDrop :: "'w ClientOrchestrator \<Rightarrow> Container \<times> Volume list \<Rightarrow> Container \<times> Volume list" where
  "addDrop co cv =
     (case cv of (mcp, volumes) \<Rightarrow>
      if \<not> dropEnabled co then (mcp, volumes)
      else
        (mcp\<lparr>cn_Env := cn_Env mcp @
              [value_env ''DROP_URL'' (co_dropURL co), value_env ''DROP_TOKEN_FILE'' ''/var/run/secrets/drop/token''],
             cn_VolumeMounts := cn_VolumeMounts mcp @ [token_mount ''drop-token'' ''/var/run/secrets/drop'']\<rparr>,
         volumes @ [token_volume ''drop-token'' DropTokenAudience]))"

definition mcp_container :: "'w ClientOrchestrator \<Rightarrow> string \<Rightarrow> string \<Rightarrow> Container" where
  "mcp_container co sessionID img =
     \<lparr>cn_Name = SessionMCPContainerName, cn_Image = img, cn_ImagePullPolicy = pullPolicyForImage img,
      cn_Ports = [(''mcp'', int SessionMCPPort)],
      cn_Env =
        [value_env ''DATA_PLANE_WORKLOAD'' ''mcp'',
         value_env ''DATA_PLANE_AGENT_ADDR'' ('':'' @ Itoa SessionMCPPort),
         value_env ''SESSION_ID'' sessionID,
         value_env ''APPROVAL_GATEWAY_URL'' (co_approvalGatewayURL co),
         value_env ''APPROVAL_GATEWAY_TOKEN_FILE'' ''/var/run/secrets/pocket-aide/token''] @ shared_env co,
      cn_VolumeMounts =
        [token_mount ''approval-gateway-token'' ''/var/run/secrets/pocket-aide'', mount ''session-mcp-tmp'' ''/tmp''] @ shared_mounts co,
      cn_ReadinessProbe = loopback_probe SessionMCPPort, cn_SecurityContext = Some hardenedSecurityContext\<rparr>"

definition helperPodSpec :: "'w ClientOrchestrator \<Rightarrow> string \<Rightarrow> string \<Rightarrow> string \<Rightarrow> string list option \<Rightarrow> goerr + kube_pod" where
  "helperPodSpec co sessionID sfx workloadType plugins =
     (case imageFor co workloadType of
        Inl e \<Rightarrow> Inl e
      | Inr img \<Rightarrow>
          (let name = helperPodNameFor sessionID sfx in
           case addDrop co (addRepoAccess co
                  (mcp_container co sessionID img,
                   [approvalGatewayTokenVolumeSource, empty_dir ''session-mcp-tmp''] @ shared_volumes co name)) of
             (mcp, volumes) \<Rightarrow>
               Inr \<lparr>kp_Name = name, kp_Namespace = co_namespace co, kp_UID = [], kp_Annotations = Map.empty,
                    kp_Labels = session_labels sessionID workloadType PodRoleHelper,
                    kp_RestartPolicy = ''Always'', kp_ServiceAccountName = SessionMCPServiceAccountName,
                    kp_AutomountServiceAccountToken = False, kp_FSGroup = None,
                    kp_Containers = mcp # helperProxyContainers co sessionID workloadType img plugins,
                    kp_Volumes = volumes @ helperProxyVolumes workloadType,
                    kp_Phase = [], kp_PodIP = [], kp_Conditions = []\<rparr>))"

end
