(* ===== verification/Orchestrator.thy ===== *)
theory Orchestrator
  imports Pod_Spec Repo_Access
begin

text \<open>
  The operations of \<open>ClientOrchestrator\<close>: provisioning a session's pods, its shared claim and its
  network policies, and reclaiming them (\<open>client_orchestrator.go\<close>, \<open>network_policy.go\<close>,
  \<open>shared_volume.go\<close>). The wait for readiness polls until the pod is ready or the context is done;
  \<open>co_ticks\<close> is how many ticks of the poll interval come before that.
\<close>

section \<open>Policies and the shared claim\<close>

definition ownerReferenceTo :: "kube_pod \<Rightarrow> owner_ref" where
  "ownerReferenceTo owner = \<lparr>ow_Kind = ''Pod'', ow_Name = kp_Name owner, ow_UID = kp_UID owner\<rparr>"

definition tcpPort :: "nat \<Rightarrow> net_proto \<times> int" where
  "tcpPort port = (TCP, int port)"

definition helperPolicyPorts :: "kube_pod \<Rightarrow> (net_proto \<times> int) list" where
  "helperPolicyPorts owner =
     [tcpPort credentialProxyPort, tcpPort SessionMCPPort] @
     (if kp_Labels owner LabelWorkloadType = Some WorkloadTypeMiniMaxCode then [tcpPort k3sMCPProxyPort] else [])"

definition role_selector :: "string \<Rightarrow> string \<Rightarrow> selector" where
  "role_selector sessionID role = [LabelSessionID \<mapsto> sessionID, LabelPodRole \<mapsto> role]"

definition dns_rule :: net_rule where
  "dns_rule =
     \<lparr>nr_Peers = [\<lparr>np_NamespaceSelector = Some [''kubernetes.io/metadata.name'' \<mapsto> ''kube-system''],
                   np_PodSelector = [''k8s-app'' \<mapsto> ''kube-dns'']\<rparr>],
      nr_Ports = [(UDP, 53), (TCP, 53)]\<rparr>"

definition sessionNetworkPolicies :: "string \<Rightarrow> string \<Rightarrow> kube_pod \<Rightarrow> NetworkPolicy list" where
  "sessionNetworkPolicies namespace sessionID owner =
     [\<lparr>nw_Name = kp_Name owner @ ''-workload-egress'', nw_Namespace = namespace,
       nw_Labels = [LabelSessionID \<mapsto> sessionID, labelManagedBy_pod \<mapsto> managedByValue], nw_Owner = ownerReferenceTo owner,
       nw_PodSelector = role_selector sessionID PodRoleWorkload, nw_PolicyType = Egress,
       nw_Rules =
         [dns_rule,
          \<lparr>nr_Peers = [\<lparr>np_NamespaceSelector = None, np_PodSelector = role_selector sessionID PodRoleHelper\<rparr>],
           nr_Ports = helperPolicyPorts owner\<rparr>]\<rparr>,
      \<lparr>nw_Name = kp_Name owner @ ''-helper-ingress'', nw_Namespace = namespace,
       nw_Labels = [LabelSessionID \<mapsto> sessionID, labelManagedBy_pod \<mapsto> managedByValue], nw_Owner = ownerReferenceTo owner,
       nw_PodSelector = role_selector sessionID PodRoleHelper, nw_PolicyType = Ingress,
       nw_Rules =
         [\<lparr>nr_Peers = [\<lparr>np_NamespaceSelector = None, np_PodSelector = role_selector sessionID PodRoleWorkload\<rparr>],
           nr_Ports = helperPolicyPorts owner\<rparr>]\<rparr>]"

text \<open>A create that meets an existing object is a success.\<close>

definition tolerate_existing :: "string \<Rightarrow> ('w, unit) act \<Rightarrow> ('w, unit) act" where
  "tolerate_existing what m =
     tryE m (\<lambda>r. case r of
        Inl e \<Rightarrow> if \<not> IsAlreadyExists e then throw (Errorf what [e]) else ret ()
      | Inr _ \<Rightarrow> ret ())"

fun apply_policies :: "'w ClientOrchestrator \<Rightarrow> NetworkPolicy list \<Rightarrow> ('w, unit) act" where
  "apply_policies co [] = ret ()"
| "apply_policies co (policy # ps) =
     thenE (tolerate_existing ''create network policy'' (co_CreatePolicy co (co_namespace co) policy)) (apply_policies co ps)"

definition applySessionNetworkPolicies :: "'w ClientOrchestrator \<Rightarrow> string \<Rightarrow> kube_pod \<Rightarrow> ('w, unit) act" where
  "applySessionNetworkPolicies co sessionID owner =
     apply_policies co (sessionNetworkPolicies (co_namespace co) sessionID owner)"

definition sharedVolumeClaim :: "'w ClientOrchestrator \<Rightarrow> string \<Rightarrow> kube_pod \<Rightarrow> shared_claim" where
  "sharedVolumeClaim co sessionID owner =
     \<lparr>sv_Name = sharedClaimName (kp_Name owner), sv_Namespace = co_namespace co,
      sv_Labels = [LabelSessionID \<mapsto> sessionID, labelManagedBy_pod \<mapsto> managedByValue],
      sv_Owner = ownerReferenceTo owner, sv_AccessModes = [''ReadWriteMany''], sv_Storage = co_sharedVolumeSize co,
      sv_StorageClassName = co_sharedVolumeStorageClass co\<rparr>"

definition applySharedVolumeClaim :: "'w ClientOrchestrator \<Rightarrow> string \<Rightarrow> kube_pod \<Rightarrow> ('w, unit) act" where
  "applySharedVolumeClaim co sessionID owner =
     (if \<not> sharedVolumeEnabled co then ret ()
      else tolerate_existing ''create shared volume claim'' (co_CreateClaim co (co_namespace co) (sharedVolumeClaim co sessionID owner)))"

section \<open>Reclaiming\<close>

definition stopOne :: "'w ClientOrchestrator \<Rightarrow> PodRef \<Rightarrow> ('w, unit) act" where
  "stopOne co ref =
     (let ns = (if pr_Namespace ref = [] then co_namespace co else pr_Namespace ref) in
      tryE (co_DeletePod co ns (pr_Name ref)) (\<lambda>r. case r of
        Inl e \<Rightarrow> if \<not> IsNotFound e then throw (Errorf ''delete pod'' [e]) else ret ()
      | Inr _ \<Rightarrow> ret ()))"

fun co_Stop :: "'w ClientOrchestrator \<Rightarrow> PodRef list \<Rightarrow> ('w, unit) act" where
  "co_Stop co [] = ret ()"
| "co_Stop co (ref # refs) = thenE (stopOne co ref) (co_Stop co refs)"

text \<open>\<open>cleanup\<close> runs the reclaim on a context of its own and drops its error.\<close>

definition cleanup :: "'w ClientOrchestrator \<Rightarrow> PodRef list \<Rightarrow> ('w, 'a) act \<Rightarrow> ('w, 'a) act" where
  "cleanup co refs k = (if refs = [] then k else ignoreE (co_Stop co refs) k)"

section \<open>Provisioning\<close>

definition podReady :: "kube_pod \<Rightarrow> bool" where
  "podReady pod =
     (kp_Phase pod = PodRunning \<and>
      (case find (\<lambda>c. fst c = ''Ready'') (kp_Conditions pod) of Some c \<Rightarrow> snd c = ''True'' | None \<Rightarrow> False))"

fun wait_loop :: "'w ClientOrchestrator \<Rightarrow> string \<Rightarrow> nat \<Rightarrow> ('w, kube_pod) act" where
  "wait_loop co name n =
     tryE (co_GetPod co (co_namespace co) name) (\<lambda>r.
       case r of
         Inr pod \<Rightarrow> if podReady pod then ret pod
           else (case n of 0 \<Rightarrow> throw (New ''pod not Ready'') | Suc k \<Rightarrow> wait_loop co name k)
       | Inl e \<Rightarrow> (case n of 0 \<Rightarrow> throw (New ''pod not Ready'') | Suc k \<Rightarrow> wait_loop co name k))"

declare wait_loop.simps [simp del]

definition waitReady :: "'w ClientOrchestrator \<Rightarrow> string \<Rightarrow> ('w, kube_pod) act" where
  "waitReady co name w = (case co_ticks co w of (n, w') \<Rightarrow> wait_loop co name n w')"

definition provision ::
    "'w ClientOrchestrator \<Rightarrow> kube_pod \<Rightarrow> (kube_pod \<Rightarrow> ('w, unit) act) option \<Rightarrow> ('w, PodRef) act" where
  "provision co spec afterCreate =
     bindE (wrapE ''create pod'' (co_CreatePod co (co_namespace co) spec)) (\<lambda>created.
     let ref = \<lparr>pr_Name = kp_Name created, pr_Namespace = co_namespace co, pr_IP = []\<rparr> in
     tryE (case afterCreate of Some f \<Rightarrow> f created | None \<Rightarrow> ret ()) (\<lambda>after.
     case after of
       Inl e \<Rightarrow> cleanup co [ref] (throw e)
     | Inr _ \<Rightarrow>
         tryE (waitReady co (pr_Name ref)) (\<lambda>ready.
         case ready of
           Inl e \<Rightarrow> cleanup co [ref] (throw e)
         | Inr pod \<Rightarrow> ret (ref\<lparr>pr_IP := kp_PodIP pod\<rparr>))))"

definition restoreSuffix :: "'w ClientOrchestrator \<Rightarrow> ('w, string) act" where
  "restoreSuffix co = bindE (wrapE ''generate restore pod suffix'' (co_rand co)) (\<lambda>b. ret (EncodeToString b))"

definition start_helper ::
    "'w ClientOrchestrator \<Rightarrow> string \<Rightarrow> string \<Rightarrow> string \<Rightarrow> string list option \<Rightarrow> ('w, PodRef list \<times> helperEndpoints) act" where
  "start_helper co sessionID sfx workloadType plugins =
     (if \<not> HasApprovalGate workloadType then ret ([], no_helper)
      else
        bindE (lift (helperPodSpec co sessionID sfx workloadType plugins)) (\<lambda>spec.
        bindE (provision co spec (Some (\<lambda>created.
                 thenE (applySharedVolumeClaim co sessionID created) (applySessionNetworkPolicies co sessionID created)))) (\<lambda>ref.
        if pr_IP ref = [] then cleanup co [ref] (throw (New ''helper pod reported Ready without a pod IP''))
        else ret ([ref], endpointsFor (pr_IP ref)))))"

definition start_workload ::
    "'w ClientOrchestrator \<Rightarrow> string \<Rightarrow> string \<Rightarrow> string \<Rightarrow> WorkloadSpec \<Rightarrow> PodRef list \<Rightarrow> helperEndpoints \<Rightarrow> ('w, SessionPods) act" where
  "start_workload co sessionID cpRef sfx workload auxiliary helper =
     (case buildPod co sessionID cpRef sfx workload helper of
        Inl e \<Rightarrow> cleanup co auxiliary (throw e)
      | Inr spec \<Rightarrow>
          tryE (provision co spec None) (\<lambda>r.
          case r of
            Inl e \<Rightarrow> cleanup co auxiliary (throw e)
          | Inr ref \<Rightarrow> ret \<lparr>Workload = ref, Auxiliary = auxiliary\<rparr>))"

definition startSet :: "'w ClientOrchestrator \<Rightarrow> string \<Rightarrow> string \<Rightarrow> WorkloadSpec \<Rightarrow> ('w, SessionPods) act" where
  "startSet co sessionID cpRef workload =
     bindE (lift (NormalizeWorkloadType (ws_Type workload))) (\<lambda>workloadType.
     bindE (lift (NormalizePlugins workloadType (ws_Plugins workload))) (\<lambda>plugins.
     bindE (if cpRef \<noteq> [] then restoreSuffix co else ret []) (\<lambda>sfx.
     bindE (start_helper co sessionID sfx workloadType plugins) (\<lambda>(auxiliary, helper).
     start_workload co sessionID cpRef sfx (workload\<lparr>ws_Plugins := plugins\<rparr>) auxiliary helper))))"

definition co_Start :: "'w ClientOrchestrator \<Rightarrow> string \<Rightarrow> WorkloadSpec \<Rightarrow> ('w, SessionPods) act" where
  "co_Start co sessionID workload = startSet co sessionID [] workload"

definition co_RestoreInto :: "'w ClientOrchestrator \<Rightarrow> string \<Rightarrow> string \<Rightarrow> WorkloadSpec \<Rightarrow> ('w, SessionPods) act" where
  "co_RestoreInto co sessionID cpRef workload = startSet co sessionID cpRef workload"

definition co_Reach :: "'w ClientOrchestrator \<Rightarrow> PodRef \<Rightarrow> ('w, unit) act" where
  "co_Reach co ref =
     (if pr_IP ref = [] then throw (New ''reach session pod: ref has no pod IP'')
      else wrapE ''open attach stream'' (co_dial co (''ws://'' @ JoinHostPort (pr_IP ref) (Itoa (co_agentPort co)) @ ''/attach'')))"

text \<open>The orchestrator as the port the session manager calls.\<close>

definition client_orchestrator :: "'w ClientOrchestrator \<Rightarrow> 'w PodOrchestrator" where
  "client_orchestrator co =
     \<lparr>or_Start = co_Start co, or_Stop = co_Stop co, or_RestoreInto = co_RestoreInto co, or_Reach = co_Reach co\<rparr>"

end
