(* ===== verification/Pod_Laws.thy ===== *)
theory Pod_Laws
  imports Orchestrator
begin

text \<open>
  What holds of every pod the builders make: which container is given which secret, that mounts and
  volumes fit together, and that names are valid and never shared.
\<close>

section \<open>What a pod is given\<close>

definition secret_refs :: "Container \<Rightarrow> (string \<times> string) set" where
  "secret_refs c = {(n, k). \<exists>ev \<in> set (cn_Env c). \<exists>opt. ev_From ev = SecretKeyRef n k opt}"

definition token_volumes :: "kube_pod \<Rightarrow> (string \<times> string) set" where
  "token_volumes p = {(v, a). \<exists>x \<in> set (kp_Volumes p). \<exists>e f. vol_Name x = v \<and> vol_Source x = ServiceAccountToken a e f}"

definition hardened :: "Container \<Rightarrow> bool" where
  "hardened c = (cn_SecurityContext c = Some hardenedSecurityContext)"

named_theorems spec_defs \<open>definitions of the pod builders\<close>

lemmas [spec_defs] = value_env_def secretEnv_def optionalSecretEnv_def configMapEnv_def optionalConfigMapEnv_def mount_def empty_dir_def
  model_env_def shared_env_def shared_mounts_def shared_volumes_def sharedVolume_def sharedVolumeMount_def slot_env_def slot_mounts_def
  slot_volumes_def token_volume_def token_mount_def

lemmas [spec_defs] = credentialProxyContainer_def claudeCredentialProxy_def codexK3SMCPProxy_def k3sMCPProxy_def repointToMiniMax_def
  repoint_source_def helperProxyContainers_def helperProxyVolumes_def mcp_container_def workload_container_def Let_def

lemmas parts_defs = parts_for_def shell_parts_def claude_parts_def approval_parts_def miniMaxCodePod_def codexPod_def

lemma buildPod_Inr:
  "buildPod co sid ref sfx ws h = Inr p \<longleftrightarrow>
     (\<exists>t model plugins effort img slot.
        NormalizeWorkloadType (ws_Type ws) = Inr t \<and> NormalizeModel t (ws_Model ws) = Inr model \<and>
        NormalizePlugins t (ws_Plugins ws) = Inr plugins \<and> NormalizeReasoningEffort t (ws_ReasoningEffort ws) = Inr effort \<and>
        imageFor co t = Inr img \<and>
        attachAuthSlot (co_namespace co) (co_claudeAuthMode co) t (ws_AuthSlot ws) = Inr slot \<and> (ref = [] \<or> sfx \<noteq> []) \<and>
        p = workload_pod co sid ref sfx t img (parts_for co sid sfx t img model plugins effort h) slot)"
  by (auto simp: buildPod_def split: sum.splits if_splits)

lemma helperPodSpec_Inr:
  assumes "helperPodSpec co sid sfx t plugins = Inr p"
  obtains img mcp vs where "imageFor co t = Inr img"
    "addDrop co (addRepoAccess co (mcp_container co sid img,
       [approvalGatewayTokenVolumeSource, empty_dir ''session-mcp-tmp''] @ shared_volumes co (helperPodNameFor sid sfx))) = (mcp, vs)"
    "kp_Name p = helperPodNameFor sid sfx" "kp_Labels p = session_labels sid t PodRoleHelper" "\<not> kp_AutomountServiceAccountToken p"
    "kp_Containers p = mcp # helperProxyContainers co sid t img plugins" "kp_Volumes p = vs @ helperProxyVolumes t"
    "kp_Namespace p = co_namespace co"
  using assms by (fastforce simp: helperPodSpec_def Let_def split: sum.splits prod.splits)

lemma secret_refs_env: "cn_Env c = es \<Longrightarrow> secret_refs c = (\<Union>ev \<in> set es. case ev_From ev of SecretKeyRef n k _ \<Rightarrow> {(n, k)} | _ \<Rightarrow> {})"
  by (force simp: secret_refs_def split: env_source.splits)

lemma workload_secrets:
  "secret_refs (workload_container t img (parts_for co sid sfx t img model plugins effort h) slot restoring) =
     (if t = WorkloadTypeClaudeCode then {(co_claudeCredentialsSecret co, ''k3s-mcp-token'')} else {})"
  by (auto simp: secret_refs_def spec_defs parts_defs WorkloadTypeShell_def WorkloadTypeClaudeCode_def split: option.splits if_splits)

lemma sidecars:
  assumes "c \<in> set (wp_Sidecars (parts_for co sid sfx t img model plugins effort h))"
  shows "hardened c" "cn_Name c \<noteq> ContainerName" "t \<noteq> WorkloadTypeApprovalGated" "t \<noteq> WorkloadTypeMiniMaxCode" "t \<noteq> WorkloadTypeShell"
  using assms
  by (auto simp: hardened_def spec_defs parts_defs ContainerName_def WorkloadTypeShell_def WorkloadTypeApprovalGated_def
      WorkloadTypeMiniMaxCode_def WorkloadTypeClaudeCode_def split: if_splits)

text \<open>C15: credentials stay out of the container that runs the session. In every workload pod the session's container reads
  no Secret, except the K3s MCP token of a claude-code session, and every other container is a hardened
  one of the platform. The pod's identity is the data plane's service account (the API server's \<open>view\<close> role); its
  token is mounted for every type but codex-chat, on purpose, and no token for any other audience is projected. The pods of the two approval-gated
  types have no other container at all, so they are given no Secret. The provider token is read by a single
  container, the hardened proxy.\<close>

theorem credential_isolation:
  assumes "buildPod co sid ref sfx ws h = Inr p" "c \<in> set (kp_Containers p)" "NormalizeWorkloadType (ws_Type ws) = Inr t"
  shows "(cn_Name c = ContainerName \<longrightarrow>
            secret_refs c = (if t = WorkloadTypeClaudeCode then {(co_claudeCredentialsSecret co, ''k3s-mcp-token'')} else {})) \<and>
         (cn_Name c \<noteq> ContainerName \<longrightarrow> hardened c) \<and> token_volumes p = {} \<and>
         kp_ServiceAccountName p = DataPlaneServiceAccountName \<and>
         (kp_AutomountServiceAccountToken p \<longleftrightarrow> t \<noteq> WorkloadTypeCodexChat) \<and>
         (t = WorkloadTypeApprovalGated \<or> t = WorkloadTypeMiniMaxCode \<longrightarrow> kp_Containers p = [c] \<and> secret_refs c = {}) \<and>
         (\<forall>n. (n, ''auth-token'') \<in> secret_refs c \<longrightarrow> hardened c)"
proof -
  from assms(1,3) obtain model plugins effort img slot where
    p: "p = workload_pod co sid ref sfx t img (parts_for co sid sfx t img model plugins effort h) slot"
    by (auto simp: buildPod_Inr)
  let ?parts = "parts_for co sid sfx t img model plugins effort h"
  from p have cs: "kp_Containers p = workload_container t img ?parts slot (ref \<noteq> []) # wp_Sidecars ?parts"
    by (simp add: workload_pod_def Let_def)
  have tokens: "token_volumes p = {}"
    by (auto simp: token_volumes_def p workload_pod_def spec_defs parts_defs split: option.splits if_splits)
  have identity: "kp_ServiceAccountName p = DataPlaneServiceAccountName" "kp_AutomountServiceAccountToken p \<longleftrightarrow> t \<noteq> WorkloadTypeCodexChat"
    by (simp_all add: p workload_pod_def Let_def)
  show ?thesis
  proof (cases "c \<in> set (wp_Sidecars ?parts)")
    case True
    note s = sidecars [OF True]
    show ?thesis using s tokens identity by auto
  next
    case False
    then have c: "c = workload_container t img ?parts slot (ref \<noteq> [])" using assms(2) cs by simp
    have "t = WorkloadTypeApprovalGated \<or> t = WorkloadTypeMiniMaxCode \<Longrightarrow> wp_Sidecars ?parts = []"
      using sidecars(3,4) [of _ co sid sfx t img model plugins effort h] by (cases "wp_Sidecars ?parts") auto
    then show ?thesis
      using tokens identity workload_secrets [of t img co sid sfx model plugins effort h slot "ref \<noteq> []"] cs
      unfolding c by (auto simp: workload_container_def WorkloadTypeClaudeCode_def WorkloadTypeApprovalGated_def WorkloadTypeMiniMaxCode_def)
  qed
qed

section \<open>Mounts and volumes\<close>

definition container_ok :: "string list \<Rightarrow> Container \<Rightarrow> bool" where
  "container_ok vols c =
     (distinct (map ev_Name (cn_Env c)) \<and> distinct (map vm_MountPath (cn_VolumeMounts c)) \<and>
      (\<forall>m \<in> set (cn_VolumeMounts c). vm_Name m \<in> set vols))"

definition wf_pod :: "kube_pod \<Rightarrow> bool" where
  "wf_pod p =
     (distinct (map vol_Name (kp_Volumes p)) \<and> distinct (map cn_Name (kp_Containers p)) \<and>
      list_all (container_ok (map vol_Name (kp_Volumes p))) (kp_Containers p))"

lemmas name_defs = ContainerName_def SessionMCPContainerName_def claudeCodeStateVolumeName_def shellStateVolumeName_def sharedVolumeName_def
  miniMaxMarketplaceVolume_def workloadStateVolumePath_def miniMaxMarketplacePath_def SharedVolumeMountPath_def

lemma attachAuthSlot_names:
  "attachAuthSlot ns mode t slot = Inr (Some a) \<Longrightarrow>
     mount_Env a = (''AGENT_AUTH_SLOT_DIR'', ''/var/run/session-platform/auth-slot'') \<and> mount_Volume a = ''auth-slot'' \<and>
     mount_Path a = ''/var/run/session-platform/auth-slot''"
  by (auto simp: attachAuthSlot_def split: option.splits if_splits)

text \<open>What the parts of each type have to satisfy beside the slot and the restore flag.\<close>

definition parts_ok :: "workload_parts \<Rightarrow> bool" where
  "parts_ok parts =
     (distinct ([''DATA_PLANE_WORKLOAD'', ''AGENT_AUTH_SLOT_DIR'', ''DATA_PLANE_RESTORE_MODE''] @ map ev_Name (wp_Env parts)) \<and>
      distinct (''/var/run/session-platform/auth-slot'' # map vm_MountPath (wp_Mounts parts)) \<and>
      distinct (''auth-slot'' # map vol_Name (wp_Volumes parts)) \<and> (\<forall>m \<in> set (wp_Mounts parts). vm_Name m \<in> vol_Name ` set (wp_Volumes parts)) \<and>
      distinct (ContainerName # map cn_Name (wp_Sidecars parts)) \<and>
      list_all (container_ok (map vol_Name (wp_Volumes parts))) (wp_Sidecars parts))"

lemma shell_ok: "parts_ok (shell_parts co)"
  by (simp add: parts_ok_def shell_parts_def spec_defs name_defs)

lemma claude_ok: "parts_ok (claude_parts co img model plugins effort)"
  by (simp add: parts_ok_def claude_parts_def container_ok_def spec_defs name_defs split: option.split)

lemma approval_ok: "parts_ok (approval_parts co model h q)"
  by (simp add: parts_ok_def approval_parts_def spec_defs name_defs)

lemma miniMax_ok: "parts_ok (miniMaxCodePod co model h q)"
  by (simp add: parts_ok_def miniMaxCodePod_def spec_defs name_defs)

lemma codex_ok: "parts_ok (codexPod co sid t model img plugins effort)"
  by (simp add: parts_ok_def codexPod_def container_ok_def spec_defs name_defs split: option.split)

lemma parts_for_ok: "parts_ok (parts_for co sid sfx t img model plugins effort h)"
  by (simp add: parts_for_def shell_ok claude_ok approval_ok miniMax_ok codex_ok)

lemma container_ok_mono: "container_ok vols c \<Longrightarrow> set vols \<subseteq> set vols' \<Longrightarrow> container_ok vols' c"
  by (auto simp: container_ok_def)

lemma workload_pod_wf:
  assumes "attachAuthSlot ns mode t k = Inr slot" "parts_ok parts"
  shows "wf_pod (workload_pod co sid ref sfx t img parts slot)"
proof -
  let ?vols = "map vol_Name (wp_Volumes parts @ slot_volumes slot)"
  consider (none) "slot_env slot = []" "slot_mounts slot = []" "slot_volumes slot = []"
    | (some) claim where "slot_env slot = [value_env ''AGENT_AUTH_SLOT_DIR'' ''/var/run/session-platform/auth-slot'']"
        "slot_mounts slot = [mount ''auth-slot'' ''/var/run/session-platform/auth-slot'']"
        "slot_volumes slot = [\<lparr>vol_Name = ''auth-slot'', vol_Source = PersistentVolumeClaim claim\<rparr>]"
    using attachAuthSlot_names assms(1) by (cases slot) (auto simp: slot_env_def slot_mounts_def slot_volumes_def)
  note slot = this
  note ok = assms(2) [unfolded parts_ok_def]
  have env: "distinct ([''DATA_PLANE_WORKLOAD'', ''AGENT_AUTH_SLOT_DIR'', ''DATA_PLANE_RESTORE_MODE''] @ map ev_Name (wp_Env parts))"
    and mounts: "distinct (''/var/run/session-platform/auth-slot'' # map vm_MountPath (wp_Mounts parts))"
      "\<forall>m \<in> set (wp_Mounts parts). vm_Name m \<in> vol_Name ` set (wp_Volumes parts)"
    and vols: "distinct (''auth-slot'' # map vol_Name (wp_Volumes parts))"
    using ok by blast+
  have "list_all (container_ok ?vols) (wp_Sidecars parts)"
    using ok container_ok_mono [of "map vol_Name (wp_Volumes parts)" _ ?vols] by (auto simp: list_all_iff)
  moreover have "container_ok ?vols (workload_container t img parts slot (ref \<noteq> []))"
    using slot
  proof cases
    case none
    then show ?thesis using env mounts by (simp add: container_ok_def workload_container_def value_env_def)
  next
    case some
    then show ?thesis using env mounts by (simp add: container_ok_def workload_container_def value_env_def mount_def)
  qed
  moreover have "distinct ?vols" using slot vols by cases simp_all
  ultimately show ?thesis using ok by (simp add: wf_pod_def workload_pod_def Let_def workload_container_def)
qed

text \<open>The session MCP container and the volumes of the helper pod, written out.\<close>

definition helper_volume_names :: "'w ClientOrchestrator \<Rightarrow> string list" where
  "helper_volume_names co =
     [''approval-gateway-token'', ''session-mcp-tmp''] @ (if sharedVolumeEnabled co then [sharedVolumeName] else []) @
     (if repoAccessEnabled co then [''repo-access-token''] else []) @ (if dropEnabled co then [''drop-token''] else [])"

lemma helper_mcp:
  assumes "addDrop co (addRepoAccess co (mcp_container co sid img,
      [approvalGatewayTokenVolumeSource, empty_dir ''session-mcp-tmp''] @ shared_volumes co q)) = (mcp, vs)"
  shows "cn_Name mcp = SessionMCPContainerName" "hardened mcp" "map vol_Name vs = helper_volume_names co"
    "map vm_Name (cn_VolumeMounts mcp) = helper_volume_names co"
    "map vm_MountPath (cn_VolumeMounts mcp) = [''/var/run/secrets/pocket-aide'', ''/tmp''] @
       (if sharedVolumeEnabled co then [SharedVolumeMountPath] else []) @
       (if repoAccessEnabled co then [''/var/run/secrets/session-platform''] else []) @ (if dropEnabled co then [''/var/run/secrets/drop''] else [])"
    "\<forall>ev \<in> set (cn_Env mcp). \<exists>v. ev_From ev = Value v"
    "map ev_Name (cn_Env mcp) = [''DATA_PLANE_WORKLOAD'', ''DATA_PLANE_AGENT_ADDR'', ''SESSION_ID'', ''APPROVAL_GATEWAY_URL'', ''APPROVAL_GATEWAY_TOKEN_FILE''] @
       (if sharedVolumeEnabled co then [''SESSION_SHARED_DIR''] else []) @
       (if repoAccessEnabled co then [''REPO_ACCESS_URL'', ''REPO_ACCESS_TOKEN_FILE'', ''K3S_MCP_PROXY_URL''] else []) @
       (if dropEnabled co then [''DROP_URL'', ''DROP_TOKEN_FILE''] else [])"
    "\<forall>v \<in> set vs. \<forall>a e f. vol_Source v = ServiceAccountToken a e f \<longrightarrow>
       (vol_Name v, a) \<in> {(''approval-gateway-token'', ApprovalGatewayTokenAudience), (''repo-access-token'', RepoAccessTokenAudience), (''drop-token'', DropTokenAudience)}"
proof -
  have mcp: "mcp = (mcp_container co sid img)
      \<lparr>cn_Env := cn_Env (mcp_container co sid img) @
         (if repoAccessEnabled co
          then [value_env ''REPO_ACCESS_URL'' (co_repoAccessURL co),
                value_env ''REPO_ACCESS_TOKEN_FILE'' ''/var/run/secrets/session-platform/token'',
                value_env ''K3S_MCP_PROXY_URL'' (''http://127.0.0.1:'' @ Itoa k3sMCPProxyPort)] else []) @
         (if dropEnabled co
          then [value_env ''DROP_URL'' (co_dropURL co), value_env ''DROP_TOKEN_FILE'' ''/var/run/secrets/drop/token''] else []),
       cn_VolumeMounts := cn_VolumeMounts (mcp_container co sid img) @
         (if repoAccessEnabled co then [token_mount ''repo-access-token'' ''/var/run/secrets/session-platform''] else []) @
         (if dropEnabled co then [token_mount ''drop-token'' ''/var/run/secrets/drop''] else [])\<rparr>"
    and vs: "vs = [approvalGatewayTokenVolumeSource, empty_dir ''session-mcp-tmp''] @ shared_volumes co q @
       (if repoAccessEnabled co then [token_volume ''repo-access-token'' RepoAccessTokenAudience] else []) @
       (if dropEnabled co then [token_volume ''drop-token'' DropTokenAudience] else [])"
    using assms by (auto simp: addDrop_def addRepoAccess_def split: if_splits)
  note unfold = mcp_container_def shared_env_def shared_mounts_def sharedVolumeMount_def mount_def token_mount_def value_env_def
  show "cn_Name mcp = SessionMCPContainerName" "hardened mcp" by (simp_all add: mcp hardened_def mcp_container_def)
  show "map vol_Name vs = helper_volume_names co"
    by (simp add: vs helper_volume_names_def approvalGatewayTokenVolumeSource_def token_volume_def empty_dir_def shared_volumes_def sharedVolume_def)
  show "map vm_Name (cn_VolumeMounts mcp) = helper_volume_names co" by (simp add: mcp helper_volume_names_def unfold)
  show "map vm_MountPath (cn_VolumeMounts mcp) = [''/var/run/secrets/pocket-aide'', ''/tmp''] @
       (if sharedVolumeEnabled co then [SharedVolumeMountPath] else []) @
       (if repoAccessEnabled co then [''/var/run/secrets/session-platform''] else []) @ (if dropEnabled co then [''/var/run/secrets/drop''] else [])" by (simp add: mcp unfold)
  show "map ev_Name (cn_Env mcp) = [''DATA_PLANE_WORKLOAD'', ''DATA_PLANE_AGENT_ADDR'', ''SESSION_ID'', ''APPROVAL_GATEWAY_URL'', ''APPROVAL_GATEWAY_TOKEN_FILE''] @
       (if sharedVolumeEnabled co then [''SESSION_SHARED_DIR''] else []) @
       (if repoAccessEnabled co then [''REPO_ACCESS_URL'', ''REPO_ACCESS_TOKEN_FILE'', ''K3S_MCP_PROXY_URL''] else []) @
       (if dropEnabled co then [''DROP_URL'', ''DROP_TOKEN_FILE''] else [])" by (simp add: mcp unfold)
  show "\<forall>ev \<in> set (cn_Env mcp). \<exists>v. ev_From ev = Value v" by (auto simp: mcp unfold)
  show "\<forall>v \<in> set vs. \<forall>a e f. vol_Source v = ServiceAccountToken a e f \<longrightarrow>
       (vol_Name v, a) \<in> {(''approval-gateway-token'', ApprovalGatewayTokenAudience), (''repo-access-token'', RepoAccessTokenAudience), (''drop-token'', DropTokenAudience)}"
    by (auto simp: vs approvalGatewayTokenVolumeSource_def token_volume_def empty_dir_def shared_volumes_def sharedVolume_def split: if_splits)
qed

lemma helper_proxies:
  assumes "c \<in> set (helperProxyContainers co sid t img plugins)"
  shows "hardened c" "cn_Name c = ''credential-proxy'' \<or> cn_Name c = ''k3s-mcp-proxy''" "container_ok (map vol_Name (helperProxyVolumes t)) c"
    "\<forall>m \<in> set (cn_VolumeMounts c). vm_Name m = miniMaxMarketplaceVolume"
  using assms
  by (cases "t = WorkloadTypeMiniMaxCode"; cases "repoAccessEnabled co"; cases plugins;
      auto simp: hardened_def container_ok_def spec_defs)+

lemma helper_proxy_names: "distinct (map cn_Name (helperProxyContainers co sid t img plugins))"
  by (simp add: spec_defs)

lemma helper_pod_wf:
  assumes "helperPodSpec co sid sfx t plugins = Inr p"
  shows "wf_pod p"
proof -
  from assms obtain img mcp vs where h: "addDrop co (addRepoAccess co (mcp_container co sid img,
       [approvalGatewayTokenVolumeSource, empty_dir ''session-mcp-tmp''] @ shared_volumes co (helperPodNameFor sid sfx))) = (mcp, vs)"
    "kp_Containers p = mcp # helperProxyContainers co sid t img plugins" "kp_Volumes p = vs @ helperProxyVolumes t"
    by (rule helperPodSpec_Inr)
  note m = helper_mcp [OF h(1)]
  have vols: "map vol_Name (kp_Volumes p) = helper_volume_names co @ map vol_Name (helperProxyVolumes t)" by (simp add: h(3) m(3))
  have "distinct (map vol_Name (kp_Volumes p))"
    unfolding vols by (simp add: helper_volume_names_def helperProxyVolumes_def empty_dir_def name_defs)
  moreover have "\<forall>x \<in> set (cn_VolumeMounts mcp). vm_Name x \<in> set (helper_volume_names co)"
    using m(4) by (metis image_eqI set_map)
  then have "container_ok (map vol_Name (kp_Volumes p)) mcp"
    unfolding container_ok_def vols m(5,7)
    by (cases "repoAccessEnabled co"; cases "dropEnabled co"; simp add: name_defs)
  moreover have "list_all (container_ok (map vol_Name (kp_Volumes p))) (helperProxyContainers co sid t img plugins)"
    using container_ok_mono [OF helper_proxies(3)] unfolding vols list_all_iff by (metis Un_upper2 set_append)
  moreover have "cn_Name mcp \<notin> cn_Name ` set (helperProxyContainers co sid t img plugins)"
    using helper_proxies(2) [of _ co sid t img plugins] m(1) by (force simp: name_defs)
  ultimately show ?thesis using helper_proxy_names by (simp add: wf_pod_def h(2))
qed

text \<open>C29: every pod is well formed. In each pod the orchestrator asks for, volume and container names are distinct, every
  mount names a volume of the pod, and no container has two variables of one name or two mounts at one
  path, so that the API server accepts it and no setting shadows another.\<close>

theorem pods_well_formed:
  "(buildPod co sid ref sfx ws h = Inr p \<longrightarrow> wf_pod p) \<and> (helperPodSpec co sid sfx t plugins = Inr q \<longrightarrow> wf_pod q)"
  using workload_pod_wf [OF _ parts_for_ok] helper_pod_wf by (auto simp: buildPod_Inr)

section \<open>The helper pod\<close>

definition source_name :: "env_source \<Rightarrow> string option" where
  "source_name s = (case s of Value _ \<Rightarrow> None | SecretKeyRef n _ _ \<Rightarrow> Some n | ConfigMapKeyRef n _ _ \<Rightarrow> Some n)"

lemma helper_proxy_sources:
  assumes "c \<in> set (helperProxyContainers co sid t img plugins)"
  shows "\<forall>ev \<in> set (cn_Env c). \<forall>n. source_name (ev_From ev) = Some n \<longrightarrow>
       n \<in> (if t = WorkloadTypeMiniMaxCode then {co_miniMaxCredentialsSecret co, co_miniMaxConfigConfigMap co}
            else {co_claudeCredentialsSecret co, co_claudeConfigConfigMap co})"
  using assms
  by (cases "t = WorkloadTypeMiniMaxCode"; cases "repoAccessEnabled co"; cases plugins; auto simp: spec_defs source_name_def)

text \<open>C28: the helper pod. It has no API server token; every container is hardened; tokens of its service
  account are projected for the three named audiences only and mounted by the session MCP container alone, which
  reads no Secret; the proxies read the Secret and the ConfigMap of their own workload type and no
  other.\<close>

theorem helper_credentials:
  assumes "helperPodSpec co sid sfx t plugins = Inr p" "c \<in> set (kp_Containers p)"
  shows "\<not> kp_AutomountServiceAccountToken p \<and> hardened c \<and>
    snd ` token_volumes p \<subseteq> {ApprovalGatewayTokenAudience, RepoAccessTokenAudience, DropTokenAudience} \<and>
    (cn_Name c = SessionMCPContainerName \<longrightarrow> secret_refs c = {}) \<and>
    (cn_Name c \<noteq> SessionMCPContainerName \<longrightarrow> (\<forall>m \<in> set (cn_VolumeMounts c). vm_Name m \<notin> fst ` token_volumes p)) \<and>
    (\<forall>ev \<in> set (cn_Env c). \<forall>n. source_name (ev_From ev) = Some n \<longrightarrow>
       n \<in> (if t = WorkloadTypeMiniMaxCode then {co_miniMaxCredentialsSecret co, co_miniMaxConfigConfigMap co}
            else {co_claudeCredentialsSecret co, co_claudeConfigConfigMap co}))"
proof -
  from assms(1) obtain img mcp vs where h: "addDrop co (addRepoAccess co (mcp_container co sid img,
       [approvalGatewayTokenVolumeSource, empty_dir ''session-mcp-tmp''] @ shared_volumes co (helperPodNameFor sid sfx))) = (mcp, vs)"
    "\<not> kp_AutomountServiceAccountToken p"
    "kp_Containers p = mcp # helperProxyContainers co sid t img plugins" "kp_Volumes p = vs @ helperProxyVolumes t"
    by (rule helperPodSpec_Inr)
  note m = helper_mcp [OF h(1)]
  have tokens: "token_volumes p \<subseteq> {(''approval-gateway-token'', ApprovalGatewayTokenAudience),
      (''repo-access-token'', RepoAccessTokenAudience), (''drop-token'', DropTokenAudience)}"
    using m(8) unfolding token_volumes_def h(4) by (auto simp: helperProxyVolumes_def empty_dir_def split: if_splits)
  show ?thesis
  proof (cases "c = mcp")
    case True
    moreover have "secret_refs mcp = {}" "\<forall>ev \<in> set (cn_Env mcp). source_name (ev_From ev) = None"
      using m(6) by (fastforce simp: secret_refs_def source_name_def)+
    ultimately show ?thesis using m(1,2) h(2) tokens by auto
  next
    case False
    then have c: "c \<in> set (helperProxyContainers co sid t img plugins)" using assms(2) h(3) by simp
    have "miniMaxMarketplaceVolume \<notin> fst ` token_volumes p" using tokens by (auto simp: miniMaxMarketplaceVolume_def)
    moreover have "cn_Name c \<noteq> SessionMCPContainerName" using helper_proxies(2) [OF c] by (auto simp: name_defs)
    ultimately show ?thesis using h(2) tokens helper_proxies(1,4) [OF c] helper_proxy_sources [OF c] by auto
  qed
qed

section \<open>Names\<close>

lemma EncodeToString_length: "length (EncodeToString b) = 2 * length b"
  by (induction b) (auto simp: EncodeToString_def)

lemma hex_digit_alnum: "n < 16 \<Longrightarrow> lower_alnum (hex_digit n)"
proof -
  have "\<forall>n \<in> set [0..<16]. lower_alnum (hex_digit n)" by code_simp
  then show "n < 16 \<Longrightarrow> lower_alnum (hex_digit n)" by simp
qed

lemma EncodeToString_alnum: "list_all lower_alnum (EncodeToString b)"
  by (induction b) (auto simp: EncodeToString_def intro!: hex_digit_alnum of_char_of less_mult_imp_div_less)

text \<open>The workload pod of a round: the session's own name, or the round's.\<close>

definition workload_name :: "string \<Rightarrow> string \<Rightarrow> string" where
  "workload_name sid sfx = (if sfx = [] then podName sid else restorePodName sid sfx)"

lemma session_names_inj:
  assumes "length sid = length sid'" "sfx = [] \<or> length sfx = 24" "sfx' = [] \<or> length sfx' = 24"
  shows "workload_name sid sfx = workload_name sid' sfx' \<longleftrightarrow> sid = sid' \<and> sfx = sfx'"
    "helperPodNameFor sid sfx = helperPodNameFor sid' sfx' \<longleftrightarrow> sid = sid' \<and> sfx = sfx'"
    "workload_name sid sfx \<noteq> helperPodNameFor sid' sfx'"
  using assms
  by (auto simp: workload_name_def podName_def restorePodName_def helperPodNameFor_def helperRestorePodName_def helperPodName_def)

lemma session_names_valid:
  assumes "length sid = 32" "list_all lower_alnum sid" "sfx = [] \<or> length sfx = 24" "list_all lower_alnum sfx"
  shows "tenantNamePattern (workload_name sid sfx)" "tenantNamePattern (helperPodNameFor sid sfx)"
proof -
  have lit: "lower_alnum (CHR ''s'')" "lower_alnum (CHR ''e'')" "lower_alnum (CHR ''h'')" "lower_alnum (CHR ''l'')" "lower_alnum (CHR ''p'')"
    "lower_alnum (CHR ''r'')" by code_simp+
  have last: "lower_alnum (last xs)" if "xs \<noteq> []" "list_all lower_alnum xs" for xs using that by (simp add: list_all_iff)
  have "list_all (\<lambda>c. lower_alnum c \<or> c = CHR ''-'') sid" "list_all (\<lambda>c. lower_alnum c \<or> c = CHR ''-'') sfx" "sid \<noteq> []"
    using assms by (auto simp: list_all_iff)
  then show "tenantNamePattern (workload_name sid sfx)" "tenantNamePattern (helperPodNameFor sid sfx)"
    using assms lit last [of sid] last [of sfx]
    by (auto simp: tenantNamePattern_def dns_name_def workload_name_def podName_def restorePodName_def helperPodNameFor_def
        helperRestorePodName_def helperPodName_def)
qed

lemma buildPod_name: "buildPod co sid ref sfx ws h = Inr p \<Longrightarrow> kp_Name p = (if ref = [] then podName sid else restorePodName sid sfx)"
  by (auto simp: buildPod_Inr workload_pod_def Let_def)

text \<open>C30: pod names. For the ids and suffixes the platform draws, sixteen and twelve random bytes in hex, every pod's name
  is a DNS label of at most 63 bytes, and a workload pod and a helper pod never share a name, nor two pods
  of one role of different sessions or of different provisioning rounds.\<close>

theorem pod_names:
  assumes "length b = 16" "length b' = 16" "r = [] \<or> length r = 12" "r' = [] \<or> length r' = 12"
    and "buildPod co (EncodeToString b) ref (EncodeToString r) ws h = Inr p" "(ref = []) = (r = [])"
    and "buildPod co' (EncodeToString b') ref' (EncodeToString r') ws' h' = Inr p'" "(ref' = []) = (r' = [])"
    and "helperPodSpec co (EncodeToString b) (EncodeToString r) t plugins = Inr q"
    and "helperPodSpec co' (EncodeToString b') (EncodeToString r') t' plugins' = Inr q'"
  shows "tenantNamePattern (kp_Name p) \<and> tenantNamePattern (kp_Name q) \<and> length (kp_Name p) \<le> 63 \<and> length (kp_Name q) \<le> 63 \<and>
    kp_Name p \<noteq> kp_Name q' \<and>
    (kp_Name p = kp_Name p' \<longleftrightarrow> EncodeToString b = EncodeToString b' \<and> EncodeToString r = EncodeToString r') \<and>
    (kp_Name q = kp_Name q' \<longleftrightarrow> EncodeToString b = EncodeToString b' \<and> EncodeToString r = EncodeToString r')"
proof -
  have empty: "EncodeToString x = [] \<longleftrightarrow> x = []" for x using EncodeToString_length [of x] by (cases x) auto
  have names: "kp_Name p = workload_name (EncodeToString b) (EncodeToString r)" "kp_Name p' = workload_name (EncodeToString b') (EncodeToString r')"
    using buildPod_name [OF assms(5)] buildPod_name [OF assms(7)] assms(6,8) empty by (simp_all add: workload_name_def)
  have helpers: "kp_Name q = helperPodNameFor (EncodeToString b) (EncodeToString r)" "kp_Name q' = helperPodNameFor (EncodeToString b') (EncodeToString r')"
    using assms(9,10) by (auto elim: helperPodSpec_Inr)
  have len: "length (EncodeToString b) = 32" "length (EncodeToString b') = 32"
    "EncodeToString r = [] \<or> length (EncodeToString r) = 24" "EncodeToString r' = [] \<or> length (EncodeToString r') = 24"
    using assms(1-4) by (auto simp: EncodeToString_length empty)
  have valid: "tenantNamePattern (kp_Name p)" "tenantNamePattern (kp_Name q)"
    using session_names_valid [OF len(1) EncodeToString_alnum len(3) EncodeToString_alnum] by (simp_all add: names helpers)
  then have "length (kp_Name p) \<le> 63" "length (kp_Name q) \<le> 63" by (simp_all add: tenantNamePattern_def dns_name_def)
  moreover have same: "length (EncodeToString b) = length (EncodeToString b')" using len by simp
  note inj = session_names_inj [OF same len(3,4), folded names helpers]
  ultimately show ?thesis using valid inj by blast
qed

section \<open>A small cluster\<close>

text \<open>A deployment with every feature on, over a list of pods: a created pod is ready at once.\<close>

definition sample_ready :: "kube_pod \<Rightarrow> kube_pod" where
  "sample_ready p = p\<lparr>kp_UID := ''u'', kp_Phase := PodRunning, kp_PodIP := ''10.0.0.7'', kp_Conditions := [(''Ready'', ''True'')]\<rparr>"

definition sample_co :: "kube_pod list ClientOrchestrator" where
  "sample_co =
     \<lparr>co_namespace = ''ns'', co_image = ''agent:1'', co_claudeCredentialsSecret = ''cs'', co_claudeConfigConfigMap = ''cc'',
      co_approvalGatewayURL = ''http://gate'', co_repoAccessURL = ''http://cp'', co_dropURL = ''http://drop'',
      co_miniMaxCredentialsSecret = ''ms'', co_miniMaxConfigConfigMap = ''mc'', co_codexCredentialsSecret = ''xs'', co_codexConfigConfigMap = ''xc'',
      co_codexPlugins = ''p'', co_codexTask = \<lparr>cx_credentialsSecret = ''ts'', cx_configConfigMap = ''tc'', cx_plugins = ''p''\<rparr>,
      co_claudeAuthMode = ClaudeCodeAuthGateway, co_sharedVolumeStorageClass = ''nfs'', co_sharedVolumeSize = ''1Gi'',
      co_workloadImages = [''approval-gated'' \<mapsto> ''gated:1''], co_shell = [], co_agentPort = AgentPort,
      co_CreatePod = (\<lambda>_ p w. (Inr (sample_ready p), sample_ready p # w)),
      co_DeletePod = (\<lambda>_ n w. (Inr (), filter (\<lambda>p. kp_Name p \<noteq> n) w)),
      co_GetPod = (\<lambda>_ n w. (case find (\<lambda>p. kp_Name p = n) w of Some p \<Rightarrow> Inr p | None \<Rightarrow> Inl (Api ApiNotFound), w)),
      co_CreateClaim = (\<lambda>_ _ w. (Inr (), w)), co_CreatePolicy = (\<lambda>_ _ w. (Inr (), w)),
      co_rand = ret (replicate 12 (CHR 0x07)), co_dial = (\<lambda>_. ret ()), co_ticks = (\<lambda>w. (3, w))\<rparr>"

definition sample_spec :: WorkloadSpec where
  "sample_spec = \<lparr>ws_Type = ''approval-gated'', ws_Model = ''platform-default'', ws_Plugins = None, ws_ReasoningEffort = [], ws_AuthSlot = None\<rparr>"

definition sample_sid :: string where "sample_sid = EncodeToString (replicate 16 (CHR 0x2A))"

lemma sample_pods:
  obtains p q where "buildPod sample_co sample_sid [] [] sample_spec no_helper = Inr p"
    "helperPodSpec sample_co sample_sid [] WorkloadTypeApprovalGated None = Inr q"
proof -
  have "NormalizeWorkloadType (ws_Type sample_spec) = Inr WorkloadTypeApprovalGated"
    "NormalizeModel WorkloadTypeApprovalGated (ws_Model sample_spec) = Inr ''platform-default''"
    "NormalizePlugins WorkloadTypeApprovalGated (ws_Plugins sample_spec) = Inr None"
    "NormalizeReasoningEffort WorkloadTypeApprovalGated (ws_ReasoningEffort sample_spec) = Inr []"
    "imageFor sample_co WorkloadTypeApprovalGated = Inr ''gated:1''"
    "attachAuthSlot (co_namespace sample_co) (co_claudeAuthMode sample_co) WorkloadTypeApprovalGated (ws_AuthSlot sample_spec) = Inr None"
    by code_simp+
  then have "\<exists>p. buildPod sample_co sample_sid [] [] sample_spec no_helper = Inr p"
    "\<exists>q. helperPodSpec sample_co sample_sid [] WorkloadTypeApprovalGated None = Inr q"
    by (auto simp: buildPod_Inr helperPodSpec_def Let_def split: prod.split)
  then show thesis using that by blast
qed

theorem credential_isolation_witness:
  "\<exists>p c. buildPod sample_co sample_sid [] [] sample_spec no_helper = Inr p \<and> kp_Containers p = [c] \<and> secret_refs c = {}"
proof -
  obtain p where p: "buildPod sample_co sample_sid [] [] sample_spec no_helper = Inr p" using sample_pods by blast
  have "kp_Containers p \<noteq> []" using p by (auto simp: buildPod_Inr workload_pod_def Let_def)
  then obtain c where "c \<in> set (kp_Containers p)" by (cases "kp_Containers p") auto
  moreover have "NormalizeWorkloadType (ws_Type sample_spec) = Inr WorkloadTypeApprovalGated" by code_simp
  ultimately show ?thesis using credential_isolation [OF p, of c WorkloadTypeApprovalGated] p by auto
qed

theorem pods_well_formed_witness:
  "\<exists>p q. buildPod sample_co sample_sid [] [] sample_spec no_helper = Inr p \<and> wf_pod p \<and>
     helperPodSpec sample_co sample_sid [] WorkloadTypeApprovalGated None = Inr q \<and> wf_pod q"
  using pods_well_formed [of sample_co sample_sid "[]" "[]" sample_spec no_helper] sample_pods by metis

theorem helper_credentials_witness:
  "\<exists>q. helperPodSpec sample_co sample_sid [] WorkloadTypeApprovalGated None = Inr q \<and> kp_Containers q \<noteq> [] \<and>
     (\<forall>c \<in> set (kp_Containers q). hardened c)"
proof -
  obtain q where q: "helperPodSpec sample_co sample_sid [] WorkloadTypeApprovalGated None = Inr q" using sample_pods by blast
  then have "kp_Containers q \<noteq> []" by (auto elim: helperPodSpec_Inr)
  then show ?thesis using q helper_credentials [OF q] by blast
qed

theorem pod_names_witness:
  "\<exists>p q. buildPod sample_co sample_sid [] [] sample_spec no_helper = Inr p \<and>
     helperPodSpec sample_co sample_sid [] WorkloadTypeApprovalGated None = Inr q \<and> kp_Name p \<noteq> kp_Name q \<and> length (kp_Name q) \<le> 63"
proof -
  obtain p q where pq: "buildPod sample_co sample_sid [] [] sample_spec no_helper = Inr p"
    "helperPodSpec sample_co sample_sid [] WorkloadTypeApprovalGated None = Inr q" using sample_pods by blast
  have e: "[] = EncodeToString []" by (simp add: EncodeToString_def)
  show ?thesis
    using pod_names [of "replicate 16 (CHR 0x2A)" "replicate 16 (CHR 0x2A)" "[]" "[]" sample_co "[]" sample_spec no_helper p
        sample_co "[]" sample_spec no_helper p WorkloadTypeApprovalGated None q WorkloadTypeApprovalGated None q] pq
    unfolding sample_sid_def e [symmetric] by simp
qed

end
