(* ===== verification/Network_Boundary.thy ===== *)
theory Network_Boundary
  imports Pod_Laws
begin

text \<open>
  What the policies of \<open>network_policy.go\<close> let through, under the documented meaning of a NetworkPolicy: a pod that no
  policy of a direction selects is open in it; a selected one admits exactly what some rule of some policy that selects
  it admits; a connection needs both its ends. The cluster that enforces this is not part of the repository.
\<close>

section \<open>Meaning of a policy\<close>

record endpoint =
  en_Namespace :: string
  en_NamespaceLabels :: "string \<rightharpoonup> string"
  en_Labels :: "string \<rightharpoonup> string"

definition endpoint_of :: "(string \<rightharpoonup> string) \<Rightarrow> kube_pod \<Rightarrow> endpoint" where
  "endpoint_of nsl p = \<lparr>en_Namespace = kp_Namespace p, en_NamespaceLabels = nsl, en_Labels = kp_Labels p\<rparr>"

definition peer_matches :: "string \<Rightarrow> net_peer \<Rightarrow> endpoint \<Rightarrow> bool" where
  "peer_matches ns peer e =
     ((case np_NamespaceSelector peer of None \<Rightarrow> en_Namespace e = ns | Some sel \<Rightarrow> sel \<subseteq>\<^sub>m en_NamespaceLabels e) \<and>
      np_PodSelector peer \<subseteq>\<^sub>m en_Labels e)"

definition rule_admits :: "string \<Rightarrow> net_rule \<Rightarrow> endpoint \<Rightarrow> net_proto \<times> int \<Rightarrow> bool" where
  "rule_admits ns r e pp =
     ((nr_Peers r = [] \<or> (\<exists>peer \<in> set (nr_Peers r). peer_matches ns peer e)) \<and> (nr_Ports r = [] \<or> pp \<in> set (nr_Ports r)))"

definition governs :: "policy_type \<Rightarrow> NetworkPolicy \<Rightarrow> endpoint \<Rightarrow> bool" where
  "governs d pol e = (nw_PolicyType pol = d \<and> nw_Namespace pol = en_Namespace e \<and> nw_PodSelector pol \<subseteq>\<^sub>m en_Labels e)"

definition admitted :: "policy_type \<Rightarrow> NetworkPolicy set \<Rightarrow> endpoint \<Rightarrow> endpoint \<Rightarrow> net_proto \<times> int \<Rightarrow> bool" where
  "admitted d policies e other pp =
     ((\<forall>pol \<in> policies. \<not> governs d pol e) \<or>
      (\<exists>pol \<in> policies. governs d pol e \<and> (\<exists>r \<in> set (nw_Rules pol). rule_admits (nw_Namespace pol) r other pp)))"

definition connects :: "NetworkPolicy set \<Rightarrow> endpoint \<Rightarrow> endpoint \<Rightarrow> net_proto \<times> int \<Rightarrow> bool" where
  "connects policies src dst pp = (admitted Egress policies src dst pp \<and> admitted Ingress policies dst src pp)"

text \<open>\<open>in_force\<close>: the policies of the namespace are those of the provisioning rounds, each a session with its helper pod.\<close>

definition in_force :: "string \<Rightarrow> (string \<times> kube_pod) set \<Rightarrow> NetworkPolicy set \<Rightarrow> bool" where
  "in_force ns rounds policies =
     ({pol \<in> policies. nw_Namespace pol = ns} = (\<Union>(sid, owner) \<in> rounds. set (sessionNetworkPolicies ns sid owner)))"

definition session_ports :: "string \<Rightarrow> (net_proto \<times> int) set" where
  "session_ports t = {(TCP, 8091), (TCP, 8092)} \<union> (if t = WorkloadTypeMiniMaxCode then {(TCP, 8093)} else {})"

definition kube_dns :: "endpoint \<Rightarrow> bool" where
  "kube_dns e = (en_NamespaceLabels e ''kubernetes.io/metadata.name'' = Some ''kube-system'' \<and> en_Labels e ''k8s-app'' = Some ''kube-dns'')"

definition session_pod :: "string \<Rightarrow> string \<Rightarrow> string \<Rightarrow> endpoint \<Rightarrow> bool" where
  "session_pod ns sid role e = (en_Namespace e = ns \<and> en_Labels e LabelSessionID = Some sid \<and> en_Labels e LabelPodRole = Some role)"

section \<open>The boundary\<close>

lemmas label_defs = LabelSessionID_def LabelPodRole_def LabelWorkloadType_def labelManagedBy_pod_def PodRoleWorkload_def PodRoleHelper_def

lemma role_selector_le:
  "role_selector sid role \<subseteq>\<^sub>m m \<longleftrightarrow> m LabelSessionID = Some sid \<and> m LabelPodRole = Some role"
  by (auto simp: role_selector_def map_le_def label_defs split: if_splits)

lemma dns_admits: "rule_admits ns dns_rule e pp \<longleftrightarrow> kube_dns e \<and> (pp = (UDP, 53) \<or> pp = (TCP, 53))"
  by (auto simp: rule_admits_def dns_rule_def peer_matches_def kube_dns_def map_le_def)

lemma helper_ports: "kp_Labels owner LabelWorkloadType = Some t \<Longrightarrow> set (helperPolicyPorts owner) = session_ports t"
  by (auto simp: helperPolicyPorts_def session_ports_def tcpPort_def credentialProxyPort_def SessionMCPPort_def k3sMCPProxyPort_def)

lemma role_rule_admits:
  assumes "ports \<noteq> []"
  shows "rule_admits ns \<lparr>nr_Peers = [\<lparr>np_NamespaceSelector = None, np_PodSelector = role_selector sid role\<rparr>], nr_Ports = ports\<rparr> e pp \<longleftrightarrow>
    session_pod ns sid role e \<and> pp \<in> set ports"
  using assms by (auto simp: rule_admits_def peer_matches_def role_selector_le session_pod_def)

lemma helperPolicyPorts_some: "helperPolicyPorts owner \<noteq> []"
  by (simp add: helperPolicyPorts_def)

text \<open>A pod of a session is governed by the policies of its own session and role only.\<close>

lemma governs_session:
  assumes "pol \<in> set (sessionNetworkPolicies ns s owner)" "session_pod ns sid role e"
  shows "governs d pol e \<longleftrightarrow>
    s = sid \<and> (role = PodRoleWorkload \<and> d = Egress \<and> pol = hd (sessionNetworkPolicies ns s owner) \<or>
      role = PodRoleHelper \<and> d = Ingress \<and> pol = last (sessionNetworkPolicies ns s owner))"
  using assms by (auto simp: sessionNetworkPolicies_def governs_def role_selector_le session_pod_def label_defs)

lemma policies_of_session:
  assumes "in_force ns rounds policies" "session_pod ns sid role e"
  shows "(pol \<in> policies \<and> governs d pol e) \<longleftrightarrow>
    (\<exists>owner. (sid, owner) \<in> rounds \<and>
      (role = PodRoleWorkload \<and> d = Egress \<and> pol = hd (sessionNetworkPolicies ns sid owner) \<or>
       role = PodRoleHelper \<and> d = Ingress \<and> pol = last (sessionNetworkPolicies ns sid owner)))" (is "?L \<longleftrightarrow> ?R")
proof
  assume L: ?L
  then have "nw_Namespace pol = ns" using assms(2) by (simp add: governs_def session_pod_def)
  then obtain s owner where "(s, owner) \<in> rounds" "pol \<in> set (sessionNetworkPolicies ns s owner)"
    using L assms(1) unfolding in_force_def by fastforce
  then show ?R using governs_session [OF _ assms(2)] L by blast
next
  assume ?R
  then obtain owner where o: "(sid, owner) \<in> rounds"
    "role = PodRoleWorkload \<and> d = Egress \<and> pol = hd (sessionNetworkPolicies ns sid owner) \<or>
     role = PodRoleHelper \<and> d = Ingress \<and> pol = last (sessionNetworkPolicies ns sid owner)" by blast
  then have pol: "pol \<in> set (sessionNetworkPolicies ns sid owner)" by (auto simp: sessionNetworkPolicies_def)
  then have "pol \<in> policies" using o(1) assms(1) unfolding in_force_def by blast
  then show ?L using governs_session [OF pol assms(2)] o by blast
qed

text \<open>All rounds of a session are of its type.\<close>

definition typed_rounds :: "(string \<times> kube_pod) set \<Rightarrow> string \<Rightarrow> string \<Rightarrow> bool" where
  "typed_rounds rounds sid t =
     ((\<exists>owner. (sid, owner) \<in> rounds) \<and> (\<forall>owner. (sid, owner) \<in> rounds \<longrightarrow> kp_Labels owner LabelWorkloadType = Some t))"

text \<open>The policy of a round that governs a role, and its direction.\<close>

definition role_policy :: "string \<Rightarrow> string \<Rightarrow> string \<Rightarrow> kube_pod \<Rightarrow> NetworkPolicy" where
  "role_policy ns sid role owner =
     (if role = PodRoleWorkload then hd (sessionNetworkPolicies ns sid owner) else last (sessionNetworkPolicies ns sid owner))"

lemma admitted_session:
  assumes "in_force ns rounds policies" "session_pod ns sid role e" "typed_rounds rounds sid t"
    and "(role, d) = (PodRoleWorkload, Egress) \<or> (role, d) = (PodRoleHelper, Ingress)"
  shows "admitted d policies e other pp \<longleftrightarrow>
    (\<exists>owner. (sid, owner) \<in> rounds \<and> (\<exists>r \<in> set (nw_Rules (role_policy ns sid role owner)). rule_admits ns r other pp))"
proof -
  have governing: "pol \<in> policies \<and> governs d pol e \<longleftrightarrow> (\<exists>owner. (sid, owner) \<in> rounds \<and> pol = role_policy ns sid role owner)" for pol
    using policies_of_session [OF assms(1,2), of pol d] assms(4) by (auto simp: role_policy_def label_defs)
  have ns: "nw_Namespace (role_policy ns sid role owner) = ns" for owner
    by (simp add: role_policy_def sessionNetworkPolicies_def)
  have "\<not> (\<forall>pol \<in> policies. \<not> governs d pol e)" using governing assms(3) unfolding typed_rounds_def by blast
  then have "admitted d policies e other pp \<longleftrightarrow>
      (\<exists>pol. (pol \<in> policies \<and> governs d pol e) \<and> (\<exists>r \<in> set (nw_Rules pol). rule_admits (nw_Namespace pol) r other pp))"
    unfolding admitted_def by blast
  then show ?thesis unfolding governing using ns by metis
qed

lemma workload_egress:
  assumes "in_force ns rounds policies" "typed_rounds rounds sid t" "session_pod ns sid PodRoleWorkload src"
  shows "admitted Egress policies src dst pp \<longleftrightarrow>
    kube_dns dst \<and> (pp = (UDP, 53) \<or> pp = (TCP, 53)) \<or> session_pod ns sid PodRoleHelper dst \<and> pp \<in> session_ports t"
  using assms(2) unfolding admitted_session [OF assms(1,3,2), of Egress, simplified] typed_rounds_def role_policy_def
  by (auto simp: sessionNetworkPolicies_def dns_admits role_rule_admits helperPolicyPorts_some helper_ports)

lemma helper_ingress:
  assumes "in_force ns rounds policies" "typed_rounds rounds sid t" "session_pod ns sid PodRoleHelper dst"
  shows "admitted Ingress policies dst src pp \<longleftrightarrow> session_pod ns sid PodRoleWorkload src \<and> pp \<in> session_ports t"
  using assms(2) unfolding admitted_session [OF assms(1,3,2), of Ingress, simplified] typed_rounds_def role_policy_def
  by (auto simp: sessionNetworkPolicies_def role_rule_admits helperPolicyPorts_some helper_ports PodRoleHelper_def PodRoleWorkload_def)

lemma buildPod_session_pod:
  assumes "buildPod co sid ref sfx ws h = Inr p" "NormalizeWorkloadType (ws_Type ws) = Inr t"
  shows "session_pod (co_namespace co) sid PodRoleWorkload (endpoint_of nsl p)"
  using assms by (auto simp: buildPod_Inr workload_pod_def session_pod_def endpoint_of_def session_labels_def label_defs Let_def)

lemma helper_session_pod:
  assumes "helperPodSpec co sid sfx t plugins = Inr q"
  shows "session_pod (co_namespace co) sid PodRoleHelper (endpoint_of nsl q)" "kp_Labels q LabelWorkloadType = Some t"
  using assms by (auto simp: session_pod_def endpoint_of_def session_labels_def label_defs elim!: helperPodSpec_Inr)

text \<open>C16: the network boundary of an approval-gated session. While the policies of the namespace are those the orchestrator
  made for its provisioning rounds, the session's workload pod may open connections exactly to the cluster's name service on
  port 53 (UDP and TCP) and to the helper pods of its own session on the ports of its type; each of these connections is made when
  the other end's policies admit it, as the name service's do when no policy governs it, and no other is. Its helper pod is
  reached exactly on those ports, by workload pods of its own session only. The K3s MCP proxy's port is open for
  minimax-code alone.\<close>

theorem network_boundary:
  assumes "in_force (co_namespace co) rounds policies" "(sid, owner) \<in> rounds"
    and "\<forall>o'. (sid, o') \<in> rounds \<longrightarrow> kp_Labels o' LabelWorkloadType = Some t"
    and "NormalizeWorkloadType (ws_Type ws) = Inr t" "buildPod co sid ref sfx ws h = Inr p" "helperPodSpec co sid sfx t plugins = Inr q"
  shows "(connects policies (endpoint_of nsl p) dst pp \<longleftrightarrow>
            (kube_dns dst \<and> pp \<in> {(UDP, 53), (TCP, 53)} \<or> session_pod (co_namespace co) sid PodRoleHelper dst \<and> pp \<in> session_ports t) \<and>
            admitted Ingress policies dst (endpoint_of nsl p) pp) \<and>
         (kube_dns dst \<and> pp \<in> {(UDP, 53), (TCP, 53)} \<and> (\<forall>pol \<in> policies. \<not> governs Ingress pol dst) \<longrightarrow>
            connects policies (endpoint_of nsl p) dst pp) \<and>
         (connects policies (endpoint_of nsl p) (endpoint_of nsl q) pp \<longleftrightarrow> pp \<in> session_ports t) \<and>
         (connects policies src (endpoint_of nsl q) pp \<longrightarrow>
            session_pod (co_namespace co) sid PodRoleWorkload src \<and> pp \<in> session_ports t)"
proof -
  have typed: "typed_rounds rounds sid t" using assms(2,3) by (auto simp: typed_rounds_def)
  note src = buildPod_session_pod [OF assms(5,4), of nsl] and dst = helper_session_pod(1) [OF assms(6), of nsl]
  have open_dns: "\<forall>pol \<in> policies. \<not> governs Ingress pol dst \<Longrightarrow> admitted Ingress policies dst (endpoint_of nsl p) pp"
    by (simp add: admitted_def)
  show ?thesis
    using workload_egress [OF assms(1) typed src] helper_ingress [OF assms(1) typed dst] src dst open_dns
    unfolding connects_def by auto
qed

definition sample_dns :: endpoint where
  "sample_dns = \<lparr>en_Namespace = ''kube-system'', en_NamespaceLabels = [''kubernetes.io/metadata.name'' \<mapsto> ''kube-system''],
     en_Labels = [''k8s-app'' \<mapsto> ''kube-dns'']\<rparr>"

theorem network_boundary_witness:
  "\<exists>p q. buildPod sample_co sample_sid [] [] sample_spec no_helper = Inr p \<and>
     helperPodSpec sample_co sample_sid [] WorkloadTypeApprovalGated None = Inr q \<and>
     connects (set (sessionNetworkPolicies ''ns'' sample_sid q)) (endpoint_of Map.empty p) (endpoint_of Map.empty q) (TCP, 8092) \<and>
     \<not> connects (set (sessionNetworkPolicies ''ns'' sample_sid q)) (endpoint_of Map.empty p) (endpoint_of Map.empty q) (TCP, 8093) \<and>
     connects (set (sessionNetworkPolicies ''ns'' sample_sid q)) (endpoint_of Map.empty p) sample_dns (UDP, 53)"
proof -
  obtain p q where pq: "buildPod sample_co sample_sid [] [] sample_spec no_helper = Inr p"
    "helperPodSpec sample_co sample_sid [] WorkloadTypeApprovalGated None = Inr q" using sample_pods by blast
  have ns: "co_namespace sample_co = ''ns''" by (simp add: sample_co_def)
  have t: "NormalizeWorkloadType (ws_Type sample_spec) = Inr WorkloadTypeApprovalGated" by code_simp
  have force: "in_force (co_namespace sample_co) {(sample_sid, q)} (set (sessionNetworkPolicies ''ns'' sample_sid q))"
    unfolding ns by (auto simp: in_force_def sessionNetworkPolicies_def)
  have "\<forall>o'. (sample_sid, o') \<in> {(sample_sid, q)} \<longrightarrow> kp_Labels o' LabelWorkloadType = Some WorkloadTypeApprovalGated"
    using helper_session_pod(2) [OF pq(2)] by simp
  note b = network_boundary [OF force _ this t pq, of q Map.empty]
  have "\<forall>pol \<in> set (sessionNetworkPolicies ''ns'' sample_sid q). \<not> governs Ingress pol sample_dns"
    by (simp add: sessionNetworkPolicies_def governs_def sample_dns_def)
  moreover have "kube_dns sample_dns" by (simp add: kube_dns_def sample_dns_def)
  ultimately show ?thesis
    using b [of sample_dns "(UDP, 53)"] b [of sample_dns "(TCP, 8092)"] b [of sample_dns "(TCP, 8093)"] pq
    by (auto simp: session_ports_def WorkloadTypeApprovalGated_def WorkloadTypeMiniMaxCode_def)
qed

end
