(* ===== verification/Orchestrator_Laws.thy ===== *)
theory Orchestrator_Laws
  imports Pod_Laws
begin

text \<open>
  What a provisioning round does to the cluster, whatever the API server answers. \<open>instrument_co\<close> records every call of the
  orchestrator with its answer; the statements are about that log.
\<close>

section \<open>Calls\<close>

datatype kube_event =
    KCreate string kube_pod "goerr + kube_pod"
  | KDelete string string "goerr + unit"
  | KGet string string "goerr + kube_pod"
  | KClaim string shared_claim "goerr + unit"
  | KPolicy string NetworkPolicy "goerr + unit"
  | KDial string "goerr + unit"

definition unlogged_co :: "('w, 'a) act \<Rightarrow> ('w \<times> kube_event list, 'a) act" where
  "unlogged_co m wl = (case m (fst wl) of (r, w') \<Rightarrow> (r, (w', snd wl)))"

definition instrument_co :: "'w ClientOrchestrator \<Rightarrow> ('w \<times> kube_event list) ClientOrchestrator" where
  "instrument_co co =
     \<lparr>co_namespace = co_namespace co, co_image = co_image co, co_claudeCredentialsSecret = co_claudeCredentialsSecret co,
      co_claudeConfigConfigMap = co_claudeConfigConfigMap co, co_approvalGatewayURL = co_approvalGatewayURL co,
      co_repoAccessURL = co_repoAccessURL co, co_dropURL = co_dropURL co,
      co_miniMaxCredentialsSecret = co_miniMaxCredentialsSecret co, co_miniMaxConfigConfigMap = co_miniMaxConfigConfigMap co,
      co_codexCredentialsSecret = co_codexCredentialsSecret co, co_codexConfigConfigMap = co_codexConfigConfigMap co,
      co_codexPlugins = co_codexPlugins co, co_codexTask = co_codexTask co, co_claudeAuthMode = co_claudeAuthMode co,
      co_sharedVolumeStorageClass = co_sharedVolumeStorageClass co, co_sharedVolumeSize = co_sharedVolumeSize co,
      co_workloadImages = co_workloadImages co, co_shell = co_shell co, co_agentPort = co_agentPort co,
      co_CreatePod = (\<lambda>ns p. logged (KCreate ns p) (co_CreatePod co ns p)),
      co_DeletePod = (\<lambda>ns n. logged (KDelete ns n) (co_DeletePod co ns n)),
      co_GetPod = (\<lambda>ns n. logged (KGet ns n) (co_GetPod co ns n)),
      co_CreateClaim = (\<lambda>ns c. logged (KClaim ns c) (co_CreateClaim co ns c)),
      co_CreatePolicy = (\<lambda>ns p. logged (KPolicy ns p) (co_CreatePolicy co ns p)),
      co_rand = unlogged_co (co_rand co), co_dial = (\<lambda>u. logged (KDial u) (co_dial co u)),
      co_ticks = (\<lambda>wl. case co_ticks co (fst wl) of (n, w') \<Rightarrow> (n, (w', snd wl)))\<rparr>"

lemma instrument_co_sel [simp]:
  "co_namespace (instrument_co co) = co_namespace co"
  "co_CreatePod (instrument_co co) = (\<lambda>ns p. logged (KCreate ns p) (co_CreatePod co ns p))"
  "co_DeletePod (instrument_co co) = (\<lambda>ns n. logged (KDelete ns n) (co_DeletePod co ns n))"
  "co_GetPod (instrument_co co) = (\<lambda>ns n. logged (KGet ns n) (co_GetPod co ns n))"
  "co_CreateClaim (instrument_co co) = (\<lambda>ns c. logged (KClaim ns c) (co_CreateClaim co ns c))"
  "co_CreatePolicy (instrument_co co) = (\<lambda>ns p. logged (KPolicy ns p) (co_CreatePolicy co ns p))"
  "co_rand (instrument_co co) = unlogged_co (co_rand co)"
  by (simp_all add: instrument_co_def)

section \<open>The ledger of pods\<close>

text \<open>The pods a log leaves: created, and no delete issued since.\<close>

fun ledger :: "string set \<Rightarrow> kube_event list \<Rightarrow> string set" where
  "ledger S [] = S"
| "ledger S (KCreate ns spec (Inr p) # es) = ledger (insert (kp_Name p) S) es"
| "ledger S (KDelete ns n r # es) = ledger (S - {n}) es"
| "ledger S (_ # es) = ledger S es"

lemma ledger_append: "ledger S (xs @ ys) = ledger (ledger S xs) ys"
  by (induction S xs rule: ledger.induct) auto

definition accepted :: "goerr + unit \<Rightarrow> bool" where
  "accepted r = (case r of Inr _ \<Rightarrow> True | Inl e \<Rightarrow> IsAlreadyExists e)"

text \<open>\<open>walled\<close>: a helper pod of the session was created and both its policies were made.\<close>

definition walled :: "string \<Rightarrow> string \<Rightarrow> kube_event list \<Rightarrow> bool" where
  "walled ns sid l =
     (\<exists>spec q. KCreate ns spec (Inr q) \<in> set l \<and>
        (\<forall>pol \<in> set (sessionNetworkPolicies ns sid q). \<exists>r. KPolicy ns pol r \<in> set l \<and> accepted r))"

definition gated_workload :: "kube_pod \<Rightarrow> bool" where
  "gated_workload p =
     (kp_Labels p LabelPodRole = Some PodRoleWorkload \<and> (\<exists>t. kp_Labels p LabelWorkloadType = Some t \<and> HasApprovalGate t))"

text \<open>\<open>wall_first\<close>: after the calls \<open>pre\<close>, no gated workload pod is asked for unless the wall stands.\<close>

fun wall_first :: "string \<Rightarrow> string \<Rightarrow> kube_event list \<Rightarrow> kube_event list \<Rightarrow> bool" where
  "wall_first ns sid pre [] = True"
| "wall_first ns sid pre (e # es) =
     ((case e of KCreate _ spec _ \<Rightarrow> gated_workload spec \<longrightarrow> walled ns sid pre | _ \<Rightarrow> True) \<and> wall_first ns sid (pre @ [e]) es)"

lemma wall_first_append: "wall_first ns sid pre (xs @ ys) \<longleftrightarrow> wall_first ns sid pre xs \<and> wall_first ns sid (pre @ xs) ys"
  by (induction xs arbitrary: pre) auto

definition no_create :: "kube_event \<Rightarrow> bool" where
  "no_create e = (case e of KCreate _ _ _ \<Rightarrow> False | _ \<Rightarrow> True)"

lemma wall_first_quiet: "list_all no_create es \<Longrightarrow> wall_first ns sid pre es"
  by (induction es arbitrary: pre) (auto simp: no_create_def split: kube_event.splits)

definition podless :: "kube_event \<Rightarrow> bool" where
  "podless e = (case e of KCreate _ _ _ \<Rightarrow> False | KDelete _ _ _ \<Rightarrow> False | _ \<Rightarrow> True)"

lemma podless_simps [simp]:
  "podless (KGet ns n g)" "podless (KClaim ns c x)" "podless (KPolicy ns p x)" "podless (KDial u x)"
  "\<not> podless (KCreate ns spec a)" "\<not> podless (KDelete ns n x)"
  by (simp_all add: podless_def)

lemma ledger_podless: "list_all podless es \<Longrightarrow> ledger S es = S"
  by (induction S es rule: ledger.induct) (auto simp: podless_def)

lemma podless_no_create: "list_all podless es \<Longrightarrow> list_all no_create es"
  by (auto simp: list_all_iff podless_def no_create_def split: kube_event.splits)

section \<open>Steps\<close>

text \<open>\<open>calls m A wl\<close>: from \<open>wl\<close>, the operation appends calls \<open>es\<close> that stand in relation \<open>A\<close> to its result.\<close>

definition calls :: "('w \<times> kube_event list, 'a) act \<Rightarrow> (goerr + 'a \<Rightarrow> kube_event list \<Rightarrow> bool) \<Rightarrow> bool" where
  "calls m A = (\<forall>wl r wl'. m wl = (r, wl') \<longrightarrow> (\<exists>es. snd wl' = snd wl @ es \<and> A r es))"

lemma calls_mono: "calls m A \<Longrightarrow> (\<And>r es. A r es \<Longrightarrow> B r es) \<Longrightarrow> calls m B"
  unfolding calls_def by blast

lemma calls_ret: "calls (ret x) (\<lambda>r es. r = Inr x \<and> es = [])"
  by (simp add: calls_def ret_def)

lemma calls_throw: "calls (throw e) (\<lambda>r es. r = Inl e \<and> es = [])"
  by (simp add: calls_def throw_def)

lemma calls_lift: "calls (lift x) (\<lambda>r es. r = x \<and> es = [])"
  by (simp add: calls_def lift_def)

lemma calls_logged: "calls (logged ev m) (\<lambda>r es. es = [ev r])"
  by (auto simp: calls_def logged_def split: prod.splits)

lemma calls_unlogged: "calls (unlogged_co m) (\<lambda>r es. es = [])"
  by (auto simp: calls_def unlogged_co_def split: prod.splits)

lemma calls_tryE:
  assumes "calls m A" "\<And>r. calls (f r) (B r)"
  shows "calls (tryE m f) (\<lambda>r es. \<exists>r1 xs ys. es = xs @ ys \<and> A r1 xs \<and> B r1 r ys)"
  unfolding calls_def
proof (intro allI impI)
  fix wl r wl' assume run: "tryE m f wl = (r, wl')"
  obtain r1 wl1 where m: "m wl = (r1, wl1)" by (rule prod.exhaust)
  then have "f r1 wl1 = (r, wl')" using run by (simp add: tryE_def)
  with m assms obtain xs ys where "snd wl1 = snd wl @ xs" "A r1 xs" "snd wl' = snd wl1 @ ys" "B r1 r ys"
    unfolding calls_def by meson
  then show "\<exists>es. snd wl' = snd wl @ es \<and> (\<exists>r1 xs ys. es = xs @ ys \<and> A r1 xs \<and> B r1 r ys)" by auto
qed

lemma calls_bindE:
  assumes "calls m A" "\<And>x. calls (f x) (B x)"
  shows "calls (bindE m f) (\<lambda>r es. (\<exists>e. r = Inl e \<and> A (Inl e) es) \<or> (\<exists>x xs ys. es = xs @ ys \<and> A (Inr x) xs \<and> B x r ys))"
proof -
  have step: "calls (case r of Inl e \<Rightarrow> throw e | Inr x \<Rightarrow> f x) (\<lambda>q ys. case r of Inl e \<Rightarrow> q = Inl e \<and> ys = [] | Inr x \<Rightarrow> B x q ys)" for r
    using assms(2) calls_throw by (cases r) (auto intro: calls_mono)
  show ?thesis
    unfolding bindE_tryE
    by (rule calls_mono [OF calls_tryE [OF assms(1) step]]) (fastforce split: sum.splits)
qed

lemma calls_wrapE:
  assumes "calls m A"
  shows "calls (wrapE what m) (\<lambda>r es. case r of Inl e \<Rightarrow> \<exists>e'. A (Inl e') es | Inr x \<Rightarrow> A (Inr x) es)"
proof -
  have step: "calls (case r of Inl e \<Rightarrow> throw (Errorf what [e]) | Inr x \<Rightarrow> ret x)
      (\<lambda>q ys. ((\<exists>e. r = Inl e \<and> q = Inl (Errorf what [e])) \<or> (\<exists>x. r = Inr x \<and> q = Inr x)) \<and> ys = [])" for r
    by (cases r) (auto simp: calls_def throw_def ret_def)
  show ?thesis
    unfolding wrapE_def by (rule calls_mono [OF calls_tryE [OF assms step]]) (auto split: sum.splits)
qed

lemma calls_if: "(b \<Longrightarrow> calls m A) \<Longrightarrow> (\<not> b \<Longrightarrow> calls k B) \<Longrightarrow> calls (if b then m else k) (\<lambda>r es. if b then A r es else B r es)"
  by simp

lemma calls_ignoreE:
  assumes "calls m A" "calls k B"
  shows "calls (ignoreE m k) (\<lambda>r es. \<exists>r1 xs ys. es = xs @ ys \<and> A r1 xs \<and> B r ys)"
  unfolding ignoreE_def using calls_tryE [OF assms(1), of "\<lambda>_. k" "\<lambda>_. B"] assms(2) by simp

section \<open>Provisioning one pod\<close>

lemma calls_tolerate: "calls (tolerate_existing what (logged ev m)) (\<lambda>r es. \<exists>x. es = [ev x] \<and> (r = Inr () \<longrightarrow> accepted x))"
proof -
  have step: "calls (case x of Inl e \<Rightarrow> if \<not> IsAlreadyExists e then throw (Errorf what [e]) else ret () | Inr _ \<Rightarrow> ret ())
      (\<lambda>r es. (r = Inr () \<longrightarrow> accepted x) \<and> es = [])" for x
    by (auto simp: calls_def throw_def ret_def accepted_def split: sum.split)
  show ?thesis
    unfolding tolerate_existing_def by (rule calls_mono [OF calls_tryE [OF calls_logged step]]) auto
qed

lemma calls_policies:
  "calls (apply_policies (instrument_co co) ps)
     (\<lambda>r es. list_all podless es \<and> (r = Inr () \<longrightarrow> (\<forall>p \<in> set ps. \<exists>x. KPolicy (co_namespace co) p x \<in> set es \<and> accepted x)))"
proof (induction ps)
  case Nil
  show ?case using calls_ret by (simp add: calls_def ret_def)
next
  case (Cons p ps)
  show ?case
    by (simp add: thenE_def, rule calls_mono [OF calls_bindE [OF calls_tolerate Cons.IH]]) (auto simp: list_all_iff, blast+)
qed

definition after_helper :: "'w ClientOrchestrator \<Rightarrow> string \<Rightarrow> kube_pod \<Rightarrow> ('w, unit) act" where
  "after_helper co sid created = thenE (applySharedVolumeClaim co sid created) (applySessionNetworkPolicies co sid created)"

lemma after_helper_fun:
  "(\<lambda>created. thenE (applySharedVolumeClaim co sid created) (applySessionNetworkPolicies co sid created)) = after_helper co sid"
  by (simp add: after_helper_def fun_eq_iff)

lemma calls_after_helper:
  "calls (after_helper (instrument_co co) sid q)
     (\<lambda>r es. list_all podless es \<and>
        (r = Inr () \<longrightarrow> (\<forall>p \<in> set (sessionNetworkPolicies (co_namespace co) sid q). \<exists>x. KPolicy (co_namespace co) p x \<in> set es \<and> accepted x)))"
proof -
  have claim: "calls (applySharedVolumeClaim (instrument_co co) sid q) (\<lambda>r es. list_all podless es)"
  proof (cases "sharedVolumeEnabled (instrument_co co)")
    case True
    then show ?thesis
      unfolding applySharedVolumeClaim_def by simp (rule calls_mono [OF calls_tolerate], auto)
  next
    case False
    then show ?thesis by (simp add: applySharedVolumeClaim_def calls_def ret_def)
  qed
  show ?thesis
    unfolding after_helper_def applySessionNetworkPolicies_def thenE_def instrument_co_sel
    by (rule calls_mono [OF calls_bindE [OF claim calls_policies]]) (auto, metis)
qed

lemma calls_wait:
  "calls (wait_loop (instrument_co co) n k)
     (\<lambda>r es. list_all podless es \<and> (\<forall>p. r = Inr p \<longrightarrow> podReady p \<and> es \<noteq> [] \<and> last es = KGet (co_namespace co) n (Inr p)))"
proof (induction k)
  case 0
  have step: "calls (case r of Inr pod \<Rightarrow> if podReady pod then ret pod else throw e | Inl e' \<Rightarrow> throw e)
      (\<lambda>q es. es = [] \<and> (\<forall>p. q = Inr p \<longrightarrow> podReady p \<and> r = Inr p))" for r e
    by (auto simp: calls_def ret_def throw_def split: sum.split)
  show ?case
    unfolding wait_loop.simps [of _ _ 0] nat.case instrument_co_sel
    by (rule calls_mono [OF calls_tryE [OF calls_logged step]]) (auto)
next
  case (Suc k)
  have step: "calls (case r of Inr pod \<Rightarrow> if podReady pod then ret pod else wait_loop (instrument_co co) n k | Inl e \<Rightarrow> wait_loop (instrument_co co) n k)
      (\<lambda>q es. list_all podless es \<and> (\<forall>p. q = Inr p \<longrightarrow> podReady p \<and>
         (es = [] \<and> r = Inr p \<or> es \<noteq> [] \<and> last es = KGet (co_namespace co) n (Inr p))))" for r
  proof (cases "\<exists>pod. r = Inr pod \<and> podReady pod")
    case True
    then show ?thesis by (auto simp: calls_def ret_def)
  next
    case False
    then show ?thesis by (cases r) (auto intro: calls_mono [OF Suc.IH])
  qed
  show ?case
    unfolding wait_loop.simps [of _ _ "Suc k"] nat.case instrument_co_sel
    by (rule calls_mono [OF calls_tryE [OF calls_logged step]]) (auto)
qed

lemma calls_waitReady:
  "calls (waitReady (instrument_co co) n)
     (\<lambda>r es. list_all podless es \<and> (\<forall>p. r = Inr p \<longrightarrow> podReady p \<and> es \<noteq> [] \<and> last es = KGet (co_namespace co) n (Inr p)))"
  unfolding calls_def
proof (intro allI impI)
  fix wl r wl' assume run: "waitReady (instrument_co co) n wl = (r, wl')"
  obtain k w1 where "co_ticks co (fst wl) = (k, w1)" by (rule prod.exhaust)
  then have "wait_loop (instrument_co co) n k (w1, snd wl) = (r, wl')"
    using run by (simp add: waitReady_def instrument_co_def)
  then show "\<exists>es. snd wl' = snd wl @ es \<and> list_all podless es \<and> (\<forall>p. r = Inr p \<longrightarrow> podReady p \<and> es \<noteq> [] \<and> last es = KGet (co_namespace co) n (Inr p))"
    using calls_wait [of co n k] unfolding calls_def by (metis snd_conv)
qed

text \<open>The namespace a delete goes to.\<close>

definition delete_ns :: "'w ClientOrchestrator \<Rightarrow> PodRef \<Rightarrow> string" where
  "delete_ns co ref = (if pr_Namespace ref = [] then co_namespace co else pr_Namespace ref)"

lemma delete_ns_own [simp]: "pr_Namespace ref = co_namespace co \<Longrightarrow> delete_ns co ref = co_namespace co"
  by (simp add: delete_ns_def)

lemma calls_cleanup_one:
  "calls (cleanup (instrument_co co) [ref] (throw e)) (\<lambda>r es. r = Inl e \<and> (\<exists>x. es = [KDelete (delete_ns co ref) (pr_Name ref) x]))"
proof -
  let ?ns = "delete_ns co ref"
  have step: "calls (case r of Inl e \<Rightarrow> if \<not> IsNotFound e then throw (Errorf ''delete pod'' [e]) else ret () | Inr _ \<Rightarrow> ret ())
      (\<lambda>q es. es = [])" for r
    by (auto simp: calls_def ret_def throw_def split: sum.split)
  have one: "calls (stopOne (instrument_co co) ref) (\<lambda>r es. \<exists>x. es = [KDelete ?ns (pr_Name ref) x])"
    unfolding stopOne_def Let_def instrument_co_sel delete_ns_def [symmetric]
    by (rule calls_mono [OF calls_tryE [OF calls_logged step]]) auto
  have "calls (co_Stop (instrument_co co) [ref]) (\<lambda>r es. \<exists>x. es = [KDelete ?ns (pr_Name ref) x])"
    unfolding co_Stop.simps thenE_def by (rule calls_mono [OF calls_bindE [OF one calls_ret]]) auto
  from calls_ignoreE [OF this calls_throw, of e] show ?thesis
    unfolding cleanup_def by (simp del: co_Stop.simps) (erule calls_mono, auto)
qed

text \<open>What provisioning a pod leaves in the log: a refused create; a created pod whose set-up or wait failed and whose
  delete was issued; or a created pod, its set-up, and reads of which the last saw it ready.\<close>

definition provisioned ::
    "string \<Rightarrow> kube_pod \<Rightarrow> (kube_pod \<Rightarrow> kube_event list \<Rightarrow> bool) \<Rightarrow> goerr + PodRef \<Rightarrow> kube_event list \<Rightarrow> bool" where
  "provisioned ns spec A r es =
     (case r of
        Inl e \<Rightarrow> (\<exists>x. es = [KCreate ns spec (Inl x)]) \<or>
          (\<exists>q as x. es = KCreate ns spec (Inr q) # as @ [KDelete ns (kp_Name q) x] \<and> list_all podless as)
      | Inr ref \<Rightarrow>
          (\<exists>q as gs p. es = KCreate ns spec (Inr q) # as @ gs \<and> list_all podless (as @ gs) \<and> A q as \<and>
             pr_Name ref = kp_Name q \<and> pr_Namespace ref = ns \<and> pr_IP ref = kp_PodIP p \<and>
             podReady p \<and> gs \<noteq> [] \<and> last gs = KGet ns (kp_Name q) (Inr p)))"

text \<open>Provisioning, cut at the created pod and at its set-up.\<close>

definition pending_ref :: "string \<Rightarrow> kube_pod \<Rightarrow> PodRef" where
  "pending_ref ns q = \<lparr>pr_Name = kp_Name q, pr_Namespace = ns, pr_IP = []\<rparr>"

definition await_pod :: "'w ClientOrchestrator \<Rightarrow> kube_pod \<Rightarrow> ('w, PodRef) act" where
  "await_pod co q =
     tryE (waitReady co (kp_Name q)) (\<lambda>ready. case ready of
       Inl e \<Rightarrow> cleanup co [pending_ref (co_namespace co) q] (throw e)
     | Inr pod \<Rightarrow> ret ((pending_ref (co_namespace co) q)\<lparr>pr_IP := kp_PodIP pod\<rparr>))"

definition set_up_pod :: "'w ClientOrchestrator \<Rightarrow> ('w, unit) act \<Rightarrow> kube_pod \<Rightarrow> ('w, PodRef) act" where
  "set_up_pod co g q =
     tryE g (\<lambda>after. case after of
       Inl e \<Rightarrow> cleanup co [pending_ref (co_namespace co) q] (throw e)
     | Inr _ \<Rightarrow> await_pod co q)"

lemma provision_cut:
  "provision co spec f =
     bindE (wrapE ''create pod'' (co_CreatePod co (co_namespace co) spec)) (\<lambda>q. set_up_pod co (case f of Some h \<Rightarrow> h q | None \<Rightarrow> ret ()) q)"
  unfolding provision_def set_up_pod_def await_pod_def pending_ref_def Let_def by simp

lemma calls_cleanup_pending:
  "calls (cleanup (instrument_co co) [pending_ref (co_namespace co) q] (throw e))
     (\<lambda>r es. r = Inl e \<and> (\<exists>x. es = [KDelete (co_namespace co) (kp_Name q) x]))"
  using calls_cleanup_one [of co "pending_ref (co_namespace co) q" e] by (simp add: pending_ref_def)

definition awaited :: "string \<Rightarrow> kube_pod \<Rightarrow> goerr + PodRef \<Rightarrow> kube_event list \<Rightarrow> bool" where
  "awaited ns q r es =
     ((\<exists>e as x. r = Inl e \<and> es = as @ [KDelete ns (kp_Name q) x] \<and> list_all podless as) \<or>
      (\<exists>p. r = Inr ((pending_ref ns q)\<lparr>pr_IP := kp_PodIP p\<rparr>) \<and> list_all podless es \<and> podReady p \<and> es \<noteq> [] \<and>
         last es = KGet ns (kp_Name q) (Inr p)))"

lemma calls_await: "calls (await_pod (instrument_co co) q) (awaited (co_namespace co) q)"
proof -
  have step: "calls (case ready of
        Inl e \<Rightarrow> cleanup (instrument_co co) [pending_ref (co_namespace co) q] (throw e)
      | Inr pod \<Rightarrow> ret ((pending_ref (co_namespace co) q)\<lparr>pr_IP := kp_PodIP pod\<rparr>))
      (\<lambda>r es. (\<exists>e x. r = Inl e \<and> es = [KDelete (co_namespace co) (kp_Name q) x]) \<or>
         (\<exists>p. ready = Inr p \<and> es = [] \<and> r = Inr ((pending_ref (co_namespace co) q)\<lparr>pr_IP := kp_PodIP p\<rparr>)))" for ready
  proof (cases ready)
    case (Inl e)
    then show ?thesis using calls_cleanup_pending [of co q e] by (auto elim: calls_mono)
  next
    case (Inr p)
    then show ?thesis by (simp add: calls_def ret_def)
  qed
  show ?thesis
    unfolding await_pod_def instrument_co_sel
    by (rule calls_mono [OF calls_tryE [OF calls_waitReady step]]) (auto simp: awaited_def)
qed

lemma provisioned_set_up:
  assumes "list_all podless xs" "awaited ns q r ys" "A q xs \<or> isl r"
  shows "provisioned ns spec A r (KCreate ns spec (Inr q) # xs @ ys)"
proof (cases r)
  case (Inl e)
  with assms(2) obtain as x where "ys = as @ [KDelete ns (kp_Name q) x]" "list_all podless as" by (auto simp: awaited_def)
  then have "xs @ ys = (xs @ as) @ [KDelete ns (kp_Name q) x]" "list_all podless (xs @ as)" using assms(1) by auto
  then show ?thesis using Inl unfolding provisioned_def by auto
next
  case (Inr ref)
  with assms(2) obtain p where "ref = (pending_ref ns q)\<lparr>pr_IP := kp_PodIP p\<rparr>" "list_all podless ys" "podReady p" "ys \<noteq> []"
    "last ys = KGet ns (kp_Name q) (Inr p)" by (auto simp: awaited_def)
  then show ?thesis
    using Inr assms(1,3) unfolding provisioned_def Inr sum.case
    by (intro exI [of _ q] exI [of _ xs] exI [of _ ys] exI [of _ p]) (simp add: pending_ref_def)
qed

lemma calls_set_up:
  assumes "calls g (\<lambda>r es. list_all podless es \<and> (r = Inr () \<longrightarrow> A q es))"
  shows "calls (set_up_pod (instrument_co co) g q) (\<lambda>r es. provisioned (co_namespace co) spec A r (KCreate (co_namespace co) spec (Inr q) # es))"
proof -
  have step: "calls (case after of
        Inl e \<Rightarrow> cleanup (instrument_co co) [pending_ref (co_namespace co) q] (throw e)
      | Inr _ \<Rightarrow> await_pod (instrument_co co) q)
      (\<lambda>r es. awaited (co_namespace co) q r es \<and> (after = Inr () \<or> isl r))" for after
  proof (cases after)
    case (Inl e)
    have "awaited (co_namespace co) q r es" if "r = Inl e \<and> (\<exists>x. es = [KDelete (co_namespace co) (kp_Name q) x])" for r es
      using that by (auto simp: awaited_def)
    with calls_cleanup_pending [of co q e] show ?thesis unfolding Inl by (auto elim: calls_mono)
  next
    case (Inr u)
    show ?thesis unfolding Inr using calls_await [of co q] by simp
  qed
  show ?thesis
    unfolding set_up_pod_def instrument_co_sel
    by (rule calls_mono [OF calls_tryE [OF assms step]]) (auto intro: provisioned_set_up)
qed

lemma provisioned_refused: "provisioned ns spec A (Inl e) [KCreate ns spec (Inl x)]"
  by (simp add: provisioned_def)

lemma calls_provision:
  assumes "\<And>q. calls (case f of Some h \<Rightarrow> h q | None \<Rightarrow> ret ()) (\<lambda>r es. list_all podless es \<and> (r = Inr () \<longrightarrow> A q es))"
  shows "calls (provision (instrument_co co) spec f) (provisioned (co_namespace co) spec A)"
  unfolding provision_cut instrument_co_sel
  by (rule calls_mono [OF calls_bindE [OF calls_wrapE [OF calls_logged] calls_set_up [OF assms]]]) (auto intro: provisioned_refused)

section \<open>A whole round\<close>

lemma ledger_provisioned:
  assumes "provisioned ns spec A r es"
  shows "r = Inl e \<Longrightarrow> ledger S es \<subseteq> S" "r = Inr ref \<Longrightarrow> ledger S es = insert (pr_Name ref) S"
proof -
  show "ledger S es \<subseteq> S" if "r = Inl e"
    using assms that by (auto simp: provisioned_def ledger_append ledger_podless)
  show "ledger S es = insert (pr_Name ref) S" if "r = Inr ref"
    using assms that by (auto simp: provisioned_def ledger_append ledger_podless)
qed

lemma provisioned_seen:
  assumes "provisioned ns spec A r es" "r = Inr ref"
  shows "\<exists>p. KGet ns (pr_Name ref) (Inr p) \<in> set es \<and> podReady p \<and> pr_IP ref = kp_PodIP p"
proof -
  from assms obtain q as gs p where es: "es = KCreate ns spec (Inr q) # as @ gs" "pr_Name ref = kp_Name q" "pr_IP ref = kp_PodIP p" "podReady p"
    "gs \<noteq> []" "last gs = KGet ns (kp_Name q) (Inr p)" by (auto simp: provisioned_def)
  then have "KGet ns (kp_Name q) (Inr p) \<in> set gs" by (metis last_in_set)
  then show ?thesis using es by auto
qed

lemma provisioned_walled:
  assumes "provisioned ns spec (\<lambda>q es. \<forall>p \<in> set (sessionNetworkPolicies ns sid q). \<exists>x. KPolicy ns p x \<in> set es \<and> accepted x) (Inr ref) es"
  shows "walled ns sid es" "pr_Namespace ref = ns"
proof -
  from assms obtain q as gs where es: "es = KCreate ns spec (Inr q) # as @ gs" "pr_Namespace ref = ns"
    "\<forall>p \<in> set (sessionNetworkPolicies ns sid q). \<exists>x. KPolicy ns p x \<in> set as \<and> accepted x" unfolding provisioned_def by auto
  from es(3) have "\<forall>p \<in> set (sessionNetworkPolicies ns sid q). \<exists>x. KPolicy ns p x \<in> set es \<and> accepted x"
    unfolding es(1) by simp blast
  moreover have "KCreate ns spec (Inr q) \<in> set es" by (simp add: es(1))
  ultimately show "walled ns sid es" "pr_Namespace ref = ns" using es(2) unfolding walled_def by blast+
qed

lemma wall_first_provisioned:
  assumes "provisioned ns spec A r es" "gated_workload spec \<longrightarrow> walled ns sid pre"
  shows "wall_first ns sid pre es"
proof -
  obtain x rest where es: "es = KCreate ns spec x # rest" "list_all no_create rest"
  proof (cases r)
    case (Inl e)
    then show ?thesis using assms(1) that podless_no_create by (auto simp: provisioned_def no_create_def)
  next
    case (Inr ref)
    then show ?thesis using assms(1) that podless_no_create by (auto simp: provisioned_def)
  qed
  then show ?thesis using assms(2) wall_first_quiet [OF es(2)] by simp
qed

text \<open>The helper's part of a round.\<close>

definition helper_started :: "'w ClientOrchestrator \<Rightarrow> string \<Rightarrow> string \<Rightarrow> goerr + PodRef list \<times> helperEndpoints \<Rightarrow> kube_event list \<Rightarrow> bool" where
  "helper_started co sid t r es =
     (wall_first (co_namespace co) sid [] es \<and>
      (case r of
         Inl e \<Rightarrow> ledger {} es = {}
       | Inr (aux, h) \<Rightarrow>
           (if HasApprovalGate t
            then walled (co_namespace co) sid es \<and> (\<exists>ref. aux = [ref] \<and> pr_Namespace ref = co_namespace co \<and> ledger {} es = {pr_Name ref})
            else aux = [] \<and> es = [])))"

lemma helper_started_Inr:
  assumes "helper_started co sid t (Inr (aux, h)) es"
  shows "(aux = [] \<or> (\<exists>ref. aux = [ref] \<and> pr_Namespace ref = co_namespace co)) \<and> ledger {} es = set (map pr_Name aux) \<and>
    (HasApprovalGate t \<longrightarrow> walled (co_namespace co) sid es) \<and> wall_first (co_namespace co) sid [] es"
proof (cases "HasApprovalGate t")
  case True
  then obtain ref where "aux = [ref]" "pr_Namespace ref = co_namespace co" "ledger {} es = {pr_Name ref}" "walled (co_namespace co) sid es"
    using assms unfolding helper_started_def by auto
  then show ?thesis using assms by (simp add: helper_started_def)
next
  case False
  then show ?thesis using assms by (simp add: helper_started_def)
qed

lemma helper_not_workload: "helperPodSpec co sid sfx t plugins = Inr spec \<Longrightarrow> \<not> gated_workload spec"
  by (auto simp: gated_workload_def session_labels_def LabelPodRole_def LabelSessionID_def LabelWorkloadType_def labelManagedBy_pod_def
      PodRoleWorkload_def PodRoleHelper_def elim!: helperPodSpec_Inr)

lemma calls_start_helper: "calls (start_helper (instrument_co co) sid sfx t plugins) (helper_started co sid t)"
proof (cases "HasApprovalGate t")
  case False
  then show ?thesis by (simp add: start_helper_def helper_started_def calls_def ret_def)
next
  case gate: True
  let ?ns = "co_namespace co"
  let ?A = "\<lambda>q es. \<forall>p \<in> set (sessionNetworkPolicies ?ns sid q). \<exists>x. KPolicy ?ns p x \<in> set es \<and> accepted x"
  have prov: "calls (provision (instrument_co co) spec (Some (after_helper (instrument_co co) sid))) (provisioned ?ns spec ?A)" for spec
    by (rule calls_provision) (simp add: calls_after_helper)
  have fin: "calls (if pr_IP ref = [] then cleanup (instrument_co co) [ref] (throw e) else ret ([ref], endpointsFor (pr_IP ref)))
      (\<lambda>r es. (\<exists>x. r = Inl e \<and> es = [KDelete (delete_ns co ref) (pr_Name ref) x]) \<or> r = Inr ([ref], endpointsFor (pr_IP ref)) \<and> es = [])"
    for ref and e :: goerr
  proof (cases "pr_IP ref = []")
    case True
    then show ?thesis using calls_cleanup_one [of co ref e] by (auto elim: calls_mono)
  next
    case False
    then show ?thesis by (simp add: calls_def ret_def)
  qed
  show ?thesis
  proof (cases "helperPodSpec (instrument_co co) sid sfx t plugins")
    case (Inl e)
    with gate show ?thesis by (simp add: start_helper_def helper_started_def calls_def bindE_def lift_def)
  next
    case (Inr spec)
    have eq: "start_helper (instrument_co co) sid sfx t plugins =
        bindE (provision (instrument_co co) spec (Some (after_helper (instrument_co co) sid))) (\<lambda>ref.
          if pr_IP ref = [] then cleanup (instrument_co co) [ref] (throw (New ''helper pod reported Ready without a pod IP''))
          else ret ([ref], endpointsFor (pr_IP ref)))"
      using gate Inr unfolding start_helper_def after_helper_fun by (simp add: bindE_def lift_def fun_eq_iff)
    show ?thesis
      unfolding eq
    proof (rule calls_mono [OF calls_bindE [OF prov fin]], elim disjE exE conjE)
      fix r :: "goerr + PodRef list \<times> helperEndpoints" and es e
      assume "r = Inl e" "provisioned ?ns spec ?A (Inl e) es"
      then show "helper_started co sid t r es"
        using ledger_provisioned(1) [of ?ns spec ?A "Inl e" es e "{}"] wall_first_provisioned [of ?ns spec ?A "Inl e" es] helper_not_workload [OF Inr]
        by (simp add: helper_started_def)
    next
      fix r :: "goerr + PodRef list \<times> helperEndpoints" and es ref xs ys
      assume split: "es = xs @ ys" and p: "provisioned ?ns spec ?A (Inr ref) xs"
      have xs: "ledger {} xs = {pr_Name ref}" "wall_first ?ns sid [] xs" "pr_Namespace ref = ?ns" "walled ?ns sid xs"
        using ledger_provisioned(2) [OF p refl, of "{}"] wall_first_provisioned [OF p] helper_not_workload [OF Inr] provisioned_walled [OF p]
        by simp_all
      {
        fix x assume "r = Inl (New ''helper pod reported Ready without a pod IP'')" "ys = [KDelete (delete_ns co ref) (pr_Name ref) x]"
        then show "helper_started co sid t r es" using xs split by (simp add: helper_started_def ledger_append wall_first_append)
      next
        assume "r = Inr ([ref], endpointsFor (pr_IP ref))" "ys = []"
        then show "helper_started co sid t r es" using xs split gate by (simp add: helper_started_def)
      }
    qed
  qed
qed

text \<open>The workload's part, after a prefix of the log that left the auxiliary pods.\<close>

definition set_started :: "string \<Rightarrow> kube_event list \<Rightarrow> goerr + SessionPods \<Rightarrow> kube_event list \<Rightarrow> bool" where
  "set_started ns pre r es =
     (case r of
        Inl e \<Rightarrow> ledger (ledger {} pre) es = {}
      | Inr pods \<Rightarrow>
          ledger (ledger {} pre) es = insert (pr_Name (Workload pods)) (set (map pr_Name (Auxiliary pods))) \<and>
          (\<exists>p. KGet ns (pr_Name (Workload pods)) (Inr p) \<in> set es \<and> podReady p \<and> pr_IP (Workload pods) = kp_PodIP p))"

lemma calls_cleanup_aux:
  assumes "aux = [] \<or> (\<exists>ref. aux = [ref] \<and> pr_Namespace ref = co_namespace co)"
  shows "calls (cleanup (instrument_co co) aux (throw e))
    (\<lambda>r es. r = Inl e \<and> list_all no_create es \<and> (\<forall>S. S \<subseteq> set (map pr_Name aux) \<longrightarrow> ledger S es = {}))"
  using assms
proof (elim disjE exE conjE)
  assume "aux = []"
  then show ?thesis by (simp add: cleanup_def calls_def throw_def)
next
  fix ref assume aux: "aux = [ref]" "pr_Namespace ref = co_namespace co"
  show ?thesis unfolding aux(1) by (rule calls_mono [OF calls_cleanup_one]) (auto simp: no_create_def)
qed

lemma workload_gated:
  assumes "buildPod co sid cpRef sfx ws h = Inr spec" "NormalizeWorkloadType (ws_Type ws) = Inr t" "gated_workload spec"
  shows "HasApprovalGate t"
  using assms by (auto simp: gated_workload_def buildPod_Inr workload_pod_def session_labels_def LabelPodRole_def LabelSessionID_def
      LabelWorkloadType_def labelManagedBy_pod_def Let_def)

lemma calls_start_workload:
  assumes aux: "aux = [] \<or> (\<exists>ref. aux = [ref] \<and> pr_Namespace ref = co_namespace co)" "ledger {} pre = set (map pr_Name aux)"
    and t: "NormalizeWorkloadType (ws_Type ws) = Inr t" "HasApprovalGate t \<longrightarrow> walled (co_namespace co) sid pre"
  shows "calls (start_workload (instrument_co co) sid cpRef sfx ws aux h)
    (\<lambda>r es. wall_first (co_namespace co) sid pre es \<and> set_started (co_namespace co) pre r es \<and> (\<forall>pods. r = Inr pods \<longrightarrow> Auxiliary pods = aux))"
proof (cases "buildPod (instrument_co co) sid cpRef sfx ws h")
  case (Inl e)
  show ?thesis
    unfolding start_workload_def Inl sum.case
    by (rule calls_mono [OF calls_cleanup_aux [OF aux(1)]]) (simp add: set_started_def aux(2) wall_first_quiet)
next
  case (Inr spec)
  let ?ns = "co_namespace co"
  have prov: "calls (provision (instrument_co co) spec None) (provisioned ?ns spec (\<lambda>_ _. True))"
    by (rule calls_provision) (simp add: calls_def ret_def)
  have fin: "calls (case r of Inl e \<Rightarrow> cleanup (instrument_co co) aux (throw e) | Inr ref \<Rightarrow> ret \<lparr>Workload = ref, Auxiliary = aux\<rparr>)
      (\<lambda>q es. (\<exists>e. r = Inl e \<and> q = Inl e \<and> list_all no_create es \<and> (\<forall>S. S \<subseteq> set (map pr_Name aux) \<longrightarrow> ledger S es = {})) \<or>
         (\<exists>ref. r = Inr ref \<and> q = Inr \<lparr>Workload = ref, Auxiliary = aux\<rparr> \<and> es = []))" for r
  proof (cases r)
    case (Inl e)
    show ?thesis unfolding Inl sum.case by (rule calls_mono [OF calls_cleanup_aux [OF aux(1)]]) simp
  next
    case (Inr ref)
    then show ?thesis by (simp add: calls_def ret_def)
  qed
  have gate: "gated_workload spec \<longrightarrow> walled ?ns sid pre" using workload_gated [OF Inr t(1)] t(2) by blast
  show ?thesis
    unfolding start_workload_def Inr sum.case
  proof (rule calls_mono [OF calls_tryE [OF prov fin]], elim exE conjE disjE)
    fix r :: "goerr + SessionPods" and es r1 xs ys e assume split: "es = xs @ ys" and p: "provisioned ?ns spec (\<lambda>_ _. True) r1 xs"
      and rest: "r1 = Inl e" "r = Inl e" "list_all no_create ys" "\<forall>S. S \<subseteq> set (map pr_Name aux) \<longrightarrow> ledger S ys = {}"
    have "ledger (ledger {} pre) xs \<subseteq> set (map pr_Name aux)"
      using ledger_provisioned(1) [OF p rest(1), of "ledger {} pre"] aux(2) by simp
    then have "set_started ?ns pre r es" using rest by (simp add: set_started_def split ledger_append)
    then show "wall_first ?ns sid pre es \<and> set_started ?ns pre r es \<and> (\<forall>pods. r = Inr pods \<longrightarrow> Auxiliary pods = aux)"
      using wall_first_provisioned [OF p gate] wall_first_quiet [OF rest(3)] rest(2) by (simp add: split wall_first_append)
  next
    fix r :: "goerr + SessionPods" and es r1 xs ys ref assume split: "es = xs @ ys" and p: "provisioned ?ns spec (\<lambda>_ _. True) r1 xs"
      and rest: "r1 = Inr ref" "r = Inr \<lparr>Workload = ref, Auxiliary = aux\<rparr>" "ys = []"
    have "\<exists>q. KGet ?ns (pr_Name ref) (Inr q) \<in> set xs \<and> podReady q \<and> pr_IP ref = kp_PodIP q"
      using provisioned_seen [OF p rest(1)] .
    then have "set_started ?ns pre r es"
      using ledger_provisioned(2) [OF p rest(1), of "ledger {} pre"] aux(2) rest by (simp add: set_started_def split)
    then show "wall_first ?ns sid pre es \<and> set_started ?ns pre r es \<and> (\<forall>pods. r = Inr pods \<longrightarrow> Auxiliary pods = aux)"
      using wall_first_provisioned [OF p gate] rest by (simp add: split)
  qed
qed

definition round_accounted :: "string \<Rightarrow> string \<Rightarrow> goerr + SessionPods \<Rightarrow> kube_event list \<Rightarrow> bool" where
  "round_accounted ns sid r l =
     (wall_first ns sid [] l \<and>
      (case r of
         Inl e \<Rightarrow> ledger {} l = {}
       | Inr pods \<Rightarrow>
           ledger {} l = insert (pr_Name (Workload pods)) (set (map pr_Name (Auxiliary pods))) \<and>
           (\<exists>p. KGet ns (pr_Name (Workload pods)) (Inr p) \<in> set l \<and> podReady p \<and> pr_IP (Workload pods) = kp_PodIP p)))"

lemma calls_rest:
  assumes t: "NormalizeWorkloadType (ws_Type ws) = Inr t" and ws: "ws_Type ws' = ws_Type ws"
  shows "calls (bindE (start_helper (instrument_co co) sid sfx t plugins) (\<lambda>(aux, h). start_workload (instrument_co co) sid cpRef sfx ws' aux h))
    (round_accounted (co_namespace co) sid)"
  unfolding calls_def
proof (intro allI impI)
  let ?ns = "co_namespace co"
  fix wl r wl'
  assume run: "bindE (start_helper (instrument_co co) sid sfx t plugins) (\<lambda>(aux, h). start_workload (instrument_co co) sid cpRef sfx ws' aux h) wl = (r, wl')"
  obtain r1 wl1 where one: "start_helper (instrument_co co) sid sfx t plugins wl = (r1, wl1)" by (rule prod.exhaust)
  obtain xs where xs: "snd wl1 = snd wl @ xs" "helper_started co sid t r1 xs"
    using calls_start_helper [of co sid sfx t plugins] one unfolding calls_def by blast
  show "\<exists>es. snd wl' = snd wl @ es \<and> round_accounted ?ns sid r es"
  proof (cases r1)
    case (Inl e)
    then show ?thesis using run one xs by (auto simp: bindE_def helper_started_def round_accounted_def)
  next
    case (Inr ah)
    obtain aux h where ah: "ah = (aux, h)" by (rule prod.exhaust)
    have two: "start_workload (instrument_co co) sid cpRef sfx ws' aux h wl1 = (r, wl')" using run one Inr ah by (simp add: bindE_def)
    have aux: "aux = [] \<or> (\<exists>ref. aux = [ref] \<and> pr_Namespace ref = ?ns)" "ledger {} xs = set (map pr_Name aux)"
      "HasApprovalGate t \<longrightarrow> walled ?ns sid xs" "wall_first ?ns sid [] xs"
      using helper_started_Inr [OF xs(2) [unfolded Inr ah]] by blast+
    have "NormalizeWorkloadType (ws_Type ws') = Inr t" using t ws by simp
    from calls_start_workload [OF aux(1,2) this aux(3), of cpRef sfx h] two obtain ys where
      ys: "snd wl' = snd wl1 @ ys" "wall_first ?ns sid xs ys" "set_started ?ns xs r ys"
      unfolding calls_def by blast
    then have "round_accounted ?ns sid r (xs @ ys)"
      using aux(4) by (cases r) (auto simp: round_accounted_def set_started_def ledger_append wall_first_append)
    then show ?thesis using ys(1) xs(1) by auto
  qed
qed

text \<open>C17: a provisioning round leaves nothing behind. Whatever the API server answers, a start or a restore that fails has issued
  the delete of every pod it created (the answers to these deletes are not looked at); one that succeeds has created, and not
  asked to delete, exactly the pods it returns, the workload pod seen ready with the address returned. In either case no workload pod of an approval-gated type was asked for
  before its session's helper pod existed and both of its network policies had been accepted.\<close>

theorem round_leaves_nothing_behind:
  assumes "startSet (instrument_co co) sid cpRef ws (w, []) = (r, (w', l))"
  shows "round_accounted (co_namespace co) sid r l"
proof -
  have refused: "round_accounted (co_namespace co) sid (Inl e) []" for e by (simp add: round_accounted_def)
  show ?thesis
  proof (cases "NormalizeWorkloadType (ws_Type ws)")
    case (Inl e)
    then show ?thesis using assms refused by (auto simp: startSet_def bindE_def lift_def)
  next
    case t: (Inr t)
    show ?thesis
    proof (cases "NormalizePlugins t (ws_Plugins ws)")
      case (Inl e)
      then show ?thesis using assms t refused by (auto simp: startSet_def bindE_def lift_def)
    next
      case plugins: (Inr plugins)
      let ?sfx = "if cpRef \<noteq> [] then restoreSuffix (instrument_co co) else ret []"
      have "calls ?sfx (\<lambda>r es. es = [])"
        unfolding restoreSuffix_def instrument_co_sel
        by (auto intro!: calls_mono [OF calls_bindE [OF calls_wrapE [OF calls_unlogged] calls_ret]] simp: calls_def [of "ret []"] ret_def split: sum.splits)
      note rest = calls_bindE [OF this calls_rest [OF t, of "ws\<lparr>ws_Plugins := plugins\<rparr>" co sid _ plugins cpRef]]
      have "calls (bindE ?sfx (\<lambda>sfx. bindE (start_helper (instrument_co co) sid sfx t plugins)
          (\<lambda>(aux, h). start_workload (instrument_co co) sid cpRef sfx (ws\<lparr>ws_Plugins := plugins\<rparr>) aux h)))
          (round_accounted (co_namespace co) sid)"
        by (rule calls_mono [OF rest]) (use refused in auto)
      then show ?thesis
        using assms t plugins unfolding startSet_def calls_def by (fastforce simp: bindE_def [of "lift _"] lift_def)
    qed
  qed
qed

theorem round_leaves_nothing_behind_witness:
  "round_accounted ''ns'' sample_sid (fst (startSet (instrument_co sample_co) sample_sid [] sample_spec ([], [])))
     (snd (snd (startSet (instrument_co sample_co) sample_sid [] sample_spec ([], []))))"
proof -
  let ?run = "startSet (instrument_co sample_co) sample_sid [] sample_spec ([], [])"
  have "?run = (fst ?run, (fst (snd ?run), snd (snd ?run)))" by simp
  from round_leaves_nothing_behind [OF this] show ?thesis by (simp add: sample_co_def)
qed

end
