(* ===== verification/Helper_Http.thy ===== *)
theory Helper_Http
  imports Agent_Client Utf8
begin

text \<open>
  What the helper pod's containers use of the Go library around HTTP: requests and answers of a transport (the transport
  is a parameter of its users), decoding a JSON value into a struct, URLs as \<open>url.Parse\<close> returns them, and the two
  escapings of \<open>net/url\<close>. A request that cannot be built is one the transport refuses.
\<close>

section \<open>Requests and answers\<close>

record web_request =
  wq_Method :: string
  wq_URL :: string
  wq_Authorization :: string
  wq_ContentType :: string
  wq_Body :: "jvalue option"

text \<open>An answer: its status, how reading the body ended, and the JSON value of what was read
  (None where it is not JSON).\<close>

record web_response =
  wr_Status :: nat
  wr_ReadErr :: "goerr option"
  wr_Json :: "jvalue option"

definition get_request :: "string \<Rightarrow> web_request" where
  "get_request url = \<lparr>wq_Method = ''GET'', wq_URL = url, wq_Authorization = [], wq_ContentType = [], wq_Body = None\<rparr>"

definition post_request :: "string \<Rightarrow> jvalue \<Rightarrow> web_request" where
  "post_request url body =
     \<lparr>wq_Method = ''POST'', wq_URL = url, wq_Authorization = [], wq_ContentType = ''application/json'', wq_Body = Some body\<rparr>"

definition with_bearer :: "string \<Rightarrow> web_request \<Rightarrow> web_request" where
  "with_bearer token req = req\<lparr>wq_Authorization := ''Bearer '' @ token\<rparr>"

lemma wp_wrap [wp_simps]:
  "wp (wrapE what m) Q w \<longleftrightarrow> wp m (\<lambda>r. case r of Inl e \<Rightarrow> Q (Inl (Errorf what [e])) | Inr x \<Rightarrow> Q (Inr x)) w"
  by (simp add: wrapE_def wp_def tryE_def throw_def ret_def split: prod.splits sum.splits)

section \<open>Decoding a value into a struct\<close>

text \<open>A field of a Go struct: a plain value, which null leaves alone; a pointer, slice or map, which null clears; or
  a \<open>json.RawMessage\<close>, which keeps whatever there is, null included.\<close>

datatype field_kind = Plain "jvalue \<Rightarrow> bool" | Nullable "jvalue \<Rightarrow> bool" | Raw

type_synonym struct_type = "(string \<times> field_kind) list"

definition set_field :: "field_kind \<Rightarrow> string \<Rightarrow> jvalue \<Rightarrow> (string \<rightharpoonup> jvalue) \<Rightarrow> (string \<rightharpoonup> jvalue) option" where
  "set_field kind n v m =
     (case kind of
        Raw \<Rightarrow> Some (m(n \<mapsto> v))
      | Plain typed \<Rightarrow> if v = VNull then Some m else if typed v then Some (m(n \<mapsto> v)) else None
      | Nullable typed \<Rightarrow> if v = VNull then Some (m(n := None)) else if typed v then Some (m(n \<mapsto> v)) else None)"

fun struct_fields :: "struct_type \<Rightarrow> (string \<times> jvalue) list \<Rightarrow> (string \<rightharpoonup> jvalue) \<Rightarrow> (string \<rightharpoonup> jvalue) option" where
  "struct_fields T [] m = Some m"
| "struct_fields T ((k, v) # kvs) m =
     (case field_of (map fst T) k of
        None \<Rightarrow> struct_fields T kvs m
      | Some n \<Rightarrow>
          (case map_of T n of
             None \<Rightarrow> struct_fields T kvs m
           | Some kind \<Rightarrow> (case set_field kind n v m of None \<Rightarrow> None | Some m' \<Rightarrow> struct_fields T kvs m')))"

text \<open>\<open>json.Unmarshal\<close> into a struct; a top-level null leaves it as it is.\<close>

definition Unmarshal :: "struct_type \<Rightarrow> jvalue \<Rightarrow> (string \<rightharpoonup> jvalue) option" where
  "Unmarshal T v =
     (case v of
        VNull \<Rightarrow> Some (\<lambda>_. None)
      | VObj kvs \<Rightarrow> struct_fields T kvs (\<lambda>_. None)
      | _ \<Rightarrow> None)"

text \<open>The idiom \<open>if len(raw) > 0 { if err := json.Unmarshal(raw, &args); err != nil { ... } }\<close>.\<close>

definition unmarshal_raw :: "struct_type \<Rightarrow> jvalue option \<Rightarrow> (string \<rightharpoonup> jvalue) option" where
  "unmarshal_raw T raw = (case raw of None \<Rightarrow> Some (\<lambda>_. None) | Some v \<Rightarrow> Unmarshal T v)"

definition str_field :: "(string \<rightharpoonup> jvalue) \<Rightarrow> string \<Rightarrow> string" where
  "str_field m n = str_of (m n)"

section \<open>JSON texts\<close>

text \<open>\<open>encoding/json\<close> writes a string between quotes, escaping quotes, backslashes, control characters, the three HTML
  characters, U+2028 and U+2029, and replacing bytes that are not UTF-8.\<close>

definition hex_digit :: "nat \<Rightarrow> char" where
  "hex_digit n = (if n < 10 then char_of (48 + n) else char_of (87 + n))"

definition u_escape :: "char \<Rightarrow> string" where
  "u_escape c = CHR 0x5C # ''u00'' @ [hex_digit (byte_of c div 16), hex_digit (byte_of c mod 16)]"

definition quote_char :: "char \<Rightarrow> string" where
  "quote_char c =
     (if c = CHR 0x22 \<or> c = CHR 0x5C then [CHR 0x5C, c]
      else if c = CHR 0x08 then [CHR 0x5C, CHR ''b'']
      else if c = CHR 0x0C then [CHR 0x5C, CHR ''f'']
      else if c = CHR 0x0A then [CHR 0x5C, CHR ''n'']
      else if c = CHR 0x0D then [CHR 0x5C, CHR ''r'']
      else if c = CHR 0x09 then [CHR 0x5C, CHR ''t'']
      else if byte_of c < 32 \<or> c \<in> {CHR ''<'', CHR ''>'', CHR ''&''} then u_escape c
      else [c])"

fun quote_body :: "string \<Rightarrow> string" where
  "quote_body [] = []"
| "quote_body (c # cs) =
     (if is_prefix [CHR 0xE2, CHR 0x80, CHR 0xA8] (c # cs) then CHR 0x5C # ''u2028'' @ quote_body (drop 2 cs)
      else if is_prefix [CHR 0xE2, CHR 0x80, CHR 0xA9] (c # cs) then CHR 0x5C # ''u2029'' @ quote_body (drop 2 cs)
      else quote_char c @ quote_body cs)"

definition json_quote :: "string \<Rightarrow> string" where
  "json_quote s = [CHR 0x22] @ quote_body (utf8_coerce s) @ [CHR 0x22]"

text \<open>\<open>json.Marshal\<close> of a map of strings, given in the order of its keys.\<close>

fun marshal_members :: "(string \<times> string) list \<Rightarrow> string" where
  "marshal_members [] = []"
| "marshal_members [(k, v)] = json_quote k @ '':'' @ json_quote v"
| "marshal_members ((k, v) # kvs) = json_quote k @ '':'' @ json_quote v @ '','' @ marshal_members kvs"

definition marshal_strings :: "(string \<times> string) list \<Rightarrow> string" where
  "marshal_strings kvs = ''{'' @ marshal_members kvs @ ''}''"

section \<open>URLs\<close>

text \<open>What \<open>url.Parse\<close> gives (the parser itself is a parameter); \<open>u_String\<close> is its \<open>String()\<close>.\<close>

record url =
  u_Scheme :: string
  u_Opaque :: string
  u_HasUser :: bool
  u_Host :: string
  u_Path :: string
  u_RawPath :: string
  u_RawQuery :: string
  u_Fragment :: string
  u_String :: string

definition unreserved :: "char \<Rightarrow> bool" where
  "unreserved c =
     (list_ex (\<lambda>(first, last). first \<le> byte_of c \<and> byte_of c \<le> last) [(48, 57), (65, 90), (97, 122)] \<or> c \<in> set ''-_.~'')"

definition upper_hex :: "nat \<Rightarrow> char" where
  "upper_hex n = (if n < 10 then char_of (48 + n) else char_of (55 + n))"

definition percent :: "char \<Rightarrow> string" where
  "percent c = [CHR ''%'', upper_hex (byte_of c div 16), upper_hex (byte_of c mod 16)]"

definition PathEscape :: "string \<Rightarrow> string" where
  "PathEscape s =
     concat (map (\<lambda>c. if unreserved c \<or> c \<in> {CHR ''$'', CHR ''&'', CHR ''+'', CHR '':'', CHR ''='', CHR ''@''}
                      then [c] else percent c) s)"

definition QueryEscape :: "string \<Rightarrow> string" where
  "QueryEscape s =
     concat (map (\<lambda>c. if unreserved c then [c] else if c = CHR '' '' then ''+'' else percent c) s)"

definition TrimRight :: "char \<Rightarrow> string \<Rightarrow> string" where
  "TrimRight c s = rev (dropWhile (\<lambda>x. x = c) (rev s))"

definition TrimLeft :: "char set \<Rightarrow> string \<Rightarrow> string" where
  "TrimLeft cs s = dropWhile (\<lambda>x. x \<in> cs) s"

end
