(* ===== verification/Approval_Gate.thy ===== *)
theory Approval_Gate
  imports Helper_Http Workload Repo_Access
begin

text \<open>
  The approval gate's moving parts: the gateway client of the helper pod (\<open>approval_gateway.go\<close>), the feed of
  notices it publishes while a call waits for a person (\<open>session_mcp_notices.go\<close>), the loop in the workload pod that
  follows the feed (\<open>session_mcp_notice_tail.go\<close>) and the set of waits the control plane reads
  (\<open>approval_wait.go\<close>). The gateway's transport, the token file, the clock and the sleep are fields of the client.
  Times are nanoseconds.
\<close>

section \<open>The gateway client\<close>

definition approvalApproved :: string where "approvalApproved = ''APPROVED''"
definition approvalRejected :: string where "approvalRejected = ''REJECTED''"
definition approvalExpired :: string where "approvalExpired = ''EXPIRED''"
definition approvalTimeout :: string where "approvalTimeout = ''TIMEOUT''"

definition second :: int where "second = 1000000000"
definition defaultApprovalPollInterval :: int where "defaultApprovalPollInterval = 3 * second"
definition defaultApprovalTimeout :: int where "defaultApprovalTimeout = 10 * 60 * second"
definition approvalRequestsPath :: string where "approvalRequestsPath = ''/api/external/approvals''"
definition approvalRequesterName :: string where "approvalRequesterName = ''session-platform''"
definition defaultApprovalTokenFile :: string where "defaultApprovalTokenFile = ''/var/run/secrets/pocket-aide/token''"

record 'w approvalGateway =
  ag_baseURL :: string
  ag_tokenFile :: string
  ag_sessionID :: string
  ag_pollInterval :: int
  ag_timeout :: int
  ag_client :: "web_request \<Rightarrow> ('w, web_response) act"
  ag_now :: "'w \<Rightarrow> int \<times> 'w"
  ag_sleep :: "int \<Rightarrow> ('w, unit) act"
  ag_ReadFile :: "string \<Rightarrow> ('w, string) act" \<comment> \<open>\<open>os.ReadFile\<close>\<close>

record approvalOutcome =
  ao_Decision :: string
  ao_RequestID :: string

record approvalState =
  as_ID :: string
  as_Status :: string

definition token_of :: "string \<Rightarrow> string \<Rightarrow> goerr + string" where
  "token_of path raw =
     (if TrimSpace raw = [] then Inl (New (''approval gateway service account token '' @ path @ '' is empty'')) else Inr (TrimSpace raw))"

definition readApprovalToken :: "(string \<Rightarrow> ('w, string) act) \<Rightarrow> string \<Rightarrow> ('w, string) act" where
  "readApprovalToken readFile path =
     bindE (wrapE ''approval gateway service account token'' (readFile path)) (\<lambda>raw. lift (token_of path raw))"

definition newApprovalGateway ::
    "(web_request \<Rightarrow> ('w, web_response) act) \<Rightarrow> ('w \<Rightarrow> int \<times> 'w) \<Rightarrow> (int \<Rightarrow> ('w, unit) act) \<Rightarrow>
     (string \<Rightarrow> ('w, string) act) \<Rightarrow> string \<Rightarrow> string \<Rightarrow> string \<Rightarrow> ('w, 'w approvalGateway) act" where
  "newApprovalGateway client now sleep readFile rawURL tokenFile sessionID =
     (let missing = (if TrimSpace rawURL = [] then [''APPROVAL_GATEWAY_URL''] else []) @
                    (if TrimSpace sessionID = [] then [''SESSION_ID''] else []);
          file = (if TrimSpace tokenFile = [] then defaultApprovalTokenFile else tokenFile) in
      if missing \<noteq> [] then throw (Errorf ''approval gateway is not configured'' (map New missing))
      else bindE (readApprovalToken readFile file) (\<lambda>_.
        ret \<lparr>ag_baseURL = TrimRight (CHR ''/'') (TrimSpace rawURL), ag_tokenFile = file, ag_sessionID = sessionID,
             ag_pollInterval = defaultApprovalPollInterval, ag_timeout = defaultApprovalTimeout, ag_client = client,
             ag_now = now, ag_sleep = sleep, ag_ReadFile = readFile\<rparr>))"

definition externalID :: "'w approvalGateway \<Rightarrow> string \<Rightarrow> string" where
  "externalID g requestID = ag_sessionID g @ '':'' @ requestID"

definition settledDecision :: "string \<Rightarrow> string option" where
  "settledDecision status =
     (if status \<in> {approvalApproved, approvalRejected, approvalExpired} then Some status else None)"

definition approval_state_type :: struct_type where
  "approval_state_type = [(''id'', Plain is_str), (''status'', Plain is_str)]"

definition decode_state :: "string \<Rightarrow> web_response \<Rightarrow> goerr + approvalState" where
  "decode_state what resp =
     (case wr_ReadErr resp of
        Some e \<Rightarrow> Inl (Errorf (what @ '': read response'') [e])
      | None \<Rightarrow>
          if wr_Status resp = 401 then Inl (New (what @ '': gateway returned 401''))
          else if wr_Status resp < 200 \<or> wr_Status resp > 299 then Inl (New (what @ '': gateway returned '' @ Itoa (wr_Status resp)))
          else
            (case Option.bind (wr_Json resp) (Unmarshal approval_state_type) of
               None \<Rightarrow> Inl (New (what @ '': gateway returned a non-JSON body''))
             | Some m \<Rightarrow> Inr \<lparr>as_ID = str_field m ''id'', as_Status = str_field m ''status''\<rparr>))"

definition ag_do :: "'w approvalGateway \<Rightarrow> web_request \<Rightarrow> string \<Rightarrow> ('w, approvalState) act" where
  "ag_do g req what =
     bindE (wrapE what (readApprovalToken (ag_ReadFile g) (ag_tokenFile g))) (\<lambda>token.
     bindE (wrapE what (ag_client g (with_bearer token req))) (\<lambda>resp.
     lift (decode_state what resp)))"

definition create_body :: "'w approvalGateway \<Rightarrow> string \<Rightarrow> string \<Rightarrow> jvalue" where
  "create_body g extID approvalContext =
     VObj [(''context'', VStr approvalContext), (''externalId'', VStr extID),
           (''requesterName'', VStr approvalRequesterName), (''timeoutSeconds'', VInt (ag_timeout g div second))]"

definition ag_create :: "'w approvalGateway \<Rightarrow> string \<Rightarrow> string \<Rightarrow> ('w, approvalState) act" where
  "ag_create g extID approvalContext =
     bindE (ag_do g (post_request (ag_baseURL g @ approvalRequestsPath) (create_body g extID approvalContext)) ''create approval request'') (\<lambda>state.
     if as_ID state = [] then throw (New ''approval gateway returned a request without an id'') else ret state)"

definition ag_poll :: "'w approvalGateway \<Rightarrow> string \<Rightarrow> ('w, string option) act" where
  "ag_poll g gatewayRequestID =
     bindE (ag_do g (get_request (ag_baseURL g @ approvalRequestsPath @ ''/'' @ PathEscape gatewayRequestID)) ''poll approval request'') (\<lambda>state.
     ret (settledDecision (as_Status state)))"

definition with_now :: "('w \<Rightarrow> int \<times> 'w) \<Rightarrow> (int \<Rightarrow> ('w, 'a) act) \<Rightarrow> ('w, 'a) act" where
  "with_now now f w = (case now w of (t, w') \<Rightarrow> f t w')"

text \<open>The loop of \<open>await\<close>, at most \<open>n\<close> polls of it.\<close>

fun await_loop :: "nat \<Rightarrow> 'w approvalGateway \<Rightarrow> string \<Rightarrow> int \<Rightarrow> ('w, approvalOutcome) act" where
  "await_loop 0 g i deadline = throw FuelExhausted"
| "await_loop (Suc n) g i deadline =
     bindE (ag_poll g i) (\<lambda>settled.
       case settled of
         Some decision \<Rightarrow> ret \<lparr>ao_Decision = decision, ao_RequestID = i\<rparr>
       | None \<Rightarrow>
           with_now (ag_now g) (\<lambda>t.
             if \<not> t < deadline then ret \<lparr>ao_Decision = approvalTimeout, ao_RequestID = i\<rparr>
             else thenE (ag_sleep g (ag_pollInterval g)) (await_loop n g i deadline)))"

text \<open>As many polls as fit before the deadline, and one after it.\<close>

definition await_polls :: "'w approvalGateway \<Rightarrow> nat" where
  "await_polls g = nat (ag_timeout g div ag_pollInterval g) + 2"

definition await_with :: "nat \<Rightarrow> 'w approvalGateway \<Rightarrow> string \<Rightarrow> string \<Rightarrow> ('w, approvalOutcome) act" where
  "await_with n g requestID approvalContext =
     bindE (ag_create g (externalID g requestID) approvalContext) (\<lambda>created.
       case settledDecision (as_Status created) of
         Some decision \<Rightarrow> ret \<lparr>ao_Decision = decision, ao_RequestID = as_ID created\<rparr>
       | None \<Rightarrow> with_now (ag_now g) (\<lambda>t. await_loop n g (as_ID created) (t + ag_timeout g)))"

definition await :: "'w approvalGateway \<Rightarrow> string \<Rightarrow> string \<Rightarrow> ('w, approvalOutcome) act" where
  "await g = await_with (await_polls g) g"

section \<open>The notice feed\<close>

definition noticeAwaiting :: string where "noticeAwaiting = ''awaiting''"
definition noticeDecided :: string where "noticeDecided = ''decided''"
definition noticeUnavailable :: string where "noticeUnavailable = ''unavailable''"
definition noticeAccessRequested :: string where "noticeAccessRequested = ''access-requested''"
definition noticeFeedCapacity :: nat where "noticeFeedCapacity = 1024"

record approvalNotice =
  an_Seq :: int
  an_Kind :: string
  an_Tool :: string
  an_ExternalID :: string
  an_Decision :: string
  an_Repo :: string

definition notice :: "string \<Rightarrow> string \<Rightarrow> string \<Rightarrow> string \<Rightarrow> approvalNotice" where
  "notice kind tool extID decision =
     \<lparr>an_Seq = 0, an_Kind = kind, an_Tool = tool, an_ExternalID = extID, an_Decision = decision, an_Repo = []\<rparr>"

text \<open>\<open>nf_changed\<close>: some poll waits on the channel the next publish closes.\<close>

record noticeFeed =
  nf_seq :: int
  nf_kept :: "approvalNotice list"
  nf_changed :: bool

definition newNoticeFeed :: noticeFeed where
  "newNoticeFeed = \<lparr>nf_seq = 0, nf_kept = [], nf_changed = False\<rparr>"

definition publish :: "noticeFeed \<Rightarrow> approvalNotice \<Rightarrow> noticeFeed" where
  "publish f n =
     (let seq = nf_seq f + 1;
          kept = nf_kept f @ [n\<lparr>an_Seq := seq\<rparr>] in
      f\<lparr>nf_seq := seq,
        nf_kept := (if length kept > noticeFeedCapacity then drop (length kept - noticeFeedCapacity) kept else kept),
        nf_changed := False\<rparr>)"

record noticeFeedResponse =
  fr_Notices :: "approvalNotice list"
  fr_NextSeq :: int
  fr_Dropped :: int

definition since :: "noticeFeed \<Rightarrow> int \<Rightarrow> noticeFeedResponse \<times> noticeFeed" where
  "since f after =
     (let f' = f\<lparr>nf_changed := True\<rparr> in
      case nf_kept f of
        [] \<Rightarrow> (\<lparr>fr_Notices = [], fr_NextSeq = nf_seq f, fr_Dropped = 0\<rparr>, f')
      | n # _ \<Rightarrow>
          (\<lparr>fr_Notices = filter (\<lambda>m. an_Seq m > after) (nf_kept f), fr_NextSeq = nf_seq f,
            fr_Dropped = (if after < an_Seq n - 1 then an_Seq n - 1 - after else 0)\<rparr>, f'))"

definition notices_after :: "string \<Rightarrow> goerr + int" where
  "notices_after raw =
     (if raw = [] then Inr 0
      else case Atoi raw of
        None \<Rightarrow> Inl (New ''after must be a non-negative integer'')
      | Some parsed \<Rightarrow> if parsed < 0 then Inl (New ''after must be a non-negative integer'') else Inr parsed)"

text \<open>One request of the feed. Each turn of the loop reads the feed as it is then; a turn that finds nothing
  ends with what the request was woken by. None: the client is gone, nothing is written.\<close>

datatype wake = WakeGone | WakeChanged | WakeWindow

fun serve_loop :: "int \<Rightarrow> (noticeFeed \<times> wake) list \<Rightarrow> noticeFeedResponse option" where
  "serve_loop after [] = None"
| "serve_loop after ((feed, wake) # turns) =
     (let body = fst (since feed after) in
      if fr_Notices body \<noteq> [] \<or> fr_Dropped body > 0 then Some body
      else case wake of
        WakeGone \<Rightarrow> None
      | WakeChanged \<Rightarrow> serve_loop after turns
      | WakeWindow \<Rightarrow> Some \<lparr>fr_Notices = [], fr_NextSeq = fr_NextSeq body, fr_Dropped = 0\<rparr>)"

definition serveApprovalNotices :: "string \<Rightarrow> (noticeFeed \<times> wake) list \<Rightarrow> (goerr + noticeFeedResponse) option" where
  "serveApprovalNotices raw turns =
     (case notices_after raw of
        Inl e \<Rightarrow> Some (Inl e)
      | Inr after \<Rightarrow> map_option Inr (serve_loop after turns))"

text \<open>The JSON of an answer and its decoding.\<close>

definition opt_member :: "string \<Rightarrow> string \<Rightarrow> (string \<times> jvalue) list" where
  "opt_member k s = (if s = [] then [] else [(k, VStr (utf8_coerce s))])"

definition encode_notice :: "approvalNotice \<Rightarrow> jvalue" where
  "encode_notice n =
     VObj ([(''seq'', VInt (an_Seq n)), (''kind'', VStr (utf8_coerce (an_Kind n))), (''tool'', VStr (utf8_coerce (an_Tool n))),
            (''externalId'', VStr (utf8_coerce (an_ExternalID n)))] @ opt_member ''decision'' (an_Decision n) @ opt_member ''repo'' (an_Repo n))"

definition writeNoticeFeedResponse :: "noticeFeedResponse \<Rightarrow> jvalue" where
  "writeNoticeFeedResponse body =
     VObj ([(''notices'', VArr (map encode_notice (fr_Notices body))), (''nextSeq'', VInt (fr_NextSeq body))] @
           (if fr_Dropped body = 0 then [] else [(''dropped'', VInt (fr_Dropped body))]))"

definition notice_type :: struct_type where
  "notice_type = [(''seq'', Plain is_int64), (''kind'', Plain is_str), (''tool'', Plain is_str),
     (''externalId'', Plain is_str), (''decision'', Plain is_str), (''repo'', Plain is_str)]"

definition decode_notice :: "jvalue \<Rightarrow> approvalNotice option" where
  "decode_notice v = map_option
     (\<lambda>m. \<lparr>an_Seq = int_of_value (m ''seq''), an_Kind = str_field m ''kind'', an_Tool = str_field m ''tool'',
           an_ExternalID = str_field m ''externalId'', an_Decision = str_field m ''decision'', an_Repo = str_field m ''repo''\<rparr>)
     (Unmarshal notice_type v)"

definition is_notices :: "jvalue \<Rightarrow> bool" where
  "is_notices v = (case v of VArr vs \<Rightarrow> list_all (\<lambda>u. decode_notice u \<noteq> None) vs | _ \<Rightarrow> False)"

definition notices_of :: "jvalue option \<Rightarrow> approvalNotice list" where
  "notices_of v = (case v of Some (VArr vs) \<Rightarrow> map (\<lambda>u. the (decode_notice u)) vs | _ \<Rightarrow> [])"

definition feed_response_type :: struct_type where
  "feed_response_type = [(''notices'', Nullable is_notices), (''nextSeq'', Plain is_int64), (''dropped'', Plain is_int64)]"

definition decode_response :: "jvalue \<Rightarrow> noticeFeedResponse option" where
  "decode_response v = map_option
     (\<lambda>m. \<lparr>fr_Notices = notices_of (m ''notices''), fr_NextSeq = int_of_value (m ''nextSeq''), fr_Dropped = int_of_value (m ''dropped'')\<rparr>)
     (Unmarshal feed_response_type v)"

section \<open>The waits of a session\<close>

text \<open>\<open>pending\<close> is a set; its nil and its empty value behave alike.\<close>

type_synonym approvalWaits = "string list"

definition observe_one :: "approvalNotice \<Rightarrow> approvalWaits \<Rightarrow> approvalWaits" where
  "observe_one n w =
     (if an_ExternalID n = [] then w
      else if an_Kind n = noticeAwaiting then List.insert (an_ExternalID n) w
      else if an_Kind n = noticeDecided \<or> an_Kind n = noticeUnavailable then removeAll (an_ExternalID n) w
      else w)"

definition observe :: "approvalWaits \<Rightarrow> approvalNotice list \<Rightarrow> int \<Rightarrow> approvalWaits" where
  "observe w notices dropped = fold observe_one notices (if dropped > 0 then [] else w)"

definition waits_state :: "approvalWaits \<Rightarrow> bool \<times> nat" where
  "waits_state w = (length w > 0, length w)"

definition serveApprovalWait :: "approvalWaits \<Rightarrow> jvalue" where
  "serveApprovalWait w =
     (case waits_state w of (awaiting, count) \<Rightarrow> VObj [(''awaiting'', VBool awaiting), (''pending'', VInt (int count))])"

section \<open>Following the feed\<close>

definition em_dash :: string where "em_dash = [CHR '' '', CHR 0xE2, CHR 0x80, CHR 0x94, CHR '' '']"
definition middle_dot :: string where "middle_dot = [CHR '' '', CHR 0xC2, CHR 0xB7, CHR '' '']"
definition platform_line :: "string \<Rightarrow> string" where "platform_line s = newline # ''[session-platform: '' @ s @ '']'' @ [newline]"

definition renderApprovalNotice :: "approvalNotice \<Rightarrow> string" where
  "renderApprovalNotice n =
     (let subject = em_dash @ an_Tool n @ middle_dot @ an_ExternalID n in
      if an_Kind n = noticeAwaiting then platform_line (''awaiting approval'' @ subject)
      else if an_Kind n = noticeDecided then platform_line (''approval '' @ map lower (an_Decision n) @ subject)
      else if an_Kind n = noticeUnavailable then platform_line (''approval unavailable'' @ subject)
      else if an_Kind n = noticeAccessRequested then
        (if \<not> repoPattern (an_Repo n) then []
         else platform_line (''access requested'' @ em_dash @ an_Repo n @ middle_dot @ ''decide in the control plane'' @ [CHR 0x27] @ ''s Repo access screen''))
      else [])"

text \<open>The tailer's cursor together with the sink it writes to: the workload and its waits.\<close>

record noticeTailer =
  nt_after :: int
  nt_waits :: approvalWaits
  nt_workload :: claudeWorkload

definition tail_request :: "string \<Rightarrow> int \<Rightarrow> web_request" where
  "tail_request rawURL after = get_request (TrimRight (CHR ''/'') rawURL @ ''/notices?after='' @ decimal after)"

definition tail_poll :: "(web_request \<Rightarrow> ('w, web_response) act) \<Rightarrow> string \<Rightarrow> int \<Rightarrow> ('w, noticeFeedResponse) act" where
  "tail_poll client rawURL after =
     bindE (client (tail_request rawURL after)) (\<lambda>resp.
     if wr_Status resp \<noteq> 200 then throw (New (''notice feed returned '' @ Itoa (wr_Status resp)))
     else case Option.bind (wr_Json resp) decode_response of
       None \<Rightarrow> throw (New ''notice feed body'')
     | Some body \<Rightarrow> ret body)"

text \<open>What one answer does: state before markers, then the cursor.\<close>

definition tail_apply :: "noticeFeedResponse \<Rightarrow> noticeTailer \<Rightarrow> noticeTailer" where
  "tail_apply body t =
     (let t1 = t\<lparr>nt_waits := observe (nt_waits t) (fr_Notices body) (fr_Dropped body)\<rparr>;
          w1 = (if fr_Dropped body > 0
                then appendPlatformNotice (nt_workload t1) (platform_line (decimal (fr_Dropped body) @ '' approval notices were dropped''))
                else nt_workload t1);
          w2 = fold (\<lambda>n c. if renderApprovalNotice n \<noteq> [] then appendPlatformNotice c (renderApprovalNotice n) else c) (fr_Notices body) w1 in
      t1\<lparr>nt_workload := w2, nt_after := (if fr_NextSeq body > nt_after t then fr_NextSeq body else nt_after t)\<rparr>)"

text \<open>One turn of \<open>run\<close>: a poll that failed leaves everything as it is.\<close>

definition tail_turn :: "(web_request \<Rightarrow> ('w, web_response) act) \<Rightarrow> string \<Rightarrow> noticeTailer \<Rightarrow> 'w \<Rightarrow> noticeTailer \<times> 'w" where
  "tail_turn client rawURL t w =
     (case tail_poll client rawURL (nt_after t) w of
        (Inl _, w') \<Rightarrow> (t, w')
      | (Inr body, w') \<Rightarrow> (tail_apply body t, w'))"

end
