(* ===== verification/Session_Mcp.thy ===== *)
theory Session_Mcp
  imports Approval_Gate State_Archive
begin

text \<open>
  The session MCP server of the helper pod (\<open>session_mcp.go\<close>, \<open>session_mcp_tools.go\<close>, \<open>session_mcp_files.go\<close>,
  \<open>session_mcp_git.go\<close>, \<open>session_mcp_git_push.go\<close>, \<open>session_mcp_repo_access.go\<close>): the tools through which an
  approval-gated session reaches anything outside its pod. \<open>sessionMCPConfig\<close> holds the gate and the
  seams the source has for the outbound calls; the URL parser, the random source, the transports and the \<open>git\<close>
  process are parameters. The container's files are the part of the world \<open>mc_os\<close> reads. Texts of tool
  descriptions are not modelled.
\<close>

section \<open>Files\<close>

definition filepath_Join :: "string list \<Rightarrow> string" where
  "filepath_Join parts = (case filter (\<lambda>p. p \<noteq> []) parts of [] \<Rightarrow> [] | ps \<Rightarrow> Clean (join_slash ps))"

definition filepath_Base :: "string \<Rightarrow> string" where
  "filepath_Base p =
     (if p = [] then ''.''
      else let q = TrimRight (CHR ''/'') p in
        if q = [] then ''/'' else rev (takeWhile (\<lambda>c. c \<noteq> CHR ''/'') (rev q)))"

text \<open>The operating system's view of an absolute path.\<close>

definition os_path :: "string \<Rightarrow> path" where
  "os_path s = Join [] s"

text \<open>\<open>os.CreateTemp(dir, prefix + "*")\<close>.\<close>

definition CreateTemp :: "path \<Rightarrow> string \<Rightarrow> (os, path) act" where
  "CreateTemp d pattern w = thenE (OpenExcl (d @ [pattern @ os_suffix w]) 384) (ret (d @ [pattern @ os_suffix w])) w"

definition AppendTo :: "path \<Rightarrow> string \<Rightarrow> (os, unit) act" where
  "AppendTo p bs = update_node p (\<lambda>now n. case n of Regular old m _ \<Rightarrow> Regular (old @ bs) m now | _ \<Rightarrow> n)"

definition Truncate :: "path \<Rightarrow> nat \<Rightarrow> (os, unit) act" where
  "Truncate p k = update_node p (\<lambda>now n. case n of Regular old m _ \<Rightarrow> Regular (take k old) m now | _ \<Rightarrow> n)"

text \<open>Closing a written file, which may report what an earlier write could not store.\<close>

definition file_Close :: "(os, unit) act" where
  "file_Close = syscall (\<lambda>w. (Inr (), w))"

text \<open>\<open>os.Rename\<close> of a file: what the new name held is replaced, unless it is a directory.\<close>

definition RenameFile :: "path \<Rightarrow> path \<Rightarrow> (os, unit) act" where
  "RenameFile old new = syscall (\<lambda>w.
     case lookup False old (os_files w) of
       Inl e \<Rightarrow> (Inl e, w)
     | Inr p \<Rightarrow>
         (case lookup False new (os_files w) of
            Inl e \<Rightarrow> (Inl e, w)
          | Inr q \<Rightarrow>
              (case get (os_files w) p of
                 None \<Rightarrow> (Inl ErrNotExist, w)
               | Some n \<Rightarrow>
                   if q = [] \<or> (case get (os_files w) q of Some d \<Rightarrow> is_dir d | None \<Rightarrow> False) then (Inl EEXIST, w)
                   else (Inr (), set_files (stamp (butlast p) (os_now w) (stamp (butlast q) (os_now w) (put q n (cut p (os_files w))))) w))))"

text \<open>\<open>filepath.EvalSymlinks\<close>: at most 255 links, and the end has to exist.\<close>

definition EvalSymlinks :: "path \<Rightarrow> (os, path) act" where
  "EvalSymlinks p = syscall (\<lambda>w.
     (case namei (os_files w) True 255 [] p of
        Inl e \<Rightarrow> Inl e
      | Inr q \<Rightarrow> if q = [] \<or> get (os_files w) q \<noteq> None then Inr q else Inl ErrNotExist, w))"

section \<open>The repository access client\<close>

definition repoAccessCheckPath :: string where "repoAccessCheckPath = ''/api/v1/internal/repo-access/check''"
definition repoAccessRequestPath :: string where "repoAccessRequestPath = ''/api/v1/internal/repo-access/requests''"
definition maxRepoAccessReasonChars :: nat where "maxRepoAccessReasonChars = 500"
definition maxRepoAccessErrorTextBytes :: nat where "maxRepoAccessErrorTextBytes = 200"

record 'w repoAccessClient =
  ra_baseURL :: string
  ra_tokenFile :: string
  ra_client :: "web_request \<Rightarrow> ('w, web_response) act"
  ra_ReadFile :: "string \<Rightarrow> ('w, string) act"

definition newRepoAccessClient ::
    "(web_request \<Rightarrow> ('w, web_response) act) \<Rightarrow> (string \<Rightarrow> ('w, string) act) \<Rightarrow> string \<Rightarrow> string \<Rightarrow> 'w repoAccessClient option" where
  "newRepoAccessClient client readFile rawURL tokenFile =
     (let base = TrimRight (CHR ''/'') (TrimSpace rawURL); file = TrimSpace tokenFile in
      if base = [] \<or> file = [] then None
      else Some \<lparr>ra_baseURL = base, ra_tokenFile = file, ra_client = client, ra_ReadFile = readFile\<rparr>)"

definition ellipsis :: string where "ellipsis = [CHR 0xE2, CHR 0x80, CHR 0xA6]"

definition truncateText :: "string \<Rightarrow> nat \<Rightarrow> string" where
  "truncateText s limit = (if length s \<le> limit then s else take (validUTF8PrefixAtMost s limit) s @ ellipsis)"

definition refusal_text :: "web_response \<Rightarrow> goerr" where
  "refusal_text resp =
     (case Option.bind (wr_Json resp) (Unmarshal [(''error'', Plain is_str)]) of
        Some m \<Rightarrow>
          if TrimSpace (str_field m ''error'') \<noteq> []
          then New (''the control plane refused the request: '' @ truncateText (TrimSpace (str_field m ''error'')) maxRepoAccessErrorTextBytes)
          else New ''the control plane refused the request (400)''
      | None \<Rightarrow> New ''the control plane refused the request (400)'')"

definition ra_answer :: "struct_type \<Rightarrow> web_response \<Rightarrow> goerr + (string \<rightharpoonup> jvalue)" where
  "ra_answer T resp =
     (if wr_ReadErr resp \<noteq> None then Inl (New ''the control plane response could not be read'')
      else if wr_Status resp = 200 then
        (case Option.bind (wr_Json resp) (Unmarshal T) of
           None \<Rightarrow> Inl (New ''the control plane returned a non-JSON body'')
         | Some m \<Rightarrow> Inr m)
      else if wr_Status resp = 401 then Inl (New ''the control plane did not accept this helper pod's token (401)'')
      else if wr_Status resp = 503 then Inl (New ''repo access is not enabled on the control plane (503)'')
      else if wr_Status resp = 400 then Inl (refusal_text resp)
      else Inl (New (''the control plane returned '' @ Itoa (wr_Status resp))))"

definition ra_do :: "'w repoAccessClient \<Rightarrow> struct_type \<Rightarrow> web_request \<Rightarrow> ('w, string \<rightharpoonup> jvalue) act" where
  "ra_do c T req =
     tryE (ra_ReadFile c (ra_tokenFile c)) (\<lambda>r.
       case r of
         Inl _ \<Rightarrow> throw (New ''the control plane service account token could not be read'')
       | Inr raw \<Rightarrow>
           if TrimSpace raw = [] then throw (New ''the control plane service account token is empty'')
           else tryE (ra_client c (with_bearer (TrimSpace raw) req)) (\<lambda>r.
             case r of
               Inl _ \<Rightarrow> throw (New ''the control plane could not be reached'')
             | Inr resp \<Rightarrow> lift (ra_answer T resp)))"

definition check_type :: struct_type where
  "check_type = [(''repo'', Plain is_str), (''allowed'', Plain is_bool)]"

definition check_request :: "'w repoAccessClient \<Rightarrow> string \<Rightarrow> web_request" where
  "check_request c repo = get_request (ra_baseURL c @ repoAccessCheckPath @ ''?repo='' @ QueryEscape repo)"

definition ra_check :: "'w repoAccessClient \<Rightarrow> string \<Rightarrow> ('w, bool) act" where
  "ra_check c repo = bindE (ra_do c check_type (check_request c repo)) (\<lambda>m. ret (bool_of (m ''allowed'')))"

record repoAccessRequest =
  rar_Repo :: string
  rar_Status :: string
  rar_RequestID :: string

definition request_type :: struct_type where
  "request_type = [(''repo'', Plain is_str), (''status'', Plain is_str), (''requestId'', Plain is_str)]"

definition ra_request :: "'w repoAccessClient \<Rightarrow> string \<Rightarrow> string \<Rightarrow> ('w, repoAccessRequest) act" where
  "ra_request c repo reason =
     bindE (ra_do c request_type (post_request (ra_baseURL c @ repoAccessRequestPath)
         (VObj [(''reason'', VStr (utf8_coerce reason)), (''repo'', VStr (utf8_coerce repo))]))) (\<lambda>m.
     ret \<lparr>rar_Repo = str_field m ''repo'', rar_Status = str_field m ''status'', rar_RequestID = str_field m ''requestId''\<rparr>)"

section \<open>Repositories\<close>

record githubRepo =
  gr_owner :: string
  gr_name :: string
  gr_scope :: string

definition fullName :: "githubRepo \<Rightarrow> string" where
  "fullName r = gr_owner r @ ''/'' @ gr_name r"

text \<open>\<open>githubPathPattern\<close>: a slash, an owner, a slash, a name, an optional \<open>.git\<close>, an optional slash. The
  name is matched lazily, so a \<open>.git\<close> that can be the suffix is.\<close>

definition githubPath :: "string \<Rightarrow> (string \<times> string) option" where
  "githubPath p =
     (case p of
        [] \<Rightarrow> None
      | c # rest \<Rightarrow>
          if c \<noteq> CHR ''/'' then None
          else
            (case cut_slash rest of (owner, tail, found) \<Rightarrow>
               let name = TrimSuffix tail ''/''; short = TrimSuffix name ''.git'' in
               if \<not> found \<or> owner = [] \<or> name = [] \<or> \<not> list_all repo_char owner \<or> \<not> list_all repo_char name then None
               else Some (owner, if short = [] then name else short)))"

definition githubRepoOf :: "(string \<Rightarrow> goerr + url) \<Rightarrow> string \<Rightarrow> githubRepo option" where
  "githubRepoOf parse target =
     (case parse target of
        Inl _ \<Rightarrow> None
      | Inr u \<Rightarrow>
          if u_Scheme u \<noteq> ''https'' \<or> u_Host u \<noteq> ''github.com'' \<or> u_HasUser u \<or> u_RawQuery u \<noteq> [] \<or>
             u_Fragment u \<noteq> [] \<or> u_RawPath u \<noteq> [] then None
          else
            (case githubPath (u_Path u) of
               None \<Rightarrow> None
             | Some (owner, name) \<Rightarrow>
                 Some \<lparr>gr_owner = owner, gr_name = name, gr_scope = ''https://github.com'' @ TrimRight (CHR ''/'') (u_Path u)\<rparr>))"

definition scopedAuthEnv :: "string \<Rightarrow> string \<Rightarrow> string list" where
  "scopedAuthEnv scope header =
     [''GIT_CONFIG_COUNT=1'', ''GIT_CONFIG_KEY_0=http.'' @ scope @ ''.extraheader'', ''GIT_CONFIG_VALUE_0='' @ header]"

text \<open>\<open>base64.StdEncoding\<close>.\<close>

definition b64_char :: "nat \<Rightarrow> char" where
  "b64_char n =
     (if n < 26 then char_of (65 + n) else if n < 52 then char_of (71 + n) else if n < 62 then char_of (n - 4)
      else if n = 62 then CHR ''+'' else CHR ''/'')"

fun EncodeToString :: "string \<Rightarrow> string" where
  "EncodeToString [] = []"
| "EncodeToString [a] =
     (let x = byte_of a in [b64_char (x div 4), b64_char (x mod 4 * 16), CHR ''='', CHR ''=''])"
| "EncodeToString [a, b] =
     (let x = byte_of a; y = byte_of b in
      [b64_char (x div 4), b64_char (x mod 4 * 16 + y div 16), b64_char (y mod 16 * 4), CHR ''=''])"
| "EncodeToString (a # b # c # rest) =
     (let x = byte_of a; y = byte_of b; z = byte_of c in
      [b64_char (x div 4), b64_char (x mod 4 * 16 + y div 16), b64_char (y mod 16 * 4 + z div 64), b64_char (z mod 64)] @ EncodeToString rest)"

definition githubBasicAuthHeader :: "string \<Rightarrow> string \<times> string" where
  "githubBasicAuthHeader token =
     (let encoded = EncodeToString (''x-access-token:'' @ token) in (''Authorization: Basic '' @ encoded, encoded))"

definition redactSecrets :: "string list \<Rightarrow> string \<Rightarrow> string" where
  "redactSecrets secrets t = fold (\<lambda>s t. if s \<noteq> [] then ReplaceAll t s redactedLiteral else t) secrets t"

definition validateRepoAccessArgs :: "string \<Rightarrow> string \<Rightarrow> goerr + string \<times> string" where
  "validateRepoAccessArgs repo reason =
     (let repo = TrimSpace repo; reason = TrimSpace reason in
      if repo = [] then Inl (New ''repo is required, as owner/repo'')
      else if \<not> repoPattern repo then Inl (New ''repo must be owner/repo'')
      else if reason = [] then Inl (New ''reason is required'')
      else if rune_count reason > maxRepoAccessReasonChars then Inl (New ''reason must be at most 500 characters'')
      else Inr (repo, reason))"

section \<open>Validation of targets, branches and paths\<close>

definition validateFetchTarget :: "(string \<Rightarrow> goerr + url) \<Rightarrow> string \<Rightarrow> goerr + string" where
  "validateFetchTarget parse raw =
     (let trimmed = TrimSpace raw in
      if trimmed = [] then Inl (New ''url is required'')
      else case parse trimmed of
        Inl _ \<Rightarrow> Inl (New ''url is not a valid URL'')
      | Inr u \<Rightarrow>
          if u_Scheme u \<noteq> ''https'' \<and> u_Scheme u \<noteq> ''http'' then Inl (New ''url must be http or https'')
          else if u_Host u = [] then Inl (New ''url has no host'')
          else Inr (u_String u))"

text \<open>Control characters are single bytes in UTF-8.\<close>

definition isCloneControlChar :: "char \<Rightarrow> bool" where
  "isCloneControlChar c = (byte_of c < 32 \<or> c = CHR 0x7F)"

definition validateCloneTarget :: "(string \<Rightarrow> goerr + url) \<Rightarrow> string \<Rightarrow> goerr + string" where
  "validateCloneTarget parse raw =
     (let trimmed = TrimSpace raw in
      if trimmed = [] then Inl (New ''url is required'')
      else if is_prefix ''-'' trimmed then Inl (New ''url must not start with a dash'')
      else if list_ex isCloneControlChar trimmed then Inl (New ''url contains a control character'')
      else case parse trimmed of
        Inl _ \<Rightarrow> Inl (New ''url is not a valid URL'')
      | Inr u \<Rightarrow>
          if u_Scheme u \<noteq> ''https'' \<and> u_Scheme u \<noteq> ''http'' then Inl (New ''url must be http or https'')
          else if u_Host u = [] then Inl (New ''url has no host'')
          else if u_HasUser u then Inl (New ''url must not carry credentials'')
          else Inr (u_String u))"

definition maxCloneBranchChars :: nat where "maxCloneBranchChars = 256"
definition noBranch :: string where "noBranch = ''default''"

definition validateCloneBranch :: "string \<Rightarrow> goerr + string" where
  "validateCloneBranch raw =
     (let trimmed = TrimSpace raw in
      if trimmed = [] then Inr noBranch
      else if length trimmed > maxCloneBranchChars then Inl (New ''branch must be at most 256 characters'')
      else if is_prefix ''-'' trimmed then Inl (New ''branch must not start with a dash'')
      else if list_ex isCloneControlChar trimmed then Inl (New ''branch contains a control character'')
      else Inr trimmed)"

definition pushBranchPattern :: "string \<Rightarrow> bool" where
  "pushBranchPattern s =
     (case s of [] \<Rightarrow> False | c # cs \<Rightarrow> alnum c \<and> list_all (\<lambda>x. alnum x \<or> x \<in> set ''._/-'') cs)"

definition strings_Contains :: "string \<Rightarrow> string \<Rightarrow> bool" where
  "strings_Contains s t = (bytes_Index s t \<noteq> None)"

definition HasSuffix :: "string \<Rightarrow> string \<Rightarrow> bool" where
  "HasSuffix s suf = is_prefix (rev suf) (rev s)"

definition validatePushBranch :: "string \<Rightarrow> goerr + string" where
  "validatePushBranch raw =
     (let branch = TrimSpace raw in
      if branch = [] then Inl (New ''branch is required'')
      else if length branch > maxCloneBranchChars then Inl (New ''branch must be at most 256 characters'')
      else if \<not> pushBranchPattern branch \<or> strings_Contains branch ''..'' \<or> strings_Contains branch ''//'' \<or>
              strings_Contains branch ''/.'' \<or> HasSuffix branch ''/'' \<or> HasSuffix branch ''.'' \<or> HasSuffix branch ''.lock''
        then Inl (New ''branch is not a plain branch name'')
      else Inr branch)"

section \<open>The server's configuration\<close>

record pushRequest =
  pq_source :: string
  pq_branch :: string
  pq_remote :: string
  pq_env :: "string list"

text \<open>The answer to an approved fetch.\<close>

record fetch_response =
  fe_Status :: nat
  fe_ContentType :: string
  fe_Body :: body_stream

text \<open>The client of the file-share service; its operations are in \<open>Drop\<close>.\<close>

datatype drop_auth = DropBearer string | DropBasic string string
datatype drop_body = DropNoBody | DropJson jvalue | DropBytes string

record drop_request =
  dq_Method :: string
  dq_URL :: string
  dq_Auth :: drop_auth
  dq_Body :: drop_body

record drop_response =
  dp_Status :: nat
  dp_Body :: body_stream
  dp_Json :: "jvalue option"

record 'w dropClient =
  dc_baseURL :: string
  dc_tokenFile :: string
  dc_client :: "drop_request \<Rightarrow> ('w, drop_response) act"
  dc_ReadFile :: "string \<Rightarrow> ('w, string) act"

record 'w sessionMCPConfig =
  mc_gateway :: "'w approvalGateway option"
  mc_fetch :: "string \<Rightarrow> ('w, fetch_response) act"
  mc_clone :: "string \<Rightarrow> string \<Rightarrow> string \<Rightarrow> string list \<Rightarrow> ('w, unit) act"
  mc_repoAccess :: "'w repoAccessClient option"
  mc_push :: "pushRequest \<Rightarrow> ('w, string) act"
  mc_mintGitHubToken :: "(string \<Rightarrow> string \<Rightarrow> ('w, string) act) option"
  mc_publish :: "approvalNotice \<Rightarrow> ('w, unit) act" \<comment> \<open>\<open>notices.publish\<close>\<close>
  mc_sharedDir :: string
  mc_drop :: "'w dropClient option"
  mc_Parse :: "string \<Rightarrow> goerr + url" \<comment> \<open>\<open>url.Parse\<close>\<close>
  mc_rand :: "('w, string) act" \<comment> \<open>\<open>requestIDBytes\<close> random bytes\<close>
  mc_origin :: "path \<Rightarrow> ('w, string) act" \<comment> \<open>\<open>git config --file ... --get remote.origin.url\<close>\<close>
  mc_get_os :: "'w \<Rightarrow> os"
  mc_set_os :: "os \<Rightarrow> 'w \<Rightarrow> 'w"

definition on_os :: "'w sessionMCPConfig \<Rightarrow> (os, 'a) act \<Rightarrow> ('w, 'a) act" where
  "on_os c m w = (case m (mc_get_os c w) of (r, s) \<Rightarrow> (r, mc_set_os c s w))"

definition gated :: "'w sessionMCPConfig \<Rightarrow> bool" where
  "gated c = (mc_gateway c \<noteq> None)"

definition webFetchGetTool :: string where "webFetchGetTool = ''web_fetch_get''"
definition gitCloneTool :: string where "gitCloneTool = ''git_clone''"
definition gitPushTool :: string where "gitPushTool = ''git_push''"
definition pingTool :: string where "pingTool = ''ping''"
definition requestRepoAccessTool :: string where "requestRepoAccessTool = ''request_repo_access''"
definition dropUploadTool :: string where "dropUploadTool = ''drop_upload''"
definition dropDownloadTool :: string where "dropDownloadTool = ''drop_download''"

lemmas tool_defs = webFetchGetTool_def gitCloneTool_def gitPushTool_def pingTool_def requestRepoAccessTool_def
  dropUploadTool_def dropDownloadTool_def

text \<open>A tool of the list: its name, its arguments and the required ones.\<close>

record tool_definition =
  td_name :: string
  td_properties :: "string list"
  td_required :: "string list"

definition tool :: "string \<Rightarrow> string list \<Rightarrow> string list \<Rightarrow> tool_definition" where
  "tool n props required = \<lparr>td_name = n, td_properties = props, td_required = required\<rparr>"

definition dropToolDefinitions :: "tool_definition list" where
  "dropToolDefinitions =
     [tool dropUploadTool [''paths'', ''days'', ''id'', ''password''] [''paths''],
      tool dropDownloadTool [''id'', ''password'', ''files'', ''dest'', ''overwrite''] [''id'', ''password'']]"

definition toolDefinitions :: "'w sessionMCPConfig \<Rightarrow> tool_definition list" where
  "toolDefinitions c =
     (if \<not> gated c then []
      else
        [tool webFetchGetTool [''url''] [''url''], tool gitCloneTool [''url'', ''branch''] [''url''], tool pingTool [] []] @
        (if mc_repoAccess c \<noteq> None
         then [tool requestRepoAccessTool [''repo'', ''reason''] [''repo'', ''reason''],
               tool gitPushTool [''path'', ''branch''] [''path'', ''branch'']]
         else []) @
        (if mc_drop c \<noteq> None then dropToolDefinitions else []))"

section \<open>Results\<close>

text \<open>\<open>mcpToolText\<close> of a plain text or of an encoded value, \<open>mcpToolError\<close>, and a JSON-RPC error.\<close>

datatype reply = ToolText string | ToolJson jvalue | ToolError goerr | RpcError int string

definition jsonRPCInvalidParams :: int where "jsonRPCInvalidParams = - 32602"
definition jsonRPCInternalError :: int where "jsonRPCInternalError = - 32603"
definition jsonRPCParseError :: int where "jsonRPCParseError = - 32700"
definition jsonRPCInvalidRequest :: int where "jsonRPCInvalidRequest = - 32600"
definition jsonRPCMethodNotFound :: int where "jsonRPCMethodNotFound = - 32601"

abbreviation toolError :: "goerr \<Rightarrow> ('w, reply) act" where
  "toolError e \<equiv> ret (ToolError e)"

text \<open>\<open>err.Error()\<close>.\<close>

fun Error_text :: "goerr \<Rightarrow> string" where
  "Error_text (New s) = s"
| "Error_text (Errorf m es) = m @ concat (map (\<lambda>e. '': '' @ Error_text e) es)"
| "Error_text _ = []"

text \<open>\<open>if err != nil { return mcpToolError(...), nil }\<close> and its JSON-RPC variant.\<close>

definition or_tool :: "(goerr \<Rightarrow> goerr) \<Rightarrow> ('w, 'a) act \<Rightarrow> ('a \<Rightarrow> ('w, reply) act) \<Rightarrow> ('w, reply) act" where
  "or_tool msg m f = tryE m (\<lambda>r. case r of Inl e \<Rightarrow> toolError (msg e) | Inr x \<Rightarrow> f x)"

definition or_rpc :: "string \<Rightarrow> ('w, 'a) act \<Rightarrow> ('a \<Rightarrow> ('w, reply) act) \<Rightarrow> ('w, reply) act" where
  "or_rpc msg m f = tryE m (\<lambda>r. case r of Inl e \<Rightarrow> ret (RpcError jsonRPCInternalError msg) | Inr x \<Rightarrow> f x)"

definition requestIDPrefix :: string where "requestIDPrefix = ''req-''"

definition hex_EncodeToString :: "string \<Rightarrow> string" where
  "hex_EncodeToString s = concat (map (\<lambda>c. [hex_digit (byte_of c div 16), hex_digit (byte_of c mod 16)]) s)"

definition newApprovalRequestID :: "'w sessionMCPConfig \<Rightarrow> ('w, string) act" where
  "newApprovalRequestID c = bindE (mc_rand c) (\<lambda>buf. ret (requestIDPrefix @ hex_EncodeToString buf))"

text \<open>The gate both approved tools pass: announce the wait, ask, announce the answer, and go on only with an approval.\<close>

definition through_gate ::
    "'w sessionMCPConfig \<Rightarrow> 'w approvalGateway \<Rightarrow> string \<Rightarrow> string \<Rightarrow> string \<Rightarrow> (string \<Rightarrow> goerr) \<Rightarrow> ('w, reply) act \<Rightarrow> ('w, reply) act" where
  "through_gate c g toolName requestID approvalContext refused go =
     ignoreE (mc_publish c (notice noticeAwaiting toolName (externalID g requestID) []))
     (tryE (await g requestID approvalContext) (\<lambda>r.
        case r of
          Inl e \<Rightarrow>
            ignoreE (mc_publish c (notice noticeUnavailable toolName (externalID g requestID) []))
              (toolError (Errorf ''approval could not be obtained'' [e]))
        | Inr outcome \<Rightarrow>
            ignoreE (mc_publish c (notice noticeDecided toolName (externalID g requestID) (ao_Decision outcome)))
              (if ao_Decision outcome \<noteq> approvalApproved then toolError (refused (map lower (ao_Decision outcome)))
               else go)))"

section \<open>web\_fetch\_get\<close>

definition maxInlineBodyBytes :: nat where "maxInlineBodyBytes = 100000"
definition maxSpilledBodyBytes :: nat where "maxSpilledBodyBytes = 64 * 2 ^ 20"
definition spillSubdir :: string where "spillSubdir = ''web_fetch_get''"
definition spillFileSuffix :: string where "spillFileSuffix = ''.body''"

text \<open>\<open>io.ReadAll(io.LimitReader(body, n))\<close>: the end of the stream shows only when it comes before the limit.\<close>

definition ReadLimited :: "nat \<Rightarrow> body_stream \<Rightarrow> goerr + string" where
  "ReadLimited n b =
     (if length (bs_Bytes b) < n then (case bs_Err b of Some e \<Rightarrow> Inl e | None \<Rightarrow> Inr (bs_Bytes b))
      else Inr (take n (bs_Bytes b)))"

definition rest_of :: "nat \<Rightarrow> body_stream \<Rightarrow> body_stream" where
  "rest_of n b = b\<lparr>bs_Bytes := drop n (bs_Bytes b)\<rparr>"

record spilledBody =
  sb_path :: string
  sb_size :: nat
  sb_truncated :: bool

text \<open>The deferred clean-up: close, remove, and the error stands.\<close>

definition discarding :: "path \<Rightarrow> (os, 'a) act \<Rightarrow> (os, 'a) act" where
  "discarding tmp m = tryE m (\<lambda>r. case r of Inl e \<Rightarrow> ignoreE (os_Remove tmp) (throw e) | Inr x \<Rightarrow> ret x)"

definition spillBody :: "string \<Rightarrow> string \<Rightarrow> string \<Rightarrow> body_stream \<Rightarrow> (os, spilledBody) act" where
  "spillBody sharedDir requestID head_bytes rest =
     (if sharedDir = [] then throw (New ''no shared volume is configured for this session'')
      else
        let dir = filepath_Join [sharedDir, spillSubdir];
            final = filepath_Join [dir, requestID @ spillFileSuffix] in
        thenE (wrapE ''prepare the shared volume directory'' (MkdirAll (os_path dir) 448))
        (bindE (wrapE ''create the response file'' (CreateTemp (os_path dir) (''.'' @ requestID @ ''-''))) (\<lambda>tmp.
         discarding tmp
           (thenE (wrapE ''write the response'' (AppendTo tmp head_bytes))
           (bindE (wrapE ''write the response'' (lift (ReadLimited (maxSpilledBodyBytes - length head_bytes + 1) rest))) (\<lambda>copied.
            thenE (wrapE ''write the response'' (AppendTo tmp copied))
           (let size = length head_bytes + length copied in
            thenE (if size > maxSpilledBodyBytes then wrapE ''bound the response file'' (Truncate tmp maxSpilledBodyBytes) else ret ())
           (thenE (wrapE ''close the response file'' file_Close)
           (thenE (wrapE ''publish the response file'' (RenameFile tmp (os_path final)))
              (ret \<lparr>sb_path = final, sb_size = min size maxSpilledBodyBytes, sb_truncated = (size > maxSpilledBodyBytes)\<rparr>))))))))))"

definition fetch_headers :: "fetch_response \<Rightarrow> (string \<times> jvalue) list" where
  "fetch_headers resp =
     [(''success'', VBool True), (''status'', VInt (int (fe_Status resp))),
      (''headers'', VObj [(''content-type'', VStr (fe_ContentType resp))])]"

definition fetch_result :: "'w sessionMCPConfig \<Rightarrow> string \<Rightarrow> fetch_response \<Rightarrow> ('w, reply) act" where
  "fetch_result c requestID resp =
     (case ReadLimited (maxInlineBodyBytes + 1) (fe_Body resp) of
        Inl e \<Rightarrow> toolError (Errorf ''reading the response failed'' [e])
      | Inr head_bytes \<Rightarrow>
          if length head_bytes \<le> maxInlineBodyBytes
          then ret (ToolJson (VObj (fetch_headers resp @ [(''body'', VStr (utf8_coerce head_bytes))])))
          else if mc_sharedDir c = []
          then ret (ToolJson (VObj (fetch_headers resp @
                 [(''body'', VStr (utf8_coerce (take maxInlineBodyBytes head_bytes))), (''truncated'', VBool True)])))
          else
            tryE (on_os c (spillBody (mc_sharedDir c) requestID head_bytes (rest_of (maxInlineBodyBytes + 1) (fe_Body resp)))) (\<lambda>r.
              case r of
                Inl e \<Rightarrow> ret (ToolJson (VObj (fetch_headers resp @
                  [(''body'', VStr (utf8_coerce (take maxInlineBodyBytes head_bytes))), (''truncated'', VBool True), (''spillError'', VStr (utf8_coerce (Error_text e)))])))
              | Inr spill \<Rightarrow> ret (ToolJson (VObj (fetch_headers resp @
                  [(''bodyPath'', VStr (sb_path spill)), (''bodyBytes'', VInt (int (sb_size spill))), (''truncated'', VBool (sb_truncated spill))])))))"

definition fetch_context :: "string \<Rightarrow> string" where
  "fetch_context target = marshal_strings [(''method'', ''GET''), (''url'', target)]"

definition callWebFetch :: "'w sessionMCPConfig \<Rightarrow> 'w approvalGateway \<Rightarrow> jvalue option \<Rightarrow> ('w, reply) act" where
  "callWebFetch c g arguments =
     (case unmarshal_raw [(''url'', Plain is_str)] arguments of
        None \<Rightarrow> toolError (New ''arguments must be an object with a url'')
      | Some args \<Rightarrow>
          or_tool id (lift (validateFetchTarget (mc_Parse c) (str_field args ''url''))) (\<lambda>target.
          or_rpc ''could not generate an approval request id'' (newApprovalRequestID c) (\<lambda>requestID.
          through_gate c g webFetchGetTool requestID (fetch_context target) (\<lambda>d. New (''web fetch request '' @ d))
            (or_tool (\<lambda>e. Errorf ''fetch failed'' [e]) (mc_fetch c target) (fetch_result c requestID)))))"

end
