(* ===== verification/Session_Tools.thy ===== *)
theory Session_Tools
  imports Session_Mcp
begin

text \<open>
  The repository tools of the session MCP: \<open>git_clone\<close>, \<open>git_push\<close> and \<open>request_repo_access\<close>
  (\<open>session_mcp_git.go\<close>, \<open>session_mcp_git_push.go\<close>, \<open>session_mcp_repo_access.go\<close>), the token mint, and the
  \<open>git\<close> command lines behind the two seams. A \<open>git\<close> process is a parameter: environment and arguments to what it
  wrote and how it ended.
\<close>

section \<open>Minting a token\<close>

definition githubContentsRead :: string where "githubContentsRead = ''read''"
definition githubContentsWrite :: string where "githubContentsWrite = ''write''"
definition githubTokenTool :: string where "githubTokenTool = ''github_app_installation_token''"

definition githubTokenCallBody :: "string list \<Rightarrow> string \<Rightarrow> goerr + jvalue" where
  "githubTokenCallBody repositories contents =
     (if contents \<noteq> githubContentsRead \<and> contents \<noteq> githubContentsWrite then Inl (New ''unsupported contents permission'')
      else Inr (VObj [(''id'', VInt 1), (''jsonrpc'', VStr ''2.0''), (''method'', VStr ''tools/call''),
        (''params'', VObj [(''arguments'', VObj [(''permissions'', VObj [(''contents'', VStr contents)]),
                                                 (''repositories'', VArr (map VStr repositories))]),
                           (''name'', VStr githubTokenTool)])]))"

definition resource_type :: struct_type where "resource_type = [(''text'', Plain is_str)]"

definition content_item_type :: struct_type where
  "content_item_type = [(''type'', Plain is_str), (''resource'', Plain (\<lambda>v. Unmarshal resource_type v \<noteq> None))]"

definition is_contents :: "jvalue \<Rightarrow> bool" where
  "is_contents v = (case v of VArr vs \<Rightarrow> list_all (\<lambda>u. Unmarshal content_item_type u \<noteq> None) vs | _ \<Rightarrow> False)"

definition result_type :: struct_type where
  "result_type = [(''isError'', Plain is_bool), (''content'', Nullable is_contents)]"

definition token_response_type :: struct_type where
  "token_response_type = [(''error'', Raw), (''result'', Plain (\<lambda>v. Unmarshal result_type v \<noteq> None))]"

definition sub_struct :: "struct_type \<Rightarrow> jvalue option \<Rightarrow> string \<rightharpoonup> jvalue" where
  "sub_struct T v = (case Option.bind v (Unmarshal T) of None \<Rightarrow> (\<lambda>_. None) | Some m \<Rightarrow> m)"

fun token_line :: "string list \<Rightarrow> string option" where
  "token_line [] = None"
| "token_line (l # ls) =
     (case CutPrefix l ''GITHUB_TOKEN='' of
        Some token \<Rightarrow> if token \<noteq> [] then Some token else token_line ls
      | None \<Rightarrow> token_line ls)"

fun token_item :: "jvalue list \<Rightarrow> string option" where
  "token_item [] = None"
| "token_item (v # vs) =
     (let item = sub_struct content_item_type (Some v) in
      if str_field item ''type'' \<noteq> ''resource'' then token_item vs
      else case token_line (split_on newline (str_field (sub_struct resource_type (item ''resource'')) ''text'')) of
        Some token \<Rightarrow> Some token
      | None \<Rightarrow> token_item vs)"

definition parseGitHubTokenResponse :: "jvalue option \<Rightarrow> goerr + string" where
  "parseGitHubTokenResponse body =
     (case Option.bind body (Unmarshal token_response_type) of
        None \<Rightarrow> Inl (New ''K3s MCP GitHub token response is not JSON'')
      | Some resp \<Rightarrow>
          if resp ''error'' \<noteq> None \<and> resp ''error'' \<noteq> Some VNull then Inl (New ''K3s MCP GitHub token request failed'')
          else
            let result = sub_struct result_type (resp ''result'') in
            if bool_of (result ''isError'') then Inl (New ''K3s MCP GitHub token tool returned an error'')
            else case token_item (case result ''content'' of Some (VArr vs) \<Rightarrow> vs | _ \<Rightarrow> []) of
              Some token \<Rightarrow> Inr token
            | None \<Rightarrow> Inl (New ''K3s MCP response omitted GITHUB_TOKEN''))"

definition githubTokenFromProxy :: "(web_request \<Rightarrow> ('w, web_response) act) \<Rightarrow> string \<Rightarrow> string \<Rightarrow> string \<Rightarrow> ('w, string) act" where
  "githubTokenFromProxy client proxyMCPURL repository contents =
     bindE (lift (githubTokenCallBody [repository] contents)) (\<lambda>body.
     tryE (client (post_request proxyMCPURL body)) (\<lambda>r.
       case r of
         Inl _ \<Rightarrow> throw (New ''the K3s MCP proxy could not be reached'')
       | Inr resp \<Rightarrow>
           if wr_ReadErr resp \<noteq> None then throw (New ''the K3s MCP proxy response could not be read'')
           else if wr_Status resp \<noteq> 200 then throw (New (''K3s MCP GitHub token request returned status '' @ Itoa (wr_Status resp)))
           else lift (parseGitHubTokenResponse (wr_Json resp))))"

definition githubTokenMinter ::
    "(web_request \<Rightarrow> ('w, web_response) act) \<Rightarrow> string \<Rightarrow> (string \<Rightarrow> string \<Rightarrow> ('w, string) act) option" where
  "githubTokenMinter client proxyMCPURL =
     (if TrimSpace proxyMCPURL = [] then None else Some (githubTokenFromProxy client proxyMCPURL))"

section \<open>The git process\<close>

record git_result =
  gt_Stdout :: string
  gt_Stderr :: "string list" \<comment> \<open>the writes of the process\<close>
  gt_Err :: "goerr option"
  gt_Deadline :: bool \<comment> \<open>the context's deadline had passed\<close>

type_synonym 'w git = "string list \<Rightarrow> string list \<Rightarrow> ('w, git_result) act"

record boundedBuffer =
  bb_limit :: nat
  bb_buf :: string
  bb_dropped :: nat

definition bb_Write :: "string \<Rightarrow> boundedBuffer \<Rightarrow> boundedBuffer" where
  "bb_Write p b =
     (let room = bb_limit b - length (bb_buf b) in
      if room > 0 then
        if length p \<le> room then b\<lparr>bb_buf := bb_buf b @ p\<rparr>
        else b\<lparr>bb_buf := bb_buf b @ take room p, bb_dropped := bb_dropped b + (length p - room)\<rparr>
      else b\<lparr>bb_dropped := bb_dropped b + length p\<rparr>)"

definition bb_String :: "boundedBuffer \<Rightarrow> string" where
  "bb_String b =
     (if bb_dropped b > 0 then bb_buf b @ '' '' @ ellipsis @ '' ('' @ Itoa (bb_dropped b) @ '' more bytes)'' else bb_buf b)"

definition maxCloneErrorBytes :: nat where "maxCloneErrorBytes = 4096"

definition bounded_stderr :: "git_result \<Rightarrow> string" where
  "bounded_stderr res = bb_String (fold bb_Write (gt_Stderr res) \<lparr>bb_limit = maxCloneErrorBytes, bb_buf = [], bb_dropped = 0\<rparr>)"

definition cloneArgs :: "string \<Rightarrow> string \<Rightarrow> string \<Rightarrow> string list" where
  "cloneArgs target branch dest =
     [''-c'', ''credential.helper='', ''clone''] @ (if branch \<noteq> noBranch then [''--branch'', branch] else []) @ [''--'', target, dest]"

definition clone_env :: "string list" where
  "clone_env = [''GIT_TERMINAL_PROMPT=0'', ''GIT_ASKPASS='', ''GCM_INTERACTIVE=never'', ''GIT_CONFIG_NOSYSTEM=1'']"

definition cloneRepository :: "'w git \<Rightarrow> string list \<Rightarrow> string \<Rightarrow> string \<Rightarrow> string \<Rightarrow> string list \<Rightarrow> ('w, unit) act" where
  "cloneRepository git environ target branch dest env =
     bindE (git (environ @ clone_env @ env) (cloneArgs target branch dest)) (\<lambda>res.
       case gt_Err res of
         None \<Rightarrow> ret ()
       | Some err \<Rightarrow>
           if gt_Deadline res then throw (New ''git clone did not finish within 5m0s'')
           else if TrimSpace (bounded_stderr res) \<noteq> [] then throw (Errorf [] [err, New (TrimSpace (bounded_stderr res))])
           else throw err)"

definition pushGitEnv :: "string list \<Rightarrow> string list \<Rightarrow> string list" where
  "pushGitEnv environ extra = environ @ clone_env @ [''GIT_CONFIG_GLOBAL=/dev/null''] @ extra"

definition errPushRejected :: goerr where "errPushRejected = New ''rejected by the remote''"

definition git_run :: "'w git \<Rightarrow> string list \<Rightarrow> string list \<Rightarrow> ('w, string \<times> goerr option) act" where
  "git_run git env args =
     bindE (git env args) (\<lambda>res.
       case gt_Err res of
         None \<Rightarrow> ret (gt_Stdout res, None)
       | Some err \<Rightarrow>
           if gt_Deadline res then ret ([], Some (New ''git push did not finish within 5m0s''))
           else
             let detail = TrimSpace (TrimSpace (gt_Stdout res) @ [newline] @ bounded_stderr res) in
             if detail \<noteq> [] then ret (gt_Stdout res, Some (Errorf [] [err, New (truncateText detail maxCloneErrorBytes)]))
             else ret (gt_Stdout res, Some err))"

definition push_steps :: "'w git \<Rightarrow> string list \<Rightarrow> string \<Rightarrow> pushRequest \<Rightarrow> ('w, string) act" where
  "push_steps git environ scratch req =
     (let ref = ''refs/heads/'' @ pq_branch req; plain = pushGitEnv environ []; own = ''safe.directory='' @ scratch in
      bindE (git_run git plain [''init'', ''--bare'', ''-q'', scratch]) (\<lambda>(_, err).
      if err \<noteq> None then throw (Errorf ''prepare a scratch repository'' [the err])
      else bindE (git_run git plain
          [''-C'', scratch, ''-c'', own, ''-c'', ''protocol.file.allow=always'', ''-c'', ''credential.helper='',
           ''fetch'', ''--no-tags'', ''-q'', ''--upload-pack=git -c safe.directory='' @ [CHR 0x27, CHR ''*'', CHR 0x27] @ '' upload-pack'',
           ''--'', filepath_Join [pq_source req, ''.git''], ref @ '':'' @ ref]) (\<lambda>(_, err).
      if err \<noteq> None then throw (Errorf ''branch could not be read from the clone'' [the err])
      else bindE (git_run git plain [''-C'', scratch, ''-c'', own, ''rev-parse'', ''--verify'', ''-q'', ref @ ''^{commit}'']) (\<lambda>(commit, err).
      if err \<noteq> None then throw (New ''branch has no commit in the clone'')
      else bindE (git_run git (pushGitEnv environ (pq_env req))
          [''-C'', scratch, ''-c'', own, ''-c'', ''credential.helper='', ''-c'', ''core.hooksPath=/dev/null'',
           ''push'', ''--no-verify'', ''--porcelain'', ''--'', pq_remote req, ref @ '':'' @ ref]) (\<lambda>(out, err).
      case err of
        None \<Rightarrow> ret (TrimSpace commit)
      | Some e \<Rightarrow>
          if strings_Contains out ''[rejected]'' \<or> strings_Contains (Error_text e) ''non-fast-forward'' \<or>
             strings_Contains (Error_text e) ''fetch first''
          then throw (Errorf [] [errPushRejected, e])
          else throw e)))))"

text \<open>The scratch repository is removed whatever happens.\<close>

definition pushRepository ::
    "(string \<Rightarrow> ('w, string) act) \<Rightarrow> (string \<Rightarrow> ('w, unit) act) \<Rightarrow> 'w git \<Rightarrow> string list \<Rightarrow> pushRequest \<Rightarrow> ('w, string) act" where
  "pushRepository mkdirTemp rmAll git environ req =
     bindE (wrapE ''prepare a scratch repository'' (mkdirTemp ''git-push-'')) (\<lambda>scratch.
     defer_with (\<lambda>r. ignoreE (rmAll scratch) (lift r)) (push_steps git environ scratch req))"

section \<open>git\_clone\<close>

definition cloneSubdir :: string where "cloneSubdir = ''git_clone''"

definition clonePath :: "'w sessionMCPConfig \<Rightarrow> string \<Rightarrow> string" where
  "clonePath c requestID = filepath_Join [mc_sharedDir c, cloneSubdir, requestID]"

definition runClone :: "'w sessionMCPConfig \<Rightarrow> string \<Rightarrow> string \<Rightarrow> string \<Rightarrow> string list \<Rightarrow> ('w, unit) act" where
  "runClone c target branch dest env =
     tryE (mc_clone c target branch dest env) (\<lambda>r.
       case r of
         Inr _ \<Rightarrow> ret ()
       | Inl err \<Rightarrow> ignoreE (on_os c (RemoveAll (os_path dest))) (throw err))"

definition cloneResult :: "string \<Rightarrow> string \<Rightarrow> string \<Rightarrow> reply" where
  "cloneResult dest target branch =
     ToolJson (VObj [(''branch'', VStr branch), (''message'', VStr ''Repository cloned successfully''), (''path'', VStr dest),
                     (''success'', VBool True), (''url'', VStr target)])"

definition cloneAllowed :: "'w sessionMCPConfig \<Rightarrow> githubRepo \<Rightarrow> string \<Rightarrow> string \<Rightarrow> string \<Rightarrow> ('w, goerr option) act" where
  "cloneAllowed c repo target branch dest =
     (let anonymous = (\<lambda>mintErr.
            tryE (runClone c target branch dest []) (\<lambda>r.
              case r of
                Inr _ \<Rightarrow> ret None
              | Inl err \<Rightarrow> ret (Some (Errorf ''token could not be issued, and an anonymous clone failed'' [mintErr, err])))) in
      case mc_mintGitHubToken c of
        None \<Rightarrow> anonymous (New ''this helper pod has no K3s MCP proxy'')
      | Some mint \<Rightarrow>
          tryE (mint (gr_name repo) githubContentsRead) (\<lambda>r.
            case r of
              Inl err \<Rightarrow> anonymous err
            | Inr token \<Rightarrow>
                (case githubBasicAuthHeader token of (header, encoded) \<Rightarrow>
                   tryE (runClone c target branch dest (scopedAuthEnv (gr_scope repo) header)) (\<lambda>r.
                     case r of
                       Inr _ \<Rightarrow> ret None
                     | Inl err \<Rightarrow> ret (Some (New (''repository not found or no permission: '' @
                         redactSecrets [header, encoded, token] (Error_text err))))))))"

definition not_allowed :: "githubRepo \<Rightarrow> goerr" where
  "not_allowed repo = New (''repository '' @ fullName repo @ '' is not on the allow list'')"

definition cloneFromAllowList :: "'w sessionMCPConfig \<Rightarrow> 'w repoAccessClient \<Rightarrow> string \<Rightarrow> string \<Rightarrow> ('w, reply) act" where
  "cloneFromAllowList c ra target branch =
     (case githubRepoOf (mc_Parse c) target of
        None \<Rightarrow> toolError (New ''only https://github.com/<owner>/<repo> repositories on the allow list can be cloned here'')
      | Some repo \<Rightarrow>
          or_tool (\<lambda>e. Errorf ''the allow list could not be checked, so nothing was cloned'' [e]) (ra_check ra (fullName repo)) (\<lambda>allowed.
          if \<not> allowed then toolError (not_allowed repo)
          else
            or_rpc ''could not generate a request id'' (newApprovalRequestID c) (\<lambda>requestID.
            let dest = clonePath c requestID in
            or_tool (\<lambda>e. Errorf ''prepare the shared volume directory'' [e]) (on_os c (MkdirAll (os_path (Dir_of dest)) 448)) (\<lambda>_.
            bindE (cloneAllowed c repo target branch dest) (\<lambda>failure.
            case failure of
              Some e \<Rightarrow> toolError e
            | None \<Rightarrow> ret (cloneResult dest target branch))))))"

definition clone_context :: "string \<Rightarrow> string \<Rightarrow> string \<Rightarrow> string" where
  "clone_context target branch dest = marshal_strings [(''branch'', branch), (''path'', dest), (''url'', target)]"

definition cloneApproved :: "'w sessionMCPConfig \<Rightarrow> 'w approvalGateway \<Rightarrow> string \<Rightarrow> string \<Rightarrow> ('w, reply) act" where
  "cloneApproved c g target branch =
     or_rpc ''could not generate an approval request id'' (newApprovalRequestID c) (\<lambda>requestID.
     let dest = clonePath c requestID in
     through_gate c g gitCloneTool requestID (clone_context target branch dest) (\<lambda>d. New (''clone refused at approval: git clone request '' @ d))
       (or_tool (\<lambda>e. Errorf ''prepare the shared volume directory'' [e]) (on_os c (MkdirAll (os_path (Dir_of dest)) 448)) (\<lambda>_.
        or_tool (\<lambda>e. Errorf ''clone failed'' [e]) (runClone c target branch dest []) (\<lambda>_.
        ret (cloneResult dest target branch)))))"

definition callGitClone :: "'w sessionMCPConfig \<Rightarrow> 'w approvalGateway \<Rightarrow> jvalue option \<Rightarrow> ('w, reply) act" where
  "callGitClone c g arguments =
     (case unmarshal_raw [(''url'', Plain is_str), (''branch'', Plain is_str)] arguments of
        None \<Rightarrow> toolError (New ''arguments must be an object with a url and an optional branch'')
      | Some args \<Rightarrow>
          or_tool id (lift (validateCloneTarget (mc_Parse c) (str_field args ''url''))) (\<lambda>target.
          or_tool id (lift (validateCloneBranch (str_field args ''branch''))) (\<lambda>branch.
          if mc_sharedDir c = [] then toolError (New ''no shared volume is configured for this session, so there is nowhere to clone into'')
          else case mc_repoAccess c of
            Some ra \<Rightarrow> cloneFromAllowList c ra target branch
          | None \<Rightarrow> cloneApproved c g target branch)))"

section \<open>git\_push\<close>

definition is_hex :: "char \<Rightarrow> bool" where
  "is_hex x = (CHR ''0'' \<le> x \<and> x \<le> CHR ''9'' \<or> CHR ''a'' \<le> x \<and> x \<le> CHR ''f'')"

definition clonePathBase :: "string \<Rightarrow> bool" where
  "clonePathBase s = (is_prefix requestIDPrefix s \<and> length s = 12 \<and> list_all is_hex (drop 4 s))"

fun plain_dirs :: "path list \<Rightarrow> (os, unit) act" where
  "plain_dirs [] = ret ()"
| "plain_dirs (p # ps) =
     tryE (Lstat p) (\<lambda>r.
       case r of
         Inl _ \<Rightarrow> throw (New ''no clone at the path'')
       | Inr n \<Rightarrow> if \<not> is_dir n then throw (New ''not a plain directory, so it is not pushed from'') else plain_dirs ps)"

definition resolveClonePath :: "string \<Rightarrow> string \<Rightarrow> (os, string) act" where
  "resolveClonePath sharedDir raw =
     (let path = TrimSpace raw; root = filepath_Join [sharedDir, cloneSubdir] in
      if path = [] then throw (New ''path is required'')
      else if \<not> IsAbs path \<or> Clean path \<noteq> path \<or> Dir_of path \<noteq> root \<or> \<not> clonePathBase (filepath_Base path)
        then throw (New ''path must be a clone directory git_clone returned'')
      else
        thenE (plain_dirs [os_path path, os_path (filepath_Join [path, ''.git''])])
        (tryE (EvalSymlinks (os_path root)) (\<lambda>r.
           case r of
             Inl _ \<Rightarrow> throw (New ''the clone directory could not be resolved'')
           | Inr resolvedRoot \<Rightarrow>
               tryE (EvalSymlinks (os_path path)) (\<lambda>r.
                 case r of
                   Inl _ \<Rightarrow> throw (New ''the path does not resolve inside the clone directory'')
                 | Inr resolved \<Rightarrow>
                     if resolved \<noteq> resolvedRoot @ [filepath_Base path]
                     then throw (New ''the path does not resolve inside the clone directory'')
                     else ret path))))"

definition readCloneOrigin :: "'w sessionMCPConfig \<Rightarrow> string \<Rightarrow> ('w, string) act" where
  "readCloneOrigin c source =
     (let configPath = os_path (filepath_Join [source, ''.git'', ''config'']) in
      tryE (on_os c (Lstat configPath)) (\<lambda>r.
        case r of
          Inl _ \<Rightarrow> throw (New ''the clone has no regular .git/config to read its origin from'')
        | Inr n \<Rightarrow>
            if \<not> is_regular n then throw (New ''the clone has no regular .git/config to read its origin from'')
            else tryE (mc_origin c configPath) (\<lambda>r.
              case r of
                Inl _ \<Rightarrow> throw (New ''the clone has no single remote.origin.url'')
              | Inr out \<Rightarrow> ret (TrimSpace out))))"

definition push_failure :: "goerr \<Rightarrow> string list \<Rightarrow> goerr" where
  "push_failure err secrets =
     (if errors_is err errPushRejected then New (''push was rejected: '' @ redactSecrets secrets (Error_text err))
      else New (''push failed: '' @ redactSecrets secrets (Error_text err)))"

definition pushAllowed :: "'w sessionMCPConfig \<Rightarrow> githubRepo \<Rightarrow> string \<Rightarrow> string \<Rightarrow> ('w, reply) act" where
  "pushAllowed c repo source branch =
     (case mc_mintGitHubToken c of
        None \<Rightarrow> toolError (New ''a write token could not be issued (this helper pod has no K3s MCP proxy), so nothing was pushed'')
      | Some mint \<Rightarrow>
          or_tool (\<lambda>e. Errorf ''a write token could not be issued, so nothing was pushed'' [e]) (mint (gr_name repo) githubContentsWrite) (\<lambda>token.
          case githubBasicAuthHeader token of (header, encoded) \<Rightarrow>
            or_tool (\<lambda>e. push_failure e [header, encoded, token])
              (mc_push c \<lparr>pq_source = source, pq_branch = branch, pq_remote = gr_scope repo, pq_env = scopedAuthEnv (gr_scope repo) header\<rparr>) (\<lambda>commit.
            ret (ToolJson (VObj [(''branch'', VStr branch), (''commit'', VStr commit), (''message'', VStr ''Branch pushed successfully''),
                                 (''path'', VStr source), (''success'', VBool True), (''url'', VStr (gr_scope repo))])))))"

definition callGitPush :: "'w sessionMCPConfig \<Rightarrow> jvalue option \<Rightarrow> ('w, reply) act" where
  "callGitPush c arguments =
     (case unmarshal_raw [(''path'', Plain is_str), (''branch'', Plain is_str)] arguments of
        None \<Rightarrow> toolError (New ''arguments must be an object with a path and a branch'')
      | Some args \<Rightarrow>
          (case mc_repoAccess c of
             None \<Rightarrow> toolError (New ''repo access is not configured on this deployment, so nothing can be pushed'')
           | Some ra \<Rightarrow>
               if mc_sharedDir c = [] then toolError (New ''no shared volume is configured for this session, so there is no clone to push from'')
               else
                 or_tool id (lift (validatePushBranch (str_field args ''branch''))) (\<lambda>branch.
                 or_tool id (on_os c (resolveClonePath (mc_sharedDir c) (str_field args ''path''))) (\<lambda>source.
                 or_tool id (readCloneOrigin c source) (\<lambda>origin.
                 case githubRepoOf (mc_Parse c) origin of
                   None \<Rightarrow> toolError (New (''the clone's origin '' @ truncateText origin 200 @ '' is not an https://github.com/<owner>/<repo> URL''))
                 | Some repo \<Rightarrow>
                     or_tool (\<lambda>e. Errorf ''the allow list could not be checked, so nothing was pushed'' [e]) (ra_check ra (fullName repo)) (\<lambda>allowed.
                     if \<not> allowed then toolError (not_allowed repo)
                     else pushAllowed c repo source branch))))))"

section \<open>request\_repo\_access\<close>

definition access_notice :: "string \<Rightarrow> approvalNotice" where
  "access_notice repo = (notice noticeAccessRequested requestRepoAccessTool [] [])\<lparr>an_Repo := repo\<rparr>"

definition access_reply :: "repoAccessRequest \<Rightarrow> string \<Rightarrow> string \<Rightarrow> reply" where
  "access_reply out repo message =
     ToolJson (VObj [(''message'', VStr message), (''repo'', VStr (if rar_Repo out = [] then repo else rar_Repo out)),
                     (''requestId'', VStr (rar_RequestID out)), (''status'', VStr (rar_Status out))])"

definition callRequestRepoAccess :: "'w sessionMCPConfig \<Rightarrow> jvalue option \<Rightarrow> ('w, reply) act" where
  "callRequestRepoAccess c arguments =
     (case unmarshal_raw [(''repo'', Plain is_str), (''reason'', Plain is_str)] arguments of
        None \<Rightarrow> toolError (New ''arguments must be an object with a repo and a reason'')
      | Some args \<Rightarrow>
          or_tool id (lift (validateRepoAccessArgs (str_field args ''repo'') (str_field args ''reason''))) (\<lambda>(repo, reason).
          case mc_repoAccess c of
            None \<Rightarrow> toolError (New ''repo access is not configured on this deployment'')
          | Some ra \<Rightarrow>
              or_tool (\<lambda>e. Errorf ''access request failed'' [e]) (ra_request ra repo reason) (\<lambda>out.
              if rar_Status out = StatusPending then
                ignoreE (mc_publish c (access_notice repo))
                  (ret (access_reply out repo ''Request recorded. A person decides in the control plane; nothing opens until then.''))
              else if rar_Status out = StatusAllowed then ret (access_reply out repo ''Already on the allow list.'')
              else toolError (New (''access request failed: the control plane answered with status '' @ truncateText (rar_Status out) 40)))))"

end
