(* ===== verification/Drop.thy ===== *)
theory Drop
  imports Session_Mcp
begin

text \<open>
  The file-share tools of the session MCP (\<open>session_mcp_drop.go\<close>): \<open>drop_upload\<close> sends files of the shared volume to
  the service in chunks, \<open>drop_download\<close> fetches files into a directory of the volume. The service is the transport
  \<open>dc_client\<close>; file access goes through \<open>os.Root\<close>, whose lookup never leaves the root. Numbers in JSON that are not
  integer literals are taken to be no integers.
\<close>

section \<open>Directories that cannot be left\<close>

definition errEscapes :: goerr where "errEscapes = New ''path escapes from parent''"

text \<open>\<open>os.Root\<close>: names are looked up below \<open>root\<close>; a link may not be absolute and \<open>..\<close> may not pass the root. The
  result is relative to the root.\<close>

fun rooted :: "files \<Rightarrow> path \<Rightarrow> bool \<Rightarrow> nat \<Rightarrow> path \<Rightarrow> string list \<Rightarrow> goerr + path" where
  "rooted fs root follow n cur [] = Inr cur"
| "rooted fs root follow n cur (c # cs) =
     (if c = [] \<or> c = ''.'' then rooted fs root follow n cur cs
      else if c = ''..'' then (if cur = [] then Inl errEscapes else rooted fs root follow n (butlast cur) cs)
      else
        (case get fs (root @ cur @ [c]) of
           None \<Rightarrow> if cs = [] then Inr (cur @ [c]) else Inl ErrNotExist
         | Some (Dir _ _) \<Rightarrow> rooted fs root follow n (cur @ [c]) cs
         | Some (Symlink t) \<Rightarrow>
             if cs = [] \<and> \<not> follow then Inr (cur @ [c])
             else if IsAbs t then Inl errEscapes
             else (case n of
                     0 \<Rightarrow> Inl ELOOP
                   | Suc n' \<Rightarrow> rooted fs root follow n' cur (split_on (CHR ''/'') t @ cs))
         | Some _ \<Rightarrow> if cs = [] then Inr (cur @ [c]) else Inl ENOTDIR))"

definition root_lookup :: "bool \<Rightarrow> path \<Rightarrow> string \<Rightarrow> files \<Rightarrow> goerr + path" where
  "root_lookup follow root rel fs =
     (case rooted fs root follow max_links [] (split_slash rel) of Inl e \<Rightarrow> Inl e | Inr p \<Rightarrow> Inr (root @ p))"

definition OpenRoot :: "path \<Rightarrow> (os, path) act" where
  "OpenRoot p = syscall (\<lambda>w.
     (case lookup True p (os_files w) of
        Inl e \<Rightarrow> Inl e
      | Inr q \<Rightarrow> if q = [] then Inr [] else (case get (os_files w) q of
          None \<Rightarrow> Inl ErrNotExist | Some n \<Rightarrow> if is_dir n then Inr q else Inl ENOTDIR), w))"

definition root_node_at :: "bool \<Rightarrow> path \<Rightarrow> string \<Rightarrow> os \<Rightarrow> goerr + node" where
  "root_node_at follow root rel w =
     (case root_lookup follow root rel (os_files w) of
        Inl e \<Rightarrow> Inl e
      | Inr q \<Rightarrow> if q = [] then Inr root_node else node_at q w)"

definition root_Stat :: "path \<Rightarrow> string \<Rightarrow> (os, node) act" where
  "root_Stat root rel = syscall (\<lambda>w. (root_node_at True root rel w, w))"

definition root_Lstat :: "path \<Rightarrow> string \<Rightarrow> (os, node) act" where
  "root_Lstat root rel = syscall (\<lambda>w. (root_node_at False root rel w, w))"

definition root_create :: "path \<Rightarrow> string \<Rightarrow> (time \<Rightarrow> node) \<Rightarrow> (os, unit) act" where
  "root_create root rel mk = syscall (\<lambda>w.
     case root_lookup False root rel (os_files w) of
       Inl e \<Rightarrow> (Inl e, w)
     | Inr q \<Rightarrow>
         if q = [] \<or> get (os_files w) q \<noteq> None then (Inl EEXIST, w)
         else (Inr (), set_files (stamp (butlast q) (os_now w) (put q (mk (os_now w)) (os_files w))) w))"

definition root_OpenRoot :: "path \<Rightarrow> string \<Rightarrow> (os, path) act" where
  "root_OpenRoot root rel = syscall (\<lambda>w.
     (case root_lookup True root rel (os_files w) of
        Inl e \<Rightarrow> Inl e
      | Inr q \<Rightarrow> if q = [] then Inr [] else (case get (os_files w) q of
          None \<Rightarrow> Inl ErrNotExist | Some n \<Rightarrow> if is_dir n then Inr q else Inl ENOTDIR), w))"

definition root_Remove :: "path \<Rightarrow> string \<Rightarrow> (os, unit) act" where
  "root_Remove root rel = syscall (\<lambda>w.
     case root_lookup False root rel (os_files w) of
       Inl e \<Rightarrow> (Inl e, w)
     | Inr q \<Rightarrow>
         if q = [] \<or> get (os_files w) q = None then (Inl ErrNotExist, w)
         else if list_ex (\<lambda>(r, _). strict_prefix q r \<and> get (os_files w) r \<noteq> None) (os_files w) then (Inl (New ''directory not empty''), w)
         else (Inr (), set_files (stamp (butlast q) (os_now w) (cut q (os_files w))) w))"

text \<open>What a copy into the opened file leaves.\<close>

definition file_write :: "path \<Rightarrow> string \<Rightarrow> (os, unit) act" where
  "file_write p bs = syscall (\<lambda>w.
     case get (os_files w) p of
       Some (Regular _ m _) \<Rightarrow> (Inr (), set_files (put p (Regular bs m (os_now w)) (os_files w)) w)
     | _ \<Rightarrow> (Inl ErrNotExist, w))"

section \<open>Paths and names\<close>

definition IsLocal :: "string \<Rightarrow> bool" where
  "IsLocal p = (p \<noteq> [] \<and> \<not> IsAbs p \<and> Clean p \<noteq> ''..'' \<and> \<not> is_prefix ''../'' (Clean p))"

fun strip_common :: "string list \<Rightarrow> string list \<Rightarrow> string list \<times> string list" where
  "strip_common (a # as) (b # bs) = (if a = b then strip_common as bs else (a # as, b # bs))"
| "strip_common as bs = (as, bs)"

text \<open>\<open>filepath.Rel\<close> of two absolute cleaned paths.\<close>

definition Rel :: "string \<Rightarrow> string \<Rightarrow> string" where
  "Rel base targ =
     (case strip_common (os_path base) (os_path targ) of (up, down) \<Rightarrow>
        let parts = map (\<lambda>_. ''..'') up @ down in if parts = [] then ''.'' else join_slash parts)"

definition sharedRelPath :: "string \<Rightarrow> string \<Rightarrow> goerr + string" where
  "sharedRelPath sharedDir raw =
     (let p = TrimSpace raw in
      if p = [] then Inl (New ''empty path'')
      else if CHR 0x00 \<in> set p then Inl (New ''path contains NUL'')
      else if ''..'' \<in> set (split_slash p) then Inl (New ''path contains ..'')
      else if IsAbs p \<and> \<not> IsLocal (Rel (Clean sharedDir) (Clean p)) then Inl (New ''path outside the shared volume'')
      else
        let q = Clean (if IsAbs p then Rel (Clean sharedDir) (Clean p) else p) in
        if q = ''.'' \<or> \<not> IsLocal q then Inl (New ''path names no file of the shared volume'') else Inr q)"

text \<open>Removing control characters (U+0000 to U+001F, U+007F to U+009F) and mapping separators to underscores.\<close>

fun map_name :: "string \<Rightarrow> string" where
  "map_name [] = []"
| "map_name (c # cs) =
     (if c = CHR 0xC2 \<and> (case cs of d # _ \<Rightarrow> 128 \<le> byte_of d \<and> byte_of d < 160 | [] \<Rightarrow> False) then map_name (drop 1 cs)
      else if byte_of c < 32 \<or> c = CHR 0x7F then map_name cs
      else if c = CHR ''/'' \<or> c = CHR 0x5C then CHR ''_'' # map_name cs
      else c # map_name cs)"

text \<open>\<open>strings.ToValidUTF8(s, "")\<close>.\<close>

function valid_bytes :: "string \<Rightarrow> string" where
  "valid_bytes s =
     (if s = [] then []
      else if rune_len s = 0 then valid_bytes (tl s)
      else take (rune_len s) s @ valid_bytes (drop (rune_len s) s))"
  by pat_completeness auto
termination by (relation "measure length") auto

declare valid_bytes.simps [simp del]

definition dropSafeName :: "string \<Rightarrow> nat \<Rightarrow> string" where
  "dropSafeName name index =
     (let n1 = TrimSpace (map_name (valid_bytes name));
          n2 = (if length n1 > 200 then take (validUTF8PrefixAtMost n1 200) n1 else n1);
          n3 = (if is_prefix ''.'' n2 then CHR ''_'' # n2 else n2) in
      if n3 = [] \<or> n3 = ''_.'' \<or> n3 = ''_..'' \<or> \<not> IsLocal n3 then ''file-'' @ Itoa index else n3)"

text \<open>\<open>mkdirAllIn\<close>.\<close>

fun mkdir_in :: "path \<Rightarrow> string \<Rightarrow> string list \<Rightarrow> (os, unit) act" where
  "mkdir_in root cur [] = ret ()"
| "mkdir_in root cur (seg # segs) =
     (if seg = [] \<or> seg = ''.'' then mkdir_in root cur segs
      else
        let cur' = filepath_Join [cur, seg] in
        tryE (root_create root cur' (Dir 493)) (\<lambda>r.
          if r \<noteq> Inr () \<and> r \<noteq> Inl EEXIST then lift r
          else bindE (root_Stat root cur') (\<lambda>n. if \<not> is_dir n then throw ENOTDIR else mkdir_in root cur' segs)))"

definition mkdirAllIn :: "path \<Rightarrow> string \<Rightarrow> (os, unit) act" where
  "mkdirAllIn root rel = mkdir_in root [] (split_slash rel)"

section \<open>Requests of the service\<close>

definition newDropClient ::
    "(drop_request \<Rightarrow> ('w, drop_response) act) \<Rightarrow> (string \<Rightarrow> ('w, string) act) \<Rightarrow> string \<Rightarrow> string \<Rightarrow> 'w dropClient option" where
  "newDropClient client readFile rawURL tokenFile =
     (let base = TrimRight (CHR ''/'') (TrimSpace rawURL); file = TrimSpace tokenFile in
      if base = [] then None
      else Some \<lparr>dc_baseURL = base, dc_tokenFile = (if file = [] then ''/var/run/secrets/drop/token'' else file),
                 dc_client = client, dc_ReadFile = readFile\<rparr>)"

datatype drop_answer = DropOk "string \<rightharpoonup> jvalue" | DropStatus nat string | DropFailed goerr

definition maxDropErrorChars :: nat where "maxDropErrorChars = 200"
definition maxDropJSONBytes :: nat where "maxDropJSONBytes = 2 ^ 20"

definition dropErrorText :: "drop_response \<Rightarrow> string" where
  "dropErrorText resp =
     (let raw = take maxDropJSONBytes (bs_Bytes (dp_Body resp));
          t = (case Option.bind (dp_Json resp) (Unmarshal [(''error'', Plain is_str)]) of
                 Some m \<Rightarrow> str_field m ''error''
               | None \<Rightarrow> if utf8_valid raw then takeWhile (\<lambda>c. c \<noteq> newline) raw else []) in
      truncateText (TrimSpace t) maxDropErrorChars)"

definition drop_result :: "nat \<Rightarrow> struct_type option \<Rightarrow> drop_response \<Rightarrow> drop_answer" where
  "drop_result want T resp =
     (case ReadLimited maxDropJSONBytes (dp_Body resp) of
        Inl _ \<Rightarrow> DropFailed (New ''the response of drop could not be read'')
      | Inr _ \<Rightarrow>
          if dp_Status resp \<noteq> want then DropStatus (dp_Status resp) (dropErrorText resp)
          else case T of
            None \<Rightarrow> DropOk (\<lambda>_. None)
          | Some F \<Rightarrow>
              (case Option.bind (dp_Json resp) (Unmarshal F) of
                 None \<Rightarrow> DropFailed (New ''drop returned a response that is not JSON'')
               | Some m \<Rightarrow> DropOk m))"

definition drop_do :: "'w dropClient \<Rightarrow> drop_request \<Rightarrow> nat \<Rightarrow> struct_type option \<Rightarrow> ('w, drop_answer) act" where
  "drop_do c req want T =
     tryE (dc_client c req) (\<lambda>r.
       case r of Inl _ \<Rightarrow> ret (DropFailed (New ''drop could not be reached'')) | Inr resp \<Rightarrow> ret (drop_result want T resp))"

definition api_error :: "nat \<Rightarrow> string \<Rightarrow> goerr" where
  "api_error status message = Errorf (''drop returned '' @ Itoa status) (if message = [] then [] else [New message])"

definition drop_request_of :: "string \<Rightarrow> string \<Rightarrow> drop_auth \<Rightarrow> drop_body \<Rightarrow> drop_request" where
  "drop_request_of method target auth body = \<lparr>dq_Method = method, dq_URL = target, dq_Auth = auth, dq_Body = body\<rparr>"

text \<open>\<open>keyed\<close>: a metadata request with the short-lived key.\<close>

definition keyed :: "'w dropClient \<Rightarrow> string \<Rightarrow> string \<Rightarrow> string \<Rightarrow> drop_body \<Rightarrow> nat \<Rightarrow> struct_type \<Rightarrow> ('w, drop_answer) act" where
  "keyed c key method target body want T = drop_do c (drop_request_of method target (DropBearer key) body) want (Some T)"

definition exchange_error :: "nat \<Rightarrow> string \<Rightarrow> goerr" where
  "exchange_error status message =
     (if status = 401 then New ''drop did not accept this helper pod's service account token (401)''
      else if status = 403 then New ''the service account is not on the allow list of drop (403)''
      else if status = 503 then New ''drop has no service account exchange (503)''
      else Errorf ''no key from drop'' [api_error status message])"

definition exchangeKey :: "'w dropClient \<Rightarrow> string \<Rightarrow> int \<Rightarrow> ('w, string) act" where
  "exchangeKey c sessionID maxDays =
     tryE (dc_ReadFile c (dc_tokenFile c)) (\<lambda>r.
       case r of
         Inl _ \<Rightarrow> throw (New ''the service account token for drop could not be read'')
       | Inr raw \<Rightarrow>
           if TrimSpace raw = [] then throw (New ''the service account token for drop is empty'')
           else
             bindE (drop_do c (drop_request_of ''POST'' (dc_baseURL c @ ''/api/v1/sa/token'') (DropBearer (TrimSpace raw))
                 (DropJson (VObj [(''label'', VStr (truncateText (''session-mcp'' @ (if sessionID \<noteq> [] then '' '' @ sessionID else [])) 60)),
                                  (''max_days'', VInt maxDays), (''valid_minutes'', VInt 60)])))
                 201 (Some [(''token'', Plain is_str)])) (\<lambda>answer.
             case answer of
               DropStatus status message \<Rightarrow> throw (exchange_error status message)
             | DropFailed e \<Rightarrow> throw (Errorf ''no key from drop'' [e])
             | DropOk m \<Rightarrow>
                 if is_prefix ''drk_'' (str_field m ''token'') then ret (str_field m ''token'')
                 else throw (New ''drop returned a value that is no key'')))"

section \<open>Uploading\<close>

record dropFile =
  df_Name :: string
  df_Size :: int

text \<open>An opened file with the content it has when it is opened. The sections are read from the open file as they are sent;
  a file that the session changes on the shared volume while it is being uploaded is outside the model.\<close>

record openedUpload =
  ou_rel :: string
  ou_bytes :: string

definition ou_size :: "openedUpload \<Rightarrow> int" where "ou_size u = int (length (ou_bytes u))"

definition file_type :: struct_type where "file_type = [(''name'', Plain is_str), (''size'', Plain is_int64)]"

definition is_files :: "jvalue \<Rightarrow> bool" where
  "is_files v = (case v of VArr vs \<Rightarrow> list_all (\<lambda>u. Unmarshal file_type u \<noteq> None) vs | _ \<Rightarrow> False)"

definition file_of :: "jvalue \<Rightarrow> dropFile" where
  "file_of v = (case Unmarshal file_type v of
     None \<Rightarrow> \<lparr>df_Name = [], df_Size = 0\<rparr>
   | Some m \<Rightarrow> \<lparr>df_Name = str_field m ''name'', df_Size = int_of_value (m ''size'')\<rparr>)"

definition files_of :: "jvalue option \<Rightarrow> dropFile list" where
  "files_of v = (case v of Some (VArr vs) \<Rightarrow> map file_of vs | _ \<Rightarrow> [])"

definition dropMaxChunkBytes :: int where "dropMaxChunkBytes = 16 * 2 ^ 20"
definition dropMaxResumes :: nat where "dropMaxResumes = 8"

definition received_type :: struct_type where "received_type = [(''received'', Nullable is_int64)]"

definition chunkStatus :: "'w dropClient \<Rightarrow> string \<Rightarrow> string \<Rightarrow> ('w, int) act" where
  "chunkStatus c key target =
     bindE (keyed c key ''GET'' target DropNoBody 200 received_type) (\<lambda>answer.
       case answer of
         DropStatus status message \<Rightarrow> throw (Errorf ''the position could not be asked'' [api_error status message])
       | DropFailed e \<Rightarrow> throw (Errorf ''the position could not be asked'' [e])
       | DropOk m \<Rightarrow> (case m ''received'' of Some (VInt n) \<Rightarrow> ret n | _ \<Rightarrow> throw (New ''no received in the status response'')))"

text \<open>\<open>io.NewSectionReader(file, offset, n)\<close>.\<close>

definition section_of :: "string \<Rightarrow> int \<Rightarrow> int \<Rightarrow> string" where
  "section_of bs offset n = take (nat n) (drop (nat offset) bs)"

definition putChunk :: "'w dropClient \<Rightarrow> string \<Rightarrow> string \<Rightarrow> string \<Rightarrow> int \<Rightarrow> int \<Rightarrow> ('w, int \<times> bool) act" where
  "putChunk c key target bs offset n =
     bindE (drop_do c (drop_request_of ''PUT'' (target @ ''?offset='' @ decimal offset) (DropBearer key) (DropBytes (section_of bs offset n)))
         200 (Some received_type)) (\<lambda>answer.
       case answer of
         DropStatus status message \<Rightarrow>
           if status = 409 then bindE (chunkStatus c key target) (\<lambda>got. ret (got, True)) else throw (api_error status message)
       | DropFailed e \<Rightarrow> throw e
       | DropOk m \<Rightarrow> (case m ''received'' of Some (VInt r) \<Rightarrow> ret (r, False) | _ \<Rightarrow> throw (New ''no received in the chunk response'')))"

text \<open>The loop of \<open>sendFile\<close>, at most \<open>k\<close> turns of it.\<close>

fun send_loop :: "nat \<Rightarrow> 'w dropClient \<Rightarrow> string \<Rightarrow> string \<Rightarrow> string \<Rightarrow> int \<Rightarrow> int \<Rightarrow> nat \<Rightarrow> ('w, unit) act" where
  "send_loop 0 c key target bs chunk offset resumes = throw FuelExhausted"
| "send_loop (Suc k) c key target bs chunk offset resumes =
     (if \<not> offset < int (length bs) then ret ()
      else
        bindE (putChunk c key target bs offset (min chunk (int (length bs) - offset))) (\<lambda>(received, conflict).
        if conflict \<and> Suc resumes > dropMaxResumes then throw (New ''drop and this server do not agree where to resume'')
        else if received < 0 \<or> received > int (length bs) then throw (New ''drop returned a position outside the file'')
        else send_loop k c key target bs chunk received (if conflict then Suc resumes else resumes)))"

definition send_turns :: "string \<Rightarrow> nat" where
  "send_turns bs = (dropMaxResumes + 1) * (length bs + 2)"

definition sendFile :: "'w dropClient \<Rightarrow> string \<Rightarrow> string \<Rightarrow> string \<Rightarrow> int \<Rightarrow> ('w, unit) act" where
  "sendFile c key target bs chunk = send_loop (send_turns bs) c key target bs chunk 0 0"

fun send_files :: "'w dropClient \<Rightarrow> string \<Rightarrow> string \<Rightarrow> int \<Rightarrow> nat \<Rightarrow> openedUpload list \<Rightarrow> ('w, unit) act" where
  "send_files c key base chunk n [] = ret ()"
| "send_files c key base chunk n (u # us) =
     thenE (wrapE (ou_rel u) (sendFile c key (base @ Itoa n) (ou_bytes u) chunk)) (send_files c key base chunk (Suc n) us)"

record dropUploadResult =
  du_ID :: string
  du_Password :: string
  du_URL :: string
  du_Files :: "dropFile list"
  du_Bytes :: int
  du_ExpiresAt :: string

definition started_type :: struct_type where
  "started_type = [(''id'', Plain is_str), (''password'', Plain is_str), (''upload_key'', Plain is_str),
     (''chunk_bytes'', Plain is_int64), (''files'', Nullable is_files)]"

definition done_type :: struct_type where
  "done_type = [(''id'', Plain is_str), (''url'', Plain is_str), (''files'', Nullable is_files), (''bytes'', Plain is_int64), (''expires_at'', Plain is_str)]"

definition file_value :: "dropFile \<Rightarrow> jvalue" where
  "file_value f = VObj [(''name'', VStr (utf8_coerce (df_Name f))), (''size'', VInt (df_Size f))]"

definition init_body :: "dropFile list \<Rightarrow> string \<Rightarrow> string \<Rightarrow> int \<Rightarrow> jvalue" where
  "init_body fs did password days =
     VObj ([(''days'', VInt days), (''files'', VArr (map file_value fs))] @
           (if did \<noteq> [] then [(''id'', VStr did)] else []) @ (if password \<noteq> [] then [(''password'', VStr (utf8_coerce password))] else []))"

definition drop_upload :: "'w dropClient \<Rightarrow> string \<Rightarrow> dropFile list \<Rightarrow> openedUpload list \<Rightarrow> string \<Rightarrow> string \<Rightarrow> int \<Rightarrow> ('w, dropUploadResult) act" where
  "drop_upload c key fs opened did password days =
     bindE (keyed c key ''POST'' (dc_baseURL c @ ''/api/v1/uploads'') (DropJson (init_body fs did password days)) 201 started_type) (\<lambda>answer.
       case answer of
         DropStatus status message \<Rightarrow>
           throw (if status = 409 then New ''the id is taken'' else Errorf ''the drop could not be opened'' [api_error status message])
       | DropFailed e \<Rightarrow> throw (Errorf ''the drop could not be opened'' [e])
       | DropOk started \<Rightarrow>
           if str_field started ''id'' = [] \<or> str_field started ''upload_key'' = [] \<or> length (files_of (started ''files'')) \<noteq> length fs
           then throw (New ''unexpected start response'')
           else
             let announced_chunk = int_of_value (started ''chunk_bytes'');
                 chunk = (if announced_chunk \<le> 0 \<or> announced_chunk > dropMaxChunkBytes then dropMaxChunkBytes else announced_chunk);
                 base = dc_baseURL c @ ''/api/v1/uploads/'' @ PathEscape (str_field started ''id'') @ ''/'' @ PathEscape (str_field started ''upload_key'') in
             thenE (send_files c key (base @ ''/files/'') chunk 0 opened)
             (bindE (keyed c key ''POST'' (base @ ''/complete'') DropNoBody 200 done_type) (\<lambda>answer.
                case answer of
                  DropStatus status message \<Rightarrow> throw (Errorf ''the drop could not be closed'' [api_error status message])
                | DropFailed e \<Rightarrow> throw (Errorf ''the drop could not be closed'' [e])
                | DropOk m \<Rightarrow>
                    ret \<lparr>du_ID = str_field m ''id'', du_Password = str_field started ''password'', du_URL = str_field m ''url'',
                         du_Files = files_of (m ''files''), du_Bytes = int_of_value (m ''bytes''), du_ExpiresAt = str_field m ''expires_at''\<rparr>)))"

definition dropIDPattern :: "string \<Rightarrow> bool" where
  "dropIDPattern s =
     (case s of [] \<Rightarrow> False
      | x # xs \<Rightarrow> lower_alnum x \<and> list_all (\<lambda>y. lower_alnum y \<or> y = CHR ''-'') xs \<and> 2 \<le> length xs \<and> length xs \<le> 39)"

text \<open>\<open>strings.ToLower\<close> of an identifier, as far as the pattern can tell: beside the ASCII capitals, the Kelvin sign and
  the dotted capital I are the letters with an ASCII lower case; any other letter stays outside the pattern.\<close>

fun lower_id :: "string \<Rightarrow> string" where
  "lower_id [] = []"
| "lower_id (c # cs) =
     (if c = CHR 0xE2 \<and> take 2 cs = [CHR 0x84, CHR 0xAA] then CHR ''k'' # lower_id (drop 2 cs)
      else if c = CHR 0xC4 \<and> take 1 cs = [CHR 0xB0] then CHR ''i'' # lower_id (drop 1 cs)
      else lower c # lower_id cs)"

text \<open>Opening the files an upload names: each once, each regular, each inside the volume.\<close>

fun open_uploads :: "path \<Rightarrow> string \<Rightarrow> string list \<Rightarrow> string list \<Rightarrow> (os, openedUpload list) act" where
  "open_uploads root sharedDir seen [] = ret []"
| "open_uploads root sharedDir seen (raw # raws) =
     bindE (lift (sharedRelPath sharedDir raw)) (\<lambda>rel.
     if rel \<in> set seen then throw (New ''a path is given twice'')
     else tryE (root_Stat root rel) (\<lambda>r.
       case r of
         Inl _ \<Rightarrow> throw (New ''a file could not be opened'')
       | Inr n \<Rightarrow>
           (case n of
              Regular bs _ _ \<Rightarrow> bindE (open_uploads root sharedDir (rel # seen) raws) (\<lambda>us. ret (\<lparr>ou_rel = rel, ou_bytes = bs\<rparr> # us))
            | _ \<Rightarrow> throw (New ''not a regular file''))))"

definition dropMaxFiles :: nat where "dropMaxFiles = 100"
definition dropDefaultDays :: int where "dropDefaultDays = 7"
definition dropMaxDays :: int where "dropMaxDays = 30"

definition upload_type :: struct_type where
  "upload_type = [(''paths'', Nullable is_strs), (''days'', Nullable is_int64), (''id'', Plain is_str), (''password'', Plain is_str)]"

definition file_entry :: "openedUpload \<Rightarrow> dropFile" where
  "file_entry u = \<lparr>df_Name = filepath_Base (ou_rel u), df_Size = ou_size u\<rparr>"

definition upload_value :: "dropUploadResult \<Rightarrow> jvalue" where
  "upload_value r = VObj [(''id'', VStr (du_ID r)), (''password'', VStr (du_Password r)), (''url'', VStr (du_URL r)),
     (''files'', VArr (map file_value (du_Files r))), (''bytes'', VInt (du_Bytes r)), (''expires_at'', VStr (du_ExpiresAt r))]"

definition callDropUpload :: "'w sessionMCPConfig \<Rightarrow> jvalue option \<Rightarrow> ('w, reply) act" where
  "callDropUpload c arguments =
     (case unmarshal_raw upload_type arguments of
        None \<Rightarrow> toolError (New ''arguments must be an object with paths and optional days, id and password'')
      | Some args \<Rightarrow>
          let days = (case args ''days'' of None \<Rightarrow> dropDefaultDays | Some v \<Rightarrow> int_of_value (Some v));
              paths = strs_of (args ''paths'');
              did = lower_id (TrimSpace (str_field args ''id''));
              password = TrimSpace (str_field args ''password'') in
          if days < 1 \<or> days > dropMaxDays then toolError (New ''days out of range'')
          else if paths = [] \<or> length paths > dropMaxFiles then toolError (New ''number of paths out of range'')
          else if did \<noteq> [] \<and> \<not> dropIDPattern did then toolError (New ''bad id'')
          else if password \<noteq> [] \<and> (rune_count password < 6 \<or> length password > 128) then toolError (New ''bad password'')
          else case mc_drop c of
            None \<Rightarrow> toolError (New ''drop is not configured'')
          | Some dc \<Rightarrow>
              if mc_sharedDir c = [] then toolError (New ''no shared volume'')
              else
                or_tool (\<lambda>e. Errorf ''the shared volume could not be opened'' [e]) (on_os c (OpenRoot (os_path (mc_sharedDir c)))) (\<lambda>root.
                or_tool id (on_os c (open_uploads root (mc_sharedDir c) [] paths)) (\<lambda>opened.
                or_tool (\<lambda>e. Errorf ''not uploaded'' [e])
                  (exchangeKey dc (case mc_gateway c of None \<Rightarrow> [] | Some g \<Rightarrow> ag_sessionID g) days) (\<lambda>key.
                or_tool (\<lambda>e. Errorf ''not uploaded'' [e]) (drop_upload dc key (map file_entry opened) opened did password days) (\<lambda>res.
                ret (ToolJson (upload_value res)))))))"

section \<open>Downloading\<close>

record dropListing =
  dl_ID :: string
  dl_Files :: "dropFile list"
  dl_ExpiresAt :: string

definition dropGetError :: "nat \<Rightarrow> string \<Rightarrow> goerr" where
  "dropGetError status message =
     (if status = 401 then New ''the id or the password is wrong, or the drop has expired (401)''
      else if status = 429 then New ''too many wrong attempts for this id (429)''
      else api_error status message)"

definition listing_type :: struct_type where
  "listing_type = [(''id'', Plain is_str), (''files'', Nullable is_files), (''bytes'', Plain is_int64), (''expires_at'', Plain is_str)]"

definition drop_list :: "'w dropClient \<Rightarrow> string \<Rightarrow> string \<Rightarrow> ('w, dropListing) act" where
  "drop_list c did password =
     bindE (drop_do c (drop_request_of ''GET'' (dc_baseURL c @ ''/get/'' @ PathEscape did) (DropBasic did password) DropNoBody) 200 (Some listing_type)) (\<lambda>answer.
       case answer of
         DropStatus status message \<Rightarrow> throw (dropGetError status message)
       | DropFailed e \<Rightarrow> throw e
       | DropOk m \<Rightarrow>
           ret \<lparr>dl_ID = (if str_field m ''id'' = [] then did else str_field m ''id''), dl_Files = files_of (m ''files''),
                dl_ExpiresAt = str_field m ''expires_at''\<rparr>)"

text \<open>One selector: a number, a name, or null, which decodes as the number zero.\<close>

definition select_file :: "dropFile list \<Rightarrow> jvalue \<Rightarrow> goerr + nat" where
  "select_file fs sel =
     (let numbered = (\<lambda>i. if i < 0 \<or> int (length fs) \<le> i then Inl (New ''files: no such number'') else Inr (nat i)) in
      case sel of
        VInt i \<Rightarrow> numbered i
      | VNull \<Rightarrow> numbered 0
      | VFloat \<Rightarrow> Inl (New ''files: no such number'')
      | VStr name \<Rightarrow>
          (case find (\<lambda>i. df_Name (fs ! i) = name) [0..<length fs] of
             None \<Rightarrow> Inl (New ''files: no file of that name'')
           | Some i \<Rightarrow> Inr i)
      | _ \<Rightarrow> Inl (New ''an entry of files is a name or a number''))"

fun pick_loop :: "dropFile list \<Rightarrow> jvalue list \<Rightarrow> nat list \<Rightarrow> goerr + nat list" where
  "pick_loop fs [] picked = Inr picked"
| "pick_loop fs (sel # sels) picked =
     (case select_file fs sel of
        Inl e \<Rightarrow> Inl e
      | Inr n \<Rightarrow> pick_loop fs sels (if n \<in> set picked then picked else picked @ [n]))"

definition pickDropFiles :: "dropFile list \<Rightarrow> jvalue list \<Rightarrow> goerr + nat list" where
  "pickDropFiles fs selectors = (if selectors = [] then Inr [0..<length fs] else pick_loop fs selectors [])"

text \<open>\<open>for taken[name] { name = strconv.Itoa(n) + "-" + name }\<close>.\<close>

function fresh_name :: "string list \<Rightarrow> nat \<Rightarrow> string \<Rightarrow> string" where
  "fresh_name taken n name = (if name \<in> set taken then fresh_name taken n (Itoa n @ ''-'' @ name) else name)"
  by pat_completeness auto
termination
proof (relation "measure (\<lambda>(taken, n, name). length (filter (\<lambda>t. length name \<le> length t) taken))")
  fix taken :: "string list" and n :: nat and name :: string
  assume "name \<in> set taken"
  then have "filter (\<lambda>t. length (Itoa n @ ''-'' @ name) \<le> length t) taken =
      filter (\<lambda>t. length (Itoa n @ ''-'' @ name) \<le> length t) (filter (\<lambda>t. length name \<le> length t) taken)"
    by (auto simp: filter_filter intro!: filter_cong)
  also have "length \<dots> < length (filter (\<lambda>t. length name \<le> length t) taken)"
    using \<open>name \<in> set taken\<close> by (intro length_filter_less [of name]) auto
  finally show "((taken, n, Itoa n @ ''-'' @ name), (taken, n, name)) \<in>
      measure (\<lambda>(taken, n, name). length (filter (\<lambda>t. length name \<le> length t) taken))"
    by simp
qed simp

declare fresh_name.simps [simp del]

text \<open>The names the picked files get, and the check that nothing is in the way.\<close>

fun choose_names :: "path \<Rightarrow> dropFile list \<Rightarrow> bool \<Rightarrow> string list \<Rightarrow> nat list \<Rightarrow> (os, string list) act" where
  "choose_names destRoot fs overwrite taken [] = ret []"
| "choose_names destRoot fs overwrite taken (n # ns) =
     (let name = fresh_name taken n (dropSafeName (df_Name (fs ! n)) n) in
      tryE (root_Lstat destRoot name) (\<lambda>r.
        if \<not> isl r \<and> \<not> overwrite then throw (New ''a file is already there'')
        else bindE (choose_names destRoot fs overwrite (name # taken) ns) (\<lambda>names. ret (name # names))))"

text \<open>\<open>renameIn\<close>: within one directory; a link at the new name is replaced, not followed.\<close>

definition renameIn :: "path \<Rightarrow> string \<Rightarrow> string \<Rightarrow> (os, unit) act" where
  "renameIn dir from to = syscall (\<lambda>w.
     case get (os_files w) (dir @ [from]) of
       None \<Rightarrow> (Inl ErrNotExist, w)
     | Some n \<Rightarrow>
         if (case get (os_files w) (dir @ [to]) of Some d \<Rightarrow> is_dir d | None \<Rightarrow> False) then (Inl EISDIR, w)
         else (Inr (), set_files (stamp dir (os_now w) (put (dir @ [to]) n (cut (dir @ [from]) (os_files w)))) w))"

definition part_name :: "os \<Rightarrow> string" where
  "part_name w = ''.drop-'' @ os_suffix w @ ''.part''"

text \<open>What \<open>fetchInto\<close> does with a body: into a temporary file, complete or not at all.\<close>

definition put_in_place :: "path \<Rightarrow> string \<Rightarrow> string \<Rightarrow> bool \<Rightarrow> int \<Rightarrow> (os, int) act" where
  "put_in_place destRoot tmp name overwrite got =
     tryE (if overwrite then throw ErrNotExist else root_Lstat destRoot name) (\<lambda>r.
       if \<not> isl r then throw (New ''the file appeared meanwhile; not overwritten'')
       else thenE (wrapE ''the file could not be put in place'' (renameIn destRoot tmp name)) (ret got))"

definition receive_file :: "path \<Rightarrow> string \<Rightarrow> body_stream \<Rightarrow> int \<Rightarrow> string \<Rightarrow> bool \<Rightarrow> (os, int) act" where
  "receive_file destRoot tmp body want name overwrite =
     bindE (wrapE ''the transfer broke off'' (lift (ReadLimited (nat (want + 1)) body))) (\<lambda>got.
     thenE (wrapE ''the transfer broke off'' (file_write (destRoot @ [tmp]) got))
     (if int (length got) \<noteq> want then throw (New ''the size differs from the list'')
      else thenE (wrapE ''the file could not be closed'' file_Close)
             (put_in_place destRoot tmp name overwrite (int (length got)))))"

definition store_body :: "path \<Rightarrow> string \<Rightarrow> body_stream \<Rightarrow> int \<Rightarrow> string \<Rightarrow> bool \<Rightarrow> (os, int) act" where
  "store_body destRoot tmp body want name overwrite =
     thenE (wrapE ''the temporary file could not be created'' (root_create destRoot tmp (Regular [] 420)))
     (defer_with (\<lambda>r. case r of Inl e \<Rightarrow> ignoreE (root_Remove destRoot tmp) (throw e) | Inr x \<Rightarrow> ret x)
       (receive_file destRoot tmp body want name overwrite))"

definition fetchInto ::
    "'w sessionMCPConfig \<Rightarrow> 'w dropClient \<Rightarrow> path \<Rightarrow> string \<Rightarrow> string \<Rightarrow> nat \<Rightarrow> int \<Rightarrow> string \<Rightarrow> bool \<Rightarrow> ('w, int) act" where
  "fetchInto c dc destRoot did password n want name overwrite =
     tryE (dc_client dc (drop_request_of ''GET'' (dc_baseURL dc @ ''/get/'' @ PathEscape did @ ''/f/'' @ Itoa n) (DropBasic did password) DropNoBody)) (\<lambda>r.
       case r of
         Inl _ \<Rightarrow> throw (New ''the file could not be fetched from drop'')
       | Inr resp \<Rightarrow>
           if dp_Status resp \<noteq> 200 then throw (dropGetError (dp_Status resp) (dropErrorText resp))
           else (\<lambda>w. on_os c (store_body destRoot (part_name (mc_get_os c w)) (dp_Body resp) want name overwrite) w))"

record dropDownloadedFile =
  dd_Name :: string
  dd_Path :: string
  dd_Size :: int

fun fetch_all ::
    "'w sessionMCPConfig \<Rightarrow> 'w dropClient \<Rightarrow> path \<Rightarrow> string \<Rightarrow> dropListing \<Rightarrow> string \<Rightarrow> bool \<Rightarrow> (nat \<times> string) list \<Rightarrow> ('w, dropDownloadedFile list) act" where
  "fetch_all c dc destRoot dest listing password overwrite [] = ret []"
| "fetch_all c dc destRoot dest listing password overwrite ((n, name) # rest) =
     (let want = dl_Files listing ! n in
      bindE (wrapE (df_Name want) (fetchInto c dc destRoot (dl_ID listing) password n (df_Size want) name overwrite)) (\<lambda>size.
      bindE (fetch_all c dc destRoot dest listing password overwrite rest) (\<lambda>fs.
      ret (\<lparr>dd_Name = df_Name want, dd_Path = filepath_Join [mc_sharedDir c, dest, name], dd_Size = size\<rparr> # fs))))"

definition download_type :: struct_type where
  "download_type = [(''id'', Plain is_str), (''password'', Plain is_str), (''files'', Nullable (\<lambda>v. case v of VArr _ \<Rightarrow> True | _ \<Rightarrow> False)),
     (''dest'', Plain is_str), (''overwrite'', Plain is_bool)]"

definition selectors_of :: "jvalue option \<Rightarrow> jvalue list" where
  "selectors_of v = (case v of Some (VArr vs) \<Rightarrow> vs | _ \<Rightarrow> [])"

definition downloaded_value :: "dropDownloadedFile \<Rightarrow> jvalue" where
  "downloaded_value f = VObj [(''name'', VStr (dd_Name f)), (''path'', VStr (dd_Path f)), (''size'', VInt (dd_Size f))]"

definition download_into ::
    "'w sessionMCPConfig \<Rightarrow> 'w dropClient \<Rightarrow> string \<Rightarrow> dropListing \<Rightarrow> nat list \<Rightarrow> string \<Rightarrow> bool \<Rightarrow> ('w, reply) act" where
  "download_into c dc dest listing picked password overwrite =
     or_tool (\<lambda>e. Errorf ''the shared volume could not be opened'' [e]) (on_os c (OpenRoot (os_path (mc_sharedDir c)))) (\<lambda>root.
     or_tool (\<lambda>e. Errorf ''the directory could not be made'' [e]) (on_os c (mkdirAllIn root dest)) (\<lambda>_.
     or_tool (\<lambda>e. Errorf ''the directory could not be opened'' [e]) (on_os c (root_OpenRoot root dest)) (\<lambda>destRoot.
     or_tool id (on_os c (choose_names destRoot (dl_Files listing) overwrite [] picked)) (\<lambda>names.
     or_tool (\<lambda>e. Errorf ''not received'' [e]) (fetch_all c dc destRoot dest listing password overwrite (zip picked names)) (\<lambda>fs.
     ret (ToolJson (VObj [(''bytes'', VInt (sum_list (map dd_Size fs))), (''dest'', VStr (filepath_Join [mc_sharedDir c, dest])),
                          (''expires_at'', VStr (dl_ExpiresAt listing)), (''files'', VArr (map downloaded_value fs)), (''id'', VStr (dl_ID listing))])))))))"

definition callDropDownload :: "'w sessionMCPConfig \<Rightarrow> jvalue option \<Rightarrow> ('w, reply) act" where
  "callDropDownload c arguments =
     (case unmarshal_raw download_type arguments of
        None \<Rightarrow> toolError (New ''arguments must be an object with id and password and optional files, dest and overwrite'')
      | Some args \<Rightarrow>
          let did = lower_id (TrimSpace (str_field args ''id'')); password = str_field args ''password'';
              selectors = selectors_of (args ''files'') in
          if \<not> dropIDPattern did then toolError (New ''bad id'')
          else if password = [] then toolError (New ''password is required'')
          else if length selectors > dropMaxFiles then toolError (New ''too many files'')
          else case mc_drop c of
            None \<Rightarrow> toolError (New ''drop is not configured'')
          | Some dc \<Rightarrow>
              if mc_sharedDir c = [] then toolError (New ''no shared volume'')
              else
                or_tool (\<lambda>e. Errorf ''dest'' [e])
                  (lift (if TrimSpace (str_field args ''dest'') \<noteq> [] then sharedRelPath (mc_sharedDir c) (str_field args ''dest'')
                         else Inr (filepath_Join [''drop'', did]))) (\<lambda>dest.
                or_tool (\<lambda>e. Errorf ''not received'' [e]) (drop_list dc did password) (\<lambda>listing.
                or_tool id (lift (pickDropFiles (dl_Files listing) selectors)) (\<lambda>picked.
                download_into c dc dest listing picked password (bool_of (args ''overwrite''))))))"

end
