(* ===== verification/Mcp_Server.thy ===== *)
theory Mcp_Server
  imports Session_Tools Drop
begin

text \<open>
  The endpoint of the session MCP (\<open>session_mcp.go\<close>, \<open>callTool\<close> of \<open>session_mcp_tools.go\<close>): JSON-RPC over HTTP, the
  tool list and the dispatch of a call. The routes beside it are the readiness answer and the notice feed of
  \<open>Approval_Gate\<close>.
\<close>

definition call_type :: struct_type where
  "call_type = [(''name'', Plain is_str), (''arguments'', Raw)]"

definition tool_names :: "string list" where
  "tool_names = [webFetchGetTool, gitCloneTool, pingTool, requestRepoAccessTool, gitPushTool, dropUploadTool, dropDownloadTool]"

definition callTool :: "'w sessionMCPConfig \<Rightarrow> jvalue option \<Rightarrow> ('w, reply) act" where
  "callTool c params =
     (case unmarshal_raw call_type params of
        None \<Rightarrow> ret (RpcError jsonRPCInvalidParams ''tools/call params are not an object'')
      | Some call \<Rightarrow>
          let name = str_field call ''name''; arguments = call ''arguments'' in
          if name \<notin> set tool_names then ret (RpcError jsonRPCInvalidParams ''no tool of that name'')
          else case mc_gateway c of
            None \<Rightarrow> toolError (New ''the approval gate is not configured, so this server lists no tools'')
          | Some g \<Rightarrow>
              if name = pingTool then ret (ToolText ''pong'')
              else if name = gitCloneTool then callGitClone c g arguments
              else if name = requestRepoAccessTool then callRequestRepoAccess c arguments
              else if name = gitPushTool then callGitPush c arguments
              else if name = dropUploadTool then callDropUpload c arguments
              else if name = dropDownloadTool then callDropDownload c arguments
              else callWebFetch c g arguments)"

text \<open>What the server writes: a bare status, a result, or a JSON-RPC error; the id is echoed as it came.\<close>

datatype mcp_result = Initialized | ToolList "tool_definition list" | Called reply | Pong

datatype mcp_answer =
    BareStatus nat
  | RpcResult jvalue mcp_result
  | RpcFailure jvalue int string

definition rpc_type :: struct_type where
  "rpc_type = [(''jsonrpc'', Plain is_str), (''id'', Raw), (''method'', Plain is_str), (''params'', Raw)]"

definition echo_id :: "jvalue option \<Rightarrow> jvalue" where
  "echo_id i = (case i of None \<Rightarrow> VNull | Some v \<Rightarrow> v)"

definition writeCalled :: "jvalue \<Rightarrow> reply \<Rightarrow> mcp_answer" where
  "writeCalled i r = (case r of RpcError code message \<Rightarrow> RpcFailure i code message | _ \<Rightarrow> RpcResult i (Called r))"

text \<open>\<open>POST /mcp\<close>; the body is what the decoder reads from it.\<close>

definition serve_mcp :: "'w sessionMCPConfig \<Rightarrow> string \<Rightarrow> wire_body \<Rightarrow> ('w, mcp_answer) act" where
  "serve_mcp c httpMethod body =
     (if httpMethod \<noteq> ''POST'' then ret (BareStatus 405)
      else case (case body of Wire v _ \<Rightarrow> Unmarshal rpc_type v | _ \<Rightarrow> None) of
        None \<Rightarrow> ret (RpcFailure VNull jsonRPCParseError ''malformed JSON-RPC request'')
      | Some req \<Rightarrow>
          let i = req ''id''; rpcMethod = str_field req ''method'' in
          if str_field req ''jsonrpc'' \<noteq> ''2.0'' \<or> rpcMethod = []
          then ret (RpcFailure (echo_id i) jsonRPCInvalidRequest ''not a JSON-RPC 2.0 request'')
          else if i = None then ret (BareStatus 202)
          else if rpcMethod = ''initialize'' then ret (RpcResult (echo_id i) Initialized)
          else if rpcMethod = ''tools/list'' then ret (RpcResult (echo_id i) (ToolList (toolDefinitions c)))
          else if rpcMethod = ''tools/call'' then bindE (callTool c (req ''params'')) (\<lambda>r. ret (writeCalled (echo_id i) r))
          else if rpcMethod = ''ping'' then ret (RpcResult (echo_id i) Pong)
          else ret (RpcFailure (echo_id i) jsonRPCMethodNotFound (''session MCP does not implement '' @ rpcMethod)))"

text \<open>\<open>newSessionMCPConfig\<close>: the seams are the real calls, the feed is new.\<close>

definition newSessionMCPConfig ::
    "(string \<Rightarrow> ('w, fetch_response) act) \<Rightarrow> 'w git \<Rightarrow> string list \<Rightarrow> (string \<Rightarrow> ('w, string) act) \<Rightarrow> (string \<Rightarrow> ('w, unit) act) \<Rightarrow>
     (web_request \<Rightarrow> ('w, web_response) act) \<Rightarrow> (approvalNotice \<Rightarrow> ('w, unit) act) \<Rightarrow> (string \<Rightarrow> goerr + url) \<Rightarrow> ('w, string) act \<Rightarrow>
     ('w \<Rightarrow> os) \<Rightarrow> (os \<Rightarrow> 'w \<Rightarrow> 'w) \<Rightarrow> 'w approvalGateway option \<Rightarrow> string \<Rightarrow> 'w repoAccessClient option \<Rightarrow> string \<Rightarrow> 'w dropClient option \<Rightarrow>
     'w sessionMCPConfig" where
  "newSessionMCPConfig fetchURL git environ mkdirTemp rmAll proxyClient publisher parse random getOs setOs gateway sharedDir repoAccess k3sProxyMCPURL dropc =
     \<lparr>mc_gateway = gateway, mc_fetch = fetchURL, mc_clone = cloneRepository git environ, mc_repoAccess = repoAccess,
      mc_push = pushRepository mkdirTemp rmAll git environ, mc_mintGitHubToken = githubTokenMinter proxyClient k3sProxyMCPURL,
      mc_publish = publisher, mc_sharedDir = TrimSpace sharedDir, mc_drop = dropc, mc_Parse = parse, mc_rand = random,
      mc_origin = (\<lambda>p. bindE (git (pushGitEnv environ []) [''config'', ''--file'', ''/'' @ join_slash p, ''--get'', ''remote.origin.url'']) (\<lambda>res.
        case gt_Err res of None \<Rightarrow> ret (gt_Stdout res) | Some e \<Rightarrow> throw e)),
      mc_get_os = getOs, mc_set_os = setOs\<rparr>"

end
