(* ===== verification/Mcp_Laws.thy ===== *)
theory Mcp_Laws
  imports Mcp_Server Ports
begin

text \<open>
  What leaves an approval-gated session. Every outbound call of the session MCP is recorded with its answer
  (\<open>instrument_mc\<close>); a call is justified by what the log holds before it: an approval of exactly this request, or an
  allow-list answer for exactly this repository. The world behind the calls is arbitrary, so the statements hold
  whatever the gateway, the control plane, the proxies and the remote answer, and with any number of calls at once.
\<close>

section \<open>The log\<close>

datatype mcp_event =
    EvGateway web_request "goerr + web_response"
  | EvFetch string "goerr + fetch_response"
  | EvClone string string string "string list" "goerr + unit"
  | EvAllow web_request "goerr + web_response"
  | EvMint string string "goerr + string"
  | EvPush pushRequest "goerr + string"
  | EvPublish approvalNotice "goerr + unit"
  | EvShare drop_request "goerr + drop_response"

definition silently :: "('w, 'a) act \<Rightarrow> ('w \<times> 'e list, 'a) act" where
  "silently m wl = (case m (fst wl) of (r, w') \<Rightarrow> (r, (w', snd wl)))"

definition instrument_gw :: "'w approvalGateway \<Rightarrow> ('w \<times> mcp_event list) approvalGateway" where
  "instrument_gw g =
     \<lparr>ag_baseURL = ag_baseURL g, ag_tokenFile = ag_tokenFile g, ag_sessionID = ag_sessionID g, ag_pollInterval = ag_pollInterval g,
      ag_timeout = ag_timeout g, ag_client = (\<lambda>q. logged (EvGateway q) (ag_client g q)),
      ag_now = (\<lambda>wl. case ag_now g (fst wl) of (t, w') \<Rightarrow> (t, (w', snd wl))), ag_sleep = (\<lambda>d. silently (ag_sleep g d)),
      ag_ReadFile = (\<lambda>p. silently (ag_ReadFile g p))\<rparr>"

definition instrument_ra :: "'w repoAccessClient \<Rightarrow> ('w \<times> mcp_event list) repoAccessClient" where
  "instrument_ra ra =
     \<lparr>ra_baseURL = ra_baseURL ra, ra_tokenFile = ra_tokenFile ra, ra_client = (\<lambda>q. logged (EvAllow q) (ra_client ra q)),
      ra_ReadFile = (\<lambda>p. silently (ra_ReadFile ra p))\<rparr>"

definition instrument_dc :: "'w dropClient \<Rightarrow> ('w \<times> mcp_event list) dropClient" where
  "instrument_dc d =
     \<lparr>dc_baseURL = dc_baseURL d, dc_tokenFile = dc_tokenFile d, dc_client = (\<lambda>q. logged (EvShare q) (dc_client d q)),
      dc_ReadFile = (\<lambda>p. silently (dc_ReadFile d p))\<rparr>"

definition instrument_mc :: "'w sessionMCPConfig \<Rightarrow> ('w \<times> mcp_event list) sessionMCPConfig" where
  "instrument_mc c =
     \<lparr>mc_gateway = map_option instrument_gw (mc_gateway c), mc_fetch = (\<lambda>t. logged (EvFetch t) (mc_fetch c t)),
      mc_clone = (\<lambda>t b d env. logged (EvClone t b d env) (mc_clone c t b d env)), mc_repoAccess = map_option instrument_ra (mc_repoAccess c),
      mc_push = (\<lambda>q. logged (EvPush q) (mc_push c q)),
      mc_mintGitHubToken = map_option (\<lambda>mint n p. logged (EvMint n p) (mint n p)) (mc_mintGitHubToken c),
      mc_publish = (\<lambda>n. logged (EvPublish n) (mc_publish c n)), mc_sharedDir = mc_sharedDir c, mc_drop = map_option instrument_dc (mc_drop c),
      mc_Parse = mc_Parse c, mc_rand = silently (mc_rand c), mc_origin = (\<lambda>p. silently (mc_origin c p)),
      mc_get_os = (\<lambda>wl. mc_get_os c (fst wl)), mc_set_os = (\<lambda>s wl. (mc_set_os c s (fst wl), snd wl))\<rparr>"

lemma tools_sel [simp]:
  "ag_baseURL (instrument_gw g) = ag_baseURL g" "ag_sessionID (instrument_gw g) = ag_sessionID g"
  "ag_timeout (instrument_gw g) = ag_timeout g" "ag_tokenFile (instrument_gw g) = ag_tokenFile g"
  "ag_pollInterval (instrument_gw g) = ag_pollInterval g"
  "ag_client (instrument_gw g) = (\<lambda>q. logged (EvGateway q) (ag_client g q))" "ag_sleep (instrument_gw g) = (\<lambda>d. silently (ag_sleep g d))"
  "ag_ReadFile (instrument_gw g) = (\<lambda>p. silently (ag_ReadFile g p))"
  "ra_baseURL (instrument_ra ra) = ra_baseURL ra" "ra_tokenFile (instrument_ra ra) = ra_tokenFile ra"
  "ra_client (instrument_ra ra) = (\<lambda>q. logged (EvAllow q) (ra_client ra q))" "ra_ReadFile (instrument_ra ra) = (\<lambda>p. silently (ra_ReadFile ra p))"
  "dc_baseURL (instrument_dc d) = dc_baseURL d" "dc_tokenFile (instrument_dc d) = dc_tokenFile d"
  "dc_client (instrument_dc d) = (\<lambda>q. logged (EvShare q) (dc_client d q))" "dc_ReadFile (instrument_dc d) = (\<lambda>p. silently (dc_ReadFile d p))"
  "mc_gateway (instrument_mc c) = map_option instrument_gw (mc_gateway c)" "mc_fetch (instrument_mc c) = (\<lambda>t. logged (EvFetch t) (mc_fetch c t))"
  "mc_clone (instrument_mc c) = (\<lambda>t b d env. logged (EvClone t b d env) (mc_clone c t b d env))"
  "mc_repoAccess (instrument_mc c) = map_option instrument_ra (mc_repoAccess c)" "mc_push (instrument_mc c) = (\<lambda>q. logged (EvPush q) (mc_push c q))"
  "mc_mintGitHubToken (instrument_mc c) = map_option (\<lambda>mint n p. logged (EvMint n p) (mint n p)) (mc_mintGitHubToken c)"
  "mc_publish (instrument_mc c) = (\<lambda>n. logged (EvPublish n) (mc_publish c n))" "mc_sharedDir (instrument_mc c) = mc_sharedDir c"
  "mc_drop (instrument_mc c) = map_option instrument_dc (mc_drop c)" "mc_Parse (instrument_mc c) = mc_Parse c"
  "mc_rand (instrument_mc c) = silently (mc_rand c)" "mc_origin (instrument_mc c) = (\<lambda>p. silently (mc_origin c p))"
  by (simp_all add: instrument_gw_def instrument_ra_def instrument_dc_def instrument_mc_def)

lemma derived_sel [simp]:
  "externalID (instrument_gw g) = externalID g" "create_body (instrument_gw g) = create_body g" "await_polls (instrument_gw g) = await_polls g"
  "check_request (instrument_ra ra) = check_request ra" "clonePath (instrument_mc c) = clonePath c"
  by (simp_all add: externalID_def create_body_def await_polls_def check_request_def clonePath_def fun_eq_iff)

section \<open>Walking through the handlers\<close>

lemma wp_silently: "(\<And>r w'. Q r (w', snd wl)) \<Longrightarrow> wp (silently m) Q wl"
  by (simp add: wp_def silently_def split: prod.splits)

lemma wp_on_os: "(\<And>r w'. Q r (w', snd wl)) \<Longrightarrow> wp (on_os (instrument_mc c) m) Q wl"
  by (simp add: wp_def on_os_def instrument_mc_def split: prod.splits)

lemma wp_event: "(\<And>r w'. Q r (w', snd wl @ [ev r])) \<Longrightarrow> wp (logged ev m) Q wl"
  by (rule wp_logged_any)

lemma wp_with_now: "(\<And>t w'. wp (f t) Q (w', snd wl)) \<Longrightarrow> wp (with_now (ag_now (instrument_gw g)) f) Q wl"
  by (fastforce simp: wp_def with_now_def instrument_gw_def split: prod.splits)

lemma wp_or_tool [wp_simps]:
  "wp (or_tool msg m f) Q w \<longleftrightarrow> wp m (\<lambda>r. case r of Inl e \<Rightarrow> Q (Inr (ToolError (msg e))) | Inr x \<Rightarrow> wp (f x) Q) w"
  by (simp add: or_tool_def wp_def tryE_def ret_def split: prod.splits sum.splits)

lemma wp_or_rpc [wp_simps]:
  "wp (or_rpc msg m f) Q w \<longleftrightarrow> wp m (\<lambda>r. case r of Inl e \<Rightarrow> Q (Inr (RpcError jsonRPCInternalError msg)) | Inr x \<Rightarrow> wp (f x) Q) w"
  by (simp add: or_rpc_def wp_def tryE_def ret_def split: prod.splits sum.splits)

text \<open>An invariant of the log that an operation keeps.\<close>

definition stays :: "(mcp_event list \<Rightarrow> bool) \<Rightarrow> ('w \<times> mcp_event list, 'a) act \<Rightarrow> bool" where
  "stays I m = (\<forall>wl. I (snd wl) \<longrightarrow> wp m (\<lambda>r wl'. I (snd wl')) wl)"

lemma stays_ret: "stays I (ret x)" and stays_throw: "stays I (throw e)" and stays_lift: "stays I (lift y)"
  by (simp_all add: stays_def wp_simps)

lemma stays_silently: "stays I (silently m)"
  by (simp add: stays_def wp_silently)

lemma stays_on_os: "stays I (on_os (instrument_mc c) m)"
  by (simp add: stays_def wp_on_os)

lemma stays_event: "(\<And>es r. I es \<Longrightarrow> I (es @ [ev r])) \<Longrightarrow> stays I (logged ev m)"
  by (simp add: stays_def wp_event)

lemma stays_tryE: "stays I m \<Longrightarrow> (\<And>r. stays I (f r)) \<Longrightarrow> stays I (tryE m f)"
  unfolding stays_def wp_tryE by (blast intro: wp_mono)

lemma stays_bindE: "stays I m \<Longrightarrow> (\<And>x. stays I (f x)) \<Longrightarrow> stays I (bindE m f)"
  unfolding bindE_tryE by (rule stays_tryE) (simp_all add: stays_throw split: sum.split)

lemma stays_thenE: "stays I m \<Longrightarrow> stays I k \<Longrightarrow> stays I (thenE m k)"
  unfolding thenE_def by (rule stays_bindE)

lemma stays_ignoreE: "stays I m \<Longrightarrow> stays I k \<Longrightarrow> stays I (ignoreE m k)"
  unfolding ignoreE_def by (rule stays_tryE)

lemma stays_wrapE: "stays I m \<Longrightarrow> stays I (wrapE what m)"
  unfolding wrapE_def by (rule stays_tryE) (simp_all add: stays_throw stays_ret split: sum.split)

lemma stays_or_tool: "stays I m \<Longrightarrow> (\<And>x. stays I (f x)) \<Longrightarrow> stays I (or_tool msg m f)"
  unfolding or_tool_def by (rule stays_tryE) (simp_all add: stays_ret split: sum.split)

lemma stays_or_rpc: "stays I m \<Longrightarrow> (\<And>x. stays I (f x)) \<Longrightarrow> stays I (or_rpc msg m f)"
  unfolding or_rpc_def by (rule stays_tryE) (simp_all add: stays_ret split: sum.split)

lemma stays_if: "(b \<Longrightarrow> stays I m) \<Longrightarrow> (\<not> b \<Longrightarrow> stays I k) \<Longrightarrow> stays I (if b then m else k)"
  by simp

lemmas stays_intros = stays_ret stays_throw stays_lift stays_silently stays_on_os stays_tryE stays_bindE stays_thenE stays_ignoreE
  stays_wrapE stays_or_tool stays_or_rpc stays_if

lemma staysD: "stays I m \<Longrightarrow> m (w, es) = (r, (w', es')) \<Longrightarrow> I es \<Longrightarrow> I es'"
  unfolding stays_def by (metis snd_conv wp_result)

section \<open>What justifies a call\<close>

definition approval_state_of :: "mcp_event \<Rightarrow> approvalState option" where
  "approval_state_of e =
     (case e of EvGateway _ (Inr resp) \<Rightarrow> (case decode_state [] resp of Inr st \<Rightarrow> Some st | Inl _ \<Rightarrow> None) | _ \<Rightarrow> None)"

definition gateway_request :: "mcp_event \<Rightarrow> web_request option" where
  "gateway_request e = (case e of EvGateway q _ \<Rightarrow> Some q | _ \<Rightarrow> None)"

text \<open>The gateway was asked about \<open>context\<close> under \<open>extID\<close> and answered that request with an approval, at once or to a
  later poll of the same request.\<close>

definition creates :: "'w approvalGateway \<Rightarrow> string \<Rightarrow> string \<Rightarrow> mcp_event \<Rightarrow> bool" where
  "creates g extID approvalContext e =
     (\<exists>q. gateway_request e = Some q \<and> wq_Method q = ''POST'' \<and> wq_URL q = ag_baseURL g @ approvalRequestsPath \<and>
          wq_Body q = Some (create_body g extID approvalContext))"

definition polls :: "'w approvalGateway \<Rightarrow> string \<Rightarrow> mcp_event \<Rightarrow> bool" where
  "polls g i e =
     (\<exists>q. gateway_request e = Some q \<and> wq_Method q = ''GET'' \<and> wq_URL q = ag_baseURL g @ approvalRequestsPath @ ''/'' @ PathEscape i)"

definition says_approved :: "mcp_event \<Rightarrow> bool" where
  "says_approved e = (\<exists>st. approval_state_of e = Some st \<and> as_Status st = approvalApproved)"

definition approved :: "'w approvalGateway \<Rightarrow> string \<Rightarrow> string \<Rightarrow> mcp_event list \<Rightarrow> bool" where
  "approved g extID approvalContext es =
     (\<exists>pre e post st. es = pre @ e # post \<and> creates g extID approvalContext e \<and> approval_state_of e = Some st \<and> as_ID st \<noteq> [] \<and>
        (says_approved e \<or> (\<exists>p \<in> set post. polls g (as_ID st) p \<and> says_approved p)))"

definition listed :: "'w repoAccessClient \<Rightarrow> string \<Rightarrow> mcp_event list \<Rightarrow> bool" where
  "listed ra repo es =
     (\<exists>q resp m. EvAllow q (Inr resp) \<in> set es \<and> wq_Method q = ''GET'' \<and> wq_URL q = wq_URL (check_request ra repo) \<and>
        ra_answer check_type resp = Inr m \<and> m ''allowed'' = Some (VBool True))"

definition minted :: "githubRepo \<Rightarrow> string \<Rightarrow> string list \<Rightarrow> mcp_event list \<Rightarrow> bool" where
  "minted repo contents env es =
     (\<exists>token. EvMint (gr_name repo) contents (Inr token) \<in> set es \<and> env = scopedAuthEnv (gr_scope repo) (fst (githubBasicAuthHeader token)))"

definition clone_justified :: "'w sessionMCPConfig \<Rightarrow> string \<Rightarrow> string \<Rightarrow> string \<Rightarrow> string list \<Rightarrow> mcp_event list \<Rightarrow> bool" where
  "clone_justified c target branch dest env es =
     (case mc_repoAccess c of
        None \<Rightarrow> env = [] \<and> (\<exists>g i. mc_gateway c = Some g \<and> dest = clonePath c i \<and> approved g (externalID g i) (clone_context target branch dest) es)
      | Some ra \<Rightarrow> (\<exists>repo. githubRepoOf (mc_Parse c) target = Some repo \<and> listed ra (fullName repo) es \<and>
                      (env = [] \<or> minted repo githubContentsRead env es)))"

text \<open>The repository some GitHub URL names: its scope is the URL of exactly this owner and name.\<close>

definition github_repo :: "'w sessionMCPConfig \<Rightarrow> githubRepo \<Rightarrow> bool" where
  "github_repo c repo = (\<exists>origin. githubRepoOf (mc_Parse c) origin = Some repo)"

definition justified :: "'w sessionMCPConfig \<Rightarrow> mcp_event list \<Rightarrow> mcp_event \<Rightarrow> bool" where
  "justified c es e =
     (case e of
        EvFetch target _ \<Rightarrow> \<exists>g i. mc_gateway c = Some g \<and> approved g (externalID g i) (fetch_context target) es
      | EvClone target branch dest env _ \<Rightarrow> clone_justified c target branch dest env es
      | EvMint name contents _ \<Rightarrow> \<exists>ra repo. mc_repoAccess c = Some ra \<and> github_repo c repo \<and> gr_name repo = name \<and> listed ra (fullName repo) es
      | EvPush q _ \<Rightarrow> \<exists>ra repo. mc_repoAccess c = Some ra \<and> github_repo c repo \<and> pq_remote q = gr_scope repo \<and> listed ra (fullName repo) es \<and>
                        minted repo githubContentsWrite (pq_env q) es
      | EvShare _ _ \<Rightarrow> mc_gateway c \<noteq> None \<and> mc_drop c \<noteq> None
      | _ \<Rightarrow> True)"

definition gated_log :: "'w sessionMCPConfig \<Rightarrow> mcp_event list \<Rightarrow> bool" where
  "gated_log c es = (\<forall>pre e post. es = pre @ e # post \<longrightarrow> justified c pre e)"

lemma gated_log_Nil [simp]: "gated_log c []"
  by (simp add: gated_log_def)

lemma gated_log_snoc [simp]: "gated_log c (es @ [e]) \<longleftrightarrow> gated_log c es \<and> justified c es e"
  unfolding gated_log_def
proof (intro iffI conjI allI impI)
  fix pre x post assume *: "\<forall>pre x post. es @ [e] = pre @ x # post \<longrightarrow> justified c pre x" and "es = pre @ x # post"
  then have "es @ [e] = pre @ x # (post @ [e])" by simp
  with * show "justified c pre x" by blast
next
  assume "\<forall>pre x post. es @ [e] = pre @ x # post \<longrightarrow> justified c pre x"
  then show "justified c es e" by blast
next
  fix pre x post
  assume *: "(\<forall>pre x post. es = pre @ x # post \<longrightarrow> justified c pre x) \<and> justified c es e" and eq: "es @ [e] = pre @ x # post"
  show "justified c pre x"
  proof (cases post rule: rev_cases)
    case Nil
    with eq have "es = pre" "e = x" by auto
    with * show ?thesis by simp
  next
    case (snoc ys y)
    with eq have "es = pre @ x # ys" by (metis append_Cons append_assoc append_same_eq butlast_snoc)
    with * show ?thesis by blast
  qed
qed

lemma approved_mono: "approved g i x es \<Longrightarrow> approved g i x (es @ ys)"
  unfolding approved_def by (metis (no_types, opaque_lifting) Un_iff append_Cons append_assoc set_append)

lemma listed_mono: "listed ra r es \<Longrightarrow> listed ra r (es @ ys)"
  unfolding listed_def by (metis Un_iff set_append)

lemma minted_mono: "minted r p env es \<Longrightarrow> minted r p env (es @ ys)"
  unfolding minted_def by (metis Un_iff set_append)

lemma justified_quiet [simp]:
  "justified c es (EvGateway q r)" "justified c es (EvAllow q a)" "justified c es (EvPublish n p)"
  by (simp_all add: justified_def)

end
