(* ===== verification/Mcp_Gate.thy ===== *)
theory Mcp_Gate
  imports Mcp_Laws
begin

text \<open>
  Nothing leaves an approval-gated session unapproved: the log of every call of the session MCP is justified, from the
  gateway's client up to the endpoint.
\<close>

section \<open>Asking the gateway\<close>

lemma decode_state_what: "decode_state what resp = Inr st \<Longrightarrow> decode_state what' resp = Inr st"
  by (auto simp: decode_state_def split: option.splits if_splits)

lemma wp_ag_do:
  assumes "\<And>e w'. Q (Inl e) (w', snd wl)"
    and "\<And>t r w'. Q (case r of Inl e \<Rightarrow> Inl (Errorf what [e]) | Inr resp \<Rightarrow> decode_state what resp)
                   (w', snd wl @ [EvGateway (with_bearer t req) r])"
  shows "wp (ag_do (instrument_gw g) req what) Q wl"
proof -
  have failed: "Q (Inl (Errorf what [e])) (w', snd wl @ [EvGateway (with_bearer t req) (Inl e)])" for t e w'
    using assms(2) [where r = "Inl e"] by simp
  have answered: "Q (decode_state what resp) (w', snd wl @ [EvGateway (with_bearer t req) (Inr resp)])" for t resp w'
    using assms(2) [where r = "Inr resp"] by simp
  have sent: "wp (logged (EvGateway (with_bearer t req)) m)
      (case_sum (\<lambda>e. Q (Inl (Errorf what [e]))) (\<lambda>x. Q (decode_state what x))) (w', snd wl)" for t m w'
    by (rule wp_event) (auto simp: failed answered split: sum.split)
  have "wp (wrapE what (readApprovalToken (\<lambda>p. silently (ag_ReadFile g p)) (ag_tokenFile g)))
      (\<lambda>r. case r of Inl e \<Rightarrow> Q (Inl e)
        | Inr t \<Rightarrow> wp (bindE (wrapE what (logged (EvGateway (with_bearer t req)) (ag_client g (with_bearer t req)))) (\<lambda>resp. lift (decode_state what resp))) Q) wl"
    unfolding readApprovalToken_def wp_simps
    by (rule wp_silently) (auto simp: wp_simps assms(1) token_of_def sent split: sum.split)
  then show ?thesis
    unfolding ag_do_def tools_sel wp_bindE [where m = "wrapE what (readApprovalToken _ _)"] .
qed

text \<open>The request \<open>i\<close> was opened for this context.\<close>

definition asked :: "'w approvalGateway \<Rightarrow> string \<Rightarrow> string \<Rightarrow> string \<Rightarrow> mcp_event list \<Rightarrow> bool" where
  "asked g extID approvalContext i es =
     (\<exists>pre e post st. es = pre @ e # post \<and> creates g extID approvalContext e \<and> approval_state_of e = Some st \<and> as_ID st = i \<and> i \<noteq> [])"

lemma asked_mono: "asked g x ctx i es \<Longrightarrow> asked g x ctx i (es @ ys)"
  unfolding asked_def by (metis append_Cons append_assoc)

lemma asked_created:
  assumes "decode_state what resp = Inr st" "as_ID st \<noteq> []"
  shows "asked g x ctx (as_ID st) (es @ [EvGateway (with_bearer t (post_request (ag_baseURL g @ approvalRequestsPath) (create_body g x ctx))) (Inr resp)])"
  unfolding asked_def
  using assms decode_state_what [OF assms(1), of "[]"]
  by (intro exI [of _ es] exI [of _ "EvGateway _ (Inr resp)"] exI [of _ "[]"] exI [of _ st])
     (auto simp: creates_def gateway_request_def approval_state_of_def with_bearer_def post_request_def)

lemma approved_created:
  assumes "decode_state what resp = Inr st" "as_ID st \<noteq> []" "as_Status st = approvalApproved"
  shows "approved g x ctx (es @ [EvGateway (with_bearer t (post_request (ag_baseURL g @ approvalRequestsPath) (create_body g x ctx))) (Inr resp)])"
  unfolding approved_def
  using assms decode_state_what [OF assms(1), of "[]"]
  by (intro exI [of _ es] exI [of _ "EvGateway _ (Inr resp)"] exI [of _ "[]"] exI [of _ st])
     (auto simp: creates_def says_approved_def gateway_request_def approval_state_of_def with_bearer_def post_request_def)

lemma approved_polled:
  assumes "asked g x ctx i es" "decode_state what resp = Inr st" "as_Status st = approvalApproved"
  shows "approved g x ctx (es @ [EvGateway (with_bearer t (get_request (ag_baseURL g @ approvalRequestsPath @ ''/'' @ PathEscape i))) (Inr resp)])"
proof -
  let ?p = "EvGateway (with_bearer t (get_request (ag_baseURL g @ approvalRequestsPath @ ''/'' @ PathEscape i))) (Inr resp)"
  have p: "polls g i ?p" "says_approved ?p"
    using assms(2,3) decode_state_what [OF assms(2), of "[]"]
    by (simp_all add: polls_def says_approved_def gateway_request_def approval_state_of_def with_bearer_def get_request_def)
  obtain pre e post st0 where *: "es = pre @ e # post" "creates g x ctx e" "approval_state_of e = Some st0" "as_ID st0 = i" "i \<noteq> []"
    using assms(1) unfolding asked_def by blast
  have "es @ [?p] = pre @ e # (post @ [?p])" using *(1) by simp
  with * p show ?thesis unfolding approved_def by (metis in_set_conv_decomp)
qed

definition gate_post :: "'w sessionMCPConfig \<Rightarrow> 'w approvalGateway \<Rightarrow> string \<Rightarrow> string \<Rightarrow> goerr + approvalOutcome \<Rightarrow> mcp_event list \<Rightarrow> bool" where
  "gate_post c g x ctx r es = (gated_log c es \<and> (\<forall>out. r = Inr out \<longrightarrow> ao_Decision out = approvalApproved \<longrightarrow> approved g x ctx es))"

lemma gate_post_simps [simp]:
  "gate_post c g x ctx (Inl e) es \<longleftrightarrow> gated_log c es"
  "gate_post c g x ctx (Inr out) es \<longleftrightarrow> gated_log c es \<and> (ao_Decision out = approvalApproved \<longrightarrow> approved g x ctx es)"
  by (auto simp: gate_post_def)

lemma settledDecision_cases: "settledDecision s = Some d \<Longrightarrow> d = s"
  by (auto simp: settledDecision_def split: if_splits)

lemma timeout_no_approval [simp]: "approvalTimeout \<noteq> approvalApproved"
  by (simp add: approvalTimeout_def approvalApproved_def)

lemma await_loop_gate:
  assumes "asked g x ctx i (snd wl)" "gated_log c (snd wl)"
  shows "wp (await_loop n (instrument_gw g) i deadline) (\<lambda>r wl'. gate_post c g x ctx r (snd wl')) wl"
  using assms
proof (induction n arbitrary: wl)
  case 0
  then show ?case by (simp add: wp_simps)
next
  case (Suc n)
  have again: "wp (with_now (ag_now (instrument_gw g)) (\<lambda>t.
      if \<not> t < deadline then ret \<lparr>ao_Decision = approvalTimeout, ao_RequestID = i\<rparr>
      else thenE (ag_sleep (instrument_gw g) (ag_pollInterval (instrument_gw g))) (await_loop n (instrument_gw g) i deadline)))
      (\<lambda>r wl'. gate_post c g x ctx r (snd wl')) (w', snd wl @ ys)"
    if "gated_log c (snd wl @ ys)" for w' ys
  proof (rule wp_with_now)
    fix t w2
    have "wp (silently (ag_sleep g (ag_pollInterval g))) (\<lambda>r. case r of Inl e \<Rightarrow> (\<lambda>wl'. gate_post c g x ctx (Inl e) (snd wl'))
        | Inr _ \<Rightarrow> wp (await_loop n (instrument_gw g) i deadline) (\<lambda>r wl'. gate_post c g x ctx r (snd wl'))) (w2, snd wl @ ys)"
      using that Suc.IH asked_mono [OF Suc.prems(1)] by (intro wp_silently) (auto split: sum.split)
    then show "wp (if \<not> t < deadline then ret \<lparr>ao_Decision = approvalTimeout, ao_RequestID = i\<rparr>
      else thenE (ag_sleep (instrument_gw g) (ag_pollInterval (instrument_gw g))) (await_loop n (instrument_gw g) i deadline))
      (\<lambda>r wl'. gate_post c g x ctx r (snd wl')) (w2, snd (w', snd wl @ ys))"
      using that by (simp add: wp_simps)
  qed
  show ?case
    unfolding await_loop.simps ag_poll_def wp_bindE tools_sel
  proof (rule wp_ag_do, goal_cases)
    case (1 e w')
    with Suc.prems show ?case by simp
  next
    case (2 t r w')
    show ?case
    proof (cases "case r of Inl e \<Rightarrow> Inl (Errorf ''poll approval request'' [e]) | Inr resp \<Rightarrow> decode_state ''poll approval request'' resp")
      case (Inl e)
      with Suc.prems show ?thesis by simp
    next
      case (Inr st)
      then obtain resp where r: "r = Inr resp" and st: "decode_state ''poll approval request'' resp = Inr st" by (cases r) auto
      show ?thesis
        using Suc.prems approved_polled [OF Suc.prems(1) st] settledDecision_cases [of "as_Status st"]
        by (auto simp: r st wp_simps intro!: again [unfolded tools_sel] split: option.split)
    qed
  qed
qed

lemma await_gate:
  assumes "gated_log c (snd wl)"
  shows "wp (await (instrument_gw g) i ctx) (\<lambda>r wl'. gate_post c g (externalID g i) ctx r (snd wl')) wl"
  unfolding await_def await_with_def ag_create_def wp_bindE tools_sel derived_sel
proof (rule wp_ag_do, goal_cases)
  case (1 e w')
  with assms show ?case by simp
next
  case (2 t r w')
  show ?case
  proof (cases "case r of Inl e \<Rightarrow> Inl (Errorf ''create approval request'' [e]) | Inr resp \<Rightarrow> decode_state ''create approval request'' resp")
    case (Inl e)
    with assms show ?thesis by simp
  next
    case (Inr st)
    then obtain resp where r: "r = Inr resp" and st: "decode_state ''create approval request'' resp = Inr st" by (cases r) auto
    show ?thesis
      using assms settledDecision_cases [of "as_Status st"] approved_created [OF st]
      by (auto simp: r st wp_simps intro!: wp_with_now await_loop_gate asked_created [OF st] split: option.split)
  qed
qed

section \<open>The two approved tools\<close>

lemma stays_fact:
  assumes "\<And>es r. gated_log c es \<Longrightarrow> F es \<Longrightarrow> justified c es (ev r)" "\<And>es ys. F es \<Longrightarrow> F (es @ ys)"
  shows "stays (\<lambda>es. gated_log c es \<and> F es) (logged ev m)"
  using assms by (intro stays_event) simp

lemma stays_wp: "stays I m \<Longrightarrow> I (snd wl) \<Longrightarrow> (\<And>es. I es \<Longrightarrow> J es) \<Longrightarrow> wp m (\<lambda>r wl'. J (snd wl')) wl"
  unfolding stays_def by (blast intro: wp_mono)

lemma stays_published: "stays (gated_log c) (mc_publish (instrument_mc c) n)"
  by (simp add: stays_event)

lemma stays_through_gate:
  assumes go: "stays (\<lambda>es. gated_log c es \<and> approved g (externalID g i) ctx es) go"
  shows "stays (gated_log c) (through_gate (instrument_mc c) (instrument_gw g) toolName i ctx refused go)"
proof -
  have answer: "wp (case r of
          Inl e \<Rightarrow> ignoreE (mc_publish (instrument_mc c) n1) (toolError (Errorf ''approval could not be obtained'' [e]))
        | Inr outcome \<Rightarrow> ignoreE (mc_publish (instrument_mc c) (n2 outcome))
              (if ao_Decision outcome \<noteq> approvalApproved then toolError (refused (map lower (ao_Decision outcome))) else go))
      (\<lambda>r wl'. gated_log c (snd wl')) wl"
    if post: "gate_post c g (externalID g i) ctx r (snd wl)" for r n1 n2 wl
  proof (cases r)
    case (Inl e)
    with post show ?thesis by (auto simp: wp_simps intro!: wp_event)
  next
    case (Inr out)
    have "wp go (\<lambda>r wl'. gated_log c (snd wl')) (w', snd wl @ [EvPublish n q])" if "ao_Decision out = approvalApproved" for w' n q
      using post Inr that by (intro stays_wp [OF go]) (auto intro: approved_mono)
    with post Inr show ?thesis by (auto simp: wp_simps intro!: wp_event)
  qed
  show ?thesis
    unfolding stays_def through_gate_def wp_simps
  proof (intro allI impI)
    fix wl :: "'a \<times> mcp_event list" assume "gated_log c (snd wl)"
    then show "wp (mc_publish (instrument_mc c) (notice noticeAwaiting toolName (externalID (instrument_gw g) i) []))
        (\<lambda>r. wp (await (instrument_gw g) i ctx) (\<lambda>r. wp (case r of
          Inl e \<Rightarrow> ignoreE (mc_publish (instrument_mc c) (notice noticeUnavailable toolName (externalID (instrument_gw g) i) []))
            (toolError (Errorf ''approval could not be obtained'' [e]))
        | Inr outcome \<Rightarrow> ignoreE (mc_publish (instrument_mc c) (notice noticeDecided toolName (externalID (instrument_gw g) i) (ao_Decision outcome)))
              (if ao_Decision outcome \<noteq> approvalApproved then toolError (refused (map lower (ao_Decision outcome))) else go))
            (\<lambda>r wl'. gated_log c (snd wl')))) wl"
      by (auto intro!: wp_event wp_mono [OF await_gate] answer)
  qed
qed

lemma stays_fetch_result: "stays I (fetch_result (instrument_mc c) i resp)"
  unfolding fetch_result_def by (auto intro!: stays_intros split: sum.split)

lemma stays_request_id: "stays I (newApprovalRequestID (instrument_mc c))"
  unfolding newApprovalRequestID_def by (auto intro!: stays_intros)

lemma stays_web_fetch:
  assumes "mc_gateway c = Some g"
  shows "stays (gated_log c) (callWebFetch (instrument_mc c) (instrument_gw g) arguments)"
proof -
  have fetch: "stays (\<lambda>es. gated_log c es \<and> approved g (externalID g i) (fetch_context target) es) (logged (EvFetch target) m)" for i target m
    by (rule stays_fact) (auto simp: justified_def assms intro: approved_mono)
  show ?thesis
    unfolding callWebFetch_def
    by (auto intro!: stays_or_tool stays_lift stays_or_rpc stays_request_id stays_through_gate stays_ret fetch stays_fetch_result split: option.split)
qed

lemma stays_run_clone:
  assumes "\<And>es r. gated_log c es \<Longrightarrow> F es \<Longrightarrow> clone_justified c target branch dest env es" "\<And>es ys. F es \<Longrightarrow> F (es @ ys)"
  shows "stays (\<lambda>es. gated_log c es \<and> F es) (runClone (instrument_mc c) target branch dest env)"
proof -
  have "stays (\<lambda>es. gated_log c es \<and> F es) (logged (EvClone target branch dest env) m)" for m
    by (rule stays_fact) (auto simp: justified_def assms)
  then show ?thesis
    unfolding runClone_def by (auto intro!: stays_tryE stays_ret stays_ignoreE stays_on_os stays_throw split: sum.split)
qed

lemma stays_clone_approved:
  assumes "mc_gateway c = Some g" "mc_repoAccess c = None"
  shows "stays (gated_log c) (cloneApproved (instrument_mc c) (instrument_gw g) target branch)"
proof -
  have run: "stays (\<lambda>es. gated_log c es \<and> approved g (externalID g i) (clone_context target branch (clonePath c i)) es)
      (runClone (instrument_mc c) target branch (clonePath c i) [])" for i
    by (rule stays_run_clone) (auto simp: clone_justified_def assms intro: approved_mono)
  show ?thesis
    unfolding cloneApproved_def Let_def derived_sel
    by (auto intro!: stays_or_tool stays_on_os stays_or_rpc stays_request_id stays_through_gate stays_ret run)
qed

section \<open>The allow list\<close>

lemma listed_answer:
  "ra_answer check_type resp = Inr x \<Longrightarrow> bool_of (x ''allowed'') \<Longrightarrow>
   listed ra repo (es @ [EvAllow (with_bearer t (check_request ra repo)) (Inr resp)])"
  unfolding listed_def
  by (intro exI [of _ "with_bearer t (check_request ra repo)"] exI [of _ resp] exI [of _ x])
     (auto simp: with_bearer_def check_request_def get_request_def bool_of_def)

lemma wp_ra_check:
  assumes "gated_log c (snd wl)"
  shows "wp (ra_check (instrument_ra ra) repo) (\<lambda>r wl'. gated_log c (snd wl') \<and> (r = Inr True \<longrightarrow> listed ra repo (snd wl'))) wl"
  unfolding ra_check_def ra_do_def wp_simps tools_sel derived_sel
  by (rule wp_silently) (use assms in \<open>auto simp: wp_simps listed_answer intro!: wp_event split: sum.split\<close>)

lemma stays_ra_do: "(\<And>es q r. I es \<Longrightarrow> I (es @ [EvAllow q r])) \<Longrightarrow> stays I (ra_do (instrument_ra ra) T req)"
  unfolding ra_do_def tools_sel
  by (auto intro!: stays_tryE stays_silently stays_throw stays_lift stays_event split: sum.split)

text \<open>After a positive check, with whatever follows from it.\<close>

lemma stays_checked:
  assumes "stays (\<lambda>es. gated_log c es \<and> listed ra repo es) k" "stays (gated_log c) n" "\<And>e. stays (gated_log c) (ret (ToolError (msg e)))"
  shows "stays (gated_log c) (or_tool msg (ra_check (instrument_ra ra) repo) (\<lambda>allowed. if \<not> allowed then n else k))"
  unfolding stays_def wp_or_tool
proof (intro allI impI)
  fix wl :: "'a \<times> mcp_event list" assume "gated_log c (snd wl)"
  from wp_ra_check [OF this, of ra repo]
  show "wp (ra_check (instrument_ra ra) repo) (\<lambda>r. case r of Inl e \<Rightarrow> \<lambda>wl'. gated_log c (snd wl')
      | Inr x \<Rightarrow> wp (if \<not> x then n else k) (\<lambda>r wl'. gated_log c (snd wl'))) wl"
  proof (rule wp_mono, goal_cases)
    case (1 r wl')
    then show ?case
      using stays_wp [OF assms(2)] stays_wp [OF assms(1)] by (cases r) auto
  qed
qed

text \<open>A mint, and what it gives.\<close>

lemma stays_minting:
  assumes "\<And>es r. I es \<Longrightarrow> I (es @ [EvMint n p r])" "\<And>r. stays (\<lambda>es. I es \<and> EvMint n p r \<in> set es) (f r)"
  shows "stays I (tryE (logged (EvMint n p) m) f)"
  unfolding stays_def wp_tryE
proof (intro allI impI)
  fix wl :: "'a \<times> mcp_event list" assume "I (snd wl)"
  then show "wp (logged (EvMint n p) m) (\<lambda>r. wp (f r) (\<lambda>r wl'. I (snd wl'))) wl"
    using assms(1) by (intro wp_event stays_wp [OF assms(2)]) auto
qed

lemma stays_clone_allowed:
  assumes "mc_repoAccess c = Some ra" "githubRepoOf (mc_Parse c) target = Some repo"
  shows "stays (\<lambda>es. gated_log c es \<and> listed ra (fullName repo) es) (cloneAllowed (instrument_mc c) repo target branch dest)"
proof -
  note cj = clone_justified_def assms
  have plain: "stays (\<lambda>es. gated_log c es \<and> listed ra (fullName repo) es) (runClone (instrument_mc c) target branch dest [])"
    by (rule stays_run_clone) (auto simp: cj intro: listed_mono)
  have plain': "stays (\<lambda>es. gated_log c es \<and> listed ra (fullName repo) es \<and> e \<in> set es) (runClone (instrument_mc c) target branch dest [])" for e
    by (rule stays_run_clone) (auto simp: cj intro: listed_mono)
  have authed: "stays (\<lambda>es. gated_log c es \<and> listed ra (fullName repo) es \<and> EvMint (gr_name repo) githubContentsRead (Inr token) \<in> set es)
      (runClone (instrument_mc c) target branch dest (scopedAuthEnv (gr_scope repo) header))"
    if "githubBasicAuthHeader token = (header, encoded)" for token header encoded
    using that by (intro stays_run_clone) (auto simp: cj minted_def intro: listed_mono)
  have mint: "stays (\<lambda>es. gated_log c es \<and> listed ra (fullName repo) es) (tryE (logged (EvMint (gr_name repo) githubContentsRead) m) f)"
    if "\<And>r. stays (\<lambda>es. gated_log c es \<and> listed ra (fullName repo) es \<and> EvMint (gr_name repo) githubContentsRead r \<in> set es) (f r)"
    for m and f :: "_ \<Rightarrow> ('a \<times> mcp_event list, goerr option) act"
    by (rule stays_minting) (use that assms(2) in \<open>auto simp: justified_def github_repo_def assms(1) intro: listed_mono\<close>)
  show ?thesis
    unfolding cloneAllowed_def Let_def
    by (auto intro!: stays_tryE [OF plain] stays_tryE [OF plain'] stays_tryE [OF authed] mint stays_ret simp: conj_assoc split: option.split sum.split prod.split)
qed

lemma stays_from_allow_list:
  assumes "mc_repoAccess c = Some ra"
  shows "stays (gated_log c) (cloneFromAllowList (instrument_mc c) (instrument_ra ra) target branch)"
proof -
  have go: "stays (\<lambda>es. gated_log c es \<and> listed ra (fullName repo) es)
      (or_rpc ''could not generate a request id'' (newApprovalRequestID (instrument_mc c)) (\<lambda>requestID.
        let dest = clonePath (instrument_mc c) requestID in
        or_tool (\<lambda>e. Errorf ''prepare the shared volume directory'' [e]) (on_os (instrument_mc c) (MkdirAll (os_path (Dir_of dest)) 448)) (\<lambda>_.
        bindE (cloneAllowed (instrument_mc c) repo target branch dest) (\<lambda>failure.
        case failure of Some e \<Rightarrow> toolError e | None \<Rightarrow> ret (cloneResult dest target branch)))))"
    if "githubRepoOf (mc_Parse c) target = Some repo" for repo
    unfolding Let_def
    by (auto intro!: stays_or_rpc stays_request_id stays_or_tool stays_on_os stays_bindE stays_clone_allowed [OF assms that] stays_ret split: option.split)
  show ?thesis
    unfolding cloneFromAllowList_def tools_sel
    by (cases "githubRepoOf (mc_Parse c) target") (simp_all add: stays_ret stays_checked [OF go])
qed

lemma stays_git_clone:
  assumes "mc_gateway c = Some g"
  shows "stays (gated_log c) (callGitClone (instrument_mc c) (instrument_gw g) arguments)"
  unfolding callGitClone_def
  by (auto intro!: stays_or_tool stays_lift stays_ret stays_from_allow_list stays_clone_approved assms split: option.split)

lemma github_repoI: "githubRepoOf (mc_Parse c) u = Some repo \<Longrightarrow> github_repo c repo"
  by (auto simp: github_repo_def)

lemma stays_push_allowed:
  assumes "mc_repoAccess c = Some ra" "github_repo c repo"
  shows "stays (\<lambda>es. gated_log c es \<and> listed ra (fullName repo) es) (pushAllowed (instrument_mc c) repo source branch)"
proof -
  have push: "stays (\<lambda>es. gated_log c es \<and> listed ra (fullName repo) es \<and> EvMint (gr_name repo) githubContentsWrite (Inr token) \<in> set es)
      (logged (EvPush \<lparr>pq_source = source, pq_branch = branch, pq_remote = gr_scope repo, pq_env = scopedAuthEnv (gr_scope repo) header\<rparr>) m)"
    if "githubBasicAuthHeader token = (header, encoded)" for token header encoded m
  proof (rule stays_fact, goal_cases)
    case (1 es r)
    with that show ?case by (auto simp: justified_def assms minted_def intro!: exI [of _ repo] exI [of _ token])
  qed (auto intro: listed_mono)
  have mint: "stays (\<lambda>es. gated_log c es \<and> listed ra (fullName repo) es) (tryE (logged (EvMint (gr_name repo) githubContentsWrite) m) f)"
    if "\<And>r. stays (\<lambda>es. gated_log c es \<and> listed ra (fullName repo) es \<and> EvMint (gr_name repo) githubContentsWrite r \<in> set es) (f r)"
    for m and f :: "_ \<Rightarrow> ('a \<times> mcp_event list, reply) act"
    by (rule stays_minting) (use that assms(2) in \<open>auto simp: justified_def assms(1) intro: listed_mono\<close>)
  show ?thesis
    unfolding pushAllowed_def or_tool_def
    by (auto intro!: mint stays_tryE [OF push] stays_ret split: option.split sum.split prod.split)
qed

lemma stays_git_push: "stays (gated_log c) (callGitPush (instrument_mc c) arguments)"
proof -
  have origin: "stays I (readCloneOrigin (instrument_mc c) p)" for I and p
    unfolding readCloneOrigin_def Let_def
    by (auto intro!: stays_tryE stays_on_os stays_throw stays_silently stays_ret split: sum.split)
  have known: "stays (gated_log c) (or_tool msg (ra_check (instrument_ra ra) (fullName repo)) (\<lambda>allowed.
      if \<not> allowed then toolError (not_allowed repo) else pushAllowed (instrument_mc c) repo source branch))"
    if "mc_repoAccess c = Some ra \<and> github_repo c repo" for ra repo source branch msg
    by (rule stays_checked [OF stays_push_allowed]) (use that in \<open>auto intro: stays_ret\<close>)
  show ?thesis
    unfolding callGitPush_def
    by (auto intro!: known stays_or_tool stays_lift stays_ret stays_on_os origin intro: github_repoI split: option.split)
qed

lemma stays_repo_access: "stays (gated_log c) (callRequestRepoAccess (instrument_mc c) arguments)"
  unfolding callRequestRepoAccess_def ra_request_def
  by (auto intro!: stays_or_tool stays_lift stays_ret stays_ra_do stays_bindE stays_ignoreE stays_published [unfolded tools_sel]
      split: option.split prod.split)

section \<open>The file-share tools\<close>

lemma stays_drop_do: "(\<And>es q r. I es \<Longrightarrow> I (es @ [EvShare q r])) \<Longrightarrow> stays I (drop_do (instrument_dc d) req want T)"
  unfolding drop_do_def tools_sel by (auto intro!: stays_tryE stays_event stays_ret split: sum.split)

lemma stays_send_loop:
  assumes "\<And>es q r. I es \<Longrightarrow> I (es @ [EvShare q r])"
  shows "stays I (send_loop k (instrument_dc d) key target bs chunk offset resumes)"
proof (induction k arbitrary: offset resumes)
  case 0
  then show ?case by (simp add: stays_throw)
next
  case (Suc k)
  have "stays I (putChunk (instrument_dc d) key target bs a b)" for a b
    unfolding putChunk_def chunkStatus_def keyed_def
    by (auto intro!: stays_bindE stays_drop_do assms stays_throw stays_ret split: drop_answer.split option.split jvalue.split)
  with Suc show ?case by (auto intro!: stays_bindE stays_ret stays_throw)
qed

lemma stays_drop_upload:
  assumes "\<And>es q r. I es \<Longrightarrow> I (es @ [EvShare q r])"
  shows "stays I (drop_upload (instrument_dc d) key fs opened did password days)"
proof -
  have "stays I (send_files (instrument_dc d) key base chunk n us)" for base chunk n us
    by (induction us arbitrary: n) (auto simp: sendFile_def intro!: stays_ret stays_thenE stays_wrapE stays_send_loop assms)
  then show ?thesis
    unfolding drop_upload_def keyed_def Let_def
    by (auto intro!: stays_bindE stays_thenE stays_drop_do assms stays_throw stays_ret split: drop_answer.split)
qed

lemma stays_exchange: "(\<And>es q r. I es \<Longrightarrow> I (es @ [EvShare q r])) \<Longrightarrow> stays I (exchangeKey (instrument_dc d) sid days)"
  unfolding exchangeKey_def tools_sel
  by (auto intro!: stays_tryE stays_silently stays_throw stays_bindE stays_drop_do stays_ret split: sum.split drop_answer.split)

lemma stays_upload_tool:
  assumes "\<And>es q r. mc_drop c \<noteq> None \<Longrightarrow> I es \<Longrightarrow> I (es @ [EvShare q r])"
  shows "stays I (callDropUpload (instrument_mc c) arguments)"
  unfolding callDropUpload_def Let_def
  by (auto intro!: stays_or_tool stays_on_os stays_exchange stays_drop_upload stays_ret assms split: option.split)

lemma stays_fetch_into:
  assumes "\<And>es q r. I es \<Longrightarrow> I (es @ [EvShare q r])"
  shows "stays I (fetchInto (instrument_mc c) (instrument_dc d) destRoot did password n want name overwrite)"
proof -
  have store: "stays I (\<lambda>w. on_os (instrument_mc c) (g w) w)" for g :: "'a \<times> mcp_event list \<Rightarrow> (os, 'x) act"
    by (auto simp: stays_def wp_def on_os_def instrument_mc_def split: prod.splits)
  show ?thesis
    unfolding fetchInto_def tools_sel by (auto intro!: stays_tryE stays_event assms stays_throw store split: sum.split)
qed

lemma stays_download_tool:
  assumes "\<And>es q r. mc_drop c \<noteq> None \<Longrightarrow> I es \<Longrightarrow> I (es @ [EvShare q r])"
  shows "stays I (callDropDownload (instrument_mc c) arguments)"
proof -
  have all: "stays I (fetch_all (instrument_mc c) (instrument_dc d) destRoot dest listing password overwrite todo)"
    if "mc_drop c \<noteq> None" for d destRoot dest listing password overwrite todo
    by (induction todo) (auto simp: Let_def intro!: stays_ret stays_bindE stays_wrapE stays_fetch_into assms that)
  show ?thesis
    unfolding callDropDownload_def download_into_def drop_list_def Let_def
    by (auto intro!: all stays_or_tool stays_on_os stays_lift stays_bindE stays_drop_do stays_throw stays_ret assms
        split: option.split drop_answer.split)
qed

section \<open>The endpoint\<close>

lemma stays_call_tool: "stays (gated_log c) (callTool (instrument_mc c) params)"
proof -
  have share: "gated_log c (es @ [EvShare q r])" if "mc_gateway c = Some g" "mc_drop c \<noteq> None" "gated_log c es" for es q r g
    using that by (simp add: justified_def)
  show ?thesis
    unfolding callTool_def Let_def
    by (auto intro!: stays_ret stays_git_clone stays_repo_access stays_git_push stays_upload_tool stays_download_tool stays_web_fetch
        intro: share split: option.split)
qed

lemma stays_serve: "(\<And>q. stays I (callTool c q)) \<Longrightarrow> stays I (serve_mcp c httpMethod body)"
  unfolding serve_mcp_def Let_def by (auto intro!: stays_ret stays_bindE split: option.split)

lemma ungated_silent: "mc_gateway c = None \<Longrightarrow> stays (\<lambda>es. es = []) (callTool (instrument_mc c) params)"
  unfolding callTool_def Let_def by (auto intro!: stays_ret split: option.split)

text \<open>C18: nothing leaves an approval-gated session unjustified. Without a gate the session MCP lists no tool and makes
  no call at all. With one, whatever a client posts and whatever every service answers, each outbound call is covered
  by what was received before it: a fetch by the gateway's approval of exactly this URL under this session's
  identifier, a clone by the approval of exactly this URL, branch and destination or, where there is an allow
  list, by a positive answer for its repository; a token is minted and a branch pushed only for a repository
  that was just found on the list, and the push carries the token minted for it.\<close>

theorem nothing_leaves_unapproved:
  "if mc_gateway c = None
   then toolDefinitions c = [] \<and> snd (snd (serve_mcp (instrument_mc c) httpMethod body (w, []))) = []
   else toolDefinitions c \<noteq> [] \<and> gated_log c (snd (snd (serve_mcp (instrument_mc c) httpMethod body (w, []))))"
proof -
  obtain r w' es where run: "serve_mcp (instrument_mc c) httpMethod body (w, []) = (r, (w', es))"
    by (metis prod.collapse)
  have "gated_log c es"
    using staysD [OF stays_serve [OF stays_call_tool] run] by simp
  moreover have "es = []" if "mc_gateway c = None"
    using staysD [OF stays_serve [OF ungated_silent] run] that by simp
  ultimately show ?thesis
    using run by (simp add: toolDefinitions_def gated_def)
qed

end
