(* ===== verification/Approval_Laws.thy ===== *)
theory Approval_Laws
  imports Mcp_Gate
begin

text \<open>
  The wait for a person: a session is shown as waiting exactly while the gateway is asked, the wait ends at its deadline,
  and what the workload pod reports follows the feed of notices.
\<close>

section \<open>A wait is shown while it lasts\<close>

definition published :: "mcp_event list \<Rightarrow> approvalNotice list" where
  "published es = List.map_filter (\<lambda>e. case e of EvPublish n _ \<Rightarrow> Some n | _ \<Rightarrow> None) es"

text \<open>The waits a reader of all the notices so far holds.\<close>

definition waits_of :: "mcp_event list \<Rightarrow> approvalWaits" where
  "waits_of es = fold observe_one (published es) []"

definition is_gateway :: "mcp_event \<Rightarrow> bool" where
  "is_gateway e = (case e of EvGateway _ _ \<Rightarrow> True | _ \<Rightarrow> False)"

definition waits_shown :: "mcp_event list \<Rightarrow> bool" where
  "waits_shown es = (\<forall>i < length es. is_gateway (es ! i) \<longrightarrow> waits_of (take i es) \<noteq> [])"

lemma waits_of_snoc:
  "waits_of (es @ [EvPublish n r]) = observe_one n (waits_of es)"
  "\<not> (\<exists>n r. e = EvPublish n r) \<Longrightarrow> waits_of (es @ [e]) = waits_of es"
  by (auto simp: waits_of_def published_def map_filter_def split: mcp_event.splits)

lemma waits_shown_snoc: "waits_shown (es @ [e]) \<longleftrightarrow> waits_shown es \<and> (is_gateway e \<longrightarrow> waits_of es \<noteq> [])"
  unfolding waits_shown_def by (auto simp: less_Suc_eq nth_append)

definition showing :: "approvalWaits \<Rightarrow> mcp_event list \<Rightarrow> bool" where
  "showing ws es = (waits_shown es \<and> waits_of es = ws)"

lemma showing_simps [simp]:
  "showing ws (es @ [EvFetch t f]) \<longleftrightarrow> showing ws es" "showing ws (es @ [EvClone t b d env u]) \<longleftrightarrow> showing ws es"
  "showing ws (es @ [EvAllow q a]) \<longleftrightarrow> showing ws es" "showing ws (es @ [EvMint m p s]) \<longleftrightarrow> showing ws es"
  "showing ws (es @ [EvPush pr s]) \<longleftrightarrow> showing ws es" "showing ws (es @ [EvShare dq dp]) \<longleftrightarrow> showing ws es"
  "showing ws (es @ [EvGateway q a]) \<longleftrightarrow> ws \<noteq> [] \<and> showing ws es"
  by (auto simp: showing_def waits_shown_snoc waits_of_snoc is_gateway_def)

lemma showing_publish: "showing ws es \<Longrightarrow> showing (observe_one n ws) (es @ [EvPublish n r])"
  by (simp add: showing_def waits_shown_snoc waits_of_snoc is_gateway_def)

lemma externalID_nonempty [simp]: "externalID g i \<noteq> []"
  by (simp add: externalID_def)

lemma notice_kinds: "noticeAwaiting \<noteq> noticeDecided" "noticeAwaiting \<noteq> noticeUnavailable" "noticeDecided \<noteq> noticeUnavailable"
  "noticeAccessRequested \<noteq> noticeAwaiting"
  by (simp_all add: noticeAwaiting_def noticeDecided_def noticeUnavailable_def noticeAccessRequested_def)

lemma observe_notice [simp]:
  "observe_one (notice noticeAwaiting t (externalID g i) d) [] = [externalID g i]"
  "observe_one (notice noticeDecided t (externalID g i) d) [externalID g i] = []"
  "observe_one (notice noticeUnavailable t (externalID g i) d) [externalID g i] = []"
  "observe_one (access_notice repo) ws = ws"
  using notice_kinds by (simp_all add: observe_one_def notice_def access_notice_def List.insert_def)

lemma showing_awaiting: "showing [] es \<Longrightarrow> showing [externalID g i] (es @ [EvPublish (notice noticeAwaiting t (externalID g i) d) r])"
  using showing_publish [of "[]" es "notice noticeAwaiting t (externalID g i) d" r] by simp

lemma showing_access: "showing ws es \<Longrightarrow> showing ws (es @ [EvPublish (access_notice repo) r])"
  using showing_publish [of ws es "access_notice repo" r] by simp

lemma stays_ag_do:
  assumes "\<And>es q r. I es \<Longrightarrow> I (es @ [EvGateway q r])"
  shows "stays I (ag_do (instrument_gw g) req what)"
  unfolding stays_def using assms by (auto intro!: wp_ag_do)

lemma stays_await:
  assumes "\<And>es q r. I es \<Longrightarrow> I (es @ [EvGateway q r])"
  shows "stays I (await (instrument_gw g) i ctx)"
proof -
  have clock: "stays I (with_now (ag_now (instrument_gw g)) f)" if "\<And>t. stays I (f t)" for f :: "int \<Rightarrow> ('a \<times> mcp_event list, 'x) act"
    using that unfolding stays_def by (auto intro!: wp_with_now)
  have loop: "stays I (await_loop n (instrument_gw g) j t)" for n j t
  proof (induction n)
    case (Suc n)
    then show ?case
      unfolding await_loop.simps ag_poll_def
      by (auto intro!: stays_bindE stays_ag_do assms stays_ret clock stays_thenE stays_silently split: option.split)
  qed (simp add: stays_throw)
  show ?thesis
    unfolding await_def await_with_def ag_create_def
    by (auto intro!: stays_bindE stays_ag_do assms stays_throw stays_ret clock loop split: option.split)
qed

lemma shown_through_gate:
  assumes "stays (showing []) go"
  shows "stays (showing []) (through_gate (instrument_mc c) (instrument_gw g) toolName i ctx refused go)"
proof -
  let ?x = "externalID g i"
  have ended: "wp (ignoreE (logged (EvPublish (notice k toolName ?x d)) m) k2) (\<lambda>r wl'. showing [] (snd wl')) wl"
    if "showing [?x] (snd wl)" "k = noticeDecided \<or> k = noticeUnavailable" "stays (showing []) k2" for wl k d m k2
    unfolding wp_simps
    using that showing_publish [of "[?x]" "snd wl" "notice k toolName ?x d"]
    by (intro wp_event stays_wp [OF that(3)]) auto
  have answered: "wp (case r of
          Inl e \<Rightarrow> ignoreE (mc_publish (instrument_mc c) (notice noticeUnavailable toolName ?x [])) (toolError (Errorf ''approval could not be obtained'' [e]))
        | Inr out \<Rightarrow> ignoreE (mc_publish (instrument_mc c) (notice noticeDecided toolName ?x (ao_Decision out)))
              (if ao_Decision out \<noteq> approvalApproved then toolError (refused (map lower (ao_Decision out))) else go))
      (\<lambda>r wl'. showing [] (snd wl')) wl" if "showing [?x] (snd wl)" for r wl
    using that assms by (cases r) (auto intro!: ended stays_ret)
  have asked: "wp (await (instrument_gw g) i ctx) (\<lambda>r. wp (case r of
          Inl e \<Rightarrow> ignoreE (mc_publish (instrument_mc c) (notice noticeUnavailable toolName ?x [])) (toolError (Errorf ''approval could not be obtained'' [e]))
        | Inr out \<Rightarrow> ignoreE (mc_publish (instrument_mc c) (notice noticeDecided toolName ?x (ao_Decision out)))
              (if ao_Decision out \<noteq> approvalApproved then toolError (refused (map lower (ao_Decision out))) else go))
      (\<lambda>r wl'. showing [] (snd wl'))) wl" if "showing [?x] (snd wl)" for wl
    by (rule wp_mono [OF stays_await [unfolded stays_def, rule_format, of "showing [?x]"]]) (use that answered in auto)
  show ?thesis
    unfolding stays_def through_gate_def wp_simps derived_sel
  proof (intro allI impI)
    fix wl :: "'a \<times> mcp_event list" assume "showing [] (snd wl)"
    then show "wp (mc_publish (instrument_mc c) (notice noticeAwaiting toolName ?x [])) (\<lambda>r. wp (await (instrument_gw g) i ctx) (\<lambda>r. wp (case r of
          Inl e \<Rightarrow> ignoreE (mc_publish (instrument_mc c) (notice noticeUnavailable toolName ?x [])) (toolError (Errorf ''approval could not be obtained'' [e]))
        | Inr out \<Rightarrow> ignoreE (mc_publish (instrument_mc c) (notice noticeDecided toolName ?x (ao_Decision out)))
              (if ao_Decision out \<noteq> approvalApproved then toolError (refused (map lower (ao_Decision out))) else go))
      (\<lambda>r wl'. showing [] (snd wl')))) wl"
      by (auto intro!: wp_event asked showing_awaiting)
  qed
qed

lemma shown_call_tool: "stays (showing []) (callTool (instrument_mc c) params)"
proof -
  have clone: "stays (showing []) (runClone (instrument_mc c) target branch dest env)" for target branch dest env
    unfolding runClone_def by (auto intro!: stays_tryE stays_event stays_ret stays_ignoreE stays_on_os stays_throw split: sum.split)
  have check: "stays (showing []) (ra_check (instrument_ra ra) repo)" for ra repo
    unfolding ra_check_def by (auto intro!: stays_bindE stays_ra_do stays_ret)
  have fetch: "stays (showing []) (callWebFetch (instrument_mc c) (instrument_gw g) arguments)" for g arguments
    unfolding callWebFetch_def
    by (auto intro!: stays_or_tool stays_lift stays_or_rpc stays_request_id shown_through_gate stays_ret stays_event stays_fetch_result split: option.split)
  have git_clone: "stays (showing []) (callGitClone (instrument_mc c) (instrument_gw g) arguments)" for g arguments
    unfolding callGitClone_def cloneFromAllowList_def cloneApproved_def cloneAllowed_def Let_def
    by (auto intro!: stays_or_tool stays_lift stays_or_rpc stays_request_id shown_through_gate stays_ret stays_event stays_on_os clone check
        stays_bindE stays_tryE split: option.split sum.split prod.split)
  have git_push: "stays (showing []) (callGitPush (instrument_mc c) arguments)" for arguments
    unfolding callGitPush_def pushAllowed_def readCloneOrigin_def Let_def
    by (auto intro!: stays_or_tool stays_lift stays_ret stays_event stays_on_os check stays_tryE stays_silently stays_throw
        split: option.split sum.split prod.split)
  have access: "stays (showing []) (callRequestRepoAccess (instrument_mc c) arguments)" for arguments
    unfolding callRequestRepoAccess_def ra_request_def
    by (auto intro!: stays_or_tool stays_lift stays_ret stays_ra_do stays_bindE stays_ignoreE stays_event showing_access split: option.split prod.split)
  show ?thesis
    unfolding callTool_def Let_def
    by (auto intro!: stays_ret git_clone access git_push stays_upload_tool stays_download_tool fetch split: option.split)
qed

text \<open>C20: whatever a client posts and however the gateway behaves, the notices of a request show a wait for the
  whole time the gateway is asked, from before the first call to after the last, and every wait they announce they also
  end, by a decision or by saying that none could be had.\<close>

theorem waits_shown_while_asking:
  "let es = snd (snd (serve_mcp (instrument_mc c) httpMethod body (w, []))) in waits_shown es \<and> waits_of es = []"
proof -
  obtain r w' es where run: "serve_mcp (instrument_mc c) httpMethod body (w, []) = (r, (w', es))"
    by (metis prod.collapse)
  have "showing [] es"
    by (rule staysD [OF stays_serve [OF shown_call_tool] run]) (simp add: showing_def waits_shown_def waits_of_def published_def map_filter_def)
  with run show ?thesis by (simp add: showing_def)
qed

section \<open>A wait ends\<close>

text \<open>Time does not run backwards, and a sleep that returns took at least as long as asked.\<close>

definition steady :: "'w approvalGateway \<Rightarrow> ('w \<Rightarrow> int) \<Rightarrow> bool" where
  "steady g time =
     ((\<forall>w t w'. ag_now g w = (t, w') \<longrightarrow> time w \<le> t \<and> t \<le> time w') \<and>
      (\<forall>d w w'. ag_sleep g d w = (Inr (), w') \<longrightarrow> time w + d \<le> time w') \<and>
      (\<forall>q w r w'. ag_client g q w = (r, w') \<longrightarrow> time w \<le> time w') \<and>
      (\<forall>p w r w'. ag_ReadFile g p w = (r, w') \<longrightarrow> time w \<le> time w'))"

lemma steady_wp:
  assumes "steady g time"
  shows "wp (ag_client g q) (\<lambda>r w'. time w \<le> time w') w" "wp (ag_ReadFile g p) (\<lambda>r w'. time w \<le> time w') w"
  using assms unfolding steady_def wp_def by (auto split: prod.split)

lemma ag_poll_later:
  assumes "steady g time" "ag_poll g i w = (r, w')"
  shows "time w \<le> time w'"
proof -
  have client: "wp (ag_client g q) Q w1" if "\<And>r w2. time w1 \<le> time w2 \<Longrightarrow> Q r w2" for q Q w1
    using steady_wp(1) [OF assms(1), of q w1] that by (rule wp_mono)
  have reads: "wp (ag_ReadFile g p) Q w1" if "\<And>r w2. time w1 \<le> time w2 \<Longrightarrow> Q r w2" for p Q w1
    using steady_wp(2) [OF assms(1), of p w1] that by (rule wp_mono)
  have "wp (ag_poll g i) (\<lambda>r w'. time w \<le> time w') w"
    unfolding ag_poll_def ag_do_def readApprovalToken_def wp_simps
    by (rule reads) (auto simp: wp_simps intro!: client split: sum.split)
  with assms(2) show ?thesis by (simp add: wp_def)
qed

text \<open>With enough polls for the time that is left, more change nothing.\<close>

lemma await_loop_enough:
  assumes "steady g time" "0 < ag_pollInterval g" "deadline \<le> time w + int n * ag_pollInterval g"
  shows "await_loop (Suc n + k) g i deadline w = await_loop (Suc n) g i deadline w"
  using assms(3)
proof (induction n arbitrary: w)
  case 0
  show ?case
  proof (cases "ag_poll g i w")
    case (Pair r w1)
    obtain t w2 where now: "ag_now g w1 = (t, w2)" by (rule prod.exhaust)
    have "time w \<le> time w1" using ag_poll_later [OF assms(1) Pair] .
    moreover have "time w1 \<le> t" using assms(1) now unfolding steady_def by blast
    ultimately have "\<not> t < deadline" using 0 by simp
    with Pair now show ?thesis by (cases r) (auto simp: bindE_def with_now_def split: option.split)
  qed
next
  case (Suc n)
  show ?case
  proof (cases "ag_poll g i w")
    case (Pair r w1)
    obtain t w2 where now: "ag_now g w1 = (t, w2)" by (rule prod.exhaust)
    obtain z w3 where sleep: "ag_sleep g (ag_pollInterval g) w2 = (z, w3)" by (rule prod.exhaust)
    have "time w \<le> time w1" using ag_poll_later [OF assms(1) Pair] .
    moreover have "time w1 \<le> t" "t \<le> time w2" using assms(1) now unfolding steady_def by blast+
    moreover have "z = Inr () \<Longrightarrow> time w2 + ag_pollInterval g \<le> time w3" using assms(1) sleep unfolding steady_def by blast
    ultimately have "z = Inr () \<Longrightarrow> deadline \<le> time w3 + int n * ag_pollInterval g"
      using Suc.prems by (simp add: algebra_simps)
    then have "z = Inr () \<Longrightarrow> await_loop (Suc n + k) g i deadline w3 = await_loop (Suc n) g i deadline w3" by (rule Suc.IH)
    with Pair now sleep show ?thesis
      by (cases r; cases z) (auto simp: bindE_def thenE_def with_now_def simp del: await_loop.simps(2)
          simp: await_loop.simps(2) [of "Suc (n + k)"] await_loop.simps(2) [of "Suc n"] split: option.split)
  qed
qed

definition settled_or_timeout :: "goerr + approvalOutcome \<Rightarrow> bool" where
  "settled_or_timeout r =
     (case r of Inl _ \<Rightarrow> True | Inr out \<Rightarrow> ao_Decision out \<in> {approvalApproved, approvalRejected, approvalExpired, approvalTimeout})"

lemma settlement_simps [simp]:
  "settled_or_timeout (Inl e)" "settledDecision st = Some d \<Longrightarrow> settled_or_timeout (Inr \<lparr>ao_Decision = d, ao_RequestID = i\<rparr>)"
  "settled_or_timeout (Inr \<lparr>ao_Decision = approvalTimeout, ao_RequestID = i\<rparr>)"
  by (auto simp: settled_or_timeout_def settledDecision_def split: if_splits)

lemma wp_with_now_any: "(\<And>t w'. wp (f t) Q w') \<Longrightarrow> wp (with_now now f) Q w"
  by (simp add: wp_def with_now_def split_beta)

lemma await_loop_settles: "wp (await_loop n g i deadline) (\<lambda>r w'. settled_or_timeout r) w"
proof (induction n arbitrary: w)
  case 0
  then show ?case by (simp add: wp_simps)
next
  case (Suc n)
  show ?case
    unfolding await_loop.simps ag_poll_def wp_simps
    by (rule wp_any) (auto simp: wp_simps intro!: wp_with_now_any wp_any [where m = "ag_sleep g _"] Suc split: sum.split option.split)
qed

text \<open>C21: the wait for a decision ends. If time does not run backwards and a sleep takes as long as asked, the number of
  polls the model grants is enough: a larger number gives the same result and effects, so the unbounded loop of
  the code returns it too; and what a wait returns is the gateway's error, one of its three decisions, or the
  client's own timeout.\<close>

theorem await_ends:
  assumes "steady g time" "0 < ag_pollInterval g" "0 \<le> ag_timeout g"
  shows "await_with (await_polls g + k) g requestID approvalContext w = await g requestID approvalContext w \<and>
    settled_or_timeout (fst (await g requestID approvalContext w))"
proof
  have "ag_timeout g \<le> int (nat (ag_timeout g div ag_pollInterval g) + 1) * ag_pollInterval g"
  proof -
    have "ag_timeout g = ag_timeout g div ag_pollInterval g * ag_pollInterval g + ag_timeout g mod ag_pollInterval g" by simp
    moreover have "ag_timeout g mod ag_pollInterval g < ag_pollInterval g" using assms(2) by (rule pos_mod_bound)
    moreover have "0 \<le> ag_timeout g div ag_pollInterval g" using assms(2,3) by (simp add: pos_imp_zdiv_nonneg_iff)
    moreover from this have "int (nat (ag_timeout g div ag_pollInterval g) + 1) * ag_pollInterval g =
        ag_timeout g div ag_pollInterval g * ag_pollInterval g + ag_pollInterval g" by (simp add: distrib_right)
    ultimately show ?thesis by linarith
  qed
  moreover have "t \<le> time w2" if "ag_now g w1 = (t, w2)" for t w1 w2
    using assms(1) that unfolding steady_def by blast
  ultimately have loop: "await_loop (await_polls g + k) g i (t + ag_timeout g) w2 = await_loop (await_polls g) g i (t + ag_timeout g) w2"
    if "ag_now g w1 = (t, w2)" for t w1 w2 i
    using await_loop_enough [OF assms(1,2), of "t + ag_timeout g" w2 "nat (ag_timeout g div ag_pollInterval g) + 1" k i] that
    by (fastforce simp: await_polls_def)
  show "await_with (await_polls g + k) g requestID approvalContext w = await g requestID approvalContext w"
    unfolding await_def await_with_def bindE_def with_now_def
    by (auto simp: loop split: prod.split sum.split option.split)
  have "wp (await g requestID approvalContext) (\<lambda>r w'. settled_or_timeout r) w"
    unfolding await_def await_with_def wp_simps
    by (rule wp_any) (auto simp: wp_simps intro!: wp_with_now_any await_loop_settles split: sum.split option.split)
  then show "settled_or_timeout (fst (await g requestID approvalContext w))"
    by (simp add: wp_def split: prod.splits)
qed

text \<open>A gateway that never decides, over a world that is only a clock.\<close>

definition pending_answer :: web_response where
  "pending_answer = \<lparr>wr_Status = 200, wr_ReadErr = None, wr_Json = Some (VObj [(''id'', VStr ''a1''), (''status'', VStr ''PENDING'')])\<rparr>"

definition sample_gateway :: "int approvalGateway" where
  "sample_gateway =
     \<lparr>ag_baseURL = ''http://gw'', ag_tokenFile = ''/t'', ag_sessionID = ''s1'', ag_pollInterval = 3, ag_timeout = 6,
      ag_client = (\<lambda>q w. (Inr pending_answer, w)), ag_now = (\<lambda>w. (w, w)), ag_sleep = (\<lambda>d w. (Inr (), w + d)),
      ag_ReadFile = (\<lambda>p w. (Inr ''token'', w))\<rparr>"

lemma sample_steady: "steady sample_gateway (\<lambda>w. w)"
  by (simp add: steady_def sample_gateway_def)

lemma sample_times_out: "await sample_gateway ''req-1'' ''x'' 0 = (Inr \<lparr>ao_Decision = approvalTimeout, ao_RequestID = ''a1''\<rparr>, 6)"
  by code_simp

theorem await_ends_witness:
  "steady sample_gateway (\<lambda>w. w) \<and> 0 < ag_pollInterval sample_gateway \<and> 0 \<le> ag_timeout sample_gateway \<and>
   await_with (await_polls sample_gateway + 7) sample_gateway ''req-1'' ''x'' 0 =
     (Inr \<lparr>ao_Decision = approvalTimeout, ao_RequestID = ''a1''\<rparr>, 6)"
  using await_ends [OF sample_steady, of 7 "''req-1''" "''x''" 0] sample_steady sample_times_out
  by (simp add: sample_gateway_def)

end
