(* ===== verification/Notice_Laws.thy ===== *)
theory Notice_Laws
  imports Approval_Gate
begin

text \<open>
  The feed of notices, the loop that follows it and the waits it keeps, as one system: the helper publishes, the
  workload pod polls, answers get lost, the workload's agent restarts. What the control plane reads as \<open>awaiting\<close> is
  the set of waits after the notices that were heard.
\<close>

section \<open>The feed is the end of the history\<close>

definition numbered :: "approvalNotice list \<Rightarrow> approvalNotice list" where
  "numbered h = map (\<lambda>i. (h ! i)\<lparr>an_Seq := int i + 1\<rparr>) [0..<length h]"

lemma numbered_snoc: "numbered (h @ [n]) = numbered h @ [n\<lparr>an_Seq := int (length h) + 1\<rparr>]"
  by (auto simp: numbered_def nth_append)

lemma length_numbered [simp]: "length (numbered h) = length h"
  by (simp add: numbered_def)

lemma nth_numbered: "i < length h \<Longrightarrow> numbered h ! i = (h ! i)\<lparr>an_Seq := int i + 1\<rparr>"
  by (simp add: numbered_def)

lemma dropped_seq:
  assumes "m \<in> set (drop k (numbered h))"
  shows "int k < an_Seq m"
proof -
  obtain i where "i < length (drop k (numbered h))" "m = drop k (numbered h) ! i"
    using assms unfolding in_set_conv_nth by blast
  then show ?thesis by (simp add: nth_numbered)
qed

definition feed_of :: "approvalNotice list \<Rightarrow> noticeFeed \<Rightarrow> bool" where
  "feed_of h f = (nf_seq f = int (length h) \<and> nf_kept f = drop (length h - noticeFeedCapacity) (numbered h))"

lemma feed_of_new: "feed_of [] newNoticeFeed"
  by (simp add: feed_of_def newNoticeFeed_def numbered_def)

lemma feed_of_publish:
  assumes "feed_of h f"
  shows "feed_of (h @ [n]) (publish f n)"
proof -
  let ?k = "length h - noticeFeedCapacity"
  have kept: "nf_kept f @ [n\<lparr>an_Seq := int (length h) + 1\<rparr>] = drop ?k (numbered (h @ [n]))"
    using assms by (simp add: feed_of_def numbered_snoc)
  show ?thesis
  proof (cases "noticeFeedCapacity \<le> length h")
    case True
    then have "length (nf_kept f) = noticeFeedCapacity" using assms by (simp add: feed_of_def)
    with True assms kept show ?thesis
      by (simp add: feed_of_def publish_def Let_def Suc_diff_le drop_Suc [symmetric] flip: drop_drop) (simp add: numbered_snoc Suc_diff_le)
  next
    case False
    with assms kept show ?thesis by (simp add: feed_of_def publish_def Let_def)
  qed
qed

lemma since_current:
  assumes "feed_of h f" "0 \<le> after" "after \<le> int (length h)" "int (length h - noticeFeedCapacity) \<le> after"
  shows "fst (since f after) = \<lparr>fr_Notices = drop (nat after) (numbered h), fr_NextSeq = int (length h), fr_Dropped = 0\<rparr>"
proof -
  let ?b = "length h - noticeFeedCapacity"
  have kept: "nf_kept f = drop ?b (numbered h)" and seq: "nf_seq f = int (length h)"
    using assms(1) by (simp_all add: feed_of_def)
  have split: "drop ?b (numbered h) = take (nat after - ?b) (drop ?b (numbered h)) @ drop (nat after) (numbered h)"
    using assms(4) by (metis append_take_drop_id drop_drop le_nat_iff add.commute le_add_diff_inverse2 assms(2) nat_le_iff of_nat_le_iff zero_le_imp_eq_int)
  have old: "\<not> after < an_Seq m" if "m \<in> set (take (nat after - ?b) (drop ?b (numbered h)))" for m
  proof -
    from that obtain i where "i < nat after - ?b" "i < length h - ?b" "m = drop ?b (numbered h) ! i"
      by (auto simp: in_set_conv_nth)
    then have "m = numbered h ! (?b + i)" "?b + i < length h" "?b + i < nat after" by auto
    then show ?thesis using assms(2) by (simp add: nth_numbered)
  qed
  have new: "after < an_Seq m" if "m \<in> set (drop (nat after) (numbered h))" for m
    using dropped_seq [OF that] assms(2) by simp
  have filter: "filter (\<lambda>m. an_Seq m > after) (nf_kept f) = drop (nat after) (numbered h)"
    unfolding kept by (subst split) (use old new in \<open>auto simp: filter_empty_conv\<close>)
  show ?thesis
  proof (cases "nf_kept f")
    case Nil
    with kept have "length h \<le> ?b" by simp
    then have "h = []" by (cases h) (auto simp: noticeFeedCapacity_def)
    with Nil seq show ?thesis by (simp add: since_def numbered_def)
  next
    case (Cons m ms)
    then have "?b < length h" using kept by (metis drop_all length_numbered linorder_not_le list.distinct(1))
    moreover have "m = drop ?b (numbered h) ! 0" using Cons kept by simp
    ultimately have "an_Seq m = int ?b + 1" by (simp add: nth_numbered)
    with Cons filter seq assms(4) show ?thesis by (simp add: since_def Let_def)
  qed
qed

lemma since_behind:
  assumes "feed_of h f" "0 \<le> after" "after < int (length h - noticeFeedCapacity)"
  shows "\<exists>d > 0. fst (since f after) =
    \<lparr>fr_Notices = drop (length h - noticeFeedCapacity) (numbered h), fr_NextSeq = int (length h), fr_Dropped = d\<rparr>"
proof -
  let ?b = "length h - noticeFeedCapacity"
  have kept: "nf_kept f = drop ?b (numbered h)" and seq: "nf_seq f = int (length h)"
    using assms(1) by (simp_all add: feed_of_def)
  have b: "?b < length h" using assms(2,3) by (simp add: noticeFeedCapacity_def)
  have new: "after < an_Seq m" if "m \<in> set (drop ?b (numbered h))" for m
    using dropped_seq [OF that] assms(3) by simp
  have "nf_kept f \<noteq> []" using kept b by simp
  then obtain m ms where Cons: "nf_kept f = m # ms" by (meson list.exhaust)
  then have "m = drop ?b (numbered h) ! 0" using kept by simp
  with b have m: "an_Seq m = int ?b + 1" by (simp add: nth_numbered)
  have "filter (\<lambda>m. an_Seq m > after) (nf_kept f) = drop ?b (numbered h)"
    using new kept by simp
  with Cons m seq assms(3) show ?thesis by (auto simp: since_def Let_def)
qed

section \<open>The answer over the wire\<close>

definition valid_notice :: "approvalNotice \<Rightarrow> bool" where
  "valid_notice n = (utf8_valid (an_Kind n) \<and> utf8_valid (an_Tool n) \<and> utf8_valid (an_ExternalID n) \<and> utf8_valid (an_Decision n) \<and> utf8_valid (an_Repo n))"

lemma decode_encode_notice:
  assumes "valid_notice n"
  shows "decode_notice (encode_notice n) = (if is_int64 (VInt (an_Seq n)) then Some n else None)"
  using assms
  by (auto simp: decode_notice_def encode_notice_def Unmarshal_def notice_type_def opt_member_def field_of_def set_field_def is_str_def
      str_field_def str_of_def int_of_value_def valid_notice_def utf8_coerce_id)

lemma decode_encode_response:
  assumes "list_all valid_notice (fr_Notices b)" "decode_response (writeNoticeFeedResponse b) = Some b'"
  shows "b' = b"
proof -
  let ?v = "VArr (map encode_notice (fr_Notices b))"
  have "is_notices ?v"
    using assms(2)
    by (auto simp: decode_response_def writeNoticeFeedResponse_def Unmarshal_def feed_response_type_def field_of_def set_field_def split: if_splits)
  then have "notices_of (Some ?v) = fr_Notices b"
    using assms(1) by (auto simp: is_notices_def notices_of_def list_all_iff decode_encode_notice intro!: map_idI split: if_splits)
  then show ?thesis
    using assms(2)
    by (auto simp: decode_response_def writeNoticeFeedResponse_def Unmarshal_def feed_response_type_def field_of_def set_field_def
        int_of_value_def is_int64_def split: if_splits)
qed

section \<open>Following the feed\<close>

text \<open>A wait that was announced and not ended since.\<close>

definition ends_wait :: "string \<Rightarrow> approvalNotice \<Rightarrow> bool" where
  "ends_wait x n = (an_ExternalID n = x \<and> (an_Kind n = noticeDecided \<or> an_Kind n = noticeUnavailable))"

definition outstanding :: "string \<Rightarrow> approvalNotice list \<Rightarrow> bool" where
  "outstanding x h =
     (x \<noteq> [] \<and> (\<exists>pre n post. h = pre @ n # post \<and> an_ExternalID n = x \<and> an_Kind n = noticeAwaiting \<and> \<not> list_ex (ends_wait x) post))"

lemma outstanding_snoc:
  "outstanding x (h @ [n]) \<longleftrightarrow> x \<noteq> [] \<and> (an_ExternalID n = x \<and> an_Kind n = noticeAwaiting \<or> \<not> ends_wait x n \<and> outstanding x h)"
proof -
  have "(\<exists>pre m post. h @ [n] = pre @ m # post \<and> P m post) \<longleftrightarrow> P n [] \<or> (\<exists>pre m post. h = pre @ m # post \<and> P m (post @ [n]))" for P
  proof (intro iffI; (elim exE conjE disjE)?)
    fix pre m post assume "h @ [n] = pre @ m # post" "P m post"
    then show "P n [] \<or> (\<exists>pre m post. h = pre @ m # post \<and> P m (post @ [n]))"
      by (cases post rule: rev_cases) auto
  qed auto
  then show ?thesis unfolding outstanding_def by (auto simp: list_ex_append)
qed

lemma observed_outstanding: "set (fold observe_one h []) = {x. outstanding x h}"
proof (induction h rule: rev_induct)
  case Nil
  then show ?case by (simp add: outstanding_def)
next
  case (snoc n h)
  have "noticeAwaiting \<noteq> noticeDecided" "noticeAwaiting \<noteq> noticeUnavailable"
    by (simp_all add: noticeAwaiting_def noticeDecided_def noticeUnavailable_def)
  with snoc show ?case
    by (auto simp: outstanding_snoc observe_one_def ends_wait_def set_eq_iff outstanding_def [of "[]"] split: if_splits)
qed

lemma observe_mono: "set w \<subseteq> set w' \<Longrightarrow> set (fold observe_one h w) \<subseteq> set (fold observe_one h w')"
proof (induction h arbitrary: w w')
  case (Cons n h)
  have "set (observe_one n w) \<subseteq> set (observe_one n w')" using Cons.prems by (auto simp: observe_one_def)
  then show ?case using Cons.IH by simp
qed simp

lemma observe_one_seq: "observe_one (n\<lparr>an_Seq := i\<rparr>) = observe_one n"
  by (simp add: observe_one_def fun_eq_iff)

lemma fold_numbered: "fold observe_one (drop k (numbered h)) w = fold observe_one (drop k h) w"
proof -
  have "map observe_one (numbered h) = map observe_one h"
    by (rule nth_equalityI) (simp_all add: nth_numbered observe_one_seq)
  then have "map observe_one (drop k (numbered h)) = map observe_one (drop k h)" by (simp flip: drop_map)
  then show ?thesis by (metis fold_map id_comp)
qed

record tail_system =
  ts_hist :: "approvalNotice list"
  ts_feed :: noticeFeed
  ts_tail :: noticeTailer

definition fresh_tailer :: "claudeWorkload \<Rightarrow> noticeTailer" where
  "fresh_tailer c = \<lparr>nt_after = 0, nt_waits = [], nt_workload = c\<rparr>"

text \<open>One step: a notice is published, an answer of the feed reaches the tailer, an answer is lost on the way, or the
  workload's agent starts anew.\<close>

inductive tail_step :: "tail_system \<Rightarrow> tail_system \<Rightarrow> bool" where
  Publish: "valid_notice n \<Longrightarrow> tail_step s (s\<lparr>ts_hist := ts_hist s @ [n], ts_feed := publish (ts_feed s) n\<rparr>)"
| Heard: "since (ts_feed s) (nt_after (ts_tail s)) = (answer, f) \<Longrightarrow> decode_response (writeNoticeFeedResponse answer) = Some body \<Longrightarrow>
    tail_step s (s\<lparr>ts_feed := f, ts_tail := tail_apply body (ts_tail s)\<rparr>)"
| Lost: "since (ts_feed s) (nt_after (ts_tail s)) = (answer, f) \<Longrightarrow> tail_step s (s\<lparr>ts_feed := f\<rparr>)"
| Restarted: "tail_step s (s\<lparr>ts_tail := fresh_tailer c\<rparr>)"

definition tail_start :: "claudeWorkload \<Rightarrow> tail_system" where
  "tail_start c = \<lparr>ts_hist = [], ts_feed = newNoticeFeed, ts_tail = fresh_tailer c\<rparr>"

definition tail_inv :: "tail_system \<Rightarrow> bool" where
  "tail_inv s =
     (feed_of (ts_hist s) (ts_feed s) \<and> list_all valid_notice (ts_hist s) \<and>
      0 \<le> nt_after (ts_tail s) \<and> nt_after (ts_tail s) \<le> int (length (ts_hist s)) \<and>
      (\<exists>k \<le> nat (nt_after (ts_tail s)). (k = 0 \<or> noticeFeedCapacity < length (ts_hist s)) \<and>
         nt_waits (ts_tail s) = fold observe_one (drop k (take (nat (nt_after (ts_tail s))) (ts_hist s))) []))"

lemma since_feed: "since f a = (answer, f') \<Longrightarrow> feed_of h f \<Longrightarrow> feed_of h f'"
  by (auto simp: since_def feed_of_def Let_def split: list.splits)

lemma valid_numbered: "list_all valid_notice h \<Longrightarrow> list_all valid_notice (drop k (numbered h))"
  by (auto simp: list_all_length nth_numbered valid_notice_def)

lemma tail_inv_step: "tail_step s s' \<Longrightarrow> tail_inv s \<Longrightarrow> tail_inv s'"
proof (induction rule: tail_step.induct)
  case (Publish n s)
  then show ?case
    by (auto simp: tail_inv_def feed_of_publish)
next
  case (Heard s answer f body)
  let ?h = "ts_hist s" and ?a = "nt_after (ts_tail s)" and ?b = "length (ts_hist s) - noticeFeedCapacity"
  from Heard.prems have feed: "feed_of ?h (ts_feed s)" and valid: "list_all valid_notice ?h" and a: "0 \<le> ?a" "?a \<le> int (length ?h)"
    by (simp_all add: tail_inv_def)
  from Heard.prems obtain k where k: "k \<le> nat ?a" "k = 0 \<or> noticeFeedCapacity < length ?h"
    "nt_waits (ts_tail s) = fold observe_one (drop k (take (nat ?a) ?h)) []" by (auto simp: tail_inv_def)
  have "list_all valid_notice (fr_Notices answer) \<and> fr_NextSeq answer = int (length ?h) \<and>
      (\<exists>k. (k = 0 \<or> noticeFeedCapacity < length ?h) \<and> k \<le> length ?h \<and>
         observe (nt_waits (ts_tail s)) (fr_Notices answer) (fr_Dropped answer) = fold observe_one (drop k ?h) [])"
  proof (cases "int ?b \<le> ?a")
    case True
    have answer: "answer = \<lparr>fr_Notices = drop (nat ?a) (numbered ?h), fr_NextSeq = int (length ?h), fr_Dropped = 0\<rparr>"
      using since_current [OF feed a True] Heard.hyps(1) by simp
    have "drop k (take (nat ?a) ?h) @ drop (nat ?a) ?h = drop k ?h"
      using k(1) a(2) by (metis append_take_drop_id drop_append length_take min.absorb2 nat_le_iff diff_is_0_eq drop0)
    then have "fold observe_one (drop (nat ?a) ?h) (nt_waits (ts_tail s)) = fold observe_one (drop k ?h) []"
      using k(3) by (metis comp_apply fold_append)
    with answer k a valid show ?thesis by (auto simp: observe_def fold_numbered valid_numbered intro!: exI [of _ k])
  next
    case False
    then obtain d where "answer = \<lparr>fr_Notices = drop ?b (numbered ?h), fr_NextSeq = int (length ?h), fr_Dropped = d\<rparr>" "d > 0"
      using since_behind [OF feed a(1)] Heard.hyps(1) by fastforce
    moreover have "noticeFeedCapacity < length ?h" using False a(1) by linarith
    ultimately show ?thesis using valid by (auto simp: observe_def fold_numbered valid_numbered intro!: exI [of _ ?b])
  qed
  moreover from this have "body = answer" using decode_encode_response Heard.hyps(2) by blast
  ultimately show ?case
    using since_feed [OF Heard.hyps(1) feed] valid a
    by (auto simp: tail_inv_def tail_apply_def Let_def)
next
  case (Lost s answer f)
  then show ?case using since_feed by (auto simp: tail_inv_def)
next
  case (Restarted s c)
  then show ?case by (auto simp: tail_inv_def fresh_tailer_def)
qed

lemma tail_inv_reachable: "tail_step\<^sup>*\<^sup>* (tail_start c) s \<Longrightarrow> tail_inv s"
proof (induction rule: rtranclp_induct)
  case base
  then show ?case by (simp add: tail_inv_def tail_start_def fresh_tailer_def feed_of_new)
next
  case (step s s')
  then show ?case using tail_inv_step by blast
qed

lemma observe_distinct: "distinct ws \<Longrightarrow> distinct (fold observe_one ns ws)"
  by (induction ns arbitrary: ws) (auto simp: observe_one_def distinct_removeAll)

text \<open>C19: what the control plane is told about waiting follows the feed. Whatever is published, lost and restarted, the
  waits of the workload pod are outstanding in the part of the history it has heard, so a wait whose end was heard
  never holds a session; and as long as the ring has not overflowed they are exactly the outstanding ones. The control plane is
  answered that the session is awaiting an approval exactly when there is such a wait, with their exact number.\<close>

theorem waits_follow_feed:
  assumes "tail_step\<^sup>*\<^sup>* (tail_start c) s"
  shows "set (nt_waits (ts_tail s)) \<subseteq> {x. outstanding x (take (nat (nt_after (ts_tail s))) (ts_hist s))} \<and>
    (length (ts_hist s) \<le> noticeFeedCapacity \<longrightarrow>
       set (nt_waits (ts_tail s)) = {x. outstanding x (take (nat (nt_after (ts_tail s))) (ts_hist s))}) \<and>
    waits_state (nt_waits (ts_tail s)) = (set (nt_waits (ts_tail s)) \<noteq> {}, card (set (nt_waits (ts_tail s)))) \<and>
    serveApprovalWait (nt_waits (ts_tail s)) =
      VObj [(''awaiting'', VBool (set (nt_waits (ts_tail s)) \<noteq> {})), (''pending'', VInt (int (card (set (nt_waits (ts_tail s))))))]"
proof -
  let ?seen = "take (nat (nt_after (ts_tail s))) (ts_hist s)"
  obtain k where k: "k = 0 \<or> noticeFeedCapacity < length (ts_hist s)" "nt_waits (ts_tail s) = fold observe_one (drop k ?seen) []"
    using tail_inv_reachable [OF assms] by (auto simp: tail_inv_def)
  have "fold observe_one ?seen [] = fold observe_one (drop k ?seen) (fold observe_one (take k ?seen) [])"
    by (metis append_take_drop_id comp_apply fold_append)
  then have "set (nt_waits (ts_tail s)) \<subseteq> set (fold observe_one ?seen [])"
    using k(2) observe_mono [of "[]" "fold observe_one (take k ?seen) []" "drop k ?seen"] by simp
  moreover have "nt_waits (ts_tail s) = fold observe_one ?seen []" if "length (ts_hist s) \<le> noticeFeedCapacity"
    using k that by auto
  moreover have "distinct (nt_waits (ts_tail s))" using k(2) observe_distinct [of "[]"] by simp
  then have "waits_state (nt_waits (ts_tail s)) = (set (nt_waits (ts_tail s)) \<noteq> {}, card (set (nt_waits (ts_tail s))))"
    by (simp add: waits_state_def distinct_card)
  ultimately show ?thesis by (simp add: observed_outstanding serveApprovalWait_def)
qed

text \<open>One wait, published and heard.\<close>

definition sample_notice :: approvalNotice where
  "sample_notice = notice noticeAwaiting ''web_fetch_get'' ''s1:req-1'' []"

definition sample_answer :: noticeFeedResponse where
  "sample_answer = \<lparr>fr_Notices = [sample_notice\<lparr>an_Seq := 1\<rparr>], fr_NextSeq = 1, fr_Dropped = 0\<rparr>"

definition sample_workload :: claudeWorkload where
  "sample_workload = fresh_workload [] 0 1000"

definition sample_heard :: tail_system where
  "sample_heard =
     \<lparr>ts_hist = [sample_notice], ts_feed = (publish newNoticeFeed sample_notice)\<lparr>nf_changed := True\<rparr>,
      ts_tail = tail_apply sample_answer (fresh_tailer sample_workload)\<rparr>"

lemma sample_heard_reached: "tail_step\<^sup>*\<^sup>* (tail_start sample_workload) sample_heard"
proof -
  let ?s = "(tail_start sample_workload)\<lparr>ts_hist := [sample_notice], ts_feed := publish newNoticeFeed sample_notice\<rparr>"
  have "utf8_valid ''awaiting''" "utf8_valid ''web_fetch_get''" "utf8_valid ''s1:req-1''" by code_simp+
  then have valid: "valid_notice sample_notice"
    by (simp add: valid_notice_def sample_notice_def notice_def noticeAwaiting_def)
  have one: "tail_step (tail_start sample_workload) ?s"
    using tail_step.Publish [OF valid, of "tail_start sample_workload"] by (simp add: tail_start_def)
  have "since (ts_feed ?s) (nt_after (ts_tail ?s)) = (sample_answer, (ts_feed ?s)\<lparr>nf_changed := True\<rparr>)"
    by (simp add: since_def publish_def newNoticeFeed_def tail_start_def fresh_tailer_def sample_answer_def noticeFeedCapacity_def Let_def)
  moreover have "decode_response (writeNoticeFeedResponse sample_answer) = Some sample_answer" by code_simp
  ultimately have "tail_step ?s sample_heard"
    using tail_step.Heard [of ?s] by (fastforce simp: sample_heard_def tail_start_def)
  with one show ?thesis by (meson r_into_rtranclp rtranclp.rtrancl_into_rtrancl)
qed

lemma sample_waits: "nt_waits (ts_tail sample_heard) = [''s1:req-1'']"
  by (simp add: sample_heard_def tail_apply_def Let_def observe_def sample_answer_def observe_one_def sample_notice_def notice_def
      fresh_tailer_def List.insert_def)

theorem waits_follow_feed_witness:
  "tail_step\<^sup>*\<^sup>* (tail_start sample_workload) sample_heard \<and> length (ts_hist sample_heard) \<le> noticeFeedCapacity \<and>
   {x. outstanding x (take (nat (nt_after (ts_tail sample_heard))) (ts_hist sample_heard))} = {''s1:req-1''} \<and>
   waits_state (nt_waits (ts_tail sample_heard)) = (True, 1)"
proof -
  have "length (ts_hist sample_heard) \<le> noticeFeedCapacity" by (simp add: sample_heard_def noticeFeedCapacity_def)
  with waits_follow_feed [OF sample_heard_reached] sample_waits sample_heard_reached show ?thesis by simp
qed

section \<open>A restarted helper is not heard\<close>

lemma published_feed: "feed_of ns (fold (\<lambda>n f. publish f n) ns newNoticeFeed)"
proof (induction ns rule: rev_induct)
  case (snoc n ns)
  then show ?case by (simp add: feed_of_publish)
qed (simp add: feed_of_new)

text \<open>C38: when the helper's container restarts in place, its feed starts at one again while the tailer keeps its cursor. Until
  the new feed has passed that cursor nothing of it is heard: the waits stay as they were, so a wait the restart
  cut off keeps holding the session, and new waits do not.\<close>

theorem restarted_feed_unheard:
  assumes "int (length ns) \<le> nt_after t" "since (fold (\<lambda>n f. publish f n) ns newNoticeFeed) (nt_after t) = (answer, f)"
  shows "nt_waits (tail_apply answer t) = nt_waits t \<and> nt_after (tail_apply answer t) = nt_after t"
proof -
  let ?f = "fold (\<lambda>n f. publish f n) ns newNoticeFeed"
  note feed = published_feed [of ns]
  have old: "\<not> nt_after t < an_Seq m" if "m \<in> set (nf_kept ?f)" for m
  proof -
    from that feed have "m \<in> set (numbered ns)" by (auto simp: feed_of_def dest: in_set_dropD)
    with assms(1) show ?thesis by (auto simp: numbered_def)
  qed
  have "fr_Notices answer = []" "fr_NextSeq answer = int (length ns)" "fr_Dropped answer = 0"
    using assms(2) old feed by (auto simp: since_def feed_of_def Let_def filter_empty_conv split: list.splits if_splits) fastforce+
  with assms(1) show ?thesis by (simp add: tail_apply_def observe_def Let_def)
qed

text \<open>The wait above, after the helper's restart and one new wait.\<close>

theorem restarted_feed_unheard_witness:
  "let feed = publish newNoticeFeed (notice noticeAwaiting ''git_clone'' ''s1:req-2'' []) in
   int (length [notice noticeAwaiting ''git_clone'' ''s1:req-2'' []]) \<le> nt_after (ts_tail sample_heard) \<and>
   nt_waits (tail_apply (fst (since feed (nt_after (ts_tail sample_heard)))) (ts_tail sample_heard)) = [''s1:req-1'']"
proof -
  let ?n = "notice noticeAwaiting ''git_clone'' ''s1:req-2'' []"
  have "nt_after (ts_tail sample_heard) = 1"
    by (simp add: sample_heard_def tail_apply_def Let_def sample_answer_def fresh_tailer_def)
  moreover from this
  have "nt_waits (tail_apply (fst (since (publish newNoticeFeed ?n) (nt_after (ts_tail sample_heard)))) (ts_tail sample_heard)) = nt_waits (ts_tail sample_heard)"
    using restarted_feed_unheard [of "[?n]" "ts_tail sample_heard"]
    by (cases "since (publish newNoticeFeed ?n) (nt_after (ts_tail sample_heard))") auto
  ultimately show ?thesis using sample_waits by simp
qed

end
