(* ===== verification/Drop_Laws.thy ===== *)
theory Drop_Laws
  imports Drop Archive_Paths
begin

text \<open>
  What the file-share tools promise: an upload that reports success left exactly the file at the service, and it ends; a
  download puts a complete file under a name of its own directory, or changes nothing but its temporary file.
\<close>

section \<open>Uploading\<close>

text \<open>The service's answer counts \<open>r\<close> bytes received.\<close>

definition counts :: "drop_response \<Rightarrow> int \<Rightarrow> bool" where
  "counts resp r = (\<exists>m. drop_result 200 (Some received_type) resp = DropOk m \<and> m ''received'' = Some (VInt r))"

definition put_request :: "string \<Rightarrow> string \<Rightarrow> int \<Rightarrow> string \<Rightarrow> drop_request" where
  "put_request key target offset bs = drop_request_of ''PUT'' (target @ ''?offset='' @ decimal offset) (DropBearer key) (DropBytes bs)"

definition status_request :: "string \<Rightarrow> string \<Rightarrow> drop_request" where
  "status_request key target = drop_request_of ''GET'' target (DropBearer key) DropNoBody"

text \<open>The chunk protocol of the service, as its documentation states it: \<open>srv\<close> is what it holds of the file. A chunk is
  appended at the end or not at all, also when its answer is lost; an accepted chunk was appended, and the count that
  comes back is the length; asking changes nothing.\<close>

definition chunk_service :: "'w dropClient \<Rightarrow> string \<Rightarrow> string \<Rightarrow> ('w \<Rightarrow> string) \<Rightarrow> bool" where
  "chunk_service c key target srv =
     ((\<forall>offset bs w r w'. dc_client c (put_request key target offset bs) w = (r, w') \<longrightarrow>
         (srv w' = srv w \<or> offset = int (length (srv w)) \<and> srv w' = srv w @ bs) \<and>
         (\<forall>resp n. r = Inr resp \<and> counts resp n \<longrightarrow> offset = int (length (srv w)) \<and> srv w' = srv w @ bs \<and> n = int (length (srv w')))) \<and>
      (\<forall>w r w'. dc_client c (status_request key target) w = (r, w') \<longrightarrow>
         srv w' = srv w \<and> (\<forall>resp n. r = Inr resp \<and> counts resp n \<longrightarrow> n = int (length (srv w)))))"

lemma chunkStatus_counts:
  assumes "chunkStatus c key target w = (r, w')" "chunk_service c key target srv"
  shows "srv w' = srv w \<and> (\<forall>n. r = Inr n \<longrightarrow> n = int (length (srv w)))"
proof -
  obtain a w1 where call: "dc_client c (status_request key target) w = (a, w1)" by (rule prod.exhaust)
  with assms(2) have srv: "srv w1 = srv w" "\<And>resp n. a = Inr resp \<Longrightarrow> counts resp n \<Longrightarrow> n = int (length (srv w))"
    unfolding chunk_service_def by blast+
  show ?thesis
    using assms(1) call srv
    by (auto simp: chunkStatus_def keyed_def drop_do_def bindE_def tryE_def throw_def ret_def status_request_def counts_def
        split: sum.splits drop_answer.splits option.splits jvalue.splits)
qed

text \<open>One chunk: the count is the new length, and a chunk that met no conflict was appended.\<close>

lemma putChunk_counts:
  assumes run: "putChunk c key target bs offset n w = (r, w')" and service: "chunk_service c key target srv"
  shows "srv w' = srv w \<or> offset = int (length (srv w)) \<and> srv w' = srv w @ section_of bs offset n"
    and "r = Inr (received, conflict) \<Longrightarrow> received = int (length (srv w'))"
    and "r = Inr (received, False) \<Longrightarrow> offset = int (length (srv w)) \<and> srv w' = srv w @ section_of bs offset n"
proof -
  let ?q = "put_request key target offset (section_of bs offset n)"
  obtain a w1 where call: "dc_client c ?q w = (a, w1)" by (rule prod.exhaust)
  with service have srv: "srv w1 = srv w \<or> offset = int (length (srv w)) \<and> srv w1 = srv w @ section_of bs offset n"
    "\<And>resp k. a = Inr resp \<Longrightarrow> counts resp k \<Longrightarrow> offset = int (length (srv w)) \<and> srv w1 = srv w @ section_of bs offset n \<and> k = int (length (srv w1))"
    unfolding chunk_service_def by blast+
  obtain z w2 where status: "chunkStatus c key target w1 = (z, w2)" by (rule prod.exhaust)
  note st = chunkStatus_counts [OF status service]
  have cnt: "counts resp x" if "drop_result 200 (Some received_type) resp = DropOk m" "m ''received'' = Some (VInt x)" for resp m x
    using that by (auto simp: counts_def)
  note unfolds = putChunk_def drop_do_def bindE_def tryE_def throw_def ret_def put_request_def
  have "r = Inr (x, b) \<Longrightarrow> (b \<and> z = Inr x \<and> w' = w2) \<or> (\<not> b \<and> w' = w1 \<and> (\<exists>resp. a = Inr resp \<and> counts resp x))" for x b
    using run call status
    by (auto simp: unfolds intro: cnt split: sum.splits drop_answer.splits option.splits jvalue.splits if_splits)
  moreover have "w' = w1 \<or> w' = w2"
    using run call status
    by (auto simp: unfolds split: sum.splits drop_answer.splits option.splits jvalue.splits if_splits)
  ultimately show "srv w' = srv w \<or> offset = int (length (srv w)) \<and> srv w' = srv w @ section_of bs offset n"
    "r = Inr (received, conflict) \<Longrightarrow> received = int (length (srv w'))"
    "r = Inr (received, False) \<Longrightarrow> offset = int (length (srv w)) \<and> srv w' = srv w @ section_of bs offset n"
    using srv st by fastforce+
qed

lemma prefix_section:
  assumes "prefix xs bs"
  shows "prefix (xs @ section_of bs (int (length xs)) n) bs"
proof -
  obtain ys where "bs = xs @ ys" using assms by (auto simp: prefix_def)
  then show ?thesis by (simp add: section_of_def take_is_prefix)
qed

text \<open>One turn that goes on: the service still holds a beginning of the file, the next offset is its length, and the turn
  either made progress or used up a resume.\<close>

lemma putChunk_turn:
  assumes "chunk_service c key target srv" "prefix (srv w) bs" "0 \<le> offset" "offset \<le> int (length (srv w))" "offset < int (length bs)" "0 < chunk"
    and "putChunk c key target bs offset (min chunk (int (length bs) - offset)) w = (Inr (received, conflict), w')"
  shows "prefix (srv w') bs \<and> received = int (length (srv w')) \<and> offset \<le> received \<and> (\<not> conflict \<longrightarrow> offset < received)"
proof -
  let ?n = "min chunk (int (length bs) - offset)"
  note put = putChunk_counts [OF assms(7,1)]
  have received: "received = int (length (srv w'))" using put(2) by blast
  have pre: "prefix (srv w') bs" "int (length (srv w)) \<le> int (length (srv w'))"
    using put(1) prefix_section [OF assms(2)] assms(2) by auto
  have "offset < received" if "\<not> conflict"
  proof -
    have "offset = int (length (srv w))" "srv w' = srv w @ section_of bs offset ?n" using put(3) that by auto
    moreover have "0 < length (section_of bs offset ?n)"
      using assms(3,5,6) by (simp add: section_of_def)
    ultimately show ?thesis using received by simp
  qed
  with pre received assms(4) show ?thesis by auto
qed

lemma send_loop_sends:
  assumes "chunk_service c key target srv" "0 < chunk"
    and "prefix (srv w) bs" "0 \<le> offset" "offset \<le> int (length (srv w))" "send_loop k c key target bs chunk offset resumes w = (Inr (), w')"
  shows "srv w' = bs"
  using assms(3-)
proof (induction k arbitrary: offset resumes w)
  case 0
  then show ?case by (simp add: throw_def)
next
  case (Suc k)
  show ?case
  proof (cases "offset < int (length bs)")
    case False
    have "length (srv w) \<le> length bs" using Suc.prems(1) by (rule prefix_length_le)
    with False Suc.prems(3) have "length (srv w) = length bs" by linarith
    with Suc.prems(1) have "srv w = bs" by (auto simp: prefix_def)
    moreover have "w' = w" using Suc.prems(4) False unfolding send_loop.simps ret_def by simp
    ultimately show ?thesis by simp
  next
    case True
    obtain r w1 where put: "putChunk c key target bs offset (min chunk (int (length bs) - offset)) w = (r, w1)" by (rule prod.exhaust)
    then obtain received conflict where r: "r = Inr (received, conflict)"
      and rest: "send_loop k c key target bs chunk received (if conflict then Suc resumes else resumes) w1 = (Inr (), w')"
      using Suc.prems(4) True by (cases r) (auto simp: bindE_def throw_def simp del: send_loop.simps simp: send_loop.simps(2) [of k] split: if_splits)
    from putChunk_turn [OF assms(1) Suc.prems(1-3) True assms(2) put [unfolded r]]
    show ?thesis using Suc.IH [OF _ _ _ rest] Suc.prems(2) by auto
  qed
qed

lemma send_loop_enough:
  assumes "chunk_service c key target srv" "0 < chunk"
    and "prefix (srv w) bs" "0 \<le> offset" "offset \<le> int (length (srv w))"
    and "length bs - nat offset + (dropMaxResumes + 1 - resumes) < f"
  shows "send_loop (f + k) c key target bs chunk offset resumes w = send_loop f c key target bs chunk offset resumes w"
  using assms(3-)
proof (induction f arbitrary: offset resumes w)
  case 0
  then show ?case by simp
next
  case (Suc f)
  show ?case
  proof (cases "offset < int (length bs)")
    case False
    then show ?thesis by simp
  next
    case True
    obtain r w1 where put: "putChunk c key target bs offset (min chunk (int (length bs) - offset)) w = (r, w1)" by (rule prod.exhaust)
    show ?thesis
    proof (cases r)
      case (Inl e)
      with True put show ?thesis by (simp add: bindE_def)
    next
      case (Inr p)
      obtain received conflict where p: "p = (received, conflict)" by (rule prod.exhaust)
      note turn = putChunk_turn [OF assms(1) Suc.prems(1-3) True assms(2) put [unfolded Inr p]]
      have "send_loop (f + k) c key target bs chunk received (if conflict then Suc resumes else resumes) w1 =
          send_loop f c key target bs chunk received (if conflict then Suc resumes else resumes) w1"
        if "\<not> (conflict \<and> Suc resumes > dropMaxResumes)" "\<not> received > int (length bs)"
        using turn that Suc.prems(2,4) by (intro Suc.IH) (auto split: if_splits)
      with True put Inr p show ?thesis by (simp add: bindE_def)
    qed
  qed
qed

text \<open>C23: an upload ends, and when it reports success the service holds exactly the file. The service keeps its chunk
  protocol and holds at first nothing but a beginning of the file; it may refuse, answer a conflict at any time, and
  answers may be lost. The turns the model grants are enough: a larger number gives the same result.\<close>

theorem upload_sends_file:
  assumes "chunk_service c key target srv" "0 < chunk" "prefix (srv w) bs"
  shows "send_loop (send_turns bs + k) c key target bs chunk 0 0 w = sendFile c key target bs chunk w \<and>
    (fst (sendFile c key target bs chunk w) = Inr () \<longrightarrow> srv (snd (sendFile c key target bs chunk w)) = bs)"
proof
  have "length bs + (dropMaxResumes + 1) < send_turns bs" by (simp add: send_turns_def dropMaxResumes_def)
  then show "send_loop (send_turns bs + k) c key target bs chunk 0 0 w = sendFile c key target bs chunk w"
    unfolding sendFile_def using assms by (intro send_loop_enough) auto
  show "fst (sendFile c key target bs chunk w) = Inr () \<longrightarrow> srv (snd (sendFile c key target bs chunk w)) = bs"
    using send_loop_sends [OF assms(1,2,3), of 0 "send_turns bs" 0] unfolding sendFile_def by (metis of_nat_0_le_iff order_refl prod.collapse)
qed

section \<open>Names\<close>










section \<open>Downloading\<close>






text \<open>Files outside the temporary one and the directory's own entry are as they were in \<open>s\<close>.\<close>

definition untouched :: "path \<Rightarrow> string \<Rightarrow> os \<Rightarrow> os \<Rightarrow> bool" where
  "untouched dir tmp s s' = (\<forall>p. \<not> prefix (dir @ [tmp]) p \<and> p \<noteq> dir \<longrightarrow> get (os_files s') p = get (os_files s) p)"


lemma untouched_faults [simp]: "untouched dir tmp s (s'\<lparr>os_faults := fl\<rparr>) = untouched dir tmp s s'"
  by (simp add: untouched_def)






definition stored :: "path \<Rightarrow> string \<Rightarrow> string \<Rightarrow> body_stream \<Rightarrow> int \<Rightarrow> os \<Rightarrow> goerr + int \<Rightarrow> os \<Rightarrow> bool" where
  "stored dir tmp name body want s r s' =
     (case r of
        Inl _ \<Rightarrow> untouched dir tmp s s'
      | Inr n \<Rightarrow>
          n = want \<and> n = int (length (bs_Bytes body)) \<and> bs_Err body = None \<and>
          (\<exists>m t. get (os_files s') (dir @ [name]) = Some (Regular (bs_Bytes body) m t)) \<and>
          (\<forall>p. \<not> prefix (dir @ [tmp]) p \<and> p \<noteq> dir \<and> p \<noteq> dir @ [name] \<longrightarrow> get (os_files s') p = get (os_files s) p))"

lemma stored_Inl [simp]: "stored dir tmp name body want s (Inl e) s' = untouched dir tmp s s'"
  by (simp add: stored_def)

















section \<open>A service that keeps the protocol\<close>

definition count_answer :: "int \<Rightarrow> drop_response" where
  "count_answer n = \<lparr>dp_Status = 200, dp_Body = no_body, dp_Json = Some (VObj [(''received'', VInt n)])\<rparr>"

definition conflict_answer :: drop_response where
  "conflict_answer = \<lparr>dp_Status = 409, dp_Body = no_body, dp_Json = None\<rparr>"

text \<open>It holds one file, as the world, and appends what comes for the right offset.\<close>

definition sample_drop :: "string dropClient" where
  "sample_drop =
     \<lparr>dc_baseURL = ''http://drop'', dc_tokenFile = ''/t'',
      dc_client = (\<lambda>q w. case dq_Body q of
         DropBytes bs \<Rightarrow>
           if dq_URL q = ''http://drop/u/0?offset='' @ decimal (int (length w)) then (Inr (count_answer (int (length (w @ bs)))), w @ bs)
           else (Inr conflict_answer, w)
       | _ \<Rightarrow> (Inr (count_answer (int (length w))), w)), dc_ReadFile = (\<lambda>p w. (Inr ''token'', w))\<rparr>"

lemma counts_count: "counts (count_answer n) k \<Longrightarrow> k = n"
  by (auto simp: counts_def count_answer_def drop_result_def ReadLimited_def no_body_def maxDropJSONBytes_def received_type_def
      Unmarshal_def set_field_def field_of_def split: if_splits option.splits)

lemma conflict_counts_nothing: "\<not> counts conflict_answer k"
  by (simp add: counts_def conflict_answer_def drop_result_def ReadLimited_def no_body_def maxDropJSONBytes_def)

lemma decimal_offset: "decimal x = decimal (int n) \<Longrightarrow> x = int n"
proof -
  have "Itoa n \<noteq> CHR ''-'' # s" for s using Itoa_digits [of n] by (auto simp: digit_val_def Let_def)
  then show "decimal x = decimal (int n) \<Longrightarrow> x = int n" by (auto simp: decimal_def split: if_splits) metis
qed

lemma sample_put:
  "dc_client sample_drop (put_request key ''http://drop/u/0'' offset bs) w =
     (if offset = int (length w) then (Inr (count_answer (int (length (w @ bs)))), w @ bs) else (Inr conflict_answer, w))"
  using decimal_offset [of offset "length w"] by (auto simp: sample_drop_def put_request_def drop_request_of_def)

lemma sample_status: "dc_client sample_drop (status_request key target) w = (Inr (count_answer (int (length w))), w)"
  by (simp add: sample_drop_def status_request_def drop_request_of_def)

lemma sample_service: "chunk_service sample_drop ''drk_1'' ''http://drop/u/0'' (\<lambda>w. w)"
  unfolding chunk_service_def sample_put sample_status
  by (auto simp: conflict_counts_nothing dest!: counts_count split: if_splits)

lemma sample_count:
  "0 \<le> n \<Longrightarrow> n < 2 ^ 63 \<Longrightarrow> drop_result 200 (Some received_type) (count_answer n) = DropOk [''received'' \<mapsto> VInt n]"
  by (simp add: count_answer_def drop_result_def ReadLimited_def no_body_def maxDropJSONBytes_def received_type_def
      Unmarshal_def set_field_def field_of_def is_int64_def)

lemma sample_conflict: "drop_result 200 T conflict_answer = DropStatus 409 (dropErrorText conflict_answer)"
  by (simp add: conflict_answer_def drop_result_def ReadLimited_def no_body_def maxDropJSONBytes_def)

lemma sample_chunk:
  assumes "int (length w) + n < 2 ^ 63" "0 \<le> n"
  shows "putChunk sample_drop key ''http://drop/u/0'' bs offset n w =
    (if offset = int (length w) then (Inr (int (length (w @ section_of bs offset n)), False), w @ section_of bs offset n)
     else (Inr (int (length w), True), w))"
proof -
  have "length (section_of bs offset n) \<le> nat n" by (simp add: section_of_def)
  with assms have "int (length (w @ section_of bs offset n)) < 2 ^ 63" "int (length w) < 2 ^ 63" by auto
  then show ?thesis
    using sample_count [of "int (length (w @ section_of bs offset n))"] sample_count [of "int (length w)"]
    unfolding putChunk_def chunkStatus_def keyed_def drop_do_def put_request_def [symmetric] status_request_def [symmetric] bindE_def tryE_def sample_put sample_status
    by (auto simp: ret_def sample_conflict)
qed

lemma sample_sent: "sendFile sample_drop ''drk_1'' ''http://drop/u/0'' ''hello'' 2 ''he'' = (Inr (), ''hello'')"
proof -
  have turns: "send_turns ''hello'' = Suc (Suc (Suc (Suc 59)))" by (simp add: send_turns_def dropMaxResumes_def)
  show ?thesis
    unfolding sendFile_def turns send_loop.simps
    by (simp add: bindE_def ret_def sample_chunk section_of_def dropMaxResumes_def)
qed

text \<open>Two of five bytes are there already: the first chunk meets a conflict, the rest is appended in chunks of two.\<close>

theorem upload_sends_file_witness:
  "chunk_service sample_drop ''drk_1'' ''http://drop/u/0'' (\<lambda>w. w) \<and> prefix ''he'' ''hello'' \<and>
   send_loop (send_turns ''hello'' + 9) sample_drop ''drk_1'' ''http://drop/u/0'' ''hello'' 2 0 0 ''he'' = (Inr (), ''hello'')"
  using upload_sends_file [OF sample_service, of 2 "''he''" "''hello''" 9] sample_service sample_sent by simp

end
