(* ===== verification/Credential_Proxy.thy ===== *)
theory Credential_Proxy
  imports Session_Mcp Redactor
begin

text \<open>
  The proxies of the helper pod that add a credential the session must not see: the provider proxy
  (\<open>credential_proxy.go\<close>, \<open>credential_proxy_stream.go\<close>) and the K3s MCP proxy (\<open>k3s_mcp_proxy.go\<close>) with its list of denied
  tools (\<open>k3s_mcp_tool_deny.go\<close>). The upstream is a parameter: a transport on a world. A header is the map of Go's
  \<open>http.Header\<close>, with the canonical keys that \<open>net/http\<close> gives to what it reads from a connection. What \<open>httputil.ReverseProxy\<close> does around the functions the code gives it is written out; \<open>url.Parse\<close>, the
  cleaning of query strings and the parser of JSON texts are parameters.
\<close>

section \<open>Headers\<close>

type_synonym header = "string \<rightharpoonup> string list"

definition upper :: "char \<Rightarrow> char" where
  "upper c = (if 97 \<le> byte_of c \<and> byte_of c \<le> 122 then char_of (byte_of c - 32) else c)"

definition header_char :: "char \<Rightarrow> bool" where
  "header_char c =
     (list_ex (\<lambda>(first, last). first \<le> byte_of c \<and> byte_of c \<le> last) [(48, 57), (65, 90), (97, 122)] \<or>
      c \<in> set ''!#$%&*+-.^_`|~'' \<or> byte_of c = 39)"

fun canonical :: "bool \<Rightarrow> string \<Rightarrow> string" where
  "canonical up [] = []"
| "canonical up (c # cs) = (if up then upper c else lower c) # canonical (c = CHR ''-'') cs"

definition CanonicalHeaderKey :: "string \<Rightarrow> string" where
  "CanonicalHeaderKey s = (if list_all header_char s then canonical True s else s)"

definition hdr_Values :: "header \<Rightarrow> string \<Rightarrow> string list" where
  "hdr_Values h name = (case h (CanonicalHeaderKey name) of None \<Rightarrow> [] | Some vs \<Rightarrow> vs)"

definition hdr_Get :: "header \<Rightarrow> string \<Rightarrow> string" where
  "hdr_Get h name = (case hdr_Values h name of [] \<Rightarrow> [] | v # _ \<Rightarrow> v)"

definition hdr_Del :: "string \<Rightarrow> header \<Rightarrow> header" where
  "hdr_Del name h = h(CanonicalHeaderKey name := None)"

definition hdr_Set :: "string \<Rightarrow> string \<Rightarrow> header \<Rightarrow> header" where
  "hdr_Set name v h = h(CanonicalHeaderKey name \<mapsto> [v])"

text \<open>\<open>strings.EqualFold\<close> with an ASCII word.\<close>

definition EqualFold :: "string \<Rightarrow> string \<Rightarrow> bool" where
  "EqualFold a b = (map lower a = map lower b)"

text \<open>\<open>removeHopByHopHeaders\<close> of \<open>ReverseProxy\<close>.\<close>

definition connection_names :: "header \<Rightarrow> string list" where
  "connection_names h = filter (\<lambda>n. n \<noteq> []) (concat (map (\<lambda>v. map TrimSpace (split_on (CHR '','') v)) (hdr_Values h ''Connection'')))"

definition hop_headers :: "string list" where
  "hop_headers = [''Connection'', ''Proxy-Connection'', ''Keep-Alive'', ''Proxy-Authenticate'', ''Proxy-Authorization'', ''Te'', ''Trailer'',
     ''Transfer-Encoding'', ''Upgrade'']"

definition removeHopByHopHeaders :: "header \<Rightarrow> header" where
  "removeHopByHopHeaders h = fold hdr_Del (connection_names h @ hop_headers) h"

section \<open>Which headers pass\<close>

definition credentialProxyAuthHeaders :: "string list" where
  "credentialProxyAuthHeaders = [''Authorization'', ''Proxy-Authorization'', ''X-Api-Key'', ''X-Auth-Token'']"

definition credentialProxyRequestHeaderAllowed :: "string \<Rightarrow> bool" where
  "credentialProxyRequestHeaderAllowed name = (CanonicalHeaderKey name \<in> set
     [''Accept'', ''Content-Type'', ''Anthropic-Version'', ''Anthropic-Beta'', ''Anthropic-Dangerous-Direct-Browser-Access'', ''User-Agent'',
      ''X-App'', ''X-Client-Request-Id'', ''X-Claude-Code-Session-Id'', ''X-Claude-Code-Agent-Id'', ''X-Claude-Code-Parent-Agent-Id'',
      ''X-Stainless-Arch'', ''X-Stainless-Helper-Method'', ''X-Stainless-Lang'', ''X-Stainless-Os'', ''X-Stainless-Package-Version'',
      ''X-Stainless-Read-Timeout'', ''X-Stainless-Retry-Count'', ''X-Stainless-Runtime'', ''X-Stainless-Runtime-Version'',
      ''X-Stainless-Timeout''])"

definition k3sMCPProxyRequestHeaderAllowed :: "string \<Rightarrow> bool" where
  "k3sMCPProxyRequestHeaderAllowed name = (CanonicalHeaderKey name \<in> set
     [''Accept'', ''Content-Type'', ''Last-Event-Id'', ''Mcp-Protocol-Version'', ''Mcp-Session-Id'', ''User-Agent''])"

definition credentialProxyUpgradeRequested :: "header \<Rightarrow> bool" where
  "credentialProxyUpgradeRequested h =
     (hdr_Get h ''Upgrade'' \<noteq> [] \<or>
      list_ex (\<lambda>v. list_ex (\<lambda>t. EqualFold (TrimSpace t) ''upgrade'') (split_on (CHR '','') v)) (hdr_Values h ''Connection''))"

section \<open>Streamed responses\<close>

text \<open>What an upstream body still has to give: the bytes and the error of each read, in order; after the last, the end.\<close>

datatype read_end = ReadEOF | ReadFailed

type_synonym source = "(string \<times> read_end option) list"

definition src_Read :: "nat \<Rightarrow> source \<Rightarrow> (string \<times> read_end option) \<times> source" where
  "src_Read n src =
     (case src of
        [] \<Rightarrow> (([], Some ReadEOF), [])
      | (bs, e) # rest \<Rightarrow>
          if length bs \<le> n then ((bs, e), rest) else ((take n bs, None), (drop n bs, e) # rest))"

definition io_EOF :: goerr where "io_EOF = New ''EOF''"
definition io_ErrNoProgress :: goerr where "io_ErrNoProgress = New ''multiple Read calls return no data or error''"
definition errBodyReadAfterClose :: goerr where "errBodyReadAfterClose = New ''http: invalid Read on closed Body''"
definition errCredentialProxyResponseTooLarge :: goerr where
  "errCredentialProxyResponseTooLarge = New ''credential proxy upstream response is too large''"
definition errCredentialProxyResponseRead :: goerr where
  "errCredentialProxyResponseRead = New ''credential proxy could not read upstream response''"

lemmas stream_errors = io_EOF_def io_ErrNoProgress_def errBodyReadAfterClose_def errCredentialProxyResponseTooLarge_def
  errCredentialProxyResponseRead_def

definition credentialProxyStreamReadBytes :: nat where "credentialProxyStreamReadBytes = 32 * 1024"
definition credentialProxyEmptyReadLimit :: nat where "credentialProxyEmptyReadLimit = 100"

record credentialProxyStreamingBody =
  sb_source :: source
  sb_redactor :: streamingRedactor
  sb_remaining :: nat
  sb_ready :: string
  sb_terminalErr :: "goerr option"
  sb_closed :: bool

definition newCredentialProxyStreamingBody :: "source \<Rightarrow> string \<Rightarrow> nat \<Rightarrow> credentialProxyStreamingBody" where
  "newCredentialProxyStreamingBody src token limit =
     \<lparr>sb_source = src, sb_redactor = newStreamingRedactor [token], sb_remaining = limit, sb_ready = [], sb_terminalErr = None, sb_closed = False\<rparr>"

text \<open>What one upstream read does to the body; the number of empty reads in a row goes along.\<close>

definition take_in :: "nat \<Rightarrow> string \<Rightarrow> read_end option \<Rightarrow> credentialProxyStreamingBody \<Rightarrow> nat \<times> credentialProxyStreamingBody" where
  "take_in empties bs e b =
     (let allowed = min (length bs) (sb_remaining b);
          (out, red) = Push (sb_redactor b) (take allowed bs);
          b1 = (if allowed > 0 then b\<lparr>sb_ready := sb_ready b @ out, sb_redactor := red, sb_remaining := sb_remaining b - allowed\<rparr> else b) in
      if allowed < length bs then (0, b1\<lparr>sb_terminalErr := Some errCredentialProxyResponseTooLarge\<rparr>)
      else
        case e of
          Some ReadEOF \<Rightarrow> (0, b1\<lparr>sb_ready := sb_ready b1 @ Finish (sb_redactor b1), sb_terminalErr := Some io_EOF\<rparr>)
        | Some ReadFailed \<Rightarrow> (0, b1\<lparr>sb_terminalErr := Some errCredentialProxyResponseRead\<rparr>)
        | None \<Rightarrow>
            if bs \<noteq> [] then (0, b1)
            else if Suc empties \<ge> credentialProxyEmptyReadLimit then (0, b1\<lparr>sb_terminalErr := Some io_ErrNoProgress\<rparr>)
            else (Suc empties, b1))"

definition read_bytes :: "credentialProxyStreamingBody \<Rightarrow> nat" where
  "read_bytes b = (if sb_remaining b < credentialProxyStreamReadBytes then sb_remaining b + 1 else credentialProxyStreamReadBytes)"

definition src_size :: "source \<Rightarrow> nat" where
  "src_size src = sum_list (map (\<lambda>(bs, e). Suc (length bs)) src)"

lemma src_Read_smaller: "src \<noteq> [] \<Longrightarrow> 0 < n \<Longrightarrow> src_size (snd (src_Read n src)) < src_size src"
  by (cases src) (auto simp: src_Read_def src_size_def)

lemma take_in_source [simp]: "sb_source (snd (take_in k bs e b)) = sb_source b"
  by (simp add: take_in_def Let_def split: prod.split option.split read_end.split)

lemma take_in_end: "sb_terminalErr (snd (take_in k bs (Some e) b)) \<noteq> None"
  by (simp add: take_in_def Let_def split: prod.split read_end.split)

lemma read_bytes_pos: "0 < read_bytes b"
  by (simp add: read_bytes_def credentialProxyStreamReadBytes_def)

text \<open>The loop of \<open>Read\<close>. It ends: a read at the end of the source sets the error, every other shortens the source.\<close>

function fill :: "nat \<Rightarrow> credentialProxyStreamingBody \<Rightarrow> credentialProxyStreamingBody" where
  "fill empties b =
     (if sb_ready b \<noteq> [] \<or> sb_terminalErr b \<noteq> None then b
      else
        let r = src_Read (read_bytes b) (sb_source b);
            t = take_in empties (fst (fst r)) (snd (fst r)) (b\<lparr>sb_source := snd r\<rparr>) in
        fill (fst t) (snd t))"
  by pat_completeness auto
termination
proof (relation "measure (\<lambda>(k, b). src_size (sb_source b) + (if sb_terminalErr b = None then 1 else 0))")
  fix empties b r t
  assume a: "\<not> (sb_ready b \<noteq> [] \<or> sb_terminalErr b \<noteq> None)" and r: "r = src_Read (read_bytes b) (sb_source b)"
    and t: "t = take_in empties (fst (fst r)) (snd (fst r)) (b\<lparr>sb_source := snd r\<rparr>)"
  show "((fst t, snd t), empties, b) \<in> measure (\<lambda>(k, b). src_size (sb_source b) + (if sb_terminalErr b = None then 1 else 0))"
  proof (cases "sb_source b = []")
    case True
    then have "sb_terminalErr (snd t) \<noteq> None" "snd r = []" using take_in_end by (simp_all add: t r src_Read_def)
    with a True show ?thesis by (simp add: t src_size_def case_prod_beta)
  next
    case False
    from src_Read_smaller [OF this read_bytes_pos, of b] a show ?thesis by (simp add: t r case_prod_beta)
  qed
qed simp

declare fill.simps [simp del]

definition sb_Read :: "nat \<Rightarrow> credentialProxyStreamingBody \<Rightarrow> (string \<times> goerr option) \<times> credentialProxyStreamingBody" where
  "sb_Read n b =
     (if n = 0 then (([], None), b)
      else if sb_closed b then (([], Some errBodyReadAfterClose), b)
      else
        let b1 = fill 0 b in
        if sb_ready b1 \<noteq> [] then ((take n (sb_ready b1), None), b1\<lparr>sb_ready := drop n (sb_ready b1)\<rparr>)
        else (([], sb_terminalErr b1), b1))"

definition sb_Close :: "credentialProxyStreamingBody \<Rightarrow> credentialProxyStreamingBody" where
  "sb_Close b = (if sb_closed b then b else b\<lparr>sb_closed := True, sb_ready := [], sb_redactor := (sb_redactor b)\<lparr>pending := []\<rparr>\<rparr>)"

section \<open>URLs of the upstream\<close>

text \<open>\<open>(*URL).EscapedPath\<close> of a URL that was parsed: its raw path where that differs from the standard escaping.\<close>

definition EscapedPath :: "string \<Rightarrow> string \<Rightarrow> string" where
  "EscapedPath path rawPath =
     (if rawPath \<noteq> [] then rawPath
      else if path = ''*'' then ''*''
      else concat (map (\<lambda>c. if unreserved c \<or> c \<in> set ''$&+,/:;=@'' then [c] else percent c) path))"

definition joinURLPath :: "url \<Rightarrow> string \<Rightarrow> string \<Rightarrow> string \<times> string" where
  "joinURLPath a path rawPath =
     (let raw = u_RawPath a \<noteq> [] \<or> rawPath \<noteq> [];
          apath = (if raw then EscapedPath (u_Path a) (u_RawPath a) else u_Path a);
          bpath = (if raw then EscapedPath path rawPath else path);
          aslash = HasSuffix apath ''/''; bslash = is_prefix ''/'' bpath;
          escaped = (\<lambda>s. if raw then s else []) in
      if aslash \<and> bslash then (u_Path a @ tl path, escaped (apath @ tl bpath))
      else if \<not> aslash \<and> \<not> bslash then (u_Path a @ ''/'' @ path, escaped (apath @ ''/'' @ bpath))
      else (u_Path a @ path, escaped (apath @ bpath)))"

definition parseCredentialProxyUpstream :: "(string \<Rightarrow> goerr + url) \<Rightarrow> string \<Rightarrow> goerr + url" where
  "parseCredentialProxyUpstream parse raw =
     (if TrimSpace raw = [] then Inl (New ''credential proxy upstream URL is required'')
      else case parse raw of
        Inl _ \<Rightarrow> Inl (New ''credential proxy upstream URL is invalid'')
      | Inr u \<Rightarrow>
          if u_Scheme u \<noteq> ''https'' then Inl (New ''credential proxy upstream URL must use https'')
          else if u_Host u = [] \<or> u_HasUser u \<or> u_Opaque u \<noteq> [] \<or> u_RawQuery u \<noteq> [] \<or> u_Fragment u \<noteq> []
          then Inl (New ''credential proxy upstream URL must be an absolute origin with an optional path'')
          else Inr u)"

section \<open>Requests and responses\<close>

record proxied_request =
  xq_Method :: string
  xq_Scheme :: string
  xq_URLHost :: string
  xq_Host :: string
  xq_Path :: string
  xq_RawPath :: string
  xq_RawQuery :: string
  xq_Header :: header
  xq_Trailer :: header
  xq_Body :: body_stream

record upstream_response =
  xr_Status :: nat
  xr_Header :: header
  xr_Trailer :: header \<comment> \<open>as they are once the body has ended\<close>
  xr_Body :: source
  xr_CloseErr :: "goerr option"

datatype client_body = Whole string | Streamed credentialProxyStreamingBody | JsonBody jvalue

record client_response =
  cr_Informational :: "(nat \<times> header) list"
  cr_Status :: nat
  cr_Header :: header
  cr_Body :: client_body
  cr_Trailer :: header

definition http_Error :: "nat \<Rightarrow> string \<Rightarrow> client_response" where
  "http_Error status message =
     \<lparr>cr_Informational = [], cr_Status = status,
      cr_Header = [''Content-Type'' \<mapsto> [''text/plain; charset=utf-8''], ''X-Content-Type-Options'' \<mapsto> [''nosniff'']],
      cr_Body = Whole (message @ [newline]), cr_Trailer = Map.empty\<rparr>"

definition json_answer :: "jvalue \<Rightarrow> client_response" where
  "json_answer v =
     \<lparr>cr_Informational = [], cr_Status = 200, cr_Header = [''Content-Type'' \<mapsto> [''application/json'']], cr_Body = JsonBody v,
      cr_Trailer = Map.empty\<rparr>"

definition method_not_allowed :: client_response where
  "method_not_allowed = \<lparr>cr_Informational = [], cr_Status = 405, cr_Header = Map.empty, cr_Body = Whole [], cr_Trailer = Map.empty\<rparr>"

text \<open>The writer around the client's: the header being built and what was sent.\<close>

type_synonym response_writer = "header \<times> (nat \<times> header) list"

definition cw_WriteHeader :: "nat \<Rightarrow> response_writer \<Rightarrow> response_writer" where
  "cw_WriteHeader status w =
     (case w of (h, sent) \<Rightarrow> if 100 \<le> status \<and> status < 200 then (Map.empty, sent) else (h, sent @ [(status, h)]))"

definition copyHeader :: "header \<Rightarrow> header \<Rightarrow> header" where
  "copyHeader dst src =
     (\<lambda>n. case src n of None \<Rightarrow> dst n | Some vs \<Rightarrow> Some ((case dst n of None \<Rightarrow> [] | Some us \<Rightarrow> us) @ vs))"

text \<open>\<open>ReverseProxy\<close> forwards an informational response as it arrives.\<close>

definition forward_1xx :: "nat \<times> header \<Rightarrow> response_writer \<Rightarrow> response_writer" where
  "forward_1xx info w =
     (case cw_WriteHeader (fst info) (copyHeader (fst w) (snd info), snd w) of (_, sent) \<Rightarrow> (Map.empty, sent))"

section \<open>The proxy\<close>

record 'w credentialProxy =
  cp_upstream :: url
  cp_token :: string
  cp_headerAllowed :: "string \<Rightarrow> bool"
  cp_fixedHeaders :: "(string \<times> string) list"
  cp_transport :: "proxied_request \<Rightarrow> 'w \<Rightarrow> ((nat \<times> header) list \<times> (goerr + upstream_response)) \<times> 'w"
  cp_cleanQuery :: "string \<Rightarrow> string"
  cp_ParseMediaType :: "string \<Rightarrow> string option"

definition has_newline :: "string \<Rightarrow> bool" where
  "has_newline s = (newline \<in> set s \<or> CHR 0x0D \<in> set s)"

definition newHeaderScopedProxy ::
    "(string \<Rightarrow> goerr + url) \<Rightarrow> (string \<Rightarrow> string) \<Rightarrow> (string \<Rightarrow> string option) \<Rightarrow> string \<Rightarrow> string \<Rightarrow>
     (proxied_request \<Rightarrow> 'w \<Rightarrow> ((nat \<times> header) list \<times> (goerr + upstream_response)) \<times> 'w) option \<Rightarrow>
     (string \<Rightarrow> bool) \<Rightarrow> (string \<times> string) list \<Rightarrow> goerr + 'w credentialProxy" where
  "newHeaderScopedProxy parse cleanQuery mediaType rawUpstream token transport headerAllowed fixedHeaders =
     (case parseCredentialProxyUpstream parse rawUpstream of
        Inl e \<Rightarrow> Inl e
      | Inr upstream \<Rightarrow>
          if token = [] then Inl (New ''credential proxy auth token is required'')
          else if has_newline token then Inl (New ''credential proxy auth token contains invalid characters'')
          else if list_ex (\<lambda>(n, v). has_newline (n @ v)) fixedHeaders then Inl (New ''credential proxy fixed header contains invalid characters'')
          else case transport of
            None \<Rightarrow> Inl (New ''credential proxy transport is required'')
          | Some rt \<Rightarrow>
              Inr \<lparr>cp_upstream = upstream, cp_token = token, cp_headerAllowed = headerAllowed, cp_fixedHeaders = fixedHeaders,
                   cp_transport = rt, cp_cleanQuery = cleanQuery, cp_ParseMediaType = mediaType\<rparr>)"

text \<open>\<open>reverseProxy.Rewrite\<close>.\<close>

definition Rewrite :: "'w credentialProxy \<Rightarrow> proxied_request \<Rightarrow> proxied_request" where
  "Rewrite p q =
     (let u = cp_upstream p; (path, rawPath) = joinURLPath u (xq_Path q) (xq_RawPath q);
          query = (if u_RawQuery u = [] \<or> xq_RawQuery q = [] then u_RawQuery u @ xq_RawQuery q else u_RawQuery u @ ''&'' @ xq_RawQuery q);
          passed = (\<lambda>n. if cp_headerAllowed p n then xq_Header q n else None);
          authorised = hdr_Set ''Authorization'' (''Bearer '' @ cp_token p) passed;
          complete = fold (\<lambda>(n, v). hdr_Set n v) (cp_fixedHeaders p) authorised in
      q\<lparr>xq_Scheme := u_Scheme u, xq_URLHost := u_Host u, xq_Host := u_Host u, xq_Path := path, xq_RawPath := rawPath, xq_RawQuery := query,
        xq_Header := hdr_Set ''Accept-Encoding'' ''identity'' complete, xq_Trailer := Map.empty\<rparr>)"

text \<open>What \<open>ReverseProxy\<close> sends: the request without hop-by-hop and forwarding headers, rewritten, and with an empty user
  agent where there is none.\<close>

definition outgoing :: "'w credentialProxy \<Rightarrow> proxied_request \<Rightarrow> proxied_request" where
  "outgoing p q =
     (let stripped = fold hdr_Del [''Forwarded'', ''X-Forwarded-For'', ''X-Forwarded-Host'', ''X-Forwarded-Proto''] (removeHopByHopHeaders (xq_Header q));
          out = Rewrite p (q\<lparr>xq_Header := stripped, xq_RawQuery := cp_cleanQuery p (xq_RawQuery q)\<rparr>) in
      if xq_Header out ''User-Agent'' = None then out\<lparr>xq_Header := hdr_Set ''User-Agent'' [] (xq_Header out)\<rparr> else out)"

definition redactCredentialProxyHeaders :: "string \<Rightarrow> header \<Rightarrow> header" where
  "redactCredentialProxyHeaders token h = (\<lambda>n. map_option (map (\<lambda>v. ReplaceAll v token redactedLiteral)) (h n))"

definition scrub :: "string \<Rightarrow> header \<Rightarrow> header" where
  "scrub token h = redactCredentialProxyHeaders token (fold hdr_Del credentialProxyAuthHeaders h)"

definition scrubCredentialProxyResponseMetadata :: "string \<Rightarrow> upstream_response \<Rightarrow> upstream_response" where
  "scrubCredentialProxyResponseMetadata token r = r\<lparr>xr_Header := scrub token (xr_Header r), xr_Trailer := scrub token (xr_Trailer r)\<rparr>"

definition credentialProxyStreamsResponse :: "'w credentialProxy \<Rightarrow> upstream_response \<Rightarrow> bool" where
  "credentialProxyStreamsResponse p r =
     (case cp_ParseMediaType p (hdr_Get (xr_Header r) ''Content-Type'') of None \<Rightarrow> False | Some m \<Rightarrow> EqualFold m ''text/event-stream'')"

text \<open>All that a body gives, and whether it ended in an error.\<close>

fun all_bytes :: "source \<Rightarrow> string \<times> bool" where
  "all_bytes [] = ([], False)"
| "all_bytes ((bs, Some e) # rest) = (bs, e = ReadFailed)"
| "all_bytes ((bs, None) # rest) = (case all_bytes rest of (later, failed) \<Rightarrow> (bs @ later, failed))"

definition maxCredentialProxyResponseBytes :: nat where "maxCredentialProxyResponseBytes = 64 * 2 ^ 20"

text \<open>\<open>reverseProxy.ModifyResponse\<close>.\<close>

definition ModifyResponse :: "'w credentialProxy \<Rightarrow> upstream_response \<Rightarrow> goerr + upstream_response \<times> client_body" where
  "ModifyResponse p r =
     (let encoding = hdr_Get (xr_Header r) ''Content-Encoding''; token = cp_token p in
      if 100 \<le> xr_Status r \<and> xr_Status r < 200 then Inl (New ''credential proxy upstream returned an informational final response'')
      else if encoding \<noteq> [] \<and> encoding \<noteq> ''identity'' then Inl (New ''credential proxy upstream returned unsupported content encoding'')
      else if credentialProxyStreamsResponse p r then
        let r1 = scrubCredentialProxyResponseMetadata token r in
        Inr (r1\<lparr>xr_Header := hdr_Del ''Content-Encoding'' (hdr_Del ''Content-Length'' (xr_Header r1))\<rparr>,
             Streamed (newCredentialProxyStreamingBody (xr_Body r) token maxCredentialProxyResponseBytes))
      else
        let (raw, failed) = all_bytes (xr_Body r) in
        if failed \<and> length raw \<le> maxCredentialProxyResponseBytes then Inl errCredentialProxyResponseRead
        else if xr_CloseErr r \<noteq> None then Inl (New ''credential proxy could not close upstream response'')
        else if length raw > maxCredentialProxyResponseBytes then Inl errCredentialProxyResponseTooLarge
        else
          let body = ReplaceAll raw token redactedLiteral; r1 = scrubCredentialProxyResponseMetadata token r in
          Inr (r1\<lparr>xr_Header := hdr_Del ''Content-Encoding'' (hdr_Set ''Content-Length'' (Itoa (length body)) (xr_Header r1))\<rparr>, Whole body))"

definition bad_gateway :: client_response where
  "bad_gateway = http_Error 502 ''credential proxy upstream unavailable''"

definition reverse_serve :: "'w credentialProxy \<Rightarrow> proxied_request \<Rightarrow> 'w \<Rightarrow> client_response \<times> 'w" where
  "reverse_serve p q w =
     (case cp_transport p (outgoing p q) w of ((infos, answer), w') \<Rightarrow>
        let sent = snd (fold forward_1xx infos (Map.empty, [])) in
        case answer of
          Inl _ \<Rightarrow> (bad_gateway\<lparr>cr_Informational := sent\<rparr>, w')
        | Inr r \<Rightarrow>
            (case ModifyResponse p (r\<lparr>xr_Header := removeHopByHopHeaders (xr_Header r)\<rparr>) of
               Inl _ \<Rightarrow> (bad_gateway\<lparr>cr_Informational := sent\<rparr>, w')
             | Inr (r1, body) \<Rightarrow>
                 (\<lparr>cr_Informational = sent, cr_Status = xr_Status r1, cr_Header = xr_Header r1, cr_Body = body, cr_Trailer = xr_Trailer r1\<rparr>, w')))"

text \<open>The handler; requests with paths the router would clean are redirected by it and never get here.\<close>

definition ServeHTTP :: "'w credentialProxy \<Rightarrow> proxied_request \<Rightarrow> 'w \<Rightarrow> client_response \<times> 'w" where
  "ServeHTTP p q w =
     (if xq_Path q = ''/healthz'' then
        if xq_Method q \<noteq> ''GET'' then (method_not_allowed, w)
        else (json_answer (VObj [(''status'', VStr ''ok''), (''workload'', VStr ''credential-proxy'')]), w)
      else if EqualFold (xq_Method q) ''CONNECT'' \<or> credentialProxyUpgradeRequested (xq_Header q)
      then (http_Error 405 ''credential proxy does not support tunnels or protocol upgrades'', w)
      else reverse_serve p q w)"

definition newCredentialProxyWithTransport where
  "newCredentialProxyWithTransport parse cleanQuery mediaType rawUpstream token transport =
     newHeaderScopedProxy parse cleanQuery mediaType rawUpstream token transport credentialProxyRequestHeaderAllowed []"

end
