(* ===== verification/K3s_Proxy.thy ===== *)
theory K3s_Proxy
  imports Credential_Proxy
begin

text \<open>
  The K3s MCP proxy (\<open>k3s_mcp_proxy.go\<close>) and the filter that refuses calls of denied tools before the bearer is added
  (\<open>k3s_mcp_tool_deny.go\<close>). The routes of the plugin marketplace, which this proxy serves as well, are not modelled.
\<close>

section \<open>The deny list\<close>

definition k3sMCPDeniedTools :: "string list" where
  "k3sMCPDeniedTools = [''opensearch_*'', ''resource_create'', ''resource_update'', ''resource_patch'', ''resource_delete_collection'',
     ''resource_delete'', ''resource_exec'', ''resource_attach'', ''resource_port_forward'', ''resource_proxy'', ''session_*'',
     ''dear_baby_reset_user'', ''github_commit_status_create'']"

definition rule_matches :: "string \<Rightarrow> string \<Rightarrow> bool" where
  "rule_matches name rule = (if HasSuffix rule ''*'' then is_prefix (butlast rule) name else name = rule)"

definition k3sMCPToolDenied :: "string \<Rightarrow> bool" where
  "k3sMCPToolDenied name = list_ex (rule_matches name) k3sMCPDeniedTools"

definition maxK3SMCPRequestBody :: nat where "maxK3SMCPRequestBody = 4 * 2 ^ 20"

definition k3sMCPRequestMessage :: struct_type where
  "k3sMCPRequestMessage = [(''id'', Raw), (''method'', Plain is_str), (''params'', Raw)]"

type_synonym k3s_message = "string \<rightharpoonup> jvalue"

fun those_all :: "'a option list \<Rightarrow> 'a list option" where
  "those_all [] = Some []"
| "those_all (None # xs) = None"
| "those_all (Some x # xs) = map_option (\<lambda>ys. x # ys) (those_all xs)"

text \<open>The messages of a body and whether they came as a batch.\<close>

definition decodeK3SMCPRequest :: "(string \<Rightarrow> jvalue option) \<Rightarrow> string \<Rightarrow> (k3s_message list \<times> bool) option" where
  "decodeK3SMCPRequest parse body =
     (let trimmed = TrimLeft {CHR '' '', CHR 0x09, CHR 0x0D, CHR 0x0A} body in
      if is_prefix ''['' trimmed then
        (case parse trimmed of
           Some (VArr vs) \<Rightarrow> map_option (\<lambda>ms. (ms, True)) (those_all (map (Unmarshal k3sMCPRequestMessage) vs))
         | _ \<Rightarrow> None)
      else map_option (\<lambda>m. ([m], False)) (Option.bind (parse trimmed) (Unmarshal k3sMCPRequestMessage)))"

text \<open>The tool a \<open>tools/call\<close> names, empty for any other method.\<close>

definition k3sMCPCalledTool :: "k3s_message \<Rightarrow> string option" where
  "k3sMCPCalledTool m =
     (if str_field m ''method'' \<noteq> ''tools/call'' then Some []
      else case m ''params'' of
        None \<Rightarrow> None
      | Some v \<Rightarrow> map_option (\<lambda>params. str_field params ''name'') (Unmarshal [(''name'', Plain is_str)] v))"

datatype verdict = Passes | MalformedCall | DeniedCall k3s_message string

fun check_messages :: "k3s_message list \<Rightarrow> verdict" where
  "check_messages [] = Passes"
| "check_messages (m # ms) =
     (case k3sMCPCalledTool m of
        None \<Rightarrow> MalformedCall
      | Some name \<Rightarrow> if name = [] \<or> \<not> k3sMCPToolDenied name then check_messages ms else DeniedCall m name)"

definition writeK3SMCPDenied :: "k3s_message \<Rightarrow> string \<Rightarrow> client_response" where
  "writeK3SMCPDenied m name =
     json_answer (VObj [(''id'', case m ''id'' of None \<Rightarrow> VNull | Some v \<Rightarrow> v), (''jsonrpc'', VStr ''2.0''),
       (''result'', VObj [(''content'', VArr [VObj [(''text'', VStr (''K3s MCP tool '' @ name @ '' is disabled in session-platform sessions.'')),
                                                     (''type'', VStr ''text'')]]),
                          (''isError'', VBool True)])])"

type_synonym 'w handler = "proxied_request \<Rightarrow> 'w \<Rightarrow> client_response \<times> 'w"

definition denyK3SMCPTools :: "(string \<Rightarrow> jvalue option) \<Rightarrow> 'w handler \<Rightarrow> 'w handler" where
  "denyK3SMCPTools parse serve q w =
     (if xq_Method q \<noteq> ''POST'' then serve q w
      else case ReadLimited (maxK3SMCPRequestBody + 1) (xq_Body q) of
        Inl _ \<Rightarrow> (http_Error 400 ''k3s mcp request body could not be read'', w)
      | Inr body \<Rightarrow>
          if length body > maxK3SMCPRequestBody then (http_Error 413 ''k3s mcp request body is too large'', w)
          else case decodeK3SMCPRequest parse body of
            None \<Rightarrow> (http_Error 400 ''k3s mcp request is not a JSON-RPC message'', w)
          | Some (messages, batch) \<Rightarrow>
              (case check_messages messages of
                 MalformedCall \<Rightarrow> (http_Error 400 ''k3s mcp tools/call has malformed params'', w)
               | DeniedCall m name \<Rightarrow>
                   (if batch then http_Error 403 (''k3s mcp tool '' @ name @ '' is disabled in session-platform sessions'')
                    else writeK3SMCPDenied m name, w)
               | Passes \<Rightarrow> serve (q\<lparr>xq_Body := bytes_body body\<rparr>) w))"

definition k3sMCPSessionFacing :: "(string \<Rightarrow> jvalue option) \<Rightarrow> 'w handler \<Rightarrow> string \<Rightarrow> 'w handler" where
  "k3sMCPSessionFacing parse upstream policy = (if policy = ''allow-all'' then upstream else denyK3SMCPTools parse upstream)"

section \<open>The proxy\<close>

definition k3sMCPFixedHeaders :: "string \<Rightarrow> (string \<times> string) list" where
  "k3sMCPFixedHeaders sessionID =
     (let s = TrimSpace sessionID in
      if s = [] \<or> list_ex (\<lambda>c. byte_of c < 33 \<or> byte_of c = 127) s then [] else [(''X-Session-Platform-Session-Id'', s)])"

definition defaultK3SMCPURL :: string where "defaultK3SMCPURL = ''https://homelab-k3s-mcp.llkm.nl/mcp''"

definition k3sMCPPath :: "(string \<Rightarrow> goerr + url) \<Rightarrow> string \<Rightarrow> goerr + string" where
  "k3sMCPPath parse raw =
     (case parse (if TrimSpace raw = [] then defaultK3SMCPURL else raw) of
        Inl _ \<Rightarrow> Inl (New ''k3s mcp URL is invalid'')
      | Inr u \<Rightarrow> Inr (let p = EscapedPath (u_Path u) (u_RawPath u) in if p = [] then ''/'' else p))"

definition k3sMCPOrigin :: "(string \<Rightarrow> goerr + url) \<Rightarrow> string \<Rightarrow> goerr + string" where
  "k3sMCPOrigin parse raw =
     (case parse (if TrimSpace raw = [] then defaultK3SMCPURL else raw) of
        Inl _ \<Rightarrow> Inl (New ''k3s mcp URL is invalid'')
      | Inr u \<Rightarrow>
          if u_Scheme u \<noteq> ''https'' \<or> u_Host u = [] \<or> u_HasUser u then Inl (New ''k3s mcp URL must be an https URL without user info'')
          else Inr (u_Scheme u @ ''://'' @ u_Host u))"

text \<open>The upstream of the proxy, none without a token.\<close>

definition newK3SMCPProxyWithTransport ::
    "(string \<Rightarrow> goerr + url) \<Rightarrow> (string \<Rightarrow> string) \<Rightarrow> (string \<Rightarrow> string option) \<Rightarrow> string \<Rightarrow> string \<Rightarrow> string \<Rightarrow>
     (proxied_request \<Rightarrow> 'w \<Rightarrow> ((nat \<times> header) list \<times> (goerr + upstream_response)) \<times> 'w) option \<Rightarrow> goerr + 'w credentialProxy option" where
  "newK3SMCPProxyWithTransport parse cleanQuery mediaType rawURL token sessionID transport =
     (case k3sMCPOrigin parse rawURL of
        Inl e \<Rightarrow> Inl e
      | Inr origin \<Rightarrow>
          (case k3sMCPPath parse rawURL of
             Inl e \<Rightarrow> Inl e
           | Inr _ \<Rightarrow>
               if token = [] then Inr None
               else
                 (case newHeaderScopedProxy parse cleanQuery mediaType origin token transport k3sMCPProxyRequestHeaderAllowed (k3sMCPFixedHeaders sessionID) of
                    Inl e \<Rightarrow> Inl e
                  | Inr p \<Rightarrow> Inr (Some p))))"

text \<open>Its health route and the route of everything a session sends.\<close>

definition k3s_serve :: "(string \<Rightarrow> jvalue option) \<Rightarrow> 'w credentialProxy option \<Rightarrow> string \<Rightarrow> 'w handler" where
  "k3s_serve parse upstream policy q w =
     (if xq_Path q = ''/healthz'' then
        if xq_Method q \<noteq> ''GET'' then (method_not_allowed, w)
        else (json_answer (VObj [(''configured'', VBool (upstream \<noteq> None)), (''status'', VStr ''ok''), (''workload'', VStr ''k3s-mcp-proxy'')]), w)
      else case upstream of
        None \<Rightarrow> (http_Error 503 ''k3s mcp proxy has no token configured'', w)
      | Some p \<Rightarrow> k3sMCPSessionFacing parse (ServeHTTP p) policy q w)"

end
