(* ===== verification/Proxy_Laws.thy ===== *)
theory Proxy_Laws
  imports K3s_Proxy
begin

text \<open>
  What the proxies of the helper pod promise: the credential goes to the configured upstream and nowhere else, nothing an
  upstream answers hands it back to the session, and calls of denied tools are refused as far as the filter's reading of a
  message is the upstream's.
\<close>

section \<open>Streamed bodies\<close>

lemma src_Read_bytes:
  assumes "src_Read n src = ((bs, e), rest)"
  shows "all_bytes src = (case e of Some x \<Rightarrow> (bs, x = ReadFailed) | None \<Rightarrow> (bs @ fst (all_bytes rest), snd (all_bytes rest)))"
proof (cases src)
  case Nil
  with assms show ?thesis by (auto simp: src_Read_def)
next
  case (Cons c cs)
  obtain cb ce where c: "c = (cb, ce)" by (rule prod.exhaust)
  show ?thesis
  proof (cases "length cb \<le> n")
    case True
    with assms Cons c show ?thesis by (cases ce) (auto simp: src_Read_def split: prod.split)
  next
    case False
    with assms Cons c have "bs = take n cb" "e = None" "rest = (drop n cb, ce) # cs" by (auto simp: src_Read_def)
    with Cons c show ?thesis by (cases ce) (auto simp: append_assoc [symmetric] simp del: append_assoc split: prod.split)
  qed
qed

text \<open>The state of a body that was handed \<open>raw\<close> to read and has returned \<open>out\<close>.\<close>

definition sb_inv :: "string \<Rightarrow> string \<Rightarrow> bool \<Rightarrow> nat \<Rightarrow> string \<Rightarrow> credentialProxyStreamingBody \<Rightarrow> bool" where
  "sb_inv token raw failed limit out b =
     (let whole = ReplaceAll raw token redactedLiteral; rest = all_bytes (sb_source b) in
      \<not> sb_closed b \<and> literals (sb_redactor b) = [token] \<and>
      (case sb_terminalErr b of
         None \<Rightarrow>
           out @ sb_ready b @ redactor_whole (sb_redactor b) (fst rest) = whole \<and>
           sb_remaining b + length raw = limit + length (fst rest) \<and> snd rest = failed
       | Some e \<Rightarrow>
           prefix (out @ sb_ready b) whole \<and>
           (e = io_EOF \<longrightarrow> out @ sb_ready b = whole \<and> length raw \<le> limit \<and> \<not> failed)))"

lemma Push_redactor:
  assumes "literals r = [token]" "Push r x = (out, r')"
  shows "literals r' = [token]" "redactor_whole r (x @ y) = out @ redactor_whole r' y"
proof -
  show "literals r' = [token]" using assms by (auto simp: Push_def split: prod.splits)
  show "redactor_whole r (x @ y) = out @ redactor_whole r' y"
    using redactor.push_whole assms safe_one by metis
qed

lemma Finish_redactor: "literals r = [token] \<Longrightarrow> Finish r = redactor_whole r []"
  using redactor.finish_whole safe_one by metis

lemma take_in_inv:
  assumes inv: "sb_inv token raw failed limit out b" and open_body: "sb_ready b = []" "sb_terminalErr b = None"
    and read: "src_Read n (sb_source b) = ((bs, e), rest)"
  shows "sb_inv token raw failed limit out (snd (take_in k bs e (b\<lparr>sb_source := rest\<rparr>)))"
proof -
  let ?R = "sb_redactor b" and ?whole = "ReplaceAll raw token redactedLiteral" and ?allowed = "min (length bs) (sb_remaining b)"
  obtain o1 r1 where push: "Push ?R (take ?allowed bs) = (o1, r1)" by (rule prod.exhaust)
  note all = src_Read_bytes [OF read]
  have lit: "literals ?R = [token]" and open_b: "\<not> sb_closed b"
    and whole: "out @ redactor_whole ?R (fst (all_bytes (sb_source b))) = ?whole"
    and sizes: "sb_remaining b + length raw = limit + length (fst (all_bytes (sb_source b)))" "snd (all_bytes (sb_source b)) = failed"
    using inv open_body by (auto simp: sb_inv_def Let_def)
  note lit1 = Push_redactor(1) [OF lit push] and step = Push_redactor(2) [OF lit push]
  have bytes: "fst (all_bytes (sb_source b)) = bs @ (case e of Some _ \<Rightarrow> [] | None \<Rightarrow> fst (all_bytes rest))"
    using all by (auto split: option.splits)
  show ?thesis
  proof (cases "?allowed < length bs")
    case True
    have "fst (all_bytes (sb_source b)) = take ?allowed bs @ drop ?allowed bs @ (case e of Some _ \<Rightarrow> [] | None \<Rightarrow> fst (all_bytes rest))"
      using bytes by simp
    with whole step have "prefix (out @ o1) ?whole" by (metis append_assoc prefixI)
    moreover from this have "prefix out ?whole" by (rule append_prefixD)
    ultimately show ?thesis
      using True push open_body lit lit1 open_b
      by (auto simp: take_in_def Let_def sb_inv_def stream_errors)
  next
    case False
    define o2 r2 where "o2 = (if bs = [] then [] else o1)" and "r2 = (if bs = [] then ?R else r1)"
    from False have taken: "take ?allowed bs = bs" "length bs \<le> sb_remaining b" by auto
    have lit2: "literals r2 = [token]" and step2: "redactor_whole ?R (bs @ y) = o2 @ redactor_whole r2 y" for y
      using lit lit1 step taken(1) by (auto simp: o2_def r2_def)
    have next_b: "snd (take_in k bs e (b\<lparr>sb_source := rest\<rparr>)) =
        (let b1 = b\<lparr>sb_source := rest, sb_ready := o2, sb_redactor := r2, sb_remaining := sb_remaining b - length bs\<rparr> in
         case e of
           Some ReadEOF \<Rightarrow> b1\<lparr>sb_ready := o2 @ Finish r2, sb_terminalErr := Some io_EOF\<rparr>
         | Some ReadFailed \<Rightarrow> b1\<lparr>sb_terminalErr := Some errCredentialProxyResponseRead\<rparr>
         | None \<Rightarrow> if bs = [] \<and> Suc k \<ge> credentialProxyEmptyReadLimit then b1\<lparr>sb_terminalErr := Some io_ErrNoProgress\<rparr> else b1)"
      using push open_body(1) taken by (cases b; cases "bs = []") (auto simp: take_in_def Let_def o2_def r2_def split: option.split read_end.split)
    have "prefix (out @ o2) ?whole"
      using whole bytes step2 by (metis append_assoc prefixI)
    with next_b whole bytes step2 lit2 open_b sizes taken(2) open_body all Finish_redactor [OF lit2] show ?thesis
      by (auto simp: sb_inv_def Let_def stream_errors split: option.splits read_end.splits)
  qed
qed

lemma fill_inv: "sb_inv token raw failed limit out b \<Longrightarrow> sb_inv token raw failed limit out (fill k b)"
proof (induction k b rule: fill.induct)
  case (1 k b)
  obtain bs e rest where read: "src_Read (read_bytes b) (sb_source b) = ((bs, e), rest)" by (metis prod.exhaust)
  show ?case
  proof (cases "sb_ready b \<noteq> [] \<or> sb_terminalErr b \<noteq> None")
    case True
    with 1(2) show ?thesis by (simp add: fill.simps)
  next
    case False
    with take_in_inv [OF 1(2) _ _ read] 1(1) [OF False refl refl] read show ?thesis
      by (subst fill.simps) (simp add: Let_def)
  qed
qed

lemma fill_done: "sb_ready (fill k b) \<noteq> [] \<or> sb_terminalErr (fill k b) \<noteq> None"
proof (induction k b rule: fill.induct)
  case (1 k b)
  then show ?case by (cases "sb_ready b \<noteq> [] \<or> sb_terminalErr b \<noteq> None") (auto simp: fill.simps [of k b] Let_def)
qed

lemma take_drop_append: "take n xs @ drop n xs @ ys = xs @ ys"
  by (metis append_assoc append_take_drop_id)

lemma sb_inv_prefix: "sb_inv token raw failed limit out b \<Longrightarrow> prefix out (ReplaceAll raw token redactedLiteral)"
  unfolding sb_inv_def Let_def by (cases "sb_terminalErr b") (auto dest: append_prefixD intro: prefixI [OF sym])

lemma sb_Read_inv:
  assumes "sb_inv token raw failed limit out b" "0 < n" "sb_Read n b = ((bs, e), b')"
  shows "e = None \<Longrightarrow> bs \<noteq> [] \<and> sb_inv token raw failed limit (out @ bs) b'"
    and "e = Some x \<Longrightarrow> bs = [] \<and> prefix out (ReplaceAll raw token redactedLiteral) \<and>
      (x = io_EOF \<longrightarrow> out = ReplaceAll raw token redactedLiteral \<and> length raw \<le> limit \<and> \<not> failed)"
proof -
  have inv: "sb_inv token raw failed limit out (fill 0 b)" by (rule fill_inv) (rule assms)
  have "\<not> sb_closed b" using assms(1) by (simp add: sb_inv_def Let_def)
  with assms(2,3) have read: "((bs, e), b') = (if sb_ready (fill 0 b) \<noteq> []
      then ((take n (sb_ready (fill 0 b)), None), (fill 0 b)\<lparr>sb_ready := drop n (sb_ready (fill 0 b))\<rparr>)
      else (([], sb_terminalErr (fill 0 b)), fill 0 b))"
    by (simp add: sb_Read_def Let_def)
  show "e = None \<Longrightarrow> bs \<noteq> [] \<and> sb_inv token raw failed limit (out @ bs) b'"
    using read inv fill_done [of 0 b] assms(2) by (auto simp: sb_inv_def Let_def take_drop_append split: if_splits option.splits)
  show "e = Some x \<Longrightarrow> bs = [] \<and> prefix out (ReplaceAll raw token redactedLiteral) \<and>
      (x = io_EOF \<longrightarrow> out = ReplaceAll raw token redactedLiteral \<and> length raw \<le> limit \<and> \<not> failed)"
    using read inv by (cases "sb_terminalErr (fill 0 b)") (auto simp: sb_inv_def Let_def split: if_splits)
qed

text \<open>A client that reads with buffers of the given sizes until an error.\<close>

fun copy_reads :: "nat list \<Rightarrow> credentialProxyStreamingBody \<Rightarrow> string \<times> goerr option" where
  "copy_reads [] b = ([], None)"
| "copy_reads (n # ns) b =
     (case sb_Read n b of ((bs, e), b') \<Rightarrow>
        if e \<noteq> None then (bs, e) else (case copy_reads ns b' of (out, x) \<Rightarrow> (bs @ out, x)))"

lemma copy_reads_inv:
  assumes "sb_inv token raw failed limit out b" "\<forall>n \<in> set ns. 0 < n" "copy_reads ns b = (got, e)"
  shows "prefix (out @ got) (ReplaceAll raw token redactedLiteral) \<and>
    (e = Some io_EOF \<longrightarrow> out @ got = ReplaceAll raw token redactedLiteral \<and> length raw \<le> limit \<and> \<not> failed) \<and>
    (e = None \<longrightarrow> length ns \<le> length got)"
  using assms
proof (induction ns arbitrary: out b got)
  case Nil
  then show ?case using sb_inv_prefix by auto
next
  case (Cons n ns)
  obtain bs x b' where read: "sb_Read n b = ((bs, x), b')" by (metis prod.exhaust)
  note step = sb_Read_inv [OF Cons.prems(1) _ read]
  show ?case
  proof (cases x)
    case (Some y)
    with read Cons.prems step(2) [of y] show ?thesis by auto
  next
    case None
    obtain more_bytes where rest: "copy_reads ns b' = (more_bytes, e)" "got = bs @ more_bytes"
      using Cons.prems(3) read None by (auto split: prod.splits)
    have "bs \<noteq> []" "sb_inv token raw failed limit (out @ bs) b'" using step(1) None Cons.prems(2) by auto
    with Cons.IH [OF this(2) _ rest(1)] Cons.prems(2) rest(2) show ?thesis by (cases bs) auto
  qed
qed

lemma new_body_inv:
  assumes "token \<noteq> []"
  shows "sb_inv token (fst (all_bytes src)) (snd (all_bytes src)) limit [] (newCredentialProxyStreamingBody src token limit)"
  using assms drain_ReplaceAll [OF assms]
  by (simp add: sb_inv_def Let_def newCredentialProxyStreamingBody_def newStreamingRedactor_def redactor_whole_def)

text \<open>A streamed response is the replacement of the credential in the whole body, however the upstream cuts it and with
  whatever buffers it is read: what has been delivered at any time is a beginning of it; if the end is delivered, it is all of
  it, within the limit, and the upstream ended without error; and every read delivers something or ends, so that it
  does end.\<close>

theorem streamed_body_redacted:
  assumes "token \<noteq> []" "\<forall>n \<in> set ns. 0 < n" "copy_reads ns (newCredentialProxyStreamingBody src token limit) = (got, e)"
  shows "let whole = ReplaceAll (fst (all_bytes src)) token redactedLiteral in
    prefix got whole \<and>
    (e = Some io_EOF \<longrightarrow> got = whole \<and> length (fst (all_bytes src)) \<le> limit \<and> \<not> snd (all_bytes src)) \<and>
    (length whole < length ns \<longrightarrow> e \<noteq> None)"
  using copy_reads_inv [OF new_body_inv [OF assms(1)] assms(2,3)] by (auto dest: prefix_length_le)

section \<open>The credential does not come back\<close>









lemma fold_hdr_Del: "fold hdr_Del ns h n = (if n \<in> CanonicalHeaderKey ` set ns then None else h n)"
  by (induction ns arbitrary: h) (auto simp: hdr_Del_def)
























section \<open>The credential goes to the upstream only\<close>

lemma canonical_names:
  "CanonicalHeaderKey ''Authorization'' = ''Authorization''" "CanonicalHeaderKey ''Accept-Encoding'' = ''Accept-Encoding''"
  "CanonicalHeaderKey ''User-Agent'' = ''User-Agent''"
  "CanonicalHeaderKey ''X-Session-Platform-Session-Id'' = ''X-Session-Platform-Session-Id''"
  by code_simp+

definition sessionIDHeader :: string where "sessionIDHeader = ''X-Session-Platform-Session-Id''"

lemma fixed_headers: "fold (\<lambda>(n, v). hdr_Set n v) (k3sMCPFixedHeaders sid) h n =
    (if n = sessionIDHeader \<and> k3sMCPFixedHeaders sid \<noteq> [] then Some [TrimSpace sid] else h n)"
  by (simp add: k3sMCPFixedHeaders_def Let_def hdr_Set_def canonical_names sessionIDHeader_def)

lemma scoped_proxy:
  assumes "newHeaderScopedProxy parse clean media raw token transport allowed fixed = Inr p"
  obtains "token \<noteq> []" "cp_token p = token" "cp_headerAllowed p = allowed" "cp_fixedHeaders p = fixed" "u_Scheme (cp_upstream p) = ''https''"
    "u_Host (cp_upstream p) \<noteq> []" "\<not> u_HasUser (cp_upstream p)" "parse raw = Inr (cp_upstream p)" "transport = Some (cp_transport p)"
  using assms
  by (auto simp: newHeaderScopedProxy_def parseCredentialProxyUpstream_def split: sum.splits if_splits option.splits)

text \<open>A header entry of a request that goes upstream: the credential, what the proxy itself sets, or an entry of the caller
  whose name is on the proxy's list.\<close>

definition upstream_entry :: "'w credentialProxy \<Rightarrow> header \<Rightarrow> string \<Rightarrow> string list \<Rightarrow> bool" where
  "upstream_entry p caller n vs =
     (if n = ''Authorization'' then vs = [''Bearer '' @ cp_token p]
      else if n = ''Accept-Encoding'' then vs = [''identity'']
      else n = sessionIDHeader \<or> n = ''User-Agent'' \<and> vs = [[]] \<or> cp_headerAllowed p n \<and> caller n = Some vs)"

lemma outgoing_entries:
  assumes "cp_fixedHeaders p = [] \<or> cp_fixedHeaders p = k3sMCPFixedHeaders sid"
  shows "xq_Header (outgoing p q) ''Authorization'' = Some [''Bearer '' @ cp_token p] \<and>
    (\<forall>n vs. xq_Header (outgoing p q) n = Some vs \<longrightarrow> upstream_entry p (xq_Header q) n vs) \<and>
    xq_Host (outgoing p q) = u_Host (cp_upstream p) \<and> xq_URLHost (outgoing p q) = u_Host (cp_upstream p) \<and>
    xq_Scheme (outgoing p q) = u_Scheme (cp_upstream p) \<and> xq_Trailer (outgoing p q) = Map.empty"
proof -
  have fixed: "fold (\<lambda>(n, v). hdr_Set n v) (cp_fixedHeaders p) h n = h n \<or> n = sessionIDHeader" for h n
    using assms by (auto simp: fixed_headers)
  have other: "sessionIDHeader \<noteq> ''Authorization''" by (simp add: sessionIDHeader_def)
  have stripped: "fold hdr_Del [''Forwarded'', ''X-Forwarded-For'', ''X-Forwarded-Host'', ''X-Forwarded-Proto''] (removeHopByHopHeaders h) n = Some vs \<Longrightarrow>
      h n = Some vs" for h n vs
    unfolding removeHopByHopHeaders_def fold_hdr_Del by (auto split: if_splits)
  define s where "s = q\<lparr>xq_Header := fold hdr_Del [''Forwarded'', ''X-Forwarded-For'', ''X-Forwarded-Host'', ''X-Forwarded-Proto''] (removeHopByHopHeaders (xq_Header q)),
      xq_RawQuery := cp_cleanQuery p (xq_RawQuery q)\<rparr>"
  have rewritten: "xq_Header (Rewrite p s) n =
      (if n = ''Accept-Encoding'' then Some [''identity'']
       else fold (\<lambda>(n, v). hdr_Set n v) (cp_fixedHeaders p)
         ((\<lambda>n. if cp_headerAllowed p n then xq_Header s n else None)(''Authorization'' \<mapsto> [''Bearer '' @ cp_token p])) n)" for n
    by (simp add: Rewrite_def Let_def hdr_Set_def canonical_names split: prod.split)
  have auth: "xq_Header (Rewrite p s) ''Authorization'' = Some [''Bearer '' @ cp_token p]"
    using fixed [where n = "''Authorization''"] other by (simp add: rewritten)
  have kept: "xq_Header s n = Some vs \<Longrightarrow> xq_Header q n = Some vs" for n vs
    using stripped [of "xq_Header q" n vs] by (simp add: s_def)
  have entry: "upstream_entry p (xq_Header q) n vs" if h: "xq_Header (Rewrite p s) n = Some vs" for n vs
  proof (cases "n = ''Authorization'' \<or> n = ''Accept-Encoding'' \<or> n = sessionIDHeader")
    case True
    with h auth rewritten [of n] show ?thesis by (auto simp: upstream_entry_def)
  next
    case False
    with h fixed [where n = n] have "(if cp_headerAllowed p n then xq_Header s n else None) = Some vs"
      unfolding rewritten by simp
    with False kept show ?thesis by (simp add: upstream_entry_def split: if_splits)
  qed
  have out: "outgoing p q = (if xq_Header (Rewrite p s) ''User-Agent'' = None
      then (Rewrite p s)\<lparr>xq_Header := (xq_Header (Rewrite p s))(''User-Agent'' \<mapsto> [[]])\<rparr> else Rewrite p s)"
    by (simp add: outgoing_def Let_def s_def hdr_Set_def canonical_names)
  have rest: "xq_Host (Rewrite p s) = u_Host (cp_upstream p)" "xq_URLHost (Rewrite p s) = u_Host (cp_upstream p)"
    "xq_Scheme (Rewrite p s) = u_Scheme (cp_upstream p)" "xq_Trailer (Rewrite p s) = Map.empty"
    by (simp_all add: Rewrite_def Let_def split: prod.split)
  have agent: "upstream_entry p (xq_Header q) ''User-Agent'' [[]]" by (simp add: upstream_entry_def)
  show ?thesis unfolding out using auth entry rest agent by auto
qed

text \<open>The credential is sent to the configured upstream and to it alone, and never a caller's own. Of either proxy, every
  request that leaves goes by https to the host of the configured URL, with the proxy's credential as its one
  authorisation, uncompressed, without trailers, and with no header of the caller but those on the proxy's list; serving
  a request makes this one call or none.\<close>

theorem credential_scoped:
  assumes "newCredentialProxyWithTransport parse clean media raw token transport = Inr p \<or>
    newK3SMCPProxyWithTransport parse clean media raw token sid transport = Inr (Some p)"
  shows "let out = outgoing p q in
    cp_token p = token \<and> xq_Scheme out = ''https'' \<and> xq_URLHost out = u_Host (cp_upstream p) \<and> xq_Host out = u_Host (cp_upstream p) \<and>
    xq_Trailer out = Map.empty \<and> xq_Header out ''Authorization'' = Some [''Bearer '' @ token] \<and>
    (\<forall>n vs. xq_Header out n = Some vs \<longrightarrow> upstream_entry p (xq_Header q) n vs) \<and>
    snd (ServeHTTP p q w) \<in> {w, snd (cp_transport p out w)}"
proof -
  obtain raw' allowed fixed where new: "newHeaderScopedProxy parse clean media raw' token transport allowed fixed = Inr p"
    and "fixed = [] \<or> fixed = k3sMCPFixedHeaders sid"
    using assms by (auto simp: newCredentialProxyWithTransport_def newK3SMCPProxyWithTransport_def split: sum.splits if_splits)
  from new this(2) have p: "cp_token p = token" "cp_fixedHeaders p = [] \<or> cp_fixedHeaders p = k3sMCPFixedHeaders sid"
    "u_Scheme (cp_upstream p) = ''https''"
    by (auto elim!: scoped_proxy)
  have "snd (ServeHTTP p q w) \<in> {w, snd (cp_transport p (outgoing p q) w)}"
    by (auto simp: ServeHTTP_def reverse_serve_def Let_def split: prod.splits sum.splits)
  with outgoing_entries [OF p(2), of q] p(1,3) show ?thesis by (simp add: Let_def)
qed

end
