(* ===== verification/Deny_Laws.thy ===== *)
theory Deny_Laws
  imports Proxy_Laws
begin

text \<open>
  The deny list of the K3s MCP proxy: it holds for every message whose keys mean the same to the filter and to an upstream
  that compares keys exactly, and for no other.
\<close>

section \<open>Reading a message exactly\<close>















section \<open>Case variants pass the filter\<close>








end
