(* ===== verification/Spec2Isabelle.thy ===== *)
theory Spec2Isabelle
  imports Session_Model Ports Service Service_Trace Snapshot_Protocol Lease_Fence Accounting Access
    Service_Facts Store_Props Auth_Pool_Laws Auth_Pool_Memory
    Repo_Access_Laws Output_Laws Workload_Machine Workload_Record Claude_Settings_Laws
    Tenancy Api_Laws Agent_Client Agent_Path Checkpointer_Laws Archive_Roundtrip
    Network_Boundary Orchestrator_Laws
    Mcp_Gate Approval_Laws Notice_Laws Drop_Laws Deny_Laws
begin

text \<open>
  A verification library for the session platform. The platform has two programs.

  The control plane (\<open>src/control-plane\<close>) owns logical sessions. A REST request enters through
  \<open>internal/api\<close>, is attributed to a tenant by \<open>internal/tenancy\<close>, and becomes a call of
  \<open>internal/service\<close>. The service keeps the durable record of every session in a store
  (\<open>adapter/configmap\<close>), runs the session's pods through an orchestrator (\<open>adapter/k8s\<close>), leases
  login slots (\<open>adapter/k8s/auth_pool.go\<close>), moves archives between pods and object storage
  (\<open>adapter/archive\<close>, \<open>adapter/checkpointstore\<close>) and talks to the agent in a pod
  (\<open>adapter/agent\<close>). \<open>internal/repoaccess\<close> is the allow list of private repositories.

  The data plane agent (\<open>src/data-plane/cmd/agent\<close>) runs in the pods of one session. In the workload pod
  it queues prompts, runs the agent CLI, records its output, and writes or restores the archive of the session's
  files. In the helper pod the same binary is the approval-gated tool server and the credential proxies: everything
  that leaves the session goes through them.

  \<^bold>\<open>Conventions.\<close> A Go function is one definition, in the order of the source. Code that is not in the repository
  (the API server, SQL engine, object store, HTTP transports, the clock, random numbers, the CLI and \<open>git\<close> processes)
  is a record of operations on an arbitrary world, an argument of the definitions that use it; what is relied on is
  a locale or a named hypothesis with a concrete instance. A Go \<open>(value, error)\<close> result is a sum, and \<open>bindE\<close>,
  \<open>tryE\<close>, \<open>defer_with\<close> (\<open>Prelude\<close>) are early return, inspection and \<open>defer\<close>. Strings are byte lists. Statements
  about an arbitrary world are made on the log of the calls (\<open>instrument\<close> in \<open>Ports\<close>), so they hold for every
  interleaving with other replicas and every combination of failures. Where goroutines share memory
  (\<open>Workload_Machine\<close>) the critical sections are the rules of a step relation.

  \<^bold>\<open>The library, by part of the program.\<close>

  \<^descr>[Session model and ports] \<open>Session_Model\<close> (\<open>internal/session\<close>), \<open>Ports\<close> (the interfaces and the log).
  \<^descr>[Service] \<open>Service\<close> (\<open>service/manager.go\<close>, \<open>reaper.go\<close>). \<open>Service_Trace\<close> gives monitors over the log;
    \<open>Snapshot_Protocol\<close>: pods are stopped only behind a durable commit; \<open>Lease_Fence\<close>: lifecycle
    operations work under the occupancy lease and write under its fence; \<open>Accounting\<close>: pods and login slots are handed
    to a session or given back; \<open>Access\<close>: the idle reaper checkpoints only idle sessions, after asking about approvals; \<open>Service_Facts\<close>: the
    bound of the recovery recursion counts lost races and nothing else.
  \<^descr>[Store] \<open>Kube\<close> (the API server's contract as the locale \<open>versioned_api\<close>), \<open>Mem_Kube\<close> (an instance), \<open>Strconv\<close>,
    \<open>Utf8\<close>, \<open>Rfc3339\<close>, \<open>Session_Codec\<close> (the JSON record and its round trip), \<open>ConfigMap_Store\<close>
    (\<open>adapter/configmap/store.go\<close>), \<open>Store_Laws\<close> and \<open>Store_Props\<close>: each write takes effect at one instant,
    against the record and lease of that instant.
  \<^descr>[Login slots] \<open>Auth_Pool\<close>, \<open>Auth_Pool_Laws\<close> (a slot changes hands only when free, own, or stale for the grace
    period), \<open>Auth_Pool_Memory\<close>.
  \<^descr>[Repository access] \<open>Repo_Access\<close>, \<open>Repo_Access_Laws\<close>: every store method is one step of an abstract machine.
  \<^descr>[REST surface] \<open>Tenancy\<close> (\<open>internal/tenancy\<close>, \<open>internal/helperauth\<close>), \<open>Api\<close> (\<open>internal/api/api.go\<close>), \<open>Api_Laws\<close>
    (a tenant reaches and lists its own sessions only), \<open>Agent_Client\<close> (\<open>adapter/agent/client.go\<close>) and \<open>Agent_Path\<close>
    (how an agent's refusal reaches the REST caller).
  \<^descr>[Archives] \<open>Checkpointer\<close>, \<open>Checkpointer_Laws\<close> (an archive is kept until its successor is committed);
    \<open>File_System\<close>, \<open>State_Archive\<close> (\<open>state_archive.go\<close>, \<open>archive_mtime.go\<close>), \<open>Archive_Paths\<close>, \<open>Archive_Links\<close>,
    \<open>State_Archive_Laws\<close>, \<open>Archive_Restore\<close>, \<open>Archive_Swap\<close>, \<open>Archive_Roundtrip\<close>: extraction never leaves its
    directory, a failed restore leaves the live state, writing and restoring gives the tree back.
  \<^descr>[Pods] \<open>Pod_Spec\<close> (every pod, claim and policy builder of \<open>adapter/k8s\<close>), \<open>Orchestrator\<close> (provisioning and
    reclaiming), \<open>Pod_Laws\<close> (which container holds which secret, names, mounts), \<open>Network_Boundary\<close> (what the
    policies admit), \<open>Orchestrator_Laws\<close> (a failed round asks to delete whatever it created).
  \<^descr>[Agent output] \<open>Stream_Filter\<close>, \<open>Redactor\<close>, \<open>Output_Filters\<close>, \<open>Output_Sink\<close>, \<open>Output_Laws\<close>
    (\<open>claude_stream.go\<close>, \<open>output_stream.go\<close>, the scrollback of \<open>main.go\<close>): chunking does not matter, credentials
    are replaced, cursors deliver each byte once.
  \<^descr>[Agent workload] \<open>Workload\<close> (\<open>claude.go\<close>, \<open>claude_subscription.go\<close>), \<open>Workload_Machine\<close> (checkpoints are taken
    at rest and drain the queue), \<open>Workload_Record\<close> (turn markers and sign-in codes).
  \<^descr>[Tool surface] \<open>Claude_Settings\<close>, \<open>Claude_Settings_Laws\<close> (\<open>claude.go\<close>, \<open>claude_mcp_registration.go\<close>).
  \<^descr>[Session MCP] \<open>Helper_Http\<close> (requests, JSON decoding into structs and URLs as the helper uses them),
    \<open>Approval_Gate\<close> (\<open>approval_gateway.go\<close>, \<open>approval_wait.go\<close>, \<open>session_mcp_notices.go\<close>,
    \<open>session_mcp_notice_tail.go\<close>), \<open>Session_Mcp\<close> (the configuration, argument checks, the gate around a tool and the fetch
    tool), \<open>Session_Tools\<close> (clone, push and repository requests), \<open>Drop\<close> (\<open>session_mcp_drop.go\<close>), \<open>Mcp_Server\<close>
    (\<open>session_mcp.go\<close> and the dispatch of \<open>session_mcp_tools.go\<close>). \<open>Mcp_Laws\<close> logs every outbound call with its answer;
    \<open>Mcp_Gate\<close>: each is covered by an approval or an allow-list answer before it; \<open>Approval_Laws\<close>: waits are
    announced and ended, and the wait for a decision ends; \<open>Notice_Laws\<close>: what the control plane is told about waiting
    follows the feed; \<open>Drop_Laws\<close>: an upload leaves exactly the file, a download a complete file or none.
  \<^descr>[Credential proxies] \<open>Credential_Proxy\<close> (\<open>credential_proxy.go\<close>, \<open>credential_proxy_stream.go\<close>), \<open>K3s_Proxy\<close>
    (\<open>k3s_mcp_proxy.go\<close>, \<open>k3s_mcp_tool_deny.go\<close>). \<open>Proxy_Laws\<close>: a streamed body is the redaction of the whole body, the
    credential goes to the configured upstream only and does not come back; \<open>Deny_Laws\<close>: how far the deny list reaches.

  \<^bold>\<open>Bounds.\<close> Some loops of the source are not bounded by their data. \<open>recoverSnapshotLocked\<close> calls itself after a
  lost update; \<open>svc_fuel\<close> bounds it, a run beyond the bound is the visible error \<open>FuelExhausted\<close>, and
  \<open>Service_Facts\<close> shows that a run which lost fewer races than the bound is the run of every larger one. The wait for an
  approval polls until the gateway settles or its timeout has passed; \<open>await_polls\<close>, two more than the
  timeout divided by the interval, is enough whenever time advances by the sleeps (\<open>Approval_Laws\<close>). An upload loops until
  the service has the file; \<open>send_turns\<close>, nine for every byte and two more bytes, is enough for a service that keeps its chunk
  protocol (\<open>Drop_Laws\<close>); for one that does not, the code's loop need not end and the model's ends in
  \<open>FuelExhausted\<close>. Waiting for a pod (\<open>Orchestrator\<close>) polls until its context ends; \<open>co_ticks\<close>, a parameter read from
  the world, is the number of polls before that, so every bound is covered. \<open>max_links\<close> = 40 is the operating
  system's limit on symbolic links in a lookup. The limits of the code itself (archive entries and bytes, queue length,
  output limits, request sizes) are the source's constants.

  \<^bold>\<open>Not modelled.\<close> Wiring of the programs (\<open>cmd/control-plane/*.go\<close>, most of \<open>main.go\<close> of the agent: flags, environment,
  goroutine start-up); the HTTP framing of the archive stream (\<open>checkpoint.go\<close>) and of server-sent events; the validation of
  addresses and environment and the trusted roots of the credential proxies, and their marketplace routes; the login file copies of \<open>auth_slot.go\<close>;
  process groups and signals (\<open>claude_process_linux.go\<close>); the configuration files and event formats of the other CLIs
  (\<open>codex*.go\<close>, \<open>minimax*.go\<close>); the repository access routes (\<open>api/repo_access.go\<close>) over the modelled store; the web
  assets. They are I/O around the modelled parts, or formats of programs outside the repository. The byte formats of
  JSON and tar are not modelled: values are trees and entry lists, with what the encoders do to them. Logging has no
  effect in the model.
\<close>

end
